(* ===== verification/Prelude.thy ===== *)
theory Prelude
  imports Complex_Main "HOL-Library.Char_ord" "HOL-Library.List_Lexorder"
begin

text \<open>
  Shared ground of the development: Go error values, decimal rendering, and the lemmas on
  lists that the keyed stores and the tables have in common.

  A Go \<open>error\<close> is observed in two ways only: through its text (\<open>err.Error()\<close>, which the code
  stores in run records and prints) and through \<open>errors.Is\<close> against a package-level sentinel. A
  value of \<open>go_error\<close> is therefore the text with the sentinels the error wraps. \<open>fmt.Errorf\<close> with
  \<open>%w\<close> keeps the sentinels (\<open>wrap\<close>), with \<open>%v\<close> it keeps the text alone (\<open>opaque\<close>), and
  \<open>errors.Join\<close> keeps the sentinels of every part. A nil error is \<open>None\<close>; a Go pair
  \<open>(value, error)\<close> whose value is meaningful only for a nil error is a sum, \<open>Inl\<close> the error.
\<close>

section \<open>Collections of facts\<close>

named_theorems go_error_simps \<open>how the error constructors act on text and sentinels\<close>
named_theorems store_simps \<open>lookups after updates of keyed lists\<close>

section \<open>Errors\<close>

type_synonym sentinel = string

datatype go_error = Err (err_text: string) (err_kinds: "sentinel list")

type_synonym 'a res = "go_error + 'a"

definition errors_new :: "string \<Rightarrow> go_error" where
  "errors_new t = Err t []"

definition sentinel_error :: "sentinel \<Rightarrow> go_error" where
  "sentinel_error s = Err s [s]"

definition wrap :: "string \<Rightarrow> go_error \<Rightarrow> string \<Rightarrow> go_error" where
  "wrap pre e post = Err (pre @ err_text e @ post) (err_kinds e)"

definition opaque :: "string \<Rightarrow> go_error \<Rightarrow> string \<Rightarrow> go_error" where
  "opaque pre e post = Err (pre @ err_text e @ post) []"

fun join_with :: "string \<Rightarrow> string list \<Rightarrow> string" where
  "join_with sep [] = []"
| "join_with sep [x] = x"
| "join_with sep (x # y # ys) = x @ sep @ join_with sep (y # ys)"

definition errors_join :: "go_error list \<Rightarrow> go_error" where
  "errors_join es = Err (join_with [CHR 0x0A] (map err_text es)) (concat (map err_kinds es))"

definition errors_is :: "go_error \<Rightarrow> sentinel \<Rightarrow> bool" where
  "errors_is e s \<longleftrightarrow> s \<in> set (err_kinds e)"

definition is_opt :: "go_error option \<Rightarrow> sentinel \<Rightarrow> bool" where
  "is_opt oe s \<longleftrightarrow> (case oe of None \<Rightarrow> False | Some e \<Rightarrow> errors_is e s)"

text \<open>The two sentinels of package \<open>context\<close>.\<close>

definition context_canceled :: sentinel where
  "context_canceled = ''context canceled''"

definition context_deadline :: sentinel where
  "context_deadline = ''context deadline exceeded''"

definition is_cancellation :: "go_error option \<Rightarrow> bool" where
  "is_cancellation oe \<longleftrightarrow> is_opt oe context_canceled \<or> is_opt oe context_deadline"

lemma errors_is_wrap [go_error_simps]: "errors_is (wrap p e q) s = errors_is e s"
  by (simp add: errors_is_def wrap_def)

lemma errors_is_opaque [go_error_simps]: "\<not> errors_is (opaque p e q) s"
  by (simp add: errors_is_def opaque_def)

lemma errors_is_new [go_error_simps]: "\<not> errors_is (errors_new t) s"
  by (simp add: errors_is_def errors_new_def)

lemma errors_is_sentinel [go_error_simps]: "errors_is (sentinel_error s) s' \<longleftrightarrow> s' = s"
  by (simp add: errors_is_def sentinel_error_def)

lemma errors_is_join [go_error_simps]: "errors_is (errors_join es) s \<longleftrightarrow> (\<exists>e\<in>set es. errors_is e s)"
  by (simp add: errors_is_def errors_join_def)

lemma is_opt_simps [go_error_simps]:
  "is_opt None s = False" "is_opt (Some e) s = errors_is e s"
  by (simp_all add: is_opt_def)

lemma is_cancellation_None [simp]: "\<not> is_cancellation None"
  by (simp add: is_cancellation_def is_opt_def)

text \<open>A \<open>nil\<close> error as the success of an operation without a value.\<close>

definition res_of :: "go_error option \<Rightarrow> 'a \<Rightarrow> 'a res" where
  "res_of oe x = (case oe of None \<Rightarrow> Inr x | Some e \<Rightarrow> Inl e)"

definition is_ok :: "'a res \<Rightarrow> bool" where
  "is_ok r \<longleftrightarrow> (case r of Inl e \<Rightarrow> False | Inr x \<Rightarrow> True)"

lemma is_ok_simps [simp]: "is_ok (Inr x)" "\<not> is_ok (Inl e)"
  by (simp_all add: is_ok_def)

lemma is_okD: "is_ok r \<Longrightarrow> \<exists>x. r = Inr x"
  by (cases r) simp_all

lemma not_is_okD: "\<not> is_ok r \<Longrightarrow> \<exists>e. r = Inl e"
  by (cases r) simp_all

text \<open>The first error of a list of checks that are made in order.\<close>

definition first_some :: "go_error option list \<Rightarrow> go_error option" where
  "first_some es = (case find (\<lambda>e. e \<noteq> None) es of Some e \<Rightarrow> e | None \<Rightarrow> None)"

lemma first_some_None: "first_some es = None \<longleftrightarrow> (\<forall>e\<in>set es. e = None)"
  by (induction es) (auto simp: first_some_def)

section \<open>Decimal rendering\<close>

definition digit_char :: "nat \<Rightarrow> char" where
  "digit_char d = char_of (48 + d mod 10)"

fun show_nat :: "nat \<Rightarrow> string" where
  "show_nat n = (if n < 10 then [digit_char n] else show_nat (n div 10) @ [digit_char (n mod 10)])"

declare show_nat.simps [simp del]

definition show_int :: "int \<Rightarrow> string" where
  "show_int i = (if i < 0 then CHR ''-'' # show_nat (nat (- i)) else show_nat (nat i))"

lemma show_nat_nonempty [simp]: "show_nat n \<noteq> []"
  by (subst show_nat.simps) simp

section \<open>Keyed lists\<close>

text \<open>
  The stores keep a slice of records and search it by a key field. \<open>find_key\<close> is the loop that
  returns the first match, \<open>upsert\<close> the loop that overwrites the first match or appends, \<open>del_key\<close>
  the removal of the first match.
\<close>

fun find_key :: "('a \<Rightarrow> 'k) \<Rightarrow> 'k \<Rightarrow> 'a list \<Rightarrow> 'a option" where
  "find_key f k [] = None"
| "find_key f k (x # xs) = (if f x = k then Some x else find_key f k xs)"

fun upsert :: "('a \<Rightarrow> 'k) \<Rightarrow> 'a \<Rightarrow> 'a list \<Rightarrow> 'a list" where
  "upsert f y [] = [y]"
| "upsert f y (x # xs) = (if f x = f y then y # xs else x # upsert f y xs)"

fun del_key :: "('a \<Rightarrow> 'k) \<Rightarrow> 'k \<Rightarrow> 'a list \<Rightarrow> 'a list" where
  "del_key f k [] = []"
| "del_key f k (x # xs) = (if f x = k then xs else x # del_key f k xs)"

lemma find_key_None: "find_key f k xs = None \<longleftrightarrow> k \<notin> f ` set xs"
  by (induction xs) auto

lemma find_key_Some: "find_key f k xs = Some x \<Longrightarrow> x \<in> set xs \<and> f x = k"
  by (induction xs) (auto split: if_splits)

lemma find_key_distinct: "distinct (map f xs) \<Longrightarrow> x \<in> set xs \<Longrightarrow> find_key f (f x) xs = Some x"
  by (induction xs) (auto simp: rev_image_eqI)

lemma find_key_upsert [store_simps]:
  "find_key f k (upsert f y xs) = (if k = f y then Some y else find_key f k xs)"
  by (induction xs) auto

lemma map_upsert:
  "map f (upsert f y xs) = (if f y \<in> f ` set xs then map f xs else map f xs @ [f y])"
  by (induction xs) (auto simp: image_iff)

lemma distinct_upsert: "distinct (map f xs) \<Longrightarrow> distinct (map f (upsert f y xs))"
  by (simp add: map_upsert)

lemma set_upsert_subset: "set (upsert f y xs) \<subseteq> insert y (set xs)"
  by (induction xs) auto

lemma in_set_upsert: "y \<in> set (upsert f y xs)"
  by (induction xs) auto

lemma set_del_key_subset: "set (del_key f k xs) \<subseteq> set xs"
  by (induction xs) auto

lemma distinct_del_key: "distinct (map f xs) \<Longrightarrow> distinct (map f (del_key f k xs))"
  by (induction xs) (use set_del_key_subset in fastforce)+

lemma find_key_del_key [store_simps]:
  "distinct (map f xs) \<Longrightarrow> find_key f k' (del_key f k xs) = (if k' = k then None else find_key f k' xs)"
  by (induction xs) (auto simp: find_key_None)

lemma del_key_filter: "distinct (map f xs) \<Longrightarrow> del_key f k xs = filter (\<lambda>x. f x \<noteq> k) xs"
proof (induction xs)
  case (Cons x xs)
  have "f x \<notin> f ` set xs" using Cons.prems by simp
  then have "filter (\<lambda>y. f y \<noteq> f x) xs = xs" by (intro filter_True) (metis imageI)
  with Cons show ?case by auto
qed simp

lemma upsert_idem: "upsert f y (upsert f y xs) = upsert f y xs"
  by (induction xs) auto

lemma length_upsert: "length (upsert f y xs) = (if f y \<in> f ` set xs then length xs else Suc (length xs))"
  by (induction xs) (auto simp: image_iff)

text \<open>The first repeated key of a list, as the validators look for it with a \<open>seen\<close> set.\<close>

fun dup_free_from :: "'k list \<Rightarrow> 'k list \<Rightarrow> bool" where
  "dup_free_from seen [] = True"
| "dup_free_from seen (k # ks) = (k \<notin> set seen \<and> dup_free_from (k # seen) ks)"

lemma dup_free_from_iff: "dup_free_from seen ks \<longleftrightarrow> distinct ks \<and> set ks \<inter> set seen = {}"
  by (induction ks arbitrary: seen) auto

text \<open>Measures of a list of processes: one of them is replaced.\<close>

lemma sum_list_upd: "i < length xs \<Longrightarrow> sum_list (map f (xs[i := x])) + f (xs ! i) = sum_list (map f xs) + (f x :: nat)"
proof (induction xs arbitrary: i)
  case (Cons y ys)
  then show ?case by (cases i) auto
qed simp

end
