(* ===== verification/GoStrings.thy ===== *)
theory GoStrings
  imports Prelude
begin

text \<open>
  The part of Go's \<open>strings\<close>, \<open>strconv\<close>, \<open>unicode\<close> and \<open>utf8\<close> packages that the program calls.
  A Go string is a sequence of bytes, here a \<open>char list\<close> (an Isabelle \<open>char\<close> is one byte), so that
  \<open>length\<close> is Go's \<open>len\<close>. A \<open>for _, r := range s\<close> loop runs over the decoded runes (\<open>runes\<close>, with
  U+FFFD for an invalid byte). \<open>strings.TrimSpace\<close> is exact on every byte string. Case mapping and
  \<open>strings.EqualFold\<close> are modelled on ASCII letters; other bytes are compared as they are.
\<close>

section \<open>Bytes and case\<close>

definition code_of :: "char \<Rightarrow> nat" where
  "code_of c = of_char c"

definition to_lower_char :: "char \<Rightarrow> char" where
  "to_lower_char c = (if 65 \<le> code_of c \<and> code_of c \<le> 90 then char_of (code_of c + 32) else c)"

definition to_upper_char :: "char \<Rightarrow> char" where
  "to_upper_char c = (if 97 \<le> code_of c \<and> code_of c \<le> 122 then char_of (code_of c - 32) else c)"

definition to_lower :: "string \<Rightarrow> string" where
  "to_lower s = map to_lower_char s"

definition to_upper :: "string \<Rightarrow> string" where
  "to_upper s = map to_upper_char s"

definition equal_fold :: "string \<Rightarrow> string \<Rightarrow> bool" where
  "equal_fold a b \<longleftrightarrow> to_lower a = to_lower b"

lemma equal_fold_refl [simp]: "equal_fold a a"
  by (simp add: equal_fold_def)

lemma equal_fold_sym: "equal_fold a b \<longleftrightarrow> equal_fold b a"
  by (auto simp: equal_fold_def)

definition is_digit :: "char \<Rightarrow> bool" where
  "is_digit c \<longleftrightarrow> 48 \<le> code_of c \<and> code_of c \<le> 57"

definition is_lower :: "char \<Rightarrow> bool" where
  "is_lower c \<longleftrightarrow> 97 \<le> code_of c \<and> code_of c \<le> 122"

definition is_upper :: "char \<Rightarrow> bool" where
  "is_upper c \<longleftrightarrow> 65 \<le> code_of c \<and> code_of c \<le> 90"

definition is_alnum :: "char \<Rightarrow> bool" where
  "is_alnum c \<longleftrightarrow> is_digit c \<or> is_lower c \<or> is_upper c"

lemma code_of_eq: "code_of c = n \<longleftrightarrow> n < 256 \<and> c = char_of n"
  by (auto simp: code_of_def)

lemma char_of_consts:
  "char_of (46 :: nat) = CHR ''.''" "char_of (95 :: nat) = CHR ''_''"
  "char_of (64 :: nat) = CHR ''@''" "char_of (45 :: nat) = CHR ''-''"
  by code_simp+

section \<open>Searching\<close>

definition has_prefix :: "string \<Rightarrow> string \<Rightarrow> bool" where
  "has_prefix s p \<longleftrightarrow> take (length p) s = p"

definition has_suffix :: "string \<Rightarrow> string \<Rightarrow> bool" where
  "has_suffix s p \<longleftrightarrow> has_prefix (rev s) (rev p)"

lemma has_prefix_iff: "has_prefix s p \<longleftrightarrow> (\<exists>r. s = p @ r)"
  unfolding has_prefix_def by (metis append_eq_conv_conj append_take_drop_id)

lemma has_prefix_self [simp]: "has_prefix s s" "has_prefix s []" "has_prefix (p @ r) p"
  by (simp_all add: has_prefix_def)

lemma has_prefix_Cons [simp]: "has_prefix (x # xs) (y # ys) \<longleftrightarrow> x = y \<and> has_prefix xs ys"
  by (auto simp: has_prefix_def)

lemma has_prefix_Nil [simp]: "has_prefix [] p \<longleftrightarrow> p = []"
  by (auto simp: has_prefix_def)

lemma has_suffix_iff: "has_suffix s p \<longleftrightarrow> (\<exists>r. s = r @ p)"
proof
  assume "has_suffix s p"
  then obtain r where "rev s = rev p @ r" by (auto simp: has_suffix_def has_prefix_iff)
  then have "s = rev r @ p" by (metis rev_append rev_rev_ident)
  then show "\<exists>r. s = r @ p" by blast
next
  assume "\<exists>r. s = r @ p"
  then show "has_suffix s p" by (auto simp: has_suffix_def)
qed

definition trim_prefix :: "string \<Rightarrow> string \<Rightarrow> string" where
  "trim_prefix s p = (if has_prefix s p then drop (length p) s else s)"

lemma trim_prefix_append [simp]: "trim_prefix (p @ r) p = r"
  by (simp add: trim_prefix_def)

fun contains_str :: "string \<Rightarrow> string \<Rightarrow> bool" where
  "contains_str [] sub = (sub = [])"
| "contains_str (x # xs) sub = (has_prefix (x # xs) sub \<or> contains_str xs sub)"

lemma contains_str_iff: "contains_str s sub \<longleftrightarrow> (\<exists>a b. s = a @ sub @ b)"
proof (induction s)
  case (Cons x xs)
  note IH = Cons.IH
  show ?case
  proof
    assume "contains_str (x # xs) sub"
    then consider "has_prefix (x # xs) sub" | a b where "xs = a @ sub @ b"
      using Cons.IH by auto
    then show "\<exists>a b. x # xs = a @ sub @ b"
      by cases (metis has_prefix_iff append_Nil, metis append_Cons)
  next
    assume "\<exists>a b. x # xs = a @ sub @ b"
    then obtain a b where eq: "x # xs = a @ sub @ b" by blast
    show "contains_str (x # xs) sub"
    proof (cases a)
      case Nil
      with eq have "has_prefix (x # xs) sub" by (metis append_Nil has_prefix_iff)
      then show ?thesis by simp
    next
      case (Cons y a')
      with eq have "xs = a' @ sub @ b" by simp
      then show ?thesis using IH by auto
    qed
  qed
qed auto

lemma contains_char: "contains_str s [c] \<longleftrightarrow> c \<in> set s"
  by (induction s) auto

text \<open>\<open>strings.Cut\<close> at a one-byte separator: before, after, found.\<close>

fun cut_at :: "char \<Rightarrow> string \<Rightarrow> string \<times> string \<times> bool" where
  "cut_at c [] = ([], [], False)"
| "cut_at c (x # xs) =
     (if x = c then ([], xs, True)
      else (case cut_at c xs of (a, b, f) \<Rightarrow> (x # a, b, f)))"

lemma cut_at_found: "cut_at c s = (a, b, True) \<Longrightarrow> s = a @ c # b \<and> c \<notin> set a"
  by (induction s arbitrary: a) (auto split: if_splits prod.splits)

lemma cut_at_not_found: "cut_at c s = (a, b, False) \<Longrightarrow> a = s \<and> b = [] \<and> c \<notin> set s"
  by (induction s arbitrary: a) (auto split: if_splits prod.splits)

lemma cut_at_append: "c \<notin> set a \<Longrightarrow> cut_at c (a @ c # b) = (a, b, True)"
  by (induction a) auto

lemma cut_at_free: "c \<notin> set s \<Longrightarrow> cut_at c s = (s, [], False)"
  by (induction s) auto

text \<open>\<open>strings.Split\<close> at a one-byte separator.\<close>

fun split_on :: "char \<Rightarrow> string \<Rightarrow> string list" where
  "split_on c [] = [[]]"
| "split_on c (x # xs) =
     (if x = c then [] # split_on c xs
      else (case split_on c xs of [] \<Rightarrow> [[x]] | y # ys \<Rightarrow> (x # y) # ys))"

lemma split_on_nonempty [simp]: "split_on c s \<noteq> []"
  by (cases s) (auto split: list.splits)

lemma split_on_append_sep: "split_on c (a @ c # b) = split_on c a @ split_on c b"
  by (induction a) (auto split: list.splits)

lemma join_split_on: "join_with [c] (split_on c s) = s"
proof (induction s)
  case (Cons x xs)
  then show ?case
    by (cases "split_on c xs"; cases "tl (split_on c xs)") auto
qed simp

lemma split_on_no_sep: "t \<in> set (split_on c s) \<Longrightarrow> c \<notin> set t"
  by (induction s arbitrary: t) (auto split: list.splits if_splits)

lemma split_on_append: "c \<notin> set a \<Longrightarrow> split_on c (a @ c # b) = a # split_on c b"
  by (induction a) auto

lemma split_on_free: "c \<notin> set a \<Longrightarrow> split_on c a = [a]"
  by (induction a) auto

lemma split_on_join:
  "xs \<noteq> [] \<Longrightarrow> (\<And>x. x \<in> set xs \<Longrightarrow> c \<notin> set x) \<Longrightarrow> split_on c (join_with [c] xs) = xs"
proof (induction xs rule: induct_list012)
  case (3 x y zs)
  then show ?case by (simp add: split_on_append)
qed (auto simp: split_on_free)

text \<open>\<open>strings.ReplaceAll\<close> with a non-empty pattern: left to right, no overlaps, no rescanning.\<close>

function replace_all :: "string \<Rightarrow> string \<Rightarrow> string \<Rightarrow> string" where
  "replace_all old new s =
     (if old = [] then s
      else (case s of
              [] \<Rightarrow> []
            | x # xs \<Rightarrow> (if has_prefix s old then new @ replace_all old new (drop (length old) s)
                        else x # replace_all old new xs)))"
  by pat_completeness auto
termination
  by (relation "measure (\<lambda>(old, new, s). length s)") (auto simp: neq_Nil_conv)

declare replace_all.simps [simp del]

lemma replace_all_Nil [simp]: "replace_all old new [] = []"
  by (simp add: replace_all.simps)

lemma replace_char_Cons [simp]:
  "replace_all [c] new (x # xs) = (if x = c then new @ replace_all [c] new xs else x # replace_all [c] new xs)"
  by (simp add: replace_all.simps[of "[c]" new "x # xs"])

lemma replace_char_set: "d \<in> set (replace_all [c] [e] s) \<Longrightarrow> d = e \<or> (d \<in> set s \<and> d \<noteq> c)"
  by (induction s) (auto split: if_splits)

lemma replace_char_id: "c \<notin> set s \<Longrightarrow> replace_all [c] new s = s"
  by (induction s) auto

section \<open>Runes\<close>

definition cont_byte :: "nat \<Rightarrow> bool" where
  "cont_byte b \<longleftrightarrow> 128 \<le> b \<and> b \<le> 191"

text \<open>\<open>utf8.DecodeRune\<close>: the rune and its width; an invalid first byte is U+FFFD of width 1.\<close>

definition decode_rune :: "nat list \<Rightarrow> nat \<times> nat" where
  "decode_rune bs =
     (case bs of
        [] \<Rightarrow> (65533, 0)
      | b # r \<Rightarrow>
          (if b < 128 then (b, 1)
           else if 194 \<le> b \<and> b \<le> 223 then
             (case r of c # _ \<Rightarrow> if cont_byte c then ((b - 192) * 64 + (c - 128), 2) else (65533, 1)
                      | [] \<Rightarrow> (65533, 1))
           else if 224 \<le> b \<and> b \<le> 239 then
             (case r of c # d # _ \<Rightarrow>
                if (if b = 224 then 160 else 128) \<le> c \<and> c \<le> (if b = 237 then 159 else 191) \<and> cont_byte d
                then ((b - 224) * 4096 + (c - 128) * 64 + (d - 128), 3) else (65533, 1)
                      | _ \<Rightarrow> (65533, 1))
           else if 240 \<le> b \<and> b \<le> 244 then
             (case r of c # d # e # _ \<Rightarrow>
                if (if b = 240 then 144 else 128) \<le> c \<and> c \<le> (if b = 244 then 143 else 191)
                   \<and> cont_byte d \<and> cont_byte e
                then ((b - 240) * 262144 + (c - 128) * 4096 + (d - 128) * 64 + (e - 128), 4)
                else (65533, 1)
                      | _ \<Rightarrow> (65533, 1))
           else (65533, 1)))"

function rune_list :: "nat list \<Rightarrow> nat list" where
  "rune_list [] = []"
| "rune_list (b # bs) =
     (case decode_rune (b # bs) of (r, w) \<Rightarrow> r # rune_list (drop (w - 1) bs))"
  by pat_completeness auto
termination
  by (relation "measure length") auto

definition runes :: "string \<Rightarrow> nat list" where
  "runes s = rune_list (map code_of s)"

definition is_control :: "nat \<Rightarrow> bool" where
  "is_control r \<longleftrightarrow> r < 32 \<or> (127 \<le> r \<and> r \<le> 159)"

definition is_space :: "nat \<Rightarrow> bool" where
  "is_space r \<longleftrightarrow> r \<in> {9, 10, 11, 12, 13, 32, 133, 160, 5760, 8232, 8233, 8239, 8287, 12288}
                 \<or> (8192 \<le> r \<and> r \<le> 8202)"

lemma decode_rune_high:
  assumes "128 \<le> b"
  shows "128 \<le> fst (decode_rune (b # bs))"
proof -
  have two: "128 \<le> (b - 192) * 64 + x" if "194 \<le> b" for x
  proof -
    have "2 * 64 \<le> (b - 192) * 64" using that by (intro mult_le_mono1) simp
    then show ?thesis by simp
  qed
  have three: "128 \<le> (b - 224) * 4096 + (c - 128) * 64 + x"
    if "224 \<le> b" "(if b = 224 then 160 else 128) \<le> c" for c x
  proof (cases "b = 224")
    case True
    then have "32 * 64 \<le> (c - 128) * 64" using that by (intro mult_le_mono1) simp
    then show ?thesis by simp
  next
    case False
    then have "1 * 4096 \<le> (b - 224) * 4096" using that by (intro mult_le_mono1) simp
    then show ?thesis by simp
  qed
  have four: "128 \<le> (b - 240) * 262144 + (c - 128) * 4096 + x + y"
    if "240 \<le> b" "(if b = 240 then 144 else 128) \<le> c" for c x y
  proof (cases "b = 240")
    case True
    then have "16 * 4096 \<le> (c - 128) * 4096" using that by (intro mult_le_mono1) simp
    then show ?thesis by simp
  next
    case False
    then have "1 * 262144 \<le> (b - 240) * 262144" using that by (intro mult_le_mono1) simp
    then show ?thesis by simp
  qed
  show ?thesis
    using assms
    by (auto simp: decode_rune_def two three four split: list.split)
qed

text \<open>Runes below 128 come from single bytes: a string whose runes are all ASCII is an ASCII string.\<close>

lemma rune_list_ascii: "(\<forall>r\<in>set (rune_list bs). r < 128) \<Longrightarrow> rune_list bs = bs"
proof (induction bs rule: rune_list.induct)
  case (2 b bs)
  show ?case
  proof (cases "b < 128")
    case True
    then have d: "decode_rune (b # bs) = (b, 1)" by (simp add: decode_rune_def)
    with "2.IH" "2.prems" show ?thesis by simp
  next
    case False
    have "fst (decode_rune (b # bs)) \<in> set (rune_list (b # bs))"
      by (cases "decode_rune (b # bs)") simp
    with False decode_rune_high[of b bs] "2.prems" show ?thesis by fastforce
  qed
qed simp

lemma rune_list_of_ascii: "\<forall>b\<in>set bs. b < 128 \<Longrightarrow> rune_list bs = bs"
  by (induction bs) (simp_all add: decode_rune_def)

lemma runes_ascii: "(\<forall>r\<in>set (runes s). r < 128) \<Longrightarrow> runes s = map code_of s"
  unfolding runes_def by (rule rune_list_ascii)

lemma runes_of_ascii: "\<forall>c\<in>set s. code_of c < 128 \<Longrightarrow> runes s = map code_of s"
  unfolding runes_def by (rule rune_list_of_ascii) simp

lemma runes_Nil [simp]: "runes [] = []"
  by (simp add: runes_def)

text \<open>A byte below 128 is a rune of the string, wherever it stands.\<close>

lemma rune_list_keeps_ascii: "b \<in> set bs \<Longrightarrow> b < 128 \<Longrightarrow> b \<in> set (rune_list bs)"
proof (induction bs rule: rune_list.induct)
  case (2 a bs)
  show ?case
  proof (cases "a = b")
    case True
    then have "decode_rune (a # bs) = (b, 1)" using "2.prems" by (simp add: decode_rune_def)
    then show ?thesis by simp
  next
    case False
    then have mem: "b \<in> set bs" using "2.prems" by simp
    obtain r w where d: "decode_rune (a # bs) = (r, w)" by fastforce
    have "b \<notin> set (take (w - 1) bs)"
      using d "2.prems"(2)
      by (auto simp: decode_rune_def cont_byte_def split: if_splits list.splits)
    with mem have "b \<in> set (drop (w - 1) bs)"
      by (metis UnE append_take_drop_id set_append)
    with "2.IH" d "2.prems"(2) show ?thesis by simp
  qed
qed simp

lemma runes_keeps_ascii: "c \<in> set s \<Longrightarrow> code_of c < 128 \<Longrightarrow> code_of c \<in> set (runes s)"
  unfolding runes_def by (rule rune_list_keeps_ascii) auto

section \<open>TrimSpace\<close>

text \<open>
  The UTF-8 encodings of the Unicode spaces are one byte (ASCII), two bytes (U+0085, U+00A0) or
  three (U+1680, U+2000 to U+200A, U+2028, U+2029, U+202F, U+205F, U+3000).
\<close>

definition ws1 :: "char \<Rightarrow> bool" where
  "ws1 c \<longleftrightarrow> code_of c \<in> {9, 10, 11, 12, 13, 32}"

definition ws2 :: "char \<Rightarrow> char \<Rightarrow> bool" where
  "ws2 c d \<longleftrightarrow> code_of c = 194 \<and> code_of d \<in> {133, 160}"

definition ws3 :: "char \<Rightarrow> char \<Rightarrow> char \<Rightarrow> bool" where
  "ws3 c d e \<longleftrightarrow>
     (code_of c = 225 \<and> code_of d = 154 \<and> code_of e = 128)
   \<or> (code_of c = 226 \<and> code_of d = 128 \<and> (128 \<le> code_of e \<and> code_of e \<le> 138 \<or> code_of e \<in> {168, 169, 175}))
   \<or> (code_of c = 226 \<and> code_of d = 129 \<and> code_of e = 159)
   \<or> (code_of c = 227 \<and> code_of d = 128 \<and> code_of e = 128)"

fun lead_space :: "string \<Rightarrow> nat" where
  "lead_space [] = 0"
| "lead_space [c] = (if ws1 c then 1 else 0)"
| "lead_space [c, d] = (if ws1 c then 1 else if ws2 c d then 2 else 0)"
| "lead_space (c # d # e # r) = (if ws1 c then 1 else if ws2 c d then 2 else if ws3 c d e then 3 else 0)"

fun trail_space :: "string \<Rightarrow> nat" where
  "trail_space [] = 0"
| "trail_space [c] = (if ws1 c then 1 else 0)"
| "trail_space [c, d] = (if ws1 c then 1 else if ws2 d c then 2 else 0)"
| "trail_space (c # d # e # r) = (if ws1 c then 1 else if ws2 d c then 2 else if ws3 e d c then 3 else 0)"

function trim_by :: "(string \<Rightarrow> nat) \<Rightarrow> string \<Rightarrow> string" where
  "trim_by f s = (if f s = 0 \<or> s = [] then s else trim_by f (drop (f s) s))"
  by pat_completeness auto
termination
  by (relation "measure (\<lambda>(f, s). length s)") auto

declare trim_by.simps [simp del]

definition trim_left :: "string \<Rightarrow> string" where
  "trim_left s = trim_by lead_space s"

definition trim_right :: "string \<Rightarrow> string" where
  "trim_right s = rev (trim_by trail_space (rev s))"

definition trim_space :: "string \<Rightarrow> string" where
  "trim_space s = trim_right (trim_left s)"

lemma trim_by_stop: "f (trim_by f s) = 0 \<or> trim_by f s = []"
  by (induction f s rule: trim_by.induct) (subst (1 2) trim_by.simps, simp)

lemma trim_by_id: "f s = 0 \<Longrightarrow> trim_by f s = s"
  by (subst trim_by.simps) simp

lemma trim_by_suffix: "\<exists>p. s = p @ trim_by f s"
proof (induction f s rule: trim_by.induct)
  case (1 f s)
  show ?case
  proof (cases "f s = 0 \<or> s = []")
    case True
    then show ?thesis by (subst trim_by.simps) simp
  next
    case False
    then obtain p where "drop (f s) s = p @ trim_by f (drop (f s) s)" using "1.IH" by blast
    then have "s = (take (f s) s @ p) @ trim_by f (drop (f s) s)"
      by (metis append_assoc append_take_drop_id)
    moreover have "trim_by f s = trim_by f (drop (f s) s)"
      using False trim_by.simps[of f s] by simp
    ultimately show ?thesis by metis
  qed
qed

lemma trim_left_suffix: "\<exists>p. s = p @ trim_left s"
  unfolding trim_left_def by (rule trim_by_suffix)

lemma trim_right_prefix: "\<exists>q. s = trim_right s @ q"
proof -
  obtain p where "rev s = p @ trim_by trail_space (rev s)" using trim_by_suffix by blast
  then have "s = rev (trim_by trail_space (rev s)) @ rev p" by (metis rev_append rev_rev_ident)
  then show ?thesis unfolding trim_right_def by blast
qed

lemma trim_space_infix: "\<exists>p q. s = p @ trim_space s @ q"
proof -
  obtain p where p: "s = p @ trim_left s" using trim_left_suffix by blast
  obtain q where "trim_left s = trim_space s @ q" unfolding trim_space_def using trim_right_prefix by blast
  with p have "s = p @ trim_space s @ q" by simp
  then show ?thesis by blast
qed

lemma set_trim_space: "set (trim_space s) \<subseteq> set s"
proof -
  obtain p q where eq: "s = p @ trim_space s @ q" using trim_space_infix by blast
  show ?thesis by (subst (2) eq) auto
qed

lemma lead_space_prefix: "lead_space (p @ q) = 0 \<Longrightarrow> lead_space p = 0"
  by (cases p rule: lead_space.cases; cases q rule: lead_space.cases) (auto split: if_splits)

lemma lead_space_trim_left: "lead_space (trim_left s) = 0"
  using trim_by_stop[of lead_space s] unfolding trim_left_def by auto

lemma lead_space_trim_space: "lead_space (trim_space s) = 0"
proof -
  obtain q where "trim_left s = trim_space s @ q" unfolding trim_space_def using trim_right_prefix by blast
  then show ?thesis using lead_space_trim_left[of s] lead_space_prefix by metis
qed

lemma trail_space_trim_right: "trail_space (rev (trim_right s)) = 0"
  using trim_by_stop[of trail_space "rev s"] unfolding trim_right_def by auto

text \<open>\<open>strings.TrimSpace(s) == s\<close> says that no space stands at either end.\<close>

lemma trim_space_id_iff: "trim_space s = s \<longleftrightarrow> lead_space s = 0 \<and> trail_space (rev s) = 0"
proof
  assume "trim_space s = s"
  then show "lead_space s = 0 \<and> trail_space (rev s) = 0"
    by (metis lead_space_trim_space trail_space_trim_right trim_space_def)
next
  assume "lead_space s = 0 \<and> trail_space (rev s) = 0"
  then show "trim_space s = s"
    by (simp add: trim_space_def trim_left_def trim_right_def trim_by_id)
qed

lemma trim_space_idem [simp]: "trim_space (trim_space s) = trim_space s"
  unfolding trim_space_id_iff
  by (metis lead_space_trim_space trail_space_trim_right trim_space_def)

lemma trim_space_Nil [simp]: "trim_space [] = []"
  by (simp add: trim_space_id_iff)

lemma trail_space_ascii: "code_of c < 128 \<Longrightarrow> \<not> ws1 c \<Longrightarrow> trail_space (c # r) = 0"
  by (cases "c # r" rule: trail_space.cases) (auto simp: ws2_def ws3_def)

lemma trim_space_no_edge_space:
  assumes "s = [] \<or> (code_of (hd s) < 128 \<and> \<not> ws1 (hd s) \<and> code_of (last s) < 128 \<and> \<not> ws1 (last s))"
  shows "trim_space s = s"
proof -
  have l: "lead_space s = 0" using assms
    by (cases s rule: lead_space.cases) (auto simp: ws2_def ws3_def)
  have "trail_space (rev s) = 0"
  proof (cases "s = []")
    case False
    then have "hd (rev s) = last s" by (simp add: hd_rev)
    then obtain r where "rev s = last s # r" using False by (cases "rev s") auto
    then show ?thesis using assms False trail_space_ascii[of "last s" r] by metis
  qed simp
  with l show ?thesis by (simp add: trim_space_id_iff)
qed

section \<open>Trimming a character set, fields\<close>

definition trim_chars_left :: "(char \<Rightarrow> bool) \<Rightarrow> string \<Rightarrow> string" where
  "trim_chars_left P s = dropWhile P s"

definition trim_chars_right :: "(char \<Rightarrow> bool) \<Rightarrow> string \<Rightarrow> string" where
  "trim_chars_right P s = rev (dropWhile P (rev s))"

definition trim_chars :: "(char \<Rightarrow> bool) \<Rightarrow> string \<Rightarrow> string" where
  "trim_chars P s = trim_chars_right P (trim_chars_left P s)"

text \<open>\<open>strings.Fields\<close>: the pieces between runs of white space; \<open>acc\<close> is the piece under way, reversed.\<close>

function fields_from :: "string \<Rightarrow> string \<Rightarrow> string list" where
  "fields_from acc s =
     (case s of
        [] \<Rightarrow> if acc = [] then [] else [rev acc]
      | c # r \<Rightarrow>
          (if lead_space s = 0 then fields_from (c # acc) r
           else if acc = [] then fields_from [] (drop (lead_space s) s)
           else rev acc # fields_from [] (drop (lead_space s) s)))"
  by pat_completeness auto
termination
  by (relation "measure (\<lambda>(acc, s). length s)") auto

declare fields_from.simps [simp del]

definition str_fields :: "string \<Rightarrow> string list" where
  "str_fields s = fields_from [] s"

section \<open>Quoting with \<open>%q\<close>\<close>

text \<open>
  \<open>strconv.Quote\<close>: exact on ASCII; bytes from 128 up are kept, as for a valid printable UTF-8 text.
\<close>

definition hex_digit :: "nat \<Rightarrow> char" where
  "hex_digit d = (if d < 10 then char_of (48 + d) else char_of (87 + d))"

definition quote_char :: "char \<Rightarrow> string" where
  "quote_char c =
     (if code_of c = 34 then [CHR 0x5C, CHR 0x22]
      else if code_of c = 92 then [CHR 0x5C, CHR 0x5C]
      else if code_of c = 7 then [CHR 0x5C, CHR ''a'']
      else if code_of c = 8 then [CHR 0x5C, CHR ''b'']
      else if code_of c = 12 then [CHR 0x5C, CHR ''f'']
      else if code_of c = 10 then [CHR 0x5C, CHR ''n'']
      else if code_of c = 13 then [CHR 0x5C, CHR ''r'']
      else if code_of c = 9 then [CHR 0x5C, CHR ''t'']
      else if code_of c = 11 then [CHR 0x5C, CHR ''v'']
      else if code_of c < 32 \<or> code_of c = 127
        then [CHR 0x5C, CHR ''x'', hex_digit (code_of c div 16), hex_digit (code_of c mod 16)]
      else [c])"

definition go_quote :: "string \<Rightarrow> string" where
  "go_quote s = CHR 0x22 # concat (map quote_char s) @ [CHR 0x22]"

section \<open>Integers from text\<close>

definition digit_val :: "char \<Rightarrow> nat" where
  "digit_val c = code_of c - 48"

text \<open>
  \<open>strconv.Atoi\<close>: an optional sign and at least one digit, within the range of a 64-bit \<open>int\<close>.
\<close>

definition atoi :: "string \<Rightarrow> int option" where
  "atoi s =
     (let neg = (s \<noteq> [] \<and> hd s = CHR ''-'');
          ds = (if s \<noteq> [] \<and> (hd s = CHR ''-'' \<or> hd s = CHR ''+'') then tl s else s);
          n = int (foldl (\<lambda>a c. 10 * a + digit_val c) 0 ds)
      in if ds = [] \<or> \<not> list_all is_digit ds then None
         else if neg then (if n \<le> 2 ^ 63 then Some (- n) else None)
         else (if n < 2 ^ 63 then Some n else None))"

section \<open>Text outside ASCII\<close>

text \<open>The UTF-8 bytes of code points, for the Chinese texts of the program.\<close>

definition utf8_rune :: "nat \<Rightarrow> string" where
  "utf8_rune c =
     (if c < 0x80 then [char_of c]
      else if c < 0x800 then [char_of (0xC0 + c div 64), char_of (0x80 + c mod 64)]
      else if c < 0x10000 then [char_of (0xE0 + c div 4096), char_of (0x80 + c div 64 mod 64), char_of (0x80 + c mod 64)]
      else [char_of (0xF0 + c div 262144), char_of (0x80 + c div 4096 mod 64), char_of (0x80 + c div 64 mod 64),
            char_of (0x80 + c mod 64)])"

definition utf8 :: "nat list \<Rightarrow> string" where
  "utf8 cs = concat (map utf8_rune cs)"

end
