(* ===== verification/Shellquote.thy ===== *)
theory Shellquote
  imports GoStrings
begin

text \<open>
  Package \<open>internal/shellquote\<close>: the environment-name check and the POSIX single-quoting that every
  generated script passes its operator data through. Its contract is stated against a reader for
  the quoting rules of a POSIX shell word (\<open>sh_read\<close>): inside single quotes every byte is literal,
  outside them a backslash makes the next byte literal, and a byte that a shell would interpret
  makes the reader give up. The reader is the specification, not a model of the program.
\<close>

section \<open>The program\<close>

abbreviation squote :: char where
  "squote \<equiv> CHR 0x27"

definition valid_env_name :: "string \<Rightarrow> bool" where
  "valid_env_name name \<longleftrightarrow>
     name \<noteq> [] \<and> (is_lower (hd name) \<or> is_upper (hd name) \<or> hd name = CHR ''_'')
     \<and> list_all (\<lambda>c. is_alnum c \<or> c = CHR ''_'') (tl name)"

definition quote :: "string \<Rightarrow> string" where
  "quote val =
     (if val = [] then [squote, squote]
      else [squote] @ replace_all [squote] [squote, CHR 0x5C, squote, squote] val @ [squote])"

section \<open>Reading a shell word\<close>

text \<open>Bytes with no meaning to the shell outside quotes.\<close>

definition sh_literal :: "char \<Rightarrow> bool" where
  "sh_literal c \<longleftrightarrow> is_alnum c \<or> c \<in> set ''_-./:=,@+%''"

text \<open>
  One word from the front of a command line: the word and the rest, \<open>None\<close> where a quote is left
  open or the shell would expand or interpret something.
\<close>

fun sh_read :: "bool \<Rightarrow> string \<Rightarrow> (string \<times> string) option" where
  "sh_read True [] = None"
| "sh_read True (c # cs) =
     (if c = squote then sh_read False cs
      else map_option (\<lambda>(w, r). (c # w, r)) (sh_read True cs))"
| "sh_read False [] = Some ([], [])"
| "sh_read False (c # cs) =
     (if c = CHR '' '' then Some ([], c # cs)
      else if c = squote then sh_read True cs
      else if c = CHR 0x5C then
        (case cs of [] \<Rightarrow> None | d # ds \<Rightarrow> map_option (\<lambda>(w, r). (d # w, r)) (sh_read False ds))
      else if sh_literal c then map_option (\<lambda>(w, r). (c # w, r)) (sh_read False cs)
      else None)"

text \<open>A whole command line as a list of words separated by single spaces.\<close>

function sh_words :: "string \<Rightarrow> string list option" where
  "sh_words s =
     (case sh_read False s of
        None \<Rightarrow> None
      | Some (w, []) \<Rightarrow> Some [w]
      | Some (w, c # r) \<Rightarrow>
          (if length r < length s then map_option (\<lambda>ws. w # ws) (sh_words r) else None))"
  by pat_completeness auto
termination
  by (relation "measure length") auto

declare sh_words.simps [simp del]

section \<open>Quoting is read back\<close>

lemma quote_unfold: "quote val = squote # replace_all [squote] [squote, CHR 0x5C, squote, squote] val @ [squote]"
  by (simp add: quote_def)

lemma sh_read_body:
  "sh_read True (replace_all [squote] [squote, CHR 0x5C, squote, squote] val @ squote # rest)
   = map_option (\<lambda>(w, r). (val @ w, r)) (sh_read False rest)"
proof (induction val)
  case Nil
  show ?case by (cases "sh_read False rest") auto
next
  case (Cons c val)
  then show ?case by (cases "sh_read False rest") auto
qed

lemma sh_read_quote:
  "sh_read False (quote val @ rest) = map_option (\<lambda>(w, r). (val @ w, r)) (sh_read False rest)"
  by (simp add: quote_unfold sh_read_body)

lemma sh_read_quote_end: "sh_read False (quote val) = Some (val, [])"
  using sh_read_quote[of val "[]"] by simp

lemma sh_read_quote_space: "sh_read False (quote val @ CHR '' '' # rest) = Some (val, CHR '' '' # rest)"
  by (simp add: sh_read_quote)

lemma sh_words_quotes: "sh_words (join_with '' '' (map quote (v # vs))) = Some (v # vs)"
proof (induction vs arbitrary: v)
  case Nil
  show ?case by (simp add: sh_words.simps sh_read_quote_end)
next
  case (Cons u us)
  have "sh_words (quote v @ CHR '' '' # join_with '' '' (map quote (u # us))) = Some (v # u # us)"
    using Cons.IH[of u] by (simp add: sh_words.simps[of "quote v @ _"] sh_read_quote_space)
  then show ?case by simp
qed

text \<open>
  C1. Every command line built by joining single-quoted arguments with spaces is read back by the
  shell as exactly those arguments, whatever bytes they hold (quotes, dollars, newlines, options):
  operator data passed through \<open>Quote\<close> can neither split a word nor be expanded.
\<close>

theorem quote_words_roundtrip:
  "sh_words (join_with '' '' (map quote (v # vs))) = Some (v # vs)"
  by (rule sh_words_quotes)

text \<open>Two different values are never rendered alike.\<close>

lemma quote_inject: "quote a = quote b \<longleftrightarrow> a = b"
  using sh_read_quote_end[of a] sh_read_quote_end[of b] by (metis option.inject prod.inject)

text \<open>The environment names that may be exported are shell identifiers of literal bytes.\<close>

lemma valid_env_name_literal: "valid_env_name n \<Longrightarrow> c \<in> set n \<Longrightarrow> sh_literal c"
  by (cases n) (auto simp: valid_env_name_def sh_literal_def is_alnum_def list_all_iff)

lemma valid_env_name_nonempty: "valid_env_name n \<Longrightarrow> n \<noteq> []"
  by (simp add: valid_env_name_def)

lemma sh_literal_not_special: "sh_literal c \<Longrightarrow> c \<noteq> CHR '' '' \<and> c \<noteq> squote \<and> c \<noteq> CHR 0x5C"
  by (auto simp: sh_literal_def is_alnum_def is_digit_def is_lower_def is_upper_def code_of_def)

lemma sh_read_literals:
  "(\<forall>c\<in>set n. sh_literal c) \<Longrightarrow>
   sh_read False (n @ rest) = map_option (\<lambda>(w, r). (n @ w, r)) (sh_read False rest)"
proof (induction n)
  case Nil
  show ?case by (cases "sh_read False rest") auto
next
  case (Cons c n)
  then show ?case
    using sh_literal_not_special[of c] by (cases "sh_read False rest") auto
qed

section \<open>Command substitution\<close>

text \<open>
  The quoting rules of a whole script as an automaton: the mode and a pending dollar or backslash. It
  has no next state where the shell, outside single quotes, meets a command substitution.
\<close>

datatype sh_mode = Unquoted | SingleQuoted | DoubleQuoted

type_synonym sh_state = "sh_mode \<times> char option"

definition sh_step :: "sh_state \<Rightarrow> char \<Rightarrow> sh_state option" where
  "sh_step st c =
     (case st of (m, p) \<Rightarrow>
        if m = SingleQuoted then Some (if c = squote then Unquoted else SingleQuoted, None)
        else if p = Some (CHR 0x5C) then Some (m, None)
        else if c = CHR 0x60 \<or> (p = Some (CHR ''$'') \<and> c = CHR ''('') then None
        else if c = CHR 0x5C \<or> c = CHR ''$'' then Some (m, Some c)
        else if c = CHR 0x22 then Some (if m = Unquoted then DoubleQuoted else Unquoted, None)
        else if c = squote \<and> m = Unquoted then Some (SingleQuoted, None)
        else Some (m, None))"

fun sh_scan :: "sh_state \<Rightarrow> string \<Rightarrow> sh_state option" where
  "sh_scan st [] = Some st"
| "sh_scan st (c # cs) = (case sh_step st c of None \<Rightarrow> None | Some st' \<Rightarrow> sh_scan st' cs)"

definition sh_expands :: "sh_mode \<Rightarrow> string \<Rightarrow> bool" where
  "sh_expands m t \<longleftrightarrow> sh_scan (m, None) t = None"

text \<open>A text whose quotes are closed and that runs no substitution.\<close>

definition sh_inert :: "string \<Rightarrow> bool" where
  "sh_inert t \<longleftrightarrow> sh_scan (Unquoted, None) t = Some (Unquoted, None)"

lemma sh_scan_append: "sh_scan st (a @ b) = (case sh_scan st a of None \<Rightarrow> None | Some st' \<Rightarrow> sh_scan st' b)"
  by (induction a arbitrary: st) (auto split: option.split)

lemma sh_inert_append [simp]: "sh_inert a \<Longrightarrow> sh_inert (a @ b) = sh_inert b"
  by (simp add: sh_inert_def sh_scan_append)

lemma sh_inert_Nil [simp]: "sh_inert []"
  by (simp add: sh_inert_def)

lemma sh_inert_concat: "(\<forall>t \<in> set ts. sh_inert t) \<Longrightarrow> sh_inert (concat ts)"
  by (induction ts) auto

lemma sh_inert_expands: "sh_inert t \<Longrightarrow> \<not> sh_expands Unquoted t"
  by (simp add: sh_inert_def sh_expands_def)

lemma sh_scan_quote_body:
  "sh_scan (SingleQuoted, None) (replace_all [squote] [squote, CHR 0x5C, squote, squote] v @ squote # r) = sh_scan (Unquoted, None) r"
  by (induction v) (auto simp: sh_step_def)

lemma sh_inert_quote [simp]: "sh_inert (quote v)"
  using sh_scan_quote_body[of v "[]"] by (simp add: sh_inert_def quote_unfold sh_step_def)

lemma sh_scan_quote [simp]: "sh_scan (Unquoted, None) (quote v @ r) = sh_scan (Unquoted, None) r"
  using sh_inert_quote[of v] by (simp add: sh_inert_def sh_scan_append)

lemma sh_scan_double:
  assumes "\<forall>c\<in>set a. c \<noteq> CHR 0x22 \<and> c \<noteq> CHR 0x5C" "p \<noteq> Some (CHR 0x5C)"
  shows "sh_scan (DoubleQuoted, p) (a @ CHR ''$'' # CHR ''('' # r) = None"
  using assms by (induction a arbitrary: p) (auto simp: sh_step_def)

lemma replace_char_append:
  "c \<notin> set a \<Longrightarrow> replace_all [c] new (a @ b) = a @ replace_all [c] new b"
  by (induction a) auto

lemma quote_shows_prefix:
  assumes "squote \<notin> set a"
  shows "\<exists>r. quote (a @ CHR ''$'' # CHR ''('' # b) = squote # a @ CHR ''$'' # CHR ''('' # r"
  using assms by (auto simp: quote_unfold replace_char_append)

text \<open>Single quotes protect nothing inside double quotes.\<close>

lemma quote_in_double_quotes:
  assumes "sh_scan (Unquoted, None) pre = Some (DoubleQuoted, None)"
    and "\<forall>c\<in>set a. c \<noteq> CHR 0x22 \<and> c \<noteq> CHR 0x5C \<and> c \<noteq> squote"
  shows "sh_expands Unquoted (pre @ quote (a @ ''$('' @ b) @ post)"
proof -
  have nq: "squote \<notin> set a" using assms(2) by blast
  have "''$('' @ b = CHR ''$'' # CHR ''('' # b" by simp
  then obtain r where r: "quote (a @ ''$('' @ b) = (squote # a) @ CHR ''$'' # CHR ''('' # r"
    using quote_shows_prefix[OF nq, of b] by auto
  have "sh_scan (DoubleQuoted, None) ((squote # a) @ CHR ''$'' # CHR ''('' # (r @ post)) = None"
    using assms(2) by (intro sh_scan_double) auto
  moreover have "quote (a @ ''$('' @ b) @ post = (squote # a) @ CHR ''$'' # CHR ''('' # (r @ post)"
    unfolding r by simp
  ultimately show ?thesis unfolding sh_expands_def sh_scan_append[of _ pre] assms(1) by simp
qed

end
