(* ===== verification/GoPath.thy ===== *)
theory GoPath
  imports GoStrings
begin

text \<open>
  Go's packages \<open>path\<close> and \<open>path/filepath\<close> (on a slash-separated system), as far as the program
  calls them: \<open>Clean\<close>, \<open>Join\<close>, \<open>Dir\<close>, \<open>Base\<close>, \<open>IsAbs\<close> and \<open>Rel\<close>. \<open>Clean\<close> works on the path's
  elements with a stack, which is what Go's byte-level loop computes. The lemmas describe a rooted
  clean path as the list of its plain elements.
\<close>

abbreviation slash :: char where
  "slash \<equiv> CHR ''/''"

definition is_rooted :: "string \<Rightarrow> bool" where
  "is_rooted s \<longleftrightarrow> has_prefix s ''/''"

fun clean_comps :: "bool \<Rightarrow> string list \<Rightarrow> string list \<Rightarrow> string list" where
  "clean_comps rooted acc [] = rev acc"
| "clean_comps rooted acc (c # cs) =
     (if c = [] \<or> c = ''.'' then clean_comps rooted acc cs
      else if c = ''..'' then
        (case acc of
           [] \<Rightarrow> clean_comps rooted (if rooted then [] else [c]) cs
         | a # as \<Rightarrow> clean_comps rooted (if a = ''..'' then c # acc else as) cs)
      else clean_comps rooted (c # acc) cs)"

definition path_clean :: "string \<Rightarrow> string" where
  "path_clean s =
     (let st = clean_comps (is_rooted s) [] (split_on slash s)
      in if is_rooted s then slash # join_with ''/'' st
         else if st = [] then ''.'' else join_with ''/'' st)"

definition path_join :: "string list \<Rightarrow> string" where
  "path_join elems =
     (let es = filter (\<lambda>e. e \<noteq> []) elems
      in if es = [] then [] else path_clean (join_with ''/'' es))"

definition path_is_abs :: "string \<Rightarrow> bool" where
  "path_is_abs s \<longleftrightarrow> is_rooted s"

definition path_dir :: "string \<Rightarrow> string" where
  "path_dir s = path_clean (rev (dropWhile (\<lambda>c. c \<noteq> slash) (rev s)))"

definition path_base :: "string \<Rightarrow> string" where
  "path_base s =
     (if s = [] then ''.''
      else (let t = trim_chars_right (\<lambda>c. c = slash) s
            in if t = [] then ''/'' else rev (takeWhile (\<lambda>c. c \<noteq> slash) (rev t))))"

definition path_comps :: "string \<Rightarrow> string list" where
  "path_comps s = filter (\<lambda>c. c \<noteq> []) (split_on slash s)"

fun strip_common :: "'a list \<Rightarrow> 'a list \<Rightarrow> 'a list \<times> 'a list" where
  "strip_common (x # xs) (y # ys) = (if x = y then strip_common xs ys else (x # xs, y # ys))"
| "strip_common xs ys = (xs, ys)"

definition path_rel :: "string \<Rightarrow> string \<Rightarrow> string option" where
  "path_rel base targ =
     (let b = path_clean base; t = path_clean targ
      in if t = b then Some ''.''
         else (let b' = (if b = ''.'' then [] else b)
               in if is_rooted b' \<noteq> is_rooted t then None
                  else (case strip_common (path_comps b') (path_comps t) of (bs, ts) \<Rightarrow>
                    if bs \<noteq> [] \<and> ts \<noteq> [] \<and> hd bs = ''..'' then None
                    else Some (join_with ''/'' (replicate (length bs) ''..'' @ ts)))))"

section \<open>Plain elements\<close>

text \<open>A plain path element: what a clean rooted path is made of.\<close>

definition plain :: "string \<Rightarrow> bool" where
  "plain c \<longleftrightarrow> c \<noteq> [] \<and> c \<noteq> ''.'' \<and> c \<noteq> ''..'' \<and> slash \<notin> set c"

definition abs_path :: "string list \<Rightarrow> string" where
  "abs_path cs = slash # join_with ''/'' cs"

lemma is_rooted_simps [simp]: "\<not> is_rooted []" "is_rooted (c # cs) \<longleftrightarrow> c = slash"
  by (simp_all add: is_rooted_def)

lemma is_rooted_abs_path [simp]: "is_rooted (abs_path cs)"
  by (simp add: abs_path_def)

lemma clean_comps_step: "plain c \<Longrightarrow> clean_comps r acc (c # cs) = clean_comps r (c # acc) cs"
  by (simp add: plain_def)

lemma clean_comps_plain: "(\<forall>c\<in>set cs. plain c) \<Longrightarrow> clean_comps r acc cs = rev acc @ cs"
proof (induction cs arbitrary: acc)
  case (Cons c cs)
  then have "plain c" by simp
  then show ?case using Cons by (simp only: clean_comps_step) simp
qed simp

lemma plain_no_slash: "plain c \<Longrightarrow> slash \<notin> set c"
  by (simp add: plain_def)

lemma plain_nonempty: "plain c \<Longrightarrow> c \<noteq> []"
  by (simp add: plain_def)

lemma clean_comps_skip: "clean_comps r acc ([] # cs) = clean_comps r acc cs"
  by simp

lemma clean_comps_rooted_plain:
  "(\<forall>c\<in>set cs. slash \<notin> set c) \<Longrightarrow> (\<forall>c\<in>set acc. plain c) \<Longrightarrow>
   \<forall>c\<in>set (clean_comps True acc cs). plain c"
proof (induction cs arbitrary: acc)
  case (Cons c cs)
  have sub: "\<forall>c\<in>set cs. slash \<notin> set c" using Cons.prems(1) by simp
  consider "c = [] \<or> c = ''.''" | "c = ''..''" | "plain c"
    using Cons.prems(1) by (auto simp: plain_def)
  then show ?case
  proof cases
    case 1
    then show ?thesis using Cons.IH[OF sub Cons.prems(2)] by auto
  next
    case 2
    show ?thesis
    proof (cases acc)
      case Nil
      then show ?thesis using 2 Cons.IH[OF sub, of "[]"] by simp
    next
      case acc: (Cons a as)
      then have "a \<noteq> ''..''" "\<forall>c\<in>set as. plain c" using Cons.prems(2) by (auto simp: plain_def)
      then show ?thesis using 2 acc Cons.IH[OF sub, of as] by simp
    qed
  next
    case 3
    then have "\<forall>d\<in>set (c # acc). plain d" using Cons.prems(2) by simp
    from Cons.IH[OF sub this] show ?thesis unfolding clean_comps_step[OF 3] .
  qed
qed simp

lemma split_on_join_plain:
  assumes "cs \<noteq> []" "\<forall>c\<in>set cs. slash \<notin> set c"
  shows "split_on slash (join_with ''/'' cs) = cs"
  using assms split_on_join[of cs slash] by auto

lemma split_abs_path:
  assumes "\<forall>c\<in>set cs. slash \<notin> set c"
  shows "split_on slash (abs_path cs) = (if cs = [] then [[], []] else [] # cs)"
  using assms by (auto simp: abs_path_def split_on_join_plain)

lemma path_clean_abs_path:
  assumes "\<forall>c\<in>set cs. plain c"
  shows "path_clean (abs_path cs) = abs_path cs"
proof -
  have "split_on slash (abs_path cs) = (if cs = [] then [[], []] else [] # cs)"
    using assms by (intro split_abs_path) (simp add: plain_no_slash)
  then have "clean_comps True [] (split_on slash (abs_path cs)) = cs"
    using clean_comps_plain[OF assms, of True "[]"] by simp
  then show ?thesis by (simp add: path_clean_def Let_def) (simp add: abs_path_def)
qed

text \<open>The elements of a clean rooted path.\<close>

definition clean_elems :: "string \<Rightarrow> string list" where
  "clean_elems s = clean_comps True [] (split_on slash s)"

lemma clean_elems_plain: "\<forall>c\<in>set (clean_elems s). plain c"
  unfolding clean_elems_def
  by (rule clean_comps_rooted_plain) (auto dest: split_on_no_sep)

lemma path_clean_rooted: "is_rooted s \<Longrightarrow> path_clean s = abs_path (clean_elems s)"
  by (simp add: path_clean_def abs_path_def clean_elems_def Let_def)

lemma path_clean_rooted_idem: "is_rooted s \<Longrightarrow> path_clean (path_clean s) = path_clean s"
  by (simp only: path_clean_rooted path_clean_abs_path[OF clean_elems_plain])

lemma is_rooted_path_clean: "is_rooted s \<Longrightarrow> is_rooted (path_clean s)"
  by (simp add: path_clean_rooted)

lemma clean_elems_abs_path:
  assumes "\<forall>c\<in>set cs. plain c"
  shows "clean_elems (abs_path cs) = cs"
proof -
  have "split_on slash (abs_path cs) = (if cs = [] then [[], []] else [] # cs)"
    using assms by (intro split_abs_path) (simp add: plain_no_slash)
  then show ?thesis
    using clean_comps_plain[OF assms, of True "[]"] by (simp add: clean_elems_def)
qed

lemma abs_path_inj:
  assumes "\<forall>c\<in>set cs. plain c" "\<forall>c\<in>set ds. plain c" "abs_path cs = abs_path ds"
  shows "cs = ds"
  using clean_elems_abs_path[OF assms(1)] clean_elems_abs_path[OF assms(2)] assms(3) by metis

lemma join_with_append:
  "xs \<noteq> [] \<Longrightarrow> ys \<noteq> [] \<Longrightarrow> join_with sep (xs @ ys) = join_with sep xs @ sep @ join_with sep ys"
proof (induction xs rule: induct_list012)
  case (2 x)
  then show ?case by (cases ys) auto
qed auto

lemma abs_path_append:
  "ys \<noteq> [] \<Longrightarrow> xs \<noteq> [] \<Longrightarrow> abs_path (xs @ ys) = abs_path xs @ slash # join_with ''/'' ys"
  by (simp add: abs_path_def join_with_append)

lemma join_with_Nil_iff: "\<forall>c\<in>set cs. plain c \<Longrightarrow> join_with sep cs = [] \<longleftrightarrow> cs = []"
  by (cases cs; cases "tl cs") (auto simp: plain_nonempty)

text \<open>Joining a rooted clean directory with a relative path that has plain elements only.\<close>

lemma path_join_plain:
  assumes "\<forall>c\<in>set cs. plain c" "\<forall>c\<in>set ds. plain c" "ds \<noteq> []"
  shows "path_join [abs_path cs, join_with ''/'' ds] = abs_path (cs @ ds)"
proof -
  have ne: "abs_path cs \<noteq> []" "join_with ''/'' ds \<noteq> []"
    using assms by (auto simp: abs_path_def join_with_Nil_iff)
  have sp: "split_on slash (join_with ''/'' ds) = ds"
    using assms by (intro split_on_join_plain) (auto simp: plain_no_slash)
  have cl: "clean_comps True acc ds = rev acc @ ds" for acc
    using assms(2) by (rule clean_comps_plain)
  have "path_clean (abs_path cs @ slash # join_with ''/'' ds) = abs_path (cs @ ds)"
  proof (cases "cs = []")
    case True
    then show ?thesis
      by (simp add: abs_path_def path_clean_def Let_def sp cl)
  next
    case False
    then have "abs_path cs @ slash # join_with ''/'' ds = abs_path (cs @ ds)"
      using assms(3) by (simp add: abs_path_append)
    then show ?thesis using assms by (auto intro!: path_clean_abs_path)
  qed
  with ne show ?thesis by (simp add: path_join_def)
qed

lemma path_join_single: "is_rooted s \<Longrightarrow> path_join [s, []] = path_clean s"
  by (auto simp: path_join_def)

lemma path_comps_abs_path: "\<forall>c\<in>set cs. plain c \<Longrightarrow> path_comps (abs_path cs) = cs"
  by (auto simp: path_comps_def split_abs_path plain_no_slash plain_nonempty filter_id_conv)

lemma strip_common_append: "strip_common xs (xs @ ys) = ([], ys)"
  by (induction xs) (cases ys, auto)

lemma path_rel_below:
  assumes "\<forall>c\<in>set cs. plain c" "\<forall>c\<in>set ds. plain c" "ds \<noteq> []"
  shows "path_rel (abs_path cs) (abs_path (cs @ ds)) = Some (join_with ''/'' ds)"
proof -
  have all: "\<forall>c\<in>set (cs @ ds). plain c" using assms by auto
  have "abs_path (cs @ ds) \<noteq> abs_path cs"
    using abs_path_inj[OF all assms(1)] assms(3) by auto
  moreover have "abs_path cs \<noteq> ''.''" by (simp add: abs_path_def)
  ultimately show ?thesis
    using assms all
    by (simp add: path_rel_def Let_def path_clean_abs_path path_comps_abs_path strip_common_append)
qed

end
