(* ===== verification/Paths.thy ===== *)
theory Paths
  imports GoPath
begin

text \<open>
  The path arithmetic of the program: \<open>pathutil.HasPathPrefix\<close>, the restore-time remapper
  (\<open>backup.PathRemapper\<close>), \<open>RestoredPath\<close>, \<open>dedupPaths\<close> and \<open>docker.IsSystemMount\<close>. A Go map of
  rules is the list of its entries in iteration order.
\<close>

section \<open>pathutil\<close>

definition has_path_prefix :: "string \<Rightarrow> string \<Rightarrow> bool" where
  "has_path_prefix p pre =
     (if pre = [] then False
      else (let pre' = trim_chars_right (\<lambda>c. c = slash) pre
            in if pre' = [] then has_prefix p ''/''
               else p = pre' \<or> has_prefix p (pre' @ ''/'')))"

section \<open>docker.IsSystemMount\<close>

definition is_system_mount :: "string \<Rightarrow> bool" where
  "is_system_mount source =
     (let clean = path_clean (replace_all [CHR 0x5C] ''/'' source)
      in if clean = ''/var/run/docker.sock'' \<or> clean = ''/run/docker.sock'' then True
         else if clean = ''/etc/localtime'' \<or> clean = ''/etc/timezone'' \<or> clean = ''/etc/resolv.conf''
                 \<or> clean = ''/etc/hosts'' \<or> clean = ''/etc/hostname'' then True
         else if has_path_prefix clean ''/proc'' \<or> has_path_prefix clean ''/sys''
                 \<or> has_path_prefix clean ''/dev'' \<or> has_path_prefix clean ''/run'' then True
         else False)"

section \<open>backup.PathRemapper\<close>

definition rooted_clean :: "string \<Rightarrow> string" where
  "rooted_clean p = (let c = path_clean p in if has_prefix c ''/'' then c else ''/'' @ c)"

definition new_path_remapper :: "(string \<times> string) list \<Rightarrow> (string \<times> string) list" where
  "new_path_remapper rules =
     foldl (\<lambda>m (k, v). upsert fst (rooted_clean k, rooted_clean v) m) [] rules"

text \<open>The loop over the sorted prefixes, then \<open>Remap\<close> with the keys sorted by length, longest first.\<close>

fun remap_loop :: "(string \<times> string) list \<Rightarrow> string \<Rightarrow> string \<Rightarrow> string list \<Rightarrow> string" where
  "remap_loop rules clean_orig orig [] = orig"
| "remap_loop rules clean_orig orig (p # ps) =
     (if clean_orig = p \<or> has_prefix clean_orig (p @ ''/'')
      then path_join [(case map_of rules p of None \<Rightarrow> [] | Some t \<Rightarrow> t), trim_prefix clean_orig p]
      else remap_loop rules clean_orig orig ps)"

definition remap :: "(string \<times> string) list \<Rightarrow> string \<Rightarrow> string" where
  "remap rules orig =
     (if rules = [] then orig
      else remap_loop rules (rooted_clean orig) orig
             (sort_key (\<lambda>p. - int (length p)) (map fst rules)))"

section \<open>backup.RestoredPath and dedupPaths\<close>

definition restored_path :: "string \<Rightarrow> string \<Rightarrow> string" where
  "restored_path target_root orig =
     (if target_root = [] \<or> target_root = ''/'' then path_clean orig
      else path_join [path_clean target_root, trim_prefix (path_clean orig) ''/''])"

fun dedup_from :: "string list \<Rightarrow> string list \<Rightarrow> string list" where
  "dedup_from seen [] = []"
| "dedup_from seen (p # ps) =
     (let trimmed = trim_space p
      in if trimmed = [] then dedup_from seen ps
         else (let clean = path_clean (replace_all [CHR 0x5C] ''/'' trimmed)
               in if clean \<noteq> [] \<and> clean \<notin> set seen then clean # dedup_from (clean # seen) ps
                  else dedup_from seen ps))"

definition dedup_paths :: "string list \<Rightarrow> string list" where
  "dedup_paths paths = dedup_from [] paths"

section \<open>Prefixes are prefixes of elements\<close>

lemma trim_slash_abs_path:
  assumes "\<forall>c\<in>set cs. plain c" "cs \<noteq> []"
  shows "trim_chars_right (\<lambda>c. c = slash) (abs_path cs) = abs_path cs"
proof -
  obtain ds d where cs: "cs = ds @ [d]" using assms(2) by (metis rev_exhaust)
  have d: "plain d" using assms(1) cs by simp
  have eq: "abs_path cs = (if ds = [] then [slash] else abs_path ds @ [slash]) @ d"
    using cs by (auto simp: abs_path_append) (simp add: abs_path_def)
  have "last d \<noteq> slash" using d by (metis last_in_set plain_no_slash plain_nonempty)
  then have "dropWhile (\<lambda>c. c = slash) (rev d @ x) = rev d @ x" for x
    using plain_nonempty[OF d] by (cases "rev d") (auto simp: last_rev[symmetric] hd_rev dest!: arg_cong[of _ _ rev])
  then show ?thesis by (simp add: trim_chars_right_def eq)
qed

lemma abs_path_prefix_iff:
  assumes "\<forall>c\<in>set cs. plain c" "\<forall>c\<in>set ds. plain c" "ds \<noteq> []"
  shows "(\<exists>r. abs_path cs = abs_path ds @ slash # r) \<longleftrightarrow> (\<exists>es. es \<noteq> [] \<and> cs = ds @ es)"
proof
  assume "\<exists>r. abs_path cs = abs_path ds @ slash # r"
  then obtain r where r: "abs_path cs = abs_path ds @ slash # r" by blast
  have s1: "split_on slash (abs_path cs) = (if cs = [] then [[], []] else [] # cs)"
    using assms by (intro split_abs_path) (simp add: plain_no_slash)
  have s2: "split_on slash (abs_path ds) = [] # ds"
    using assms split_abs_path[of ds] by (simp add: plain_no_slash)
  have "split_on slash (abs_path cs) = ([] # ds) @ split_on slash r"
    using r s2 split_on_append_sep by metis
  then have "cs = ds @ split_on slash r"
    using s1 assms(2,3) plain_nonempty by (cases ds) (auto split: if_splits)
  then show "\<exists>es. es \<noteq> [] \<and> cs = ds @ es" using split_on_nonempty by blast
next
  assume "\<exists>es. es \<noteq> [] \<and> cs = ds @ es"
  then show "\<exists>r. abs_path cs = abs_path ds @ slash # r" using assms(3) abs_path_append by blast
qed

text \<open>On clean rooted paths the check is the prefix relation of the element lists.\<close>

lemma has_path_prefix_elems:
  assumes "\<forall>c\<in>set cs. plain c" "\<forall>c\<in>set ds. plain c"
  shows "has_path_prefix (abs_path cs) (abs_path ds) \<longleftrightarrow> (\<exists>es. cs = ds @ es)"
proof (cases "ds = []")
  case True
  then show ?thesis
    by (simp add: has_path_prefix_def abs_path_def trim_chars_right_def)
next
  case False
  have "has_path_prefix (abs_path cs) (abs_path ds) \<longleftrightarrow>
        abs_path cs = abs_path ds \<or> (\<exists>r. abs_path cs = abs_path ds @ slash # r)"
    using assms False
    by (simp add: has_path_prefix_def trim_slash_abs_path has_prefix_iff) (simp add: abs_path_def)
  also have "\<dots> \<longleftrightarrow> cs = ds \<or> (\<exists>es. es \<noteq> [] \<and> cs = ds @ es)"
    using abs_path_prefix_iff[OF assms False] abs_path_inj[OF assms] by blast
  also have "\<dots> \<longleftrightarrow> (\<exists>es. cs = ds @ es)" by force
  finally show ?thesis .
qed

section \<open>Restored paths stay below the target root\<close>

lemma trim_prefix_abs_path: "trim_prefix (abs_path cs) ''/'' = join_with ''/'' cs"
  by (simp add: abs_path_def trim_prefix_def)

lemma path_join_abs:
  assumes "\<forall>c\<in>set cs. plain c" "\<forall>c\<in>set ds. plain c"
  shows "path_join [abs_path cs, trim_prefix (abs_path ds) ''/''] = abs_path (cs @ ds)"
proof (cases "ds = []")
  case True
  then show ?thesis
    using assms path_clean_abs_path[OF assms(1)]
    by (simp add: trim_prefix_abs_path path_join_single)
next
  case False
  then show ?thesis using assms by (simp add: trim_prefix_abs_path path_join_plain)
qed

lemma clean_elems_root [simp]: "clean_elems ''/'' = []"
  by (simp add: clean_elems_def)

lemma restored_path_elems:
  assumes "is_rooted troot" "is_rooted orig"
  shows "restored_path troot orig = abs_path (clean_elems troot @ clean_elems orig)"
proof (cases "troot = ''/''")
  case True
  then show ?thesis using assms by (simp add: restored_path_def path_clean_rooted)
next
  case False
  have "troot \<noteq> []" using assms(1) by auto
  with False show ?thesis
    using assms path_join_abs[OF clean_elems_plain clean_elems_plain, of troot orig]
    by (simp add: restored_path_def path_clean_rooted)
qed

text \<open>
  A file of the snapshot is restored below the target directory whatever \<open>..\<close> elements its
  recorded path holds: for an absolute target and an absolute original path, \<open>RestoredPath\<close> lies
  under the cleaned target in the sense of \<open>HasPathPrefix\<close>, and it appends the original's elements.
\<close>

theorem restored_path_confined:
  assumes "is_rooted troot" "is_rooted orig"
  shows "has_path_prefix (restored_path troot orig) (path_clean troot)
       \<and> clean_elems (restored_path troot orig) = clean_elems troot @ clean_elems orig"
proof -
  have plain: "\<forall>c\<in>set (clean_elems troot @ clean_elems orig). plain c"
    using clean_elems_plain by auto
  have "has_path_prefix (abs_path (clean_elems troot @ clean_elems orig)) (abs_path (clean_elems troot))"
    using has_path_prefix_elems[OF plain clean_elems_plain] by blast
  then show ?thesis
    using assms clean_elems_abs_path[OF plain] by (simp add: restored_path_elems path_clean_rooted)
qed

theorem restored_path_confined_witness:
  "restored_path ''/data/blog'' ''/../../etc/passwd'' = ''/data/blog/etc/passwd''
   \<and> has_path_prefix (restored_path ''/data/blog'' ''/../../etc/passwd'') (path_clean ''/data/blog'')"
proof -
  have "has_path_prefix (restored_path ''/data/blog'' ''/../../etc/passwd'') (path_clean ''/data/blog'')"
    using restored_path_confined[of "''/data/blog''" "''/../../etc/passwd''"] by simp
  moreover have "restored_path ''/data/blog'' ''/../../etc/passwd'' = ''/data/blog/etc/passwd''"
    by code_simp
  ultimately show ?thesis by simp
qed

section \<open>The remapper\<close>

definition remap_match :: "string \<Rightarrow> string \<Rightarrow> bool" where
  "remap_match clean_orig p \<longleftrightarrow> clean_orig = p \<or> has_prefix clean_orig (p @ ''/'')"

lemma remap_loop_find:
  "remap_loop rules c orig ps =
     (case find (remap_match c) ps of
        None \<Rightarrow> orig
      | Some p \<Rightarrow> path_join [(case map_of rules p of None \<Rightarrow> [] | Some t \<Rightarrow> t), trim_prefix c p])"
  by (induction ps) (auto simp: remap_match_def)

lemma remap_match_prefix: "remap_match c p \<Longrightarrow> take (length p) c = p"
  by (auto simp: remap_match_def has_prefix_iff)

lemma remap_match_unique:
  "remap_match c p \<Longrightarrow> remap_match c q \<Longrightarrow> length p = length q \<Longrightarrow> p = q"
  by (metis remap_match_prefix)

lemma find_longest:
  assumes "sorted_wrt (\<lambda>a b. length b \<le> length a) ps" "find P ps = Some p"
  shows "p \<in> set ps \<and> P p \<and> (\<forall>q\<in>set ps. P q \<longrightarrow> length q \<le> length p)"
  using assms by (induction ps) (auto split: if_splits)

lemma sorted_by_length:
  "sorted_wrt (\<lambda>a b. length b \<le> length a) (sort_key (\<lambda>p. - int (length p)) (ps :: string list))"
proof -
  have "sorted (map (\<lambda>p. - int (length p)) (sort_key (\<lambda>p. - int (length p)) ps))" by simp
  then show ?thesis by (simp add: sorted_wrt_map)
qed

lemma find_longest_order:
  assumes "sorted_wrt (\<lambda>a b. length b \<le> length a) ps" "sorted_wrt (\<lambda>a b. length b \<le> length a) qs"
    and "set ps = set qs"
  shows "find (remap_match c) ps = find (remap_match c) qs"
proof (cases "find (remap_match c) ps")
  case None
  then have "find (remap_match c) qs = None"
    using assms(3) by (auto simp: find_None_iff)
  with None show ?thesis by simp
next
  case (Some p)
  note P = find_longest[OF assms(1) Some]
  then obtain q where q: "find (remap_match c) qs = Some q"
    using assms(3) by (metis find_None_iff not_None_eq)
  note Q = find_longest[OF assms(2) q]
  have "length p = length q" using P Q assms(3) by (simp add: le_antisym)
  with P Q have "p = q" using remap_match_unique by blast
  with Some q show ?thesis by simp
qed

text \<open>
  \<open>Remap\<close> is deterministic although Go's map iteration and \<open>sort.Slice\<close> (not stable) leave the
  order of equally long prefixes open: whatever order of the rule keys the sort leaves, longest
  first, the loop returns what the model computes.
\<close>

theorem remap_order_irrelevant:
  assumes "rules \<noteq> []" "set ps = fst ` set rules"
    and "sorted_wrt (\<lambda>a b. length b \<le> length a) ps"
  shows "remap_loop rules (rooted_clean orig) orig ps = remap rules orig"
proof -
  have "set ps = set (sort_key (\<lambda>p. - int (length p)) (map fst rules))" using assms(2) by simp
  from find_longest_order[OF assms(3) sorted_by_length this] assms(1) show ?thesis
    by (simp add: remap_def remap_loop_find)
qed

theorem remap_order_irrelevant_witness:
  "remap_loop [(''/a'', ''/x''), (''/b'', ''/y''), (''/a/c'', ''/z'')] (rooted_clean ''/b/f'') ''/b/f''
     [''/a/c'', ''/b'', ''/a''] = ''/y/f''"
proof -
  have "remap_loop [(''/a'', ''/x''), (''/b'', ''/y''), (''/a/c'', ''/z'')] (rooted_clean ''/b/f'') ''/b/f''
     [''/a/c'', ''/b'', ''/a''] = remap [(''/a'', ''/x''), (''/b'', ''/y''), (''/a/c'', ''/z'')] ''/b/f''"
    by (rule remap_order_irrelevant) auto
  also have "\<dots> = ''/y/f''" by code_simp
  finally show ?thesis .
qed

lemma rooted_clean_rooted: "is_rooted p \<Longrightarrow> rooted_clean p = abs_path (clean_elems p)"
  by (simp add: rooted_clean_def path_clean_rooted Let_def) (simp add: abs_path_def)

lemma remap_match_elems:
  assumes "\<forall>c\<in>set cs. plain c" "\<forall>c\<in>set ks. plain c" "ks \<noteq> []"
  shows "remap_match (abs_path cs) (abs_path ks) \<longleftrightarrow> (\<exists>es. cs = ks @ es)"
proof -
  have "remap_match (abs_path cs) (abs_path ks) \<longleftrightarrow> has_path_prefix (abs_path cs) (abs_path ks)"
    using assms by (simp add: remap_match_def has_path_prefix_def trim_slash_abs_path)
      (simp add: abs_path_def)
  then show ?thesis using has_path_prefix_elems[OF assms(1,2)] by simp
qed

text \<open>The rule for the root directory matches the root alone, never a path below it.\<close>

lemma remap_match_root:
  assumes "\<forall>c\<in>set cs. plain c"
  shows "remap_match (abs_path cs) ''/'' \<longleftrightarrow> cs = []"
proof -
  have "\<not> has_prefix (abs_path cs) ''//''"
  proof (cases cs)
    case (Cons c cs')
    then have "c \<noteq> []" "slash \<notin> set c" using assms by (auto simp: plain_def)
    then show ?thesis using Cons by (cases c; cases cs') (auto simp: abs_path_def)
  qed (simp add: abs_path_def)
  then show ?thesis using assms abs_path_inj[of cs "[]"] by (auto simp: remap_match_def abs_path_def)
qed

lemma clean_comps_append:
  "clean_comps r acc (xs @ ys) = clean_comps r (rev (clean_comps r acc xs)) ys"
  by (induction r acc xs rule: clean_comps.induct) (auto split: list.splits)

lemma path_join_abs_any:
  assumes "\<forall>c\<in>set vs. plain c" "s \<noteq> []"
  shows "path_join [abs_path vs, s] = abs_path (clean_comps True (rev vs) (split_on slash s))"
proof -
  have "split_on slash (abs_path vs) = (if vs = [] then [[], []] else [] # vs)"
    using assms by (intro split_abs_path) (simp add: plain_no_slash)
  then have "clean_comps True [] (split_on slash (abs_path vs)) = vs"
    using clean_comps_plain[OF assms(1), of True "[]"] by simp
  then have "clean_elems (abs_path vs @ slash # s) = clean_comps True (rev vs) (split_on slash s)"
    by (simp add: clean_elems_def split_on_append_sep clean_comps_append)
  moreover have "is_rooted (abs_path vs @ slash # s)" by (simp add: abs_path_def)
  moreover have "abs_path vs \<noteq> []" by (simp add: abs_path_def)
  ultimately show ?thesis using assms(2) by (simp add: path_join_def path_clean_rooted)
qed

lemma path_join_tail:
  assumes "\<forall>c\<in>set vs. plain c" "\<forall>c\<in>set es. plain c" "es \<noteq> []"
  shows "path_join [abs_path vs, slash # join_with ''/'' es] = abs_path (vs @ es)"
proof -
  have "split_on slash (slash # join_with ''/'' es) = [] # es"
    using assms by (simp add: split_on_join_plain plain_no_slash)
  then show ?thesis
    using clean_comps_plain[OF assms(2), of True "rev vs"] assms(1)
    by (simp add: path_join_abs_any)
qed

text \<open>A normal rule side: an absolute path in clean form, as \<open>NewPathRemapper\<close> leaves absolute rules.\<close>

definition norm_abs :: "string \<Rightarrow> bool" where
  "norm_abs p \<longleftrightarrow> p = abs_path (clean_elems p)"

lemma norm_abs_rooted_clean: "is_rooted p \<Longrightarrow> norm_abs (rooted_clean p)"
  unfolding norm_abs_def rooted_clean_rooted
  by (subst clean_elems_abs_path[OF clean_elems_plain]) (rule refl)

lemma new_path_remapper_norm:
  assumes "\<forall>(k, v)\<in>set rules. is_rooted k \<and> is_rooted v"
  shows "distinct (map fst (new_path_remapper rules))
       \<and> (\<forall>(k, v)\<in>set (new_path_remapper rules). norm_abs k \<and> norm_abs v)"
proof -
  have "distinct (map fst (foldl (\<lambda>m (k, v). upsert fst (rooted_clean k, rooted_clean v) m) m rules))
     \<and> (\<forall>(k, v)\<in>set (foldl (\<lambda>m (k, v). upsert fst (rooted_clean k, rooted_clean v) m) m rules).
          norm_abs k \<and> norm_abs v)"
    if "distinct (map fst m)" "\<forall>(k, v)\<in>set m. norm_abs k \<and> norm_abs v" for m
    using assms that
  proof (induction rules arbitrary: m)
    case (Cons kv rules)
    obtain k v where kv: "kv = (k, v)" by force
    let ?m = "upsert fst (rooted_clean k, rooted_clean v) m"
    have "distinct (map fst ?m)" using Cons.prems(2) by (rule distinct_upsert)
    moreover have "\<forall>(k, v)\<in>set ?m. norm_abs k \<and> norm_abs v"
      using Cons.prems(1,3) kv set_upsert_subset[of fst "(rooted_clean k, rooted_clean v)" m]
      by (fastforce simp: norm_abs_rooted_clean)
    ultimately show ?case using Cons.IH[of ?m] Cons.prems(1) kv by simp
  qed simp
  from this[of "[]"] show ?thesis by (simp add: new_path_remapper_def)
qed

lemma remap_longest_key:
  assumes rules: "\<forall>(k, v)\<in>set rules. norm_abs k \<and> norm_abs v"
    and orig: "is_rooted orig"
    and kv: "(k, v) \<in> set rules" "k \<noteq> ''/''" "has_path_prefix (path_clean orig) k"
    and longest: "\<And>k' v'. (k', v') \<in> set rules \<Longrightarrow> has_path_prefix (path_clean orig) k' \<Longrightarrow> length k' \<le> length k"
  shows "find (remap_match (rooted_clean orig)) (sort_key (\<lambda>p. - int (length p)) (map fst rules)) = Some k"
proof -
  let ?cs = "clean_elems orig" and ?ps = "sort_key (\<lambda>p. - int (length p)) (map fst rules)"
  have c: "rooted_clean orig = abs_path ?cs" "path_clean orig = abs_path ?cs"
    using orig by (simp_all add: rooted_clean_rooted path_clean_rooted)
  have iff: "remap_match (rooted_clean orig) p \<longleftrightarrow> has_path_prefix (path_clean orig) p"
    if "norm_abs p" "p \<noteq> ''/''" for p
  proof -
    have p: "p = abs_path (clean_elems p)" using that(1) by (simp add: norm_abs_def)
    then have "clean_elems p \<noteq> []" using that(2) by (auto simp: abs_path_def)
    then show ?thesis
      using remap_match_elems[OF clean_elems_plain clean_elems_plain]
        has_path_prefix_elems[OF clean_elems_plain clean_elems_plain] c p by metis
  qed
  have nk: "norm_abs k" using rules kv(1) by auto
  have mk: "remap_match (rooted_clean orig) k" using iff[OF nk kv(2)] kv(3) by simp
  have "?cs \<noteq> []"
  proof
    assume "?cs = []"
    then have "has_path_prefix (abs_path []) (abs_path (clean_elems k))"
      using kv(3) nk c by (simp add: norm_abs_def)
    then have "clean_elems k = []"
      using has_path_prefix_elems[of "[]" "clean_elems k"] clean_elems_plain by auto
    then show False using nk kv(2) by (simp add: norm_abs_def abs_path_def)
  qed
  then have noroot: "\<not> remap_match (rooted_clean orig) ''/''"
    using remap_match_root[OF clean_elems_plain] c by simp
  have "k \<in> set ?ps" using kv(1) by force
  then obtain p where p: "find (remap_match (rooted_clean orig)) ?ps = Some p"
    using mk by (metis find_None_iff not_None_eq)
  note P = find_longest[OF sorted_by_length p]
  have "length k \<le> length p" using P mk \<open>k \<in> set ?ps\<close> by blast
  moreover have "length p \<le> length k"
  proof -
    obtain w where w: "(p, w) \<in> set rules" using P by auto
    have "p \<noteq> ''/''" using P noroot by auto
    then show ?thesis using longest[OF w] iff[of p] P w rules by auto
  qed
  ultimately have "p = k" using P mk remap_match_unique by (metis le_antisym)
  with p show ?thesis by simp
qed

text \<open>
  Among the rules whose source prefix holds the path, \<open>Remap\<close> applies the longest one: it
  replaces the rule's elements by the target's and keeps the rest of the path.
\<close>

theorem remap_longest_rule:
  assumes "distinct (map fst rules)" "\<forall>(k, v)\<in>set rules. norm_abs k \<and> norm_abs v" "is_rooted orig"
    and "(k, v) \<in> set rules" "k \<noteq> ''/''" "has_path_prefix (path_clean orig) k"
    and "\<And>k' v'. (k', v') \<in> set rules \<Longrightarrow> has_path_prefix (path_clean orig) k' \<Longrightarrow> length k' \<le> length k"
  shows "remap rules orig
       = abs_path (clean_elems v @ drop (length (clean_elems k)) (clean_elems orig))"
proof -
  have k: "k = abs_path (clean_elems k)" and v: "v = abs_path (clean_elems v)"
    using assms(2,4) by (auto simp: norm_abs_def)
  have c: "rooted_clean orig = abs_path (clean_elems orig)" "path_clean orig = abs_path (clean_elems orig)"
    using assms(3) by (simp_all add: rooted_clean_rooted path_clean_rooted)
  have kne: "clean_elems k \<noteq> []" using k assms(5) by (auto simp: abs_path_def)
  obtain es where es: "clean_elems orig = clean_elems k @ es"
    using has_path_prefix_elems[OF clean_elems_plain clean_elems_plain] c(2) k assms(6) by metis
  have pes: "\<forall>c\<in>set es. plain c" using clean_elems_plain[of orig] es by auto
  have m: "map_of rules k = Some v" using assms(1,4) by simp
  have f: "remap rules orig = path_join [v, trim_prefix (abs_path (clean_elems k @ es)) k]"
    using remap_longest_key[OF assms(2-7)] assms(4) m c es by (auto simp: remap_def remap_loop_find)
  show ?thesis
  proof (cases "es = []")
    case True
    have "path_join [v, trim_prefix (abs_path (clean_elems k)) k] = path_clean v"
    proof -
      have "trim_prefix (abs_path (clean_elems k)) k = []"
        using k by (metis append_Nil2 trim_prefix_append)
      moreover have "is_rooted v" using v by (metis is_rooted_abs_path)
      ultimately show ?thesis by (simp add: path_join_single)
    qed
    also have "\<dots> = v" using path_clean_abs_path[OF clean_elems_plain] v by metis
    finally show ?thesis using f es v True by simp
  next
    case False
    then have "abs_path (clean_elems k @ es) = abs_path (clean_elems k) @ slash # join_with ''/'' es"
      using kne by (simp add: abs_path_append)
    then have "abs_path (clean_elems k @ es) = k @ slash # join_with ''/'' es" using k by simp
    then have "remap rules orig = path_join [abs_path (clean_elems v), slash # join_with ''/'' es]"
      using f v by simp
    then show ?thesis using es by (simp add: path_join_tail[OF clean_elems_plain pes False])
  qed
qed

theorem remap_longest_rule_witness:
  "remap [(''/data'', ''/mnt''), (''/data/db'', ''/fast'')] ''/data/db/pg'' = ''/fast/pg''"
proof -
  have "remap [(''/data'', ''/mnt''), (''/data/db'', ''/fast'')] ''/data/db/pg''
    = abs_path (clean_elems ''/fast'' @ drop (length (clean_elems ''/data/db'')) (clean_elems ''/data/db/pg''))"
  proof (rule remap_longest_rule)
    show "\<forall>(k, v)\<in>set [(''/data'', ''/mnt''), (''/data/db'', ''/fast'')]. norm_abs k \<and> norm_abs v"
      by code_simp
    show "has_path_prefix (path_clean ''/data/db/pg'') ''/data/db''" by code_simp
  qed auto
  also have "\<dots> = ''/fast/pg''" by code_simp
  finally show ?thesis .
qed

text \<open>
  A rule for the root directory never applies below it: with the single rule \<open>/\<close> to a target,
  every path other than the root itself comes back unchanged, because the loop looks for the
  prefix \<open>"/" + "/"\<close>.
\<close>

theorem remap_root_rule_ignored:
  assumes "is_rooted orig" "path_clean orig \<noteq> ''/''"
  shows "remap [(''/'', target)] orig = orig"
proof -
  have "clean_elems orig \<noteq> []" using assms by (auto simp: path_clean_rooted abs_path_def)
  then have "\<not> remap_match (rooted_clean orig) ''/''"
    using remap_match_root[OF clean_elems_plain] assms(1) by (simp add: rooted_clean_rooted)
  then show ?thesis by (simp add: remap_def remap_match_def)
qed

theorem remap_root_rule_ignored_witness: "remap [(''/'', ''/restore'')] ''/etc/nginx'' = ''/etc/nginx''"
  by (rule remap_root_rule_ignored) (simp, code_simp)

section \<open>Deduplicated path lists\<close>

lemma dedup_from_props:
  "distinct (dedup_from seen ps) \<and> set (dedup_from seen ps) \<inter> set seen = {} \<and> [] \<notin> set (dedup_from seen ps)"
proof (induction seen ps rule: dedup_from.induct)
  case (2 seen p ps)
  then show ?case by (auto simp: Let_def)
qed simp

lemma dedup_from_set:
  "set (dedup_from seen ps) \<union> set seen =
   {path_clean (replace_all [CHR 0x5C] ''/'' (trim_space p)) | p. p \<in> set ps \<and> trim_space p \<noteq> []
      \<and> path_clean (replace_all [CHR 0x5C] ''/'' (trim_space p)) \<noteq> []} \<union> set seen"
proof (induction seen ps rule: dedup_from.induct)
  case (2 seen p ps)
  show ?case
  proof (cases "trim_space p = []")
    case True
    with 2 show ?thesis by auto
  next
    case False
    then show ?thesis using 2 False by (cases "path_clean (replace_all [CHR 0x5C] ''/'' (trim_space p)) \<noteq> []
      \<and> path_clean (replace_all [CHR 0x5C] ''/'' (trim_space p)) \<notin> set seen") (auto simp: Let_def)
  qed
qed simp

lemma dedup_paths_distinct: "distinct (dedup_paths ps)"
  using dedup_from_props by (simp add: dedup_paths_def)

end
