(* ===== verification/YamlStore.thy ===== *)
theory YamlStore
  imports GoPath
begin

text \<open>
  Package \<open>internal/yamlstore\<close>: the file-backed configuration with its mtime/size cache, and the
  interface the asset, backup and notification stores offer on top of it.

  The file system is the content and modification time of the store's one file. Every operation
  takes the outcomes of the system calls it makes (\<open>io\<close>: \<open>None\<close> for success; \<open>io_tmp\<close> is the name
  \<open>os.CreateTemp\<close> picks, \<open>io_now\<close> the modification time a write gets), so each error path of the code
  is a branch here. The YAML library is a parameter (\<open>codec\<close>); what the stores rely on is
  the named hypothesis \<open>codec_ok\<close>: a document that was marshalled is not empty and decodes strictly,
  as a single document, to the configuration it was made from. Deep copies of a configuration are
  the configuration itself, since HOL values are not shared.
\<close>

section \<open>Files, system calls and the codec\<close>

record io =
  io_lock :: "go_error option"
  io_stat :: "go_error option"
  io_read :: "go_error option"
  io_mkdir :: "go_error option"
  io_create :: "go_error option"
  io_write :: "go_error option"
  io_chmod :: "go_error option"
  io_close :: "go_error option"
  io_rename :: "go_error option"
  io_now :: int
  io_tmp :: string

definition io_fine :: "int \<Rightarrow> io" where
  "io_fine now = \<lparr>io_lock = None, io_stat = None, io_read = None, io_mkdir = None, io_create = None,
     io_write = None, io_chmod = None, io_close = None, io_rename = None, io_now = now,
     io_tmp = ''tmp''\<rparr>"

record cfg_file =
  fdata :: string
  fmtime :: int

datatype 'c decoded = Decoded 'c | BadYaml go_error | MultiDoc | BadTail go_error

record 'c codec =
  dec :: "string \<Rightarrow> 'c decoded"
  enc :: "'c \<Rightarrow> string res"

definition codec_ok :: "'c codec \<Rightarrow> bool" where
  "codec_ok cod \<longleftrightarrow> (\<forall>c d. enc cod c = Inr d \<longrightarrow> d \<noteq> [] \<and> dec cod d = Decoded c)"

record 'c schema =
  sc_kind :: string
  sc_empty :: 'c
  sc_validate :: "'c \<Rightarrow> go_error option"

record 'c cache =
  c_value :: "'c option"
  c_valid :: bool
  c_exists :: bool
  c_mod :: int
  c_size :: nat

record 'c ystore =
  ys_path :: string
  ys_file :: "cfg_file option"
  ys_cache :: "'c cache"

section \<open>Reading\<close>

definition yaml_read :: "'c schema \<Rightarrow> 'c codec \<Rightarrow> io \<Rightarrow> string \<Rightarrow> cfg_file option \<Rightarrow> 'c res" where
  "yaml_read s cod io path fo =
     (case fo of
        None \<Rightarrow> (case io_stat io of None \<Rightarrow> Inr (sc_empty s)
                 | Some e \<Rightarrow> Inl (wrap (''failed to read '' @ sc_kind s @ '' config from '' @ go_quote path @ '': '') e []))
      | Some f \<Rightarrow>
          (case io_read io of
             Some e \<Rightarrow> Inl (wrap (''failed to read '' @ sc_kind s @ '' config from '' @ go_quote path @ '': '') e [])
           | None \<Rightarrow>
               (if fdata f = [] then Inr (sc_empty s)
                else (case dec cod (fdata f) of
                        BadYaml e \<Rightarrow> Inl (wrap (''failed to parse YAML '' @ sc_kind s @ '' config: '') e [])
                      | MultiDoc \<Rightarrow> Inl (errors_new (''failed to parse YAML '' @ sc_kind s
                                      @ '' config: multiple documents are not supported''))
                      | BadTail e \<Rightarrow> Inl (wrap (''failed to parse YAML '' @ sc_kind s @ '' config: '') e [])
                      | Decoded cfg \<Rightarrow> res_of (sc_validate s cfg) cfg))))"

definition cache_empty :: "'c cache" where
  "cache_empty = \<lparr>c_value = None, c_valid = False, c_exists = False, c_mod = 0, c_size = 0\<rparr>"

definition cache_invalidate :: "'c ystore \<Rightarrow> 'c ystore" where
  "cache_invalidate st = st\<lparr>ys_cache := cache_empty\<rparr>"

text \<open>\<open>Cache.Read\<close>: the cached value while existence, size and modification time are unchanged.\<close>

definition cache_read :: "'c schema \<Rightarrow> 'c codec \<Rightarrow> io \<Rightarrow> 'c ystore \<Rightarrow> 'c res \<times> 'c ystore" where
  "cache_read s cod io st =
     (case io_stat io of
        Some e \<Rightarrow> (Inl (wrap (''failed to stat '' @ sc_kind s @ '' config from '' @ go_quote (ys_path st) @ '': '') e []),
                   cache_invalidate st)
      | None \<Rightarrow>
          (case ys_file st of
             None \<Rightarrow> (Inr (sc_empty s), cache_invalidate st)
           | Some f \<Rightarrow>
               (let c = ys_cache st
                in if c_valid c \<and> c_exists c \<and> c_size c = length (fdata f) \<and> c_mod c = fmtime f
                      \<and> c_value c \<noteq> None
                   then (Inr (the (c_value c)), st)
                   else (case yaml_read s cod io (ys_path st) (ys_file st) of
                           Inl e \<Rightarrow> (Inl e, cache_invalidate st)
                         | Inr cfg \<Rightarrow>
                             (Inr cfg, st\<lparr>ys_cache := \<lparr>c_value = Some cfg, c_valid = True, c_exists = True,
                                           c_mod = fmtime f, c_size = length (fdata f)\<rparr>\<rparr>)))))"

section \<open>Writing\<close>

text \<open>
  \<open>Write\<close>: the document goes to a temporary file of mode 0600 that is renamed over the target, so
  every failure before the rename leaves the target as it was.
\<close>

definition yaml_write :: "'c schema \<Rightarrow> 'c codec \<Rightarrow> io \<Rightarrow> 'c \<Rightarrow> 'c ystore \<Rightarrow> go_error option \<times> 'c ystore" where
  "yaml_write s cod io cfg st =
     (case io_mkdir io of
        Some e \<Rightarrow> (Some (wrap (''failed to create config directory '' @ go_quote (path_dir (ys_path st)) @ '': '') e []), st)
      | None \<Rightarrow>
     (case enc cod cfg of
        Inl e \<Rightarrow> (Some (wrap (''failed to marshal '' @ sc_kind s @ '' config to YAML: '') e []), st)
      | Inr data \<Rightarrow>
     (case io_create io of
        Some e \<Rightarrow> (Some (wrap (''failed to create temporary '' @ sc_kind s @ '' config file: '') e []), st)
      | None \<Rightarrow>
     (case io_write io of
        Some e \<Rightarrow> (Some (wrap (''failed to write temporary '' @ sc_kind s @ '' config file '' @ go_quote (io_tmp io) @ '': '') e []), st)
      | None \<Rightarrow>
     (case io_chmod io of
        Some e \<Rightarrow> (Some (wrap (''failed to set permissions on '' @ go_quote (io_tmp io) @ '': '') e []), st)
      | None \<Rightarrow>
     (case io_close io of
        Some e \<Rightarrow> (Some (wrap (''failed to close temporary '' @ sc_kind s @ '' config file '' @ go_quote (io_tmp io) @ '': '') e []), st)
      | None \<Rightarrow>
     (case io_rename io of
        Some e \<Rightarrow> (Some (wrap (''failed to replace '' @ sc_kind s @ '' config file '' @ go_quote (ys_path st) @ '': '') e []), st)
      | None \<Rightarrow> (None, st\<lparr>ys_file := Some \<lparr>fdata = data, fmtime = io_now io\<rparr>\<rparr>))))))))"

definition cache_write :: "'c schema \<Rightarrow> 'c codec \<Rightarrow> io \<Rightarrow> 'c \<Rightarrow> 'c ystore \<Rightarrow> go_error option \<times> 'c ystore" where
  "cache_write s cod io cfg st = yaml_write s cod io cfg (cache_invalidate st)"

text \<open>Another process replaces the file, or removes it.\<close>

definition external_edit :: "cfg_file option \<Rightarrow> 'c ystore \<Rightarrow> 'c ystore" where
  "external_edit fo st = st\<lparr>ys_file := fo\<rparr>"

section \<open>Cache coherence\<close>

text \<open>What the file holds, read without a cache and without a failing system call.\<close>

definition disk_config :: "'c schema \<Rightarrow> 'c codec \<Rightarrow> 'c ystore \<Rightarrow> 'c res" where
  "disk_config s cod st = yaml_read s cod (io_fine 0) (ys_path st) (ys_file st)"

definition coherent :: "'c schema \<Rightarrow> 'c codec \<Rightarrow> 'c ystore \<Rightarrow> bool" where
  "coherent s cod st \<longleftrightarrow>
     (let c = ys_cache st
      in c_valid c \<longrightarrow>
           (\<forall>f. ys_file st = Some f \<longrightarrow> c_size c = length (fdata f) \<longrightarrow> c_mod c = fmtime f \<longrightarrow>
                (\<exists>v. c_value c = Some v \<and> disk_config s cod st = Inr v)))"

lemma cache_invalidate_simps [simp]:
  "ys_file (cache_invalidate st) = ys_file st" "ys_path (cache_invalidate st) = ys_path st"
  "c_valid (ys_cache (cache_invalidate st)) = False"
  by (simp_all add: cache_invalidate_def cache_empty_def)

lemma coherent_invalidate [simp]: "coherent s cod (cache_invalidate st)"
  by (simp add: coherent_def Let_def)

lemma disk_config_cong:
  "ys_file st' = ys_file st \<Longrightarrow> ys_path st' = ys_path st \<Longrightarrow> disk_config s cod st' = disk_config s cod st"
  by (simp add: disk_config_def)

lemma yaml_read_fine:
  "io_stat io = None \<Longrightarrow> io_read io = None \<Longrightarrow> yaml_read s cod io p fo = yaml_read s cod (io_fine 0) p fo"
  by (simp add: yaml_read_def io_fine_def split: option.split)

lemma yaml_read_Inr:
  "yaml_read s cod io p fo = Inr cfg \<Longrightarrow> yaml_read s cod (io_fine 0) p fo = Inr cfg"
  by (cases fo; cases "io_read io"; cases "io_stat io") (simp_all add: yaml_read_def io_fine_def)

lemma yaml_read_missing: "yaml_read s cod (io_fine n) p None = Inr (sc_empty s)"
  by (simp add: yaml_read_def io_fine_def)

lemma cache_read_cases:
  assumes "cache_read s cod io st = (r, st')"
  shows "(st' = cache_invalidate st \<and> (case r of Inl e \<Rightarrow> True | Inr cfg \<Rightarrow> ys_file st = None \<and> cfg = sc_empty s))
       \<or> (\<exists>f v. st' = st \<and> ys_file st = Some f \<and> r = Inr v \<and> c_valid (ys_cache st) \<and> c_value (ys_cache st) = Some v
            \<and> c_size (ys_cache st) = length (fdata f) \<and> c_mod (ys_cache st) = fmtime f)
       \<or> (\<exists>f v. ys_file st = Some f \<and> r = Inr v \<and> yaml_read s cod io (ys_path st) (ys_file st) = Inr v
            \<and> st' = st\<lparr>ys_cache := \<lparr>c_value = Some v, c_valid = True, c_exists = True,
                                           c_mod = fmtime f, c_size = length (fdata f)\<rparr>\<rparr>)"
proof (cases "io_stat io")
  case (Some e)
  with assms show ?thesis by (auto simp: cache_read_def)
next
  case None
  show ?thesis
  proof (cases "ys_file st")
    case None
    with assms \<open>io_stat io = None\<close> show ?thesis by (auto simp: cache_read_def)
  next
    case (Some f)
    let ?hit = "c_valid (ys_cache st) \<and> c_exists (ys_cache st) \<and> c_size (ys_cache st) = length (fdata f)
      \<and> c_mod (ys_cache st) = fmtime f \<and> c_value (ys_cache st) \<noteq> None"
    show ?thesis
    proof (cases ?hit)
      case True
      with assms None Some show ?thesis by (auto simp: cache_read_def)
    next
      case False
      then have eq: "cache_read s cod io st = (case yaml_read s cod io (ys_path st) (ys_file st) of
                           Inl e \<Rightarrow> (Inl e, cache_invalidate st)
                         | Inr cfg \<Rightarrow>
                             (Inr cfg, st\<lparr>ys_cache := \<lparr>c_value = Some cfg, c_valid = True, c_exists = True,
                                           c_mod = fmtime f, c_size = length (fdata f)\<rparr>\<rparr>))"
        using None Some by (simp only: cache_read_def Let_def option.case if_not_P if_False)
      then show ?thesis
      proof (cases "yaml_read s cod io (ys_path st) (ys_file st)")
        case (Inl e)
        with eq assms have "r = Inl e" "st' = cache_invalidate st" by simp_all
        then show ?thesis by simp
      next
        case (Inr v)
        with eq assms Some show ?thesis by auto
      qed
    qed
  qed
qed

lemma cache_read_file [simp]:
  "ys_file (snd (cache_read s cod io st)) = ys_file st"
  "ys_path (snd (cache_read s cod io st)) = ys_path st"
  using cache_read_cases[of s cod io st "fst (cache_read s cod io st)" "snd (cache_read s cod io st)"]
  by auto

lemma coherent_cache_read:
  assumes "coherent s cod st"
  shows "coherent s cod (snd (cache_read s cod io st))"
proof -
  obtain r st' where cr: "cache_read s cod io st = (r, st')" by force
  from cache_read_cases[OF this] show ?thesis
    using assms yaml_read_Inr[of s cod io "ys_path st" "ys_file st"] cr
    by (auto simp: coherent_def disk_config_def)
qed

lemma cache_read_Inr:
  assumes "coherent s cod st" "cache_read s cod io st = (Inr cfg, st')"
  shows "disk_config s cod st = Inr cfg"
  using cache_read_cases[OF assms(2)] assms(1) yaml_read_Inr[of s cod io "ys_path st" "ys_file st"]
  by (auto simp: coherent_def disk_config_def Let_def yaml_read_missing)

lemma cache_read_transparent_core:
  assumes "coherent s cod st" "io_stat io = None" "io_read io = None"
    and "\<And>g. fo = Some g \<Longrightarrow> c_valid (ys_cache st) \<Longrightarrow> c_mod (ys_cache st) = fmtime g \<Longrightarrow>
           c_size (ys_cache st) = length (fdata g) \<Longrightarrow> ys_file st = Some g"
  shows "fst (cache_read s cod io (external_edit fo st)) = disk_config s cod (external_edit fo st)
       \<and> coherent s cod (snd (cache_read s cod io (external_edit fo st)))"
proof -
  let ?st = "external_edit fo st"
  have co: "coherent s cod ?st"
    using assms(1,4) by (auto simp: coherent_def external_edit_def Let_def disk_config_def)
  have eq: "yaml_read s cod io (ys_path ?st) (ys_file ?st) = disk_config s cod ?st"
    unfolding disk_config_def by (rule yaml_read_fine[OF assms(2,3)])
  have "fst (cache_read s cod io ?st) = disk_config s cod ?st"
  proof (cases "ys_file ?st")
    case None
    then show ?thesis
      using assms(2,3) by (simp add: cache_read_def disk_config_def yaml_read_def io_fine_def)
  next
    case (Some f)
    then show ?thesis
      using co eq assms(2)
      by (auto simp: cache_read_def Let_def coherent_def split: sum.split)
  qed
  with coherent_cache_read[OF co] show ?thesis by simp
qed

text \<open>
  The cache never changes an answer: in a coherent state, and whatever another process did to
  the file as long as a changed file has another size or modification time than the cached one, a
  cached read returns exactly what an uncached read of the current file returns, and leaves the
  state coherent.
\<close>

theorem cache_read_transparent:
  assumes "coherent s cod st" "io_stat io = None" "io_read io = None"
    and "\<And>g. fo = Some g \<Longrightarrow> c_valid (ys_cache st) \<Longrightarrow> c_mod (ys_cache st) = fmtime g \<Longrightarrow>
           c_size (ys_cache st) = length (fdata g) \<Longrightarrow> ys_file st = Some g"
  shows "fst (cache_read s cod io (external_edit fo st)) = disk_config s cod (external_edit fo st)
       \<and> coherent s cod (snd (cache_read s cod io (external_edit fo st)))"
  using assms by (rule cache_read_transparent_core)

theorem cache_read_transparent_witness:
  "fst (cache_read \<lparr>sc_kind = ''asset'', sc_empty = (0 :: nat), sc_validate = (\<lambda>_. None)\<rparr>
          \<lparr>dec = (\<lambda>d. Decoded (length d)), enc = (\<lambda>n. Inr (replicate n CHR ''x''))\<rparr> (io_fine 7)
          (external_edit (Some \<lparr>fdata = ''xyz'', fmtime = 5\<rparr>)
            \<lparr>ys_path = ''a.yaml'', ys_file = Some \<lparr>fdata = ''x'', fmtime = 4\<rparr>,
             ys_cache = \<lparr>c_value = Some 1, c_valid = True, c_exists = True, c_mod = 4, c_size = 1\<rparr>\<rparr>)) = Inr 3"
  (is "fst (cache_read ?s ?c ?io (external_edit ?f ?st)) = _")
proof -
  have "fst (cache_read ?s ?c ?io (external_edit ?f ?st)) = disk_config ?s ?c (external_edit ?f ?st)
      \<and> coherent ?s ?c (snd (cache_read ?s ?c ?io (external_edit ?f ?st)))"
    by (rule cache_read_transparent)
       (auto simp: coherent_def Let_def disk_config_def yaml_read_def io_fine_def res_of_def)
  then show ?thesis
    by (simp add: disk_config_def yaml_read_def external_edit_def io_fine_def res_of_def)
qed

section \<open>Atomic replacement\<close>

lemma yaml_write_cases:
  assumes "yaml_write s cod io cfg st = (r, st')"
  shows "(r \<noteq> None \<and> st' = st)
       \<or> (\<exists>d. r = None \<and> enc cod cfg = Inr d \<and> st' = st\<lparr>ys_file := Some \<lparr>fdata = d, fmtime = io_now io\<rparr>\<rparr>)"
  using assms by (auto simp: yaml_write_def split: option.splits sum.splits)

lemma cache_write_Some:
  "cache_write s cod io cfg st = (Some e, st') \<Longrightarrow>
   disk_config s cod st' = disk_config s cod st \<and> coherent s cod st'"
  unfolding cache_write_def by (drule yaml_write_cases) (auto intro: disk_config_cong)

lemma cache_write_None:
  assumes "codec_ok cod" "cache_write s cod io cfg st = (None, st')"
  shows "disk_config s cod st' = res_of (sc_validate s cfg) cfg \<and> coherent s cod st'"
proof -
  obtain d where d: "enc cod cfg = Inr d"
    and st': "st' = (cache_invalidate st)\<lparr>ys_file := Some \<lparr>fdata = d, fmtime = io_now io\<rparr>\<rparr>"
    using yaml_write_cases[OF assms(2)[unfolded cache_write_def]] by auto
  have "d \<noteq> []" "dec cod d = Decoded cfg" using assms(1) d by (auto simp: codec_ok_def)
  then show ?thesis
    by (simp add: st' disk_config_def yaml_read_def io_fine_def coherent_def Let_def)
qed

lemma cache_write_fine:
  assumes "enc cod cfg = Inr d"
  shows "fst (cache_write s cod (io_fine now) cfg st) = None"
  using assms by (simp add: cache_write_def yaml_write_def io_fine_def)

end
