(* ===== verification/KeyedStore.thy ===== *)
theory KeyedStore
  imports YamlStore
begin

text \<open>
  The shape the asset, backup and notification stores share: a YAML list of entries with a unique
  string key, read through the cache, updated under the file lock by overwriting the first entry
  with the key or appending, and deleted by key. The operations here are the common code, taken
  from the three stores with their names and nouns as parameters (\<open>kspec\<close>); each store's theory
  instantiates them. The locale \<open>keyed_store\<close> is the contract the callers rely on; its main lemma
  says that any sequence of operations, successful or failing, acts on the stored entries as on an
  abstract map.
\<close>

section \<open>The common operations\<close>

record 'e kspec =
  ks_kind :: string
  ks_dup :: string
  ks_key :: "'e \<Rightarrow> string"
  ks_validate :: "'e \<Rightarrow> go_error option"
  ks_not_found :: sentinel

fun validate_entries :: "'e kspec \<Rightarrow> nat \<Rightarrow> string list \<Rightarrow> 'e list \<Rightarrow> go_error option" where
  "validate_entries sp i seen [] = None"
| "validate_entries sp i seen (e # es) =
     (case ks_validate sp e of
        Some x \<Rightarrow> Some (wrap (''invalid '' @ ks_kind sp @ '' entry '' @ show_nat (Suc i) @ '': '') x [])
      | None \<Rightarrow>
          (if ks_key sp e \<in> set seen
           then Some (errors_new (''duplicate '' @ ks_dup sp @ '' '' @ go_quote (ks_key sp e)))
           else validate_entries sp (Suc i) (ks_key sp e # seen) es))"

definition schema_of :: "string \<Rightarrow> 'e kspec \<Rightarrow> 'e list schema" where
  "schema_of kind sp = \<lparr>sc_kind = kind, sc_empty = [], sc_validate = validate_entries sp 0 []\<rparr>"

definition lock_error :: "go_error \<Rightarrow> go_error" where
  "lock_error e = wrap ''failed to acquire file lock: '' e []"

definition not_found_error :: "'e kspec \<Rightarrow> string \<Rightarrow> go_error" where
  "not_found_error sp k = wrap [] (sentinel_error (ks_not_found sp)) ('': '' @ k)"

definition list_entries ::
    "'e list schema \<Rightarrow> 'e list codec \<Rightarrow> io \<Rightarrow> 'e list ystore \<Rightarrow> 'e list res \<times> 'e list ystore" where
  "list_entries sc cod io st = cache_read sc cod io st"

definition get_entry ::
    "'e kspec \<Rightarrow> 'e list schema \<Rightarrow> 'e list codec \<Rightarrow> io \<Rightarrow> string \<Rightarrow> 'e list ystore \<Rightarrow> 'e res \<times> 'e list ystore" where
  "get_entry sp sc cod io k st =
     (case cache_read sc cod io st of
        (Inl e, st1) \<Rightarrow> (Inl e, st1)
      | (Inr cfg, st1) \<Rightarrow>
          (case find_key (ks_key sp) k cfg of
             None \<Rightarrow> (Inl (not_found_error sp k), st1)
           | Some x \<Rightarrow> (Inr x, st1)))"

definition save_entry ::
    "'e kspec \<Rightarrow> 'e list schema \<Rightarrow> 'e list codec \<Rightarrow> io \<Rightarrow> 'e \<Rightarrow> 'e list ystore \<Rightarrow> unit res \<times> 'e list ystore" where
  "save_entry sp sc cod io x st =
     (case ks_validate sp x of
        Some e \<Rightarrow> (Inl e, st)
      | None \<Rightarrow>
     (case io_lock io of
        Some e \<Rightarrow> (Inl (lock_error e), st)
      | None \<Rightarrow>
     (case cache_read sc cod io st of
        (Inl e, st1) \<Rightarrow> (Inl e, st1)
      | (Inr cfg, st1) \<Rightarrow>
          (case cache_write sc cod io (upsert (ks_key sp) x cfg) st1 of (r, st2) \<Rightarrow> (res_of r (), st2)))))"

definition delete_entry ::
    "'e kspec \<Rightarrow> 'e list schema \<Rightarrow> 'e list codec \<Rightarrow> io \<Rightarrow> string \<Rightarrow> 'e list ystore \<Rightarrow> unit res \<times> 'e list ystore" where
  "delete_entry sp sc cod io k st =
     (case io_lock io of
        Some e \<Rightarrow> (Inl (lock_error e), st)
      | None \<Rightarrow>
     (case cache_read sc cod io st of
        (Inl e, st1) \<Rightarrow> (Inl e, st1)
      | (Inr cfg, st1) \<Rightarrow>
          (if find_key (ks_key sp) k cfg = None then (Inl (not_found_error sp k), st1)
           else (case cache_write sc cod io (del_key (ks_key sp) k cfg) st1 of
                   (r, st2) \<Rightarrow> (res_of r (), st2)))))"

text \<open>
  What the file of the store holds, and when it is well formed: the file decodes to a valid
  configuration and the cache does not contradict it.
\<close>

definition store_entries :: "'e list schema \<Rightarrow> 'e list codec \<Rightarrow> 'e list ystore \<Rightarrow> 'e list" where
  "store_entries sc cod st = (case disk_config sc cod st of Inl e \<Rightarrow> [] | Inr cfg \<Rightarrow> cfg)"

definition store_wf :: "'e list schema \<Rightarrow> 'e list codec \<Rightarrow> 'e list ystore \<Rightarrow> bool" where
  "store_wf sc cod st \<longleftrightarrow>
     codec_ok cod \<and> coherent sc cod st
     \<and> (case disk_config sc cod st of Inl e \<Rightarrow> False | Inr cfg \<Rightarrow> True)"

section \<open>The contract\<close>

text \<open>A run of operations with the system-call outcomes of each, and the abstract map it acts on.\<close>

fun run_ops ::
    "(io \<Rightarrow> 'e \<Rightarrow> 's \<Rightarrow> unit res \<times> 's) \<Rightarrow> (io \<Rightarrow> 'k \<Rightarrow> 's \<Rightarrow> unit res \<times> 's) \<Rightarrow> (io \<times> ('e + 'k)) list \<Rightarrow> 's
     \<Rightarrow> unit res list \<times> 's" where
  "run_ops save del [] s = ([], s)"
| "run_ops save del ((io, op) # ops) s =
     (case (case op of Inl e \<Rightarrow> save io e s | Inr k \<Rightarrow> del io k s) of
        (r, s1) \<Rightarrow> (case run_ops save del ops s1 of (rs, s2) \<Rightarrow> (r # rs, s2)))"

fun map_ops ::
    "('e \<Rightarrow> 'k) \<Rightarrow> ('e \<Rightarrow> 'e) \<Rightarrow> ('e + 'k) list \<Rightarrow> unit res list \<Rightarrow> ('k \<rightharpoonup> 'e) \<Rightarrow> ('k \<rightharpoonup> 'e)" where
  "map_ops key nrm (op # ops) (r # rs) m =
     map_ops key nrm ops rs
       (case r of Inl e \<Rightarrow> m | Inr u \<Rightarrow> (case op of Inl x \<Rightarrow> m(key x \<mapsto> nrm x) | Inr k \<Rightarrow> m(k := None)))"
| "map_ops key nrm ops rs m = m"

locale keyed_store =
  fixes key :: "'e \<Rightarrow> 'k"
    and nrm :: "'e \<Rightarrow> 'e"
    and entries :: "'s \<Rightarrow> 'e list"
    and wf :: "'s \<Rightarrow> bool"
    and valid :: "'e \<Rightarrow> bool"
    and get :: "io \<Rightarrow> 'k \<Rightarrow> 's \<Rightarrow> 'e res \<times> 's"
    and save :: "io \<Rightarrow> 'e \<Rightarrow> 's \<Rightarrow> unit res \<times> 's"
    and del :: "io \<Rightarrow> 'k \<Rightarrow> 's \<Rightarrow> unit res \<times> 's"
  assumes nrm_key: "key (nrm e) = key e"
    and wf_distinct: "wf s \<Longrightarrow> distinct (map key (entries s))"
    and wf_valid: "wf s \<Longrightarrow> e \<in> set (entries s) \<Longrightarrow> valid e"
    and get_frame: "wf s \<Longrightarrow> get io k s = (r, s') \<Longrightarrow> wf s' \<and> entries s' = entries s"
    and get_found: "wf s \<Longrightarrow> get io k s = (Inr e, s') \<Longrightarrow> find_key key k (entries s) = Some e"
    and get_complete: "wf s \<Longrightarrow> find_key key k (entries s) = Some e \<Longrightarrow> fst (get (io_fine t) k s) = Inr e"
    and save_ok: "wf s \<Longrightarrow> save io e s = (Inr u, s') \<Longrightarrow>
                    valid (nrm e) \<and> wf s' \<and> entries s' = upsert key (nrm e) (entries s)"
    and save_fails: "wf s \<Longrightarrow> save io e s = (Inl x, s') \<Longrightarrow> wf s' \<and> entries s' = entries s"
    and del_ok: "wf s \<Longrightarrow> del io k s = (Inr u, s') \<Longrightarrow>
                    k \<in> key ` set (entries s) \<and> wf s' \<and> entries s' = del_key key k (entries s)"
    and del_fails: "wf s \<Longrightarrow> del io k s = (Inl x, s') \<Longrightarrow> wf s' \<and> entries s' = entries s"
begin

lemma get_after_save:
  "wf s \<Longrightarrow> save io e s = (Inr u, s') \<Longrightarrow> fst (get (io_fine t) (key e) s') = Inr (nrm e)"
  using save_ok by (intro get_complete) (auto simp: store_simps nrm_key)

lemma save_keeps_others:
  "wf s \<Longrightarrow> save io e s = (Inr u, s') \<Longrightarrow> k \<noteq> key e \<Longrightarrow>
   find_key key k (entries s') = find_key key k (entries s)"
  using save_ok by (auto simp: store_simps nrm_key)

lemma get_after_delete:
  "wf s \<Longrightarrow> del io k s = (Inr u, s') \<Longrightarrow> fst (get io' k s') \<noteq> Inr e"
  using del_ok[of s io k u s'] wf_distinct[of s] get_found[of s' io' k]
  by (cases "get io' k s'") (auto simp: store_simps)

lemma delete_undoes_save:
  assumes "wf s" "save io e s = (Inr u, s1)" "key e \<notin> key ` set (entries s)" "del io' (key e) s1 = (Inr u', s2)"
  shows "entries s2 = entries s"
proof -
  have up: "entries s1 = upsert key (nrm e) (entries s)" "wf s1" using save_ok[OF assms(1,2)] by auto
  have app: "upsert f y xs = xs @ [y]" if "f y \<notin> f ` set xs" for f :: "'e \<Rightarrow> 'k" and y xs
    using that by (induction xs) auto
  have del: "del_key f (f y) (xs @ [y]) = xs" if "f y \<notin> f ` set xs" for f :: "'e \<Rightarrow> 'k" and y xs
    using that by (induction xs) auto
  show ?thesis using del_ok[OF up(2) assms(4)] up(1) app del assms(3) nrm_key by metis
qed

lemma run_ops_refines:
  assumes "wf s" "run_ops save del ops s = (rs, s')"
  shows "wf s' \<and> (\<lambda>k. find_key key k (entries s')) =
           map_ops key nrm (map snd ops) rs (\<lambda>k. find_key key k (entries s))"
  using assms
proof (induction ops arbitrary: s rs)
  case Nil
  then show ?case by simp
next
  case (Cons io_op ops)
  obtain io op where io_op: "io_op = (io, op)" by force
  obtain r s1 where step: "(case op of Inl e \<Rightarrow> save io e s | Inr k \<Rightarrow> del io k s) = (r, s1)" by force
  obtain rs1 s2 where rest: "run_ops save del ops s1 = (rs1, s2)" by force
  have rs: "rs = r # rs1" "s' = s2" using Cons.prems(2) io_op step rest by auto
  have one: "wf s1 \<and> (\<lambda>k. find_key key k (entries s1)) =
      (case r of Inl e \<Rightarrow> (\<lambda>k. find_key key k (entries s))
       | Inr u \<Rightarrow> (case op of Inl x \<Rightarrow> (\<lambda>k. find_key key k (entries s))(key x \<mapsto> nrm x)
                  | Inr k \<Rightarrow> (\<lambda>k. find_key key k (entries s))(k := None)))"
  proof (cases r)
    case (Inl e)
    then show ?thesis
      using step save_fails[OF Cons.prems(1)] del_fails[OF Cons.prems(1)] by (cases op) fastforce+
  next
    case (Inr u)
    show ?thesis
    proof (cases op)
      case (Inl x)
      then have "wf s1 \<and> entries s1 = upsert key (nrm x) (entries s)"
        using step Inr save_ok[OF Cons.prems(1)] by auto
      then show ?thesis using Inl Inr by (auto simp: store_simps fun_eq_iff nrm_key)
    next
      case (Inr k)
      then have "wf s1 \<and> entries s1 = del_key key k (entries s)"
        using step \<open>r = Inr u\<close> del_ok[OF Cons.prems(1)] by auto
      then show ?thesis
        using Inr \<open>r = Inr u\<close> wf_distinct[OF Cons.prems(1)] by (auto simp: store_simps fun_eq_iff)
    qed
  qed
  have "run_ops save del ops s1 = (rs1, s')" using rest rs by simp
  from Cons.IH[OF conjunct1[OF one] this] one io_op rs show ?case by simp
qed

end

section \<open>The common operations meet the contract\<close>

lemma validate_entries_None:
  "validate_entries sp i seen es = None \<longleftrightarrow>
   (\<forall>e\<in>set es. ks_validate sp e = None) \<and> distinct (map (ks_key sp) es)
   \<and> ks_key sp ` set es \<inter> set seen = {}"
  by (induction es arbitrary: i seen) (auto split: option.splits)

lemma schema_validate_None:
  "sc_validate (schema_of kind sp) es = None \<longleftrightarrow>
   (\<forall>e\<in>set es. ks_validate sp e = None) \<and> distinct (map (ks_key sp) es)"
  by (simp add: schema_of_def validate_entries_None)

lemma schema_empty [simp]: "sc_empty (schema_of kind sp) = []"
  by (simp add: schema_of_def)

lemma disk_config_valid:
  assumes "disk_config (schema_of kind sp) cod st = Inr cfg"
  shows "sc_validate (schema_of kind sp) cfg = None"
proof -
  have "sc_validate (schema_of kind sp) [] = None" by (simp add: schema_validate_None)
  then show ?thesis using assms
    by (cases "ys_file st")
       (auto simp: disk_config_def yaml_read_def io_fine_def res_of_def
             split: if_splits decoded.splits option.splits)
qed

lemma store_wf_obtain:
  assumes "store_wf (schema_of kind sp) cod st"
  obtains cfg where "disk_config (schema_of kind sp) cod st = Inr cfg" "store_entries (schema_of kind sp) cod st = cfg"
    "codec_ok cod" "coherent (schema_of kind sp) cod st" "sc_validate (schema_of kind sp) cfg = None"
  using assms disk_config_valid[of kind sp cod st]
  by (cases "disk_config (schema_of kind sp) cod st") (auto simp: store_wf_def store_entries_def)

lemma store_frame:
  assumes "store_wf sc cod st" "disk_config sc cod st' = disk_config sc cod st" "coherent sc cod st'"
  shows "store_wf sc cod st' \<and> store_entries sc cod st' = store_entries sc cod st"
  using assms by (simp add: store_wf_def store_entries_def)

lemma cache_read_frame:
  assumes "store_wf sc cod st" "cache_read sc cod io st = (r, st')"
  shows "store_wf sc cod st' \<and> store_entries sc cod st' = store_entries sc cod st"
proof -
  have "st' = snd (cache_read sc cod io st)" using assms(2) by simp
  then show ?thesis
    using assms(1) by (intro store_frame)
      (auto simp: store_wf_def intro!: disk_config_cong coherent_cache_read)
qed

lemma cache_read_entries:
  assumes "store_wf sc cod st" "cache_read sc cod io st = (Inr cfg, st')"
  shows "store_entries sc cod st = cfg"
  using cache_read_Inr[OF _ assms(2)] assms(1) by (simp add: store_wf_def store_entries_def)

lemma cache_read_fine:
  assumes "store_wf sc cod st"
  shows "fst (cache_read sc cod (io_fine t) st) = Inr (store_entries sc cod st)"
proof -
  have co: "coherent sc cod st" using assms by (simp add: store_wf_def)
  obtain cfg where cfg: "disk_config sc cod st = Inr cfg"
    using assms by (auto simp: store_wf_def split: sum.splits)
  have "fst (cache_read sc cod (io_fine t) (external_edit (ys_file st) st))
      = disk_config sc cod (external_edit (ys_file st) st)"
    by (rule conjunct1[OF cache_read_transparent_core[OF co]]) (simp_all add: io_fine_def)
  then show ?thesis using cfg by (simp add: external_edit_def store_entries_def)
qed

lemma write_back:
  assumes wf: "store_wf (schema_of kind sp) cod st"
    and valid: "sc_validate (schema_of kind sp) cfg = None"
    and wr: "cache_write (schema_of kind sp) cod io cfg st = (r, st')"
  shows "store_wf (schema_of kind sp) cod st' \<and>
    store_entries (schema_of kind sp) cod st' =
      (case r of None \<Rightarrow> cfg | Some e \<Rightarrow> store_entries (schema_of kind sp) cod st)"
proof (cases r)
  case None
  have "codec_ok cod" using wf by (simp add: store_wf_def)
  from cache_write_None[OF this] wr None valid show ?thesis
    using \<open>codec_ok cod\<close> by (auto simp: store_wf_def store_entries_def res_of_def)
next
  case (Some e)
  then show ?thesis using cache_write_Some[of "schema_of kind sp" cod io cfg st e st'] wr wf store_frame by auto
qed

lemma save_entry_cases:
  assumes wf: "store_wf (schema_of kind sp) cod st"
    and sv: "save_entry sp (schema_of kind sp) cod io x st = (r, st')"
  shows "store_wf (schema_of kind sp) cod st' \<and>
    (case r of
       Inl e \<Rightarrow> store_entries (schema_of kind sp) cod st' = store_entries (schema_of kind sp) cod st
     | Inr u \<Rightarrow> ks_validate sp x = None \<and> store_entries (schema_of kind sp) cod st'
                  = upsert (ks_key sp) x (store_entries (schema_of kind sp) cod st))"
proof (cases "ks_validate sp x = None \<and> io_lock io = None")
  case False
  then show ?thesis using sv wf by (auto simp: save_entry_def split: option.splits)
next
  case True
  obtain rr st1 where rd: "cache_read (schema_of kind sp) cod io st = (rr, st1)" by force
  note fr = cache_read_frame[OF wf rd]
  show ?thesis
  proof (cases rr)
    case (Inl e)
    then show ?thesis using sv True rd fr by (auto simp: save_entry_def)
  next
    case (Inr cfg)
    obtain w st2 where wr: "cache_write (schema_of kind sp) cod io (upsert (ks_key sp) x cfg) st1 = (w, st2)"
      by force
    have cfg: "store_entries (schema_of kind sp) cod st = cfg" using cache_read_entries wf rd Inr by blast
    obtain c where "sc_validate (schema_of kind sp) cfg = None" using store_wf_obtain[OF wf] cfg by metis
    then have "sc_validate (schema_of kind sp) (upsert (ks_key sp) x cfg) = None"
      using True set_upsert_subset[of "ks_key sp" x cfg]
      by (auto simp: schema_validate_None distinct_upsert)
    from write_back[OF conjunct1[OF fr] this wr] show ?thesis
      using sv True rd Inr wr fr cfg by (auto simp: save_entry_def res_of_def split: option.splits)
  qed
qed

lemma delete_entry_cases:
  assumes wf: "store_wf (schema_of kind sp) cod st"
    and sv: "delete_entry sp (schema_of kind sp) cod io k st = (r, st')"
  shows "store_wf (schema_of kind sp) cod st' \<and>
    (case r of
       Inl e \<Rightarrow> store_entries (schema_of kind sp) cod st' = store_entries (schema_of kind sp) cod st
     | Inr u \<Rightarrow> k \<in> ks_key sp ` set (store_entries (schema_of kind sp) cod st)
              \<and> store_entries (schema_of kind sp) cod st'
                  = del_key (ks_key sp) k (store_entries (schema_of kind sp) cod st))"
proof (cases "io_lock io")
  case (Some e)
  then show ?thesis using sv wf by (auto simp: delete_entry_def)
next
  case None
  obtain rr st1 where rd: "cache_read (schema_of kind sp) cod io st = (rr, st1)" by force
  note fr = cache_read_frame[OF wf rd]
  show ?thesis
  proof (cases rr)
    case (Inl e)
    then show ?thesis using sv None rd fr by (auto simp: delete_entry_def)
  next
    case (Inr cfg)
    have cfg: "store_entries (schema_of kind sp) cod st = cfg" using cache_read_entries wf rd Inr by blast
    show ?thesis
    proof (cases "find_key (ks_key sp) k cfg = None")
      case True
      then show ?thesis using sv None rd Inr fr by (auto simp: delete_entry_def)
    next
      case False
      obtain w st2 where wr: "cache_write (schema_of kind sp) cod io (del_key (ks_key sp) k cfg) st1 = (w, st2)"
        by force
      have "sc_validate (schema_of kind sp) cfg = None" using store_wf_obtain[OF wf] cfg by metis
      then have "sc_validate (schema_of kind sp) (del_key (ks_key sp) k cfg) = None"
        using set_del_key_subset[of "ks_key sp" k cfg] by (auto simp: schema_validate_None distinct_del_key)
      from write_back[OF conjunct1[OF fr] this wr] show ?thesis
        using sv None rd Inr wr fr cfg False
        by (auto simp: delete_entry_def res_of_def find_key_None split: option.splits)
    qed
  qed
qed

lemma get_entry_frame:
  assumes "store_wf sc cod st" "get_entry sp sc cod io k st = (r, st')"
  shows "store_wf sc cod st' \<and> store_entries sc cod st' = store_entries sc cod st"
  using assms cache_read_frame[OF assms(1)]
  by (cases "cache_read sc cod io st") (auto simp: get_entry_def split: sum.splits option.splits)

lemma get_entry_found:
  assumes "store_wf sc cod st" "get_entry sp sc cod io k st = (Inr e, st')"
  shows "find_key (ks_key sp) k (store_entries sc cod st) = Some e"
  using assms cache_read_entries[OF assms(1)]
  by (cases "cache_read sc cod io st") (auto simp: get_entry_def split: sum.splits option.splits)

lemma get_entry_complete:
  assumes "store_wf sc cod st" "find_key (ks_key sp) k (store_entries sc cod st) = Some e"
  shows "fst (get_entry sp sc cod (io_fine t) k st) = Inr e"
  using assms cache_read_fine[OF assms(1), of t]
  by (cases "cache_read sc cod (io_fine t) st") (auto simp: get_entry_def)

lemma keyed_store_ops:
  "keyed_store (ks_key sp) (\<lambda>e. e) (store_entries (schema_of kind sp) cod) (store_wf (schema_of kind sp) cod)
     (\<lambda>x. ks_validate sp x = None) (get_entry sp (schema_of kind sp) cod)
     (save_entry sp (schema_of kind sp) cod) (delete_entry sp (schema_of kind sp) cod)"
proof (standard, goal_cases)
  case 1 show ?case by simp
next
  case (2 s) then show ?case by (metis schema_validate_None store_wf_obtain)
next
  case (3 s e) then show ?case by (metis schema_validate_None store_wf_obtain)
next
  case 4 then show ?case by (rule get_entry_frame)
next
  case 5 then show ?case by (rule get_entry_found)
next
  case 6 then show ?case by (rule get_entry_complete)
next
  case 7 from save_entry_cases[OF 7] show ?case by simp
next
  case 8 from save_entry_cases[OF 8] show ?case by simp
next
  case 9 from delete_entry_cases[OF 9] show ?case by simp
next
  case 10 from delete_entry_cases[OF 10] show ?case by simp
qed

end
