(* ===== verification/AssetStore.thy ===== *)
theory AssetStore
  imports KeyedStore Paths
begin

text \<open>
  Package \<open>internal/asset\<close>: the asset record, its validation and the store of \<open>assets.yaml\<close>
  (\<open>List\<close>, \<open>Get\<close>, \<open>GetMultiple\<close>, \<open>Save\<close>, \<open>Delete\<close>).
\<close>

section \<open>Assets\<close>

datatype asset_type =
  TypeDockerCompose | TypeVolume | TypeDatabase | TypeDirectory | TypeFile | OtherType string

record asset =
  a_id :: string
  a_type :: asset_type
  a_source :: string
  a_engine :: string
  a_container :: string
  a_excludes :: "string list"
  a_description :: string

definition ErrInvalidAssetID :: sentinel where
  "ErrInvalidAssetID = ''asset id must be non-empty and contain only letters, numbers, hyphens, and underscores''"

definition ErrInvalidAssetType :: sentinel where
  "ErrInvalidAssetType = ''unsupported asset type''"

definition ErrInvalidAssetSource :: sentinel where
  "ErrInvalidAssetSource = ''asset source path cannot be empty''"

definition ErrAssetNotFound :: sentinel where
  "ErrAssetNotFound = ''asset not found''"

definition valid_id :: "string \<Rightarrow> bool" where
  "valid_id s \<longleftrightarrow> s \<noteq> [] \<and> list_all (\<lambda>c. is_alnum c \<or> c = CHR ''_'' \<or> c = CHR ''-'') s"

definition asset_validate :: "asset \<Rightarrow> go_error option" where
  "asset_validate a =
     (let trimmed = trim_space (a_id a)
      in if trimmed = [] \<or> \<not> valid_id trimmed then Some (sentinel_error ErrInvalidAssetID)
         else (case a_type a of
                 OtherType t \<Rightarrow> Some (sentinel_error ErrInvalidAssetType)
               | _ \<Rightarrow> (if trim_space (a_source a) = [] then Some (sentinel_error ErrInvalidAssetSource)
                      else None)))"

section \<open>The store\<close>

definition asset_spec :: "asset kspec" where
  "asset_spec = \<lparr>ks_kind = ''asset'', ks_dup = ''asset id'', ks_key = a_id,
     ks_validate = asset_validate, ks_not_found = ErrAssetNotFound\<rparr>"

definition asset_schema :: "asset list schema" where
  "asset_schema = schema_of ''asset'' asset_spec"

definition asset_list :: "asset list codec \<Rightarrow> io \<Rightarrow> asset list ystore \<Rightarrow> asset list res \<times> asset list ystore" where
  "asset_list cod io st = cache_read asset_schema cod io st"

definition asset_get :: "asset list codec \<Rightarrow> io \<Rightarrow> string \<Rightarrow> asset list ystore \<Rightarrow> asset res \<times> asset list ystore" where
  "asset_get cod = get_entry asset_spec asset_schema cod"

definition asset_save :: "asset list codec \<Rightarrow> io \<Rightarrow> asset \<Rightarrow> asset list ystore \<Rightarrow> unit res \<times> asset list ystore" where
  "asset_save cod = save_entry asset_spec asset_schema cod"

definition asset_delete :: "asset list codec \<Rightarrow> io \<Rightarrow> string \<Rightarrow> asset list ystore \<Rightarrow> unit res \<times> asset list ystore" where
  "asset_delete cod = delete_entry asset_spec asset_schema cod"

fun collect_assets :: "(string \<rightharpoonup> asset) \<Rightarrow> string list \<Rightarrow> asset list res" where
  "collect_assets m [] = Inr []"
| "collect_assets m (i # is) =
     (case m i of
        None \<Rightarrow> Inl (wrap [] (sentinel_error ErrAssetNotFound) ('': '' @ i))
      | Some a \<Rightarrow> (case collect_assets m is of Inl e \<Rightarrow> Inl e | Inr as \<Rightarrow> Inr (a # as)))"

definition asset_get_multiple ::
    "asset list codec \<Rightarrow> io \<Rightarrow> string list \<Rightarrow> asset list ystore \<Rightarrow> asset list res \<times> asset list ystore" where
  "asset_get_multiple cod io ids st =
     (case cache_read asset_schema cod io st of
        (Inl e, st1) \<Rightarrow> (Inl e, st1)
      | (Inr cfg, st1) \<Rightarrow> (collect_assets (foldl (\<lambda>m a. m(a_id a \<mapsto> a)) (\<lambda>_. None) cfg) ids, st1))"

definition asset_entries :: "asset list codec \<Rightarrow> asset list ystore \<Rightarrow> asset list" where
  "asset_entries cod st = store_entries asset_schema cod st"

definition asset_wf :: "asset list codec \<Rightarrow> asset list ystore \<Rightarrow> bool" where
  "asset_wf cod st = store_wf asset_schema cod st"

lemma asset_spec_sel [simp]:
  "ks_key asset_spec = a_id" "ks_validate asset_spec = asset_validate" "ks_not_found asset_spec = ErrAssetNotFound"
  by (simp_all add: asset_spec_def)

interpretation asset_store: keyed_store a_id "\<lambda>a. a" "asset_entries cod" "asset_wf cod"
    "\<lambda>a. asset_validate a = None" "asset_get cod" "asset_save cod" "asset_delete cod" for cod
  using keyed_store_ops[of asset_spec "''asset''" cod, folded asset_schema_def]
  unfolding asset_spec_sel asset_entries_def[abs_def] asset_wf_def[abs_def] asset_get_def asset_save_def asset_delete_def
  by simp

section \<open>GetMultiple\<close>

lemma foldl_map_upd:
  "distinct (map f xs) \<Longrightarrow>
   foldl (\<lambda>m a. m(f a \<mapsto> a)) m xs k = (case find_key f k xs of None \<Rightarrow> m k | Some a \<Rightarrow> Some a)"
proof (induction xs arbitrary: m)
  case (Cons x xs)
  have "find_key f (f x) xs = None" using Cons.prems by (simp add: find_key_None)
  with Cons show ?case by (auto split: option.splits)
qed simp

lemma collect_assets_Inr:
  "collect_assets m ids = Inr as \<Longrightarrow> map Some as = map m ids"
  by (induction ids arbitrary: as) (auto split: option.splits sum.splits)

lemma collect_assets_total:
  "\<forall>i\<in>set ids. m i \<noteq> None \<Longrightarrow> \<exists>as. collect_assets m ids = Inr as"
proof (induction ids)
  case (Cons i ids)
  then obtain as a where "collect_assets m ids = Inr as" "m i = Some a" by auto
  then show ?case by simp
qed simp

text \<open>A store on disk that every theorem about stores can start from: no file yet.\<close>

definition fresh_store :: "string \<Rightarrow> 'c ystore" where
  "fresh_store p = \<lparr>ys_path = p, ys_file = None, ys_cache = cache_empty\<rparr>"

text \<open>A codec of finitely many documents, for concrete runs of the stores.\<close>

definition table_codec :: "(string \<times> 'c) list \<Rightarrow> 'c codec" where
  "table_codec t =
     \<lparr>dec = (\<lambda>d. case map_of t d of Some c \<Rightarrow> Decoded c | None \<Rightarrow> BadYaml (errors_new ''bad'')),
      enc = (\<lambda>c. case find_key snd c t of Some (d, c') \<Rightarrow> Inr d | None \<Rightarrow> Inl (errors_new ''bad''))\<rparr>"

lemma table_codec_ok:
  assumes "distinct (map fst t)" "\<forall>d\<in>fst ` set t. d \<noteq> []"
  shows "codec_ok (table_codec t)"
proof -
  have "d \<noteq> [] \<and> map_of t d = Some c" if "find_key snd c t = Some (d, c')" for c d c'
    using find_key_Some[OF that] assms by (force simp: rev_image_eqI)
  then show ?thesis
    by (auto simp: codec_ok_def table_codec_def split: option.splits)
qed

lemma fresh_store_wf:
  "codec_ok cod \<Longrightarrow> store_wf (schema_of kind sp) cod (fresh_store p)"
  by (simp add: store_wf_def fresh_store_def coherent_def cache_empty_def disk_config_def yaml_read_def io_fine_def)

lemma fresh_store_entries: "store_entries (schema_of kind sp) cod (fresh_store p) = []"
  by (simp add: store_entries_def fresh_store_def disk_config_def yaml_read_def io_fine_def)

text \<open>A store whose file holds a valid configuration and whose cache is empty.\<close>

definition file_store :: "string \<Rightarrow> string \<Rightarrow> 'c ystore" where
  "file_store p d = \<lparr>ys_path = p, ys_file = Some \<lparr>fdata = d, fmtime = 0\<rparr>, ys_cache = cache_empty\<rparr>"

lemma file_store_wf:
  assumes "codec_ok cod" "dec cod d = Decoded cfg" "d \<noteq> []" "sc_validate (schema_of kind sp) cfg = None"
  shows "store_wf (schema_of kind sp) cod (file_store p d)"
    and "store_entries (schema_of kind sp) cod (file_store p d) = cfg"
  using assms
  by (simp_all add: store_wf_def store_entries_def file_store_def coherent_def cache_empty_def disk_config_def
      yaml_read_def io_fine_def res_of_def)

text \<open>
  \<open>GetMultiple\<close> answers like \<open>Get\<close> on each id, in the order asked: when every id is stored it
  returns exactly the stored assets, one per id (repetitions included), and it fails with
  \<open>ErrAssetNotFound\<close> as soon as one id is missing.
\<close>

theorem asset_get_multiple_spec:
  assumes "asset_wf cod st" "io_stat io = None" "io_read io = None"
  shows "case fst (asset_get_multiple cod io ids st) of
           Inr as \<Rightarrow> map Some as = map (\<lambda>i. find_key a_id i (asset_entries cod st)) ids
         | Inl e \<Rightarrow> errors_is e ErrAssetNotFound \<and> (\<exists>i\<in>set ids. i \<notin> a_id ` set (asset_entries cod st))"
proof -
  have wf: "store_wf asset_schema cod st" using assms(1) by (simp add: asset_wf_def)
  let ?m = "\<lambda>i. find_key a_id i (asset_entries cod st)"
  have "fst (cache_read asset_schema cod io (external_edit (ys_file st) st))
      = disk_config asset_schema cod (external_edit (ys_file st) st)"
    by (rule conjunct1[OF cache_read_transparent_core[OF _ assms(2,3)]]) (use wf in \<open>simp_all add: store_wf_def\<close>)
  then have rd: "fst (cache_read asset_schema cod io st) = Inr (asset_entries cod st)"
    using wf by (auto simp: external_edit_def asset_entries_def store_entries_def store_wf_def split: sum.splits)
  have m: "foldl (\<lambda>m a. m(a_id a \<mapsto> a)) (\<lambda>_. None) (asset_entries cod st) = ?m"
    using asset_store.wf_distinct[OF assms(1)] by (auto simp: foldl_map_upd split: option.splits)
  have res: "fst (asset_get_multiple cod io ids st) = collect_assets ?m ids"
    using rd m by (cases "cache_read asset_schema cod io st") (simp add: asset_get_multiple_def)
  have err: "errors_is e ErrAssetNotFound" if "collect_assets m js = Inl e" for m js e
    using that by (induction js) (auto simp: go_error_simps split: option.splits sum.splits)
  show ?thesis
  proof (cases "collect_assets ?m ids")
    case (Inl e)
    then have "\<exists>i\<in>set ids. ?m i = None" using collect_assets_total[of ids ?m] by force
    then show ?thesis using Inl err res by (auto simp: find_key_None)
  next
    case (Inr as)
    then show ?thesis using collect_assets_Inr res by auto
  qed
qed

theorem asset_get_multiple_witness:
  "case fst (asset_get_multiple (table_codec []) (io_fine 1) [''db''] (fresh_store ''assets.yaml'')) of
     Inr as \<Rightarrow> False | Inl e \<Rightarrow> errors_is e ErrAssetNotFound"
proof -
  have "codec_ok (table_codec ([] :: (string \<times> asset list) list))" by (rule table_codec_ok) simp_all
  then have "asset_wf (table_codec []) (fresh_store ''assets.yaml'')"
    by (simp add: asset_wf_def asset_schema_def fresh_store_wf)
  from asset_get_multiple_spec[OF this, of "io_fine 1" "[''db'']"] show ?thesis
    by (auto simp: io_fine_def asset_entries_def asset_schema_def fresh_store_entries split: sum.splits)
qed

end
