(* ===== verification/BackupModel.thy ===== *)
theory BackupModel
  imports AssetStore Shellquote
begin

text \<open>
  \<open>internal/backup/model.go\<close>: backup jobs, their validation, the container target syntax and the
  merge of a job's paths with its assets' sources. Go maps are association lists in the order an
  iteration visits them. \<open>unicode.IsLetter\<close> and \<open>unicode.IsDigit\<close> are exact on ASCII; their tables
  for runes from 128 up are the parameter \<open>uc\<close>.
\<close>

section \<open>Jobs\<close>

record retention_policy =
  KeepDaily :: int
  KeepWeekly :: int
  KeepMonthly :: int
  KeepYearly :: int
  KeepLast :: int
  KeepTags :: "string list"

record job =
  j_name :: string
  j_server :: string
  j_paths :: "string list"
  j_assets :: "string list"
  j_backend :: string
  j_env :: "(string \<times> string) list"
  j_retention :: "retention_policy option"
  j_excludes :: "string list"
  j_tags :: "string list"
  j_description :: string
  j_schedule :: string
  j_remap :: "(string \<times> string) list"

definition ErrInvalidJobName :: sentinel where
  "ErrInvalidJobName = ''job name cannot be empty''"

definition ErrInvalidJobServer :: sentinel where
  "ErrInvalidJobServer = ''job server cannot be empty''"

definition ErrInvalidJobPaths :: sentinel where
  "ErrInvalidJobPaths = ''job must specify at least one backup path''"

definition ErrInvalidJobBackend :: sentinel where
  "ErrInvalidJobBackend = ''job backend repository cannot be empty''"

definition ErrInvalidJobEnv :: sentinel where
  "ErrInvalidJobEnv = ''job env contains an invalid variable name''"

definition ErrInvalidJobSchedule :: sentinel where
  "ErrInvalidJobSchedule = ''job schedule is malformed''"

definition ErrJobNotFound :: sentinel where
  "ErrJobNotFound = ''backup job not found''"

definition MaxJobNameLength :: nat where
  "MaxJobNameLength = 64"

definition maxScheduleLength :: nat where
  "maxScheduleLength = 128"

section \<open>Validation\<close>

definition ascii_alnum :: "nat \<Rightarrow> bool" where
  "ascii_alnum r \<longleftrightarrow> (48 \<le> r \<and> r \<le> 57) \<or> (65 \<le> r \<and> r \<le> 90) \<or> (97 \<le> r \<and> r \<le> 122)"

definition letter_or_digit :: "(nat \<Rightarrow> bool) \<Rightarrow> nat \<Rightarrow> bool" where
  "letter_or_digit uc r \<longleftrightarrow> (if r < 128 then ascii_alnum r else uc r)"

definition name_error :: "string \<Rightarrow> string \<Rightarrow> go_error" where
  "name_error name rest = wrap [] (sentinel_error ErrInvalidJobName) ('': job name '' @ go_quote name @ rest)"

fun job_name_runes :: "(nat \<Rightarrow> bool) \<Rightarrow> string \<Rightarrow> nat list \<Rightarrow> go_error option" where
  "job_name_runes uc name [] = None"
| "job_name_runes uc name (r # rs) =
     (if letter_or_digit uc r \<or> r \<in> {46, 95, 64, 45} then job_name_runes uc name rs
      else if is_control r \<or> is_space r
        then Some (name_error name '' must not contain whitespace or control characters'')
      else Some (name_error name ('' may only contain letters, digits and '' @ [CHR 0x27] @ ''._@-'' @ [CHR 0x27])))"

definition ValidateJobName :: "(nat \<Rightarrow> bool) \<Rightarrow> string \<Rightarrow> go_error option" where
  "ValidateJobName uc name =
     (if trim_space name = [] then Some (sentinel_error ErrInvalidJobName)
      else if length (runes name) > MaxJobNameLength
        then Some (name_error name ('' is longer than '' @ show_nat MaxJobNameLength @ '' characters''))
      else if contains_str name ''..''
        then Some (name_error name ('' must not contain '' @ go_quote ''..''))
      else if has_prefix name ''.'' \<or> has_prefix name ''-''
        then Some (name_error name ('' must not start with '' @ [CHR 0x27] @ ''.'' @ [CHR 0x27] @ '' or ''
                    @ [CHR 0x27] @ ''-'' @ [CHR 0x27]))
      else job_name_runes uc name (runes name))"

definition validateScheduleShape :: "string \<Rightarrow> go_error option" where
  "validateScheduleShape spec =
     (let trimmed = trim_space spec
      in if length (runes trimmed) > maxScheduleLength
           then Some (errors_new (''schedule expression is longer than '' @ show_nat maxScheduleLength @ '' characters''))
         else if list_ex is_control (runes trimmed)
           then Some (errors_new ''schedule expression must be a single line without control characters'')
         else None)"

definition path_hint :: string where
  "path_hint = '' (note: '' @ [CHR 0x27] @ ''~'' @ [CHR 0x27]
     @ '' and relative paths are never expanded here; write the full path, e.g. /home/user/.config)''"

fun validate_job_paths :: "string \<Rightarrow> string list \<Rightarrow> go_error option" where
  "validate_job_paths name [] = None"
| "validate_job_paths name (p # ps) =
     (let trimmed = trim_space p
      in if trimmed = [] then Some (sentinel_error ErrInvalidJobPaths)
         else if \<not> has_prefix trimmed ''/''
           then Some (wrap [] (sentinel_error ErrInvalidJobPaths)
                  ('': job '' @ go_quote name @ '' path '' @ go_quote p @ '' must be an absolute path (e.g. /var/www)''
                   @ (if has_prefix trimmed ''~'' \<or> has_prefix trimmed ''.'' then path_hint else [])))
         else validate_job_paths name ps)"

fun validate_job_env :: "string \<Rightarrow> (string \<times> string) list \<Rightarrow> go_error option" where
  "validate_job_env name [] = None"
| "validate_job_env name ((k, v) # env) =
     (if valid_env_name k then validate_job_env name env
      else Some (wrap [] (sentinel_error ErrInvalidJobEnv)
             ('': job '' @ go_quote name @ '' env key '' @ go_quote k @ '' must match [A-Za-z_][A-Za-z0-9_]*'')))"

definition job_validate :: "(nat \<Rightarrow> bool) \<Rightarrow> job \<Rightarrow> go_error option" where
  "job_validate uc j =
     (case ValidateJobName uc (j_name j) of
        Some e \<Rightarrow> Some e
      | None \<Rightarrow>
     (if trim_space (j_server j) = [] then Some (sentinel_error ErrInvalidJobServer)
      else if j_paths j = [] \<and> j_assets j = [] then Some (sentinel_error ErrInvalidJobPaths)
      else (case validate_job_paths (j_name j) (j_paths j) of
        Some e \<Rightarrow> Some e
      | None \<Rightarrow>
     (if trim_space (j_backend j) = [] then Some (sentinel_error ErrInvalidJobBackend)
      else (case validate_job_env (j_name j) (j_env j) of
        Some e \<Rightarrow> Some e
      | None \<Rightarrow>
     (if trim_space (j_schedule j) \<noteq> []
      then (case validateScheduleShape (j_schedule j) of
              Some e \<Rightarrow> Some (Err (ErrInvalidJobSchedule @ '': job '' @ go_quote (j_name j) @ '': '' @ err_text e)
                              [ErrInvalidJobSchedule])
            | None \<Rightarrow> None)
      else None))))))"

definition ParseContainerTarget :: "string \<Rightarrow> string \<times> string \<times> bool" where
  "ParseContainerTarget arg =
     (let trimmed = trim_space arg
      in if \<not> contains_str trimmed '':'' then ([], [], False)
         else (case cut_at CHR '':'' trimmed of (a, b, found) \<Rightarrow>
           let srv = trim_space a; ctr = trim_space b
           in if srv = [] \<or> ctr = [] then ([], [], False) else (srv, ctr, True)))"

section \<open>Resolving assets\<close>

fun add_paths :: "string list \<Rightarrow> string list \<Rightarrow> string list" where
  "add_paths acc [] = acc"
| "add_paths acc (p # ps) =
     (let t = trim_space p
      in if t \<noteq> [] \<and> t \<notin> set acc then add_paths (acc @ [t]) ps else add_paths acc ps)"

fun add_assets ::
    "(string \<Rightarrow> 's \<Rightarrow> asset res \<times> 's) \<Rightarrow> string \<Rightarrow> string list \<Rightarrow> string list \<Rightarrow> 's \<Rightarrow> string list res \<times> 's" where
  "add_assets get name acc [] s = (Inr acc, s)"
| "add_assets get name acc (i # is) s =
     (case get i s of
        (Inl e, s1) \<Rightarrow>
          (Inl (wrap (''asset '' @ go_quote i @ '' referenced by job '' @ go_quote name @ '' not found: '') e []), s1)
      | (Inr a, s1) \<Rightarrow> add_assets get name (add_paths acc [a_source a]) is s1)"

text \<open>The store is \<open>None\<close> when the caller passes a nil store; \<open>get\<close> is \<open>Store.Get\<close> of the asset store.\<close>

definition ResolveAllPaths ::
    "(string \<Rightarrow> 's \<Rightarrow> asset res \<times> 's) option \<Rightarrow> job \<Rightarrow> 's \<Rightarrow> string list res \<times> 's" where
  "ResolveAllPaths store j s =
     (let result = add_paths [] (j_paths j)
      in case store of
           None \<Rightarrow> (Inr result, s)
         | Some get \<Rightarrow> add_assets get (j_name j) result (j_assets j) s)"

section \<open>Safe names\<close>

lemma job_name_runes_None:
  "job_name_runes uc name rs = None \<longleftrightarrow> (\<forall>r\<in>set rs. letter_or_digit uc r \<or> r \<in> {46, 95, 64, 45})"
  by (induction rs) auto

lemma path_join_child:
  assumes "is_rooted d" "plain n"
  shows "path_join [d, n] = abs_path (clean_elems d @ [n])"
proof -
  have "split_on slash n = [n]" using plain_no_slash[OF assms(2)] by (rule split_on_free)
  then have "clean_elems (d @ slash # n) = clean_elems d @ [n]"
    using clean_comps_step[OF assms(2)]
    by (simp add: clean_elems_def split_on_append_sep clean_comps_append)
  moreover have "is_rooted (d @ slash # n)" "d \<noteq> []" using assms(1) by (cases d; simp)+
  moreover have "n \<noteq> []" using assms(2) by (rule plain_nonempty)
  ultimately show ?thesis by (simp add: path_join_def path_clean_rooted)
qed

lemma job_name_ascii:
  assumes "ValidateJobName uc n = None" "c \<in> set n" "code_of c < 128"
  shows "is_alnum c \<or> c \<in> set ''._@-''"
proof -
  have "code_of c \<in> set (runes n)" using assms(2,3) by (rule runes_keeps_ascii)
  then have "letter_or_digit uc (code_of c) \<or> code_of c \<in> {46, 95, 64, 45}"
    using assms(1) by (auto simp: ValidateJobName_def job_name_runes_None split: if_splits)
  then consider "letter_or_digit uc (code_of c)" | "code_of c = 46" | "code_of c = 95" | "code_of c = 64"
    | "code_of c = 45" by blast
  then show ?thesis
  proof cases
    case 1
    then show ?thesis
      using assms(3) by (auto simp: letter_or_digit_def ascii_alnum_def is_alnum_def is_digit_def is_upper_def is_lower_def)
  qed (simp_all add: code_of_eq char_of_consts)
qed

lemma job_name_plain:
  assumes "ValidateJobName uc n = None"
  shows "plain n"
proof -
  have "code_of slash < 128" "\<not> is_alnum slash"
    by (simp_all add: code_of_def is_alnum_def is_digit_def is_upper_def is_lower_def)
  then have "slash \<notin> set n" using job_name_ascii[OF assms, of slash] by auto
  moreover have "n \<noteq> []" using assms by (auto simp: ValidateJobName_def)
  moreover have "n \<noteq> ''.''" "n \<noteq> ''..''" using assms
    by (auto simp: ValidateJobName_def has_prefix_def split: if_splits)
  ultimately show ?thesis by (simp add: plain_def)
qed

text \<open>
  A job name that \<open>ValidateJobName\<close> accepts is a single path segment and carries no shell
  syntax: its ASCII bytes are letters, digits or one of \<open>._@-\<close>, it does not begin with a dot or a
  hyphen, has no \<open>..\<close> and at most 64 runes, and joined to any absolute directory it names a direct
  child of that directory.
\<close>

theorem job_name_safe:
  assumes "ValidateJobName uc n = None"
  shows "(\<forall>c\<in>set n. code_of c < 128 \<longrightarrow> is_alnum c \<or> c \<in> set ''._@-'')
       \<and> hd n \<noteq> CHR ''.'' \<and> hd n \<noteq> CHR ''-'' \<and> \<not> contains_str n ''..'' \<and> length (runes n) \<le> 64
       \<and> (is_rooted d \<longrightarrow> path_join [d, n] = abs_path (clean_elems d @ [n]))"
proof -
  have ne: "n \<noteq> []" using assms by (auto simp: ValidateJobName_def)
  have "hd n \<noteq> CHR ''.''" "hd n \<noteq> CHR ''-''" "\<not> contains_str n ''..''" "length (runes n) \<le> 64"
    using assms ne by (cases n; auto simp: ValidateJobName_def MaxJobNameLength_def split: if_splits)+
  moreover have "path_join [d, n] = abs_path (clean_elems d @ [n])" if "is_rooted d"
    using that job_name_plain[OF assms] by (rule path_join_child)
  ultimately show ?thesis using job_name_ascii[OF assms] by blast
qed

theorem job_name_safe_witness:
  "path_join [''/var/backups/'', ''web-01.db''] = abs_path [''var'', ''backups'', ''web-01.db'']"
proof -
  have "ValidateJobName (\<lambda>_. False) ''web-01.db'' = None" by code_simp
  moreover have "clean_elems ''/var/backups/'' = [''var'', ''backups'']" by code_simp
  ultimately show ?thesis using job_name_safe[of "\<lambda>_. False" "''web-01.db''" "''/var/backups/''"] by simp
qed

section \<open>Resolved paths\<close>

lemma add_paths_props:
  "distinct acc \<Longrightarrow> distinct (add_paths acc ps)"
  "set (add_paths acc ps) = set acc \<union> (trim_space ` set ps - {[]})"
  "\<exists>r. add_paths acc ps = acc @ r"
  by (induction acc ps rule: add_paths.induct) (auto simp: Let_def)

lemma add_assets_props:
  assumes "asset_wf cod s" "add_assets (asset_get cod io) name acc ids s = (Inr r, s')" "distinct acc"
  shows "distinct r \<and> (\<exists>q. r = acc @ q)
       \<and> (\<forall>i\<in>set ids. i \<in> a_id ` set (asset_entries cod s))
       \<and> set r = set acc \<union> ((\<lambda>a. trim_space (a_source a)) ` {a \<in> set (asset_entries cod s). a_id a \<in> set ids} - {[]})"
  using assms
proof (induction ids arbitrary: acc s)
  case Nil
  then show ?case by auto
next
  case (Cons i ids)
  obtain g s1 where get: "asset_get cod io i s = (g, s1)" by force
  with Cons.prems(2) obtain a where a: "g = Inr a" by (cases g) auto
  let ?acc = "add_paths acc [a_source a]"
  have fr: "asset_wf cod s1" "asset_entries cod s1 = asset_entries cod s"
    using asset_store.get_frame[OF Cons.prems(1) get] by auto
  have fnd: "find_key a_id i (asset_entries cod s) = Some a"
    using asset_store.get_found[OF Cons.prems(1)] get a by blast
  have only: "b = a" if "b \<in> set (asset_entries cod s)" "a_id b = i" for b
    using find_key_distinct[OF asset_store.wf_distinct[OF Cons.prems(1)] that(1)] fnd that(2) by simp
  have aset: "{b \<in> set (asset_entries cod s). a_id b \<in> set (i # ids)}
      = insert a {b \<in> set (asset_entries cod s). a_id b \<in> set ids}"
    using only find_key_Some[OF fnd] by auto
  have rest: "add_assets (asset_get cod io) name ?acc ids s1 = (Inr r, s')" using Cons.prems(2) get a by simp
  have "i \<in> a_id ` set (asset_entries cod s)" using find_key_Some[OF fnd] by auto
  then show ?case
    using Cons.IH[OF fr(1) rest add_paths_props(1)[OF Cons.prems(3)]] fr(2) aset
      add_paths_props(2)[of acc "[a_source a]"] add_paths_props(3)[of acc "[a_source a]"]
    by (auto simp: image_iff)
qed

text \<open>
  \<open>ResolveAllPaths\<close> on the asset store of the program: when it succeeds, every referenced asset
  exists, and the result is the set of the job's non-blank paths and of the sources of its assets,
  trimmed, each exactly once and the job's own paths first.
\<close>

theorem resolve_all_paths_exact:
  assumes "asset_wf cod s" "ResolveAllPaths (Some (asset_get cod io)) j s = (Inr ps, s')"
  shows "distinct ps
       \<and> set (j_assets j) \<subseteq> a_id ` set (asset_entries cod s)
       \<and> set ps = (trim_space ` set (j_paths j)
                   \<union> (\<lambda>a. trim_space (a_source a)) ` {a \<in> set (asset_entries cod s). a_id a \<in> set (j_assets j)}) - {[]}
       \<and> (\<exists>q. ps = add_paths [] (j_paths j) @ q)"
  using add_assets_props[OF assms(1), of io "j_name j" "add_paths [] (j_paths j)" "j_assets j" ps s']
    assms(2) add_paths_props(1)[of "[]" "j_paths j"] add_paths_props(2)[of "[]" "j_paths j"]
  by (auto simp: ResolveAllPaths_def)

definition example_job :: job where
  "example_job = \<lparr>j_name = ''web'', j_server = ''s1'', j_paths = [''/etc '', ''/srv'', ''/etc''], j_assets = [],
     j_backend = ''/backup'', j_env = [], j_retention = None, j_excludes = [], j_tags = [],
     j_description = [], j_schedule = [], j_remap = []\<rparr>"

theorem resolve_all_paths_exact_witness:
  "distinct (add_paths [] [''/etc '', ''/srv'', ''/etc'']) \<and> set (add_paths [] [''/etc '', ''/srv'', ''/etc'']) = {''/etc'', ''/srv''}"
proof -
  let ?cod = "table_codec ([] :: (string \<times> asset list) list)"
  have "codec_ok ?cod" by (rule table_codec_ok) simp_all
  then have wf: "asset_wf ?cod (fresh_store ''assets.yaml'')"
    by (simp add: asset_wf_def asset_schema_def fresh_store_wf)
  have run: "ResolveAllPaths (Some (asset_get ?cod (io_fine 1))) example_job (fresh_store ''assets.yaml'')
      = (Inr (add_paths [] [''/etc '', ''/srv'', ''/etc'']), fresh_store ''assets.yaml'')"
    by (simp add: ResolveAllPaths_def example_job_def del: add_paths.simps)
  have t: "trim_space ''/etc '' = ''/etc''" "trim_space ''/srv'' = ''/srv''" "trim_space ''/etc'' = ''/etc''"
    by code_simp+
  from resolve_all_paths_exact[OF wf run] show ?thesis by (auto simp: example_job_def t)
qed

end
