(* ===== verification/BackupStore.thy ===== *)
theory BackupStore
  imports BackupModel
begin

text \<open>
  \<open>internal/backup/store.go\<close>: the store of \<open>backups.yaml\<close>. \<open>List\<close>, \<open>Get\<close>, \<open>Save\<close> and \<open>Delete\<close>
  follow the common store; \<open>RenameServerReferences\<close> rewrites the server of the bound jobs.
\<close>

definition backup_spec :: "(nat \<Rightarrow> bool) \<Rightarrow> job kspec" where
  "backup_spec uc = \<lparr>ks_kind = ''backup'', ks_dup = ''backup name'', ks_key = j_name,
     ks_validate = job_validate uc, ks_not_found = ErrJobNotFound\<rparr>"

definition backup_schema :: "(nat \<Rightarrow> bool) \<Rightarrow> job list schema" where
  "backup_schema uc = schema_of ''backup'' (backup_spec uc)"

definition backup_list ::
    "(nat \<Rightarrow> bool) \<Rightarrow> job list codec \<Rightarrow> io \<Rightarrow> job list ystore \<Rightarrow> job list res \<times> job list ystore" where
  "backup_list uc cod io st = cache_read (backup_schema uc) cod io st"

definition backup_get ::
    "(nat \<Rightarrow> bool) \<Rightarrow> job list codec \<Rightarrow> io \<Rightarrow> string \<Rightarrow> job list ystore \<Rightarrow> job res \<times> job list ystore" where
  "backup_get uc cod = get_entry (backup_spec uc) (backup_schema uc) cod"

definition backup_save ::
    "(nat \<Rightarrow> bool) \<Rightarrow> job list codec \<Rightarrow> io \<Rightarrow> job \<Rightarrow> job list ystore \<Rightarrow> unit res \<times> job list ystore" where
  "backup_save uc cod = save_entry (backup_spec uc) (backup_schema uc) cod"

definition backup_delete ::
    "(nat \<Rightarrow> bool) \<Rightarrow> job list codec \<Rightarrow> io \<Rightarrow> string \<Rightarrow> job list ystore \<Rightarrow> unit res \<times> job list ystore" where
  "backup_delete uc cod = delete_entry (backup_spec uc) (backup_schema uc) cod"

definition backup_entries :: "(nat \<Rightarrow> bool) \<Rightarrow> job list codec \<Rightarrow> job list ystore \<Rightarrow> job list" where
  "backup_entries uc cod st = store_entries (backup_schema uc) cod st"

definition backup_wf :: "(nat \<Rightarrow> bool) \<Rightarrow> job list codec \<Rightarrow> job list ystore \<Rightarrow> bool" where
  "backup_wf uc cod st = store_wf (backup_schema uc) cod st"

text \<open>The loop of \<open>RenameServerReferences\<close>: the rewritten jobs and the names of those it touched.\<close>

fun rename_refs :: "string \<Rightarrow> string \<Rightarrow> job list \<Rightarrow> job list \<times> string list" where
  "rename_refs old new [] = ([], [])"
| "rename_refs old new (j # js) =
     (case rename_refs old new js of
        (js', upd) \<Rightarrow>
          (if j_server j \<noteq> old then (j # js', upd)
           else (j\<lparr>j_server := new\<rparr> # js', j_name j # upd)))"

definition RenameServerReferences ::
    "(nat \<Rightarrow> bool) \<Rightarrow> job list codec \<Rightarrow> io \<Rightarrow> string \<Rightarrow> string \<Rightarrow> job list ystore
     \<Rightarrow> string list res \<times> job list ystore" where
  "RenameServerReferences uc cod io old new st =
     (if old = new then (Inr [], st)
      else
     (case io_lock io of
        Some e \<Rightarrow> (Inl (lock_error e), st)
      | None \<Rightarrow>
     (case cache_read (backup_schema uc) cod io st of
        (Inl e, st1) \<Rightarrow> (Inl e, st1)
      | (Inr cfg, st1) \<Rightarrow>
     (case rename_refs old new cfg of
        (cfg', updated) \<Rightarrow>
     (if updated = [] then (Inr [], st1)
      else
     (case sc_validate (backup_schema uc) cfg' of
        Some e \<Rightarrow> (Inl e, st1)
      | None \<Rightarrow>
     (case cache_write (backup_schema uc) cod io cfg' st1 of
        (Some e, st2) \<Rightarrow> (Inl e, st2)
      | (None, st2) \<Rightarrow> (Inr updated, st2))))))))"

section \<open>The store as a map\<close>

lemma backup_spec_sel [simp]:
  "ks_key (backup_spec uc) = j_name" "ks_validate (backup_spec uc) = job_validate uc"
  "ks_not_found (backup_spec uc) = ErrJobNotFound"
  by (simp_all add: backup_spec_def)

interpretation backup_store: keyed_store j_name "\<lambda>j. j" "backup_entries uc cod" "backup_wf uc cod"
    "\<lambda>j. job_validate uc j = None" "backup_get uc cod" "backup_save uc cod" "backup_delete uc cod" for uc cod
  using keyed_store_ops[of "backup_spec uc" "''backup''" cod, folded backup_schema_def]
  unfolding backup_spec_sel backup_entries_def[abs_def] backup_wf_def[abs_def]
    backup_get_def backup_save_def backup_delete_def
  by simp

text \<open>
  C5. The backup store refines a finite map from job names to jobs: after any sequence of \<open>Save\<close>
  and \<open>Delete\<close> calls, each of which may fail at any system call, the file's entries are the map
  obtained by applying exactly the calls that reported success, and the file is well formed.
\<close>

theorem backup_store_refines_map:
  assumes "backup_wf uc cod st"
    and "run_ops (backup_save uc cod) (backup_delete uc cod) ops st = (rs, st')"
  shows "backup_wf uc cod st' \<and>
    (\<lambda>n. find_key j_name n (backup_entries uc cod st')) =
      map_ops j_name (\<lambda>j. j) (map snd ops) rs (\<lambda>n. find_key j_name n (backup_entries uc cod st))"
  using assms by (rule backup_store.run_ops_refines)

lemma example_job_valid: "job_validate (\<lambda>_. False) example_job = None"
  by code_simp

definition example_codec :: "job list codec" where
  "example_codec = table_codec [(''a'', [example_job]), (''b'', [])]"

lemma example_codec_ok: "codec_ok example_codec"
  unfolding example_codec_def by (rule table_codec_ok) simp_all

lemma fresh_backup_wf: "codec_ok cod \<Longrightarrow> backup_wf uc cod (fresh_store p)"
  by (simp add: backup_wf_def backup_schema_def fresh_store_wf)

lemma fresh_backup_entries: "backup_entries uc cod (fresh_store p) = []"
  by (simp add: backup_entries_def backup_schema_def fresh_store_entries)

text \<open>A run for the witness: a save, a save whose rename fails, a delete of an unknown name.\<close>

definition example_ops :: "(io \<times> (job + string)) list" where
  "example_ops =
     [(io_fine 1, Inl example_job),
      ((io_fine 2)\<lparr>io_rename := Some (errors_new ''disk full'')\<rparr>, Inr ''web''),
      (io_fine 3, Inr ''nope'')]"

lemma example_run:
  "map is_ok
     (fst (run_ops (backup_save (\<lambda>_. False) example_codec) (backup_delete (\<lambda>_. False) example_codec)
             example_ops (fresh_store ''b.yaml''))) = [True, False, False]"
  by code_simp

theorem backup_store_refines_map_witness:
  "find_key j_name ''web'' (backup_entries (\<lambda>_. False) example_codec
     (snd (run_ops (backup_save (\<lambda>_. False) example_codec) (backup_delete (\<lambda>_. False) example_codec)
             example_ops (fresh_store ''b.yaml'')))) = Some example_job"
proof -
  obtain rs st' where run: "run_ops (backup_save (\<lambda>_. False) example_codec) (backup_delete (\<lambda>_. False) example_codec)
             example_ops (fresh_store ''b.yaml'') = (rs, st')" by force
  have "map is_ok rs = [True, False, False]" using example_run run by simp
  then obtain u e e' where rs: "rs = [Inr u, Inl e, Inl e']"
    by (auto simp: map_eq_Cons_conv dest!: is_okD not_is_okD)
  have "(\<lambda>n. find_key j_name n (backup_entries (\<lambda>_. False) example_codec st')) =
      map_ops j_name (\<lambda>j. j) (map snd example_ops) rs
        (\<lambda>n. find_key j_name n (backup_entries (\<lambda>_. False) example_codec (fresh_store ''b.yaml'')))"
    using backup_store_refines_map[OF fresh_backup_wf[OF example_codec_ok] run] by simp
  from fun_cong[OF this, of "''web''"]
  have "find_key j_name ''web'' (backup_entries (\<lambda>_. False) example_codec st') = Some example_job"
    by (simp add: rs example_ops_def fresh_backup_entries) (simp add: example_job_def)
  then show ?thesis by (simp only: run snd_conv)
qed

section \<open>Renaming server references\<close>

lemma rename_refs_eq:
  "rename_refs old new js =
     (map (\<lambda>j. if j_server j = old then j\<lparr>j_server := new\<rparr> else j) js,
      map j_name (filter (\<lambda>j. j_server j = old) js))"
  by (induction js) auto

text \<open>
  \<open>RenameServerReferences\<close> is all or nothing: when it succeeds, every job bound to the old
  server name is bound to the new one, the returned names are those jobs' names in file order, no
  other field and no other job changes, and no job refers to the old name any more; when it fails,
  the stored jobs are unchanged. The store stays well formed in both cases.
\<close>

theorem rename_references_atomic:
  assumes wf: "backup_wf uc cod st" and run: "RenameServerReferences uc cod io old new st = (r, st')"
  shows "backup_wf uc cod st' \<and>
    (case r of
       Inl e \<Rightarrow> backup_entries uc cod st' = backup_entries uc cod st
     | Inr names \<Rightarrow>
         backup_entries uc cod st' =
           map (\<lambda>j. if j_server j = old then j\<lparr>j_server := new\<rparr> else j) (backup_entries uc cod st)
       \<and> (old \<noteq> new \<longrightarrow> names = map j_name (filter (\<lambda>j. j_server j = old) (backup_entries uc cod st))
              \<and> old \<notin> j_server ` set (backup_entries uc cod st')))"
proof -
  let ?f = "\<lambda>j. if j_server j = old then j\<lparr>j_server := new\<rparr> else j"
  let ?sch = "schema_of ''backup'' (backup_spec uc)"
  have id: "map ?f js = js" if "old = new \<or> (\<forall>j\<in>set js. j_server j \<noteq> old)" for js
    using that by (induction js) auto
  show ?thesis
  proof (cases "old = new \<or> io_lock io \<noteq> None")
    case True
    then have "st' = st \<and> (case r of Inl e \<Rightarrow> True | Inr names \<Rightarrow> old = new)"
      using run by (cases "old = new"; cases "io_lock io") (auto simp: RenameServerReferences_def)
    then show ?thesis
      using wf id[of "backup_entries uc cod st"] by (cases r) simp_all
  next
    case False
    then have ne: "old \<noteq> new" and lk: "io_lock io = None" by auto
    have wf': "store_wf ?sch cod st" using wf by (simp add: backup_wf_def backup_schema_def)
    obtain rr st1 where rd: "cache_read ?sch cod io st = (rr, st1)" by force
    note fr = cache_read_frame[OF wf' rd]
    show ?thesis
    proof (cases rr)
      case (Inl e)
      then show ?thesis using run rd fr ne lk
        by (auto simp: RenameServerReferences_def backup_schema_def backup_wf_def backup_entries_def)
    next
      case (Inr cfg)
      have cfg: "store_entries ?sch cod st = cfg" using cache_read_entries wf' rd Inr by blast
      let ?names = "map j_name (filter (\<lambda>j. j_server j = old) cfg)"
      have none: "old \<notin> j_server ` set (map ?f cfg)" using ne by auto
      have eq: "RenameServerReferences uc cod io old new st =
          (if ?names = [] then (Inr [], st1)
           else (case sc_validate ?sch (map ?f cfg) of
                   Some e \<Rightarrow> (Inl e, st1)
                 | None \<Rightarrow> (case cache_write ?sch cod io (map ?f cfg) st1 of
                     (Some e, st2) \<Rightarrow> (Inl e, st2) | (None, st2) \<Rightarrow> (Inr ?names, st2))))"
        using ne lk rd Inr unfolding RenameServerReferences_def backup_schema_def by (simp add: rename_refs_eq)
      consider "?names = []" | e where "?names \<noteq> []" "sc_validate ?sch (map ?f cfg) = Some e"
        | "?names \<noteq> []" "sc_validate ?sch (map ?f cfg) = None" by (cases "sc_validate ?sch (map ?f cfg)") auto
      then show ?thesis
      proof cases
        case 1
        then have "\<forall>j\<in>set cfg. j_server j \<noteq> old" by (auto simp: filter_empty_conv)
        moreover have "r = Inr []" "st' = st1" using 1 run eq by auto
        ultimately show ?thesis using fr cfg id[of cfg] 1
          by (auto simp: backup_wf_def backup_entries_def backup_schema_def)
      next
        case 2
        then show ?thesis using run eq fr by (auto simp: backup_wf_def backup_entries_def backup_schema_def)
      next
        case 3
        obtain w st2 where wr: "cache_write ?sch cod io (map ?f cfg) st1 = (w, st2)" by force
        note wb = write_back[OF conjunct1[OF fr] 3(2) wr]
        have "r = (case w of None \<Rightarrow> Inr ?names | Some e \<Rightarrow> Inl e)" "st' = st2"
          using 3 run eq wr by (auto split: option.splits)
        then show ?thesis using wb fr cfg none
          by (auto simp: backup_wf_def backup_entries_def backup_schema_def split: option.splits)
      qed
    qed
  qed
qed

definition rename_codec :: "job list codec" where
  "rename_codec = table_codec [(''a'', [example_job]), (''b'', [example_job\<lparr>j_server := ''s2''\<rparr>])]"

lemma rename_codec_ok: "codec_ok rename_codec"
  unfolding rename_codec_def by (rule table_codec_ok) simp_all

lemma rename_run_ok:
  "is_ok (fst (RenameServerReferences (\<lambda>_. False) rename_codec (io_fine 1) ''s1'' ''s2'' (file_store ''b.yaml'' ''a'')))"
  by code_simp

lemma example_file_wf:
  "backup_wf (\<lambda>_. False) rename_codec (file_store ''b.yaml'' ''a'')"
  "backup_entries (\<lambda>_. False) rename_codec (file_store ''b.yaml'' ''a'') = [example_job]"
proof -
  have "dec rename_codec ''a'' = Decoded [example_job]"
    by (simp add: rename_codec_def table_codec_def)
  moreover have "sc_validate (schema_of ''backup'' (backup_spec (\<lambda>_. False))) [example_job] = None"
    unfolding schema_validate_None by (simp add: example_job_valid)
  ultimately show "backup_wf (\<lambda>_. False) rename_codec (file_store ''b.yaml'' ''a'')"
    "backup_entries (\<lambda>_. False) rename_codec (file_store ''b.yaml'' ''a'') = [example_job]"
    unfolding backup_wf_def backup_entries_def backup_schema_def
    by (simp_all add: file_store_wf[OF rename_codec_ok])
qed

theorem rename_references_atomic_witness:
  "backup_entries (\<lambda>_. False) rename_codec (snd (RenameServerReferences (\<lambda>_. False) rename_codec
     (io_fine 1) ''s1'' ''s2'' (file_store ''b.yaml'' ''a''))) = [example_job\<lparr>j_server := ''s2''\<rparr>]"
proof -
  obtain r st' where run: "RenameServerReferences (\<lambda>_. False) rename_codec
     (io_fine 1) ''s1'' ''s2'' (file_store ''b.yaml'' ''a'') = (r, st')" by force
  then obtain names where "r = Inr names" using rename_run_ok by (auto dest: is_okD)
  with rename_references_atomic[OF example_file_wf(1) run] run show ?thesis
    by (simp add: example_file_wf(2)) (simp add: example_job_def)
qed

end
