(* ===== verification/NotifyModel.thy ===== *)
theory NotifyModel
  imports AssetStore
begin

text \<open>
  Package \<open>internal/notify\<close>, the data: channels with their validation and store
  (\<open>model.go\<close>), the event (\<open>notifier.go\<close>), its rendering as the text of a webhook
  (\<open>webhook.go\<close>), and the redaction of webhook URLs (\<open>redact.go\<close>). The parsers of package
  \<open>net/url\<close> are the parameters \<open>parse\<close> (\<open>url.Parse\<close>) and \<open>parse_uri\<close> (\<open>url.ParseRequestURI\<close>), each
  giving the parts of a parsed URL that the code reads.
\<close>

section \<open>Channels\<close>

definition TriggerFailure :: string where
  "TriggerFailure = ''failure''"

definition TriggerSuccess :: string where
  "TriggerSuccess = ''success''"

definition TriggerAlways :: string where
  "TriggerAlways = ''always''"

definition TypeWebhook :: string where
  "TypeWebhook = ''webhook''"

definition ErrInvalidChannelName :: sentinel where
  "ErrInvalidChannelName = ''channel name cannot be empty''"

definition ErrInvalidChannelType :: sentinel where
  "ErrInvalidChannelType = ''unsupported channel type (supported: '' @ [CHR 0x27] @ ''webhook'' @ [CHR 0x27] @ '')''"

definition ErrInvalidChannelURL :: sentinel where
  "ErrInvalidChannelURL = ''channel URL must be a valid HTTP or HTTPS URL''"

definition ErrInvalidTrigger :: sentinel where
  "ErrInvalidTrigger = ''invalid trigger condition (must be '' @ [CHR 0x27] @ ''failure'' @ [CHR 0x27] @ '', ''
     @ [CHR 0x27] @ ''success'' @ [CHR 0x27] @ '', or '' @ [CHR 0x27] @ ''always'' @ [CHR 0x27] @ '')''"

definition ErrChannelNotFound :: sentinel where
  "ErrChannelNotFound = ''notification channel not found''"

record channel =
  ch_name :: string
  ch_type :: string
  ch_url :: string
  ch_on :: string

record parsed_url =
  u_scheme :: string
  u_host :: string
  u_has_user :: bool
  u_path :: string
  u_rawquery :: string
  u_fragment :: string
  u_request_uri :: string

type_synonym url_parser = "string \<Rightarrow> parsed_url option"

definition EffectiveTrigger :: "channel \<Rightarrow> string" where
  "EffectiveTrigger c =
     (let val = trim_space (to_lower (ch_on c))
      in if val = [] then TriggerFailure else val)"

definition channel_validate :: "url_parser \<Rightarrow> channel \<Rightarrow> go_error option" where
  "channel_validate parse_uri c =
     (if trim_space (ch_name c) = [] then Some (sentinel_error ErrInvalidChannelName)
      else if trim_space (to_lower (ch_type c)) \<noteq> TypeWebhook then Some (sentinel_error ErrInvalidChannelType)
      else (let rawURL = trim_space (ch_url c)
            in if rawURL = [] then Some (sentinel_error ErrInvalidChannelURL)
               else (case parse_uri rawURL of
                       None \<Rightarrow> Some (sentinel_error ErrInvalidChannelURL)
                     | Some u \<Rightarrow>
                         (if (u_scheme u \<noteq> ''http'' \<and> u_scheme u \<noteq> ''https'') \<or> u_host u = []
                          then Some (sentinel_error ErrInvalidChannelURL)
                          else (let trigger = EffectiveTrigger c
                                in if trigger \<noteq> TriggerFailure \<and> trigger \<noteq> TriggerSuccess \<and> trigger \<noteq> TriggerAlways
                                   then Some (sentinel_error ErrInvalidTrigger) else None)))))"

section \<open>The channel store\<close>

definition notify_spec :: "url_parser \<Rightarrow> channel kspec" where
  "notify_spec pu = \<lparr>ks_kind = ''channel'', ks_dup = ''channel name'', ks_key = ch_name,
     ks_validate = channel_validate pu, ks_not_found = ErrChannelNotFound\<rparr>"

definition notify_schema :: "url_parser \<Rightarrow> channel list schema" where
  "notify_schema pu = schema_of ''notifications'' (notify_spec pu)"

definition notify_list ::
    "url_parser \<Rightarrow> channel list codec \<Rightarrow> io \<Rightarrow> channel list ystore \<Rightarrow> channel list res \<times> channel list ystore" where
  "notify_list pu cod io st = cache_read (notify_schema pu) cod io st"

definition notify_get ::
    "url_parser \<Rightarrow> channel list codec \<Rightarrow> io \<Rightarrow> string \<Rightarrow> channel list ystore \<Rightarrow> channel res \<times> channel list ystore" where
  "notify_get pu cod = get_entry (notify_spec pu) (notify_schema pu) cod"

definition notify_save ::
    "url_parser \<Rightarrow> channel list codec \<Rightarrow> io \<Rightarrow> channel \<Rightarrow> channel list ystore \<Rightarrow> unit res \<times> channel list ystore" where
  "notify_save pu cod = save_entry (notify_spec pu) (notify_schema pu) cod"

definition notify_delete ::
    "url_parser \<Rightarrow> channel list codec \<Rightarrow> io \<Rightarrow> string \<Rightarrow> channel list ystore \<Rightarrow> unit res \<times> channel list ystore" where
  "notify_delete pu cod = delete_entry (notify_spec pu) (notify_schema pu) cod"

definition notify_entries :: "url_parser \<Rightarrow> channel list codec \<Rightarrow> channel list ystore \<Rightarrow> channel list" where
  "notify_entries pu cod st = store_entries (notify_schema pu) cod st"

definition notify_wf :: "url_parser \<Rightarrow> channel list codec \<Rightarrow> channel list ystore \<Rightarrow> bool" where
  "notify_wf pu cod st = store_wf (notify_schema pu) cod st"

lemma notify_spec_sel [simp]:
  "ks_key (notify_spec pu) = ch_name" "ks_validate (notify_spec pu) = channel_validate pu"
  "ks_not_found (notify_spec pu) = ErrChannelNotFound"
  by (simp_all add: notify_spec_def)

interpretation notify_store: keyed_store ch_name "\<lambda>c. c" "notify_entries pu cod" "notify_wf pu cod"
    "\<lambda>c. channel_validate pu c = None" "notify_get pu cod" "notify_save pu cod" "notify_delete pu cod" for pu cod
  using keyed_store_ops[of "notify_spec pu" "''notifications''" cod, folded notify_schema_def]
  unfolding notify_spec_sel notify_entries_def[abs_def] notify_wf_def[abs_def]
    notify_get_def notify_save_def notify_delete_def
  by simp

section \<open>Events and their text\<close>

definition EventKindBackup :: string where
  "EventKindBackup = ''backup''"

definition EventKindRestore :: string where
  "EventKindRestore = ''restore''"

record step_status =
  ss_kind :: string
  ss_label :: string
  ss_status :: string
  ss_detail :: string
  ss_next :: string

record event =
  ev_job :: string
  ev_status :: string
  ev_server :: string
  ev_snapshot :: string
  ev_duration :: rat
  ev_error :: string
  ev_time :: int
  ev_untracked :: bool
  ev_kind :: string
  ev_steps :: "step_status list"
  ev_warnings :: "string list"
  ev_pending :: "string list"

definition eventName :: "event \<Rightarrow> string" where
  "eventName e = (let kind = (if ev_kind e = [] then EventKindBackup else ev_kind e) in kind @ ''_'' @ ev_status e)"

definition shortID :: "string \<Rightarrow> string" where
  "shortID i = (if length i > 8 then take 8 i else i)"

definition sym_ok :: string where
  "sym_ok = [CHR 0xE2, CHR 0x9C, CHR 0x85]"

definition sym_fail :: string where
  "sym_fail = [CHR 0xE2, CHR 0x9D, CHR 0x8C]"

definition sym_warn :: string where
  "sym_warn = [CHR 0xE2, CHR 0x9A, CHR 0xA0, CHR 0xEF, CHR 0xB8, CHR 0x8F]"

definition em_dash :: string where
  "em_dash = [CHR 0xE2, CHR 0x80, CHR 0x94]"

text \<open>\<open>%.2f\<close>: hundredths, rounded half to even as Go rounds the exact value.\<close>

definition show_2f :: "rat \<Rightarrow> string" where
  "show_2f q =
     (let h = 100 * \<bar>q\<bar>; f = \<lfloor>h\<rfloor>; d = h - of_int f;
          n = nat (if d < 1/2 \<or> (d = 1/2 \<and> even f) then f else f + 1)
      in (if q < 0 then ''-'' else []) @ show_nat (n div 100) @ ''.''
         @ show_nat (n mod 100 div 10) @ show_nat (n mod 10))"

definition formatRestoreSummaryText :: "event \<Rightarrow> string" where
  "formatRestoreSummaryText e =
     (let icon = (if ev_status e \<noteq> ''success'' then sym_fail else sym_ok);
          snapInfo = (if ev_snapshot e \<noteq> [] then '', snapshot: '' @ shortID (ev_snapshot e) else [])
      in ''[OpsPulse] '' @ icon @ '' Restore job '' @ go_quote (ev_job e) @ '' on '' @ go_quote (ev_server e) @ '' ''
         @ to_upper (ev_status e) @ '' (duration: '' @ show_2f (ev_duration e) @ ''s'' @ snapInfo @ '')''
         @ (if ev_error e \<noteq> [] \<and> ev_status e \<noteq> ''success'' then '': '' @ ev_error e else [])
         @ (if ev_steps e \<noteq> [] then [CHR 0x0A] @ ''  steps: ''
              @ join_with '', '' (map (\<lambda>s. ss_kind s @ ''='' @ ss_status s) (ev_steps e)) else [])
         @ (if ev_warnings e \<noteq> [] then [CHR 0x0A] @ ''  warnings: '' @ join_with ''; '' (ev_warnings e) else [])
         @ (if ev_pending e \<noteq> [] then [CHR 0x0A] @ ''  pending: '' @ join_with ''; '' (ev_pending e) else []))"

definition formatSummaryText :: "event \<Rightarrow> string" where
  "formatSummaryText e =
     (if ev_kind e = EventKindRestore then formatRestoreSummaryText e
      else if ev_status e = ''success'' then
        (let snapInfo = (if ev_snapshot e \<noteq> [] then '', snapshot: '' @ shortID (ev_snapshot e) else [])
         in if ev_untracked e
            then ''[OpsPulse] '' @ sym_warn @ '' Backup job '' @ go_quote (ev_job e) @ '' on '' @ go_quote (ev_server e)
              @ '' SUCCEEDED but is UNTRACKED '' @ em_dash
              @ '' its audit record could not be created (duration: '' @ show_2f (ev_duration e) @ ''s'' @ snapInfo @ '')''
            else ''[OpsPulse] '' @ sym_ok @ '' Backup job '' @ go_quote (ev_job e) @ '' on '' @ go_quote (ev_server e)
              @ '' SUCCEEDED (duration: '' @ show_2f (ev_duration e) @ ''s'' @ snapInfo @ '')'')
      else
        (let errDetail = (if ev_error e = [] then ''unknown error'' else ev_error e);
             untrackedNote = (if ev_untracked e then '' [UNTRACKED]'' else [])
         in ''[OpsPulse] '' @ sym_fail @ '' Backup job '' @ go_quote (ev_job e) @ '' on '' @ go_quote (ev_server e) @ '' ''
            @ to_upper (ev_status e) @ '': '' @ errDetail @ '' (duration: '' @ show_2f (ev_duration e) @ ''s)'' @ untrackedNote))"

section \<open>Redaction\<close>

definition redacted :: string where
  "redacted = ''<redacted>''"

definition RedactURL :: "url_parser \<Rightarrow> string \<Rightarrow> string" where
  "RedactURL parse raw =
     (let trimmed = trim_space raw
      in if trimmed = [] then []
         else (case parse trimmed of
                 None \<Rightarrow> ''<redacted-url>''
               | Some u \<Rightarrow>
                   (if u_scheme u = [] \<or> u_host u = [] then ''<redacted-url>''
                    else (let host = (if u_has_user u then ''<redacted>@'' @ u_host u else u_host u)
                          in if (u_path u = [] \<or> u_path u = ''/'') \<and> u_rawquery u = [] \<and> u_fragment u = []
                             then u_scheme u @ ''://'' @ host
                             else u_scheme u @ ''://'' @ host @ ''/<redacted>''))))"

definition redactSecretOccurrences :: "url_parser \<Rightarrow> string \<Rightarrow> string \<Rightarrow> string" where
  "redactSecretOccurrences parse txt raw =
     (let trimmed = trim_space raw
      in if trimmed = [] then txt
         else (let replacement = RedactURL parse trimmed;
                   text1 = replace_all trimmed replacement txt;
                   quoted = go_quote trimmed;
                   text2 = (if 2 \<le> length quoted
                            then replace_all (take (length quoted - 2) (drop 1 quoted)) replacement text1 else text1)
               in case parse trimmed of
                    None \<Rightarrow> text2
                  | Some u \<Rightarrow>
                      (let text3 = (if u_request_uri u \<noteq> [] \<and> u_request_uri u \<noteq> ''/''
                                    then replace_all (u_request_uri u) ''/<redacted>'' text2 else text2);
                           lst = path_base (u_path u)
                       in if 6 \<le> length lst \<and> lst \<noteq> ''/'' then replace_all lst redacted text3 else text3)))"

section \<open>The token never survives\<close>

lemma replace_all_hit:
  "old \<noteq> [] \<Longrightarrow> replace_all old new (old @ r) = new @ replace_all old new r"
  by (subst replace_all.simps) (cases old; simp)

lemma replace_all_miss:
  "\<not> has_prefix (x # xs) old \<Longrightarrow> replace_all old new (x # xs) = x # replace_all old new xs"
  by (subst replace_all.simps) (cases "old = []"; simp add: replace_all.simps del: has_prefix_Cons)

lemma replace_all_prefix:
  assumes "has_prefix (replace_all old (c # new) s) p" "c \<notin> set p" "old \<noteq> []"
  shows "has_prefix s p"
  using assms
proof (induction p arbitrary: s)
  case Nil
  then show ?case by simp
next
  case (Cons y p)
  show ?case
  proof (cases "has_prefix s old")
    case True
    then obtain r where "s = old @ r" by (auto simp: has_prefix_iff)
    with Cons.prems show ?thesis by (simp add: replace_all_hit)
  next
    case False
    then obtain x xs where s: "s = x # xs"
      using Cons.prems by (cases s) simp_all
    then show ?thesis using Cons False by (simp add: replace_all_miss)
  qed
qed

text \<open>An occurrence in a concatenation whose middle is fenced by a letter the pattern does not use.\<close>

lemma contains_str_fence:
  assumes "contains_str (a @ z # r) p" "z \<notin> set p"
  shows "contains_str a p \<or> contains_str r p"
proof -
  obtain u v where eq: "a @ z # r = u @ p @ v" using assms(1) by (auto simp: contains_str_iff)
  from eq consider us where "u = a @ us" "z # r = us @ p @ v" | us where "a = u @ us" "us @ z # r = p @ v"
    by (auto simp: append_eq_append_conv2)
  then show ?thesis
  proof cases
    case 1
    then show ?thesis using assms(2)
      by (cases us; cases p) (auto simp: contains_str_iff)
  next
    case 2
    from 2(2) consider w where "us = p @ w" | w where "p = us @ w" "z # r = w @ v"
      by (auto simp: append_eq_append_conv2)
    then show ?thesis
    proof cases
      case 1
      then show ?thesis using 2 by (auto simp: contains_str_iff)
    next
      case (2 w)
      then show ?thesis using assms(2) \<open>a = u @ us\<close> by (cases w) (auto simp: contains_str_iff, metis append_Nil2)
    qed
  qed
qed

lemma replace_all_gone:
  assumes "old \<noteq> []" "c \<notin> set old" "z \<notin> set old" "\<not> contains_str (c # m) old"
  shows "\<not> contains_str (replace_all old (c # m @ [z]) s) old"
proof (induction s rule: length_induct)
  case (1 s)
  show ?case
  proof (cases "has_prefix s old")
    case True
    then obtain r where s: "s = old @ r" by (auto simp: has_prefix_iff)
    have "\<not> contains_str (replace_all old (c # m @ [z]) r) old" using 1 s assms(1) by simp
    then show ?thesis
      using contains_str_fence[of "c # m" z "replace_all old (c # m @ [z]) r" old] assms s
      by (auto simp: replace_all_hit)
  next
    case False
    show ?thesis
    proof (cases s)
      case Nil
      then show ?thesis using assms(1) by simp
    next
      case (Cons x xs)
      have eq: "replace_all old (c # m @ [z]) s = x # replace_all old (c # m @ [z]) xs"
        using False Cons by (simp add: replace_all_miss)
      have "\<not> has_prefix (replace_all old (c # m @ [z]) s) old"
        using replace_all_prefix[of old c "m @ [z]" s old] False assms by auto
      then show ?thesis using 1 Cons eq by simp
    qed
  qed
qed


definition hook_url :: string where
  "hook_url = ''https://hooks.example/T1/s3cr3tTok''"

definition hook_parse :: url_parser where
  "hook_parse s =
     (if s = hook_url
      then Some \<lparr>u_scheme = ''https'', u_host = ''hooks.example'', u_has_user = False,
              u_path = ''/T1/s3cr3tTok'', u_rawquery = [], u_fragment = [], u_request_uri = ''/T1/s3cr3tTok''\<rparr>
      else None)"


end
