(* ===== verification/NotifySend.thy ===== *)
theory NotifySend
  imports NotifyModel "HOL-Library.Multiset"
begin

text \<open>
  Package \<open>internal/notify\<close>, the deliveries: the webhook POST with its retries (\<open>webhook.go\<close>) and
  the dispatcher (\<open>dispatcher.go\<close>). What the outside does is an oracle: for each attempt, whether
  the context is done, what the HTTP client returns, and whether the context ends during the
  backoff. A send returns its error and the trace of its actions (a POST or a wait of so many
  milliseconds). The payload carries the event's fields and its text; its JSON encoding is left to
  the transport, with the failure of \<open>json.Marshal\<close> as an outcome.
\<close>

section \<open>The webhook\<close>

record payload =
  pl_event :: string
  pl_job :: string
  pl_status :: string
  pl_server :: string
  pl_snapshot :: string
  pl_duration :: rat
  pl_error :: string
  pl_time :: int
  pl_text :: string
  pl_content :: string
  pl_untracked :: bool
  pl_steps :: "step_status list"
  pl_warnings :: "string list"
  pl_pending :: "string list"

definition webhook_payload :: "event \<Rightarrow> payload" where
  "webhook_payload e =
     \<lparr>pl_event = eventName e, pl_job = ev_job e, pl_status = ev_status e, pl_server = ev_server e,
      pl_snapshot = ev_snapshot e, pl_duration = ev_duration e, pl_error = ev_error e, pl_time = ev_time e,
      pl_text = formatSummaryText e, pl_content = formatSummaryText e, pl_untracked = ev_untracked e,
      pl_steps = ev_steps e, pl_warnings = ev_warnings e, pl_pending = ev_pending e\<rparr>"

datatype http_outcome = BadRequest go_error | DoFailed go_error | Response int string

record attempt =
  at_ctx :: "go_error option"
  at_http :: http_outcome
  at_wait :: "go_error option"

record sender =
  sd_marshal :: "go_error option"
  sd_attempt :: "nat \<Rightarrow> attempt"

datatype send_action = Post string payload | Wait nat

definition redacted_error :: "string \<Rightarrow> go_error \<Rightarrow> go_error" where
  "redacted_error message cause = Err message (err_kinds cause)"

definition status_ok :: "int \<Rightarrow> bool" where
  "status_ok code \<longleftrightarrow> 200 \<le> code \<and> code < 300"

definition max_attempts :: nat where
  "max_attempts = 3"

definition send_delay :: "nat \<Rightarrow> nat" where
  "send_delay a = (if a < length [100 :: nat, 300] then [100, 300] ! a else 300)"

definition delivery_error :: "url_parser \<Rightarrow> channel \<Rightarrow> go_error \<Rightarrow> go_error" where
  "delivery_error parse c e =
     redacted_error (''webhook delivery to '' @ go_quote (ch_name c) @ '' ('' @ RedactURL parse (ch_url c) @ '') failed: ''
       @ redactSecretOccurrences parse (err_text e) (ch_url c)) e"

definition status_error :: "url_parser \<Rightarrow> channel \<Rightarrow> int \<Rightarrow> string \<Rightarrow> go_error" where
  "status_error parse c code body =
     (let trimmed = trim_space (take 512 body);
          shown = (if trimmed = [] then ''(empty response)'' else trimmed)
      in errors_new (''webhook '' @ go_quote (ch_name c) @ '' ('' @ RedactURL parse (ch_url c)
           @ '') returned non-2xx status '' @ show_int code @ '': '' @ redactSecretOccurrences parse shown (ch_url c)))"

text \<open>The retry loop from attempt \<open>a\<close> on, with \<open>n\<close> attempts left.\<close>

fun send_loop ::
    "url_parser \<Rightarrow> channel \<Rightarrow> payload \<Rightarrow> (nat \<Rightarrow> attempt) \<Rightarrow> nat \<Rightarrow> nat \<Rightarrow> go_error option
     \<Rightarrow> go_error option \<times> send_action list" where
  "send_loop parse c pl env a 0 lastErr = (lastErr, [])"
| "send_loop parse c pl env a (Suc n) lastErr =
     (case at_ctx (env a) of
        Some e \<Rightarrow> (Some e, [])
      | None \<Rightarrow>
     (let retry = (\<lambda>err.
            if n = 0 then (Some err, [Post (ch_url c) pl])
            else (case at_wait (env a) of
                    Some e \<Rightarrow> (Some e, [Post (ch_url c) pl, Wait (send_delay a)])
                  | None \<Rightarrow> (case send_loop parse c pl env (Suc a) n (Some err) of
                      (r, tr) \<Rightarrow> (r, Post (ch_url c) pl # Wait (send_delay a) # tr))))
      in case at_http (env a) of
           BadRequest e \<Rightarrow>
             (Some (redacted_error (''failed to create webhook request for '' @ go_quote (ch_name c) @ '' (''
                @ RedactURL parse (ch_url c) @ ''): '' @ redactSecretOccurrences parse (err_text e) (ch_url c)) e), [])
         | DoFailed e \<Rightarrow> retry (delivery_error parse c e)
         | Response code body \<Rightarrow>
             (if status_ok code then (None, [Post (ch_url c) pl])
              else if code < 500 then (Some (status_error parse c code body), [Post (ch_url c) pl])
              else retry (status_error parse c code body))))"

definition webhook_send ::
    "url_parser \<Rightarrow> channel \<Rightarrow> event \<Rightarrow> sender \<Rightarrow> go_error option \<times> send_action list" where
  "webhook_send parse c ev sd =
     (case sd_marshal sd of
        Some e \<Rightarrow> (Some (wrap ''failed to marshal webhook payload: '' e []), [])
      | None \<Rightarrow> send_loop parse c (webhook_payload ev) (sd_attempt sd) 0 max_attempts None)"

section \<open>The dispatcher\<close>

definition shouldNotify :: "string \<Rightarrow> string \<Rightarrow> bool \<Rightarrow> bool" where
  "shouldNotify trigger status untracked =
     (let failed = (status = ''failed'' \<or> status = ''partial'' \<or> status = ''canceled'' \<or> untracked)
      in if trigger = TriggerAlways then True
         else if trigger = TriggerSuccess then status = ''success'' \<and> \<not> untracked
         else if trigger = TriggerFailure then failed
         else failed)"

definition matching_channels :: "event \<Rightarrow> channel list \<Rightarrow> channel list" where
  "matching_channels ev channels =
     filter (\<lambda>c. shouldNotify (EffectiveTrigger c) (ev_status ev) (ev_untracked ev)) channels"

text \<open>
  \<open>Dispatch\<close> sends to the matching channels concurrently; \<open>order\<close> is the order in which the
  goroutines append their errors, and \<open>send\<close> the delivery to one channel. The store's \<open>List\<close> has
  already answered \<open>listed\<close>; \<open>None\<close> is a dispatcher without a store.
\<close>

definition Dispatch ::
    "(channel \<Rightarrow> event \<Rightarrow> go_error option) \<Rightarrow> (channel list \<Rightarrow> channel list) \<Rightarrow> channel list res option \<Rightarrow> event
     \<Rightarrow> go_error list" where
  "Dispatch send order listed ev =
     (case listed of
        None \<Rightarrow> []
      | Some (Inl e) \<Rightarrow> [wrap ''failed to read notification channels: '' e []]
      | Some (Inr channels) \<Rightarrow>
          (if channels = [] then []
           else (let matching = matching_channels ev channels
                 in if matching = [] then []
                    else List.map_filter (\<lambda>c. send c ev) (order matching))))"

definition test_event :: "int \<Rightarrow> event" where
  "test_event now =
     \<lparr>ev_job = ''test-job'', ev_status = ''success'', ev_server = ''test-server'', ev_snapshot = ''test1234'',
      ev_duration = 123 / 100, ev_error = [], ev_time = now, ev_untracked = False, ev_kind = [],
      ev_steps = [], ev_warnings = [], ev_pending = []\<rparr>"

fun first_error :: "go_error option \<Rightarrow> go_error option list \<Rightarrow> go_error option" where
  "first_error f [] = f"
| "first_error f (e # es) = first_error (if e \<noteq> None \<and> f = None then e else f) es"

text \<open>\<open>got\<close> and \<open>listed\<close> are the answers of the store to \<open>Get(channelName)\<close> and \<open>List()\<close>.\<close>

definition SendTest ::
    "(channel \<Rightarrow> event \<Rightarrow> go_error option) \<Rightarrow> string option \<Rightarrow> channel res \<Rightarrow> channel list res \<Rightarrow> int \<Rightarrow> string
     \<Rightarrow> go_error option" where
  "SendTest send store got listed now channelName =
     (case store of
        None \<Rightarrow> Some (errors_new ''notifications store is not initialized'')
      | Some file_path \<Rightarrow>
          (if channelName \<noteq> [] then
             (case got of Inl e \<Rightarrow> Some e | Inr c \<Rightarrow> send c (test_event now))
           else
             (case listed of
                Inl e \<Rightarrow> Some e
              | Inr channels \<Rightarrow>
                  (if channels = []
                   then Some (errors_new (''no notification channels configured in '' @ file_path))
                   else first_error None (map (\<lambda>c. send c (test_event now)) channels)))))"

section \<open>Deliveries\<close>

definition posts :: "send_action list \<Rightarrow> nat" where
  "posts tr = length (filter (\<lambda>a. case a of Post u p \<Rightarrow> True | Wait n \<Rightarrow> False) tr)"

lemma posts_simps [simp]:
  "posts [] = 0" "posts (Post u p # tr) = Suc (posts tr)" "posts (Wait n # tr) = posts tr"
  by (simp_all add: posts_def)

text \<open>An answer that ends the loop: a response below 500, or no request at all.\<close>

definition retriable :: "http_outcome \<Rightarrow> bool" where
  "retriable h \<longleftrightarrow> (case h of BadRequest e \<Rightarrow> False | DoFailed e \<Rightarrow> True | Response code b \<Rightarrow> code \<ge> 500)"

definition delivered :: "http_outcome \<Rightarrow> bool" where
  "delivered h \<longleftrightarrow> (case h of BadRequest e \<Rightarrow> False | DoFailed e \<Rightarrow> False | Response code b \<Rightarrow> status_ok code)"

text \<open>The attempts from \<open>a\<close> on end in an acceptance at the \<open>k\<close>-th one.\<close>

fun accepted :: "(nat \<Rightarrow> attempt) \<Rightarrow> nat \<Rightarrow> nat \<Rightarrow> bool" where
  "accepted env a 0 \<longleftrightarrow> at_ctx (env a) = None \<and> delivered (at_http (env a))"
| "accepted env a (Suc k) \<longleftrightarrow>
     at_ctx (env a) = None \<and> retriable (at_http (env a)) \<and> at_wait (env a) = None \<and> accepted env (Suc a) k"

lemma delivered_not_retriable: "delivered h \<Longrightarrow> \<not> retriable h"
  by (cases h) (auto simp: delivered_def retriable_def status_ok_def)

lemma send_loop_cases:
  obtains e where "at_ctx (env a) = Some e" "send_loop parse c pl env a (Suc n) le = (Some e, [])"
  | "at_ctx (env a) = None" "delivered (at_http (env a))"
      "send_loop parse c pl env a (Suc n) le = (None, [Post (ch_url c) pl])"
  | e tr where "at_ctx (env a) = None" "\<not> delivered (at_http (env a))" "\<not> retriable (at_http (env a))"
      "send_loop parse c pl env a (Suc n) le = (Some e, tr)" "tr = [] \<or> tr = [Post (ch_url c) pl]"
  | e where "at_ctx (env a) = None" "retriable (at_http (env a))" "n = 0"
      "send_loop parse c pl env a (Suc n) le = (Some e, [Post (ch_url c) pl])"
  | e where "at_ctx (env a) = None" "retriable (at_http (env a))" "n > 0" "at_wait (env a) = Some e"
      "send_loop parse c pl env a (Suc n) le = (Some e, [Post (ch_url c) pl, Wait (send_delay a)])"
  | e r tr where "at_ctx (env a) = None" "retriable (at_http (env a))" "n > 0" "at_wait (env a) = None"
      "send_loop parse c pl env (Suc a) n (Some e) = (r, tr)"
      "send_loop parse c pl env a (Suc n) le = (r, Post (ch_url c) pl # Wait (send_delay a) # tr)"
proof (cases "at_ctx (env a)")
  case (Some e)
  then show ?thesis by (intro that(1)) simp_all
next
  case None
  have retry: thesis if "retriable (at_http (env a))"
    "send_loop parse c pl env a (Suc n) le =
       (if n = 0 then (Some err, [Post (ch_url c) pl])
        else (case at_wait (env a) of
                Some e \<Rightarrow> (Some e, [Post (ch_url c) pl, Wait (send_delay a)])
              | None \<Rightarrow> (case send_loop parse c pl env (Suc a) n (Some err) of
                  (r, tr) \<Rightarrow> (r, Post (ch_url c) pl # Wait (send_delay a) # tr))))" for err
  proof (cases "n = 0")
    case True
    then show ?thesis using \<open>at_ctx (env a) = None\<close> that \<open>\<And>e. at_ctx (env a) = None \<Longrightarrow>
      retriable (at_http (env a)) \<Longrightarrow> n = 0 \<Longrightarrow>
      send_loop parse c pl env a (Suc n) le = (Some e, [Post (ch_url c) pl]) \<Longrightarrow> thesis\<close> by simp
  next
    case False
    then show ?thesis
      using None that \<open>\<And>e. at_ctx (env a) = None \<Longrightarrow> retriable (at_http (env a)) \<Longrightarrow> n > 0 \<Longrightarrow>
        at_wait (env a) = Some e \<Longrightarrow>
        send_loop parse c pl env a (Suc n) le = (Some e, [Post (ch_url c) pl, Wait (send_delay a)]) \<Longrightarrow> thesis\<close>
       \<open>\<And>e r tr. at_ctx (env a) = None \<Longrightarrow> retriable (at_http (env a)) \<Longrightarrow> n > 0 \<Longrightarrow> at_wait (env a) = None \<Longrightarrow>
        send_loop parse c pl env (Suc a) n (Some e) = (r, tr) \<Longrightarrow>
        send_loop parse c pl env a (Suc n) le = (r, Post (ch_url c) pl # Wait (send_delay a) # tr) \<Longrightarrow> thesis\<close>
      by (cases "at_wait (env a)"; cases "send_loop parse c pl env (Suc a) n (Some err)") auto
  qed
  show ?thesis
  proof (cases "at_http (env a)")
    case (BadRequest e)
    then show ?thesis using None by (intro that(3)) (auto simp: delivered_def retriable_def)
  next
    case (DoFailed e)
    then show ?thesis using None by (intro retry[of "delivery_error parse c e"]) (simp_all add: retriable_def Let_def)
  next
    case (Response code body)
    show ?thesis
    proof (cases "code < 500")
      case True
      then show ?thesis using None Response that(2,3)
        by (cases "status_ok code") (auto simp: delivered_def retriable_def)
    next
      case False
      then have "\<not> status_ok code" by (simp add: status_ok_def)
      then show ?thesis using None Response False
        by (intro retry[of "status_error parse c code body"]) (simp_all add: retriable_def Let_def)
    qed
  qed
qed

declare send_loop.simps(2) [simp del]

lemma send_loop_accepted:
  "fst (send_loop parse c pl env a (Suc n) le) = None \<longleftrightarrow> (\<exists>k\<le>n. accepted env a k)"
proof (induction n arbitrary: a le)
  case 0
  show ?case
  proof (cases rule: send_loop_cases[of env a parse c pl 0 le])
    case (4 e)
    then show ?thesis using delivered_not_retriable[of "at_http (env a)"] by auto
  qed simp_all
next
  case (Suc n)
  have ex: "(\<exists>k\<le>Suc n. accepted env a k) \<longleftrightarrow>
      at_ctx (env a) = None \<and> (delivered (at_http (env a)) \<or>
        (retriable (at_http (env a)) \<and> at_wait (env a) = None \<and> (\<exists>k\<le>n. accepted env (Suc a) k)))"
    (is "?L \<longleftrightarrow> ?R")
  proof
    assume ?L
    then obtain k where "k \<le> Suc n" "accepted env a k" by blast
    then show ?R by (cases k) auto
  next
    assume ?R
    then show ?L by (metis Suc_le_mono accepted.simps le0)
  qed
  show ?case
  proof (cases rule: send_loop_cases[of env a parse c pl "Suc n" le])
    case (5 e)
    then show ?thesis unfolding ex using delivered_not_retriable[of "at_http (env a)"] by auto
  next
    case (6 e r tr)
    then show ?thesis unfolding ex
      using Suc.IH[of "Suc a" "Some e"] delivered_not_retriable[of "at_http (env a)"] by auto
  qed (auto simp: ex)
qed

lemma send_loop_posts: "posts (snd (send_loop parse c pl env a n le)) \<le> n"
proof (induction n arbitrary: a le)
  case (Suc n)
  show ?case
  proof (cases rule: send_loop_cases[of env a parse c pl n le])
    case (6 e r tr)
    then show ?thesis using Suc.IH[of "Suc a" "Some e"] by simp
  qed auto
qed simp

lemma send_loop_accepted_posts:
  "k \<le> n \<Longrightarrow> accepted env a k \<Longrightarrow> posts (snd (send_loop parse c pl env a (Suc n) le)) = Suc k"
proof (induction n arbitrary: a le k)
  case 0
  then have "at_ctx (env a) = None" "delivered (at_http (env a))" by simp_all
  then show ?case using delivered_not_retriable[of "at_http (env a)"] 0
    by (cases rule: send_loop_cases[of env a parse c pl 0 le]) simp_all
next
  case (Suc n)
  show ?case
  proof (cases k)
    case 0
    then have "at_ctx (env a) = None" "delivered (at_http (env a))" using Suc.prems by simp_all
    then show ?thesis using delivered_not_retriable[of "at_http (env a)"] 0
      by (cases rule: send_loop_cases[of env a parse c pl "Suc n" le]) simp_all
  next
    case (Suc m)
    then have acc: "accepted env (Suc a) m" "m \<le> n" and pass: "at_ctx (env a) = None" "retriable (at_http (env a))"
      "at_wait (env a) = None" using Suc.prems by simp_all
    show ?thesis
    proof (cases rule: send_loop_cases[of env a parse c pl "Suc n" le])
      case (6 e r tr)
      then show ?thesis using Suc.IH[OF acc(2,1), of "Some e"] \<open>k = Suc m\<close> by simp
    qed (use pass delivered_not_retriable[of "at_http (env a)"] in simp_all)
  qed
qed

lemma send_loop_actions:
  "x \<in> set (snd (send_loop parse c pl env a n le)) \<Longrightarrow> x = Post (ch_url c) pl \<or> (\<exists>d. x = Wait d)"
proof (induction n arbitrary: a le)
  case (Suc n)
  show ?case
  proof (cases rule: send_loop_cases[of env a parse c pl n le])
    case (6 e r tr)
    then show ?thesis using Suc.IH[of "Suc a" "Some e"] Suc.prems by auto
  qed (use Suc.prems in auto)
qed simp

text \<open>
  C9. The webhook delivery is at most three POSTs, each of the event's payload to the channel's
  URL, and reports success exactly when one attempt was answered with a 2xx status after attempts
  that failed in transport or with a 5xx status; then it stops: the accepted POST is the last one,
  and no other answer (a 4xx in particular) is retried.
\<close>

theorem webhook_send_at_most_once_accepted:
  assumes "webhook_send parse c ev sd = (r, tr)"
  shows "posts tr \<le> 3
       \<and> (\<forall>x\<in>set tr. x = Post (ch_url c) (webhook_payload ev) \<or> (\<exists>d. x = Wait d))
       \<and> (r = None \<longleftrightarrow> sd_marshal sd = None \<and> (\<exists>k\<le>2. accepted (sd_attempt sd) 0 k))
       \<and> (\<forall>k\<le>2. sd_marshal sd = None \<and> accepted (sd_attempt sd) 0 k \<longrightarrow> posts tr = Suc k)"
proof (cases "sd_marshal sd")
  case (Some e)
  then show ?thesis using assms by (auto simp: webhook_send_def)
next
  case None
  have "max_attempts = Suc 2" by (simp add: max_attempts_def)
  then have run: "send_loop parse c (webhook_payload ev) (sd_attempt sd) 0 (Suc 2) None = (r, tr)"
    using assms None by (simp only: webhook_send_def option.case)
  show ?thesis
    using send_loop_posts[of parse c "webhook_payload ev" "sd_attempt sd" 0 "Suc 2" None]
      send_loop_actions[of _ parse c "webhook_payload ev" "sd_attempt sd" 0 "Suc 2" None]
      send_loop_accepted[of parse c "webhook_payload ev" "sd_attempt sd" 0 2 None]
      send_loop_accepted_posts[of _ 2 "sd_attempt sd" 0 parse c "webhook_payload ev" None]
    unfolding run by (auto simp: None)
qed

theorem webhook_send_at_most_once_accepted_witness:
  "fst (webhook_send hook_parse \<lparr>ch_name = ''ops'', ch_type = ''webhook'', ch_url = hook_url, ch_on = []\<rparr>
      (test_event 0)
      \<lparr>sd_marshal = None, sd_attempt = (\<lambda>i. \<lparr>at_ctx = None,
         at_http = (if i = 0 then Response 503 [] else Response 204 []), at_wait = None\<rparr>)\<rparr>) = None
 \<and> posts (snd (webhook_send hook_parse \<lparr>ch_name = ''ops'', ch_type = ''webhook'', ch_url = hook_url, ch_on = []\<rparr>
      (test_event 0)
      \<lparr>sd_marshal = None, sd_attempt = (\<lambda>i. \<lparr>at_ctx = None,
         at_http = (if i = 0 then Response 503 [] else Response 204 []), at_wait = None\<rparr>)\<rparr>)) = 2"
  (is "fst (webhook_send ?p ?c ?e ?s) = None \<and> _")
proof -
  obtain r tr where run: "webhook_send ?p ?c ?e ?s = (r, tr)" by force
  have acc: "accepted (sd_attempt ?s) 0 1"
    by (simp add: retriable_def delivered_def status_ok_def)
  note spec = webhook_send_at_most_once_accepted[OF run]
  have m: "sd_marshal ?s = None" by simp
  have "r = None" using conjunct1[OF conjunct2[OF conjunct2[OF spec]]] acc m one_le_numeral by blast
  moreover have "posts tr = Suc 1"
    using conjunct2[OF conjunct2[OF conjunct2[OF spec]], rule_format, of 1] acc m one_le_numeral by blast
  ultimately show ?thesis by (simp add: run)
qed

section \<open>Routing\<close>

text \<open>
  For the four final statuses of a run, a success channel and a failure channel split the
  events between them: exactly one of the two is notified, the success channel exactly for an
  audited success, and a channel with the trigger \<open>always\<close> hears everything. An untracked run never
  reaches a success-only channel.
\<close>

theorem routing_complementary:
  assumes "status \<in> {''success'', ''failed'', ''partial'', ''canceled''}"
  shows "shouldNotify TriggerFailure status untracked = (\<not> shouldNotify TriggerSuccess status untracked)
       \<and> (shouldNotify TriggerSuccess status untracked \<longleftrightarrow> status = ''success'' \<and> \<not> untracked)
       \<and> shouldNotify TriggerAlways status untracked"
  using assms by (auto simp: shouldNotify_def TriggerFailure_def TriggerSuccess_def TriggerAlways_def)

theorem routing_complementary_witness:
  "shouldNotify TriggerFailure ''success'' True \<and> \<not> shouldNotify TriggerSuccess ''success'' True"
  using routing_complementary[of "''success''" True] by simp

text \<open>
  \<open>Dispatch\<close> delivers to exactly the matching channels, whatever order the goroutines finish
  in: the errors it returns are, as a multiset, the errors of the channels whose trigger wants the
  event, and no delivery to another channel can appear.
\<close>

theorem dispatch_exact:
  assumes "\<And>cs. mset (order cs) = mset cs"
  shows "mset (Dispatch send order (Some (Inr channels)) ev) =
    {# the (send c ev). c \<in># filter_mset (\<lambda>c. send c ev \<noteq> None)
         (mset (filter (\<lambda>c. shouldNotify (EffectiveTrigger c) (ev_status ev) (ev_untracked ev)) channels)) #}"
proof -
  have mf: "mset (List.map_filter f xs) = {# the (f x). x \<in># filter_mset (\<lambda>x. f x \<noteq> None) (mset xs) #}"
    for f :: "channel \<Rightarrow> go_error option" and xs
    by (induction xs) (auto simp: List.map_filter_simps split: option.splits)
  have "order [] = []" using assms[of "[]"] by simp
  then have "Dispatch send order (Some (Inr channels)) ev
      = List.map_filter (\<lambda>c. send c ev) (order (matching_channels ev channels))"
    by (auto simp: Dispatch_def Let_def matching_channels_def List.map_filter_def)
  then show ?thesis by (simp add: mf assms matching_channels_def)
qed

theorem dispatch_exact_witness:
  "mset (Dispatch (\<lambda>c ev. Some (errors_new (ch_name c))) rev
     (Some (Inr [\<lparr>ch_name = ''a'', ch_type = ''webhook'', ch_url = [], ch_on = ''success''\<rparr>,
                 \<lparr>ch_name = ''b'', ch_type = ''webhook'', ch_url = [], ch_on = ''failure''\<rparr>])) (test_event 0))
   = {# errors_new ''a'' #}"
proof -
  have t: "EffectiveTrigger \<lparr>ch_name = ''a'', ch_type = ''webhook'', ch_url = [], ch_on = ''success''\<rparr> = ''success''"
    "EffectiveTrigger \<lparr>ch_name = ''b'', ch_type = ''webhook'', ch_url = [], ch_on = ''failure''\<rparr> = ''failure''"
    by code_simp+
  show ?thesis
    by (subst dispatch_exact)
       (simp_all add: t test_event_def shouldNotify_def TriggerAlways_def TriggerSuccess_def TriggerFailure_def)
qed

end
