(* ===== verification/ServerModel.thy ===== *)
theory ServerModel
  imports KeyedStore Paths
begin

text \<open>
  \<open>internal/server/model.go\<close>: the server record, the naming rule, \<open>Validate\<close> (which fills in the
  default port and user: here it returns the normalised record), the filters and the label text.
  Labels are a list of key and value pairs in the order an iteration visits them.
\<close>

section \<open>Records and errors\<close>

record server =
  s_name :: string
  s_host :: string
  s_port :: int
  s_user :: string
  s_key_path :: string
  s_password :: string
  s_jump_host :: string
  s_skip_batch :: bool
  s_tags :: "string list"
  s_labels :: "(string \<times> string) list"
  s_description :: string

definition ErrServerNotFound :: sentinel where
  "ErrServerNotFound = ''server not found''"

definition ErrInvalidServerName :: sentinel where
  "ErrInvalidServerName = ''invalid server name''"

definition ErrInvalidHost :: sentinel where
  "ErrInvalidHost = ''server host cannot be empty''"

definition ErrInvalidPort :: sentinel where
  "ErrInvalidPort = ''invalid port''"

definition ErrSelfReferencingJumpHost :: sentinel where
  "ErrSelfReferencingJumpHost = ''server cannot specify itself as jump host''"

definition ErrJumpHostCycle :: sentinel where
  "ErrJumpHostCycle = ''cyclic jump host dependency detected''"

section \<open>Names\<close>

text \<open>The UTF-8 bytes of a rune, and \<open>%q\<close> of a rune.\<close>

definition rune_bytes :: "nat \<Rightarrow> string" where
  "rune_bytes r =
     (if r < 128 then [char_of r]
      else if r < 2048 then [char_of (192 + r div 64), char_of (128 + r mod 64)]
      else if r < 65536 then [char_of (224 + r div 4096), char_of (128 + r div 64 mod 64), char_of (128 + r mod 64)]
      else [char_of (240 + r div 262144), char_of (128 + r div 4096 mod 64), char_of (128 + r div 64 mod 64),
            char_of (128 + r mod 64)])"

definition quote_rune :: "nat \<Rightarrow> string" where
  "quote_rune r =
     [CHR 0x27] @ (if r = 39 then [CHR 0x5C, CHR 0x27]
                   else if r = 34 then [CHR 0x22]
                   else concat (map quote_char (rune_bytes r))) @ [CHR 0x27]"

definition hex_upper :: "nat \<Rightarrow> char" where
  "hex_upper d = (if d < 10 then char_of (48 + d) else char_of (55 + d))"

text \<open>\<open>%U\<close> of a rune below 256.\<close>

definition show_U :: "nat \<Rightarrow> string" where
  "show_U r = ''U+00'' @ [hex_upper (r div 16), hex_upper (r mod 16)]"

definition server_rune_ok :: "nat \<Rightarrow> bool" where
  "server_rune_ok r \<longleftrightarrow> (97 \<le> r \<and> r \<le> 122) \<or> (65 \<le> r \<and> r \<le> 90) \<or> (48 \<le> r \<and> r \<le> 57) \<or> r = 45"

definition server_name_error :: "string \<Rightarrow> go_error" where
  "server_name_error m = wrap [] (sentinel_error ErrInvalidServerName) ('': '' @ m)"

definition ValidateServerName :: "string \<Rightarrow> go_error option" where
  "ValidateServerName name =
     (if name = [] then Some (server_name_error ''cannot be empty'')
      else if trim_space name \<noteq> name then Some (server_name_error ''cannot have leading or trailing whitespace'')
      else if length name > 255 then Some (server_name_error ''name exceeds maximum length of 255 characters'')
      else if has_prefix name ''-'' \<or> has_suffix name ''-''
        then Some (server_name_error (''cannot start or end with '' @ [CHR 0x27] @ ''-'' @ [CHR 0x27]))
      else if contains_str name ''_''
        then Some (server_name_error (go_quote name @ '' contains '' @ [CHR 0x27] @ ''_'' @ [CHR 0x27] @ ''; use ''
               @ [CHR 0x27] @ ''-'' @ [CHR 0x27] @ '' instead''))
      else if list_ex (\<lambda>c. c = slash \<or> c = CHR 0x5C \<or> c = CHR '':'') name
        then Some (server_name_error ''cannot contain path separators or colons'')
      else if path_base name \<noteq> name \<or> path_clean name \<noteq> name
        then Some (server_name_error ''cannot contain path navigation characters'')
      else (case find (\<lambda>r. \<not> server_rune_ok r) (runes name) of
              Some r \<Rightarrow> Some (server_name_error (go_quote name @ '' contains invalid character '' @ quote_rune r
                   @ ''; server names may contain only letters, digits, and hyphens''))
            | None \<Rightarrow> None))"

definition NormalizeServerName :: "string \<Rightarrow> string" where
  "NormalizeServerName name = replace_all ''_'' ''-'' name"

section \<open>Validation\<close>

definition rejectControlCharacters :: "string \<Rightarrow> string \<Rightarrow> go_error option" where
  "rejectControlCharacters field val =
     (case find (\<lambda>r. r < 32 \<or> r = 127) (runes val) of
        Some r \<Rightarrow> Some (errors_new (''invalid '' @ field @ '': contains ASCII control character '' @ show_U r))
      | None \<Rightarrow> None)"

fun reject_tags :: "nat \<Rightarrow> string list \<Rightarrow> go_error option" where
  "reject_tags i [] = None"
| "reject_tags i (t # ts) =
     (case rejectControlCharacters (''tags['' @ show_nat i @ '']'') t of
        Some e \<Rightarrow> Some e | None \<Rightarrow> reject_tags (Suc i) ts)"

fun reject_labels :: "(string \<times> string) list \<Rightarrow> go_error option" where
  "reject_labels [] = None"
| "reject_labels ((k, v) # ls) =
     (case rejectControlCharacters ''label key'' k of
        Some e \<Rightarrow> Some e
      | None \<Rightarrow> (case rejectControlCharacters (''label '' @ go_quote k) v of
                  Some e \<Rightarrow> Some e | None \<Rightarrow> reject_labels ls))"

text \<open>The checks after the defaults, in the code's order.\<close>

definition with_defaults :: "server \<Rightarrow> server" where
  "with_defaults s =
     s\<lparr>s_port := (if s_port s = 0 then 22 else s_port s),
       s_user := (if trim_space (s_user s) = [] then ''root'' else s_user s)\<rparr>"

definition checks_before_defaults :: "server \<Rightarrow> go_error option" where
  "checks_before_defaults s =
     first_some
       [ValidateServerName (s_name s),
        if trim_space (s_host s) = [] then Some (sentinel_error ErrInvalidHost) else None,
        if trim_space (s_host s) \<noteq> s_host s
          then Some (wrap [] (sentinel_error ErrInvalidHost) '': host cannot have leading or trailing whitespace'') else None,
        rejectControlCharacters ''host'' (s_host s),
        if s_port s < 0 \<or> s_port s > 65535
          then Some (wrap [] (sentinel_error ErrInvalidPort) ('': '' @ show_int (s_port s) @ '' is outside the valid range 1-65535''))
          else None]"

definition checks_after_defaults :: "server \<Rightarrow> go_error option" where
  "checks_after_defaults d =
     first_some
       [if trim_space (s_user d) \<noteq> s_user d
          then Some (errors_new ''invalid user: cannot have leading or trailing whitespace'') else None,
        rejectControlCharacters ''user'' (s_user d),
        rejectControlCharacters ''key_path'' (s_key_path d),
        rejectControlCharacters ''description'' (s_description d),
        reject_tags 0 (s_tags d),
        reject_labels (s_labels d),
        if trim_space (s_jump_host d) \<noteq> s_jump_host d
          then Some (errors_new ''invalid jump_host: cannot have leading or trailing whitespace'') else None,
        rejectControlCharacters ''jump_host'' (s_jump_host d),
        if s_jump_host d \<noteq> [] \<and> equal_fold (trim_space (s_jump_host d)) (trim_space (s_name d))
          then Some (sentinel_error ErrSelfReferencingJumpHost) else None]"

definition server_validate :: "server \<Rightarrow> server res" where
  "server_validate s =
     (case checks_before_defaults s of
        Some e \<Rightarrow> Inl e
      | None \<Rightarrow> (case checks_after_defaults (with_defaults s) of
                  Some e \<Rightarrow> Inl e
                | None \<Rightarrow> Inr (with_defaults s)))"

section \<open>Addresses, labels, filters\<close>

definition server_address :: "server \<Rightarrow> string" where
  "server_address s =
     (let port = (if s_port s \<le> 0 then 22 else s_port s)
      in if CHR '':'' \<in> set (s_host s) then ''['' @ s_host s @ '']:'' @ show_int port
         else s_host s @ '':'' @ show_int port)"

definition FormatLabels :: "server \<Rightarrow> string" where
  "FormatLabels s =
     (if s_labels s = [] then ''-''
      else join_with '','' (map (\<lambda>k. k @ ''='' @ the (map_of (s_labels s) k)) (sort (map fst (s_labels s)))))"

definition MatchFilter :: "server \<Rightarrow> string \<Rightarrow> bool" where
  "MatchFilter s flt =
     (let trimmed = trim_space flt
      in if trimmed = [] \<or> equal_fold trimmed ''all'' then True
         else if contains_str trimmed ''='' then
           (case cut_at CHR ''='' trimmed of (a, b, found) \<Rightarrow>
             (case map_of (s_labels s) (trim_space a) of
                Some val \<Rightarrow> equal_fold val (trim_space b)
              | None \<Rightarrow> False))
         else if list_ex (\<lambda>(k, v). equal_fold k trimmed \<or> equal_fold v trimmed) (s_labels s) then True
         else if list_ex (\<lambda>t. equal_fold t trimmed) (s_tags s) then True
         else equal_fold (s_name s) trimmed)"

definition MatchBatchFilter :: "server \<Rightarrow> string \<Rightarrow> bool \<Rightarrow> bool" where
  "MatchBatchFilter s flt includeSkipped =
     (if s_skip_batch s \<and> \<not> includeSkipped then False else MatchFilter s flt)"

definition legacySSHKeys :: "string list" where
  "legacySSHKeys = [''legacy-ssh'', ''legacy_ssh'', ''legacy-rsa'']"

definition HasTag :: "server \<Rightarrow> string \<Rightarrow> bool" where
  "HasTag s tag =
     (let trimmed = trim_space tag
      in if trimmed = [] then False
         else list_ex (\<lambda>t. equal_fold (trim_space t) trimmed) (s_tags s))"

definition IsLegacySSH :: "server \<Rightarrow> bool" where
  "IsLegacySSH s =
     (if list_ex (HasTag s) legacySSHKeys then True
      else list_ex (\<lambda>(k, v). list_ex (\<lambda>want. equal_fold k want
             \<and> to_lower (trim_space v) \<in> {''true'', ''yes'', ''1''}) legacySSHKeys) (s_labels s))"

section \<open>Accepted names\<close>

definition server_char_ok :: "char \<Rightarrow> bool" where
  "server_char_ok c \<longleftrightarrow> is_alnum c \<or> c = CHR ''-''"

lemma server_char_rune: "server_char_ok c \<longleftrightarrow> server_rune_ok (code_of c)"
proof -
  have "c = CHR ''-'' \<longleftrightarrow> code_of c = 45"
    by (simp add: code_of_eq char_of_consts)
  then show ?thesis
    by (auto simp: server_char_ok_def server_rune_ok_def is_alnum_def is_digit_def is_lower_def is_upper_def)
qed

lemma find_None_iff_all: "find (\<lambda>r. \<not> P r) xs = None \<longleftrightarrow> (\<forall>r\<in>set xs. P r)"
  by (auto simp: find_None_iff)

lemma server_runes_chars: "(\<forall>r\<in>set (runes n). server_rune_ok r) \<longleftrightarrow> (\<forall>c\<in>set n. server_char_ok c)"
proof
  assume all: "\<forall>r\<in>set (runes n). server_rune_ok r"
  then have "\<forall>r\<in>set (runes n). r < 128" by (auto simp: server_rune_ok_def)
  then have "runes n = map code_of n" by (rule runes_ascii)
  with all show "\<forall>c\<in>set n. server_char_ok c" by (auto simp: server_char_rune)
next
  assume all: "\<forall>c\<in>set n. server_char_ok c"
  then have "\<forall>c\<in>set n. code_of c < 128" by (auto simp: server_char_rune server_rune_ok_def)
  then have "runes n = map code_of n" by (rule runes_of_ascii)
  with all show "\<forall>r\<in>set (runes n). server_rune_ok r" by (auto simp: server_char_rune)
qed

lemma server_char_not: "\<not> server_char_ok CHR ''_''" "\<not> server_char_ok slash" "\<not> server_char_ok CHR 0x5C"
  "\<not> server_char_ok CHR '':''" "\<not> server_char_ok CHR ''.''"
  by code_simp+

lemma server_char_edge: "server_char_ok c \<Longrightarrow> code_of c < 128 \<and> \<not> ws1 c"
  by (auto simp: server_char_rune server_rune_ok_def ws1_def)

lemma path_of_segment:
  assumes "slash \<notin> set n" "n \<noteq> []" "n \<noteq> ''.''" "n \<noteq> ''..''"
  shows "path_base n = n" "path_clean n = n"
proof -
  have sp: "split_on slash n = [n]" using assms(1) by (rule split_on_free)
  have nr: "\<not> is_rooted n" using assms by (cases n) auto
  show "path_clean n = n" using assms(2-4) by (simp add: path_clean_def sp nr)
  have "last n \<noteq> slash" using assms(1,2) by (metis last_in_set)
  then have "dropWhile (\<lambda>c. c = slash) (rev n) = rev n"
    using assms(2) by (metis dropWhile_eq_self_iff hd_rev)
  moreover have "takeWhile (\<lambda>c. c \<noteq> slash) (rev n) = rev n"
    using assms(1) by (auto simp: takeWhile_eq_all_conv)
  ultimately show "path_base n = n"
    using assms(2) by (simp only: path_base_def trim_chars_right_def Let_def rev_rev_ident if_False)
qed

lemma server_name_plain:
  "(\<forall>c\<in>set n. server_char_ok c) \<Longrightarrow> n \<noteq> [] \<Longrightarrow> plain n"
  using server_char_not by (auto simp: plain_def)

lemma has_suffix_single: "n \<noteq> [] \<Longrightarrow> has_suffix n [c] \<longleftrightarrow> last n = c"
  by (cases n rule: rev_cases) (auto simp: has_suffix_def)

lemma has_prefix_single: "n \<noteq> [] \<Longrightarrow> has_prefix n [c] \<longleftrightarrow> hd n = c"
  by (cases n) auto

lemma server_name_iff_core:
  "ValidateServerName n = None \<longleftrightarrow>
   n \<noteq> [] \<and> length n \<le> 255 \<and> (\<forall>c\<in>set n. server_char_ok c) \<and> hd n \<noteq> CHR ''-'' \<and> last n \<noteq> CHR ''-''"
  (is "?L \<longleftrightarrow> ?R")
proof
  assume ?L
  then have "n \<noteq> []" "length n \<le> 255" "\<not> has_prefix n ''-''" "\<not> has_suffix n ''-''"
    "find (\<lambda>r. \<not> server_rune_ok r) (runes n) = None"
    by (auto simp: ValidateServerName_def split: if_splits option.splits)
  then show ?R by (simp add: has_prefix_single has_suffix_single find_None_iff_all server_runes_chars)
next
  assume R: ?R
  then have ok: "\<forall>c\<in>set n. server_char_ok c" and ne: "n \<noteq> []" by auto
  have "trim_space n = n"
    using ok ne server_char_edge by (intro trim_space_no_edge_space) auto
  moreover have "path_base n = n" "path_clean n = n"
    using server_name_plain[OF ok ne] by (auto simp: plain_def intro!: path_of_segment)
  moreover have "\<not> contains_str n ''_''" "\<not> list_ex (\<lambda>c. c = slash \<or> c = CHR 0x5C \<or> c = CHR '':'') n"
    using ok server_char_not by (auto simp: contains_char list_ex_iff)
  moreover have "find (\<lambda>r. \<not> server_rune_ok r) (runes n) = None"
    using ok by (simp add: find_None_iff_all server_runes_chars)
  ultimately show ?L using R by (simp add: ValidateServerName_def has_prefix_single has_suffix_single)
qed

text \<open>
  \<open>ValidateServerName\<close> accepts exactly the names its comment describes: one to 255 ASCII
  letters, digits and hyphens, with no hyphen at either end. The checks on whitespace, underscores,
  path separators and path navigation refuse nothing else.
\<close>

theorem server_name_charset:
  "ValidateServerName n = None \<longleftrightarrow>
   n \<noteq> [] \<and> length n \<le> 255 \<and> list_all (\<lambda>c. is_alnum c \<or> c = CHR ''-'') n \<and> hd n \<noteq> CHR ''-'' \<and> last n \<noteq> CHR ''-''"
  by (simp add: server_name_iff_core server_char_ok_def list_all_iff)

section \<open>Validation is idempotent\<close>

lemma with_defaults_sel [simp]:
  "s_name (with_defaults s) = s_name s" "s_host (with_defaults s) = s_host s"
  "s_port (with_defaults s) = (if s_port s = 0 then 22 else s_port s)"
  "s_user (with_defaults s) = (if trim_space (s_user s) = [] then ''root'' else s_user s)"
  "s_key_path (with_defaults s) = s_key_path s" "s_password (with_defaults s) = s_password s"
  "s_jump_host (with_defaults s) = s_jump_host s"
  by (simp_all add: with_defaults_def)

lemma trim_root: "trim_space ''root'' = ''root''"
  by code_simp

lemma with_defaults_idem: "with_defaults (with_defaults s) = with_defaults s"
  by (simp add: with_defaults_def trim_root)

lemma server_validate_Inr:
  "server_validate s = Inr d \<longleftrightarrow>
   checks_before_defaults s = None \<and> checks_after_defaults d = None \<and> d = with_defaults s"
  by (auto simp: server_validate_def split: option.splits)

lemma checks_before_None:
  "checks_before_defaults s = None \<longleftrightarrow>
   ValidateServerName (s_name s) = None \<and> trim_space (s_host s) \<noteq> [] \<and> trim_space (s_host s) = s_host s
   \<and> rejectControlCharacters ''host'' (s_host s) = None \<and> 0 \<le> s_port s \<and> s_port s \<le> 65535"
  by (simp add: checks_before_defaults_def first_some_None)

lemma checks_after_None:
  "checks_after_defaults d = None \<Longrightarrow>
   trim_space (s_user d) = s_user d \<and> trim_space (s_jump_host d) = s_jump_host d
   \<and> \<not> (s_jump_host d \<noteq> [] \<and> equal_fold (s_jump_host d) (trim_space (s_name d)))"
  by (auto simp: checks_after_defaults_def first_some_None split: if_splits)

lemma server_validate_name: "server_validate s = Inr d \<Longrightarrow> s_name d = s_name s"
  by (simp add: server_validate_Inr)

lemma server_validate_idem_core: "server_validate s = Inr d \<Longrightarrow> server_validate d = Inr d"
  by (auto simp: server_validate_Inr with_defaults_idem checks_before_None)

lemma server_validate_no_self_jump:
  assumes "server_validate s = Inr d" "s_jump_host d \<noteq> []"
  shows "s_jump_host d \<noteq> s_name d"
proof
  assume eq: "s_jump_host d = s_name d"
  have "trim_space (s_jump_host d) = s_jump_host d"
    "\<not> equal_fold (s_jump_host d) (trim_space (s_name d))"
    using assms checks_after_None[of d] by (auto simp: server_validate_Inr)
  with eq show False by simp
qed

text \<open>
  \<open>Validate\<close> normalises once: an accepted server has a port in 1 to 65535, a user that is not
  blank, a valid name equal to the one given, and is not its own jump host; validating the
  normalised record again accepts it unchanged.
\<close>

theorem server_validate_normalises:
  assumes "server_validate s = Inr d"
  shows "1 \<le> s_port d \<and> s_port d \<le> 65535 \<and> trim_space (s_user d) = s_user d \<and> s_user d \<noteq> []
       \<and> s_name d = s_name s \<and> ValidateServerName (s_name d) = None
       \<and> (s_jump_host d \<noteq> [] \<longrightarrow> s_jump_host d \<noteq> s_name d)
       \<and> server_validate d = Inr d"
proof -
  have d: "d = with_defaults s" "checks_before_defaults s = None" "checks_after_defaults d = None"
    using assms by (auto simp: server_validate_Inr)
  have "s_user d \<noteq> []" using d(1) by auto
  then show ?thesis
    using d checks_after_None[OF d(3)] server_validate_no_self_jump[OF assms] server_validate_idem_core[OF assms]
    by (auto simp: checks_before_None)
qed

definition example_server :: server where
  "example_server = \<lparr>s_name = ''web-1'', s_host = ''10.0.0.5'', s_port = 0, s_user = [], s_key_path = [],
     s_password = [], s_jump_host = ''bastion'', s_skip_batch = False, s_tags = [''prod''],
     s_labels = [(''env'', ''prod'')], s_description = []\<rparr>"

lemma example_server_valid: "server_validate example_server = Inr (example_server\<lparr>s_port := 22, s_user := ''root''\<rparr>)"
  by code_simp

theorem server_validate_normalises_witness:
  "server_validate (example_server\<lparr>s_port := 22, s_user := ''root''\<rparr>) = Inr (example_server\<lparr>s_port := 22, s_user := ''root''\<rparr>)"
  using server_validate_normalises[OF example_server_valid] by simp

end
