(* ===== verification/ServerStore.thy ===== *)
theory ServerStore
  imports ServerModel AssetStore
begin

text \<open>
  \<open>internal/server/store.go\<close>: the inventory file \<open>servers.yaml\<close>, read through a cache of its own,
  with the checks on the whole list (valid entries, distinct names, no cycle of jump hosts) and the
  operations \<open>List\<close>, \<open>Get\<close>, \<open>Save\<close>, \<open>Rename\<close>, \<open>Delete\<close>, \<open>GetDependents\<close>, \<open>ParseConfig\<close> and \<open>Replace\<close>.
  Files, system calls and the YAML codec are those of \<open>YamlStore\<close>.
\<close>

section \<open>Checks on the whole list\<close>

definition cycle_error :: "string \<Rightarrow> go_error" where
  "cycle_error n = wrap [] (sentinel_error ErrJumpHostCycle) ('': loop involving '' @ go_quote n)"

text \<open>The inner loop of \<open>validateJumpHosts\<close>: follow the jump hosts from \<open>cur\<close>.\<close>

function follow_jumps :: "(string \<times> string) list \<Rightarrow> string list \<Rightarrow> string \<Rightarrow> go_error option" where
  "follow_jumps hosts visited cur =
     (if cur = [] then None
      else if cur \<in> set visited then Some (cycle_error cur)
      else (case map_of hosts cur of
              None \<Rightarrow> None
            | Some nxt \<Rightarrow> follow_jumps hosts (cur # visited) nxt))"
  by pat_completeness auto
termination
proof (relation "measure (\<lambda>(hosts, visited, cur). card (fst ` set hosts - set visited))", simp, goal_cases)
  case (1 hosts visited cur nxt)
  then have mem: "cur \<in> fst ` set hosts - set visited" by (force dest: map_of_SomeD)
  have eq: "fst ` set hosts - set (cur # visited) = (fst ` set hosts - set visited) - {cur}" by auto
  have "card ((fst ` set hosts - set visited) - {cur}) < card (fst ` set hosts - set visited)"
    using mem by (intro card_Diff1_less) simp_all
  then show ?case unfolding eq[symmetric] by simp
qed

declare follow_jumps.simps [simp del]

definition jump_map :: "server list \<Rightarrow> (string \<times> string) list" where
  "jump_map servers = rev (map (\<lambda>s. (s_name s, s_jump_host s)) servers)"

definition validateJumpHosts :: "server list \<Rightarrow> go_error option" where
  "validateJumpHosts servers =
     first_some (map (\<lambda>s. if s_jump_host s = [] then None
                          else follow_jumps (jump_map servers) [] (s_name s)) servers)"

fun validate_each :: "nat \<Rightarrow> string list \<Rightarrow> server list \<Rightarrow> server list res" where
  "validate_each i seen [] = Inr []"
| "validate_each i seen (s # ss) =
     (case server_validate s of
        Inl e \<Rightarrow> Inl (wrap (''invalid server entry '' @ show_nat (Suc i) @ '': '') e [])
      | Inr d \<Rightarrow>
          (if s_name d \<in> set seen then Inl (errors_new (''duplicate server name '' @ go_quote (s_name d)))
           else (case validate_each (Suc i) (s_name d # seen) ss of Inl e \<Rightarrow> Inl e | Inr ds \<Rightarrow> Inr (d # ds))))"

definition validateServers :: "server list \<Rightarrow> server list res" where
  "validateServers servers =
     (case validate_each 0 [] servers of
        Inl e \<Rightarrow> Inl e
      | Inr ds \<Rightarrow> res_of (validateJumpHosts ds) ds)"

section \<open>The file\<close>

record server_state =
  sv_path :: string
  sv_file :: "cfg_file option"
  sv_cache :: "server list option"
  sv_mod :: int
  sv_size :: nat

definition parseAndValidateConfig :: "server list codec \<Rightarrow> string \<Rightarrow> server list res" where
  "parseAndValidateConfig cod data =
     (case dec cod data of
        BadYaml e \<Rightarrow> Inl (wrap ''failed to parse servers YAML: '' e [])
      | MultiDoc \<Rightarrow> Inl (errors_new ''failed to parse servers YAML: multiple documents are not supported'')
      | BadTail e \<Rightarrow> Inl (wrap ''failed to parse servers YAML: '' e [])
      | Decoded servers \<Rightarrow> validateServers servers)"

definition sv_invalidate :: "server_state \<Rightarrow> server_state" where
  "sv_invalidate st = st\<lparr>sv_cache := None, sv_mod := 0, sv_size := 0\<rparr>"

definition sv_read :: "server list codec \<Rightarrow> io \<Rightarrow> server_state \<Rightarrow> server list res \<times> server_state" where
  "sv_read cod io st =
     (case io_stat io of
        Some e \<Rightarrow> (Inl (wrap ''failed to stat servers file: '' e []), sv_invalidate st)
      | None \<Rightarrow>
          (case sv_file st of
             None \<Rightarrow> (Inr [], sv_invalidate st)
           | Some f \<Rightarrow>
               (if sv_cache st \<noteq> None \<and> sv_size st = length (fdata f) \<and> sv_mod st = fmtime f
                then (Inr (the (sv_cache st)), st)
                else (case io_read io of
                        Some e \<Rightarrow> (Inl (wrap ''failed to read servers file: '' e []), sv_invalidate st)
                      | None \<Rightarrow>
                          (case (if fdata f = [] then Inr [] else parseAndValidateConfig cod (fdata f)) of
                             Inl e \<Rightarrow> (Inl e, sv_invalidate st)
                           | Inr cf \<Rightarrow> (Inr cf, st\<lparr>sv_cache := Some cf, sv_mod := fmtime f,
                                                sv_size := length (fdata f)\<rparr>))))))"

text \<open>The part \<open>write\<close> and \<open>Replace\<close> share: bytes to a temporary file that is renamed over the target.\<close>

definition sv_put :: "io \<Rightarrow> string \<Rightarrow> server_state \<Rightarrow> go_error option \<times> server_state" where
  "sv_put io data st =
     (case io_create io of
        Some e \<Rightarrow> (Some (wrap ''failed to create temporary servers file: '' e []), st)
      | None \<Rightarrow>
     (case io_write io of
        Some e \<Rightarrow> (Some (wrap ''failed to write temporary servers file: '' e []), st)
      | None \<Rightarrow>
     (case io_chmod io of
        Some e \<Rightarrow> (Some (wrap (''failed to set permissions on '' @ go_quote (io_tmp io) @ '': '') e []), st)
      | None \<Rightarrow>
     (case io_close io of
        Some e \<Rightarrow> (Some (wrap ''failed to close temporary servers file: '' e []), st)
      | None \<Rightarrow>
     (case io_rename io of
        Some e \<Rightarrow> (Some (wrap ''failed to replace servers file: '' e []), st)
      | None \<Rightarrow> (None, st\<lparr>sv_file := Some \<lparr>fdata = data, fmtime = io_now io\<rparr>\<rparr>))))))"

definition sv_write :: "server list codec \<Rightarrow> io \<Rightarrow> server list \<Rightarrow> server_state \<Rightarrow> go_error option \<times> server_state" where
  "sv_write cod io cf st0 =
     (let st = sv_invalidate st0
      in case io_mkdir io of
           Some e \<Rightarrow> (Some (wrap ''failed to create config directory: '' e []), st)
         | None \<Rightarrow>
             (case enc cod cf of
                Inl e \<Rightarrow> (Some (wrap ''failed to marshal servers YAML: '' e []), st)
              | Inr data \<Rightarrow> sv_put io data st))"

section \<open>Operations\<close>

definition server_list :: "server list codec \<Rightarrow> io \<Rightarrow> server_state \<Rightarrow> server list res \<times> server_state" where
  "server_list cod io st = sv_read cod io st"

definition server_not_found :: "string \<Rightarrow> go_error" where
  "server_not_found name = wrap [] (sentinel_error ErrServerNotFound) ('': '' @ name)"

definition server_get :: "server list codec \<Rightarrow> io \<Rightarrow> string \<Rightarrow> server_state \<Rightarrow> server res \<times> server_state" where
  "server_get cod io name st =
     (case sv_read cod io st of
        (Inl e, st1) \<Rightarrow> (Inl e, st1)
      | (Inr cf, st1) \<Rightarrow>
          (case find_key s_name name cf of
             None \<Rightarrow> (Inl (server_not_found name), st1)
           | Some s \<Rightarrow> (Inr s, st1)))"

definition server_save :: "server list codec \<Rightarrow> io \<Rightarrow> server \<Rightarrow> server_state \<Rightarrow> unit res \<times> server_state" where
  "server_save cod io srv0 st =
     (case server_validate srv0 of
        Inl e \<Rightarrow> (Inl e, st)
      | Inr srv \<Rightarrow>
     (case io_lock io of
        Some e \<Rightarrow> (Inl (lock_error e), st)
      | None \<Rightarrow>
     (case sv_read cod io st of
        (Inl e, st1) \<Rightarrow> (Inl e, st1)
      | (Inr cf, st1) \<Rightarrow>
     (case validateJumpHosts (upsert s_name srv cf) of
        Some e \<Rightarrow> (Inl e, st1)
      | None \<Rightarrow> (case sv_write cod io (upsert s_name srv cf) st1 of (r, st2) \<Rightarrow> (res_of r (), st2))))))"

definition server_delete :: "server list codec \<Rightarrow> io \<Rightarrow> string \<Rightarrow> server_state \<Rightarrow> unit res \<times> server_state" where
  "server_delete cod io name st =
     (case io_lock io of
        Some e \<Rightarrow> (Inl (lock_error e), st)
      | None \<Rightarrow>
     (case sv_read cod io st of
        (Inl e, st1) \<Rightarrow> (Inl e, st1)
      | (Inr cf, st1) \<Rightarrow>
          (if \<not> list_ex (\<lambda>s. s_name s = name) cf then (Inl (server_not_found name), st1)
           else (case sv_write cod io (filter (\<lambda>s. s_name s \<noteq> name) cf) st1 of
                   (r, st2) \<Rightarrow> (res_of r (), st2)))))"

definition rename_server :: "string \<Rightarrow> string \<Rightarrow> server \<Rightarrow> server" where
  "rename_server old new s =
     (let s1 = (if s_name s = old then s\<lparr>s_name := new\<rparr> else s)
      in if s_jump_host s1 = old then s1\<lparr>s_jump_host := new\<rparr> else s1)"

definition server_rename ::
    "server list codec \<Rightarrow> io \<Rightarrow> string \<Rightarrow> string \<Rightarrow> server_state \<Rightarrow> server list res \<times> server_state" where
  "server_rename cod io old new st =
     (if old = new then (Inl (errors_new (''new server name must differ from '' @ go_quote old)), st)
      else
     (case ValidateServerName new of
        Some e \<Rightarrow> (Inl e, st)
      | None \<Rightarrow>
     (case io_lock io of
        Some e \<Rightarrow> (Inl (lock_error e), st)
      | None \<Rightarrow>
     (case sv_read cod io st of
        (Inl e, st1) \<Rightarrow> (Inl e, st1)
      | (Inr cf, st1) \<Rightarrow>
     (if list_ex (\<lambda>s. s_name s = new) cf
      then (Inl (errors_new (''server '' @ go_quote new @ '' already exists'')), st1)
      else if \<not> list_ex (\<lambda>s. s_name s = old) cf then (Inl (server_not_found old), st1)
      else
     (let cf' = map (rename_server old new) cf;
          dependents = map (rename_server old new) (filter (\<lambda>s. s_jump_host s = old) cf)
      in case validateServers cf' of
           Inl e \<Rightarrow> (Inl e, st1)
         | Inr cf'' \<Rightarrow>
             (case sv_write cod io cf'' st1 of
                (Some e, st2) \<Rightarrow> (Inl e, st2)
              | (None, st2) \<Rightarrow> (Inr dependents, st2))))))))"

definition GetDependents :: "server list codec \<Rightarrow> io \<Rightarrow> string \<Rightarrow> server_state \<Rightarrow> server list res \<times> server_state" where
  "GetDependents cod io name st =
     (case sv_read cod io st of
        (Inl e, st1) \<Rightarrow> (Inl e, st1)
      | (Inr cf, st1) \<Rightarrow> (Inr (filter (\<lambda>s. s_jump_host s = name) cf), st1))"

definition ParseConfig :: "server list codec \<Rightarrow> string \<Rightarrow> server list res" where
  "ParseConfig cod data = parseAndValidateConfig cod data"

definition server_replace :: "server list codec \<Rightarrow> io \<Rightarrow> string \<Rightarrow> server_state \<Rightarrow> unit res \<times> server_state" where
  "server_replace cod io data st0 =
     (case parseAndValidateConfig cod data of
        Inl e \<Rightarrow> (Inl e, st0)
      | Inr cf \<Rightarrow>
          (let st = sv_invalidate st0
           in case io_lock io of
                Some e \<Rightarrow> (Inl (lock_error e), st)
              | None \<Rightarrow>
                  (case io_mkdir io of
                     Some e \<Rightarrow> (Inl (wrap ''failed to create config directory: '' e []), st)
                   | None \<Rightarrow> (case sv_put io data st of (r, st2) \<Rightarrow> (res_of r (), st2)))))"

section \<open>Jump hosts\<close>

text \<open>The dependency the check is about: a server and the non-empty jump host it names.\<close>

definition jump_edges :: "server list \<Rightarrow> (string \<times> string) set" where
  "jump_edges servers = {(a, b). b \<noteq> [] \<and> (\<exists>s\<in>set servers. s_name s = a \<and> s_jump_host s = b)}"

definition host_edges :: "(string \<times> string) list \<Rightarrow> (string \<times> string) set" where
  "host_edges hosts = {(a, b). b \<noteq> [] \<and> map_of hosts a = Some b}"

lemma host_edges_jump_map:
  assumes "distinct (map s_name servers)"
  shows "host_edges (jump_map servers) = jump_edges servers"
proof -
  have "distinct (map fst (jump_map servers))"
    using assms by (simp add: jump_map_def rev_map[symmetric] comp_def)
  then have "map_of (jump_map servers) a = Some b \<longleftrightarrow> (a, b) \<in> set (jump_map servers)" for a b
    by (rule map_of_eq_Some_iff)
  then show ?thesis by (auto simp: host_edges_def jump_edges_def jump_map_def)
qed

lemma follow_jumps_error: "follow_jumps hosts visited cur = Some e \<Longrightarrow> errors_is e ErrJumpHostCycle"
  by (induction hosts visited cur rule: follow_jumps.induct)
     (subst (asm) (2) follow_jumps.simps, auto simp: cycle_error_def go_error_simps split: if_splits option.splits)

lemma follow_jumps_cycle:
  "follow_jumps hosts visited cur = Some e \<Longrightarrow> \<forall>v\<in>set visited. (v, cur) \<in> (host_edges hosts)\<^sup>+ \<Longrightarrow>
   \<exists>x. (x, x) \<in> (host_edges hosts)\<^sup>+"
proof (induction hosts visited cur rule: follow_jumps.induct)
  case (1 hosts visited cur)
  have ne: "cur \<noteq> []" using "1.prems"(1) by (subst (asm) follow_jumps.simps) (simp split: if_splits)
  show ?case
  proof (cases "cur \<in> set visited")
    case True
    then show ?thesis using "1.prems"(2) by blast
  next
    case False
    then obtain nxt where nxt: "map_of hosts cur = Some nxt" "follow_jumps hosts (cur # visited) nxt = Some e"
      using "1.prems"(1) ne by (subst (asm) follow_jumps.simps) (auto split: option.splits)
    have "nxt \<noteq> []" using nxt(2) by (cases nxt) (simp_all add: follow_jumps.simps)
    then have edge: "(cur, nxt) \<in> host_edges hosts" using nxt(1) by (simp add: host_edges_def)
    then have "\<forall>v\<in>set (cur # visited). (v, nxt) \<in> (host_edges hosts)\<^sup>+"
      using "1.prems"(2) by (auto intro: trancl_into_trancl)
    then show ?thesis using "1.IH"[OF ne False nxt] by blast
  qed
qed

lemma follow_jumps_on_cycle:
  "(cur, cur) \<in> (host_edges hosts)\<^sup>+ \<Longrightarrow> follow_jumps hosts visited cur \<noteq> None"
proof (induction hosts visited cur rule: follow_jumps.induct)
  case (1 hosts visited cur)
  obtain p where "(p, cur) \<in> host_edges hosts" using "1.prems" by (auto dest: tranclD2)
  then have ne: "cur \<noteq> []" by (simp add: host_edges_def)
  show ?case
  proof (cases "cur \<in> set visited")
    case True
    then show ?thesis using ne by (subst follow_jumps.simps) simp
  next
    case False
    obtain nxt where nxt: "(cur, nxt) \<in> host_edges hosts" "(nxt, cur) \<in> (host_edges hosts)\<^sup>*"
      using "1.prems" by (auto dest: tranclD)
    then have "(nxt, nxt) \<in> (host_edges hosts)\<^sup>+" by (metis rtrancl_into_trancl1)
    moreover have m: "map_of hosts cur = Some nxt" using nxt(1) by (simp add: host_edges_def)
    ultimately have "follow_jumps hosts (cur # visited) nxt \<noteq> None" using "1.IH"[OF ne False m] by blast
    then show ?thesis using ne False m by (subst follow_jumps.simps) simp
  qed
qed

lemma validateJumpHosts_error: "validateJumpHosts servers = Some e \<Longrightarrow> errors_is e ErrJumpHostCycle"
proof -
  have "first_some es = Some e \<Longrightarrow> Some e \<in> set es" for es
    by (induction es) (auto simp: first_some_def split: if_splits)
  then show "validateJumpHosts servers = Some e \<Longrightarrow> errors_is e ErrJumpHostCycle"
    by (fastforce simp: validateJumpHosts_def split: if_splits dest: follow_jumps_error[OF sym])
qed

lemma validateJumpHosts_iff:
  assumes "distinct (map s_name servers)"
  shows "validateJumpHosts servers = None \<longleftrightarrow> acyclic (jump_edges servers)"
proof -
  let ?H = "jump_map servers"
  note edges = host_edges_jump_map[OF assms]
  show ?thesis
  proof
    assume none: "validateJumpHosts servers = None"
    show "acyclic (jump_edges servers)"
      unfolding acyclic_def
    proof (rule allI, rule notI)
      fix x assume cyc: "(x, x) \<in> (jump_edges servers)\<^sup>+"
      then obtain y where "(x, y) \<in> jump_edges servers" by (auto dest: tranclD)
      then obtain s where s: "s \<in> set servers" "s_name s = x" "s_jump_host s \<noteq> []"
        by (auto simp: jump_edges_def)
      then have "follow_jumps ?H [] x = None"
        using none by (force simp: validateJumpHosts_def first_some_None)
      with follow_jumps_on_cycle[of x ?H "[]"] cyc edges show False by simp
    qed
  next
    assume ac: "acyclic (jump_edges servers)"
    show "validateJumpHosts servers = None"
    proof (rule ccontr)
      assume "validateJumpHosts servers \<noteq> None"
      then obtain x where "x \<noteq> None" and mem: "x \<in> set (map (\<lambda>s. if s_jump_host s = [] then None
          else follow_jumps ?H [] (s_name s)) servers)"
        unfolding validateJumpHosts_def first_some_None by blast
      obtain s :: server where "x = (if s_jump_host s = [] then None else follow_jumps ?H [] (s_name s))"
        by (rule imageE[OF mem[unfolded set_map]])
      with \<open>x \<noteq> None\<close> have "follow_jumps ?H [] (s_name s) \<noteq> None" by (simp split: if_splits)
      then obtain e where "follow_jumps ?H [] (s_name s) = Some e" by blast
      from follow_jumps_cycle[OF this] ac edges show False by (auto simp: acyclic_def)
    qed
  qed
qed

text \<open>
  C6. The jump-host check always ends and decides acyclicity: on an inventory with distinct names
  it accepts exactly when no chain of jump hosts leads back to its start, and every rejection wraps
  \<open>ErrJumpHostCycle\<close>.
\<close>

theorem jump_check_decides_acyclicity:
  assumes "distinct (map s_name servers)"
  shows "case validateJumpHosts servers of
           None \<Rightarrow> acyclic (jump_edges servers)
         | Some e \<Rightarrow> \<not> acyclic (jump_edges servers) \<and> errors_is e ErrJumpHostCycle"
  using validateJumpHosts_iff[OF assms] validateJumpHosts_error
  by (cases "validateJumpHosts servers") auto

theorem jump_check_decides_acyclicity_witness:
  "\<not> acyclic (jump_edges [example_server, example_server\<lparr>s_name := ''bastion'', s_jump_host := ''web-1''\<rparr>])"
proof -
  let ?l = "[example_server, example_server\<lparr>s_name := ''bastion'', s_jump_host := ''web-1''\<rparr>]"
  have "distinct (map s_name ?l)" by (simp add: example_server_def)
  moreover have "validateJumpHosts ?l \<noteq> None" by code_simp
  ultimately show ?thesis using jump_check_decides_acyclicity[of ?l] by (auto split: option.splits)
qed

section \<open>Valid inventories\<close>

definition good_list :: "server list \<Rightarrow> bool" where
  "good_list ss \<longleftrightarrow>
     (\<forall>s\<in>set ss. server_validate s = Inr s) \<and> distinct (map s_name ss) \<and> validateJumpHosts ss = None"

lemma validate_each_Inr:
  "validate_each i seen xs = Inr ys \<longleftrightarrow>
   ys = map with_defaults xs \<and> (\<forall>x\<in>set xs. server_validate x = Inr (with_defaults x))
   \<and> distinct (map s_name xs) \<and> s_name ` set xs \<inter> set seen = {}"
proof (induction xs arbitrary: i seen ys)
  case (Cons x xs)
  show ?case
  proof (cases "server_validate x")
    case (Inl e)
    then show ?thesis by auto
  next
    case (Inr d)
    then have "d = with_defaults x" by (simp add: server_validate_Inr)
    have "validate_each i seen (x # xs) = Inr ys \<longleftrightarrow>
        s_name d \<notin> set seen \<and> (\<exists>ds. validate_each (Suc i) (s_name d # seen) xs = Inr ds \<and> ys = d # ds)"
      using Inr by (auto split: sum.splits)
    then show ?thesis unfolding Cons.IH using \<open>d = with_defaults x\<close> Inr by auto
  qed
qed auto

lemma server_validate_fixed: "server_validate s = Inr s \<Longrightarrow> with_defaults s = s"
  by (metis server_validate_Inr)

lemma validateServers_Inr:
  "validateServers xs = Inr ys \<longleftrightarrow>
   ys = map with_defaults xs \<and> (\<forall>x\<in>set xs. server_validate x = Inr (with_defaults x))
   \<and> distinct (map s_name xs) \<and> validateJumpHosts ys = None"
proof -
  have "validateServers xs = Inr ys \<longleftrightarrow> validate_each 0 [] xs = Inr ys \<and> validateJumpHosts ys = None"
    by (auto simp: validateServers_def res_of_def split: sum.splits option.splits)
  then show ?thesis by (auto simp: validate_each_Inr)
qed

lemma validateServers_good:
  assumes "validateServers xs = Inr ys" shows "good_list ys"
proof -
  have ys: "ys = map with_defaults xs" and all: "\<forall>x\<in>set xs. server_validate x = Inr (with_defaults x)"
    and rest: "distinct (map s_name xs)" "validateJumpHosts ys = None"
    using assms by (auto simp: validateServers_Inr)
  have "server_validate y = Inr y" if "y \<in> set ys" for y
    using that all ys server_validate_idem_core by auto
  then show ?thesis using rest ys by (simp add: good_list_def comp_def)
qed

lemma good_list_validates:
  assumes "good_list ys" shows "validateServers ys = Inr ys"
proof -
  have "\<forall>y\<in>set ys. with_defaults y = y" using assms by (auto simp: good_list_def server_validate_fixed)
  then have "validate_each 0 [] ys = Inr ys"
    using assms by (auto simp: validate_each_Inr good_list_def map_idI)
  then show ?thesis using assms by (simp add: validateServers_def good_list_def res_of_def)
qed

section \<open>The file and its cache\<close>

definition sv_disk :: "server list codec \<Rightarrow> server_state \<Rightarrow> server list res" where
  "sv_disk cod st =
     (case sv_file st of
        None \<Rightarrow> Inr []
      | Some f \<Rightarrow> (if fdata f = [] then Inr [] else parseAndValidateConfig cod (fdata f)))"

definition sv_coherent :: "server list codec \<Rightarrow> server_state \<Rightarrow> bool" where
  "sv_coherent cod st \<longleftrightarrow>
     (\<forall>v f. sv_cache st = Some v \<longrightarrow> sv_file st = Some f \<longrightarrow> sv_size st = length (fdata f) \<longrightarrow>
            sv_mod st = fmtime f \<longrightarrow> sv_disk cod st = Inr v)"

definition sv_wf :: "server list codec \<Rightarrow> server_state \<Rightarrow> bool" where
  "sv_wf cod st \<longleftrightarrow> codec_ok cod \<and> sv_coherent cod st \<and> is_ok (sv_disk cod st)"

definition sv_entries :: "server list codec \<Rightarrow> server_state \<Rightarrow> server list" where
  "sv_entries cod st = (case sv_disk cod st of Inl e \<Rightarrow> [] | Inr v \<Rightarrow> v)"

lemma sv_wf_disk: "sv_wf cod st \<Longrightarrow> sv_disk cod st = Inr (sv_entries cod st)"
  by (auto simp: sv_wf_def sv_entries_def dest: is_okD)

lemma sv_disk_good: "sv_disk cod st = Inr v \<Longrightarrow> good_list v"
proof -
  have "good_list []" by (simp add: good_list_def validateJumpHosts_def first_some_def)
  then show "sv_disk cod st = Inr v \<Longrightarrow> ?thesis"
    by (auto simp: sv_disk_def parseAndValidateConfig_def validateServers_good
             split: option.splits if_splits decoded.splits)
qed

lemma sv_entries_good: "sv_wf cod st \<Longrightarrow> good_list (sv_entries cod st)"
  using sv_wf_disk sv_disk_good by blast

lemma sv_invalidate_facts [simp]:
  "sv_disk cod (sv_invalidate st) = sv_disk cod st" "sv_coherent cod (sv_invalidate st)"
  "sv_file (sv_invalidate st) = sv_file st"
  by (simp_all add: sv_invalidate_def sv_disk_def sv_coherent_def)

lemma sv_frame:
  assumes "sv_wf cod st" "sv_disk cod st' = sv_disk cod st" "sv_coherent cod st'"
  shows "sv_wf cod st' \<and> sv_entries cod st' = sv_entries cod st"
  using assms by (simp add: sv_wf_def sv_entries_def)

lemma sv_read_cases:
  assumes "sv_read cod io st = (r, st')" "sv_coherent cod st"
  shows "sv_disk cod st' = sv_disk cod st \<and> sv_coherent cod st' \<and> (\<forall>v. r = Inr v \<longrightarrow> sv_disk cod st = Inr v)"
proof (cases "io_stat io")
  case (Some e)
  then show ?thesis using assms by (auto simp: sv_read_def)
next
  case None
  show ?thesis
  proof (cases "sv_file st")
    case None
    then show ?thesis using assms \<open>io_stat io = None\<close> by (auto simp: sv_read_def sv_disk_def sv_invalidate_def sv_coherent_def)
  next
    case (Some f)
    let ?hit = "sv_cache st \<noteq> None \<and> sv_size st = length (fdata f) \<and> sv_mod st = fmtime f"
    show ?thesis
    proof (cases ?hit)
      case True
      then have "r = Inr (the (sv_cache st))" "st' = st" using assms(1) None Some by (auto simp: sv_read_def)
      then show ?thesis using True assms(2) Some by (auto simp: sv_coherent_def)
    next
      case False
      have disk: "sv_disk cod st = (if fdata f = [] then Inr [] else parseAndValidateConfig cod (fdata f))"
        using Some by (simp add: sv_disk_def)
      have eq: "sv_read cod io st =
          (case io_read io of
             Some e \<Rightarrow> (Inl (wrap ''failed to read servers file: '' e []), sv_invalidate st)
           | None \<Rightarrow> (case sv_disk cod st of
                Inl e \<Rightarrow> (Inl e, sv_invalidate st)
              | Inr cf \<Rightarrow> (Inr cf, st\<lparr>sv_cache := Some cf, sv_mod := fmtime f, sv_size := length (fdata f)\<rparr>)))"
        unfolding disk sv_read_def None Some option.case if_not_P[OF False] by (rule refl)
      show ?thesis
      proof (cases "io_read io")
        case (Some e)
        then show ?thesis using assms eq by auto
      next
        case None
        show ?thesis
        proof (cases "sv_disk cod st")
          case (Inl e)
          then show ?thesis using assms eq None by auto
        next
          case (Inr cf)
          then have "r = Inr cf" "st' = st\<lparr>sv_cache := Some cf, sv_mod := fmtime f, sv_size := length (fdata f)\<rparr>"
            using assms eq None by auto
          then show ?thesis using Inr by (auto simp: sv_disk_def sv_coherent_def)
        qed
      qed
    qed
  qed
qed

lemma sv_read_frame:
  assumes "sv_wf cod st" "sv_read cod io st = (r, st')"
  shows "sv_wf cod st' \<and> sv_entries cod st' = sv_entries cod st \<and> (\<forall>v. r = Inr v \<longrightarrow> v = sv_entries cod st)"
proof -
  have co: "sv_coherent cod st" using assms(1) by (simp add: sv_wf_def)
  note rd = sv_read_cases[OF assms(2) co]
  have "sv_wf cod st' \<and> sv_entries cod st' = sv_entries cod st" using rd by (intro sv_frame[OF assms(1)]) simp_all
  moreover have "v = sv_entries cod st" if "r = Inr v" for v using rd that sv_wf_disk[OF assms(1)] by simp
  ultimately show ?thesis by blast
qed

lemma sv_read_fine:
  assumes "sv_wf cod st" shows "fst (sv_read cod (io_fine t) st) = Inr (sv_entries cod st)"
proof -
  obtain r st' where rd: "sv_read cod (io_fine t) st = (r, st')" by force
  have fine: "io_stat (io_fine t) = None" "io_read (io_fine t) = None" by (simp_all add: io_fine_def)
  note disk = sv_wf_disk[OF assms]
  have "is_ok (fst (sv_read cod (io_fine t) st))"
  proof (cases "sv_file st")
    case None
    then show ?thesis by (simp add: sv_read_def fine)
  next
    case (Some f)
    then have "(if fdata f = [] then Inr [] else parseAndValidateConfig cod (fdata f)) = Inr (sv_entries cod st)"
      using disk by (simp add: sv_disk_def)
    then show ?thesis unfolding sv_read_def fine Some option.case by simp
  qed
  then show ?thesis using sv_read_frame[OF assms rd] rd by (auto dest: is_okD)
qed

lemma sv_put_cases:
  "sv_put io data st = (r, st') \<Longrightarrow>
   (r \<noteq> None \<and> st' = st) \<or> (r = None \<and> st' = st\<lparr>sv_file := Some \<lparr>fdata = data, fmtime = io_now io\<rparr>\<rparr>)"
  by (auto simp: sv_put_def split: option.splits)

lemma sv_write_cases:
  assumes "sv_write cod io cf st = (r, st')"
  shows "(r \<noteq> None \<and> st' = sv_invalidate st)
       \<or> (\<exists>d. r = None \<and> enc cod cf = Inr d
             \<and> st' = (sv_invalidate st)\<lparr>sv_file := Some \<lparr>fdata = d, fmtime = io_now io\<rparr>\<rparr>)"
proof (cases "io_mkdir io")
  case (Some e)
  then show ?thesis using assms by (auto simp: sv_write_def)
next
  case None
  show ?thesis
  proof (cases "enc cod cf")
    case (Inl e)
    then show ?thesis using assms None by (auto simp: sv_write_def)
  next
    case (Inr d)
    then have "sv_put io d (sv_invalidate st) = (r, st')" using assms None by (simp add: sv_write_def)
    from sv_put_cases[OF this] Inr show ?thesis by auto
  qed
qed

lemma sv_write_back:
  assumes wf: "sv_wf cod st" and good: "good_list cf" and wr: "sv_write cod io cf st = (r, st')"
  shows "sv_wf cod st' \<and> sv_entries cod st' = (case r of None \<Rightarrow> cf | Some e \<Rightarrow> sv_entries cod st)"
proof (cases r)
  case (Some e)
  then have "st' = sv_invalidate st"
    using sv_write_cases[OF wr] by simp
  then show ?thesis using wf Some sv_frame[OF wf] by simp
next
  case None
  then obtain d where d: "enc cod cf = Inr d"
    and st': "st' = (sv_invalidate st)\<lparr>sv_file := Some \<lparr>fdata = d, fmtime = io_now io\<rparr>\<rparr>"
    using sv_write_cases[OF wr] by auto
  have "d \<noteq> []" "dec cod d = Decoded cf" and cok: "codec_ok cod"
    using wf d by (auto simp: sv_wf_def codec_ok_def)
  then have "sv_disk cod st' = Inr cf"
    using good_list_validates[OF good] by (simp add: st' sv_disk_def parseAndValidateConfig_def)
  moreover have "sv_coherent cod st'" by (simp add: st' sv_coherent_def sv_invalidate_def)
  ultimately show ?thesis using None cok by (simp add: sv_wf_def sv_entries_def)
qed

section \<open>The inventory as a map\<close>

lemma good_list_distinct: "good_list ss \<Longrightarrow> distinct (map s_name ss)"
  by (simp add: good_list_def)

lemma good_list_upsert:
  assumes "good_list cf" "server_validate s = Inr s" "validateJumpHosts (upsert s_name s cf) = None"
  shows "good_list (upsert s_name s cf)"
  using assms set_upsert_subset[of s_name s cf] by (auto simp: good_list_def distinct_upsert)

lemma jump_edges_mono: "set xs \<subseteq> set ys \<Longrightarrow> jump_edges xs \<subseteq> jump_edges ys"
  by (auto simp: jump_edges_def)

lemma good_list_filter:
  assumes "good_list cf" shows "good_list (filter P cf)"
proof -
  have d: "distinct (map s_name (filter P cf))" "distinct (map s_name cf)"
    using assms by (auto simp: good_list_def distinct_map_filter)
  have "acyclic (jump_edges cf)" using assms d validateJumpHosts_iff by (auto simp: good_list_def)
  then have "acyclic (jump_edges (filter P cf))"
    by (rule acyclic_subset) (rule jump_edges_mono, simp)
  then show ?thesis using assms d validateJumpHosts_iff by (auto simp: good_list_def)
qed

lemma server_get_cases:
  assumes "sv_wf cod st" "server_get cod io k st = (r, st')"
  shows "sv_wf cod st' \<and> sv_entries cod st' = sv_entries cod st
       \<and> (\<forall>s. r = Inr s \<longrightarrow> find_key s_name k (sv_entries cod st) = Some s)"
proof -
  obtain q st1 where rd: "sv_read cod io st = (q, st1)" by force
  note fr = sv_read_frame[OF assms(1) rd]
  show ?thesis
    using assms(2) rd fr by (cases q; cases "find_key s_name k (sv_entries cod st)") (auto simp: server_get_def)
qed

lemma server_save_cases:
  assumes wf: "sv_wf cod st" and sv: "server_save cod io s st = (r, st')"
  shows "sv_wf cod st' \<and>
    (case r of
       Inl e \<Rightarrow> sv_entries cod st' = sv_entries cod st
     | Inr u \<Rightarrow> server_validate (with_defaults s) = Inr (with_defaults s)
              \<and> sv_entries cod st' = upsert s_name (with_defaults s) (sv_entries cod st))"
proof (cases "server_validate s")
  case (Inl e)
  then show ?thesis using wf sv by (auto simp: server_save_def)
next
  case (Inr d)
  then have d: "d = with_defaults s" "server_validate d = Inr d"
    using server_validate_idem_core by (auto simp: server_validate_Inr)
  show ?thesis
  proof (cases "io_lock io")
    case (Some e)
    then show ?thesis using wf sv Inr by (auto simp: server_save_def)
  next
    case None
    obtain q st1 where rd: "sv_read cod io st = (q, st1)" by force
    note fr = sv_read_frame[OF wf rd]
    show ?thesis
    proof (cases q)
      case (Inl e)
      then show ?thesis using sv \<open>server_validate s = Inr d\<close> None rd fr by (auto simp: server_save_def)
    next
      case q: (Inr cf)
      then have cf: "cf = sv_entries cod st" using fr by simp
      show ?thesis
      proof (cases "validateJumpHosts (upsert s_name d cf)")
        case (Some e)
        then show ?thesis using sv Inr None rd q fr by (auto simp: server_save_def)
      next
        case jump: None
        obtain w st2 where wr: "sv_write cod io (upsert s_name d cf) st1 = (w, st2)" by force
        have "good_list (upsert s_name d cf)"
          using good_list_upsert sv_entries_good[OF wf] cf d(2) jump by blast
        note wb = sv_write_back[OF conjunct1[OF fr] this wr]
        have "(r, st') = (res_of w (), st2)" using sv Inr None rd q jump wr by (simp add: server_save_def)
        then show ?thesis using wb fr cf d by (cases w) (simp_all add: res_of_def)
      qed
    qed
  qed
qed

lemma server_delete_cases:
  assumes wf: "sv_wf cod st" and dl: "server_delete cod io k st = (r, st')"
  shows "sv_wf cod st' \<and>
    (case r of
       Inl e \<Rightarrow> sv_entries cod st' = sv_entries cod st
     | Inr u \<Rightarrow> k \<in> s_name ` set (sv_entries cod st)
              \<and> sv_entries cod st' = filter (\<lambda>s. s_name s \<noteq> k) (sv_entries cod st))"
proof (cases "io_lock io")
  case (Some e)
  then show ?thesis using wf dl by (auto simp: server_delete_def)
next
  case None
  obtain q st1 where rd: "sv_read cod io st = (q, st1)" by force
  note fr = sv_read_frame[OF wf rd]
  show ?thesis
  proof (cases q)
    case (Inl e)
    then show ?thesis using dl None rd fr by (auto simp: server_delete_def)
  next
    case q: (Inr cf)
    then have cf: "cf = sv_entries cod st" using fr by simp
    show ?thesis
    proof (cases "list_ex (\<lambda>s. s_name s = k) cf")
      case False
      then show ?thesis using dl None rd q fr by (auto simp: server_delete_def)
    next
      case True
      obtain w st2 where wr: "sv_write cod io (filter (\<lambda>s. s_name s \<noteq> k) cf) st1 = (w, st2)" by force
      have "good_list (filter (\<lambda>s. s_name s \<noteq> k) cf)"
        using good_list_filter sv_entries_good[OF wf] cf by blast
      note wb = sv_write_back[OF conjunct1[OF fr] this wr]
      have mem: "k \<in> s_name ` set cf" using True by (auto simp: list_ex_iff)
      have "(r, st') = (res_of w (), st2)" using dl None rd q True wr by (simp add: server_delete_def)
      then show ?thesis using wb fr cf mem by (cases w) (simp_all add: res_of_def)
    qed
  qed
qed

interpretation server_store: keyed_store s_name with_defaults "sv_entries cod" "sv_wf cod"
    "\<lambda>s. server_validate s = Inr s" "server_get cod" "server_save cod" "server_delete cod" for cod
proof (standard, goal_cases)
  case 1 show ?case by simp
next
  case (2 s) then show ?case by (intro good_list_distinct sv_entries_good)
next
  case (3 s e) then show ?case using sv_entries_good by (auto simp: good_list_def)
next
  case 4 then show ?case using server_get_cases by blast
next
  case 5 then show ?case using server_get_cases by blast
next
  case (6 s k e t)
  then show ?case using sv_read_fine[of cod s t]
    by (cases "sv_read cod (io_fine t) s") (auto simp: server_get_def)
next
  case (7 s io e u s') from server_save_cases[OF 7] show ?case by simp
next
  case (8 s io e x s') from server_save_cases[OF 8] show ?case by simp
next
  case (9 s io k u s')
  from server_delete_cases[OF 9] show ?case
    using good_list_distinct[OF sv_entries_good[OF 9(1)]] by (simp add: del_key_filter)
next
  case (10 s io k x s') from server_delete_cases[OF 10] show ?case by simp
qed

text \<open>
  C4. The inventory file stays sound whatever is done to it: after any sequence of \<open>Save\<close> and
  \<open>Delete\<close> calls, each of which may fail anywhere, it holds exactly the normalised entries of the
  calls that succeeded, all valid, with distinct names and without a cycle of jump hosts.
\<close>

theorem inventory_invariant:
  assumes "sv_wf cod st" "run_ops (server_save cod) (server_delete cod) ops st = (rs, st')"
  shows "(\<lambda>n. find_key s_name n (sv_entries cod st')) =
           map_ops s_name with_defaults (map snd ops) rs (\<lambda>n. find_key s_name n (sv_entries cod st))
       \<and> distinct (map s_name (sv_entries cod st'))
       \<and> (\<forall>s\<in>set (sv_entries cod st'). server_validate s = Inr s)
       \<and> acyclic (jump_edges (sv_entries cod st'))"
proof -
  note run = server_store.run_ops_refines[OF assms]
  have good: "good_list (sv_entries cod st')" using run by (intro sv_entries_good) simp
  then have "acyclic (jump_edges (sv_entries cod st'))"
    using validateJumpHosts_iff by (auto simp: good_list_def)
  then show ?thesis using run good by (simp add: good_list_def)
qed

definition server_codec :: "server list codec" where
  "server_codec = table_codec
     [(''a'', [example_server\<lparr>s_port := 22, s_user := ''root''\<rparr>]),
      (''b'', [example_server\<lparr>s_name := ''web-2'', s_port := 22, s_user := ''root''\<rparr>])]"

lemma server_codec_ok: "codec_ok server_codec"
  unfolding server_codec_def by (rule table_codec_ok) simp_all

definition server_file :: "string option \<Rightarrow> server_state" where
  "server_file d = \<lparr>sv_path = ''servers.yaml'', sv_file = map_option (\<lambda>x. \<lparr>fdata = x, fmtime = 0\<rparr>) d,
     sv_cache = None, sv_mod = 0, sv_size = 0\<rparr>"

lemma server_file_empty: "sv_wf server_codec (server_file None)" "sv_entries server_codec (server_file None) = []"
  by (simp_all add: sv_wf_def sv_entries_def sv_coherent_def sv_disk_def server_file_def server_codec_ok)

theorem inventory_invariant_witness:
  "acyclic (jump_edges (sv_entries server_codec
     (snd (run_ops (server_save server_codec) (server_delete server_codec)
        [(io_fine 1, Inl example_server), (io_fine 2, Inr ''nope'')] (server_file None)))))"
proof -
  obtain rs st' where run: "run_ops (server_save server_codec) (server_delete server_codec)
        [(io_fine 1, Inl example_server), (io_fine 2, Inr ''nope'')] (server_file None) = (rs, st')" by force
  from inventory_invariant[OF server_file_empty(1) run] show ?thesis by (simp only: run snd_conv)
qed

section \<open>Renaming\<close>

lemma rename_server_sel:
  "s_name (rename_server old new s) = (if s_name s = old then new else s_name s)"
  "s_jump_host (rename_server old new s) = (if s_jump_host s = old then new else s_jump_host s)"
  by (simp_all add: rename_server_def Let_def)

lemma rename_server_defaults: "with_defaults s = s \<Longrightarrow> with_defaults (rename_server old new s) = rename_server old new s"
proof -
  assume "with_defaults s = s"
  then have "s_port s \<noteq> 0" "trim_space (s_user s) \<noteq> []"
    using trim_root by (metis with_defaults_sel(3) zero_neq_numeral, metis list.distinct(1) with_defaults_sel(4))
  then show "with_defaults (rename_server old new s) = rename_server old new s"
    by (simp add: with_defaults_def rename_server_def Let_def)
qed

lemma rename_validated:
  assumes "good_list cf" "validateServers (map (rename_server old new) cf) = Inr cf''"
  shows "cf'' = map (rename_server old new) cf \<and> good_list cf''"
proof -
  have "cf'' = map with_defaults (map (rename_server old new) cf)"
    using assms(2) by (simp add: validateServers_Inr)
  also have "\<dots> = map (rename_server old new) cf"
    using assms(1) by (auto simp: good_list_def server_validate_fixed rename_server_defaults)
  finally show ?thesis using validateServers_good[OF assms(2)] by simp
qed

lemma sv_read_ok:
  assumes wf: "sv_wf cod st" and io: "io_stat io = None" "io_read io = None"
  shows "fst (sv_read cod io st) = Inr (sv_entries cod st)"
proof -
  obtain r st' where rd: "sv_read cod io st = (r, st')" by force
  note disk = sv_wf_disk[OF wf]
  have "is_ok r"
    using rd io disk
    by (auto simp: sv_read_def sv_disk_def split: option.splits if_splits sum.splits) (metis is_ok_simps(1))+
  then show ?thesis using sv_read_frame[OF wf rd] rd by (auto dest: is_okD)
qed

lemma GetDependents_cases:
  assumes wf: "sv_wf cod st" and run: "GetDependents cod io name st = (r, st')"
  shows "sv_wf cod st' \<and> sv_entries cod st' = sv_entries cod st
       \<and> (\<forall>ds. r = Inr ds \<longrightarrow> ds = filter (\<lambda>s. s_jump_host s = name) (sv_entries cod st))
       \<and> (io_stat io = None \<longrightarrow> io_read io = None \<longrightarrow> is_ok r)"
proof -
  obtain q st1 where rd: "sv_read cod io st = (q, st1)" by force
  note fr = sv_read_frame[OF wf rd]
  have "io_stat io = None \<Longrightarrow> io_read io = None \<Longrightarrow> is_ok q" using sv_read_ok[OF wf, of io] rd by simp
  then show ?thesis using run rd fr by (cases q) (auto simp: GetDependents_def)
qed

text \<open>\<open>Replace\<close> stores a document that parses, with every entry it holds, or nothing.\<close>

lemma server_replace_cases:
  assumes wf: "sv_wf cod st" and run: "server_replace cod io data st = (r, st')" and data: "data \<noteq> []"
  shows "sv_wf cod st' \<and>
    (case r of
       Inl e \<Rightarrow> sv_entries cod st' = sv_entries cod st
     | Inr u \<Rightarrow> parseAndValidateConfig cod data = Inr (sv_entries cod st'))"
proof (cases "parseAndValidateConfig cod data")
  case (Inl e)
  then show ?thesis using run wf by (auto simp: server_replace_def)
next
  case (Inr cf)
  show ?thesis
  proof (cases "io_lock io = None \<and> io_mkdir io = None")
    case False
    then have "st' = sv_invalidate st \<and> \<not> is_ok r" using run Inr
      by (cases "io_lock io"; cases "io_mkdir io") (auto simp: server_replace_def Let_def)
    then show ?thesis using sv_frame[OF wf, of st'] by (auto dest: not_is_okD)
  next
    case True
    obtain q st2 where put: "sv_put io data (sv_invalidate st) = (q, st2)" by force
    then have r: "r = res_of q ()" "st' = st2" using run Inr True by (auto simp: server_replace_def)
    show ?thesis
    proof (cases q)
      case (Some e)
      then have "st2 = sv_invalidate st" using sv_put_cases[OF put] by simp
      then show ?thesis using r Some sv_frame[OF wf, of st'] by (simp add: res_of_def)
    next
      case None
      then have st2: "st2 = (sv_invalidate st)\<lparr>sv_file := Some \<lparr>fdata = data, fmtime = io_now io\<rparr>\<rparr>"
        using sv_put_cases[OF put] by simp
      have "sv_disk cod st2 = Inr cf" using Inr data by (simp add: st2 sv_disk_def)
      moreover have "sv_coherent cod st2" by (simp add: st2 sv_coherent_def sv_invalidate_def)
      ultimately show ?thesis using wf r None Inr by (simp add: sv_wf_def sv_entries_def res_of_def)
    qed
  qed
qed

lemma server_rename_cases:
  assumes wf: "sv_wf cod st" and run: "server_rename cod io old new st = (r, st')"
  shows "sv_wf cod st' \<and>
    (case r of
       Inl e \<Rightarrow> sv_entries cod st' = sv_entries cod st
     | Inr deps \<Rightarrow>
         sv_entries cod st' = map (rename_server old new) (sv_entries cod st)
       \<and> old \<in> s_name ` set (sv_entries cod st) \<and> new \<notin> s_name ` set (sv_entries cod st)
       \<and> old \<notin> s_name ` set (sv_entries cod st') \<and> old \<notin> s_jump_host ` set (sv_entries cod st')
       \<and> deps = map (rename_server old new) (filter (\<lambda>s. s_jump_host s = old) (sv_entries cod st))
       \<and> distinct (map s_name (sv_entries cod st')) \<and> acyclic (jump_edges (sv_entries cod st')))"
proof (cases "old \<noteq> new \<and> ValidateServerName new = None \<and> io_lock io = None")
  case False
  then have "st' = st \<and> \<not> is_ok r"
    using run by (cases "ValidateServerName new"; cases "io_lock io"; cases "old = new") (auto simp: server_rename_def)
  then show ?thesis using wf by (auto dest: not_is_okD)
next
  case True
  obtain q st1 where rd: "sv_read cod io st = (q, st1)" by force
  note fr = sv_read_frame[OF wf rd]
  show ?thesis
  proof (cases q)
    case (Inl e)
    then show ?thesis using run True rd fr by (auto simp: server_rename_def)
  next
    case q: (Inr cf)
    then have cf: "cf = sv_entries cod st" using fr by simp
    let ?cf = "map (rename_server old new) cf"
    show ?thesis
    proof (cases "list_ex (\<lambda>s. s_name s = new) cf \<or> \<not> list_ex (\<lambda>s. s_name s = old) cf")
      case bad: True
      then have "\<not> is_ok r" "st' = st1" using run True rd q by (auto simp: server_rename_def split: if_splits)
      then show ?thesis using fr by (auto dest!: not_is_okD)
    next
      case names: False
      show ?thesis
      proof (cases "validateServers ?cf")
        case (Inl e)
        then have "(r, st') = (Inl e, st1)" using run True rd q names by (simp add: server_rename_def)
        then show ?thesis using fr by simp
      next
        case (Inr cf'')
        have good: "cf'' = ?cf \<and> good_list cf''"
          using rename_validated sv_entries_good[OF wf] cf Inr by blast
        obtain w st2 where wr: "sv_write cod io cf'' st1 = (w, st2)" by force
        note wb = sv_write_back[OF conjunct1[OF fr] conjunct2[OF good] wr]
        have res: "(r, st') = (case w of Some e \<Rightarrow> Inl e
            | None \<Rightarrow> Inr (map (rename_server old new) (filter (\<lambda>s. s_jump_host s = old) cf)), st2)"
          using run True rd q names Inr wr by (cases w) (simp_all add: server_rename_def)
        show ?thesis
        proof (cases w)
          case (Some e)
          then show ?thesis using res wb fr by simp
        next
          case None
          have ac: "acyclic (jump_edges ?cf)" "distinct (map s_name ?cf)"
            using good validateJumpHosts_iff by (auto simp: good_list_def)
          have old: "old \<in> s_name ` set cf" "new \<notin> s_name ` set cf"
            using names by (auto simp: list_ex_iff)
          have gone: "old \<notin> s_name ` set ?cf" "old \<notin> s_jump_host ` set ?cf"
            using True by (simp_all add: image_image rename_server_sel image_iff) auto
          have st: "sv_wf cod st'" "sv_entries cod st' = ?cf" using None res wb good by simp_all
          show ?thesis using None res st old gone ac cf by simp
        qed
      qed
    qed
  qed
qed

lemma rename_file:
  "sv_wf server_codec (server_file (Some ''a''))"
  "sv_entries server_codec (server_file (Some ''a'')) = [example_server\<lparr>s_port := 22, s_user := ''root''\<rparr>]"
proof -
  have d: "sv_disk server_codec (server_file (Some ''a'')) = Inr [example_server\<lparr>s_port := 22, s_user := ''root''\<rparr>]"
    by code_simp
  show "sv_wf server_codec (server_file (Some ''a''))"
    by (simp add: sv_wf_def d server_codec_ok sv_coherent_def) (simp add: server_file_def)
  show "sv_entries server_codec (server_file (Some ''a'')) = [example_server\<lparr>s_port := 22, s_user := ''root''\<rparr>]"
    by (simp add: sv_entries_def d)
qed

text \<open>
  \<open>Rename\<close> leaves no dangling reference: when it succeeds, the entry and every jump host that
  named it carry the new name in the same write, no entry and no jump host has the old name, all
  else is unchanged, the servers it reports are the updated dependents, and the inventory is still
  sound; when it fails, the inventory is as it was.
\<close>

theorem rename_leaves_no_dangling:
  assumes wf: "sv_wf cod st" and run: "server_rename cod io old new st = (r, st')"
  shows "sv_wf cod st' \<and>
    (case r of
       Inl e \<Rightarrow> sv_entries cod st' = sv_entries cod st
     | Inr deps \<Rightarrow>
         sv_entries cod st' = map (rename_server old new) (sv_entries cod st)
       \<and> old \<in> s_name ` set (sv_entries cod st) \<and> new \<notin> s_name ` set (sv_entries cod st)
       \<and> old \<notin> s_name ` set (sv_entries cod st') \<and> old \<notin> s_jump_host ` set (sv_entries cod st')
       \<and> deps = map (rename_server old new) (filter (\<lambda>s. s_jump_host s = old) (sv_entries cod st))
       \<and> distinct (map s_name (sv_entries cod st')) \<and> acyclic (jump_edges (sv_entries cod st')))"
  by (rule server_rename_cases[OF assms])

lemma rename_ok: "is_ok (fst (server_rename server_codec (io_fine 1) ''web-1'' ''web-2'' (server_file (Some ''a''))))"
  by code_simp

theorem rename_leaves_no_dangling_witness:
  "map s_name (sv_entries server_codec
     (snd (server_rename server_codec (io_fine 1) ''web-1'' ''web-2'' (server_file (Some ''a''))))) = [''web-2'']"
proof -
  obtain r st' where run: "server_rename server_codec (io_fine 1) ''web-1'' ''web-2'' (server_file (Some ''a'')) = (r, st')"
    by force
  then obtain deps where "r = Inr deps" using rename_ok by (auto dest: is_okD)
  then have "sv_entries server_codec st' = map (rename_server ''web-1'' ''web-2'') [example_server\<lparr>s_port := 22, s_user := ''root''\<rparr>]"
    using rename_leaves_no_dangling[OF rename_file(1) run] rename_file(2) by simp
  then have "map s_name (sv_entries server_codec st') = [''web-2'']"
    by (simp add: rename_server_sel) (simp add: example_server_def)
  then show ?thesis by (simp only: run snd_conv)
qed

end
