(* ===== verification/Inventory.thy ===== *)
theory Inventory
  imports ServerModel
begin

text \<open>
  \<open>internal/server/inventory.go\<close>: the merge of a backed-up inventory into the local one, and the
  comparison of two inventories. \<open>decide\<close> is \<open>None\<close> for a non-interactive caller.
\<close>

section \<open>Differences\<close>

datatype merge_decision = KeepLocal | TakeRemote

record field_diff =
  fd_field :: string
  fd_local :: string
  fd_remote :: string

record merge_conflict =
  mc_name :: string
  mc_local :: server
  mc_remote :: server
  mc_diffs :: "field_diff list"

definition conflict_summary :: "merge_conflict \<Rightarrow> string" where
  "conflict_summary c =
     mc_name c @ '' ('' @ join_with '', '' (map (\<lambda>d. fd_field d @ '': '' @ fd_local d @ '' -> '' @ fd_remote d) (mc_diffs c)) @ '')''"

definition normalisedPort :: "int \<Rightarrow> int" where
  "normalisedPort port = (if port \<le> 0 \<or> port > 65535 then 22 else port)"

definition normalisedUser :: "string \<Rightarrow> string" where
  "normalisedUser user = (if trim_space user = [] then ''root'' else user)"

definition renderTags :: "string list \<Rightarrow> string" where
  "renderTags tags = (if tags = [] then [] else join_with '','' (sort tags))"

definition renderLabels :: "(string \<times> string) list \<Rightarrow> string" where
  "renderLabels labels =
     (if labels = [] then []
      else join_with '','' (map (\<lambda>k. k @ ''='' @ the (map_of labels k)) (sort (map fst labels))))"

definition show_bool :: "bool \<Rightarrow> string" where
  "show_bool b = (if b then ''true'' else ''false'')"

definition diffServers :: "server \<Rightarrow> server \<Rightarrow> field_diff list" where
  "diffServers local remote =
     concat (map (\<lambda>(field, l, r). if l \<noteq> r then [\<lparr>fd_field = field, fd_local = l, fd_remote = r\<rparr>] else [])
       [(''host'', s_host local, s_host remote),
        (''port'', show_int (normalisedPort (s_port local)), show_int (normalisedPort (s_port remote))),
        (''user'', normalisedUser (s_user local), normalisedUser (s_user remote)),
        (''jump_host'', s_jump_host local, s_jump_host remote),
        (''skip_batch'', show_bool (s_skip_batch local), show_bool (s_skip_batch remote)),
        (''tags'', renderTags (s_tags local), renderTags (s_tags remote)),
        (''labels'', renderLabels (s_labels local), renderLabels (s_labels remote)),
        (''description'', s_description local, s_description remote)])"

definition pickCredential :: "string \<Rightarrow> string \<Rightarrow> string" where
  "pickCredential local remote =
     (if local = remote then local else if local = [] then remote else if remote = [] then local else local)"

definition resolveServer :: "server \<Rightarrow> server \<Rightarrow> bool \<Rightarrow> server \<times> bool" where
  "resolveServer current incoming takeRemote =
     (let resolved = (if takeRemote then incoming else current)
             \<lparr>s_key_path := pickCredential (s_key_path current) (s_key_path incoming),
              s_password := pickCredential (s_password current) (s_password incoming)\<rparr>
      in (resolved, takeRemote \<or> s_key_path resolved \<noteq> s_key_path current \<or> s_password resolved \<noteq> s_password current))"

section \<open>The merge\<close>

record merge_state =
  ms_merged :: "server list"
  ms_index :: "(string \<times> nat) list"
  ms_added :: nat
  ms_updated :: nat
  ms_choices :: "(nat \<times> merge_conflict) list"

text \<open>One incoming server of the first loop.\<close>

definition merge_step :: "merge_state \<Rightarrow> server \<Rightarrow> merge_state" where
  "merge_step m incoming =
     (case map_of (ms_index m) (s_name incoming) of
        None \<Rightarrow> m\<lparr>ms_index := (s_name incoming, length (ms_merged m)) # ms_index m,
                 ms_merged := ms_merged m @ [incoming], ms_added := Suc (ms_added m)\<rparr>
      | Some idx \<Rightarrow>
          (let current = ms_merged m ! idx; diffs = diffServers current incoming
           in if diffs = []
              then (case resolveServer current incoming False of (resolved, changed) \<Rightarrow>
                      if changed then m\<lparr>ms_merged := (ms_merged m)[idx := resolved], ms_updated := Suc (ms_updated m)\<rparr>
                      else m)
              else m\<lparr>ms_choices := ms_choices m @
                      [(idx, \<lparr>mc_name = s_name incoming, mc_local = current, mc_remote = incoming, mc_diffs = diffs\<rparr>)]\<rparr>))"

text \<open>One pending choice of the second loop.\<close>

definition choice_step :: "(merge_conflict \<Rightarrow> merge_decision) \<Rightarrow> server list \<times> nat \<Rightarrow> nat \<times> merge_conflict \<Rightarrow> server list \<times> nat" where
  "choice_step decide mu ch =
     (case mu of (merged, updated) \<Rightarrow> case ch of (idx, c) \<Rightarrow>
        (case resolveServer (merged ! idx) (mc_remote c) (decide c = TakeRemote) of
           (resolved, changed) \<Rightarrow> if changed then (merged[idx := resolved], Suc updated) else (merged, updated)))"

record merge_result =
  mr_merged :: "server list"
  mr_added :: nat
  mr_updated :: nat
  mr_conflicts :: "merge_conflict list"
  mr_error :: "go_error option"

definition MergeInventories ::
    "server list \<Rightarrow> server list \<Rightarrow> (merge_conflict \<Rightarrow> merge_decision) option \<Rightarrow> merge_result" where
  "MergeInventories local remote decide =
     (let m0 = \<lparr>ms_merged = local, ms_index = rev (zip (map s_name local) [0..<length local]), ms_added = 0,
                ms_updated = 0, ms_choices = []\<rparr>;
          m = foldl merge_step m0 remote;
          conflicts = map snd (ms_choices m)
      in case decide of
           None \<Rightarrow>
             (if conflicts \<noteq> []
              then \<lparr>mr_merged = [], mr_added = ms_added m, mr_updated = ms_updated m, mr_conflicts = conflicts,
                    mr_error = Some (errors_new (''the backup and this machine disagree about '' @ show_nat (length conflicts)
                      @ '' server(s): '' @ join_with ''; '' (sort (map conflict_summary conflicts))))\<rparr>
              else \<lparr>mr_merged = ms_merged m, mr_added = ms_added m, mr_updated = ms_updated m, mr_conflicts = [],
                    mr_error = None\<rparr>)
         | Some d \<Rightarrow>
             (case foldl (choice_step d) (ms_merged m, ms_updated m) (ms_choices m) of
                (merged, updated) \<Rightarrow>
                  \<lparr>mr_merged = merged, mr_added = ms_added m, mr_updated = updated, mr_conflicts = conflicts,
                   mr_error = None\<rparr>))"

section \<open>Comparing\<close>

definition sameServer :: "server \<Rightarrow> server \<Rightarrow> bool" where
  "sameServer a b \<longleftrightarrow>
     s_host a = s_host b \<and> normalisedPort (s_port a) = normalisedPort (s_port b)
   \<and> normalisedUser (s_user a) = normalisedUser (s_user b)
   \<and> s_key_path a = s_key_path b \<and> s_password a = s_password b \<and> s_jump_host a = s_jump_host b
   \<and> s_skip_batch a = s_skip_batch b \<and> s_description a = s_description b
   \<and> renderTags (s_tags a) = renderTags (s_tags b) \<and> renderLabels (s_labels a) = renderLabels (s_labels b)"

definition SameInventory :: "server list \<Rightarrow> server list \<Rightarrow> bool" where
  "SameInventory a b =
     (if length a \<noteq> length b then False
      else list_all (\<lambda>srv. case map_of (rev (map (\<lambda>s. (s_name s, s)) a)) (s_name srv) of
                             None \<Rightarrow> False | Some other \<Rightarrow> sameServer other srv) b)"

section \<open>What a merge keeps\<close>

text \<open>
  \<open>keeps kl a b\<close>: \<open>b\<close> may stand for the local server \<open>a\<close> after a merge, where \<open>kl\<close> says that every
  decision was to keep the local definition.
\<close>

definition keeps :: "bool \<Rightarrow> server \<Rightarrow> server \<Rightarrow> bool" where
  "keeps kl a b \<longleftrightarrow>
     s_name b = s_name a
   \<and> (s_key_path a \<noteq> [] \<longrightarrow> s_key_path b = s_key_path a)
   \<and> (s_password a \<noteq> [] \<longrightarrow> s_password b = s_password a)
   \<and> (kl \<longrightarrow> b = a\<lparr>s_key_path := s_key_path b, s_password := s_password b\<rparr>)"

lemma keeps_refl: "keeps kl a a"
  by (simp add: keeps_def)

lemma keeps_trans: "keeps kl a b \<Longrightarrow> keeps kl b c \<Longrightarrow> keeps kl a c"
  unfolding keeps_def by (cases a; cases b; cases c) auto

lemma resolveServer_keeps:
  assumes "resolveServer cur inc tk = (r, ch)" "s_name inc = s_name cur" "tk \<Longrightarrow> \<not> kl"
  shows "keeps kl cur r"
proof -
  have r: "r = (if tk then inc else cur)
             \<lparr>s_key_path := pickCredential (s_key_path cur) (s_key_path inc),
              s_password := pickCredential (s_password cur) (s_password inc)\<rparr>"
    using assms(1) by (simp add: resolveServer_def Let_def)
  show ?thesis using assms(2,3) unfolding r keeps_def
    by (cases tk) (auto simp: pickCredential_def)
qed

text \<open>The invariant of both loops on the list being merged.\<close>

definition merge_inv :: "bool \<Rightarrow> server list \<Rightarrow> string set \<Rightarrow> server list \<Rightarrow> bool" where
  "merge_inv kl local names merged \<longleftrightarrow>
     length local \<le> length merged \<and> (\<forall>i<length local. keeps kl (local ! i) (merged ! i))
   \<and> distinct (map s_name merged) \<and> s_name ` set merged = s_name ` set local \<union> names"

lemma map_update_same: "s_name r = s_name (ms ! i) \<Longrightarrow> map s_name (ms[i := r]) = map s_name ms"
  by (cases "i < length ms") (auto simp: map_update[symmetric] list_update_same_conv map_update)

lemma nth_update_name:
  assumes "s_name r = s_name (ms ! i)" shows "s_name (ms[i := r] ! j) = s_name (ms ! j)"
  using assms by (cases "i = j"; cases "i < length ms") (simp_all add: list_update_beyond)

lemma keeps_name: "keeps kl a b \<Longrightarrow> s_name b = s_name a"
  by (simp add: keeps_def)

lemma merge_inv_update:
  assumes "merge_inv kl local names ms" "keeps kl (ms ! i) r"
  shows "merge_inv kl local names (ms[i := r])"
proof -
  have n: "map s_name (ms[i := r]) = map s_name ms"
    using assms(2) by (intro map_update_same) (simp add: keeps_def)
  have "keeps kl (local ! j) (ms[i := r] ! j)" if "j < length local" for j
    using assms that keeps_trans by (cases "i = j") (auto simp: merge_inv_def)
  moreover have "s_name ` set (ms[i := r]) = s_name ` set ms" by (metis n set_map)
  ultimately show ?thesis using assms(1) n by (simp add: merge_inv_def)
qed

definition step_inv :: "server list \<Rightarrow> string set \<Rightarrow> merge_state \<Rightarrow> bool" where
  "step_inv local names m \<longleftrightarrow>
     merge_inv True local names (ms_merged m)
   \<and> (\<forall>n i. map_of (ms_index m) n = Some i \<longleftrightarrow> i < length (ms_merged m) \<and> s_name (ms_merged m ! i) = n)
   \<and> length (ms_merged m) = length local + ms_added m
   \<and> (\<forall>(i, c)\<in>set (ms_choices m). i < length (ms_merged m) \<and> s_name (mc_remote c) = s_name (ms_merged m ! i))"

lemma step_inv_update:
  assumes "step_inv local names m" "keeps True (ms_merged m ! idx) r" "n \<in> names \<union> s_name ` set local"
  shows "step_inv local (insert n names) (m\<lparr>ms_merged := (ms_merged m)[idx := r], ms_updated := u\<rparr>)"
proof -
  have nm: "s_name ((ms_merged m)[idx := r] ! i) = s_name (ms_merged m ! i)" for i
    using keeps_name[OF assms(2)] by (rule nth_update_name)
  have "merge_inv True local names ((ms_merged m)[idx := r])"
    using assms by (intro merge_inv_update) (auto simp: step_inv_def)
  then have "merge_inv True local (insert n names) ((ms_merged m)[idx := r])"
    using assms(3) by (auto simp: merge_inv_def)
  then show ?thesis using assms(1) by (auto simp: step_inv_def nm)
qed

lemma step_inv_known:
  assumes "step_inv local names m" "n \<in> names \<union> s_name ` set local"
  shows "step_inv local (insert n names) m"
  using assms by (auto simp: step_inv_def merge_inv_def)

lemma merge_step_inv:
  assumes inv: "step_inv local names m"
  shows "step_inv local (insert (s_name inc) names) (merge_step m inc)"
proof (cases "map_of (ms_index m) (s_name inc)")
  case None
  then have "\<not> (i < length (ms_merged m) \<and> s_name (ms_merged m ! i) = s_name inc)" for i
    using inv unfolding step_inv_def by (metis option.distinct(1))
  then have new: "s_name inc \<notin> s_name ` set (ms_merged m)" by (metis imageE in_set_conv_nth)
  then have new': "s_name (ms_merged m ! i) \<noteq> s_name inc" if "i < length (ms_merged m)" for i
    using that by (metis imageI nth_mem)
  have "merge_inv True local (insert (s_name inc) names) (ms_merged m @ [inc])"
    using inv new by (auto simp: step_inv_def merge_inv_def nth_append)
  moreover have "map_of ((s_name inc, length (ms_merged m)) # ms_index m) n = Some i \<longleftrightarrow>
      i < length (ms_merged m @ [inc]) \<and> s_name ((ms_merged m @ [inc]) ! i) = n" for n i
    using inv new' by (auto simp: step_inv_def nth_append less_Suc_eq)
  moreover have "\<forall>(i, c)\<in>set (ms_choices m). i < length (ms_merged m @ [inc])
      \<and> s_name (mc_remote c) = s_name ((ms_merged m @ [inc]) ! i)"
    using inv by (auto simp: step_inv_def nth_append)
  moreover have "length (ms_merged m @ [inc]) = length local + Suc (ms_added m)"
    using inv by (simp add: step_inv_def)
  ultimately show ?thesis
    unfolding merge_step_def None option.case step_inv_def
    by (simp only: merge_state.simps) (simp del: map_of.simps)
next
  case (Some idx)
  then have idx: "idx < length (ms_merged m)" "s_name (ms_merged m ! idx) = s_name inc"
    using inv by (auto simp: step_inv_def)
  then have "s_name inc \<in> s_name ` set (ms_merged m)" by (metis imageI nth_mem)
  then have known: "s_name inc \<in> names \<union> s_name ` set local"
    using inv by (auto simp: step_inv_def merge_inv_def)
  obtain r ch where res: "resolveServer (ms_merged m ! idx) inc False = (r, ch)" by force
  have kp: "keeps True (ms_merged m ! idx) r" using resolveServer_keeps[OF res] idx by simp
  show ?thesis
  proof (cases "diffServers (ms_merged m ! idx) inc = []")
    case True
    then show ?thesis
      using Some res step_inv_update[OF inv kp known] step_inv_known[OF inv known]
      by (simp add: merge_step_def Let_def)
  next
    case False
    show ?thesis
      using step_inv_known[OF inv known] idx
      unfolding merge_step_def Some option.case Let_def if_not_P[OF False] step_inv_def
      by (simp only: merge_state.simps) auto
  qed
qed

lemma merge_fold_inv:
  "step_inv local names m \<Longrightarrow> step_inv local (names \<union> s_name ` set remote) (foldl merge_step m remote)"
proof (induction remote arbitrary: m names)
  case (Cons x xs)
  from Cons.IH[OF merge_step_inv[OF Cons.prems, of x]] show ?case by (simp add: insert_commute)
qed simp

lemma merge_inv_weaken: "merge_inv True local names ms \<Longrightarrow> merge_inv kl local names ms"
  by (auto simp: merge_inv_def keeps_def)

lemma choice_fold_inv:
  assumes "merge_inv kl local names ms" "\<And>c. kl \<Longrightarrow> d c = KeepLocal"
    and "\<forall>(i, c)\<in>set chs. i < length ms \<and> s_name (mc_remote c) = s_name (ms ! i)"
  shows "merge_inv kl local names (fst (foldl (choice_step d) (ms, u) chs))
       \<and> length (fst (foldl (choice_step d) (ms, u) chs)) = length ms"
  using assms(1,3)
proof (induction chs arbitrary: ms u)
  case (Cons ch chs)
  obtain i c where ch: "ch = (i, c)" by force
  obtain r b where res: "resolveServer (ms ! i) (mc_remote c) (d c = TakeRemote) = (r, b)" by force
  have "s_name (mc_remote c) = s_name (ms ! i)" using Cons.prems(2) ch by simp
  then have kp: "keeps kl (ms ! i) r"
    using resolveServer_keeps[OF res, of kl] assms(2)[of c] by (cases kl) auto
  let ?ms = "if b then ms[i := r] else ms"
  have "merge_inv kl local names ?ms" using merge_inv_update[OF Cons.prems(1) kp] Cons.prems(1) by simp
  moreover have "s_name (ms[i := r] ! j) = s_name (ms ! j)" for j
    using keeps_name[OF kp] by (rule nth_update_name)
  then have "\<forall>(j, c)\<in>set chs. j < length ?ms \<and> s_name (mc_remote c) = s_name (?ms ! j)"
    using Cons.prems(2) by auto
  ultimately have "merge_inv kl local names (fst (foldl (choice_step d) (?ms, u') chs))
      \<and> length (fst (foldl (choice_step d) (?ms, u') chs)) = length ?ms" for u'
    using Cons.IH by blast
  moreover have "choice_step d (ms, u) ch = (?ms, if b then Suc u else u)"
    by (simp add: choice_step_def ch res)
  ultimately show ?case by simp
qed simp

lemma map_of_index:
  assumes "distinct (map s_name local)"
  shows "map_of (rev (zip (map s_name local) [0..<length local])) n = Some i \<longleftrightarrow> i < length local \<and> s_name (local ! i) = n"
proof -
  have "distinct (map fst (rev (zip (map s_name local) [0..<length local])))"
    using assms by (simp add: rev_map[symmetric])
  from map_of_eq_Some_iff[OF this, of n i] show ?thesis
    by (auto simp: in_set_zip intro!: exI[of _ i])
qed

text \<open>
  A merge never deletes and never takes this machine's credentials: every local server keeps
  its place and its name, a key path or password it has is kept, the servers of the result are
  exactly those of the two sides, each once, and \<open>added\<close> counts the new ones. When every decision
  keeps the local definition, nothing but an empty credential of a local server changes.
\<close>

theorem merge_keeps_local:
  assumes "distinct (map s_name local)" "mr_error (MergeInventories local remote decide) = None"
    and "\<And>d c. kl \<Longrightarrow> decide = Some d \<Longrightarrow> d c = KeepLocal"
  shows "let m = mr_merged (MergeInventories local remote decide)
         in (\<forall>i<length local. keeps kl (local ! i) (m ! i))
          \<and> distinct (map s_name m) \<and> s_name ` set m = s_name ` set local \<union> s_name ` set remote
          \<and> length m = length local + mr_added (MergeInventories local remote decide)"
proof -
  define m0 where "m0 = \<lparr>ms_merged = local, ms_index = rev (zip (map s_name local) [0..<length local]), ms_added = 0,
                ms_updated = 0, ms_choices = []\<rparr>"
  define m where "m = foldl merge_step m0 remote"
  have "step_inv local {} m0"
    using assms(1) by (simp add: step_inv_def m0_def merge_inv_def keeps_refl map_of_index)
  then have inv: "step_inv local (s_name ` set remote) m" using merge_fold_inv[of local "{}" m0 remote] by (simp add: m_def)
  then have mi: "merge_inv kl local (s_name ` set remote) (ms_merged m)"
    by (auto simp: step_inv_def intro: merge_inv_weaken)
  show ?thesis
  proof (cases decide)
    case None
    then have "mr_merged (MergeInventories local remote decide) = ms_merged m"
      "mr_added (MergeInventories local remote decide) = ms_added m"
      using assms(2) by (simp_all add: MergeInventories_def Let_def m_def m0_def split: if_splits)
    then show ?thesis using mi inv by (simp add: merge_inv_def step_inv_def)
  next
    case (Some d)
    obtain ms u where fold: "foldl (choice_step d) (ms_merged m, ms_updated m) (ms_choices m) = (ms, u)" by force
    have "mr_merged (MergeInventories local remote decide) = ms"
      "mr_added (MergeInventories local remote decide) = ms_added m"
      using fold Some by (simp_all add: MergeInventories_def Let_def m_def m0_def)
    moreover have "merge_inv kl local (s_name ` set remote) ms \<and> length ms = length (ms_merged m)"
      using choice_fold_inv[OF mi, of d "ms_choices m" "ms_updated m"] assms(3) Some inv fold
      by (auto simp: step_inv_def)
    ultimately show ?thesis using inv by (simp add: merge_inv_def step_inv_def)
  qed
qed

theorem merge_keeps_local_witness:
  "map s_name (mr_merged (MergeInventories [example_server] [example_server\<lparr>s_name := ''db-1''\<rparr>] None)) = [''web-1'', ''db-1'']
 \<and> distinct (map s_name (mr_merged (MergeInventories [example_server] [example_server\<lparr>s_name := ''db-1''\<rparr>] None)))"
proof -
  have e: "mr_error (MergeInventories [example_server] [example_server\<lparr>s_name := ''db-1''\<rparr>] None) = None"
    "map s_name (mr_merged (MergeInventories [example_server] [example_server\<lparr>s_name := ''db-1''\<rparr>] None)) = [''web-1'', ''db-1'']"
    by code_simp+
  then show ?thesis
    using merge_keeps_local[of "[example_server]" "[example_server\<lparr>s_name := ''db-1''\<rparr>]" None True]
    by (simp only: Let_def) simp
qed

end
