(* ===== verification/Script.thy ===== *)
theory Script
  imports BackupModel
begin

text \<open>
  \<open>internal/backup/script.go\<close>: the shell scripts for a backup, a snapshot query, a restore and a
  restore preview, as the text the code writes. What the lemmas say of them is stated with the
  reader of shell words of \<open>Shellquote\<close>: the words of the generated \<open>restic\<close> command lines are
  exactly the job's data.
\<close>

section \<open>Pieces\<close>

definition line :: "string \<Rightarrow> string" where
  "line s = s @ [CHR 0x0A]"

definition lines_text :: "string list \<Rightarrow> string" where
  "lines_text ls = concat (map line ls)"

definition JobTag :: "string \<Rightarrow> string" where
  "JobTag name = ''job:'' @ name"

definition HostTag :: "string \<Rightarrow> string" where
  "HostTag name = ''host:'' @ name"

definition resticRetryLockPreamble :: "(string \<times> string) list \<Rightarrow> string" where
  "resticRetryLockPreamble vars =
     line ''# --retry-lock requires restic >= 0.16.0; older builds run without it.''
     @ concat (map (\<lambda>(n, d). line (n @ ''=\"\"'')) vars)
     @ line ''if command -v restic >/dev/null 2>&1 && restic snapshots --help 2>&1 | grep -q -- '--retry-lock'; then''
     @ concat (map (\<lambda>(n, d). line (''  '' @ n @ ''=\"--retry-lock '' @ d @ ''\"'')) vars)
     @ line ''else''
     @ line ''  echo \"Notice: restic on this host predates --retry-lock (0.16.0); continuing without it.\" >&2''
     @ line ''fi''"

text \<open>\<open>writeEnvBlock\<close>: the valid names in sorted order, and the repository unless the job exports it.\<close>

definition env_keys :: "job \<Rightarrow> string list" where
  "env_keys j = sort (filter valid_env_name (map fst (j_env j)))"

definition writeEnvBlock :: "job \<Rightarrow> string" where
  "writeEnvBlock j =
     concat (map (\<lambda>k. line (''export '' @ k @ ''='' @ quote (case map_of (j_env j) k of None \<Rightarrow> [] | Some v \<Rightarrow> v))) (env_keys j))
     @ (if ''RESTIC_REPOSITORY'' \<notin> set (env_keys j) \<and> j_backend j \<noteq> []
        then line (''export RESTIC_REPOSITORY='' @ quote (j_backend j)) else [])
     @ line []"

definition opt_arg :: "string \<Rightarrow> string \<Rightarrow> string" where
  "opt_arg flag v = '' '' @ flag @ '' '' @ quote v"

section \<open>The backup script\<close>

definition backup_prologue :: "job \<Rightarrow> string" where
  "backup_prologue j =
     lines_text [''#!/bin/bash'', ''set -euo pipefail'', []]
     @ writeEnvBlock j
     @ lines_text
       [''if ! command -v restic >/dev/null 2>&1; then'',
        ''  echo \"Error: restic is not installed on target host. Please install it first or run: ops bootstrap <server> -t restic\" >&2'',
        ''  exit 127'', ''fi'', []]
     @ resticRetryLockPreamble [(''RETRY_LOCK_1M'', ''1m''), (''RETRY_LOCK_2M'', ''2m''), (''RETRY_LOCK_5M'', ''5m'')]
     @ line []
     @ lines_text
       [''# Initialize the repository only when restic reports it is missing.'',
        ''# Any other failure (unreachable backend, lock timeout, bad credentials) is'',
        ''# fatal: initializing there would silently create a fresh, empty repository and'',
        ''# every later backup would \"succeed\" against the wrong history.'',
        ''set +e'',
        ''SNAP_OUT=$(restic snapshots $RETRY_LOCK_1M 2>&1)'',
        ''SNAP_RC=$?'',
        ''set -e'',
        [],
        ''if [ \"$SNAP_RC\" -ne 0 ]; then'',
        ''  case \"$SNAP_OUT\" in'',
        ''    *\"repository does not exist\"*|*\"unable to open config file\"*|*\"Is there a repository at\"*)'',
        ''      echo \"Repository does not exist. Running restic init...\"'',
        ''      restic init'',
        ''      ;;'',
        ''    *)'',
        ''      echo \"$SNAP_OUT\" >&2'',
        ''      echo \"Error: refusing to initialize the repository: 'restic snapshots' failed for a reason other than a missing repository (exit $SNAP_RC).\" >&2'',
        ''      exit \"$SNAP_RC\"'',
        ''      ;;'',
        ''  esac'',
        ''fi'',
        []]
     @ line (''echo \"Starting restic backup for job: \" '' @ quote (j_name j) @ '' \"...\"'')"

definition backup_args :: "job \<Rightarrow> string" where
  "backup_args j =
     concat (map (opt_arg ''--tag'') (j_tags j))
     @ opt_arg ''--tag'' (JobTag (j_name j))
     @ (if trim_space (j_server j) \<noteq> []
        then opt_arg ''--tag'' (HostTag (j_server j)) @ opt_arg ''--host'' (j_server j) else [])
     @ concat (map (opt_arg ''--exclude'') (j_excludes j))
     @ concat (map (\<lambda>p. '' '' @ quote p) (j_paths j))"

definition has_keep_rule :: "retention_policy \<Rightarrow> bool" where
  "has_keep_rule r \<longleftrightarrow>
     KeepLast r > 0 \<or> KeepDaily r > 0 \<or> KeepWeekly r > 0 \<or> KeepMonthly r > 0 \<or> KeepYearly r > 0 \<or> KeepTags r \<noteq> []"

definition keep_count :: "string \<Rightarrow> int \<Rightarrow> string list" where
  "keep_count flag n = (if n > 0 then [flag @ '' '' @ show_int n] else [])"

definition forget_args :: "job \<Rightarrow> retention_policy \<Rightarrow> string list" where
  "forget_args j r =
     [''--tag '' @ quote (JobTag (j_name j))]
     @ (if trim_space (j_server j) \<noteq> []
        then [''--tag '' @ quote (HostTag (j_server j)), ''--host '' @ quote (j_server j)] else [])
     @ keep_count ''--keep-last'' (KeepLast r)
     @ keep_count ''--keep-daily'' (KeepDaily r)
     @ keep_count ''--keep-weekly'' (KeepWeekly r)
     @ keep_count ''--keep-monthly'' (KeepMonthly r)
     @ keep_count ''--keep-yearly'' (KeepYearly r)
     @ map (\<lambda>t. ''--keep-tag '' @ quote t) (KeepTags r)"

definition forget_text :: "job \<Rightarrow> string" where
  "forget_text j =
     (case j_retention j of
        None \<Rightarrow> []
      | Some r \<Rightarrow>
          (if has_keep_rule r
           then line ''echo \"Applying retention policy (restic forget --prune)...\"''
                @ line (''restic forget $RETRY_LOCK_5M --prune '' @ join_with '' '' (forget_args j r))
           else []))"

definition BuildBackupScript :: "(nat \<Rightarrow> bool) \<Rightarrow> job \<Rightarrow> string res" where
  "BuildBackupScript uc j =
     (case job_validate uc j of
        Some e \<Rightarrow> Inl e
      | None \<Rightarrow>
          Inr (backup_prologue j @ ''restic backup $RETRY_LOCK_2M --json'' @ backup_args j
               @ line [] @ line [] @ forget_text j))"

section \<open>Snapshots, restore, preview\<close>

definition BuildSnapshotsScript :: "job \<Rightarrow> string" where
  "BuildSnapshotsScript j =
     lines_text [''#!/bin/bash'', ''set -euo pipefail'', []]
     @ writeEnvBlock j
     @ resticRetryLockPreamble [(''RETRY_LOCK_30S'', ''30s'')]
     @ line (''restic snapshots $RETRY_LOCK_30S --json --tag '' @ quote (JobTag (j_name j))
         @ (if trim_space (j_server j) \<noteq> []
            then '' --tag '' @ quote (HostTag (j_server j)) @ '' --host '' @ quote (j_server j) else []))"

definition host_isolation :: "job \<Rightarrow> string" where
  "host_isolation j =
     (if trim_space (j_server j) \<noteq> []
      then opt_arg ''--tag'' (JobTag (j_name j)) @ opt_arg ''--tag'' (HostTag (j_server j)) @ opt_arg ''--host'' (j_server j)
      else [])"

definition remap_orig :: "string \<Rightarrow> string" where
  "remap_orig p = (let c = path_clean p in if has_prefix c ''/'' then c else ''/'' @ c)"

definition remap_final :: "(string \<times> string) list \<Rightarrow> string \<Rightarrow> string \<Rightarrow> string" where
  "remap_final rules targetPath orig =
     path_join [(if targetPath = [] then ''/'' else targetPath), trim_prefix (remap rules orig) ''/'']"

text \<open>The line of the remapping script that announces a move.\<close>

definition moving_line :: "string \<Rightarrow> string \<Rightarrow> string" where
  "moving_line rel final =
     ''  echo \"Moving \"$STAGING\"/'' @ quote rel @ '' -> '' @ quote final @ ''\"''"

definition remap_block :: "(string \<times> string) list \<Rightarrow> string \<Rightarrow> string \<Rightarrow> string" where
  "remap_block rules targetPath p =
     (let orig = remap_orig p;
          final = remap_final rules targetPath orig;
          rel = trim_prefix orig ''/''
      in lines_text
           [''if [ -e \"$STAGING\"/'' @ quote rel @ '' ]; then'',
            moving_line rel final,
            ''  if [ -d \"$STAGING\"/'' @ quote rel @ '' ]; then'',
            ''    mkdir -p '' @ quote final,
            ''    cp -a \"$STAGING\"/'' @ quote rel @ ''/. '' @ quote final @ ''/'',
            ''  else'',
            ''    mkdir -p '' @ quote (path_dir final),
            ''    cp -a \"$STAGING\"/'' @ quote rel @ '' '' @ quote final,
            ''  fi'',
            ''fi''])"

definition include_args :: "string list \<Rightarrow> string" where
  "include_args pats = concat (map (opt_arg ''--include'') pats)"

definition BuildRestoreScript :: "job \<Rightarrow> string \<Rightarrow> string \<Rightarrow> string list \<Rightarrow> string" where
  "BuildRestoreScript j snapshotID targetPath includePatterns =
     lines_text [''#!/bin/bash'', ''set -euo pipefail'', []]
     @ writeEnvBlock j
     @ lines_text [''if ! command -v restic >/dev/null 2>&1; then'',
         ''  echo \"Error: restic is not installed on target host.\" >&2'', ''  exit 127'', ''fi'', []]
     @ resticRetryLockPreamble [(''RETRY_LOCK_2M'', ''2m'')]
     @ line []
     @ (if j_remap j \<noteq> []
        then line (''echo \"Starting restic restore with path remapping (snapshot: \" '' @ quote snapshotID @ '' \")...\"'')
          @ lines_text [''STAGING=$(mktemp -d -t opspulse-restore-XXXXXX)'', ''trap 'rm -rf \"$STAGING\"' EXIT'', []]
          @ line (''restic restore $RETRY_LOCK_2M '' @ quote snapshotID @ host_isolation j @ '' --target \"$STAGING\"''
              @ include_args includePatterns @ '' --verbose'')
          @ line []
          @ line ''echo \"Applying path remapping...\"''
          @ concat (map (remap_block (new_path_remapper (j_remap j)) targetPath)
              (if includePatterns \<noteq> [] then includePatterns else j_paths j))
        else line (''echo \"Starting restic restore (snapshot: \" '' @ quote snapshotID @ '' \", target: \" '' @ quote targetPath @ '' \")...\"'')
          @ line (''restic restore $RETRY_LOCK_2M '' @ quote snapshotID @ host_isolation j @ '' --target '' @ quote targetPath
              @ include_args includePatterns @ '' --verbose''))
     @ line [] @ line ''echo \"Restore completed successfully.\"''"

definition BuildRestoreDryRunScript :: "job \<Rightarrow> string \<Rightarrow> string list \<Rightarrow> string" where
  "BuildRestoreDryRunScript j snapshotID includePatterns =
     lines_text [''#!/bin/bash'', ''set -euo pipefail'', []]
     @ writeEnvBlock j
     @ lines_text [''if ! command -v restic >/dev/null 2>&1; then'',
         ''  echo \"Error: restic is not installed on target host.\" >&2'', ''  exit 127'', ''fi'', []]
     @ resticRetryLockPreamble [(''RETRY_LOCK_30S'', ''30s'')]
     @ line (''echo \"[DRY-RUN] Listing files in snapshot \" '' @ quote snapshotID @ '' \"...\"'')
     @ ''restic ls $RETRY_LOCK_30S '' @ quote snapshotID
     @ concat (map (opt_arg ''--path'') includePatterns)
     @ line []"

section \<open>Reading the words of a command line\<close>

text \<open>The text is read as (the rest of) one word, which it contributes as \<open>w\<close>.\<close>

definition reads_as :: "string \<Rightarrow> string \<Rightarrow> bool" where
  "reads_as w txt \<longleftrightarrow> (\<forall>rest. sh_read False (txt @ rest) = map_option (\<lambda>(x, r). (w @ x, r)) (sh_read False rest))"

lemma reads_quote: "reads_as v (quote v)"
  by (simp add: reads_as_def sh_read_quote)

lemma reads_literal: "list_all sh_literal w \<Longrightarrow> reads_as w w"
  by (simp add: reads_as_def sh_read_literals list_all_iff)

lemma sh_words_reads:
  "list_all2 reads_as (w # ws) (t # ts) \<Longrightarrow> sh_words (join_with '' '' (t # ts)) = Some (w # ws)"
proof (induction ts arbitrary: t w ws)
  case Nil
  then have r: "reads_as w t" and "ws = []" by auto
  then have "sh_read False t = Some (w, [])" using r[unfolded reads_as_def, rule_format, of "[]"] by simp
  then show ?case using \<open>ws = []\<close> by (simp add: sh_words.simps[of t])
next
  case (Cons u us)
  then obtain v vs where ws: "ws = v # vs" and r: "reads_as w t" and rest: "list_all2 reads_as (v # vs) (u # us)"
    by (cases ws) auto
  have "sh_read False (t @ CHR '' '' # join_with '' '' (u # us)) = Some (w, CHR '' '' # join_with '' '' (u # us))"
    using r[unfolded reads_as_def, rule_format, of "CHR '' '' # join_with '' '' (u # us)"] by simp
  then show ?case using Cons.IH[OF rest] ws by (simp add: sh_words.simps[of "t @ _"])
qed

lemma concat_space_join: "ts \<noteq> [] \<Longrightarrow> concat (map (\<lambda>t. '' '' @ t) ts) = '' '' @ join_with '' '' ts"
proof (induction ts)
  case (Cons t ts)
  then show ?case by (cases ts) simp_all
qed simp

text \<open>The words of an option with its value, and their text.\<close>

definition opt_words :: "string \<Rightarrow> string list \<Rightarrow> string list" where
  "opt_words flag vs = concat (map (\<lambda>v. [flag, v]) vs)"

definition opt_toks :: "string \<Rightarrow> string list \<Rightarrow> string list" where
  "opt_toks flag vs = concat (map (\<lambda>v. [flag, quote v]) vs)"

lemma opt_toks_text: "concat (map (opt_arg flag) vs) = concat (map (\<lambda>t. '' '' @ t) (opt_toks flag vs))"
  by (induction vs) (simp_all add: opt_toks_def opt_arg_def)

lemma opt_toks_read: "list_all sh_literal flag \<Longrightarrow> list_all2 reads_as (opt_words flag vs) (opt_toks flag vs)"
  by (induction vs) (simp_all add: opt_words_def opt_toks_def reads_quote reads_literal)

lemma flags_literal:
  "list_all sh_literal ''--tag''" "list_all sh_literal ''--host''" "list_all sh_literal ''--exclude''"
  "list_all sh_literal ''--include''" "list_all sh_literal ''--path''"
  by code_simp+

text \<open>
  The words that \<open>restic backup\<close> gets after \<open>--json\<close>: the tags of the job, the two tags and the
  host that isolate it in a shared repository, the excludes, the paths.
\<close>

definition backup_words :: "job \<Rightarrow> string list" where
  "backup_words j =
     opt_words ''--tag'' (j_tags j @ [JobTag (j_name j), HostTag (j_server j)])
     @ opt_words ''--host'' [j_server j]
     @ opt_words ''--exclude'' (j_excludes j)
     @ j_paths j"

definition backup_toks :: "job \<Rightarrow> string list" where
  "backup_toks j =
     opt_toks ''--tag'' (j_tags j @ [JobTag (j_name j), HostTag (j_server j)])
     @ opt_toks ''--host'' [j_server j]
     @ opt_toks ''--exclude'' (j_excludes j)
     @ map quote (j_paths j)"

lemma backup_args_toks:
  assumes "trim_space (j_server j) \<noteq> []"
  shows "backup_args j = '' '' @ join_with '' '' (backup_toks j)"
proof -
  have "backup_toks j \<noteq> []" by (simp add: backup_toks_def opt_toks_def)
  then have "'' '' @ join_with '' '' (backup_toks j) = concat (map (\<lambda>t. '' '' @ t) (backup_toks j))"
    by (rule concat_space_join[symmetric])
  also have "\<dots> = backup_args j"
    using assms
    by (simp only: backup_args_def backup_toks_def map_append concat_append opt_toks_text[symmetric] map_map comp_def)
       simp
  finally show ?thesis ..
qed

lemma backup_toks_read: "sh_words (join_with '' '' (backup_toks j)) = Some (backup_words j)"
proof -
  have "list_all2 reads_as (map id (j_paths j)) (map quote (j_paths j))"
    by (simp add: list_all2_conv_all_nth reads_quote)
  then have all: "list_all2 reads_as (backup_words j) (backup_toks j)"
    unfolding backup_words_def backup_toks_def
    by (intro list_all2_appendI opt_toks_read flags_literal) simp
  obtain t ts where t: "backup_toks j = t # ts" by (cases "backup_toks j") (auto simp: backup_toks_def opt_toks_def)
  then obtain w ws where "backup_words j = w # ws" using all by (cases "backup_words j") auto
  then show ?thesis using all t sh_words_reads[of w ws t ts] by simp
qed

lemma job_validate_server: "job_validate uc j = None \<Longrightarrow> trim_space (j_server j) \<noteq> []"
  by (auto simp: job_validate_def split: option.splits if_splits)

text \<open>
  C2. The backup command of a generated script is exactly the job: after \<open>restic backup --json\<close>
  the shell reads each tag, the job and host tags that isolate the job's snapshots in a shared
  repository, the host, each exclude and each path, every one as a single word with its bytes
  unchanged, and nothing else on that line.
\<close>

theorem backup_script_words:
  assumes "BuildBackupScript uc j = Inr s"
  shows "\<exists>args. s = backup_prologue j @ ''restic backup $RETRY_LOCK_2M --json '' @ args @ line [] @ line [] @ forget_text j
       \<and> sh_words args = Some (backup_words j)"
proof -
  have v: "job_validate uc j = None" and
    s: "s = backup_prologue j @ ''restic backup $RETRY_LOCK_2M --json'' @ backup_args j @ line [] @ line [] @ forget_text j"
    using assms by (auto simp: BuildBackupScript_def split: option.splits)
  show ?thesis
    by (rule exI[of _ "join_with '' '' (backup_toks j)"])
       (simp add: s backup_args_toks[OF job_validate_server[OF v]] backup_toks_read)
qed

theorem backup_script_words_witness:
  "\<exists>args. BuildBackupScript (\<lambda>_. False) example_job =
       Inr (backup_prologue example_job @ ''restic backup $RETRY_LOCK_2M --json '' @ args @ line [] @ line [])
     \<and> sh_words args = Some [''--tag'', ''job:web'', ''--tag'', ''host:s1'', ''--host'', ''s1'', ''/etc '', ''/srv'', ''/etc'']"
proof -
  have v: "job_validate (\<lambda>_. False) example_job = None" by code_simp
  then obtain s where s: "BuildBackupScript (\<lambda>_. False) example_job = Inr s" by (simp add: BuildBackupScript_def)
  have "forget_text example_job = []" by (simp add: forget_text_def example_job_def)
  moreover have "backup_words example_job =
      [''--tag'', ''job:web'', ''--tag'', ''host:s1'', ''--host'', ''s1'', ''/etc '', ''/srv'', ''/etc'']" by code_simp
  ultimately show ?thesis using backup_script_words[OF s] s by (metis append_Nil2)
qed

section \<open>Retention\<close>

lemma show_nat_digit: "c \<in> set (show_nat n) \<Longrightarrow> is_digit c"
proof (induction n rule: show_nat.induct)
  case (1 n)
  have "is_digit (digit_char d)" for d by (simp add: is_digit_def digit_char_def code_of_def)
  then show ?case using 1 by (subst (asm) (2) show_nat.simps) (auto split: if_splits)
qed

lemma show_int_char: "c \<in> set (show_int i) \<Longrightarrow> c = CHR ''-'' \<or> is_digit c"
  using show_nat_digit by (auto simp: show_int_def split: if_splits)

lemma reads_int: "reads_as (show_int i) (show_int i)"
proof (rule reads_literal)
  show "list_all sh_literal (show_int i)"
    using show_int_char[of _ i] by (auto simp: list_all_iff sh_literal_def is_alnum_def)
qed

text \<open>
  The words that \<open>restic forget --prune\<close> gets: the tag of the job, the tag of the server, the host, and one rule for each
  positive count and each kept tag of the policy.
\<close>

definition keep_rules :: "retention_policy \<Rightarrow> (string \<times> int) list" where
  "keep_rules r = [(''--keep-last'', KeepLast r), (''--keep-daily'', KeepDaily r), (''--keep-weekly'', KeepWeekly r),
     (''--keep-monthly'', KeepMonthly r), (''--keep-yearly'', KeepYearly r)]"

definition forget_words :: "job \<Rightarrow> retention_policy \<Rightarrow> string list" where
  "forget_words j r =
     opt_words ''--tag'' [JobTag (j_name j), HostTag (j_server j)] @ opt_words ''--host'' [j_server j]
     @ concat (map (\<lambda>(f, n). [f, show_int n]) (filter (\<lambda>(f, n). n > 0) (keep_rules r)))
     @ opt_words ''--keep-tag'' (KeepTags r)"

definition forget_pairs :: "job \<Rightarrow> retention_policy \<Rightarrow> (string \<times> string) list" where
  "forget_pairs j r =
     [(''--tag'', quote (JobTag (j_name j))), (''--tag'', quote (HostTag (j_server j))), (''--host'', quote (j_server j))]
     @ map (\<lambda>(f, n). (f, show_int n)) (filter (\<lambda>(f, n). n > 0) (keep_rules r))
     @ map (\<lambda>t. (''--keep-tag'', quote t)) (KeepTags r)"

lemma join_pairs: "join_with '' '' (map (\<lambda>(a, b). a @ '' '' @ b) ps) = join_with '' '' (concat (map (\<lambda>(a, b). [a, b]) ps))"
proof (induction ps)
  case (Cons p ps)
  then show ?case by (cases p; cases ps) auto
qed simp

lemma forget_args_pairs:
  "trim_space (j_server j) \<noteq> [] \<Longrightarrow> forget_args j r = map (\<lambda>(a, b). a @ '' '' @ b) (forget_pairs j r)"
  by (simp add: forget_args_def forget_pairs_def keep_rules_def keep_count_def)

lemma keep_flags_literal: "(f, n) \<in> set (keep_rules r) \<Longrightarrow> list_all sh_literal f"
proof -
  have "list_all sh_literal ''--keep-last''" "list_all sh_literal ''--keep-daily''" "list_all sh_literal ''--keep-weekly''"
    "list_all sh_literal ''--keep-monthly''" "list_all sh_literal ''--keep-yearly''"
    by code_simp+
  then show "(f, n) \<in> set (keep_rules r) \<Longrightarrow> list_all sh_literal f" by (auto simp: keep_rules_def)
qed

lemma forget_pairs_read: "list_all2 reads_as (forget_words j r) (concat (map (\<lambda>(a, b). [a, b]) (forget_pairs j r)))"
proof -
  have keep: "list_all2 reads_as (concat (map (\<lambda>(f, n). [f, show_int n]) ks)) (concat (map (\<lambda>(a, b). [a, b]) (map (\<lambda>(f, n). (f, show_int n)) ks)))"
    if "\<forall>p\<in>set ks. list_all sh_literal (fst p)" for ks :: "(string \<times> int) list"
    using that by (induction ks) (auto simp: reads_int reads_literal)
  have kt: "list_all sh_literal ''--keep-tag''" by code_simp
  have tags: "list_all2 reads_as (opt_words ''--keep-tag'' ts) (concat (map (\<lambda>(a, b). [a, b]) (map (\<lambda>t. (''--keep-tag'', quote t)) ts)))" for ts
    by (induction ts) (simp_all add: opt_words_def reads_quote reads_literal[OF kt])
  have fl: "reads_as ''--tag'' ''--tag''" "reads_as ''--host'' ''--host''" by (rule reads_literal, rule flags_literal)+
  have front: "list_all2 reads_as (opt_words ''--tag'' [a, b] @ opt_words ''--host'' [c])
      [''--tag'', quote a, ''--tag'', quote b, ''--host'', quote c]" for a b c
    by (simp add: opt_words_def reads_quote fl)
  have ok: "\<forall>p\<in>set (filter (\<lambda>(f, n). n > 0) (keep_rules r)). list_all sh_literal (fst p)"
    using keep_flags_literal[of _ _ r] by auto
  show ?thesis
    using list_all2_appendI[OF front[of "JobTag (j_name j)" "HostTag (j_server j)" "j_server j"]
        list_all2_appendI[OF keep[OF ok] tags[of "KeepTags r"]]]
    by (simp add: forget_words_def forget_pairs_def)
qed

lemma forget_args_read:
  assumes "trim_space (j_server j) \<noteq> []"
  shows "sh_words (join_with '' '' (forget_args j r)) = Some (forget_words j r)"
proof -
  obtain t ts where t: "concat (map (\<lambda>(a, b). [a, b]) (forget_pairs j r)) = t # ts" by (simp add: forget_pairs_def)
  obtain w ws where w: "forget_words j r = w # ws" by (simp add: forget_words_def opt_words_def)
  show ?thesis
    unfolding forget_args_pairs[OF assms] join_pairs t w
    by (rule sh_words_reads) (use forget_pairs_read[of j r] t w in simp)
qed

text \<open>
  restic's filter, as its manual describes it: a snapshot is considered when its host is one of the \<open>--host\<close> values and
  one of the \<open>--tag\<close> values has all its comma-separated tags on the snapshot. Several \<open>--tag\<close> options are alternatives.
\<close>

fun opt_values :: "string \<Rightarrow> string list \<Rightarrow> string list" where
  "opt_values f (a # b # ws) = (if a = f then b # opt_values f ws else opt_values f ws)"
| "opt_values f ws = []"

definition restic_selects :: "string list \<Rightarrow> string \<Rightarrow> string set \<Rightarrow> bool" where
  "restic_selects ws host tags \<longleftrightarrow>
     (opt_values ''--tag'' ws = [] \<or> (\<exists>t\<in>set (opt_values ''--tag'' ws). set (split_on (CHR '','') t) \<subseteq> tags))
     \<and> (opt_values ''--host'' ws = [] \<or> host \<in> set (opt_values ''--host'' ws))"

lemma forget_values:
  "opt_values ''--tag'' (forget_words j r) = [JobTag (j_name j), HostTag (j_server j)]"
  "opt_values ''--host'' (forget_words j r) = [j_server j]"
proof -
  have none: "opt_values f (opt_words g ts) = []" if "f \<noteq> g" for f g ts
    using that by (induction ts) (simp_all add: opt_words_def)
  have skip: "opt_values f (concat (map (\<lambda>(g, n). [g, show_int n]) ks) @ ws) = opt_values f ws"
    if "\<forall>(g, n)\<in>set ks. g \<noteq> f" for f ks ws
    using that by (induction ks) auto
  have "\<forall>(g, n)\<in>set (filter (\<lambda>(f, n). n > 0) (keep_rules r)). g \<noteq> ''--tag'' \<and> g \<noteq> ''--host''"
    by (auto simp: keep_rules_def)
  then show "opt_values ''--tag'' (forget_words j r) = [JobTag (j_name j), HostTag (j_server j)]"
    "opt_values ''--host'' (forget_words j r) = [j_server j]"
    by (simp_all add: forget_words_def opt_words_def[of _ "[_, _]"] opt_words_def[of _ "[_]"] skip none case_prod_beta)
qed


definition keep_job :: job where
  "keep_job = example_job\<lparr>j_retention := Some \<lparr>KeepDaily = 7, KeepWeekly = 0, KeepMonthly = 0, KeepYearly = 0,
     KeepLast = 0, KeepTags = [''a b'']\<rparr>\<rparr>"


text \<open>
  The two tags are alternatives for restic: with a shared repository the policy of one job also considers the snapshots
  of every other job of the same host, although the code means to isolate it to this job's snapshots.
\<close>

lemma retention_reaches_other_job:
  assumes "j_server other = j_server j"
  shows "restic_selects (forget_words j r) (j_server other)
           (set (concat (map (split_on (CHR '','')) (j_tags other @ [JobTag (j_name other), HostTag (j_server other)]))))"
  using assms by (auto simp: restic_selects_def forget_values)

section \<open>The announcement of a move\<close>

text \<open>
  In the remapping restore script the announcement of a move puts the single-quoted path inside
  a double-quoted \<open>echo\<close> argument, where single quotes do not protect: for a path with \<open>$(\<close> (and no
  quote or backslash before it) the shell runs the text after it as a command, although the same
  path passed through \<open>Quote\<close> alone is inert and the job passes \<open>Validate\<close>.
\<close>

theorem remap_echo_expands:
  assumes "j_remap j \<noteq> []" "p \<in> set (if pats \<noteq> [] then pats else j_paths j)"
    and "trim_prefix (remap_orig p) ''/'' = a @ ''$('' @ b"
    and "\<forall>c\<in>set a. c \<noteq> CHR 0x22 \<and> c \<noteq> CHR 0x5C \<and> c \<noteq> squote"
  shows "(\<exists>pre final post. BuildRestoreScript j snap tgt pats = pre @ line (moving_line (a @ ''$('' @ b) final) @ post
             \<and> sh_expands Unquoted (moving_line (a @ ''$('' @ b) final))
       \<and> \<not> sh_expands Unquoted (quote (a @ ''$('' @ b))"
proof -
  let ?rules = "new_path_remapper (j_remap j)"
  let ?ps = "if pats \<noteq> [] then pats else j_paths j"
  let ?rel = "a @ ''$('' @ b"
  let ?final = "remap_final ?rules tgt (remap_orig p)"
  obtain xs ys where split: "?ps = xs @ p # ys" using split_list[OF assms(2)] by blast
  have block: "\<exists>u w. remap_block ?rules tgt p = u @ line (moving_line ?rel ?final) @ w"
    unfolding remap_block_def Let_def assms(3) lines_text_def
    by (rule exI[of _ "line (''if [ -e \"$STAGING\"/'' @ quote ?rel @ '' ]; then'')"]) simp
  then obtain u w where uw: "remap_block ?rules tgt p = u @ line (moving_line ?rel ?final) @ w" by blast
  have "concat (map (remap_block ?rules tgt) ?ps) = (concat (map (remap_block ?rules tgt) xs) @ u)
      @ line (moving_line ?rel ?final) @ (w @ concat (map (remap_block ?rules tgt) ys))"
    by (simp only: split map_append list.map concat_append concat.simps uw append_assoc)
  moreover have "\<exists>h t. BuildRestoreScript j snap tgt pats = h @ concat (map (remap_block ?rules tgt) ?ps) @ t"
    unfolding BuildRestoreScript_def if_P[OF assms(1)] by (metis append_assoc)
  ultimately have ex: "\<exists>pre post. BuildRestoreScript j snap tgt pats = pre @ line (moving_line ?rel ?final) @ post"
    by (metis append_assoc)
  have "sh_scan (Unquoted, None) ''  echo \"Moving \"$STAGING\"/'' = Some (DoubleQuoted, None)" by code_simp
  from quote_in_double_quotes[OF this assms(4), of b "'' -> '' @ quote ?final @ ''\"''"]
  have "sh_expands Unquoted (moving_line ?rel ?final)" by (simp add: moving_line_def)
  moreover have "\<not> sh_expands Unquoted (quote ?rel)" by (rule sh_inert_expands) simp
  ultimately show ?thesis using ex by blast
qed

definition injection_job :: job where
  "injection_job = example_job\<lparr>j_paths := [''/srv/$(id)''], j_remap := [(''/srv'', ''/data'')]\<rparr>"

theorem remap_echo_expands_witness:
  "job_validate (\<lambda>_. False) injection_job = None \<and>
   (\<exists>pre final post. BuildRestoreScript injection_job ''latest'' ''/'' [] = pre @ line (moving_line ''srv/$(id)'' final) @ post
      \<and> sh_expands Unquoted (moving_line ''srv/$(id)'' final))"
proof -
  have "trim_prefix (remap_orig ''/srv/$(id)'') ''/'' = ''srv/'' @ ''$('' @ ''id)''" by code_simp
  then have "\<exists>pre final post. BuildRestoreScript injection_job ''latest'' ''/'' []
        = pre @ line (moving_line (''srv/'' @ ''$('' @ ''id)'') final) @ post
      \<and> sh_expands Unquoted (moving_line (''srv/'' @ ''$('' @ ''id)'') final)"
    using remap_echo_expands[of injection_job "''/srv/$(id)''" "[]" "''srv/''" "''id)''" "''latest''" "''/''"]
    by (simp add: injection_job_def)
  moreover have "job_validate (\<lambda>_. False) injection_job = None" by code_simp
  ultimately show ?thesis by simp
qed

end
