(* ===== verification/AuditRepo.thy ===== *)
theory AuditRepo
  imports GoStrings
begin

text \<open>
  \<open>internal/storage\<close>: the audit tables \<open>backup_runs\<close> and \<open>restore_runs\<close> (\<open>backup_repo.go\<close>,
  \<open>restore_repo.go\<close>). A table is its rows and the last id \<open>AUTOINCREMENT\<close> gave; SQLite's outcomes
  are an oracle (\<open>db_io\<close>). Times are nanoseconds in the records and whole seconds in the rows, as
  RFC 3339 text keeps them; a nullable column is an option. Rows with equal sort keys come in an
  order that SQL leaves open: the parameter \<open>tie\<close> permutes the rows before the stable sort.

  The locale \<open>audit_log\<close> is the interface (\<open>RunRecorder\<close>, \<open>RestoreRecorder\<close>) that the runners use,
  interpreted on both tables.
\<close>

section \<open>The database\<close>

record db_io =
  db_exec :: "go_error option"
  db_last :: "go_error option"
  db_query :: "go_error option"
  db_scan :: "go_error option"
  db_rows :: "go_error option"
  db_now :: int

definition db_fine :: "int \<Rightarrow> db_io" where
  "db_fine now = \<lparr>db_exec = None, db_last = None, db_query = None, db_scan = None, db_rows = None, db_now = now\<rparr>"

record 'r table =
  tb_rows :: "'r list"
  tb_seq :: int

definition nano :: int where
  "nano = 1000000000"

definition secs :: "int \<Rightarrow> int" where
  "secs t = t div nano"

text \<open>\<open>time.Time{}\<close>, January 1 of year 1.\<close>

definition zero_time :: int where
  "zero_time = - 62135596800 * nano"

definition nullIfEmpty :: "string \<Rightarrow> string option" where
  "nullIfEmpty s = (if s = [] then None else Some s)"

definition from_null :: "string option \<Rightarrow> string" where
  "from_null so = (case so of None \<Rightarrow> [] | Some s \<Rightarrow> s)"

definition boolToInt :: "bool \<Rightarrow> int" where
  "boolToInt b = (if b then 1 else 0)"

lemma from_null_simps [simp]: "from_null (nullIfEmpty s) = s" "from_null (Some s) = s"
  by (simp_all add: from_null_def nullIfEmpty_def)

section \<open>Backup runs\<close>

record backup_run =
  br_id :: int
  br_job :: string
  br_server :: string
  br_snapshot :: string
  br_status :: string
  br_files_new :: int
  br_files_changed :: int
  br_files_unmodified :: int
  br_data_added :: int
  br_total_bytes :: int
  br_duration :: rat
  br_error :: string
  br_log :: string
  br_started :: int
  br_finished :: "int option"
  br_untracked :: bool

record backup_row =
  bw_id :: int
  bw_job :: string
  bw_server :: string
  bw_snapshot :: "string option"
  bw_status :: string
  bw_files_new :: int
  bw_files_changed :: int
  bw_files_unmodified :: int
  bw_data_added :: int
  bw_total_bytes :: int
  bw_duration :: rat
  bw_error :: "string option"
  bw_log :: "string option"
  bw_started :: int
  bw_finished :: "int option"
  bw_untracked :: int

definition insert_backup_row :: "int \<Rightarrow> backup_run \<Rightarrow> backup_row" where
  "insert_backup_row i run =
     \<lparr>bw_id = i, bw_job = br_job run, bw_server = br_server run, bw_snapshot = Some (br_snapshot run),
      bw_status = br_status run, bw_files_new = br_files_new run, bw_files_changed = br_files_changed run,
      bw_files_unmodified = br_files_unmodified run, bw_data_added = br_data_added run,
      bw_total_bytes = br_total_bytes run, bw_duration = br_duration run, bw_error = Some (br_error run),
      bw_log = Some (br_log run), bw_started = secs (br_started run),
      bw_finished = map_option secs (br_finished run), bw_untracked = boolToInt (br_untracked run)\<rparr>"

definition backup_create ::
    "db_io \<Rightarrow> backup_run \<Rightarrow> backup_row table \<Rightarrow> go_error option \<times> backup_run \<times> backup_row table" where
  "backup_create io run0 tbl =
     (let run = (if br_started run0 = zero_time then run0\<lparr>br_started := db_now io\<rparr> else run0)
      in case db_exec io of
           Some e \<Rightarrow> (Some (wrap ''failed to insert backup_run: '' e []), run, tbl)
         | None \<Rightarrow>
             (let i = tb_seq tbl + 1;
                  tbl' = \<lparr>tb_rows = tb_rows tbl @ [insert_backup_row i run], tb_seq = i\<rparr>
              in case db_last io of
                   Some e \<Rightarrow> (Some (wrap ''failed to get last insert id: '' e []), run, tbl')
                 | None \<Rightarrow> (None, run\<lparr>br_id := i\<rparr>, tbl')))"

definition update_backup_row :: "backup_run \<Rightarrow> backup_row \<Rightarrow> backup_row" where
  "update_backup_row run row =
     row\<lparr>bw_snapshot := Some (br_snapshot run), bw_status := br_status run, bw_files_new := br_files_new run,
         bw_files_changed := br_files_changed run, bw_files_unmodified := br_files_unmodified run,
         bw_data_added := br_data_added run, bw_total_bytes := br_total_bytes run,
         bw_duration := br_duration run, bw_error := Some (br_error run), bw_log := Some (br_log run),
         bw_finished := map_option secs (br_finished run), bw_untracked := boolToInt (br_untracked run)\<rparr>"

definition backup_update :: "db_io \<Rightarrow> backup_run \<Rightarrow> backup_row table \<Rightarrow> go_error option \<times> backup_row table" where
  "backup_update io run tbl =
     (case db_exec io of
        Some e \<Rightarrow> (Some (wrap (''failed to update backup_run '' @ show_int (br_id run) @ '': '') e []), tbl)
      | None \<Rightarrow> (None, tbl\<lparr>tb_rows := map (\<lambda>r. if bw_id r = br_id run then update_backup_row run r else r) (tb_rows tbl)\<rparr>))"

definition scanBackupRun :: "backup_row \<Rightarrow> backup_run" where
  "scanBackupRun r =
     \<lparr>br_id = bw_id r, br_job = bw_job r, br_server = bw_server r, br_snapshot = from_null (bw_snapshot r),
      br_status = bw_status r, br_files_new = bw_files_new r, br_files_changed = bw_files_changed r,
      br_files_unmodified = bw_files_unmodified r, br_data_added = bw_data_added r,
      br_total_bytes = bw_total_bytes r, br_duration = bw_duration r, br_error = from_null (bw_error r),
      br_log = from_null (bw_log r), br_started = bw_started r * nano,
      br_finished = map_option (\<lambda>t. t * nano) (bw_finished r), br_untracked = (bw_untracked r \<noteq> 0)\<rparr>"

text \<open>The rows of a query, scanned one by one.\<close>

definition scan_rows :: "string \<Rightarrow> db_io \<Rightarrow> ('r \<Rightarrow> 'a) \<Rightarrow> 'r list \<Rightarrow> 'a list res" where
  "scan_rows noun io scan rows =
     (case (if rows = [] then None else db_scan io) of
        Some e \<Rightarrow> Inl (wrap (''failed to scan '' @ noun @ '' row: '') e [])
      | None \<Rightarrow> Inr (map scan rows))"

definition backup_list_runs ::
    "(backup_row list \<Rightarrow> backup_row list) \<Rightarrow> db_io \<Rightarrow> string \<Rightarrow> int \<Rightarrow> backup_row table \<Rightarrow> backup_run list res" where
  "backup_list_runs tie io jobName limit tbl =
     (case db_query io of
        Some e \<Rightarrow> Inl (wrap ''failed to query backup_runs: '' e [])
      | None \<Rightarrow>
          (case scan_rows ''backup_run'' io scanBackupRun
                  (take (nat (if limit \<le> 0 then 50 else limit))
                     (sort_key (\<lambda>r. - bw_started r)
                        (tie (filter (\<lambda>r. jobName = [] \<or> bw_job r = jobName) (tb_rows tbl))))) of
             Inl e \<Rightarrow> Inl e
           | Inr runs \<Rightarrow> (case db_rows io of Some e \<Rightarrow> Inl (wrap ''row iteration error: '' e []) | None \<Rightarrow> Inr runs)))"

definition backup_latest_run ::
    "(backup_row list \<Rightarrow> backup_row list) \<Rightarrow> db_io \<Rightarrow> string \<Rightarrow> backup_row table \<Rightarrow> backup_run option res" where
  "backup_latest_run tie io jobName tbl =
     (case db_query io of
        Some e \<Rightarrow> Inl (wrap (''failed to query latest backup_run for '' @ go_quote jobName @ '': '') e [])
      | None \<Rightarrow>
          (case sort_key (\<lambda>r. - bw_started r) (tie (filter (\<lambda>r. bw_job r = jobName) (tb_rows tbl))) of
             [] \<Rightarrow> Inr None
           | r # rs \<Rightarrow> Inr (Some (scanBackupRun r))))"

definition max_id_row :: "backup_row list \<Rightarrow> backup_row \<Rightarrow> bool" where
  "max_id_row rows r \<longleftrightarrow> list_all (\<lambda>r'. bw_job r' = bw_job r \<longrightarrow> bw_id r' \<le> bw_id r) rows"

definition backup_all_latest :: "db_io \<Rightarrow> backup_row table \<Rightarrow> backup_run list res" where
  "backup_all_latest io tbl =
     (case db_query io of
        Some e \<Rightarrow> Inl (wrap ''failed to query all latest backup_runs: '' e [])
      | None \<Rightarrow>
          (case scan_rows ''backup_run'' io scanBackupRun
                  (sort_key bw_job (filter (max_id_row (tb_rows tbl)) (tb_rows tbl))) of
             Inl e \<Rightarrow> Inl e
           | Inr runs \<Rightarrow> (case db_rows io of Some e \<Rightarrow> Inl (wrap ''row iteration error: '' e []) | None \<Rightarrow> Inr runs)))"

section \<open>Restore runs\<close>

definition RestoreStageValidation :: string where
  "RestoreStageValidation = ''validation''"

definition RestoreStageExecution :: string where
  "RestoreStageExecution = ''execution''"

definition RestoreStagePostRestore :: string where
  "RestoreStagePostRestore = ''post_restore''"

record restore_run =
  rr_id :: int
  rr_job :: string
  rr_asset :: string
  rr_snapshot :: string
  rr_source :: string
  rr_target :: string
  rr_target_path :: string
  rr_status :: string
  rr_stage :: string
  rr_files :: int
  rr_bytes :: int
  rr_duration :: rat
  rr_error :: string
  rr_log :: string
  rr_started :: int
  rr_finished :: "int option"

record restore_row =
  rw_id :: int
  rw_job :: string
  rw_asset :: "string option"
  rw_snapshot :: string
  rw_source :: string
  rw_target :: string
  rw_target_path :: "string option"
  rw_status :: string
  rw_stage :: string
  rw_files :: int
  rw_bytes :: int
  rw_duration :: rat
  rw_error :: "string option"
  rw_log :: "string option"
  rw_started :: int
  rw_finished :: "int option"

definition insert_restore_row :: "int \<Rightarrow> restore_run \<Rightarrow> restore_row" where
  "insert_restore_row i run =
     \<lparr>rw_id = i, rw_job = rr_job run, rw_asset = nullIfEmpty (rr_asset run), rw_snapshot = rr_snapshot run,
      rw_source = rr_source run, rw_target = rr_target run, rw_target_path = nullIfEmpty (rr_target_path run),
      rw_status = rr_status run, rw_stage = rr_stage run, rw_files = rr_files run, rw_bytes = rr_bytes run,
      rw_duration = rr_duration run, rw_error = nullIfEmpty (rr_error run), rw_log = nullIfEmpty (rr_log run),
      rw_started = secs (rr_started run), rw_finished = map_option secs (rr_finished run)\<rparr>"

definition restore_create ::
    "db_io \<Rightarrow> restore_run \<Rightarrow> restore_row table \<Rightarrow> go_error option \<times> restore_run \<times> restore_row table" where
  "restore_create io run tbl =
     (case db_exec io of
        Some e \<Rightarrow> (Some (wrap ''failed to insert restore_run: '' e []), run, tbl)
      | None \<Rightarrow>
          (let i = tb_seq tbl + 1;
               tbl' = \<lparr>tb_rows = tb_rows tbl @ [insert_restore_row i run], tb_seq = i\<rparr>
           in case db_last io of
                Some e \<Rightarrow> (Some (wrap ''failed to get last insert id: '' e []), run, tbl')
              | None \<Rightarrow> (None, run\<lparr>rr_id := i\<rparr>, tbl')))"

definition update_restore_row :: "restore_run \<Rightarrow> restore_row \<Rightarrow> restore_row" where
  "update_restore_row run row =
     row\<lparr>rw_snapshot := rr_snapshot run, rw_status := rr_status run, rw_files := rr_files run,
         rw_bytes := rr_bytes run, rw_duration := rr_duration run, rw_error := nullIfEmpty (rr_error run),
         rw_log := nullIfEmpty (rr_log run), rw_finished := map_option secs (rr_finished run),
         rw_stage := rr_stage run\<rparr>"

definition restore_update :: "db_io \<Rightarrow> restore_run \<Rightarrow> restore_row table \<Rightarrow> go_error option \<times> restore_row table" where
  "restore_update io run tbl =
     (case db_exec io of
        Some e \<Rightarrow> (Some (wrap (''failed to update restore_run (id: '' @ show_int (rr_id run) @ ''): '') e []), tbl)
      | None \<Rightarrow> (None, tbl\<lparr>tb_rows := map (\<lambda>r. if rw_id r = rr_id run then update_restore_row run r else r) (tb_rows tbl)\<rparr>))"

definition scanRestoreRun :: "restore_row \<Rightarrow> restore_run" where
  "scanRestoreRun r =
     \<lparr>rr_id = rw_id r, rr_job = rw_job r, rr_asset = from_null (rw_asset r), rr_snapshot = rw_snapshot r,
      rr_source = rw_source r, rr_target = rw_target r, rr_target_path = from_null (rw_target_path r),
      rr_status = rw_status r, rr_stage = rw_stage r, rr_files = rw_files r, rr_bytes = rw_bytes r,
      rr_duration = rw_duration r, rr_error = from_null (rw_error r), rr_log = from_null (rw_log r),
      rr_started = rw_started r * nano, rr_finished = map_option (\<lambda>t. t * nano) (rw_finished r)\<rparr>"

definition restore_list_runs ::
    "(restore_row list \<Rightarrow> restore_row list) \<Rightarrow> db_io \<Rightarrow> string \<Rightarrow> int \<Rightarrow> restore_row table \<Rightarrow> restore_run list res" where
  "restore_list_runs tie io jobName limit tbl =
     (case db_query io of
        Some e \<Rightarrow> Inl (wrap ''failed to list restore_runs: '' e [])
      | None \<Rightarrow>
          (case scan_rows ''restore_run'' io scanRestoreRun
                  (take (nat (if limit \<le> 0 then 20 else limit))
                     (sort_key (\<lambda>r. - rw_started r)
                        (tie (if jobName \<noteq> [] then filter (\<lambda>r. rw_job r = jobName) (tb_rows tbl) else tb_rows tbl)))) of
             Inl e \<Rightarrow> Inl e
           | Inr runs \<Rightarrow> (case db_rows io of Some e \<Rightarrow> Inl e | None \<Rightarrow> Inr runs)))"

definition restore_latest_run ::
    "(restore_row list \<Rightarrow> restore_row list) \<Rightarrow> db_io \<Rightarrow> string \<Rightarrow> restore_row table \<Rightarrow> restore_run option res" where
  "restore_latest_run tie io jobName tbl =
     (case restore_list_runs tie io jobName 1 tbl of
        Inl e \<Rightarrow> Inl e
      | Inr runs \<Rightarrow> Inr (case runs of [] \<Rightarrow> None | r # rs \<Rightarrow> Some r))"

section \<open>The interface of the runners\<close>

text \<open>The last write of a run: an update of its row, or an insert when it never had one.\<close>

definition record_outcome ::
    "(db_io \<Rightarrow> 'r \<Rightarrow> 's \<Rightarrow> go_error option \<times> 'r \<times> 's) \<Rightarrow> (db_io \<Rightarrow> 'r \<Rightarrow> 's \<Rightarrow> go_error option \<times> 's) \<Rightarrow> ('r \<Rightarrow> int)
     \<Rightarrow> db_io \<Rightarrow> 'r \<Rightarrow> 's \<Rightarrow> go_error option \<times> 'r \<times> 's" where
  "record_outcome create update rid io r s =
     (if 0 < rid r then (case update io r s of (oe, s') \<Rightarrow> (oe, r, s')) else create io r s)"

text \<open>
  A recorder: \<open>same r w\<close> says that the row \<open>w\<close> belongs to the run \<open>r\<close>, \<open>agrees r w\<close> that it carries its outcome. An
  insert makes a row of the run, an update keeps whose row it is. A failed insert may leave a row behind (the id could
  not be read) but touches no other.
\<close>

locale audit_log =
  fixes create :: "db_io \<Rightarrow> 'r \<Rightarrow> 's \<Rightarrow> go_error option \<times> 'r \<times> 's"
    and update :: "db_io \<Rightarrow> 'r \<Rightarrow> 's \<Rightarrow> go_error option \<times> 's"
    and lookup :: "'s \<Rightarrow> int \<Rightarrow> 'w option"
    and rid :: "'r \<Rightarrow> int"
    and same :: "'r \<Rightarrow> 'w \<Rightarrow> bool"
    and agrees :: "'r \<Rightarrow> 'w \<Rightarrow> bool"
    and wf :: "'s \<Rightarrow> bool"
  assumes create_ok: "wf s \<Longrightarrow> create io r s = (None, r', s') \<Longrightarrow>
             wf s' \<and> 0 < rid r' \<and> lookup s (rid r') = None \<and> (\<exists>w. lookup s' (rid r') = Some w \<and> same r' w \<and> agrees r' w)
             \<and> (\<forall>i. i \<noteq> rid r' \<longrightarrow> lookup s' i = lookup s i)"
    and create_fails: "wf s \<Longrightarrow> create io r s = (Some e, r', s') \<Longrightarrow>
             wf s' \<and> rid r' = rid r \<and> (\<forall>i. lookup s i \<noteq> None \<longrightarrow> lookup s' i = lookup s i)"
    and update_ok: "wf s \<Longrightarrow> update io r s = (None, s') \<Longrightarrow>
             wf s' \<and> (\<forall>i. i \<noteq> rid r \<longrightarrow> lookup s' i = lookup s i)
             \<and> (\<forall>w0. lookup s (rid r) = Some w0 \<longrightarrow> (\<exists>w. lookup s' (rid r) = Some w \<and> (same r w0 \<longrightarrow> same r w) \<and> agrees r w))"
    and update_fails: "wf s \<Longrightarrow> update io r s = (Some e, s') \<Longrightarrow> wf s' \<and> lookup s' = lookup s"
begin

lemma record_outcome_recorded:
  assumes "wf s" "record_outcome create update rid io r s = (None, r', s')" "0 < rid r \<Longrightarrow> \<exists>w. lookup s (rid r) = Some w \<and> same r w"
  shows "wf s' \<and> (\<exists>w. lookup s' (rid r') = Some w \<and> same r' w \<and> agrees r' w)
       \<and> (\<forall>i. lookup s i \<noteq> None \<longrightarrow> i \<noteq> rid r \<longrightarrow> lookup s' i = lookup s i)
       \<and> (0 < rid r \<longrightarrow> r' = r \<and> (\<forall>i. i \<noteq> rid r \<longrightarrow> lookup s' i = lookup s i))"
proof (cases "0 < rid r")
  case True
  then have "update io r s = (None, s')" "r' = r" using assms(2) by (auto simp: record_outcome_def split: prod.splits)
  then show ?thesis using update_ok[OF assms(1)] assms(3)[OF True] by metis
next
  case False
  then have c: "create io r s = (None, r', s')" using assms(2) by (simp add: record_outcome_def)
  from create_ok[OF assms(1) c] False show ?thesis by metis
qed

lemma record_outcome_fails:
  assumes "wf s" "record_outcome create update rid io r s = (Some e, r', s')"
  shows "wf s' \<and> rid r' = rid r \<and> (\<forall>i. lookup s i \<noteq> None \<longrightarrow> lookup s' i = lookup s i)"
proof (cases "0 < rid r")
  case True
  then have "update io r s = (Some e, s')" "r' = r" using assms(2) by (auto simp: record_outcome_def split: prod.splits)
  then show ?thesis using update_fails[OF assms(1)] by force
next
  case False
  then have "create io r s = (Some e, r', s')" using assms(2) by (simp add: record_outcome_def)
  then show ?thesis using create_fails[OF assms(1)] by blast
qed

end

section \<open>Both tables keep the contract\<close>

definition table_wf :: "('w \<Rightarrow> int) \<Rightarrow> 'w table \<Rightarrow> bool" where
  "table_wf wid tbl \<longleftrightarrow>
     0 \<le> tb_seq tbl \<and> distinct (map wid (tb_rows tbl)) \<and> (\<forall>w\<in>set (tb_rows tbl). 0 < wid w \<and> wid w \<le> tb_seq tbl)"

definition table_lookup :: "('w \<Rightarrow> int) \<Rightarrow> 'w table \<Rightarrow> int \<Rightarrow> 'w option" where
  "table_lookup wid tbl i = find_key wid i (tb_rows tbl)"

definition empty_table :: "'w table" where
  "empty_table = \<lparr>tb_rows = [], tb_seq = 0\<rparr>"

lemma empty_table_wf [simp]: "table_wf wid empty_table"
  by (simp add: table_wf_def empty_table_def)

lemma table_lookup_pos:
  assumes "table_wf wid tbl" "table_lookup wid tbl i = Some w"
  shows "0 < i"
  using assms find_key_Some[of wid i "tb_rows tbl" w] by (auto simp: table_wf_def table_lookup_def)

lemma find_key_append:
  "find_key f k (xs @ ys) = (case find_key f k xs of None \<Rightarrow> find_key f k ys | Some x \<Rightarrow> Some x)"
  by (induction xs) auto

lemma table_append:
  assumes "table_wf wid tbl" "wid w = tb_seq tbl + 1" "tbl' = \<lparr>tb_rows = tb_rows tbl @ [w], tb_seq = tb_seq tbl + 1\<rparr>"
  shows "table_wf wid tbl' \<and> table_lookup wid tbl (wid w) = None \<and> table_lookup wid tbl' (wid w) = Some w
       \<and> (\<forall>i. i \<noteq> wid w \<longrightarrow> table_lookup wid tbl' i = table_lookup wid tbl i)"
proof -
  have new: "wid w \<notin> wid ` set (tb_rows tbl)" using assms(1,2) by (fastforce simp: table_wf_def)
  then have none: "find_key wid (wid w) (tb_rows tbl) = None" by (simp add: find_key_None)
  show ?thesis using assms new none
    by (auto simp: table_wf_def table_lookup_def find_key_append split: option.splits)
qed

lemma find_key_map_upd:
  assumes "\<And>x. f (g x) = f x"
  shows "find_key f k (map (\<lambda>x. if f x = i then g x else x) xs)
       = (if k = i then map_option g (find_key f k xs) else find_key f k xs)"
  using assms by (induction xs) auto

lemma table_update:
  assumes "table_wf wid tbl" "\<And>w. wid (g w) = wid w"
    "tbl' = tbl\<lparr>tb_rows := map (\<lambda>w. if wid w = i then g w else w) (tb_rows tbl)\<rparr>"
  shows "table_wf wid tbl' \<and> (\<forall>j. j \<noteq> i \<longrightarrow> table_lookup wid tbl' j = table_lookup wid tbl j)
       \<and> table_lookup wid tbl' i = map_option g (table_lookup wid tbl i)"
proof -
  have ids: "map wid (tb_rows tbl') = map wid (tb_rows tbl)" using assms(2,3) by simp
  have bound: "\<forall>w\<in>set (tb_rows tbl'). 0 < wid w \<and> wid w \<le> tb_seq tbl"
    using assms unfolding table_wf_def by auto
  have "table_wf wid tbl'"
    unfolding table_wf_def ids using bound assms(1,3) by (simp add: table_wf_def)
  then show ?thesis using assms(2,3)
    by (simp add: table_lookup_def find_key_map_upd)
qed

text \<open>
  The row of a run, stated column by column: whose row it is (the columns that no update writes) and the outcome. Texts
  are compared after reading, where NULL is the empty text.
\<close>

definition backup_same :: "backup_run \<Rightarrow> backup_row \<Rightarrow> bool" where
  "backup_same r w \<longleftrightarrow> bw_id w = br_id r \<and> bw_job w = br_job r \<and> bw_server w = br_server r \<and> bw_started w = secs (br_started r)"

definition backup_agrees :: "backup_run \<Rightarrow> backup_row \<Rightarrow> bool" where
  "backup_agrees r w \<longleftrightarrow> bw_status w = br_status r \<and> from_null (bw_snapshot w) = br_snapshot r
     \<and> from_null (bw_error w) = br_error r \<and> from_null (bw_log w) = br_log r
     \<and> bw_files_new w = br_files_new r \<and> bw_files_changed w = br_files_changed r \<and> bw_files_unmodified w = br_files_unmodified r
     \<and> bw_data_added w = br_data_added r \<and> bw_total_bytes w = br_total_bytes r \<and> bw_duration w = br_duration r
     \<and> bw_finished w = map_option secs (br_finished r) \<and> (bw_untracked w \<noteq> 0 \<longleftrightarrow> br_untracked r)"

definition restore_same :: "restore_run \<Rightarrow> restore_row \<Rightarrow> bool" where
  "restore_same r w \<longleftrightarrow> rw_id w = rr_id r \<and> rw_job w = rr_job r \<and> from_null (rw_asset w) = rr_asset r
     \<and> rw_source w = rr_source r \<and> rw_target w = rr_target r \<and> from_null (rw_target_path w) = rr_target_path r
     \<and> rw_started w = secs (rr_started r)"

definition restore_agrees :: "restore_run \<Rightarrow> restore_row \<Rightarrow> bool" where
  "restore_agrees r w \<longleftrightarrow> rw_status w = rr_status r \<and> rw_stage w = rr_stage r \<and> rw_snapshot w = rr_snapshot r
     \<and> rw_files w = rr_files r \<and> rw_bytes w = rr_bytes r \<and> rw_duration w = rr_duration r
     \<and> from_null (rw_error w) = rr_error r \<and> from_null (rw_log w) = rr_log r
     \<and> rw_finished w = map_option secs (rr_finished r)"

lemma update_row_ids [simp]:
  "bw_id (update_backup_row r w) = bw_id w" "rw_id (update_restore_row r' w') = rw_id w'"
  by (simp_all add: update_backup_row_def update_restore_row_def)

interpretation backup_log: audit_log backup_create backup_update "table_lookup bw_id" br_id
  backup_same backup_agrees "table_wf bw_id"
proof (standard, goal_cases)
  case (1 s io r r' s')
  obtain r0 where r: "db_exec io = None" "db_last io = None" "r' = r0\<lparr>br_id := tb_seq s + 1\<rparr>"
    "s' = \<lparr>tb_rows = tb_rows s @ [insert_backup_row (tb_seq s + 1) r0], tb_seq = tb_seq s + 1\<rparr>"
    using 1(2) by (auto simp: backup_create_def Let_def split: option.splits)
  have "backup_same r' (insert_backup_row (tb_seq s + 1) r0)" "backup_agrees r' (insert_backup_row (tb_seq s + 1) r0)"
    by (simp_all add: r backup_same_def backup_agrees_def insert_backup_row_def boolToInt_def)
  then show ?case
    using table_append[OF 1(1) _ r(4)] 1(1) r(3) by (simp add: insert_backup_row_def table_wf_def)
next
  case (2 s io r e r' s')
  then consider "s' = s" "br_id r' = br_id r"
    | r0 where "br_id r' = br_id r" "s' = \<lparr>tb_rows = tb_rows s @ [insert_backup_row (tb_seq s + 1) r0], tb_seq = tb_seq s + 1\<rparr>"
    by (auto simp: backup_create_def Let_def split: option.splits if_splits)
  then show ?case
  proof cases
    case 1
    then show ?thesis using 2 by simp
  next
    case (2 r0)
    from table_append[OF \<open>table_wf bw_id s\<close> _ 2(2)] show ?thesis
      using 2(1) by (metis backup_row.select_convs(1) insert_backup_row_def)
  qed
next
  case (3 s io r s')
  then have s': "s' = s\<lparr>tb_rows := map (\<lambda>w. if bw_id w = br_id r then update_backup_row r w else w) (tb_rows s)\<rparr>"
    by (auto simp: backup_update_def split: option.splits)
  have "backup_agrees r (update_backup_row r w)" "backup_same r w \<Longrightarrow> backup_same r (update_backup_row r w)" for w
    by (simp_all add: backup_agrees_def backup_same_def update_backup_row_def boolToInt_def)
  then show ?case using table_update[OF 3(1) _ s'] by auto
next
  case (4 s io r e s')
  then show ?case by (auto simp: backup_update_def split: option.splits)
qed

interpretation restore_log: audit_log restore_create restore_update "table_lookup rw_id" rr_id
  restore_same restore_agrees "table_wf rw_id"
proof (standard, goal_cases)
  case (1 s io r r' s')
  then have r: "r' = r\<lparr>rr_id := tb_seq s + 1\<rparr>"
    "s' = \<lparr>tb_rows = tb_rows s @ [insert_restore_row (tb_seq s + 1) r], tb_seq = tb_seq s + 1\<rparr>"
    by (auto simp: restore_create_def Let_def split: option.splits)
  have "restore_same r' (insert_restore_row (tb_seq s + 1) r)" "restore_agrees r' (insert_restore_row (tb_seq s + 1) r)"
    by (simp_all add: r restore_same_def restore_agrees_def insert_restore_row_def)
  then show ?case
    using table_append[OF 1(1) _ r(2)] 1(1) r(1) by (simp add: insert_restore_row_def table_wf_def)
next
  case (2 s io r e r' s')
  then consider "s' = s" "r' = r"
    | "r' = r" "s' = \<lparr>tb_rows = tb_rows s @ [insert_restore_row (tb_seq s + 1) r], tb_seq = tb_seq s + 1\<rparr>"
    by (auto simp: restore_create_def Let_def split: option.splits if_splits)
  then show ?case
  proof cases
    case 1
    then show ?thesis using 2 by simp
  next
    case 22: 2
    from table_append[OF \<open>table_wf rw_id s\<close> _ 22(2)] show ?thesis
      using 22(1) by (metis restore_row.select_convs(1) insert_restore_row_def)
  qed
next
  case (3 s io r s')
  then have s': "s' = s\<lparr>tb_rows := map (\<lambda>w. if rw_id w = rr_id r then update_restore_row r w else w) (tb_rows s)\<rparr>"
    by (auto simp: restore_update_def split: option.splits)
  have "restore_agrees r (update_restore_row r w)" "restore_same r w \<Longrightarrow> restore_same r (update_restore_row r w)" for w
    by (simp_all add: restore_agrees_def restore_same_def update_restore_row_def)
  then show ?case using table_update[OF 3(1) _ s'] by auto
next
  case (4 s io r e s')
  then show ?case by (auto simp: restore_update_def split: option.splits)
qed

section \<open>What is read back\<close>

definition on_second :: "int \<Rightarrow> int" where
  "on_second t = secs t * nano"

text \<open>A row of the run with its outcome is read back as the run, with the times cut to whole seconds.\<close>

definition backup_reads :: "backup_run \<Rightarrow> backup_row \<Rightarrow> bool" where
  "backup_reads r w \<longleftrightarrow>
     scanBackupRun w = r\<lparr>br_started := on_second (br_started r), br_finished := map_option on_second (br_finished r)\<rparr>"

definition restore_reads :: "restore_run \<Rightarrow> restore_row \<Rightarrow> bool" where
  "restore_reads r w \<longleftrightarrow>
     scanRestoreRun w = r\<lparr>rr_started := on_second (rr_started r), rr_finished := map_option on_second (rr_finished r)\<rparr>"

lemma backup_row_reads: "backup_same r w \<Longrightarrow> backup_agrees r w \<Longrightarrow> backup_reads r w"
  by (cases r) (simp add: backup_reads_def backup_same_def backup_agrees_def scanBackupRun_def on_second_def[abs_def]
      option.map_comp comp_def)

lemma restore_row_reads: "restore_same r w \<Longrightarrow> restore_agrees r w \<Longrightarrow> restore_reads r w"
  by (cases r) (simp add: restore_reads_def restore_same_def restore_agrees_def scanRestoreRun_def on_second_def[abs_def]
      option.map_comp comp_def)

lemma backup_reads_sel:
  assumes "backup_reads r w"
  shows "bw_id w = br_id r" "bw_job w = br_job r" "bw_server w = br_server r" "bw_status w = br_status r"
    "bw_untracked w \<noteq> 0 \<longleftrightarrow> br_untracked r" "from_null (bw_snapshot w) = br_snapshot r" "from_null (bw_error w) = br_error r"
  using arg_cong[OF assms[unfolded backup_reads_def], of br_id] arg_cong[OF assms[unfolded backup_reads_def], of br_job]
    arg_cong[OF assms[unfolded backup_reads_def], of br_server] arg_cong[OF assms[unfolded backup_reads_def], of br_status]
    arg_cong[OF assms[unfolded backup_reads_def], of br_untracked] arg_cong[OF assms[unfolded backup_reads_def], of br_snapshot]
    arg_cong[OF assms[unfolded backup_reads_def], of br_error]
  by (simp_all add: scanBackupRun_def)

text \<open>
  C35. An audit record survives the database: after a successful \<open>CreateRun\<close>, reading the row of the
  new id gives back the run field by field, with the times cut to whole seconds, and so does the row
  of a restore run, whose empty texts are stored as NULL.
\<close>

theorem audit_roundtrip:
  assumes "table_wf bw_id tb" "backup_create io run tb = (None, run', tb')" "br_started run \<noteq> zero_time"
    and "table_wf rw_id tr" "restore_create io' rst tr = (None, rst', tr')"
  shows "map_option scanBackupRun (table_lookup bw_id tb' (br_id run')) =
           Some (run'\<lparr>br_started := on_second (br_started run), br_finished := map_option on_second (br_finished run)\<rparr>)
       \<and> map_option scanRestoreRun (table_lookup rw_id tr' (rr_id rst')) =
           Some (rst'\<lparr>rr_started := on_second (rr_started rst), rr_finished := map_option on_second (rr_finished rst)\<rparr>)"
proof -
  have r: "run' = run\<lparr>br_id := tb_seq tb + 1\<rparr>"
    "tb' = \<lparr>tb_rows = tb_rows tb @ [insert_backup_row (tb_seq tb + 1) run], tb_seq = tb_seq tb + 1\<rparr>"
    using assms(2,3) by (auto simp: backup_create_def Let_def split: option.splits)
  have q: "rst' = rst\<lparr>rr_id := tb_seq tr + 1\<rparr>"
    "tr' = \<lparr>tb_rows = tb_rows tr @ [insert_restore_row (tb_seq tr + 1) rst], tb_seq = tb_seq tr + 1\<rparr>"
    using assms(5) by (auto simp: restore_create_def Let_def split: option.splits)
  have "table_lookup bw_id tb' (br_id run') = Some (insert_backup_row (tb_seq tb + 1) run)"
    using table_append[OF assms(1) _ r(2)] r(1) by (simp add: insert_backup_row_def)
  moreover have "scanBackupRun (insert_backup_row (tb_seq tb + 1) run)
      = run'\<lparr>br_started := on_second (br_started run), br_finished := map_option on_second (br_finished run)\<rparr>"
    by (cases run) (simp add: r scanBackupRun_def insert_backup_row_def boolToInt_def on_second_def[abs_def] option.map_comp comp_def)
  moreover have "table_lookup rw_id tr' (rr_id rst') = Some (insert_restore_row (tb_seq tr + 1) rst)"
    using table_append[OF assms(4) _ q(2)] q(1) by (simp add: insert_restore_row_def)
  moreover have "scanRestoreRun (insert_restore_row (tb_seq tr + 1) rst)
      = rst'\<lparr>rr_started := on_second (rr_started rst), rr_finished := map_option on_second (rr_finished rst)\<rparr>"
    by (cases rst) (simp add: q scanRestoreRun_def insert_restore_row_def on_second_def[abs_def] option.map_comp comp_def)
  ultimately show ?thesis by simp
qed

definition example_run :: backup_run where
  "example_run = \<lparr>br_id = 0, br_job = ''web'', br_server = ''s1'', br_snapshot = [], br_status = ''running'',
     br_files_new = 0, br_files_changed = 0, br_files_unmodified = 0, br_data_added = 0, br_total_bytes = 0,
     br_duration = 0, br_error = [], br_log = [], br_started = 5 * nano + 7, br_finished = None, br_untracked = False\<rparr>"

definition example_restore :: restore_run where
  "example_restore = \<lparr>rr_id = 0, rr_job = ''web'', rr_asset = [], rr_snapshot = ''latest'', rr_source = ''s1'',
     rr_target = ''s2'', rr_target_path = [], rr_status = ''running'', rr_stage = [], rr_files = 0, rr_bytes = 0,
     rr_duration = 0, rr_error = [], rr_log = [], rr_started = 5 * nano, rr_finished = None\<rparr>"

theorem audit_roundtrip_witness:
  "\<exists>run tb'. backup_create (db_fine 0) example_run empty_table = (None, run, tb')
     \<and> map_option (\<lambda>w. br_started (scanBackupRun w)) (table_lookup bw_id tb' (br_id run)) = Some (5 * nano)"
proof -
  obtain run tb' where b: "backup_create (db_fine 0) example_run empty_table = (None, run, tb')"
    by (simp add: backup_create_def db_fine_def Let_def)
  obtain rst tr' where r: "restore_create (db_fine 0) example_restore empty_table = (None, rst, tr')"
    by (simp add: restore_create_def db_fine_def Let_def)
  have st: "br_started example_run \<noteq> zero_time" by (simp add: example_run_def zero_time_def nano_def)
  have "map_option scanBackupRun (table_lookup bw_id tb' (br_id run)) =
           Some (run\<lparr>br_started := on_second (br_started example_run),
                     br_finished := map_option on_second (br_finished example_run)\<rparr>)"
    using audit_roundtrip[OF empty_table_wf b st empty_table_wf r] by (rule conjunct1)
  then have "map_option (\<lambda>w. br_started (scanBackupRun w)) (table_lookup bw_id tb' (br_id run)) = Some (5 * nano)"
    by (auto simp: on_second_def secs_def example_run_def nano_def)
  with b show ?thesis by blast
qed

end
