(* ===== verification/Runner.thy ===== *)
theory Runner
  imports Script AuditRepo ServerModel
begin

text \<open>
  \<open>internal/backup/runner.go\<close> and \<open>parser.go\<close>: one backup run, from the audit row that must exist
  before any remote work to the row that carries its outcome, and the target resolution of
  \<open>internal/executor/target.go\<close>. The recorder is a pair of operations (\<open>None\<close> for a runner without a
  database); everything outside is an outcome: the log path, the database calls, the secret
  resolution, what the executor returns and writes, the clock. A run returns the scripts it had
  executed, so that "no remote work" is a statement about that list. \<open>parse_json\<close> is
  \<open>json.Unmarshal\<close> into the summary struct.
\<close>

section \<open>Targets\<close>

record target =
  t_name :: string
  t_local :: bool
  t_server :: "server option"
  t_jump :: "server option"

definition NewServerTarget :: "server \<Rightarrow> target" where
  "NewServerTarget srv = \<lparr>t_name = s_name srv, t_local = False, t_server = Some srv, t_jump = None\<rparr>"

definition NewLocalTarget :: target where
  "NewLocalTarget = \<lparr>t_name = ''local'', t_local = True, t_server = None, t_jump = None\<rparr>"

definition ResolveTarget :: "(string \<Rightarrow> 'b \<Rightarrow> server res \<times> 'b) option \<Rightarrow> string \<Rightarrow> 'b \<Rightarrow> target res \<times> 'b" where
  "ResolveTarget store serverName b =
     (if serverName = ''local'' \<or> serverName = [] then (Inr NewLocalTarget, b)
      else (case store of
              None \<Rightarrow> (Inl (errors_new (''serverStore is nil, cannot resolve '' @ go_quote serverName)), b)
            | Some get \<Rightarrow>
                (case get serverName b of
                   (Inl e, b1) \<Rightarrow> (Inl (wrap (''server '' @ go_quote serverName @ '' not found in inventory: '') e []), b1)
                 | (Inr srv, b1) \<Rightarrow> (Inr (NewServerTarget srv), b1))))"

record exec_result =
  er_success :: bool
  er_exit :: int
  er_duration :: rat
  er_error :: "go_error option"

section \<open>The restic summary\<close>

record restic_summary =
  rs_message_type :: string
  rs_files_new :: int
  rs_files_changed :: int
  rs_files_unmodified :: int
  rs_data_added :: int
  rs_total_bytes :: int
  rs_total_duration :: rat
  rs_snapshot_id :: string

text \<open>
  \<open>bufio.Scanner\<close> with a 1 MB buffer: lines without their newline, the empty last one dropped; a
  line that does not fit ends the scan.
\<close>

definition max_line_length :: nat where
  "max_line_length = 1024 * 1024"

definition scan_lines :: "string \<Rightarrow> string list" where
  "scan_lines out =
     (let ls = split_on (CHR 0x0A) out
      in takeWhile (\<lambda>l. length l < max_line_length) (if last ls = [] then butlast ls else ls))"

fun latest_summary :: "(string \<Rightarrow> restic_summary option) \<Rightarrow> restic_summary option \<Rightarrow> string list \<Rightarrow> restic_summary option" where
  "latest_summary parse_json latest [] = latest"
| "latest_summary parse_json latest (l # ls) =
     (let t = trim_space l
      in if \<not> has_prefix t ''{'' \<or> \<not> has_suffix t ''}'' then latest_summary parse_json latest ls
         else (case parse_json t of
                 Some s \<Rightarrow> latest_summary parse_json (if rs_message_type s = ''summary'' then Some s else latest) ls
               | None \<Rightarrow> latest_summary parse_json latest ls))"

definition ParseResticSummary :: "(string \<Rightarrow> restic_summary option) \<Rightarrow> string \<Rightarrow> restic_summary option" where
  "ParseResticSummary parse_json out = latest_summary parse_json None (scan_lines out)"

section \<open>A run\<close>

definition ErrUntracked :: sentinel where
  "ErrUntracked = ''backup completed but was not audited''"

type_synonym 's recorder =
  "(db_io \<Rightarrow> backup_run \<Rightarrow> 's \<Rightarrow> go_error option \<times> backup_run \<times> 's) \<times> (db_io \<Rightarrow> backup_run \<Rightarrow> 's \<Rightarrow> go_error option \<times> 's)"

record run_env =
  re_log_path :: string
  re_create :: db_io
  re_final :: db_io
  re_secrets :: "(string \<times> string) list \<Rightarrow> (string \<times> string) list res"
  re_exec :: "target \<Rightarrow> string \<Rightarrow> string \<Rightarrow> exec_result option \<times> go_error option \<times> string"
  re_start :: int
  re_since :: rat
  re_finished :: int

definition new_run :: "run_env \<Rightarrow> job \<Rightarrow> backup_run" where
  "new_run env j =
     \<lparr>br_id = 0, br_job = j_name j, br_server = j_server j, br_snapshot = [], br_status = ''running'',
      br_files_new = 0, br_files_changed = 0, br_files_unmodified = 0, br_data_added = 0, br_total_bytes = 0,
      br_duration = 0, br_error = [], br_log = re_log_path env, br_started = re_start env, br_finished = None,
      br_untracked = False\<rparr>"

definition beginRun :: "bool \<Rightarrow> 's recorder option \<Rightarrow> run_env \<Rightarrow> job \<Rightarrow> 's \<Rightarrow> backup_run res \<times> 's" where
  "beginRun allowUntracked repo env j s =
     (case repo of
        None \<Rightarrow> (Inr (new_run env j), s)
      | Some (create, update) \<Rightarrow>
          (case create (re_create env) (new_run env j) s of
             (None, run, s1) \<Rightarrow> (Inr run, s1)
           | (Some e, run, s1) \<Rightarrow>
               (if \<not> allowUntracked
                then (Inl (wrap (''refusing to run backup '' @ go_quote (j_name j)
                        @ '': its audit record could not be created in SQLite ('') e
                        ''); fix the database or re-run with --allow-untracked to proceed and mark the run untracked''), s1)
                else (Inr (run\<lparr>br_untracked := True\<rparr>), s1))))"

definition final_status :: "bool \<Rightarrow> go_error option \<Rightarrow> string" where
  "final_status success err =
     (if success then ''success'' else if is_cancellation err then ''canceled'' else ''failed'')"

definition final_message :: "bool \<Rightarrow> go_error option \<Rightarrow> string \<Rightarrow> string" where
  "final_message success err old =
     (if success then [] else (case err of None \<Rightarrow> old | Some e \<Rightarrow> err_text e))"

definition untracked_error :: "backup_run \<Rightarrow> go_error" where
  "untracked_error run =
     wrap (''backup run '' @ go_quote (br_job run) @ '' completed but its audit record could not be persisted: '')
       (sentinel_error ErrUntracked) []"

definition finalizeRun ::
    "'s recorder option \<Rightarrow> run_env \<Rightarrow> backup_run \<Rightarrow> bool \<Rightarrow> rat \<Rightarrow> go_error option \<Rightarrow> 's
     \<Rightarrow> backup_run \<times> go_error option \<times> 's" where
  "finalizeRun repo env run0 success duration err s =
     (let run = run0\<lparr>br_finished := Some (re_finished env),
                     br_duration := (if br_duration run0 \<le> 0 then duration else br_duration run0),
                     br_status := final_status success err,
                     br_error := final_message success err (br_error run0)\<rparr>
      in case repo of
           None \<Rightarrow> (run, err, s)
         | Some (create, update) \<Rightarrow>
             (case record_outcome create update br_id (re_final env) run s of
                (None, run1, s1) \<Rightarrow> (run1, err, s1)
              | (Some pe, run1, s1) \<Rightarrow>
                  (run1\<lparr>br_untracked := True\<rparr>,
                   if \<not> br_untracked run1 \<and> (err = None \<or> is_cancellation err) then Some (untracked_error run1) else err,
                   s1)))"

definition apply_summary :: "restic_summary option \<Rightarrow> backup_run \<Rightarrow> backup_run" where
  "apply_summary so run =
     (case so of
        None \<Rightarrow> run
      | Some m \<Rightarrow> run\<lparr>br_snapshot := rs_snapshot_id m, br_files_new := rs_files_new m,
                     br_files_changed := rs_files_changed m, br_files_unmodified := rs_files_unmodified m,
                     br_data_added := rs_data_added m, br_total_bytes := rs_total_bytes m,
                     br_duration := (if rs_total_duration m > 0 then rs_total_duration m else br_duration run)\<rparr>)"

text \<open>The scripts handed to an executor: target, task name and script.\<close>

type_synonym executed = "(target \<times> string \<times> string) list"

definition executeRun ::
    "(nat \<Rightarrow> bool) \<Rightarrow> (string \<Rightarrow> restic_summary option) \<Rightarrow> 's recorder option \<Rightarrow> run_env \<Rightarrow> job \<Rightarrow> target \<Rightarrow> backup_run \<Rightarrow> 's
     \<Rightarrow> backup_run \<times> go_error option \<times> executed \<times> 's" where
  "executeRun uc parse_json repo env j0 tgt run s =
     (case re_secrets env (j_env j0) of
        Inl e \<Rightarrow> (case finalizeRun repo env run False 0 (Some (wrap ''failed to resolve secrets: '' e [])) s of
                    (r, oe, s1) \<Rightarrow> (r, oe, [], s1))
      | Inr env' \<Rightarrow>
          (let j = j0\<lparr>j_env := env'\<rparr>
           in case BuildBackupScript uc j of
                Inl e \<Rightarrow> (case finalizeRun repo env run False 0 (Some e) s of (r, oe, s1) \<Rightarrow> (r, oe, [], s1))
              | Inr script \<Rightarrow>
                  (case re_exec env tgt (''backup-'' @ j_name j) script of
                     (execRes, execErr, out) \<Rightarrow>
                       (let success = (execErr = None \<and> (case execRes of None \<Rightarrow> False | Some x \<Rightarrow> er_success x));
                            finalErr = (if execErr \<noteq> None then execErr
                                        else (case execRes of None \<Rightarrow> None | Some x \<Rightarrow> er_error x));
                            duration = (case execRes of None \<Rightarrow> re_since env | Some x \<Rightarrow> er_duration x)
                        in case finalizeRun repo env (apply_summary (ParseResticSummary parse_json out) run)
                                  success duration finalErr s of
                             (r, oe, s1) \<Rightarrow> (r, oe, [(tgt, ''backup-'' @ j_name j, script)], s1)))))"

record ('a, 'b, 's) run_state =
  st_assets :: 'a
  st_servers :: 'b
  st_db :: 's

record ('a, 'b, 's) runner =
  rn_allow_untracked :: bool
  rn_repo :: "'s recorder option"
  rn_assets :: "(string \<Rightarrow> 'a \<Rightarrow> asset res \<times> 'a) option"
  rn_servers :: "(string \<Rightarrow> 'b \<Rightarrow> server res \<times> 'b) option"

definition runner_resolve_paths ::
    "('a, 'b, 's) runner \<Rightarrow> job \<Rightarrow> 'a \<Rightarrow> job res \<times> 'a" where
  "runner_resolve_paths rn j a =
     (if j_assets j \<noteq> [] \<and> rn_assets rn \<noteq> None
      then (case ResolveAllPaths (rn_assets rn) j a of
              (Inl e, a1) \<Rightarrow> (Inl e, a1)
            | (Inr ps, a1) \<Rightarrow> (Inr (j\<lparr>j_paths := ps\<rparr>), a1))
      else (Inr j, a))"

definition runner_run ::
    "(nat \<Rightarrow> bool) \<Rightarrow> (string \<Rightarrow> restic_summary option) \<Rightarrow> ('a, 'b, 's) runner \<Rightarrow> run_env \<Rightarrow> job \<Rightarrow> ('a, 'b, 's) run_state
     \<Rightarrow> backup_run option \<times> go_error option \<times> executed \<times> ('a, 'b, 's) run_state" where
  "runner_run uc parse_json rn env j0 st =
     (case runner_resolve_paths rn j0 (st_assets st) of
        (Inl e, a1) \<Rightarrow> (None, Some e, [], st\<lparr>st_assets := a1\<rparr>)
      | (Inr j, a1) \<Rightarrow>
     (case job_validate uc j of
        Some e \<Rightarrow> (None, Some e, [], st\<lparr>st_assets := a1\<rparr>)
      | None \<Rightarrow>
     (case ResolveTarget (rn_servers rn) (j_server j) (st_servers st) of
        (Inl e, b1) \<Rightarrow> (None, Some e, [], st\<lparr>st_assets := a1, st_servers := b1\<rparr>)
      | (Inr tgt, b1) \<Rightarrow>
     (case beginRun (rn_allow_untracked rn) (rn_repo rn) env j (st_db st) of
        (Inl e, s1) \<Rightarrow> (None, Some e, [], \<lparr>st_assets = a1, st_servers = b1, st_db = s1\<rparr>)
      | (Inr run, s1) \<Rightarrow>
          (case executeRun uc parse_json (rn_repo rn) env j tgt run s1 of
             (r, oe, ex, s2) \<Rightarrow> (Some r, oe, ex, \<lparr>st_assets = a1, st_servers = b1, st_db = s2\<rparr>))))))"

section \<open>Listing snapshots\<close>

record snapshot =
  sn_id :: string
  sn_short_id :: string
  sn_time :: int
  sn_paths :: "string list"
  sn_hostname :: string
  sn_tags :: "string list"

definition fill_short_id :: "snapshot \<Rightarrow> snapshot" where
  "fill_short_id sn = (if sn_short_id sn = [] \<and> length (sn_id sn) \<ge> 8 then sn\<lparr>sn_short_id := take 8 (sn_id sn)\<rparr> else sn)"

text \<open>From the first bracket to the last one; \<open>parse\<close> is \<open>json.Unmarshal\<close> of a snapshot array.\<close>

definition ParseSnapshotsJSON :: "(string \<Rightarrow> snapshot list res) \<Rightarrow> string \<Rightarrow> snapshot list res" where
  "ParseSnapshotsJSON parse raw =
     (let trimmed = trim_space raw
      in if trimmed = [] \<or> trimmed = ''null'' then Inr []
         else (let from_open = dropWhile (\<lambda>c. c \<noteq> CHR ''['') trimmed
               in if from_open = [] then Inr []
                  else (let body = rev (dropWhile (\<lambda>c. c \<noteq> CHR '']'') (rev from_open))
                        in if body = [] then Inl (errors_new ''invalid snapshots JSON output'')
                           else (case parse body of
                                   Inl e \<Rightarrow> Inl (wrap ''failed to unmarshal snapshots JSON: '' e [])
                                 | Inr sns \<Rightarrow> Inr (map fill_short_id sns)))))"

definition ListSnapshots ::
    "(string \<Rightarrow> snapshot list res) \<Rightarrow> (string \<Rightarrow> 'b \<Rightarrow> server res \<times> 'b) option \<Rightarrow> run_env \<Rightarrow> job \<Rightarrow> 'b
     \<Rightarrow> snapshot list res \<times> executed \<times> 'b" where
  "ListSnapshots parse servers env j b =
     (case ResolveTarget servers (j_server j) b of
        (Inl e, b1) \<Rightarrow> (Inl e, [], b1)
      | (Inr tgt, b1) \<Rightarrow>
          (case re_secrets env (j_env j) of
             Inl e \<Rightarrow> (Inl (wrap ''failed to resolve secrets: '' e []), [], b1)
           | Inr env' \<Rightarrow>
               (let script = BuildSnapshotsScript (j\<lparr>j_env := env'\<rparr>);
                    ex = [(tgt, ''snapshots-'' @ j_name j, script)]
                in case re_exec env tgt (''snapshots-'' @ j_name j) script of
                  (res, Some e, out) \<Rightarrow> (Inl (wrap ''failed to query snapshots: '' e []), ex, b1)
                | (Some x, None, out) \<Rightarrow>
                    (if \<not> er_success x
                     then (case er_error x of
                             Some e \<Rightarrow> (Inl (wrap ''snapshots command failed: '' e []), ex, b1)
                           | None \<Rightarrow> (Inl (errors_new (''snapshots command failed: command exited with code '' @ show_int (er_exit x))), ex, b1))
                     else (ParseSnapshotsJSON parse out, ex, b1))
                | (None, None, out) \<Rightarrow> (Inl (errors_new ''runtime error: invalid memory address or nil pointer dereference''), ex, b1))))"

section \<open>The audit contract\<close>

abbreviation sqlite_log :: "backup_row table recorder option" where
  "sqlite_log \<equiv> Some (backup_create, backup_update)"

text \<open>What a runner may rely on about the run it works on: when it has an id, the row of that id is its own.\<close>

definition tracked_by :: "backup_row table \<Rightarrow> backup_run \<Rightarrow> bool" where
  "tracked_by s run \<longleftrightarrow> table_wf bw_id s \<and> (0 < br_id run \<longrightarrow> (\<exists>w. table_lookup bw_id s (br_id run) = Some w \<and> backup_same run w))
     \<and> (br_untracked run \<or> 0 < br_id run)"

definition rows_kept :: "backup_row table \<Rightarrow> int \<Rightarrow> backup_row table \<Rightarrow> bool" where
  "rows_kept s i s' \<longleftrightarrow> (\<forall>k. table_lookup bw_id s k \<noteq> None \<longrightarrow> k \<noteq> i \<longrightarrow> table_lookup bw_id s' k = table_lookup bw_id s k)"

definition db_fails :: "db_io \<Rightarrow> bool" where
  "db_fails io \<longleftrightarrow> db_exec io \<noteq> None \<or> db_last io \<noteq> None"

definition others_kept :: "backup_row table \<Rightarrow> int \<Rightarrow> backup_row table \<Rightarrow> bool" where
  "others_kept s i s' \<longleftrightarrow> (\<forall>k. k \<noteq> i \<longrightarrow> table_lookup bw_id s' k = table_lookup bw_id s k)"

lemma backup_create_untracked:
  assumes "backup_create io run s = (oe, run', s')"
  shows "br_untracked run' = br_untracked run" "br_status run' = br_status run" "br_finished run' = br_finished run"
    "br_job run' = br_job run" "br_server run' = br_server run" "oe \<noteq> None \<Longrightarrow> db_fails io"
  using assms by (auto simp: backup_create_def db_fails_def Let_def split: option.splits if_splits)

lemma backup_create_error:
  assumes "db_exec io \<noteq> None \<or> db_last io \<noteq> None"
  shows "\<exists>e r s'. backup_create io run s = (Some e, r, s')"
  using assms by (cases "db_exec io"; cases "db_last io") (simp_all add: backup_create_def Let_def)

lemma record_outcome_untracked:
  assumes "record_outcome backup_create backup_update br_id io run s = (oe, run', s')"
  shows "br_untracked run' = br_untracked run" "br_status run' = br_status run" "br_finished run' = br_finished run"
    "br_job run' = br_job run" "br_server run' = br_server run" "oe \<noteq> None \<Longrightarrow> db_fails io"
  using assms backup_create_untracked[of io run s]
  by (auto simp: record_outcome_def backup_update_def db_fails_def split: if_splits prod.splits option.splits)

lemma beginRun_ok:
  assumes "table_wf bw_id s" "beginRun allow sqlite_log env j s = (Inr run, s1)"
  shows "tracked_by s1 run \<and> (br_untracked run \<longrightarrow> allow \<and> db_fails (re_create env)) \<and> (\<forall>i. rows_kept s i s1)
       \<and> (0 < br_id run \<longrightarrow> table_lookup bw_id s (br_id run) = None \<and> others_kept s (br_id run) s1)
       \<and> br_job run = j_name j \<and> br_server run = j_server j"
proof -
  obtain oe r s' where c: "backup_create (re_create env) (new_run env j) s = (oe, r, s')"
    by (cases "backup_create (re_create env) (new_run env j) s") auto
  have nu: "br_untracked r = False" "br_id (new_run env j) = 0" "br_job r = j_name j" "br_server r = j_server j"
    using backup_create_untracked[OF c] by (simp_all add: new_run_def)
  show ?thesis
  proof (cases oe)
    case None
    then have e: "run = r" "s1 = s'" using assms(2) c by (simp_all add: beginRun_def)
    have a: "table_wf bw_id s'" "0 < br_id r" "table_lookup bw_id s (br_id r) = None"
      "\<exists>w. table_lookup bw_id s' (br_id r) = Some w \<and> backup_same r w"
      "\<And>i. i \<noteq> br_id r \<Longrightarrow> table_lookup bw_id s' i = table_lookup bw_id s i"
      using backup_log.create_ok[OF assms(1) c[unfolded None]] by auto
    have "rows_kept s i s'" for i unfolding rows_kept_def using a(3,5) by metis
    then show ?thesis using a nu e by (simp add: tracked_by_def others_kept_def)
  next
    case (Some e)
    then have e: "run = r\<lparr>br_untracked := True\<rparr>" "s1 = s'" "allow"
      using assms(2) c by (auto simp: beginRun_def split: if_splits)
    have a: "table_wf bw_id s'" "br_id r = 0" "\<forall>i. table_lookup bw_id s i \<noteq> None \<longrightarrow> table_lookup bw_id s' i = table_lookup bw_id s i"
      using backup_log.create_fails[OF assms(1) c[unfolded Some]] nu(2) by auto
    have "rows_kept s i s'" for i unfolding rows_kept_def using a(3) by blast
    then show ?thesis using a(1,2) e nu backup_create_untracked(6)[OF c] Some by (simp add: tracked_by_def)
  qed
qed

lemma finalizeRun_ok:
  assumes "tracked_by s run0" "finalizeRun sqlite_log env run0 success duration err s = (r, oe, s1)"
  shows "table_wf bw_id s1 \<and> rows_kept s (br_id run0) s1
    \<and> br_status r = final_status success err \<and> br_finished r = Some (re_finished env)
    \<and> br_job r = br_job run0 \<and> br_server r = br_server run0
    \<and> ((\<exists>w. table_lookup bw_id s1 (br_id r) = Some w \<and> backup_reads r w) \<or> (br_untracked r \<and> db_fails (re_final env)))
    \<and> (br_untracked run0 \<longrightarrow> br_untracked r \<and> oe = err)
    \<and> (\<not> br_untracked run0 \<longrightarrow> br_id r = br_id run0 \<and>
         (if br_untracked r
          then db_fails (re_final env)
             \<and> oe = (if err = None \<or> is_cancellation err then Some (untracked_error (r\<lparr>br_untracked := False\<rparr>)) else err)
          else oe = err \<and> others_kept s (br_id run0) s1
             \<and> (\<exists>w. table_lookup bw_id s1 (br_id r) = Some w \<and> backup_reads r w)))"
proof -
  define run where "run = run0\<lparr>br_finished := Some (re_finished env),
                     br_duration := (if br_duration run0 \<le> 0 then duration else br_duration run0),
                     br_status := final_status success err,
                     br_error := final_message success err (br_error run0)\<rparr>"
  have flags: "br_status run = final_status success err" "br_finished run = Some (re_finished env)"
    "br_untracked run = br_untracked run0" "br_id run = br_id run0" "br_job run = br_job run0" "br_server run = br_server run0"
    by (simp_all add: run_def)
  obtain pe run1 s' where ro: "record_outcome backup_create backup_update br_id (re_final env) run s = (pe, run1, s')"
    by (cases "record_outcome backup_create backup_update br_id (re_final env) run s") auto
  note unchanged = record_outcome_untracked[OF ro]
  have "backup_same run w = backup_same run0 w" for w by (simp add: backup_same_def run_def)
  then have wf: "table_wf bw_id s" "0 < br_id run \<Longrightarrow> \<exists>w. table_lookup bw_id s (br_id run) = Some w \<and> backup_same run w"
    and nz: "\<not> br_untracked run0 \<Longrightarrow> 0 < br_id run0"
    using assms(1) flags(4) by (auto simp: tracked_by_def)
  have idk: "br_id run1 = br_id run0" if "\<not> br_untracked run0"
    using ro nz[OF that] flags(4) by (auto simp: record_outcome_def split: prod.splits)
  show ?thesis
  proof (cases pe)
    case None
    have r: "r = run1" "oe = err" "s1 = s'"
      using assms(2) ro None unfolding finalizeRun_def Let_def run_def[symmetric] by simp_all
    note rec = backup_log.record_outcome_recorded[OF wf(1) ro[unfolded None] wf(2)]
    have "\<exists>w. table_lookup bw_id s1 (br_id r) = Some w \<and> backup_reads r w" using rec r backup_row_reads by blast
    moreover have "others_kept s (br_id run0) s1" if "\<not> br_untracked run0"
      using rec r nz[OF that] flags(4) by (simp add: others_kept_def)
    moreover have "rows_kept s (br_id run0) s1" "table_wf bw_id s1" using rec r flags(4) by (simp_all add: rows_kept_def)
    ultimately show ?thesis using r unchanged flags idk by auto
  next
    case (Some e)
    have r: "r = run1\<lparr>br_untracked := True\<rparr>" "s1 = s'"
      "oe = (if \<not> br_untracked run1 \<and> (err = None \<or> is_cancellation err) then Some (untracked_error run1) else err)"
      using assms(2) ro Some unfolding finalizeRun_def Let_def run_def[symmetric] by (simp_all split: if_splits)
    show ?thesis using backup_log.record_outcome_fails[OF wf(1) ro[unfolded Some]] r unchanged flags idk Some
      by (simp add: rows_kept_def untracked_error_def)
  qed
qed

lemma final_status_in: "final_status success err \<in> {''success'', ''canceled'', ''failed''}"
  by (simp add: final_status_def)

lemma apply_summary_sel [simp]:
  "br_id (apply_summary so run) = br_id run" "br_untracked (apply_summary so run) = br_untracked run"
  "br_job (apply_summary so run) = br_job run" "br_server (apply_summary so run) = br_server run"
  "tracked_by s (apply_summary so run) = tracked_by s run"
  by (simp_all add: apply_summary_def tracked_by_def backup_same_def split: option.splits)

text \<open>Every branch of an execution ends in \<open>finalizeRun\<close> on the record it was given, up to the summary.\<close>

lemma executeRun_finalizes:
  assumes "executeRun uc pj repo env j tgt run s = (r, oe, ex, s1)"
  shows "\<exists>so success duration err. finalizeRun repo env (apply_summary so run) success duration err s = (r, oe, s1)"
proof -
  have none: "finalizeRun repo env (apply_summary None run) = finalizeRun repo env run"
    by (simp add: apply_summary_def)
  show ?thesis
  proof (cases "re_secrets env (j_env j)")
    case (Inl e)
    then have "finalizeRun repo env (apply_summary None run) False 0 (Some (wrap ''failed to resolve secrets: '' e [])) s = (r, oe, s1)"
      using assms none by (auto simp: executeRun_def split: prod.splits)
    then show ?thesis by blast
  next
    case (Inr env')
    show ?thesis
    proof (cases "BuildBackupScript uc (j\<lparr>j_env := env'\<rparr>)")
      case (Inl e)
      then have "finalizeRun repo env (apply_summary None run) False 0 (Some e) s = (r, oe, s1)"
        using assms Inr none by (auto simp: executeRun_def Let_def split: prod.splits)
      then show ?thesis by blast
    next
      case script: (Inr script)
      obtain res ee out where x: "re_exec env tgt (''backup-'' @ j_name j) script = (res, ee, out)"
        by (cases "re_exec env tgt (''backup-'' @ j_name j) script") auto
      then show ?thesis using assms Inr script by (fastforce simp: executeRun_def Let_def split: prod.splits)
    qed
  qed
qed

lemma runner_run_cases:
  assumes "runner_run uc pj rn env j st = (res, oe, ex, st')"
  obtains (refused) e where "res = None" "oe = Some e" "ex = []" "st_db st' = st_db st"
    | (unrecorded) j' e where "res = None" "oe = Some e" "ex = []"
        "beginRun (rn_allow_untracked rn) (rn_repo rn) env j' (st_db st) = (Inl e, st_db st')"
    | (ran) j' tgt run s1 r a1 where "res = Some r" "runner_resolve_paths rn j (st_assets st) = (Inr j', a1)"
        "beginRun (rn_allow_untracked rn) (rn_repo rn) env j' (st_db st) = (Inr run, s1)"
        "executeRun uc pj (rn_repo rn) env j' tgt run s1 = (r, oe, ex, st_db st')"
proof -
  obtain rj a1 where p: "runner_resolve_paths rn j (st_assets st) = (rj, a1)" by (cases "runner_resolve_paths rn j (st_assets st)")
  show ?thesis
  proof (cases rj)
    case (Inl e)
    then show ?thesis using assms p refused by (auto simp: runner_run_def)
  next
    case (Inr j')
    note j' = Inr
    obtain rt b1 where t: "ResolveTarget (rn_servers rn) (j_server j') (st_servers st) = (rt, b1)"
      by (cases "ResolveTarget (rn_servers rn) (j_server j') (st_servers st)")
    obtain rb s1 where b: "beginRun (rn_allow_untracked rn) (rn_repo rn) env j' (st_db st) = (rb, s1)"
      by (cases "beginRun (rn_allow_untracked rn) (rn_repo rn) env j' (st_db st)")
    show ?thesis
    proof (cases "job_validate uc j'")
      case (Some e)
      have "res = None" "oe = Some e" "ex = []" "st' = st\<lparr>st_assets := a1\<rparr>"
        using assms p j' Some by (simp_all add: runner_run_def)
      then show ?thesis using refused by simp
    next
      case None
      note v = None
      show ?thesis
      proof (cases rt)
        case (Inl e)
        then show ?thesis using assms p j' v t refused by (auto simp: runner_run_def)
      next
        case (Inr tgt)
        note tgt = Inr
        show ?thesis
        proof (cases rb)
          case (Inl e)
          then show ?thesis using assms p j' v t tgt b unrecorded by (auto simp: runner_run_def)
        next
          case (Inr run)
          obtain r oe' ex' s2 where "executeRun uc pj (rn_repo rn) env j' tgt run s1 = (r, oe', ex', s2)"
            by (cases "executeRun uc pj (rn_repo rn) env j' tgt run s1")
          then show ?thesis using assms p j' v t tgt b Inr ran by (auto simp: runner_run_def)
        qed
      qed
    qed
  qed
qed

section \<open>Properties of a run\<close>

text \<open>
  Auditing fails closed: without \<open>--allow-untracked\<close>, a run whose row could not be created in
  SQLite is refused with an error before any script reaches an executor, and no row changes.
\<close>

theorem run_fail_closed:
  assumes "table_wf bw_id (st_db st)" "rn_repo rn = sqlite_log" "\<not> rn_allow_untracked rn"
    and "db_exec (re_create env) \<noteq> None \<or> db_last (re_create env) \<noteq> None"
  shows "\<exists>e st'. runner_run uc pj rn env j st = (None, Some e, [], st') \<and> rows_kept (st_db st) 0 (st_db st')"
proof -
  obtain res oe ex st' where r: "runner_run uc pj rn env j st = (res, oe, ex, st')"
    by (cases "runner_run uc pj rn env j st") auto
  have refuse: "\<exists>e. rb = Inl e \<and> rows_kept (st_db st) 0 s1"
    if "beginRun (rn_allow_untracked rn) (rn_repo rn) env j' (st_db st) = (rb, s1)" for j' rb s1
  proof -
    obtain e r' s' where c: "backup_create (re_create env) (new_run env j') (st_db st) = (Some e, r', s')"
      using backup_create_error[OF assms(4)] by blast
    then have "rows_kept (st_db st) 0 s'"
      using backup_log.create_fails[OF assms(1) c] by (simp add: rows_kept_def)
    then show ?thesis using that c assms(2,3) by (auto simp: beginRun_def)
  qed
  from r show ?thesis
  proof (cases rule: runner_run_cases)
    case (refused e)
    then show ?thesis using r by (auto simp: rows_kept_def)
  next
    case (unrecorded j' e)
    then show ?thesis using refuse[OF unrecorded(4)] r by auto
  next
    case (ran j' tgt run s1 r' a1)
    then show ?thesis using refuse[OF ran(3)] by simp
  qed
qed

lemma resolved_job: "runner_resolve_paths rn j a = (Inr j', a') \<Longrightarrow> j_name j' = j_name j \<and> j_server j' = j_server j"
  by (auto simp: runner_resolve_paths_def split: if_splits sum.splits prod.splits)

text \<open>What a run that returned has left: its row, or the mark that it has none.\<close>

definition run_recorded :: "bool \<Rightarrow> run_env \<Rightarrow> backup_run \<Rightarrow> go_error option \<Rightarrow> backup_row table \<Rightarrow> backup_row table \<Rightarrow> bool" where
  "run_recorded allow env run oe s s' \<longleftrightarrow>
     (if br_untracked run
      then (allow \<and> db_fails (re_create env) \<or> db_fails (re_final env) \<and> oe \<noteq> None)
         \<and> (db_fails (re_final env) \<or> (\<exists>w. table_lookup bw_id s' (br_id run) = Some w \<and> backup_reads run w))
      else table_lookup bw_id s (br_id run) = None \<and> others_kept s (br_id run) s'
         \<and> (\<exists>w. table_lookup bw_id s' (br_id run) = Some w \<and> backup_reads run w))"

lemma runner_run_audited:
  assumes "table_wf bw_id (st_db st)" "rn_repo rn = sqlite_log"
    and "runner_run uc pj rn env j st = (Some run, oe, ex, st')"
  shows "table_wf bw_id (st_db st')" "br_finished run = Some (re_finished env)"
    and "\<exists>success err. br_status run = final_status success err \<and> (oe = None \<longrightarrow> err = None)"
    and "\<And>i w. table_lookup bw_id (st_db st) i = Some w \<Longrightarrow> table_lookup bw_id (st_db st') i = Some w"
    and "run_recorded (rn_allow_untracked rn) env run oe (st_db st) (st_db st')"
    and "br_job run = j_name j" "br_server run = j_server j"
proof -
  obtain a1 j' tgt run0 s1 r where ran: "Some run = Some r" "runner_resolve_paths rn j (st_assets st) = (Inr j', a1)"
    "beginRun (rn_allow_untracked rn) (rn_repo rn) env j' (st_db st) = (Inr run0, s1)"
    "executeRun uc pj (rn_repo rn) env j' tgt run0 s1 = (r, oe, ex, st_db st')"
    using assms(3) by (cases rule: runner_run_cases) auto
  then have r: "r = run" by simp
  have b: "tracked_by s1 run0" "br_untracked run0 \<Longrightarrow> rn_allow_untracked rn \<and> db_fails (re_create env)"
    "\<And>i. rows_kept (st_db st) i s1"
    "0 < br_id run0 \<Longrightarrow> table_lookup bw_id (st_db st) (br_id run0) = None \<and> others_kept (st_db st) (br_id run0) s1"
    "br_job run0 = j_name j" "br_server run0 = j_server j"
    using beginRun_ok[OF assms(1) ran(3)[unfolded assms(2)]] resolved_job[OF ran(2)] by auto
  obtain so success duration err where f:
    "finalizeRun sqlite_log env (apply_summary so run0) success duration err s1 = (run, oe, st_db st')"
    using executeRun_finalizes[OF ran(4)] r assms(2) by auto
  note fin = finalizeRun_ok[OF _ f, unfolded apply_summary_sel, OF b(1)]
  show "table_wf bw_id (st_db st')" "br_finished run = Some (re_finished env)"
    "br_job run = j_name j" "br_server run = j_server j" using fin b(5,6) by simp_all
  have "oe = None \<longrightarrow> err = None" using fin by (auto split: if_splits)
  then show "\<exists>success err. br_status run = final_status success err \<and> (oe = None \<longrightarrow> err = None)" using fin by blast
  show "table_lookup bw_id (st_db st') i = Some w" if w: "table_lookup bw_id (st_db st) i = Some w" for i w
  proof -
    have "0 < i" using table_lookup_pos[OF assms(1) w] .
    then have "i \<noteq> br_id run0" using b(4) w by auto
    moreover have "table_lookup bw_id s1 i = Some w" using b(3)[of "i + 1"] w by (simp add: rows_kept_def)
    ultimately show ?thesis using fin by (simp add: rows_kept_def)
  qed
  show "run_recorded (rn_allow_untracked rn) env run oe (st_db st) (st_db st')"
  proof (cases "br_untracked run0")
    case True
    then show ?thesis using fin b(2) by (simp add: run_recorded_def) blast
  next
    case False
    then have "0 < br_id run0" using b(1) by (simp add: tracked_by_def)
    moreover have "db_fails (re_final env) \<longrightarrow> oe \<noteq> None" if "br_untracked run"
      using False that fin by (auto split: if_splits)
    ultimately show ?thesis using fin False b(4) by (auto simp: run_recorded_def others_kept_def split: if_splits)
  qed
qed

text \<open>
  C34. What a returned run says is in the database. The run ended (success, failed or canceled, with its finish time) and
  every earlier row is untouched. When the run is not marked untracked there is exactly one new row, and read back it is
  the returned run, with the times cut to whole seconds: id, job, server, status, snapshot, counts, error, log and flag.
  A run is marked untracked only because its row could not be created and that was allowed, or because its outcome could
  not be written, and then it has an error; if the last write worked after all, its row still reads back as the run.
\<close>

theorem run_audited:
  assumes "table_wf bw_id (st_db st)" "rn_repo rn = sqlite_log"
    and "runner_run uc pj rn env j st = (Some run, oe, ex, st')"
  shows "table_wf bw_id (st_db st') \<and> br_status run \<in> {''success'', ''canceled'', ''failed''}
    \<and> br_finished run = Some (re_finished env) \<and> br_job run = j_name j \<and> br_server run = j_server j
    \<and> (\<forall>i w. table_lookup bw_id (st_db st) i = Some w \<longrightarrow> table_lookup bw_id (st_db st') i = Some w)
    \<and> (if br_untracked run
       then (rn_allow_untracked rn \<and> db_fails (re_create env) \<or> db_fails (re_final env) \<and> oe \<noteq> None)
          \<and> (db_fails (re_final env) \<or> (\<exists>w. table_lookup bw_id (st_db st') (br_id run) = Some w
                \<and> scanBackupRun w = run\<lparr>br_started := on_second (br_started run), br_finished := map_option on_second (br_finished run)\<rparr>))
       else table_lookup bw_id (st_db st) (br_id run) = None
          \<and> (\<forall>k. k \<noteq> br_id run \<longrightarrow> table_lookup bw_id (st_db st') k = table_lookup bw_id (st_db st) k)
          \<and> (\<exists>w. table_lookup bw_id (st_db st') (br_id run) = Some w
                \<and> scanBackupRun w = run\<lparr>br_started := on_second (br_started run), br_finished := map_option on_second (br_finished run)\<rparr>))"
proof -
  note core = runner_run_audited[OF assms]
  have "br_status run \<in> {''success'', ''canceled'', ''failed''}" using core(3) final_status_in by metis
  then show ?thesis using core unfolding run_recorded_def others_kept_def backup_reads_def by blast
qed

text \<open>A concrete run: a local job, an executor that succeeds, and a database that answers \<open>io\<close>.\<close>

definition example_env :: "db_io \<Rightarrow> run_env" where
  "example_env io = \<lparr>re_log_path = ''/log'', re_create = io, re_final = db_fine 9, re_secrets = Inr,
     re_exec = (\<lambda>t n s. (Some \<lparr>er_success = True, er_exit = 0, er_duration = 1, er_error = None\<rparr>, None, [])),
     re_start = 5 * nano, re_since = 1, re_finished = 7 * nano\<rparr>"

definition example_runner :: "(unit, unit, backup_row table) runner" where
  "example_runner = \<lparr>rn_allow_untracked = False, rn_repo = sqlite_log, rn_assets = None, rn_servers = None\<rparr>"

definition example_state :: "(unit, unit, backup_row table) run_state" where
  "example_state = \<lparr>st_assets = (), st_servers = (), st_db = empty_table\<rparr>"

definition local_job :: job where
  "local_job = example_job\<lparr>j_server := ''local'', j_assets := []\<rparr>"

abbreviation run_example :: "db_io \<Rightarrow> backup_run option \<times> go_error option \<times> executed \<times> (unit, unit, backup_row table) run_state" where
  "run_example io \<equiv> runner_run (\<lambda>c. False) (\<lambda>t. None) example_runner (example_env io) local_job example_state"

lemma local_job_valid: "job_validate (\<lambda>_. False) local_job = None"
  by code_simp

lemma example_runs:
  "case run_example (db_fine 3) of (r, oe, ex, st) \<Rightarrow> map_option br_status r = Some ''success'' \<and> map_option br_untracked r = Some False \<and> oe = None \<and> length ex = 1"
proof -
  obtain s where s: "BuildBackupScript (\<lambda>_. False) local_job = Inr s"
    using local_job_valid by (simp add: BuildBackupScript_def)
  have scan: "ParseResticSummary (\<lambda>t. None) [] = None"
    by (simp add: ParseResticSummary_def scan_lines_def)
  have same: "local_job\<lparr>j_env := j_env local_job\<rparr> = local_job" by simp
  have srv: "j_server local_job = ''local''" "j_assets local_job = []" by (simp_all add: local_job_def)
  show ?thesis
    using local_job_valid s scan same
    by (simp add: runner_run_def runner_resolve_paths_def example_runner_def example_env_def example_state_def srv
        ResolveTarget_def beginRun_def executeRun_def finalizeRun_def apply_summary_def new_run_def Let_def
        backup_create_def backup_update_def record_outcome_def db_fine_def empty_table_def final_status_def)
qed

lemma example_parts [simp]:
  "st_db example_state = empty_table" "rn_repo example_runner = sqlite_log" "rn_allow_untracked example_runner = False"
  "re_create (example_env io) = io"
  by (simp_all add: example_state_def example_runner_def example_env_def)

theorem run_audited_witness:
  "\<exists>run ex st'. run_example (db_fine 3) = (Some run, None, ex, st') \<and> length ex = 1
     \<and> (\<exists>w. table_lookup bw_id (st_db st') (br_id run) = Some w \<and> br_status (scanBackupRun w) = ''success''
          \<and> br_finished (scanBackupRun w) = Some (7 * nano))"
proof -
  obtain run ex st' where r: "run_example (db_fine 3) = (Some run, None, ex, st')" "length ex = 1" "\<not> br_untracked run"
    "br_status run = ''success''"
    using example_runs by (auto split: prod.splits)
  have wf: "table_wf bw_id (st_db example_state)" by simp
  have f: "re_finished (example_env (db_fine 3)) = 7 * nano" "on_second (7 * nano) = 7 * nano"
    by (simp_all add: example_env_def on_second_def secs_def nano_def)
  obtain w where w: "table_lookup bw_id (st_db st') (br_id run) = Some w"
    "scanBackupRun w = run\<lparr>br_started := on_second (br_started run), br_finished := map_option on_second (br_finished run)\<rparr>"
    "br_finished run = Some (re_finished (example_env (db_fine 3)))"
    using run_audited[OF wf example_parts(2) r(1)] r(3) by auto
  then show ?thesis using r f by auto
qed

theorem run_fail_closed_witness:
  "\<exists>e st'. run_example ((db_fine 3)\<lparr>db_exec := Some (errors_new ''disk full'')\<rparr>) = (None, Some e, [], st')"
proof -
  have "\<exists>e st'. run_example ((db_fine 3)\<lparr>db_exec := Some (errors_new ''disk full'')\<rparr>) = (None, Some e, [], st')
      \<and> rows_kept (st_db example_state) 0 (st_db st')"
    by (rule run_fail_closed) simp_all
  then show ?thesis by blast
qed

end
