(* ===== verification/Pool.thy ===== *)
theory Pool
  imports Runner
begin

text \<open>
  \<open>internal/backup/pool.go\<close>: a batch of jobs run by one goroutine each behind a semaphore. The
  goroutines are a list of phases, moved one at a time by \<open>pool_do\<close>; \<open>reach\<close> collects the states of
  every interleaving. What \<open>Runner.Run\<close> returns for a job, and the clock, are functions of the index.
\<close>

section \<open>The result of a batch\<close>

record pool_result =
  pr_runs :: "backup_run option list"
  pr_duration :: rat
  pr_success :: nat
  pr_failure :: nat
  pr_untracked :: nat
  pr_dry :: bool

definition empty_result :: pool_result where
  "empty_result = \<lparr>pr_runs = [], pr_duration = 0, pr_success = 0, pr_failure = 0, pr_untracked = 0, pr_dry = False\<rparr>"

text \<open>A record that no runner wrote: the fields that the pool sets, the others zero.\<close>

definition pool_run :: "job \<Rightarrow> string \<Rightarrow> string \<Rightarrow> string \<Rightarrow> rat \<Rightarrow> int \<Rightarrow> backup_run" where
  "pool_run j status snapshot msg duration now =
     \<lparr>br_id = 0, br_job = j_name j, br_server = j_server j, br_snapshot = snapshot, br_status = status,
      br_files_new = 0, br_files_changed = 0, br_files_unmodified = 0, br_data_added = 0, br_total_bytes = 0,
      br_duration = duration, br_error = msg, br_log = [], br_started = now, br_finished = None,
      br_untracked = False\<rparr>"

definition dry_step :: "(nat \<Rightarrow> bool) \<Rightarrow> int \<Rightarrow> pool_result \<Rightarrow> job \<Rightarrow> pool_result" where
  "dry_step uc now res j =
     (case BuildBackupScript uc j of
        Inl e \<Rightarrow> res\<lparr>pr_runs := pr_runs res @ [Some (pool_run j ''failed'' [] (err_text e) 0 now)],
                    pr_failure := pr_failure res + 1\<rparr>
      | Inr script \<Rightarrow> res\<lparr>pr_runs := pr_runs res @ [Some (pool_run j ''dry-run'' ''dry-run'' [] (1 / 100) now)],
                    pr_success := pr_success res + 1\<rparr>)"

text \<open>The record of a job and the counters, under the lock.\<close>

definition recorded_run :: "int \<Rightarrow> job \<Rightarrow> backup_run option \<Rightarrow> go_error option \<Rightarrow> backup_run" where
  "recorded_run now j ro err =
     (case ro of Some r \<Rightarrow> r
               | None \<Rightarrow> pool_run j ''failed'' [] (case err of None \<Rightarrow> [] | Some e \<Rightarrow> err_text e) 0 now)"

definition pool_tally :: "backup_run \<Rightarrow> go_error option \<Rightarrow> pool_result \<Rightarrow> pool_result" where
  "pool_tally r err res =
     (if br_untracked r
      then (let res1 = res\<lparr>pr_untracked := pr_untracked res + 1\<rparr>
            in if br_status r = ''success'' then res1\<lparr>pr_success := pr_success res1 + 1\<rparr>
               else res1\<lparr>pr_failure := pr_failure res1 + 1\<rparr>)
      else if err = None \<and> br_status r = ''success'' then res\<lparr>pr_success := pr_success res + 1\<rparr>
      else res\<lparr>pr_failure := pr_failure res + 1\<rparr>)"

definition RunStatusLabel :: "backup_run \<Rightarrow> string" where
  "RunStatusLabel r = to_upper (br_status r) @ (if br_untracked r then '' (UNTRACKED)'' else [])"

section \<open>The goroutines\<close>

datatype phase = Waiting | Running | Recorded | Returned

record pool_state =
  ps_phase :: "phase list"
  ps_res :: pool_result

record batch =
  bt_jobs :: "job list"
  bt_max :: int
  bt_out :: "nat \<Rightarrow> backup_run option \<times> go_error option"
  bt_now :: "nat \<Rightarrow> int"

definition pool_limit :: "int \<Rightarrow> nat \<Rightarrow> nat" where
  "pool_limit maxParallel n = (if maxParallel \<le> 0 \<or> int n < maxParallel then n else nat maxParallel)"

text \<open>The slots of the semaphore in use.\<close>

definition holding :: "pool_state \<Rightarrow> nat" where
  "holding s = length (filter (\<lambda>p. p = Running \<or> p = Recorded) (ps_phase s))"

definition pool_start :: "batch \<Rightarrow> pool_state" where
  "pool_start b = \<lparr>ps_phase = replicate (length (bt_jobs b)) Waiting,
     ps_res = empty_result\<lparr>pr_runs := replicate (length (bt_jobs b)) None\<rparr>\<rparr>"

text \<open>
  One move of goroutine \<open>i\<close>: take a slot, record the outcome of its run under the lock, give the slot
  back. \<open>None\<close> when it is blocked or has returned.
\<close>

definition pool_do :: "batch \<Rightarrow> nat \<Rightarrow> pool_state \<Rightarrow> pool_state option" where
  "pool_do b i s =
     (if length (ps_phase s) \<le> i then None
      else case ps_phase s ! i of
             Waiting \<Rightarrow>
               (if holding s < pool_limit (bt_max b) (length (bt_jobs b))
                then Some (s\<lparr>ps_phase := (ps_phase s)[i := Running]\<rparr>) else None)
           | Running \<Rightarrow>
               (let r = recorded_run (bt_now b i) (bt_jobs b ! i) (fst (bt_out b i)) (snd (bt_out b i));
                    res = (ps_res s)\<lparr>pr_runs := (pr_runs (ps_res s))[i := Some r]\<rparr>
                in Some \<lparr>ps_phase = (ps_phase s)[i := Recorded], ps_res = pool_tally r (snd (bt_out b i)) res\<rparr>)
           | Recorded \<Rightarrow> Some (s\<lparr>ps_phase := (ps_phase s)[i := Returned]\<rparr>)
           | Returned \<Rightarrow> None)"

inductive reach :: "batch \<Rightarrow> pool_state \<Rightarrow> bool" for b where
  start: "reach b (pool_start b)"
| move: "reach b s \<Longrightarrow> pool_do b i s = Some s' \<Longrightarrow> reach b s'"

definition pool_done :: "pool_state \<Rightarrow> bool" where
  "pool_done s \<longleftrightarrow> list_all (\<lambda>p. p = Returned) (ps_phase s)"

text \<open>\<open>RunAll\<close> under a schedule: the goroutine that moves next; \<open>None\<close> while a goroutine has not returned.\<close>

fun pool_run_schedule :: "batch \<Rightarrow> nat list \<Rightarrow> pool_state \<Rightarrow> pool_state" where
  "pool_run_schedule b [] s = s"
| "pool_run_schedule b (i # is) s = (case pool_do b i s of None \<Rightarrow> pool_run_schedule b is s | Some s' \<Rightarrow> pool_run_schedule b is s')"

definition RunAll :: "(nat \<Rightarrow> bool) \<Rightarrow> batch \<Rightarrow> bool \<Rightarrow> rat \<Rightarrow> nat list \<Rightarrow> pool_result option" where
  "RunAll uc b dryRun elapsed schedule =
     (if bt_jobs b = [] then Some empty_result
      else if dryRun
      then Some ((foldl (dry_step uc (bt_now b 0)) (empty_result\<lparr>pr_dry := True\<rparr>) (bt_jobs b))\<lparr>pr_duration := elapsed\<rparr>)
      else (let s = pool_run_schedule b schedule (pool_start b)
            in if pool_done s then Some ((ps_res s)\<lparr>pr_duration := elapsed\<rparr>) else None))"

section \<open>What every interleaving ends in\<close>

definition run_at :: "batch \<Rightarrow> nat \<Rightarrow> backup_run" where
  "run_at b i = recorded_run (bt_now b i) (bt_jobs b ! i) (fst (bt_out b i)) (snd (bt_out b i))"

text \<open>A job counts as a success by its status; a tracked one must have come without an error, too.\<close>

definition good_at :: "batch \<Rightarrow> nat \<Rightarrow> bool" where
  "good_at b i \<longleftrightarrow> br_status (run_at b i) = ''success'' \<and> (br_untracked (run_at b i) \<or> snd (bt_out b i) = None)"

definition told :: "pool_state \<Rightarrow> nat set" where
  "told s = {i. i < length (ps_phase s) \<and> (ps_phase s ! i = Recorded \<or> ps_phase s ! i = Returned)}"

definition pool_inv :: "batch \<Rightarrow> pool_state \<Rightarrow> bool" where
  "pool_inv b s \<longleftrightarrow> length (ps_phase s) = length (bt_jobs b)
     \<and> holding s \<le> pool_limit (bt_max b) (length (bt_jobs b))
     \<and> pr_runs (ps_res s) = map (\<lambda>i. if i \<in> told s then Some (run_at b i) else None) [0..<length (bt_jobs b)]
     \<and> pr_success (ps_res s) = card {i \<in> told s. good_at b i}
     \<and> pr_failure (ps_res s) = card {i \<in> told s. \<not> good_at b i}
     \<and> pr_untracked (ps_res s) = card {i \<in> told s. br_untracked (run_at b i)}
     \<and> pr_dry (ps_res s) = False \<and> pr_duration (ps_res s) = 0"

lemma told_finite [simp]: "finite (told s)"
  by (simp add: told_def)

lemma told_upd:
  "i < length (ps_phase s) \<Longrightarrow> told (s\<lparr>ps_phase := (ps_phase s)[i := p]\<rparr>)
     = (if p = Recorded \<or> p = Returned then insert i (told s) else told s - {i})"
  by (auto simp: told_def nth_list_update)

lemma filter_upd_length:
  assumes "i < length xs"
  shows "length (filter P (xs[i := x])) + (if P (xs ! i) then 1 else 0) = length (filter P xs) + (if P x then 1 else 0)"
  using assms
proof (induction xs arbitrary: i)
  case (Cons y ys)
  then show ?case by (cases i) auto
qed simp

lemma holding_upd:
  assumes "i < length (ps_phase s)"
  shows "holding (s\<lparr>ps_phase := (ps_phase s)[i := p]\<rparr>) + (if ps_phase s ! i = Running \<or> ps_phase s ! i = Recorded then 1 else 0)
       = holding s + (if p = Running \<or> p = Recorded then 1 else 0)"
  using filter_upd_length[OF assms, of "\<lambda>p. p = Running \<or> p = Recorded" p] by (simp add: holding_def)

lemma pool_start_inv: "pool_inv b (pool_start b)"
proof -
  have "told (pool_start b) = {}" by (auto simp: told_def pool_start_def)
  then show ?thesis
    by (simp add: pool_inv_def pool_start_def empty_result_def holding_def map_replicate_const)
qed


lemma runs_upd:
  assumes "i < n" "runs = map f [0..<n]" "g i = x" "\<And>k. k \<noteq> i \<Longrightarrow> g k = f k"
  shows "runs[i := x] = map g [0..<n]"
  using assms by (auto intro!: nth_equalityI simp: nth_list_update)

lemma card_insert_filter:
  assumes "finite A" "i \<notin> A"
  shows "card {k \<in> insert i A. P k} = card {k \<in> A. P k} + (if P i then 1 else 0)"
proof -
  have "{k \<in> insert i A. P k} = (if P i then insert i {k \<in> A. P k} else {k \<in> A. P k})" by auto
  then show ?thesis using assms by simp
qed

lemma pool_tally_sel [simp]:
  "pr_runs (pool_tally r e res) = pr_runs res" "pr_dry (pool_tally r e res) = pr_dry res"
  "pr_duration (pool_tally r e res) = pr_duration res"
  "pr_success (pool_tally r e res) = pr_success res + (if br_status r = ''success'' \<and> (br_untracked r \<or> e = None) then 1 else 0)"
  "pr_failure (pool_tally r e res) = pr_failure res + (if br_status r = ''success'' \<and> (br_untracked r \<or> e = None) then 0 else 1)"
  "pr_untracked (pool_tally r e res) = pr_untracked res + (if br_untracked r then 1 else 0)"
  by (auto simp: pool_tally_def Let_def)

lemma pool_do_inv:
  assumes inv: "pool_inv b s" and step: "pool_do b i s = Some s'"
  shows "pool_inv b s'"
proof -
  have i: "i < length (ps_phase s)" using step by (auto simp: pool_do_def split: if_splits)
  have len: "length (ps_phase s) = length (bt_jobs b)" using inv by (simp add: pool_inv_def)
  note h = holding_upd[OF i] and t = told_upd[OF i]
  show ?thesis
  proof (cases "ps_phase s ! i")
    case Waiting
    then have s': "s' = s\<lparr>ps_phase := (ps_phase s)[i := Running]\<rparr>"
      and lim: "holding s < pool_limit (bt_max b) (length (bt_jobs b))"
      using step i by (auto simp: pool_do_def split: if_splits)
    have "told s' = told s" using t[of Running] s' Waiting by (auto simp: told_def)
    moreover have "holding s' = holding s + 1" using h[of Running] s' Waiting by simp
    ultimately show ?thesis using inv lim by (simp add: pool_inv_def s')
  next
    case Running
    define r where "r = run_at b i"
    define res where "res = (ps_res s)\<lparr>pr_runs := (pr_runs (ps_res s))[i := Some r]\<rparr>"
    have s': "s' = \<lparr>ps_phase = (ps_phase s)[i := Recorded], ps_res = pool_tally r (snd (bt_out b i)) res\<rparr>"
      using step i Running by (simp add: pool_do_def Let_def r_def run_at_def res_def)
    have new: "i \<notin> told s" using Running by (simp add: told_def)
    have told': "told s' = insert i (told s)" using t[of Recorded] s' by (simp add: told_def)
    have hold': "holding s' = holding s" using h[of Recorded] s' Running by (simp add: holding_def)
    have good: "(br_status r = ''success'' \<and> (br_untracked r \<or> snd (bt_out b i) = None)) = good_at b i"
      by (simp add: good_at_def r_def)
    have runs: "pr_runs (ps_res s') = (pr_runs (ps_res s))[i := Some r]" by (simp add: s' res_def)
    have "pr_runs (ps_res s') = map (\<lambda>i. if i \<in> told s' then Some (run_at b i) else None) [0..<length (bt_jobs b)]"
      unfolding runs
      by (rule runs_upd[where f = "\<lambda>i. if i \<in> told s then Some (run_at b i) else None"])
        (use inv i len told' in \<open>auto simp: pool_inv_def r_def\<close>)
    moreover have "pr_success (ps_res s') = card {k \<in> told s'. good_at b k}"
      "pr_failure (ps_res s') = card {k \<in> told s'. \<not> good_at b k}"
      "pr_untracked (ps_res s') = card {k \<in> told s'. br_untracked (run_at b k)}"
      using inv unfolding told' card_insert_filter[OF told_finite new]
      by (simp_all add: pool_inv_def s' res_def good r_def[symmetric])
    moreover have "length (ps_phase s') = length (bt_jobs b)" "pr_dry (ps_res s') = False" "pr_duration (ps_res s') = 0"
      using inv by (simp_all add: s' res_def pool_inv_def)
    ultimately show ?thesis using inv hold' by (simp add: pool_inv_def)
  next
    case Recorded
    then have s': "s' = s\<lparr>ps_phase := (ps_phase s)[i := Returned]\<rparr>"
      using step i by (simp add: pool_do_def)
    have "told s' = told s" using t[of Returned] s' Recorded i by (auto simp: told_def)
    moreover have "holding s' \<le> holding s" using h[of Returned] s' Recorded by simp
    ultimately show ?thesis using inv by (simp add: pool_inv_def s')
  next
    case Returned
    then show ?thesis using step i by (simp add: pool_do_def)
  qed
qed

lemma reach_inv: "reach b s \<Longrightarrow> pool_inv b s"
  by (induction rule: reach.induct) (auto intro: pool_start_inv pool_do_inv)

lemma pool_run_schedule_reach: "reach b s \<Longrightarrow> reach b (pool_run_schedule b is s)"
  by (induction "is" arbitrary: s) (auto intro: reach.move split: option.split)

text \<open>The moves left.\<close>

definition phase_left :: "phase \<Rightarrow> nat" where
  "phase_left p = (case p of Waiting \<Rightarrow> 3 | Running \<Rightarrow> 2 | Recorded \<Rightarrow> 1 | Returned \<Rightarrow> 0)"

definition moves_left :: "pool_state \<Rightarrow> nat" where
  "moves_left s = sum_list (map phase_left (ps_phase s))"

lemma pool_do_moves:
  assumes "pool_do b i s = Some s'"
  shows "moves_left s = Suc (moves_left s')"
proof -
  have i: "i < length (ps_phase s)" using assms by (auto simp: pool_do_def split: if_splits)
  obtain p where p: "ps_phase s' = (ps_phase s)[i := p]" "phase_left (ps_phase s ! i) = Suc (phase_left p)"
    using assms i by (auto simp: pool_do_def phase_left_def Let_def split: phase.splits if_splits)
  show ?thesis using sum_list_upd[OF i, of phase_left p] p by (simp add: moves_left_def)
qed

lemma pool_done_moves: "pool_done s \<longleftrightarrow> moves_left s = 0"
proof -
  have "phase_left p = 0 \<longleftrightarrow> p = Returned" for p by (cases p) (simp_all add: phase_left_def)
  then show ?thesis by (simp add: pool_done_def moves_left_def list_all_iff)
qed

text \<open>A slot is free when nobody holds one, so some goroutine can always move.\<close>

lemma pool_progress:
  assumes "reach b s" "\<not> pool_done s"
  shows "\<exists>i s'. pool_do b i s = Some s'"
proof -
  obtain i where i: "i < length (ps_phase s)" "ps_phase s ! i \<noteq> Returned"
    using assms(2) by (auto simp: pool_done_def list_all_length)
  have len: "length (ps_phase s) = length (bt_jobs b)" using reach_inv[OF assms(1)] by (simp add: pool_inv_def)
  show ?thesis
  proof (cases "\<exists>k < length (ps_phase s). ps_phase s ! k = Running \<or> ps_phase s ! k = Recorded")
    case True
    then show ?thesis by (metis (no_types, lifting) linorder_not_le option.distinct(1) option.exhaust phase.simps(14,15) pool_do_def)
  next
    case False
    then have "filter (\<lambda>p. p = Running \<or> p = Recorded) (ps_phase s) = []"
      by (metis (mono_tags, lifting) filter_False in_set_conv_nth)
    then have "holding s = 0" by (simp add: holding_def)
    moreover have "0 < pool_limit (bt_max b) (length (bt_jobs b))" using i(1) len by (auto simp: pool_limit_def)
    moreover have "ps_phase s ! i = Waiting" using False i by (cases "ps_phase s ! i") auto
    ultimately show ?thesis using i(1) by (intro exI[of _ i]) (auto simp: pool_do_def)
  qed
qed


lemma moves_left_start: "moves_left (pool_start b) = 3 * length (bt_jobs b)"
  by (simp add: moves_left_def pool_start_def phase_left_def sum_list_replicate)

lemma pool_done_told: "pool_done s \<Longrightarrow> told s = {i. i < length (ps_phase s)}"
  by (auto simp: pool_done_def told_def list_all_length)

lemma dry_fold_sums:
  "pr_success (foldl (dry_step uc now) res js) + pr_failure (foldl (dry_step uc now) res js)
     = pr_success res + pr_failure res + length js
   \<and> length (pr_runs (foldl (dry_step uc now) res js)) = length (pr_runs res) + length js"
  by (induction js arbitrary: res) (auto simp: dry_step_def split: sum.split)

section \<open>Properties of the pool\<close>

text \<open>
  C39. The result of a batch does not depend on the schedule: whenever all goroutines have returned,
  slot \<open>i\<close> holds the record of job \<open>i\<close> and every counter is the number of jobs it stands for, each job
  being counted once as a success or a failure.
\<close>

theorem run_all_schedule_independent:
  assumes "RunAll uc b False elapsed sched = Some res" "bt_jobs b \<noteq> []"
  shows "res = \<lparr>pr_runs = map (\<lambda>i. Some (run_at b i)) [0..<length (bt_jobs b)], pr_duration = elapsed,
             pr_success = card {i. i < length (bt_jobs b) \<and> good_at b i},
             pr_failure = length (bt_jobs b) - card {i. i < length (bt_jobs b) \<and> good_at b i},
             pr_untracked = card {i. i < length (bt_jobs b) \<and> br_untracked (run_at b i)}, pr_dry = False\<rparr>"
proof -
  define s where "s = pool_run_schedule b sched (pool_start b)"
  have fin: "pool_done s" and res: "res = (ps_res s)\<lparr>pr_duration := elapsed\<rparr>"
    using assms by (auto simp: RunAll_def Let_def s_def split: if_splits)
  have "reach b s" unfolding s_def by (rule pool_run_schedule_reach[OF reach.start])
  note inv = reach_inv[OF this]
  define n where "n = length (bt_jobs b)"
  have t: "told s = {i. i < n}" using pool_done_told[OF fin] inv by (simp add: pool_inv_def n_def)
  have runs: "pr_runs (ps_res s) = map (\<lambda>i. Some (run_at b i)) [0..<n]"
    using inv t by (simp add: pool_inv_def n_def)
  have "{i. i < n} = {i. i < n \<and> good_at b i} \<union> {i. i < n \<and> \<not> good_at b i}" by auto
  then have "n = card ({i. i < n \<and> good_at b i} \<union> {i. i < n \<and> \<not> good_at b i})" by (metis card_Collect_less_nat)
  then have "n = card {i. i < n \<and> good_at b i} + card {i. i < n \<and> \<not> good_at b i}"
    by (subst (asm) card_Un_disjoint) auto
  then show ?thesis using inv t runs res by (simp add: pool_inv_def n_def)
qed

text \<open>Every sequence of moves, and schedules that never stop naming a goroutine.\<close>

definition pool_move :: "batch \<Rightarrow> pool_state \<Rightarrow> pool_state \<Rightarrow> bool" where
  "pool_move b s s' \<longleftrightarrow> (\<exists>i. pool_do b i s = Some s')"

definition fair :: "batch \<Rightarrow> (nat \<Rightarrow> nat) \<Rightarrow> bool" where
  "fair b sched \<longleftrightarrow> (\<forall>i < length (bt_jobs b). \<forall>m. \<exists>k \<ge> m. sched k = i)"

lemma reach_moves: "(pool_move b ^^ n) s s' \<Longrightarrow> reach b s \<Longrightarrow> reach b s' \<and> n + moves_left s' = moves_left s"
proof (induction n arbitrary: s')
  case (Suc n)
  then obtain t where "(pool_move b ^^ n) s t" "pool_move b t s'" by auto
  then obtain i where t: "(pool_move b ^^ n) s t" "pool_do b i t = Some s'" unfolding pool_move_def by blast
  show ?case using Suc.IH[OF t(1) Suc.prems(2)] reach.move[of b t i s'] pool_do_moves[of b i t s'] t(2) by simp
qed simp

lemma moves_left_le: "reach b s \<Longrightarrow> moves_left s \<le> 3 * length (bt_jobs b)"
  by (induction rule: reach.induct) (auto simp: moves_left_start dest: pool_do_moves)

lemma pool_done_stuck: "pool_done s \<Longrightarrow> pool_do b i s = None"
  by (auto simp: pool_done_def list_all_length pool_do_def)

lemma pool_done_schedule: "pool_done s \<Longrightarrow> pool_run_schedule b is s = s"
  by (induction "is") (simp_all add: pool_done_stuck)

lemma schedule_append: "pool_run_schedule b (xs @ ys) s = pool_run_schedule b ys (pool_run_schedule b xs s)"
  by (induction xs arbitrary: s) (auto split: option.split)

lemma schedule_idle: "(\<forall>i\<in>set is. pool_do b i s = None) \<Longrightarrow> pool_run_schedule b is s = s"
  by (induction "is") auto

lemma fair_finishes:
  assumes "reach b s" "fair b sched"
  shows "\<exists>n \<ge> m. pool_done (pool_run_schedule b (map sched [m..<n]) s)"
  using assms(1)
proof (induction "moves_left s" arbitrary: s m)
  case 0
  then show ?case by (auto simp: pool_done_moves intro!: exI[of _ m])
next
  case (Suc l)
  then obtain i s1 where i: "pool_do b i s = Some s1" using pool_progress[of b s] by (auto simp: pool_done_moves)
  have "i < length (bt_jobs b)" using i reach_inv[OF Suc(3)] by (auto simp: pool_do_def pool_inv_def split: if_splits)
  then obtain k0 where "m \<le> k0" "sched k0 = i" using assms(2) unfolding fair_def by blast
  then have ex: "\<exists>k. m \<le> k \<and> pool_do b (sched k) s \<noteq> None" using i by auto
  define k where "k = (LEAST k. m \<le> k \<and> pool_do b (sched k) s \<noteq> None)"
  have k: "m \<le> k" "pool_do b (sched k) s \<noteq> None" using LeastI_ex[OF ex] unfolding k_def by auto
  have before: "pool_do b (sched j) s = None" if "m \<le> j" "j < k" for j
    using not_less_Least[of j "\<lambda>k. m \<le> k \<and> pool_do b (sched k) s \<noteq> None"] that unfolding k_def by blast
  obtain s' where s': "pool_do b (sched k) s = Some s'" using k(2) by blast
  have l: "l = moves_left s'" using pool_do_moves[OF s'] Suc(2) by simp
  obtain n where n: "n \<ge> Suc k" "pool_done (pool_run_schedule b (map sched [Suc k..<n]) s')"
    using Suc(1)[OF l reach.move[OF Suc(3) s']] by blast
  have "[m..<n] = [m..<k] @ k # [Suc k..<n]"
    using k(1) n(1) upt_add_eq_append[of m k "n - k"] upt_conv_Cons[of k n] by simp
  moreover have "pool_run_schedule b (map sched [m..<k]) s = s" using before by (intro schedule_idle) auto
  ultimately have "pool_done (pool_run_schedule b (map sched [m..<n]) s)"
    using n(2) s' by (simp add: schedule_append)
  then show ?case using n(1) k(1) by (intro exI[of _ n]) auto
qed

text \<open>
  C40. The pool never runs more jobs at once than its limit. It never deadlocks: as long as a goroutine has not returned
  some goroutine can move. Every interleaving ends: no sequence of moves from a reachable state is longer than three
  moves for each job, a sequence that cannot go on has led every goroutine to its return, and under every schedule that
  keeps naming each goroutine all have returned from some point on. A run of a job is one move: the statement presumes
  that each call of \<open>Runner.Run\<close> returns.
\<close>

theorem pool_bounded_and_live:
  assumes "reach b s"
  shows "holding s \<le> pool_limit (bt_max b) (length (bt_jobs b)) \<and> (0 < bt_max b \<longrightarrow> int (holding s) \<le> bt_max b)
       \<and> (\<not> pool_done s \<longrightarrow> (\<exists>s'. pool_move b s s'))
       \<and> (\<forall>n s'. (pool_move b ^^ n) s s' \<longrightarrow>
            n \<le> 3 * length (bt_jobs b) \<and> ((\<nexists>s''. pool_move b s' s'') \<longrightarrow> pool_done s'))
       \<and> (\<forall>sched. fair b sched \<longrightarrow> (\<exists>n. \<forall>m \<ge> n. pool_done (pool_run_schedule b (map sched [0..<m]) s)))"
proof -
  have h: "holding s \<le> pool_limit (bt_max b) (length (bt_jobs b))" using reach_inv[OF assms] by (simp add: pool_inv_def)
  have "int (holding s) \<le> bt_max b" if "0 < bt_max b" using h that by (auto simp: pool_limit_def split: if_splits)
  moreover have "\<exists>s'. pool_move b s s'" if "reach b s" "\<not> pool_done s" for s
    using pool_progress[OF that] by (auto simp: pool_move_def)
  moreover have "n \<le> 3 * length (bt_jobs b) \<and> reach b s'" if "(pool_move b ^^ n) s s'" for n s'
    using reach_moves[OF that assms] moves_left_le[OF assms] by simp
  moreover have "\<exists>n. \<forall>m \<ge> n. pool_done (pool_run_schedule b (map sched [0..<m]) s)" if f: "fair b sched" for sched
  proof -
    obtain n where n: "pool_done (pool_run_schedule b (map sched [0..<n]) s)" using fair_finishes[OF assms f, of 0] by blast
    have "pool_done (pool_run_schedule b (map sched [0..<m]) s)" if "n \<le> m" for m
    proof -
      have "[0..<m] = [0..<n] @ [n..<m]" using that by (metis le0 upt_add_eq_append le_Suc_ex)
      then show ?thesis using n by (simp add: schedule_append pool_done_schedule)
    qed
    then show ?thesis by blast
  qed
  ultimately show ?thesis using h assms by blast
qed

definition example_batch :: batch where
  "example_batch = \<lparr>bt_jobs = [local_job, example_job], bt_max = 1,
     bt_out = (\<lambda>i. if i = 0 then (Some (example_run\<lparr>br_status := ''success''\<rparr>), None) else (None, Some (errors_new ''boom''))),
     bt_now = (\<lambda>i. 0)\<rparr>"

theorem run_all_schedule_independent_witness:
  "\<exists>res. RunAll (\<lambda>_. False) example_batch False 1 [1, 0, 1, 1, 0, 0, 0] = Some res
     \<and> pr_success res = 1 \<and> pr_failure res = 1"
proof -
  have "pool_done (pool_run_schedule example_batch [1, 0, 1, 1, 0, 0, 0] (pool_start example_batch))" by code_simp
  then obtain res where r: "RunAll (\<lambda>_. False) example_batch False 1 [1, 0, 1, 1, 0, 0, 0] = Some res"
    by (simp add: RunAll_def Let_def example_batch_def)
  have ne: "bt_jobs example_batch \<noteq> []" by (simp add: example_batch_def)
  have g: "good_at example_batch 0" "\<not> good_at example_batch 1" by code_simp+
  have l: "length (bt_jobs example_batch) = 2" by (simp add: example_batch_def)
  have "{i. i < length (bt_jobs example_batch) \<and> good_at example_batch i} = {0}"
    unfolding l using g by (auto simp: less_2_cases_iff)
  then show ?thesis using r run_all_schedule_independent[OF r ne] l by simp
qed

text \<open>The second job holds the only slot; the round-robin schedule ends the batch from there.\<close>

theorem pool_bounded_and_live_witness:
  "holding (pool_run_schedule example_batch [1] (pool_start example_batch)) = 1
 \<and> (\<exists>n. pool_done (pool_run_schedule example_batch (map (\<lambda>k. k mod 2) [0..<n])
        (pool_run_schedule example_batch [1] (pool_start example_batch))))"
proof -
  let ?s = "pool_run_schedule example_batch [1] (pool_start example_batch)"
  have r: "reach example_batch ?s" by (rule pool_run_schedule_reach[OF reach.start])
  have f: "fair example_batch (\<lambda>k. k mod 2)"
    unfolding fair_def
  proof (intro allI impI)
    fix i m assume "i < length (bt_jobs example_batch)"
    then have "i < 2" by (simp add: example_batch_def)
    then show "\<exists>k\<ge>m. k mod 2 = i" by (intro exI[of _ "2 * m + i"]) auto
  qed
  have "holding ?s = 1" by code_simp
  then show ?thesis using pool_bounded_and_live[OF r] f by blast
qed

end
