(* ===== verification/Cli.thy ===== *)
theory Cli
  imports Pool NotifyModel "HOL-Library.Log_Nat"
begin

text \<open>
  The helpers that the commands share: \<open>internal/cliutil/parallel.go\<close> (the \<open>--parallel\<close> value) and
  \<open>internal/format/bytes.go\<close> (byte counts as text), with the rounding of \<open>float64\<close> written out.
\<close>

section \<open>Parallelism\<close>

definition DefaultParallel :: int where
  "DefaultParallel = 5"

definition Unlimited :: int where
  "Unlimited = - 1"

text \<open>The second component says whether the deprecation notice was written.\<close>

definition ParseParallelism :: "string \<Rightarrow> bool \<Rightarrow> bool \<Rightarrow> int res \<times> bool" where
  "ParseParallelism spec changed has_warn =
     (let trimmed = trim_space spec
      in if trimmed = [] then (Inr DefaultParallel, False)
         else if equal_fold trimmed ''unlimited'' then (Inr Unlimited, False)
         else (let bad = Inl (errors_new (''invalid --parallel value '' @ go_quote trimmed
                  @ '': use a positive integer, or '' @ go_quote ''unlimited'' @ '' for no limit (0 means the default of ''
                  @ show_int DefaultParallel @ '')''))
               in case atoi trimmed of
                    None \<Rightarrow> (bad, False)
                  | Some n \<Rightarrow>
                      (if n < 0 then (bad, False)
                       else if n = 0 then (Inr DefaultParallel, changed \<and> has_warn)
                       else (Inr n, False))))"

section \<open>Byte counts\<close>

text \<open>\<open>float64(b)\<close> of a positive integer: 53 significant bits, ties to even.\<close>

definition to_float64 :: "int \<Rightarrow> int" where
  "to_float64 b =
     (if b < 2 ^ 53 then b
      else (let k = nat (bitlen b - 53); q = b div 2 ^ k; r = b mod 2 ^ k; half = 2 ^ (k - 1)
            in (q + (if r > half \<or> (r = half \<and> odd q) then 1 else 0)) * 2 ^ k))"

definition byte_units :: "string list" where
  "byte_units = [''KB'', ''MB'', ''GB'', ''TB'', ''PB'', ''EB'']"

function byte_scale :: "int \<Rightarrow> int \<Rightarrow> nat \<Rightarrow> int \<times> nat" where
  "byte_scale n d e = (if 1024 \<le> n \<and> e < length byte_units - 1 then byte_scale (n div 1024) (d * 1024) (e + 1) else (d, e))"
  by auto
termination by (relation "measure (\<lambda>(n, d, e). length byte_units - e)") auto

declare byte_scale.simps [simp del]

definition Bytes :: "int \<Rightarrow> string" where
  "Bytes b =
     (if b \<le> 0 then ''0 B''
      else if b < 1024 then show_int b @ '' B''
      else case byte_scale (b div 1024) 1024 0 of
             (d, e) \<Rightarrow> show_2f (of_int (to_float64 b) / of_int (to_float64 d)) @ '' '' @ byte_units ! e)"

section \<open>Properties\<close>

lemma parallel_value:
  assumes "ParseParallelism spec changed w = (Inr n, x)"
  shows "n = Unlimited \<or> 0 < n"
  using assms by (auto simp: ParseParallelism_def Let_def DefaultParallel_def split: if_splits option.splits)

lemma atoi_first: "atoi s = Some n \<Longrightarrow> \<exists>c r. s = c # r \<and> (is_digit c \<or> c = CHR ''-'' \<or> c = CHR ''+'')"
  by (cases s) (auto simp: atoi_def Let_def split: if_splits)

lemma not_u: "is_digit c \<or> c = CHR ''-'' \<or> c = CHR ''+'' \<Longrightarrow> to_lower_char c \<noteq> CHR ''u''"
proof -
  have u: "code_of (CHR ''u'') = 117" "to_lower_char (CHR ''-'') = CHR ''-''" "to_lower_char (CHR ''+'') = CHR ''+''"
    by code_simp+
  assume "is_digit c \<or> c = CHR ''-'' \<or> c = CHR ''+''"
  then show ?thesis using u by (auto simp: is_digit_def to_lower_char_def)
qed

lemma atoi_not_word:
  assumes "atoi s = Some n"
  shows "\<not> equal_fold s ''unlimited''"
proof
  assume eq: "equal_fold s ''unlimited''"
  obtain c r where c: "s = c # r" "to_lower_char c \<noteq> CHR ''u''" using atoi_first[OF assms] not_u by blast
  have "to_lower_char c # to_lower r = to_lower ''unlimited''" using eq c by (simp add: equal_fold_def to_lower_def)
  moreover have "to_lower ''unlimited'' = CHR ''u'' # ''nlimited''" by code_simp
  ultimately show False using c(2) by simp
qed

text \<open>
  Every accepted \<open>--parallel\<close> value gives a pool that can work: the semaphore has at least one
  slot for a non-empty batch, never more than the number of jobs, and never more than the value asked
  for; the value 0 means five everywhere.
\<close>

theorem parallelism_usable:
  assumes "ParseParallelism spec changed w = (Inr n, x)"
  shows "(0 < jobs \<longrightarrow> 0 < pool_limit n jobs) \<and> pool_limit n jobs \<le> jobs
       \<and> (n \<noteq> Unlimited \<longrightarrow> int (pool_limit n jobs) \<le> n) \<and> (atoi (trim_space spec) = Some 0 \<longrightarrow> n = DefaultParallel)"
proof -
  have "n = DefaultParallel" if z: "atoi (trim_space spec) = Some 0"
  proof -
    have "\<not> equal_fold (trim_space spec) ''unlimited''"
      using z atoi_not_word by blast
    then show ?thesis using assms z by (auto simp: ParseParallelism_def Let_def split: if_splits)
  qed
  then show ?thesis using parallel_value[OF assms] by (auto simp: pool_limit_def Unlimited_def)
qed

lemma byte_units_length [simp]: "length byte_units = 6"
  by (simp add: byte_units_def)

lemma byte_scale_spec:
  assumes "byte_scale n d e = (d', e')" "n = b div d" "0 < d" "1 \<le> n" "e \<le> 5" "0 < b"
  shows "e \<le> e' \<and> e' \<le> 5 \<and> d' = d * 1024 ^ (e' - e) \<and> d' \<le> b \<and> (e' < 5 \<longrightarrow> b < d' * 1024)"
  using assms
proof (induction n d e rule: byte_scale.induct)
  case (1 n d e)
  show ?case
  proof (cases "1024 \<le> n \<and> e < length byte_units - 1")
    case True
    have n': "n div 1024 = b div (d * 1024)" using 1(3,4) by (simp add: zdiv_zmult2_eq)
    have p1: "1 \<le> n div 1024" using True by linarith
    have pos: "1 \<le> n div 1024" "e + 1 \<le> 5" "0 < d * 1024" using p1 True 1(4) by simp_all
    have r: "byte_scale (n div 1024) (d * 1024) (e + 1) = (d', e')"
      using 1(2) unfolding byte_scale.simps[of n d e] if_P[OF True] .
    note ih = 1(1)[OF True r n' pos(3,1,2) 1(7)]
    then have k: "e' - e = Suc (e' - (e + 1))" by linarith
    have "d' = d * 1024 * 1024 ^ (e' - (e + 1))" using ih by blast
    then have "d' = d * 1024 ^ (e' - e)" unfolding k power_Suc by (simp only: mult.assoc)
    then show ?thesis using ih by (metis add_leD1)
  next
    case False
    then have r: "d' = d" "e' = e" using 1(2) unfolding byte_scale.simps[of n d e] if_not_P[OF False] by simp_all
    have "d \<le> b"
    proof (rule ccontr)
      assume "\<not> d \<le> b"
      then have "b div d = 0" using 1(7) by simp
      then show False using 1(3,5) by simp
    qed
    moreover have "b < d * 1024" if "e < 5"
    proof -
      have "b div d < 1024" using False that 1(3) by auto
      then have le: "b div d \<le> 1023" by simp
      have "b = (b div d) * d + b mod d" by simp
      also have "\<dots> < 1023 * d + d" using le 1(4) by (intro add_le_less_mono mult_right_mono pos_mod_bound) simp_all
      finally show ?thesis by simp
    qed
    ultimately show ?thesis using 1(6) r by simp
  qed
qed

text \<open>
  A byte count is scaled to the right unit: the divisor is the power of 1024 of the unit that is
  named, the index stays inside the unit table for every \<open>int64\<close>, and the scaled value is at least one
  and below 1024 unless the unit is the largest.
\<close>

theorem bytes_unit_right:
  assumes "1024 \<le> b" "byte_scale (b div 1024) 1024 0 = (d, e)"
  shows "e < length byte_units \<and> d = 1024 * 1024 ^ e \<and> d \<le> b \<and> (byte_units ! e \<noteq> ''EB'' \<longrightarrow> b < d * 1024)"
proof -
  have pos: "1 \<le> b div 1024" using assms(1) by linarith
  have s: "e \<le> 5 \<and> d = 1024 * 1024 ^ (e - 0) \<and> d \<le> b \<and> (e < 5 \<longrightarrow> b < d * 1024)"
    using byte_scale_spec[OF assms(2) refl _ pos] assms(1) by force
  have "byte_units ! 5 = ''EB''" by (simp add: byte_units_def)
  then have "byte_units ! e \<noteq> ''EB'' \<longrightarrow> e < 5" using s by (cases "e = 5") auto
  moreover have "e < length byte_units" using s by simp
  moreover have "d = 1024 * 1024 ^ e" using s by (metis diff_zero)
  ultimately show ?thesis using s by blast
qed

theorem bytes_unit_right_witness: "byte_scale (5000000 div 1024) 1024 0 = (1048576, 1) \<and> (1048576::int) \<le> 5000000"
proof -
  have "byte_scale (5000000 div 1024) 1024 0 = (1048576, 1)" by code_simp
  then show ?thesis using bytes_unit_right[of 5000000 1048576 1] by simp
qed

theorem parallelism_usable_witness: "pool_limit DefaultParallel 12 \<le> 12 \<and> 0 < pool_limit DefaultParallel 12"
proof -
  have "ParseParallelism '' 0 '' True True = (Inr DefaultParallel, True)" by code_simp
  from parallelism_usable[OF this, of 12] show ?thesis by simp
qed

end
