(* ===== verification/Scheduler.thy ===== *)
theory Scheduler
  imports Runner BackupStore NotifyModel
begin

text \<open>
  \<open>internal/scheduler/scheduler.go\<close>: which jobs are scheduled, their registration with cron, one
  execution of a job and the \<open>--once\<close> mode. Parameters: \<open>parse_cron\<close> is \<open>cron.ParseStandard\<close> (its
  error), \<open>cron_ops\<close> the cron library's entry table, the runner an operation on a state, the context a
  function from the number of the check to its error, \<open>now\<close> the clock. The events that an execution
  hands to \<open>enqueueNotification\<close> are returned; what happens to them is in theory \<open>NotifyQueue\<close>.
\<close>

section \<open>Schedules\<close>

definition ValidateSchedule :: "(string \<Rightarrow> go_error option) \<Rightarrow> string \<Rightarrow> go_error option" where
  "ValidateSchedule parse_cron spec =
     (let trimmed = trim_space spec
      in if trimmed = [] then Some (errors_new ''schedule expression cannot be empty'')
         else (case parse_cron trimmed of
                 Some e \<Rightarrow> Some (wrap (''invalid cron expression '' @ go_quote spec @ '': '') e [])
               | None \<Rightarrow> None))"

definition skip_warning :: "job \<Rightarrow> go_error \<Rightarrow> go_error" where
  "skip_warning j e = wrap (''job '' @ go_quote (j_name j) @ '' skipped: '') e ''; fix the schedule in backups.yaml''"

text \<open>The loop: the scheduled jobs, the warnings and the number of jobs with a schedule.\<close>

fun split_scheduled :: "(string \<Rightarrow> go_error option) \<Rightarrow> job list \<Rightarrow> job list \<times> go_error list \<times> nat" where
  "split_scheduled pc [] = ([], [], 0)"
| "split_scheduled pc (j # js) =
     (let scheduleSpec = trim_space (j_schedule j); (sched, warns, n) = split_scheduled pc js
      in if scheduleSpec = [] then (sched, warns, n)
         else (case ValidateSchedule pc scheduleSpec of
                 Some e \<Rightarrow> (sched, skip_warning j e # warns, n + 1)
               | None \<Rightarrow> (j # sched, warns, n + 1)))"

definition validateScheduledJobs :: "(string \<Rightarrow> go_error option) \<Rightarrow> job list \<Rightarrow> job list \<times> go_error list \<times> go_error option" where
  "validateScheduledJobs pc allJobs =
     (case split_scheduled pc allJobs of
        (sched, warns, n) \<Rightarrow>
          (if 0 < n \<and> sched = []
           then ([], warns, Some (wrap (''all '' @ show_nat n @ '' scheduled job(s) have invalid schedules: '') (errors_join warns) []))
           else (sched, warns, None)))"

section \<open>Registration\<close>

record 'c cron_ops =
  cr_add :: "string \<Rightarrow> 'c \<Rightarrow> int res \<times> 'c"
  cr_remove :: "int \<Rightarrow> 'c \<Rightarrow> 'c"
  cr_next :: "int \<Rightarrow> 'c \<Rightarrow> int"
  cr_prev :: "int \<Rightarrow> 'c \<Rightarrow> int"

record scheduled_job =
  sj_name :: string
  sj_server :: string
  sj_schedule :: string
  sj_entry :: int
  sj_next :: int
  sj_prev :: int

record 'c scheduler =
  sc_cron :: 'c
  sc_jobs :: "(int \<times> job) list"

definition scheduled_entry :: "'c cron_ops \<Rightarrow> job \<Rightarrow> string \<Rightarrow> int \<Rightarrow> 'c \<Rightarrow> scheduled_job" where
  "scheduled_entry cr j spec i c =
     \<lparr>sj_name = j_name j, sj_server = j_server j, sj_schedule = spec, sj_entry = i,
      sj_next = cr_next cr i c, sj_prev = cr_prev cr i c\<rparr>"

text \<open>
  The map from entry ids to jobs is an association list with one entry for each id; Go iterates over
  it in an order that it leaves open.
\<close>

definition set_job :: "int \<Rightarrow> job \<Rightarrow> 'c scheduler \<Rightarrow> 'c scheduler" where
  "set_job i j s = s\<lparr>sc_jobs := upsert fst (i, j) (sc_jobs s)\<rparr>"

fun register_loop :: "'c cron_ops \<Rightarrow> job list \<Rightarrow> 'c scheduler \<Rightarrow> scheduled_job list \<times> go_error list \<times> 'c scheduler" where
  "register_loop cr [] s = ([], [], s)"
| "register_loop cr (j # js) s =
     (let scheduleSpec = trim_space (j_schedule j)
      in case cr_add cr scheduleSpec (sc_cron s) of
           (Inl e, c) \<Rightarrow> (case register_loop cr js (s\<lparr>sc_cron := c\<rparr>) of (rs, ws, s1) \<Rightarrow> (rs, skip_warning j e # ws, s1))
         | (Inr i, c) \<Rightarrow>
             (case register_loop cr js (set_job i j (s\<lparr>sc_cron := c\<rparr>)) of
                (rs, ws, s1) \<Rightarrow> (scheduled_entry cr j scheduleSpec i c # rs, ws, s1)))"

definition clear_jobs :: "'c cron_ops \<Rightarrow> 'c scheduler \<Rightarrow> 'c scheduler" where
  "clear_jobs cr s = \<lparr>sc_cron = foldl (\<lambda>c p. cr_remove cr (fst p) c) (sc_cron s) (sc_jobs s), sc_jobs = []\<rparr>"

definition RegisterJobs ::
    "(string \<Rightarrow> go_error option) \<Rightarrow> 'c cron_ops \<Rightarrow> ('b \<Rightarrow> job list res \<times> 'b) option \<Rightarrow> 'b \<Rightarrow> 'c scheduler
     \<Rightarrow> (scheduled_job list \<times> go_error list \<times> go_error option) \<times> 'b \<times> 'c scheduler" where
  "RegisterJobs pc cr store b s =
     (case store of
        None \<Rightarrow> (([], [], Some (errors_new ''backup store is nil'')), b, s)
      | Some list_jobs \<Rightarrow>
          (case list_jobs b of
             (Inl e, b1) \<Rightarrow> (([], [], Some (wrap ''failed to list backup jobs: '' e [])), b1, s)
           | (Inr allJobs, b1) \<Rightarrow>
               (case validateScheduledJobs pc allJobs of
                  (sched, warns, Some e) \<Rightarrow> (([], warns, Some e), b1, clear_jobs cr s)
                | (sched, warns, None) \<Rightarrow>
                    (case register_loop cr sched (clear_jobs cr s) of
                       (regs, ws, s1) \<Rightarrow>
                         (if sched \<noteq> [] \<and> regs = []
                          then (([], warns @ ws, Some (wrap (''all '' @ show_nat (length sched)
                                  @ '' scheduled job(s) failed to register: '') (errors_join (warns @ ws)) [])), b1, s1)
                          else ((regs, warns @ ws, None), b1, s1))))))"

definition ListRegistered :: "'c cron_ops \<Rightarrow> 'c scheduler \<Rightarrow> scheduled_job list" where
  "ListRegistered cr s = map (\<lambda>p. scheduled_entry cr (snd p) (j_schedule (snd p)) (fst p) (sc_cron s)) (sc_jobs s)"

section \<open>One execution\<close>

type_synonym 's job_runner = "job \<Rightarrow> 's \<Rightarrow> backup_run option \<times> go_error option \<times> 's"

definition backup_event :: "job \<Rightarrow> string \<Rightarrow> string \<Rightarrow> rat \<Rightarrow> string \<Rightarrow> int \<Rightarrow> bool \<Rightarrow> event" where
  "backup_event j status snap duration err now untracked =
     \<lparr>ev_job = j_name j, ev_status = status, ev_server = j_server j, ev_snapshot = snap, ev_duration = duration,
      ev_error = err, ev_time = now, ev_untracked = untracked, ev_kind = [], ev_steps = [], ev_warnings = [], ev_pending = []\<rparr>"

text \<open>What an execution makes of the runner's answer: its error and the notification.\<close>

definition judge_run :: "job \<Rightarrow> int \<Rightarrow> backup_run option \<Rightarrow> go_error option \<Rightarrow> go_error option \<times> event" where
  "judge_run j now rec err =
     (let errMsg0 = (case rec of None \<Rightarrow> [] | Some r \<Rightarrow> br_error r);
          errMsg = (case err of Some e \<Rightarrow> if errMsg0 = [] then err_text e else errMsg0 | None \<Rightarrow> errMsg0);
          runRecordErr =
            (case err of
               Some e \<Rightarrow> Some e
             | None \<Rightarrow>
                 (case rec of
                    None \<Rightarrow> None
                  | Some r \<Rightarrow>
                      if br_status r = ''failed'' \<or> br_status r = ''partial''
                      then Some (errors_new (''job '' @ go_quote (j_name j) @ '' completed with status ''
                                   @ go_quote (br_status r) @ '': '' @ errMsg))
                      else if br_untracked r
                      then Some (wrap (''job '' @ go_quote (j_name j) @ '' completed but was not audited: '')
                                   (sentinel_error ErrUntracked) [])
                      else None))
      in (runRecordErr,
          backup_event j (case rec of None \<Rightarrow> ''failed'' | Some r \<Rightarrow> br_status r)
            (case rec of None \<Rightarrow> [] | Some r \<Rightarrow> br_snapshot r) (case rec of None \<Rightarrow> 0 | Some r \<Rightarrow> br_duration r)
            errMsg now (case rec of None \<Rightarrow> False | Some r \<Rightarrow> br_untracked r)))"

definition executeJob :: "'s job_runner option \<Rightarrow> int \<Rightarrow> job \<Rightarrow> 's \<Rightarrow> go_error option \<times> event \<times> 's" where
  "executeJob runner now j s =
     (case runner of
        Some run \<Rightarrow> (case run j s of (rec, err, s1) \<Rightarrow> (case judge_run j now rec err of (oe, ev) \<Rightarrow> (oe, ev, s1)))
      | None \<Rightarrow> (Some (errors_new ''runner is nil''),
                 backup_event j ''failed'' [] 0 ''runner is not initialized'' now False, s))"

section \<open>Once\<close>

text \<open>
  \<open>ctx n\<close> is \<open>ctx.Err()\<close> at the \<open>n\<close>-th check: before job \<open>k\<close> at \<open>2 * k\<close>, after its failure at
  \<open>2 * k + 1\<close>. The last component of the result counts the jobs that were processed.
\<close>

fun run_once_loop ::
    "(nat \<Rightarrow> sentinel option) \<Rightarrow> 's job_runner option \<Rightarrow> int \<Rightarrow> nat \<Rightarrow> job list \<Rightarrow> go_error option \<Rightarrow> 's
     \<Rightarrow> go_error option \<times> event list \<times> 's" where
  "run_once_loop ctx runner now k [] firstErr s = (firstErr, [], s)"
| "run_once_loop ctx runner now k (j # js) firstErr s =
     (case ctx (2 * k) of
        Some c \<Rightarrow>
          (Some (case firstErr of
                   Some e \<Rightarrow> wrap ''run cancelled ('' (sentinel_error c) (''), earlier error: '' @ err_text e)
                 | None \<Rightarrow> sentinel_error c), [], s)
      | None \<Rightarrow>
          (case executeJob runner now j s of
             (None, ev, s1) \<Rightarrow>
               (case run_once_loop ctx runner now (k + 1) js firstErr s1 of (oe, evs, s2) \<Rightarrow> (oe, ev # evs, s2))
           | (Some e, ev, s1) \<Rightarrow>
               (let first1 = (case firstErr of None \<Rightarrow> e | Some f \<Rightarrow> f)
                in case ctx (2 * k + 1) of
                     Some c \<Rightarrow>
                       (Some (if \<not> errors_is first1 c
                              then wrap ''run cancelled ('' (sentinel_error c)
                                     (''), job '' @ go_quote (j_name j) @ '' error: '' @ err_text first1)
                              else sentinel_error c), [ev], s1)
                   | None \<Rightarrow>
                       (case run_once_loop ctx runner now (k + 1) js (Some first1) s1 of
                          (oe, evs, s2) \<Rightarrow> (oe, ev # evs, s2)))))"

definition RunOnce ::
    "(string \<Rightarrow> go_error option) \<Rightarrow> ('b \<Rightarrow> job list res \<times> 'b) option \<Rightarrow> (nat \<Rightarrow> sentinel option) \<Rightarrow> 's job_runner option \<Rightarrow> int
     \<Rightarrow> 'b \<Rightarrow> 's \<Rightarrow> go_error option \<times> event list \<times> 'b \<times> 's" where
  "RunOnce pc store ctx runner now b s =
     (case store of
        None \<Rightarrow> (Some (errors_new ''backup store is nil''), [], b, s)
      | Some list_jobs \<Rightarrow>
          (case list_jobs b of
             (Inl e, b1) \<Rightarrow> (Some (wrap ''failed to list backup jobs: '' e []), [], b1, s)
           | (Inr allJobs, b1) \<Rightarrow>
               (case validateScheduledJobs pc allJobs of
                  (sched, warns, Some e) \<Rightarrow> (Some e, [], b1, s)
                | (sched, warns, None) \<Rightarrow>
                    (case run_once_loop ctx runner now 0 sched None s of (oe, evs, s1) \<Rightarrow> (oe, evs, b1, s1)))))"

section \<open>Lemmas\<close>

definition has_schedule :: "job \<Rightarrow> bool" where
  "has_schedule j \<longleftrightarrow> trim_space (j_schedule j) \<noteq> []"

definition good_schedule :: "(string \<Rightarrow> go_error option) \<Rightarrow> job \<Rightarrow> bool" where
  "good_schedule pc j \<longleftrightarrow> has_schedule j \<and> pc (trim_space (j_schedule j)) = None"

lemma ValidateSchedule_trimmed:
  "trim_space s \<noteq> [] \<Longrightarrow> (ValidateSchedule pc (trim_space s) = None) = (pc (trim_space s) = None)"
  by (simp add: ValidateSchedule_def Let_def split: option.split)

lemma split_scheduled_spec:
  "split_scheduled pc js = (sched, warns, n) \<Longrightarrow>
     sched = filter (good_schedule pc) js \<and> n = length (filter has_schedule js) \<and> length sched + length warns = n"
proof (induction js arbitrary: sched warns n)
  case (Cons j js)
  obtain sched' warns' n' where ih: "split_scheduled pc js = (sched', warns', n')" by (cases "split_scheduled pc js")
  show ?case
  proof (cases "has_schedule j")
    case False
    then show ?thesis using Cons(2) Cons(1)[OF ih] ih by (auto simp: has_schedule_def good_schedule_def)
  next
    case True
    note v = ValidateSchedule_trimmed[of "j_schedule j" pc]
    show ?thesis
      using Cons(2) Cons(1)[OF ih] ih True v
      by (cases "ValidateSchedule pc (trim_space (j_schedule j))") (auto simp: has_schedule_def good_schedule_def)
  qed
qed simp

lemma judge_run_event:
  assumes "judge_run j now rec err = (oe, ev)"
  shows "ev_job ev = j_name j"
  using assms by (auto simp: judge_run_def backup_event_def Let_def)

lemma executeJob_event: "executeJob runner now j s = (oe, ev, s') \<Longrightarrow> ev_job ev = j_name j"
  using judge_run_event by (fastforce simp: executeJob_def backup_event_def split: option.splits prod.splits)

lemma run_once_loop_events:
  assumes "run_once_loop ctx runner now k js f s = (oe, evs, s')"
  shows "\<exists>rest. map j_name js = map ev_job evs @ rest \<and> ((oe = None \<or> (\<forall>n. ctx n = None)) \<longrightarrow> rest = []) \<and> (oe = None \<longrightarrow> f = None)"
  using assms
proof (induction js arbitrary: k f s oe evs s')
  case (Cons j js)
  obtain e ev s1 where x: "executeJob runner now j s = (e, ev, s1)" by (cases "executeJob runner now j s")
  note n = executeJob_event[OF x]
  show ?case
  proof (cases "ctx (2 * k)")
    case (Some c)
    then show ?thesis using Cons(2) by (intro exI[of _ "map j_name (j # js)"]) auto
  next
    case None
    note c = None
    show ?thesis
    proof (cases e)
      case None
      obtain oe' evs' s2 where r: "run_once_loop ctx runner now (k + 1) js f s1 = (oe', evs', s2)"
        by (cases "run_once_loop ctx runner now (k + 1) js f s1")
      then have "oe = oe'" "evs = ev # evs'" using Cons(2) c None x by simp_all
      then show ?thesis using Cons(1)[OF r] n by auto
    next
      case (Some e')
      define f1 where "f1 = (case f of None \<Rightarrow> e' | Some g \<Rightarrow> g)"
      show ?thesis
      proof (cases "ctx (2 * k + 1)")
        case None
        obtain oe' evs' s2 where r: "run_once_loop ctx runner now (k + 1) js (Some f1) s1 = (oe', evs', s2)"
          by (cases "run_once_loop ctx runner now (k + 1) js (Some f1) s1")
        then have "oe = oe'" "evs = ev # evs'" using Cons(2) c None Some x by (simp_all add: f1_def Let_def)
        then show ?thesis using Cons(1)[OF r] n by auto
      next
        case (Some c')
        then have "evs = [ev]" "oe \<noteq> None" using Cons(2) c x \<open>e = Some e'\<close> by (auto simp: Let_def)
        then show ?thesis using Some n by (intro exI[of _ "map j_name js"]) auto
      qed
    qed
  qed
qed simp

lemma upsert_keys: "fst ` set (upsert fst x xs) = insert (fst x) (fst ` set xs)"
  by (induction xs) auto

lemma register_loop_entries:
  "register_loop cr js s = (rs, ws, s') \<Longrightarrow>
     fst ` set (sc_jobs s') = fst ` set (sc_jobs s) \<union> sj_entry ` set rs \<and> length rs + length ws = length js
     \<and> snd ` set (sc_jobs s') \<subseteq> snd ` set (sc_jobs s) \<union> set js \<and> (distinct (map fst (sc_jobs s)) \<longrightarrow> distinct (map fst (sc_jobs s')))"
proof (induction js arbitrary: s rs ws s')
  case (Cons j js)
  obtain r c where a: "cr_add cr (trim_space (j_schedule j)) (sc_cron s) = (r, c)"
    by (cases "cr_add cr (trim_space (j_schedule j)) (sc_cron s)")
  show ?case
  proof (cases r)
    case (Inl e)
    obtain rs' ws' s1 where l: "register_loop cr js (s\<lparr>sc_cron := c\<rparr>) = (rs', ws', s1)"
      by (cases "register_loop cr js (s\<lparr>sc_cron := c\<rparr>)")
    then have "rs = rs'" "ws = skip_warning j e # ws'" "s' = s1" using Cons(2) a Inl by simp_all
    then show ?thesis using Cons(1)[OF l] by auto
  next
    case (Inr i)
    obtain rs' ws' s1 where l: "register_loop cr js (set_job i j (s\<lparr>sc_cron := c\<rparr>)) = (rs', ws', s1)"
      by (cases "register_loop cr js (set_job i j (s\<lparr>sc_cron := c\<rparr>))")
    then have e: "rs = scheduled_entry cr j (trim_space (j_schedule j)) i c # rs'" "ws = ws'" "s' = s1"
      using Cons(2) a Inr by simp_all
    have up: "snd ` set (upsert fst (i, j) (sc_jobs s)) \<subseteq> insert j (snd ` set (sc_jobs s))"
      using image_mono[OF set_upsert_subset[of fst "(i, j)" "sc_jobs s"], of snd] by simp
    have sj: "sc_jobs (set_job i j (s\<lparr>sc_cron := c\<rparr>)) = upsert fst (i, j) (sc_jobs s)" by (simp add: set_job_def)
    note ih = Cons(1)[OF l, unfolded sj upsert_keys]
    have "snd ` set (sc_jobs s') \<subseteq> snd ` set (upsert fst (i, j) (sc_jobs s)) \<union> set js" using ih e(3) by simp
    then have "snd ` set (sc_jobs s') \<subseteq> insert j (snd ` set (sc_jobs s)) \<union> set js" using Un_mono[OF up order_refl] by (rule subset_trans)
    then have "snd ` set (sc_jobs s') \<subseteq> snd ` set (sc_jobs s) \<union> set (j # js)" by simp
    moreover have "distinct (map fst (sc_jobs s)) \<longrightarrow> distinct (map fst (sc_jobs s'))"
      using ih e(3) distinct_upsert[of fst] by blast
    ultimately show ?thesis using ih e by (simp add: scheduled_entry_def)
  qed
qed simp

text \<open>The runner of package \<open>backup\<close> behind the scheduler's interface.\<close>

definition real_runner ::
    "(nat \<Rightarrow> bool) \<Rightarrow> (string \<Rightarrow> restic_summary option) \<Rightarrow> ('a, 'b, backup_row table) runner \<Rightarrow> run_env
     \<Rightarrow> ('a, 'b, backup_row table) run_state job_runner" where
  "real_runner uc pj rn env j st = (case runner_run uc pj rn env j st of (ro, oe, ex, st') \<Rightarrow> (ro, oe, st'))"

section \<open>Properties of the scheduler\<close>

lemma scheduled_jobs_exact_core:
  assumes "validateScheduledJobs pc js = (sched, warns, oe)"
  shows "sched = filter (good_schedule pc) js"
    and "length sched + length warns = length (filter has_schedule js)"
    and "oe \<noteq> None \<longleftrightarrow> sched = [] \<and> (\<exists>j \<in> set js. has_schedule j)"
proof -
  obtain sc ws n where sp: "split_scheduled pc js = (sc, ws, n)" by (cases "split_scheduled pc js")
  note spec = split_scheduled_spec[OF sp]
  have "0 < n \<longleftrightarrow> (\<exists>j \<in> set js. has_schedule j)" using spec by (auto simp: filter_empty_conv)
  then have "sched = filter (good_schedule pc) js \<and> length sched + length warns = length (filter has_schedule js)
       \<and> (oe \<noteq> None \<longleftrightarrow> sched = [] \<and> (\<exists>j \<in> set js. has_schedule j))"
    using assms sp spec by (auto simp: validateScheduledJobs_def split: if_splits)
  then show "sched = filter (good_schedule pc) js" "length sched + length warns = length (filter has_schedule js)"
    "oe \<noteq> None \<longleftrightarrow> sched = [] \<and> (\<exists>j \<in> set js. has_schedule j)" by blast+
qed

text \<open>
  Both daemon modes run exactly the jobs with a non-blank schedule that cron accepts, in the
  order of the file: each other scheduled job gives one warning, and the run is refused only when
  there are scheduled jobs and none of them is valid.
\<close>

theorem scheduled_jobs_exact:
  assumes "validateScheduledJobs pc js = (sched, warns, oe)"
  shows "sched = filter (good_schedule pc) js
       \<and> length sched + length warns = length (filter has_schedule js)
       \<and> (oe \<noteq> None \<longleftrightarrow> sched = [] \<and> (\<exists>j \<in> set js. has_schedule j))"
  using scheduled_jobs_exact_core[OF assms] by blast

text \<open>
  A \<open>--once\<close> run that is never cancelled executes every scheduled job, whatever fails: it hands
  over one notification for each job, in order. When the run is cancelled the notifications are those of
  a prefix of the jobs, and the run never reports success unless all of them were executed.
\<close>

theorem run_once_complete:
  assumes "RunOnce pc (Some list_jobs) ctx runner now b s = (oe, evs, b', s')"
    and "list_jobs b = (Inr js, b1)"
  shows "\<exists>rest. map j_name (filter (good_schedule pc) js) = map ev_job evs @ rest
            \<and> (oe = None \<or> (\<forall>n. ctx n = None) \<longrightarrow> rest = [])"
proof -
  obtain sched warns ve where v: "validateScheduledJobs pc js = (sched, warns, ve)"
    by (cases "validateScheduledJobs pc js")
  obtain sc ws n where sp: "split_scheduled pc js = (sc, ws, n)" by (cases "split_scheduled pc js")
  note spec = split_scheduled_spec[OF sp]
  show ?thesis
  proof (cases ve)
    case (Some e)
    then have "evs = []" "sc = []" using assms v sp by (auto simp: RunOnce_def validateScheduledJobs_def split: if_splits)
    then show ?thesis using spec by simp
  next
    case None
    then have sc: "sched = sc" using v sp by (auto simp: validateScheduledJobs_def split: if_splits)
    obtain o' e' s1 where l: "run_once_loop ctx runner now 0 sched None s = (o', e', s1)"
      by (cases "run_once_loop ctx runner now 0 sched None s")
    then have "oe = o'" "evs = e'" using assms v None by (simp_all add: RunOnce_def)
    then show ?thesis using run_once_loop_events[OF l] sc spec by blast
  qed
qed

text \<open>
  C36. A backup that the daemon reports as successful is in the audit database: when \<open>executeJob\<close> over the real runner
  returns no error, exactly one row was added. It is the row of this run: the name and the server of the job that was
  executed, the time at which the run finished, the snapshot that the notification names, and the status \<open>success\<close>
  without the untracked mark - even with \<open>--allow-untracked\<close>, since an untracked success is turned into an error. The
  notification says the same.
\<close>

theorem reported_success_is_audited:
  assumes "table_wf bw_id (st_db st)" "rn_repo rn = sqlite_log"
    and "executeJob (Some (real_runner uc pj rn env)) now j st = (None, ev, st')"
  shows "\<exists>i w. table_lookup bw_id (st_db st) i = None \<and> table_lookup bw_id (st_db st') i = Some w
           \<and> (\<forall>k. k \<noteq> i \<longrightarrow> table_lookup bw_id (st_db st') k = table_lookup bw_id (st_db st) k)
           \<and> bw_job w = j_name j \<and> bw_server w = j_server j \<and> bw_status w = ''success'' \<and> bw_untracked w = 0
           \<and> bw_finished w = Some (secs (re_finished env)) \<and> from_null (bw_snapshot w) = ev_snapshot ev
           \<and> ev_job ev = j_name j \<and> ev_server ev = j_server j \<and> ev_status ev = ''success'' \<and> \<not> ev_untracked ev"
proof -
  obtain ro oe ex st1 where r: "runner_run uc pj rn env j st = (ro, oe, ex, st1)"
    by (cases "runner_run uc pj rn env j st")
  then have st: "st' = st1" and jr: "judge_run j now ro oe = (None, ev)"
    using assms(3) by (auto simp: executeJob_def real_runner_def split: prod.splits)
  have oe: "oe = None" using jr by (auto simp: judge_run_def Let_def split: option.splits)
  obtain run where run: "ro = Some run" using r oe by (cases rule: runner_run_cases) auto
  note core = runner_run_audited[OF assms(1,2) r[unfolded run]]
  have nu: "\<not> br_untracked run" "br_status run \<noteq> ''failed''"
    using jr run oe by (auto simp: judge_run_def Let_def split: if_splits)
  obtain success where fs: "br_status run = final_status success None"
    using core(3) oe by auto
  have succ: "br_status run = ''success''"
    using fs nu by (cases success) (simp_all add: final_status_def is_cancellation_def is_opt_def)
  obtain w where w: "table_lookup bw_id (st_db st1) (br_id run) = Some w" "backup_reads run w"
    "table_lookup bw_id (st_db st) (br_id run) = None" "others_kept (st_db st) (br_id run) (st_db st1)"
    using core(5) nu by (auto simp: run_recorded_def)
  note row = backup_reads_sel[OF w(2)]
  have fin: "bw_finished w = Some (secs (re_finished env))"
    using arg_cong[OF w(2)[unfolded backup_reads_def], of br_finished] core(2)
    by (auto simp: scanBackupRun_def on_second_def nano_def)
  have "ev_status ev = br_status run" "ev_untracked ev = br_untracked run" "ev_snapshot ev = br_snapshot run"
    "ev_job ev = j_name j" "ev_server ev = j_server j"
    using jr run oe by (auto simp: judge_run_def backup_event_def Let_def split: if_splits)
  then show ?thesis using row w st succ nu(1) fin core(6,7) by (auto simp: others_kept_def)
qed

text \<open>
  After a registration the scheduler's table holds exactly the entries that cron accepted in this
  registration and nothing of an earlier one; only scheduled jobs are in it, and a registration that
  reports an error leaves no job behind.
\<close>

theorem register_table_exact:
  assumes "RegisterJobs pc cr (Some list_jobs) b s = ((regs, warns, oe), b', s')" "list_jobs b = (Inr js, b1)"
  shows "fst ` set (sc_jobs s') = sj_entry ` set regs
       \<and> distinct (map fst (sc_jobs s'))
       \<and> (\<forall>p \<in> set (sc_jobs s'). snd p \<in> set js \<and> good_schedule pc (snd p))
       \<and> (oe \<noteq> None \<longrightarrow> regs = [])"
proof -
  obtain sched ws ve where v: "validateScheduledJobs pc js = (sched, ws, ve)"
    by (cases "validateScheduledJobs pc js")
  obtain sc ws1 n where sp: "split_scheduled pc js = (sc, ws1, n)" by (cases "split_scheduled pc js")
  have clear: "sc_jobs (clear_jobs cr s) = []" by (simp add: clear_jobs_def)
  show ?thesis
  proof (cases ve)
    case (Some e)
    then have "regs = []" "s' = clear_jobs cr s" using assms v by (auto simp: RegisterJobs_def)
    then show ?thesis using clear by simp
  next
    case None
    have sched: "sched = filter (good_schedule pc) js"
      by (rule scheduled_jobs_exact_core(1)[OF v])
    obtain rs ws2 s1 where l: "register_loop cr sched (clear_jobs cr s) = (rs, ws2, s1)"
      by (cases "register_loop cr sched (clear_jobs cr s)")
    have r: "s' = s1" "regs = rs" "oe \<noteq> None \<longrightarrow> regs = []"
      using assms v None l by (auto simp: RegisterJobs_def split: if_splits)
    note reg = register_loop_entries[OF l, unfolded clear]
    have "snd ` set (sc_jobs s1) \<subseteq> set sched" using reg by simp
    then have "\<forall>p \<in> set (sc_jobs s1). snd p \<in> set js \<and> good_schedule pc (snd p)" using sched by auto
    then show ?thesis using reg r by simp
  qed
qed

section \<open>Witnesses\<close>

definition scheduled_example :: "job list" where
  "scheduled_example = [local_job\<lparr>j_schedule := '' 0 2 * * * ''\<rparr>, local_job, local_job\<lparr>j_schedule := ''daily''\<rparr>]"

definition example_cron :: "string \<Rightarrow> go_error option" where
  "example_cron s = (if s = ''0 2 * * *'' then None else Some (errors_new ''expected 5 fields''))"

definition example_cron_ops :: "int cron_ops" where
  "example_cron_ops = \<lparr>cr_add = (\<lambda>spec c. (Inr (c + 1), c + 1)), cr_remove = (\<lambda>i c. c), cr_next = (\<lambda>i c. 100), cr_prev = (\<lambda>i c. 0)\<rparr>"

lemma scheduled_example_good: "filter (good_schedule example_cron) scheduled_example = [local_job\<lparr>j_schedule := '' 0 2 * * * ''\<rparr>]"
  by code_simp

theorem scheduled_jobs_exact_witness:
  "\<exists>warns. validateScheduledJobs example_cron scheduled_example = ([local_job\<lparr>j_schedule := '' 0 2 * * * ''\<rparr>], warns, None)
     \<and> length warns = 1"
proof -
  obtain sched warns oe where v: "validateScheduledJobs example_cron scheduled_example = (sched, warns, oe)"
    by (cases "validateScheduledJobs example_cron scheduled_example")
  have "length (filter has_schedule scheduled_example) = 2" by code_simp
  then show ?thesis using scheduled_jobs_exact[OF v] v scheduled_example_good by (cases oe) auto
qed

theorem run_once_complete_witness:
  "\<exists>ev s'. RunOnce example_cron (Some (\<lambda>b. (Inr scheduled_example, b))) (\<lambda>n. None)
      (Some (\<lambda>j s. (Some (example_run\<lparr>br_status := ''success''\<rparr>), None, s))) 0 () () = (None, [ev], (), s')
    \<and> ev_job ev = ''web''"
proof -
  let ?run = "RunOnce example_cron (Some (\<lambda>b. (Inr scheduled_example, b))) (\<lambda>n. None)
      (Some (\<lambda>j s. (Some (example_run\<lparr>br_status := ''success''\<rparr>), None, s))) 0 () ()"
  obtain oe evs b' s' where r: "?run = (oe, evs, b', s')" by (cases ?run) auto
  have n: "j_name local_job = ''web''" by (simp add: local_job_def example_job_def)
  have "map j_name (filter (good_schedule example_cron) scheduled_example) = map ev_job evs"
    using run_once_complete[OF r refl] by simp
  then have evs: "map ev_job evs = [''web'']" using scheduled_example_good n by simp
  obtain sched warns where v: "validateScheduledJobs example_cron scheduled_example = (sched, warns, None)"
    "sched = [local_job\<lparr>j_schedule := '' 0 2 * * * ''\<rparr>]"
    using scheduled_jobs_exact_core[of example_cron scheduled_example] scheduled_example_good
    by (cases "validateScheduledJobs example_cron scheduled_example") auto
  have "oe = None" using r v by (auto simp: RunOnce_def executeJob_def judge_run_def example_run_def Let_def split: prod.splits)
  then show ?thesis using r evs by (auto simp: map_eq_Cons_conv)
qed

text \<open>The table of one success row after the run of the local job on an empty table.\<close>

theorem reported_success_is_audited_witness:
  "\<exists>ev st' i w. executeJob (Some (real_runner (\<lambda>_. False) (\<lambda>t. None) example_runner (example_env (db_fine 3)))) 0 local_job example_state
      = (None, ev, st') \<and> table_lookup bw_id (st_db st') i = Some w \<and> bw_job w = ''web'' \<and> bw_status w = ''success''
      \<and> bw_finished w = Some 7 \<and> (\<forall>k. k \<noteq> i \<longrightarrow> table_lookup bw_id (st_db st') k = None)"
proof -
  let ?run = "executeJob (Some (real_runner (\<lambda>_. False) (\<lambda>t. None) example_runner (example_env (db_fine 3)))) 0 local_job example_state"
  obtain run ex st' where r: "run_example (db_fine 3) = (Some run, None, ex, st')" "\<not> br_untracked run" "br_status run = ''success''"
    using example_runs by (auto split: prod.splits)
  obtain ev where x: "?run = (None, ev, st')"
    using r by (simp add: executeJob_def real_runner_def judge_run_def Let_def)
  have wf: "table_wf bw_id (st_db example_state)" by simp
  have n: "j_name local_job = ''web''" "secs (re_finished (example_env (db_fine 3))) = 7"
    "table_lookup bw_id (st_db example_state) k = None" for k
    by (simp_all add: local_job_def example_job_def example_env_def secs_def nano_def table_lookup_def empty_table_def)
  show ?thesis using reported_success_is_audited[OF wf example_parts(2) x] x unfolding n by blast
qed

theorem register_table_exact_witness:
  "case RegisterJobs example_cron example_cron_ops (Some (\<lambda>b. (Inr scheduled_example, b))) ()
      \<lparr>sc_cron = 4, sc_jobs = [(4, example_job)]\<rparr> of
     ((regs, warns, oe), b, s) \<Rightarrow> map fst (sc_jobs s) = [5] \<and> sj_entry ` set regs = {5}"
proof -
  let ?run = "RegisterJobs example_cron example_cron_ops (Some (\<lambda>b. (Inr scheduled_example, b))) ()
      \<lparr>sc_cron = 4, sc_jobs = [(4, example_job)]\<rparr>"
  obtain regs warns oe b s where r: "?run = ((regs, warns, oe), b, s)" by (cases ?run) auto
  have "case ?run of ((regs, warns, oe), b, s) \<Rightarrow> map fst (sc_jobs s) = [5]" by code_simp
  then have k: "map fst (sc_jobs s) = [5]" using r by simp
  then have "fst ` set (sc_jobs s) = {5}" by (metis list.set(1,2) set_map)
  then show ?thesis using register_table_exact[OF r refl] r k by simp
qed

end
