(* ===== verification/NotifyQueue.thy ===== *)
theory NotifyQueue
  imports NotifyModel "HOL-Library.Multiset"
begin

text \<open>
  The asynchronous notification delivery of \<open>internal/scheduler/scheduler.go\<close> with a dispatcher
  configured: producers (\<open>enqueueNotification\<close>), a bounded channel, the two workers
  (\<open>notifyWorker\<close>) and the shutdown (\<open>shutdownDispatcher\<close>), as step relations over one state whose
  steps are the atomic actions of the goroutines, in any order. A producer makes three: it reads
  \<open>notifyClosed\<close>, it starts the workers if nobody has, it sends or drops. The shutdown makes three as well: it
  marks the dispatcher closed, it closes the stop channel, and it waits for the workers or for its timeout. A delivery
  is one step that comes to an end: \<open>deliverNotification\<close> gives each its own deadline.
\<close>

section \<open>The state\<close>

datatype worker = Idle | Delivering event | Draining | DrainDelivering event | Exited

text \<open>
  The caller of the shutdown: not yet there, waiting, back because the workers have exited, back because the time was up,
  with the number of pending events that its warning tells.
\<close>

datatype wait = NotCalled | Waiting | Drained | GaveUp nat

text \<open>
  \<open>nq_checked\<close> and \<open>nq_ready\<close> hold the events whose producer is between its first and second and
  between its second and third action; \<open>nq_done\<close> those that were dispatched, \<open>nq_dropped\<close> those
  dropped with a warning, and \<open>nq_handed\<close> all that were passed to \<open>enqueueNotification\<close>.
\<close>

record nq =
  nq_queue :: "event list"
  nq_closed :: bool
  nq_stop :: bool
  nq_workers :: "worker list"
  nq_checked :: "event list"
  nq_ready :: "event list"
  nq_done :: "event list"
  nq_dropped :: "event list"
  nq_handed :: "event list"
  nq_wait :: wait

definition notifyWorkers :: nat where
  "notifyWorkers = 2"

definition notifyQueueSize :: nat where
  "notifyQueueSize = 64"

definition nq_init :: nq where
  "nq_init = \<lparr>nq_queue = [], nq_closed = False, nq_stop = False, nq_workers = [], nq_checked = [],
     nq_ready = [], nq_done = [], nq_dropped = [], nq_handed = [], nq_wait = NotCalled\<rparr>"

text \<open>\<open>sync.Once\<close>: the workers are spawned by the first caller.\<close>

definition startDispatcher :: "nq \<Rightarrow> nq" where
  "startDispatcher s = (if nq_workers s = [] then s\<lparr>nq_workers := replicate notifyWorkers Idle\<rparr> else s)"

section \<open>The steps\<close>

inductive enqueueNotification :: "nq \<Rightarrow> nq \<Rightarrow> bool" where
  rejected: "nq_closed s \<Longrightarrow>
    enqueueNotification s (s\<lparr>nq_dropped := nq_dropped s @ [e], nq_handed := nq_handed s @ [e]\<rparr>)"
| checked: "\<not> nq_closed s \<Longrightarrow>
    enqueueNotification s (s\<lparr>nq_checked := nq_checked s @ [e], nq_handed := nq_handed s @ [e]\<rparr>)"
| started: "nq_checked s = xs @ e # ys \<Longrightarrow>
    enqueueNotification s (startDispatcher (s\<lparr>nq_checked := xs @ ys, nq_ready := nq_ready s @ [e]\<rparr>))"
| sent: "nq_ready s = xs @ e # ys \<Longrightarrow> length (nq_queue s) < notifyQueueSize \<Longrightarrow>
    enqueueNotification s (s\<lparr>nq_ready := xs @ ys, nq_queue := nq_queue s @ [e]\<rparr>)"
| full: "nq_ready s = xs @ e # ys \<Longrightarrow> notifyQueueSize \<le> length (nq_queue s) \<Longrightarrow>
    enqueueNotification s (s\<lparr>nq_ready := xs @ ys, nq_dropped := nq_dropped s @ [e]\<rparr>)"

text \<open>The two loops of a worker; \<open>select\<close> may take either ready case.\<close>

inductive notifyWorker :: "nq \<Rightarrow> nq \<Rightarrow> bool" where
  receive: "k < length (nq_workers s) \<Longrightarrow> nq_workers s ! k = Idle \<Longrightarrow> nq_queue s = e # q \<Longrightarrow>
    notifyWorker s (s\<lparr>nq_queue := q, nq_workers := (nq_workers s)[k := Delivering e]\<rparr>)"
| delivered: "k < length (nq_workers s) \<Longrightarrow> nq_workers s ! k = Delivering e \<Longrightarrow>
    notifyWorker s (s\<lparr>nq_done := nq_done s @ [e], nq_workers := (nq_workers s)[k := Idle]\<rparr>)"
| stopping: "k < length (nq_workers s) \<Longrightarrow> nq_workers s ! k = Idle \<Longrightarrow> nq_stop s \<Longrightarrow>
    notifyWorker s (s\<lparr>nq_workers := (nq_workers s)[k := Draining]\<rparr>)"
| drain: "k < length (nq_workers s) \<Longrightarrow> nq_workers s ! k = Draining \<Longrightarrow> nq_queue s = e # q \<Longrightarrow>
    notifyWorker s (s\<lparr>nq_queue := q, nq_workers := (nq_workers s)[k := DrainDelivering e]\<rparr>)"
| drained: "k < length (nq_workers s) \<Longrightarrow> nq_workers s ! k = DrainDelivering e \<Longrightarrow>
    notifyWorker s (s\<lparr>nq_done := nq_done s @ [e], nq_workers := (nq_workers s)[k := Draining]\<rparr>)"
| exit: "k < length (nq_workers s) \<Longrightarrow> nq_workers s ! k = Draining \<Longrightarrow> nq_queue s = [] \<Longrightarrow>
    notifyWorker s (s\<lparr>nq_workers := (nq_workers s)[k := Exited]\<rparr>)"

inductive shutdownDispatcher :: "nq \<Rightarrow> nq \<Rightarrow> bool" where
  closed: "shutdownDispatcher s (s\<lparr>nq_closed := True\<rparr>)"
| stop: "nq_closed s \<Longrightarrow> shutdownDispatcher s (s\<lparr>nq_stop := True, nq_wait := Waiting\<rparr>)"
| finished: "nq_wait s = Waiting \<Longrightarrow> \<forall>w\<in>set (nq_workers s). w = Exited \<Longrightarrow> shutdownDispatcher s (s\<lparr>nq_wait := Drained\<rparr>)"
| gave_up: "nq_wait s = Waiting \<Longrightarrow> shutdownDispatcher s (s\<lparr>nq_wait := GaveUp (length (nq_queue s))\<rparr>)"

inductive nq_step :: "nq \<Rightarrow> nq \<Rightarrow> bool" where
  producer: "enqueueNotification s s' \<Longrightarrow> nq_step s s'"
| worker: "notifyWorker s s' \<Longrightarrow> nq_step s s'"
| shutdown: "shutdownDispatcher s s' \<Longrightarrow> nq_step s s'"

inductive_cases enqueueE: "enqueueNotification s s'"
inductive_cases workerE: "notifyWorker s s'"
inductive_cases shutdownE: "shutdownDispatcher s s'"
inductive_cases nq_stepE: "nq_step s s'"

abbreviation nq_steps :: "nq \<Rightarrow> nq \<Rightarrow> bool" where
  "nq_steps \<equiv> nq_step\<^sup>*\<^sup>*"

section \<open>The invariant\<close>

fun in_hand :: "worker \<Rightarrow> event list" where
  "in_hand (Delivering e) = [e]"
| "in_hand (DrainDelivering e) = [e]"
| "in_hand w = []"

definition in_hands :: "nq \<Rightarrow> event multiset" where
  "in_hands s = mset (concat (map in_hand (nq_workers s)))"

fun stopped :: "worker \<Rightarrow> bool" where
  "stopped Draining = True"
| "stopped (DrainDelivering e) = True"
| "stopped Exited = True"
| "stopped w = False"

text \<open>Every event is in exactly one place.\<close>

definition nq_places :: "nq \<Rightarrow> event multiset" where
  "nq_places s = mset (nq_checked s) + mset (nq_ready s) + mset (nq_queue s) + in_hands s + mset (nq_done s) + mset (nq_dropped s)"

definition nq_inv :: "nq \<Rightarrow> bool" where
  "nq_inv s \<longleftrightarrow> mset (nq_handed s) = nq_places s
     \<and> length (nq_queue s) \<le> notifyQueueSize
     \<and> length (nq_workers s) \<le> notifyWorkers
     \<and> (nq_workers s = [] \<longrightarrow> nq_ready s = [] \<and> nq_queue s = [])
     \<and> ((\<exists>w \<in> set (nq_workers s). stopped w) \<longrightarrow> nq_stop s)
     \<and> (nq_stop s \<longrightarrow> nq_closed s)"

lemma concat_upd:
  assumes "k < length ws"
  shows "mset (concat (map f (ws[k := w]))) + mset (f (ws ! k)) = mset (concat (map f ws)) + mset (f w)"
  using assms
proof (induction ws arbitrary: k)
  case (Cons x xs)
  then show ?case by (cases k) (auto simp: algebra_simps)
qed simp

lemma in_hands_upd:
  assumes "k < length (nq_workers s)" "nq_workers s' = (nq_workers s)[k := w]"
  shows "in_hands s' + mset (in_hand (nq_workers s ! k)) = in_hands s + mset (in_hand w)"
  unfolding in_hands_def assms(2) by (rule concat_upd[OF assms(1)])

lemma nq_init_inv: "nq_inv nq_init"
  by (simp add: nq_inv_def nq_init_def nq_places_def in_hands_def)

lemma startDispatcher_sel [simp]:
  "nq_queue (startDispatcher s) = nq_queue s" "nq_closed (startDispatcher s) = nq_closed s"
  "nq_stop (startDispatcher s) = nq_stop s" "nq_checked (startDispatcher s) = nq_checked s"
  "nq_ready (startDispatcher s) = nq_ready s" "nq_done (startDispatcher s) = nq_done s"
  "nq_dropped (startDispatcher s) = nq_dropped s" "nq_handed (startDispatcher s) = nq_handed s"
  "nq_wait (startDispatcher s) = nq_wait s"
  "nq_workers (startDispatcher s) = (if nq_workers s = [] then [Idle, Idle] else nq_workers s)"
  "in_hands (startDispatcher s) = in_hands s"
  by (simp_all add: startDispatcher_def notifyWorkers_def numeral_2_eq_2 in_hands_def)

lemma enqueue_inv:
  assumes "enqueueNotification s s'" "nq_inv s"
  shows "nq_inv s'"
  using assms
  by (cases rule: enqueueNotification.cases)
     (auto simp: nq_inv_def nq_places_def in_hands_def notifyWorkers_def)

lemma stopped_upd:
  "(\<exists>w \<in> set (ws[k := v]). stopped w) \<Longrightarrow> (\<exists>w \<in> set ws. stopped w) \<or> stopped v"
  using set_update_subset_insert[of ws k v] by auto

lemma worker_inv:
  assumes "notifyWorker s s'" "nq_inv s"
  shows "nq_inv s'"
proof -
  have stop_iff: "nq_stop s" if "k < length (nq_workers s)" "stopped (nq_workers s ! k)" for k
    using assms(2) that nth_mem[OF that(1)] by (auto simp: nq_inv_def)
  from assms(1) show ?thesis
  proof (cases rule: notifyWorker.cases)
    case (receive k e q)
    have "in_hands s' = in_hands s + {#e#}" using in_hands_upd[of k s s' "Delivering e"] receive by simp
    then show ?thesis using assms(2) receive stopped_upd[of "nq_workers s" k "Delivering e"]
      by (auto simp: nq_inv_def nq_places_def)
  next
    case (delivered k e)
    have "in_hands s' + {#e#} = in_hands s" using in_hands_upd[of k s s' Idle] delivered by simp
    then show ?thesis using assms(2) delivered stopped_upd[of "nq_workers s" k Idle]
      by (auto simp: nq_inv_def nq_places_def)
  next
    case (stopping k)
    have "in_hands s' = in_hands s" using in_hands_upd[of k s s' Draining] stopping by simp
    then show ?thesis using assms(2) stopping by (auto simp: nq_inv_def nq_places_def)
  next
    case (drain k e q)
    have "in_hands s' = in_hands s + {#e#}" using in_hands_upd[of k s s' "DrainDelivering e"] drain by simp
    then show ?thesis using assms(2) drain stop_iff[of k] by (auto simp: nq_inv_def nq_places_def)
  next
    case (drained k e)
    have "in_hands s' + {#e#} = in_hands s" using in_hands_upd[of k s s' Draining] drained by simp
    then show ?thesis using assms(2) drained stop_iff[of k] by (auto simp: nq_inv_def nq_places_def)
  next
    case (exit k)
    have "in_hands s' = in_hands s" using in_hands_upd[of k s s' Exited] exit by simp
    then show ?thesis using assms(2) exit stop_iff[of k] by (auto simp: nq_inv_def nq_places_def)
  qed
qed

lemma shutdown_inv: "shutdownDispatcher s s' \<Longrightarrow> nq_inv s \<Longrightarrow> nq_inv s'"
  by (cases rule: shutdownDispatcher.cases) (auto simp: nq_inv_def nq_places_def in_hands_def)

lemma nq_step_inv: "nq_step s s' \<Longrightarrow> nq_inv s \<Longrightarrow> nq_inv s'"
  by (erule nq_stepE) (blast intro: enqueue_inv worker_inv shutdown_inv)+

lemma nq_steps_inv: "nq_steps s s' \<Longrightarrow> nq_inv s \<Longrightarrow> nq_inv s'"
  by (induction rule: rtranclp_induct) (auto intro: nq_step_inv)

section \<open>Draining\<close>

text \<open>No producer is under way and none can begin one that reaches the queue.\<close>

definition quiet :: "nq \<Rightarrow> bool" where
  "quiet s \<longleftrightarrow> nq_closed s \<and> nq_checked s = [] \<and> nq_ready s = [] \<and> (Exited \<in> set (nq_workers s) \<longrightarrow> nq_queue s = [])"

lemma set_updD: "x \<in> set (ws[k := v]) \<Longrightarrow> x = v \<or> x \<in> set ws"
  using set_update_subset_insert[of ws k v] by auto

lemma quiet_step: "nq_step s s' \<Longrightarrow> quiet s \<Longrightarrow> quiet s'"
  by (erule nq_stepE)
     (auto elim!: enqueueE workerE shutdownE simp: quiet_def dest!: set_updD)

lemma quiet_steps: "nq_steps s s' \<Longrightarrow> quiet s \<Longrightarrow> quiet s'"
  by (induction rule: rtranclp_induct) (auto intro: quiet_step)

lemma quiet_at_stop:
  assumes "nq_inv s" "nq_closed s" "\<not> nq_stop s" "nq_checked s = []" "nq_ready s = []"
  shows "quiet s"
proof -
  have "Exited \<notin> set (nq_workers s)" using assms(1,3) by (auto simp: nq_inv_def)
  then show ?thesis using assms by (simp add: quiet_def)
qed

text \<open>What a worker still has to do.\<close>

fun worker_left :: "worker \<Rightarrow> nat" where
  "worker_left Exited = 0"
| "worker_left Draining = 1"
| "worker_left Idle = 2"
| "worker_left (DrainDelivering e) = 2"
| "worker_left (Delivering e) = 3"

definition nq_left :: "nq \<Rightarrow> nat" where
  "nq_left s = 3 * length (nq_queue s) + sum_list (map worker_left (nq_workers s))"

lemma worker_step_left:
  assumes "notifyWorker s s'"
  shows "nq_left s' < nq_left s"
  using assms
proof (cases rule: notifyWorker.cases)
  case (receive k e q)
  then show ?thesis using sum_list_upd[OF receive(2), of worker_left "Delivering e"] by (simp add: nq_left_def)
next
  case (delivered k e)
  then show ?thesis using sum_list_upd[OF delivered(2), of worker_left Idle] by (simp add: nq_left_def)
next
  case (stopping k)
  then show ?thesis using sum_list_upd[OF stopping(2), of worker_left Draining] by (simp add: nq_left_def)
next
  case (drain k e q)
  then show ?thesis using sum_list_upd[OF drain(2), of worker_left "DrainDelivering e"] by (simp add: nq_left_def)
next
  case (drained k e)
  then show ?thesis using sum_list_upd[OF drained(2), of worker_left Draining] by (simp add: nq_left_def)
next
  case (exit k)
  then show ?thesis using sum_list_upd[OF exit(2), of worker_left Exited] by (simp add: nq_left_def)
qed

lemma worker_progress:
  assumes "nq_stop s" "w \<in> set (nq_workers s)" "w \<noteq> Exited"
  shows "\<exists>s'. notifyWorker s s'"
proof -
  obtain k where k: "k < length (nq_workers s)" "nq_workers s ! k = w" using assms(2) by (auto simp: in_set_conv_nth)
  show ?thesis
  proof (cases w)
    case Draining
    then show ?thesis using k notifyWorker.exit notifyWorker.drain by (cases "nq_queue s") blast+
  qed (use k assms notifyWorker.intros in blast)+
qed

section \<open>Properties\<close>

text \<open>
  In every interleaving each notification handed to the scheduler is in exactly one place: with
  its producer, in the queue, with a worker, dispatched, or dropped with a warning. The queue never
  holds more than 64 events and there are never more than two workers.
\<close>

theorem notifications_accounted:
  assumes "nq_steps nq_init s"
  shows "mset (nq_handed s) = mset (nq_checked s) + mset (nq_ready s) + mset (nq_queue s) + in_hands s
           + mset (nq_done s) + mset (nq_dropped s)
       \<and> length (nq_queue s) \<le> 64 \<and> length (nq_workers s) \<le> 2"
  using nq_steps_inv[OF assms nq_init_inv] by (simp add: nq_inv_def nq_places_def notifyQueueSize_def notifyWorkers_def)

text \<open>Events on their way or dispatched.\<close>

definition nq_owed :: "nq \<Rightarrow> event multiset" where
  "nq_owed s = mset (nq_queue s) + in_hands s + mset (nq_done s)"

lemma owed_step:
  assumes "nq_step s s'" "quiet s"
  shows "nq_owed s' = nq_owed s"
  using assms(1)
proof (cases rule: nq_step.cases)
  case producer
  then show ?thesis using assms(2) by (cases rule: enqueueNotification.cases) (auto simp: quiet_def nq_owed_def in_hands_def)
next
  case worker
  then show ?thesis
  proof (cases rule: notifyWorker.cases)
    case (receive k e q)
    then show ?thesis using in_hands_upd[of k s s' "Delivering e"] by (simp add: nq_owed_def)
  next
    case (delivered k e)
    then show ?thesis using in_hands_upd[of k s s' Idle] by (simp add: nq_owed_def)
  next
    case (stopping k)
    then show ?thesis using in_hands_upd[of k s s' Draining] by (simp add: nq_owed_def)
  next
    case (drain k e q)
    then show ?thesis using in_hands_upd[of k s s' "DrainDelivering e"] by (simp add: nq_owed_def)
  next
    case (drained k e)
    then show ?thesis using in_hands_upd[of k s s' Draining] by (simp add: nq_owed_def)
  next
    case (exit k)
    then show ?thesis using in_hands_upd[of k s s' Exited] by (simp add: nq_owed_def)
  qed
next
  case shutdown
  then show ?thesis by (cases rule: shutdownDispatcher.cases) (auto simp: nq_owed_def in_hands_def)
qed

lemma owed_steps: "nq_steps s s' \<Longrightarrow> quiet s \<Longrightarrow> nq_owed s' = nq_owed s"
  by (induction rule: rtranclp_induct) (auto simp: owed_step quiet_steps)

text \<open>A shutdown that came back without its timeout found every worker gone, and they stay gone.\<close>

lemma mover_not_exited: "notifyWorker s s' \<Longrightarrow> \<exists>w\<in>set (nq_workers s). w \<noteq> Exited"
  by (erule workerE) (metis nth_mem worker.distinct)+

lemma drained_step:
  "nq_step s s' \<Longrightarrow> quiet s \<Longrightarrow> nq_wait s = Drained \<longrightarrow> (\<forall>w\<in>set (nq_workers s). w = Exited) \<Longrightarrow>
     nq_wait s' = Drained \<longrightarrow> (\<forall>w\<in>set (nq_workers s'). w = Exited)"
proof (erule nq_stepE)
  assume "notifyWorker s s'" and q: "nq_wait s = Drained \<longrightarrow> (\<forall>w\<in>set (nq_workers s). w = Exited)"
  then have "nq_wait s \<noteq> Drained" using mover_not_exited by blast
  with \<open>notifyWorker s s'\<close> show ?thesis by (auto elim!: workerE)
qed (auto elim!: enqueueE shutdownE simp: quiet_def)

lemma drained_steps:
  "nq_steps s s' \<Longrightarrow> quiet s \<Longrightarrow> nq_wait s = Drained \<longrightarrow> (\<forall>w\<in>set (nq_workers s). w = Exited) \<Longrightarrow>
     nq_wait s' = Drained \<longrightarrow> (\<forall>w\<in>set (nq_workers s'). w = Exited)"
  by (induction rule: rtranclp_induct) (auto dest: drained_step quiet_steps)

lemma not_waiting_step:
  "nq_step s s' \<Longrightarrow> (\<not> nq_stop s \<longrightarrow> nq_wait s = NotCalled) \<Longrightarrow> (\<not> nq_stop s' \<longrightarrow> nq_wait s' = NotCalled)"
  by (erule nq_stepE) (auto elim!: enqueueE workerE shutdownE)

lemma not_waiting: "nq_steps nq_init s \<Longrightarrow> \<not> nq_stop s \<longrightarrow> nq_wait s = NotCalled"
  by (induction rule: rtranclp_induct) (auto simp: nq_init_def dest: not_waiting_step)

text \<open>Runs of the workers alone.\<close>

lemma worker_runs_end: "(notifyWorker ^^ n) s s' \<Longrightarrow> n + nq_left s' \<le> nq_left s"
proof (induction n arbitrary: s')
  case (Suc n)
  then obtain t where t: "(notifyWorker ^^ n) s t" "notifyWorker t s'" by auto
  show ?case using Suc.IH[OF t(1)] worker_step_left[OF t(2)] by simp
qed simp

lemma exited_owed:
  assumes "nq_inv s" "quiet s" "\<forall>w\<in>set (nq_workers s). w = Exited"
  shows "nq_owed s = mset (nq_done s)" and "nq_queue s = []"
proof -
  have "in_hands s = {#}" using assms(3) by (auto simp: in_hands_def)
  moreover have "nq_queue s = []"
  proof (cases "nq_workers s = []")
    case True
    then show ?thesis using assms(1) by (simp add: nq_inv_def)
  next
    case False
    then have "Exited \<in> set (nq_workers s)" using assms(3) by (metis hd_in_set)
    then show ?thesis using assms(2) by (simp add: quiet_def)
  qed
  ultimately show "nq_owed s = mset (nq_done s)" "nq_queue s = []" by (simp_all add: nq_owed_def)
qed


lemma stuck_step:
  assumes "nq_step s s'" "nq_workers s = [Exited, Exited] \<and> nq_done s = [] \<and> (\<exists>q. nq_queue s = e # q)"
  shows "nq_workers s' = [Exited, Exited] \<and> nq_done s' = [] \<and> (\<exists>q. nq_queue s' = e # q)"
  using assms by (elim nq_stepE) (auto elim!: enqueueE workerE shutdownE simp: less_Suc_eq)

lemma stuck_steps:
  "nq_steps s s' \<Longrightarrow> nq_workers s = [Exited, Exited] \<and> nq_done s = [] \<and> (\<exists>q. nq_queue s = e # q) \<Longrightarrow>
     nq_workers s' = [Exited, Exited] \<and> nq_done s' = [] \<and> (\<exists>q. nq_queue s' = e # q)"
  by (induction rule: rtranclp_induct) (auto dest: stuck_step)

text \<open>
  The check of \<open>notifyClosed\<close> does not close the gap that its comment claims: a producer that read
  it before the shutdown can send after both workers have exited. Its event then stays in the queue
  forever, neither dispatched nor dropped with a warning.
\<close>

theorem late_event_lost_silently:
  "\<exists>s. nq_steps nq_init s \<and> nq_closed s \<and> nq_stop s \<and> nq_handed s = [e]
     \<and> (\<forall>s'. nq_steps s s' \<longrightarrow> e \<in> set (nq_queue s') \<and> nq_done s' = []) \<and> nq_dropped s = []"
proof -
  let ?s = "\<lambda>q c st ws ch rd. \<lparr>nq_queue = q, nq_closed = c, nq_stop = st, nq_workers = ws, nq_checked = ch,
     nq_ready = rd, nq_done = [], nq_dropped = [], nq_handed = [e], nq_wait = (if st then Waiting else NotCalled)\<rparr>"
  have a: "nq_step nq_init (?s [] False False [] [e] [])"
    using producer[OF checked[of nq_init e]] by (simp add: nq_init_def)
  have b: "nq_step (?s [] False False [] [e] []) (?s [] True False [] [e] [])"
    using shutdown[OF closed[of "?s [] False False [] [e] []"]] by simp
  have c: "nq_step (?s [] True False [] [e] []) (?s [] True True [] [e] [])"
    using shutdown[OF stop[of "?s [] True False [] [e] []"]] by simp
  have d: "nq_step (?s [] True True [] [e] []) (?s [] True True [Idle, Idle] [] [e])"
    using producer[OF started[of "?s [] True True [] [e] []" "[]" e "[]"]]
    by (simp add: startDispatcher_def notifyWorkers_def numeral_2_eq_2)
  have f: "nq_step (?s [] True True [Idle, w] [] [e]) (?s [] True True [Draining, w] [] [e])" for w
    using worker[OF stopping[of 0 "?s [] True True [Idle, w] [] [e]"]] by simp
  have g: "nq_step (?s [] True True [Draining, w] [] [e]) (?s [] True True [Exited, w] [] [e])" for w
    using worker[OF exit[of 0 "?s [] True True [Draining, w] [] [e]"]] by simp
  have h: "nq_step (?s [] True True [Exited, Idle] [] [e]) (?s [] True True [Exited, Draining] [] [e])"
    using worker[OF stopping[of 1 "?s [] True True [Exited, Idle] [] [e]"]] by simp
  have i: "nq_step (?s [] True True [Exited, Draining] [] [e]) (?s [] True True [Exited, Exited] [] [e])"
    using worker[OF exit[of 1 "?s [] True True [Exited, Draining] [] [e]"]] by simp
  have j: "nq_step (?s [] True True [Exited, Exited] [] [e]) (?s [e] True True [Exited, Exited] [] [])"
    using producer[OF sent[of "?s [] True True [Exited, Exited] [] [e]" "[]" e "[]"]] by (simp add: notifyQueueSize_def)
  have "nq_steps nq_init (?s [e] True True [Exited, Exited] [] [])"
    using a b c d f[of Idle] g[of Idle] h i j by (meson rtranclp.rtrancl_into_rtrancl rtranclp.rtrancl_refl)
  moreover have "e \<in> set (nq_queue s') \<and> nq_done s' = []" if "nq_steps (?s [e] True True [Exited, Exited] [] []) s'" for s'
    using stuck_steps[OF that, of e] by auto
  ultimately show ?thesis by (intro exI[of _ "?s [e] True True [Exited, Exited] [] []"]) simp
qed

section \<open>Witnesses\<close>

definition ping :: event where
  "ping = \<lparr>ev_job = ''web'', ev_status = ''success'', ev_server = [], ev_snapshot = [], ev_duration = 0, ev_error = [],
     ev_time = 0, ev_untracked = False, ev_kind = [], ev_steps = [], ev_warnings = [], ev_pending = []\<rparr>"

text \<open>One event, sent before the shutdown and dispatched during the drain.\<close>

abbreviation ping_state :: "event list \<Rightarrow> bool \<Rightarrow> bool \<Rightarrow> worker list \<Rightarrow> event list \<Rightarrow> event list \<Rightarrow> event list \<Rightarrow> nq" where
  "ping_state q c st ws ch rd dn \<equiv> \<lparr>nq_queue = q, nq_closed = c, nq_stop = st, nq_workers = ws, nq_checked = ch,
     nq_ready = rd, nq_done = dn, nq_dropped = [], nq_handed = [ping], nq_wait = (if st then Waiting else NotCalled)\<rparr>"

lemma ping_sent: "nq_steps nq_init (ping_state [ping] True False [Idle, Idle] [] [] [])"
proof -
  have "nq_step nq_init (ping_state [] False False [] [ping] [] [])"
    using producer[OF checked[of nq_init ping]] by (simp add: nq_init_def)
  moreover have "nq_step (ping_state [] False False [] [ping] [] []) (ping_state [] False False [Idle, Idle] [] [ping] [])"
    using producer[OF started[of "ping_state [] False False [] [ping] [] []" "[]" ping "[]"]]
    by (simp add: startDispatcher_def notifyWorkers_def numeral_2_eq_2)
  moreover have "nq_step (ping_state [] False False [Idle, Idle] [] [ping] []) (ping_state [ping] False False [Idle, Idle] [] [] [])"
    using producer[OF sent[of "ping_state [] False False [Idle, Idle] [] [ping] []" "[]" ping "[]"]] by (simp add: notifyQueueSize_def)
  moreover have "nq_step (ping_state [ping] False False [Idle, Idle] [] [] []) (ping_state [ping] True False [Idle, Idle] [] [] [])"
    using shutdown[OF closed[of "ping_state [ping] False False [Idle, Idle] [] [] []"]] by simp
  ultimately show ?thesis by (meson rtranclp.rtrancl_into_rtrancl rtranclp.rtrancl_refl)
qed

lemma ping_drained: "nq_steps (ping_state [ping] True False [Idle, Idle] [] [] []) (ping_state [] True True [Exited, Exited] [] [] [ping])"
proof -
  have "nq_step (ping_state [ping] True False [Idle, Idle] [] [] []) (ping_state [ping] True True [Idle, Idle] [] [] [])"
    using shutdown[OF stop[of "ping_state [ping] True False [Idle, Idle] [] [] []"]] by simp
  moreover have "nq_step (ping_state [ping] True True [Idle, Idle] [] [] []) (ping_state [] True True [Delivering ping, Idle] [] [] [])"
    using worker[OF receive[of 0 "ping_state [ping] True True [Idle, Idle] [] [] []" ping "[]"]] by simp
  moreover have "nq_step (ping_state [] True True [Delivering ping, Idle] [] [] []) (ping_state [] True True [Idle, Idle] [] [] [ping])"
    using worker[OF delivered[of 0 "ping_state [] True True [Delivering ping, Idle] [] [] []" ping]] by simp
  moreover have "nq_step (ping_state [] True True [Idle, Idle] [] [] [ping]) (ping_state [] True True [Draining, Idle] [] [] [ping])"
    using worker[OF stopping[of 0 "ping_state [] True True [Idle, Idle] [] [] [ping]"]] by simp
  moreover have "nq_step (ping_state [] True True [Draining, Idle] [] [] [ping]) (ping_state [] True True [Exited, Idle] [] [] [ping])"
    using worker[OF exit[of 0 "ping_state [] True True [Draining, Idle] [] [] [ping]"]] by simp
  moreover have "nq_step (ping_state [] True True [Exited, Idle] [] [] [ping]) (ping_state [] True True [Exited, Draining] [] [] [ping])"
    using worker[OF stopping[of 1 "ping_state [] True True [Exited, Idle] [] [] [ping]"]] by simp
  moreover have "nq_step (ping_state [] True True [Exited, Draining] [] [] [ping]) (ping_state [] True True [Exited, Exited] [] [] [ping])"
    using worker[OF exit[of 1 "ping_state [] True True [Exited, Draining] [] [] [ping]"]] by simp
  ultimately show ?thesis by (meson rtranclp.rtrancl_into_rtrancl rtranclp.rtrancl_refl)
qed

theorem notifications_accounted_witness: "length (nq_queue (ping_state [ping] True False [Idle, Idle] [] [] [])) \<le> 64"
  using notifications_accounted[OF ping_sent] by blast


theorem late_event_lost_silently_witness: "\<exists>s. nq_steps nq_init s \<and> nq_handed s = [ping] \<and> nq_done s = [] \<and> nq_dropped s = []"
  using late_event_lost_silently[of ping] by blast

end
