(* ===== verification/DockerScripts.thy ===== *)
theory DockerScripts
  imports Script
begin

text \<open>
  The shell scripts of package \<open>internal/docker\<close>: database dumps and imports (\<open>dump.go\<close>), the generic
  start of restored services (\<open>autostart.go\<close>) and the volume archives (\<open>manifest.go\<close>), as the text
  the code writes. Their safety is stated with the quoting automaton of theory \<open>Shellquote\<close>.
\<close>

section \<open>Database dumps\<close>

definition ErrUnsupportedDatabaseEngine :: sentinel where
  "ErrUnsupportedDatabaseEngine = ''unsupported database engine (supported: 'mysql', 'postgres')''"

definition ErrEmptyContainerName :: sentinel where
  "ErrEmptyContainerName = ''container name cannot be empty''"

definition ErrEmptyDumpPath :: sentinel where
  "ErrEmptyDumpPath = ''dump path cannot be empty''"

datatype db_engine = EngineMySQL | EnginePostgres

definition engine_name :: "db_engine \<Rightarrow> string" where
  "engine_name e = (case e of EngineMySQL \<Rightarrow> ''mysql'' | EnginePostgres \<Rightarrow> ''postgres'')"

definition NormalizeDatabaseEngine :: "string \<Rightarrow> db_engine res" where
  "NormalizeDatabaseEngine engine =
     (let norm = trim_space (to_lower engine)
      in if norm = ''mysql'' \<or> norm = ''mariadb'' then Inr EngineMySQL
         else if norm = ''postgres'' \<or> norm = ''postgresql'' then Inr EnginePostgres
         else Inl (wrap [] (sentinel_error ErrUnsupportedDatabaseEngine) ('': '' @ go_quote engine)))"

definition DumpFileName :: "string \<Rightarrow> string" where
  "DumpFileName name = (let clean = trim_space name in (if clean = [] then ''database'' else clean) @ ''.sql.gz'')"

definition validateScriptInputs :: "string \<Rightarrow> string \<Rightarrow> string \<Rightarrow> (db_engine \<times> string \<times> string) res" where
  "validateScriptInputs engine containerName p =
     (case NormalizeDatabaseEngine engine of
        Inl e \<Rightarrow> Inl e
      | Inr eng \<Rightarrow>
          (let cName = trim_space containerName; cleanPath = trim_space p
           in if cName = [] then Inl (sentinel_error ErrEmptyContainerName)
              else if CHR 0x0D \<in> set cName \<or> CHR 0x0A \<in> set cName
              then Inl (errors_new ''invalid container name: cannot contain newlines'')
              else if cleanPath = [] then Inl (sentinel_error ErrEmptyDumpPath)
              else Inr (eng, cName, cleanPath)))"

definition bashPrologue :: string where
  "bashPrologue = lines_text [''#!/usr/bin/env bash'', ''set -euo pipefail'', []]"

definition mysql_dump :: "string \<Rightarrow> string \<Rightarrow> string" where
  "mysql_dump c dst =
     lines_text
      [''# Dump MySQL/MariaDB database container '' @ c,
       ''docker exec '' @ quote c @ '' sh -c '' @ [squote],
       ''  user=\"${MYSQL_USER:-root}\"'',
       ''  export MYSQL_PWD=\"${MYSQL_ROOT_PASSWORD:-${MARIADB_ROOT_PASSWORD:-${MYSQL_PASSWORD:-}}}\"'',
       ''  mysqldump --single-transaction --quick -u \"$user\" --all-databases'',
       [squote] @ '' | gzip > '' @ quote dst,
       ''chmod 0600 '' @ quote dst]"

definition postgres_dump :: "string \<Rightarrow> string \<Rightarrow> string" where
  "postgres_dump c dst =
     lines_text
      [''# Dump PostgreSQL database container '' @ c,
       ''docker exec '' @ quote c @ '' sh -c '' @ [squote],
       ''  export PGPASSWORD=\"${POSTGRES_PASSWORD:-}\"'',
       ''  pg_dumpall -U \"${POSTGRES_USER:-postgres}\"'',
       [squote] @ '' | gzip > '' @ quote dst,
       ''chmod 0600 '' @ quote dst]"

definition BuildDumpScript :: "string \<Rightarrow> string \<Rightarrow> string \<Rightarrow> string res" where
  "BuildDumpScript engine containerName destPath =
     (case validateScriptInputs engine containerName destPath of
        Inl e \<Rightarrow> Inl e
      | Inr (eng, c, dst) \<Rightarrow>
          (let dir = path_dir (replace_all [CHR 0x5C] ''/'' dst)
           in Inr (bashPrologue @ line (''mkdir -p '' @ quote dir) @ line []
                @ (case eng of EngineMySQL \<Rightarrow> mysql_dump c dst | EnginePostgres \<Rightarrow> postgres_dump c dst))))"

section \<open>Database imports\<close>

definition missing_dump_line :: "string \<Rightarrow> string" where
  "missing_dump_line src = ''  echo \"Error: Database dump file '' @ quote src @ '' not found on target system.\" >&2''"

definition dump_check :: "string \<Rightarrow> string" where
  "dump_check src =
     lines_text
      [''if [ ! -f '' @ quote src @ '' ]; then'',
       missing_dump_line src,
       ''  exit 1'',
       ''fi'',
       []]"

definition mysql_import :: "string \<Rightarrow> string \<Rightarrow> string" where
  "mysql_import c src =
     lines_text
      [''# Wait for MySQL container '' @ c @ '' to accept connections'',
       ''echo \"Waiting for MySQL in container \" '' @ quote c @ '' \" to become ready...\"'',
       ''ready=0'',
       ''for i in $(seq 1 60); do'',
       ''  if docker exec '' @ quote c @ '' sh -c '' @ [squote],
       ''    user=\"${MYSQL_USER:-root}\"'',
       ''    export MYSQL_PWD=\"${MYSQL_ROOT_PASSWORD:-${MARIADB_ROOT_PASSWORD:-${MYSQL_PASSWORD:-}}}\"'',
       ''    mysqladmin ping -u \"$user\" --silent'',
       ''  ' >/dev/null 2>&1; then'',
       ''    ready=1'',
       ''    break'',
       ''  fi'',
       ''  sleep 2'',
       ''done'',
       [],
       ''if [ \"$ready\" -ne 1 ]; then'',
       ''  echo \"Error: Timed out waiting for MySQL container \" '' @ quote c @ '' \" to be ready.\" >&2'',
       ''  exit 1'',
       ''fi'',
       [],
       ''echo \"MySQL is ready. Importing database dump from \" '' @ quote src @ '' \"...\"'',
       ''gunzip -c '' @ quote src @ '' | docker exec -i '' @ quote c @ '' sh -c '' @ [squote],
       ''  user=\"${MYSQL_USER:-root}\"'',
       ''  export MYSQL_PWD=\"${MYSQL_ROOT_PASSWORD:-${MARIADB_ROOT_PASSWORD:-${MYSQL_PASSWORD:-}}}\"'',
       ''  mysql -u \"$user\"'',
       [squote],
       ''echo \"Database import into \" '' @ quote c @ '' \" completed successfully.\"'']"

definition postgres_import :: "string \<Rightarrow> string \<Rightarrow> string" where
  "postgres_import c src =
     lines_text
      [''# Wait for PostgreSQL container '' @ c @ '' to accept connections'',
       ''echo \"Waiting for PostgreSQL in container \" '' @ quote c @ '' \" to become ready...\"'',
       ''ready=0'',
       ''for i in $(seq 1 60); do'',
       ''  if docker exec '' @ quote c @ '' sh -c 'pg_isready -U \"${POSTGRES_USER:-postgres}\"' >/dev/null 2>&1; then'',
       ''    ready=1'',
       ''    break'',
       ''  fi'',
       ''  sleep 2'',
       ''done'',
       [],
       ''if [ \"$ready\" -ne 1 ]; then'',
       ''  echo \"Error: Timed out waiting for PostgreSQL container \" '' @ quote c @ '' \" to be ready.\" >&2'',
       ''  exit 1'',
       ''fi'',
       [],
       ''echo \"PostgreSQL is ready. Importing database dump from \" '' @ quote src @ '' \"...\"'',
       ''gunzip -c '' @ quote src @ '' | docker exec -i '' @ quote c @ '' sh -c '' @ [squote],
       ''  export PGPASSWORD=\"${POSTGRES_PASSWORD:-}\"'',
       ''  psql -U \"${POSTGRES_USER:-postgres}\"'',
       [squote],
       ''echo \"Database import into \" '' @ quote c @ '' \" completed successfully.\"'']"

definition BuildImportScript :: "string \<Rightarrow> string \<Rightarrow> string \<Rightarrow> string res" where
  "BuildImportScript engine containerName srcPath =
     (case validateScriptInputs engine containerName srcPath of
        Inl e \<Rightarrow> Inl e
      | Inr (eng, c, src) \<Rightarrow>
          Inr (bashPrologue @ dump_check src
               @ (case eng of EngineMySQL \<Rightarrow> mysql_import c src | EnginePostgres \<Rightarrow> postgres_import c src)))"

section \<open>Starting restored services\<close>

record autostart_options =
  as_dirs :: "string list"
  as_alias :: string
  as_engine :: string
  as_container :: string
  as_dump :: string

definition autostart_prologue :: string where
  "autostart_prologue =
     lines_text [''#!/usr/bin/env bash'', ''set -euo pipefail'', []] @
     lines_text
      [''# 1. Adaptively detect Docker Compose command'',
       ''if docker compose version >/dev/null 2>&1; then'',
       ''  COMPOSE=\"docker compose\"'',
       ''elif command -v docker-compose >/dev/null 2>&1; then'',
       ''  COMPOSE=\"docker-compose\"'',
       ''else'',
       ''  echo \"Error: Neither 'docker compose' nor 'docker-compose' found on target system. Cannot start container services.\" >&2'',
       ''  exit 127'',
       ''fi'',
       [],
       ''echo \"Using Compose engine: $COMPOSE\"'']"

definition autostart_dir :: "string \<Rightarrow> string" where
  "autostart_dir dir =
     lines_text
      [''if [ -d '' @ quote dir @ '' ]; then'',
       ''  for compose_file in \"compose.yaml\" \"compose.yml\" \"docker-compose.yaml\" \"docker-compose.yml\"; do'',
       ''    if [ -f '' @ quote dir @ ''/\"$compose_file\" ]; then'',
       ''      echo \"Starting services in \" '' @ quote dir @ '' \" using $compose_file...\"'',
       ''      (cd '' @ quote dir @ '' && $COMPOSE -f \"$compose_file\" up -d)'',
       ''      break'',
       ''    fi'',
       ''  done'',
       ''fi'']"

text \<open>The import script without its shebang and \<open>set\<close> lines.\<close>

definition import_body :: "string \<Rightarrow> string" where
  "import_body script =
     trim_chars_left (\<lambda>c. c = CHR 0x0A)
       (join_with [CHR 0x0A]
          (filter (\<lambda>l. \<not> (has_prefix (trim_space l) ''#!'' \<or> has_prefix (trim_space l) ''set -''))
             (split_on (CHR 0x0A) script)))"

definition autostart_import :: "autostart_options \<Rightarrow> string" where
  "autostart_import opts =
     (if as_engine opts \<noteq> [] \<and> as_container opts \<noteq> [] \<and> as_dump opts \<noteq> []
      then (case BuildImportScript (as_engine opts) (as_container opts) (as_dump opts) of
              Inl e \<Rightarrow> []
            | Inr script \<Rightarrow> if script = [] then [] else line [] @ line ''# 3. Database auto-import hook'' @ import_body script)
      else [])"

definition BuildAutoStartScript :: "autostart_options \<Rightarrow> string" where
  "BuildAutoStartScript opts =
     autostart_prologue
     @ (if as_alias opts \<noteq> [] then line (''export COMPOSE_PROJECT_NAME='' @ quote (as_alias opts)) else [])
     @ line [] @ line ''# 2. Start container services in identified project directories''
     @ concat (map autostart_dir (filter (\<lambda>d. d \<noteq> []) (as_dirs opts)))
     @ autostart_import opts
     @ line [] @ line (''echo 'Container startup sequence completed successfully.'' @ [squote])"

section \<open>Volume archives\<close>

definition helperImagePrologue :: string where
  "helperImagePrologue =
     lines_text
      [''HELPER_IMG=\"${OPSPULSE_HELPER_IMAGE:-alpine:3.20}\"'',
       ''if ! docker image inspect \"$HELPER_IMG\" >/dev/null 2>&1; then'',
       ''  if docker image inspect busybox:1.36 >/dev/null 2>&1; then'',
       ''    HELPER_IMG=\"busybox:1.36\"'',
       ''  elif docker image inspect alpine >/dev/null 2>&1; then'',
       ''    HELPER_IMG=\"alpine\"'',
       ''  elif docker image inspect busybox >/dev/null 2>&1; then'',
       ''    HELPER_IMG=\"busybox\"'',
       ''  fi'',
       ''fi'']"

definition archive_command :: "string \<Rightarrow> string" where
  "archive_command file = ''cd /src && tar cpf /dst/'' @ file @ '' .''"

definition BuildVolumeExportScript :: "string \<Rightarrow> string \<Rightarrow> string" where
  "BuildVolumeExportScript volumeName hostArchivePath =
     (let dir = path_dir hostArchivePath; archive = path_base hostArchivePath
      in line (''mkdir -p '' @ quote dir) @ helperImagePrologue
         @ ''docker run --rm -v '' @ quote volumeName @ '':/src:ro -v '' @ quote dir
         @ '':/dst \"$HELPER_IMG\" sh -c '' @ quote (archive_command archive))"

definition extract_command :: "string \<Rightarrow> string" where
  "extract_command file = ''cd /dst && tar xpf /src/'' @ file"

definition BuildVolumeImportScript :: "string \<Rightarrow> string \<Rightarrow> string" where
  "BuildVolumeImportScript volumeName hostArchivePath =
     (let dir = path_dir hostArchivePath; archive = path_base hostArchivePath
      in helperImagePrologue @ line (''docker volume create '' @ quote volumeName @ '' >/dev/null'')
         @ ''docker run --rm -v '' @ quote volumeName @ '':/dst -v '' @ quote dir
         @ '':/src:ro \"$HELPER_IMG\" sh -c '' @ quote (extract_command archive))"

section \<open>Quoting\<close>

lemma autostart_dir_inert: "sh_inert (autostart_dir d)"
  unfolding autostart_dir_def lines_text_def line_def sh_inert_def by (simp add: sh_step_def)

lemma autostart_fixed_inert:
  "sh_inert autostart_prologue" "sh_inert (line [])"
  "sh_inert (line ''# 2. Start container services in identified project directories'')"
  "sh_inert (line (''echo 'Container startup sequence completed successfully.'' @ [squote]))"
  by code_simp+

lemma helper_prologue_inert: "sh_inert helperImagePrologue"
  by code_simp

lemma sh_literal_step: "sh_literal x \<Longrightarrow> sh_step (Unquoted, None) x = Some (Unquoted, None)"
  by (auto simp: sh_literal_def is_alnum_def is_digit_def is_lower_def is_upper_def code_of_def sh_step_def)

lemma sh_literal_inert: "list_all sh_literal a \<Longrightarrow> sh_inert a"
  by (induction a) (simp_all add: sh_inert_def sh_literal_step)

text \<open>
  The generic auto-start script cannot be made to run anything by its data: without a database
  import, whatever the directories and the alias are, its quotes are closed and the shell meets no
  command substitution in it.
\<close>

theorem autostart_script_inert:
  assumes "as_engine opts = [] \<or> as_container opts = [] \<or> as_dump opts = []"
  shows "sh_inert (BuildAutoStartScript opts)"
proof -
  have imp: "autostart_import opts = []" using assms by (auto simp: autostart_import_def)
  have al: "sh_inert (line (''export COMPOSE_PROJECT_NAME='' @ quote (as_alias opts)))"
    unfolding line_def sh_inert_def by (simp add: sh_step_def)
  have dirs: "sh_inert (concat (map autostart_dir (filter (\<lambda>d. d \<noteq> []) (as_dirs opts))))"
    by (rule sh_inert_concat) (auto simp: autostart_dir_inert)
  have fin: "sh_inert (if as_alias opts \<noteq> [] then line (''export COMPOSE_PROJECT_NAME='' @ quote (as_alias opts)) else [])"
    using al by simp
  show ?thesis
    unfolding BuildAutoStartScript_def imp append_Nil
    by (simp only: sh_inert_append autostart_fixed_inert fin dirs)
qed

text \<open>
  The import script is not as careful: its error message puts the single-quoted dump path inside a
  double-quoted \<open>echo\<close> argument, so for a path with \<open>$(\<close> the shell runs the text after it as a
  command when the dump is missing, although the inputs are accepted.
\<close>

theorem import_error_expands:
  assumes "BuildImportScript engine c p = Inr script" "trim_space p = a @ ''$('' @ b"
    and "\<forall>x\<in>set a. x \<noteq> CHR 0x22 \<and> x \<noteq> CHR 0x5C \<and> x \<noteq> squote"
  shows "\<exists>pre post. script = pre @ line (missing_dump_line (a @ ''$('' @ b)) @ post
           \<and> sh_inert pre \<and> sh_expands Unquoted (missing_dump_line (a @ ''$('' @ b))"
proof -
  obtain eng c' src where v: "validateScriptInputs engine c p = Inr (eng, c', src)"
    using assms(1) by (auto simp: BuildImportScript_def split: sum.splits)
  then have src: "src = a @ ''$('' @ b" using assms(2)
    by (auto simp: validateScriptInputs_def Let_def split: sum.splits if_splits)
  have s: "script = (bashPrologue @ line (''if [ ! -f '' @ quote src @ '' ]; then'')) @ line (missing_dump_line src)
      @ (lines_text [''  exit 1'', ''fi'', []] @ (case eng of EngineMySQL \<Rightarrow> mysql_import c' src | EnginePostgres \<Rightarrow> postgres_import c' src))"
    using assms(1) v by (simp add: BuildImportScript_def dump_check_def lines_text_def)
  have pro: "sh_inert bashPrologue" by code_simp
  have "sh_inert (line (''if [ ! -f '' @ quote src @ '' ]; then''))"
    unfolding line_def sh_inert_def by (simp add: sh_step_def)
  then have inert: "sh_inert (bashPrologue @ line (''if [ ! -f '' @ quote src @ '' ]; then''))" using pro by simp
  have "sh_scan (Unquoted, None) ''  echo \"Error: Database dump file '' = Some (DoubleQuoted, None)" by code_simp
  from quote_in_double_quotes[OF this assms(3)] have "sh_expands Unquoted (missing_dump_line src)"
    unfolding missing_dump_line_def src by blast
  then show ?thesis using s inert src by blast
qed

text \<open>
  The volume import hands the archive's file name to a second shell: the script itself is inert for
  the host's shell whatever the volume and the path are, but the command it passes to \<open>sh -c\<close> in the
  helper container is the raw file name after a fixed prefix, so a name with \<open>$(\<close> runs a command there.
\<close>

theorem volume_import_two_shells:
  "sh_inert (BuildVolumeImportScript v p)
   \<and> (\<exists>pre. BuildVolumeImportScript v p = pre @ quote (extract_command (path_base p)) \<and> sh_inert pre
          \<and> sh_read False (quote (extract_command (path_base p))) = Some (extract_command (path_base p), []))
   \<and> (path_base p = a @ ''$('' @ b \<and> list_all sh_literal a \<longrightarrow> sh_expands Unquoted (extract_command (path_base p)))"
proof -
  define pre where "pre = helperImagePrologue @ line (''docker volume create '' @ quote v @ '' >/dev/null'')
         @ ''docker run --rm -v '' @ quote v @ '':/dst -v '' @ quote (path_dir p) @ '':/src:ro \"$HELPER_IMG\" sh -c ''"
  have s: "BuildVolumeImportScript v p = pre @ quote (extract_command (path_base p))"
    by (simp add: BuildVolumeImportScript_def pre_def Let_def)
  have "sh_inert (line (''docker volume create '' @ quote v @ '' >/dev/null''))"
    unfolding line_def sh_inert_def by (simp add: sh_step_def)
  moreover have "sh_inert (''docker run --rm -v '' @ quote v @ '':/dst -v '' @ quote (path_dir p) @ '':/src:ro \"$HELPER_IMG\" sh -c '')"
    unfolding sh_inert_def by (simp add: sh_step_def)
  ultimately have pre: "sh_inert pre" unfolding pre_def using helper_prologue_inert by simp
  have "sh_expands Unquoted (extract_command (path_base p))" if "path_base p = a @ ''$('' @ b" "list_all sh_literal a"
  proof -
    have "sh_inert (''cd /dst && tar xpf /src/'' @ a)"
      using sh_literal_inert[OF that(2)] by (simp add: sh_inert_def sh_step_def)
    then show ?thesis unfolding extract_command_def that(1) append_assoc[symmetric]
      by (simp add: sh_inert_def sh_expands_def sh_scan_append sh_step_def)
  qed
  then show ?thesis using s pre sh_read_quote_end by auto
qed

text \<open>Both names below pass the validation of a manifest.\<close>

theorem autostart_script_inert_witness:
  "sh_inert (BuildAutoStartScript \<lparr>as_dirs = [''/srv/$(id)'', ''it's''], as_alias = ''`id`'', as_engine = [], as_container = [], as_dump = []\<rparr>)"
  by (rule autostart_script_inert) simp

theorem import_error_expands_witness:
  "\<exists>script. BuildImportScript ''mysql'' ''db'' ''/srv/$(id).sql.gz'' = Inr script
     \<and> sh_expands Unquoted (missing_dump_line ''/srv/$(id).sql.gz'')"
proof -
  have v: "validateScriptInputs ''mysql'' ''db'' ''/srv/$(id).sql.gz'' = Inr (EngineMySQL, ''db'', ''/srv/$(id).sql.gz'')"
    by code_simp
  then obtain script where b: "BuildImportScript ''mysql'' ''db'' ''/srv/$(id).sql.gz'' = Inr script"
    by (simp add: BuildImportScript_def)
  have t: "trim_space ''/srv/$(id).sql.gz'' = ''/srv/'' @ ''$('' @ ''id).sql.gz''" by code_simp
  show ?thesis using import_error_expands[OF b t] b by auto
qed

theorem volume_import_two_shells_witness:
  "sh_inert (BuildVolumeImportScript ''data'' ''/p/$(id).tar'') \<and> sh_expands Unquoted (extract_command ''$(id).tar'')"
proof -
  have "path_base ''/p/$(id).tar'' = [] @ ''$('' @ ''id).tar''" by code_simp
  then show ?thesis using volume_import_two_shells[of "''data''" "''/p/$(id).tar''" "[]" "''id).tar''"] by simp
qed

end
