(* ===== verification/Manifest.thy ===== *)
theory Manifest
  imports DockerScripts Paths
begin

text \<open>
  \<open>internal/docker/manifest.go\<close>: the self-describing metadata of a container package, its validation
  and the resolution of its artifact paths below the package root. The YAML codec is the parameter
  \<open>parse_yaml\<close>; a Go \<open>int\<close> is an \<open>int\<close>.
\<close>

section \<open>Locations\<close>

definition ManifestFileName :: string where
  "ManifestFileName = ''manifest.yaml''"

definition ManifestFormatVersion :: int where
  "ManifestFormatVersion = 1"

definition ErrUnsupportedManifestVersion :: sentinel where
  "ErrUnsupportedManifestVersion = ''unsupported container manifest format version''"

definition ErrInvalidManifest :: sentinel where
  "ErrInvalidManifest = ''invalid container manifest''"

definition ScratchDirName :: string where
  "ScratchDirName = ''.opspulse''"

definition ScratchDir :: "string \<Rightarrow> string" where
  "ScratchDir projectDir = path_join [projectDir, ScratchDirName]"

definition ScratchDumpsDir :: "string \<Rightarrow> string" where
  "ScratchDumpsDir projectDir = path_join [ScratchDir projectDir, ''dumps'']"

definition ScratchVolumesDir :: "string \<Rightarrow> string" where
  "ScratchVolumesDir projectDir = path_join [ScratchDir projectDir, ''volumes'']"

definition ManifestPath :: "string \<Rightarrow> string" where
  "ManifestPath projectDir = path_join [ScratchDir projectDir, ManifestFileName]"

definition LegacyManifestPath :: "string \<Rightarrow> string" where
  "LegacyManifestPath projectDir = path_join [projectDir, ManifestFileName]"

section \<open>The manifest\<close>

record manifest_volume =
  mv_name :: string
  mv_archive :: string
  mv_target :: string

record manifest_mount =
  mm_source :: string
  mm_target :: string
  mm_required :: bool
  mm_reason :: string

record manifest_database =
  md_engine :: string
  md_container :: string
  md_dump :: string

record manifest =
  mf_version :: int
  mf_app :: string
  mf_compose :: string
  mf_volumes :: "manifest_volume list"
  mf_mounts :: "manifest_mount list"
  mf_database :: "manifest_database option"

definition invalid_manifest :: "string \<Rightarrow> go_error" where
  "invalid_manifest msg = wrap [] (sentinel_error ErrInvalidManifest) ('': '' @ msg)"

definition hasControlCharacter :: "string \<Rightarrow> bool" where
  "hasControlCharacter value \<longleftrightarrow> list_ex is_control (runes value)"

definition validateManifestField :: "string \<Rightarrow> string \<Rightarrow> go_error option" where
  "validateManifestField name value =
     (if trim_space value = [] then Some (invalid_manifest (name @ '' is required''))
      else if hasControlCharacter value then Some (invalid_manifest (name @ '' contains a control character''))
      else None)"

definition validatePackageRelativePath :: "string \<Rightarrow> string \<Rightarrow> go_error option" where
  "validatePackageRelativePath name value =
     (case validateManifestField name value of
        Some e \<Rightarrow> Some e
      | None \<Rightarrow>
          if has_prefix value ''/'' \<or> has_prefix value [CHR 0x5C]
          then Some (invalid_manifest (name @ '' '' @ go_quote value @ '' must be relative to the package root''))
          else if 2 \<le> length value \<and> value ! 1 = CHR '':''
          then Some (invalid_manifest (name @ '' '' @ go_quote value @ '' must not contain a drive prefix''))
          else (let normalized = replace_all [CHR 0x5C] ''/'' value
                in if path_is_abs normalized \<or> path_clean normalized \<noteq> normalized \<or> normalized = ''.'' \<or> normalized = ''..''
                      \<or> has_prefix normalized ''../'' \<or> contains_str normalized ''/../''
                   then Some (invalid_manifest (name @ '' '' @ go_quote value @ '' must be a clean path inside the package''))
                   else None))"

definition normalizeManifestEngine :: "string \<Rightarrow> db_engine res" where
  "normalizeManifestEngine engine =
     (case NormalizeDatabaseEngine engine of
        Inl e \<Rightarrow> Inl (invalid_manifest (''database.engine: '' @ err_text e))
      | Inr n \<Rightarrow> Inr n)"

definition volume_field :: "nat \<Rightarrow> string \<Rightarrow> string" where
  "volume_field i f = ''volumes['' @ show_nat i @ ''].'' @ f"

definition mount_field :: "nat \<Rightarrow> string \<Rightarrow> string" where
  "mount_field i f = ''external_mounts['' @ show_nat i @ ''].'' @ f"

definition check_volume :: "nat \<Rightarrow> manifest_volume \<Rightarrow> go_error option" where
  "check_volume i v =
     first_some
       [validateManifestField (volume_field i ''original_name'') (mv_name v),
        if trim_space (mv_archive v) = [] then Some (invalid_manifest (volume_field i ''archive'' @ '' is required'')) else None,
        validatePackageRelativePath (volume_field i ''archive'') (mv_archive v),
        validateManifestField (volume_field i ''target'') (mv_target v)]"

definition check_mount :: "nat \<Rightarrow> manifest_mount \<Rightarrow> go_error option" where
  "check_mount i em =
     first_some
       [validateManifestField (mount_field i ''source'') (mm_source em),
        validateManifestField (mount_field i ''target'') (mm_target em),
        if hasControlCharacter (mm_reason em)
        then Some (invalid_manifest (mount_field i ''reason'' @ '' contains a control character'')) else None]"

definition check_database :: "manifest_database \<Rightarrow> go_error option" where
  "check_database d =
     (case normalizeManifestEngine (md_engine d) of
        Inl e \<Rightarrow> Some e
      | Inr n \<Rightarrow>
          first_some
            [validateManifestField ''database.container'' (md_container d),
             if md_dump d \<noteq> [] then validatePackageRelativePath ''database.dump'' (md_dump d) else None])"

fun check_indexed :: "(nat \<Rightarrow> 'a \<Rightarrow> go_error option) \<Rightarrow> nat \<Rightarrow> 'a list \<Rightarrow> go_error option" where
  "check_indexed f i [] = None"
| "check_indexed f i (x # xs) = (case f i x of Some e \<Rightarrow> Some e | None \<Rightarrow> check_indexed f (i + 1) xs)"

definition manifest_validate :: "manifest \<Rightarrow> go_error option" where
  "manifest_validate m =
     (if mf_version m \<noteq> ManifestFormatVersion
      then Some (wrap [] (sentinel_error ErrUnsupportedManifestVersion)
             ('': got '' @ show_int (mf_version m) @ '', want '' @ show_int ManifestFormatVersion))
      else first_some
             [validateManifestField ''app'' (mf_app m),
              if trim_space (mf_compose m) = [] then Some (invalid_manifest ''compose_file is required'') else None,
              validatePackageRelativePath ''compose_file'' (mf_compose m),
              check_indexed check_volume 0 (mf_volumes m),
              check_indexed check_mount 0 (mf_mounts m),
              case mf_database m of None \<Rightarrow> None | Some d \<Rightarrow> check_database d])"

definition UnmarshalManifest :: "(string \<Rightarrow> manifest res) \<Rightarrow> string \<Rightarrow> manifest res" where
  "UnmarshalManifest parse_yaml bytes =
     (case parse_yaml bytes of
        Inl e \<Rightarrow> Inl (wrap ''unmarshal manifest: '' e [])
      | Inr m \<Rightarrow> res_of (manifest_validate m) m)"

definition MarshalManifest :: "(manifest \<Rightarrow> string res) \<Rightarrow> manifest \<Rightarrow> string res" where
  "MarshalManifest show_yaml m =
     (case show_yaml m of Inl e \<Rightarrow> Inl (wrap ''marshal manifest: '' e []) | Inr s \<Rightarrow> Inr s)"

section \<open>Resolution\<close>

definition isWithinRoot :: "string \<Rightarrow> string \<Rightarrow> bool" where
  "isWithinRoot troot candidate =
     (case path_rel troot candidate of
        None \<Rightarrow> False
      | Some rel \<Rightarrow> rel \<noteq> ''..'' \<and> \<not> has_prefix rel ''../'' \<and> \<not> path_is_abs rel)"

definition ResolvePath :: "string \<Rightarrow> string \<Rightarrow> string \<Rightarrow> string res" where
  "ResolvePath troot name relative =
     (case validatePackageRelativePath name relative of
        Some e \<Rightarrow> Inl e
      | None \<Rightarrow>
          (let cleanRoot = path_clean troot; resolved = path_clean (path_join [cleanRoot, relative])
           in if \<not> isWithinRoot cleanRoot resolved
              then Inl (invalid_manifest (name @ '' '' @ go_quote relative @ '' escapes package root '' @ go_quote troot))
              else Inr resolved))"

definition ResolveVolumeArchive :: "manifest \<Rightarrow> string \<Rightarrow> int \<Rightarrow> string res" where
  "ResolveVolumeArchive m troot index =
     (if index < 0 \<or> int (length (mf_volumes m)) \<le> index
      then Inl (invalid_manifest (''volume index '' @ show_int index @ '' out of range''))
      else ResolvePath troot (''volumes['' @ show_int index @ ''].archive'') (mv_archive (mf_volumes m ! nat index)))"

definition ResolveDatabaseDump :: "manifest \<Rightarrow> string \<Rightarrow> string res" where
  "ResolveDatabaseDump m troot =
     (case mf_database m of
        None \<Rightarrow> Inl (invalid_manifest ''database section is missing'')
      | Some d \<Rightarrow> ResolvePath troot ''database.dump'' (md_dump d))"

section \<open>Clean relative paths\<close>

text \<open>The elements of a cleaned relative path: parents first, plain elements after them.\<close>

lemma clean_comps_relative:
  assumes "\<forall>c\<in>set cs. slash \<notin> set c" "acc = as @ replicate k ''..''" "\<forall>c\<in>set as. plain c"
  shows "\<exists>k' bs. clean_comps False acc cs = replicate k' ''..'' @ bs \<and> (\<forall>c\<in>set bs. plain c)"
  using assms
proof (induction cs arbitrary: acc as k)
  case Nil
  then show ?case by (intro exI[of _ k] exI[of _ "rev as"]) simp
next
  case (Cons c cs)
  have free: "\<forall>c\<in>set cs. slash \<notin> set c" using Cons.prems(1) by simp
  consider "c = [] \<or> c = ''.''" | "c = ''..''" "as = []" | a as' where "c = ''..''" "as = a # as'" | "plain c"
    using Cons.prems(1) by (cases as) (auto simp: plain_def)
  then show ?case
  proof cases
    case 1
    then show ?thesis using Cons.IH[OF free Cons.prems(2,3)] by auto
  next
    case 2
    have "clean_comps False acc (c # cs) = clean_comps False (replicate (Suc k) ''..'') cs"
      using 2 Cons.prems(2) by (cases k) auto
    then show ?thesis using Cons.IH[OF free, of "replicate (Suc k) ''..''" "[]" "Suc k"] by simp
  next
    case (3 a as')
    then have "clean_comps False acc (c # cs) = clean_comps False (as' @ replicate k ''..'') cs"
      using Cons.prems(2,3) by (auto simp: plain_def)
    then show ?thesis using Cons.IH[OF free, of _ as' k] 3 Cons.prems(3) by simp
  next
    case 4
    have "clean_comps False acc (c # cs) = clean_comps False (c # acc) cs" using clean_comps_step[OF 4] .
    then show ?thesis using Cons.IH[OF free, of "c # acc" "c # as" k] Cons.prems(2,3) 4 by simp
  qed
qed

lemma clean_relative_elems:
  assumes "path_clean n = n" "\<not> is_rooted n" "n \<noteq> ''.''" "n \<noteq> ''..''" "\<not> has_prefix n ''../''"
  shows "\<forall>c\<in>set (split_on slash n). plain c"
proof -
  obtain k bs where c: "clean_comps False [] (split_on slash n) = replicate k ''..'' @ bs" "\<forall>c\<in>set bs. plain c"
    using clean_comps_relative[of "split_on slash n" "[]" "[]" 0] by (auto dest: split_on_no_sep)
  let ?st = "replicate k ''..'' @ bs"
  have ne: "?st \<noteq> []" using assms(1,2,3) c by (auto simp: path_clean_def Let_def)
  have j: "join_with ''/'' ?st = n" using assms(1,2) c ne by (auto simp: path_clean_def Let_def)
  have "k = 0"
  proof (rule ccontr)
    assume "k \<noteq> 0"
    then obtain rest where "?st = ''..'' # rest" by (cases k) auto
    then have "n = ''..'' \<or> has_prefix n ''../''" using j by (cases rest) (auto simp: has_prefix_iff)
    then show False using assms(4,5) by blast
  qed
  then have "split_on slash n = bs" using j ne c(2) split_on_join_plain[of bs] by (simp add: plain_no_slash)
  then show ?thesis using c(2) by simp
qed

text \<open>Turning backslashes into separators only refines the elements.\<close>

lemma split_on_replace:
  assumes "b \<noteq> s"
  shows "split_on s (replace_all [b] [s] v) = concat (map (\<lambda>t. split_on s (replace_all [b] [s] t)) (split_on s v))"
proof (induction v)
  case (Cons x xs)
  obtain y ys where y: "split_on s xs = y # ys" by (cases "split_on s xs") auto
  obtain z zs where z: "split_on s (replace_all [b] [s] y) = z # zs" by (cases "split_on s (replace_all [b] [s] y)") auto
  show ?case using Cons y z assms by (auto split: list.split)
qed simp

lemma package_path_elems:
  assumes "validatePackageRelativePath name v = None"
  shows "\<forall>c\<in>set (split_on slash v). plain c"
proof
  let ?n = "replace_all [CHR 0x5C] ''/'' v"
  fix c assume c: "c \<in> set (split_on slash v)"
  have "path_clean ?n = ?n" "\<not> is_rooted ?n" "?n \<noteq> ''.''" "?n \<noteq> ''..''" "\<not> has_prefix ?n ''../''"
    using assms by (auto simp: validatePackageRelativePath_def path_is_abs_def Let_def split: option.splits if_splits)
  then have plain: "\<forall>d\<in>set (split_on slash ?n). plain d" by (rule clean_relative_elems)
  have free: "slash \<notin> set c" using c by (rule split_on_no_sep)
  show "plain c"
  proof (rule ccontr)
    assume "\<not> plain c"
    then have "CHR 0x5C \<notin> set c" using free by (auto simp: plain_def)
    then have "split_on slash (replace_all [CHR 0x5C] ''/'' c) = [c]"
      using free by (simp add: replace_char_id split_on_free)
    then have "c \<in> set (split_on slash ?n)"
      using c by (subst split_on_replace) force+
    then show False using plain \<open>\<not> plain c\<close> by blast
  qed
qed

lemma resolve_path_elems:
  assumes "validatePackageRelativePath name v = None" "is_rooted troot"
  shows "ResolvePath troot name v = Inr (abs_path (clean_elems troot @ split_on slash v))"
proof -
  note plain = package_path_elems[OF assms(1)]
  note root = clean_elems_plain[of troot]
  have ne: "v \<noteq> []" using assms(1) by (auto simp: validatePackageRelativePath_def validateManifestField_def)
  have cr: "path_clean troot = abs_path (clean_elems troot)" by (rule path_clean_rooted[OF assms(2)])
  have j: "path_join [abs_path (clean_elems troot), v] = abs_path (clean_elems troot @ split_on slash v)"
    unfolding path_join_abs_any[OF root ne] clean_comps_plain[OF plain] by simp
  have all: "\<forall>c\<in>set (clean_elems troot @ split_on slash v). plain c" using plain root by auto
  have rel: "path_rel (abs_path (clean_elems troot)) (abs_path (clean_elems troot @ split_on slash v)) = Some v"
    unfolding path_rel_below[OF root plain split_on_nonempty] using join_split_on[of slash v] by simp
  obtain c cs where c: "split_on slash v = c # cs" "plain c" using plain by (cases "split_on slash v") auto
  have "v \<noteq> ''..''" using c by (auto simp: plain_def)
  moreover have "\<not> has_prefix v ''../''"
  proof
    assume "has_prefix v ''../''"
    then obtain r where "v = ''..'' @ slash # r" by (auto simp: has_prefix_iff)
    then have "split_on slash v = ''..'' # split_on slash r" using split_on_append[of slash "''..''" r] by simp
    then show False using c by (simp add: plain_def)
  qed
  moreover have "\<not> path_is_abs v" using c by (cases v) (auto simp: path_is_abs_def plain_def)
  ultimately have "isWithinRoot (abs_path (clean_elems troot)) (abs_path (clean_elems troot @ split_on slash v))"
    by (simp add: isWithinRoot_def rel)
  then show ?thesis
    unfolding ResolvePath_def assms(1) option.case Let_def cr j path_clean_abs_path[OF all] by simp
qed

lemma resolve_path_below:
  assumes "ResolvePath troot name v = Inr r" "is_rooted troot"
  shows "clean_elems r = clean_elems troot @ split_on slash v \<and> has_path_prefix r (path_clean troot) \<and> r \<noteq> path_clean troot"
proof -
  have v: "validatePackageRelativePath name v = None"
    using assms(1) by (auto simp: ResolvePath_def split: option.splits)
  have all: "\<forall>c\<in>set (clean_elems troot @ split_on slash v). plain c"
    using package_path_elems[OF v] clean_elems_plain by auto
  have r: "r = abs_path (clean_elems troot @ split_on slash v)"
    using resolve_path_elems[OF v assms(2)] assms(1) by simp
  have pre: "has_path_prefix r (path_clean troot)"
    unfolding r path_clean_rooted[OF assms(2)] using has_path_prefix_elems[OF all clean_elems_plain] by blast
  have ce: "clean_elems r = clean_elems troot @ split_on slash v" unfolding r by (rule clean_elems_abs_path[OF all])
  have "clean_elems (path_clean troot) = clean_elems troot"
    unfolding path_clean_rooted[OF assms(2)] by (rule clean_elems_abs_path[OF clean_elems_plain])
  then have "r \<noteq> path_clean troot" using ce by auto
  with pre ce show ?thesis by blast
qed

lemma check_indexed_None: "check_indexed f i xs = None \<Longrightarrow> k < length xs \<Longrightarrow> f (i + k) (xs ! k) = None"
proof (induction xs arbitrary: i k)
  case (Cons x xs)
  have "f i x = None" "check_indexed f (i + 1) xs = None" using Cons.prems(1) by (auto split: option.splits)
  then show ?case using Cons.IH[of "i + 1" "k - 1"] Cons.prems(2) by (cases k) auto
qed simp

lemma manifest_validate_None:
  assumes "manifest_validate m = None"
  shows "mf_version m = 1" "validateManifestField ''app'' (mf_app m) = None"
    and "validatePackageRelativePath ''compose_file'' (mf_compose m) = None"
    and "k < length (mf_volumes m) \<Longrightarrow> check_volume k (mf_volumes m ! k) = None"
    and "mf_database m = Some d \<Longrightarrow> check_database d = None"
proof -
  show "mf_version m = 1" using assms by (auto simp: manifest_validate_def ManifestFormatVersion_def split: if_splits)
  then have "first_some
             [validateManifestField ''app'' (mf_app m),
              if trim_space (mf_compose m) = [] then Some (invalid_manifest ''compose_file is required'') else None,
              validatePackageRelativePath ''compose_file'' (mf_compose m),
              check_indexed check_volume 0 (mf_volumes m),
              check_indexed check_mount 0 (mf_mounts m),
              case mf_database m of None \<Rightarrow> None | Some d \<Rightarrow> check_database d] = None"
    using assms by (simp add: manifest_validate_def ManifestFormatVersion_def)
  note all = this[unfolded first_some_None]
  show "validateManifestField ''app'' (mf_app m) = None"
    "validatePackageRelativePath ''compose_file'' (mf_compose m) = None" using all by simp_all
  show "check_volume k (mf_volumes m ! k) = None" if "k < length (mf_volumes m)"
    using all check_indexed_None[of check_volume 0 "mf_volumes m" k] that by simp
  show "check_database d = None" if "mf_database m = Some d" using all that by simp
qed

section \<open>Properties\<close>

text \<open>
  C17. An artifact path never leaves its package: whenever \<open>ResolvePath\<close> accepts a path below an
  absolute root, the result lies strictly below that root and its further elements are exactly those
  of the path that was given, whatever separators and dots it was written with.
\<close>

theorem resolve_path_confined:
  assumes "ResolvePath troot name v = Inr r" "is_rooted troot"
  shows "has_path_prefix r (path_clean troot) \<and> r \<noteq> path_clean troot
       \<and> clean_elems r = clean_elems troot @ split_on slash v"
  using resolve_path_below[OF assms] by blast

text \<open>
  A parsed manifest is well-formed: its version is the one this build reads, and for every absolute
  package root the archive of every volume, the compose file and a database dump resolve without an
  error, below the root, so a restore never stops halfway at an unusable path.
\<close>

theorem parsed_manifest_resolves:
  assumes "UnmarshalManifest parse_yaml bytes = Inr m" "is_rooted troot"
  shows "mf_version m = ManifestFormatVersion
       \<and> (\<forall>k < length (mf_volumes m). \<exists>r. ResolveVolumeArchive m troot (int k) = Inr r \<and> has_path_prefix r (path_clean troot))
       \<and> (\<exists>r. ResolvePath troot ''compose_file'' (mf_compose m) = Inr r \<and> has_path_prefix r (path_clean troot))
       \<and> (\<forall>d. mf_database m = Some d \<and> md_dump d \<noteq> [] \<longrightarrow>
              (\<exists>r. ResolveDatabaseDump m troot = Inr r \<and> has_path_prefix r (path_clean troot)))"
proof -
  have val: "manifest_validate m = None"
    using assms(1) by (auto simp: UnmarshalManifest_def res_of_def split: sum.splits option.splits)
  note ok = manifest_validate_None[OF val]
  have res: "\<exists>r. ResolvePath troot name v = Inr r \<and> has_path_prefix r (path_clean troot)"
    if "\<And>n. validatePackageRelativePath n v = None" for name v
    using resolve_path_elems[OF that assms(2)] resolve_path_below[OF _ assms(2)] by blast
  have any: "validatePackageRelativePath n v = None" if "validatePackageRelativePath n' v = None" for n n' v
    using that by (auto simp: validatePackageRelativePath_def validateManifestField_def Let_def split: option.splits if_splits)
  have "\<exists>r. ResolveVolumeArchive m troot (int k) = Inr r \<and> has_path_prefix r (path_clean troot)"
    if k: "k < length (mf_volumes m)" for k
  proof -
    have "validatePackageRelativePath (volume_field k ''archive'') (mv_archive (mf_volumes m ! k)) = None"
      using ok(4)[OF k] by (simp add: check_volume_def first_some_None)
    then show ?thesis using res any k by (simp add: ResolveVolumeArchive_def)
  qed
  moreover have "\<exists>r. ResolveDatabaseDump m troot = Inr r \<and> has_path_prefix r (path_clean troot)"
    if d: "mf_database m = Some d" "md_dump d \<noteq> []" for d
  proof -
    have "validatePackageRelativePath ''database.dump'' (md_dump d) = None"
      using ok(5)[OF d(1)] d(2) by (auto simp: check_database_def first_some_None split: sum.splits)
    then show ?thesis using res any d(1) by (simp add: ResolveDatabaseDump_def)
  qed
  ultimately show ?thesis using ok(1,3) res any by (auto simp: ManifestFormatVersion_def)
qed

definition example_manifest :: manifest where
  "example_manifest = \<lparr>mf_version = 1, mf_app = ''blog'', mf_compose = ''compose.yaml'',
     mf_volumes = [\<lparr>mv_name = ''data'', mv_archive = ''volumes/$(id).tar'', mv_target = ''/var/lib/app''\<rparr>],
     mf_mounts = [], mf_database = Some \<lparr>md_engine = ''MariaDB'', md_container = ''db'', md_dump = ''dumps/blog.sql.gz''\<rparr>\<rparr>"

lemma example_manifest_valid: "manifest_validate example_manifest = None"
  by code_simp

theorem resolve_path_confined_witness:
  "ResolvePath ''/srv/../srv/blog/'' ''archive'' ''volumes/data.tar'' = Inr ''/srv/blog/volumes/data.tar''
   \<and> has_path_prefix ''/srv/blog/volumes/data.tar'' ''/srv/blog''"
proof -
  have r: "ResolvePath ''/srv/../srv/blog/'' ''archive'' ''volumes/data.tar'' = Inr ''/srv/blog/volumes/data.tar''"
    "path_clean ''/srv/../srv/blog/'' = ''/srv/blog''" by code_simp+
  then show ?thesis using resolve_path_confined[OF r(1)] by simp
qed

theorem parsed_manifest_resolves_witness:
  "UnmarshalManifest (\<lambda>b. Inr example_manifest) [] = Inr example_manifest
   \<and> (\<exists>r. ResolveVolumeArchive example_manifest ''/srv/blog'' 0 = Inr r \<and> has_path_prefix r (path_clean ''/srv/blog''))"
proof -
  have u: "UnmarshalManifest (\<lambda>b. Inr example_manifest) [] = Inr example_manifest"
    by (simp add: UnmarshalManifest_def example_manifest_valid res_of_def)
  have "0 < length (mf_volumes example_manifest)" by (simp add: example_manifest_def)
  then show ?thesis using u parsed_manifest_resolves[OF u, of "''/srv/blog''"] by fastforce
qed

end
