(* ===== verification/DockerModel.thy ===== *)
theory DockerModel
  imports Shellquote Paths
begin

text \<open>
  The data model of \<open>internal/docker\<close>: inspected containers (\<open>model.go\<close>), container listings
  (\<open>summary.go\<close>), names that look like credentials (\<open>envrisk.go\<close>) and the generated Compose document
  (\<open>composerize.go\<close>). JSON and YAML are parameters; a Go map is an association list with one entry
  for each key, in the iteration order that Go leaves open. Case mapping is that of ASCII.
\<close>

section \<open>Searching text\<close>

text \<open>\<open>strings.LastIndexByte\<close> and \<open>strings.Index\<close>.\<close>

definition last_index :: "char \<Rightarrow> string \<Rightarrow> int" where
  "last_index c s = (if c \<in> set s then int (length s) - 1 - int (length (takeWhile (\<lambda>x. x \<noteq> c) (rev s))) else - 1)"

fun str_index :: "string \<Rightarrow> string \<Rightarrow> nat option" where
  "str_index sub [] = (if sub = [] then Some 0 else None)"
| "str_index sub (c # cs) = (if has_prefix (c # cs) sub then Some 0 else map_option Suc (str_index sub cs))"

section \<open>Containers\<close>

definition LabelComposeProject :: string where
  "LabelComposeProject = ''com.docker.compose.project''"

definition LabelComposeService :: string where
  "LabelComposeService = ''com.docker.compose.service''"

definition LabelComposeWorkingDir :: string where
  "LabelComposeWorkingDir = ''com.docker.compose.project.working_dir''"

definition LabelComposeConfigFiles :: string where
  "LabelComposeConfigFiles = ''com.docker.compose.project.config_files''"

definition label_value :: "(string \<times> string) list \<Rightarrow> string \<Rightarrow> string" where
  "label_value labels k = (case map_of labels k of None \<Rightarrow> [] | Some v \<Rightarrow> v)"

record port_mapping =
  pm_ip :: string
  pm_host :: string
  pm_container :: string
  pm_protocol :: string

definition port_string :: "port_mapping \<Rightarrow> string" where
  "port_string p =
     (let proto = (if pm_protocol p \<noteq> [] \<and> to_lower (pm_protocol p) \<noteq> ''tcp'' then ''/'' @ to_lower (pm_protocol p) else [])
      in if pm_host p = [] then pm_container p @ proto
         else (let host = (if pm_ip p \<noteq> [] \<and> pm_ip p \<noteq> ''0.0.0.0'' \<and> pm_ip p \<noteq> ''::''
                           then pm_ip p @ '':'' @ pm_host p else pm_host p)
               in host @ '':'' @ pm_container p @ proto))"

record volume_mount =
  vm_type :: string
  vm_name :: string
  vm_source :: string
  vm_host_path :: string
  vm_dest :: string
  vm_read_only :: bool

definition volume_string :: "volume_mount \<Rightarrow> string" where
  "volume_string v = vm_source v @ '':'' @ vm_dest v @ (if vm_read_only v then '':ro'' else [])"

record container_info =
  ci_id :: string
  ci_name :: string
  ci_image :: string
  ci_workdir :: string
  ci_command :: "string list"
  ci_entrypoint :: "string list"
  ci_env :: "string list"
  ci_restart :: string
  ci_network :: string
  ci_privileged :: bool
  ci_cap_add :: "string list"
  ci_cap_drop :: "string list"
  ci_healthcheck :: bool
  ci_ports :: "port_mapping list"
  ci_mounts :: "volume_mount list"
  ci_devices :: "string list"
  ci_labels :: "(string \<times> string) list"

definition ComposeProject :: "container_info \<Rightarrow> string" where
  "ComposeProject c = label_value (ci_labels c) LabelComposeProject"

definition IsCompose :: "container_info \<Rightarrow> bool" where
  "IsCompose c \<longleftrightarrow> label_value (ci_labels c) LabelComposeProject \<noteq> []"

definition ComposeServiceName :: "container_info \<Rightarrow> string" where
  "ComposeServiceName c = label_value (ci_labels c) LabelComposeService"

definition ComposeWorkingDir :: "container_info \<Rightarrow> string" where
  "ComposeWorkingDir c = label_value (ci_labels c) LabelComposeWorkingDir"

definition databaseImageEngines :: "(string \<times> string) list" where
  "databaseImageEngines = [(''mysql'', ''mysql''), (''mariadb'', ''mysql''), (''percona'', ''mysql''),
     (''postgres'', ''postgres''), (''postgresql'', ''postgres'')]"

definition imageRepoName :: "string \<Rightarrow> string" where
  "imageRepoName img =
     (let ref0 = trim_space (to_lower img);
          ref1 = takeWhile (\<lambda>c. c \<noteq> CHR ''@'') ref0;
          i = last_index (CHR '':'') ref1;
          ref2 = (if last_index slash ref1 < i then take (nat i) ref1 else ref1);
          k = last_index slash ref2
      in if 0 \<le> k then drop (nat k + 1) ref2 else ref2)"

definition image_engine :: "string \<Rightarrow> string" where
  "image_engine img = label_value databaseImageEngines (imageRepoName img)"

definition DatabaseEngine :: "container_info \<Rightarrow> string" where
  "DatabaseEngine c = image_engine (ci_image c)"

definition IsDatabase :: "container_info \<Rightarrow> bool" where
  "IsDatabase c \<longleftrightarrow> DatabaseEngine c \<noteq> []"

definition IsDatabaseDataDir :: "container_info \<Rightarrow> string \<Rightarrow> bool" where
  "IsDatabaseDataDir c destination \<longleftrightarrow> IsDatabase c \<and>
     path_clean (replace_all [CHR 0x5C] ''/'' destination) \<in>
       {''/var/lib/mysql'', ''/var/lib/postgresql/data'', ''/var/lib/postgresql'', ''/bitnami/mariadb/data'',
        ''/bitnami/mysql/data'', ''/bitnami/postgresql/data''}"

section \<open>Inspection\<close>

definition ErrEmptyInspectOutput :: sentinel where
  "ErrEmptyInspectOutput = ''empty docker inspect output''"

definition ErrInvalidInspectJSON :: sentinel where
  "ErrInvalidInspectJSON = ''invalid docker inspect JSON output''"

definition ErrContainerNotFound :: sentinel where
  "ErrContainerNotFound = ''container not found in inspect output''"

record raw_device =
  rd_host :: string
  rd_container :: string
  rd_perms :: string

record raw_mount =
  rm_type :: string
  rm_name :: string
  rm_source :: string
  rm_dest :: string
  rm_mode :: string
  rm_rw :: bool

record raw_container =
  rc_id :: string
  rc_name :: string
  rc_image :: string
  rc_cmd :: "string list"
  rc_entrypoint :: "string list"
  rc_env :: "string list"
  rc_workdir :: string
  rc_labels :: "(string \<times> string) list"
  rc_health :: "string list option"
  rc_restart :: string
  rc_bindings :: "(string \<times> (string \<times> string) list) list"
  rc_binds :: "string list"
  rc_network :: string
  rc_privileged :: bool
  rc_cap_add :: "string list"
  rc_cap_drop :: "string list"
  rc_devices :: "raw_device list"
  rc_mounts :: "raw_mount list"

definition hasHealthcheck :: "string list option \<Rightarrow> bool" where
  "hasHealthcheck hc = (case hc of None \<Rightarrow> False | Some [] \<Rightarrow> False | Some (t # ts) \<Rightarrow> \<not> equal_fold (trim_space t) ''NONE'')"

definition isDriveLetter :: "char \<Rightarrow> bool" where
  "isDriveLetter c \<longleftrightarrow> is_lower c \<or> is_upper c"

text \<open>Source, destination and read-only flag of a bind string; \<open>None\<close> when it is not one.\<close>

definition parseBindString :: "string \<Rightarrow> (string \<times> string \<times> bool) option" where
  "parseBindString b =
     (let raw = trim_space b
      in if raw = [] then None
         else (let has_drive = (3 \<le> length raw \<and> isDriveLetter (raw ! 0) \<and> raw ! 1 = CHR '':''
                                \<and> (raw ! 2 = CHR 0x5C \<or> raw ! 2 = slash));
                   drive = (if has_drive then take 2 raw else []);
                   parts = split_on (CHR '':'') (if has_drive then drop 2 raw else raw)
               in case parts of
                    src # dst # rest \<Rightarrow>
                      Some (drive @ src, dst, case rest of [] \<Rightarrow> False | m # ms \<Rightarrow> contains_str m ''ro'')
                  | _ \<Rightarrow> None))"

definition ports_of_binding :: "string \<times> (string \<times> string) list \<Rightarrow> port_mapping list" where
  "ports_of_binding pb =
     (case pb of (portProto, bindings) \<Rightarrow>
        let parts = split_on slash portProto; port = hd parts;
            proto = (case tl parts of [] \<Rightarrow> ''tcp'' | p # ps \<Rightarrow> p)
        in if bindings = [] then [\<lparr>pm_ip = [], pm_host = [], pm_container = port, pm_protocol = proto\<rparr>]
           else map (\<lambda>(ip, h). \<lparr>pm_ip = ip, pm_host = h, pm_container = port, pm_protocol = proto\<rparr>) bindings)"

definition device_string :: "raw_device \<Rightarrow> string" where
  "device_string d = rd_host d @ (if rd_container d \<noteq> [] then '':'' @ rd_container d else [])
     @ (if rd_perms d \<noteq> [] then '':'' @ rd_perms d else [])"

definition mount_of_raw :: "raw_mount \<Rightarrow> volume_mount" where
  "mount_of_raw m =
     (let vol = (rm_type m = ''volume'' \<and> rm_name m \<noteq> [])
      in \<lparr>vm_type = (if rm_type m = [] then ''bind'' else rm_type m), vm_name = (if vol then rm_name m else []),
          vm_source = (if vol then rm_name m else rm_source m), vm_host_path = rm_source m, vm_dest = rm_dest m,
          vm_read_only = (\<not> rm_rw m \<or> contains_str (rm_mode m) ''ro'')\<rparr>)"

text \<open>The binds that the mounts did not capture; \<open>seen\<close> are the destinations so far.\<close>

fun add_binds :: "string list \<Rightarrow> string list \<Rightarrow> volume_mount list" where
  "add_binds seen [] = []"
| "add_binds seen (b # bs) =
     (case parseBindString b of
        Some (src, dst, ro) \<Rightarrow>
          (if dst \<in> set seen then add_binds seen bs
           else \<lparr>vm_type = ''bind'', vm_name = [], vm_source = src, vm_host_path = [], vm_dest = dst, vm_read_only = ro\<rparr>
                # add_binds (dst # seen) bs)
      | None \<Rightarrow> add_binds seen bs)"

definition info_of_raw :: "raw_container \<Rightarrow> container_info" where
  "info_of_raw raw =
     \<lparr>ci_id = rc_id raw, ci_name = trim_prefix (rc_name raw) ''/'', ci_image = rc_image raw, ci_workdir = rc_workdir raw,
      ci_command = rc_cmd raw, ci_entrypoint = rc_entrypoint raw, ci_env = rc_env raw, ci_restart = rc_restart raw,
      ci_network = rc_network raw, ci_privileged = rc_privileged raw, ci_cap_add = rc_cap_add raw,
      ci_cap_drop = rc_cap_drop raw, ci_healthcheck = hasHealthcheck (rc_health raw),
      ci_ports = concat (map ports_of_binding (rc_bindings raw)),
      ci_mounts = map mount_of_raw (rc_mounts raw) @ add_binds (map rm_dest (rc_mounts raw)) (rc_binds raw),
      ci_devices = map device_string (filter (\<lambda>d. rd_host d \<noteq> []) (rc_devices raw)),
      ci_labels = rc_labels raw\<rparr>"

text \<open>\<open>parse_list\<close> and \<open>parse_one\<close> are \<open>json.Unmarshal\<close> into a slice and into a struct.\<close>

definition ParseInspectJSON ::
    "(string \<Rightarrow> raw_container list res) \<Rightarrow> (string \<Rightarrow> raw_container res) \<Rightarrow> string \<Rightarrow> container_info res" where
  "ParseInspectJSON parse_list parse_one text =
     (let trimmed = trim_space text;
          bad = (\<lambda>e. wrap [] (sentinel_error ErrInvalidInspectJSON) ('': '' @ err_text e))
      in if trimmed = [] then Inl (sentinel_error ErrEmptyInspectOutput)
         else (case (if has_prefix trimmed ''['' then parse_list trimmed
                     else (case parse_one trimmed of Inl e \<Rightarrow> Inl e | Inr c \<Rightarrow> Inr [c])) of
                 Inl e \<Rightarrow> Inl (bad e)
               | Inr [] \<Rightarrow> Inl (sentinel_error ErrContainerNotFound)
               | Inr (raw # raws) \<Rightarrow> Inr (info_of_raw raw)))"

section \<open>Listings\<close>

record container_summary =
  cs_id :: string
  cs_name :: string
  cs_image :: string
  cs_command :: string
  cs_state :: string
  cs_status :: string
  cs_ports :: string
  cs_labels :: "(string \<times> string) list"

definition summary_project :: "container_summary \<Rightarrow> string" where
  "summary_project c = label_value (cs_labels c) LabelComposeProject"

definition summary_service :: "container_summary \<Rightarrow> string" where
  "summary_service c = label_value (cs_labels c) LabelComposeService"

definition summary_is_compose :: "container_summary \<Rightarrow> bool" where
  "summary_is_compose c \<longleftrightarrow> label_value (cs_labels c) LabelComposeProject \<noteq> []"

definition summary_engine :: "container_summary \<Rightarrow> string" where
  "summary_engine c = image_engine (cs_image c)"

record raw_ps_line =
  rp_id :: string
  rp_names :: string
  rp_image :: string
  rp_command :: string
  rp_state :: string
  rp_status :: string
  rp_ports :: string
  rp_labels :: string

fun parse_label_pairs :: "(string \<times> string) list \<Rightarrow> string list \<Rightarrow> (string \<times> string) list" where
  "parse_label_pairs labels [] = labels"
| "parse_label_pairs labels (p # ps) =
     (let pair = trim_space p
      in if pair = [] then parse_label_pairs labels ps
         else (case cut_at (CHR ''='') pair of
                 (key, val, found) \<Rightarrow>
                   (if trim_space key = [] then parse_label_pairs labels ps
                    else parse_label_pairs (upsert fst (trim_space key, trim_space val) labels) ps)))"

definition ParseLabels :: "string \<Rightarrow> (string \<times> string) list" where
  "ParseLabels raw = parse_label_pairs [] (split_on (CHR '','') raw)"

definition summary_of_line :: "raw_ps_line \<Rightarrow> container_summary" where
  "summary_of_line item =
     \<lparr>cs_id = rp_id item, cs_name = trim_prefix (rp_names item) ''/'', cs_image = rp_image item, cs_command = rp_command item,
      cs_state = rp_state item, cs_status = rp_status item, cs_ports = rp_ports item, cs_labels = ParseLabels (rp_labels item)\<rparr>"

fun parse_ps_lines :: "(string \<Rightarrow> raw_ps_line res) \<Rightarrow> string list \<Rightarrow> container_summary list res" where
  "parse_ps_lines pj [] = Inr []"
| "parse_ps_lines pj (l # ls) =
     (let trimmed = trim_space l
      in if trimmed = [] \<or> trimmed = ''ERR_DOCKER_NOT_FOUND'' then parse_ps_lines pj ls
         else (case pj trimmed of
                 Inl e \<Rightarrow> Inl (wrap (''invalid docker ps json '' @ go_quote trimmed @ '': '') e [])
               | Inr item \<Rightarrow> (case parse_ps_lines pj ls of Inl e \<Rightarrow> Inl e | Inr cs \<Rightarrow> Inr (summary_of_line item # cs))))"

definition ParsePsJSON :: "(string \<Rightarrow> raw_ps_line res) \<Rightarrow> string \<Rightarrow> container_summary list res" where
  "ParsePsJSON pj raw = parse_ps_lines pj (split_on (CHR 0x0A) raw)"

record published_port =
  pp_host :: string
  pp_protocol :: string

definition published_port_of :: "string \<Rightarrow> published_port option" where
  "published_port_of e =
     (let entry = trim_space e
      in case str_index ''->'' entry of
           None \<Rightarrow> None
         | Some arrow \<Rightarrow>
             (let host = take arrow entry; rest = drop (arrow + 2) entry;
                  proto = (case str_index ''/'' rest of None \<Rightarrow> ''tcp'' | Some i \<Rightarrow> to_lower (trim_space (drop (i + 1) rest)));
                  i = last_index (CHR '':'') host
              in if i < 0 then None
                 else (let port = trim_space (drop (nat i + 1) host)
                       in if atoi port = None then None else Some \<lparr>pp_host = port, pp_protocol = proto\<rparr>)))"

definition ParsePublishedPorts :: "string \<Rightarrow> published_port list" where
  "ParsePublishedPorts raw = List.map_filter published_port_of (split_on (CHR '','') raw)"

section \<open>Names that look like credentials\<close>

definition sensitiveEnvNameMarkers :: "string list" where
  "sensitiveEnvNameMarkers = [''PASSWORD'', ''PASSWD'', ''PASSPHRASE'', ''SECRET'', ''TOKEN'', ''APIKEY'', ''API_KEY'',
     ''ACCESS_KEY'', ''ACCESSKEY'', ''PRIVATE_KEY'', ''CREDENTIAL'']"

text \<open>\<open>strings.FieldsFunc\<close> at underscores, hyphens and dots.\<close>

definition name_segments :: "string \<Rightarrow> string list" where
  "name_segments s = filter (\<lambda>t. t \<noteq> []) (split_on (CHR ''_'') (map (\<lambda>c. if c = CHR ''-'' \<or> c = CHR ''.'' then CHR ''_'' else c) s))"

definition IsSensitiveEnvName :: "string \<Rightarrow> bool" where
  "IsSensitiveEnvName name \<longleftrightarrow>
     (let upper = to_upper (trim_space name); segments = name_segments upper
      in upper \<noteq> [] \<and> ((1 < length segments \<and> ''PWD'' \<in> set segments)
                        \<or> list_ex (contains_str upper) sensitiveEnvNameMarkers))"

fun sensitive_names :: "string list \<Rightarrow> string list \<Rightarrow> string list" where
  "sensitive_names names [] = names"
| "sensitive_names names (e # es) =
     (let name = trim_space (fst (cut_at (CHR ''='') e))
      in if \<not> IsSensitiveEnvName name \<or> name \<in> set names then sensitive_names names es
         else sensitive_names (names @ [name]) es)"

definition SensitiveEnvVars :: "container_info \<Rightarrow> string list" where
  "SensitiveEnvVars info = sort (sensitive_names [] (ci_env info))"

section \<open>The generated Compose document\<close>

record compose_service =
  sv_container :: string
  sv_image :: string
  sv_restart :: string
  sv_ports :: "string list"
  sv_environment :: "string list"
  sv_volumes :: "string list"
  sv_workdir :: string
  sv_command :: "string list"
  sv_network :: string
  sv_devices :: "string list"

record compose_config =
  cc_services :: "(string \<times> compose_service) list"
  cc_volumes :: "string list"

definition SanitizeServiceName :: "string \<Rightarrow> string" where
  "SanitizeServiceName name =
     (let ok = (\<lambda>r. (97 \<le> r \<and> r \<le> 122) \<or> (48 \<le> r \<and> r \<le> 57) \<or> r = 45 \<or> r = 95);
          mapped = map (\<lambda>r. if ok r then char_of r else CHR ''-'') (runes (to_lower name));
          res = trim_chars (\<lambda>c. c = CHR ''-'') mapped
      in if res = [] then ''app'' else res)"

definition IsNamedVolume :: "volume_mount \<Rightarrow> bool" where
  "IsNamedVolume m \<longleftrightarrow>
     (if vm_type m = ''volume'' then True
      else (let src = vm_source m
            in if has_prefix src ''/'' \<or> has_prefix src ''./'' \<or> has_prefix src ''../'' \<or> has_prefix src ''~'' then False
               else if 2 \<le> length src \<and> src ! 1 = CHR '':'' then False
               else src \<noteq> []))"

text \<open>\<open>cc_volumes\<close> is the set of keys of the \<open>volumes\<close> section, each listed once.\<close>

definition compose_of :: "container_info \<Rightarrow> string \<Rightarrow> compose_config" where
  "compose_of info aliasName =
     (let serviceName0 = (if aliasName \<noteq> [] then aliasName else ci_name info);
          serviceName = (if serviceName0 = [] then ''app'' else serviceName0);
          rp = trim_space (ci_restart info); netMode = trim_space (ci_network info)
      in \<lparr>cc_services =
            [(SanitizeServiceName serviceName,
              \<lparr>sv_container = serviceName, sv_image = ci_image info,
               sv_restart = (if rp \<noteq> [] \<and> rp \<noteq> ''no'' then rp else []),
               sv_ports = sort (filter (\<lambda>s. s \<noteq> []) (map port_string (ci_ports info))),
               sv_environment = sort (filter (\<lambda>e. \<not> has_prefix e ''PATH='') (ci_env info)),
               sv_volumes = sort (filter (\<lambda>s. s \<noteq> []) (map volume_string (ci_mounts info))),
               sv_workdir = (if ci_workdir info \<noteq> [] \<and> ci_workdir info \<noteq> ''/'' then ci_workdir info else []),
               sv_command = ci_command info,
               sv_network = (if netMode \<noteq> [] \<and> netMode \<noteq> ''default'' \<and> netMode \<noteq> ''bridge'' then netMode else []),
               sv_devices = ci_devices info\<rparr>)],
          cc_volumes = remdups (map vm_source (filter IsNamedVolume (ci_mounts info)))\<rparr>)"

definition GenerateComposeYAML :: "(compose_config \<Rightarrow> string res) \<Rightarrow> container_info option \<Rightarrow> string \<Rightarrow> string res" where
  "GenerateComposeYAML show_yaml info aliasName =
     (case info of
        None \<Rightarrow> Inl (errors_new ''container info is nil'')
      | Some i \<Rightarrow> (case show_yaml (compose_of i aliasName) of
                    Inl e \<Rightarrow> Inl (wrap ''failed to marshal compose YAML: '' e [])
                  | Inr y \<Rightarrow> Inr y))"

section \<open>Lemmas\<close>

lemma last_index_append: "last_index c (s @ t) = (if c \<in> set t then int (length s) + last_index c t else last_index c s)"
proof (cases "c \<in> set t")
  case True
  then have "takeWhile (\<lambda>x. x \<noteq> c) (rev t @ rev s) = takeWhile (\<lambda>x. x \<noteq> c) (rev t)"
    by (intro takeWhile_append1[of c]) auto
  with True show ?thesis by (simp add: last_index_def)
next
  case False
  then have "takeWhile (\<lambda>x. x \<noteq> c) (rev t @ rev s) = rev t @ takeWhile (\<lambda>x. x \<noteq> c) (rev s)"
    by (intro takeWhile_append2) auto
  with False show ?thesis by (simp add: last_index_def)
qed

lemma last_index_free: "c \<notin> set s \<Longrightarrow> last_index c s = - 1"
  by (simp add: last_index_def)

lemma last_index_first: "c \<notin> set s \<Longrightarrow> last_index c (c # s) = 0"
  using last_index_append[of c "[c]" s] by (simp add: last_index_def)

lemma last_index_Cons_other: "c \<noteq> d \<Longrightarrow> c \<notin> set s \<Longrightarrow> last_index c (d # s) = - 1"
  by (simp add: last_index_def)

lemma last_index_less: "last_index c s < int (length s)"
  by (simp add: last_index_def)

lemma last_index_ends:
  assumes "c \<notin> set s" "p = [] \<or> (\<exists>q. p = q @ [c])"
  shows "last_index c (p @ s) = int (length p) - 1"
proof (cases "p = []")
  case False
  with assms(2) obtain q where "p @ s = q @ (c # s)" and p: "p = q @ [c]" by auto
  then have "last_index c (p @ s) = int (length q) + last_index c (c # s)"
    by (simp only: last_index_append) simp
  with p show ?thesis by (simp add: last_index_first[OF assms(1)])
qed (simp add: last_index_free[OF assms(1)])

lemma to_lower_append: "to_lower (a @ b) = to_lower a @ to_lower b"
  by (simp add: to_lower_def)

lemma to_lower_Nil [simp]: "to_lower [] = []"
  by (simp add: to_lower_def)

lemma to_lower_char_fixed:
  assumes "\<not> is_lower d" "\<not> is_upper d"
  shows "to_lower_char c = d \<longleftrightarrow> c = d"
proof (cases "is_upper c")
  case True
  then have "code_of (to_lower_char c) = code_of c + 32"
    by (auto simp: is_upper_def to_lower_char_def code_of_def)
  with True have "is_lower (to_lower_char c)" by (auto simp: is_upper_def is_lower_def)
  with True assms show ?thesis by auto
next
  case False
  then show ?thesis by (auto simp: is_upper_def to_lower_char_def)
qed

lemma in_to_lower:
  assumes "\<not> is_lower d" "\<not> is_upper d"
  shows "d \<in> set (to_lower s) \<longleftrightarrow> d \<in> set s"
  using to_lower_char_fixed[OF assms] by (force simp: to_lower_def image_iff)

lemma in_to_lower_marks [simp]:
  "slash \<in> set (to_lower s) \<longleftrightarrow> slash \<in> set s"
  "CHR '':'' \<in> set (to_lower s) \<longleftrightarrow> CHR '':'' \<in> set s"
  "CHR ''@'' \<in> set (to_lower s) \<longleftrightarrow> CHR ''@'' \<in> set s"
  by (rule in_to_lower; code_simp)+

text \<open>An image reference: registry and namespace, repository, tag and digest.\<close>

definition image_reference :: "string option \<Rightarrow> string \<Rightarrow> string option \<Rightarrow> string option \<Rightarrow> string" where
  "image_reference ns name tag digest =
     (case ns of None \<Rightarrow> [] | Some n \<Rightarrow> n @ ''/'') @ name
     @ (case tag of None \<Rightarrow> [] | Some t \<Rightarrow> '':'' @ t) @ (case digest of None \<Rightarrow> [] | Some d \<Rightarrow> ''@'' @ d)"

lemma strip_tag:
  assumes "slash \<notin> set name" "CHR '':'' \<notin> set name"
    and "case tag of None \<Rightarrow> True | Some t \<Rightarrow> slash \<notin> set t \<and> CHR '':'' \<notin> set t"
    and p: "p = [] \<or> (\<exists>q. p = q @ ''/'')"
    and r: "r = p @ name @ (case tag of None \<Rightarrow> [] | Some t \<Rightarrow> '':'' @ t)"
  shows "(if last_index slash r < last_index (CHR '':'') r then take (nat (last_index (CHR '':'') r)) r else r) = p @ name"
proof -
  have sl: "last_index slash (p @ name) = int (length p) - 1"
    using last_index_ends p assms(1) by blast
  show ?thesis
  proof (cases tag)
    case None
    have "last_index (CHR '':'') (p @ name) \<le> int (length p) - 1"
      using assms(2) last_index_less[of "CHR '':''" p] by (simp add: last_index_append)
    with None sl show ?thesis by (simp add: r)
  next
    case (Some t)
    then have t: "slash \<notin> set t" "CHR '':'' \<notin> set t" using assms(3) by auto
    have "last_index (CHR '':'') (p @ name @ '':'' @ t) = int (length p) + int (length name)"
      using last_index_append[of "CHR '':''" "p @ name" "'':'' @ t"] t last_index_first[OF t(2)] by simp
    moreover have "last_index slash (p @ name @ '':'' @ t) = int (length p) - 1"
      using last_index_append[of slash "p @ name" "'':'' @ t"] t sl by simp
    ultimately show ?thesis using Some by (simp add: r nat_int_add)
  qed
qed

lemma imageRepoName_reference:
  assumes name: "slash \<notin> set name" "CHR '':'' \<notin> set name" "CHR ''@'' \<notin> set name"
    and tag: "case tag of None \<Rightarrow> True | Some t \<Rightarrow> slash \<notin> set t \<and> CHR '':'' \<notin> set t \<and> CHR ''@'' \<notin> set t"
    and ns: "case ns of None \<Rightarrow> True | Some n \<Rightarrow> CHR ''@'' \<notin> set n"
    and trimmed: "trim_space (to_lower (image_reference ns name tag digest)) = to_lower (image_reference ns name tag digest)"
  shows "imageRepoName (image_reference ns name tag digest) = to_lower name"
proof -
  define p where "p = to_lower (case ns of None \<Rightarrow> [] | Some n \<Rightarrow> n @ ''/'')"
  define tg where "tg = map_option to_lower tag"
  define r where "r = p @ to_lower name @ (case tg of None \<Rightarrow> [] | Some t \<Rightarrow> '':'' @ t)"
  have one: "to_lower_char slash = slash" "to_lower_char (CHR '':'') = CHR '':''" "to_lower_char (CHR ''@'') = CHR ''@''"
    by code_simp+
  have low: "to_lower (slash # s) = slash # to_lower s" "to_lower (CHR '':'' # s) = CHR '':'' # to_lower s"
    "to_lower (CHR ''@'' # s) = CHR ''@'' # to_lower s" for s
    using one by (simp_all add: to_lower_def)
  have full: "to_lower (image_reference ns name tag digest) = r @ (case digest of None \<Rightarrow> [] | Some d \<Rightarrow> ''@'' @ to_lower d)"
    using low by (simp add: image_reference_def r_def p_def tg_def to_lower_append split: option.split)
  have at: "CHR ''@'' \<notin> set r"
    using name tag ns low by (auto simp: r_def p_def tg_def to_lower_append split: option.splits)
  have ref1: "takeWhile (\<lambda>c. c \<noteq> CHR ''@'') (to_lower (image_reference ns name tag digest)) = r"
    unfolding full using at by (cases digest) (auto simp: takeWhile_eq_all_conv takeWhile_append)
  have pp: "p = [] \<or> (\<exists>q. p = q @ ''/'')"
    using low by (auto simp: p_def to_lower_append split: option.split)
  have ref2: "(if last_index slash r < last_index (CHR '':'') r then take (nat (last_index (CHR '':'') r)) r else r) = p @ to_lower name"
    by (rule strip_tag[OF _ _ _ pp r_def]) (use name tag in \<open>auto simp: tg_def split: option.splits\<close>)
  have "last_index slash (p @ to_lower name) = int (length p) - 1"
    using last_index_ends pp name(1) by simp
  then have k: "(let k = last_index slash (p @ to_lower name) in if 0 \<le> k then drop (nat k + 1) (p @ to_lower name) else p @ to_lower name)
      = to_lower name"
    using pp by auto
  show ?thesis
    unfolding imageRepoName_def trimmed Let_def ref1 ref2 using k[unfolded Let_def] .
qed

lemma sensitive_names_spec:
  "distinct names \<Longrightarrow> distinct (sensitive_names names es)
     \<and> set (sensitive_names names es)
         = set names \<union> {n. IsSensitiveEnvName n \<and> (\<exists>e\<in>set es. n = trim_space (fst (cut_at (CHR ''='') e)))}"
  by (induction names es rule: sensitive_names.induct) (auto simp: Let_def)

lemma sensitive_names_values:
  assumes "map (\<lambda>e. fst (cut_at (CHR ''='') e)) es = map (\<lambda>e. fst (cut_at (CHR ''='') e)) es'"
  shows "sensitive_names names es = sensitive_names names es'"
  using assms
proof (induction es arbitrary: es' names)
  case (Cons e es)
  then obtain e' es'' where "es' = e' # es''" "fst (cut_at (CHR ''='') e) = fst (cut_at (CHR ''='') e')"
    "map (\<lambda>e. fst (cut_at (CHR ''='') e)) es = map (\<lambda>e. fst (cut_at (CHR ''='') e)) es''"
    by (cases es') auto
  with Cons.IH show ?case by (simp add: Let_def)
qed auto

lemma add_binds_spec:
  "distinct (map vm_dest (add_binds seen bs)) \<and> vm_dest ` set (add_binds seen bs) \<inter> set seen = {}"
  by (induction seen bs rule: add_binds.induct) (auto split: option.split)

lemma add_binds_covers:
  "parseBindString b = Some (src, dst, ro) \<Longrightarrow> b \<in> set bs \<Longrightarrow> dst \<in> set seen \<union> vm_dest ` set (add_binds seen bs)"
  by (induction seen bs rule: add_binds.induct) (auto split: option.split)

section \<open>Properties\<close>

text \<open>The database engine of a container depends only on the repository name of its image: the
  registry, the namespace, the tag and the digest of the reference do not change it.\<close>

theorem image_engine_canonical:
  assumes "slash \<notin> set name" "CHR '':'' \<notin> set name" "CHR ''@'' \<notin> set name"
    and "case tag of None \<Rightarrow> True | Some t \<Rightarrow> slash \<notin> set t \<and> CHR '':'' \<notin> set t \<and> CHR ''@'' \<notin> set t"
    and "case ns of None \<Rightarrow> True | Some n \<Rightarrow> CHR ''@'' \<notin> set n"
    and "ci_image c = image_reference ns name tag digest"
    and "trim_space (to_lower (ci_image c)) = to_lower (ci_image c)"
  shows "DatabaseEngine c = label_value databaseImageEngines (to_lower name)
       \<and> (IsDatabase c \<longleftrightarrow> to_lower name \<in> {''mysql'', ''mariadb'', ''percona'', ''postgres'', ''postgresql''})"
proof -
  have "imageRepoName (ci_image c) = to_lower name"
    using imageRepoName_reference[OF assms(1-5)] assms(6,7) by simp
  then have "DatabaseEngine c = label_value databaseImageEngines (to_lower name)"
    by (simp add: DatabaseEngine_def image_engine_def)
  then show ?thesis
    by (auto simp: IsDatabase_def label_value_def databaseImageEngines_def)
qed

text \<open>The report of suspicious environment variables is exact, sorted and free of duplicates, and it
  depends on the names of the variables only, so that no value can reach it.\<close>

theorem sensitive_env_exact:
  "set (SensitiveEnvVars info)
     = {n. IsSensitiveEnvName n \<and> (\<exists>e\<in>set (ci_env info). n = trim_space (fst (cut_at (CHR ''='') e)))}
   \<and> sorted (SensitiveEnvVars info) \<and> distinct (SensitiveEnvVars info)
   \<and> (map (\<lambda>e. fst (cut_at (CHR ''='') e)) env = map (\<lambda>e. fst (cut_at (CHR ''='') e)) (ci_env info)
        \<longrightarrow> SensitiveEnvVars (info\<lparr>ci_env := env\<rparr>) = SensitiveEnvVars info)"
  using sensitive_names_spec[of "[]" "ci_env info"] sensitive_names_values[of env "ci_env info" "[]"]
  by (simp add: SensitiveEnvVars_def)

text \<open>The mounts of an inspected container are the reported mounts followed by the bind strings that
  no earlier mount has the destination of: no bind string is lost, and none duplicates a destination.\<close>

theorem inspected_mounts_complete:
  "(\<forall>m\<in>set (rc_mounts raw). mount_of_raw m \<in> set (ci_mounts (info_of_raw raw)))
   \<and> (\<forall>b\<in>set (rc_binds raw). \<forall>src dst ro. parseBindString b = Some (src, dst, ro)
        \<longrightarrow> (\<exists>m\<in>set (ci_mounts (info_of_raw raw)). vm_dest m = dst))
   \<and> (distinct (map rm_dest (rc_mounts raw)) \<longrightarrow> distinct (map vm_dest (ci_mounts (info_of_raw raw))))"
proof -
  let ?ms = "rc_mounts raw" and ?extra = "add_binds (map rm_dest (rc_mounts raw)) (rc_binds raw)"
  have mounts: "ci_mounts (info_of_raw raw) = map mount_of_raw ?ms @ ?extra"
    by (simp add: info_of_raw_def)
  have dest: "map vm_dest (map mount_of_raw ?ms) = map rm_dest ?ms"
    by (simp add: mount_of_raw_def Let_def)
  have "dst \<in> vm_dest ` set (ci_mounts (info_of_raw raw))"
    if "b \<in> set (rc_binds raw)" "parseBindString b = Some (src, dst, ro)" for b src dst ro
    using add_binds_covers[OF that(2,1), of "map rm_dest ?ms"]
    unfolding dest[symmetric] mounts by (simp add: image_Un image_image)
  then have lost: "\<exists>m\<in>set (ci_mounts (info_of_raw raw)). vm_dest m = dst"
    if "b \<in> set (rc_binds raw)" "parseBindString b = Some (src, dst, ro)" for b src dst ro
    using that by (metis imageE)
  have "distinct (map vm_dest (ci_mounts (info_of_raw raw)))" if "distinct (map rm_dest ?ms)"
    using add_binds_spec[of "map rm_dest ?ms" "rc_binds raw"] that
    by (simp only: mounts map_append dest distinct_append) auto
  then show ?thesis using lost by (auto simp: mounts)
qed

section \<open>Witnesses\<close>

definition example_raw :: raw_container where
  "example_raw =
     \<lparr>rc_id = ''1f'', rc_name = ''/db'', rc_image = ''registry:5000/library/MariaDB:10.6@sha256:ab'', rc_cmd = [], rc_entrypoint = [],
      rc_env = [''MYSQL_ROOT_PASSWORD=x=1'', ''PATH=/bin'', ''DB-PWD=y'', ''PWD=/'', ''API_KEY'', ''API_KEY=2''],
      rc_workdir = ''/'', rc_labels = [], rc_health = Some [''NONE''], rc_restart = ''always'',
      rc_bindings = [(''3306/tcp'', [(''127.0.0.1'', ''3307'')])],
      rc_binds = [''/srv/db:/var/lib/mysql:ro'', ''/srv/conf:/etc/mysql'', ''/other:/etc/mysql''],
      rc_network = ''bridge'', rc_privileged = False, rc_cap_add = [], rc_cap_drop = [], rc_devices = [],
      rc_mounts = [\<lparr>rm_type = ''volume'', rm_name = ''data'', rm_source = ''/var/lib/docker/volumes/data/_data'',
                    rm_dest = ''/var/lib/mysql'', rm_mode = ''z'', rm_rw = True\<rparr>]\<rparr>"

theorem image_engine_canonical_witness:
  "DatabaseEngine (info_of_raw example_raw) = ''mysql'' \<and> IsDatabase (info_of_raw example_raw)"
proof -
  have "ci_image (info_of_raw example_raw)
      = image_reference (Some ''registry:5000/library'') ''MariaDB'' (Some ''10.6'') (Some ''sha256:ab'')"
    by code_simp
  moreover have "trim_space (to_lower (ci_image (info_of_raw example_raw))) = to_lower (ci_image (info_of_raw example_raw))"
    by code_simp
  ultimately have "DatabaseEngine (info_of_raw example_raw) = label_value databaseImageEngines (to_lower ''MariaDB'')
    \<and> (IsDatabase (info_of_raw example_raw) \<longleftrightarrow>
        to_lower ''MariaDB'' \<in> {''mysql'', ''mariadb'', ''percona'', ''postgres'', ''postgresql''})"
    by (intro image_engine_canonical[of "''MariaDB''" "Some ''10.6''" "Some ''registry:5000/library''"]) auto
  moreover have "label_value databaseImageEngines (to_lower ''MariaDB'') = ''mysql''" "to_lower ''MariaDB'' = ''mariadb''"
    by code_simp+
  ultimately show ?thesis by simp
qed

theorem sensitive_env_exact_witness:
  "SensitiveEnvVars (info_of_raw example_raw) = [''API_KEY'', ''DB-PWD'', ''MYSQL_ROOT_PASSWORD'']
   \<and> SensitiveEnvVars ((info_of_raw example_raw)\<lparr>ci_env := [''MYSQL_ROOT_PASSWORD'', ''PATH='', ''DB-PWD=z'', ''PWD'', ''API_KEY=1'', ''API_KEY=1'']\<rparr>)
       = [''API_KEY'', ''DB-PWD'', ''MYSQL_ROOT_PASSWORD'']"
proof -
  have v: "SensitiveEnvVars (info_of_raw example_raw) = [''API_KEY'', ''DB-PWD'', ''MYSQL_ROOT_PASSWORD'']"
    by code_simp
  have "map (\<lambda>e. fst (cut_at (CHR ''='') e)) [''MYSQL_ROOT_PASSWORD'', ''PATH='', ''DB-PWD=z'', ''PWD'', ''API_KEY=1'', ''API_KEY=1'']
      = map (\<lambda>e. fst (cut_at (CHR ''='') e)) (ci_env (info_of_raw example_raw))"
    by code_simp
  with v show ?thesis using sensitive_env_exact[of "info_of_raw example_raw"] by simp
qed

theorem inspected_mounts_complete_witness:
  "map vm_dest (ci_mounts (info_of_raw example_raw)) = [''/var/lib/mysql'', ''/etc/mysql'']
   \<and> distinct (map vm_dest (ci_mounts (info_of_raw example_raw)))"
proof -
  have "distinct (map rm_dest (rc_mounts example_raw))" by code_simp
  with inspected_mounts_complete[of example_raw]
  have "distinct (map vm_dest (ci_mounts (info_of_raw example_raw)))" by blast
  moreover have "map vm_dest (ci_mounts (info_of_raw example_raw)) = [''/var/lib/mysql'', ''/etc/mysql'']"
    by code_simp
  ultimately show ?thesis by simp
qed

end
