(* ===== verification/DockerAnalysis.thy ===== *)
theory DockerAnalysis
  imports DockerModel "HOL-Library.Multiset"
begin

text \<open>
  The migration analysis of a container (\<open>analysis.go\<close>) and the target-side edits of a Compose
  document (\<open>override.go\<close>) of \<open>internal/docker\<close>. Mounts with equal destination and source keep the order
  of inspection; Go's \<open>sort.Slice\<close> leaves it open. YAML values are those that \<open>yaml.v3\<close> decodes into
  \<open>any\<close>: a mapping whose keys are all strings, a mapping with some other key, a sequence, a string, or
  another scalar. Decoding and encoding documents are parameters.
\<close>

section \<open>The analysis\<close>

datatype support_level = SupportSupported | SupportPartial | SupportUnsupported

record attribute_support =
  as_attribute :: string
  as_level :: support_level
  as_detail :: string

record external_dependency =
  ed_kind :: string
  ed_source :: string
  ed_target :: string
  ed_required :: bool
  ed_reason :: string

datatype db_strategy = DatabaseStrategyLogicalDump | DatabaseStrategyFileLevel

record database_analysis =
  da_engine :: string
  da_tool :: string
  da_strategy :: db_strategy
  da_data_dir :: string

record container_analysis =
  ca_name :: string
  ca_image :: string
  ca_is_compose :: bool
  ca_project :: string
  ca_service :: string
  ca_working_dir :: string
  ca_config_files :: string
  ca_restart :: string
  ca_named :: "volume_mount list"
  ca_binds :: "volume_mount list"
  ca_deps :: "external_dependency list"
  ca_database :: "database_analysis option"
  ca_sensitive :: "string list"
  ca_attributes :: "attribute_support list"
  ca_warnings :: "string list"
  ca_blockers :: "string list"

definition sortMounts :: "volume_mount list \<Rightarrow> volume_mount list" where
  "sortMounts mounts = sort_key vm_dest (sort_key vm_source mounts)"

definition isCustomNetwork :: "string \<Rightarrow> bool" where
  "isCustomNetwork mode \<longleftrightarrow> mode \<notin> {[], ''default'', ''bridge'', ''host'', ''none''} \<and> \<not> has_prefix mode ''container:''"

definition mount_dependency :: "volume_mount \<Rightarrow> external_dependency" where
  "mount_dependency m =
     (if is_system_mount (vm_source m)
      then \<lparr>ed_kind = ''system_mount'', ed_source = vm_source m, ed_target = vm_dest m, ed_required = False,
            ed_reason = (utf8 [0x8FD0, 0x884C, 0x65F6, 0x6CE8, 0x5165, 0x7684, 0x5BBF, 0x4E3B, 0x673A, 0x8DEF, 0x5F84, 0xFF0C, 0x4E0D, 0x4F1A, 0x5F52, 0x6863, 0xFF0C, 0x7531, 0x76EE, 0x6807, 0x673A, 0x7684] @ '' Docker '' @ utf8 [0x81EA, 0x52A8, 0x63D0, 0x4F9B])\<rparr>
      else \<lparr>ed_kind = ''bind_mount'', ed_source = vm_source m, ed_target = vm_dest m, ed_required = True,
            ed_reason = (utf8 [0x5BBF, 0x4E3B, 0x673A, 0x76EE, 0x5F55, 0x9700, 0x5728, 0x76EE, 0x6807, 0x673A, 0x9884, 0x5148, 0x51C6, 0x5907])\<rparr>)"

definition device_dependency :: "string \<Rightarrow> external_dependency" where
  "device_dependency d =
     \<lparr>ed_kind = ''device'', ed_source = d, ed_target = [], ed_required = True,
      ed_reason = (utf8 [0x5BBF, 0x4E3B, 0x673A, 0x8BBE, 0x5907] @ ''/GPU '' @ utf8 [0x65E0, 0x6CD5, 0x968F, 0x8FC1, 0x79FB, 0x643A, 0x5E26])\<rparr>"

definition externalDependencies :: "container_info \<Rightarrow> external_dependency list" where
  "externalDependencies info =
     map mount_dependency (filter (\<lambda>m. \<not> IsNamedVolume m) (ci_mounts info))
     @ map device_dependency (ci_devices info)
     @ (let nm = trim_space (ci_network info)
        in if isCustomNetwork nm
           then [\<lparr>ed_kind = ''network'', ed_source = nm, ed_target = [], ed_required = True,
                  ed_reason = (utf8 [0x76EE, 0x6807, 0x673A, 0x9700, 0x5B58, 0x5728, 0x540C, 0x540D] @ '' Docker '' @ utf8 [0x7F51, 0x7EDC])\<rparr>]
           else [])"

definition analyzeDatabase :: "container_info \<Rightarrow> database_analysis option" where
  "analyzeDatabase info =
     (let engine = DatabaseEngine info;
          tool = (if engine = ''mysql'' then ''mysqldump --single-transaction --quick --all-databases''
                  else if engine = ''postgres'' then ''pg_dumpall'' else [])
      in if engine = [] then None
         else Some \<lparr>da_engine = engine, da_tool = tool,
                    da_strategy = (if engine = ''mysql'' \<or> engine = ''postgres'' then DatabaseStrategyLogicalDump
                                   else DatabaseStrategyFileLevel),
                    da_data_dir = (case filter (\<lambda>m. IsDatabaseDataDir info (vm_dest m)) (ci_mounts info) of
                                     [] \<Rightarrow> [] | m # ms \<Rightarrow> vm_dest m)\<rparr>)"

definition formatPorts :: "port_mapping list \<Rightarrow> string" where
  "formatPorts ports = join_with '', '' (sort (filter (\<lambda>s. s \<noteq> []) (map port_string ports)))"

definition mountSources :: "volume_mount list \<Rightarrow> string" where
  "mountSources mounts = join_with '', '' (sort (map volume_string mounts))"

definition attr :: "string \<Rightarrow> support_level \<Rightarrow> string \<Rightarrow> attribute_support" where
  "attr name level detail = \<lparr>as_attribute = name, as_level = level, as_detail = detail\<rparr>"

definition when_list :: "bool \<Rightarrow> 'a \<Rightarrow> 'a list" where
  "when_list b x = (if b then [x] else [])"

definition network_attr :: "string \<Rightarrow> attribute_support list" where
  "network_attr nm =
     (if nm = [] then []
      else if nm = ''host'' then [attr ''network_mode'' SupportSupported ''host'']
      else if has_prefix nm ''container:'' then [attr ''network_mode'' SupportUnsupported nm]
      else if isCustomNetwork nm then [attr ''network_mode'' SupportPartial nm]
      else [])"

definition attributeSupport ::
    "container_info \<Rightarrow> string list \<Rightarrow> volume_mount list \<Rightarrow> volume_mount list \<Rightarrow> attribute_support list" where
  "attributeSupport info sensitive named binds =
     (let rp = trim_space (ci_restart info); wd = trim_space (ci_workdir info); compose = IsCompose info
      in [attr ''image'' SupportSupported (ci_image info)]
       @ when_list (rp \<noteq> [] \<and> rp \<noteq> ''no'') (attr ''restart_policy'' SupportSupported rp)
       @ when_list (ci_ports info \<noteq> []) (attr ''ports'' SupportSupported (formatPorts (ci_ports info)))
       @ when_list (ci_env info \<noteq> [])
           (if sensitive \<noteq> []
            then attr ''environment'' SupportPartial
                   ((utf8 [0x542B, 0x7591, 0x4F3C, 0x51ED, 0x636E, 0x53D8, 0x91CF] @ '' '' @ join_with '', '' sensitive @ utf8 [0xFF0C, 0x4F1A, 0x539F, 0x6837, 0x5199, 0x5165, 0x751F, 0x6210, 0x7684, 0x914D, 0x7F6E, 0x4E0E, 0x5907, 0x4EFD]))
            else attr ''environment'' SupportSupported [])
       @ when_list (ci_command info \<noteq> []) (attr ''command'' SupportSupported (join_with '' '' (ci_command info)))
       @ when_list (wd \<noteq> [] \<and> wd \<noteq> ''/'') (attr ''working_dir'' SupportSupported wd)
       @ when_list (named \<noteq> []) (attr ''named_volume'' SupportSupported (mountSources named))
       @ when_list (binds \<noteq> []) (attr ''bind_mount'' SupportPartial (mountSources binds))
       @ when_list (ci_devices info \<noteq> []) (attr ''device'' SupportUnsupported (join_with '', '' (ci_devices info)))
       @ network_attr (trim_space (ci_network info))
       @ when_list (ci_entrypoint info \<noteq> [])
           (if compose then attr ''entrypoint'' SupportSupported (utf8 [0x7531, 0x539F] @ '' Compose '' @ utf8 [0x6587, 0x4EF6, 0x4FDD, 0x7559])
            else attr ''entrypoint'' SupportPartial
                   (utf8 [0x53CD, 0x5411, 0x751F, 0x6210, 0x7684] @ '' compose '' @ utf8 [0x4E0D, 0x5199] @ '' entrypoint'' @ utf8 [0xFF0C, 0x82E5, 0x8986, 0x76D6, 0x8FC7, 0x955C, 0x50CF, 0x9ED8, 0x8BA4, 0x503C, 0x9700, 0x624B, 0x5DE5, 0x8865, 0x56DE]))
       @ when_list (ci_healthcheck info)
           (if compose then attr ''healthcheck'' SupportSupported (utf8 [0x7531, 0x539F] @ '' Compose '' @ utf8 [0x6587, 0x4EF6, 0x4FDD, 0x7559])
            else attr ''healthcheck'' SupportPartial (utf8 [0x53CD, 0x5411, 0x751F, 0x6210, 0x7684] @ '' compose '' @ utf8 [0x4E0D, 0x5199] @ '' healthcheck''))
       @ when_list (ci_privileged info) (attr ''privileged'' SupportPartial (utf8 [0x76EE, 0x6807, 0x673A, 0x9700, 0x8981, 0x663E, 0x5F0F, 0x6388, 0x6743, 0x7279, 0x6743, 0x6A21, 0x5F0F]))
       @ when_list (ci_cap_add info \<noteq> []) (attr ''capabilities'' SupportPartial (join_with '', '' (ci_cap_add info))))"

definition dependency_warning :: "external_dependency \<Rightarrow> string option" where
  "dependency_warning dep =
     (if ed_kind dep = ''bind_mount''
      then Some ((utf8 [0x5916, 0x90E8] @ '' bind mount '' @ ed_source dep @ '' '' @ utf8 [0x2192] @ '' '' @ ed_target dep @ utf8 [0xFF1A, 0x76EE, 0x6807, 0x673A, 0x9700, 0x9884, 0x5148, 0x51C6, 0x5907, 0x8BE5, 0x76EE, 0x5F55]))
      else if ed_kind dep = ''device''
      then Some ((utf8 [0x5BBF, 0x4E3B, 0x673A, 0x8BBE, 0x5907] @ '' '' @ ed_source dep @ utf8 [0xFF1A, 0x76EE, 0x6807, 0x673A, 0x5FC5, 0x987B, 0x5177, 0x5907, 0x540C, 0x6837, 0x7684, 0x8BBE, 0x5907]))
      else if ed_kind dep = ''network''
      then Some ((utf8 [0x81EA, 0x5B9A, 0x4E49, 0x7F51, 0x7EDC] @ '' '' @ ed_source dep @ utf8 [0xFF1A, 0x76EE, 0x6807, 0x673A, 0x9700, 0x5B58, 0x5728, 0x540C, 0x540D, 0x7F51, 0x7EDC]))
      else None)"

definition collectWarnings :: "container_info \<Rightarrow> external_dependency list \<Rightarrow> string list \<Rightarrow> string list" where
  "collectWarnings info deps sensitive =
     List.map_filter dependency_warning deps
     @ when_list (sensitive \<noteq> [])
         ((utf8 [0x7591, 0x4F3C, 0x654F, 0x611F, 0x73AF, 0x5883, 0x53D8, 0x91CF] @ '' '' @ join_with '', '' sensitive @ utf8 [0xFF1A, 0x53CD, 0x5411, 0x751F, 0x6210, 0x7684, 0x914D, 0x7F6E, 0x4F1A, 0x539F, 0x6837, 0x5305, 0x542B, 0x53D6, 0x503C]))
     @ when_list (\<not> IsCompose info)
         (utf8 [0x666E, 0x901A] @ '' docker run '' @ utf8 [0x5BB9, 0x5668, 0xFF1A, 0x8FC1, 0x79FB, 0x65F6, 0x53CD, 0x5411, 0x751F, 0x6210, 0x5355] @ '' service compose.yaml'' @ utf8 [0xFF0C, 0x672A, 0x8986, 0x76D6, 0x7684, 0x5B57, 0x6BB5, 0x9700, 0x4EBA, 0x5DE5, 0x6838, 0x5BF9])
     @ when_list (ci_privileged info) (utf8 [0x5BB9, 0x5668, 0x4EE5, 0x7279, 0x6743, 0x6A21, 0x5F0F, 0x8FD0, 0x884C, 0xFF1A, 0x76EE, 0x6807, 0x673A, 0x9700, 0x8981, 0x663E, 0x5F0F, 0x6388, 0x6743])
     @ when_list (ci_cap_add info \<noteq> []) ((utf8 [0x5BB9, 0x5668, 0x8FFD, 0x52A0, 0x4E86] @ '' capabilities '' @ join_with '', '' (ci_cap_add info)))"

definition collectBlockers :: "container_info \<Rightarrow> string list" where
  "collectBlockers info =
     when_list (trim_space (ci_image info) = []) (utf8 [0x5BB9, 0x5668, 0x6CA1, 0x6709, 0x53EF, 0x8BC6, 0x522B, 0x7684, 0x955C, 0x50CF, 0x5F15, 0x7528, 0xFF0C, 0x65E0, 0x6CD5, 0x786E, 0x5B9A, 0x8981, 0x8FC1, 0x79FB, 0x7684, 0x8FD0, 0x884C, 0x73AF, 0x5883])
     @ (let nm = trim_space (ci_network info)
        in when_list (has_prefix nm ''container:'')
             ((utf8 [0x5BB9, 0x5668, 0x5171, 0x4EAB, 0x53E6, 0x4E00, 0x4E2A, 0x5BB9, 0x5668, 0x7684, 0x7F51, 0x7EDC, 0x547D, 0x540D, 0x7A7A, 0x95F4, 0xFF08] @ ''network_mode='' @ nm @ utf8 [0xFF09, 0xFF0C, 0x65E0, 0x6CD5, 0x6309, 0x5355, 0x5BB9, 0x5668, 0x8FC1, 0x79FB])))"

definition Analyze :: "container_info \<Rightarrow> container_analysis" where
  "Analyze info =
     (let sensitive = SensitiveEnvVars info;
          named = sortMounts (filter IsNamedVolume (ci_mounts info));
          binds = sortMounts (filter (\<lambda>m. \<not> IsNamedVolume m) (ci_mounts info));
          deps = externalDependencies info
      in \<lparr>ca_name = ci_name info, ca_image = ci_image info, ca_is_compose = IsCompose info,
          ca_project = ComposeProject info, ca_service = ComposeServiceName info,
          ca_working_dir = ComposeWorkingDir info,
          ca_config_files = label_value (ci_labels info) LabelComposeConfigFiles,
          ca_restart = ci_restart info, ca_named = named, ca_binds = binds, ca_deps = deps,
          ca_database = analyzeDatabase info, ca_sensitive = sensitive,
          ca_attributes = attributeSupport info sensitive named binds,
          ca_warnings = collectWarnings info deps sensitive, ca_blockers = collectBlockers info\<rparr>)"

fun add_host_path :: "string list \<Rightarrow> string \<Rightarrow> string list" where
  "add_host_path out p = (let t = trim_space p in if t = [] \<or> t \<in> set out then out else out @ [t])"

definition HostPaths :: "container_analysis \<Rightarrow> string list" where
  "HostPaths a =
     sort (foldl add_host_path []
            (ca_working_dir a # map vm_source (filter (\<lambda>m. \<not> is_system_mount (vm_source m)) (ca_binds a))))"

section \<open>Compose overrides\<close>

datatype yaml =
    YString string
  | YMap "(string \<times> yaml) list"
  | YAnyMap "(yaml \<times> yaml) list"
  | YSeq "yaml list"
  | YScalar string

text \<open>\<open>Ports\<close> is a Go slice that may be nil.\<close>

record compose_override =
  ov_ports :: "string list option"
  ov_binds :: "(string \<times> string) list"

definition override_any :: "compose_override \<Rightarrow> bool" where
  "override_any ov \<longleftrightarrow> ov_ports ov \<noteq> None \<or> ov_binds ov \<noteq> []"

text \<open>The flag tells whether the result is the map itself (an update of it is seen by its owner) or a copy.\<close>

fun string_entries :: "(yaml \<times> yaml) list \<Rightarrow> (string \<times> yaml) list" where
  "string_entries [] = []"
| "string_entries ((k, v) # es) = (case k of YString s \<Rightarrow> (s, v) # string_entries es | _ \<Rightarrow> string_entries es)"

fun asAnyMap :: "yaml \<Rightarrow> ((string \<times> yaml) list \<times> bool) option" where
  "asAnyMap (YMap es) = Some (es, True)"
| "asAnyMap (YAnyMap es) = Some (string_entries es, False)"
| "asAnyMap _ = None"

definition rewrite_volume :: "(string \<times> string) list \<Rightarrow> yaml \<Rightarrow> yaml" where
  "rewrite_volume targets entry =
     (case entry of
        YString spec \<Rightarrow>
          (case split_on (CHR '':'') spec of
             host # dest # rest \<Rightarrow>
               (case map_of targets dest of
                  Some replacement \<Rightarrow> YString (join_with '':'' (replacement # dest # rest))
                | None \<Rightarrow> YString spec)
           | _ \<Rightarrow> YString spec)
      | _ \<Rightarrow> entry)"

definition rewriteComposeVolumes :: "yaml list \<Rightarrow> (string \<times> string) list \<Rightarrow> yaml list" where
  "rewriteComposeVolumes volumes targets = map (rewrite_volume targets) volumes"

definition set_field :: "string \<Rightarrow> 'a \<Rightarrow> (string \<times> 'a) list \<Rightarrow> (string \<times> 'a) list" where
  "set_field k v es = upsert fst (k, v) es"

definition override_ports :: "string list option \<Rightarrow> (string \<times> yaml) list \<Rightarrow> (string \<times> yaml) list" where
  "override_ports ports service =
     (case ports of
        None \<Rightarrow> service
      | Some ps \<Rightarrow>
          (let kept = filter (\<lambda>p. p \<noteq> []) (map trim_space ps)
           in if kept = [] then del_key fst ''ports'' service
              else set_field ''ports'' (YSeq (map YString kept)) service))"

definition override_binds :: "(string \<times> string) list \<Rightarrow> (string \<times> yaml) list \<Rightarrow> (string \<times> yaml) list" where
  "override_binds targets service =
     (if targets = [] then service
      else (case map_of service ''volumes'' of
              Some (YSeq volumes) \<Rightarrow> set_field ''volumes'' (YSeq (rewriteComposeVolumes volumes targets)) service
            | _ \<Rightarrow> service))"

definition edit_service :: "compose_override \<Rightarrow> (string \<times> yaml) list \<Rightarrow> (string \<times> yaml) list" where
  "edit_service ov service = override_binds (ov_binds ov) (override_ports (ov_ports ov) service)"

definition set_any :: "string \<Rightarrow> yaml \<Rightarrow> (yaml \<times> yaml) list \<Rightarrow> (yaml \<times> yaml) list" where
  "set_any k v es = map (\<lambda>(k', w). if k' = YString k then (k', v) else (k', w)) es"

text \<open>
  The root document when the edits are done. A Go map is a reference: the assignment
  \<open>services[key] = service\<close> reaches the document when \<open>services\<close> is its own map, and the edits of
  \<open>service\<close> reach it when that is; an edit of a copy inside a copy is lost.
\<close>

definition override_root :: "(string \<times> yaml) list \<Rightarrow> string \<Rightarrow> compose_override \<Rightarrow> (string \<times> yaml) list res" where
  "override_root root' key ov =
     (case map_of root' ''services'' of
        None \<Rightarrow> Inl (errors_new ''compose document has no services mapping'')
      | Some value \<Rightarrow>
     (case asAnyMap value of
        None \<Rightarrow> Inl (errors_new ''compose document has no services mapping'')
      | Some (services, shared) \<Rightarrow>
     (case map_of services key of
        None \<Rightarrow> Inl (errors_new (''compose document has no service named '' @ go_quote key))
      | Some rawService \<Rightarrow>
     (case asAnyMap rawService of
        None \<Rightarrow> Inl (errors_new (''compose service '' @ go_quote key @ '' is not a mapping''))
      | Some (service, own) \<Rightarrow>
          (let edited = YMap (edit_service ov service)
           in if shared then Inr (set_field ''services'' (YMap (set_field key edited services)) root')
              else if own then
                Inr (case value of
                       YAnyMap es \<Rightarrow> set_field ''services'' (YAnyMap (set_any key edited es)) root'
                     | _ \<Rightarrow> root')
              else Inr root')))))"

definition OverrideCompose ::
    "(string \<Rightarrow> (string \<times> yaml) list res) \<Rightarrow> ((string \<times> yaml) list \<Rightarrow> string res) \<Rightarrow> string \<Rightarrow> string
     \<Rightarrow> compose_override \<Rightarrow> string res" where
  "OverrideCompose parse show_yaml doc serviceKey ov =
     (if \<not> override_any ov then Inr doc
      else (let key = trim_space serviceKey
            in if key = [] then Inl (errors_new ''compose service key cannot be empty'')
               else (case parse doc of
                       Inl e \<Rightarrow> Inl (wrap ''parse compose document: '' e [])
                     | Inr root' \<Rightarrow>
                         (case override_root root' key ov of
                            Inl e \<Rightarrow> Inl e
                          | Inr root2 \<Rightarrow>
                              (case show_yaml root2 of
                                 Inl e \<Rightarrow> Inl (wrap ''marshal compose document: '' e [])
                               | Inr out \<Rightarrow> Inr out)))))"

section \<open>Lemmas\<close>

lemma set_sortMounts [simp]: "set (sortMounts ms) = set ms" "mset (sortMounts ms) = mset ms"
  by (simp_all add: sortMounts_def)

lemma add_host_paths_spec:
  "distinct out \<Longrightarrow> distinct (foldl add_host_path out ps)
     \<and> set (foldl add_host_path out ps) = set out \<union> {t. t \<noteq> [] \<and> t \<in> trim_space ` set ps}"
proof (induction ps arbitrary: out)
  case (Cons p ps)
  have "distinct (add_host_path out p)" using Cons.prems by (simp add: Let_def)
  moreover have "set (add_host_path out p) = set out \<union> {t. t \<noteq> [] \<and> t = trim_space p}"
    by (auto simp: Let_def)
  ultimately show ?case using Cons.IH[of "add_host_path out p"] by auto
qed simp

lemma map_of_set_field: "map_of (set_field k v es) k' = (if k' = k then Some v else map_of es k')"
  unfolding set_field_def by (induction es) auto

lemma map_of_del_key: "distinct (map fst es) \<Longrightarrow> map_of (del_key fst k es) k' = (if k' = k then None else map_of es k')"
proof (induction es)
  case (Cons e es)
  then have "map_of es (fst e) = None" by (simp add: map_of_eq_None_iff)
  with Cons show ?case by (cases e) auto
qed simp

lemma map_of_set_any:
  "map_of (string_entries (set_any k v es)) k'
     = (if k' = k \<and> map_of (string_entries es) k \<noteq> None then Some v
        else map_of (string_entries es) k')"
proof (induction es)
  case (Cons e es)
  obtain a w where e: "e = (a, w)" by fastforce
  show ?case using Cons.IH by (cases a) (auto simp: e set_any_def)
qed (simp add: set_any_def)

lemma map_of_override_ports: "distinct (map fst service) \<Longrightarrow>
  map_of (override_ports ports service) f
    = (case ports of
         None \<Rightarrow> map_of service f
       | Some ps \<Rightarrow> (if f \<noteq> ''ports'' then map_of service f
                      else let kept = filter (\<lambda>p. p \<noteq> []) (map trim_space ps)
                           in if kept = [] then None else Some (YSeq (map YString kept))))"
  by (simp add: override_ports_def Let_def map_of_set_field map_of_del_key split: option.split)

lemma rewrite_volume_none: "rewrite_volume [] v = v"
  by (simp add: rewrite_volume_def split: yaml.split list.split)

lemma map_of_override_binds:
  "map_of (override_binds targets service) f
    = (if f \<noteq> ''volumes'' then map_of service f
       else case map_of service f of
              Some (YSeq vs) \<Rightarrow> Some (YSeq (map (rewrite_volume targets) vs))
            | r \<Rightarrow> r)"
proof (cases "targets = []")
  case True
  then show ?thesis by (simp add: override_binds_def rewrite_volume_none[abs_def] split: option.split yaml.split)
next
  case False
  then show ?thesis
    by (cases "map_of service ''volumes''"; cases "the (map_of service ''volumes'')")
       (simp_all add: override_binds_def rewriteComposeVolumes_def map_of_set_field)
qed

lemma edit_service_fields: "distinct (map fst service) \<Longrightarrow>
  map_of (edit_service ov service) f
    = (if f = ''volumes'' then (case map_of service f of
                                  Some (YSeq vs) \<Rightarrow> Some (YSeq (map (rewrite_volume (ov_binds ov)) vs))
                                | r \<Rightarrow> r)
       else if f = ''ports'' then (case ov_ports ov of
                                     None \<Rightarrow> map_of service f
                                   | Some ps \<Rightarrow> (let kept = filter (\<lambda>p. p \<noteq> []) (map trim_space ps)
                                                 in if kept = [] then None else Some (YSeq (map YString kept))))
       else map_of service f)"
  by (simp add: edit_service_def map_of_override_binds map_of_override_ports split: option.split)

lemma override_root_mapping:
  assumes "map_of root' ''services'' = Some value" "asAnyMap value = Some (services, shared)"
    and "map_of services key = Some (YMap service)"
  shows "\<exists>value' services' flag. override_root root' key ov = Inr (set_field ''services'' value' root')
    \<and> asAnyMap value' = Some (services', flag)
    \<and> (\<forall>k. map_of services' k = (if k = key then Some (YMap (edit_service ov service)) else map_of services k))"
proof (cases "value")
  case (YMap es)
  with assms have "override_root root' key ov
      = Inr (set_field ''services'' (YMap (set_field key (YMap (edit_service ov service)) services)) root')"
    by (auto simp: override_root_def Let_def)
  moreover have "\<forall>k. map_of (set_field key (YMap (edit_service ov service)) services) k
      = (if k = key then Some (YMap (edit_service ov service)) else map_of services k)"
    by (simp add: map_of_set_field)
  ultimately show ?thesis using asAnyMap.simps(1) by blast
next
  case (YAnyMap es)
  then have es: "services = string_entries es" "\<not> shared" using assms(2) by auto
  with assms YAnyMap have "override_root root' key ov
      = Inr (set_field ''services'' (YAnyMap (set_any key (YMap (edit_service ov service)) es)) root')"
    by (auto simp: override_root_def Let_def)
  moreover have "\<forall>k. map_of (string_entries (set_any key (YMap (edit_service ov service)) es)) k
      = (if k = key then Some (YMap (edit_service ov service)) else map_of services k)"
    using assms(3) es by (simp add: map_of_set_any)
  ultimately show ?thesis using asAnyMap.simps(2) by blast
qed (use assms in \<open>auto simp: override_root_def\<close>)

section \<open>Properties\<close>

text \<open>The analysis accounts for every mount: each is in exactly one of the two lists, each bind mount that is
  not a system mount is a required external dependency with a warning, and its source is a host path to prepare.
  The host paths are exactly those sources and the Compose directory, trimmed, sorted and without duplicates.\<close>

theorem analysis_accounts_for_mounts:
  "mset (ca_named (Analyze info)) + mset (ca_binds (Analyze info)) = mset (ci_mounts info)
   \<and> (\<forall>m\<in>set (ci_mounts info). \<not> IsNamedVolume m \<and> \<not> is_system_mount (vm_source m) \<longrightarrow>
        (\<exists>d\<in>set (ca_deps (Analyze info)). ed_kind d = ''bind_mount'' \<and> ed_source d = vm_source m
           \<and> ed_target d = vm_dest m \<and> ed_required d
           \<and> (\<exists>w\<in>set (ca_warnings (Analyze info)). dependency_warning d = Some w)))
   \<and> set (HostPaths (Analyze info))
       = {t. t \<noteq> [] \<and> (t = trim_space (ComposeWorkingDir info)
            \<or> (\<exists>m\<in>set (ci_mounts info). \<not> IsNamedVolume m \<and> \<not> is_system_mount (vm_source m) \<and> t = trim_space (vm_source m)))}
   \<and> sorted (HostPaths (Analyze info)) \<and> distinct (HostPaths (Analyze info))"
proof -
  have fields: "ca_named (Analyze info) = sortMounts (filter IsNamedVolume (ci_mounts info))"
    "ca_binds (Analyze info) = sortMounts (filter (\<lambda>m. \<not> IsNamedVolume m) (ci_mounts info))"
    "ca_deps (Analyze info) = externalDependencies info" "ca_working_dir (Analyze info) = ComposeWorkingDir info"
    "ca_warnings (Analyze info) = collectWarnings info (externalDependencies info) (SensitiveEnvVars info)"
    by (simp_all add: Analyze_def Let_def)
  have part: "mset (ca_named (Analyze info)) + mset (ca_binds (Analyze info)) = mset (ci_mounts info)"
    by (simp add: fields multiset_partition[symmetric])
  have deps: "\<exists>d\<in>set (ca_deps (Analyze info)). ed_kind d = ''bind_mount'' \<and> ed_source d = vm_source m
           \<and> ed_target d = vm_dest m \<and> ed_required d \<and> (\<exists>w\<in>set (ca_warnings (Analyze info)). dependency_warning d = Some w)"
    if m: "m \<in> set (ci_mounts info)" "\<not> IsNamedVolume m" "\<not> is_system_mount (vm_source m)" for m
  proof (rule bexI[of _ "mount_dependency m"])
    show d: "mount_dependency m \<in> set (ca_deps (Analyze info))"
      using m by (simp add: fields externalDependencies_def)
    have k: "ed_kind (mount_dependency m) = ''bind_mount''" using m by (simp add: mount_dependency_def)
    then obtain w where w: "dependency_warning (mount_dependency m) = Some w" by (simp add: dependency_warning_def)
    then have "w \<in> set (List.map_filter dependency_warning (externalDependencies info))"
      using d unfolding fields by (force simp: List.map_filter_def)
    then have "w \<in> set (ca_warnings (Analyze info))" by (simp add: fields collectWarnings_def)
    with k w show "ed_kind (mount_dependency m) = ''bind_mount'' \<and> ed_source (mount_dependency m) = vm_source m
           \<and> ed_target (mount_dependency m) = vm_dest m \<and> ed_required (mount_dependency m)
           \<and> (\<exists>w\<in>set (ca_warnings (Analyze info)). dependency_warning (mount_dependency m) = Some w)"
      using m by (auto simp: mount_dependency_def)
  qed
  have paths: "distinct (HostPaths (Analyze info)) \<and> set (HostPaths (Analyze info))
      = {t. t \<noteq> [] \<and> t \<in> trim_space ` set (ComposeWorkingDir info
          # map vm_source (filter (\<lambda>m. \<not> is_system_mount (vm_source m)) (ca_binds (Analyze info))))}"
    using add_host_paths_spec[of "[]"] by (simp add: HostPaths_def fields del: add_host_path.simps foldl_Cons list.set_map)
  show ?thesis using part deps paths by (auto simp: fields HostPaths_def)
qed

text \<open>An override edits only what it names: the ports of the service and the host side of the short-syntax
  volumes whose destination is listed. Every other field of it, every other service and every other part of the document
  are kept, and no service is added.\<close>

theorem override_edits_only_named:
  assumes "map_of root' ''services'' = Some value" "asAnyMap value = Some (services, shared)"
    and "map_of services key = Some (YMap service)" "distinct (map fst service)"
  shows "\<exists>root2 value' services' flag service'. override_root root' key ov = Inr root2
    \<and> map_of root2 ''services'' = Some value' \<and> asAnyMap value' = Some (services', flag)
    \<and> (\<forall>k. k \<noteq> ''services'' \<longrightarrow> map_of root2 k = map_of root' k)
    \<and> (\<forall>k. k \<noteq> key \<longrightarrow> map_of services' k = map_of services k)
    \<and> map_of services' key = Some (YMap service')
    \<and> (\<forall>f. f \<noteq> ''ports'' \<and> f \<noteq> ''volumes'' \<longrightarrow> map_of service' f = map_of service f)
    \<and> map_of service' ''ports''
        = (case ov_ports ov of None \<Rightarrow> map_of service ''ports''
           | Some ps \<Rightarrow> (let kept = filter (\<lambda>p. p \<noteq> []) (map trim_space ps)
                         in if kept = [] then None else Some (YSeq (map YString kept))))
    \<and> map_of service' ''volumes''
        = (case map_of service ''volumes'' of
             Some (YSeq vs) \<Rightarrow> Some (YSeq (map (rewrite_volume (ov_binds ov)) vs)) | r \<Rightarrow> r)"
proof -
  obtain value' services' flag where r: "override_root root' key ov = Inr (set_field ''services'' value' root')"
    "asAnyMap value' = Some (services', flag)"
    "\<And>k. map_of services' k = (if k = key then Some (YMap (edit_service ov service)) else map_of services k)"
    using override_root_mapping[OF assms(1-3)] by blast
  show ?thesis
    by (intro exI[of _ "set_field ''services'' value' root'"] exI[of _ value'] exI[of _ services'] exI[of _ flag]
          exI[of _ "edit_service ov service"])
       (simp add: r map_of_set_field edit_service_fields[OF assms(4)])
qed

text \<open>When the services and the service both have a key that is not a string, the edits are made in copies: the
  override succeeds and returns the document as it was.\<close>

theorem override_lost_in_copies:
  assumes "map_of root' ''services'' = Some (YAnyMap es)"
    and "map_of (string_entries es) key = Some (YAnyMap entries)"
  shows "override_root root' key ov = Inr root'"
  using assms by (simp add: override_root_def Let_def)

section \<open>Witnesses\<close>

definition example_info :: container_info where
  "example_info =
     \<lparr>ci_id = ''1'', ci_name = ''web'', ci_image = ''nginx'', ci_workdir = ''/'', ci_command = [], ci_entrypoint = [],
      ci_env = [''API_TOKEN=x''], ci_restart = ''always'', ci_network = ''front'', ci_privileged = True, ci_cap_add = [],
      ci_cap_drop = [], ci_healthcheck = True, ci_ports = [], ci_mounts =
        [\<lparr>vm_type = ''bind'', vm_name = [], vm_source = ''/srv/web'', vm_host_path = [], vm_dest = ''/usr/share'', vm_read_only = True\<rparr>,
         \<lparr>vm_type = ''volume'', vm_name = ''cache'', vm_source = ''cache'', vm_host_path = [], vm_dest = ''/var/cache'', vm_read_only = False\<rparr>,
         \<lparr>vm_type = ''bind'', vm_name = [], vm_source = ''/run/docker.sock'', vm_host_path = [], vm_dest = ''/sock'', vm_read_only = True\<rparr>],
      ci_devices = [], ci_labels = [(LabelComposeProject, ''p''), (LabelComposeWorkingDir, ''/opt/p '')]\<rparr>"

theorem analysis_accounts_for_mounts_witness:
  "HostPaths (Analyze example_info) = [''/opt/p'', ''/srv/web'']
   \<and> (\<exists>d\<in>set (ca_deps (Analyze example_info)). ed_source d = ''/srv/web'' \<and> ed_required d)"
proof -
  define m :: volume_mount where "m = hd (ci_mounts example_info)"
  have "m \<in> set (ci_mounts example_info)" by (simp add: m_def example_info_def)
  moreover have "\<not> IsNamedVolume m \<and> \<not> is_system_mount (vm_source m)" unfolding m_def by code_simp
  moreover have src: "vm_source m = ''/srv/web''" unfolding m_def by code_simp
  ultimately have "\<exists>d\<in>set (ca_deps (Analyze example_info)). ed_source d = ''/srv/web'' \<and> ed_required d"
    using analysis_accounts_for_mounts[of example_info] by metis
  moreover have "sort (foldl add_host_path [] (ComposeWorkingDir example_info
      # map vm_source (filter (\<lambda>m. \<not> is_system_mount (vm_source m))
          (sortMounts (filter (\<lambda>m. \<not> IsNamedVolume m) (ci_mounts example_info)))))) = [''/opt/p'', ''/srv/web'']"
    by code_simp
  ultimately show ?thesis by (simp add: HostPaths_def Analyze_def Let_def)
qed

definition example_service :: "(string \<times> yaml) list" where
  "example_service = [(''image'', YString ''nginx''), (''ports'', YSeq [YString ''80:80'']),
     (''volumes'', YSeq [YString ''/srv/a:/data:ro'', YString ''/srv/b:/logs''])]"

definition example_override :: compose_override where
  "example_override = \<lparr>ov_ports = Some ['' 8080:80 ''], ov_binds = [(''/data'', ''/mnt/a'')]\<rparr>"

theorem override_edits_only_named_witness:
  "\<exists>root2 value'. override_root [(''services'', YAnyMap [(YString ''web'', YMap example_service), (YScalar ''1'', YScalar ''2'')])] ''web'' example_override
      = Inr root2 \<and> map_of root2 ''services'' = Some value'"
proof -
  let ?v = "YAnyMap [(YString ''web'', YMap example_service), (YScalar ''1'', YScalar ''2'')]"
  have a: "map_of [(''services'', ?v)] ''services'' = Some ?v" by simp
  have b: "asAnyMap ?v = Some ([(''web'', YMap example_service)], False)" by simp
  have c: "map_of [(''web'', YMap example_service)] ''web'' = Some (YMap example_service)" by simp
  have d: "distinct (map fst example_service)" by (simp add: example_service_def)
  from override_edits_only_named[OF a b c d, of example_override]
  show ?thesis by (elim exE conjE) (intro exI conjI; assumption)
qed

theorem override_lost_in_copies_witness:
  "override_root [(''services'', YAnyMap [(YString ''web'', YAnyMap [(YScalar ''8080'', YScalar ''1'')]), (YScalar ''1'', YScalar ''2'')])]
      ''web'' example_override
    = Inr [(''services'', YAnyMap [(YString ''web'', YAnyMap [(YScalar ''8080'', YScalar ''1'')]), (YScalar ''1'', YScalar ''2'')])]"
  using override_lost_in_copies[of "[(''services'', YAnyMap [(YString ''web'', YAnyMap [(YScalar ''8080'', YScalar ''1'')]), (YScalar ''1'', YScalar ''2'')])]"
      "[(YString ''web'', YAnyMap [(YScalar ''8080'', YScalar ''1'')]), (YScalar ''1'', YScalar ''2'')]" "''web''"
      "[(YScalar ''8080'', YScalar ''1'')]" example_override]
  by simp

end
