(* ===== verification/RestoreReport.thy ===== *)
theory RestoreReport
  imports AuditRepo GoStrings
begin

text \<open>
  \<open>internal/backup/restore_steps.go\<close>: the per-step report of a restore and the status derived from it. The
  embedded \<open>*storage.RestoreRun\<close>, which the runner holds as well, is the field \<open>rp_run\<close>.
\<close>

section \<open>The report\<close>

datatype step_kind = StepFiles | StepVolumes | StepDatabase | StepCompose

datatype step_state = StepSuccess | StepFailed | StepSkipped | StepBlocked | StepManual

definition kind_text :: "step_kind \<Rightarrow> string" where
  "kind_text k = (case k of StepFiles \<Rightarrow> ''files'' | StepVolumes \<Rightarrow> ''volumes'' | StepDatabase \<Rightarrow> ''database'' | StepCompose \<Rightarrow> ''compose'')"

definition state_text :: "step_state \<Rightarrow> string" where
  "state_text s = (case s of StepSuccess \<Rightarrow> ''success'' | StepFailed \<Rightarrow> ''failed'' | StepSkipped \<Rightarrow> ''skipped''
     | StepBlocked \<Rightarrow> ''blocked'' | StepManual \<Rightarrow> ''manual'')"

definition restoreStepOrder :: "(step_kind \<times> string) list" where
  "restoreStepOrder = [(StepFiles, (utf8 [0x6587, 0x4EF6, 0x6062, 0x590D])), (StepVolumes, (''volume '' @ utf8 [0x6062, 0x590D])),
     (StepDatabase, (utf8 [0x6570, 0x636E, 0x5E93, 0x5BFC, 0x5165])), (StepCompose, (''Compose '' @ utf8 [0x542F, 0x52A8]))]"

record restore_step =
  rs_kind :: step_kind
  rs_label :: string
  rs_status :: step_state
  rs_detail :: string
  rs_next :: string

record restore_report =
  rp_run :: restore_run
  rp_steps :: "restore_step list"
  rp_warnings :: "string list"
  rp_pending :: "string list"
  rp_untracked :: bool

definition newRestoreReport :: "restore_run \<Rightarrow> restore_report" where
  "newRestoreReport run =
     \<lparr>rp_run = run,
      rp_steps = map (\<lambda>(k, l). \<lparr>rs_kind = k, rs_label = l, rs_status = StepSkipped, rs_detail = (utf8 [0x672A, 0x6267, 0x884C]), rs_next = []\<rparr>) restoreStepOrder,
      rp_warnings = [], rp_pending = [], rp_untracked = False\<rparr>"

fun set_step_in :: "step_kind \<Rightarrow> step_state \<Rightarrow> string \<Rightarrow> string \<Rightarrow> restore_step list \<Rightarrow> restore_step list" where
  "set_step_in k st d n [] = []"
| "set_step_in k st d n (s # ss) =
     (if rs_kind s = k then s\<lparr>rs_status := st, rs_detail := d, rs_next := n\<rparr> # ss else s # set_step_in k st d n ss)"

definition setStep :: "step_kind \<Rightarrow> step_state \<Rightarrow> string \<Rightarrow> string \<Rightarrow> restore_report \<Rightarrow> restore_report" where
  "setStep k st d n rep = rep\<lparr>rp_steps := set_step_in k st d n (rp_steps rep)\<rparr>"

definition stepStatus :: "step_kind \<Rightarrow> restore_report \<Rightarrow> step_state option" where
  "stepStatus k rep = map_option rs_status (find_key rs_kind k (rp_steps rep))"

definition addWarning :: "string \<Rightarrow> restore_report \<Rightarrow> restore_report" where
  "addWarning msg rep = (if trim_space msg = [] then rep else rep\<lparr>rp_warnings := rp_warnings rep @ [msg]\<rparr>)"

definition addPending :: "string \<Rightarrow> restore_report \<Rightarrow> restore_report" where
  "addPending msg rep = (if trim_space msg = [] then rep else rep\<lparr>rp_pending := rp_pending rep @ [msg]\<rparr>)"

definition warnf :: "string \<Rightarrow> restore_report \<Rightarrow> restore_report" where
  "warnf msg rep = addWarning (trim_space msg) rep"

definition blockSteps :: "string \<Rightarrow> step_kind list \<Rightarrow> restore_report \<Rightarrow> restore_report" where
  "blockSteps reason kinds rep = foldl (\<lambda>r k. setStep k StepBlocked reason [] r) rep kinds"

definition skipContainerSteps :: "string \<Rightarrow> restore_report \<Rightarrow> restore_report" where
  "skipContainerSteps reason rep = foldl (\<lambda>r k. setStep k StepSkipped reason [] r) rep [StepVolumes, StepDatabase, StepCompose]"

definition aggregateStatus :: "bool \<Rightarrow> restore_report \<Rightarrow> string" where
  "aggregateStatus dryRun rep =
     (if dryRun then ''dry-run''
      else if stepStatus StepFiles rep = Some StepFailed then ''failed''
      else if list_ex (\<lambda>s. rs_status s = StepFailed \<or> rs_status s = StepBlocked) (rp_steps rep) then ''partial''
      else ''success'')"

definition shortSnapshotID :: "string \<Rightarrow> string" where
  "shortSnapshotID i = (if length i > 8 then take 8 i else i)"

text \<open>The lines of \<open>writeRestoreResult\<close>; \<open>fmt2\<close> is the verb \<open>%.2f\<close>.\<close>

definition step_lines :: "nat \<Rightarrow> restore_step \<Rightarrow> string list" where
  "step_lines i s =
     ((''  '' @ show_nat (i + 1) @ ''. ['' @ state_text (rs_status s) @ ''] '' @ rs_label s @ utf8 [0xFF1A] @ rs_detail s))
     # (if rs_next s \<noteq> [] then [ (''     '' @ utf8 [0x4E0B, 0x4E00, 0x6B65, 0xFF1A] @ rs_next s) ] else [])"

fun all_step_lines :: "nat \<Rightarrow> restore_step list \<Rightarrow> string list" where
  "all_step_lines i [] = []"
| "all_step_lines i (s # ss) = step_lines i s @ all_step_lines (i + 1) ss"

definition writeRestoreResult :: "(rat \<Rightarrow> string) \<Rightarrow> restore_report \<Rightarrow> rat \<Rightarrow> string list" where
  "writeRestoreResult fmt2 rep durationSeconds =
     [[], (utf8 [0x6062, 0x590D, 0x7ED3, 0x679C, 0xFF08, 0x4EFB, 0x52A1] @ '' '' @ go_quote (rr_job (rp_run rep)) @ utf8 [0xFF0C, 0x5FEB, 0x7167] @ '' '' @ shortSnapshotID (rr_snapshot (rp_run rep)) @ utf8 [0xFF0C, 0x76EE, 0x6807] @ '' '' @ rr_target (rp_run rep) @ utf8 [0xFF0C, 0x8017, 0x65F6] @ '' '' @ fmt2 durationSeconds @ ''s'' @ utf8 [0xFF0C, 0x603B, 0x72B6, 0x6001, 0xFF1A] @ to_upper (rr_status (rp_run rep)) @ utf8 [0xFF09]) ]
     @ all_step_lines 0 (rp_steps rep)
     @ (if rp_warnings rep \<noteq> [] then (''  '' @ utf8 [0x8B66, 0x544A, 0xFF1A]) # map (\<lambda>w. ''    - '' @ w) (rp_warnings rep) else [])
     @ (if rp_pending rep \<noteq> [] then (''  '' @ utf8 [0x672A, 0x5B8C, 0x6210, 0x4E8B, 0x9879, 0xFF1A]) # map (\<lambda>p. ''    - '' @ p) (rp_pending rep) else [])"

section \<open>Steps\<close>

text \<open>The steps of a report are the four kinds, in order and with their labels.\<close>

definition steps_ok :: "restore_report \<Rightarrow> bool" where
  "steps_ok rep \<longleftrightarrow> map (\<lambda>s. (rs_kind s, rs_label s)) (rp_steps rep) = restoreStepOrder"

lemma new_report_ok [simp]: "steps_ok (newRestoreReport run)"
  by (simp add: steps_ok_def newRestoreReport_def restoreStepOrder_def)

lemma set_step_in_keys [simp]:
  "map (\<lambda>s. (rs_kind s, rs_label s)) (set_step_in k st d n ss) = map (\<lambda>s. (rs_kind s, rs_label s)) ss"
  by (induction ss) auto

lemma report_fields [simp]:
  "rp_run (setStep k st d n rep) = rp_run rep" "rp_untracked (setStep k st d n rep) = rp_untracked rep"
  "rp_run (addWarning m rep) = rp_run rep" "rp_untracked (addWarning m rep) = rp_untracked rep"
  "rp_run (addPending m rep) = rp_run rep" "rp_untracked (addPending m rep) = rp_untracked rep"
  "rp_steps (addWarning m rep) = rp_steps rep" "rp_steps (addPending m rep) = rp_steps rep"
  "rp_run (warnf m rep) = rp_run rep" "rp_untracked (warnf m rep) = rp_untracked rep" "rp_steps (warnf m rep) = rp_steps rep"
  by (simp_all add: setStep_def addWarning_def addPending_def warnf_def)

lemma block_fields [simp]:
  "rp_run (blockSteps r ks rep) = rp_run rep" "rp_untracked (blockSteps r ks rep) = rp_untracked rep"
  unfolding blockSteps_def by (induction ks arbitrary: rep) simp_all

lemma skip_fields [simp]:
  "rp_run (skipContainerSteps r rep) = rp_run rep" "rp_untracked (skipContainerSteps r rep) = rp_untracked rep"
  by (simp_all add: skipContainerSteps_def)

lemma steps_ok_keep [simp]:
  "steps_ok (setStep k st d n rep) \<longleftrightarrow> steps_ok rep"
  "steps_ok (addWarning m rep) \<longleftrightarrow> steps_ok rep"
  "steps_ok (addPending m rep) \<longleftrightarrow> steps_ok rep"
  "steps_ok (warnf m rep) \<longleftrightarrow> steps_ok rep"
  "steps_ok (rep\<lparr>rp_run := run\<rparr>) \<longleftrightarrow> steps_ok rep"
  "steps_ok (rep\<lparr>rp_untracked := u\<rparr>) \<longleftrightarrow> steps_ok rep"
  by (simp_all add: steps_ok_def setStep_def addWarning_def addPending_def warnf_def)

lemma steps_ok_block [simp]: "steps_ok (blockSteps r ks rep) \<longleftrightarrow> steps_ok rep"
  unfolding blockSteps_def by (induction ks arbitrary: rep) simp_all

lemma steps_ok_skip [simp]: "steps_ok (skipContainerSteps r rep) \<longleftrightarrow> steps_ok rep"
  by (simp add: skipContainerSteps_def)

lemma find_set_step_in:
  "map_option rs_status (find_key rs_kind k' (set_step_in k st d n ss))
     = (if k' = k \<and> k \<in> rs_kind ` set ss then Some st else map_option rs_status (find_key rs_kind k' ss))"
  by (induction ss) auto

lemma stepStatus_simps [simp]:
  "stepStatus k (addWarning m rep) = stepStatus k rep" "stepStatus k (addPending m rep) = stepStatus k rep"
  "stepStatus k (warnf m rep) = stepStatus k rep" "stepStatus k (rep\<lparr>rp_run := run\<rparr>) = stepStatus k rep"
  "stepStatus k (rep\<lparr>rp_untracked := u\<rparr>) = stepStatus k rep"
  by (simp_all add: stepStatus_def)

lemma kinds_all: "steps_ok rep \<Longrightarrow> k \<in> rs_kind ` set (rp_steps rep)"
proof -
  assume "steps_ok rep"
  then have "map fst (map (\<lambda>s. (rs_kind s, rs_label s)) (rp_steps rep)) = map fst restoreStepOrder" by (simp add: steps_ok_def)
  then have "map rs_kind (rp_steps rep) = [StepFiles, StepVolumes, StepDatabase, StepCompose]"
    by (simp add: restoreStepOrder_def comp_def)
  then have "rs_kind ` set (rp_steps rep) = {StepFiles, StepVolumes, StepDatabase, StepCompose}"
    by (metis empty_set list.simps(15) image_set)
  then show ?thesis by (cases k) auto
qed

lemma stepStatus_setStep [simp]:
  "steps_ok rep \<Longrightarrow> stepStatus k' (setStep k st d n rep) = (if k' = k then Some st else stepStatus k' rep)"
  using kinds_all[of rep k] by (simp add: stepStatus_def setStep_def find_set_step_in)

lemma stepStatus_block [simp]:
  "steps_ok rep \<Longrightarrow> stepStatus k (blockSteps r ks rep) = (if k \<in> set ks then Some StepBlocked else stepStatus k rep)"
  unfolding blockSteps_def by (induction ks arbitrary: rep) auto

lemma stepStatus_skip [simp]:
  "steps_ok rep \<Longrightarrow> stepStatus k (skipContainerSteps r rep) = (if k = StepFiles then stepStatus k rep else Some StepSkipped)"
  by (cases k) (simp_all add: skipContainerSteps_def)

lemma stepStatus_new [simp]: "stepStatus k (newRestoreReport run) = Some StepSkipped"
  by (cases k) (simp_all add: stepStatus_def newRestoreReport_def restoreStepOrder_def)

lemma steps_statuses:
  assumes "steps_ok rep"
  shows "list_ex (\<lambda>s. P (rs_status s)) (rp_steps rep) \<longleftrightarrow> (\<exists>k st. stepStatus k rep = Some st \<and> P st)"
proof -
  have "map fst (map (\<lambda>s. (rs_kind s, rs_label s)) (rp_steps rep)) = map fst restoreStepOrder"
    using assms by (simp add: steps_ok_def)
  then have d: "distinct (map rs_kind (rp_steps rep))" by (simp add: restoreStepOrder_def comp_def)
  show ?thesis
  proof
    assume "list_ex (\<lambda>s. P (rs_status s)) (rp_steps rep)"
    then obtain s where s: "s \<in> set (rp_steps rep)" "P (rs_status s)" by (auto simp: list_ex_iff)
    then have "stepStatus (rs_kind s) rep = Some (rs_status s)"
      using find_key_distinct[OF d s(1)] by (simp add: stepStatus_def)
    with s show "\<exists>k st. stepStatus k rep = Some st \<and> P st" by blast
  next
    assume "\<exists>k st. stepStatus k rep = Some st \<and> P st"
    then show "list_ex (\<lambda>s. P (rs_status s)) (rp_steps rep)"
      using find_key_Some by (fastforce simp: stepStatus_def list_ex_iff)
  qed
qed

lemma aggregate_cases:
  assumes "steps_ok rep"
  shows "aggregateStatus False rep
    = (if stepStatus StepFiles rep = Some StepFailed then ''failed''
       else if \<exists>k. stepStatus k rep \<in> {Some StepFailed, Some StepBlocked} then ''partial'' else ''success'')"
  using steps_statuses[OF assms, of "\<lambda>s. s = StepFailed \<or> s = StepBlocked"]
  by (auto simp: aggregateStatus_def)

end
