(* ===== verification/Preflight.thy ===== *)
theory Preflight
  imports Runner DockerModel
begin

text \<open>
  \<open>internal/backup/restore_preflight.go\<close>: the read-only check of the restore target that has to pass before the
  first mutating container step. An executor returns a result, an error and the output of the script; it
  may depend on everything that ran before. \<open>pj\<close> is \<open>json.Unmarshal\<close> of one line of \<open>docker ps\<close>.
\<close>

section \<open>Executors\<close>

type_synonym remote_exec = "executed \<Rightarrow> target \<Rightarrow> string \<Rightarrow> string \<Rightarrow> exec_result option \<times> go_error option \<times> string"

text \<open>Text of an error printed with \<open>%v\<close>; a nil error prints as \<open><nil>\<close>.\<close>

definition show_error :: "go_error option \<Rightarrow> string" where
  "show_error e = (case e of None \<Rightarrow> ''<nil>'' | Some x \<Rightarrow> err_text x)"

definition exec_ok :: "exec_result option \<times> go_error option \<times> string \<Rightarrow> bool" where
  "exec_ok r \<longleftrightarrow> (case r of (res, e, out) \<Rightarrow> e = None \<and> (case res of None \<Rightarrow> True | Some x \<Rightarrow> er_success x))"

section \<open>The script\<close>

definition ErrRestorePreflightBlocked :: sentinel where
  "ErrRestorePreflightBlocked = ''restore target preflight blocked''"

definition restorePreflightErrorPrefix :: string where
  "restorePreflightErrorPrefix = ''OPSPULSE_PREFLIGHT_ERROR|''"

definition restorePreflightEndMarker :: string where
  "restorePreflightEndMarker = ''OPSPULSE_PREFLIGHT_END''"

record preflight_input =
  pf_project :: string
  pf_compose :: string
  pf_archives :: "string list"
  pf_dump :: string
  pf_expected :: "string list"
  pf_cross :: bool

definition control_error :: "string \<Rightarrow> go_error option" where
  "control_error v =
     (if list_ex is_control (runes v)
      then Some (errors_new ((''restore preflight: value '' @ go_quote v @ '' contains a control character''))) else None)"

definition validateRestorePreflightInput :: "preflight_input \<Rightarrow> go_error option" where
  "validateRestorePreflightInput i =
     (if trim_space (pf_compose i) = [] then Some (errors_new ''restore preflight: compose file is required'')
      else first_some (map control_error ([pf_project i, pf_compose i, pf_dump i] @ pf_archives i @ pf_expected i)))"

definition preflight_functions :: string where
  "preflight_functions =
     lines_text
     [''set +e'',
      ''OPSPULSE_DOCKER_READY=0'',
      [],
      ''opspulse_preflight_fail() {'',
      ''  printf 'OPSPULSE_PREFLIGHT_ERROR|'' @ ''%'' @ ''s|'' @ ''%'' @ ''s'' @ [CHR 0x5C] @ ''n' \"$1\" \"$2\"'',
      ''}'',
      [],
      ''opspulse_preflight_file() {'',
      ''  if [ -f \"$2\" ] && [ -r \"$2\" ]; then'',
      ''    printf 'OPSPULSE_PREFLIGHT_FILE|'' @ ''%'' @ ''s|ok'' @ [CHR 0x5C] @ ''n' \"$1\"'',
      ''  else'',
      ''    opspulse_preflight_fail \"path_missing\" \"$1: $2 is missing or unreadable\"'',
      ''  fi'',
      ''}'']"

definition preflight_docker :: string where
  "preflight_docker =
     lines_text
     [[],
      ''if ! command -v docker >/dev/null 2>&1; then'',
      ''  opspulse_preflight_fail \"docker_missing\" \"Docker CLI is not available on the target\"'',
      ''elif ! docker info >/dev/null 2>&1; then'',
      ''  opspulse_preflight_fail \"docker_daemon\" \"Docker daemon is not reachable on the target\"'',
      ''else'',
      ''  OPSPULSE_DOCKER_READY=1'',
      ''fi'',
      [],
      ''if docker compose version >/dev/null 2>&1; then'',
      ''  printf 'OPSPULSE_PREFLIGHT_COMPOSE|plugin'' @ [CHR 0x5C] @ ''n'' @ [squote],
      ''elif command -v docker-compose >/dev/null 2>&1; then'',
      ''  printf 'OPSPULSE_PREFLIGHT_COMPOSE|standalone'' @ [CHR 0x5C] @ ''n'' @ [squote],
      ''else'',
      ''  opspulse_preflight_fail \"compose_missing\" \"neither docker compose nor docker-compose is available\"'',
      ''fi'']"

definition preflight_helper :: string where
  "preflight_helper =
     lines_text
     [[],
      ''if [ \"$OPSPULSE_DOCKER_READY\" -eq 1 ]; then'',
      ''  HELPER_IMG=\"${OPSPULSE_HELPER_IMAGE:-alpine:3.20}\"'',
      ''  if docker image inspect \"$HELPER_IMG\" >/dev/null 2>&1; then'',
      ''    printf 'OPSPULSE_PREFLIGHT_HELPER|present'' @ [CHR 0x5C] @ ''n'' @ [squote],
      ''  elif docker image inspect busybox:1.36 >/dev/null 2>&1; then'',
      ''    printf 'OPSPULSE_PREFLIGHT_HELPER|fallback:busybox:1.36'' @ [CHR 0x5C] @ ''n'' @ [squote],
      ''  elif docker image inspect alpine >/dev/null 2>&1; then'',
      ''    printf 'OPSPULSE_PREFLIGHT_HELPER|fallback:alpine'' @ [CHR 0x5C] @ ''n'' @ [squote],
      ''  elif docker image inspect busybox >/dev/null 2>&1; then'',
      ''    printf 'OPSPULSE_PREFLIGHT_HELPER|fallback:busybox'' @ [CHR 0x5C] @ ''n'' @ [squote],
      ''  else'',
      ''    opspulse_preflight_fail \"helper_image_missing\" \"no configured or fallback helper image is available for volume import\"'',
      ''  fi'',
      ''fi'']"

definition preflight_containers :: string where
  "preflight_containers =
     lines_text
     [[],
      ''if [ \"$OPSPULSE_DOCKER_READY\" -eq 1 ]; then'',
      ''  if ! docker ps -a --format '{{json .}}'; then'',
      ''    opspulse_preflight_fail \"docker_ps_failed\" \"could not list target containers for conflict checks\"'',
      ''  fi'',
      ''fi'']"

definition file_check :: "string \<Rightarrow> string \<Rightarrow> string" where
  "file_check label path = line (''opspulse_preflight_file '' @ [squote] @ label @ [squote] @ '' '' @ quote path)"

fun archive_checks :: "nat \<Rightarrow> string list \<Rightarrow> string" where
  "archive_checks i [] = []"
| "archive_checks i (a # as) = file_check (''volume_archive['' @ show_nat i @ '']'') a @ archive_checks (i + 1) as"

definition BuildRestorePreflightScript :: "preflight_input \<Rightarrow> string res" where
  "BuildRestorePreflightScript i =
     (case validateRestorePreflightInput i of
        Some e \<Rightarrow> Inl e
      | None \<Rightarrow> Inr (preflight_functions @ preflight_docker @ file_check ''compose_file'' (pf_compose i)
          @ archive_checks 0 (pf_archives i)
          @ (if pf_dump i \<noteq> [] then file_check ''database_dump'' (pf_dump i) else [])
          @ (if pf_archives i \<noteq> [] then preflight_helper else [])
          @ (if pf_cross i \<and> pf_expected i \<noteq> [] then preflight_containers else [])
          @ line [] @ line ((''printf '' @ [squote]) @ restorePreflightEndMarker @ [CHR 0x5C] @ ''n'' @ [squote]) @ line ''exit 0''))"

section \<open>The report\<close>

record preflight_report =
  pr_errors :: "string list"
  pr_containers :: "container_summary list"

text \<open>The lines, the report so far and whether the end marker was seen.\<close>

fun parse_preflight ::
    "(string \<Rightarrow> raw_ps_line res) \<Rightarrow> bool \<Rightarrow> preflight_report \<Rightarrow> string list \<Rightarrow> (bool \<times> preflight_report) res" where
  "parse_preflight pj saw rep [] = Inr (saw, rep)"
| "parse_preflight pj saw rep (l # ls) =
     (let trimmed = trim_space l
      in if trimmed = [] then parse_preflight pj saw rep ls
         else if trimmed = restorePreflightEndMarker then parse_preflight pj True rep ls
         else if has_prefix trimmed restorePreflightErrorPrefix
         then (case cut_at (CHR ''|'') (drop (length restorePreflightErrorPrefix) trimmed) of
                 (check, msg, found) \<Rightarrow>
                   (if \<not> found then Inl (errors_new (''malformed restore preflight error line '' @ go_quote trimmed))
                    else parse_preflight pj saw (rep\<lparr>pr_errors := pr_errors rep @ [check @ '': '' @ msg]\<rparr>) ls))
         else if has_prefix trimmed ''{''
         then (case ParsePsJSON pj trimmed of
                 Inl e \<Rightarrow> Inl (wrap ''parse target container list from restore preflight: '' e [])
               | Inr cs \<Rightarrow> parse_preflight pj saw (rep\<lparr>pr_containers := pr_containers rep @ cs\<rparr>) ls)
         else parse_preflight pj saw rep ls)"

definition ParseRestorePreflightOutput :: "(string \<Rightarrow> raw_ps_line res) \<Rightarrow> string \<Rightarrow> preflight_report res" where
  "ParseRestorePreflightOutput pj raw =
     (case parse_preflight pj False \<lparr>pr_errors = [], pr_containers = []\<rparr> (split_on (CHR 0x0A) raw) of
        Inl e \<Rightarrow> Inl e
      | Inr (saw, rep) \<Rightarrow>
          if saw then Inr rep
          else Inl (errors_new ''restore preflight did not report completion; refusing to run post-restore steps''))"

definition container_conflicts :: "string \<Rightarrow> string list \<Rightarrow> container_summary \<Rightarrow> string list" where
  "container_conflicts project expected c =
     (if cs_name c \<in> set expected then [''target already has container '' @ go_quote (cs_name c)] else [])
     @ (if project \<noteq> [] \<and> summary_project c = project
        then [ (''target already has Compose project '' @ go_quote project @ '' (container '' @ go_quote (cs_name c) @ '')'') ] else [])"

definition detectRestoreTargetConflicts :: "container_summary list \<Rightarrow> string \<Rightarrow> string list \<Rightarrow> string list" where
  "detectRestoreTargetConflicts containers project expectedContainers =
     (let expected = filter (\<lambda>n. n \<noteq> []) (map trim_space expectedContainers)
      in sort (remdups (concat (map (container_conflicts project expected) containers))))"

definition probe_error ::
    "exec_result option \<times> go_error option \<times> string \<Rightarrow> go_error option" where
  "probe_error r =
     (case r of (res, execErr, out) \<Rightarrow>
        (case execErr of
           Some e \<Rightarrow> Some (wrap ''restore preflight could not run: '' e [])
         | None \<Rightarrow>
             (case res of
                Some x \<Rightarrow> if \<not> er_success x
                  then Some (errors_new ((''restore preflight exited with code '' @ show_int (er_exit x) @ '': '' @ show_error (er_error x)))) else None
              | None \<Rightarrow> None)))"

definition report_verdict :: "(string \<Rightarrow> raw_ps_line res) \<Rightarrow> preflight_input \<Rightarrow> string \<Rightarrow> go_error option" where
  "report_verdict pj i out =
     (case ParseRestorePreflightOutput pj out of
        Inl e \<Rightarrow> Some e
      | Inr rep \<Rightarrow>
          if pr_errors rep \<noteq> [] then Some (errors_new (''restore preflight failed: '' @ join_with ''; '' (pr_errors rep)))
          else if pf_cross i
          then (let conflicts = detectRestoreTargetConflicts (pr_containers rep) (pf_project i) (pf_expected i)
                in if conflicts \<noteq> [] then Some (errors_new (''restore preflight found target conflicts: '' @ join_with ''; '' conflicts))
                   else None)
          else None)"

definition runRestorePreflight ::
    "(string \<Rightarrow> raw_ps_line res) \<Rightarrow> remote_exec \<Rightarrow> target \<Rightarrow> string \<Rightarrow> preflight_input \<Rightarrow> executed \<Rightarrow> go_error option \<times> executed" where
  "runRestorePreflight pj exec tgt jobName i tr =
     (case BuildRestorePreflightScript i of
        Inl e \<Rightarrow> (Some e, tr)
      | Inr script \<Rightarrow>
          (let r = exec tr tgt (''restore-preflight-'' @ jobName) script;
               tr1 = tr @ [(tgt, ''restore-preflight-'' @ jobName, script)]
           in case probe_error r of
                Some e \<Rightarrow> (Some e, tr1)
              | None \<Rightarrow> (report_verdict pj i (snd (snd r)), tr1)))"

section \<open>Lemmas\<close>

lemma end_is_no_error: "\<not> has_prefix restorePreflightEndMarker restorePreflightErrorPrefix"
  by code_simp

text \<open>What a parsed report says about the lines of the output.\<close>

lemma parse_preflight_sound:
  assumes "parse_preflight pj saw rep ls = Inr (saw', rep')"
  shows "(saw' \<longrightarrow> saw \<or> (\<exists>l\<in>set ls. trim_space l = restorePreflightEndMarker))
    \<and> (pr_errors rep' = [] \<longrightarrow> pr_errors rep = [] \<and> (\<forall>l\<in>set ls. \<not> has_prefix (trim_space l) restorePreflightErrorPrefix))
    \<and> set (pr_containers rep) \<subseteq> set (pr_containers rep')
    \<and> (\<forall>l\<in>set ls. has_prefix (trim_space l) ''{'' \<longrightarrow>
         (\<exists>cs. ParsePsJSON pj (trim_space l) = Inr cs \<and> set cs \<subseteq> set (pr_containers rep')))"
  using assms
proof (induction pj saw rep ls rule: parse_preflight.induct)
  case (1 pj saw rep)
  then show ?case by auto
next
  case (2 pj saw rep l ls)
  let ?t = "trim_space l"
  have brace: "\<not> has_prefix restorePreflightErrorPrefix ''{''" "\<not> has_prefix restorePreflightEndMarker ''{''" by code_simp+
  have disj: "\<not> (has_prefix ?t restorePreflightErrorPrefix \<and> has_prefix ?t ''{'')"
    using brace by (auto simp: restorePreflightErrorPrefix_def has_prefix_iff)
  have empty: "\<not> has_prefix [] restorePreflightErrorPrefix" "\<not> has_prefix [] ''{''"
    by (simp_all add: restorePreflightErrorPrefix_def)
  consider (a) "?t = []" | (b) "?t = restorePreflightEndMarker" | (c) "has_prefix ?t restorePreflightErrorPrefix" "?t \<noteq> []" "?t \<noteq> restorePreflightEndMarker"
    | (d) "has_prefix ?t ''{''" "\<not> has_prefix ?t restorePreflightErrorPrefix" "?t \<noteq> []" "?t \<noteq> restorePreflightEndMarker"
    | (e) "\<not> has_prefix ?t ''{''" "\<not> has_prefix ?t restorePreflightErrorPrefix" "?t \<noteq> []" "?t \<noteq> restorePreflightEndMarker"
    by blast
  then show ?case
  proof cases
    case a
    then show ?thesis using 2(1)[OF refl a] 2(6) empty by auto
  next
    case b
    have ne: "?t \<noteq> []" unfolding b by code_simp
    show ?thesis using 2(2)[OF refl ne b] 2(6) b ne brace end_is_no_error by simp
  next
    case c
    obtain check msg found where cut: "cut_at (CHR ''|'') (drop (length restorePreflightErrorPrefix) ?t) = (check, msg, found)"
      by (cases "cut_at (CHR ''|'') (drop (length restorePreflightErrorPrefix) ?t)") auto
    then have found: "found" "parse_preflight pj saw (rep\<lparr>pr_errors := pr_errors rep @ [check @ '': '' @ msg]\<rparr>) ls = Inr (saw', rep')"
      using 2(6) c by (auto simp: Let_def split: if_splits)
    then have "\<not> \<not> found" by simp
    from 2(3)[OF refl c(2,3,1) cut[symmetric] refl this found(2)] show ?thesis using c disj by auto
  next
    case d
    then obtain cs where cs: "ParsePsJSON pj ?t = Inr cs"
      "parse_preflight pj saw (rep\<lparr>pr_containers := pr_containers rep @ cs\<rparr>) ls = Inr (saw', rep')"
      using 2(6) by (auto simp: Let_def split: sum.splits)
    from 2(4)[OF refl d(3,4,2,1) cs(1) cs(2)] show ?thesis using d cs(1) by auto
  next
    case e
    then show ?thesis using 2(5)[OF refl e(3,4,2,1)] 2(6) by (simp add: Let_def)
  qed
qed

lemma no_conflicts:
  "detectRestoreTargetConflicts cs project expected = [] \<longleftrightarrow>
     (\<forall>c\<in>set cs. (cs_name c = [] \<or> cs_name c \<notin> trim_space ` set expected) \<and> (project = [] \<or> summary_project c \<noteq> project))"
proof -
  have "container_conflicts project ex c = [] \<longleftrightarrow> cs_name c \<notin> set ex \<and> (project = [] \<or> summary_project c \<noteq> project)" for ex c
    by (auto simp: container_conflicts_def)
  then show ?thesis
    by (auto simp: detectRestoreTargetConflicts_def Let_def simp flip: set_empty)
qed

lemma archive_checks_inert: "sh_inert (archive_checks i as)"
proof (induction as arbitrary: i)
  case (Cons a as)
  have digits: "sh_scan (SingleQuoted, None) (show_nat n @ r) = sh_scan (SingleQuoted, None) r" for n r
  proof (induction n arbitrary: r rule: show_nat.induct)
    case (1 n)
    have d: "digit_char k \<noteq> squote" if "k < 10" for k
      using that by (auto simp: digit_char_def dest!: arg_cong[of _ _ code_of] simp: code_of_def)
    show ?case using 1 d[of n] d[of "n mod 10"]
      by (cases "n < 10") (simp_all add: show_nat.simps[of n] sh_step_def)
  qed
  have "sh_inert (file_check (''volume_archive['' @ show_nat i @ '']'') a)"
    unfolding file_check_def line_def sh_inert_def by (simp add: sh_step_def digits)
  with Cons show ?case by simp
qed simp

lemma preflight_parts_inert:
  "sh_inert preflight_functions" "sh_inert preflight_docker" "sh_inert preflight_helper" "sh_inert preflight_containers"
  by code_simp+

lemma file_check_inert:
  "sh_inert (file_check ''compose_file'' p)" "sh_inert (file_check ''database_dump'' p)"
  unfolding file_check_def line_def sh_inert_def by (simp_all add: sh_step_def)

section \<open>Properties\<close>

text \<open>Whatever paths and names a manifest brings, the preflight script runs no command substitution and
  leaves no quote open: it only does what its fixed text says.\<close>

theorem preflight_script_inert:
  assumes "BuildRestorePreflightScript i = Inr script"
  shows "sh_inert script"
proof -
  have tail: "sh_inert (line [] @ line ((''printf '' @ [squote]) @ restorePreflightEndMarker @ [CHR 0x5C] @ ''n'' @ [squote]) @ line ''exit 0'')"
    unfolding line_def sh_inert_def restorePreflightEndMarker_def by (simp add: sh_step_def)
  have opts: "sh_inert (if pf_dump i \<noteq> [] then file_check ''database_dump'' (pf_dump i) else [])"
    "sh_inert (if pf_archives i \<noteq> [] then preflight_helper else [])"
    "sh_inert (if pf_cross i \<and> pf_expected i \<noteq> [] then preflight_containers else [])"
    using file_check_inert(2) preflight_parts_inert(3,4) by simp_all
  have "script = preflight_functions @ preflight_docker @ file_check ''compose_file'' (pf_compose i)
          @ archive_checks 0 (pf_archives i)
          @ (if pf_dump i \<noteq> [] then file_check ''database_dump'' (pf_dump i) else [])
          @ (if pf_archives i \<noteq> [] then preflight_helper else [])
          @ (if pf_cross i \<and> pf_expected i \<noteq> [] then preflight_containers else [])
          @ line [] @ line ((''printf '' @ [squote]) @ restorePreflightEndMarker @ [CHR 0x5C] @ ''n'' @ [squote]) @ line ''exit 0''"
    using assms unfolding BuildRestorePreflightScript_def by (auto split: option.splits)
  then show ?thesis
    by (simp only: sh_inert_append preflight_parts_inert file_check_inert archive_checks_inert opts tail)
qed

text \<open>C16. The preflight fails closed. It lets a restore go on only when the script ran and succeeded, its output has
  the end marker and no error line, every container line could be read, and, across machines, no container of the
  target has an expected name or belongs to the Compose project.\<close>

theorem preflight_fails_closed:
  assumes "runRestorePreflight pj exec tgt jobName i tr = (None, tr')"
  shows "\<exists>script res out. BuildRestorePreflightScript i = Inr script
    \<and> tr' = tr @ [(tgt, ''restore-preflight-'' @ jobName, script)]
    \<and> exec tr tgt (''restore-preflight-'' @ jobName) script = (res, None, out) \<and> exec_ok (res, None, out)
    \<and> (\<exists>l\<in>set (split_on (CHR 0x0A) out). trim_space l = restorePreflightEndMarker)
    \<and> (\<forall>l\<in>set (split_on (CHR 0x0A) out). \<not> has_prefix (trim_space l) restorePreflightErrorPrefix)
    \<and> (\<forall>l\<in>set (split_on (CHR 0x0A) out). has_prefix (trim_space l) ''{'' \<longrightarrow>
         (\<exists>cs. ParsePsJSON pj (trim_space l) = Inr cs
            \<and> (pf_cross i \<longrightarrow> (\<forall>c\<in>set cs. (cs_name c = [] \<or> cs_name c \<notin> trim_space ` set (pf_expected i))
                 \<and> (pf_project i = [] \<or> summary_project c \<noteq> pf_project i)))))"
proof -
  obtain script where b: "BuildRestorePreflightScript i = Inr script"
    using assms by (auto simp: runRestorePreflight_def split: sum.splits)
  obtain res execErr out where r: "exec tr tgt (''restore-preflight-'' @ jobName) script = (res, execErr, out)"
    by (cases "exec tr tgt (''restore-preflight-'' @ jobName) script") auto
  have ok: "probe_error (res, execErr, out) = None" "report_verdict pj i out = None"
    and tr: "tr' = tr @ [(tgt, ''restore-preflight-'' @ jobName, script)]"
    using assms b r by (auto simp: runRestorePreflight_def Let_def split: option.splits)
  have e: "execErr = None" "exec_ok (res, None, out)"
    using ok(1) by (auto simp: probe_error_def exec_ok_def split: option.splits if_splits)
  obtain saw rep where p: "parse_preflight pj False \<lparr>pr_errors = [], pr_containers = []\<rparr> (split_on (CHR 0x0A) out) = Inr (saw, rep)"
    "saw" "pr_errors rep = []" "pf_cross i \<longrightarrow> detectRestoreTargetConflicts (pr_containers rep) (pf_project i) (pf_expected i) = []"
    using ok(2) by (auto simp: report_verdict_def ParseRestorePreflightOutput_def Let_def split: sum.splits if_splits)
  from parse_preflight_sound[OF p(1)] p(2-4)
  have "(\<exists>l\<in>set (split_on (CHR 0x0A) out). trim_space l = restorePreflightEndMarker)"
    "(\<forall>l\<in>set (split_on (CHR 0x0A) out). \<not> has_prefix (trim_space l) restorePreflightErrorPrefix)"
    "(\<forall>l\<in>set (split_on (CHR 0x0A) out). has_prefix (trim_space l) ''{'' \<longrightarrow>
         (\<exists>cs. ParsePsJSON pj (trim_space l) = Inr cs
            \<and> (pf_cross i \<longrightarrow> (\<forall>c\<in>set cs. (cs_name c = [] \<or> cs_name c \<notin> trim_space ` set (pf_expected i))
                 \<and> (pf_project i = [] \<or> summary_project c \<noteq> pf_project i)))))"
    unfolding no_conflicts by (auto, meson subsetD)
  with b tr r e show ?thesis by blast
qed

section \<open>Witnesses\<close>

definition example_preflight :: preflight_input where
  "example_preflight = \<lparr>pf_project = ''web'', pf_compose = ''/srv/$(id)/compose.yaml'', pf_archives = [''/srv/it's.tar''],
     pf_dump = [], pf_expected = [''web''], pf_cross = True\<rparr>"

lemma example_preflight_valid: "validateRestorePreflightInput example_preflight = None"
  by code_simp

lemma example_preflight_script: "\<exists>script. BuildRestorePreflightScript example_preflight = Inr script"
  by (simp add: BuildRestorePreflightScript_def example_preflight_valid)

theorem preflight_script_inert_witness:
  "\<exists>script. BuildRestorePreflightScript example_preflight = Inr script \<and> sh_inert script"
  using example_preflight_script preflight_script_inert by blast

theorem preflight_fails_closed_witness:
  "\<exists>script. runRestorePreflight (\<lambda>l. Inl (errors_new [])) (\<lambda>tr t n s. (None, None, ''ok'' @ [CHR 0x0A] @ restorePreflightEndMarker))
        NewLocalTarget ''web'' example_preflight [] = (None, [(NewLocalTarget, ''restore-preflight-web'', script)])
     \<and> BuildRestorePreflightScript example_preflight = Inr script"
proof -
  let ?pj = "\<lambda>l. Inl (errors_new []) :: raw_ps_line res"
  let ?exec = "\<lambda>tr t n s. (None, None, ''ok'' @ [CHR 0x0A] @ restorePreflightEndMarker) :: exec_result option \<times> go_error option \<times> string"
  obtain script where b: "BuildRestorePreflightScript example_preflight = Inr script"
    using example_preflight_script by blast
  have v: "report_verdict ?pj example_preflight (''ok'' @ [CHR 0x0A] @ restorePreflightEndMarker) = None" by code_simp
  have "runRestorePreflight ?pj ?exec NewLocalTarget ''web'' example_preflight [] = (None, [(NewLocalTarget, ''restore-preflight-web'', script)])"
    using b v by (simp add: runRestorePreflight_def probe_error_def Let_def)
  then show ?thesis using preflight_fails_closed b by blast
qed

end
