(* ===== verification/RestoreRunner.thy ===== *)
theory RestoreRunner
  imports RestoreReport Preflight Manifest
begin

text \<open>
  \<open>internal/backup/restore_runner.go\<close>: a restore from the audit row that describes the attempt, over the restic
  restore itself, to the container steps (volumes, Compose, database) driven by a manifest found among the
  restored files. Every script handed to an executor is appended to a trace, and an executor may answer
  according to that trace, so that the order of the remote effects is part of the result. What is
  outside is an outcome: database calls, secret resolution, YAML and JSON decoding, the clock. Console and
  log output are left out, except the warnings, which are part of the result. A start policy that is
  neither empty nor one of the three constants cannot be given.
\<close>

section \<open>Options\<close>

datatype start_policy = StartPolicyAuto | StartPolicyStart | StartPolicyNoStart

record restore_options =
  ro_snapshot :: string
  ro_server :: string
  ro_path :: string
  ro_asset :: string
  ro_dry_run :: bool
  ro_policy :: "start_policy option"
  ro_alias :: string
  ro_allow_untracked :: bool

definition effectiveStartPolicy :: "restore_options \<Rightarrow> start_policy" where
  "effectiveStartPolicy opts = (case ro_policy opts of None \<Rightarrow> StartPolicyAuto | Some p \<Rightarrow> p)"

definition classifyStepStatus :: "exec_result option \<Rightarrow> step_state" where
  "classifyStepStatus res = (case res of Some x \<Rightarrow> if er_exit x = 127 then StepBlocked else StepFailed | None \<Rightarrow> StepFailed)"

definition restoreStartHint :: "string \<Rightarrow> restore_options \<Rightarrow> string" where
  "restoreStartHint jobName opts =
     join_with '' '' ([''ops'', ''restore'', ''run'', jobName]
       @ (if ro_server opts \<noteq> [] then [''--target-server'', ro_server opts] else [])
       @ (if ro_path opts \<noteq> [] then [''--target-path'', ro_path opts] else [])
       @ (if ro_alias opts \<noteq> [] then [''--as'', ro_alias opts] else [])
       @ [''--start''])"

definition RestoreStageValidation :: string where
  "RestoreStageValidation = ''validation''"

definition RestoreStageExecution :: string where
  "RestoreStageExecution = ''execution''"

definition RestoreStagePostRestore :: string where
  "RestoreStagePostRestore = ''post_restore''"

definition restoreStageHint :: "string \<Rightarrow> string" where
  "restoreStageHint stage =
     (if stage = RestoreStageValidation then
        (''nothing was restored; fix the reported input (see '' @ [CHR 0x60] @ ''ops backup snapshots <job>'' @ [CHR 0x60] @ '', '' @ [CHR 0x60] @ ''ops asset list'' @ [CHR 0x60] @ '', '' @ [CHR 0x60] @ ''ops server list'' @ [CHR 0x60] @ '') and re-run'')
      else if stage = RestoreStageExecution then
        (''inspect the log file for the failing restic command; '' @ [CHR 0x60] @ ''--dry-run'' @ [CHR 0x60] @ '' lists the files a restore would write'')
      else if stage = RestoreStagePostRestore then
        ''the files are restored; start the containers manually or re-run with --no-start to skip auto-start''
      else [])"

definition alias_rune_ok :: "nat \<Rightarrow> bool" where
  "alias_rune_ok r \<longleftrightarrow> (97 \<le> r \<and> r \<le> 122) \<or> (65 \<le> r \<and> r \<le> 90) \<or> (48 \<le> r \<and> r \<le> 57) \<or> r = 45 \<or> r = 95 \<or> r = 46"

definition validateContainerAlias :: "(nat \<Rightarrow> bool) \<Rightarrow> string \<Rightarrow> go_error option" where
  "validateContainerAlias uc name =
     (case ValidateJobName uc name of
        Some e \<Rightarrow> Some (wrap ''invalid container alias: '' e [])
      | None \<Rightarrow>
          (case filter (\<lambda>r. \<not> alias_rune_ok r) (runes name) of
             [] \<Rightarrow> None
           | r # rs \<Rightarrow> Some (errors_new ((''invalid container alias '' @ go_quote name @ '': character '' @ quote_rune r @ '' is not valid in a Compose project name'')))))"

section \<open>Container steps\<close>

type_synonym step_result = "go_error option \<times> restore_report \<times> executed"

record manifest_candidate =
  mc_manifest :: manifest
  mc_root :: string
  mc_dir :: string

definition databaseContainerName :: "manifest \<Rightarrow> restore_options \<Rightarrow> string" where
  "databaseContainerName m opts =
     (case mf_database m of
        None \<Rightarrow> []
      | Some d \<Rightarrow> if ro_alias opts \<noteq> [] \<and> md_container d = mf_app m then ro_alias opts else md_container d)"

text \<open>The manifest paths to probe, each with its project directory.\<close>

definition manifest_probes :: "restore_options \<Rightarrow> string list \<Rightarrow> (string \<times> string) list" where
  "manifest_probes opts dirs =
     concat (map (\<lambda>d. [(restored_path (ro_path opts) d, ManifestPath (restored_path (ro_path opts) d)),
                      (restored_path (ro_path opts) d, LegacyManifestPath (restored_path (ro_path opts) d))]) dirs)"

definition read_manifest_task :: "string \<Rightarrow> string" where
  "read_manifest_task jobName = ''read-manifest-'' @ jobName"

definition read_manifest_script :: "string \<Rightarrow> string" where
  "read_manifest_script mPath = ''cat '' @ quote mPath @ '' 2>/dev/null || true''"

definition manifest_absent :: "exec_result option \<times> go_error option \<times> string \<Rightarrow> bool" where
  "manifest_absent r \<longleftrightarrow> (case r of (res, e, out) \<Rightarrow>
     e \<noteq> None \<or> (case res of None \<Rightarrow> True | Some x \<Rightarrow> \<not> er_success x) \<or> trim_space out = [])"

text \<open>What one probe finds: a candidate, or a warning about a manifest that cannot be read, or nothing.\<close>

definition probed_manifest ::
    "(string \<Rightarrow> manifest res) \<Rightarrow> string \<Rightarrow> string \<Rightarrow> exec_result option \<times> go_error option \<times> string
     \<Rightarrow> manifest_candidate option \<times> string option" where
  "probed_manifest parse_yaml dir mPath r =
     (if manifest_absent r then (None, None)
      else (case UnmarshalManifest parse_yaml (snd (snd r)) of
              Inl e \<Rightarrow> (None, Some ((''  '' @ utf8 [0x26A0, 0xFE0F] @ '' Warning: found container manifest '' @ mPath @ '' but could not parse it: '' @ err_text e)))
            | Inr m \<Rightarrow> (Some \<lparr>mc_manifest = m, mc_root = path_dir mPath, mc_dir = dir\<rparr>, None)))"

definition opt_warn :: "string option \<Rightarrow> restore_report \<Rightarrow> restore_report" where
  "opt_warn w rep = (case w of None \<Rightarrow> rep | Some msg \<Rightarrow> warnf msg rep)"

definition opt_cons :: "'a option \<Rightarrow> 'a list \<Rightarrow> 'a list" where
  "opt_cons x xs = (case x of None \<Rightarrow> xs | Some y \<Rightarrow> y # xs)"

fun read_manifests ::
    "(string \<Rightarrow> manifest res) \<Rightarrow> remote_exec \<Rightarrow> target \<Rightarrow> string \<Rightarrow> string list \<Rightarrow> (string \<times> string) list \<Rightarrow> restore_report
     \<Rightarrow> executed \<Rightarrow> manifest_candidate list \<times> restore_report \<times> executed" where
  "read_manifests parse_yaml exec tgt jobName seen [] rep tr = ([], rep, tr)"
| "read_manifests parse_yaml exec tgt jobName seen ((dir, mPath) # ps) rep tr =
     (if mPath \<in> set seen then read_manifests parse_yaml exec tgt jobName seen ps rep tr
      else (case probed_manifest parse_yaml dir mPath (exec tr tgt (read_manifest_task jobName) (read_manifest_script mPath)) of
              (found, warning) \<Rightarrow>
                (case read_manifests parse_yaml exec tgt jobName (mPath # seen) ps (opt_warn warning rep)
                        (tr @ [(tgt, read_manifest_task jobName, read_manifest_script mPath)]) of
                   (cs, rep2, tr2) \<Rightarrow> (opt_cons found cs, rep2, tr2))))"

definition manifest_matches :: "string \<Rightarrow> restore_options \<Rightarrow> manifest_candidate \<Rightarrow> bool" where
  "manifest_matches jobName opts c \<longleftrightarrow>
     equal_fold (mf_app (mc_manifest c)) jobName \<or> (ro_alias opts \<noteq> [] \<and> equal_fold (mf_app (mc_manifest c)) (ro_alias opts))"

definition several_matches :: "manifest_candidate \<Rightarrow> manifest_candidate list \<Rightarrow> string" where
  "several_matches c matched =
     ((''  '' @ utf8 [0x26A0, 0xFE0F] @ '' Warning: '' @ show_nat (length matched) @ '' manifests match app '' @ go_quote (mf_app (mc_manifest c)) @ '' ('' @ join_with '', '' (map (\<lambda>c. path_join [mc_root c, ManifestFileName]) matched) @ ''); using '' @ mc_root c @ ''.''))"

definition no_match :: "string \<Rightarrow> restore_options \<Rightarrow> manifest_candidate list \<Rightarrow> string" where
  "no_match jobName opts candidates =
     (let found = join_with ''; '' (map (\<lambda>c. go_quote (mf_app (mc_manifest c)) @ '' at '' @ path_join [mc_root c, ManifestFileName]) candidates);
          aliasNote = (if ro_alias opts \<noteq> [] then '' or alias '' @ go_quote (ro_alias opts) else [])
      in (''  '' @ utf8 [0x26A0, 0xFE0F] @ '' Warning: found container manifest(s) '' @ found @ '', but none matches job '' @ go_quote jobName @ aliasNote @ ''. '')
         @ (if effectiveStartPolicy opts = StartPolicyStart
            then ''Skipping manifest-driven restore and falling back to auto-start.'' else ''Not starting any service.''))"

definition select_manifest ::
    "string \<Rightarrow> restore_options \<Rightarrow> manifest_candidate list \<Rightarrow> restore_report \<Rightarrow> manifest_candidate option \<times> restore_report" where
  "select_manifest jobName opts candidates rep =
     (case filter (manifest_matches jobName opts) candidates of
        c # cs \<Rightarrow> (Some c, if cs \<noteq> [] then warnf (several_matches c (c # cs)) rep else rep)
      | [] \<Rightarrow> (None, if candidates \<noteq> [] then warnf (no_match jobName opts candidates) rep else rep))"

definition mount_check_script :: "string \<Rightarrow> string" where
  "mount_check_script src = (''test -e '' @ quote src @ '' || echo 'MISSING'' @ [squote])"

definition mount_missing :: "target \<Rightarrow> string \<Rightarrow> restore_report \<Rightarrow> restore_report" where
  "mount_missing tgt src rep =
     addPending ((utf8 [0x5728, 0x76EE, 0x6807, 0x673A] @ '' '' @ t_name tgt @ '' '' @ utf8 [0x4E0A, 0x51C6, 0x5907, 0x5BBF, 0x4E3B, 0x673A, 0x6302, 0x8F7D] @ '' '' @ src @ utf8 [0xFF08, 0x5916, 0x90E8, 0x4F9D, 0x8D56, 0x4E0D, 0x4F1A, 0x968F, 0x5FEB, 0x7167, 0x8FC1, 0x79FB, 0xFF09]))
       (warnf ((''  '' @ utf8 [0x26A0, 0xFE0F] @ '' Warning: external host mount '' @ src @ '' is missing on target '' @ t_name tgt)) rep)"

definition mount_check_task :: string where
  "mount_check_task = ''check-mount''"

fun check_mounts :: "remote_exec \<Rightarrow> target \<Rightarrow> manifest_mount list \<Rightarrow> restore_report \<Rightarrow> executed \<Rightarrow> restore_report \<times> executed" where
  "check_mounts exec tgt [] rep tr = (rep, tr)"
| "check_mounts exec tgt (em # ems) rep tr =
     (if mm_reason em = ''system_mount'' \<or> is_system_mount (mm_source em)
      then check_mounts exec tgt ems
             (if contains_str (snd (snd (exec tr tgt mount_check_task (mount_check_script (mm_source em))))) ''MISSING''
              then mount_missing tgt (mm_source em) rep else rep)
             (tr @ [(tgt, mount_check_task, mount_check_script (mm_source em))])
      else check_mounts exec tgt ems rep tr)"

text \<open>The resolved archive of each volume, empty for a volume without one.\<close>

fun resolve_archives :: "manifest \<Rightarrow> string \<Rightarrow> nat \<Rightarrow> manifest_volume list \<Rightarrow> string list res" where
  "resolve_archives m troot i [] = Inr []"
| "resolve_archives m troot i (v # vs) =
     (case (if mv_archive v = [] then Inr [] else ResolveVolumeArchive m troot (int i)) of
        Inl e \<Rightarrow> Inl e
      | Inr p \<Rightarrow> (case resolve_archives m troot (i + 1) vs of Inl e \<Rightarrow> Inl e | Inr ps \<Rightarrow> Inr (p # ps)))"

definition resolve_dump :: "manifest \<Rightarrow> string \<Rightarrow> string res" where
  "resolve_dump m troot =
     (case mf_database m of
        None \<Rightarrow> Inr []
      | Some d \<Rightarrow> if md_dump d = [] then Inr [] else ResolveDatabaseDump m troot)"

definition project_name :: "manifest \<Rightarrow> restore_options \<Rightarrow> string" where
  "project_name m opts = (if ro_alias opts \<noteq> [] then ro_alias opts else mf_app m)"

definition compose_file_name :: "manifest \<Rightarrow> string" where
  "compose_file_name m = (if mf_compose m = [] then ''compose.yaml'' else mf_compose m)"

definition preflight_input_of ::
    "manifest \<Rightarrow> restore_options \<Rightarrow> string \<Rightarrow> string list \<Rightarrow> string \<Rightarrow> bool \<Rightarrow> preflight_input" where
  "preflight_input_of m opts dir archives dump cross =
     \<lparr>pf_project = project_name m opts, pf_compose = path_join [dir, compose_file_name m],
      pf_archives = filter (\<lambda>a. a \<noteq> []) archives, pf_dump = dump,
      pf_expected = dedup_paths ([mf_app m] @ (if ro_alias opts \<noteq> [] then [ro_alias opts] else [])
        @ (case mf_database m of None \<Rightarrow> [] | Some d \<Rightarrow> [databaseContainerName m opts])),
      pf_cross = cross\<rparr>"

definition import_volume_task :: "manifest_volume \<Rightarrow> string" where
  "import_volume_task v = ''restore-vol-'' @ mv_name v"

definition volume_failed ::
    "manifest_volume \<Rightarrow> string \<Rightarrow> exec_result option \<times> go_error option \<times> string \<Rightarrow> restore_report \<Rightarrow> go_error \<times> restore_report" where
  "volume_failed v archivePath r rep =
     (let stepErr = errors_new ((''failed to restore volume '' @ go_quote (mv_name v) @ '': '' @ show_error (fst (snd r))))
      in (stepErr,
          blockSteps (''volume '' @ utf8 [0x6062, 0x590D, 0x5931, 0x8D25, 0xFF0C, 0x672A, 0x6267, 0x884C]) [StepDatabase, StepCompose]
            (setStep StepVolumes (classifyStepStatus (fst r)) (err_text stepErr)
               ((utf8 [0x5728, 0x76EE, 0x6807, 0x673A, 0x624B, 0x5DE5, 0x5BFC, 0x5165, 0x8BE5, 0x5377, 0x5F52, 0x6863, 0xFF08, 0x5FEB, 0x7167, 0x5185, 0x8DEF, 0x5F84] @ '' '' @ archivePath @ utf8 [0xFF09, 0xFF0C, 0x6216, 0x786E, 0x8BA4] @ '' helper '' @ utf8 [0x955C, 0x50CF, 0x53EF, 0x7528, 0x540E, 0x91CD, 0x8BD5])) rep)))"

fun import_volumes ::
    "remote_exec \<Rightarrow> target \<Rightarrow> (manifest_volume \<times> string) list \<Rightarrow> nat \<Rightarrow> restore_report \<Rightarrow> executed \<Rightarrow> step_result" where
  "import_volumes exec tgt [] restored rep tr =
     (None, if restored > 0 then setStep StepVolumes StepSuccess ((show_nat restored @ '' '' @ utf8 [0x4E2A, 0x547D, 0x540D, 0x5377, 0x5DF2, 0x5BFC, 0x5165])) [] rep else rep, tr)"
| "import_volumes exec tgt ((v, archivePath) # vs) restored rep tr =
     (if mv_archive v = [] then import_volumes exec tgt vs restored rep tr
      else (let script = BuildVolumeImportScript (mv_name v) archivePath;
                r = exec tr tgt (import_volume_task v) script;
                tr1 = tr @ [(tgt, import_volume_task v, script)]
            in if exec_ok r then import_volumes exec tgt vs (restored + 1) rep tr1
               else (Some (fst (volume_failed v archivePath r rep)), snd (volume_failed v archivePath r rep), tr1)))"

definition compose_up_task :: "string \<Rightarrow> string" where
  "compose_up_task jobName = ''compose-up-'' @ jobName"

definition import_database_task :: "string \<Rightarrow> string" where
  "import_database_task jobName = ''import-db-'' @ jobName"

definition autostart_task :: "string \<Rightarrow> string" where
  "autostart_task jobName = ''autostart-'' @ jobName"

definition compose_up_script :: "string \<Rightarrow> string \<Rightarrow> string \<Rightarrow> string" where
  "compose_up_script dir project composeFile =
     lines_text
     [''if docker compose version >/dev/null 2>&1; then'',
      ''  COMPOSE=\"docker compose\"'',
      ''elif command -v docker-compose >/dev/null 2>&1; then'',
      ''  COMPOSE=\"docker-compose\"'',
      ''else'',
      ''  echo \"Error: docker compose not found\" >&2'',
      ''  exit 127'',
      ''fi'',
      ''cd '' @ quote dir,
      ''export COMPOSE_PROJECT_NAME='' @ quote project,
      ''if [ -f '' @ quote composeFile @ '' ]; then'',
      ''  $COMPOSE -f '' @ quote composeFile @ '' up -d'',
      ''else'',
      ''  $COMPOSE up -d'',
      ''fi'']"

definition start_compose ::
    "remote_exec \<Rightarrow> target \<Rightarrow> string \<Rightarrow> string \<Rightarrow> string \<Rightarrow> string \<Rightarrow> restore_report \<Rightarrow> executed \<Rightarrow> step_result" where
  "start_compose exec tgt jobName dir project composeFile rep tr =
     (let script = compose_up_script dir project composeFile;
          r = exec tr tgt (compose_up_task jobName) script;
          tr1 = tr @ [(tgt, compose_up_task jobName, script)]
      in if exec_ok r
         then (None, setStep StepCompose StepSuccess
                 ((utf8 [0x9879, 0x76EE] @ '' '' @ go_quote project @ '' '' @ utf8 [0x5DF2, 0x542F, 0x52A8, 0xFF08] @ ''cd '' @ dir @ '' && docker compose up -d'' @ utf8 [0xFF09])) [] rep, tr1)
         else (let stepErr = errors_new ((''compose up failed for '' @ go_quote project @ '': '' @ show_error (fst (snd r))))
               in (Some stepErr,
                   blockSteps (''Compose '' @ utf8 [0x542F, 0x52A8, 0x5931, 0x8D25, 0xFF0C, 0x672A, 0x5BFC, 0x5165, 0x6570, 0x636E, 0x5E93]) [StepDatabase]
                     (setStep StepCompose (classifyStepStatus (fst r)) (err_text stepErr)
                        ((utf8 [0x5728, 0x76EE, 0x6807, 0x673A, 0x624B, 0x5DE5, 0x6267, 0x884C, 0xFF1A] @ ''cd '' @ dir @ '' && docker compose -f '' @ composeFile @ '' up -d'')) rep),
                   tr1)))"

definition exec_failure :: "string \<Rightarrow> exec_result option \<times> go_error option \<times> string \<Rightarrow> go_error" where
  "exec_failure msg r =
     (case r of (res, e, out) \<Rightarrow>
        (case e of
           Some x \<Rightarrow> wrap (msg @ '': '') x []
         | None \<Rightarrow>
             (case res of
                Some y \<Rightarrow> (case er_error y of
                             Some x \<Rightarrow> wrap (msg @ '': '') x []
                           | None \<Rightarrow> errors_new (msg @ '': command exited with code '' @ show_int (er_exit y)))
              | None \<Rightarrow> errors_new msg)))"

definition importRestoredDatabase ::
    "remote_exec \<Rightarrow> target \<Rightarrow> string \<Rightarrow> manifest \<Rightarrow> restore_options \<Rightarrow> string \<Rightarrow> restore_report \<Rightarrow> executed \<Rightarrow> step_result" where
  "importRestoredDatabase exec tgt jobName m opts troot rep tr =
     (case mf_database m of
        None \<Rightarrow> (None, setStep StepDatabase StepSkipped (utf8 [0x5FEB, 0x7167, 0x4E2D, 0x6CA1, 0x6709, 0x6570, 0x636E, 0x5E93, 0x5BFC, 0x51FA, 0x9700, 0x8981, 0x5BFC, 0x5165]) [] rep, tr)
      | Some d \<Rightarrow>
     (if md_dump d = []
      then (None, addPending ((md_engine d @ '' '' @ utf8 [0x6570, 0x636E, 0x5E93, 0x6CA1, 0x6709, 0x903B, 0x8F91, 0x5BFC, 0x51FA, 0xFF0C, 0x9700, 0x8981, 0x4EBA, 0x5DE5, 0x6062, 0x590D, 0x6570, 0x636E]))
              (setStep StepDatabase StepManual
                 ((''manifest '' @ utf8 [0x58F0, 0x660E, 0x4E86] @ '' '' @ md_engine d @ '' '' @ utf8 [0x6570, 0x636E, 0x5E93, 0x4F46, 0x6CA1, 0x6709, 0x903B, 0x8F91, 0x5BFC, 0x51FA, 0xFF0C, 0x6570, 0x636E, 0x9700, 0x8981, 0x4EBA, 0x5DE5, 0x5904, 0x7406]))
                 (utf8 [0x6309, 0x8BE5, 0x6570, 0x636E, 0x5E93, 0x81EA, 0x8EAB, 0x7684, 0x4E00, 0x81F4, 0x6027, 0x6D41, 0x7A0B, 0x624B, 0x5DE5, 0x6062, 0x590D, 0x6570, 0x636E, 0xFF0C, 0x6216, 0x91CD, 0x65B0, 0x5907, 0x4EFD, 0x8BE5, 0x5BB9, 0x5668, 0x4EE5, 0x751F, 0x6210, 0x903B, 0x8F91, 0x5BFC, 0x51FA]) rep), tr)
      else (case ResolveDatabaseDump m troot of
        Inl e \<Rightarrow> (let stepErr = wrap ''invalid database dump path in manifest: '' e []
                  in (Some stepErr, setStep StepDatabase StepFailed (err_text stepErr) [] rep, tr))
      | Inr dumpPath \<Rightarrow>
     (case BuildImportScript (md_engine d) (databaseContainerName m opts) dumpPath of
        Inl e \<Rightarrow> (let stepErr = wrap ''failed to build import script: '' e []
                  in (Some stepErr, setStep StepDatabase StepFailed (err_text stepErr) [] rep, tr))
      | Inr script \<Rightarrow>
          (let container = databaseContainerName m opts;
               r = exec tr tgt (import_database_task jobName) script;
               tr1 = tr @ [(tgt, import_database_task jobName, script)]
           in if exec_ok r
              then (None, setStep StepDatabase StepSuccess ((md_engine d @ '' '' @ utf8 [0x5BFC, 0x51FA, 0x5DF2, 0x5BFC, 0x5165, 0x5BB9, 0x5668] @ '' '' @ go_quote container)) [] rep, tr1)
              else (let stepErr = exec_failure (''database import failed for container '' @ go_quote container) r
                    in (Some stepErr,
                        addPending ((utf8 [0x6570, 0x636E, 0x5E93] @ '' '' @ md_engine d @ '' '' @ utf8 [0x7684, 0x5BFC, 0x5165, 0x672A, 0x5B8C, 0x6210, 0xFF0C, 0x5FEB, 0x7167, 0x5185, 0x7684, 0x5BFC, 0x51FA, 0x6587, 0x4EF6, 0x5728] @ '' '' @ dumpPath))
                          (setStep StepDatabase (classifyStepStatus (fst r)) (err_text stepErr)
                             ((utf8 [0x5728, 0x76EE, 0x6807, 0x673A, 0x786E, 0x8BA4, 0x5BB9, 0x5668] @ '' '' @ go_quote container @ '' '' @ utf8 [0x5C31, 0x7EEA, 0x540E, 0xFF0C, 0x624B, 0x5DE5, 0x5BFC, 0x5165, 0x5FEB, 0x7167, 0x5185, 0x7684] @ '' '' @ dumpPath @ utf8 [0xFF08] @ md_engine d @ utf8 [0xFF09])) rep),
                        tr1)))))))"

text \<open>Steps C and D, then B to D, then all steps of a matching manifest.\<close>

definition compose_and_database ::
    "remote_exec \<Rightarrow> target \<Rightarrow> string \<Rightarrow> manifest_candidate \<Rightarrow> restore_options \<Rightarrow> restore_report \<Rightarrow> executed \<Rightarrow> step_result" where
  "compose_and_database exec tgt jobName c opts rep tr =
     (case start_compose exec tgt jobName (mc_dir c) (project_name (mc_manifest c) opts) (compose_file_name (mc_manifest c)) rep tr of
        (Some e, rep1, tr1) \<Rightarrow> (Some e, rep1, tr1)
      | (None, rep1, tr1) \<Rightarrow> importRestoredDatabase exec tgt jobName (mc_manifest c) opts (mc_root c) rep1 tr1)"

definition mutating_steps ::
    "remote_exec \<Rightarrow> target \<Rightarrow> string \<Rightarrow> manifest_candidate \<Rightarrow> restore_options \<Rightarrow> string list \<Rightarrow> restore_report \<Rightarrow> executed \<Rightarrow> step_result" where
  "mutating_steps exec tgt jobName c opts archives rep tr =
     (let rep0 = (if mf_volumes (mc_manifest c) = [] then setStep StepVolumes StepSkipped (utf8 [0x5FEB, 0x7167, 0x4E2D, 0x6CA1, 0x6709, 0x547D, 0x540D, 0x5377, 0x9700, 0x8981, 0x6062, 0x590D]) [] rep else rep)
      in case import_volumes exec tgt (zip (mf_volumes (mc_manifest c)) archives) 0 rep0 tr of
           (Some e, rep1, tr1) \<Rightarrow> (Some e, rep1, tr1)
         | (None, rep1, tr1) \<Rightarrow> compose_and_database exec tgt jobName c opts rep1 tr1)"

definition restore_from_manifest ::
    "(string \<Rightarrow> raw_ps_line res) \<Rightarrow> remote_exec \<Rightarrow> target \<Rightarrow> job \<Rightarrow> manifest_candidate \<Rightarrow> restore_options \<Rightarrow> restore_report
     \<Rightarrow> executed \<Rightarrow> step_result" where
  "restore_from_manifest pj exec tgt j c opts rep tr =
     (case check_mounts exec tgt (mf_mounts (mc_manifest c)) rep tr of
        (rep1, tr1) \<Rightarrow>
     (case resolve_archives (mc_manifest c) (mc_root c) 0 (mf_volumes (mc_manifest c)) of
        Inl e \<Rightarrow>
          (let stepErr = wrap ''invalid volume archive in manifest: '' e []
           in (Some stepErr, blockSteps (''manifest '' @ utf8 [0x8DEF, 0x5F84, 0x975E, 0x6CD5, 0xFF0C, 0x672A, 0x6267, 0x884C]) [StepDatabase, StepCompose]
                 (setStep StepVolumes StepFailed (err_text stepErr) [] rep1), tr1))
      | Inr archives \<Rightarrow>
     (case resolve_dump (mc_manifest c) (mc_root c) of
        Inl e \<Rightarrow>
          (let stepErr = wrap ''invalid database dump path in manifest: '' e []
           in (Some stepErr, blockSteps (''manifest '' @ utf8 [0x8DEF, 0x5F84, 0x975E, 0x6CD5, 0xFF0C, 0x672A, 0x6267, 0x884C]) [StepVolumes, StepCompose]
                 (setStep StepDatabase StepFailed (err_text stepErr) [] rep1), tr1))
      | Inr dump \<Rightarrow>
     (case runRestorePreflight pj exec tgt (j_name j)
             (preflight_input_of (mc_manifest c) opts (mc_dir c) archives dump (t_name tgt \<noteq> j_server j)) tr1 of
        (Some e, tr2) \<Rightarrow>
          (let reason = (utf8 [0x6062, 0x590D, 0x524D, 0x76EE, 0x6807, 0x9884, 0x68C0, 0x5931, 0x8D25, 0xFF1A] @ err_text e)
           in (Some (wrap [] (sentinel_error ErrRestorePreflightBlocked) ('': '' @ err_text e)),
               warnf ((''  '' @ utf8 [0x26A0, 0xFE0F] @ '' Warning: '' @ reason))
                 (addPending (utf8 [0x4FEE, 0x590D, 0x76EE, 0x6807, 0x673A, 0x524D, 0x7F6E, 0x6761, 0x4EF6, 0x540E, 0x91CD, 0x65B0, 0x6267, 0x884C, 0x6062, 0x590D, 0xFF1B, 0x672C, 0x6B21, 0x672A, 0x5BFC, 0x5165, 0x4EFB, 0x4F55, 0x5377, 0x3001, 0x6570, 0x636E, 0x5E93, 0xFF0C, 0x4E5F, 0x672A, 0x542F, 0x52A8] @ '' Compose'')
                   (blockSteps reason [StepVolumes, StepDatabase, StepCompose] rep1)), tr2))
      | (None, tr2) \<Rightarrow> mutating_steps exec tgt (j_name j) c opts archives rep1 tr2))))"

definition autostart_options_of ::
    "(string \<Rightarrow> 'a \<Rightarrow> asset res \<times> 'a) option \<Rightarrow> job \<Rightarrow> restore_options \<Rightarrow> string list \<Rightarrow> 'a \<Rightarrow> autostart_options \<times> 'a" where
  "autostart_options_of assets j opts candidateDirs a =
     (let dirs = dedup_paths ((if ro_path opts \<noteq> [] \<and> ro_path opts \<noteq> ''/'' then [ro_path opts] else [])
                   @ map (restored_path (ro_path opts)) candidateDirs);
          base = \<lparr>as_dirs = dirs, as_alias = ro_alias opts, as_engine = [], as_container = [], as_dump = []\<rparr>
      in case assets of
           None \<Rightarrow> (base, a)
         | Some get \<Rightarrow>
             (case get (if ro_asset opts = [] then j_name j else ro_asset opts) a of
                (Inl e, a1) \<Rightarrow> (base, a1)
              | (Inr x, a1) \<Rightarrow>
                  (if a_type x \<noteq> TypeDatabase then (base, a1)
                   else (base\<lparr>as_engine := a_engine x,
                              as_container := (if a_container x = [] then j_name j else a_container x),
                              as_dump := restored_path (ro_path opts) (''/tmp/opspulse-dumps/'' @ DumpFileName (j_name j))\<rparr>, a1))))"

definition startWithoutManifest ::
    "remote_exec \<Rightarrow> target \<Rightarrow> string \<Rightarrow> autostart_options \<Rightarrow> restore_report \<Rightarrow> executed \<Rightarrow> step_result" where
  "startWithoutManifest exec tgt jobName auto rep tr =
     (let script = BuildAutoStartScript auto;
          r = exec tr tgt (autostart_task jobName) script;
          tr1 = tr @ [(tgt, autostart_task jobName, script)]
      in if exec_ok r
         then (None, setStep StepCompose StepSuccess (utf8 [0x901A, 0x7528] @ '' auto-start '' @ utf8 [0x5DF2, 0x542F, 0x52A8, 0x8FD8, 0x539F, 0x76EE, 0x5F55, 0x4E2D, 0x68C0, 0x6D4B, 0x5230, 0x7684, 0x670D, 0x52A1]) []
                 (setStep StepDatabase StepSkipped (utf8 [0x672A, 0x53D1, 0x73B0, 0x5BB9, 0x5668] @ '' manifest'' @ utf8 [0xFF0C, 0x672A, 0x5BFC, 0x5165, 0x6570, 0x636E, 0x5E93]) []
                   (setStep StepVolumes StepSkipped (utf8 [0x672A, 0x53D1, 0x73B0, 0x5BB9, 0x5668] @ '' manifest'' @ utf8 [0xFF0C, 0x672A, 0x5BFC, 0x5165, 0x547D, 0x540D, 0x5377]) [] rep)), tr1)
         else (let stepErr = exec_failure ''container auto-start failed'' r
               in (Some stepErr, setStep StepCompose (classifyStepStatus (fst r)) (err_text stepErr)
                     (utf8 [0x5728, 0x76EE, 0x6807, 0x673A, 0x624B, 0x5DE5, 0x6267, 0x884C] @ '' docker compose up -d '' @ utf8 [0x542F, 0x52A8, 0x670D, 0x52A1]) rep, tr1)))"

definition candidate_dirs :: "job \<Rightarrow> string list" where
  "candidate_dirs j = dedup_paths ((''/var/lib/opspulse/containers/'' @ j_name j) # j_paths j)"

definition startRestoredServices ::
    "(string \<Rightarrow> manifest res) \<Rightarrow> (string \<Rightarrow> raw_ps_line res) \<Rightarrow> (string \<Rightarrow> 'a \<Rightarrow> asset res \<times> 'a) option \<Rightarrow> remote_exec \<Rightarrow> target
     \<Rightarrow> job \<Rightarrow> restore_options \<Rightarrow> restore_report \<Rightarrow> executed \<Rightarrow> 'a \<Rightarrow> step_result \<times> 'a" where
  "startRestoredServices parse_yaml pj assets exec tgt j opts rep tr a =
     (case read_manifests parse_yaml exec tgt (j_name j) [] (manifest_probes opts (candidate_dirs j)) rep tr of
        (candidates, rep1, tr1) \<Rightarrow>
     (case select_manifest (j_name j) opts candidates rep1 of
        (Some c, rep2) \<Rightarrow> (restore_from_manifest pj exec tgt j c opts rep2 tr1, a)
      | (None, rep2) \<Rightarrow>
          (if effectiveStartPolicy opts \<noteq> StartPolicyStart
           then ((None, addPending ((utf8 [0x9700, 0x8981, 0x542F, 0x52A8, 0x670D, 0x52A1, 0x65F6, 0x91CD, 0x65B0, 0x6267, 0x884C, 0xFF1A] @ restoreStartHint (j_name j) opts))
                    (skipContainerSteps (utf8 [0x672A, 0x53D1, 0x73B0, 0x4E0E, 0x672C, 0x4EFB, 0x52A1, 0x5339, 0x914D, 0x7684, 0x5BB9, 0x5668] @ '' manifest'' @ utf8 [0xFF1A, 0x666E, 0x901A, 0x6587, 0x4EF6, 0x6062, 0x590D, 0x9ED8, 0x8BA4, 0x4E0D, 0x542F, 0x52A8, 0x670D, 0x52A1]) rep2), tr1), a)
           else (case autostart_options_of assets j opts (candidate_dirs j) a of
                   (auto, a1) \<Rightarrow> (startWithoutManifest exec tgt (j_name j) auto rep2 tr1, a1)))))"

definition runPostRestoreSteps ::
    "(string \<Rightarrow> manifest res) \<Rightarrow> (string \<Rightarrow> raw_ps_line res) \<Rightarrow> (string \<Rightarrow> 'a \<Rightarrow> asset res \<times> 'a) option \<Rightarrow> remote_exec \<Rightarrow> target
     \<Rightarrow> job \<Rightarrow> restore_options \<Rightarrow> string \<Rightarrow> restore_report \<Rightarrow> executed \<Rightarrow> 'a \<Rightarrow> step_result \<times> 'a" where
  "runPostRestoreSteps parse_yaml pj assets exec tgt j opts serverName rep tr a =
     (if effectiveStartPolicy opts = StartPolicyNoStart
      then ((None, addPending ((utf8 [0x9700, 0x8981, 0x542F, 0x52A8, 0x670D, 0x52A1, 0x65F6, 0x91CD, 0x65B0, 0x6267, 0x884C, 0xFF1A] @ restoreStartHint (j_name j) opts))
               (skipContainerSteps (utf8 [0x5DF2, 0x6309] @ '' --no-start '' @ utf8 [0x8DF3, 0x8FC7, 0xFF1A, 0x53EA, 0x89E3, 0x538B, 0x6587, 0x4EF6, 0xFF0C, 0x4E0D, 0x5BFC, 0x5165, 0x547D, 0x540D, 0x5377, 0x3001, 0x4E0D, 0x704C, 0x5E93, 0x3001, 0x4E0D, 0x542F, 0x52A8, 0x670D, 0x52A1]) rep), tr), a)
      else if effectiveStartPolicy opts = StartPolicyAuto \<and> serverName = j_server j
      then ((None, addPending ((utf8 [0x9700, 0x8981, 0x542F, 0x52A8, 0x670D, 0x52A1, 0x65F6, 0x663E, 0x5F0F, 0x6267, 0x884C, 0xFF1A] @ restoreStartHint (j_name j) opts))
               (skipContainerSteps (utf8 [0x540C, 0x673A, 0x6062, 0x590D, 0x9ED8, 0x8BA4, 0x4E0D, 0x542F, 0x52A8, 0x670D, 0x52A1, 0xFF1A, 0x6587, 0x4EF6, 0x6309, 0x539F, 0x8DEF, 0x5F84, 0x5199, 0x56DE, 0xFF0C, 0x907F, 0x514D, 0x8BEF, 0x542F, 0x52A8, 0x7EBF, 0x4E0A, 0x670D, 0x52A1]) rep), tr), a)
      else startRestoredServices parse_yaml pj assets exec tgt j opts rep tr a)"

section \<open>Snapshots\<close>

text \<open>Everything a restore takes from outside.\<close>

record restore_env =
  ve_log :: string
  ve_create :: db_io
  ve_final :: db_io
  ve_secrets :: "(string \<times> string) list \<Rightarrow> (string \<times> string) list res"
  ve_exec :: remote_exec
  ve_start :: int
  ve_finished :: int
  ve_since :: rat
  ve_snapshots :: "string \<Rightarrow> snapshot list res"
  ve_manifest :: "string \<Rightarrow> manifest res"
  ve_ps :: "string \<Rightarrow> raw_ps_line res"

text \<open>The temporary runner that lists snapshots.\<close>

definition listing_env :: "restore_env \<Rightarrow> executed \<Rightarrow> run_env" where
  "listing_env env tr =
     \<lparr>re_log_path = [], re_create = ve_create env, re_final = ve_final env, re_secrets = ve_secrets env,
      re_exec = ve_exec env tr, re_start = ve_start env, re_since = ve_since env, re_finished = ve_finished env\<rparr>"

text \<open>The snapshot with the greatest time; \<open>sort.Slice\<close> leaves open which one of several wins, here the last.\<close>

definition resolveLatestSnapshot ::
    "(string \<Rightarrow> 'b \<Rightarrow> server res \<times> 'b) option \<Rightarrow> restore_env \<Rightarrow> job \<Rightarrow> executed \<Rightarrow> 'b \<Rightarrow> string res \<times> executed \<times> 'b" where
  "resolveLatestSnapshot servers env j tr b =
     (case ListSnapshots (ve_snapshots env) servers (listing_env env tr) j b of
        (Inl e, ex, b1) \<Rightarrow> (Inl (wrap (''failed to query snapshots for job '' @ go_quote (j_name j) @ '': '') e []), tr @ ex, b1)
      | (Inr sns, ex, b1) \<Rightarrow>
          (if sns = [] then (Inl (errors_new ((''no snapshots found for job '' @ go_quote (j_name j) @ '' '' @ utf8 [0x2014] @ '' run a backup first''))), tr @ ex, b1)
           else (Inr (sn_id (last (sort_key sn_time sns))), tr @ ex, b1)))"

definition snapshot_matches :: "string \<Rightarrow> snapshot \<Rightarrow> bool" where
  "snapshot_matches i s \<longleftrightarrow> sn_id s = i \<or> sn_short_id s = i \<or> has_prefix (sn_id s) i"

definition verifySnapshotBelongsToJob ::
    "(string \<Rightarrow> 'b \<Rightarrow> server res \<times> 'b) option \<Rightarrow> restore_env \<Rightarrow> job \<Rightarrow> string \<Rightarrow> executed \<Rightarrow> 'b \<Rightarrow> string res \<times> executed \<times> 'b" where
  "verifySnapshotBelongsToJob servers env j i tr b =
     (case ListSnapshots (ve_snapshots env) servers (listing_env env tr) j b of
        (Inl e, ex, b1) \<Rightarrow> (Inl (wrap (''failed to query snapshots to verify snapshot '' @ go_quote i @ '': '') e []), tr @ ex, b1)
      | (Inr sns, ex, b1) \<Rightarrow>
          (if list_ex (snapshot_matches i) sns then (Inr i, tr @ ex, b1)
           else (Inl (errors_new (''snapshot '' @ go_quote i @ '' does not belong to job '' @ go_quote (j_name j))), tr @ ex, b1)))"

section \<open>The run\<close>

definition ErrRestoreUntracked :: sentinel where
  "ErrRestoreUntracked = ''restore completed but was not audited''"

definition ErrRestoreAuditFailed :: sentinel where
  "ErrRestoreAuditFailed = ''restore failed and its audit record could not be persisted''"

type_synonym 's restore_recorder =
  "(db_io \<Rightarrow> restore_run \<Rightarrow> 's \<Rightarrow> go_error option \<times> restore_run \<times> 's) \<times> (db_io \<Rightarrow> restore_run \<Rightarrow> 's \<Rightarrow> go_error option \<times> 's)"

record ('a, 'b, 's) restore_runner =
  rv_repo :: "'s restore_recorder option"
  rv_assets :: "(string \<Rightarrow> 'a \<Rightarrow> asset res \<times> 'a) option"
  rv_servers :: "(string \<Rightarrow> 'b \<Rightarrow> server res \<times> 'b) option"

definition restoreFailureStatus :: "go_error option \<Rightarrow> string" where
  "restoreFailureStatus e = (if is_cancellation e then ''canceled'' else ''failed'')"

definition updateRunRecord :: "'s restore_recorder option \<Rightarrow> db_io \<Rightarrow> restore_run \<Rightarrow> 's \<Rightarrow> go_error option \<times> 's" where
  "updateRunRecord repo io run s =
     (case repo of
        None \<Rightarrow> (None, s)
      | Some (create, update) \<Rightarrow> if 0 < rr_id run then update io run s else (None, s))"

definition failRun ::
    "'s restore_recorder option \<Rightarrow> restore_env \<Rightarrow> restore_report \<Rightarrow> string \<Rightarrow> go_error \<Rightarrow> 's
     \<Rightarrow> restore_report \<times> go_error option \<times> 's" where
  "failRun repo env rep stage e s =
     (let run = (rp_run rep)\<lparr>rr_status := restoreFailureStatus (Some e), rr_stage := stage, rr_error := err_text e,
                             rr_finished := Some (ve_finished env),
                             rr_duration := of_int (ve_finished env - rr_started (rp_run rep)) / of_int nano\<rparr>;
          rep1 = blockSteps (utf8 [0x672A, 0x6267, 0x884C, 0xFF1A, 0x524D, 0x7F6E, 0x6821, 0x9A8C, 0x5931, 0x8D25]) [StepVolumes, StepDatabase, StepCompose]
                   (setStep StepFiles StepFailed (err_text e) (restoreStageHint stage) (rep\<lparr>rp_run := run\<rparr>));
          runErr = wrap (''restore failed during '' @ stage @ '': '') e []
      in case updateRunRecord repo (ve_final env) run s of
           (None, s1) \<Rightarrow> (rep1, Some runErr, s1)
         | (Some ae, s1) \<Rightarrow>
             (rep1, Some (errors_join [runErr, wrap [] (sentinel_error ErrRestoreAuditFailed) ('': '' @ err_text ae)]), s1))"

definition new_restore_run :: "restore_env \<Rightarrow> job \<Rightarrow> restore_options \<Rightarrow> restore_run" where
  "new_restore_run env j opts =
     \<lparr>rr_id = 0, rr_job = j_name j, rr_asset = ro_asset opts,
      rr_snapshot = (if ro_snapshot opts = [] then ''latest'' else ro_snapshot opts), rr_source = j_server j,
      rr_target = (if ro_server opts = [] then j_server j else ro_server opts),
      rr_target_path = (if ro_path opts = [] then ''/'' else ro_path opts), rr_status = ''running'', rr_stage = [],
      rr_files = 0, rr_bytes = 0, rr_duration = 0, rr_error = [], rr_log = [], rr_started = ve_start env, rr_finished = None\<rparr>"

text \<open>The audit row of the attempt: the report to go on with, or the refusal.\<close>

definition begin_restore ::
    "'s restore_recorder option \<Rightarrow> restore_env \<Rightarrow> job \<Rightarrow> restore_options \<Rightarrow> 's \<Rightarrow> restore_report res \<times> 's" where
  "begin_restore repo env j opts s =
     (case repo of
        None \<Rightarrow> (Inr (newRestoreReport (new_restore_run env j opts)), s)
      | Some (create, update) \<Rightarrow>
          (case create (ve_create env) (new_restore_run env j opts) s of
             (None, run, s1) \<Rightarrow> (Inr (newRestoreReport run), s1)
           | (Some e, run, s1) \<Rightarrow>
               (if \<not> ro_allow_untracked opts
                then (Inl (wrap (''refusing to run restore '' @ go_quote (j_name j)
                        @ '': its audit record could not be created in SQLite ('') e
                        ''); fix the database or re-run with --allow-untracked to proceed and mark the run untracked''), s1)
                else (Inr ((newRestoreReport run)\<lparr>rp_untracked := True\<rparr>), s1))))"

text \<open>Steps 0 to 4: what is restored, from where, to which target.\<close>

record prepared =
  pp_job :: job
  pp_opts :: restore_options
  pp_snapshot :: string
  pp_target :: target
  pp_includes :: "string list"

definition validate_restore :: "(nat \<Rightarrow> bool) \<Rightarrow> job \<Rightarrow> restore_options \<Rightarrow> restore_options res" where
  "validate_restore uc j opts =
     (case job_validate uc j of
        Some e \<Rightarrow> Inl e
      | None \<Rightarrow>
          (if ro_alias opts = [] then Inr opts
           else (case validateContainerAlias uc (trim_space (ro_alias opts)) of
                   Some e \<Rightarrow> Inl e
                 | None \<Rightarrow> Inr (opts\<lparr>ro_alias := trim_space (ro_alias opts)\<rparr>))))"

definition choose_snapshot ::
    "(string \<Rightarrow> 'b \<Rightarrow> server res \<times> 'b) option \<Rightarrow> restore_env \<Rightarrow> job \<Rightarrow> restore_options \<Rightarrow> 'b \<Rightarrow> string res \<times> executed \<times> 'b" where
  "choose_snapshot servers env j opts b =
     (if ro_snapshot opts = [] \<or> ro_snapshot opts = ''latest'' then resolveLatestSnapshot servers env j [] b
      else verifySnapshotBelongsToJob servers env j (ro_snapshot opts) [] b)"

definition include_patterns ::
    "(string \<Rightarrow> 'a \<Rightarrow> asset res \<times> 'a) option \<Rightarrow> restore_options \<Rightarrow> 'a \<Rightarrow> string list res \<times> 'a" where
  "include_patterns assets opts a =
     (case assets of
        None \<Rightarrow> (Inr [], a)
      | Some get \<Rightarrow>
          (if ro_asset opts = [] then (Inr [], a)
           else (case get (ro_asset opts) a of
                   (Inl e, a1) \<Rightarrow> (Inl (wrap (''asset '' @ go_quote (ro_asset opts) @ '' not found: '') e []), a1)
                 | (Inr x, a1) \<Rightarrow> (Inr [a_source x], a1))))"

text \<open>The prepared restore, the snapshot recorded so far, the scripts run and the stores.\<close>

definition prepare_restore ::
    "(nat \<Rightarrow> bool) \<Rightarrow> ('a, 'b, 's) restore_runner \<Rightarrow> restore_env \<Rightarrow> job \<Rightarrow> restore_options \<Rightarrow> 'a \<Rightarrow> 'b
     \<Rightarrow> prepared res \<times> string option \<times> executed \<times> 'a \<times> 'b" where
  "prepare_restore uc rv env j0 opts0 a b =
     (case validate_restore uc j0 opts0 of
        Inl e \<Rightarrow> (Inl e, None, [], a, b)
      | Inr opts \<Rightarrow>
     (case ve_secrets env (j_env j0) of
        Inl e \<Rightarrow> (Inl (wrap ''failed to resolve secrets: '' e []), None, [], a, b)
      | Inr env' \<Rightarrow>
     (let j = j0\<lparr>j_env := env'\<rparr>
      in case choose_snapshot (rv_servers rv) env j opts b of
        (Inl e, tr, b1) \<Rightarrow> (Inl e, None, tr, a, b1)
      | (Inr snap, tr, b1) \<Rightarrow>
     (case ResolveTarget (rv_servers rv) (rr_target (new_restore_run env j opts)) b1 of
        (Inl e, b2) \<Rightarrow> (Inl e, Some snap, tr, a, b2)
      | (Inr tgt, b2) \<Rightarrow>
     (case include_patterns (rv_assets rv) opts a of
        (Inl e, a1) \<Rightarrow> (Inl e, Some snap, tr, a1, b2)
      | (Inr incl, a1) \<Rightarrow>
          (Inr \<lparr>pp_job = j, pp_opts = opts, pp_snapshot = snap, pp_target = tgt, pp_includes = incl\<rparr>, Some snap, tr, a1, b2))))))"

text \<open>Step 6.\<close>

definition dry_run_report :: "restore_env \<Rightarrow> prepared \<Rightarrow> go_error option \<Rightarrow> restore_report \<Rightarrow> restore_report" where
  "dry_run_report env p execErr rep =
     (let run = (rp_run rep)\<lparr>rr_finished := Some (ve_finished env), rr_duration := ve_since env\<rparr>
      in case execErr of
           Some e \<Rightarrow>
             blockSteps (utf8 [0x9884, 0x6F14, 0x5931, 0x8D25, 0xFF0C, 0x672A, 0x6267, 0x884C]) [StepVolumes, StepDatabase, StepCompose]
               (setStep StepFiles StepFailed (err_text e) []
                 (rep\<lparr>rp_run := run\<lparr>rr_status := restoreFailureStatus execErr, rr_stage := RestoreStageExecution, rr_error := err_text e\<rparr>\<rparr>))
         | None \<Rightarrow>
             setStep StepCompose StepSkipped (utf8 [0x9884, 0x6F14, 0x6A21, 0x5F0F, 0x4E0D, 0x542F, 0x52A8, 0x670D, 0x52A1]) []
               (setStep StepDatabase StepSkipped (utf8 [0x9884, 0x6F14, 0x6A21, 0x5F0F, 0x4E0D, 0x5BFC, 0x5165, 0x6570, 0x636E, 0x5E93]) []
                 (setStep StepVolumes StepSkipped (utf8 [0x9884, 0x6F14, 0x6A21, 0x5F0F, 0x4E0D, 0x5BFC, 0x5165, 0x547D, 0x540D, 0x5377]) []
                   (setStep StepFiles StepSuccess
                      ((utf8 [0x9884, 0x6F14, 0x5B8C, 0x6210, 0xFF1A, 0x5217, 0x51FA, 0x5FEB, 0x7167] @ '' '' @ shortSnapshotID (pp_snapshot p) @ '' '' @ utf8 [0x4E2D, 0x5C06, 0x88AB, 0x8FD8, 0x539F, 0x7684, 0x6587, 0x4EF6, 0xFF0C, 0x672A, 0x5199, 0x5165, 0x4EFB, 0x4F55, 0x6570, 0x636E])) []
                      (rep\<lparr>rp_run := run\<lparr>rr_status := ''dry-run''\<rparr>\<rparr>)))))"

definition finish_dry_run ::
    "'s restore_recorder option \<Rightarrow> restore_env \<Rightarrow> go_error option \<Rightarrow> restore_report \<Rightarrow> 's
     \<Rightarrow> restore_report \<times> go_error option \<times> 's" where
  "finish_dry_run repo env execErr rep s =
     (case updateRunRecord repo (ve_final env) (rp_run rep) s of
        (auditErr, s1) \<Rightarrow>
          (let what = ''restore dry-run for '' @ go_quote (rr_job (rp_run rep))
           in case execErr of
                Some e \<Rightarrow>
                  (rep, Some (case auditErr of
                                None \<Rightarrow> e
                              | Some ae \<Rightarrow> errors_join [e, wrap [] (sentinel_error ErrRestoreAuditFailed) ('': '' @ err_text ae)]), s1)
              | None \<Rightarrow>
                  (case auditErr of
                     Some ae \<Rightarrow>
                       (rep\<lparr>rp_untracked := True\<rparr>,
                        Some (wrap (what @ '' completed but its audit record could not be persisted: '')
                                (errors_join [sentinel_error ErrRestoreUntracked, ae]) []), s1)
                   | None \<Rightarrow>
                       (if rp_untracked rep
                        then (rep, Some (wrap (what @ '' completed but its audit record could not be created in SQLite: '')
                                     (sentinel_error ErrRestoreUntracked) []), s1)
                        else (rep, None, s1)))))"

text \<open>Steps 7 and 8.\<close>

definition files_restored :: "exec_result option \<times> go_error option \<times> string \<Rightarrow> bool" where
  "files_restored r \<longleftrightarrow> (case r of (res, e, out) \<Rightarrow> e = None \<and> (case res of None \<Rightarrow> False | Some x \<Rightarrow> er_success x))"

definition failed_files_message :: "exec_result option \<times> go_error option \<times> string \<Rightarrow> string" where
  "failed_files_message r =
     (case r of (res, e, out) \<Rightarrow>
        (case e of
           Some x \<Rightarrow> err_text x
         | None \<Rightarrow> (case res of None \<Rightarrow> [] | Some y \<Rightarrow> (case er_error y of None \<Rightarrow> [] | Some x \<Rightarrow> err_text x))))"

definition failed_files_report ::
    "exec_result option \<times> go_error option \<times> string \<Rightarrow> restore_report \<Rightarrow> restore_report" where
  "failed_files_report r rep =
     (let msg = (if failed_files_message r = [] then rr_error (rp_run rep) else failed_files_message r)
      in blockSteps (utf8 [0x6587, 0x4EF6, 0x6062, 0x590D, 0x5931, 0x8D25, 0xFF0C, 0x672A, 0x6267, 0x884C]) [StepVolumes, StepDatabase, StepCompose]
           (setStep StepFiles StepFailed msg (utf8 [0x68C0, 0x67E5, 0x65E5, 0x5FD7, 0x6587, 0x4EF6, 0x91CC, 0x5931, 0x8D25, 0x7684] @ '' restic '' @ utf8 [0x547D, 0x4EE4, 0xFF1B] @ [CHR 0x60] @ ''--dry-run'' @ [CHR 0x60] @ '' '' @ utf8 [0x53EF, 0x5217, 0x51FA, 0x5C06, 0x88AB, 0x8FD8, 0x539F, 0x7684, 0x6587, 0x4EF6])
              (rep\<lparr>rp_run := (rp_run rep)\<lparr>rr_status := restoreFailureStatus (fst (snd r)),
                                          rr_stage := RestoreStageExecution, rr_error := msg\<rparr>\<rparr>)))"

definition post_restore_message :: "go_error \<Rightarrow> string" where
  "post_restore_message e =
     (if errors_is e ErrRestorePreflightBlocked
      then ''restore completed but target preflight blocked container steps: '' @ err_text e
      else ''restore completed but container auto-start failed: '' @ err_text e)"

definition restored_files_report :: "go_error option \<Rightarrow> restore_report \<Rightarrow> restore_report" where
  "restored_files_report startErr rep =
     (let run = (case startErr of
                   None \<Rightarrow> rp_run rep
                 | Some e \<Rightarrow> (rp_run rep)\<lparr>rr_stage := RestoreStagePostRestore, rr_error := post_restore_message e\<rparr>)
      in rep\<lparr>rp_run := run\<lparr>rr_status := aggregateStatus False rep\<rparr>\<rparr>)"

definition finish_restore ::
    "'s restore_recorder option \<Rightarrow> restore_env \<Rightarrow> go_error option \<Rightarrow> restore_report \<Rightarrow> 's
     \<Rightarrow> restore_report \<times> go_error option \<times> 's" where
  "finish_restore repo env execErr rep s =
     (case updateRunRecord repo (ve_final env) (rp_run rep) s of
        (auditErr, s1) \<Rightarrow>
          (let what = ''restore run '' @ go_quote (rr_job (rp_run rep))
           in case (auditErr, execErr) of
                (Some ae, None) \<Rightarrow>
                  (rep\<lparr>rp_untracked := True\<rparr>,
                   Some (wrap (what @ '' completed but its audit record could not be persisted: '')
                           (errors_join [sentinel_error ErrRestoreUntracked, ae]) []), s1)
              | (Some ae, Some e) \<Rightarrow>
                  (if rr_status (rp_run rep) = ''canceled''
                   then (rep\<lparr>rp_untracked := True\<rparr>,
                         Some (errors_join [e, wrap [] (sentinel_error ErrRestoreUntracked) ('': '' @ err_text ae)]), s1)
                   else (rep, Some (errors_join [e, wrap (what @ '' failed and its audit record could not be persisted: '')
                                      (sentinel_error ErrRestoreAuditFailed) ('': '' @ err_text ae)]), s1))
              | (None, None) \<Rightarrow>
                  (if rp_untracked rep
                   then (rep, Some (wrap (what @ '' completed but its audit record could not be created in SQLite: '')
                                (sentinel_error ErrRestoreUntracked) []), s1)
                   else (rep, None, s1))
              | (None, Some e) \<Rightarrow> (rep, Some e, s1)))"

definition execute_restore ::
    "(string \<Rightarrow> 'a \<Rightarrow> asset res \<times> 'a) option \<Rightarrow> 's restore_recorder option \<Rightarrow> restore_env \<Rightarrow> prepared \<Rightarrow> restore_report \<Rightarrow> executed
     \<Rightarrow> 'a \<Rightarrow> 's \<Rightarrow> restore_report \<times> go_error option \<times> executed \<times> 'a \<times> 's" where
  "execute_restore assets repo env p rep0 tr a s =
     (let j = pp_job p; opts = pp_opts p; tgt = pp_target p;
          rep = rep0\<lparr>rp_run := (rp_run rep0)\<lparr>rr_log := ve_log env\<rparr>\<rparr>;
          path = rr_target_path (rp_run rep)
      in if ro_dry_run opts
         then (let script = BuildRestoreDryRunScript j (pp_snapshot p) (pp_includes p);
                   r = ve_exec env tr tgt (''restore-dryrun-'' @ j_name j) script
               in case finish_dry_run repo env (fst (snd r)) (dry_run_report env p (fst (snd r)) rep) s of
                    (rep1, e, s1) \<Rightarrow> (rep1, e, tr @ [(tgt, ''restore-dryrun-'' @ j_name j, script)], a, s1))
         else (let script = BuildRestoreScript j (pp_snapshot p) path (pp_includes p);
                   r = ve_exec env tr tgt (''restore-'' @ j_name j) script;
                   tr1 = tr @ [(tgt, ''restore-'' @ j_name j, script)];
                   rep1 = rep\<lparr>rp_run := (rp_run rep)\<lparr>rr_finished := Some (ve_finished env),
                     rr_duration := (case fst r of None \<Rightarrow> ve_since env | Some x \<Rightarrow> er_duration x)\<rparr>\<rparr>
               in if files_restored r
                  then (case runPostRestoreSteps (ve_manifest env) (ve_ps env) assets (ve_exec env) tgt j opts
                               (rr_target (rp_run rep1))
                               (setStep StepFiles StepSuccess
                                  ((utf8 [0x5FEB, 0x7167] @ '' '' @ shortSnapshotID (pp_snapshot p) @ '' '' @ utf8 [0x5DF2, 0x8FD8, 0x539F, 0x5230] @ '' '' @ rr_target (rp_run rep1) @ '':'' @ path)) [] rep1) tr1 a of
                          ((startErr, rep2, tr2), a1) \<Rightarrow>
                            (case finish_restore repo env startErr (restored_files_report startErr rep2) s of
                               (rep3, e, s1) \<Rightarrow> (rep3, e, tr2, a1, s1)))
                  else (case finish_restore repo env (fst (snd r)) (failed_files_report r rep1) s of
                          (rep2, e, s1) \<Rightarrow> (rep2, e, tr1, a, s1))))"

definition restore_runner_run ::
    "(nat \<Rightarrow> bool) \<Rightarrow> ('a, 'b, 's) restore_runner \<Rightarrow> restore_env \<Rightarrow> job \<Rightarrow> restore_options \<Rightarrow> ('a, 'b, 's) run_state
     \<Rightarrow> restore_report option \<times> go_error option \<times> executed \<times> ('a, 'b, 's) run_state" where
  "restore_runner_run uc rv env j opts st =
     (case begin_restore (rv_repo rv) env j opts (st_db st) of
        (Inl e, s1) \<Rightarrow> (None, Some e, [], st\<lparr>st_db := s1\<rparr>)
      | (Inr rep, s1) \<Rightarrow>
     (case prepare_restore uc rv env j opts (st_assets st) (st_servers st) of
        (pr, snap, tr, a1, b1) \<Rightarrow>
          (let rep1 = (case snap of None \<Rightarrow> rep | Some i \<Rightarrow> rep\<lparr>rp_run := (rp_run rep)\<lparr>rr_snapshot := i\<rparr>\<rparr>)
           in case pr of
                Inl e \<Rightarrow> (case failRun (rv_repo rv) env rep1 RestoreStageValidation e s1 of
                            (rep2, err, s2) \<Rightarrow> (Some rep2, err, tr, \<lparr>st_assets = a1, st_servers = b1, st_db = s2\<rparr>))
              | Inr p \<Rightarrow> (case execute_restore (rv_assets rv) (rv_repo rv) env p rep1 tr a1 s1 of
                            (rep2, err, tr2, a2, s2) \<Rightarrow> (Some rep2, err, tr2, \<lparr>st_assets = a2, st_servers = b1, st_db = s2\<rparr>)))))"

end
