(* ===== verification/RestoreSafety.thy ===== *)
theory RestoreSafety
  imports RestoreRunner
begin

text \<open>
  Properties of the restore runner: the container steps run in order behind the preflight and stop at the first
  failure, a restore on its own host leaves the services alone, the status that is reported follows from the
  steps, and every attempt is audited.
\<close>

section \<open>What a container step keeps\<close>

text \<open>
  A step result on top of a report: the run and its tracking are untouched, the four steps stay, and from a report
  without a failed or blocked step the result has an error exactly when it has such a step.
\<close>

definition clean :: "restore_report \<Rightarrow> bool" where
  "clean rep \<longleftrightarrow> (\<forall>k. stepStatus k rep \<noteq> Some StepFailed \<and> stepStatus k rep \<noteq> Some StepBlocked)"

definition step_sound :: "restore_report \<Rightarrow> go_error option \<times> restore_report \<Rightarrow> bool" where
  "step_sound rep r \<longleftrightarrow> (case r of (e, rep') \<Rightarrow>
     rp_run rep' = rp_run rep \<and> rp_untracked rep' = rp_untracked rep \<and> (steps_ok rep \<longrightarrow> steps_ok rep')
     \<and> (steps_ok rep \<longrightarrow> stepStatus StepFiles rep' = stepStatus StepFiles rep)
     \<and> (steps_ok rep \<longrightarrow> clean rep \<longrightarrow> (e = None \<longleftrightarrow> clean rep')))"

definition result_sound :: "restore_report \<Rightarrow> step_result \<Rightarrow> bool" where
  "result_sound rep r \<longleftrightarrow> step_sound rep (fst r, fst (snd r))"

named_theorems step_intros

lemma clean_simps [simp]:
  "clean (addWarning m rep) = clean rep" "clean (addPending m rep) = clean rep" "clean (warnf m rep) = clean rep"
  "clean (rep\<lparr>rp_run := run\<rparr>) = clean rep"
  by (simp_all add: clean_def)

lemma clean_set [simp]: "steps_ok rep \<Longrightarrow> clean rep \<Longrightarrow> clean (setStep k st d n rep) \<longleftrightarrow> st \<noteq> StepFailed \<and> st \<noteq> StepBlocked"
  by (auto simp: clean_def)

lemma not_clean_set [simp]: "steps_ok rep \<Longrightarrow> st = StepFailed \<or> st = StepBlocked \<Longrightarrow> \<not> clean (setStep k st d n rep)"
  by (auto simp: clean_def)

lemma not_clean_block [simp]: "steps_ok rep \<Longrightarrow> ks \<noteq> [] \<Longrightarrow> \<not> clean (blockSteps r ks rep)"
  by (cases ks) (auto simp: clean_def)

lemma clean_skip [simp]: "steps_ok rep \<Longrightarrow> clean rep \<Longrightarrow> clean (skipContainerSteps r rep)"
  by (auto simp: clean_def)

lemma classify_cases: "classifyStepStatus r = StepFailed \<or> classifyStepStatus r = StepBlocked"
  by (simp add: classifyStepStatus_def split: option.split)

lemma sound_trans:
  assumes "step_sound rep (None, rep1)" "step_sound rep1 (e, rep2)"
  shows "step_sound rep (e, rep2)"
  using assms unfolding step_sound_def by (cases e) auto

lemma sound_refl [step_intros]: "step_sound rep (None, rep)"
  by (simp add: step_sound_def)

lemma sound_set_ok [step_intros]:
  "k \<noteq> StepFiles \<Longrightarrow> st \<noteq> StepFailed \<Longrightarrow> st \<noteq> StepBlocked \<Longrightarrow> step_sound rep (None, setStep k st d n rep)"
  by (simp add: step_sound_def)

lemma sound_set_fail [step_intros]:
  "k \<noteq> StepFiles \<Longrightarrow> st = StepFailed \<or> st = StepBlocked \<Longrightarrow> step_sound rep (Some e, setStep k st d n rep)"
  by (auto simp: step_sound_def)

lemma sound_messages [step_intros]:
  "step_sound rep (e, rep') \<Longrightarrow> step_sound rep (e, addPending m rep')"
  "step_sound rep (e, rep') \<Longrightarrow> step_sound rep (e, warnf m rep')"
  by (simp_all add: step_sound_def)

lemma sound_block [step_intros]:
  "step_sound rep (Some e, rep') \<Longrightarrow> StepFiles \<notin> set ks \<Longrightarrow> ks \<noteq> [] \<Longrightarrow> step_sound rep (Some e, blockSteps r ks rep')"
  by (auto simp: step_sound_def)

lemma sound_block_only [step_intros]:
  "StepFiles \<notin> set ks \<Longrightarrow> ks \<noteq> [] \<Longrightarrow> step_sound rep (Some e, blockSteps r ks rep)"
  by (auto simp: step_sound_def)

lemma sound_skip [step_intros]: "step_sound rep (None, skipContainerSteps r rep)"
  by (auto simp: step_sound_def)

lemma opt_warn_sound [simp]: "step_sound rep (None, opt_warn w rep)"
  by (cases w) (auto simp: opt_warn_def intro: step_intros)

lemma read_manifests_sound:
  "read_manifests py exec tgt job seen ps rep tr = (cs, rep', tr') \<Longrightarrow> step_sound rep (None, rep')"
proof (induction py exec tgt job seen ps rep tr arbitrary: cs rep' tr' rule: read_manifests.induct)
  case (2 py exec tgt job seen dir mPath ps rep tr)
  show ?case
  proof (cases "mPath \<in> set seen")
    case True
    then show ?thesis using 2(1)[OF True] 2(3) by simp
  next
    case False
    obtain found warning where p:
      "(found, warning) = probed_manifest py dir mPath (exec tr tgt (read_manifest_task job) (read_manifest_script mPath))"
      by (metis surj_pair)
    obtain cs1 where r: "read_manifests py exec tgt job (mPath # seen) ps (opt_warn warning rep)
        (tr @ [(tgt, read_manifest_task job, read_manifest_script mPath)]) = (cs1, rep', tr')"
      using 2(3) False p[symmetric] by (auto split: prod.splits)
    from 2(2)[OF False p r] show ?thesis using sound_trans opt_warn_sound by blast
  qed
qed (auto intro: step_intros)

lemma select_manifest_sound: "select_manifest job opts cs rep = (c, rep') \<Longrightarrow> step_sound rep (None, rep')"
  by (auto simp: select_manifest_def split: list.splits if_splits intro: step_intros)

lemma check_mounts_sound: "check_mounts exec tgt ems rep tr = (rep', tr') \<Longrightarrow> step_sound rep (None, rep')"
proof (induction exec tgt ems rep tr arbitrary: rep' tr' rule: check_mounts.induct)
  case (2 exec tgt em ems rep tr)
  have m: "step_sound rep (None, if b then mount_missing tgt src rep else rep)" for b src
    by (auto simp: mount_missing_def intro: step_intros)
  show ?case
  proof (cases "mm_reason em = ''system_mount'' \<or> is_system_mount (mm_source em)")
    case True
    with 2(3) show ?thesis using sound_trans[OF m 2(1)[OF True]] by simp
  next
    case False
    then show ?thesis using 2(2) 2(3) by simp
  qed
qed (auto intro: step_intros)

lemma volume_failed_sound: "step_sound rep (Some (fst (volume_failed v p r rep)), snd (volume_failed v p r rep))"
  unfolding volume_failed_def Let_def fst_conv snd_conv by (intro step_intros classify_cases) simp_all

lemma import_volumes_sound: "result_sound rep (import_volumes exec tgt vs n rep tr)"
proof (induction exec tgt vs n rep tr rule: import_volumes.induct)
  case (1 exec tgt n rep tr)
  then show ?case by (auto simp: result_sound_def intro: step_intros)
next
  case (2 exec tgt v p vs n rep tr)
  then show ?case using volume_failed_sound by (simp add: Let_def result_sound_def)
qed

lemma start_compose_sound: "result_sound rep (start_compose exec tgt job dir project cf rep tr)"
  unfolding start_compose_def Let_def result_sound_def
  by (cases "exec_ok (exec tr tgt (compose_up_task job) (compose_up_script dir project cf))")
     (simp_all only: if_True if_False fst_conv snd_conv, (intro step_intros classify_cases; simp)+)

lemma import_database_sound: "result_sound rep (importRestoredDatabase exec tgt job m opts troot rep tr)"
proof (cases "mf_database m")
  case None
  then show ?thesis by (simp add: importRestoredDatabase_def result_sound_def) (intro step_intros; simp)
next
  case (Some d)
  show ?thesis
  proof (cases "md_dump d = []")
    case True
    with Some show ?thesis
      unfolding importRestoredDatabase_def result_sound_def
      by (simp only: option.case if_True simp_thms fst_conv snd_conv) (intro step_intros; simp)
  next
    case False
    show ?thesis
    proof (cases "ResolveDatabaseDump m troot")
      case (Inl e)
      with Some False show ?thesis
        unfolding importRestoredDatabase_def result_sound_def Let_def
        by (simp only: option.case sum.case if_False fst_conv snd_conv) (intro step_intros; simp)
    next
      case (Inr dump)
      show ?thesis
      proof (cases "BuildImportScript (md_engine d) (databaseContainerName m opts) dump")
        case (Inl e)
        with Some False \<open>ResolveDatabaseDump m troot = Inr dump\<close> show ?thesis
          unfolding importRestoredDatabase_def result_sound_def Let_def
          by (simp only: option.case sum.case if_False fst_conv snd_conv) (intro step_intros; simp)
      next
        case script: (Inr script)
        show ?thesis
          unfolding importRestoredDatabase_def result_sound_def Let_def Some option.case Inr sum.case script
          using False by (auto intro!: step_intros classify_cases)
      qed
    qed
  qed
qed

lemma result_soundD: "result_sound rep r \<Longrightarrow> r = (e, rep', tr') \<Longrightarrow> step_sound rep (e, rep')"
  by (simp add: result_sound_def)

text \<open>A step that goes on when it succeeds.\<close>

lemma sound_bind:
  assumes "result_sound rep r" "\<And>rep1 tr1. r = (None, rep1, tr1) \<Longrightarrow> result_sound rep1 (k rep1 tr1)"
  shows "result_sound rep (case r of (Some e, rep1, tr1) \<Rightarrow> (Some e, rep1, tr1) | (None, rep1, tr1) \<Rightarrow> k rep1 tr1)"
proof -
  obtain e rep1 tr1 where r: "r = (e, rep1, tr1)" by (metis prod_cases3)
  show ?thesis
  proof (cases e)
    case None
    have a: "step_sound rep (None, rep1)" using result_soundD[OF assms(1)] r None by simp
    obtain e2 rep2 tr2 where k: "k rep1 tr1 = (e2, rep2, tr2)" by (metis prod_cases3)
    have b: "step_sound rep1 (e2, rep2)" using result_soundD[OF assms(2) k] r None by simp
    show ?thesis using sound_trans[OF a b] r None k by (simp add: result_sound_def)
  next
    case (Some x)
    then show ?thesis using assms(1) r by (simp add: result_sound_def)
  qed
qed

lemma sound_after:
  assumes "step_sound rep (None, rep1)" "result_sound rep1 r"
  shows "result_sound rep r"
  using sound_trans[OF assms(1)] assms(2) by (cases r) (simp add: result_sound_def)

lemma compose_and_database_sound: "result_sound rep (compose_and_database exec tgt job c opts rep tr)"
  unfolding compose_and_database_def by (rule sound_bind[OF start_compose_sound]) (rule import_database_sound)

lemma mutating_steps_sound: "result_sound rep (mutating_steps exec tgt job c opts archives rep tr)"
proof -
  have "result_sound rep0 (case import_volumes exec tgt vs n rep0 tr of (Some e, rep1, tr1) \<Rightarrow> (Some e, rep1, tr1)
      | (None, rep1, tr1) \<Rightarrow> compose_and_database exec tgt job c opts rep1 tr1)" for rep0 vs n
    by (rule sound_bind[OF import_volumes_sound]) (rule compose_and_database_sound)
  moreover have "step_sound rep (None, if mf_volumes (mc_manifest c) = [] then setStep StepVolumes StepSkipped d [] rep else rep)" for d
    by (auto intro!: step_intros)
  ultimately show ?thesis unfolding mutating_steps_def Let_def using sound_after by blast
qed

lemma restore_from_manifest_sound: "result_sound rep (restore_from_manifest pj exec tgt j c opts rep tr)"
proof -
  obtain rep1 tr1 where m: "check_mounts exec tgt (mf_mounts (mc_manifest c)) rep tr = (rep1, tr1)" by fastforce
  have failed: "step_sound rep1 (Some e, blockSteps r ks (setStep k StepFailed d [] rep1))"
    if "StepFiles \<notin> set ks" "ks \<noteq> []" "k \<noteq> StepFiles" for e r ks k d
    using that by (auto intro!: step_intros)
  have pre: "step_sound rep1 (Some e, warnf m2 (addPending m1 (blockSteps r [StepVolumes, StepDatabase, StepCompose] rep1)))" for e r m1 m2
    by (intro step_intros) simp_all
  have "result_sound rep1 (restore_from_manifest pj exec tgt j c opts rep tr)"
    unfolding restore_from_manifest_def m prod.case Let_def
    using mutating_steps_sound failed pre
    by (auto simp: result_sound_def split: sum.split prod.split option.split)
  then show ?thesis by (rule sound_after[OF check_mounts_sound[OF m]])
qed

lemma startWithoutManifest_sound: "result_sound rep (startWithoutManifest exec tgt job auto rep tr)"
proof -
  have ok: "step_sound rep (None, setStep StepCompose StepSuccess c [] (setStep StepDatabase StepSkipped d []
      (setStep StepVolumes StepSkipped v [] rep)))" for c d v
    by (simp add: step_sound_def)
  have bad: "step_sound rep (Some e, setStep StepCompose (classifyStepStatus r) d n rep)" for e r d n
    by (intro step_intros classify_cases) simp
  show ?thesis using ok bad by (simp add: startWithoutManifest_def Let_def result_sound_def)
qed

lemma startRestoredServices_sound:
  "result_sound rep (fst (startRestoredServices py pj assets exec tgt j opts rep tr a))"
proof -
  obtain cs rep1 tr1 where r: "read_manifests py exec tgt (j_name j) [] (manifest_probes opts (candidate_dirs j)) rep tr = (cs, rep1, tr1)"
    by (metis prod_cases3)
  obtain c rep2 where s: "select_manifest (j_name j) opts cs rep1 = (c, rep2)" by fastforce
  have s2: "step_sound rep (None, rep2)"
    using read_manifests_sound[OF r] select_manifest_sound[OF s] sound_trans by blast
  have skip: "step_sound rep2 (None, addPending m (skipContainerSteps x rep2))" for m x
    by (intro step_intros)
  have "result_sound rep2 (fst (startRestoredServices py pj assets exec tgt j opts rep tr a))"
    unfolding startRestoredServices_def r prod.case s
    using restore_from_manifest_sound startWithoutManifest_sound skip
    by (auto simp: result_sound_def split: option.split prod.split)
  then show ?thesis by (rule sound_after[OF s2])
qed

lemma runPostRestoreSteps_sound:
  "result_sound rep (fst (runPostRestoreSteps py pj assets exec tgt j opts sn rep tr a))"
proof -
  have skip: "step_sound rep (None, addPending m (skipContainerSteps x rep))" for m x
    by (intro step_intros)
  show ?thesis
    unfolding runPostRestoreSteps_def using startRestoredServices_sound skip
    by (auto simp: result_sound_def)
qed

section \<open>The order of the remote effects\<close>

abbreviation task_of :: "target \<times> string \<times> string \<Rightarrow> string" where
  "task_of x \<equiv> fst (snd x)"

text \<open>Every script of the list succeeded when it ran after the trace before it.\<close>

fun ok_run :: "remote_exec \<Rightarrow> executed \<Rightarrow> executed \<Rightarrow> bool" where
  "ok_run exec tr [] = True"
| "ok_run exec tr (x # xs) = (exec_ok (exec tr (fst x) (task_of x) (snd (snd x))) \<and> ok_run exec (tr @ [x]) xs)"

lemma ok_run_append: "ok_run exec tr (xs @ ys) \<longleftrightarrow> ok_run exec tr xs \<and> ok_run exec (tr @ xs) ys"
  by (induction xs arbitrary: tr) auto

text \<open>
  A result that worked through a list of steps: the scripts it ran are these steps in order, up to the first failure;
  without an error all of them ran and succeeded.
\<close>

definition progress :: "remote_exec \<Rightarrow> executed \<Rightarrow> executed \<Rightarrow> step_result \<Rightarrow> bool" where
  "progress exec tr steps r \<longleftrightarrow> (case r of (e, rep', tr') \<Rightarrow>
     \<exists>ms. tr' = tr @ ms \<and> ok_run exec tr (butlast ms) \<and> (\<exists>n. ms = take n steps)
       \<and> (e = None \<longrightarrow> ok_run exec tr ms \<and> ms = steps))"

lemma progress_none: "progress exec tr [] (e, rep', tr)"
  by (auto simp: progress_def)

lemma progress_stop: "progress exec tr steps (Some e, rep', tr)"
  by (auto simp: progress_def intro: exI[of _ "0 :: nat"])

lemma progress_one:
  "e = None \<longrightarrow> exec_ok (exec tr tgt t script) \<Longrightarrow> progress exec tr [(tgt, t, script)] (e, rep', tr @ [(tgt, t, script)])"
  unfolding progress_def by (auto intro: exI[of _ "1 :: nat"])

lemma progress_bind:
  assumes "progress exec tr ts1 r" "\<And>rep1 tr1. r = (None, rep1, tr1) \<Longrightarrow> progress exec tr1 ts2 (k rep1 tr1)"
  shows "progress exec tr (ts1 @ ts2) (case r of (Some e, rep1, tr1) \<Rightarrow> (Some e, rep1, tr1) | (None, rep1, tr1) \<Rightarrow> k rep1 tr1)"
proof -
  obtain e rep1 tr1 where r: "r = (e, rep1, tr1)" by (metis prod_cases3)
  obtain ms n where ms: "tr1 = tr @ ms" "ok_run exec tr (butlast ms)" "ms = take n ts1"
    "e = None \<longrightarrow> ok_run exec tr ms \<and> ms = ts1"
    using assms(1) unfolding r progress_def prod.case by blast
  show ?thesis
  proof (cases e)
    case None
    obtain e2 rep2 tr2 where k: "k rep1 tr1 = (e2, rep2, tr2)" by (metis prod_cases3)
    obtain ms2 n2 where ms2: "tr2 = tr1 @ ms2" "ok_run exec tr1 (butlast ms2)" "ms2 = take n2 ts2"
      "e2 = None \<longrightarrow> ok_run exec tr1 ms2 \<and> ms2 = ts2"
      using assms(2)[OF r[unfolded None]] unfolding k progress_def prod.case by blast
    have "ms @ ms2 = take (length ts1 + n2) (ts1 @ ts2)" using ms ms2 None by simp
    moreover have ok: "ok_run exec tr ms" using ms(4) None by blast
    then have "ok_run exec tr (butlast (ms @ ms2))"
      using ms(1,2) ms2(2) by (simp add: butlast_append ok_run_append)
    moreover have "e2 = None \<longrightarrow> ok_run exec tr (ms @ ms2) \<and> ms @ ms2 = ts1 @ ts2"
      using ok ms(1,4) ms2(4) None unfolding ok_run_append by metis
    moreover have "tr2 = tr @ (ms @ ms2)" using ms(1) ms2(1) by simp
    ultimately show ?thesis unfolding r None progress_def prod.case option.case k by blast
  next
    case (Some x)
    have "ms = take (min n (length ts1)) (ts1 @ ts2)" using ms(3) by (simp add: min_def)
    then have "\<exists>n. ms = take n (ts1 @ ts2)" by (rule exI)
    then show ?thesis using ms(1,2) Some unfolding r progress_def by simp
  qed
qed

text \<open>The container steps of a manifest: each archived volume from its own archive, Compose, and the database when it has a
  dump that can be imported.\<close>

definition import_steps :: "target \<Rightarrow> (manifest_volume \<times> string) list \<Rightarrow> executed" where
  "import_steps tgt vs = map (\<lambda>(v, p). (tgt, import_volume_task v, BuildVolumeImportScript (mv_name v) p)) (filter (\<lambda>(v, p). mv_archive v \<noteq> []) vs)"

definition database_steps :: "target \<Rightarrow> string \<Rightarrow> manifest \<Rightarrow> restore_options \<Rightarrow> string \<Rightarrow> executed" where
  "database_steps tgt job m opts troot =
     (case mf_database m of
        None \<Rightarrow> []
      | Some d \<Rightarrow>
          if md_dump d = [] then []
          else (case ResolveDatabaseDump m troot of
                  Inl e \<Rightarrow> []
                | Inr p \<Rightarrow> (case BuildImportScript (md_engine d) (databaseContainerName m opts) p of
                              Inl e \<Rightarrow> [] | Inr script \<Rightarrow> [(tgt, import_database_task job, script)])))"

definition container_steps :: "target \<Rightarrow> string \<Rightarrow> manifest_candidate \<Rightarrow> restore_options \<Rightarrow> string list \<Rightarrow> executed" where
  "container_steps tgt job c opts archives =
     import_steps tgt (zip (mf_volumes (mc_manifest c)) archives)
     @ [(tgt, compose_up_task job, compose_up_script (mc_dir c) (project_name (mc_manifest c) opts) (compose_file_name (mc_manifest c)))]
     @ database_steps tgt job (mc_manifest c) opts (mc_root c)"

lemma import_volumes_progress: "progress exec tr (import_steps tgt vs) (import_volumes exec tgt vs n rep tr)"
proof (induction exec tgt vs n rep tr rule: import_volumes.induct)
  case (1 exec tgt n rep tr)
  then show ?case by (simp add: progress_none import_steps_def)
next
  case (2 exec tgt v p vs n rep tr)
  let ?x = "(tgt, import_volume_task v, BuildVolumeImportScript (mv_name v) p)"
  consider "mv_archive v = []" | "mv_archive v \<noteq> []" "exec_ok (exec tr tgt (import_volume_task v) (BuildVolumeImportScript (mv_name v) p))"
    | "mv_archive v \<noteq> []" "\<not> exec_ok (exec tr tgt (import_volume_task v) (BuildVolumeImportScript (mv_name v) p))" by blast
  then show ?case
  proof cases
    case 1
    then show ?thesis using 2(1) by (simp add: import_steps_def)
  next
    case c: 2
    have first: "progress exec tr [?x] (None, rep, tr @ [?x])" using c(2) by (simp add: progress_one)
    have "progress exec (tr @ [?x]) (import_steps tgt vs) (import_volumes exec tgt vs (n + 1) rep (tr @ [?x]))"
      using 2(2)[OF c(1) refl refl refl c(2)] .
    then have "progress exec tr ([?x] @ import_steps tgt vs)
        (case (None, rep, tr @ [?x]) of (Some e, rep1, tr1) \<Rightarrow> (Some e, rep1, tr1)
          | (None, rep1, tr1) \<Rightarrow> import_volumes exec tgt vs (n + 1) rep1 tr1)"
      by (intro progress_bind[OF first]) simp
    then show ?thesis using c by (simp add: Let_def import_steps_def)
  next
    case 3
    have "progress exec tr (?x # import_steps tgt vs) (Some (fst (volume_failed v p r rep)), snd (volume_failed v p r rep), tr @ [?x])" for r
      unfolding progress_def by (auto intro: exI[of _ "1 :: nat"])
    with 3 show ?thesis by (simp add: Let_def import_steps_def)
  qed
qed

lemma start_compose_progress:
  "progress exec tr [(tgt, compose_up_task job, compose_up_script dir project cf)] (start_compose exec tgt job dir project cf rep tr)"
  unfolding start_compose_def Let_def
  by (cases "exec_ok (exec tr tgt (compose_up_task job) (compose_up_script dir project cf))") (simp_all add: progress_one)

lemma import_database_progress:
  "progress exec tr (database_steps tgt job m opts troot) (importRestoredDatabase exec tgt job m opts troot rep tr)"
  unfolding importRestoredDatabase_def database_steps_def Let_def
  by (auto simp: progress_none progress_stop progress_one split: option.split sum.split)

lemma compose_and_database_progress:
  "progress exec tr ([(tgt, compose_up_task job, compose_up_script (mc_dir c) (project_name (mc_manifest c) opts) (compose_file_name (mc_manifest c)))]
       @ database_steps tgt job (mc_manifest c) opts (mc_root c)) (compose_and_database exec tgt job c opts rep tr)"
  unfolding compose_and_database_def
  by (rule progress_bind[OF start_compose_progress]) (rule import_database_progress)

lemma mutating_steps_progress:
  "progress exec tr (container_steps tgt job c opts archives) (mutating_steps exec tgt job c opts archives rep tr)"
  unfolding mutating_steps_def Let_def container_steps_def
  by (rule progress_bind[OF import_volumes_progress]) (rule compose_and_database_progress)

lemma resolve_archives_own:
  "resolve_archives m troot i vs = Inr ps \<Longrightarrow> length ps = length vs
     \<and> (\<forall>k<length vs. if mv_archive (vs ! k) = [] then ps ! k = [] else ResolveVolumeArchive m troot (int (i + k)) = Inr (ps ! k))"
proof (induction vs arbitrary: i ps)
  case (Cons v vs)
  obtain p qs where p: "(if mv_archive v = [] then Inr [] else ResolveVolumeArchive m troot (int i)) = Inr p" "resolve_archives m troot (i + 1) vs = Inr qs" "ps = p # qs"
    using Cons(2) by (auto split: sum.splits)
  note IH = Cons(1)[OF p(2)]
  show ?case
  proof (intro conjI allI impI)
    fix k assume k: "k < length (v # vs)"
    show "if mv_archive ((v # vs) ! k) = [] then ps ! k = [] else ResolveVolumeArchive m troot (int (i + k)) = Inr (ps ! k)"
    proof (cases k)
      case 0
      then show ?thesis using p(1,3) by (auto split: if_splits)
    next
      case (Suc n)
      then show ?thesis using IH p(3) k by (auto simp: algebra_simps)
    qed
  qed (use IH p(3) in simp)
qed simp

lemma read_manifests_trace:
  "read_manifests py exec tgt job seen ps rep tr = (cs, rep', tr') \<Longrightarrow>
     \<exists>reads. tr' = tr @ reads \<and> task_of ` set reads \<subseteq> {read_manifest_task job}"
proof (induction py exec tgt job seen ps rep tr arbitrary: cs rep' tr' rule: read_manifests.induct)
  case (2 py exec tgt job seen dir mPath ps rep tr)
  show ?case
  proof (cases "mPath \<in> set seen")
    case True
    then show ?thesis using 2(1)[OF True] 2(3) by simp
  next
    case False
    obtain found warning where p:
      "(found, warning) = probed_manifest py dir mPath (exec tr tgt (read_manifest_task job) (read_manifest_script mPath))"
      by (metis surj_pair)
    obtain cs1 where r: "read_manifests py exec tgt job (mPath # seen) ps (opt_warn warning rep)
        (tr @ [(tgt, read_manifest_task job, read_manifest_script mPath)]) = (cs1, rep', tr')"
      using 2(3) False p[symmetric] by (auto split: prod.splits)
    obtain reads where "tr' = (tr @ [(tgt, read_manifest_task job, read_manifest_script mPath)]) @ reads"
      "task_of ` set reads \<subseteq> {read_manifest_task job}"
      using 2(2)[OF False p r] by blast
    then show ?thesis
      by (intro exI[of _ "(tgt, read_manifest_task job, read_manifest_script mPath) # reads"]) simp
  qed
qed simp

lemma check_mounts_trace:
  "check_mounts exec tgt ems rep tr = (rep', tr') \<Longrightarrow> \<exists>reads. tr' = tr @ reads \<and> task_of ` set reads \<subseteq> {mount_check_task}"
proof (induction exec tgt ems rep tr arbitrary: rep' tr' rule: check_mounts.induct)
  case (2 exec tgt em ems rep tr)
  show ?case
  proof (cases "mm_reason em = ''system_mount'' \<or> is_system_mount (mm_source em)")
    case True
    with 2(1)[OF True] 2(3) obtain reads where
      "tr' = (tr @ [(tgt, mount_check_task, mount_check_script (mm_source em))]) @ reads" "task_of ` set reads \<subseteq> {mount_check_task}"
      by auto
    then show ?thesis by (intro exI[of _ "(tgt, mount_check_task, mount_check_script (mm_source em)) # reads"]) simp
  next
    case False
    then show ?thesis using 2(2) 2(3) by simp
  qed
qed simp

definition preflight_task :: "string \<Rightarrow> string" where
  "preflight_task job = ''restore-preflight-'' @ job"

lemma preflight_trace:
  "runRestorePreflight pj exec tgt job i tr = (e, tr') \<Longrightarrow> \<exists>probe. tr' = tr @ probe \<and> task_of ` set probe \<subseteq> {preflight_task job} \<and> length probe \<le> 1"
  unfolding runRestorePreflight_def Let_def preflight_task_def
  by (auto split: sum.splits option.splits)

text \<open>The tasks that only look: reading manifests, checking mounts, the preflight.\<close>

definition looking :: "string \<Rightarrow> executed \<Rightarrow> bool" where
  "looking job tr \<longleftrightarrow> task_of ` set tr \<subseteq> {read_manifest_task job, mount_check_task, preflight_task job}"

lemma looking_append [simp]: "looking job (a @ b) \<longleftrightarrow> looking job a \<and> looking job b"
  by (auto simp: looking_def)

text \<open>A manifest that was read on the target: its text came from one of the reads.\<close>

definition manifest_read ::
    "(string \<Rightarrow> manifest res) \<Rightarrow> remote_exec \<Rightarrow> target \<Rightarrow> string \<Rightarrow> executed \<Rightarrow> executed \<Rightarrow> manifest_candidate \<Rightarrow> bool" where
  "manifest_read py exec tgt job tr reads c \<longleftrightarrow>
     (\<exists>a b mPath out res. reads = a @ (tgt, read_manifest_task job, read_manifest_script mPath) # b
        \<and> exec (tr @ a) tgt (read_manifest_task job) (read_manifest_script mPath) = (res, None, out)
        \<and> UnmarshalManifest py out = Inr (mc_manifest c) \<and> mc_root c = path_dir mPath
        \<and> (mPath = ManifestPath (mc_dir c) \<or> mPath = LegacyManifestPath (mc_dir c)))"

text \<open>What the preflight has to check before the steps of a manifest: the Compose file, each archive that will be imported
  and the dump, and on another machine the container names and the Compose project.\<close>

definition preflight_covers :: "manifest_candidate \<Rightarrow> restore_options \<Rightarrow> bool \<Rightarrow> string list \<Rightarrow> preflight_input \<Rightarrow> bool" where
  "preflight_covers c opts cross archives i \<longleftrightarrow>
     pf_compose i = path_join [mc_dir c, compose_file_name (mc_manifest c)]
     \<and> (\<forall>(v, p)\<in>set (zip (mf_volumes (mc_manifest c)) archives). p \<noteq> [] \<longrightarrow> p \<in> set (pf_archives i))
     \<and> (\<forall>d. mf_database (mc_manifest c) = Some d \<longrightarrow> md_dump d \<noteq> [] \<longrightarrow> ResolveDatabaseDump (mc_manifest c) (mc_root c) = Inr (pf_dump i))
     \<and> pf_project i = project_name (mc_manifest c) opts \<and> pf_cross i = cross
     \<and> (\<forall>n\<in>{mf_app (mc_manifest c), ro_alias opts} \<union> (if mf_database (mc_manifest c) = None then {} else {databaseContainerName (mc_manifest c) opts}).
          n \<noteq> [] \<longrightarrow> trim_space n = n \<longrightarrow> CHR 0x5C \<notin> set n \<longrightarrow> path_clean n = n \<longrightarrow> n \<in> set (pf_expected i))"

text \<open>
  What follows the restored files, after scripts that only look: nothing more; or, for a manifest that was read on the
  target and names the job or its alias, a preflight on exactly this manifest that passed, and the container steps in
  order up to the first failure, each volume from its own archive; or, only with \<open>--start\<close>, one last generic start
  script, before which nothing is checked.
\<close>

definition guarded_steps ::
    "(string \<Rightarrow> manifest res) \<Rightarrow> (string \<Rightarrow> raw_ps_line res) \<Rightarrow> remote_exec \<Rightarrow> target \<Rightarrow> job \<Rightarrow> restore_options \<Rightarrow> executed \<Rightarrow> step_result \<Rightarrow> bool" where
  "guarded_steps py pj exec tgt j opts tr r \<longleftrightarrow>
     (\<exists>reads. snd (snd r) = tr @ reads \<and> looking (j_name j) reads)
   \<or> (\<exists>reads probe c i archives. looking (j_name j) (reads @ probe) \<and> manifest_read py exec tgt (j_name j) tr reads c
        \<and> (equal_fold (mf_app (mc_manifest c)) (j_name j) \<or> ro_alias opts \<noteq> [] \<and> equal_fold (mf_app (mc_manifest c)) (ro_alias opts))
        \<and> length archives = length (mf_volumes (mc_manifest c))
        \<and> (\<forall>k<length archives. mv_archive (mf_volumes (mc_manifest c) ! k) \<noteq> [] \<longrightarrow>
             ResolveVolumeArchive (mc_manifest c) (mc_root c) (int k) = Inr (archives ! k))
        \<and> preflight_covers c opts (t_name tgt \<noteq> j_server j) archives i
        \<and> runRestorePreflight pj exec tgt (j_name j) i (tr @ reads) = (None, tr @ reads @ probe)
        \<and> progress exec (tr @ reads @ probe) (container_steps tgt (j_name j) c opts archives) r)
   \<or> (effectiveStartPolicy opts = StartPolicyStart
        \<and> (\<exists>reads auto. looking (j_name j) reads \<and> snd (snd r) = tr @ reads @ [(tgt, autostart_task (j_name j), BuildAutoStartScript auto)]))"

lemma guarded_steps_extend: "guarded_steps py pj exec tgt j opts tr (e, rep, tr') \<Longrightarrow> \<exists>ms. tr' = tr @ ms"
  unfolding guarded_steps_def progress_def by auto

lemma preflight_input_covers:
  assumes "resolve_archives (mc_manifest c) (mc_root c) 0 (mf_volumes (mc_manifest c)) = Inr archives"
    and "resolve_dump (mc_manifest c) (mc_root c) = Inr dump"
  shows "preflight_covers c opts cross archives (preflight_input_of (mc_manifest c) opts (mc_dir c) archives dump cross)"
proof -
  have m: "n \<in> set (dedup_paths ns)" if "n \<in> set ns" "n \<noteq> []" "trim_space n = n" "CHR 0x5C \<notin> set n" "path_clean n = n" for n ns
  proof -
    have "replace_all [CHR 0x5C] ''/'' n = n" using that(4) by (rule replace_char_id)
    then show ?thesis using dedup_from_set[of "[]" ns] that unfolding dedup_paths_def by (auto intro!: exI[of _ n])
  qed
  have d: "md_dump d \<noteq> [] \<Longrightarrow> mf_database (mc_manifest c) = Some d \<Longrightarrow> ResolveDatabaseDump (mc_manifest c) (mc_root c) = Inr dump" for d
    using assms(2) by (simp add: resolve_dump_def)
  have e: "\<forall>n\<in>{mf_app (mc_manifest c), ro_alias opts} \<union> (if mf_database (mc_manifest c) = None then {} else {databaseContainerName (mc_manifest c) opts}).
     n \<noteq> [] \<longrightarrow> n \<in> set ([mf_app (mc_manifest c)] @ (if ro_alias opts \<noteq> [] then [ro_alias opts] else [])
        @ (case mf_database (mc_manifest c) of None \<Rightarrow> [] | Some d \<Rightarrow> [databaseContainerName (mc_manifest c) opts]))"
    by (auto split: option.splits)
  show ?thesis using d e m unfolding preflight_covers_def preflight_input_of_def preflight_input.simps
    by (auto simp: set_zip)
qed

lemma manifest_read_more: "manifest_read py exec tgt job tr reads c \<Longrightarrow> manifest_read py exec tgt job tr (reads @ rest) c"
  unfolding manifest_read_def by (elim exE conjE) (intro exI conjI, auto)

lemma restore_from_manifest_guarded:
  assumes "looking (j_name j) reads" "manifest_matches (j_name j) opts c" "manifest_read py exec tgt (j_name j) tr reads c"
  shows "guarded_steps py pj exec tgt j opts tr (restore_from_manifest pj exec tgt j c opts rep (tr @ reads))"
proof -
  obtain rep1 tr1 where m: "check_mounts exec tgt (mf_mounts (mc_manifest c)) rep (tr @ reads) = (rep1, tr1)" by fastforce
  obtain mounts where mt: "tr1 = tr @ (reads @ mounts)" "looking (j_name j) mounts"
    using check_mounts_trace[OF m] by (auto simp: looking_def)
  show ?thesis
  proof (cases "resolve_archives (mc_manifest c) (mc_root c) 0 (mf_volumes (mc_manifest c))")
    case (Inl e)
    then have "snd (snd (restore_from_manifest pj exec tgt j c opts rep (tr @ reads))) = tr @ (reads @ mounts)"
      by (simp add: restore_from_manifest_def m Let_def mt(1))
    then show ?thesis using assms(1) mt(2) unfolding guarded_steps_def by (metis looking_append)
  next
    case a: (Inr archives)
    show ?thesis
    proof (cases "resolve_dump (mc_manifest c) (mc_root c)")
      case (Inl e)
      then have "snd (snd (restore_from_manifest pj exec tgt j c opts rep (tr @ reads))) = tr @ (reads @ mounts)"
        by (simp add: restore_from_manifest_def m Let_def mt(1) a)
      then show ?thesis using assms(1) mt(2) unfolding guarded_steps_def by (metis looking_append)
    next
      case d: (Inr dump)
      define i where "i = preflight_input_of (mc_manifest c) opts (mc_dir c) archives dump (t_name tgt \<noteq> j_server j)"
      obtain e tr2 where p: "runRestorePreflight pj exec tgt (j_name j) i tr1 = (e, tr2)" by fastforce
      obtain probe where pr: "tr2 = tr1 @ probe" "looking (j_name j) probe"
        using preflight_trace[OF p] by (auto simp: looking_def)
      show ?thesis
      proof (cases e)
        case (Some x)
        then have "snd (snd (restore_from_manifest pj exec tgt j c opts rep (tr @ reads))) = tr @ (reads @ mounts @ probe)"
          using p mt(1) pr(1) by (simp add: restore_from_manifest_def m Let_def a d i_def[symmetric])
        then show ?thesis using assms(1) mt(2) pr(2) unfolding guarded_steps_def by (metis looking_append)
      next
        case None
        have r: "restore_from_manifest pj exec tgt j c opts rep (tr @ reads) = mutating_steps exec tgt (j_name j) c opts archives rep1 tr2"
          using p None by (simp add: restore_from_manifest_def m a d i_def[symmetric])
        have "progress exec tr2 (container_steps tgt (j_name j) c opts archives) (mutating_steps exec tgt (j_name j) c opts archives rep1 tr2)"
          by (rule mutating_steps_progress)
        moreover have "preflight_covers c opts (t_name tgt \<noteq> j_server j) archives i"
          unfolding i_def by (rule preflight_input_covers[OF a d])
        moreover have "length archives = length (mf_volumes (mc_manifest c))
          \<and> (\<forall>k<length archives. mv_archive (mf_volumes (mc_manifest c) ! k) \<noteq> [] \<longrightarrow>
               ResolveVolumeArchive (mc_manifest c) (mc_root c) (int k) = Inr (archives ! k))"
          using resolve_archives_own[OF a] by auto
        moreover have "equal_fold (mf_app (mc_manifest c)) (j_name j) \<or> ro_alias opts \<noteq> [] \<and> equal_fold (mf_app (mc_manifest c)) (ro_alias opts)"
          using assms(2) by (auto simp: manifest_matches_def)
        moreover have "runRestorePreflight pj exec tgt (j_name j) i (tr @ (reads @ mounts)) = (None, tr @ (reads @ mounts) @ probe)"
          using p None mt(1) pr(1) by simp
        moreover have "looking (j_name j) ((reads @ mounts) @ probe)" using assms(1) mt(2) pr(2) by simp
        moreover have "manifest_read py exec tgt (j_name j) tr (reads @ mounts) c" using assms(3) by (rule manifest_read_more)
        moreover have "tr2 = tr @ (reads @ mounts) @ probe" using pr(1) mt(1) by simp
        ultimately show ?thesis unfolding guarded_steps_def r by blast
      qed
    qed
  qed
qed

lemma select_manifest_matches: "select_manifest job opts cs rep = (Some c, rep') \<Longrightarrow> manifest_matches job opts c"
  by (auto simp: select_manifest_def filter_eq_Cons_iff split: list.splits)

lemma read_manifests_found:
  assumes "\<forall>(dir, mPath)\<in>set ps. mPath = ManifestPath dir \<or> mPath = LegacyManifestPath dir"
    and "read_manifests py exec tgt job seen ps rep tr = (cs, rep', tr')" "tr' = tr @ reads" "c \<in> set cs"
  shows "manifest_read py exec tgt job tr reads c"
  using assms
proof (induction py exec tgt job seen ps rep tr arbitrary: cs rep' tr' reads rule: read_manifests.induct)
  case (2 py exec tgt job seen dir mPath ps rep tr)
  have ps: "\<forall>(dir, mPath)\<in>set ps. mPath = ManifestPath dir \<or> mPath = LegacyManifestPath dir"
    and path: "mPath = ManifestPath dir \<or> mPath = LegacyManifestPath dir" using 2(3) by auto
  show ?case
  proof (cases "mPath \<in> set seen")
    case True
    then show ?thesis using 2(1)[OF True ps _ 2(5,6)] 2(4) by simp
  next
    case False
    let ?x = "(tgt, read_manifest_task job, read_manifest_script mPath)"
    obtain found warning where p:
      "(found, warning) = probed_manifest py dir mPath (exec tr tgt (read_manifest_task job) (read_manifest_script mPath))"
      by (metis surj_pair)
    obtain cs1 where r: "read_manifests py exec tgt job (mPath # seen) ps (opt_warn warning rep) (tr @ [?x]) = (cs1, rep', tr')"
      "cs = opt_cons found cs1"
      using 2(4) False p[symmetric] by (auto split: prod.splits)
    obtain reads1 where rd: "reads = ?x # reads1" "tr' = (tr @ [?x]) @ reads1"
      using read_manifests_trace[OF r(1)] 2(5) by auto
    consider "found = Some c" | "c \<in> set cs1" using r(2) 2(6) by (auto simp: opt_cons_def split: option.splits)
    then show ?thesis
    proof cases
      case 1
      obtain res e out where x: "exec tr tgt (read_manifest_task job) (read_manifest_script mPath) = (res, e, out)" by (metis prod_cases3)
      have "e = None \<and> UnmarshalManifest py out = Inr (mc_manifest c) \<and> mc_root c = path_dir mPath \<and> mc_dir c = dir"
        using p 1 x by (auto simp: probed_manifest_def manifest_absent_def split: if_splits sum.splits)
      then have "reads = [] @ ?x # reads1" "exec (tr @ []) tgt (read_manifest_task job) (read_manifest_script mPath) = (res, None, out)"
        "UnmarshalManifest py out = Inr (mc_manifest c)" "mc_root c = path_dir mPath" "mPath = ManifestPath (mc_dir c) \<or> mPath = LegacyManifestPath (mc_dir c)"
        using path x rd(1) by simp_all
      then show ?thesis unfolding manifest_read_def by blast
    next
      case c: 2
      have "manifest_read py exec tgt job (tr @ [?x]) reads1 c" using 2(2)[OF False p ps r(1) rd(2) c] .
      then obtain a b q out res where q: "reads1 = a @ (tgt, read_manifest_task job, read_manifest_script q) # b"
        "exec ((tr @ [?x]) @ a) tgt (read_manifest_task job) (read_manifest_script q) = (res, None, out)"
        "UnmarshalManifest py out = Inr (mc_manifest c)" "mc_root c = path_dir q" "q = ManifestPath (mc_dir c) \<or> q = LegacyManifestPath (mc_dir c)"
        unfolding manifest_read_def by blast
      have "reads = (?x # a) @ (tgt, read_manifest_task job, read_manifest_script q) # b"
        "exec (tr @ ?x # a) tgt (read_manifest_task job) (read_manifest_script q) = (res, None, out)" using q(1,2) rd(1) by simp_all
      then show ?thesis using q(3-5) unfolding manifest_read_def by blast
    qed
  qed
qed simp

lemma manifest_probes_paths: "\<forall>(dir, mPath)\<in>set (manifest_probes opts ds). mPath = ManifestPath dir \<or> mPath = LegacyManifestPath dir"
  by (auto simp: manifest_probes_def)

lemma select_manifest_among: "select_manifest job opts cs rep = (Some c, rep') \<Longrightarrow> c \<in> set cs"
  by (auto simp: select_manifest_def filter_eq_Cons_iff split: list.splits)

lemma startRestoredServices_guarded:
  "guarded_steps py pj exec tgt j opts tr (fst (startRestoredServices py pj assets exec tgt j opts rep tr a))"
proof -
  obtain cs rep1 tr1 where r: "read_manifests py exec tgt (j_name j) [] (manifest_probes opts (candidate_dirs j)) rep tr = (cs, rep1, tr1)"
    by (metis prod_cases3)
  obtain reads where rd: "tr1 = tr @ reads" "looking (j_name j) reads"
    using read_manifests_trace[OF r] by (auto simp: looking_def)
  obtain c rep2 where s: "select_manifest (j_name j) opts cs rep1 = (c, rep2)" by fastforce
  show ?thesis
  proof (cases c)
    case (Some x)
    then have "manifest_read py exec tgt (j_name j) tr reads x"
      using read_manifests_found[OF manifest_probes_paths r rd(1)] select_manifest_among[OF s[unfolded Some]] by simp
    then show ?thesis
      using restore_from_manifest_guarded[OF rd(2)] select_manifest_matches[OF s[unfolded Some]] rd(1) Some
      by (simp add: startRestoredServices_def r s)
  next
    case None
    show ?thesis
    proof (cases "effectiveStartPolicy opts = StartPolicyStart")
      case True
      obtain auto a1 where o: "autostart_options_of assets j opts (candidate_dirs j) a = (auto, a1)" by fastforce
      have "fst (startRestoredServices py pj assets exec tgt j opts rep tr a) = startWithoutManifest exec tgt (j_name j) auto rep2 tr1"
        using True None o by (simp add: startRestoredServices_def r s)
      moreover have "snd (snd (startWithoutManifest exec tgt (j_name j) auto rep2 tr1))
          = tr @ reads @ [(tgt, autostart_task (j_name j), BuildAutoStartScript auto)]"
        by (simp add: startWithoutManifest_def Let_def rd(1))
      ultimately show ?thesis using True rd(2) unfolding guarded_steps_def by fastforce
    next
      case False
      then have "snd (snd (fst (startRestoredServices py pj assets exec tgt j opts rep tr a))) = tr @ reads"
        using None rd(1) by (simp add: startRestoredServices_def r s)
      then show ?thesis using rd(2) unfolding guarded_steps_def by blast
    qed
  qed
qed

end
