(* ===== verification/RestoreAudit.thy ===== *)
theory RestoreAudit
  imports RestoreSafety
begin

text \<open>
  Properties of a whole restore run: what it may execute, that its status says what happened, and that it is
  audited or refused.
\<close>

section \<open>What runs before the files are restored\<close>

definition listing_task :: "string \<Rightarrow> string" where
  "listing_task job = ''snapshots-'' @ job"

definition restore_task :: "string \<Rightarrow> string" where
  "restore_task job = ''restore-'' @ job"

definition dry_run_task :: "string \<Rightarrow> string" where
  "dry_run_task job = ''restore-dryrun-'' @ job"

lemma ListSnapshots_trace:
  "ListSnapshots parse servers env j b = (r, ex, b') \<Longrightarrow> length ex \<le> 1 \<and> task_of ` set ex \<subseteq> {listing_task (j_name j)}"
  unfolding ListSnapshots_def Let_def listing_task_def
  by (auto split: prod.splits sum.splits option.splits if_splits)

lemma choose_snapshot_trace:
  assumes "choose_snapshot servers env j opts b = (r, tr, b')"
  shows "task_of ` set tr \<subseteq> {listing_task (j_name j)}"
proof -
  obtain q ex b1 where l: "ListSnapshots (ve_snapshots env) servers (listing_env env []) j b = (q, ex, b1)" by (metis prod_cases3)
  have "tr = ex" using assms l
    by (auto simp: choose_snapshot_def resolveLatestSnapshot_def verifySnapshotBelongsToJob_def split: sum.splits if_splits)
  then show ?thesis using ListSnapshots_trace[OF l] by simp
qed

lemma prepare_restore_spec:
  assumes "prepare_restore uc rv env j0 opts0 a b = (pr, snap, tr, a', b')"
  shows "task_of ` set tr \<subseteq> {listing_task (j_name j0)}
    \<and> (\<forall>p. pr = Inr p \<longrightarrow> snap = Some (pp_snapshot p) \<and> j_name (pp_job p) = j_name j0 \<and> j_server (pp_job p) = j_server j0
         \<and> (\<exists>al. pp_opts p = opts0\<lparr>ro_alias := al\<rparr>)
         \<and> (\<exists>b1 b2. ResolveTarget (rv_servers rv) (if ro_server opts0 = [] then j_server j0 else ro_server opts0) b1 = (Inr (pp_target p), b2)))"
proof (cases "validate_restore uc j0 opts0")
  case (Inl e)
  then show ?thesis using assms by (auto simp: prepare_restore_def)
next
  case v: (Inr opts)
  then have al: "\<exists>al. opts = opts0\<lparr>ro_alias := al\<rparr>"
    by (auto simp: validate_restore_def split: option.splits if_splits intro: exI[of _ "ro_alias opts0"])
  show ?thesis
  proof (cases "ve_secrets env (j_env j0)")
    case (Inl e)
    then show ?thesis using assms v by (auto simp: prepare_restore_def)
  next
    case s: (Inr env')
    obtain r tr1 b1 where c: "choose_snapshot (rv_servers rv) env (j0\<lparr>j_env := env'\<rparr>) opts b = (r, tr1, b1)" by (metis prod_cases3)
    have t: "task_of ` set tr1 \<subseteq> {listing_task (j_name j0)}" using choose_snapshot_trace[OF c] by simp
    have f: "tr = tr1 \<and> (\<forall>p. pr = Inr p \<longrightarrow> snap = Some (pp_snapshot p) \<and> pp_job p = j0\<lparr>j_env := env'\<rparr> \<and> pp_opts p = opts
        \<and> (\<exists>b1 b2. ResolveTarget (rv_servers rv) (rr_target (new_restore_run env (j0\<lparr>j_env := env'\<rparr>) opts)) b1 = (Inr (pp_target p), b2)))"
    proof (cases r)
      case (Inl e)
      then show ?thesis using assms by (auto simp: prepare_restore_def v s c Let_def)
    next
      case r: (Inr i)
      obtain q b2 where t: "ResolveTarget (rv_servers rv) (rr_target (new_restore_run env (j0\<lparr>j_env := env'\<rparr>) opts)) b1 = (q, b2)"
        by fastforce
      obtain ic a2 where ic: "include_patterns (rv_assets rv) opts a = (ic, a2)" by fastforce
      have eq: "(case q of Inl e \<Rightarrow> (Inl e, Some i, tr1, a, b2)
          | Inr tgt \<Rightarrow> (case ic of Inl e \<Rightarrow> (Inl e, Some i, tr1, a2, b2)
              | Inr incl \<Rightarrow> (Inr \<lparr>pp_job = j0\<lparr>j_env := env'\<rparr>, pp_opts = opts, pp_snapshot = i, pp_target = tgt, pp_includes = incl\<rparr>,
                  Some i, tr1, a2, b2))) = (pr, snap, tr, a', b')"
        using assms unfolding prepare_restore_def v s Let_def sum.case c r prod.case t ic by (cases q) (simp_all split: sum.splits)
      have "\<exists>b1 b2. ResolveTarget (rv_servers rv) (rr_target (new_restore_run env (j0\<lparr>j_env := env'\<rparr>) opts)) b1 = (Inr y, b2)" if "q = Inr y" for y
        using t that by blast
      moreover have "tr = tr1 \<and> (\<forall>p. pr = Inr p \<longrightarrow> snap = Some (pp_snapshot p) \<and> pp_job p = j0\<lparr>j_env := env'\<rparr> \<and> pp_opts p = opts \<and> q = Inr (pp_target p))"
        using eq by (cases q; cases ic) auto
      ultimately show ?thesis by blast
    qed
    show ?thesis
    proof (intro conjI allI impI)
      show "task_of ` set tr \<subseteq> {listing_task (j_name j0)}" using t f by simp
      fix p assume p: "pr = Inr p"
      show "snap = Some (pp_snapshot p)" "j_name (pp_job p) = j_name j0" "j_server (pp_job p) = j_server j0"
        using f p by simp_all
      have "pp_opts p = opts" using f p by simp
      then show "\<exists>al. pp_opts p = opts0\<lparr>ro_alias := al\<rparr>" using al by simp
      have "ro_server opts = ro_server opts0" using al by auto
      then have "rr_target (new_restore_run env (j0\<lparr>j_env := env'\<rparr>) opts) = (if ro_server opts0 = [] then j_server j0 else ro_server opts0)"
        by (simp add: new_restore_run_def)
      then show "\<exists>b1 b2. ResolveTarget (rv_servers rv) (if ro_server opts0 = [] then j_server j0 else ro_server opts0) b1 = (Inr (pp_target p), b2)"
        using f[THEN conjunct2, rule_format, OF p] by simp
    qed
  qed
qed

section \<open>The end of a run\<close>

text \<open>What an attempt was about, the part of its record that no step changes.\<close>

definition attempt :: "restore_run \<Rightarrow> string \<times> string \<times> string \<times> string \<times> string \<times> int" where
  "attempt run = (rr_job run, rr_asset run, rr_source run, rr_target run, rr_target_path run, rr_started run)"

lemma attempt_updates [simp]:
  "attempt (run\<lparr>rr_id := i\<rparr>) = attempt run" "attempt (run\<lparr>rr_snapshot := x\<rparr>) = attempt run" "attempt (run\<lparr>rr_status := x\<rparr>) = attempt run"
  "attempt (run\<lparr>rr_stage := x\<rparr>) = attempt run" "attempt (run\<lparr>rr_duration := d\<rparr>) = attempt run" "attempt (run\<lparr>rr_error := x\<rparr>) = attempt run"
  "attempt (run\<lparr>rr_log := x\<rparr>) = attempt run" "attempt (run\<lparr>rr_finished := t\<rparr>) = attempt run"
  by (simp_all add: attempt_def)

lemma attempt_same: "rr_id r = rr_id r0 \<Longrightarrow> attempt r = attempt r0 \<Longrightarrow> restore_same r w = restore_same r0 w"
  by (simp add: attempt_def restore_same_def)

lemma cancellation_wrap [simp]: "is_cancellation (Some (wrap p e q)) = is_cancellation (Some e)"
  by (simp add: is_cancellation_def go_error_simps)

lemma cancellation_join [simp]:
  "is_cancellation (Some (errors_join [e, wrap p (sentinel_error ErrRestoreAuditFailed) q])) = is_cancellation (Some e)"
  "is_cancellation (Some (errors_join [e, wrap p (sentinel_error ErrRestoreUntracked) q])) = is_cancellation (Some e)"
  by (simp_all add: is_cancellation_def go_error_simps context_canceled_def context_deadline_def ErrRestoreAuditFailed_def ErrRestoreUntracked_def)


lemma finish_restore_spec:
  assumes "finish_restore repo env e rep s = (rep', err, s')"
  shows "\<exists>ae. updateRunRecord repo (ve_final env) (rp_run rep) s = (ae, s') \<and> rp_run rep' = rp_run rep \<and> rp_steps rep' = rp_steps rep
    \<and> (err = None \<longleftrightarrow> e = None \<and> ae = None \<and> \<not> rp_untracked rep)
    \<and> (rp_untracked rep \<longrightarrow> rp_untracked rep')
    \<and> (ae \<noteq> None \<longrightarrow> (\<exists>x. err = Some x \<and> (errors_is x ErrRestoreUntracked \<or> errors_is x ErrRestoreAuditFailed)))
    \<and> (ae \<noteq> None \<or> rp_untracked rep \<longrightarrow> e = None \<longrightarrow> (\<exists>x. err = Some x \<and> errors_is x ErrRestoreUntracked))
    \<and> (e \<noteq> None \<longrightarrow> is_cancellation err = is_cancellation e)"
  using assms unfolding finish_restore_def Let_def
  by (auto simp: go_error_simps split: prod.splits option.splits if_splits)

lemma finish_dry_run_spec:
  assumes "finish_dry_run repo env e rep s = (rep', err, s')"
  shows "\<exists>ae. updateRunRecord repo (ve_final env) (rp_run rep) s = (ae, s') \<and> rp_run rep' = rp_run rep \<and> rp_steps rep' = rp_steps rep
    \<and> (err = None \<longleftrightarrow> e = None \<and> ae = None \<and> \<not> rp_untracked rep)
    \<and> (rp_untracked rep \<longrightarrow> rp_untracked rep')
    \<and> (ae \<noteq> None \<longrightarrow> (\<exists>x. err = Some x \<and> (errors_is x ErrRestoreUntracked \<or> errors_is x ErrRestoreAuditFailed)))
    \<and> (ae \<noteq> None \<or> rp_untracked rep \<longrightarrow> e = None \<longrightarrow> (\<exists>x. err = Some x \<and> errors_is x ErrRestoreUntracked))
    \<and> (e \<noteq> None \<longrightarrow> is_cancellation err = is_cancellation e)"
  using assms unfolding finish_dry_run_def Let_def
  by (auto simp: go_error_simps split: prod.splits option.splits if_splits)

lemma finish_spec:
  assumes "(if dry then finish_dry_run repo env e rep s else finish_restore repo env e rep s) = (rep', err, s')"
  shows "\<exists>ae. updateRunRecord repo (ve_final env) (rp_run rep) s = (ae, s') \<and> rp_run rep' = rp_run rep \<and> rp_steps rep' = rp_steps rep
    \<and> (err = None \<longleftrightarrow> e = None \<and> ae = None \<and> \<not> rp_untracked rep)
    \<and> (rp_untracked rep \<longrightarrow> rp_untracked rep')
    \<and> (ae \<noteq> None \<longrightarrow> (\<exists>x. err = Some x \<and> (errors_is x ErrRestoreUntracked \<or> errors_is x ErrRestoreAuditFailed)))
    \<and> (ae \<noteq> None \<or> rp_untracked rep \<longrightarrow> e = None \<longrightarrow> (\<exists>x. err = Some x \<and> errors_is x ErrRestoreUntracked))
    \<and> (e \<noteq> None \<longrightarrow> is_cancellation err = is_cancellation e)"
proof (cases dry)
  case True
  then show ?thesis using assms finish_dry_run_spec by simp
next
  case False
  then show ?thesis using assms finish_restore_spec by simp
qed

lemma failRun_spec:
  assumes "failRun repo env rep stage e s = (rep', err, s')"
  shows "\<exists>ae. updateRunRecord repo (ve_final env) (rp_run rep') s = (ae, s') \<and> err \<noteq> None
    \<and> rr_id (rp_run rep') = rr_id (rp_run rep) \<and> rp_untracked rep' = rp_untracked rep \<and> rr_finished (rp_run rep') = Some (ve_finished env)
    \<and> rr_status (rp_run rep') = restoreFailureStatus (Some e) \<and> rr_stage (rp_run rep') = stage
    \<and> (steps_ok rep \<longrightarrow> steps_ok rep' \<and> stepStatus StepFiles rep' = Some StepFailed)
    \<and> (ae \<noteq> None \<longrightarrow> (\<exists>x. err = Some x \<and> errors_is x ErrRestoreAuditFailed))
    \<and> is_cancellation err = is_cancellation (Some e) \<and> attempt (rp_run rep') = attempt (rp_run rep)"
  using assms unfolding failRun_def Let_def
  by (auto simp: go_error_simps split: prod.splits option.splits)

text \<open>What the status of a report says, given the error of the execution.\<close>

definition honest :: "bool \<Rightarrow> go_error option \<Rightarrow> restore_report \<Rightarrow> bool" where
  "honest dry e rep \<longleftrightarrow>
     (if stepStatus StepFiles rep = Some StepFailed then rr_status (rp_run rep) = restoreFailureStatus e
      else stepStatus StepFiles rep = Some StepSuccess \<and> (e = None \<longleftrightarrow> clean rep) \<and> (dry \<longrightarrow> clean rep)
         \<and> rr_status (rp_run rep) = (if dry then ''dry-run'' else if clean rep then ''success'' else ''partial''))"

lemma dry_run_honest:
  assumes "steps_ok rep"
  shows "steps_ok (dry_run_report env p e rep) \<and> honest True e (dry_run_report env p e rep)
    \<and> (stepStatus StepFiles (dry_run_report env p e rep) = Some StepFailed \<longrightarrow> e \<noteq> None)"
proof (cases e)
  case None
  have "clean (setStep StepCompose StepSkipped c [] (setStep StepDatabase StepSkipped d [] (setStep StepVolumes StepSkipped v []
      (setStep StepFiles StepSuccess f [] r))))" if "steps_ok r" for c d v f r
    unfolding clean_def
  proof
    fix k
    show "stepStatus k (setStep StepCompose StepSkipped c [] (setStep StepDatabase StepSkipped d [] (setStep StepVolumes StepSkipped v []
      (setStep StepFiles StepSuccess f [] r)))) \<noteq> Some StepFailed
      \<and> stepStatus k (setStep StepCompose StepSkipped c [] (setStep StepDatabase StepSkipped d [] (setStep StepVolumes StepSkipped v []
      (setStep StepFiles StepSuccess f [] r)))) \<noteq> Some StepBlocked"
      using that by (cases k) simp_all
  qed
  then show ?thesis using assms None by (simp add: dry_run_report_def honest_def Let_def)
next
  case (Some x)
  then show ?thesis using assms by (simp add: dry_run_report_def honest_def Let_def restoreFailureStatus_def)
qed

lemma failed_files_honest:
  assumes "steps_ok rep"
  shows "steps_ok (failed_files_report r rep) \<and> honest False (fst (snd r)) (failed_files_report r rep)"
  using assms by (simp add: failed_files_report_def honest_def Let_def restoreFailureStatus_def)

lemma restored_files_honest:
  assumes "steps_ok rep" "stepStatus StepFiles rep = Some StepSuccess" "e = None \<longleftrightarrow> clean rep"
  shows "steps_ok (restored_files_report e rep) \<and> honest False e (restored_files_report e rep)"
proof -
  have "aggregateStatus False rep = (if clean rep then ''success'' else ''partial'')"
    unfolding aggregate_cases[OF assms(1)] using assms(2) by (auto simp: clean_def)
  then show ?thesis using assms by (auto simp: restored_files_report_def honest_def Let_def split: option.split)
qed

text \<open>The report that a run finishes with, before its outcome is recorded.\<close>

lemma execute_restore_spec:
  assumes run: "execute_restore assets repo env p rep0 tr a s = (rep', err, tr', a', s')"
    and rep0: "steps_ok rep0" "clean rep0"
  shows "\<exists>e rep. (if ro_dry_run (pp_opts p) then finish_dry_run repo env e rep s else finish_restore repo env e rep s) = (rep', err, s')
    \<and> steps_ok rep \<and> honest (ro_dry_run (pp_opts p)) e rep \<and> rr_id (rp_run rep) = rr_id (rp_run rep0) \<and> attempt (rp_run rep) = attempt (rp_run rep0) \<and> rp_untracked rep = rp_untracked rep0
    \<and> rr_finished (rp_run rep) = Some (ve_finished env)
    \<and> (ro_dry_run (pp_opts p) \<longrightarrow> stepStatus StepFiles rep = Some StepFailed \<longrightarrow> e \<noteq> None)
    \<and> (\<not> ro_dry_run (pp_opts p) \<longrightarrow>
         (stepStatus StepFiles rep = Some StepFailed \<longrightarrow>
              (\<exists>r. r = ve_exec env tr (pp_target p) (restore_task (j_name (pp_job p)))
                     (BuildRestoreScript (pp_job p) (pp_snapshot p) (rr_target_path (rp_run rep0)) (pp_includes p))
                 \<and> \<not> files_restored r \<and> e = fst (snd r))))"
proof -
  define rep where "rep = rep0\<lparr>rp_run := (rp_run rep0)\<lparr>rr_log := ve_log env\<rparr>\<rparr>"
  have ok: "steps_ok rep" "clean rep" "rr_id (rp_run rep) = rr_id (rp_run rep0)" "rp_untracked rep = rp_untracked rep0"
    "rr_target_path (rp_run rep) = rr_target_path (rp_run rep0)" "attempt (rp_run rep) = attempt (rp_run rep0)"
    using rep0 by (simp_all add: rep_def)
  show ?thesis
  proof (cases "ro_dry_run (pp_opts p)")
    case True
    define r where "r = ve_exec env tr (pp_target p) (''restore-dryrun-'' @ j_name (pp_job p))
      (BuildRestoreDryRunScript (pp_job p) (pp_snapshot p) (pp_includes p))"
    have f: "finish_dry_run repo env (fst (snd r)) (dry_run_report env p (fst (snd r)) rep) s = (rep', err, s')"
      using run True unfolding execute_restore_def Let_def rep_def[symmetric] r_def[symmetric] by (auto split: prod.splits)
    have "rr_id (rp_run (dry_run_report env p x rep)) = rr_id (rp_run rep0) \<and> rp_untracked (dry_run_report env p x rep) = rp_untracked rep0
        \<and> rr_finished (rp_run (dry_run_report env p x rep)) = Some (ve_finished env) \<and> attempt (rp_run (dry_run_report env p x rep)) = attempt (rp_run rep0)" for x
      using ok(3,4,6) by (simp add: dry_run_report_def Let_def split: option.split)
    then show ?thesis using f dry_run_honest[OF ok(1)] True
      by (intro exI[of _ "fst (snd r)"] exI[of _ "dry_run_report env p (fst (snd r)) rep"]) auto
  next
    case False
    define r where "r = ve_exec env tr (pp_target p) (restore_task (j_name (pp_job p)))
      (BuildRestoreScript (pp_job p) (pp_snapshot p) (rr_target_path (rp_run rep0)) (pp_includes p))"
    define rep1 where "rep1 = rep\<lparr>rp_run := (rp_run rep)\<lparr>rr_finished := Some (ve_finished env),
      rr_duration := (case fst r of None \<Rightarrow> ve_since env | Some x \<Rightarrow> er_duration x)\<rparr>\<rparr>"
    have ok1: "steps_ok rep1" "clean rep1" "rr_id (rp_run rep1) = rr_id (rp_run rep0)" "rp_untracked rep1 = rp_untracked rep0"
      "rr_finished (rp_run rep1) = Some (ve_finished env)" "attempt (rp_run rep1) = attempt (rp_run rep0)"
      using ok by (simp_all add: rep1_def)
    note unf = execute_restore_def Let_def rep_def[symmetric] restore_task_def[symmetric] ok(5) r_def[symmetric] rep1_def[symmetric]
    show ?thesis
    proof (cases "files_restored r")
      case fr: True
      define set1 where "set1 d = setStep StepFiles StepSuccess d [] rep1" for d
      obtain d tr1 startErr rep2 tr2 a1 where post:
        "runPostRestoreSteps (ve_manifest env) (ve_ps env) assets (ve_exec env) (pp_target p) (pp_job p) (pp_opts p)
           (rr_target (rp_run rep1)) (set1 d) tr1 a = ((startErr, rep2, tr2), a1)"
        "finish_restore repo env startErr (restored_files_report startErr rep2) s = (rep', err, s')"
        using run False fr unfolding unf set1_def by (auto split: prod.splits)
      have "step_sound (set1 d) (startErr, rep2)"
        using runPostRestoreSteps_sound[of "set1 d"] post(1) by (metis fst_conv result_soundD)
      moreover have s1: "steps_ok (set1 d)" "clean (set1 d)" "stepStatus StepFiles (set1 d) = Some StepSuccess" "rp_run (set1 d) = rp_run rep1"
        "rp_untracked (set1 d) = rp_untracked rep1"
        using ok1 by (simp_all add: set1_def)
      ultimately have s2: "steps_ok rep2" "stepStatus StepFiles rep2 = Some StepSuccess" "startErr = None \<longleftrightarrow> clean rep2"
        "rp_run rep2 = rp_run rep1" "rp_untracked rep2 = rp_untracked rep1"
        by (auto simp: step_sound_def)
      have fields: "rr_id (rp_run (restored_files_report x rep2)) = rr_id (rp_run rep0) \<and> rp_untracked (restored_files_report x rep2) = rp_untracked rep0
          \<and> rr_finished (rp_run (restored_files_report x rep2)) = Some (ve_finished env)
          \<and> stepStatus StepFiles (restored_files_report x rep2) = Some StepSuccess
          \<and> attempt (rp_run (restored_files_report x rep2)) = attempt (rp_run rep0)" for x
        using s2 ok1 by (simp add: restored_files_report_def Let_def split: option.split)
      show ?thesis using post(2) restored_files_honest[OF s2(1,2,3)] fields[of startErr] False
        by (intro exI[of _ startErr] exI[of _ "restored_files_report startErr rep2"]) auto
    next
      case fr: False
      have f: "finish_restore repo env (fst (snd r)) (failed_files_report r rep1) s = (rep', err, s')"
        using run False fr unfolding unf by (auto split: prod.splits)
      have fields: "rr_id (rp_run (failed_files_report r rep1)) = rr_id (rp_run rep0) \<and> rp_untracked (failed_files_report r rep1) = rp_untracked rep0
          \<and> rr_finished (rp_run (failed_files_report r rep1)) = Some (ve_finished env) \<and> attempt (rp_run (failed_files_report r rep1)) = attempt (rp_run rep0)"
        using ok1 by (simp add: failed_files_report_def Let_def)
      show ?thesis using f failed_files_honest[OF ok1(1)] fields False fr r_def
        by (intro exI[of _ "fst (snd r)"] exI[of _ "failed_files_report r rep1"]) auto
    qed
  qed
qed

lemma execute_restore_trace:
  assumes "execute_restore assets repo env p rep0 tr a s = (rep', err, tr', a', s')"
  shows "(\<exists>x. tr' = tr @ [x] \<and> task_of x \<in> {dry_run_task (j_name (pp_job p)), restore_task (j_name (pp_job p))})
    \<or> (\<exists>x e r. task_of x = restore_task (j_name (pp_job p))
         \<and> files_restored (ve_exec env tr (pp_target p) (task_of x) (snd (snd x)))
         \<and> effectiveStartPolicy (pp_opts p) \<noteq> StartPolicyNoStart
         \<and> \<not> (effectiveStartPolicy (pp_opts p) = StartPolicyAuto \<and> rr_target (rp_run rep0) = j_server (pp_job p))
         \<and> guarded_steps (ve_manifest env) (ve_ps env) (ve_exec env) (pp_target p) (pp_job p) (pp_opts p) (tr @ [x]) (e, r, tr'))"
proof -
  define rep where "rep = rep0\<lparr>rp_run := (rp_run rep0)\<lparr>rr_log := ve_log env\<rparr>\<rparr>"
  define script where "script = BuildRestoreScript (pp_job p) (pp_snapshot p) (rr_target_path (rp_run rep)) (pp_includes p)"
  define x where "x = (pp_target p, restore_task (j_name (pp_job p)), script)"
  define r where "r = ve_exec env tr (pp_target p) (restore_task (j_name (pp_job p))) script"
  define rep1 where "rep1 = rep\<lparr>rp_run := (rp_run rep)\<lparr>rr_finished := Some (ve_finished env),
    rr_duration := (case fst r of None \<Rightarrow> ve_since env | Some y \<Rightarrow> er_duration y)\<rparr>\<rparr>"
  have target: "rr_target (rp_run rep1) = rr_target (rp_run rep0)" by (simp add: rep1_def rep_def)
  note unf = execute_restore_def Let_def rep_def[symmetric] restore_task_def[symmetric] dry_run_task_def[symmetric]
    script_def[symmetric] r_def[symmetric] rep1_def[symmetric] x_def[symmetric]
  consider "ro_dry_run (pp_opts p)" | "\<not> ro_dry_run (pp_opts p)" "\<not> files_restored r" | "\<not> ro_dry_run (pp_opts p)" "files_restored r" by blast
  then show ?thesis
  proof cases
    case 1
    then have "\<exists>q. tr' = tr @ [(pp_target p, dry_run_task (j_name (pp_job p)), q)]"
      using assms unfolding unf by (auto split: prod.splits)
    then show ?thesis by fastforce
  next
    case 2
    then have "tr' = tr @ [x]" using assms unfolding unf by (auto split: prod.splits)
    then show ?thesis by (auto simp: x_def)
  next
    case 3
    obtain d e rep2 a1 where post:
      "runPostRestoreSteps (ve_manifest env) (ve_ps env) assets (ve_exec env) (pp_target p) (pp_job p) (pp_opts p)
         (rr_target (rp_run rep1)) (setStep StepFiles StepSuccess d [] rep1) (tr @ [x]) a = ((e, rep2, tr'), a1)"
      using assms 3 unfolding unf by (auto split: prod.splits)
    show ?thesis
    proof (cases "effectiveStartPolicy (pp_opts p) = StartPolicyNoStart
        \<or> (effectiveStartPolicy (pp_opts p) = StartPolicyAuto \<and> rr_target (rp_run rep0) = j_server (pp_job p))")
      case True
      then have "tr' = tr @ [x]" using post unfolding runPostRestoreSteps_def target by (auto split: if_splits)
      then show ?thesis by (auto simp: x_def)
    next
      case False
      then have "startRestoredServices (ve_manifest env) (ve_ps env) assets (ve_exec env) (pp_target p) (pp_job p) (pp_opts p)
          (setStep StepFiles StepSuccess d [] rep1) (tr @ [x]) a = ((e, rep2, tr'), a1)"
        using post unfolding runPostRestoreSteps_def target by (auto split: if_splits)
      then have "guarded_steps (ve_manifest env) (ve_ps env) (ve_exec env) (pp_target p) (pp_job p) (pp_opts p) (tr @ [x]) (e, rep2, tr')"
        using startRestoredServices_guarded by (metis fst_conv)
      moreover have "task_of x = restore_task (j_name (pp_job p))" "files_restored (ve_exec env tr (pp_target p) (task_of x) (snd (snd x)))"
        using 3(2) by (simp_all add: x_def r_def)
      ultimately show ?thesis using False by blast
    qed
  qed
qed

section \<open>The audit row\<close>

abbreviation restore_sqlite :: "restore_row table restore_recorder option" where
  "restore_sqlite \<equiv> Some (restore_create, restore_update)"

lemma updateRunRecord_audits:
  assumes "table_wf rw_id s" "0 < rr_id run \<Longrightarrow> \<exists>w. table_lookup rw_id s (rr_id run) = Some w \<and> restore_same run w"
    and "updateRunRecord restore_sqlite io run s = (ae, s')"
  shows "table_wf rw_id s' \<and> (\<forall>i. i \<noteq> rr_id run \<longrightarrow> table_lookup rw_id s' i = table_lookup rw_id s i)
    \<and> (ae = None \<and> 0 < rr_id run \<longrightarrow> (\<exists>w. table_lookup rw_id s' (rr_id run) = Some w \<and> restore_reads run w))
    \<and> (0 < rr_id run \<longrightarrow> ae = None \<longleftrightarrow> db_exec io = None) \<and> (rr_id run \<le> 0 \<longrightarrow> ae = None \<and> s' = s)"
proof (cases "0 < rr_id run")
  case False
  then show ?thesis using assms by (simp add: updateRunRecord_def)
next
  case True
  then have u: "restore_update io run s = (ae, s')" using assms(3) by (simp add: updateRunRecord_def)
  then have io: "ae = None \<longleftrightarrow> db_exec io = None" by (auto simp: restore_update_def split: option.splits)
  show ?thesis
  proof (cases ae)
    case None
    note ok = restore_log.update_ok[OF assms(1) u[unfolded None]]
    have "\<exists>w. table_lookup rw_id s' (rr_id run) = Some w \<and> restore_reads run w"
      using ok assms(2)[OF True] restore_row_reads by metis
    then show ?thesis using ok io True by simp
  next
    case (Some e)
    then show ?thesis using restore_log.update_fails[OF assms(1) u[unfolded Some]] True io by simp
  qed
qed

text \<open>A report whose row exists, or that is marked as untracked.\<close>

definition begun :: "restore_env \<Rightarrow> job \<Rightarrow> restore_options \<Rightarrow> restore_row table \<Rightarrow> restore_row table \<Rightarrow> restore_report \<Rightarrow> bool" where
  "begun env j opts s s1 rep \<longleftrightarrow> table_wf rw_id s1 \<and> steps_ok rep \<and> clean rep
     \<and> attempt (rp_run rep) = attempt (new_restore_run env j opts)
     \<and> (\<forall>i. table_lookup rw_id s i \<noteq> None \<longrightarrow> table_lookup rw_id s1 i = table_lookup rw_id s i)
     \<and> (if 0 < rr_id (rp_run rep) then table_lookup rw_id s (rr_id (rp_run rep)) = None
          \<and> (\<forall>i. i \<noteq> rr_id (rp_run rep) \<longrightarrow> table_lookup rw_id s1 i = table_lookup rw_id s i)
          \<and> (\<exists>w. table_lookup rw_id s1 (rr_id (rp_run rep)) = Some w \<and> restore_same (rp_run rep) w)
        else rp_untracked rep \<and> ro_allow_untracked opts \<and> db_fails (ve_create env))"

lemma clean_new [simp]: "clean (newRestoreReport run)"
  by (simp add: clean_def)

lemma clean_untracked [simp]: "clean (rep\<lparr>rp_untracked := u\<rparr>) = clean rep"
  by (simp add: clean_def)

lemma restore_create_attempt:
  assumes "restore_create io run s = (oe, run', s')"
  shows "attempt run' = attempt run" "oe \<noteq> None \<Longrightarrow> db_fails io"
  using assms by (auto simp: restore_create_def db_fails_def Let_def split: option.splits)

lemma new_report_run [simp]: "rp_run (newRestoreReport run) = run"
  by (simp add: newRestoreReport_def)

lemma begin_restore_begun:
  assumes "table_wf rw_id s" "begin_restore restore_sqlite env j opts s = (Inr rep, s1)"
  shows "begun env j opts s s1 rep"
proof -
  obtain oe run s2 where c: "restore_create (ve_create env) (new_restore_run env j opts) s = (oe, run, s2)" by (metis prod_cases3)
  note at = restore_create_attempt[OF c]
  show ?thesis
  proof (cases oe)
    case None
    then have e: "rep = newRestoreReport run" "s1 = s2" using assms(2) c by (simp_all add: begin_restore_def)
    have ok: "table_wf rw_id s2" "0 < rr_id run" "table_lookup rw_id s (rr_id run) = None"
      "\<exists>w. table_lookup rw_id s2 (rr_id run) = Some w \<and> restore_same run w"
      "\<And>i. i \<noteq> rr_id run \<Longrightarrow> table_lookup rw_id s2 i = table_lookup rw_id s i"
      using restore_log.create_ok[OF assms(1) c[unfolded None]] by auto
    have "table_lookup rw_id s2 i = table_lookup rw_id s i" if "table_lookup rw_id s i \<noteq> None" for i
      using ok(3,5) that by metis
    then show ?thesis using ok at(1) e by (simp add: begun_def)
  next
    case (Some x)
    then have e: "rep = (newRestoreReport run)\<lparr>rp_untracked := True\<rparr>" "s1 = s2" "ro_allow_untracked opts"
      using assms(2) c by (auto simp: begin_restore_def split: if_splits)
    have "rr_id (new_restore_run env j opts) = 0" by (simp add: new_restore_run_def)
    then show ?thesis using restore_log.create_fails[OF assms(1) c[unfolded Some]] e at Some by (auto simp: begun_def)
  qed
qed

lemma begin_restore_refused:
  assumes "table_wf rw_id s" "begin_restore restore_sqlite env j opts s = (Inl e, s1)"
  shows "table_wf rw_id s1 \<and> \<not> ro_allow_untracked opts \<and> db_fails (ve_create env)
    \<and> (\<forall>i. table_lookup rw_id s i \<noteq> None \<longrightarrow> table_lookup rw_id s1 i = table_lookup rw_id s i)"
proof -
  obtain oe run s2 where c: "restore_create (ve_create env) (new_restore_run env j opts) s = (oe, run, s2)" by (metis prod_cases3)
  then obtain x where "oe = Some x" "s1 = s2" "\<not> ro_allow_untracked opts"
    using assms(2) by (auto simp: begin_restore_def split: option.splits if_splits)
  then show ?thesis using restore_log.create_fails[OF assms(1)] restore_create_attempt(2)[OF c] c by blast
qed

text \<open>What an attempt that returned a report has left.\<close>

definition restore_recorded ::
    "restore_env \<Rightarrow> restore_options \<Rightarrow> restore_row table \<Rightarrow> restore_row table \<Rightarrow> restore_report \<Rightarrow> go_error option \<Rightarrow> bool" where
  "restore_recorded env opts s s' rep err \<longleftrightarrow>
     (if 0 < rr_id (rp_run rep)
      then table_lookup rw_id s (rr_id (rp_run rep)) = None
         \<and> (\<forall>i. i \<noteq> rr_id (rp_run rep) \<longrightarrow> table_lookup rw_id s' i = table_lookup rw_id s i)
         \<and> (if db_exec (ve_final env) = None
            then \<exists>w. table_lookup rw_id s' (rr_id (rp_run rep)) = Some w \<and> restore_reads (rp_run rep) w
            else \<exists>x. err = Some x \<and> (errors_is x ErrRestoreUntracked
                   \<or> rr_status (rp_run rep) \<notin> {''success'', ''dry-run''} \<and> errors_is x ErrRestoreAuditFailed))
      else ro_allow_untracked opts \<and> db_fails (ve_create env) \<and> rp_untracked rep
         \<and> (\<forall>i. table_lookup rw_id s i \<noteq> None \<longrightarrow> table_lookup rw_id s' i = table_lookup rw_id s i)
         \<and> (\<exists>x. err = Some x \<and> (rr_status (rp_run rep) \<in> {''success'', ''dry-run''} \<longrightarrow> errors_is x ErrRestoreUntracked)))"

lemma recorded_by_update:
  assumes "begun env j opts s s1 rep0" "updateRunRecord restore_sqlite (ve_final env) (rp_run rep) s1 = (ae, s')"
    and "rr_id (rp_run rep) = rr_id (rp_run rep0)" "attempt (rp_run rep) = attempt (rp_run rep0)"
    and "ae \<noteq> None \<longrightarrow> (\<exists>x. err = Some x \<and> (errors_is x ErrRestoreUntracked
           \<or> rr_status (rp_run rep) \<notin> {''success'', ''dry-run''} \<and> errors_is x ErrRestoreAuditFailed))"
    and "rp_untracked rep0 \<longrightarrow> rp_untracked rep
           \<and> (\<exists>x. err = Some x \<and> (rr_status (rp_run rep) \<in> {''success'', ''dry-run''} \<longrightarrow> errors_is x ErrRestoreUntracked))"
  shows "table_wf rw_id s' \<and> restore_recorded env opts s s' rep err"
proof (cases "0 < rr_id (rp_run rep)")
  case True
  have b: "table_wf rw_id s1" "\<exists>w. table_lookup rw_id s1 (rr_id (rp_run rep)) = Some w \<and> restore_same (rp_run rep) w"
    "table_lookup rw_id s (rr_id (rp_run rep)) = None"
    "\<forall>i. i \<noteq> rr_id (rp_run rep) \<longrightarrow> table_lookup rw_id s1 i = table_lookup rw_id s i"
    using assms(1) True attempt_same[OF assms(3,4)] unfolding begun_def assms(3) by simp_all
  from updateRunRecord_audits[OF b(1,2) assms(2)] b(3,4) assms(5) True show ?thesis
    unfolding restore_recorded_def by auto
next
  case False
  then have b: "table_wf rw_id s1" "rp_untracked rep0" "ro_allow_untracked opts" "db_fails (ve_create env)"
    "\<forall>i. table_lookup rw_id s i \<noteq> None \<longrightarrow> table_lookup rw_id s1 i = table_lookup rw_id s i"
    using assms(1,3) by (auto simp: begun_def)
  have "s' = s1" using assms(2) False by (simp add: updateRunRecord_def)
  then show ?thesis using b assms(6) False by (simp add: restore_recorded_def)
qed

text \<open>The parts of a run.\<close>

lemma restore_run_parts:
  assumes run: "restore_runner_run uc rv env j opts st = (Some r, err, tr, st')"
    and db: "table_wf rw_id (st_db st)" "rv_repo rv = restore_sqlite"
  shows "\<exists>s1 rep1 pr snap tr0 a1 b1.
    begun env j opts (st_db st) s1 rep1 \<and> rr_target (rp_run rep1) = (if ro_server opts = [] then j_server j else ro_server opts)
    \<and> prepare_restore uc rv env j opts (st_assets st) (st_servers st) = (pr, snap, tr0, a1, b1)
    \<and> (case pr of
         Inl e \<Rightarrow> failRun restore_sqlite env rep1 RestoreStageValidation e s1 = (r, err, st_db st') \<and> tr = tr0
       | Inr p \<Rightarrow> execute_restore (rv_assets rv) restore_sqlite env p rep1 tr0 a1 s1 = (r, err, tr, st_assets st', st_db st'))"
proof -
  obtain rep s1 where b: "begin_restore restore_sqlite env j opts (st_db st) = (Inr rep, s1)"
    using run db(2) by (auto simp: restore_runner_run_def split: prod.splits sum.splits)
  obtain pr snap tr0 a1 b1 where p: "prepare_restore uc rv env j opts (st_assets st) (st_servers st) = (pr, snap, tr0, a1, b1)"
    by (metis prod_cases5)
  define rep1 where "rep1 = (case snap of None \<Rightarrow> rep | Some i \<Rightarrow> rep\<lparr>rp_run := (rp_run rep)\<lparr>rr_snapshot := i\<rparr>\<rparr>)"
  have same: "rr_id (rp_run rep1) = rr_id (rp_run rep)" "rp_untracked rep1 = rp_untracked rep" "steps_ok rep1 = steps_ok rep"
    "clean rep1 = clean rep" "rr_target (rp_run rep1) = rr_target (rp_run rep)"
    by (simp_all add: rep1_def split: option.split)
  have "attempt (rp_run rep1) = attempt (rp_run rep)" by (simp add: rep1_def split: option.split)
  then have "begun env j opts (st_db st) s1 rep1" using begin_restore_begun[OF db(1) b] attempt_same[of "rp_run rep1" "rp_run rep"]
    by (simp add: begun_def same)
  moreover have "rr_target (rp_run rep) = (if ro_server opts = [] then j_server j else ro_server opts)"
  proof -
    obtain oe run1 s2 where c: "restore_create (ve_create env) (new_restore_run env j opts) (st_db st) = (oe, run1, s2)" by (metis prod_cases3)
    then have "rr_target run1 = rr_target (new_restore_run env j opts)"
      by (auto simp: restore_create_def Let_def split: option.splits)
    moreover have "rp_run rep = run1"
      using b c by (auto simp: begin_restore_def newRestoreReport_def split: option.splits if_splits)
    ultimately show ?thesis by (simp add: new_restore_run_def)
  qed
  moreover have "(case pr of
         Inl e \<Rightarrow> failRun restore_sqlite env rep1 RestoreStageValidation e s1 = (r, err, st_db st') \<and> tr = tr0
       | Inr p \<Rightarrow> execute_restore (rv_assets rv) restore_sqlite env p rep1 tr0 a1 s1 = (r, err, tr, st_assets st', st_db st'))"
    using run b p db(2) by (auto simp: restore_runner_run_def rep1_def[symmetric] Let_def split: sum.splits prod.splits)
  ultimately show ?thesis using p same(5) by metis
qed

section \<open>Properties\<close>



text \<open>A restore with --no-start, and by default a restore on the job's own server, never touches a service: it executes
  nothing but the snapshot listing and the restic restore or its dry run.\<close>

theorem services_untouched:
  assumes "restore_runner_run uc rv env j opts st = (Some r, err, tr, st')"
    and "table_wf rw_id (st_db st)" "rv_repo rv = restore_sqlite"
    and "effectiveStartPolicy opts = StartPolicyNoStart
      \<or> effectiveStartPolicy opts = StartPolicyAuto \<and> (ro_server opts = [] \<or> ro_server opts = j_server j)"
  shows "task_of ` set tr \<subseteq> {listing_task (j_name j), restore_task (j_name j), dry_run_task (j_name j)}"
proof -
  obtain s1 rep1 pr snap tr0 a1 b1 where c: "rr_target (rp_run rep1) = (if ro_server opts = [] then j_server j else ro_server opts)"
    "prepare_restore uc rv env j opts (st_assets st) (st_servers st) = (pr, snap, tr0, a1, b1)"
    "case pr of
         Inl e \<Rightarrow> failRun restore_sqlite env rep1 RestoreStageValidation e s1 = (r, err, st_db st') \<and> tr = tr0
       | Inr p \<Rightarrow> execute_restore (rv_assets rv) restore_sqlite env p rep1 tr0 a1 s1 = (r, err, tr, st_assets st', st_db st')"
    using restore_run_parts[OF assms(1-3)] by blast
  note p = prepare_restore_spec[OF c(2)]
  show ?thesis
  proof (cases pr)
    case (Inl e)
    then show ?thesis using c(3) p by auto
  next
    case (Inr q)
    then have x: "execute_restore (rv_assets rv) restore_sqlite env q rep1 tr0 a1 s1 = (r, err, tr, st_assets st', st_db st')"
      and q: "j_name (pp_job q) = j_name j" "j_server (pp_job q) = j_server j" "\<exists>al. pp_opts q = opts\<lparr>ro_alias := al\<rparr>"
      using c(3) p by auto
    have policy: "effectiveStartPolicy (pp_opts q) = effectiveStartPolicy opts"
      using q(3) by (auto simp: effectiveStartPolicy_def)
    obtain y where y: "tr = tr0 @ [y]" "task_of y \<in> {dry_run_task (j_name j), restore_task (j_name j)}"
      using execute_restore_trace[OF x] assms(4) c(1) unfolding policy q(1,2) by (auto split: if_splits)
    have "task_of ` set tr = insert (task_of y) (task_of ` set tr0)" by (simp add: y(1))
    then show ?thesis using p y(2) by auto
  qed
qed


section \<open>Witnesses\<close>

text \<open>A local restore whose executor lists one snapshot and succeeds.\<close>

definition ok_result :: "exec_result option" where
  "ok_result = Some \<lparr>er_success = True, er_exit = 0, er_duration = 1, er_error = None\<rparr>"

definition example_restore_env :: "db_io \<Rightarrow> restore_env" where
  "example_restore_env io = \<lparr>ve_log = [], ve_create = io, ve_final = db_fine 9, ve_secrets = Inr,
     ve_exec = (\<lambda>tr t n s. (ok_result, None, ''[x]'')), ve_start = 5 * nano, ve_finished = 7 * nano, ve_since = 1,
     ve_snapshots = (\<lambda>s. Inr [\<lparr>sn_id = ''abcdefghij'', sn_short_id = [], sn_time = 3, sn_paths = [], sn_hostname = [], sn_tags = []\<rparr>]),
     ve_manifest = (\<lambda>s. Inl (errors_new ''no yaml'')), ve_ps = (\<lambda>s. Inl (errors_new ''no json''))\<rparr>"

definition example_restore_runner :: "(unit, unit, restore_row table) restore_runner" where
  "example_restore_runner = \<lparr>rv_repo = restore_sqlite, rv_assets = None, rv_servers = None\<rparr>"

definition example_restore_options :: restore_options where
  "example_restore_options = \<lparr>ro_snapshot = [], ro_server = [], ro_path = [], ro_asset = [], ro_dry_run = False,
     ro_policy = None, ro_alias = [], ro_allow_untracked = False\<rparr>"

definition example_restore_state :: "(unit, unit, restore_row table) run_state" where
  "example_restore_state = \<lparr>st_assets = (), st_servers = (), st_db = empty_table\<rparr>"

abbreviation restore_example :: "db_io \<Rightarrow> restore_report option \<times> go_error option \<times> executed \<times> (unit, unit, restore_row table) run_state" where
  "restore_example io \<equiv> restore_runner_run (\<lambda>c. False) example_restore_runner (example_restore_env io) local_job example_restore_options example_restore_state"

lemma restore_example_parts [simp]:
  "table_wf rw_id (st_db example_restore_state)" "rv_repo example_restore_runner = restore_sqlite"
  "ve_create (example_restore_env io) = io" "ve_exec (example_restore_env io) tr t n s = (ok_result, None, ''[x]'')"
  "ro_allow_untracked example_restore_options = False"
  by (simp_all add: example_restore_state_def example_restore_runner_def example_restore_env_def example_restore_options_def)

lemma parse_example: "ParseSnapshotsJSON (ve_snapshots (example_restore_env io)) ''[x]''
    = Inr [\<lparr>sn_id = ''abcdefghij'', sn_short_id = ''abcdefgh'', sn_time = 3, sn_paths = [], sn_hostname = [], sn_tags = []\<rparr>]"
proof -
  have "trim_space ''[x]'' = ''[x]''" by code_simp
  then show ?thesis by (simp add: ParseSnapshotsJSON_def example_restore_env_def fill_short_id_def)
qed

lemma prepared_run:
  assumes "ve_secrets env = Inr" "\<And>t s. ve_exec env [] t (listing_task ''web'') s = (ok_result, None, out)"
    and "ParseSnapshotsJSON (ve_snapshots env) out
      = Inr [\<lparr>sn_id = ''abcdefghij'', sn_short_id = ''abcdefgh'', sn_time = 3, sn_paths = [], sn_hostname = [], sn_tags = []\<rparr>]"
    and "ro_snapshot opts = []" "ro_server opts = []" "ro_asset opts = []" "ro_alias opts = []"
  shows "\<exists>p tr. prepare_restore (\<lambda>c. False) example_restore_runner env local_job opts () ()
     = (Inr p, Some ''abcdefghij'', tr, (), ()) \<and> length tr = 1 \<and> pp_opts p = opts \<and> pp_job p = local_job \<and> pp_target p = NewLocalTarget"
proof -
  have v: "validate_restore (\<lambda>c. False) local_job opts = Inr opts"
    using local_job_valid assms(7) by (simp add: validate_restore_def)
  have same: "local_job\<lparr>j_env := j_env local_job\<rparr> = local_job" by simp
  have srv: "j_server local_job = ''local''" "j_name local_job = ''web''" by (simp_all add: local_job_def example_job_def)
  have targ: "ResolveTarget (rv_servers example_restore_runner) ''local'' b = (Inr NewLocalTarget, b)" for b
    by (simp add: ResolveTarget_def)
  have "\<exists>ex. ListSnapshots (ve_snapshots env) (rv_servers example_restore_runner) (listing_env env []) local_job ()
      = (Inr [\<lparr>sn_id = ''abcdefghij'', sn_short_id = ''abcdefgh'', sn_time = 3, sn_paths = [], sn_hostname = [], sn_tags = []\<rparr>], ex, ())
      \<and> length ex = 1"
    using targ same assms(2)[unfolded listing_task_def] by (simp add: ListSnapshots_def srv listing_env_def assms(1,3) ok_result_def Let_def)
  then obtain ex where ex: "ListSnapshots (ve_snapshots env) (rv_servers example_restore_runner) (listing_env env []) local_job ()
      = (Inr [\<lparr>sn_id = ''abcdefghij'', sn_short_id = ''abcdefgh'', sn_time = 3, sn_paths = [], sn_hostname = [], sn_tags = []\<rparr>], ex, ())"
    "length ex = 1" by blast
  have ch: "choose_snapshot (rv_servers example_restore_runner) env local_job opts () = (Inr ''abcdefghij'', ex, ())"
    by (simp add: choose_snapshot_def assms(4) resolveLatestSnapshot_def ex(1))
  have tgt: "rr_target (new_restore_run env local_job opts) = ''local''" by (simp add: new_restore_run_def assms(5) srv)
  have inc: "include_patterns (rv_assets example_restore_runner) opts () = (Inr [], ())"
    by (simp add: include_patterns_def example_restore_runner_def)
  show ?thesis using ex(2) by (simp add: prepare_restore_def v assms(1) same ch tgt targ inc)
qed

lemma example_prepared:
  "\<exists>p tr. prepare_restore (\<lambda>c. False) example_restore_runner (example_restore_env io) local_job example_restore_options () ()
     = (Inr p, Some ''abcdefghij'', tr, (), ()) \<and> length tr = 1 \<and> pp_opts p = example_restore_options \<and> pp_job p = local_job"
proof -
  have "ve_secrets (example_restore_env io) = Inr" "ve_exec (example_restore_env io) [] t (listing_task ''web'') s = (ok_result, None, ''[x]'')"
    "ro_snapshot example_restore_options = []" "ro_server example_restore_options = []" "ro_asset example_restore_options = []"
    "ro_alias example_restore_options = []" for t s
    by (simp_all add: example_restore_env_def example_restore_options_def)
  from prepared_run[OF this(1,2) parse_example this(3-6)] show ?thesis by blast
qed

lemma restore_example_runs: "\<exists>r err tr st'. restore_example (db_fine 3) = (Some r, err, tr, st')"
proof -
  obtain rep s1 where b: "begin_restore restore_sqlite (example_restore_env (db_fine 3)) local_job example_restore_options empty_table = (Inr rep, s1)"
    by (simp add: begin_restore_def restore_create_def db_fine_def Let_def)
  obtain pr snap tr a1 b1 where "prepare_restore (\<lambda>c. False) example_restore_runner (example_restore_env (db_fine 3)) local_job example_restore_options () ()
    = (pr, snap, tr, a1, b1)" by (metis prod_cases5)
  then show ?thesis using b by (simp add: restore_runner_run_def example_restore_state_def Let_def split: sum.split prod.split)
qed

theorem services_untouched_witness:
  "\<exists>r err tr st'. restore_example (db_fine 3) = (Some r, err, tr, st')
     \<and> task_of ` set tr \<subseteq> {listing_task (j_name local_job), restore_task (j_name local_job), dry_run_task (j_name local_job)}"
proof -
  obtain r err tr st' where r: "restore_example (db_fine 3) = (Some r, err, tr, st')"
    using restore_example_runs by blast
  have "effectiveStartPolicy example_restore_options = StartPolicyAuto" "ro_server example_restore_options = []"
    by (simp_all add: example_restore_options_def effectiveStartPolicy_def)
  then show ?thesis using services_untouched[OF r restore_example_parts(1,2)] r by blast
qed

text \<open>A restore with \<open>--start\<close> of a job with a manifest that has one volume. The executor answers everything with the same
  text; \<open>stop\<close> is what becomes of the Compose start.\<close>

definition steps_text :: string where
  "steps_text = ''[x]'' @ [CHR 0x0A] @ restorePreflightEndMarker"

definition steps_manifest :: manifest where
  "steps_manifest = \<lparr>mf_version = 1, mf_app = ''web'', mf_compose = ''compose.yaml'',
     mf_volumes = [\<lparr>mv_name = ''data'', mv_archive = ''volumes/data/data.tar'', mv_target = ''/data''\<rparr>], mf_mounts = [], mf_database = None\<rparr>"

definition steps_exec :: "go_error option \<Rightarrow> remote_exec" where
  "steps_exec stop = (\<lambda>tr t n s. if n = compose_up_task ''web'' \<and> stop \<noteq> None then (None, stop, []) else (ok_result, None, steps_text))"

definition steps_env :: "go_error option \<Rightarrow> restore_env" where
  "steps_env stop = (example_restore_env (db_fine 3))\<lparr>ve_exec := steps_exec stop, ve_manifest := (\<lambda>s. Inr steps_manifest)\<rparr>"

definition steps_options :: restore_options where
  "steps_options = example_restore_options\<lparr>ro_policy := Some StartPolicyStart\<rparr>"

abbreviation steps_restore :: "go_error option \<Rightarrow> restore_report option \<times> go_error option \<times> executed \<times> (unit, unit, restore_row table) run_state" where
  "steps_restore stop \<equiv> restore_runner_run (\<lambda>c. False) example_restore_runner (steps_env stop) local_job steps_options example_restore_state"

lemma steps_answer:
  "steps_exec stop tr t (read_manifest_task ''web'') s = (ok_result, None, steps_text)"
  "steps_exec stop tr t (preflight_task ''web'') s = (ok_result, None, steps_text)"
  "steps_exec stop tr t (listing_task ''web'') s = (ok_result, None, steps_text)"
  "steps_exec stop tr t (restore_task ''web'') s = (ok_result, None, steps_text)"
  "steps_exec stop tr t (import_volume_task v) s = (ok_result, None, steps_text)"
  "steps_exec stop tr t (compose_up_task ''web'') s = (if stop = None then (ok_result, None, steps_text) else (None, stop, []))"
  by (simp_all add: steps_exec_def read_manifest_task_def preflight_task_def listing_task_def restore_task_def import_volume_task_def compose_up_task_def)

lemma steps_found: "probed_manifest (\<lambda>s. Inr steps_manifest) dir mPath (ok_result, None, steps_text)
    = (Some \<lparr>mc_manifest = steps_manifest, mc_root = path_dir mPath, mc_dir = dir\<rparr>, None)"
proof -
  have "manifest_validate steps_manifest = None" "trim_space steps_text \<noteq> []" by code_simp+
  then show ?thesis by (simp add: probed_manifest_def manifest_absent_def ok_result_def UnmarshalManifest_def res_of_def)
qed

lemma steps_read:
  "mPath \<notin> set seen \<Longrightarrow> \<exists>cs reads. read_manifests (\<lambda>s. Inr steps_manifest) (steps_exec stop) tgt ''web'' seen ((dir, mPath) # ps) rep tr
     = (\<lparr>mc_manifest = steps_manifest, mc_root = path_dir mPath, mc_dir = dir\<rparr> # cs, rep, tr @ reads)"
proof -
  have "\<exists>cs reads. read_manifests (\<lambda>s. Inr steps_manifest) (steps_exec stop) tgt ''web'' seen ps rep tr = (cs, rep, tr @ reads)" for seen ps tr
  proof (induction ps arbitrary: seen tr)
    case (Cons p ps)
    obtain d q where p: "p = (d, q)" by fastforce
    show ?case using Cons[of seen tr] Cons[of "q # seen" "tr @ [(tgt, read_manifest_task ''web'', read_manifest_script q)]"]
      by (auto simp: p steps_answer steps_found opt_warn_def split: prod.splits)
  qed simp
  from this[of "mPath # seen" ps "tr @ [(tgt, read_manifest_task ''web'', read_manifest_script mPath)]"] show "mPath \<notin> set seen \<Longrightarrow> ?thesis"
    by (auto simp: steps_answer steps_found opt_warn_def opt_cons_def)
qed

definition steps_dir :: string where
  "steps_dir = ''/var/lib/opspulse/containers/web''"

definition steps_candidate :: manifest_candidate where
  "steps_candidate = \<lparr>mc_manifest = steps_manifest, mc_root = steps_dir @ ''/.opspulse'', mc_dir = steps_dir\<rparr>"

lemma steps_probes: "\<exists>ps. manifest_probes steps_options (candidate_dirs local_job) = (steps_dir, steps_dir @ ''/.opspulse/manifest.yaml'') # ps"
proof -
  have "hd (manifest_probes steps_options (candidate_dirs local_job)) = (steps_dir, steps_dir @ ''/.opspulse/manifest.yaml'')"
    "manifest_probes steps_options (candidate_dirs local_job) \<noteq> []" by code_simp+
  then show ?thesis by (metis list.collapse)
qed

lemma steps_facts:
  "path_dir (steps_dir @ ''/.opspulse/manifest.yaml'') = steps_dir @ ''/.opspulse''"
  "manifest_matches ''web'' steps_options steps_candidate"
  "resolve_archives steps_manifest (steps_dir @ ''/.opspulse'') 0 (mf_volumes steps_manifest) = Inr [steps_dir @ ''/.opspulse/volumes/data/data.tar'']"
  "resolve_dump steps_manifest (steps_dir @ ''/.opspulse'') = Inr []"
  by code_simp+

lemma steps_preflight:
  "\<exists>probe. runRestorePreflight pj (steps_exec stop) tgt ''web'' (preflight_input_of steps_manifest steps_options steps_dir
      [steps_dir @ ''/.opspulse/volumes/data/data.tar''] [] cross) tr = (None, tr @ probe)"
proof -
  let ?i = "preflight_input_of steps_manifest steps_options steps_dir [steps_dir @ ''/.opspulse/volumes/data/data.tar''] []"
  have "validateRestorePreflightInput (?i False) = None" "validateRestorePreflightInput (?i True) = None" by code_simp+
  then obtain script where b: "BuildRestorePreflightScript (?i cross) = Inr script" by (cases cross) (simp_all add: BuildRestorePreflightScript_def)
  have p: "split_on (CHR 0x0A) steps_text = [''[x]'', restorePreflightEndMarker]" "trim_space ''[x]'' = ''[x]''"
    "trim_space restorePreflightEndMarker = restorePreflightEndMarker" "restorePreflightEndMarker \<noteq> []"
    "\<not> has_prefix ''[x]'' restorePreflightErrorPrefix" "\<not> has_prefix ''[x]'' ''{''" "''[x]'' \<noteq> restorePreflightEndMarker"
    by code_simp+
  have "report_verdict pj (?i cross) steps_text = None"
    using p by (simp add: report_verdict_def ParseRestorePreflightOutput_def Let_def detectRestoreTargetConflicts_def)
  then show ?thesis using b steps_answer(2)[unfolded preflight_task_def]
    by (simp add: runRestorePreflight_def probe_error_def ok_result_def Let_def)
qed

lemma steps_mutate:
  "\<exists>e rep' ms. mutating_steps (steps_exec stop) tgt ''web'' steps_candidate steps_options [archive] rep tr = (e, rep', tr @ ms)
     \<and> (e = None \<longleftrightarrow> stop = None) \<and> {''restore-vol-data'', compose_up_task ''web''} \<subseteq> task_of ` set ms"
proof -
  have v: "mf_volumes steps_manifest = [\<lparr>mv_name = ''data'', mv_archive = ''volumes/data/data.tar'', mv_target = ''/data''\<rparr>]"
    "mf_database steps_manifest = None" "mc_manifest steps_candidate = steps_manifest"
    by (simp_all add: steps_manifest_def steps_candidate_def)
  have ok: "exec_ok (ok_result, None, x)" "\<not> exec_ok (None, Some y, z)" for x y z by (simp_all add: exec_ok_def ok_result_def)
  show ?thesis
  proof (cases stop)
    case None
    then show ?thesis
      by (simp add: mutating_steps_def compose_and_database_def v steps_answer ok start_compose_def importRestoredDatabase_def Let_def)
         (simp add: import_volume_task_def)
  next
    case (Some y)
    then show ?thesis
      by (simp add: mutating_steps_def compose_and_database_def v steps_answer ok start_compose_def Let_def)
         (simp add: import_volume_task_def)
  qed
qed

lemma steps_services:
  "\<exists>e rep' ms. startRestoredServices (\<lambda>s. Inr steps_manifest) pj None (steps_exec stop) NewLocalTarget local_job steps_options rep tr () = ((e, rep', tr @ ms), ())
     \<and> (e = None \<longleftrightarrow> stop = None) \<and> {''restore-vol-data'', compose_up_task ''web''} \<subseteq> task_of ` set ms"
proof -
  have web: "j_name local_job = ''web''" by (simp add: local_job_def example_job_def)
  obtain ps where ps: "manifest_probes steps_options (candidate_dirs local_job) = (steps_dir, steps_dir @ ''/.opspulse/manifest.yaml'') # ps"
    using steps_probes by blast
  obtain cs reads where r: "read_manifests (\<lambda>s. Inr steps_manifest) (steps_exec stop) NewLocalTarget ''web'' []
      ((steps_dir, steps_dir @ ''/.opspulse/manifest.yaml'') # ps) rep tr = (steps_candidate # cs, rep, tr @ reads)"
    using steps_read[of "steps_dir @ ''/.opspulse/manifest.yaml''" "[]" stop NewLocalTarget steps_dir ps rep tr]
    unfolding steps_facts(1) steps_candidate_def by auto
  obtain rep2 where sel: "select_manifest ''web'' steps_options (steps_candidate # cs) rep = (Some steps_candidate, rep2)"
    using steps_facts(2) by (simp add: select_manifest_def)
  obtain probe where p: "runRestorePreflight pj (steps_exec stop) NewLocalTarget ''web'' (preflight_input_of steps_manifest steps_options steps_dir
      [steps_dir @ ''/.opspulse/volumes/data/data.tar''] [] (t_name NewLocalTarget \<noteq> j_server local_job)) (tr @ reads) = (None, (tr @ reads) @ probe)"
    using steps_preflight by blast
  have c: "mc_manifest steps_candidate = steps_manifest" "mc_root steps_candidate = steps_dir @ ''/.opspulse''" "mc_dir steps_candidate = steps_dir"
    "mf_mounts steps_manifest = []"
    by (simp_all add: steps_candidate_def steps_manifest_def)
  obtain e rep' ms where m: "mutating_steps (steps_exec stop) NewLocalTarget ''web'' steps_candidate steps_options
      [steps_dir @ ''/.opspulse/volumes/data/data.tar''] rep2 ((tr @ reads) @ probe) = (e, rep', ((tr @ reads) @ probe) @ ms)"
    "e = None \<longleftrightarrow> stop = None" "{''restore-vol-data'', compose_up_task ''web''} \<subseteq> task_of ` set ms"
    using steps_mutate[of stop NewLocalTarget "steps_dir @ ''/.opspulse/volumes/data/data.tar''" rep2 "(tr @ reads) @ probe"]
    by (elim exE conjE) (rule that)
  have "restore_from_manifest pj (steps_exec stop) NewLocalTarget local_job steps_candidate steps_options rep2 (tr @ reads) = (e, rep', ((tr @ reads) @ probe) @ ms)"
    unfolding restore_from_manifest_def c web check_mounts.simps prod.case steps_facts(3,4) sum.case p option.case m(1) by (rule refl)
  then have "startRestoredServices (\<lambda>s. Inr steps_manifest) pj None (steps_exec stop) NewLocalTarget local_job steps_options rep tr ()
      = ((e, rep', tr @ (reads @ probe @ ms)), ())"
    unfolding startRestoredServices_def web ps r prod.case sel option.case by simp
  then show ?thesis using m(2,3) by auto
qed

lemma steps_restore_runs:
  "\<exists>r err tr st'. steps_restore stop = (Some r, err, tr, st') \<and> {''restore-vol-data'', compose_up_task ''web''} \<subseteq> task_of ` set tr
     \<and> rr_status (rp_run r) = (if stop = None then ''success'' else ''partial'') \<and> stepStatus StepFiles r = Some StepSuccess"
proof -
  have env: "ve_secrets (steps_env stop) = Inr" "ve_exec (steps_env stop) = steps_exec stop" "ve_manifest (steps_env stop) = (\<lambda>s. Inr steps_manifest)"
    "ve_create (steps_env stop) = db_fine 3" "ve_snapshots (steps_env stop) = ve_snapshots (example_restore_env (db_fine 3))"
    by (simp_all add: steps_env_def example_restore_env_def)
  have opts: "ro_snapshot steps_options = []" "ro_server steps_options = []" "ro_asset steps_options = []" "ro_alias steps_options = []"
    "\<not> ro_dry_run steps_options" "effectiveStartPolicy steps_options = StartPolicyStart" "ro_allow_untracked steps_options = False"
    by (simp_all add: steps_options_def example_restore_options_def effectiveStartPolicy_def)
  have web: "j_name local_job = ''web''" by (simp add: local_job_def example_job_def)
  have "trim_space steps_text = steps_text" "dropWhile (\<lambda>c. c \<noteq> CHR ''['') steps_text = steps_text"
    "rev (dropWhile (\<lambda>c. c \<noteq> CHR '']'') (rev steps_text)) = ''[x]''" "steps_text \<noteq> []" "steps_text \<noteq> ''null''" by code_simp+
  then have parse: "ParseSnapshotsJSON (ve_snapshots (steps_env stop)) steps_text
      = Inr [\<lparr>sn_id = ''abcdefghij'', sn_short_id = ''abcdefgh'', sn_time = 3, sn_paths = [], sn_hostname = [], sn_tags = []\<rparr>]"
    unfolding env by (simp add: ParseSnapshotsJSON_def example_restore_env_def fill_short_id_def Let_def)
  have ans: "ve_exec (steps_env stop) [] t (listing_task ''web'') x = (ok_result, None, steps_text)" for t x
    by (simp add: env steps_answer)
  obtain p tr where p: "prepare_restore (\<lambda>c. False) example_restore_runner (steps_env stop) local_job steps_options () ()
     = (Inr p, Some ''abcdefghij'', tr, (), ())" "length tr = 1" "pp_opts p = steps_options" "pp_job p = local_job" "pp_target p = NewLocalTarget"
    using prepared_run[OF env(1) ans parse opts(1-4)] by blast
  obtain rep0 s1 where b: "begin_restore restore_sqlite (steps_env stop) local_job steps_options empty_table = (Inr rep0, s1)"
    by (simp add: begin_restore_def env restore_create_def db_fine_def Let_def)
  then have rep0: "steps_ok rep0" "clean rep0" using begin_restore_begun[OF empty_table_wf b] by (simp_all add: begun_def)
  define rep1 where "rep1 = rep0\<lparr>rp_run := (rp_run rep0)\<lparr>rr_snapshot := ''abcdefghij''\<rparr>\<rparr>"
  have fr: "files_restored (ok_result, None, x)" for x by (simp add: files_restored_def ok_result_def)
  obtain r err tr2 a2 s2 where x: "execute_restore None restore_sqlite (steps_env stop) p rep1 tr () s1 = (r, err, tr2, a2, s2)" by (metis prod_cases5)
  have assets: "rv_assets example_restore_runner = None" by (simp add: example_restore_runner_def)
  obtain d rep tr1 e ms rep2 where post:
    "steps_ok rep" "clean rep" "stepStatus StepFiles rep = Some StepSuccess"
    "startRestoredServices (\<lambda>s. Inr steps_manifest) (ve_ps (steps_env stop)) None (steps_exec stop) NewLocalTarget local_job steps_options rep tr1 () = ((e, rep2, tr1 @ ms), ())"
    "finish_restore restore_sqlite (steps_env stop) e (restored_files_report e rep2) s1 = (r, err, s2)" "tr2 = tr1 @ ms"
    "e = None \<longleftrightarrow> stop = None" "{''restore-vol-data'', compose_up_task ''web''} \<subseteq> task_of ` set ms"
  proof -
    define script where "script = BuildRestoreScript (pp_job p) (pp_snapshot p) (rr_target_path (rp_run rep1)) (pp_includes p)"
    define repf where "repf = (let rep = rep1\<lparr>rp_run := (rp_run rep1)\<lparr>rr_log := ve_log (steps_env stop)\<rparr>\<rparr> in
       rep\<lparr>rp_run := (rp_run rep)\<lparr>rr_finished := Some (ve_finished (steps_env stop)), rr_duration := 1\<rparr>\<rparr>)"
    have rf: "steps_ok repf" "clean repf" using rep0 by (simp_all add: repf_def rep1_def)
    define set1 where "set1 d = setStep StepFiles StepSuccess d [] repf" for d
    define trf where "trf = tr @ [(NewLocalTarget, restore_task ''web'', script)]"
    have dur: "(case ok_result of None \<Rightarrow> ve_since (steps_env stop) | Some x \<Rightarrow> er_duration x) = 1" by (simp add: ok_result_def)
    obtain d where "(case runPostRestoreSteps (\<lambda>s. Inr steps_manifest) (ve_ps (steps_env stop)) None (steps_exec stop) NewLocalTarget local_job steps_options
        (rr_target (rp_run repf)) (set1 d) trf () of ((startErr, rep2, tr2), a1) \<Rightarrow>
          (case finish_restore restore_sqlite (steps_env stop) startErr (restored_files_report startErr rep2) s1 of (rep3, e, s1) \<Rightarrow> (rep3, e, tr2, a1, s1)))
      = (r, err, tr2, a2, s2)"
      using x opts(5) unfolding execute_restore_def Let_def p(3-5) web restore_task_def[symmetric] env
      by (simp add: steps_answer fr trf_def set1_def repf_def script_def dur p(4) web)
    then have run: "(case runPostRestoreSteps (\<lambda>s. Inr steps_manifest) (ve_ps (steps_env stop)) None (steps_exec stop) NewLocalTarget local_job steps_options
        (rr_target (rp_run repf)) (set1 d) trf () of ((startErr, rep2, tr2), a1) \<Rightarrow>
          (case finish_restore restore_sqlite (steps_env stop) startErr (restored_files_report startErr rep2) s1 of (rep3, e, s1) \<Rightarrow> (rep3, e, tr2, a1, s1)))
      = (r, err, tr2, a2, s2)" .
    obtain e rep2 ms where svc: "startRestoredServices (\<lambda>s. Inr steps_manifest) (ve_ps (steps_env stop)) None (steps_exec stop) NewLocalTarget local_job steps_options
        (set1 d) trf () = ((e, rep2, trf @ ms), ())" "e = None \<longleftrightarrow> stop = None" "{''restore-vol-data'', compose_up_task ''web''} \<subseteq> task_of ` set ms"
      using steps_services[of "ve_ps (steps_env stop)" stop "set1 d" trf] by (elim exE conjE) (rule that)
    obtain r3 e3 s3 where fin: "finish_restore restore_sqlite (steps_env stop) e (restored_files_report e rep2) s1 = (r3, e3, s3)" by (metis prod_cases3)
    have "runPostRestoreSteps (\<lambda>s. Inr steps_manifest) (ve_ps (steps_env stop)) None (steps_exec stop) NewLocalTarget local_job steps_options
        (rr_target (rp_run repf)) (set1 d) trf () = ((e, rep2, trf @ ms), ())"
      unfolding runPostRestoreSteps_def opts(6) using svc(1) by simp
    then have q: "r = r3" "err = e3" "tr2 = trf @ ms" "s2 = s3" using run fin by simp_all
    have s1: "steps_ok (set1 d)" "clean (set1 d)" "stepStatus StepFiles (set1 d) = Some StepSuccess" using rf by (simp_all add: set1_def)
    show ?thesis by (rule that[OF s1 svc(1) fin[folded q] q(3) svc(2,3)])
  qed
  have "step_sound rep (e, rep2)"
    using startRestoredServices_sound[of rep "\<lambda>s. Inr steps_manifest" "ve_ps (steps_env stop)" None "steps_exec stop" NewLocalTarget local_job steps_options tr1 "()"]
    unfolding post(4) by (simp add: result_sound_def)
  then have k: "steps_ok rep2" "stepStatus StepFiles rep2 = Some StepSuccess" "e = None \<longleftrightarrow> clean rep2" using post(1-3) by (auto simp: step_sound_def)
  have st: "rp_run r = rp_run (restored_files_report e rep2)" "rp_steps r = rp_steps (restored_files_report e rep2)" using finish_restore_spec[OF post(5)] by auto
  have "stepStatus StepFiles (restored_files_report e rep2) = Some StepSuccess" using k by (simp add: restored_files_report_def Let_def split: option.split)
  then have "stepStatus StepFiles r = Some StepSuccess" using st(2) by (simp add: stepStatus_def)
  moreover have "rr_status (rp_run r) = (if clean (restored_files_report e rep2) then ''success'' else ''partial'')"
    using restored_files_honest[OF k] st(1) \<open>stepStatus StepFiles (restored_files_report e rep2) = Some StepSuccess\<close> by (simp add: honest_def)
  moreover have "clean (restored_files_report e rep2) = clean rep2" by (simp add: restored_files_report_def Let_def split: option.split)
  moreover have "steps_restore stop = (Some r, err, tr2, \<lparr>st_assets = a2, st_servers = (), st_db = s2\<rparr>)"
    using b p(1) x unfolding restore_runner_run_def
    by (simp add: example_restore_state_def example_restore_runner_def rep1_def assets[unfolded example_restore_runner_def])
  ultimately show ?thesis using k(3) post(6-8) by auto
qed

lemma steps_parts: "table_wf rw_id (st_db example_restore_state)" "rv_repo example_restore_runner = restore_sqlite"
  "ro_allow_untracked steps_options = False" "db_exec (ve_final (steps_env stop)) = None" "\<not> ro_dry_run steps_options"
  by (simp_all add: steps_options_def steps_env_def example_restore_env_def db_fine_def example_restore_options_def)




end
