(* ===== verification/Capability.thy ===== *)
theory Capability
  imports Preflight
begin

text \<open>
  \<open>internal/capability/capability.go\<close>: the read-only probe of a Docker host. The scripts, the parser of their
  output and the three operations of \<open>RemoteProber\<close> that are not the health check. An operation returns the
  trace of what it executed with its answer. \<open>pf\<close> is \<open>strconv.ParseFloat\<close> on finite values, \<open>pj\<close>, \<open>pl\<close>
  and \<open>p1\<close> are \<open>json.Unmarshal\<close> of a \<open>docker ps\<close> line and of inspect output.
\<close>

section \<open>Reports\<close>

definition ErrDockerMissing :: sentinel where
  "ErrDockerMissing = ''docker is not installed on the target host''"

definition dockerMissingSentinel :: string where
  "dockerMissingSentinel = ''ERR_DOCKER_NOT_FOUND''"

datatype cap_status = StatusOK | StatusPartial | StatusMissing | StatusUnknown

fun status_text :: "cap_status \<Rightarrow> string" where
  "status_text StatusOK = ''ok''"
| "status_text StatusPartial = ''partial''"
| "status_text StatusMissing = ''missing''"
| "status_text StatusUnknown = ''unknown''"

record check =
  ck_name :: string
  ck_status :: cap_status
  ck_detail :: string
  ck_exists :: bool
  ck_writable :: bool

text \<open>Sizes are in tenths of a GB: \<open>roundGB\<close> yields such values only.\<close>

record disk_space =
  ds_status :: cap_status
  ds_total :: int
  ds_avail :: int
  ds_used :: int
  ds_detail :: string

record cap_report =
  rp_server :: string
  rp_reachable :: bool
  rp_os :: string
  rp_arch :: string
  rp_docker :: check
  rp_compose :: check
  rp_restic :: check
  rp_shell_tools :: "check list"
  rp_database_tools :: "check list"
  rp_helper :: check
  rp_registry :: check
  rp_disk :: disk_space
  rp_paths :: "check list"
  rp_images :: "check list"
  rp_notes :: "string list"

record probe_options =
  po_paths :: "string list"
  po_images :: "string list"

section \<open>Scripts\<close>

definition BuildListScript :: "bool \<Rightarrow> string" where
  "BuildListScript includeStopped =
     lines_text
     [''if ! command -v docker >/dev/null 2>&1; then'',
      ''  echo \"'' @ dockerMissingSentinel @ ''\"'',
      ''  exit 127'',
      ''fi'',
      ''docker ps '' @ (if includeStopped then ''-a '' else []) @ ''--format '{{json .}}'' @ [squote]]"

definition BuildInspectScript :: "string \<Rightarrow> string" where
  "BuildInspectScript name =
     lines_text
     [''if ! command -v docker >/dev/null 2>&1; then'',
      ''  echo \"'' @ dockerMissingSentinel @ ''\" >&2'',
      ''  exit 127'',
      ''fi'',
      ''docker inspect --type container '' @ quote (trim_space name)]"

definition probePathErr :: "string \<Rightarrow> go_error option" where
  "probePathErr p =
     (if CHR 0x0A \<in> set p \<or> CHR 0x0D \<in> set p
      then Some (errors_new ((''invalid probe path '' @ go_quote p @ '': must not contain newlines'')))
      else if CHR ''|'' \<in> set p
      then Some (errors_new ((''invalid probe path '' @ go_quote p @ '': must not contain '|'' @ [squote])))
      else None)"

fun probeQuotedPaths :: "string list \<Rightarrow> string list res" where
  "probeQuotedPaths [] = Inr []"
| "probeQuotedPaths (x # xs) =
     (let p = trim_space x
      in if p = [] then probeQuotedPaths xs
         else (case probePathErr p of
                 Some e \<Rightarrow> Inl e
               | None \<Rightarrow> (case probeQuotedPaths xs of Inl e \<Rightarrow> Inl e | Inr qs \<Rightarrow> Inr (quote p # qs))))"

fun probeQuotedImages :: "string list \<Rightarrow> string list res" where
  "probeQuotedImages [] = Inr []"
| "probeQuotedImages (x # xs) =
     (let image = trim_space x
      in if image = [] then probeQuotedImages xs
         else if CHR 0x0A \<in> set image \<or> CHR 0x0D \<in> set image \<or> CHR ''|'' \<in> set image
         then Inl (errors_new ((''invalid probe image '' @ go_quote image @ '': must not contain newlines or '|'' @ [squote])))
         else (case probeQuotedImages xs of Inl e \<Rightarrow> Inl e | Inr qs \<Rightarrow> Inr (quote image # qs)))"

definition probeScriptHead :: string where
  "probeScriptHead =
     lines_text
     [''set +e'',
      ''echo \"---OPSPULSE-CAPABILITY---\"'',
      ''echo \"OS=$(uname -s 2>/dev/null)\"'',
      ''echo \"ARCH=$(uname -m 2>/dev/null)\"'',
      [],
      ''if command -v docker >/dev/null 2>&1; then'',
      ''  echo \"DOCKER=present\"'',
      ''  if docker info >/dev/null 2>&1; then'',
      ''    echo \"DOCKER_DAEMON=running\"'',
      ''  else'',
      ''    echo \"DOCKER_DAEMON=stopped\"'',
      ''  fi'',
      ''else'',
      ''  echo \"DOCKER=missing\"'',
      ''  echo \"DOCKER_DAEMON=unknown\"'',
      ''fi'',
      [],
      ''if docker compose version >/dev/null 2>&1; then'',
      ''  echo \"COMPOSE=plugin\"'',
      ''elif command -v docker-compose >/dev/null 2>&1; then'',
      ''  echo \"COMPOSE=standalone\"'',
      ''else'',
      ''  echo \"COMPOSE=missing\"'',
      ''fi'',
      [],
      ''if command -v restic >/dev/null 2>&1; then echo \"RESTIC=present\"; else echo \"RESTIC=missing\"; fi'',
      [],
      ''for opspulse_tool in tar gzip gunzip base64; do'',
      ''  if command -v \"$opspulse_tool\" >/dev/null 2>&1; then'',
      ''    echo \"TOOL_${opspulse_tool}=present\"'',
      ''  else'',
      ''    echo \"TOOL_${opspulse_tool}=missing\"'',
      ''  fi'',
      ''done'',
      [],
      ''for opspulse_tool in mysqldump mysql mariadb-dump pg_dump pg_dumpall psql; do'',
      ''  if command -v \"$opspulse_tool\" >/dev/null 2>&1; then'',
      ''    echo \"DBTOOL_${opspulse_tool}=present\"'',
      ''  else'',
      ''    echo \"DBTOOL_${opspulse_tool}=missing\"'',
      ''  fi'',
      ''done'',
      [],
      ''if command -v docker >/dev/null 2>&1 && docker info >/dev/null 2>&1; then'',
      ''  if docker image inspect \"${OPSPULSE_HELPER_IMAGE:-alpine:3.20}\" >/dev/null 2>&1; then'',
      ''    echo \"HELPER_IMAGE=present\"'',
      ''  elif docker image inspect busybox:1.36 >/dev/null 2>&1; then'',
      ''    echo \"HELPER_IMAGE=fallback\"'',
      ''  elif docker image inspect alpine >/dev/null 2>&1; then'',
      ''    echo \"HELPER_IMAGE=fallback\"'',
      ''  elif docker image inspect busybox >/dev/null 2>&1; then'',
      ''    echo \"HELPER_IMAGE=fallback\"'',
      ''  else'',
      ''    echo \"HELPER_IMAGE=missing\"'',
      ''  fi'',
      [],
      ''  if command -v timeout >/dev/null 2>&1; then OPSPULSE_TIMEOUT=\"timeout 10\"; else OPSPULSE_TIMEOUT=\"\"; fi'',
      ''  if $OPSPULSE_TIMEOUT docker manifest inspect docker.io/library/alpine:3.20 >/dev/null 2>&1; then'',
      ''    echo \"REGISTRY=reachable\"'',
      ''  else'',
      ''    echo \"REGISTRY=unreachable\"'',
      ''  fi'',
      ''else'',
      ''  echo \"HELPER_IMAGE=unknown\"'',
      ''  echo \"REGISTRY=unknown\"'',
      ''fi'',
      [],
      ''echo \"DISK=$(df -kP / 2>/dev/null | awk 'NR==2 {print $2 \" \" $3 \" \" $4 \" \" $5}')\"'']"

definition probeScriptPaths :: string where
  "probeScriptPaths =
     lines_text
     [''  if [ -e \"$opspulse_path\" ]; then opspulse_exists=yes; else opspulse_exists=no; fi'',
      ''  if [ -e \"$opspulse_path\" ]; then'',
      ''    if [ -w \"$opspulse_path\" ]; then opspulse_writable=yes; else opspulse_writable=no; fi'',
      ''  else'',
      ''    opspulse_parent=$(dirname \"$opspulse_path\" 2>/dev/null)'',
      ''    if [ -n \"$opspulse_parent\" ] && [ -w \"$opspulse_parent\" ]; then opspulse_writable=yes; else opspulse_writable=no; fi'',
      ''  fi'',
      ''  echo \"PATH=$opspulse_path|$opspulse_exists|$opspulse_writable\"'',
      ''done'']"

definition probeScriptImages :: string where
  "probeScriptImages =
     lines_text
     [''    if docker image inspect \"$opspulse_image\" >/dev/null 2>&1; then'',
      ''      echo \"IMAGE=$opspulse_image|present\"'',
      ''    else'',
      ''      echo \"IMAGE=$opspulse_image|missing\"'',
      ''    fi'',
      ''  done'',
      ''fi'']"

definition probeScriptTail :: string where
  "probeScriptTail =
     lines_text
     [''echo \"---OPSPULSE-CAPABILITY-END---\"'',
      ''exit 0'']"

definition path_loop :: "string list \<Rightarrow> string" where
  "path_loop quoted =
     (if quoted = [] then []
      else line [] @ line (''for opspulse_path in '' @ join_with '' '' quoted @ ''; do'') @ probeScriptPaths)"

definition image_loop :: "string list \<Rightarrow> string" where
  "image_loop quoted =
     (if quoted = [] then []
      else line [] @ line ''if command -v docker >/dev/null 2>&1 && docker info >/dev/null 2>&1; then''
        @ line (''  for opspulse_image in '' @ join_with '' '' quoted @ ''; do'') @ probeScriptImages)"

definition BuildProbeScript :: "probe_options \<Rightarrow> string res" where
  "BuildProbeScript opts =
     (case probeQuotedPaths (po_paths opts) of
        Inl e \<Rightarrow> Inl e
      | Inr quoted \<Rightarrow>
     (case probeQuotedImages (po_images opts) of
        Inl e \<Rightarrow> Inl e
      | Inr images \<Rightarrow> Inr (probeScriptHead @ path_loop quoted @ image_loop images @ probeScriptTail)))"

section \<open>The parser\<close>

definition mk_check :: "string \<Rightarrow> cap_status \<Rightarrow> string \<Rightarrow> check" where
  "mk_check name s detail =
     \<lparr>ck_name = name, ck_status = s, ck_detail = detail, ck_exists = False, ck_writable = False\<rparr>"

definition dockerCheck :: "(string \<times> string) list \<Rightarrow> check" where
  "dockerCheck vs =
     (let v = label_value vs ''DOCKER''
      in if v = ''present'' then
           (if label_value vs ''DOCKER_DAEMON'' = ''running''
            then mk_check ''docker'' StatusOK (''Docker '' @ utf8 [0x5DF2, 0x5B89, 0x88C5, 0x4E14] @ '' daemon '' @ utf8 [0x6B63, 0x5728, 0x8FD0, 0x884C])
            else mk_check ''docker'' StatusPartial (''Docker '' @ utf8 [0x5DF2, 0x5B89, 0x88C5, 0x4F46] @ '' daemon '' @ utf8 [0x672A, 0x8FD0, 0x884C]))
         else if v = ''missing'' then mk_check ''docker'' StatusMissing (utf8 [0x672A, 0x5B89, 0x88C5] @ '' Docker'' @ utf8 [0xFF0C, 0x65E0, 0x6CD5, 0x53D1, 0x73B0, 0x6216, 0x8FC1, 0x79FB, 0x4EFB, 0x4F55, 0x5BB9, 0x5668])
         else mk_check ''docker'' StatusUnknown [])"

definition composeCheck :: "(string \<times> string) list \<Rightarrow> check" where
  "composeCheck vs =
     (let v = label_value vs ''COMPOSE''
      in if v = ''plugin'' then mk_check ''compose'' StatusOK (''docker compose '' @ utf8 [0x63D2, 0x4EF6, 0x53EF, 0x7528])
         else if v = ''standalone'' then mk_check ''compose'' StatusOK (utf8 [0x72EC, 0x7ACB, 0x5F0F] @ '' docker-compose '' @ utf8 [0x53EF, 0x7528])
         else if v = ''missing''
         then mk_check ''compose'' StatusMissing (utf8 [0x672A, 0x68C0, 0x6D4B, 0x5230] @ '' docker compose / docker-compose'' @ utf8 [0xFF0C, 0x6062, 0x590D, 0x540E, 0x65E0, 0x6CD5, 0x81EA, 0x52A8, 0x542F, 0x52A8, 0x670D, 0x52A1])
         else mk_check ''compose'' StatusUnknown [])"

definition presenceCheck :: "string \<Rightarrow> string \<Rightarrow> check" where
  "presenceCheck name v =
     mk_check name (if v = ''present'' then StatusOK else if v = ''missing'' then StatusMissing else StatusUnknown) []"

definition toolChecks :: "string \<Rightarrow> string list \<Rightarrow> (string \<times> string) list \<Rightarrow> check list" where
  "toolChecks prefix tools vs = map (\<lambda>tool. presenceCheck tool (label_value vs (prefix @ tool))) tools"

definition helperImageCheck :: "(string \<times> string) list \<Rightarrow> check" where
  "helperImageCheck vs =
     (let v = label_value vs ''HELPER_IMAGE''
      in if v = ''present'' then mk_check ''helper_image'' StatusOK (utf8 [0x5377, 0x5F52, 0x6863, 0x6240, 0x9700, 0x7684] @ '' helper '' @ utf8 [0x955C, 0x50CF, 0x5DF2, 0x5B58, 0x5728])
         else if v = ''fallback'' then mk_check ''helper_image'' StatusPartial (utf8 [0x914D, 0x7F6E, 0x7684] @ '' helper '' @ utf8 [0x955C, 0x50CF, 0x7F3A, 0x5931, 0xFF0C, 0x4F46, 0x6709, 0x53EF, 0x7528, 0x7684, 0x56DE, 0x9000, 0x955C, 0x50CF])
         else if v = ''missing''
         then mk_check ''helper_image'' StatusMissing (utf8 [0x6CA1, 0x6709, 0x53EF, 0x7528, 0x7684] @ '' helper '' @ utf8 [0x955C, 0x50CF, 0xFF08] @ ''alpine/busybox'' @ utf8 [0xFF09, 0xFF0C, 0x5377, 0x5F52, 0x6863, 0x4F1A, 0x5931, 0x8D25])
         else mk_check ''helper_image'' StatusUnknown [])"

definition registryCheck :: "(string \<times> string) list \<Rightarrow> check" where
  "registryCheck vs =
     (let v = label_value vs ''REGISTRY''
      in if v = ''reachable'' then mk_check ''registry'' StatusOK (utf8 [0x76EE, 0x6807, 0x673A, 0x53EF, 0x8BBF, 0x95EE, 0x955C, 0x50CF, 0x4ED3, 0x5E93])
         else if v = ''unreachable''
         then mk_check ''registry'' StatusMissing (utf8 [0x76EE, 0x6807, 0x673A, 0x65E0, 0x6CD5, 0x8BBF, 0x95EE, 0x955C, 0x50CF, 0x4ED3, 0x5E93, 0xFF0C, 0x955C, 0x50CF, 0x5FC5, 0x987B, 0x5DF2, 0x5B58, 0x5728, 0x4E8E, 0x672C, 0x5730])
         else mk_check ''registry'' StatusUnknown [])"

text \<open>\<open>roundGB\<close> in tenths: the conversion to \<open>int64\<close> truncates.\<close>

definition roundGB :: "rat \<Rightarrow> int" where
  "roundGB kb = (let x = kb / (1024 * 1024) * 10 in if x < 0 then - \<lfloor>- x\<rfloor> else \<lfloor>x\<rfloor>)"

definition show_tenths :: "int \<Rightarrow> string" where
  "show_tenths n =
     (if n < 0 then ''-'' else []) @ show_nat (nat \<bar>n\<bar> div 10) @ ''.'' @ show_nat (nat \<bar>n\<bar> mod 10)"

definition diskWarnPct :: int where "diskWarnPct = 85"
definition diskCriticalPct :: int where "diskCriticalPct = 90"
definition diskWarnFreeGB :: int where "diskWarnFreeGB = 5"
definition diskCriticalFreeGB :: int where "diskCriticalFreeGB = 2"

definition trim_percent :: "string \<Rightarrow> string" where
  "trim_percent s = (if s \<noteq> [] \<and> last s = CHR ''%'' then butlast s else s)"

definition disk_verdict :: "int \<Rightarrow> int \<Rightarrow> int \<Rightarrow> disk_space" where
  "disk_verdict tot avail used =
     (if used \<ge> diskCriticalPct \<or> avail < 10 * diskCriticalFreeGB
      then \<lparr>ds_status = StatusMissing, ds_total = tot, ds_avail = avail, ds_used = used,
            ds_detail = (utf8 [0x78C1, 0x76D8, 0x7A7A, 0x95F4, 0x4E0D, 0x8DB3, 0xFF1A, 0x5DF2, 0x7528] @ '' '' @ show_int used @ ''%'' @ utf8 [0xFF0C, 0x53EF, 0x7528] @ '' '' @ show_tenths avail @ '' GB'')\<rparr>
      else if used \<ge> diskWarnPct \<or> avail < 10 * diskWarnFreeGB
      then \<lparr>ds_status = StatusPartial, ds_total = tot, ds_avail = avail, ds_used = used,
            ds_detail = (utf8 [0x78C1, 0x76D8, 0x504F, 0x7D27, 0xFF1A, 0x5DF2, 0x7528] @ '' '' @ show_int used @ ''%'' @ utf8 [0xFF0C, 0x53EF, 0x7528] @ '' '' @ show_tenths avail @ '' GB'')\<rparr>
      else \<lparr>ds_status = StatusOK, ds_total = tot, ds_avail = avail, ds_used = used,
            ds_detail = (utf8 [0x5DF2, 0x7528] @ '' '' @ show_int used @ ''%'' @ utf8 [0xFF0C, 0x53EF, 0x7528] @ '' '' @ show_tenths avail @ '' GB'')\<rparr>)"

definition disk_unknown :: "string \<Rightarrow> disk_space" where
  "disk_unknown detail = \<lparr>ds_status = StatusUnknown, ds_total = 0, ds_avail = 0, ds_used = 0, ds_detail = detail\<rparr>"

definition diskCheck :: "(string \<Rightarrow> rat option) \<Rightarrow> (string \<times> string) list \<Rightarrow> disk_space" where
  "diskCheck pf vs =
     (case str_fields (label_value vs ''DISK'') of
        a # b # c # d # rest \<Rightarrow>
          (case (pf a, pf c, atoi (trim_percent d)) of
             (Some tot, Some avail, Some used) \<Rightarrow> disk_verdict (roundGB tot) (roundGB avail) used
           | _ \<Rightarrow> disk_unknown (utf8 [0x65E0, 0x6CD5, 0x89E3, 0x6790, 0x78C1, 0x76D8, 0x4FE1, 0x606F]))
      | _ \<Rightarrow> disk_unknown (utf8 [0x65E0, 0x6CD5, 0x8BFB, 0x53D6, 0x78C1, 0x76D8, 0x4FE1, 0x606F]))"

definition path_check :: "string \<Rightarrow> bool \<Rightarrow> bool \<Rightarrow> check" where
  "path_check p e w =
     \<lparr>ck_name = p,
      ck_status = (if e \<and> w then StatusOK else if e \<or> w then StatusPartial else StatusMissing),
      ck_detail = (if e \<and> w then (utf8 [0x76EE, 0x5F55, 0x5B58, 0x5728, 0x4E14, 0x53EF, 0x5199])
                   else if e then (utf8 [0x76EE, 0x5F55, 0x5B58, 0x5728, 0x4F46, 0x5F53, 0x524D, 0x7528, 0x6237, 0x4E0D, 0x53EF, 0x5199])
                   else if w then (utf8 [0x76EE, 0x5F55, 0x4E0D, 0x5B58, 0x5728, 0xFF0C, 0x4F46, 0x7236, 0x76EE, 0x5F55, 0x53EF, 0x5199, 0xFF0C, 0x53EF, 0x5728, 0x8FC1, 0x79FB, 0x65F6, 0x521B, 0x5EFA])
                   else (utf8 [0x76EE, 0x5F55, 0x4E0D, 0x5B58, 0x5728, 0x4E14, 0x7236, 0x76EE, 0x5F55, 0x4E0D, 0x53EF, 0x5199])),
      ck_exists = e, ck_writable = w\<rparr>"

definition path_of_line :: "string \<Rightarrow> check option" where
  "path_of_line l =
     (case split_on (CHR ''|'') l of
        [p, e, w] \<Rightarrow> Some (path_check p (e = ''yes'') (w = ''yes''))
      | _ \<Rightarrow> None)"

definition pathChecks :: "string list \<Rightarrow> check list" where
  "pathChecks ls = List.map_filter path_of_line ls"

definition image_of_line :: "string \<Rightarrow> check option" where
  "image_of_line l =
     (case cut_at (CHR ''|'') l of
        (img, state, ok) \<Rightarrow>
          (let image = trim_space img; v = trim_space state
           in if \<not> ok \<or> image = [] then None
              else if v = ''present'' then Some (mk_check image StatusOK (utf8 [0x76EE, 0x6807, 0x673A, 0x5DF2, 0x6709, 0x8BE5, 0x955C, 0x50CF]))
              else if v = ''missing'' then Some (mk_check image StatusMissing (utf8 [0x76EE, 0x6807, 0x673A, 0x6CA1, 0x6709, 0x8BE5, 0x955C, 0x50CF, 0xFF0C, 0x9700, 0x8981] @ '' docker pull '' @ utf8 [0x6216, 0x9884, 0x7F6E]))
              else Some (mk_check image StatusUnknown [])))"

definition imageChecks :: "string list \<Rightarrow> check list" where
  "imageChecks ls = List.map_filter image_of_line ls"

definition shell_tools :: "string list" where
  "shell_tools = [''tar'', ''gzip'', ''gunzip'', ''base64'']"

definition database_tools :: "string list" where
  "database_tools = [''mysqldump'', ''mysql'', ''mariadb-dump'', ''pg_dump'', ''pg_dumpall'', ''psql'']"

definition missing_tool_hint :: "check \<Rightarrow> string list" where
  "missing_tool_hint c =
     (if ck_status c = StatusMissing then [ ((utf8 [0x8FDC, 0x7AEF, 0x7F3A, 0x5C11] @ '' '' @ ck_name c @ utf8 [0xFF1A, 0x5377, 0x5F52, 0x6863] @ ''/'' @ utf8 [0x6570, 0x636E, 0x5E93, 0x538B, 0x7F29, 0x4F1A, 0x5931, 0x8D25, 0x3002])) ] else [])"

definition missing_path_hint :: "check \<Rightarrow> string list" where
  "missing_path_hint c =
     (if ck_status c = StatusMissing then [ ((utf8 [0x8FDC, 0x7AEF, 0x8DEF, 0x5F84] @ '' '' @ ck_name c @ '' '' @ utf8 [0x4E0D, 0x53EF, 0x5199, 0xFF1A, 0x8FC1, 0x79FB, 0x524D, 0x9700, 0x521B, 0x5EFA, 0x5E76, 0x6388, 0x6743, 0x3002])) ] else [])"

definition missing_image_hint :: "check \<Rightarrow> string list" where
  "missing_image_hint c =
     (if ck_status c = StatusMissing then [ ((utf8 [0x8FDC, 0x7AEF, 0x6CA1, 0x6709, 0x955C, 0x50CF] @ '' '' @ ck_name c @ utf8 [0xFF1A, 0x8FC1, 0x79FB, 0x524D, 0x9700] @ '' docker pull '' @ utf8 [0x6216, 0x9884, 0x7F6E, 0x3002])) ] else [])"

definition reportHints :: "cap_report \<Rightarrow> string list" where
  "reportHints r =
     (if ck_status (rp_docker r) = StatusMissing then [ (utf8 [0x8FDC, 0x7AEF, 0x672A, 0x5B89, 0x88C5] @ '' Docker'' @ utf8 [0xFF1A, 0x65E0, 0x6CD5, 0x53D1, 0x73B0, 0x6216, 0x8FC1, 0x79FB, 0x5BB9, 0x5668, 0x3002]) ]
      else if ck_status (rp_docker r) = StatusPartial then [ (utf8 [0x8FDC, 0x7AEF] @ '' Docker daemon '' @ utf8 [0x672A, 0x8FD0, 0x884C, 0xFF1A, 0x8BF7, 0x5148, 0x5728, 0x76EE, 0x6807, 0x673A, 0x542F, 0x52A8] @ '' Docker'' @ utf8 [0x3002]) ] else [])
     @ (if ck_status (rp_compose r) = StatusMissing
        then [ (utf8 [0x8FDC, 0x7AEF, 0x7F3A, 0x5C11] @ '' docker compose / docker-compose'' @ utf8 [0xFF1A, 0x8FC1, 0x79FB, 0x540E, 0x65E0, 0x6CD5, 0x81EA, 0x52A8, 0x542F, 0x52A8] @ '' Compose '' @ utf8 [0x670D, 0x52A1, 0x3002]) ] else [])
     @ (if ck_status (rp_restic r) = StatusMissing then [ (utf8 [0x8FDC, 0x7AEF, 0x672A, 0x5B89, 0x88C5] @ '' restic'' @ utf8 [0xFF1A, 0x5907, 0x4EFD, 0x4E0E, 0x8FD8, 0x539F, 0x65E0, 0x6CD5, 0x6267, 0x884C, 0x3002]) ] else [])
     @ concat (map missing_tool_hint (rp_shell_tools r))
     @ (if ck_status (rp_helper r) = StatusMissing
        then [ (utf8 [0x8FDC, 0x7AEF, 0x6CA1, 0x6709, 0x53EF, 0x7528, 0x7684] @ '' helper '' @ utf8 [0x955C, 0x50CF, 0xFF08] @ ''alpine/busybox'' @ utf8 [0xFF09, 0xFF1A, 0x5377, 0x5F52, 0x6863, 0x4F1A, 0x5931, 0x8D25, 0xFF1B, 0x53EF, 0x9884, 0x7F6E, 0x955C, 0x50CF, 0x6216, 0x7528] @ '' OPSPULSE_HELPER_IMAGE '' @ utf8 [0x6307, 0x5B9A, 0x3002]) ]
        else if ck_status (rp_helper r) = StatusPartial
        then [ (utf8 [0x8FDC, 0x7AEF, 0x7F3A, 0x5C11, 0x914D, 0x7F6E, 0x7684] @ '' helper '' @ utf8 [0x955C, 0x50CF, 0xFF0C, 0x4F46, 0x6709, 0x53EF, 0x7528, 0x7684, 0x56DE, 0x9000, 0x955C, 0x50CF, 0xFF1B, 0x5EFA, 0x8BAE, 0x9884, 0x7F6E] @ '' alpine:3.20'' @ utf8 [0x3002]) ] else [])
     @ (if ck_status (rp_registry r) = StatusMissing
        then [ (utf8 [0x8FDC, 0x7AEF, 0x65E0, 0x6CD5, 0x8BBF, 0x95EE, 0x955C, 0x50CF, 0x4ED3, 0x5E93, 0xFF1A, 0x955C, 0x50CF, 0x5FC5, 0x987B, 0x5DF2, 0x5B58, 0x5728, 0x4E8E, 0x672C, 0x5730, 0xFF0C, 0x5426, 0x5219, 0x8FC1, 0x79FB, 0x65E0, 0x6CD5, 0x62C9, 0x53D6, 0x3002]) ] else [])
     @ (if ds_status (rp_disk r) \<in> {StatusMissing, StatusPartial}
        then [ ((utf8 [0x8FDC, 0x7AEF, 0x78C1, 0x76D8, 0x7A7A, 0x95F4, 0x7D27, 0x5F20, 0xFF08] @ ds_detail (rp_disk r) @ utf8 [0xFF09, 0xFF1A, 0x8FC1, 0x79FB, 0x524D, 0x8BF7, 0x6E05, 0x7406, 0x6216, 0x6269, 0x5BB9, 0x3002])) ] else [])
     @ concat (map missing_path_hint (rp_paths r))
     @ concat (map missing_image_hint (rp_images r))"

text \<open>The values, the path lines and the image lines of the output; a later value of a key replaces an earlier one.\<close>

record probe_lines =
  pl_values :: "(string \<times> string) list"
  pl_paths :: "string list"
  pl_images :: "string list"

definition probe_line :: "probe_lines \<Rightarrow> string \<Rightarrow> probe_lines" where
  "probe_line acc l =
     (case cut_at (CHR ''='') (trim_space l) of
        (key, v, ok) \<Rightarrow>
          (if \<not> ok then acc
           else if key = ''PATH'' then acc\<lparr>pl_paths := pl_paths acc @ [v]\<rparr>
           else if key = ''IMAGE'' then acc\<lparr>pl_images := pl_images acc @ [v]\<rparr>
           else acc\<lparr>pl_values := (key, v) # pl_values acc\<rparr>))"

definition scan_probe :: "string \<Rightarrow> probe_lines" where
  "scan_probe raw = foldl probe_line \<lparr>pl_values = [], pl_paths = [], pl_images = []\<rparr> (split_on (CHR 0x0A) raw)"

definition ParseProbeOutput :: "(string \<Rightarrow> rat option) \<Rightarrow> string \<Rightarrow> string \<Rightarrow> cap_report" where
  "ParseProbeOutput pf server raw =
     (let ls = scan_probe raw; vs = pl_values ls;
          report =
            \<lparr>rp_server = server, rp_reachable = True, rp_os = label_value vs ''OS'', rp_arch = label_value vs ''ARCH'',
             rp_docker = dockerCheck vs, rp_compose = composeCheck vs,
             rp_restic = presenceCheck ''restic'' (label_value vs ''RESTIC''),
             rp_shell_tools = toolChecks ''TOOL_'' shell_tools vs,
             rp_database_tools = toolChecks ''DBTOOL_'' database_tools vs,
             rp_helper = helperImageCheck vs, rp_registry = registryCheck vs, rp_disk = diskCheck pf vs,
             rp_paths = pathChecks (pl_paths ls), rp_images = imageChecks (pl_images ls), rp_notes = []\<rparr>
      in report\<lparr>rp_notes := reportHints report\<rparr>)"

section \<open>Remote operations\<close>

definition clip_line :: "string \<Rightarrow> string" where
  "clip_line l = (if length l > 200 then take 200 l @ ''...'' else l)"

definition outputSuffix :: "string \<Rightarrow> string" where
  "outputSuffix out =
     (case filter (\<lambda>l. l \<noteq> []) (map trim_space (split_on (CHR 0x0A) out)) of
        [] \<Rightarrow> []
      | l # ls \<Rightarrow> '': '' @ clip_line l)"

definition isMissingContainerOutput :: "string \<Rightarrow> bool" where
  "isMissingContainerOutput out \<longleftrightarrow> contains_str out ''No such object'' \<or> contains_str out ''No such container''"

text \<open>A non-nil result that did not succeed.\<close>

definition unsuccessful :: "exec_result option \<Rightarrow> exec_result option" where
  "unsuccessful res = (case res of None \<Rightarrow> None | Some x \<Rightarrow> if er_success x then None else Some x)"

definition remote_probe ::
    "(string \<Rightarrow> rat option) \<Rightarrow> remote_exec \<Rightarrow> target \<Rightarrow> probe_options \<Rightarrow> executed \<Rightarrow> cap_report res \<times> executed" where
  "remote_probe pf exec tgt opts tr =
     (case BuildProbeScript opts of
        Inl e \<Rightarrow> (Inl e, tr)
      | Inr script \<Rightarrow>
          (let task = ''docker-capability-probe''; tr1 = tr @ [(tgt, task, script)]
           in case exec tr tgt task script of
                (res, Some e, out) \<Rightarrow> (Inl (wrap ((''capability probe on '' @ go_quote (t_name tgt) @ '' failed: '')) e []), tr1)
              | (res, None, out) \<Rightarrow>
                  (case unsuccessful res of
                     Some x \<Rightarrow> (Inl (errors_new ((''capability probe on '' @ go_quote (t_name tgt) @ '' exited with code '' @ show_int (er_exit x) @ '': '' @ show_error (er_error x)))), tr1)
                   | None \<Rightarrow> (Inr (ParseProbeOutput pf (t_name tgt) out), tr1))))"

definition remote_list ::
    "(string \<Rightarrow> raw_ps_line res) \<Rightarrow> remote_exec \<Rightarrow> target \<Rightarrow> bool \<Rightarrow> executed \<Rightarrow> container_summary list res \<times> executed" where
  "remote_list pj exec tgt includeStopped tr =
     (let task = ''docker-ps''; script = BuildListScript includeStopped; tr1 = tr @ [(tgt, task, script)]
      in case exec tr tgt task script of
           (res, err, out) \<Rightarrow>
             (if contains_str out dockerMissingSentinel
              then Inl (wrap [] (sentinel_error ErrDockerMissing) ('' ('' @ t_name tgt @ '')''))
              else case err of
                Some e \<Rightarrow> Inl (wrap ((''failed to list containers on '' @ go_quote (t_name tgt) @ '': '')) e (outputSuffix out))
              | None \<Rightarrow>
                  (case unsuccessful res of
                     Some x \<Rightarrow> Inl (errors_new ((''docker ps failed on '' @ go_quote (t_name tgt) @ '': '' @ show_error (er_error x) @ outputSuffix out)))
                   | None \<Rightarrow> ParsePsJSON pj out), tr1))"

definition remote_inspect ::
    "(string \<Rightarrow> raw_container list res) \<Rightarrow> (string \<Rightarrow> raw_container res) \<Rightarrow> remote_exec \<Rightarrow> target \<Rightarrow> string \<Rightarrow> executed
     \<Rightarrow> container_info res \<times> executed" where
  "remote_inspect pl p1 exec tgt name0 tr =
     (let name = trim_space name0
      in if name = [] then (Inl (errors_new ''container name cannot be empty''), tr)
         else (let task = ''docker-inspect''; script = BuildInspectScript name; tr1 = tr @ [(tgt, task, script)]
               in case exec tr tgt task script of
                    (res, err, out) \<Rightarrow>
                      (if contains_str out dockerMissingSentinel
                       then Inl (wrap [] (sentinel_error ErrDockerMissing) ('' ('' @ t_name tgt @ '')''))
                       else if (err \<noteq> None \<or> unsuccessful res \<noteq> None) \<and> isMissingContainerOutput out
                       then Inl (wrap [] (sentinel_error ErrContainerNotFound)
                              (('': container '' @ go_quote name @ '' on '' @ go_quote (t_name tgt))))
                       else case err of
                         Some e \<Rightarrow> Inl (wrap ((''failed to inspect container '' @ go_quote name @ '' on '' @ go_quote (t_name tgt) @ '': '')) e (outputSuffix out))
                       | None \<Rightarrow>
                           (case unsuccessful res of
                              Some x \<Rightarrow> Inl (errors_new ((''docker inspect '' @ go_quote name @ '' failed on '' @ go_quote (t_name tgt) @ '': '' @ show_error (er_error x) @ outputSuffix out)))
                            | None \<Rightarrow>
                                (case ParseInspectJSON pl p1 out of
                                   Inl e \<Rightarrow> Inl (wrap ((''failed to parse inspect metadata for '' @ go_quote name @ '': '')) e [])
                                 | Inr info \<Rightarrow> Inr info)), tr1)))"

section \<open>Lemmas\<close>

text \<open>A line \<open>k=v\<close> of the output.\<close>

definition reported :: "string \<Rightarrow> string \<Rightarrow> string \<Rightarrow> bool" where
  "reported raw k v \<longleftrightarrow> (\<exists>l\<in>set (split_on (CHR 0x0A) raw). trim_space l = k @ CHR ''='' # v)"

definition path_value :: "string \<Rightarrow> string option" where
  "path_value l = (case cut_at (CHR ''='') (trim_space l) of (key, v, ok) \<Rightarrow> if ok \<and> key = ''PATH'' then Some v else None)"

lemma scan_paths: "pl_paths (foldl probe_line acc ls) = pl_paths acc @ List.map_filter path_value ls"
  by (induction ls arbitrary: acc)
    (auto simp: probe_line_def path_value_def List.map_filter_def split: prod.splits)

lemma scan_values_from:
  "(k, v) \<in> set (pl_values (foldl probe_line acc ls)) \<Longrightarrow>
     (k, v) \<in> set (pl_values acc) \<or> (\<exists>l\<in>set ls. trim_space l = k @ CHR ''='' # v)"
proof (induction ls arbitrary: acc)
  case (Cons l ls)
  have step: "(k, v) \<in> set (pl_values (probe_line acc l)) \<Longrightarrow>
      (k, v) \<in> set (pl_values acc) \<or> trim_space l = k @ CHR ''='' # v"
    using cut_at_found[of "CHR ''=''" "trim_space l"]
    by (auto simp: probe_line_def split: prod.splits if_splits)
  show ?case using Cons.IH[of "probe_line acc l"] Cons.prems step by auto
qed simp

lemma label_value_in: "label_value vs k = v \<Longrightarrow> v \<noteq> [] \<Longrightarrow> (k, v) \<in> set vs"
  by (auto simp: label_value_def split: option.splits dest: map_of_SomeD)

lemma value_reported:
  assumes "label_value (pl_values (scan_probe raw)) k = v" "v \<noteq> []"
  shows "reported raw k v"
  using scan_values_from[of k v "\<lparr>pl_values = [], pl_paths = [], pl_images = []\<rparr>"] label_value_in[OF assms]
  by (auto simp: scan_probe_def reported_def)

lemma path_check_status: "ck_status (path_check p e w) = StatusOK \<longleftrightarrow> e \<and> w"
  by (simp add: path_check_def)

lemma path_checks_reported:
  assumes "c \<in> set (pathChecks (pl_paths (scan_probe raw)))"
  shows "\<exists>e w. reported raw ''PATH'' (ck_name c @ CHR ''|'' # e @ CHR ''|'' # w)
    \<and> c = path_check (ck_name c) (e = ''yes'') (w = ''yes'')"
proof -
  obtain l where l: "l \<in> set (split_on (CHR 0x0A) raw)" "path_value l \<noteq> None" "path_of_line (the (path_value l)) = Some c"
    using assms by (auto simp: pathChecks_def scan_probe_def scan_paths List.map_filter_def)
  obtain val where v: "cut_at (CHR ''='') (trim_space l) = (''PATH'', val, True)" "path_value l = Some val"
    using l(2) by (auto simp: path_value_def split: prod.splits if_splits)
  obtain p e w where s: "split_on (CHR ''|'') val = [p, e, w]" "c = path_check p (e = ''yes'') (w = ''yes'')"
    using l(3) v(2) by (auto simp: path_of_line_def split: list.splits)
  have "val = p @ CHR ''|'' # e @ CHR ''|'' # w"
    using join_split_on[of "CHR ''|''" val] s(1) by simp
  moreover have "trim_space l = ''PATH'' @ CHR ''='' # val" using cut_at_found[OF v(1)] by simp
  ultimately have r: "reported raw ''PATH'' (p @ CHR ''|'' # e @ CHR ''|'' # w)"
    using l(1) unfolding reported_def by metis
  have n: "ck_name c = p" by (simp add: s(2) path_check_def)
  show ?thesis unfolding n using r s(2) by blast
qed

text \<open>What the shell loop prints for one path.\<close>

definition yes_no :: "bool \<Rightarrow> string" where
  "yes_no b = (if b then ''yes'' else ''no'')"

definition path_line :: "string \<times> bool \<times> bool \<Rightarrow> string" where
  "path_line f = (case f of (p, e, w) \<Rightarrow> ''PATH='' @ p @ CHR ''|'' # yes_no e @ CHR ''|'' # yes_no w)"

lemma split_on_lines:
  "(\<And>l. l \<in> set ls \<Longrightarrow> CHR 0x0A \<notin> set l) \<Longrightarrow> split_on (CHR 0x0A) (lines_text ls) = ls @ [[]]"
  by (induction ls) (simp_all add: lines_text_def line_def split_on_append)

lemma yes_no_last: "last (yes_no b) \<in> {CHR ''s'', CHR ''o''}" "yes_no b \<noteq> []"
  by (simp_all add: yes_no_def)

lemma path_line_value:
  "path_value (path_line (p, e, w)) = Some (p @ CHR ''|'' # yes_no e @ CHR ''|'' # yes_no w)"
proof -
  have l: "last (path_line (p, e, w)) \<in> {CHR ''s'', CHR ''o''}" using yes_no_last[of w] by (simp add: path_line_def)
  have t: "trim_space (path_line (p, e, w)) = path_line (p, e, w)"
    by (rule trim_space_no_edge_space) (use l in \<open>auto simp: path_line_def ws1_def code_of_def\<close>)
  show ?thesis unfolding path_value_def t by (simp add: path_line_def)
qed

lemma path_line_check:
  assumes "CHR ''|'' \<notin> set p"
  shows "path_of_line (p @ CHR ''|'' # yes_no e @ CHR ''|'' # yes_no w) = Some (path_check p e w)"
  using assms by (simp add: path_of_line_def split_on_append yes_no_def)

lemma path_line_newline: "CHR 0x0A \<in> set (path_line f) \<longleftrightarrow> CHR 0x0A \<in> set (fst f)"
  by (cases f) (auto simp: path_line_def yes_no_def split: if_splits)

lemma path_value_Nil [simp]: "path_value [] = None"
  by (simp add: path_value_def)

lemma probeQuotedPaths_spec:
  "probeQuotedPaths xs = Inr qs \<Longrightarrow>
     qs = map quote (filter (\<lambda>p. p \<noteq> []) (map trim_space xs))
     \<and> (\<forall>p\<in>set (filter (\<lambda>p. p \<noteq> []) (map trim_space xs)). probePathErr p = None)"
  by (induction xs arbitrary: qs) (auto simp: Let_def split: if_splits option.splits sum.splits)

lemma probePathErr_None: "probePathErr p = None \<longleftrightarrow> CHR 0x0A \<notin> set p \<and> CHR 0x0D \<notin> set p \<and> CHR ''|'' \<notin> set p"
  by (simp add: probePathErr_def)

section \<open>Properties\<close>

text \<open>A capability is never reported as usable without evidence: for each positive verdict of the report the output of the
  probe holds the line that says so, whatever else it holds; and a disk passes only below 85 percent with 5 GB free.\<close>

theorem capability_needs_evidence:
  assumes "r = ParseProbeOutput pf server raw"
  shows "(ck_status (rp_docker r) = StatusOK \<longrightarrow> reported raw ''DOCKER'' ''present'' \<and> reported raw ''DOCKER_DAEMON'' ''running'')
    \<and> (ck_status (rp_compose r) = StatusOK \<longrightarrow> reported raw ''COMPOSE'' ''plugin'' \<or> reported raw ''COMPOSE'' ''standalone'')
    \<and> (ck_status (rp_restic r) = StatusOK \<longrightarrow> reported raw ''RESTIC'' ''present'')
    \<and> (ck_status (rp_helper r) = StatusOK \<longrightarrow> reported raw ''HELPER_IMAGE'' ''present'')
    \<and> (ck_status (rp_registry r) = StatusOK \<longrightarrow> reported raw ''REGISTRY'' ''reachable'')
    \<and> (ds_status (rp_disk r) = StatusOK \<longrightarrow> ds_used (rp_disk r) < 85 \<and> 50 \<le> ds_avail (rp_disk r))
    \<and> (\<forall>c\<in>set (rp_paths r). ck_status c = StatusOK \<longrightarrow> reported raw ''PATH'' (ck_name c @ ''|yes|yes''))"
proof (intro conjI impI ballI)
  note v = value_reported[of raw]
  show "reported raw ''DOCKER'' ''present''" "reported raw ''DOCKER_DAEMON'' ''running''" if "ck_status (rp_docker r) = StatusOK"
    using that v[of "''DOCKER''" "''present''"] v[of "''DOCKER_DAEMON''" "''running''"] unfolding assms
    by (auto simp: ParseProbeOutput_def dockerCheck_def mk_check_def Let_def split: if_splits)
  show "reported raw ''COMPOSE'' ''plugin'' \<or> reported raw ''COMPOSE'' ''standalone''" if "ck_status (rp_compose r) = StatusOK"
    using that v[of "''COMPOSE''" "''plugin''"] v[of "''COMPOSE''" "''standalone''"] unfolding assms
    by (auto simp: ParseProbeOutput_def composeCheck_def mk_check_def Let_def split: if_splits)
  show "reported raw ''RESTIC'' ''present''" if "ck_status (rp_restic r) = StatusOK"
    using that v[of "''RESTIC''" "''present''"] unfolding assms
    by (auto simp: ParseProbeOutput_def presenceCheck_def mk_check_def Let_def split: if_splits)
  show "reported raw ''HELPER_IMAGE'' ''present''" if "ck_status (rp_helper r) = StatusOK"
    using that v[of "''HELPER_IMAGE''" "''present''"] unfolding assms
    by (auto simp: ParseProbeOutput_def helperImageCheck_def mk_check_def Let_def split: if_splits)
  show "reported raw ''REGISTRY'' ''reachable''" if "ck_status (rp_registry r) = StatusOK"
    using that v[of "''REGISTRY''" "''reachable''"] unfolding assms
    by (auto simp: ParseProbeOutput_def registryCheck_def mk_check_def Let_def split: if_splits)
  show "ds_used (rp_disk r) < 85" "50 \<le> ds_avail (rp_disk r)" if "ds_status (rp_disk r) = StatusOK"
    using that unfolding assms
    by (auto simp: ParseProbeOutput_def diskCheck_def disk_verdict_def disk_unknown_def Let_def diskCriticalPct_def
        diskCriticalFreeGB_def diskWarnPct_def diskWarnFreeGB_def split: if_splits list.splits option.splits)
  show "reported raw ''PATH'' (ck_name c @ ''|yes|yes'')" if c: "c \<in> set (rp_paths r)" "ck_status c = StatusOK" for c
  proof -
    have "c \<in> set (pathChecks (pl_paths (scan_probe raw)))"
      using c(1) unfolding assms by (simp add: ParseProbeOutput_def Let_def)
    then obtain e w where x: "reported raw ''PATH'' (ck_name c @ CHR ''|'' # e @ CHR ''|'' # w)"
      "c = path_check (ck_name c) (e = ''yes'') (w = ''yes'')"
      using path_checks_reported by blast
    have "e = ''yes''" "w = ''yes''"
      using path_check_status[of "ck_name c" "e = ''yes''" "w = ''yes''"] c(2) x(2)[symmetric] by simp_all
    with x(1) show ?thesis by simp
  qed
qed

text \<open>The probe of host paths is exact. The script asks for the given paths, trimmed and without the empty ones, and the
  shell reads each as one word; when its loop reports the facts about these paths, one line each, the report has exactly
  one check per path, in order and with these facts, whatever the rest of the output is.\<close>

theorem probe_paths_exact:
  assumes "BuildProbeScript opts = Inr script"
    and "map fst facts = filter (\<lambda>p. p \<noteq> []) (map trim_space (po_paths opts))"
    and "\<forall>l\<in>set before \<union> set after. CHR 0x0A \<notin> set l \<and> path_value l = None"
  shows "\<exists>images. script = probeScriptHead @ path_loop (map quote (map fst facts)) @ image_loop images @ probeScriptTail
    \<and> (facts \<noteq> [] \<longrightarrow> sh_words (join_with '' '' (map quote (map fst facts))) = Some (map fst facts))
    \<and> rp_paths (ParseProbeOutput pf server (lines_text (before @ map path_line facts @ after)))
        = map (\<lambda>(p, e, w). path_check p e w) facts"
proof -
  obtain qs images where q: "probeQuotedPaths (po_paths opts) = Inr qs"
    "script = probeScriptHead @ path_loop qs @ image_loop images @ probeScriptTail"
    using assms(1) by (auto simp: BuildProbeScript_def split: sum.splits)
  have qs: "qs = map quote (map fst facts)" and clean: "\<forall>p\<in>set (map fst facts). probePathErr p = None"
    using probeQuotedPaths_spec[OF q(1)] unfolding assms(2) by blast+
  have words: "sh_words (join_with '' '' (map quote (map fst facts))) = Some (map fst facts)" if ne: "facts \<noteq> []"
  proof -
    obtain x xs where "map fst facts = x # xs" using ne by (cases facts) auto
    then show ?thesis using sh_words_quotes[of x xs] by simp
  qed
  have nl: "CHR 0x0A \<notin> set l" if "l \<in> set (before @ map path_line facts @ after)" for l
    using that clean assms(3) path_line_newline by (fastforce simp: probePathErr_None)
  have none: "List.map_filter path_value ls = []" if "\<forall>l\<in>set ls. path_value l = None" for ls
    using that by (simp add: List.map_filter_def)
  have vals: "List.map_filter path_value (map path_line facts)
      = map (\<lambda>(p, e, w). p @ CHR ''|'' # yes_no e @ CHR ''|'' # yes_no w) facts"
    by (induction facts) (auto simp: List.map_filter_def path_line_value)
  have sp: "split_on (CHR 0x0A) (lines_text (before @ map path_line facts @ after)) = (before @ map path_line facts @ after) @ [[]]"
    by (rule split_on_lines) (rule nl)
  have "pl_paths (scan_probe (lines_text (before @ map path_line facts @ after)))
      = List.map_filter path_value (before @ map path_line facts @ after @ [[]])"
    unfolding scan_probe_def sp scan_paths by simp
  also have "\<dots> = map (\<lambda>(p, e, w). p @ CHR ''|'' # yes_no e @ CHR ''|'' # yes_no w) facts"
    using none[of before] none[of "after @ [[]]"] vals assms(3) by (simp add: List.map_filter_def)
  finally have p: "pl_paths (scan_probe (lines_text (before @ map path_line facts @ after)))
      = map (\<lambda>(p, e, w). p @ CHR ''|'' # yes_no e @ CHR ''|'' # yes_no w) facts" .
  have "pathChecks (map (\<lambda>(p, e, w). p @ CHR ''|'' # yes_no e @ CHR ''|'' # yes_no w) facts)
      = map (\<lambda>(p, e, w). path_check p e w) facts"
    using clean by (induction facts) (auto simp: pathChecks_def List.map_filter_def path_line_check probePathErr_None)
  then have "rp_paths (ParseProbeOutput pf server (lines_text (before @ map path_line facts @ after)))
      = map (\<lambda>(p, e, w). path_check p e w) facts"
    by (simp add: ParseProbeOutput_def Let_def p)
  then show ?thesis using q(2) words unfolding qs by blast
qed

section \<open>Witnesses\<close>

theorem capability_needs_evidence_witness:
  "ck_status (rp_docker (ParseProbeOutput (\<lambda>s. None) ''web1'' (lines_text [''DOCKER=present'', ''DOCKER_DAEMON=running'']))) = StatusOK
   \<and> reported (lines_text [''DOCKER=present'', ''DOCKER_DAEMON=running'']) ''DOCKER'' ''present''"
proof -
  have v: "pl_values (scan_probe (lines_text [''DOCKER=present'', ''DOCKER_DAEMON=running'']))
      = [(''DOCKER_DAEMON'', ''running''), (''DOCKER'', ''present'')]"
    by code_simp
  have "ck_status (rp_docker (ParseProbeOutput (\<lambda>s. None) ''web1'' (lines_text [''DOCKER=present'', ''DOCKER_DAEMON=running'']))) = StatusOK"
    by (simp add: ParseProbeOutput_def Let_def v dockerCheck_def label_value_def mk_check_def)
  then show ?thesis using capability_needs_evidence[OF refl] by blast
qed

theorem probe_paths_exact_witness:
  "rp_paths (ParseProbeOutput (\<lambda>s. None) ''web1'' (lines_text ([''OS=Linux''] @ map path_line [(''/srv/a b'', True, False)] @ [])))
     = [path_check ''/srv/a b'' True False]"
proof -
  have t: "trim_space '' /srv/a b'' = ''/srv/a b''" by code_simp
  obtain script where s: "BuildProbeScript \<lparr>po_paths = ['' /srv/a b'', []], po_images = []\<rparr> = Inr script"
    by (simp add: BuildProbeScript_def probePathErr_def Let_def t)
  have n: "path_value ''OS=Linux'' = None" by code_simp
  show ?thesis
    using probe_paths_exact[OF s, of "[(''/srv/a b'', True, False)]" "[''OS=Linux'']" "[]"] by (auto simp: t n)
qed

end
