(* ===== verification/Health.thy ===== *)
theory Health
  imports Capability
begin

text \<open>
  \<open>internal/capability/health.go\<close>: the check of the services that a migration started. The probe script, the parser
  of its output and the verdict per service. An output line carries the index of its target; the maps of the parser are
  association lists whose first entry wins, as the last line of a key does.
\<close>

section \<open>Checks and reports\<close>

datatype health_kind = HealthKindContainer | HealthKindPorts | HealthKindDatabase | HealthKindHTTP
datatype health_status = HealthOK | HealthFailed | HealthManual | HealthSkipped

record health_check =
  hc_kind :: health_kind
  hc_label :: string
  hc_status :: health_status
  hc_detail :: string
  hc_next :: string

record service_health =
  sh_service :: string
  sh_container :: string
  sh_healthy :: bool
  sh_checks :: "health_check list"

record health_report =
  hr_server :: string
  hr_services :: "service_health list"

record health_target =
  ht_service :: string
  ht_container :: string
  ht_project :: string
  ht_compose_service :: string
  ht_ports :: "string list"
  ht_engine :: string
  ht_url :: string

record health_options =
  ho_targets :: "health_target list"
  ho_retries :: int
  ho_interval :: int

definition FailedChecks :: "service_health \<Rightarrow> health_check list" where
  "FailedChecks s = filter (\<lambda>c. hc_status c = HealthFailed) (sh_checks s)"

definition ManualChecks :: "service_health \<Rightarrow> health_check list" where
  "ManualChecks s = filter (\<lambda>c. hc_status c = HealthManual) (sh_checks s)"

definition Unhealthy :: "health_report \<Rightarrow> service_health list" where
  "Unhealthy r = filter (\<lambda>s. \<not> sh_healthy s) (hr_services r)"

definition FailedServices :: "health_report \<Rightarrow> service_health list" where
  "FailedServices r = filter (\<lambda>s. FailedChecks s \<noteq> []) (hr_services r)"

definition Unverified :: "health_report \<Rightarrow> service_health list" where
  "Unverified r = filter (\<lambda>s. FailedChecks s = [] \<and> ManualChecks s \<noteq> []) (hr_services r)"

section \<open>The script\<close>

definition defaultHealthRetries :: int where "defaultHealthRetries = 15"
definition defaultHealthInterval :: int where "defaultHealthInterval = 2"

definition healthRetrySettings :: "health_options \<Rightarrow> int \<times> int" where
  "healthRetrySettings opts =
     (if ho_retries opts \<le> 0 then defaultHealthRetries else ho_retries opts,
      if ho_interval opts \<le> 0 then defaultHealthInterval else ho_interval opts)"

definition splitHealthPort :: "string \<Rightarrow> string \<times> string" where
  "splitHealthPort spec =
     (let host = trim_space spec
      in case cut_at slash host of
           (a, b, found) \<Rightarrow> if found then (trim_space a, to_lower (trim_space b)) else (host, ''tcp''))"

definition databaseProbeCommand :: "string \<Rightarrow> string" where
  "databaseProbeCommand engine =
     (if engine = ''mysql'' then
        ''user=\"${MYSQL_USER:-root}\"; export MYSQL_PWD=\"${MYSQL_ROOT_PASSWORD:-${MARIADB_ROOT_PASSWORD:-${MYSQL_PASSWORD:-}}}\"; mysqladmin ping -u \"$user\" --silent''
      else if engine = ''postgres'' then ''pg_isready -U \"${POSTGRES_USER:-postgres}\"''
      else [])"

definition databaseProbeTool :: "string \<Rightarrow> string" where
  "databaseProbeTool engine =
     (if engine = ''mysql'' then ''mysqladmin ping'' else if engine = ''postgres'' then ''pg_isready'' else engine)"

definition field_error :: "string \<times> string \<Rightarrow> go_error option" where
  "field_error f =
     (case f of (name, v) \<Rightarrow>
        (if CHR 0x0A \<in> set v \<or> CHR 0x0D \<in> set v \<or> CHR ''|'' \<in> set v
         then Some (errors_new ((''invalid health target '' @ name @ '' '' @ go_quote v @ '': must not contain newlines or '|'' @ [squote])))
         else None))"

definition port_error :: "string \<Rightarrow> go_error option" where
  "port_error port =
     (case splitHealthPort port of
        (host, protocol) \<Rightarrow>
          (case atoi host of
             Some n \<Rightarrow>
               (if n < 1 \<or> n > 65535
                then Some (errors_new ((''invalid health target port '' @ go_quote port @ '': host port must be 1-65535'')))
                else if protocol \<noteq> ''tcp'' \<and> protocol \<noteq> ''udp''
                then Some (errors_new ((''invalid health target port '' @ go_quote port @ '': protocol must be tcp or udp'')))
                else None)
           | None \<Rightarrow> Some (errors_new ((''invalid health target port '' @ go_quote port @ '': host port must be 1-65535'')))))"

definition engine_error :: "string \<Rightarrow> go_error option" where
  "engine_error raw =
     (let engine = trim_space raw
      in if engine \<noteq> [] \<and> databaseProbeCommand engine = []
         then Some (errors_new ((''unsupported health target database engine '' @ go_quote engine))) else None)"

definition url_error :: "string \<Rightarrow> go_error option" where
  "url_error raw =
     (let url = trim_space raw
      in if url = [] then None
         else if \<not> has_prefix url ''http://'' \<and> \<not> has_prefix url ''https://''
         then Some (errors_new ((''invalid health check URL '' @ go_quote url @ '': must start with http:// or https://'')))
         else if CHR 0x0A \<in> set url \<or> CHR 0x0D \<in> set url \<or> CHR ''|'' \<in> set url
         then Some (errors_new ((''invalid health check URL '' @ go_quote url @ '': must not contain newlines or '|'' @ [squote])))
         else None)"

definition validateHealthTarget :: "health_target \<Rightarrow> go_error option" where
  "validateHealthTarget t =
     first_some
       (map field_error [(''service'', ht_service t), (''container'', ht_container t),
                         (''compose_project'', ht_project t), (''compose_service'', ht_compose_service t)]
        @ map port_error (ht_ports t) @ [engine_error (ht_engine t), url_error (ht_url t)])"

definition resolve_container :: "health_target \<Rightarrow> string" where
  "resolve_container t =
     (if ht_project t \<noteq> [] \<and> ht_compose_service t \<noteq> []
      then (''opspulse_container=$(opspulse_compose_container '' @ quote (''label=com.docker.compose.project='' @ ht_project t) @ '' '' @ quote (''label=com.docker.compose.service='' @ ht_compose_service t) @ '' '' @ quote (ht_container t) @ '')'')
      else ''opspulse_container='' @ quote (ht_container t))"

definition healthContainerScript :: "nat \<Rightarrow> health_target \<Rightarrow> string" where
  "healthContainerScript i t =
     lines_text
     [''if [ \"$OPSPULSE_DOCKER_OK\" -ne 1 ]; then'',
      ''  echo \"CONTAINER|'' @ show_nat i @ ''||unknown|unknown|unknown|\"'',
      ''else'',
      ''  '' @ resolve_container t,
      ''  if [ -z \"$opspulse_container\" ]; then'',
      ''    echo \"CONTAINER|'' @ show_nat i @ ''||unknown|unknown|unknown|\"'',
      ''  else'',
      ''    opspulse_inspect=$(docker inspect --type container --format '{{.State.Status}}|{{.State.Restarting}}|{{.RestartCount}}|{{.State.StartedAt}}' \"$opspulse_container\" 2>/dev/null)'',
      ''    if [ -z \"$opspulse_inspect\" ]; then'',
      ''      echo \"CONTAINER|'' @ show_nat i @ ''|$opspulse_container|missing|unknown|unknown|\"'',
      ''    else'',
      ''      echo \"CONTAINER|'' @ show_nat i @ ''|$opspulse_container|$opspulse_inspect\"'',
      ''    fi'',
      ''  fi'',
      ''fi'']"

definition port_section :: "nat \<Rightarrow> string \<Rightarrow> string" where
  "port_section i port =
     lines_text
     [''if ! command -v ss >/dev/null 2>&1 && ! command -v netstat >/dev/null 2>&1; then'',
      ''  echo \"PORT|'' @ show_nat i @ ''|'' @ port @ ''|unknown\"'',
      ''elif opspulse_port_listening '' @ quote (fst (splitHealthPort port)) @ '' '' @ quote (snd (splitHealthPort port)) @ ''; then'',
      ''  echo \"PORT|'' @ show_nat i @ ''|'' @ port @ ''|yes\"'',
      ''else'',
      ''  echo \"PORT|'' @ show_nat i @ ''|'' @ port @ ''|no\"'',
      ''fi'']"

definition database_section :: "nat \<Rightarrow> string \<Rightarrow> int \<Rightarrow> int \<Rightarrow> string" where
  "database_section i engine retries interval =
     lines_text
     [''if [ \"$OPSPULSE_DOCKER_OK\" -ne 1 ] || [ -z \"$opspulse_container\" ]; then'',
      ''  echo \"DB|'' @ show_nat i @ ''|'' @ engine @ ''|unknown\"'',
      ''else'',
      ''  opspulse_db=no'',
      ''  opspulse_try=0'',
      ''  while [ \"$opspulse_try\" -lt '' @ show_int retries @ '' ]; do'',
      ''    if docker exec \"$opspulse_container\" sh -c '' @ quote (databaseProbeCommand engine) @ '' >/dev/null 2>&1; then'',
      ''      opspulse_db=yes'',
      ''      break'',
      ''    fi'',
      ''    opspulse_try=$((opspulse_try + 1))'',
      ''    sleep '' @ show_int interval,
      ''  done'',
      ''  echo \"DB|'' @ show_nat i @ ''|'' @ engine @ ''|$opspulse_db\"'',
      ''fi'']"

definition http_section :: "nat \<Rightarrow> string \<Rightarrow> int \<Rightarrow> int \<Rightarrow> string" where
  "http_section i url retries interval =
     lines_text
     [''opspulse_url='' @ quote url,
      ''if ! command -v curl >/dev/null 2>&1; then'',
      ''  echo \"HTTP|'' @ show_nat i @ ''|$opspulse_url|tool-missing|no\"'',
      ''else'',
      ''  opspulse_http=no'',
      ''  opspulse_code='',
      ''  opspulse_try=0'',
      ''  while [ \"$opspulse_try\" -lt '' @ show_int retries @ '' ]; do'',
      ''    opspulse_code=$(curl -s -o /dev/null -w '' @ [squote] @ ''%'' @ ''{http_code}' --max-time 5 \"$opspulse_url\" 2>/dev/null)'',
      ''    case \"$opspulse_code\" in'',
      ''      2*|3*) opspulse_http=yes; break ;;'',
      ''    esac'',
      ''    opspulse_try=$((opspulse_try + 1))'',
      ''    sleep '' @ show_int interval,
      ''  done'',
      ''  echo \"HTTP|'' @ show_nat i @ ''|$opspulse_url|$opspulse_code|$opspulse_http\"'',
      ''fi'']"

definition healthTargetScript :: "nat \<Rightarrow> health_target \<Rightarrow> int \<Rightarrow> int \<Rightarrow> string" where
  "healthTargetScript i t retries interval =
     line [] @ line ((''# service '' @ show_nat i @ '': '' @ ht_service t))
     @ healthContainerScript i t
     @ concat (map (port_section i) (ht_ports t))
     @ (if ht_engine t \<noteq> [] then database_section i (ht_engine t) retries interval else [])
     @ (if ht_url t \<noteq> [] then http_section i (ht_url t) retries interval else [])"

definition healthScriptHead :: string where
  "healthScriptHead =
     lines_text
     [''set +e'',
      ''echo \"---OPSPULSE-HEALTH---\"'',
      ''OPSPULSE_DOCKER_OK=0'',
      ''if command -v docker >/dev/null 2>&1; then'',
      ''  if docker info >/dev/null 2>&1; then'',
      ''    OPSPULSE_DOCKER_OK=1'',
      ''    echo \"DOCKER=running\"'',
      ''  else'',
      ''    echo \"DOCKER=stopped\"'',
      ''  fi'',
      ''else'',
      ''  echo \"DOCKER=missing\"'',
      ''fi'',
      [],
      ''# Resolve the container of a Compose service by label, so the check does not'',
      ''# depend on the container name the Compose engine picked. Falls back to the'',
      ''# expected name when nothing matches.'',
      ''opspulse_compose_container() {'',
      ''  opspulse_name=$(docker ps -a --filter \"$1\" --filter \"$2\" --format '{{.Names}}' 2>/dev/null | head -n 1)'',
      ''  if [ -n \"$opspulse_name\" ]; then'',
      ''    printf '' @ [squote] @ ''%'' @ ''s' \"$opspulse_name\"'',
      ''    return 0'',
      ''  fi'',
      ''  printf '' @ [squote] @ ''%'' @ ''s' \"$3\"'',
      ''}'',
      [],
      ''# Report whether a host port is listening. Returns 2 when no inspection tool is'',
      ''# available, so the caller reports \"unknown\" instead of a false \"not listening\".'',
      ''opspulse_port_listening() {'',
      ''  if command -v ss >/dev/null 2>&1; then'',
      ''    if [ \"$2\" = \"udp\" ]; then'',
      ''      ss -lun 2>/dev/null | awk '{print $4}' | grep -q \"[:.]$1$\"'',
      ''    else'',
      ''      ss -ltn 2>/dev/null | awk '{print $4}' | grep -q \"[:.]$1$\"'',
      ''    fi'',
      ''    return $?'',
      ''  fi'',
      ''  if command -v netstat >/dev/null 2>&1; then'',
      ''    if [ \"$2\" = \"udp\" ]; then'',
      ''      netstat -lun 2>/dev/null | awk '{print $4}' | grep -q \"[:.]$1$\"'',
      ''    else'',
      ''      netstat -ltn 2>/dev/null | awk '{print $4}' | grep -q \"[:.]$1$\"'',
      ''    fi'',
      ''    return $?'',
      ''  fi'',
      ''  return 2'',
      ''}'']"

definition healthScriptTail :: string where
  "healthScriptTail =
     lines_text
     [''echo \"---OPSPULSE-HEALTH-END---\"'',
      ''exit 0'']"

fun target_scripts :: "int \<times> int \<Rightarrow> nat \<Rightarrow> health_target list \<Rightarrow> string res" where
  "target_scripts budget i [] = Inr []"
| "target_scripts budget i (t # ts) =
     (case validateHealthTarget t of
        Some e \<Rightarrow> Inl e
      | None \<Rightarrow>
          (case target_scripts budget (i + 1) ts of
             Inl e \<Rightarrow> Inl e
           | Inr s \<Rightarrow> Inr (healthTargetScript i t (fst budget) (snd budget) @ s)))"

definition BuildHealthScript :: "health_options \<Rightarrow> string res" where
  "BuildHealthScript opts =
     (case target_scripts (healthRetrySettings opts) 0 (ho_targets opts) of
        Inl e \<Rightarrow> Inl e
      | Inr s \<Rightarrow> Inr (healthScriptHead @ s @ healthScriptTail))"

section \<open>The verdicts\<close>

definition healthField :: "string list \<Rightarrow> nat \<Rightarrow> string" where
  "healthField flds i = (if i < length flds then trim_space (flds ! i) else [])"

definition timeBudgetText :: "int \<Rightarrow> int \<Rightarrow> string" where
  "timeBudgetText retries interval = (utf8 [0x7EA6] @ '' '' @ show_int (retries * interval) @ ''s'')"

definition serviceChecksPassed :: "health_check list \<Rightarrow> bool" where
  "serviceChecksPassed cs \<longleftrightarrow> list_all (\<lambda>c. hc_status c = HealthOK \<or> hc_status c = HealthSkipped) cs"

definition container_result :: "health_status \<Rightarrow> string \<Rightarrow> string \<Rightarrow> health_check" where
  "container_result s detail next_step =
     \<lparr>hc_kind = HealthKindContainer, hc_label = (utf8 [0x5BB9, 0x5668, 0x72B6, 0x6001]), hc_status = s, hc_detail = detail, hc_next = next_step\<rparr>"

definition running_container_check :: "string list \<Rightarrow> health_check" where
  "running_container_check flds =
     (let name = healthField flds 2; state = healthField flds 3; restarting = healthField flds 4;
          restarts = healthField flds 5; startedAt = healthField flds 6
      in if length flds < 7
         then container_result HealthManual (utf8 [0x5065, 0x5EB7, 0x63A2, 0x6D4B, 0x6CA1, 0x6709, 0x8FD4, 0x56DE, 0x5BB9, 0x5668, 0x72B6, 0x6001]) (utf8 [0x5728, 0x76EE, 0x6807, 0x673A, 0x6267, 0x884C] @ '' '' @ [CHR 0x60] @ ''docker ps -a'' @ [CHR 0x60] @ '' '' @ utf8 [0x786E, 0x8BA4, 0x670D, 0x52A1, 0x5BB9, 0x5668])
         else if name = []
         then container_result HealthManual (utf8 [0x76EE, 0x6807, 0x673A, 0x4E0A, 0x627E, 0x4E0D, 0x5230, 0x8BE5, 0x670D, 0x52A1, 0x7684, 0x5BB9, 0x5668, 0xFF08] @ ''Compose '' @ utf8 [0x9879, 0x76EE] @ ''/'' @ utf8 [0x670D, 0x52A1, 0x6807, 0x7B7E, 0x4E0E, 0x9884, 0x671F, 0x5BB9, 0x5668, 0x540D, 0x90FD, 0x672A, 0x547D, 0x4E2D, 0xFF09])
                (utf8 [0x5728, 0x76EE, 0x6807, 0x673A, 0x6267, 0x884C] @ '' '' @ [CHR 0x60] @ ''docker ps -a'' @ [CHR 0x60] @ '' '' @ utf8 [0x786E, 0x8BA4, 0x5BB9, 0x5668, 0x540D, 0xFF1B, 0x82E5, 0x5BB9, 0x5668, 0x540D, 0x4E0E] @ '' plan '' @ utf8 [0x8BB0, 0x5F55, 0x4E0D, 0x4E00, 0x81F4, 0xFF0C, 0x8BF7, 0x4FEE, 0x6B63] @ '' plan '' @ utf8 [0x7684] @ '' services[].container '' @ utf8 [0x540E, 0x91CD, 0x8BD5])
         else if state = ''missing''
         then container_result HealthFailed ((utf8 [0x5BB9, 0x5668] @ '' '' @ name @ '' '' @ utf8 [0x5728, 0x76EE, 0x6807, 0x673A, 0x4E0A, 0x4E0D, 0x5B58, 0x5728]))
                (utf8 [0x5728, 0x76EE, 0x6807, 0x673A, 0x6267, 0x884C] @ '' '' @ [CHR 0x60] @ ''docker ps -a'' @ [CHR 0x60] @ '' '' @ utf8 [0x786E, 0x8BA4, 0xFF1B, 0x82E5, 0x8FC1, 0x79FB, 0x672A, 0x5B8C, 0x6210, 0xFF0C, 0x8BF7, 0x91CD, 0x65B0, 0x6267, 0x884C] @ '' '' @ [CHR 0x60] @ ''ops docker apply <plan-file>'' @ [CHR 0x60])
         else if equal_fold restarting ''true'' \<or> state = ''restarting''
         then container_result HealthFailed ((utf8 [0x5BB9, 0x5668] @ '' '' @ name @ '' '' @ utf8 [0x5904, 0x4E8E] @ '' restarting'' @ utf8 [0xFF1A, 0x6B63, 0x5728, 0x53CD, 0x590D, 0x91CD, 0x542F, 0xFF0C, 0x670D, 0x52A1, 0x5E76, 0x672A, 0x53EF, 0x7528]))
                ((utf8 [0x5728, 0x76EE, 0x6807, 0x673A, 0x6267, 0x884C] @ '' '' @ [CHR 0x60] @ ''docker logs --tail 200 '' @ name @ [CHR 0x60] @ '' '' @ utf8 [0x67E5, 0x770B, 0x5D29, 0x6E83, 0x539F, 0x56E0, 0xFF0C, 0x4FEE, 0x590D, 0x540E, 0x91CD, 0x65B0, 0x542F, 0x52A8, 0x670D, 0x52A1]))
         else if state \<noteq> ''running''
         then container_result HealthFailed ((utf8 [0x5BB9, 0x5668] @ '' '' @ name @ '' '' @ utf8 [0x5F53, 0x524D, 0x72B6, 0x6001, 0x4E3A] @ '' '' @ state @ utf8 [0xFF0C, 0x670D, 0x52A1, 0x672A, 0x5728, 0x8FD0, 0x884C]))
                ((utf8 [0x5728, 0x76EE, 0x6807, 0x673A, 0x6267, 0x884C] @ '' '' @ [CHR 0x60] @ ''docker logs --tail 200 '' @ name @ [CHR 0x60] @ '' '' @ utf8 [0x67E5, 0x770B, 0x539F, 0x56E0, 0xFF0C, 0x5E76, 0x7528] @ '' '' @ [CHR 0x60] @ ''docker compose up -d'' @ [CHR 0x60] @ '' '' @ utf8 [0x91CD, 0x65B0, 0x542F, 0x52A8, 0x670D, 0x52A1]))
         else (case atoi restarts of
                 Some n \<Rightarrow>
                   (if n > 0
                    then container_result HealthFailed ((utf8 [0x5BB9, 0x5668] @ '' '' @ name @ '' '' @ utf8 [0x672C, 0x6B21, 0x542F, 0x52A8, 0x540E, 0x5DF2, 0x91CD, 0x542F] @ '' '' @ show_int n @ '' '' @ utf8 [0x6B21, 0xFF08, 0x7591, 0x4F3C, 0x5D29, 0x6E83, 0x5FAA, 0x73AF, 0xFF09]))
                           ((utf8 [0x5728, 0x76EE, 0x6807, 0x673A, 0x6267, 0x884C] @ '' '' @ [CHR 0x60] @ ''docker logs --tail 200 '' @ name @ [CHR 0x60] @ '' '' @ utf8 [0x67E5, 0x770B, 0x91CD, 0x542F, 0x539F, 0x56E0]))
                    else container_result HealthOK
                           (((utf8 [0x5BB9, 0x5668] @ '' '' @ name @ '' '' @ utf8 [0x6B63, 0x5728, 0x8FD0, 0x884C])) @ (if startedAt \<noteq> [] then ((utf8 [0xFF08, 0x542F, 0x52A8, 0x4E8E] @ '' '' @ startedAt @ utf8 [0xFF09])) else [])) [])
               | None \<Rightarrow> container_result HealthOK
                   (((utf8 [0x5BB9, 0x5668] @ '' '' @ name @ '' '' @ utf8 [0x6B63, 0x5728, 0x8FD0, 0x884C])) @ (if startedAt \<noteq> [] then ((utf8 [0xFF08, 0x542F, 0x52A8, 0x4E8E] @ '' '' @ startedAt @ utf8 [0xFF09])) else [])) []))"

definition containerHealthCheck :: "string \<Rightarrow> string list \<Rightarrow> health_check" where
  "containerHealthCheck dockerState flds =
     (if dockerState = ''missing''
      then container_result HealthFailed (utf8 [0x76EE, 0x6807, 0x673A, 0x672A, 0x5B89, 0x88C5] @ '' Docker'' @ utf8 [0xFF0C, 0x65E0, 0x6CD5, 0x786E, 0x8BA4, 0x5BB9, 0x5668, 0x662F, 0x5426, 0x5728, 0x8FD0, 0x884C])
             (utf8 [0x5148, 0x5728, 0x76EE, 0x6807, 0x673A, 0x5B89, 0x88C5, 0x5E76, 0x542F, 0x52A8] @ '' Docker'' @ utf8 [0xFF0C, 0x518D, 0x91CD, 0x65B0, 0x6267, 0x884C, 0x5065, 0x5EB7, 0x68C0, 0x67E5])
      else if dockerState = ''stopped''
      then container_result HealthFailed (utf8 [0x76EE, 0x6807, 0x673A] @ '' Docker daemon '' @ utf8 [0x672A, 0x8FD0, 0x884C, 0xFF0C, 0x65E0, 0x6CD5, 0x786E, 0x8BA4, 0x5BB9, 0x5668, 0x662F, 0x5426, 0x5728, 0x8FD0, 0x884C])
             (utf8 [0x5728, 0x76EE, 0x6807, 0x673A, 0x542F, 0x52A8] @ '' Docker daemon'' @ utf8 [0xFF08, 0x4F8B, 0x5982] @ '' systemctl start docker'' @ utf8 [0xFF09, 0x540E, 0x91CD, 0x65B0, 0x6267, 0x884C, 0x5065, 0x5EB7, 0x68C0, 0x67E5])
      else if dockerState = ''running'' then running_container_check flds
      else container_result HealthManual (utf8 [0x672A, 0x80FD, 0x4ECE, 0x76EE, 0x6807, 0x673A, 0x53D6, 0x5F97] @ '' Docker '' @ utf8 [0x72B6, 0x6001])
             (utf8 [0x786E, 0x8BA4, 0x76EE, 0x6807, 0x673A, 0x53EF, 0x8FDE, 0x63A5, 0x540E, 0x91CD, 0x65B0, 0x6267, 0x884C] @ '' '' @ [CHR 0x60] @ ''ops docker health <plan-file>'' @ [CHR 0x60]))"

definition port_result :: "string \<Rightarrow> health_status \<Rightarrow> string \<Rightarrow> string \<Rightarrow> health_check" where
  "port_result spec s detail next_step =
     \<lparr>hc_kind = HealthKindPorts, hc_label = ((utf8 [0x7AEF, 0x53E3] @ '' '' @ spec)), hc_status = s, hc_detail = detail, hc_next = next_step\<rparr>"

definition portHealthCheck :: "string \<Rightarrow> string \<Rightarrow> health_check" where
  "portHealthCheck spec state =
     (let host = fst (splitHealthPort spec)
      in if state = ''yes'' then port_result spec HealthOK ((utf8 [0x5BBF, 0x4E3B, 0x673A, 0x5DF2, 0x5728, 0x76D1, 0x542C] @ '' '' @ spec)) []
         else if state = ''no''
         then port_result spec HealthFailed ((utf8 [0x5BBF, 0x4E3B, 0x673A, 0x6CA1, 0x6709, 0x5728] @ '' '' @ spec @ '' '' @ utf8 [0x4E0A, 0x76D1, 0x542C]))
                ((utf8 [0x5728, 0x76EE, 0x6807, 0x673A, 0x6267, 0x884C] @ '' '' @ [CHR 0x60] @ ''ss -ltn | grep '' @ host @ [CHR 0x60] @ '' '' @ utf8 [0x786E, 0x8BA4, 0x7AEF, 0x53E3, 0xFF1B, 0x7AEF, 0x53E3, 0x88AB, 0x5360, 0x7528, 0x6216, 0x670D, 0x52A1, 0x672A, 0x8D77, 0x6765, 0x65F6, 0xFF0C, 0x5148, 0x6309, 0x5BB9, 0x5668, 0x72B6, 0x6001, 0x7684, 0x5EFA, 0x8BAE, 0x5904, 0x7406]))
         else if state = ''unknown''
         then port_result spec HealthManual ((utf8 [0x76EE, 0x6807, 0x673A, 0x7F3A, 0x5C11] @ '' ss/netstat'' @ utf8 [0xFF0C, 0x65E0, 0x6CD5, 0x786E, 0x8BA4] @ '' '' @ spec @ '' '' @ utf8 [0x662F, 0x5426, 0x88AB, 0x76D1, 0x542C]))
                ((utf8 [0x5728, 0x76EE, 0x6807, 0x673A, 0x624B, 0x5DE5, 0x6267, 0x884C] @ '' '' @ [CHR 0x60] @ ''ss -ltn'' @ [CHR 0x60] @ '' '' @ utf8 [0x6216] @ '' '' @ [CHR 0x60] @ ''curl -sS -o /dev/null http://127.0.0.1:'' @ host @ ''/'' @ [CHR 0x60] @ '' '' @ utf8 [0x786E, 0x8BA4]))
         else port_result spec HealthManual ((utf8 [0x672A, 0x53D6, 0x5F97] @ '' '' @ spec @ '' '' @ utf8 [0x7684, 0x76D1, 0x542C, 0x4FE1, 0x606F]))
                ((utf8 [0x5728, 0x76EE, 0x6807, 0x673A, 0x624B, 0x5DE5, 0x6267, 0x884C] @ '' '' @ [CHR 0x60] @ ''ss -ltn | grep '' @ host @ [CHR 0x60] @ '' '' @ utf8 [0x786E, 0x8BA4])))"

definition database_result :: "health_status \<Rightarrow> string \<Rightarrow> string \<Rightarrow> health_check" where
  "database_result s detail next_step =
     \<lparr>hc_kind = HealthKindDatabase, hc_label = (utf8 [0x6570, 0x636E, 0x5E93] @ '' readiness''), hc_status = s, hc_detail = detail, hc_next = next_step\<rparr>"

definition databaseHealthCheck :: "health_target \<Rightarrow> string \<Rightarrow> string \<Rightarrow> health_check" where
  "databaseHealthCheck t state budget =
     (let engine = ht_engine t; tool = databaseProbeTool engine
      in if engine = []
         then database_result HealthSkipped (utf8 [0x8BE5, 0x670D, 0x52A1, 0x4E0D, 0x662F, 0x53D7, 0x652F, 0x6301, 0x7684, 0x6570, 0x636E, 0x5E93, 0x5BB9, 0x5668, 0xFF0C, 0x672A, 0x914D, 0x7F6E, 0x6570, 0x636E, 0x5E93] @ '' readiness '' @ utf8 [0x68C0, 0x67E5]) []
         else if state = ''yes''
         then database_result HealthOK ((utf8 [0x6570, 0x636E, 0x5E93] @ '' '' @ engine @ '' '' @ utf8 [0x5DF2, 0x5C31, 0x7EEA, 0xFF08] @ tool @ '' '' @ utf8 [0x901A, 0x8FC7, 0xFF09])) []
         else if state = ''no''
         then database_result HealthFailed ((utf8 [0x6570, 0x636E, 0x5E93] @ '' '' @ engine @ '' '' @ utf8 [0x5728] @ '' '' @ budget @ '' '' @ utf8 [0x5185, 0x6CA1, 0x6709, 0x5C31, 0x7EEA]))
                ((utf8 [0x5728, 0x76EE, 0x6807, 0x673A, 0x6267, 0x884C] @ '' '' @ [CHR 0x60] @ ''docker exec <'' @ utf8 [0x5BB9, 0x5668] @ ''> '' @ tool @ [CHR 0x60] @ '' '' @ utf8 [0x786E, 0x8BA4, 0xFF1B, 0x5FC5, 0x8981, 0x65F6, 0x67E5, 0x770B] @ '' '' @ [CHR 0x60] @ ''docker logs <'' @ utf8 [0x5BB9, 0x5668] @ ''>'' @ [CHR 0x60]))
         else database_result HealthManual ((utf8 [0x672A, 0x80FD, 0x786E, 0x8BA4, 0x6570, 0x636E, 0x5E93] @ '' '' @ engine @ '' '' @ utf8 [0x662F, 0x5426, 0x5C31, 0x7EEA]))
                ((utf8 [0x5728, 0x76EE, 0x6807, 0x673A, 0x6267, 0x884C] @ '' '' @ [CHR 0x60] @ ''docker exec <'' @ utf8 [0x5BB9, 0x5668] @ ''> '' @ tool @ [CHR 0x60] @ '' '' @ utf8 [0x624B, 0x5DE5, 0x786E, 0x8BA4])))"

definition http_result :: "health_status \<Rightarrow> string \<Rightarrow> string \<Rightarrow> health_check" where
  "http_result s detail next_step =
     \<lparr>hc_kind = HealthKindHTTP, hc_label = (''HTTP '' @ utf8 [0x68C0, 0x67E5]), hc_status = s, hc_detail = detail, hc_next = next_step\<rparr>"

definition httpHealthCheck :: "health_target \<Rightarrow> string list \<Rightarrow> health_check" where
  "httpHealthCheck t flds =
     (let url = trim_space (ht_url t);
          manualHint = (utf8 [0x5728, 0x76EE, 0x6807, 0x673A, 0x624B, 0x5DE5, 0x6267, 0x884C] @ '' '' @ [CHR 0x60] @ ''curl -sS -o /dev/null -w '' @ [squote] @ ''%'' @ ''{http_code}' '' @ url @ [CHR 0x60] @ '' '' @ utf8 [0x786E, 0x8BA4]);
          code = healthField flds 3; verdict = healthField flds 4
      in if url = []
         then http_result HealthSkipped (utf8 [0x672A, 0x914D, 0x7F6E] @ '' HTTP '' @ utf8 [0x68C0, 0x67E5, 0xFF08] @ ''plan '' @ utf8 [0x7684] @ '' services[].health.http_url '' @ utf8 [0x4E3A, 0x7A7A, 0xFF09]) []
         else if length flds < 5
         then http_result HealthManual ((utf8 [0x6CA1, 0x6709, 0x53D6, 0x5F97] @ '' '' @ url @ '' '' @ utf8 [0x7684] @ '' HTTP '' @ utf8 [0x68C0, 0x67E5, 0x7ED3, 0x679C])) manualHint
         else if verdict = ''tool-missing''
         then http_result HealthManual (utf8 [0x76EE, 0x6807, 0x673A, 0x6CA1, 0x6709] @ '' curl'' @ utf8 [0xFF0C, 0x65E0, 0x6CD5, 0x6267, 0x884C] @ '' HTTP '' @ utf8 [0x68C0, 0x67E5])
                ((utf8 [0x5728, 0x76EE, 0x6807, 0x673A, 0x5B89, 0x88C5] @ '' curl'' @ utf8 [0xFF0C, 0x6216, 0x624B, 0x5DE5, 0x8BBF, 0x95EE] @ '' '' @ url @ '' '' @ utf8 [0x786E, 0x8BA4]))
         else if verdict = ''yes'' then http_result HealthOK ((''HTTP '' @ url @ '' '' @ utf8 [0x8FD4, 0x56DE] @ '' '' @ code)) []
         else http_result HealthFailed ((''HTTP '' @ url @ '' '' @ utf8 [0x8FD4, 0x56DE] @ '' '' @ code @ utf8 [0xFF08, 0x9884, 0x671F] @ '' 2xx/3xx'' @ utf8 [0xFF09]))
                ((utf8 [0x786E, 0x8BA4, 0x670D, 0x52A1, 0x76D1, 0x542C, 0x4E0E, 0x53CD, 0x5411, 0x4EE3, 0x7406, 0x914D, 0x7F6E, 0x540E, 0x91CD, 0x8BD5, 0xFF1B] @ manualHint)))"

section \<open>The parser\<close>

record health_lines =
  hl_docker :: string
  hl_containers :: "(nat \<times> string list) list"
  hl_ports :: "((nat \<times> string) \<times> string) list"
  hl_databases :: "(nat \<times> string) list"
  hl_https :: "(nat \<times> string list) list"

definition health_fields :: "health_target list \<Rightarrow> health_lines \<Rightarrow> string list \<Rightarrow> health_lines" where
  "health_fields targets acc flds =
     (if length flds < 3 then acc
      else (case atoi (flds ! 1) of
              None \<Rightarrow> acc
            | Some n \<Rightarrow>
                (let i = nat n; kind = flds ! 0
                 in if n < 0 \<or> n \<ge> int (length targets) then acc
                    else if kind = ''CONTAINER'' then acc\<lparr>hl_containers := (i, flds) # hl_containers acc\<rparr>
                    else if kind = ''PORT''
                    then acc\<lparr>hl_ports := ((i, flds ! 2), healthField flds 3) # hl_ports acc\<rparr>
                    else if kind = ''DB''
                    then (if flds ! 2 = ht_engine (targets ! i)
                          then acc\<lparr>hl_databases := (i, healthField flds 3) # hl_databases acc\<rparr> else acc)
                    else if kind = ''HTTP'' then acc\<lparr>hl_https := (i, flds) # hl_https acc\<rparr>
                    else acc)))"

definition health_line :: "health_target list \<Rightarrow> health_lines \<Rightarrow> string \<Rightarrow> health_lines" where
  "health_line targets acc raw =
     (let l = trim_space raw
      in if l = [] \<or> has_prefix l ''---'' then acc
         else if has_prefix l ''DOCKER='' then acc\<lparr>hl_docker := trim_space (drop 7 l)\<rparr>
         else health_fields targets acc (split_on (CHR ''|'') l))"

definition scan_health :: "health_target list \<Rightarrow> string \<Rightarrow> health_lines" where
  "scan_health targets raw =
     foldl (health_line targets)
       \<lparr>hl_docker = ''unknown'', hl_containers = [], hl_ports = [], hl_databases = [], hl_https = []\<rparr>
       (split_on (CHR 0x0A) raw)"

definition lookup_or :: "'b \<Rightarrow> ('a \<times> 'b) list \<Rightarrow> 'a \<Rightarrow> 'b" where
  "lookup_or d es k = (case map_of es k of None \<Rightarrow> d | Some v \<Rightarrow> v)"

definition service_checks :: "health_lines \<Rightarrow> string \<Rightarrow> nat \<Rightarrow> health_target \<Rightarrow> health_check list" where
  "service_checks ls budget i t =
     [containerHealthCheck (hl_docker ls) (lookup_or [] (hl_containers ls) i)]
     @ map (\<lambda>port. portHealthCheck port (lookup_or [] (hl_ports ls) (i, port))) (ht_ports t)
     @ [databaseHealthCheck t (lookup_or [] (hl_databases ls) i) budget,
        httpHealthCheck t (lookup_or [] (hl_https ls) i)]"

definition service_report :: "health_lines \<Rightarrow> string \<Rightarrow> nat \<Rightarrow> health_target \<Rightarrow> service_health" where
  "service_report ls budget i t =
     (let cs = service_checks ls budget i t; name = healthField (lookup_or [] (hl_containers ls) i) 2
      in \<lparr>sh_service = ht_service t, sh_container = (if name \<noteq> [] then name else ht_container t),
          sh_healthy = serviceChecksPassed cs, sh_checks = cs\<rparr>)"

definition ParseHealthOutput :: "string \<Rightarrow> health_options \<Rightarrow> string \<Rightarrow> health_report" where
  "ParseHealthOutput server opts raw =
     (let budget = (case healthRetrySettings opts of (retries, interval) \<Rightarrow> timeBudgetText retries interval);
          ls = scan_health (ho_targets opts) raw
      in \<lparr>hr_server = server,
          hr_services = map (\<lambda>i. service_report ls budget i (ho_targets opts ! i)) [0..<length (ho_targets opts)]\<rparr>)"

definition remote_health ::
    "remote_exec \<Rightarrow> target \<Rightarrow> health_options \<Rightarrow> executed \<Rightarrow> health_report res \<times> executed" where
  "remote_health exec tgt opts tr =
     (case BuildHealthScript opts of
        Inl e \<Rightarrow> (Inl e, tr)
      | Inr script \<Rightarrow>
          (let task = ''docker-health-check''; tr1 = tr @ [(tgt, task, script)]
           in case exec tr tgt task script of
                (res, Some e, out) \<Rightarrow>
                  (Inl (wrap ((''health check on '' @ go_quote (t_name tgt) @ '' failed: '')) e (outputSuffix out)), tr1)
              | (res, None, out) \<Rightarrow>
                  (case unsuccessful res of
                     Some x \<Rightarrow> (Inl (errors_new ((''health check on '' @ go_quote (t_name tgt) @ '' exited with code '' @ show_int (er_exit x) @ '': '' @ show_error (er_error x) @ outputSuffix out))), tr1)
                   | None \<Rightarrow> (Inr (ParseHealthOutput (t_name tgt) opts out), tr1))))"

section \<open>Lemmas\<close>

text \<open>The fields of an output line of kind \<open>k\<close> about target \<open>i\<close>.\<close>

definition probe_fields :: "string list \<Rightarrow> string \<Rightarrow> nat \<Rightarrow> string list \<Rightarrow> bool" where
  "probe_fields ls k i fs \<longleftrightarrow>
     (\<exists>l\<in>set ls. fs = split_on (CHR ''|'') (trim_space l) \<and> 3 \<le> length fs \<and> fs ! 0 = k \<and> atoi (fs ! 1) = Some (int i))"

definition docker_reported :: "string list \<Rightarrow> string \<Rightarrow> bool" where
  "docker_reported ls v \<longleftrightarrow> (\<exists>l\<in>set ls. has_prefix (trim_space l) ''DOCKER='' \<and> trim_space (drop 7 (trim_space l)) = v)"

text \<open>Everything the parser holds stands in some line.\<close>

definition lines_sound :: "health_target list \<Rightarrow> string list \<Rightarrow> health_lines \<Rightarrow> bool" where
  "lines_sound ts ls a \<longleftrightarrow>
     (hl_docker a = ''unknown'' \<or> docker_reported ls (hl_docker a))
     \<and> (\<forall>(i, fs)\<in>set (hl_containers a). probe_fields ls ''CONTAINER'' i fs)
     \<and> (\<forall>((i, p), v)\<in>set (hl_ports a). \<exists>fs. probe_fields ls ''PORT'' i fs \<and> fs ! 2 = p \<and> healthField fs 3 = v)
     \<and> (\<forall>(i, v)\<in>set (hl_databases a).
          \<exists>fs. probe_fields ls ''DB'' i fs \<and> fs ! 2 = ht_engine (ts ! i) \<and> healthField fs 3 = v)
     \<and> (\<forall>(i, fs)\<in>set (hl_https a). probe_fields ls ''HTTP'' i fs)"

lemma health_fields_sound:
  assumes "lines_sound ts ls a" "l \<in> set ls"
  shows "lines_sound ts ls (health_fields ts a (split_on (CHR ''|'') (trim_space l)))"
proof -
  define fs where "fs = split_on (CHR ''|'') (trim_space l)"
  have line: "probe_fields ls (fs ! 0) (nat n) fs" if "3 \<le> length fs" "atoi (fs ! 1) = Some n" "0 \<le> n" for n
    unfolding probe_fields_def using assms(2) that fs_def by (intro bexI[of _ l]) simp_all
  show ?thesis
  proof (cases "\<exists>n. 3 \<le> length fs \<and> atoi (fs ! 1) = Some n \<and> 0 \<le> n \<and> n < int (length ts)")
    case False
    then have "health_fields ts a fs = a"
      by (auto simp: health_fields_def Let_def not_less not_le split: option.split)
    then show ?thesis using assms(1) fs_def by simp
  next
    case True
    then obtain n where hit: "3 \<le> length fs" "atoi (fs ! 1) = Some n" "0 \<le> n" "n < int (length ts)" by blast
    then have "health_fields ts a fs =
       (let i = nat n; kind = fs ! 0
        in if kind = ''CONTAINER'' then a\<lparr>hl_containers := (i, fs) # hl_containers a\<rparr>
           else if kind = ''PORT'' then a\<lparr>hl_ports := ((i, fs ! 2), healthField fs 3) # hl_ports a\<rparr>
           else if kind = ''DB''
           then (if fs ! 2 = ht_engine (ts ! i) then a\<lparr>hl_databases := (i, healthField fs 3) # hl_databases a\<rparr> else a)
           else if kind = ''HTTP'' then a\<lparr>hl_https := (i, fs) # hl_https a\<rparr>
           else a)" by (simp add: health_fields_def Let_def)
    then show ?thesis using assms(1) line[OF hit(1-3)] fs_def
      by (auto simp: lines_sound_def Let_def)
  qed
qed

lemma health_line_sound:
  assumes "lines_sound ts ls a" "l \<in> set ls"
  shows "lines_sound ts ls (health_line ts a l)"
proof -
  have d: "lines_sound ts ls (a\<lparr>hl_docker := trim_space (drop 7 (trim_space l))\<rparr>)" if "has_prefix (trim_space l) ''DOCKER=''"
    using assms that unfolding lines_sound_def docker_reported_def by auto
  show ?thesis using assms d health_fields_sound[OF assms] by (simp add: health_line_def Let_def)
qed

lemma scan_sound: "lines_sound ts (split_on (CHR 0x0A) raw) (scan_health ts raw)"
proof -
  have "set xs \<subseteq> set ls \<Longrightarrow> lines_sound ts ls a \<Longrightarrow> lines_sound ts ls (foldl (health_line ts) a xs)" for xs ls a
    by (induction xs arbitrary: a) (simp_all add: health_line_sound)
  moreover have "lines_sound ts ls
      \<lparr>hl_docker = ''unknown'', hl_containers = [], hl_ports = [], hl_databases = [], hl_https = []\<rparr>" for ls
    by (simp add: lines_sound_def)
  ultimately show ?thesis unfolding scan_health_def by blast
qed

lemma lookup_or_in: "lookup_or d es k = v \<Longrightarrow> v \<noteq> d \<Longrightarrow> (k, v) \<in> set es"
  by (auto simp: lookup_or_def split: option.splits dest: map_of_SomeD)

lemma serviceChecksPassed_iff:
  "serviceChecksPassed cs \<longleftrightarrow> (\<forall>c\<in>set cs. hc_status c \<in> {HealthOK, HealthSkipped})"
  by (auto simp: serviceChecksPassed_def list_all_iff)

text \<open>When each check passes.\<close>

lemma container_passes:
  assumes "hc_status (containerHealthCheck d fs) \<in> {HealthOK, HealthSkipped}"
  shows "d = ''running'' \<and> 7 \<le> length fs \<and> healthField fs 2 \<noteq> [] \<and> healthField fs 3 = ''running''
    \<and> \<not> equal_fold (healthField fs 4) ''true''
    \<and> (case atoi (healthField fs 5) of None \<Rightarrow> True | Some n \<Rightarrow> n \<le> 0)"
proof -
  have st: "hc_status (container_result s x y) = s" for s x y by (simp add: container_result_def)
  have "d = ''running''" "hc_status (running_container_check fs) \<in> {HealthOK, HealthSkipped}"
    using assms by (auto simp: containerHealthCheck_def st split: if_splits)
  then show ?thesis
    by (auto simp: running_container_check_def Let_def st split: if_splits option.splits)
qed

lemma port_passes: "hc_status (portHealthCheck p v) \<in> {HealthOK, HealthSkipped} \<Longrightarrow> v = ''yes''"
  by (auto simp: portHealthCheck_def Let_def port_result_def split: if_splits)

lemma database_passes:
  "hc_status (databaseHealthCheck t v b) \<in> {HealthOK, HealthSkipped} \<Longrightarrow> ht_engine t = [] \<or> v = ''yes''"
  by (auto simp: databaseHealthCheck_def Let_def database_result_def split: if_splits)

lemma http_passes:
  "hc_status (httpHealthCheck t fs) \<in> {HealthOK, HealthSkipped} \<Longrightarrow>
     trim_space (ht_url t) = [] \<or> 5 \<le> length fs \<and> healthField fs 4 = ''yes''"
  by (auto simp: httpHealthCheck_def Let_def http_result_def split: if_splits)

text \<open>Characters that stand for themselves inside double quotes.\<close>

definition dq_plain :: "char \<Rightarrow> bool" where
  "dq_plain c \<longleftrightarrow> c \<noteq> CHR 0x22 \<and> c \<noteq> CHR 0x5C \<and> c \<noteq> CHR 0x60 \<and> c \<noteq> CHR ''$''"

lemma sh_scan_dq_plain: "\<forall>c\<in>set a. dq_plain c \<Longrightarrow> sh_scan (DoubleQuoted, None) (a @ r) = sh_scan (DoubleQuoted, None) r"
  by (induction a) (auto simp: dq_plain_def sh_step_def)

lemma show_nat_plain: "c \<in> set (show_nat n) \<Longrightarrow> dq_plain c"
proof (induction n rule: show_nat.induct)
  case (1 n)
  have d: "dq_plain (digit_char k)" if "k < 10" for k
  proof -
    have "k \<in> {0, 1, 2, 3, 4, 5, 6, 7, 8, 9}" using that by auto
    then show ?thesis by (auto simp: digit_char_def dq_plain_def char_of_def)
  qed
  show ?case using 1 d[of n] d[of "n mod 10"] by (auto simp: show_nat.simps[of n] split: if_splits)
qed

text \<open>What \<open>TrimSpace\<close> drops is white space.\<close>

lemma lead_dropped: "c \<in> set (take (lead_space s) s) \<Longrightarrow> ws1 c \<or> 128 \<le> code_of c"
  by (cases s rule: lead_space.cases) (auto simp: ws2_def ws3_def split: if_splits)

lemma trail_dropped: "c \<in> set (take (trail_space s) s) \<Longrightarrow> ws1 c \<or> 128 \<le> code_of c"
  by (cases s rule: trail_space.cases) (auto simp: ws2_def ws3_def split: if_splits)

lemma trim_by_dropped:
  assumes "\<And>t c. c \<in> set (take (f t) t) \<Longrightarrow> P c" "c \<in> set s" "c \<notin> set (trim_by f s)"
  shows "P c"
  using assms
proof (induction f s rule: trim_by.induct)
  case (1 f s)
  show ?case
  proof (cases "f s = 0 \<or> s = []")
    case True
    then have "trim_by f s = s" by (subst trim_by.simps) simp
    then show ?thesis using 1 by simp
  next
    case False
    then have "trim_by f s = trim_by f (drop (f s) s)" using trim_by.simps[of f s] by simp
    moreover have "set s = set (take (f s) s) \<union> set (drop (f s) s)" by (metis append_take_drop_id set_append)
    ultimately show ?thesis using 1 False by (cases "c \<in> set (take (f s) s)") auto
  qed
qed

lemma trim_space_dropped: "c \<in> set s \<Longrightarrow> c \<in> set (trim_space s) \<or> ws1 c \<or> 128 \<le> code_of c"
proof -
  assume c: "c \<in> set s"
  have "c \<in> set (trim_left s) \<or> ws1 c \<or> 128 \<le> code_of c"
    using trim_by_dropped[of lead_space "\<lambda>c. ws1 c \<or> 128 \<le> code_of c" c s] lead_dropped c unfolding trim_left_def by blast
  moreover have "d \<in> set (trim_right t) \<or> ws1 d \<or> 128 \<le> code_of d" if "d \<in> set t" for d t
  proof -
    have r: "d \<in> set (rev t)" using that by simp
    have "d \<in> set (trim_by trail_space (rev t)) \<or> ws1 d \<or> 128 \<le> code_of d"
      using trim_by_dropped[of trail_space "\<lambda>c. ws1 c \<or> 128 \<le> code_of c" d "rev t"] trail_dropped r by blast
    then show ?thesis unfolding trim_right_def by simp
  qed
  ultimately show ?thesis unfolding trim_space_def by blast
qed

lemma space_plain: "ws1 c \<or> 128 \<le> code_of c \<Longrightarrow> dq_plain c"
  by (auto simp: ws1_def dq_plain_def code_of_def)

lemma atoi_plain: "atoi s = Some n \<Longrightarrow> c \<in> set s \<Longrightarrow> dq_plain c"
  by (cases s) (auto simp: atoi_def Let_def list_all_iff is_digit_def dq_plain_def code_of_def split: if_splits)

lemma lower_plain: "to_lower s \<in> {''tcp'', ''udp''} \<Longrightarrow> c \<in> set s \<Longrightarrow> dq_plain c"
proof -
  assume a: "to_lower s \<in> {''tcp'', ''udp''}" "c \<in> set s"
  then have "to_lower_char c \<in> set ''tcp'' \<union> set ''udp''" by (auto simp: to_lower_def)
  then have l: "dq_plain (to_lower_char c)" by (auto simp: dq_plain_def)
  have "to_lower_char d = d" if "d \<in> set [CHR 0x22, CHR 0x5C, CHR 0x60, CHR ''$'']" for d
    using that by (simp only: set_simps insert_iff empty_iff simp_thms, elim disjE) (simp_all add: to_lower_char_def code_of_def)
  then show ?thesis using l unfolding dq_plain_def by (metis list.set_intros(1,2))
qed

lemma port_plain:
  assumes "port_error p = None" "c \<in> set p"
  shows "dq_plain c"
proof -
  obtain a b found where s: "cut_at slash (trim_space p) = (a, b, found)" by (metis prod_cases3)
  have t: "dq_plain c" if "c \<in> set (trim_space p)"
  proof (cases found)
    case True
    have e: "trim_space p = a @ slash # b" using cut_at_found[of slash "trim_space p" a b] s True by simp
    have "atoi (trim_space a) \<noteq> None" "to_lower (trim_space b) \<in> {''tcp'', ''udp''}"
      using assms(1) s True by (auto simp: port_error_def splitHealthPort_def Let_def split: option.splits if_splits)
    then have parts: "\<And>c. c \<in> set (trim_space a) \<union> set (trim_space b) \<Longrightarrow> dq_plain c"
      using atoi_plain[of "trim_space a"] lower_plain[of "trim_space b"] by blast
    have "c = slash \<or> c \<in> set a \<or> c \<in> set b" using that e by auto
    then show ?thesis
      using parts trim_space_dropped[of c a] trim_space_dropped[of c b] space_plain[of c] by (auto simp: dq_plain_def[of slash])
  next
    case False
    then show ?thesis
      using assms(1) s that atoi_plain by (auto simp: port_error_def splitHealthPort_def Let_def split: option.splits)
  qed
  then show ?thesis using trim_space_dropped[OF assms(2)] space_plain by blast
qed

lemma port_section_inert:
  assumes "\<forall>c\<in>set p. dq_plain c"
  shows "sh_inert (port_section i p)"
proof -
  have n: "\<forall>c\<in>set (show_nat i). dq_plain c" using show_nat_plain by blast
  show ?thesis
    unfolding port_section_def lines_text_def line_def sh_inert_def
    by (simp add: sh_step_def sh_scan_dq_plain[OF n] sh_scan_dq_plain[OF assms])
qed

text \<open>The line that the script prints when the target has no \<open>curl\<close>.\<close>

definition missing_curl_line :: "nat \<Rightarrow> string \<Rightarrow> string" where
  "missing_curl_line i url = ''HTTP|'' @ show_nat i @ CHR ''|'' # url @ ''|tool-missing|no''"

section \<open>Properties\<close>


text \<open>The port checks of the probe run nothing but what they should. The generator writes port specifications of the plan
  unquoted into double-quoted text; a specification that it accepts holds no character that means something there,
  and each section closes its quotes and has no substitution.\<close>

theorem health_ports_inert:
  assumes "BuildHealthScript opts = Inr script" "t \<in> set (ho_targets opts)" "p \<in> set (ht_ports t)"
  shows "sh_inert (port_section i p)
    \<and> (\<exists>n. atoi (fst (splitHealthPort p)) = Some n \<and> 1 \<le> n \<and> n \<le> 65535)
    \<and> snd (splitHealthPort p) \<in> {''tcp'', ''udp''}"
proof -
  have valid: "target_scripts b k ts = Inr s \<Longrightarrow> t \<in> set ts \<Longrightarrow> validateHealthTarget t = None" for b k ts s
    by (induction b k ts arbitrary: s rule: target_scripts.induct) (auto split: option.splits sum.splits)
  obtain s where "target_scripts (healthRetrySettings opts) 0 (ho_targets opts) = Inr s"
    using assms(1) by (auto simp: BuildHealthScript_def split: sum.splits)
  then have "validateHealthTarget t = None" using valid assms(2) by blast
  then have pe: "port_error p = None" using assms(3) by (auto simp: validateHealthTarget_def first_some_None)
  then show ?thesis
    using port_section_inert port_plain[OF pe]
    by (auto simp: port_error_def split: prod.splits option.splits if_splits)
qed

text \<open>A target without \<open>curl\<close> is reported as a failed service. The parser looks for the marker \<open>tool-missing\<close> in the
  last field of the line, but the script prints it in the field before, so the branch for a check that a human has to
  confirm is never taken.\<close>

theorem missing_curl_counts_as_failure:
  assumes "ho_targets opts = [t]" "trim_space (ht_url t) \<noteq> []"
    and "CHR ''|'' \<notin> set (ht_url t)" "CHR 0x0A \<notin> set (ht_url t)" "\<forall>l\<in>set before. CHR 0x0A \<notin> set l"
    and "raw = lines_text (before @ [missing_curl_line 0 (ht_url t), ''---OPSPULSE-HEALTH-END---''])"
  shows "\<exists>s c. hr_services (ParseHealthOutput server opts raw) = [s] \<and> FailedServices (ParseHealthOutput server opts raw) = [s]
    \<and> c \<in> set (FailedChecks s) \<and> hc_kind c = HealthKindHTTP"
proof -
  define l where "l = missing_curl_line 0 (ht_url t)"
  have z: "show_nat 0 = ''0''" by code_simp
  have t: "trim_space l = l"
    by (rule trim_space_no_edge_space) (simp add: l_def missing_curl_line_def ws1_def code_of_def)
  have f: "split_on (CHR ''|'') l = [''HTTP'', ''0'', ht_url t, ''tool-missing'', ''no'']"
    using assms(3) by (simp add: l_def missing_curl_line_def z split_on_append)
  have at: "atoi ''0'' = Some 0" by code_simp
  have step: "health_line [t] a l = a\<lparr>hl_https := (0, [''HTTP'', ''0'', ht_url t, ''tool-missing'', ''no'']) # hl_https a\<rparr>" for a
  proof -
    have "\<not> has_prefix l ''---''" "\<not> has_prefix l ''DOCKER=''" "l \<noteq> []" by (simp_all add: l_def missing_curl_line_def)
    then show ?thesis by (simp add: health_line_def Let_def t f health_fields_def at)
  qed
  have e: "trim_space ''---OPSPULSE-HEALTH-END---'' = ''---OPSPULSE-HEALTH-END---''" by code_simp
  have skip: "health_line [t] a ''---OPSPULSE-HEALTH-END---'' = a" "health_line [t] a [] = a" for a
    by (simp_all add: health_line_def Let_def e)
  have sp: "split_on (CHR 0x0A) raw = (before @ [l, ''---OPSPULSE-HEALTH-END---'']) @ [[]]"
    unfolding assms(6) l_def
    by (rule split_on_lines) (use assms(4,5) in \<open>auto simp: missing_curl_line_def z\<close>)
  have https: "\<exists>es. hl_https (scan_health [t] raw) = (0, [''HTTP'', ''0'', ht_url t, ''tool-missing'', ''no'']) # es"
    by (simp add: scan_health_def sp step skip)
  have fields: "healthField [''HTTP'', ''0'', ht_url t, ''tool-missing'', ''no''] 4 = ''no''"
    by (simp add: healthField_def) code_simp
  define c where "c = httpHealthCheck t [''HTTP'', ''0'', ht_url t, ''tool-missing'', ''no'']"
  have c: "hc_kind c = HealthKindHTTP" "hc_status c = HealthFailed"
    using assms(2) by (simp_all add: c_def httpHealthCheck_def Let_def fields http_result_def)
  obtain s where s: "hr_services (ParseHealthOutput server opts raw) = [s]" "c \<in> set (sh_checks s)"
    using https by (auto simp: ParseHealthOutput_def Let_def assms(1) service_report_def service_checks_def lookup_or_def c_def
        split: prod.splits)
  then show ?thesis using c by (auto simp: FailedServices_def FailedChecks_def filter_empty_conv)
qed

section \<open>Witnesses\<close>

definition web_target :: health_target where
  "web_target = \<lparr>ht_service = ''web'', ht_container = ''web'', ht_project = [], ht_compose_service = [],
     ht_ports = [''8080/tcp''], ht_engine = [], ht_url = ''http://h/''\<rparr>"

definition web_options :: health_options where
  "web_options = \<lparr>ho_targets = [web_target], ho_retries = 0, ho_interval = 0\<rparr>"

definition web_output :: string where
  "web_output = lines_text [''DOCKER=running'', ''CONTAINER|0|web|running|false|0|'', ''PORT|0|8080/tcp|yes'', ''HTTP|0|http://h/|200|yes'']"


text \<open>The manual asks for a restart count of 0, and for \<open>manual\<close> when the output cannot be read. A container line whose count
  is no number still makes the service healthy.\<close>

definition odd_output :: string where
  "odd_output = lines_text [''DOCKER=running'', ''CONTAINER|0|web|running|false|n/a|'', ''PORT|0|8080/tcp|yes'', ''HTTP|0|http://h/|200|yes'']"

theorem unreadable_restart_count_passes:
  "\<exists>s. hr_services (ParseHealthOutput ''b'' web_options odd_output) = [s] \<and> sh_healthy s"
proof -
  have ls: "scan_health [web_target] odd_output =
      \<lparr>hl_docker = ''running'', hl_containers = [(0, [''CONTAINER'', ''0'', ''web'', ''running'', ''false'', ''n/a'', []])],
       hl_ports = [((0, ''8080/tcp''), ''yes'')], hl_databases = [], hl_https = [(0, [''HTTP'', ''0'', ''http://h/'', ''200'', ''yes''])]\<rparr>"
    by code_simp
  have tr: "trim_space ''running'' = ''running''" "trim_space ''web'' = ''web''" "trim_space ''false'' = ''false''"
    "trim_space ''n/a'' = ''n/a''" "atoi ''n/a'' = None" "\<not> equal_fold ''false'' ''true''" "trim_space ''yes'' = ''yes''"
    "trim_space ''http://h/'' = ''http://h/''"
    by code_simp+
  have c: "hc_status (containerHealthCheck ''running'' [''CONTAINER'', ''0'', ''web'', ''running'', ''false'', ''n/a'', []]) = HealthOK"
    by (simp add: containerHealthCheck_def running_container_check_def healthField_def tr container_result_def)
  have h: "hc_status (httpHealthCheck web_target [''HTTP'', ''0'', ''http://h/'', ''200'', ''yes'']) = HealthOK"
    by (simp add: httpHealthCheck_def web_target_def healthField_def tr http_result_def Let_def)
  have p: "hc_status (portHealthCheck q ''yes'') = HealthOK" for q by (simp add: portHealthCheck_def Let_def port_result_def)
  have d: "hc_status (databaseHealthCheck web_target v b) = HealthSkipped" for v b
    by (simp add: databaseHealthCheck_def Let_def database_result_def web_target_def)
  have t: "ht_ports web_target = [''8080/tcp'']" by (simp add: web_target_def)
  show ?thesis
    by (simp add: ParseHealthOutput_def web_options_def Let_def ls service_report_def service_checks_def lookup_or_def
        serviceChecksPassed_iff c h p d t split: prod.splits)
qed

theorem health_ports_inert_witness:
  "sh_inert (port_section 0 ''8080/tcp'')"
proof -
  have "validateHealthTarget web_target = None" by code_simp
  then obtain script where "BuildHealthScript web_options = Inr script"
    by (simp add: BuildHealthScript_def web_options_def)
  then show ?thesis
    using health_ports_inert[of web_options script web_target "''8080/tcp''" 0] by (simp add: web_options_def web_target_def)
qed

theorem missing_curl_counts_as_failure_witness:
  "\<exists>s. FailedServices (ParseHealthOutput ''b'' web_options
        (lines_text ([] @ [missing_curl_line 0 ''http://h/'', ''---OPSPULSE-HEALTH-END---'']))) = [s]"
proof -
  have "trim_space ''http://h/'' \<noteq> []" by code_simp
  then show ?thesis
    using missing_curl_counts_as_failure[of web_options web_target "[]" _ "''b''", OF _ _ _ _ _ refl]
    by (auto simp: web_options_def web_target_def)
qed

end
