(* ===== verification/MigrationPlan.thy ===== *)
theory MigrationPlan
  imports Health DockerAnalysis
begin

text \<open>
  \<open>internal/migration/plan.go\<close> and the planning half of \<open>health.go\<close>: the migration plan that is built from inspected
  containers and two capability reports, the classification of its risks, and the plan file. The clock is the text
  that the code formats from it; \<open>show_yaml\<close> and \<open>read_yaml\<close> are \<open>yaml.Marshal\<close> and \<open>yaml.Unmarshal\<close> of a plan. A file
  system is a map from paths to contents.
\<close>

section \<open>Plans\<close>

definition PlanKind :: string where "PlanKind = ''docker_migration_plan''"
definition PlanFormatVersion :: int where "PlanFormatVersion = 1"
definition PlanDirName :: string where "PlanDirName = ''plans''"

definition ModeCompose :: string where "ModeCompose = ''compose''"
definition ModeRun :: string where "ModeRun = ''run''"

definition ImagePullFromRegistry :: string where "ImagePullFromRegistry = ''pull_from_registry''"
definition ImagePreloadRequired :: string where "ImagePreloadRequired = ''preload_required''"
definition ImageUnknown :: string where "ImageUnknown = ''unknown''"

definition ConsistencyLogicalDump :: string where "ConsistencyLogicalDump = ''logical_dump''"
definition ConsistencyFileLevel :: string where "ConsistencyFileLevel = ''file_level''"
definition ConsistencyNone :: string where "ConsistencyNone = ''none''"
definition ConsistencyArchive :: string where "ConsistencyArchive = ''archive''"

definition ErrPlanFileExists :: sentinel where "ErrPlanFileExists = (''plan '' @ utf8 [0x6587, 0x4EF6, 0x5DF2, 0x5B58, 0x5728, 0xFF0C, 0x62D2, 0x7EDD, 0x8986, 0x76D6])"
definition ErrUnsupportedPlanVersion :: sentinel where "ErrUnsupportedPlanVersion = ''unsupported plan format version''"
definition ErrInvalidPlanDocument :: sentinel where "ErrInvalidPlanDocument = ''not an OpsPulse migration plan''"
definition ErrInvalidHealthURL :: sentinel where "ErrInvalidHealthURL = ''invalid health check URL''"

text \<open>The risk codes of \<open>plan.go\<close> and \<open>verify.go\<close>; a plan file may carry any other text.\<close>

datatype risk_code =
    RiskAnalysisBlocker | RiskSourceDockerUnavailable | RiskSourceResticMissing | RiskSourceHelperImageMissing
  | RiskSourceDiskFull | RiskSourceDiskTight | RiskTargetDockerUnavailable | RiskTargetComposeMissing
  | RiskTargetResticMissing | RiskTargetHelperImageMissing | RiskTargetDiskFull | RiskTargetPathUnavailable
  | RiskSensitiveEnv | RiskExternalBindMount | RiskDeviceRequired | RiskCustomNetwork | RiskAttributePartial
  | RiskAttributeUnsupported | RiskGeneratedCompose | RiskDatabaseFileLevel | RiskTargetRegistryUnreachable
  | RiskTargetDiskTight | RiskTargetPathReadOnly
  | RiskTargetUnspecified | RiskBackupRepository | RiskManualPreparation | RiskSystemMount | RiskHealthHTTPNotConfigured
  | RiskApplySourceMissing | RiskApplySourceDrift | RiskApplyTargetContainerConflict | RiskApplyTargetProjectConflict
  | RiskApplyTargetPortConflict | RiskApplyTargetPathConflict | RiskApplyTargetImageMissing | RiskApplyProjectMultiService
  | RiskApplyAdjustment
  | OtherRisk string

record risk =
  rk_code :: risk_code
  rk_service :: string
  rk_detail :: string
  rk_action :: string

record risk_summary =
  rs_blockers :: "risk list"
  rs_warnings :: "risk list"
  rs_follow_ups :: "risk list"

record endpoint =
  ep_server :: string
  ep_capability :: "cap_report option"

record service_config =
  sc_compose_file :: string
  sc_working_dir :: string
  sc_source :: string
  sc_restart :: string
  sc_ports :: "string list"
  sc_command :: "string list"
  sc_container_dir :: string
  sc_env_keys :: "string list"
  sc_sensitive :: "string list"

record database_plan =
  dp_engine :: string
  dp_tool :: string
  dp_strategy :: string
  dp_data_dir :: string

record consistency =
  cn_database :: string
  cn_volumes :: string

record target_path =
  tp_kind :: string
  tp_source :: string
  tp_target :: string
  tp_note :: string

record backup_config_plan =
  bp_job :: string
  bp_server :: string
  bp_paths :: "string list"
  bp_backend :: string
  bp_tags :: "string list"
  bp_description :: string
  bp_exists :: bool

record service_plan =
  sp_name :: string
  sp_container :: string
  sp_mode :: string
  sp_project :: string
  sp_compose_service :: string
  sp_image :: string
  sp_acquisition :: string
  sp_acquisition_note :: string
  sp_config :: service_config
  sp_volumes :: "volume_mount list"
  sp_binds :: "volume_mount list"
  sp_deps :: "external_dependency list"
  sp_database :: "database_plan option"
  sp_consistency :: consistency
  sp_attributes :: "attribute_support list"
  sp_paths :: "target_path list"
  sp_ports :: "string list"
  sp_health :: "string option"
  sp_backup :: "backup_config_plan option"
  sp_blockers :: "risk list"
  sp_warnings :: "risk list"
  sp_follow_ups :: "risk list"

record plan =
  pn_version :: int
  pn_kind :: string
  pn_generated :: string
  pn_generator :: string
  pn_source :: endpoint
  pn_target :: endpoint
  pn_services :: "service_plan list"
  pn_risks :: risk_summary

record backup_defaults =
  bd_backend :: string
  bd_env :: "(string \<times> string) list"
  bd_jobs :: "string list"

text \<open>A nil pointer in the evidence is \<open>None\<close>.\<close>

type_synonym evidence = "container_info option \<times> container_analysis option"

record build_input =
  bi_source :: string
  bi_source_cap :: "cap_report option"
  bi_target :: string
  bi_target_cap :: "cap_report option"
  bi_containers :: "evidence list"
  bi_backup :: backup_defaults
  bi_generator :: string
  bi_now :: string
  bi_health_url :: string

definition plan_has_blockers :: "plan option \<Rightarrow> bool" where
  "plan_has_blockers p \<longleftrightarrow> (case p of None \<Rightarrow> False | Some q \<Rightarrow> rs_blockers (pn_risks q) \<noteq> [])"

definition summary_has_blockers :: "risk_summary \<Rightarrow> bool" where
  "summary_has_blockers s \<longleftrightarrow> rs_blockers s \<noteq> []"

section \<open>Classification\<close>

definition blocker_codes :: "risk_code list" where
  "blocker_codes =
     [RiskAnalysisBlocker, RiskSourceDockerUnavailable, RiskSourceResticMissing, RiskSourceHelperImageMissing,
      RiskSourceDiskFull, RiskTargetDockerUnavailable, RiskTargetComposeMissing, RiskTargetResticMissing,
      RiskTargetHelperImageMissing, RiskTargetDiskFull, RiskTargetPathUnavailable, RiskApplySourceMissing,
      RiskApplySourceDrift, RiskApplyTargetContainerConflict, RiskApplyTargetProjectConflict, RiskApplyTargetPortConflict,
      RiskApplyTargetPathConflict, RiskApplyTargetImageMissing, RiskApplyProjectMultiService]"

definition isBlocker :: "risk \<Rightarrow> bool" where
  "isBlocker r \<longleftrightarrow> rk_code r \<in> set blocker_codes"

definition isFollowUp :: "risk \<Rightarrow> bool" where
  "isFollowUp r \<longleftrightarrow>
     rk_code r \<in> {RiskTargetUnspecified, RiskBackupRepository, RiskManualPreparation, RiskSystemMount,
                  RiskHealthHTTPNotConfigured}"

definition summary_contains :: "risk list \<Rightarrow> risk \<Rightarrow> bool" where
  "summary_contains rs r \<longleftrightarrow>
     list_ex (\<lambda>e. rk_code e = rk_code r \<and> rk_service e = rk_service r \<and> rk_detail e = rk_detail r) rs"

definition add_risk :: "risk_summary \<Rightarrow> risk \<Rightarrow> risk_summary" where
  "add_risk s r =
     (if summary_contains (rs_blockers s) r \<or> summary_contains (rs_warnings s) r \<or> summary_contains (rs_follow_ups s) r then s
      else if isBlocker r then s\<lparr>rs_blockers := rs_blockers s @ [r]\<rparr>
      else if isFollowUp r then s\<lparr>rs_follow_ups := rs_follow_ups s @ [r]\<rparr>
      else s\<lparr>rs_warnings := rs_warnings s @ [r]\<rparr>)"

definition Add :: "risk_summary \<Rightarrow> risk list \<Rightarrow> risk_summary" where
  "Add s rs = foldl add_risk s rs"

definition mk_risk :: "risk_code \<Rightarrow> string \<Rightarrow> string \<Rightarrow> risk" where
  "mk_risk code detail action = \<lparr>rk_code = code, rk_service = [], rk_detail = detail, rk_action = action\<rparr>"

definition scoped :: "risk list \<Rightarrow> string \<Rightarrow> risk list" where
  "scoped rs service = map (\<lambda>r. r\<lparr>rk_service := service\<rparr>) rs"

section \<open>Names\<close>

definition sanitizeJobName :: "string \<Rightarrow> string" where
  "sanitizeJobName name =
     (let ok = (\<lambda>r. (97 \<le> r \<and> r \<le> 122) \<or> (48 \<le> r \<and> r \<le> 57) \<or> r = 46 \<or> r = 95 \<or> r = 45);
          mapped = map (\<lambda>r. if ok r then char_of r else CHR ''-'') (runes (to_lower (trim_space name)))
      in trim_chars (\<lambda>c. c = CHR ''-'' \<or> c = CHR ''.'') (replace_all ''..'' ''.'' mapped))"

definition containerName :: "evidence \<Rightarrow> string" where
  "containerName ev = (case fst ev of None \<Rightarrow> [] | Some info \<Rightarrow> ci_name info)"

text \<open>The loop that appends \<open>-x\<close> while the name is taken. It ends: the taken names that are at least as long get fewer.\<close>

function unused_name :: "string list \<Rightarrow> string \<Rightarrow> string" where
  "unused_name used name = (if name \<in> set used then unused_name used (name @ ''-x'') else name)"
  by pat_completeness auto
termination
proof (relation "measure (\<lambda>(used, name). card {u \<in> set used. length name \<le> length u})")
  fix used and name :: string
  assume "name \<in> set used"
  then have "name \<in> {u \<in> set used. length name \<le> length u} - {u \<in> set used. length (name @ ''-x'') \<le> length u}" by simp
  moreover have "{u \<in> set used. length (name @ ''-x'') \<le> length u} \<subseteq> {u \<in> set used. length name \<le> length u}" by auto
  ultimately have "{u \<in> set used. length (name @ ''-x'') \<le> length u} \<subset> {u \<in> set used. length name \<le> length u}" by blast
  then show "((used, name @ ''-x''), used, name) \<in> measure (\<lambda>(used, name). card {u \<in> set used. length name \<le> length u})"
    by (simp add: psubset_card_mono)
qed simp

declare unused_name.simps [simp del]

definition base_name :: "evidence \<Rightarrow> string" where
  "base_name ev =
     (let base = (case snd ev of None \<Rightarrow> [] | Some a \<Rightarrow> ca_service a)
      in if trim_space base = [] \<and> fst ev \<noteq> None then containerName ev else base)"

definition job_name :: "string list \<Rightarrow> evidence \<Rightarrow> string" where
  "job_name used ev =
     (let n = sanitizeJobName (base_name ev); n1 = (if n = [] then ''service'' else n);
          n2 = (if n1 \<in> set used then sanitizeJobName (n1 @ ''-'' @ containerName ev) else n1)
      in unused_name used n2)"

fun job_names_from :: "string list \<Rightarrow> evidence list \<Rightarrow> string list" where
  "job_names_from used [] = []"
| "job_names_from used (ev # evs) = (let n = job_name used ev in n # job_names_from (n # used) evs)"

definition jobNames :: "evidence list \<Rightarrow> string list" where
  "jobNames evs = job_names_from [] evs"

section \<open>One service\<close>

definition plan_ports :: "port_mapping list \<Rightarrow> string list" where
  "plan_ports ports = filter (\<lambda>s. s \<noteq> []) (map port_string ports)"

definition firstConfigFile :: "string \<Rightarrow> string" where
  "firstConfigFile label = trim_space (fst (cut_at (CHR '','') label))"

definition envKeys :: "string list \<Rightarrow> string list" where
  "envKeys env = filter (\<lambda>n. n \<noteq> []) (map (\<lambda>e. trim_space (fst (cut_at (CHR ''='') e))) env)"

definition backupProjectDir :: "container_info \<Rightarrow> string" where
  "backupProjectDir info =
     (let dir = trim_space (ComposeWorkingDir info)
      in if dir \<noteq> [] then dir else path_join [''/var/lib/opspulse/containers'', sanitizeJobName (ci_name info)])"

definition buildServiceConfig :: "container_info \<Rightarrow> container_analysis \<Rightarrow> service_config" where
  "buildServiceConfig info a =
     (let wd = trim_space (ci_workdir info);
          generated = path_join [backupProjectDir info, ''compose.yaml''];
          existing = firstConfigFile (ca_config_files a)
      in \<lparr>sc_compose_file = (if ca_is_compose a \<and> existing \<noteq> [] then existing else generated),
          sc_working_dir = ca_working_dir a,
          sc_source = (if ca_is_compose a then ''existing'' else ''generated''),
          sc_restart = ci_restart info, sc_ports = plan_ports (ci_ports info), sc_command = ci_command info,
          sc_container_dir = (if wd \<noteq> [] \<and> wd \<noteq> ''/'' then wd else []),
          sc_env_keys = envKeys (ci_env info), sc_sensitive = ca_sensitive a\<rparr>)"

fun strategy_text :: "db_strategy \<Rightarrow> string" where
  "strategy_text DatabaseStrategyLogicalDump = ''logical_dump''"
| "strategy_text DatabaseStrategyFileLevel = ''file_level''"

definition buildDatabasePlan :: "container_analysis \<Rightarrow> database_plan option" where
  "buildDatabasePlan a =
     map_option (\<lambda>d. \<lparr>dp_engine = da_engine d, dp_tool = da_tool d, dp_strategy = strategy_text (da_strategy d),
                      dp_data_dir = da_data_dir d\<rparr>) (ca_database a)"

definition buildConsistency :: "container_analysis \<Rightarrow> consistency" where
  "buildConsistency a =
     \<lparr>cn_database =
        (case ca_database a of
           None \<Rightarrow> ConsistencyNone
         | Some d \<Rightarrow> if da_strategy d = DatabaseStrategyFileLevel then ConsistencyFileLevel else ConsistencyLogicalDump),
      cn_volumes = (if ca_named a \<noteq> [] then ConsistencyArchive else ConsistencyNone)\<rparr>"

definition imageAcquisition :: "container_info \<Rightarrow> build_input \<Rightarrow> string \<times> string" where
  "imageAcquisition info bi =
     (let image = trim_space (ci_image info)
      in if image = [] then (ImageUnknown, (utf8 [0x5BB9, 0x5668, 0x6CA1, 0x6709, 0x53EF, 0x8BC6, 0x522B, 0x7684, 0x955C, 0x50CF, 0x5F15, 0x7528]))
         else if trim_space (bi_target bi) = []
         then (ImageUnknown, (utf8 [0x672A, 0x6307, 0x5B9A, 0x76EE, 0x6807, 0x670D, 0x52A1, 0x5668, 0xFF1A, 0x65E0, 0x6CD5, 0x5224, 0x65AD, 0x76EE, 0x6807, 0x673A, 0x662F, 0x5426, 0x53EF, 0x62C9, 0x53D6] @ '' '' @ image))
         else (case bi_target_cap bi of
                 None \<Rightarrow> (ImageUnknown, (utf8 [0x7F3A, 0x5C11, 0x76EE, 0x6807, 0x673A, 0x80FD, 0x529B, 0x62A5, 0x544A, 0xFF1A, 0x65E0, 0x6CD5, 0x5224, 0x65AD, 0x955C, 0x50CF, 0x83B7, 0x53D6, 0x65B9, 0x5F0F]))
               | Some rep \<Rightarrow>
                   (case ck_status (rp_registry rep) of
                      StatusOK \<Rightarrow> (ImagePullFromRegistry, (utf8 [0x76EE, 0x6807, 0x673A, 0x53EF, 0x8BBF, 0x95EE, 0x955C, 0x50CF, 0x4ED3, 0x5E93, 0xFF0C, 0x53EF, 0x76F4, 0x63A5] @ '' docker pull '' @ image))
                    | StatusMissing \<Rightarrow> (ImagePreloadRequired, (utf8 [0x76EE, 0x6807, 0x673A, 0x65E0, 0x6CD5, 0x8BBF, 0x95EE, 0x955C, 0x50CF, 0x4ED3, 0x5E93, 0xFF1A, 0x8FC1, 0x79FB, 0x524D, 0x5FC5, 0x987B, 0x5728, 0x76EE, 0x6807, 0x673A, 0x9884, 0x7F6E] @ '' '' @ image))
                    | _ \<Rightarrow> (ImageUnknown, (utf8 [0x65E0, 0x6CD5, 0x5224, 0x65AD, 0x76EE, 0x6807, 0x673A, 0x7684, 0x955C, 0x50CF, 0x4ED3, 0x5E93, 0x53EF, 0x8FBE, 0x6027, 0xFF0C, 0x8BF7, 0x624B, 0x5DE5, 0x786E, 0x8BA4] @ '' '' @ image @ '' '' @ utf8 [0x5728, 0x76EE, 0x6807, 0x673A, 0x662F, 0x5426, 0x53EF, 0x7528])))))"

definition volumeName :: "volume_mount \<Rightarrow> string" where
  "volumeName m = (if trim_space (vm_name m) \<noteq> [] then vm_name m else vm_source m)"

definition bind_path :: "volume_mount \<Rightarrow> target_path" where
  "bind_path m =
     \<lparr>tp_kind = ''bind_mount'', tp_source = vm_source m, tp_target = vm_source m,
      tp_note = (utf8 [0x5BBF, 0x4E3B, 0x673A, 0x76EE, 0x5F55, 0x9700, 0x5728, 0x76EE, 0x6807, 0x673A, 0x9884, 0x5148, 0x521B, 0x5EFA, 0x5E76, 0x6388, 0x6743, 0xFF0C, 0x5185, 0x5BB9, 0x7531, 0x5907, 0x4EFD] @ ''/'' @ utf8 [0x8FD8, 0x539F, 0x643A, 0x5E26])\<rparr>"

definition volume_path :: "volume_mount \<Rightarrow> target_path" where
  "volume_path m =
     \<lparr>tp_kind = ''named_volume'', tp_source = volumeName m, tp_target = volumeName m,
      tp_note = (''Docker named volume'' @ utf8 [0xFF1A, 0x7531] @ '' docker volume create '' @ utf8 [0x91CD, 0x5EFA, 0x540E, 0x5BFC, 0x5165, 0x5F52, 0x6863])\<rparr>"

definition buildTargetPaths :: "container_info \<Rightarrow> container_analysis \<Rightarrow> target_path list" where
  "buildTargetPaths info a =
     \<lparr>tp_kind = ''compose_project'', tp_source = backupProjectDir info, tp_target = backupProjectDir info,
      tp_note = (if ca_is_compose a then (utf8 [0x4FDD, 0x7559, 0x539F] @ '' Compose '' @ utf8 [0x9879, 0x76EE, 0x76EE, 0x5F55, 0x540D, 0xFF1B, 0x5982, 0x9700, 0x6539, 0x52A8, 0xFF0C, 0x8BF7, 0x7F16, 0x8F91, 0x672C] @ '' plan '' @ utf8 [0x7684] @ '' target'')
                 else (utf8 [0x53CD, 0x5411, 0x751F, 0x6210, 0x7684] @ '' compose.yaml '' @ utf8 [0x5B58, 0x653E, 0x76EE, 0x5F55, 0xFF1B, 0x5982, 0x9700, 0x6539, 0x52A8, 0xFF0C, 0x8BF7, 0x7F16, 0x8F91, 0x672C] @ '' plan '' @ utf8 [0x7684] @ '' target''))\<rparr>
     # map bind_path (ca_binds a) @ map volume_path (ca_named a)"

definition buildBackupConfig :: "string \<Rightarrow> container_info \<Rightarrow> volume_mount list \<Rightarrow> build_input \<Rightarrow> backup_config_plan" where
  "buildBackupConfig name info binds bi =
     (let dir = backupProjectDir info; server = trim_space (bi_source bi)
      in \<lparr>bp_job = name, bp_server = server,
          bp_paths = dir # filter (\<lambda>s. \<not> is_system_mount s \<and> \<not> has_path_prefix s dir) (map vm_source binds),
          bp_backend = trim_space (bd_backend (bi_backup bi)), bp_tags = [''container'', name],
          bp_description = (''Container backup for '' @ ci_name info @ '' on '' @ server @ '' (from migration plan)''),
          bp_exists = name \<in> set (bd_jobs (bi_backup bi))\<rparr>)"

section \<open>The risks of a service\<close>

definition analysis_blocker :: "string \<Rightarrow> risk" where
  "analysis_blocker b =
     mk_risk RiskAnalysisBlocker b (utf8 [0x8BE5, 0x5BB9, 0x5668, 0x65E0, 0x6CD5, 0x6309, 0x5355, 0x5BB9, 0x5668, 0x8FC1, 0x79FB, 0xFF1A, 0x8BF7, 0x624B, 0x5DE5, 0x5904, 0x7406, 0xFF08, 0x4F8B, 0x5982, 0x62C6, 0x5206, 0x4E3A, 0x72EC, 0x7ACB, 0x670D, 0x52A1, 0xFF09, 0x540E, 0x518D, 0x751F, 0x6210] @ '' plan'')"

definition dep_warning :: "external_dependency \<Rightarrow> risk list" where
  "dep_warning d =
     (if ed_kind d = ''bind_mount''
      then [mk_risk RiskExternalBindMount
              ((utf8 [0x5916, 0x90E8] @ '' bind mount '' @ ed_source d @ '' '' @ utf8 [0x2192] @ '' '' @ ed_target d @ '' '' @ utf8 [0x7684, 0x5185, 0x5BB9, 0x968F, 0x5907, 0x4EFD, 0x643A, 0x5E26, 0xFF0C, 0x4F46, 0x76EE, 0x6807, 0x673A, 0x76EE, 0x5F55, 0x5FC5, 0x987B, 0x9884, 0x5148, 0x5B58, 0x5728, 0x5E76, 0x6388, 0x6743]))
              ((utf8 [0x5728, 0x76EE, 0x6807, 0x673A, 0x51C6, 0x5907] @ '' '' @ ed_source d @ utf8 [0xFF08, 0x78C1, 0x76D8, 0x3001, 0x6743, 0x9650, 0x3001, 0x6302, 0x8F7D, 0x70B9, 0xFF09]))]
      else if ed_kind d = ''device''
      then [mk_risk RiskDeviceRequired ((utf8 [0x5BB9, 0x5668, 0x4F9D, 0x8D56, 0x5BBF, 0x4E3B, 0x673A, 0x8BBE, 0x5907] @ '' '' @ ed_source d @ utf8 [0xFF0C, 0x8FC1, 0x79FB, 0x4E0D, 0x4F1A, 0x643A, 0x5E26, 0x8BBE, 0x5907, 0x672C, 0x8EAB]))
              (utf8 [0x786E, 0x8BA4, 0x76EE, 0x6807, 0x673A, 0x5177, 0x5907, 0x540C, 0x540D, 0x8BBE, 0x5907, 0xFF0C, 0x5426, 0x5219, 0x8BE5, 0x670D, 0x52A1, 0x65E0, 0x6CD5, 0x542F, 0x52A8]) ]
      else if ed_kind d = ''network''
      then [mk_risk RiskCustomNetwork ((utf8 [0x5BB9, 0x5668, 0x4F7F, 0x7528, 0x81EA, 0x5B9A, 0x4E49, 0x7F51, 0x7EDC] @ '' '' @ ed_source d @ utf8 [0xFF0C, 0x8FC1, 0x79FB, 0x4E0D, 0x4F1A, 0x81EA, 0x52A8, 0x521B, 0x5EFA, 0x8BE5, 0x7F51, 0x7EDC]))
              ((utf8 [0x5728, 0x76EE, 0x6807, 0x673A, 0x6267, 0x884C] @ '' docker network create '' @ ed_source d))]
      else [])"

definition dep_follow_up :: "external_dependency \<Rightarrow> risk list" where
  "dep_follow_up d =
     (if ed_kind d = ''system_mount''
      then [mk_risk RiskSystemMount
              ((utf8 [0x7CFB, 0x7EDF, 0x6302, 0x8F7D] @ '' '' @ ed_source d @ '' '' @ utf8 [0x2192] @ '' '' @ ed_target d @ '' '' @ utf8 [0x4E0D, 0x5F52, 0x6863, 0xFF0C, 0x7531, 0x76EE, 0x6807, 0x673A] @ '' Docker '' @ utf8 [0x8FD0, 0x884C, 0x65F6, 0x81EA, 0x52A8, 0x63D0, 0x4F9B])) []]
      else [])"

definition coveredAttribute :: "string \<Rightarrow> bool" where
  "coveredAttribute a \<longleftrightarrow> a = ''bind_mount'' \<or> a = ''environment''"

definition attribute_risk :: "attribute_support \<Rightarrow> risk list" where
  "attribute_risk a =
     (if coveredAttribute (as_attribute a) then []
      else (case as_level a of
              SupportUnsupported \<Rightarrow>
                [mk_risk RiskAttributeUnsupported
                   ((''Docker '' @ utf8 [0x5C5E, 0x6027] @ '' '' @ as_attribute a @ '' '' @ utf8 [0x4E0D, 0x53D7, 0x652F, 0x6301, 0xFF08] @ as_detail a @ utf8 [0xFF09, 0xFF1A, 0x8FC1, 0x79FB, 0x540E, 0x4F1A, 0x4E22, 0x5931]))
                   (utf8 [0x786E, 0x8BA4, 0x8BE5, 0x5C5E, 0x6027, 0x53EF, 0x4EE5, 0x4E22, 0x5931, 0xFF0C, 0x6216, 0x624B, 0x5DE5, 0x5728, 0x76EE, 0x6807, 0x673A, 0x8865, 0x9F50]) ]
            | SupportPartial \<Rightarrow>
                [mk_risk RiskAttributePartial
                   ((''Docker '' @ utf8 [0x5C5E, 0x6027] @ '' '' @ as_attribute a @ '' '' @ utf8 [0x53EA, 0x80FD, 0x90E8, 0x5206, 0x4FDD, 0x7559, 0xFF08] @ as_detail a @ utf8 [0xFF09, 0xFF1A, 0x8BED, 0x4E49, 0x53EF, 0x80FD, 0x53D8, 0x5316]))
                   (utf8 [0x8FC1, 0x79FB, 0x540E, 0x5728, 0x76EE, 0x6807, 0x673A, 0x9010, 0x9879, 0x6838, 0x5BF9, 0x8BE5, 0x5C5E, 0x6027]) ]
            | SupportSupported \<Rightarrow> []))"

definition service_blockers :: "container_analysis \<Rightarrow> risk list" where
  "service_blockers a = map analysis_blocker (ca_blockers a)"

definition service_warnings :: "container_analysis \<Rightarrow> risk list" where
  "service_warnings a =
     when_list (ca_sensitive a \<noteq> [])
       (mk_risk RiskSensitiveEnv
          ((utf8 [0x7591, 0x4F3C, 0x654F, 0x611F, 0x73AF, 0x5883, 0x53D8, 0x91CF] @ '' '' @ join_with '', '' (ca_sensitive a) @ '' '' @ utf8 [0x4F1A, 0x539F, 0x6837, 0x5199, 0x5165, 0x751F, 0x6210, 0x7684] @ '' compose.yaml '' @ utf8 [0x4E0E, 0x5907, 0x4EFD, 0x5FEB, 0x7167]))
          (utf8 [0x4F18, 0x5148, 0x6539, 0x7528, 0x5916, 0x90E8] @ '' secret '' @ utf8 [0x5F15, 0x7528, 0xFF08] @ ''env '' @ utf8 [0x6587, 0x4EF6, 0x6216] @ '' Docker secret'' @ utf8 [0xFF09, 0xFF1B, 0x5199, 0x5165, 0x5907, 0x4EFD, 0x914D, 0x7F6E, 0x524D, 0x9700, 0x8981, 0x663E, 0x5F0F, 0x786E, 0x8BA4]))
     @ concat (map dep_warning (ca_deps a))
     @ concat (map attribute_risk (ca_attributes a))
     @ when_list (\<not> ca_is_compose a)
         (mk_risk RiskGeneratedCompose (utf8 [0x666E, 0x901A] @ '' docker run '' @ utf8 [0x5BB9, 0x5668, 0xFF1A, 0x8FC1, 0x79FB, 0x65F6, 0x53CD, 0x5411, 0x751F, 0x6210, 0x5355] @ '' service compose.yaml'' @ utf8 [0xFF0C, 0x672A, 0x8986, 0x76D6, 0x7684, 0x5B57, 0x6BB5, 0x9700, 0x4EBA, 0x5DE5, 0x6838, 0x5BF9])
            (utf8 [0x8FC1, 0x79FB, 0x540E, 0x5BF9, 0x6BD4] @ '' docker inspect '' @ utf8 [0x4E0E, 0x751F, 0x6210, 0x7684] @ '' compose.yaml''))
     @ (case ca_database a of
          None \<Rightarrow> []
        | Some d \<Rightarrow>
            when_list (da_strategy d = DatabaseStrategyFileLevel)
              (mk_risk RiskDatabaseFileLevel
                 ((utf8 [0x6570, 0x636E, 0x5E93] @ '' '' @ da_engine d @ '' '' @ utf8 [0x6CA1, 0x6709, 0x53D7, 0x652F, 0x6301, 0x7684, 0x903B, 0x8F91, 0x5BFC, 0x51FA, 0x7B56, 0x7565, 0xFF1A, 0x53EA, 0x80FD, 0x505A, 0x6587, 0x4EF6, 0x7EA7, 0x590D, 0x5236, 0xFF0C, 0x4E0D, 0x4FDD, 0x8BC1, 0x4E00, 0x81F4, 0x6027]))
                 (utf8 [0x8FC1, 0x79FB, 0x524D, 0x505C, 0x5199, 0x6216, 0x4F7F, 0x7528, 0x6570, 0x636E, 0x5E93, 0x81EA, 0x5E26, 0x7684, 0x5907, 0x4EFD, 0x5DE5, 0x5177, 0xFF0C, 0x5E76, 0x4EBA, 0x5DE5, 0x786E, 0x8BA4, 0x6570, 0x636E, 0x4E00, 0x81F4, 0x6027])))"

definition service_follow_ups :: "container_analysis \<Rightarrow> string \<Rightarrow> risk list" where
  "service_follow_ups a mode =
     concat (map dep_follow_up (ca_deps a))
     @ when_list (mode = ModeRun \<or> \<not> ca_is_compose a)
         (mk_risk RiskManualPreparation (utf8 [0x76EE, 0x6807, 0x673A, 0x9700, 0x8981] @ '' Compose '' @ utf8 [0x5F15, 0x64CE, 0x6765, 0x542F, 0x52A8, 0x672C, 0x670D, 0x52A1, 0xFF08] @ ''docker compose '' @ utf8 [0x6216] @ '' docker-compose'' @ utf8 [0xFF09])
            (utf8 [0x786E, 0x8BA4, 0x76EE, 0x6807, 0x673A, 0x5DF2, 0x5B89, 0x88C5] @ '' Compose'' @ utf8 [0xFF0C, 0x6216, 0x7528] @ '' docker run '' @ utf8 [0x624B, 0x5DE5, 0x590D, 0x73B0]))"

definition buildService :: "evidence \<Rightarrow> string \<Rightarrow> build_input \<Rightarrow> service_plan res" where
  "buildService ev jobName bi =
     (case ev of
        (Some info, Some a) \<Rightarrow>
          (let mode = (if ca_is_compose a then ModeCompose else ModeRun); acq = imageAcquisition info bi
           in Inr \<lparr>sp_name = jobName, sp_container = ci_name info, sp_mode = mode, sp_project = ca_project a,
                   sp_compose_service = ca_service a, sp_image = ci_image info,
                   sp_acquisition = fst acq, sp_acquisition_note = snd acq,
                   sp_config = buildServiceConfig info a, sp_volumes = ca_named a, sp_binds = ca_binds a,
                   sp_deps = ca_deps a, sp_database = buildDatabasePlan a, sp_consistency = buildConsistency a,
                   sp_attributes = ca_attributes a, sp_paths = buildTargetPaths info a,
                   sp_ports = plan_ports (ci_ports info), sp_health = None,
                   sp_backup = Some (buildBackupConfig jobName info (ca_binds a) bi),
                   sp_blockers = service_blockers a, sp_warnings = service_warnings a,
                   sp_follow_ups = service_follow_ups a mode\<rparr>)
      | _ \<Rightarrow> Inl (errors_new ((''container evidence for '' @ go_quote jobName @ '' needs both inspect metadata and analysis''))))"

section \<open>The risks of the two hosts\<close>

definition diskRiskCode :: "bool \<Rightarrow> bool \<Rightarrow> risk_code" where
  "diskRiskCode isSource full =
     (if isSource then (if full then RiskSourceDiskFull else RiskSourceDiskTight)
      else (if full then RiskTargetDiskFull else RiskTargetDiskTight))"

definition diskRisks :: "cap_report \<Rightarrow> bool \<Rightarrow> risk list" where
  "diskRisks rep isSource =
     (let endpoint' = (if isSource then (utf8 [0x6E90, 0x673A]) else (utf8 [0x76EE, 0x6807, 0x673A]))
      in case ds_status (rp_disk rep) of
           StatusMissing \<Rightarrow>
             [mk_risk (diskRiskCode isSource True) ((endpoint' @ utf8 [0x78C1, 0x76D8, 0x7A7A, 0x95F4, 0x4E0D, 0x8DB3, 0xFF1A] @ ds_detail (rp_disk rep)))
                (utf8 [0x6E05, 0x7406, 0x6216, 0x6269, 0x5BB9, 0x540E, 0x518D, 0x6267, 0x884C, 0x8FC1, 0x79FB]) ]
         | StatusPartial \<Rightarrow>
             [mk_risk (diskRiskCode isSource False) ((endpoint' @ utf8 [0x78C1, 0x76D8, 0x504F, 0x7D27, 0xFF1A] @ ds_detail (rp_disk rep)))
                (utf8 [0x9884, 0x7559, 0x8DB3, 0x591F, 0x7A7A, 0x95F4, 0xFF0C, 0x907F, 0x514D, 0x5907, 0x4EFD] @ ''/'' @ utf8 [0x8FD8, 0x539F, 0x4E2D, 0x9014, 0x5931, 0x8D25]) ]
         | _ \<Rightarrow> [])"

definition sourceRisks :: "cap_report option \<Rightarrow> bool \<Rightarrow> risk list" where
  "sourceRisks report hasVolumes =
     (case report of
        None \<Rightarrow>
          [mk_risk RiskSourceDockerUnavailable (utf8 [0x7F3A, 0x5C11, 0x6E90, 0x673A, 0x80FD, 0x529B, 0x62A5, 0x544A, 0xFF1A, 0x65E0, 0x6CD5, 0x786E, 0x8BA4] @ '' Docker / restic / helper '' @ utf8 [0x955C, 0x50CF] @ '' / '' @ utf8 [0x78C1, 0x76D8, 0x524D, 0x7F6E, 0x6761, 0x4EF6])
             (utf8 [0x91CD, 0x65B0, 0x8FD0, 0x884C] @ '' ops docker plan '' @ utf8 [0x4EE5, 0x83B7, 0x53D6, 0x80FD, 0x529B, 0x62A5, 0x544A]) ]
      | Some rep \<Rightarrow>
          when_list (ck_status (rp_docker rep) \<noteq> StatusOK)
            (mk_risk RiskSourceDockerUnavailable
               ((utf8 [0x6E90, 0x673A] @ '' Docker '' @ utf8 [0x4E0D, 0x53EF, 0x7528, 0xFF08] @ status_text (ck_status (rp_docker rep)) @ utf8 [0xFF09, 0xFF1A] @ ck_detail (rp_docker rep)))
               (utf8 [0x5728, 0x6E90, 0x673A, 0x5B89, 0x88C5, 0x5E76, 0x542F, 0x52A8] @ '' Docker '' @ utf8 [0x540E, 0x91CD, 0x65B0, 0x751F, 0x6210] @ '' plan''))
          @ when_list (ck_status (rp_restic rep) \<noteq> StatusOK)
              (mk_risk RiskSourceResticMissing (utf8 [0x6E90, 0x673A, 0x6CA1, 0x6709, 0x53EF, 0x7528, 0x7684] @ '' restic'' @ utf8 [0xFF1A, 0x5907, 0x4EFD, 0x6B65, 0x9AA4, 0x65E0, 0x6CD5, 0x6267, 0x884C])
                 (utf8 [0x5728, 0x6E90, 0x673A, 0x5B89, 0x88C5] @ '' restic '' @ utf8 [0x540E, 0x91CD, 0x65B0, 0x751F, 0x6210] @ '' plan''))
          @ when_list (hasVolumes \<and> ck_status (rp_helper rep) = StatusMissing)
              (mk_risk RiskSourceHelperImageMissing
                 (utf8 [0x6E90, 0x673A, 0x6CA1, 0x6709, 0x53EF, 0x7528, 0x7684] @ '' helper '' @ utf8 [0x955C, 0x50CF, 0xFF08] @ ''alpine/busybox'' @ utf8 [0xFF09, 0xFF1A] @ ''named volume '' @ utf8 [0x5F52, 0x6863, 0x4F1A, 0x5931, 0x8D25])
                 (utf8 [0x5728, 0x6E90, 0x673A, 0x9884, 0x7F6E] @ '' alpine:3.20'' @ utf8 [0xFF08, 0x6216, 0x7528] @ '' OPSPULSE_HELPER_IMAGE '' @ utf8 [0x6307, 0x5B9A, 0x955C, 0x50CF, 0xFF09]))
          @ diskRisks rep True)"

definition path_risk :: "check \<Rightarrow> risk list" where
  "path_risk c =
     (case ck_status c of
        StatusMissing \<Rightarrow>
          [mk_risk RiskTargetPathUnavailable ((utf8 [0x76EE, 0x6807, 0x673A, 0x8DEF, 0x5F84] @ '' '' @ ck_name c @ '' '' @ utf8 [0x4E0D, 0x53EF, 0x7528, 0xFF08] @ ck_detail c @ utf8 [0xFF09]))
             ((utf8 [0x5728, 0x76EE, 0x6807, 0x673A, 0x521B, 0x5EFA, 0x5E76, 0x6388, 0x6743] @ '' '' @ ck_name c))]
      | StatusPartial \<Rightarrow>
          [mk_risk RiskTargetPathReadOnly ((utf8 [0x76EE, 0x6807, 0x673A, 0x8DEF, 0x5F84] @ '' '' @ ck_name c @ '' '' @ utf8 [0x9700, 0x8981, 0x9884, 0x5904, 0x7406, 0xFF08] @ ck_detail c @ utf8 [0xFF09]))
             ((utf8 [0x786E, 0x8BA4] @ '' '' @ ck_name c @ '' '' @ utf8 [0x7684, 0x5C5E, 0x4E3B, 0x4E0E, 0x6743, 0x9650]))]
      | _ \<Rightarrow> [])"

definition targetRisks :: "string \<Rightarrow> cap_report option \<Rightarrow> bool \<Rightarrow> risk list" where
  "targetRisks server report hasVolumes =
     (case report of
        None \<Rightarrow>
          [mk_risk RiskTargetDockerUnavailable
             ((utf8 [0x76EE, 0x6807, 0x673A] @ '' '' @ server @ '' '' @ utf8 [0x7F3A, 0x5C11, 0x80FD, 0x529B, 0x62A5, 0x544A, 0xFF1A, 0x65E0, 0x6CD5, 0x786E, 0x8BA4] @ '' Docker / Compose / restic / '' @ utf8 [0x8DEF, 0x5F84] @ '' / '' @ utf8 [0x78C1, 0x76D8, 0x524D, 0x7F6E, 0x6761, 0x4EF6]))
             (utf8 [0x91CD, 0x65B0, 0x8FD0, 0x884C] @ '' ops docker plan --target '' @ utf8 [0x4EE5, 0x83B7, 0x53D6, 0x76EE, 0x6807, 0x673A, 0x80FD, 0x529B, 0x62A5, 0x544A]) ]
      | Some rep \<Rightarrow>
          when_list (ck_status (rp_docker rep) \<noteq> StatusOK)
            (mk_risk RiskTargetDockerUnavailable
               ((utf8 [0x76EE, 0x6807, 0x673A] @ '' '' @ server @ '' '' @ utf8 [0x7684] @ '' Docker '' @ utf8 [0x4E0D, 0x53EF, 0x7528, 0xFF08] @ status_text (ck_status (rp_docker rep)) @ utf8 [0xFF09, 0xFF1A] @ ck_detail (rp_docker rep)))
               (utf8 [0x5728, 0x76EE, 0x6807, 0x673A, 0x5B89, 0x88C5, 0x5E76, 0x542F, 0x52A8] @ '' Docker '' @ utf8 [0x540E, 0x91CD, 0x65B0, 0x751F, 0x6210] @ '' plan''))
          @ when_list (ck_status (rp_compose rep) \<noteq> StatusOK)
              (mk_risk RiskTargetComposeMissing
                 ((utf8 [0x76EE, 0x6807, 0x673A] @ '' '' @ server @ '' '' @ utf8 [0x6CA1, 0x6709, 0x53EF, 0x7528, 0x7684] @ '' Compose'' @ utf8 [0xFF08] @ status_text (ck_status (rp_compose rep)) @ utf8 [0xFF09, 0xFF1A, 0x8FC1, 0x79FB, 0x540E, 0x65E0, 0x6CD5, 0x542F, 0x52A8, 0x670D, 0x52A1]))
                 (utf8 [0x5728, 0x76EE, 0x6807, 0x673A, 0x5B89, 0x88C5] @ '' docker compose '' @ utf8 [0x63D2, 0x4EF6, 0x6216] @ '' docker-compose''))
          @ when_list (ck_status (rp_restic rep) \<noteq> StatusOK)
              (mk_risk RiskTargetResticMissing ((utf8 [0x76EE, 0x6807, 0x673A] @ '' '' @ server @ '' '' @ utf8 [0x6CA1, 0x6709, 0x53EF, 0x7528, 0x7684] @ '' restic'' @ utf8 [0xFF1A, 0x65E0, 0x6CD5, 0x4ECE, 0x4ED3, 0x5E93, 0x8FD8, 0x539F, 0x6570, 0x636E]))
                 (utf8 [0x5728, 0x76EE, 0x6807, 0x673A, 0x5B89, 0x88C5] @ '' restic '' @ utf8 [0x540E, 0x91CD, 0x65B0, 0x751F, 0x6210] @ '' plan''))
          @ when_list (hasVolumes \<and> ck_status (rp_helper rep) = StatusMissing)
              (mk_risk RiskTargetHelperImageMissing
                 ((utf8 [0x76EE, 0x6807, 0x673A] @ '' '' @ server @ '' '' @ utf8 [0x6CA1, 0x6709, 0x53EF, 0x7528, 0x7684] @ '' helper '' @ utf8 [0x955C, 0x50CF, 0xFF08] @ ''alpine/busybox'' @ utf8 [0xFF09, 0xFF1A] @ ''named volume '' @ utf8 [0x8FD8, 0x539F, 0x4F1A, 0x5931, 0x8D25]))
                 (utf8 [0x5728, 0x76EE, 0x6807, 0x673A, 0x9884, 0x7F6E] @ '' alpine:3.20'' @ utf8 [0xFF08, 0x6216, 0x7528] @ '' OPSPULSE_HELPER_IMAGE '' @ utf8 [0x6307, 0x5B9A, 0x955C, 0x50CF, 0xFF09]))
          @ when_list (ck_status (rp_registry rep) = StatusMissing)
              (mk_risk RiskTargetRegistryUnreachable
                 ((utf8 [0x76EE, 0x6807, 0x673A] @ '' '' @ server @ '' '' @ utf8 [0x65E0, 0x6CD5, 0x8BBF, 0x95EE, 0x955C, 0x50CF, 0x4ED3, 0x5E93, 0xFF1A, 0x6240, 0x6709, 0x955C, 0x50CF, 0x5FC5, 0x987B, 0x9884, 0x5148, 0x5B58, 0x5728, 0x4E8E, 0x76EE, 0x6807, 0x673A]))
                 (utf8 [0x5728, 0x76EE, 0x6807, 0x673A, 0x9884, 0x7F6E, 0x6240, 0x9700, 0x955C, 0x50CF, 0xFF08] @ ''docker pull '' @ utf8 [0x540E] @ '' docker save/load'' @ utf8 [0xFF0C, 0x6216, 0x63D0, 0x524D, 0x653E, 0x901A, 0x4ED3, 0x5E93, 0x8BBF, 0x95EE, 0xFF09]))
          @ diskRisks rep False
          @ concat (map path_risk (rp_paths rep)))"

section \<open>Health of a plan\<close>

text \<open>A \<open>HealthPlan\<close> is its one field, the URL.\<close>

definition ParseHealthURL :: "string \<Rightarrow> string option res" where
  "ParseHealthURL raw =
     (let url = trim_space raw
      in if url = [] then Inr None
         else if \<not> has_prefix url ''http://'' \<and> \<not> has_prefix url ''https://''
         then Inl (wrap [] (sentinel_error ErrInvalidHealthURL) (('': '' @ go_quote raw @ '' '' @ utf8 [0x5FC5, 0x987B, 0x4EE5] @ '' http:// '' @ utf8 [0x6216] @ '' https:// '' @ utf8 [0x5F00, 0x5934])))
         else if CHR 0x0A \<in> set url \<or> CHR 0x0D \<in> set url \<or> CHR ''|'' \<in> set url
         then Inl (wrap [] (sentinel_error ErrInvalidHealthURL) (('': '' @ go_quote raw @ '' '' @ utf8 [0x4E0D, 0x80FD, 0x5305, 0x542B, 0x6362, 0x884C, 0x6216] @ '' '|'' @ [squote])))
         else Inr (Some url))"

definition buildPlanHealth :: "build_input \<Rightarrow> string option res" where
  "buildPlanHealth bi =
     (if trim_space (bi_health_url bi) = [] then Inr None
      else if length (bi_containers bi) \<noteq> 1
      then Inl (errors_new ''HTTP health check URL applies to a single-container plan; fill in services[].health.http_url per service on a batch plan'')
      else ParseHealthURL (bi_health_url bi))"

definition lacks_http :: "service_plan \<Rightarrow> bool" where
  "lacks_http s \<longleftrightarrow> (case sp_health s of None \<Rightarrow> True | Some u \<Rightarrow> trim_space u = [])"

definition HealthPlanRisks :: "service_plan list \<Rightarrow> risk list" where
  "HealthPlanRisks services =
     (let names = map sp_name (filter lacks_http services)
      in if names = [] then []
         else [mk_risk RiskHealthHTTPNotConfigured
                 ((utf8 [0x670D, 0x52A1] @ '' '' @ join_with '', '' (sort names) @ '' '' @ utf8 [0x672A, 0x914D, 0x7F6E] @ '' HTTP '' @ utf8 [0x5065, 0x5EB7, 0x68C0, 0x67E5, 0xFF1A, 0x8FC1, 0x79FB, 0x540E, 0x53EA, 0x80FD, 0x786E, 0x8BA4, 0x5BB9, 0x5668, 0x3001, 0x7AEF, 0x53E3, 0x4E0E, 0x6570, 0x636E, 0x5E93, 0xFF0C, 0x65E0, 0x6CD5, 0x786E, 0x8BA4, 0x5E94, 0x7528, 0x771F, 0x7684, 0x80FD, 0x5BF9, 0x5916, 0x670D, 0x52A1]))
                 (utf8 [0x5982, 0x8FD9, 0x4E9B, 0x670D, 0x52A1, 0x6709, 0x53EF, 0x8BBF, 0x95EE, 0x7684, 0x5730, 0x5740, 0xFF0C, 0x8BF7, 0x5728] @ '' plan '' @ utf8 [0x7684] @ '' services[].health.http_url '' @ utf8 [0x586B, 0x4E0A, 0xFF08, 0x4F8B, 0x5982] @ '' http://<'' @ utf8 [0x76EE, 0x6807, 0x673A] @ ''>:8080/health'' @ utf8 [0xFF09, 0x540E, 0x91CD, 0x65B0, 0x6267, 0x884C]) ])"

section \<open>The plan\<close>

definition service_risks :: "service_plan \<Rightarrow> risk list" where
  "service_risks s = scoped (sp_blockers s) (sp_name s) @ scoped (sp_warnings s) (sp_name s) @ scoped (sp_follow_ups s) (sp_name s)"

definition append_follow_up :: "risk \<Rightarrow> risk_summary \<Rightarrow> risk_summary" where
  "append_follow_up r s = s\<lparr>rs_follow_ups := rs_follow_ups s @ [r]\<rparr>"

definition target_unspecified :: risk where
  "target_unspecified =
     mk_risk RiskTargetUnspecified (utf8 [0x672A, 0x6307, 0x5B9A, 0x76EE, 0x6807, 0x670D, 0x52A1, 0x5668, 0xFF1A, 0x76EE, 0x6807, 0x8DEF, 0x5F84, 0x4E0E, 0x7AEF, 0x53E3, 0x6682, 0x6309, 0x6E90, 0x673A, 0x539F, 0x6837, 0x8BB0, 0x5F55])
       (utf8 [0x6267, 0x884C, 0x524D, 0x7528] @ '' --target '' @ utf8 [0x6307, 0x5B9A, 0x76EE, 0x6807, 0x670D, 0x52A1, 0x5668, 0x91CD, 0x65B0, 0x751F, 0x6210] @ '' plan'' @ utf8 [0xFF0C, 0x5E76, 0x5728, 0x76EE, 0x6807, 0x673A, 0x590D, 0x6838, 0x8DEF, 0x5F84, 0x4E0E, 0x7AEF, 0x53E3])"

definition no_repository :: risk where
  "no_repository =
     mk_risk RiskBackupRepository (utf8 [0x6CA1, 0x6709, 0x53EF, 0x7EE7, 0x627F, 0x7684] @ '' restic '' @ utf8 [0x4ED3, 0x5E93, 0xFF08] @ ''backups.yaml '' @ utf8 [0x4E0E] @ '' RESTIC_REPOSITORY '' @ utf8 [0x90FD, 0x4E3A, 0x7A7A, 0xFF09])
       (utf8 [0x5148, 0x914D, 0x7F6E, 0x4ED3, 0x5E93, 0xFF08] @ ''ops backup run '' @ utf8 [0x6216] @ '' backups.yaml'' @ utf8 [0xFF09, 0xFF0C, 0x5426, 0x5219, 0x65E0, 0x6CD5, 0x5199, 0x5165, 0x5907, 0x4EFD, 0x914D, 0x7F6E, 0x3001, 0x4E5F, 0x65E0, 0x6CD5, 0x6267, 0x884C, 0x5907, 0x4EFD])"

definition collectRisks :: "service_plan list \<Rightarrow> string \<Rightarrow> build_input \<Rightarrow> risk_summary" where
  "collectRisks services target_server bi =
     (let hasVolumes = list_ex (\<lambda>s. sp_volumes s \<noteq> []) services;
          s0 = Add \<lparr>rs_blockers = [], rs_warnings = [], rs_follow_ups = []\<rparr> (sourceRisks (bi_source_cap bi) hasVolumes);
          s1 = (if target_server = [] then append_follow_up target_unspecified s0
                else Add s0 (targetRisks target_server (bi_target_cap bi) hasVolumes));
          s2 = foldl (\<lambda>s service. Add s (service_risks service)) s1 services;
          s3 = (if trim_space (bd_backend (bi_backup bi)) = [] then append_follow_up no_repository s2 else s2)
      in Add s3 (HealthPlanRisks services))"

fun build_services :: "build_input \<Rightarrow> string option \<Rightarrow> (evidence \<times> string) list \<Rightarrow> service_plan list res" where
  "build_services bi health [] = Inr []"
| "build_services bi health ((ev, name) # evs) =
     (case buildService ev name bi of
        Inl e \<Rightarrow> Inl e
      | Inr s \<Rightarrow> (case build_services bi health evs of Inl e \<Rightarrow> Inl e | Inr ss \<Rightarrow> Inr (s\<lparr>sp_health := health\<rparr> # ss)))"

definition BuildPlan :: "build_input \<Rightarrow> plan res" where
  "BuildPlan bi =
     (let source = trim_space (bi_source bi); target_server = trim_space (bi_target bi)
      in if source = [] then Inl (errors_new ''source server is required to build a migration plan'')
         else if bi_containers bi = [] then Inl (errors_new ''at least one container is required to build a migration plan'')
         else (case buildPlanHealth bi of
                 Inl e \<Rightarrow> Inl e
               | Inr health \<Rightarrow>
                   (case build_services bi health (zip (bi_containers bi) (jobNames (bi_containers bi))) of
                      Inl e \<Rightarrow> Inl e
                    | Inr services \<Rightarrow>
                        Inr \<lparr>pn_version = PlanFormatVersion, pn_kind = PlanKind, pn_generated = bi_now bi,
                             pn_generator = bi_generator bi,
                             pn_source = \<lparr>ep_server = source, ep_capability = bi_source_cap bi\<rparr>,
                             pn_target = \<lparr>ep_server = target_server, ep_capability = bi_target_cap bi\<rparr>,
                             pn_services = services, pn_risks = collectRisks services target_server bi\<rparr>)))"

section \<open>The plan file\<close>

definition plan_header :: string where
  "plan_header =
     lines_text
     [''# OpsPulse Docker '' @ utf8 [0x8FC1, 0x79FB] @ '' plan'' @ utf8 [0xFF08] @ ''format_version='' @ show_int PlanFormatVersion @ utf8 [0xFF09],
      ''# '' @ utf8 [0x53EA, 0x8BFB, 0x51B3, 0x7B56, 0x8BB0, 0x5F55, 0xFF1A, 0x672C, 0x6587, 0x4EF6, 0x4E0D, 0x4F1A, 0x88AB, 0x6267, 0x884C, 0xFF0C, 0x4E5F, 0x4E0D, 0x4F1A, 0x4FEE, 0x6539, 0x6E90, 0x673A, 0x6216, 0x76EE, 0x6807, 0x673A, 0x3002],
      ''# '' @ utf8 [0x53EF, 0x624B, 0x5DE5, 0x7F16, 0x8F91] @ '' services[].target_paths / target_ports'' @ utf8 [0xFF0C, 0x6267, 0x884C, 0x524D, 0x9700, 0x91CD, 0x65B0, 0x6821, 0x9A8C, 0x3002]]"

definition Encode :: "(plan \<Rightarrow> string res) \<Rightarrow> plan option \<Rightarrow> string res" where
  "Encode show_yaml p =
     (case p of
        None \<Rightarrow> Inl (errors_new ''plan is nil'')
      | Some q \<Rightarrow>
          (case show_yaml q of
             Inl e \<Rightarrow> Inl (wrap ''marshal migration plan: '' e [])
           | Inr body \<Rightarrow> Inr (plan_header @ body)))"

text \<open>
  What the operating system answers: to \<open>MkdirAll\<close>, to the opening of a file that does not exist, and to the writing
  and closing of it, after which the file may hold anything.
\<close>

record plan_io =
  io_mkdir :: "go_error option"
  io_open :: "go_error option"
  io_write :: "(go_error \<times> string) option"

definition os_ErrExist :: sentinel where "os_ErrExist = ''file already exists''"

definition open_error :: "plan_io \<Rightarrow> (string \<Rightarrow> string option) \<Rightarrow> string \<Rightarrow> go_error option" where
  "open_error io fs p = (if fs p \<noteq> None then Some (wrap (''open '' @ p @ '': '') (sentinel_error os_ErrExist) []) else io_open io)"

definition Save ::
    "(plan \<Rightarrow> string res) \<Rightarrow> plan_io \<Rightarrow> string \<Rightarrow> plan option \<Rightarrow> (string \<Rightarrow> string option) \<Rightarrow> go_error option \<times> (string \<Rightarrow> string option)"
where
  "Save show_yaml io p pl fs =
     (let clean = trim_space p
      in if clean = [] then (Some (errors_new ''plan path cannot be empty''), fs)
         else (case Encode show_yaml pl of
                 Inl e \<Rightarrow> (Some e, fs)
               | Inr data \<Rightarrow>
                   (let dir = path_dir clean
                    in case (if dir \<noteq> [] \<and> dir \<noteq> ''.'' then io_mkdir io else None) of
                         Some e \<Rightarrow> (Some (wrap ((''create plan directory '' @ go_quote dir @ '': '')) e []), fs)
                       | None \<Rightarrow>
                           (case open_error io fs clean of
                              Some e \<Rightarrow>
                                (if errors_is e os_ErrExist
                                 then (Some (wrap [] (sentinel_error ErrPlanFileExists)
                                         (('': '' @ clean @ utf8 [0xFF08, 0x8BF7, 0x6362, 0x4E00, 0x4E2A, 0x6587, 0x4EF6, 0x540D, 0xFF0C, 0x6216, 0x7528] @ '' --save '' @ utf8 [0x6307, 0x5B9A, 0x65B0, 0x8DEF, 0x5F84, 0xFF09]))), fs)
                                 else (Some (wrap ((''write plan '' @ go_quote clean @ '': '')) e []), fs))
                            | None \<Rightarrow>
                                (case io_write io of
                                   Some (e, part) \<Rightarrow> (Some (wrap ((''write plan '' @ go_quote clean @ '': '')) e []), fs(clean \<mapsto> part))
                                 | None \<Rightarrow> (None, fs(clean \<mapsto> data)))))))"

text \<open>\<open>read\<close> is \<open>os.ReadFile\<close>.\<close>

definition Load :: "(string \<Rightarrow> plan res) \<Rightarrow> (string \<Rightarrow> string res) \<Rightarrow> string \<Rightarrow> plan res" where
  "Load read_yaml read p =
     (let clean = trim_space p
      in if clean = [] then Inl (errors_new ''plan path cannot be empty'')
         else (case read clean of
                 Inl e \<Rightarrow> Inl (wrap ((''read plan '' @ go_quote clean @ '': '')) e [])
               | Inr data \<Rightarrow>
                   (case read_yaml data of
                      Inl e \<Rightarrow> Inl (wrap ((''parse plan '' @ go_quote clean @ '': '')) e [])
                    | Inr q \<Rightarrow>
                        (if pn_kind q \<noteq> PlanKind
                         then Inl (wrap [] (sentinel_error ErrInvalidPlanDocument)
                                (('': '' @ clean @ utf8 [0xFF08] @ ''kind='' @ go_quote (pn_kind q) @ utf8 [0xFF09])))
                         else if pn_version q \<noteq> PlanFormatVersion
                         then Inl (wrap [] (sentinel_error ErrUnsupportedPlanVersion)
                                (('': '' @ clean @ '' '' @ utf8 [0x7684] @ '' format_version='' @ show_int (pn_version q) @ utf8 [0xFF0C, 0x672C, 0x7248, 0x672C, 0x53EA, 0x652F, 0x6301] @ '' '' @ show_int PlanFormatVersion @ utf8 [0xFF08, 0x8BF7, 0x7528, 0x751F, 0x6210, 0x8BE5, 0x6587, 0x4EF6, 0x7684] @ '' OpsPulse '' @ utf8 [0x7248, 0x672C, 0x8BFB, 0x53D6, 0xFF09])))
                         else Inr q))))"

text \<open>\<open>stamp\<close> is the formatted time, \<open>dir\<close> the answer of \<open>config.Dir\<close>.\<close>

definition DefaultPlanPath :: "string \<Rightarrow> string \<Rightarrow> string \<Rightarrow> string \<Rightarrow> string" where
  "DefaultPlanPath dir server label stamp =
     path_join [dir, PlanDirName, stamp @ ''-'' @ sanitizeJobName server @ ''-'' @ sanitizeJobName label @ ''.yaml'']"

section \<open>Lemmas on names\<close>

definition name_char :: "char \<Rightarrow> bool" where
  "name_char c \<longleftrightarrow> is_lower c \<or> is_digit c \<or> c \<in> {CHR ''.'', CHR ''_'', CHR ''-''}"

lemma replace_all_subset: "set (replace_all old new s) \<subseteq> set new \<union> set s"
proof (induction old new s rule: replace_all.induct)
  case (1 old new s)
  show ?case
  proof (cases "old = [] \<or> s = []")
    case False
    then obtain x xs where s: "s = x # xs" "old \<noteq> []" by (cases s) auto
    have eq: "replace_all old new s = (if has_prefix s old then new @ replace_all old new (drop (length old) s) else x # replace_all old new xs)"
      using s by (simp add: replace_all.simps[of old new "x # xs"])
    have "set (drop (length old) s) \<subseteq> set s" by (rule set_drop_subset)
    then show ?thesis using 1 s unfolding eq by (cases "has_prefix s old") auto
  qed (auto simp: replace_all.simps[of old new s])
qed

lemma replace_all_keeps: "c \<in> set s \<Longrightarrow> c \<notin> set old \<Longrightarrow> c \<in> set (replace_all old new s)"
proof (induction old new s rule: replace_all.induct)
  case (1 old new s)
  show ?case
  proof (cases "old = [] \<or> s = []")
    case False
    then obtain x xs where s: "s = x # xs" "old \<noteq> []" by (cases s) auto
    have "c \<in> set (drop (length old) s)" if "has_prefix s old"
    proof -
      obtain r where "s = old @ r" using \<open>has_prefix s old\<close> has_prefix_iff by blast
      then show ?thesis using "1.prems" by auto
    qed
    moreover have "replace_all old new s = (if has_prefix s old then new @ replace_all old new (drop (length old) s) else x # replace_all old new xs)"
      using s by (simp add: replace_all.simps[of old new "x # xs"])
    ultimately show ?thesis using 1 s by (cases "has_prefix s old") auto
  qed (use "1.prems" in \<open>auto simp: replace_all.simps[of old new s]\<close>)
qed

lemma trim_chars_subset: "set (trim_chars P s) \<subseteq> set s"
  unfolding trim_chars_def trim_chars_left_def trim_chars_right_def by (metis set_dropWhileD set_rev subsetI)

lemma dropWhile_keeps: "c \<in> set s \<Longrightarrow> \<not> P c \<Longrightarrow> c \<in> set (dropWhile P s)"
  by (induction s) auto

lemma trim_chars_keeps: "c \<in> set s \<Longrightarrow> \<not> P c \<Longrightarrow> c \<in> set (trim_chars P s)"
  unfolding trim_chars_def trim_chars_left_def trim_chars_right_def by (simp add: dropWhile_keeps)

lemma trim_chars_hd: "trim_chars P s \<noteq> [] \<Longrightarrow> \<not> P (hd (trim_chars P s))"
proof -
  assume ne: "trim_chars P s \<noteq> []"
  let ?l = "dropWhile P s"
  obtain q where "?l = rev (dropWhile P (rev ?l)) @ q"
    by (metis rev_append rev_rev_ident takeWhile_dropWhile_id)
  then have "hd ?l = hd (trim_chars P s)" "?l \<noteq> []"
    using ne unfolding trim_chars_def trim_chars_left_def trim_chars_right_def by (metis hd_append2, force)
  then show ?thesis using hd_dropWhile[of P s] by simp
qed

definition mapped_name :: "string \<Rightarrow> string" where
  "mapped_name s =
     map (\<lambda>r. if (97 \<le> r \<and> r \<le> 122) \<or> (48 \<le> r \<and> r \<le> 57) \<or> r = 46 \<or> r = 95 \<or> r = 45 then char_of r else CHR ''-'')
       (runes (to_lower (trim_space s)))"

lemma sanitize_unfold:
  "sanitizeJobName s = trim_chars (\<lambda>c. c = CHR ''-'' \<or> c = CHR ''.'') (replace_all ''..'' ''.'' (mapped_name s))"
  by (simp add: sanitizeJobName_def mapped_name_def Let_def)

lemma name_char_of: "(97 \<le> r \<and> r \<le> 122) \<or> (48 \<le> r \<and> r \<le> 57) \<or> r = 46 \<or> r = 95 \<or> r = 45 \<Longrightarrow> name_char (char_of (r :: nat))"
proof -
  assume r: "(97 \<le> r \<and> r \<le> 122) \<or> (48 \<le> r \<and> r \<le> 57) \<or> r = 46 \<or> r = 95 \<or> r = 45"
  then have "code_of (char_of r) = r" by (auto simp: code_of_def)
  then show ?thesis using r by (auto simp: name_char_def is_lower_def is_digit_def char_of_consts)
qed

lemma sanitize_chars: "c \<in> set (sanitizeJobName s) \<Longrightarrow> name_char c"
proof -
  assume "c \<in> set (sanitizeJobName s)"
  then have "c \<in> set ''.'' \<union> set (mapped_name s)"
    using trim_chars_subset replace_all_subset unfolding sanitize_unfold by fast
  moreover have "name_char (CHR ''-'')" "name_char (CHR ''.'')" by (simp_all add: name_char_def)
  ultimately show ?thesis using name_char_of by (auto simp: mapped_name_def split: if_splits)
qed

lemma sanitize_hd: "sanitizeJobName s \<noteq> [] \<Longrightarrow> hd (sanitizeJobName s) \<notin> {CHR ''-'', CHR ''.''}"
  unfolding sanitize_unfold using trim_chars_hd by fastforce

lemma sanitize_keeps:
  assumes "c \<in> set s" "name_char c" "c \<notin> {CHR ''-'', CHR ''.''}"
  shows "c \<in> set (sanitizeJobName s)"
proof -
  have code: "code_of c < 128" "\<not> ws1 c" "to_lower_char c = c"
    "(97 \<le> code_of c \<and> code_of c \<le> 122) \<or> (48 \<le> code_of c \<and> code_of c \<le> 57) \<or> code_of c = 95"
    using assms(2,3) by (auto simp: name_char_def is_lower_def is_digit_def ws1_def to_lower_char_def code_of_def)
  have "c \<in> set (trim_space s)" using trim_space_dropped[OF assms(1)] code by auto
  then have "c \<in> set (to_lower (trim_space s))" using code(3) by (force simp: to_lower_def)
  then have "code_of c \<in> set (runes (to_lower (trim_space s)))" using runes_keeps_ascii code(1) by blast
  moreover have "char_of (code_of c) = c" by (simp add: code_of_def)
  ultimately have "c \<in> set (mapped_name s)" using code(4) unfolding mapped_name_def by force
  then have "c \<in> set (replace_all ''..'' ''.'' (mapped_name s))" using replace_all_keeps assms(3) by auto
  then show ?thesis unfolding sanitize_unfold using trim_chars_keeps assms(3) by auto
qed

lemma unused_name_spec: "\<exists>k. unused_name used n = n @ concat (replicate k ''-x'') \<and> unused_name used n \<notin> set used"
proof (induction used n rule: unused_name.induct)
  case (1 used n)
  show ?case
  proof (cases "n \<in> set used")
    case True
    then obtain k where "unused_name used n = n @ concat (replicate (Suc k) ''-x'')" "unused_name used n \<notin> set used"
      using 1 by (auto simp: unused_name.simps[of used n])
    then show ?thesis by blast
  next
    case False
    then show ?thesis by (intro exI[of _ 0]) (simp add: unused_name.simps[of used n])
  qed
qed

text \<open>A name of the plan: no taken name, made of safe characters, and starting with one that is not a separator.\<close>

lemma job_name_spec:
  "job_name used ev \<notin> set used \<and> job_name used ev \<noteq> [] \<and> (\<forall>c\<in>set (job_name used ev). name_char c)
   \<and> hd (job_name used ev) \<notin> {CHR ''-'', CHR ''.''}"
proof -
  define n where "n = sanitizeJobName (base_name ev)"
  define n1 where "n1 = (if n = [] then ''service'' else n)"
  define n2 where "n2 = (if n1 \<in> set used then sanitizeJobName (n1 @ ''-'' @ containerName ev) else n1)"
  have good1: "n1 \<noteq> []" "\<forall>c\<in>set n1. name_char c" "hd n1 \<notin> {CHR ''-'', CHR ''.''}"
    using sanitize_hd[of "base_name ev"] sanitize_chars[of _ "base_name ev"]
    by (auto simp: n1_def n_def name_char_def is_lower_def code_of_def)
  have good2: "n2 \<noteq> []" "\<forall>c\<in>set n2. name_char c" "hd n2 \<notin> {CHR ''-'', CHR ''.''}"
  proof -
    have "hd n1 \<in> set (n1 @ ''-'' @ containerName ev)" using good1(1) by simp
    moreover have "name_char (hd n1)" using good1 by simp
    ultimately have "hd n1 \<in> set (sanitizeJobName (n1 @ ''-'' @ containerName ev))"
      using sanitize_keeps good1(3) by blast
    then have "sanitizeJobName (n1 @ ''-'' @ containerName ev) \<noteq> []" by auto
    then show "n2 \<noteq> []" "\<forall>c\<in>set n2. name_char c" "hd n2 \<notin> {CHR ''-'', CHR ''.''}"
      using good1 sanitize_hd sanitize_chars by (auto simp: n2_def split: if_splits)
  qed
  have j: "job_name used ev = unused_name used n2" by (simp add: job_name_def n_def n1_def n2_def Let_def)
  obtain k where k: "unused_name used n2 = n2 @ concat (replicate k ''-x'')" "unused_name used n2 \<notin> set used"
    using unused_name_spec by blast
  have "\<forall>c\<in>set (concat (replicate k ''-x'')). name_char c"
    by (auto simp: name_char_def is_lower_def code_of_def)
  then show ?thesis using k good2 unfolding j by auto
qed

lemma job_names_from_spec:
  "length (job_names_from used evs) = length evs \<and> distinct (job_names_from used evs)
   \<and> set (job_names_from used evs) \<inter> set used = {}
   \<and> (\<forall>n\<in>set (job_names_from used evs). n \<noteq> [] \<and> (\<forall>c\<in>set n. name_char c) \<and> hd n \<notin> {CHR ''-'', CHR ''.''})"
proof (induction used evs rule: job_names_from.induct)
  case (2 used ev evs)
  note j = job_name_spec[of used ev]
  show ?case using "2.IH"[OF refl] j by (auto simp: Let_def)
qed simp

lemma name_char_runes:
  assumes "\<forall>c\<in>set n. name_char c"
  shows "job_name_runes uc full (runes n) = None"
proof -
  have r: "runes n = map code_of n"
    by (rule runes_of_ascii) (use assms in \<open>auto simp: name_char_def is_lower_def is_digit_def code_of_def\<close>)
  have "letter_or_digit uc (code_of c) \<or> code_of c \<in> {46, 95, 64, 45}" if "name_char c" for c
    using that by (auto simp: name_char_def is_lower_def is_digit_def letter_or_digit_def ascii_alnum_def code_of_def)
  then show ?thesis unfolding r using assms by (induction n) auto
qed

text \<open>The single pass of \<open>ReplaceAll\<close> leaves two dots of four.\<close>

lemma sanitize_leaves_two_dots:
  "sanitizeJobName ''a....b'' = ''a..b'' \<and> ValidateJobName uc (sanitizeJobName ''a....b'') \<noteq> None"
proof -
  have s: "sanitizeJobName ''a....b'' = ''a..b''" by code_simp
  have "trim_space ''a..b'' \<noteq> []" "contains_str ''a..b'' ''..''" by code_simp+
  then show ?thesis unfolding s by (simp add: ValidateJobName_def)
qed

section \<open>Lemmas on risks\<close>

text \<open>Each risk of a summary stands in the list of its severity.\<close>

definition same_risk :: "risk \<Rightarrow> risk \<Rightarrow> bool" where
  "same_risk e r \<longleftrightarrow> rk_code e = rk_code r \<and> rk_service e = rk_service r \<and> rk_detail e = rk_detail r"

definition all_risks :: "risk_summary \<Rightarrow> risk list" where
  "all_risks s = rs_blockers s @ rs_warnings s @ rs_follow_ups s"

definition classified :: "risk_summary \<Rightarrow> bool" where
  "classified s \<longleftrightarrow>
     (\<forall>r\<in>set (rs_blockers s). isBlocker r)
     \<and> (\<forall>r\<in>set (rs_follow_ups s). isFollowUp r)
     \<and> (\<forall>r\<in>set (rs_warnings s). \<not> isBlocker r \<and> \<not> isFollowUp r)
     \<and> distinct (map (\<lambda>r. (rk_code r, rk_service r, rk_detail r)) (all_risks s))"

lemma follow_up_no_blocker: "isFollowUp r \<Longrightarrow> \<not> isBlocker r"
  by (auto simp: isFollowUp_def isBlocker_def blocker_codes_def)

lemma summary_contains_iff: "summary_contains rs r \<longleftrightarrow> (\<exists>e\<in>set rs. same_risk e r)"
  by (auto simp: summary_contains_def same_risk_def list_ex_iff)

lemma add_risk_classified: "classified s \<Longrightarrow> classified (add_risk s r)"
  using follow_up_no_blocker[of r]
  by (auto simp: classified_def add_risk_def all_risks_def summary_contains_iff same_risk_def)

lemma add_risk_set: "set (all_risks s) \<subseteq> set (all_risks (add_risk s r)) \<and> set (all_risks (add_risk s r)) \<subseteq> insert r (set (all_risks s))"
  by (auto simp: add_risk_def all_risks_def)

lemma add_risk_member: "\<exists>e\<in>set (all_risks (add_risk s r)). same_risk e r"
  by (auto simp: add_risk_def all_risks_def summary_contains_iff same_risk_def)

lemma Add_classified: "classified s \<Longrightarrow> classified (Add s rs)"
  unfolding Add_def by (induction rs arbitrary: s) (simp_all add: add_risk_classified)

lemma Add_set: "set (all_risks s) \<subseteq> set (all_risks (Add s rs)) \<and> set (all_risks (Add s rs)) \<subseteq> set (all_risks s) \<union> set rs"
  unfolding Add_def
proof (induction rs arbitrary: s)
  case (Cons r rs)
  show ?case using Cons[of "add_risk s r"] add_risk_set[of s r] by auto
qed simp

lemma Add_member: "r \<in> set rs \<Longrightarrow> \<exists>e\<in>set (all_risks (Add s rs)). same_risk e r"
proof (induction rs arbitrary: s)
  case (Cons x rs)
  have step: "Add s (x # rs) = Add (add_risk s x) rs" by (simp add: Add_def)
  show ?case
  proof (cases "r = x")
    case True
    obtain e where "e \<in> set (all_risks (add_risk s x))" "same_risk e x" using add_risk_member by blast
    then show ?thesis using Add_set[of "add_risk s x" rs] True unfolding step by blast
  next
    case False
    then show ?thesis using Cons unfolding step by simp
  qed
qed simp

lemma append_follow_up_set: "set (all_risks (append_follow_up r s)) = insert r (set (all_risks s))"
  by (auto simp: append_follow_up_def all_risks_def)

text \<open>Only \<open>Add\<close> and the two direct appends build the summary of a plan.\<close>

lemma same_risk_refl [simp]: "same_risk r r"
  by (simp add: same_risk_def)

lemma same_risk_severity: "same_risk e r \<Longrightarrow> isBlocker e = isBlocker r \<and> isFollowUp e = isFollowUp r"
  by (simp add: same_risk_def isBlocker_def isFollowUp_def)

lemma blockers_of_classified: "classified s \<Longrightarrow> e \<in> set (all_risks s) \<Longrightarrow> isBlocker e \<Longrightarrow> e \<in> set (rs_blockers s)"
  using follow_up_no_blocker by (auto simp: classified_def all_risks_def)

lemma append_follow_up_classified:
  assumes "classified s" "isFollowUp r" "\<forall>e\<in>set (all_risks s). rk_code e \<noteq> rk_code r"
  shows "classified (append_follow_up r s)"
  using assms by (auto simp: classified_def append_follow_up_def all_risks_def)

definition plan_risks_of :: "service_plan list \<Rightarrow> string \<Rightarrow> build_input \<Rightarrow> risk list" where
  "plan_risks_of services target_server bi =
     (let hv = list_ex (\<lambda>s. sp_volumes s \<noteq> []) services
      in sourceRisks (bi_source_cap bi) hv
       @ (if target_server = [] then [target_unspecified] else targetRisks target_server (bi_target_cap bi) hv)
       @ concat (map service_risks services)
       @ (if trim_space (bd_backend (bi_backup bi)) = [] then [no_repository] else [])
       @ HealthPlanRisks services)"

lemma foldl_Add: "foldl (\<lambda>s x. Add s (f x)) s xs = Add s (concat (map f xs))"
  by (induction xs arbitrary: s) (simp_all add: Add_def)

lemma sourceRisks_codes: "r \<in> set (sourceRisks rep hv) \<Longrightarrow>
    rk_code r \<in> {RiskSourceDockerUnavailable, RiskSourceResticMissing, RiskSourceHelperImageMissing, RiskSourceDiskFull, RiskSourceDiskTight}"
  by (auto simp: sourceRisks_def when_list_def mk_risk_def diskRisks_def diskRiskCode_def Let_def
      split: option.splits if_splits cap_status.splits)

lemma path_risk_codes: "r \<in> set (path_risk c) \<Longrightarrow> rk_code r \<in> {RiskTargetPathUnavailable, RiskTargetPathReadOnly}"
  by (cases "ck_status c") (auto simp: path_risk_def mk_risk_def)

lemma targetRisks_codes: "r \<in> set (targetRisks srv rep hv) \<Longrightarrow>
    rk_code r \<in> {RiskTargetDockerUnavailable, RiskTargetComposeMissing, RiskTargetResticMissing, RiskTargetHelperImageMissing,
      RiskTargetRegistryUnreachable, RiskTargetDiskFull, RiskTargetDiskTight, RiskTargetPathUnavailable, RiskTargetPathReadOnly}"
  by (auto simp: targetRisks_def when_list_def mk_risk_def diskRisks_def diskRiskCode_def Let_def
      dest!: path_risk_codes split: option.splits if_splits cap_status.splits)

lemma attribute_risk_codes: "r \<in> set (attribute_risk a) \<Longrightarrow> rk_code r \<in> {RiskAttributeUnsupported, RiskAttributePartial}"
  by (cases "as_level a") (auto simp: attribute_risk_def mk_risk_def split: if_splits)

lemma service_codes:
  assumes "buildService ev n bi = Inr s" "r \<in> set (service_risks s)"
  shows "rk_code r \<notin> {RiskBackupRepository, RiskTargetUnspecified, RiskHealthHTTPNotConfigured} \<and> rk_service r = n"
proof -
  obtain info a where e: "ev = (Some info, Some a)" using assms(1) by (auto simp: buildService_def split: prod.splits option.splits)
  have f: "sp_blockers s = service_blockers a" "sp_warnings s = service_warnings a" "sp_name s = n"
    "\<exists>mode. sp_follow_ups s = service_follow_ups a mode"
    using assms(1) by (auto simp: buildService_def e Let_def)
  have b: "rk_code x = RiskAnalysisBlocker" if "x \<in> set (service_blockers a)" for x
    using that by (auto simp: service_blockers_def analysis_blocker_def mk_risk_def)
  have w: "rk_code x \<in> {RiskSensitiveEnv, RiskExternalBindMount, RiskDeviceRequired, RiskCustomNetwork, RiskAttributeUnsupported,
      RiskAttributePartial, RiskGeneratedCompose, RiskDatabaseFileLevel}" if "x \<in> set (service_warnings a)" for x
    using that by (auto simp: service_warnings_def when_list_def mk_risk_def dep_warning_def
        dest!: attribute_risk_codes split: if_splits option.splits)
  have u: "rk_code x \<in> {RiskSystemMount, RiskManualPreparation}" if "x \<in> set (service_follow_ups a mode)" for x mode
    using that by (auto simp: service_follow_ups_def when_list_def mk_risk_def dep_follow_up_def split: if_splits)
  obtain mode where m: "sp_follow_ups s = service_follow_ups a mode" using f(4) by blast
  have "r \<in> (\<lambda>x. x\<lparr>rk_service := n\<rparr>) ` (set (service_blockers a) \<union> set (service_warnings a) \<union> set (service_follow_ups a mode))"
    using assms(2) unfolding service_risks_def scoped_def f(1-3) m by auto
  then obtain x where r: "r = x\<lparr>rk_service := n\<rparr>"
    and x: "x \<in> set (service_blockers a) \<or> x \<in> set (service_warnings a) \<or> x \<in> set (service_follow_ups a mode)" by blast
  from x consider "x \<in> set (service_blockers a)" | "x \<in> set (service_warnings a)" | "x \<in> set (service_follow_ups a mode)" by blast
  then have "rk_code x \<notin> {RiskBackupRepository, RiskTargetUnspecified, RiskHealthHTTPNotConfigured}"
  proof cases
    case 1 then show ?thesis using b[OF 1] by simp
  next
    case 2 then show ?thesis using w[OF 2] by auto
  next
    case 3 then show ?thesis using u[OF 3] by auto
  qed
  then show ?thesis by (simp add: r)
qed

lemma build_services_spec:
  assumes "build_services bi health evs = Inr ss"
  shows "map sp_name ss = map snd evs \<and> (\<forall>s\<in>set ss. \<exists>x\<in>set evs. \<exists>s'. buildService (fst x) (snd x) bi = Inr s' \<and> s = s'\<lparr>sp_health := health\<rparr>)
    \<and> (\<forall>x\<in>set evs. \<exists>s'. buildService (fst x) (snd x) bi = Inr s' \<and> s'\<lparr>sp_health := health\<rparr> \<in> set ss)"
  using assms
proof (induction bi health evs arbitrary: ss rule: build_services.induct)
  case (2 bi health ev name evs)
  obtain s' ss' where s: "buildService ev name bi = Inr s'" "build_services bi health evs = Inr ss'"
    "ss = s'\<lparr>sp_health := health\<rparr> # ss'"
    using "2.prems" by (auto split: sum.splits)
  have "sp_name s' = name" using s(1) by (auto simp: buildService_def Let_def split: prod.splits option.splits)
  then show ?case using "2.IH"[OF s(1,2)] s by (auto simp del: split_paired_Ex)
qed simp

lemma service_risks_health [simp]: "service_risks (s\<lparr>sp_health := h\<rparr>) = service_risks s"
  by (simp add: service_risks_def)

lemma BuildPlan_parts:
  assumes "BuildPlan bi = Inr p"
  obtains health where "trim_space (bi_source bi) \<noteq> []" "bi_containers bi \<noteq> []" "buildPlanHealth bi = Inr health"
    "build_services bi health (zip (bi_containers bi) (jobNames (bi_containers bi))) = Inr (pn_services p)"
    "ep_server (pn_target p) = trim_space (bi_target bi)" "pn_kind p = PlanKind" "pn_version p = PlanFormatVersion"
    "ep_server (pn_source p) = trim_space (bi_source bi)"
    "pn_risks p = collectRisks (pn_services p) (trim_space (bi_target bi)) bi"
  using assms by (auto simp: BuildPlan_def Let_def split: if_splits sum.splits)

lemma collectRisks_spec:
  assumes "\<And>s r. s \<in> set services \<Longrightarrow> r \<in> set (service_risks s) \<Longrightarrow>
      rk_code r \<notin> {RiskBackupRepository, RiskTargetUnspecified, RiskHealthHTTPNotConfigured}"
  shows "classified (collectRisks services srv bi)
    \<and> set (all_risks (collectRisks services srv bi)) \<subseteq> set (plan_risks_of services srv bi)
    \<and> (\<forall>r\<in>set (plan_risks_of services srv bi). \<exists>e\<in>set (all_risks (collectRisks services srv bi)). same_risk e r)"
proof -
  define hv where "hv = list_ex (\<lambda>s. sp_volumes s \<noteq> []) services"
  define s0 where "s0 = Add \<lparr>rs_blockers = [], rs_warnings = [], rs_follow_ups = []\<rparr> (sourceRisks (bi_source_cap bi) hv)"
  define s1 where "s1 = (if srv = [] then append_follow_up target_unspecified s0 else Add s0 (targetRisks srv (bi_target_cap bi) hv))"
  define s2 where "s2 = Add s1 (concat (map service_risks services))"
  define s3 where "s3 = (if trim_space (bd_backend (bi_backup bi)) = [] then append_follow_up no_repository s2 else s2)"
  have c: "collectRisks services srv bi = Add s3 (HealthPlanRisks services)"
    by (simp add: collectRisks_def Let_def s0_def s1_def s2_def s3_def hv_def foldl_Add)
  have m0: "set (all_risks s0) \<subseteq> set (sourceRisks (bi_source_cap bi) hv)"
    using Add_set[of "\<lparr>rs_blockers = [], rs_warnings = [], rs_follow_ups = []\<rparr>"] by (auto simp: s0_def all_risks_def)
  have m1: "set (all_risks s1) \<subseteq> set (sourceRisks (bi_source_cap bi) hv)
      \<union> set (if srv = [] then [target_unspecified] else targetRisks srv (bi_target_cap bi) hv)"
    using m0 Add_set[of s0 "targetRisks srv (bi_target_cap bi) hv"] by (cases "srv = []") (auto simp: s1_def append_follow_up_set)
  have m2: "set (all_risks s2) \<subseteq> set (all_risks s1) \<union> set (concat (map service_risks services))"
    using Add_set[of s1 "concat (map service_risks services)"] unfolding s2_def by blast
  have u: "rk_code target_unspecified = RiskTargetUnspecified" "isFollowUp target_unspecified"
    "rk_code no_repository = RiskBackupRepository" "isFollowUp no_repository"
    by (simp_all add: target_unspecified_def no_repository_def mk_risk_def isFollowUp_def)
  have "classified s0" unfolding s0_def by (rule Add_classified) (simp add: classified_def all_risks_def)
  then have k1: "classified s1"
  proof (cases "srv = []")
    case True
    have "\<forall>e\<in>set (all_risks s0). rk_code e \<noteq> rk_code target_unspecified"
    proof
      fix e assume "e \<in> set (all_risks s0)"
      then have "e \<in> set (sourceRisks (bi_source_cap bi) hv)" using m0 by blast
      from sourceRisks_codes[OF this] show "rk_code e \<noteq> rk_code target_unspecified" by (auto simp: u(1))
    qed
    then show ?thesis using \<open>classified s0\<close> append_follow_up_classified u(2) True by (simp add: s1_def)
  qed (simp add: s1_def Add_classified)
  then have k2: "classified s2" unfolding s2_def by (rule Add_classified)
  have "\<forall>e\<in>set (all_risks s2). rk_code e \<noteq> RiskBackupRepository"
  proof
    fix e assume "e \<in> set (all_risks s2)"
    then consider "e \<in> set (sourceRisks (bi_source_cap bi) hv)" | "e = target_unspecified"
      | "e \<in> set (targetRisks srv (bi_target_cap bi) hv)" | s where "s \<in> set services" "e \<in> set (service_risks s)"
      using m1 m2 by (fastforce split: if_splits)
    then show "rk_code e \<noteq> RiskBackupRepository"
    proof cases
      case 1 then show ?thesis using sourceRisks_codes[OF 1] by auto
    next
      case 2 then show ?thesis using u by simp
    next
      case 3 then show ?thesis using targetRisks_codes[OF 3] by auto
    next
      case 4 then show ?thesis using assms by auto
    qed
  qed
  then have k3: "classified s3" using k2 u unfolding s3_def by (auto intro!: append_follow_up_classified)
  have sub3: "set (all_risks s2) \<subseteq> set (all_risks s3)" "set (all_risks s3) \<subseteq> set (all_risks s2)
      \<union> set (if trim_space (bd_backend (bi_backup bi)) = [] then [no_repository] else [])"
    by (auto simp: s3_def append_follow_up_set)
  have last: "set (all_risks s3) \<subseteq> set (all_risks (collectRisks services srv bi))"
    "set (all_risks (collectRisks services srv bi)) \<subseteq> set (all_risks s3) \<union> set (HealthPlanRisks services)"
    unfolding c using Add_set by blast+
  have sub1: "set (all_risks s0) \<subseteq> set (all_risks s1)" "set (all_risks s1) \<subseteq> set (all_risks s2)"
    using Add_set by (auto simp: s1_def s2_def append_follow_up_set)
  have up: "\<exists>e\<in>set (all_risks (collectRisks services srv bi)). same_risk e r" if "\<exists>e\<in>set (all_risks t). same_risk e r"
    "set (all_risks t) \<subseteq> set (all_risks s3)" for r t
    using that last by blast
  have mem: "\<exists>e\<in>set (all_risks (collectRisks services srv bi)). same_risk e r" if r: "r \<in> set (plan_risks_of services srv bi)" for r
  proof -
    consider "r \<in> set (sourceRisks (bi_source_cap bi) hv)" | "srv = []" "r = target_unspecified"
      | "srv \<noteq> []" "r \<in> set (targetRisks srv (bi_target_cap bi) hv)" | "r \<in> set (concat (map service_risks services))"
      | "trim_space (bd_backend (bi_backup bi)) = []" "r = no_repository" | "r \<in> set (HealthPlanRisks services)"
      using r unfolding plan_risks_of_def hv_def Let_def by (auto split: if_splits)
    then show ?thesis
    proof cases
      case 1 show ?thesis by (rule up[of s0]) (use Add_member[OF 1] sub1 sub3 in \<open>auto simp: s0_def\<close>)
    next
      case 2 show ?thesis by (rule up[of s1]) (use 2 sub1 sub3 in \<open>auto simp: s1_def append_follow_up_set\<close>)
    next
      case 3 show ?thesis by (rule up[of s1]) (use Add_member[OF 3(2)] 3 sub1 sub3 in \<open>auto simp: s1_def\<close>)
    next
      case 4 show ?thesis by (rule up[of s2]) (use Add_member[OF 4] sub3 in \<open>auto simp: s2_def\<close>)
    next
      case 5 show ?thesis by (rule up[of s3]) (use 5 in \<open>auto simp: s3_def append_follow_up_set\<close>)
    next
      case 6 show ?thesis unfolding c by (rule Add_member[OF 6])
    qed
  qed
  have "set (all_risks (collectRisks services srv bi)) \<subseteq> set (plan_risks_of services srv bi)"
    using last(2) sub3(2) m2 m1 unfolding plan_risks_of_def hv_def Let_def set_append by blast
  moreover have "classified (collectRisks services srv bi)" unfolding c using k3 by (rule Add_classified)
  ultimately show ?thesis using mem by blast
qed

lemma plan_services_built:
  assumes "BuildPlan bi = Inr p"
  shows "map sp_name (pn_services p) = jobNames (bi_containers bi)"
    "s \<in> set (pn_services p) \<Longrightarrow> \<exists>info a n s' h. (Some info, Some a) \<in> set (bi_containers bi)
       \<and> buildService (Some info, Some a) n bi = Inr s' \<and> s = s'\<lparr>sp_health := h\<rparr>"
    "ev \<in> set (bi_containers bi) \<Longrightarrow> \<exists>info a n s' h. ev = (Some info, Some a)
       \<and> buildService ev n bi = Inr s' \<and> s'\<lparr>sp_health := h\<rparr> \<in> set (pn_services p)"
proof -
  obtain h where h: "build_services bi h (zip (bi_containers bi) (jobNames (bi_containers bi))) = Inr (pn_services p)"
    using assms by (rule BuildPlan_parts) blast
  have len: "length (jobNames (bi_containers bi)) = length (bi_containers bi)"
    unfolding jobNames_def using job_names_from_spec by blast
  note spec = build_services_spec[OF h]
  show "map sp_name (pn_services p) = jobNames (bi_containers bi)" using spec len by simp
  have both: "\<exists>info a. ev = (Some info, Some a)" if "buildService ev n bi = Inr s'" for ev n s'
    using that by (auto simp: buildService_def split: prod.splits option.splits)
  show "\<exists>info a n s' h. (Some info, Some a) \<in> set (bi_containers bi)
       \<and> buildService (Some info, Some a) n bi = Inr s' \<and> s = s'\<lparr>sp_health := h\<rparr>" if s: "s \<in> set (pn_services p)"
  proof -
    obtain x s' where x: "x \<in> set (zip (bi_containers bi) (jobNames (bi_containers bi)))"
      "buildService (fst x) (snd x) bi = Inr s'" "s = s'\<lparr>sp_health := h\<rparr>" using spec s by blast
    moreover obtain info a where "fst x = (Some info, Some a)" using both[OF x(2)] by blast
    moreover have "fst x \<in> set (bi_containers bi)" using x(1) by (metis in_set_zipE prod.collapse)
    ultimately show ?thesis by metis
  qed
  show "\<exists>info a n s' h. ev = (Some info, Some a) \<and> buildService ev n bi = Inr s' \<and> s'\<lparr>sp_health := h\<rparr> \<in> set (pn_services p)"
    if "ev \<in> set (bi_containers bi)"
  proof -
    have "ev \<in> fst ` set (zip (bi_containers bi) (jobNames (bi_containers bi)))" using that len by (metis map_fst_zip list.set_map)
    then obtain x where x: "x \<in> set (zip (bi_containers bi) (jobNames (bi_containers bi)))" "fst x = ev" by blast
    then obtain s' where "buildService ev (snd x) bi = Inr s'" "s'\<lparr>sp_health := h\<rparr> \<in> set (pn_services p)" using spec by blast
    then show ?thesis using both by blast
  qed
qed

lemma plan_risks_spec:
  assumes "BuildPlan bi = Inr p"
  shows "classified (pn_risks p)
    \<and> set (all_risks (pn_risks p)) \<subseteq> set (plan_risks_of (pn_services p) (trim_space (bi_target bi)) bi)
    \<and> (\<forall>r\<in>set (plan_risks_of (pn_services p) (trim_space (bi_target bi)) bi). \<exists>e\<in>set (all_risks (pn_risks p)). same_risk e r)"
proof -
  have "pn_risks p = collectRisks (pn_services p) (trim_space (bi_target bi)) bi"
    using assms by (rule BuildPlan_parts) blast
  moreover have "rk_code r \<notin> {RiskBackupRepository, RiskTargetUnspecified, RiskHealthHTTPNotConfigured}"
    if sr: "s \<in> set (pn_services p)" "r \<in> set (service_risks s)" for s r
  proof -
    obtain info a n s' h where b: "buildService (Some info, Some a) n bi = Inr s'" "s = s'\<lparr>sp_health := h\<rparr>"
      using plan_services_built(2)[OF assms sr(1)] by blast
    then have "r \<in> set (service_risks s')" using sr(2) by simp
    then show ?thesis using service_codes[OF b(1)] by blast
  qed
  ultimately show ?thesis using collectRisks_spec[of "pn_services p" "trim_space (bi_target bi)" bi] by auto
qed

section \<open>Plan readiness\<close>

definition host_ready :: "cap_report \<Rightarrow> bool \<Rightarrow> bool" where
  "host_ready rep hasVolumes \<longleftrightarrow>
     ck_status (rp_docker rep) = StatusOK \<and> ck_status (rp_restic rep) = StatusOK
     \<and> (hasVolumes \<longrightarrow> ck_status (rp_helper rep) \<noteq> StatusMissing) \<and> ds_status (rp_disk rep) \<noteq> StatusMissing"

definition source_ready :: "cap_report option \<Rightarrow> bool \<Rightarrow> bool" where
  "source_ready rep hasVolumes \<longleftrightarrow> (case rep of None \<Rightarrow> False | Some r \<Rightarrow> host_ready r hasVolumes)"

definition target_ready :: "cap_report option \<Rightarrow> bool \<Rightarrow> bool" where
  "target_ready rep hasVolumes \<longleftrightarrow>
     (case rep of
        None \<Rightarrow> False
      | Some r \<Rightarrow> host_ready r hasVolumes \<and> ck_status (rp_compose r) = StatusOK
          \<and> (\<forall>c\<in>set (rp_paths r). ck_status c \<noteq> StatusMissing))"

lemma isBlocker_mk_risk: "isBlocker (mk_risk code d a) \<longleftrightarrow> code \<in> set blocker_codes"
  by (simp add: isBlocker_def mk_risk_def)

lemma disk_blocker: "(\<exists>r\<in>set (diskRisks rep b). isBlocker r) \<longleftrightarrow> ds_status (rp_disk rep) = StatusMissing"
  by (cases "ds_status (rp_disk rep)"; cases b)
     (auto simp: diskRisks_def diskRiskCode_def isBlocker_mk_risk blocker_codes_def Let_def)

lemma path_blocker: "(\<exists>r\<in>set (path_risk c). isBlocker r) \<longleftrightarrow> ck_status c = StatusMissing"
  by (cases "ck_status c") (auto simp: path_risk_def isBlocker_mk_risk blocker_codes_def)

lemma bex_append: "(\<exists>r\<in>set (xs @ ys). P r) \<longleftrightarrow> (\<exists>r\<in>set xs. P r) \<or> (\<exists>r\<in>set ys. P r)"
  by auto

lemma bex_when_list: "(\<exists>r\<in>set (when_list b x). P r) \<longleftrightarrow> b \<and> P x"
  by (cases b) (simp_all add: when_list_def)

lemma bex_concat_map: "(\<exists>r\<in>set (concat (map f xs)). P r) \<longleftrightarrow> (\<exists>x\<in>set xs. \<exists>r\<in>set (f x). P r)"
  by auto

lemmas risk_parts = bex_append bex_when_list bex_concat_map isBlocker_mk_risk disk_blocker path_blocker

lemma source_blocker: "(\<exists>r\<in>set (sourceRisks rep hv). isBlocker r) \<longleftrightarrow> \<not> source_ready rep hv"
proof (cases rep)
  case None
  then show ?thesis by (simp add: sourceRisks_def source_ready_def isBlocker_mk_risk blocker_codes_def)
next
  case (Some r)
  then show ?thesis
    unfolding sourceRisks_def source_ready_def host_ready_def Some option.case risk_parts
    by (auto simp: blocker_codes_def)
qed

lemma target_blocker: "(\<exists>r\<in>set (targetRisks srv rep hv). isBlocker r) \<longleftrightarrow> \<not> target_ready rep hv"
proof (cases rep)
  case None
  then show ?thesis by (simp add: targetRisks_def target_ready_def isBlocker_mk_risk blocker_codes_def)
next
  case (Some r)
  then show ?thesis
    unfolding targetRisks_def target_ready_def host_ready_def Some option.case risk_parts
    by (auto simp: blocker_codes_def)
qed

lemma service_blocker:
  assumes "buildService (Some info, Some a) n bi = Inr s"
  shows "(\<exists>r\<in>set (service_risks s). isBlocker r) \<longleftrightarrow> ca_blockers a \<noteq> []" "sp_volumes s = ca_named a"
proof -
  have f: "sp_blockers s = service_blockers a" "sp_warnings s = service_warnings a" "sp_volumes s = ca_named a"
    and "\<exists>mode. sp_follow_ups s = service_follow_ups a mode"
    using assms by (auto simp: buildService_def Let_def)
  then obtain mode where u: "sp_follow_ups s = service_follow_ups a mode" by blast
  show "sp_volumes s = ca_named a" by (rule f(3))
  have at: "(\<exists>r\<in>set (attribute_risk x). isBlocker r) \<longleftrightarrow> False" for x
    by (auto simp: isBlocker_def blocker_codes_def dest!: attribute_risk_codes)
  have dw: "(\<exists>r\<in>set (dep_warning d). isBlocker r) \<longleftrightarrow> False" for d
    by (simp add: dep_warning_def isBlocker_mk_risk blocker_codes_def)
  have df: "(\<exists>r\<in>set (dep_follow_up d). isBlocker r) \<longleftrightarrow> False" for d
    by (simp add: dep_follow_up_def isBlocker_mk_risk blocker_codes_def)
  have w: "(\<exists>r\<in>set (service_warnings a). isBlocker r) \<longleftrightarrow> False"
    unfolding service_warnings_def by (cases "ca_database a") (simp_all add: risk_parts at dw blocker_codes_def del: set_append set_concat)
  have fu: "(\<exists>r\<in>set (service_follow_ups a mode). isBlocker r) \<longleftrightarrow> False"
    unfolding service_follow_ups_def by (simp add: risk_parts df blocker_codes_def del: set_append set_concat)
  have sc: "(\<exists>r\<in>set (scoped rs x). isBlocker r) \<longleftrightarrow> (\<exists>r\<in>set rs. isBlocker r)" for rs x
    by (auto simp: scoped_def isBlocker_def)
  have b: "(\<exists>r\<in>set (service_blockers a). isBlocker r) \<longleftrightarrow> ca_blockers a \<noteq> []"
    by (cases "ca_blockers a") (auto simp: service_blockers_def analysis_blocker_def isBlocker_mk_risk blocker_codes_def)
  show "(\<exists>r\<in>set (service_risks s). isBlocker r) \<longleftrightarrow> ca_blockers a \<noteq> []"
    unfolding service_risks_def bex_append sc f u w fu b by simp
qed

lemma blockers_iff:
  assumes "BuildPlan bi = Inr p"
  shows "rs_blockers (pn_risks p) \<noteq> [] \<longleftrightarrow>
    (\<exists>r\<in>set (plan_risks_of (pn_services p) (trim_space (bi_target bi)) bi). isBlocker r)"
proof
  assume "rs_blockers (pn_risks p) \<noteq> []"
  then obtain r where "r \<in> set (rs_blockers (pn_risks p))" by (cases "rs_blockers (pn_risks p)") auto
  then show "\<exists>r\<in>set (plan_risks_of (pn_services p) (trim_space (bi_target bi)) bi). isBlocker r"
    using plan_risks_spec[OF assms] by (auto simp: classified_def all_risks_def)
next
  assume "\<exists>r\<in>set (plan_risks_of (pn_services p) (trim_space (bi_target bi)) bi). isBlocker r"
  then obtain r where r: "r \<in> set (plan_risks_of (pn_services p) (trim_space (bi_target bi)) bi)" "isBlocker r" by blast
  then obtain e where "e \<in> set (all_risks (pn_risks p))" "same_risk e r" using plan_risks_spec[OF assms] by blast
  then have "e \<in> set (rs_blockers (pn_risks p))"
    using plan_risks_spec[OF assms] same_risk_severity r(2) blockers_of_classified by blast
  then show "rs_blockers (pn_risks p) \<noteq> []" by auto
qed

section \<open>Properties\<close>

text \<open>C22. The names of a plan's services, which become the names of the backup jobs, are pairwise different, one for each
  container; the store of jobs accepts each of them unless it is too long or has two dots in a row.\<close>

theorem plan_names_distinct_valid:
  assumes "BuildPlan bi = Inr p"
  shows "length (pn_services p) = length (bi_containers bi) \<and> distinct (map sp_name (pn_services p))
    \<and> (\<forall>s\<in>set (pn_services p). length (sp_name s) \<le> MaxJobNameLength \<longrightarrow> \<not> contains_str (sp_name s) ''..''
         \<longrightarrow> ValidateJobName uc (sp_name s) = None)"
proof -
  note names = plan_services_built(1)[OF assms]
  note spec = job_names_from_spec[of "[]" "bi_containers bi", folded jobNames_def]
  have valid: "ValidateJobName uc (sp_name s) = None"
    if s: "s \<in> set (pn_services p)" "length (sp_name s) \<le> MaxJobNameLength" "\<not> contains_str (sp_name s) ''..''" for s
  proof -
    have "sp_name s \<in> set (map sp_name (pn_services p))" using s(1) by simp
    then have n: "sp_name s \<noteq> []" "\<forall>c\<in>set (sp_name s). name_char c" "hd (sp_name s) \<notin> {CHR ''-'', CHR ''.''}"
      using spec unfolding names by blast+
    have ascii: "code_of c < 128 \<and> \<not> ws1 c" if "name_char c" for c
      using that by (auto simp: name_char_def is_lower_def is_digit_def ws1_def code_of_def)
    have "runes (sp_name s) = map code_of (sp_name s)" by (rule runes_of_ascii) (use n(2) ascii in blast)
    moreover have "trim_space (sp_name s) \<noteq> []"
      using trim_space_dropped[of "hd (sp_name s)" "sp_name s"] n ascii[of "hd (sp_name s)"] by auto
    moreover have "\<not> has_prefix (sp_name s) ''.''" "\<not> has_prefix (sp_name s) ''-''"
      using n(1,3) by (cases "sp_name s"; simp)+
    ultimately show ?thesis using s(2,3) name_char_runes[OF n(2)] by (simp add: ValidateJobName_def)
  qed
  have "length (pn_services p) = length (bi_containers bi)" using names spec by (metis length_map)
  then show ?thesis using names spec valid by simp
qed

text \<open>C21. Every risk that the plan's evidence gives stands in the plan's summary, under its own severity and once; nothing
  else stands there. The evidence is that of the source host, of the target host or of its absence, of each service, of
  the backup repository and of the health checks.\<close>

theorem plan_risks_classified:
  assumes "BuildPlan bi = Inr p"
  shows "(\<forall>r\<in>set (plan_risks_of (pn_services p) (trim_space (bi_target bi)) bi).
        \<exists>e\<in>set (if isBlocker r then rs_blockers (pn_risks p) else if isFollowUp r then rs_follow_ups (pn_risks p)
                 else rs_warnings (pn_risks p)). same_risk e r)
    \<and> set (all_risks (pn_risks p)) \<subseteq> set (plan_risks_of (pn_services p) (trim_space (bi_target bi)) bi)
    \<and> distinct (map (\<lambda>r. (rk_code r, rk_service r, rk_detail r)) (all_risks (pn_risks p)))"
proof -
  note spec = plan_risks_spec[OF assms]
  have "\<exists>e\<in>set (if isBlocker r then rs_blockers (pn_risks p) else if isFollowUp r then rs_follow_ups (pn_risks p)
                 else rs_warnings (pn_risks p)). same_risk e r"
    if r: "r \<in> set (plan_risks_of (pn_services p) (trim_space (bi_target bi)) bi)" for r
  proof -
    obtain e where e: "e \<in> set (all_risks (pn_risks p))" "same_risk e r" using spec r by blast
    have "e \<in> set (if isBlocker e then rs_blockers (pn_risks p) else if isFollowUp e then rs_follow_ups (pn_risks p)
                 else rs_warnings (pn_risks p))"
      using e(1) spec follow_up_no_blocker by (auto simp: classified_def all_risks_def)
    then show ?thesis using e(2) same_risk_severity[OF e(2)] by auto
  qed
  then show ?thesis using spec by (simp add: classified_def)
qed

text \<open>C20. A plan has no blocker exactly when both hosts can carry it: the source's report shows Docker, restic, disk space
  and, for named volumes, a helper image; so does the target's, when a target is named, with Compose and its paths; and
  no container was found impossible to migrate.\<close>

theorem unblocked_plan_is_ready:
  assumes "BuildPlan bi = Inr p"
  shows "\<not> plan_has_blockers (Some p) \<longleftrightarrow>
     (let hv = (\<exists>info a. (Some info, Some a) \<in> set (bi_containers bi) \<and> ca_named a \<noteq> [])
      in source_ready (bi_source_cap bi) hv
         \<and> (trim_space (bi_target bi) = [] \<or> target_ready (bi_target_cap bi) hv)
         \<and> (\<forall>(info, a)\<in>set (bi_containers bi). \<forall>x. a = Some x \<longrightarrow> ca_blockers x = []))"
proof -
  note built = plan_services_built[OF assms]
  let ?hv = "\<exists>info a. (Some info, Some a) \<in> set (bi_containers bi) \<and> ca_named a \<noteq> []"
  have some: "\<exists>i. info = Some i" if "(info, Some a) \<in> set (bi_containers bi)" for info a
    using built(3)[OF that] by auto
  have hv: "list_ex (\<lambda>s. sp_volumes s \<noteq> []) (pn_services p) = ?hv"
  proof
    assume "list_ex (\<lambda>s. sp_volumes s \<noteq> []) (pn_services p)"
    then obtain s where s: "s \<in> set (pn_services p)" "sp_volumes s \<noteq> []" by (auto simp: list_ex_iff)
    obtain info a n s' h where b: "(Some info, Some a) \<in> set (bi_containers bi)"
      "buildService (Some info, Some a) n bi = Inr s'" "s = s'\<lparr>sp_health := h\<rparr>" using built(2)[OF s(1)] by blast
    then show ?hv using service_blocker(2)[OF b(2)] s(2) by auto
  next
    assume ?hv
    then obtain info a where e: "(Some info, Some a) \<in> set (bi_containers bi)" "ca_named a \<noteq> []" by blast
    obtain n s' h where b: "buildService (Some info, Some a) n bi = Inr s'" "s'\<lparr>sp_health := h\<rparr> \<in> set (pn_services p)"
      using built(3)[OF e(1)] by auto
    then show "list_ex (\<lambda>s. sp_volumes s \<noteq> []) (pn_services p)"
      using service_blocker(2)[OF b(1)] e(2) by (force simp: list_ex_iff)
  qed
  have services: "(\<exists>s\<in>set (pn_services p). \<exists>r\<in>set (service_risks s). isBlocker r)
      \<longleftrightarrow> (\<exists>info a. (info, Some a) \<in> set (bi_containers bi) \<and> ca_blockers a \<noteq> [])"
  proof
    assume "\<exists>s\<in>set (pn_services p). \<exists>r\<in>set (service_risks s). isBlocker r"
    then obtain s where s: "s \<in> set (pn_services p)" "\<exists>r\<in>set (service_risks s). isBlocker r" by blast
    obtain info a n s' h where b: "(Some info, Some a) \<in> set (bi_containers bi)"
      "buildService (Some info, Some a) n bi = Inr s'" "s = s'\<lparr>sp_health := h\<rparr>" using built(2)[OF s(1)] by blast
    then have "ca_blockers a \<noteq> []" using s(2) service_blocker(1)[OF b(2)] by simp
    then show "\<exists>info a. (info, Some a) \<in> set (bi_containers bi) \<and> ca_blockers a \<noteq> []" using b(1) by blast
  next
    assume "\<exists>info a. (info, Some a) \<in> set (bi_containers bi) \<and> ca_blockers a \<noteq> []"
    then obtain info a where e: "(Some info, Some a) \<in> set (bi_containers bi)" "ca_blockers a \<noteq> []" using some by blast
    obtain n s' h where b: "buildService (Some info, Some a) n bi = Inr s'" "s'\<lparr>sp_health := h\<rparr> \<in> set (pn_services p)"
      using built(3)[OF e(1)] by auto
    then have "\<exists>r\<in>set (service_risks (s'\<lparr>sp_health := h\<rparr>)). isBlocker r" using service_blocker(1)[OF b(1)] e(2) by simp
    then show "\<exists>s\<in>set (pn_services p). \<exists>r\<in>set (service_risks s). isBlocker r" using b(2) by blast
  qed
  have fixed: "\<not> isBlocker target_unspecified" "\<not> isBlocker no_repository"
    by (simp_all add: target_unspecified_def no_repository_def isBlocker_mk_risk blocker_codes_def)
  have health: "(\<exists>r\<in>set (HealthPlanRisks ss). isBlocker r) \<longleftrightarrow> False" for ss
    by (simp add: HealthPlanRisks_def Let_def isBlocker_mk_risk blocker_codes_def)
  have "plan_has_blockers (Some p) \<longleftrightarrow> \<not> source_ready (bi_source_cap bi) ?hv
      \<or> (trim_space (bi_target bi) \<noteq> [] \<and> \<not> target_ready (bi_target_cap bi) ?hv)
      \<or> (\<exists>info a. (info, Some a) \<in> set (bi_containers bi) \<and> ca_blockers a \<noteq> [])"
    unfolding plan_has_blockers_def option.case blockers_iff[OF assms] plan_risks_of_def Let_def hv bex_append source_blocker
      bex_concat_map services health
    using fixed target_blocker by (cases "trim_space (bi_target bi) = []"; cases "trim_space (bd_backend (bi_backup bi)) = []") simp_all
  then show ?thesis unfolding Let_def by blast
qed

text \<open>Saving a plan touches its own path at most, and never a file that exists: then it is refused with
  \<open>ErrPlanFileExists\<close> or an earlier error. Success means that the document stands there whole.\<close>

theorem plan_save_exclusive:
  assumes "Save show_yaml io p pl fs = (e, fs')"
  shows "(\<forall>q. q \<noteq> trim_space p \<longrightarrow> fs' q = fs q) \<and> (\<forall>q c. fs q = Some c \<longrightarrow> fs' q = Some c)
    \<and> (e = None \<longrightarrow> fs (trim_space p) = None
         \<and> (\<exists>q y. pl = Some q \<and> show_yaml q = Inr y \<and> fs' (trim_space p) = Some (plan_header @ y)))
    \<and> (fs (trim_space p) \<noteq> None \<longrightarrow> e \<noteq> None \<and> fs' = fs)"
proof (cases "trim_space p = []")
  case True
  then show ?thesis using assms by (auto simp: Save_def)
next
  case ne: False
  show ?thesis
  proof (cases "Encode show_yaml pl")
    case (Inl x)
    then show ?thesis using assms ne by (auto simp: Save_def)
  next
    case (Inr data)
    then obtain q y where q: "pl = Some q" "show_yaml q = Inr y" "data = plan_header @ y"
      by (auto simp: Encode_def split: option.splits sum.splits)
    show ?thesis
    proof (cases "fs (trim_space p)")
      case None
      then show ?thesis using assms ne Inr q
        by (auto simp: Save_def Let_def open_error_def split: option.splits if_splits)
    next
      case (Some c)
      then have "open_error io fs (trim_space p) = Some (wrap (''open '' @ trim_space p @ '': '') (sentinel_error os_ErrExist) [])"
        by (simp add: open_error_def)
      then show ?thesis using assms ne Inr Some
        by (auto simp: Save_def Let_def go_error_simps split: option.splits if_splits)
    qed
  qed
qed

text \<open>A plan that was saved is loaded back as it was, under the one law that YAML reads what it wrote below the header of
  comments. Plans of another kind or version, which can also be saved, are refused.\<close>

theorem plan_save_load:
  assumes "\<And>q y. show_yaml q = Inr y \<Longrightarrow> read_yaml (plan_header @ y) = Inr q"
    and "Save show_yaml io p (Some pl) fs = (None, fs')"
    and "\<And>q. read q = (case fs' q of None \<Rightarrow> Inl enoent | Some c \<Rightarrow> Inr c)"
  shows "(pn_kind pl = PlanKind \<and> pn_version pl = PlanFormatVersion \<longrightarrow> Load read_yaml read p = Inr pl)
    \<and> (pn_kind pl \<noteq> PlanKind \<longrightarrow> (\<exists>e. Load read_yaml read p = Inl e \<and> errors_is e ErrInvalidPlanDocument))
    \<and> (pn_kind pl = PlanKind \<and> pn_version pl \<noteq> PlanFormatVersion \<longrightarrow>
         (\<exists>e. Load read_yaml read p = Inl e \<and> errors_is e ErrUnsupportedPlanVersion))"
proof -
  have ne: "trim_space p \<noteq> []" using assms(2) by (auto simp: Save_def)
  obtain y where y: "show_yaml pl = Inr y" "fs' (trim_space p) = Some (plan_header @ y)"
    using assms(2) ne by (auto simp: Save_def Encode_def Let_def split: option.splits sum.splits if_splits)
  have "read (trim_space p) = Inr (plan_header @ y)" by (simp add: assms(3) y(2))
  then show ?thesis using ne assms(1)[OF y(1)] by (auto simp: Load_def Let_def go_error_simps)
qed

section \<open>Witnesses\<close>

definition good_check :: check where
  "good_check = \<lparr>ck_name = ''docker'', ck_status = StatusOK, ck_detail = [], ck_exists = True, ck_writable = True\<rparr>"

definition good_report :: "cap_status \<Rightarrow> cap_report" where
  "good_report restic =
     \<lparr>rp_server = ''web1'', rp_reachable = True, rp_os = ''Linux'', rp_arch = ''x86_64'', rp_docker = good_check,
      rp_compose = good_check, rp_restic = good_check\<lparr>ck_status := restic\<rparr>, rp_shell_tools = [], rp_database_tools = [],
      rp_helper = good_check, rp_registry = good_check,
      rp_disk = \<lparr>ds_status = StatusOK, ds_total = 100, ds_avail = 90, ds_used = 10, ds_detail = []\<rparr>,
      rp_paths = [], rp_images = [], rp_notes = []\<rparr>"

definition example_input :: "cap_status \<Rightarrow> build_input" where
  "example_input restic =
     \<lparr>bi_source = ''web1'', bi_source_cap = Some (good_report restic), bi_target = [], bi_target_cap = None,
      bi_containers = [(Some example_info, Some (Analyze example_info))],
      bi_backup = \<lparr>bd_backend = [], bd_env = [], bd_jobs = []\<rparr>, bi_generator = ''ops'', bi_now = ''2025-01-01'',
      bi_health_url = []\<rparr>"

lemma example_input_plan: "\<exists>p. BuildPlan (example_input restic) = Inr p"
proof -
  have t: "trim_space ''web1'' = ''web1''" by code_simp
  have c: "bi_containers (example_input restic) = [(Some example_info, Some (Analyze example_info))]"
    by (simp add: example_input_def)
  obtain n where j: "jobNames (bi_containers (example_input restic)) = [n]"
    by (simp add: c jobNames_def Let_def)
  obtain s where "buildService (Some example_info, Some (Analyze example_info)) n (example_input restic) = Inr s"
    by (simp add: buildService_def Let_def)
  moreover have "buildPlanHealth (example_input restic) = Inr None" by (simp add: buildPlanHealth_def example_input_def)
  moreover have "trim_space (bi_source (example_input restic)) = ''web1''" by (simp add: example_input_def t)
  ultimately show ?thesis by (simp add: BuildPlan_def Let_def j[unfolded c] c)
qed

lemma example_containers: "bi_containers (example_input restic) = [(Some example_info, Some (Analyze example_info))]"
  by (simp add: example_input_def)

lemma example_job_name: "jobNames [(Some example_info, Some (Analyze example_info))] = [''web'']"
proof -
  have "label_value (ci_labels example_info) LabelComposeService = []" by code_simp
  then have b: "base_name (Some example_info, Some (Analyze example_info)) = ''web''"
    by (simp add: base_name_def Analyze_def Let_def ComposeServiceName_def containerName_def example_info_def)
  have "sanitizeJobName ''web'' = ''web''" by code_simp
  then show ?thesis by (simp add: jobNames_def Let_def job_name_def b unused_name.simps[of "[]" "''web''"])
qed

theorem plan_names_distinct_valid_witness:
  "\<exists>p s. BuildPlan (example_input StatusOK) = Inr p \<and> pn_services p = [s] \<and> sp_name s = ''web'' \<and> ValidateJobName (\<lambda>_. False) ''web'' = None"
proof -
  obtain p where p: "BuildPlan (example_input StatusOK) = Inr p" using example_input_plan by blast
  have names: "map sp_name (pn_services p) = [''web'']"
    using plan_services_built(1)[OF p] by (simp add: example_containers example_job_name)
  then obtain s where s: "pn_services p = [s]" "sp_name s = ''web''" by auto
  have "\<not> contains_str ''web'' ''..''" by code_simp
  then have "ValidateJobName (\<lambda>_. False) ''web'' = None"
    using plan_names_distinct_valid[OF p, of "\<lambda>_. False"] s by (simp add: MaxJobNameLength_def)
  then show ?thesis using p s by blast
qed

theorem plan_risks_classified_witness:
  "\<exists>p. BuildPlan (example_input StatusMissing) = Inr p \<and> (\<exists>e\<in>set (rs_blockers (pn_risks p)). rk_code e = RiskSourceResticMissing)
     \<and> (\<exists>e\<in>set (rs_follow_ups (pn_risks p)). rk_code e = RiskTargetUnspecified)"
proof -
  obtain p where p: "BuildPlan (example_input StatusMissing) = Inr p" using example_input_plan by blast
  let ?rs = "plan_risks_of (pn_services p) (trim_space (bi_target (example_input StatusMissing))) (example_input StatusMissing)"
  have "target_unspecified \<in> set ?rs" by (simp add: plan_risks_of_def Let_def example_input_def)
  moreover have "\<exists>r\<in>set ?rs. rk_code r = RiskSourceResticMissing"
    unfolding plan_risks_of_def Let_def bex_append
    by (intro disjI1) (simp add: sourceRisks_def example_input_def good_report_def good_check_def when_list_def mk_risk_def)
  moreover have "rk_code target_unspecified = RiskTargetUnspecified" by (simp add: target_unspecified_def mk_risk_def)
  ultimately show ?thesis
    using plan_risks_classified[OF p] p by (fastforce simp: isBlocker_def isFollowUp_def blocker_codes_def same_risk_def)
qed

theorem unblocked_plan_is_ready_witness:
  "\<exists>p q. BuildPlan (example_input StatusOK) = Inr p \<and> \<not> plan_has_blockers (Some p)
     \<and> BuildPlan (example_input StatusMissing) = Inr q \<and> plan_has_blockers (Some q)"
proof -
  obtain p where p: "BuildPlan (example_input StatusOK) = Inr p" using example_input_plan by blast
  obtain q where q: "BuildPlan (example_input StatusMissing) = Inr q" using example_input_plan by blast
  have "trim_space (ci_image example_info) \<noteq> []" "\<not> has_prefix (trim_space (ci_network example_info)) ''container:''"
    unfolding example_info_def container_info.select_convs by code_simp+
  then have b: "collectBlockers example_info = []" by (simp add: collectBlockers_def when_list_def Let_def)
  have a: "ca_blockers (Analyze example_info) = []" by (simp add: Analyze_def Let_def b)
  have "\<not> plan_has_blockers (Some p)"
    unfolding unblocked_plan_is_ready[OF p] example_containers
    by (simp add: a example_input_def source_ready_def host_ready_def good_report_def good_check_def)
  moreover have "plan_has_blockers (Some q)"
    using unblocked_plan_is_ready[OF q]
    by (simp add: example_input_def source_ready_def host_ready_def good_report_def good_check_def Let_def)
  ultimately show ?thesis using p q by blast
qed

definition no_trouble :: plan_io where
  "no_trouble = \<lparr>io_mkdir = None, io_open = None, io_write = None\<rparr>"

theorem plan_save_exclusive_witness:
  "\<forall>pl. \<exists>e. Save (\<lambda>p. Inr (pn_generator p)) no_trouble ''a.yaml'' (Some pl) [''a.yaml'' \<mapsto> ''old''] = (e, [''a.yaml'' \<mapsto> ''old'']) \<and> e \<noteq> None"
proof
  fix pl :: plan
  have t: "trim_space ''a.yaml'' = ''a.yaml''" by code_simp
  obtain e fs' where s: "Save (\<lambda>p. Inr (pn_generator p)) no_trouble ''a.yaml'' (Some pl) [''a.yaml'' \<mapsto> ''old''] = (e, fs')"
    by (meson surj_pair)
  from plan_save_exclusive[OF s] s
  show "\<exists>e. Save (\<lambda>p. Inr (pn_generator p)) no_trouble ''a.yaml'' (Some pl) [''a.yaml'' \<mapsto> ''old''] = (e, [''a.yaml'' \<mapsto> ''old'']) \<and> e \<noteq> None"
    by (simp add: t)
qed

definition example_plan :: "string \<Rightarrow> int \<Rightarrow> plan" where
  "example_plan kind version =
     \<lparr>pn_version = version, pn_kind = kind, pn_generated = [], pn_generator = [],
      pn_source = \<lparr>ep_server = ''web1'', ep_capability = None\<rparr>, pn_target = \<lparr>ep_server = ''web2'', ep_capability = None\<rparr>,
      pn_services = [], pn_risks = \<lparr>rs_blockers = [], rs_warnings = [], rs_follow_ups = []\<rparr>\<rparr>"

theorem plan_save_load_witness:
  "\<exists>fs'. Save (\<lambda>q. if q = example_plan PlanKind 1 then Inr ''y'' else Inl (errors_new [])) no_trouble ''a.yaml'' (Some (example_plan PlanKind 1)) (\<lambda>_. None) = (None, fs')
     \<and> Load (\<lambda>t. Inr (example_plan PlanKind 1)) (\<lambda>q. case fs' q of None \<Rightarrow> Inl (errors_new []) | Some c \<Rightarrow> Inr c) ''a.yaml''
       = Inr (example_plan PlanKind 1)"
proof -
  let ?show = "\<lambda>q. if q = example_plan PlanKind 1 then Inr ''y'' else Inl (errors_new [])"
  have t: "trim_space ''a.yaml'' = ''a.yaml''" "path_dir ''a.yaml'' = ''.''" by code_simp+
  have s: "Save ?show no_trouble ''a.yaml'' (Some (example_plan PlanKind 1)) (\<lambda>_. None)
      = (None, [''a.yaml'' \<mapsto> plan_header @ ''y''])"
    by (simp add: Save_def Encode_def t no_trouble_def open_error_def Let_def)
  have law: "\<And>q y. ?show q = Inr y \<Longrightarrow> (\<lambda>t. Inr (example_plan PlanKind 1)) (plan_header @ y) = (Inr q :: plan res)"
    by (auto split: if_splits)
  show ?thesis
    using plan_save_load[of ?show "\<lambda>t. Inr (example_plan PlanKind 1)", OF law s refl] s
    by (simp add: example_plan_def PlanFormatVersion_def)
qed

end
