(* ===== verification/MigrationVerify.thy ===== *)
theory MigrationVerify
  imports MigrationPlan
begin

text \<open>
  \<open>internal/migration/verify.go\<close> and the rest of \<open>health.go\<close>: the checks that an apply repeats against the live source
  and target, the edits of a plan that it carries out, and the health targets of a plan. A Go map from names is a
  partial function where only lookups matter, and an association list where its entries are counted. Where Go iterates
  over a map and sorts afterwards, equal keys come in one of the
  orders that Go allows.
\<close>

section \<open>Signatures\<close>

definition live_risk :: "risk_code \<Rightarrow> string \<Rightarrow> string \<Rightarrow> string \<Rightarrow> risk" where
  "live_risk code service detail action =
     \<lparr>rk_code = code, rk_service = service, rk_detail = detail, rk_action = action\<rparr>"

definition plan_services :: "plan option \<Rightarrow> service_plan list" where
  "plan_services p = (case p of None \<Rightarrow> [] | Some q \<Rightarrow> pn_services q)"

definition CheckSourceRisks :: "cap_report option \<Rightarrow> bool \<Rightarrow> risk list" where
  "CheckSourceRisks report hasVolumes = sourceRisks report hasVolumes"

definition CheckTargetRisks :: "string \<Rightarrow> cap_report option \<Rightarrow> bool \<Rightarrow> risk list" where
  "CheckTargetRisks server report hasVolumes = targetRisks server report hasVolumes"

definition joinSorted :: "string list \<Rightarrow> string" where
  "joinSorted vs = join_with '','' (sort vs)"

definition trimmed_volume :: "volume_mount \<Rightarrow> string" where
  "trimmed_volume m = (if trim_space (vm_name m) = [] then trim_space (vm_source m) else trim_space (vm_name m))"

definition volumeNames :: "volume_mount list \<Rightarrow> string list" where
  "volumeNames ms = sort (filter (\<lambda>n. n \<noteq> []) (map trimmed_volume ms))"

definition mount_sources :: "volume_mount list \<Rightarrow> string list" where
  "mount_sources ms = sort (filter (\<lambda>n. n \<noteq> []) (map (\<lambda>m. trim_space (vm_source m)) ms))"

definition databaseSignature :: "database_analysis option \<Rightarrow> string" where
  "databaseSignature db = (case db of None \<Rightarrow> [] | Some d \<Rightarrow> da_engine d @ ''/'' @ strategy_text (da_strategy d))"

definition planDatabaseSignature :: "database_plan option \<Rightarrow> string" where
  "planDatabaseSignature db = (case db of None \<Rightarrow> [] | Some d \<Rightarrow> dp_engine d @ ''/'' @ dp_strategy d)"

section \<open>The live source\<close>

definition wide_semicolon :: string where
  "wide_semicolon = (utf8 [0xFF1B])"

definition show_bool :: "bool \<Rightarrow> string" where
  "show_bool b = (if b then ''true'' else ''false'')"

definition drift_details :: "service_plan \<Rightarrow> container_analysis \<Rightarrow> string list" where
  "drift_details s a =
     when_list (ca_image a \<noteq> sp_image s) ((utf8 [0x955C, 0x50CF, 0x4ECE] @ '' '' @ go_quote (sp_image s) @ '' '' @ utf8 [0x53D8, 0x4E3A] @ '' '' @ go_quote (ca_image a)))
     @ when_list (ca_is_compose a \<noteq> (sp_mode s = ModeCompose))
         ((utf8 [0x7F16, 0x6392, 0x65B9, 0x5F0F, 0x4ECE] @ '' '' @ go_quote (sp_mode s) @ '' '' @ utf8 [0x53D8, 0x5316, 0xFF08, 0x73B0, 0x5728] @ '' is_compose='' @ show_bool (ca_is_compose a) @ utf8 [0xFF09]))
     @ when_list (ca_project a \<noteq> sp_project s \<or> ca_service a \<noteq> sp_compose_service s)
         ((''Compose '' @ utf8 [0x9879, 0x76EE] @ ''/'' @ utf8 [0x670D, 0x52A1, 0x4ECE] @ '' '' @ go_quote (sp_project s) @ ''/'' @ go_quote (sp_compose_service s) @ '' '' @ utf8 [0x53D8, 0x4E3A] @ '' '' @ go_quote (ca_project a) @ ''/'' @ go_quote (ca_service a)))
     @ (let got = joinSorted (volumeNames (ca_named a)); want = joinSorted (volumeNames (sp_volumes s))
        in when_list (got \<noteq> want) ((''named volume '' @ utf8 [0x4ECE] @ '' ['' @ want @ ''] '' @ utf8 [0x53D8, 0x4E3A] @ '' ['' @ got @ '']'')))
     @ (let got = joinSorted (mount_sources (ca_binds a)); want = joinSorted (mount_sources (sp_binds s))
        in when_list (got \<noteq> want) ((''bind mount '' @ utf8 [0x6E90, 0x8DEF, 0x5F84, 0x4ECE] @ '' ['' @ want @ ''] '' @ utf8 [0x53D8, 0x4E3A] @ '' ['' @ got @ '']'')))
     @ (let got = databaseSignature (ca_database a); want = planDatabaseSignature (sp_database s)
        in when_list (got \<noteq> want) ((utf8 [0x6570, 0x636E, 0x5E93, 0x7B56, 0x7565, 0x4ECE] @ '' '' @ go_quote want @ '' '' @ utf8 [0x53D8, 0x4E3A] @ '' '' @ go_quote got)))"

definition drift_blocker :: "string \<Rightarrow> string \<Rightarrow> risk" where
  "drift_blocker service b =
     live_risk RiskAnalysisBlocker service b (utf8 [0x8BE5, 0x5BB9, 0x5668, 0x73B0, 0x5728, 0x65E0, 0x6CD5, 0x6309, 0x5355, 0x5BB9, 0x5668, 0x8FC1, 0x79FB, 0xFF1A, 0x8BF7, 0x5148, 0x624B, 0x5DE5, 0x5904, 0x7406, 0x540E, 0x518D, 0x91CD, 0x65B0, 0x751F, 0x6210] @ '' plan'')"

definition sourceDriftRisks :: "service_plan \<Rightarrow> container_analysis \<Rightarrow> risk list" where
  "sourceDriftRisks s a =
     (let details = drift_details s a
      in when_list (details \<noteq> [])
           (live_risk RiskApplySourceDrift (sp_name s)
              ((''plan '' @ utf8 [0x4E0E, 0x5F53, 0x524D, 0x6E90, 0x5BB9, 0x5668, 0x4E0D, 0x4E00, 0x81F4, 0xFF1A] @ join_with wide_semicolon details))
              (utf8 [0x73AF, 0x5883, 0x5DF2, 0x53D8, 0x5316, 0xFF0C, 0x8BF7, 0x91CD, 0x65B0, 0x751F, 0x6210] @ '' plan '' @ utf8 [0x5E76, 0x590D, 0x6838, 0x540E, 0x518D, 0x6267, 0x884C, 0xFF08, 0x4E0D, 0x8981, 0x7528, 0x65E7] @ '' plan '' @ utf8 [0x7ED5, 0x8FC7, 0x5F53, 0x524D, 0x68C0, 0x67E5, 0xFF09]))
         @ map (drift_blocker (sp_name s)) (ca_blockers a))"

definition missing_risk :: "string \<Rightarrow> service_plan \<Rightarrow> risk" where
  "missing_risk server s =
     live_risk RiskApplySourceMissing (sp_name s)
       ((utf8 [0x6E90, 0x673A] @ '' '' @ server @ '' '' @ utf8 [0x4E0A, 0x627E, 0x4E0D, 0x5230] @ '' plan '' @ utf8 [0x4E2D, 0x7684, 0x5BB9, 0x5668] @ '' '' @ go_quote (sp_container s) @ utf8 [0xFF1A, 0x5BB9, 0x5668, 0x53EF, 0x80FD, 0x5DF2, 0x5220, 0x9664, 0x3001, 0x6539, 0x540D, 0x6216, 0x505C, 0x6B62, 0x8FD0, 0x884C]))
       (utf8 [0x7528] @ '' '' @ [CHR 0x60] @ ''ops docker list <server> --all'' @ [CHR 0x60] @ '' '' @ utf8 [0x786E, 0x8BA4, 0x5BB9, 0x5668, 0xFF0C, 0x7136, 0x540E, 0x91CD, 0x65B0, 0x751F, 0x6210] @ '' plan'')"

definition source_check :: "string \<Rightarrow> (string \<Rightarrow> container_analysis option) \<Rightarrow> service_plan \<Rightarrow> risk list" where
  "source_check server analyses s =
     (case analyses (sp_container s) of None \<Rightarrow> [missing_risk server s] | Some a \<Rightarrow> sourceDriftRisks s a)"

definition VerifySource :: "plan option \<Rightarrow> (string \<Rightarrow> container_analysis option) \<Rightarrow> risk list" where
  "VerifySource p analyses =
     (case p of
        None \<Rightarrow> []
      | Some q \<Rightarrow> concat (map (source_check (ep_server (pn_source q)) analyses) (pn_services q)))"

section \<open>The live target\<close>

definition serviceProjectName :: "service_plan \<Rightarrow> string" where
  "serviceProjectName s = (if sp_mode s = ModeCompose then trim_space (sp_project s) else trim_space (sp_name s))"

definition ApplyAlias :: "service_plan \<Rightarrow> string" where
  "ApplyAlias s = (let n = serviceProjectName s in if n \<noteq> [] then n else trim_space (sp_name s))"

definition planPorts :: "service_plan \<Rightarrow> string list" where
  "planPorts s = (if sp_ports s \<noteq> [] then sp_ports s else sc_ports (sp_config s))"

definition portSpec :: "string \<Rightarrow> string \<times> string" where
  "portSpec spec =
     (let s = trim_space spec
      in if s = [] then ([], [])
         else (case cut_at slash s of
                 (front, rest, found) \<Rightarrow>
                   (let protocol = (if found then to_lower (trim_space rest) else ''tcp'');
                        parts = split_on (CHR '':'') front
                    in if length parts < 2 then ([], [])
                       else (let hostPort = trim_space (parts ! (length parts - 2))
                             in if atoi hostPort = None then ([], []) else (hostPort, protocol)))))"

definition portKey :: "string \<Rightarrow> string \<Rightarrow> string" where
  "portKey hostPort protocol = hostPort @ ''/'' @ (if protocol = [] then ''tcp'' else protocol)"

definition is_running :: "container_summary \<Rightarrow> bool" where
  "is_running c \<longleftrightarrow> equal_fold (cs_state c) ''running'' \<or> cs_state c = []"

definition port_entries :: "container_summary \<Rightarrow> (string \<times> string) list" where
  "port_entries c = map (\<lambda>p. (portKey (pp_host p) (pp_protocol p), cs_name c)) (ParsePublishedPorts (cs_ports c))"

definition publishedPortIndex :: "container_summary list \<Rightarrow> string \<Rightarrow> string option" where
  "publishedPortIndex cs = map_of (concat (map port_entries (filter is_running cs)))"

definition pathIndex :: "check list \<Rightarrow> string \<Rightarrow> check option" where
  "pathIndex checks = map_of (rev (map (\<lambda>c. (ck_name c, c)) checks))"

definition container_conflicts :: "service_plan \<Rightarrow> container_summary \<Rightarrow> risk list" where
  "container_conflicts s c =
     when_list (cs_name c = sp_container s)
       (live_risk RiskApplyTargetContainerConflict (sp_name s)
          ((utf8 [0x76EE, 0x6807, 0x673A, 0x5DF2, 0x6709, 0x540C, 0x540D, 0x5BB9, 0x5668] @ '' '' @ go_quote (cs_name c)))
          (utf8 [0x5148, 0x5904, 0x7406, 0x76EE, 0x6807, 0x673A, 0x4E0A, 0x7684, 0x540C, 0x540D, 0x5BB9, 0x5668, 0xFF08, 0x9ED8, 0x8BA4, 0x4E0D, 0x6539, 0x540D, 0xFF09, 0xFF1B, 0x786E, 0x8BA4, 0x65E0, 0x7528, 0x540E, 0x518D, 0x6267, 0x884C, 0x8FC1, 0x79FB]))
     @ when_list (serviceProjectName s \<noteq> [] \<and> summary_project c = serviceProjectName s)
         (live_risk RiskApplyTargetProjectConflict (sp_name s)
            ((utf8 [0x76EE, 0x6807, 0x673A, 0x5DF2, 0x6709] @ '' Compose '' @ utf8 [0x9879, 0x76EE] @ '' '' @ go_quote (serviceProjectName s) @ utf8 [0xFF08, 0x5BB9, 0x5668] @ '' '' @ go_quote (cs_name c) @ utf8 [0xFF09]))
            (utf8 [0x540C, 0x4E00, 0x9879, 0x76EE, 0x540D, 0x4F1A, 0x4E0E, 0x73B0, 0x6709, 0x670D, 0x52A1, 0x51B2, 0x7A81, 0xFF1B, 0x9ED8, 0x8BA4, 0x4E0D, 0x6539, 0x540D, 0xFF0C, 0x8BF7, 0x5148, 0x505C, 0x7528] @ ''/'' @ utf8 [0x5220, 0x9664, 0x76EE, 0x6807, 0x9879, 0x76EE, 0x6216, 0x6539, 0x7528, 0x5176, 0x4ED6, 0x76EE, 0x6807, 0x673A]))"

definition port_conflict :: "service_plan \<Rightarrow> (string \<Rightarrow> string option) \<Rightarrow> string \<Rightarrow> risk list" where
  "port_conflict s used spec =
     (case portSpec spec of
        (hostPort, protocol) \<Rightarrow>
          (if hostPort = [] then []
           else (case used (portKey hostPort protocol) of
                   None \<Rightarrow> []
                 | Some owner \<Rightarrow>
                     [live_risk RiskApplyTargetPortConflict (sp_name s)
                        ((utf8 [0x76EE, 0x6807, 0x673A, 0x7AEF, 0x53E3] @ '' '' @ hostPort @ ''/'' @ protocol @ '' '' @ utf8 [0x5DF2, 0x88AB, 0x5BB9, 0x5668] @ '' '' @ go_quote owner @ '' '' @ utf8 [0x5360, 0x7528]))
                        (utf8 [0x5728] @ '' plan '' @ utf8 [0x4E2D, 0x628A] @ '' target_ports '' @ utf8 [0x6539, 0x6210, 0x5176, 0x4ED6, 0x5BBF, 0x4E3B, 0x673A, 0x7AEF, 0x53E3, 0xFF0C, 0x6216, 0x5148, 0x91CA, 0x653E, 0x8BE5, 0x7AEF, 0x53E3]) ])))"

definition path_conflict :: "service_plan \<Rightarrow> (string \<Rightarrow> check option) \<Rightarrow> target_path \<Rightarrow> risk list" where
  "path_conflict s pathBy t =
     (if tp_kind t \<noteq> ''compose_project'' \<or> trim_space (tp_target t) = [] then []
      else (case pathBy (tp_target t) of
              None \<Rightarrow> []
            | Some c \<Rightarrow>
                when_list (ck_exists c)
                  (live_risk RiskApplyTargetPathConflict (sp_name s)
                     ((utf8 [0x76EE, 0x6807, 0x673A, 0x76EE, 0x5F55] @ '' '' @ tp_target t @ '' '' @ utf8 [0x5DF2, 0x5B58, 0x5728, 0xFF08] @ ck_detail c @ utf8 [0xFF09, 0xFF1A, 0x8FC1, 0x79FB, 0x4F1A, 0x5411, 0x5176, 0x4E2D, 0x5199, 0x5165] @ '' Compose '' @ utf8 [0x6587, 0x4EF6]))
                     (utf8 [0x5728] @ '' plan '' @ utf8 [0x4E2D, 0x628A, 0x8BE5] @ '' compose_project '' @ utf8 [0x7684] @ '' target '' @ utf8 [0x6539, 0x5230, 0x7A7A, 0x76EE, 0x5F55, 0xFF0C, 0x6216, 0x5148, 0x6E05, 0x7406, 0x76EE, 0x6807, 0x673A, 0x4E0A, 0x7684, 0x65E7, 0x9879, 0x76EE, 0x76EE, 0x5F55]))))"

definition targetConflicts :: "service_plan \<Rightarrow> container_summary list \<Rightarrow> (string \<Rightarrow> check option) \<Rightarrow> risk list" where
  "targetConflicts s cs pathBy =
     concat (map (container_conflicts s) cs)
     @ concat (map (port_conflict s (publishedPortIndex cs)) (planPorts s))
     @ concat (map (path_conflict s pathBy) (sp_paths s))"

definition VerifyTarget :: "plan option \<Rightarrow> container_summary list \<Rightarrow> check list \<Rightarrow> risk list" where
  "VerifyTarget p cs paths = concat (map (\<lambda>s. targetConflicts s cs (pathIndex paths)) (plan_services p))"

definition image_risk :: "(string \<Rightarrow> check option) \<Rightarrow> service_plan \<Rightarrow> risk list" where
  "image_risk presence s =
     (case presence (sp_image s) of
        None \<Rightarrow> []
      | Some c \<Rightarrow>
          when_list (ck_status c = StatusMissing \<and> sp_acquisition s = ImagePreloadRequired)
            (live_risk RiskApplyTargetImageMissing (sp_name s)
               ((utf8 [0x76EE, 0x6807, 0x673A, 0x65E0, 0x6CD5, 0x8BBF, 0x95EE, 0x955C, 0x50CF, 0x4ED3, 0x5E93, 0xFF0C, 0x4E14, 0x672C, 0x5730, 0x6CA1, 0x6709, 0x955C, 0x50CF] @ '' '' @ sp_image s))
               (utf8 [0x5148, 0x5728, 0x76EE, 0x6807, 0x673A, 0x9884, 0x7F6E, 0x8BE5, 0x955C, 0x50CF, 0xFF08] @ ''docker pull '' @ utf8 [0x540E] @ '' docker save/load'' @ utf8 [0xFF0C, 0x6216, 0x653E, 0x901A, 0x4ED3, 0x5E93, 0x8BBF, 0x95EE, 0xFF09, 0xFF0C, 0x518D, 0x91CD, 0x65B0, 0x6267, 0x884C])))"

definition VerifyTargetImages :: "plan option \<Rightarrow> cap_report option \<Rightarrow> risk list" where
  "VerifyTargetImages p report =
     (case report of
        None \<Rightarrow> []
      | Some r \<Rightarrow> concat (map (image_risk (pathIndex (rp_images r))) (plan_services p)))"

section \<open>Services of one Compose project\<close>

definition batched :: "service_plan \<Rightarrow> bool" where
  "batched s \<longleftrightarrow> sp_mode s = ModeCompose \<and> trim_space (sp_project s) \<noteq> []"

text \<open>\<open>byProject\<close>: the projects, and the names of the services of one.\<close>

definition batch_projects :: "service_plan list \<Rightarrow> string list" where
  "batch_projects ss = remdups (map sp_project (filter batched ss))"

definition batch_members :: "service_plan list \<Rightarrow> string \<Rightarrow> string list" where
  "batch_members ss project = map sp_name (filter (\<lambda>s. batched s \<and> sp_project s = project) ss)"

definition batch_risk :: "service_plan list \<Rightarrow> string \<Rightarrow> risk list" where
  "batch_risk ss project =
     (let services = sort (batch_members ss project)
      in if length services < 2 then []
         else [live_risk RiskApplyProjectMultiService (services ! 0)
                 ((''Compose '' @ utf8 [0x9879, 0x76EE] @ '' '' @ go_quote project @ '' '' @ utf8 [0x4E0B, 0x6709] @ '' '' @ show_nat (length services) @ '' '' @ utf8 [0x4E2A, 0x670D, 0x52A1, 0xFF08] @ join_with '', '' services @ utf8 [0xFF09, 0x88AB, 0x540C, 0x4E00] @ '' plan '' @ utf8 [0x9009, 0x4E2D, 0xFF1B, 0x73B0, 0x6709, 0x8FC1, 0x79FB, 0x5F15, 0x64CE, 0x6309, 0x5BB9, 0x5668, 0x9010, 0x4EFD, 0x6267, 0x884C, 0x4E14, 0x4EE5, 0x9879, 0x76EE, 0x540D, 0x4F5C, 0x4E3A, 0x4F5C, 0x4E1A, 0x540D, 0xFF0C, 0x65E0, 0x6CD5, 0x5728, 0x4E00, 0x6B21, 0x6267, 0x884C, 0x4E2D, 0x540C, 0x65F6, 0x4FDD, 0x7559, 0x9879, 0x76EE, 0x540D]))
                 (utf8 [0x4E3A, 0x8BE5, 0x9879, 0x76EE, 0x4E0B, 0x7684, 0x670D, 0x52A1, 0x9010, 0x4E2A, 0x751F, 0x6210] @ '' plan '' @ utf8 [0x5E76, 0x5206, 0x522B, 0x6267, 0x884C, 0xFF0C, 0x6216, 0x624B, 0x5DE5, 0x8FC1, 0x79FB, 0x6574, 0x4E2A] @ '' Compose '' @ utf8 [0x9879, 0x76EE]) ])"

definition VerifyProjectBatching :: "plan option \<Rightarrow> risk list" where
  "VerifyProjectBatching p =
     sort_key rk_service (concat (map (batch_risk (plan_services p)) (batch_projects (plan_services p))))"

section \<open>Edits of the plan\<close>

record service_adjustment =
  ad_ports :: "string list option"
  ad_binds :: "(string \<times> string) list"
  ad_project :: string

definition adjustment_any :: "service_adjustment \<Rightarrow> bool" where
  "adjustment_any a \<longleftrightarrow> ad_ports a \<noteq> None \<or> ad_binds a \<noteq> [] \<or> ad_project a \<noteq> []"

definition bind_destinations :: "service_plan \<Rightarrow> string \<Rightarrow> string option" where
  "bind_destinations s = map_of (rev (map (\<lambda>m. (vm_source m, vm_dest m)) (sp_binds s)))"

definition adjust_step :: "(string \<Rightarrow> string option) \<Rightarrow> service_adjustment \<Rightarrow> target_path \<Rightarrow> service_adjustment" where
  "adjust_step destinations a t =
     (if tp_kind t = ''compose_project''
      then (if tp_target t \<noteq> [] \<and> tp_target t \<noteq> tp_source t then a\<lparr>ad_project := tp_target t\<rparr> else a)
      else if tp_kind t = ''bind_mount''
      then (if tp_target t = [] \<or> tp_target t = tp_source t then a
            else (case destinations (tp_source t) of
                    None \<Rightarrow> a
                  | Some d \<Rightarrow> if d = [] then a else a\<lparr>ad_binds := upsert fst (d, tp_target t) (ad_binds a)\<rparr>))
      else a)"

definition Adjustments :: "service_plan \<Rightarrow> service_adjustment" where
  "Adjustments s =
     foldl (adjust_step (bind_destinations s))
       \<lparr>ad_ports = (if sp_ports s \<noteq> [] \<and> sp_ports s \<noteq> sc_ports (sp_config s) then Some (sp_ports s) else None),
        ad_binds = [], ad_project = []\<rparr> (sp_paths s)"

definition bind_pair :: "string \<times> string \<Rightarrow> string" where
  "bind_pair e = (case e of (d, h) \<Rightarrow> (d @ '' '' @ utf8 [0x2192] @ '' '' @ h))"

definition adjustment_parts :: "service_adjustment \<Rightarrow> string list" where
  "adjustment_parts a =
     (case ad_ports a of None \<Rightarrow> [] | Some ps \<Rightarrow> [ ((utf8 [0x7AEF, 0x53E3, 0x6539, 0x4E3A] @ '' '' @ join_with '', '' ps)) ])
     @ when_list (ad_project a \<noteq> []) ((utf8 [0x9879, 0x76EE, 0x76EE, 0x5F55, 0x6539, 0x4E3A] @ '' '' @ ad_project a))
     @ when_list (ad_binds a \<noteq> [])
         ((''bind mount '' @ utf8 [0x5BBF, 0x4E3B, 0x673A, 0x8DEF, 0x5F84] @ '' '' @ join_with '', '' (sort (map bind_pair (ad_binds a)))))"

definition adjustment_risk :: "service_plan \<Rightarrow> risk list" where
  "adjustment_risk s =
     when_list (adjustment_any (Adjustments s))
       (live_risk RiskApplyAdjustment (sp_name s)
          ((''plan '' @ utf8 [0x8BB0, 0x5F55, 0x4E86, 0x76EE, 0x6807, 0x673A, 0x8C03, 0x6574, 0xFF1A] @ join_with wide_semicolon (adjustment_parts (Adjustments s)) @ utf8 [0xFF08, 0x6267, 0x884C, 0x65F6, 0x4F1A, 0x91CD, 0x5199, 0x76EE, 0x6807, 0x673A, 0x4E0A, 0x7684] @ '' Compose '' @ utf8 [0x6587, 0x4EF6, 0xFF0C, 0x6CE8, 0x91CA, 0x4E0E, 0x683C, 0x5F0F, 0x4F1A, 0x4E22, 0x5931, 0xFF09]))
          (utf8 [0x786E, 0x8BA4, 0x8FD9, 0x4E9B, 0x8C03, 0x6574, 0x7B26, 0x5408, 0x9884, 0x671F, 0xFF1B, 0x5982, 0x9700, 0x56DE, 0x9000, 0xFF0C, 0x8BF7, 0x91CD, 0x65B0, 0x751F, 0x6210] @ '' plan''))"

definition AdjustmentRisks :: "plan option \<Rightarrow> risk list" where
  "AdjustmentRisks p = concat (map adjustment_risk (plan_services p))"

section \<open>What has to be probed\<close>

definition appendUnique :: "string list \<Rightarrow> string \<Rightarrow> string list" where
  "appendUnique vs v = (let t = trim_space v in if t = [] \<or> t \<in> set vs then vs else vs @ [t])"

definition PlanHostPaths :: "plan option \<Rightarrow> string list" where
  "PlanHostPaths p =
     sort (foldl appendUnique []
       (concat (map (\<lambda>s. sc_working_dir (sp_config s)
                   # map vm_source (filter (\<lambda>m. \<not> is_system_mount (vm_source m)) (sp_binds s))) (plan_services p))))"

definition PlanTargetPaths :: "plan option \<Rightarrow> string list" where
  "PlanTargetPaths p =
     sort (foldl appendUnique []
       (concat (map (\<lambda>s. map tp_target (filter (\<lambda>t. tp_kind t = ''compose_project'' \<or> tp_kind t = ''bind_mount'') (sp_paths s)))
          (plan_services p))))"

definition PlanImages :: "plan option \<Rightarrow> string list" where
  "PlanImages p = sort (foldl appendUnique [] (map sp_image (plan_services p)))"

section \<open>Health targets\<close>

definition appendPort :: "string list \<Rightarrow> string \<Rightarrow> string list" where
  "appendPort vs v = (if v \<in> set vs then vs else vs @ [v])"

definition health_port :: "string \<Rightarrow> string list" where
  "health_port spec = (case portSpec spec of (hostPort, protocol) \<Rightarrow> if hostPort = [] then [] else [hostPort @ ''/'' @ protocol])"

definition HealthPorts :: "service_plan \<Rightarrow> string list" where
  "HealthPorts s = sort (foldl appendPort [] (concat (map health_port (planPorts s))))"

definition HealthTargetFor :: "service_plan \<Rightarrow> health_target" where
  "HealthTargetFor s =
     \<lparr>ht_service = sp_name s, ht_container = sp_container s,
      ht_project = (if sp_project s = [] then trim_space (sp_name s) else sp_project s),
      ht_compose_service = (if sp_project s = [] then SanitizeServiceName (sp_name s) else sp_compose_service s),
      ht_ports = HealthPorts s,
      ht_engine = (case sp_database s of None \<Rightarrow> [] | Some d \<Rightarrow> trim_space (dp_engine d)),
      ht_url = (case sp_health s of None \<Rightarrow> [] | Some u \<Rightarrow> trim_space u)\<rparr>"

definition HealthTargets :: "plan option \<Rightarrow> health_target list" where
  "HealthTargets p = map HealthTargetFor (plan_services p)"

section \<open>Lemmas on ports\<close>

definition word_char :: "char \<Rightarrow> bool" where
  "word_char c \<longleftrightarrow> code_of c < 128 \<and> \<not> ws1 c"

lemma trim_space_words: "\<forall>c\<in>set s. word_char c \<Longrightarrow> trim_space s = s"
  by (rule trim_space_no_edge_space) (cases s, auto simp: word_char_def)

lemma atoi_chars: "atoi s = Some n \<Longrightarrow> c \<in> set s \<Longrightarrow> word_char c \<and> c \<noteq> slash \<and> c \<noteq> CHR '':''"
  by (cases s)
     (auto simp: atoi_def Let_def list_all_iff is_digit_def word_char_def ws1_def code_of_def split: if_splits)

lemma atoi_nonempty: "atoi s = Some n \<Longrightarrow> s \<noteq> []"
  by (auto simp: atoi_def)

lemma to_lower_words: "\<forall>c\<in>set s. word_char c \<Longrightarrow> \<forall>c\<in>set (to_lower s). word_char c"
  by (auto simp: to_lower_def to_lower_char_def word_char_def ws1_def code_of_def is_upper_def char_of_consts split: if_splits)

lemma to_lower_idem: "to_lower (to_lower s) = to_lower s"
proof -
  have "to_lower_char (to_lower_char c) = to_lower_char c" for c
    by (cases "is_upper c") (auto simp: to_lower_char_def is_upper_def code_of_def)
  then show ?thesis by (simp add: to_lower_def)
qed

definition port_protocol :: "string \<Rightarrow> string" where
  "port_protocol p = (if p = [] then ''tcp'' else to_lower p)"

text \<open>A mapping with a number for its host port, written without blanks.\<close>

definition fixed_port :: "port_mapping \<Rightarrow> bool" where
  "fixed_port pm \<longleftrightarrow>
     atoi (pm_host pm) \<noteq> None
     \<and> (\<forall>c\<in>set (pm_ip pm). word_char c \<and> c \<noteq> slash)
     \<and> (\<forall>c\<in>set (pm_container pm). word_char c \<and> c \<noteq> slash \<and> c \<noteq> CHR '':'')
     \<and> (\<forall>c\<in>set (pm_protocol pm). word_char c)"

lemma portSpec_port_string:
  assumes "fixed_port pm"
  shows "portSpec (port_string pm) = (pm_host pm, port_protocol (pm_protocol pm))"
proof -
  obtain n where n: "atoi (pm_host pm) = Some n" using assms by (auto simp: fixed_port_def)
  note host = atoi_chars[OF n] atoi_nonempty[OF n]
  define ip where "ip = (if pm_ip pm \<noteq> [] \<and> pm_ip pm \<noteq> ''0.0.0.0'' \<and> pm_ip pm \<noteq> ''::'' then pm_ip pm @ '':'' else [])"
  define front where "front = ip @ pm_host pm @ CHR '':'' # pm_container pm"
  define proto where "proto = (if pm_protocol pm \<noteq> [] \<and> to_lower (pm_protocol pm) \<noteq> ''tcp'' then slash # to_lower (pm_protocol pm) else [])"
  have str: "port_string pm = front @ proto"
    using host(2) by (auto simp: port_string_def front_def proto_def ip_def Let_def)
  have colon: "word_char (CHR '':'')" "word_char slash" by (simp_all add: word_char_def ws1_def code_of_def)
  have fc: "\<forall>c\<in>set front. word_char c \<and> c \<noteq> slash"
    using assms host(1) colon by (auto simp: front_def ip_def fixed_port_def)
  moreover have low: "\<forall>c\<in>set (to_lower (pm_protocol pm)). word_char c"
    by (rule to_lower_words) (use assms in \<open>simp add: fixed_port_def\<close>)
  ultimately have "\<forall>c\<in>set (front @ proto). word_char c" using colon by (auto simp: proto_def)
  then have trim: "trim_space (front @ proto) = front @ proto" by (rule trim_space_words)
  have ne: "front @ proto \<noteq> []" by (simp add: front_def)
  have "slash \<notin> set front" using fc by blast
  then have cut: "cut_at slash (front @ proto) = (front, tl proto, proto \<noteq> [])"
    using cut_at_append[of slash front] cut_at_free[of slash front] by (simp add: proto_def)
  have pr: "(if proto \<noteq> [] then to_lower (trim_space (tl proto)) else ''tcp'') = port_protocol (pm_protocol pm)"
    using trim_space_words[OF low] to_lower_idem by (auto simp: proto_def port_protocol_def)
  have "\<forall>c\<in>set (pm_container pm). word_char c \<and> c \<noteq> slash \<and> c \<noteq> CHR '':''" using assms unfolding fixed_port_def by (elim conjE)
  then have "CHR '':'' \<notin> set (pm_container pm)" by blast
  moreover have "CHR '':'' \<notin> set (pm_host pm)" using host(1) by blast
  ultimately have tail: "split_on (CHR '':'') (pm_host pm @ CHR '':'' # pm_container pm) = [pm_host pm, pm_container pm]"
    by (simp add: split_on_append split_on_free)
  have "\<exists>pre. split_on (CHR '':'') front = pre @ split_on (CHR '':'') (pm_host pm @ CHR '':'' # pm_container pm)"
  proof (cases "ip = []")
    case False
    then have "front = pm_ip pm @ CHR '':'' # (pm_host pm @ CHR '':'' # pm_container pm)"
      unfolding front_def ip_def by (simp split: if_splits)
    then show ?thesis using split_on_append_sep by metis
  qed (simp add: front_def)
  then obtain pre where parts: "split_on (CHR '':'') front = pre @ [pm_host pm, pm_container pm]" unfolding tail ..
  have "trim_space (pm_host pm) = pm_host pm" using host(1) by (intro trim_space_words) blast
  then show ?thesis
    unfolding portSpec_def str trim Let_def if_not_P[OF ne] cut prod.case pr using n by (simp add: parts nth_append)
qed

text \<open>A range of ports is not a number: it is compared with nothing, on either side.\<close>

lemma port_range_unchecked:
  "portSpec ''8000-8010:80'' = ([], []) \<and> published_port_of ''0.0.0.0:8000-8010->80-90/tcp'' = None"
proof -
  have a: "atoi ''8000-8010'' = None" by (simp add: atoi_def is_digit_def code_of_def)
  have t: "trim_space ''8000-8010:80'' = ''8000-8010:80''" "trim_space ''8000-8010'' = ''8000-8010''"
    "trim_space ''0.0.0.0:8000-8010->80-90/tcp'' = ''0.0.0.0:8000-8010->80-90/tcp''"
    by code_simp+
  have i: "str_index ''->'' ''0.0.0.0:8000-8010->80-90/tcp'' = Some 17" "last_index (CHR '':'') ''0.0.0.0:8000-8010'' = 7"
    by code_simp+
  show ?thesis unfolding portSpec_def published_port_of_def t i by (simp add: a t i)
qed

section \<open>Lemmas on batches\<close>

lemma set_concat_nil: "concat (map f xs) = [] \<longleftrightarrow> (\<forall>x\<in>set xs. f x = [])"
  by auto

lemma sort_hd_in: "xs \<noteq> [] \<Longrightarrow> sort xs ! 0 \<in> set (xs :: string list)"
  by (metis length_greater_0_conv length_sort nth_mem set_sort)

lemma batch_risk_services: "rk_service ` set (batch_risk ss P) = (if length (batch_members ss P) < 2 then {} else {sort (batch_members ss P) ! 0})"
  by (simp add: batch_risk_def live_risk_def Let_def)

lemma batch_members_project: "n \<in> set (batch_members ss P) \<Longrightarrow> P \<in> set (batch_projects ss)"
  by (auto simp: batch_members_def batch_projects_def)

lemma batching_services:
  "rk_service ` set (VerifyProjectBatching (Some p))
   = {sort (batch_members (pn_services p) P) ! 0 | P. 2 \<le> length (batch_members (pn_services p) P)}"
proof -
  have "rk_service ` set (VerifyProjectBatching (Some p))
      = (\<Union>P\<in>set (batch_projects (pn_services p)). rk_service ` set (batch_risk (pn_services p) P))"
    by (simp add: VerifyProjectBatching_def plan_services_def image_UN)
  also have "\<dots> = {sort (batch_members (pn_services p) P) ! 0 | P. 2 \<le> length (batch_members (pn_services p) P)}"
  proof (intro set_eqI iffI)
    fix n assume "n \<in> (\<Union>P\<in>set (batch_projects (pn_services p)). rk_service ` set (batch_risk (pn_services p) P))"
    then show "n \<in> {sort (batch_members (pn_services p) P) ! 0 | P. 2 \<le> length (batch_members (pn_services p) P)}"
      unfolding batch_risk_services by (auto split: if_splits)
  next
    fix n assume "n \<in> {sort (batch_members (pn_services p) P) ! 0 | P. 2 \<le> length (batch_members (pn_services p) P)}"
    then obtain P where P: "n = sort (batch_members (pn_services p) P) ! 0" "2 \<le> length (batch_members (pn_services p) P)" by blast
    then have "batch_members (pn_services p) P \<noteq> []" by auto
    then have "P \<in> set (batch_projects (pn_services p))" using sort_hd_in batch_members_project by metis
    then show "n \<in> (\<Union>P\<in>set (batch_projects (pn_services p)). rk_service ` set (batch_risk (pn_services p) P))"
      unfolding batch_risk_services using P by (intro UN_I) auto
  qed
  finally show ?thesis .
qed

lemma batch_members_disjoint:
  assumes "distinct (map sp_name ss)" "n \<in> set (batch_members ss P)" "n \<in> set (batch_members ss Q)"
  shows "P = Q"
proof -
  obtain s t where "s \<in> set ss" "sp_name s = n" "sp_project s = P" "t \<in> set ss" "sp_name t = n" "sp_project t = Q"
    using assms(2,3) by (auto simp: batch_members_def)
  moreover have "inj_on sp_name (set ss)" using assms(1) by (simp add: distinct_map)
  ultimately show ?thesis by (metis inj_onD)
qed

section \<open>Lemmas on drift\<close>

lemma join_comma_inj:
  assumes "join_with '','' xs = join_with '','' ys"
    and "\<forall>x\<in>set xs. x \<noteq> [] \<and> CHR '','' \<notin> set x" "\<forall>y\<in>set ys. y \<noteq> [] \<and> CHR '','' \<notin> set y"
  shows "xs = ys"
proof -
  have nil: "join_with '','' zs = [] \<longleftrightarrow> zs = []" if "\<forall>z\<in>set zs. z \<noteq> []" for zs
    using that by (cases zs; cases "tl zs") auto
  show ?thesis
  proof (cases "xs = [] \<or> ys = []")
    case True
    then show ?thesis using assms nil[of xs] nil[of ys] by (metis join_with.simps(1))
  next
    case False
    then show ?thesis using assms split_on_join[of xs "CHR '',''"] split_on_join[of ys "CHR '',''"] by metis
  qed
qed

lemma joinSorted_iff:
  assumes "\<forall>x\<in>set xs. x \<noteq> [] \<and> CHR '','' \<notin> set x" "\<forall>y\<in>set ys. y \<noteq> [] \<and> CHR '','' \<notin> set y"
  shows "joinSorted xs = joinSorted ys \<longleftrightarrow> mset xs = mset ys"
proof
  assume "joinSorted xs = joinSorted ys"
  then have "sort xs = sort ys" unfolding joinSorted_def by (rule join_comma_inj) (use assms in simp_all)
  then show "mset xs = mset ys" by (metis mset_sort)
next
  assume "mset xs = mset ys"
  then have "sort xs = sort ys" by (intro properties_for_sort) simp_all
  then show "joinSorted xs = joinSorted ys" by (simp add: joinSorted_def)
qed

lemma signature_iff:
  "databaseSignature x = databaseSignature y
   \<longleftrightarrow> map_option (\<lambda>d. (da_engine d, da_strategy d)) x = map_option (\<lambda>d. (da_engine d, da_strategy d)) y"
proof (cases x; cases y)
  fix d e assume x: "x = Some d" "y = Some e"
  show ?thesis unfolding x by (cases "da_strategy d"; cases "da_strategy e") (auto simp: databaseSignature_def)
qed (auto simp: databaseSignature_def)

lemma plan_signature: "planDatabaseSignature (buildDatabasePlan a) = databaseSignature (ca_database a)"
  by (cases "ca_database a") (simp_all add: planDatabaseSignature_def buildDatabasePlan_def databaseSignature_def)

section \<open>Properties\<close>

definition no_adjustment :: service_adjustment where
  "no_adjustment = \<lparr>ad_ports = None, ad_binds = [], ad_project = []\<rparr>"

lemma foldl_unedited: "\<forall>t\<in>set ts. tp_target t = tp_source t \<Longrightarrow> foldl (adjust_step d) x ts = x"
  by (induction ts) (simp_all add: adjust_step_def)

lemma built_unedited:
  assumes "buildService (Some info, Some a) n bi = Inr s"
  shows "Adjustments (s\<lparr>sp_health := h\<rparr>) = no_adjustment"
proof -
  have f: "sp_ports s = plan_ports (ci_ports info)" "sc_ports (sp_config s) = plan_ports (ci_ports info)"
    "sp_paths s = buildTargetPaths info a"
    using assms by (auto simp: buildService_def buildServiceConfig_def Let_def)
  have "\<forall>t\<in>set (sp_paths s). tp_target t = tp_source t"
    unfolding f(3) buildTargetPaths_def by (auto simp: bind_path_def volume_path_def)
  then have "foldl (adjust_step d) x (sp_paths s) = x" for d x
    by (rule foldl_unedited)
  then show ?thesis by (simp add: Adjustments_def no_adjustment_def f(1,2))
qed

text \<open>A plan that nobody edited is carried out as it was built: no service of it has an adjustment, and no adjustment is
  announced.\<close>

theorem fresh_plan_unadjusted:
  assumes "BuildPlan bi = Inr p"
  shows "(\<forall>s\<in>set (pn_services p). Adjustments s = no_adjustment) \<and> AdjustmentRisks (Some p) = []"
proof -
  have all: "Adjustments s = no_adjustment" if "s \<in> set (pn_services p)" for s
    using plan_services_built(2)[OF assms that] built_unedited by blast
  moreover have "adjustment_risk s = []" if "s \<in> set (pn_services p)" for s
    using all[OF that] by (simp add: adjustment_risk_def when_list_def adjustment_any_def no_adjustment_def)
  ultimately show ?thesis by (simp add: AdjustmentRisks_def plan_services_def)
qed

text \<open>A host path that is mounted at two places has two entries in the plan, but an edit of either reaches the last
  destination only.\<close>

lemma adjust_binds_dom:
  "fst ` set (ad_binds (foldl (adjust_step d) x ts)) \<subseteq> fst ` set (ad_binds x) \<union> ran d"
proof (induction ts arbitrary: x)
  case (Cons t ts)
  have "fst ` set (ad_binds (adjust_step d x t)) \<subseteq> fst ` set (ad_binds x) \<union> ran d"
  proof (cases "d (tp_source t)")
    case (Some v)
    then have "v \<in> ran d" by (rule ranI)
    moreover have "fst ` set (upsert fst (v, tp_target t) (ad_binds x)) \<subseteq> insert v (fst ` set (ad_binds x))"
      using image_mono[OF set_upsert_subset[of fst "(v, tp_target t)" "ad_binds x"], of fst] by simp
    ultimately show ?thesis using Some by (auto simp: adjust_step_def)
  qed (simp add: adjust_step_def)
  then show ?case using Cons[of "adjust_step d x t"] unfolding foldl_Cons by blast
qed simp

lemma shared_source_edit_lost:
  assumes "sp_binds s = [m1, m2]" "vm_source m1 = vm_source m2" "vm_dest m1 \<noteq> vm_dest m2"
  shows "vm_dest m1 \<notin> fst ` set (ad_binds (Adjustments s))"
proof -
  have "ran (bind_destinations s) = {vm_dest m2}" using assms(1,2) by (simp add: bind_destinations_def ran_def)
  then show ?thesis using adjust_binds_dom[of "bind_destinations s"] assms(3) by (fastforce simp: Adjustments_def)
qed

text \<open>What must not have changed of a container, said of what \<open>docker inspect\<close> shows: the image, the Compose project and
  service, and, in any order, the names of its named volumes and the source paths of its bind mounts.\<close>

definition volume_bag :: "container_info \<Rightarrow> string multiset" where
  "volume_bag info =
     mset [trim_space (if trim_space (vm_name m) = [] then vm_source m else vm_name m).
             m \<leftarrow> ci_mounts info, IsNamedVolume m \<and> trim_space (vm_name m) @ trim_space (vm_source m) \<noteq> []]"

definition bind_bag :: "container_info \<Rightarrow> string multiset" where
  "bind_bag info = mset [trim_space (vm_source m). m \<leftarrow> ci_mounts info, \<not> IsNamedVolume m \<and> trim_space (vm_source m) \<noteq> []]"

definition same_container :: "container_info \<Rightarrow> container_info \<Rightarrow> bool" where
  "same_container x y \<longleftrightarrow>
     ci_image x = ci_image y
     \<and> label_value (ci_labels x) LabelComposeProject = label_value (ci_labels y) LabelComposeProject
     \<and> label_value (ci_labels x) LabelComposeService = label_value (ci_labels y) LabelComposeService
     \<and> volume_bag x = volume_bag y \<and> bind_bag x = bind_bag y"

definition comma_free :: "container_info \<Rightarrow> bool" where
  "comma_free info \<longleftrightarrow> (\<forall>m\<in>set (ci_mounts info). CHR '','' \<notin> set (vm_name m) \<and> CHR '','' \<notin> set (vm_source m))"

text \<open>A container that can be migrated at all: it names an image and has a network of its own.\<close>

definition migratable :: "container_info \<Rightarrow> bool" where
  "migratable info \<longleftrightarrow> trim_space (ci_image info) \<noteq> [] \<and> \<not> has_prefix (trim_space (ci_network info)) ''container:''"

lemma volume_bag_names: "mset (volumeNames (ca_named (Analyze info))) = volume_bag info"
proof -
  have "mset (concat (map (\<lambda>m. if IsNamedVolume m \<and> trim_space (vm_name m) @ trim_space (vm_source m) \<noteq> []
      then [trim_space (if trim_space (vm_name m) = [] then vm_source m else vm_name m)] else []) ms))
    = mset (filter (\<lambda>n. n \<noteq> []) (map trimmed_volume (filter IsNamedVolume ms)))" for ms
    by (induction ms) (auto simp: trimmed_volume_def)
  moreover have "mset (filter (\<lambda>n. n \<noteq> []) (map trimmed_volume (sortMounts ms))) = mset (filter (\<lambda>n. n \<noteq> []) (map trimmed_volume ms))" for ms
    by (simp add: sortMounts_def mset_filter)
  ultimately show ?thesis by (simp add: volume_bag_def volumeNames_def Analyze_def Let_def)
qed

lemma bind_bag_sources: "mset (mount_sources (ca_binds (Analyze info))) = bind_bag info"
proof -
  have "mset (concat (map (\<lambda>m. if \<not> IsNamedVolume m \<and> trim_space (vm_source m) \<noteq> [] then [trim_space (vm_source m)] else []) ms))
    = mset (filter (\<lambda>n. n \<noteq> []) (map (\<lambda>m. trim_space (vm_source m)) (filter (\<lambda>m. \<not> IsNamedVolume m) ms)))" for ms
    by (induction ms) auto
  moreover have "mset (filter (\<lambda>n. n \<noteq> []) (map (\<lambda>m. trim_space (vm_source m)) (sortMounts ms)))
      = mset (filter (\<lambda>n. n \<noteq> []) (map (\<lambda>m. trim_space (vm_source m)) ms))" for ms
    by (simp add: sortMounts_def mset_filter)
  ultimately show ?thesis by (simp add: bind_bag_def mount_sources_def Analyze_def Let_def)
qed

lemma comma_free_names:
  assumes "comma_free info"
  shows "\<forall>n\<in>set (volumeNames (ca_named (Analyze info))). n \<noteq> [] \<and> CHR '','' \<notin> set n"
    "\<forall>n\<in>set (mount_sources (ca_binds (Analyze info))). n \<noteq> [] \<and> CHR '','' \<notin> set n"
  using assms set_trim_space
  by (fastforce simp: comma_free_def volumeNames_def mount_sources_def Analyze_def Let_def sortMounts_def trimmed_volume_def)+

lemma migratable_iff: "ca_blockers (Analyze info) = [] \<longleftrightarrow> migratable info"
  by (simp add: Analyze_def collectBlockers_def migratable_def when_list_def Let_def)

lemma drift_iff:
  assumes "buildService (Some info, Some (Analyze info)) n bi = Inr s" "comma_free info" "comma_free now"
  shows "drift_details (s\<lparr>sp_health := h\<rparr>) (Analyze now) = [] \<longleftrightarrow> same_container now info"
proof -
  have f: "sp_image s = ci_image info" "sp_mode s = (if IsCompose info then ModeCompose else ModeRun)" "sp_project s = ComposeProject info"
    "sp_compose_service s = ComposeServiceName info" "sp_volumes s = ca_named (Analyze info)" "sp_binds s = ca_binds (Analyze info)"
    "sp_database s = buildDatabasePlan (Analyze info)"
    using assms(1) by (auto simp: buildService_def Analyze_def Let_def)
  have g: "ca_image (Analyze now) = ci_image now" "ca_is_compose (Analyze now) = IsCompose now" "ca_project (Analyze now) = ComposeProject now"
    "ca_service (Analyze now) = ComposeServiceName now" for now
    by (simp_all add: Analyze_def Let_def)
  have wl: "when_list c x = [] \<longleftrightarrow> \<not> c" for c and x :: string by (simp add: when_list_def)
  have mode: "(sp_mode s = ModeCompose) = IsCompose info" by (simp add: f(2) ModeRun_def ModeCompose_def)
  have db: "ci_image now = ci_image info \<Longrightarrow> map_option (\<lambda>d. (da_engine d, da_strategy d)) (ca_database (Analyze now))
      = map_option (\<lambda>d. (da_engine d, da_strategy d)) (ca_database (Analyze info))"
    by (simp add: Analyze_def Let_def analyzeDatabase_def DatabaseEngine_def)
  have compose: "ComposeProject now = ComposeProject info \<Longrightarrow> IsCompose now = IsCompose info"
    by (simp add: ComposeProject_def IsCompose_def)
  have v: "joinSorted (volumeNames (ca_named (Analyze now))) = joinSorted (volumeNames (ca_named (Analyze info))) \<longleftrightarrow> volume_bag now = volume_bag info"
    using joinSorted_iff[OF comma_free_names(1)[OF assms(3)] comma_free_names(1)[OF assms(2)]] by (simp add: volume_bag_names)
  have m: "joinSorted (mount_sources (ca_binds (Analyze now))) = joinSorted (mount_sources (ca_binds (Analyze info))) \<longleftrightarrow> bind_bag now = bind_bag info"
    using joinSorted_iff[OF comma_free_names(2)[OF assms(3)] comma_free_names(2)[OF assms(2)]] by (simp add: bind_bag_sources)
  have "drift_details (s\<lparr>sp_health := h\<rparr>) (Analyze now) = [] \<longleftrightarrow>
      ci_image now = ci_image info \<and> IsCompose now = IsCompose info \<and> ComposeProject now = ComposeProject info
      \<and> ComposeServiceName now = ComposeServiceName info \<and> volume_bag now = volume_bag info \<and> bind_bag now = bind_bag info
      \<and> map_option (\<lambda>d. (da_engine d, da_strategy d)) (ca_database (Analyze now)) = map_option (\<lambda>d. (da_engine d, da_strategy d)) (ca_database (Analyze info))"
    unfolding drift_details_def by (simp add: wl Let_def mode f(1,3-7) g plan_signature signature_iff v m)
  also have "\<dots> \<longleftrightarrow> same_container now info"
    using db compose unfolding same_container_def ComposeProject_def ComposeServiceName_def by blast
  finally show ?thesis .
qed


text \<open>The comment of \<open>VerifySource\<close> calls a container whose mounts changed drift, but the destinations inside the container are
  not compared, and neither are ports, environment, command and restart policy: the plan would migrate a different setup.\<close>

lemma unseen_changes:
  "same_container (info\<lparr>ci_mounts := map (\<lambda>m. m\<lparr>vm_dest := f m, vm_read_only := g m\<rparr>) (ci_mounts info), ci_ports := ps,
     ci_env := es, ci_command := cs, ci_restart := r\<rparr>) info"
proof -
  have keep: "IsNamedVolume (m\<lparr>vm_dest := x, vm_read_only := y\<rparr>) = IsNamedVolume m"
    "vm_source (m\<lparr>vm_dest := x, vm_read_only := y\<rparr>) = vm_source m" "vm_name (m\<lparr>vm_dest := x, vm_read_only := y\<rparr>) = vm_name m"
    for m :: volume_mount and x y by (simp_all add: IsNamedVolume_def Let_def)
  show ?thesis by (simp add: same_container_def volume_bag_def bind_bag_def comp_def keep cong del: if_weak_cong)
qed

text \<open>The lists are compared as texts joined by commas, so that one path with a comma looks like two.\<close>

lemma comma_hides_drift: "joinSorted [''/a'', ''/b''] = joinSorted [''/a,/b'']"
  by code_simp

text \<open>C25. No conflict on the target goes unreported: when the target check is silent, no container has the name of a service
  of the plan nor belongs to its project, no running container publishes a fixed host port that the plan needs, and no
  Compose directory of the plan exists there. A range of host ports is not a fixed port in this sense.\<close>

theorem target_conflicts_found:
  assumes "VerifyTarget (Some p) cs paths = []" "s \<in> set (pn_services p)"
  shows "(\<forall>c\<in>set cs. cs_name c \<noteq> sp_container s \<and> (serviceProjectName s \<noteq> [] \<longrightarrow> summary_project c \<noteq> serviceProjectName s))
    \<and> (\<forall>pm c q. fixed_port pm \<longrightarrow> port_string pm \<in> set (planPorts s) \<longrightarrow> c \<in> set cs \<longrightarrow> is_running c
         \<longrightarrow> q \<in> set (ParsePublishedPorts (cs_ports c)) \<longrightarrow>
         \<not> (pp_host q = pm_host pm \<and> pp_protocol q = port_protocol (pm_protocol pm)))
    \<and> (\<forall>t\<in>set (sp_paths s). \<forall>c\<in>set paths. tp_kind t = ''compose_project'' \<longrightarrow> trim_space (tp_target t) \<noteq> []
         \<longrightarrow> ck_name c = tp_target t \<longrightarrow> distinct (map ck_name paths) \<longrightarrow> \<not> ck_exists c)"
proof -
  have none: "targetConflicts s cs (pathIndex paths) = []"
    using assms by (auto simp: VerifyTarget_def plan_services_def)
  then have cc: "container_conflicts s c = []" if "c \<in> set cs" for c using that by (auto simp: targetConflicts_def)
  have pc: "port_conflict s (publishedPortIndex cs) spec = []" if "spec \<in> set (planPorts s)" for spec
    using none that by (auto simp: targetConflicts_def)
  have tc: "path_conflict s (pathIndex paths) t = []" if "t \<in> set (sp_paths s)" for t
    using none that by (auto simp: targetConflicts_def)
  have 1: "cs_name c \<noteq> sp_container s \<and> (serviceProjectName s \<noteq> [] \<longrightarrow> summary_project c \<noteq> serviceProjectName s)"
    if "c \<in> set cs" for c using cc[OF that] by (auto simp: container_conflicts_def when_list_def split: if_splits)
  have 2: "\<not> (pp_host q = pm_host pm \<and> pp_protocol q = port_protocol (pm_protocol pm))"
    if h: "fixed_port pm" "port_string pm \<in> set (planPorts s)" "c \<in> set cs" "is_running c"
      "q \<in> set (ParsePublishedPorts (cs_ports c))" for pm c q
  proof
    assume q: "pp_host q = pm_host pm \<and> pp_protocol q = port_protocol (pm_protocol pm)"
    let ?k = "portKey (pm_host pm) (port_protocol (pm_protocol pm))"
    have "(?k, cs_name c) \<in> set (port_entries c)" using h(5) q by (force simp: port_entries_def)
    then have "(?k, cs_name c) \<in> set (concat (map port_entries (filter is_running cs)))" using h(3,4) by auto
    then have "?k \<in> fst ` set (concat (map port_entries (filter is_running cs)))" by (rule image_eqI[rotated]) simp
    then have "publishedPortIndex cs ?k \<noteq> None" unfolding publishedPortIndex_def map_of_eq_None_iff by blast
    moreover have "pm_host pm \<noteq> []" using h(1) atoi_nonempty by (auto simp: fixed_port_def)
    ultimately show False using pc[OF h(2)] by (auto simp: port_conflict_def portSpec_port_string[OF h(1)])
  qed
  have 3: "\<not> ck_exists c" if h: "t \<in> set (sp_paths s)" "c \<in> set paths" "tp_kind t = ''compose_project''"
    "trim_space (tp_target t) \<noteq> []" "ck_name c = tp_target t" "distinct (map ck_name paths)" for t c
  proof -
    have "distinct (map fst (rev (map (\<lambda>c. (ck_name c, c)) paths)))" using h(6) by (simp add: rev_map[symmetric] comp_def)
    moreover have "(tp_target t, c) \<in> set (rev (map (\<lambda>c. (ck_name c, c)) paths))" using h(2,5) by force
    ultimately have "pathIndex paths (tp_target t) = Some c" unfolding pathIndex_def by (rule map_of_is_SomeI)
    then show ?thesis using tc[OF h(1)] h(3,4) by (auto simp: path_conflict_def when_list_def split: if_splits)
  qed
  show ?thesis using 1 2 3 by blast
qed

text \<open>Of the services of one Compose project that a plan selects, exactly one is reported and so blocked, whatever their
  number: the first by name. The others are left to be migrated, although all of them would use the project's name.\<close>

theorem project_batching_reports_one:
  assumes "distinct (map sp_name (pn_services p))" "2 \<le> length (batch_members (pn_services p) P)"
  shows "{n \<in> set (batch_members (pn_services p) P). \<exists>r\<in>set (VerifyProjectBatching (Some p)). rk_service r = n}
    = {sort (batch_members (pn_services p) P) ! 0}"
proof -
  let ?m = "batch_members (pn_services p)"
  have in_m: "sort (?m Q) ! 0 \<in> set (?m Q)" if "2 \<le> length (?m Q)" for Q
    using that by (intro sort_hd_in) auto
  have found: "(\<exists>r\<in>set (VerifyProjectBatching (Some p)). rk_service r = n) \<longleftrightarrow> (\<exists>Q. n = sort (?m Q) ! 0 \<and> 2 \<le> length (?m Q))" for n
  proof -
    have "(\<exists>r\<in>set (VerifyProjectBatching (Some p)). rk_service r = n) \<longleftrightarrow> n \<in> rk_service ` set (VerifyProjectBatching (Some p))"
      by auto
    then show ?thesis unfolding batching_services by simp
  qed
  have "{n \<in> set (?m P). \<exists>r\<in>set (VerifyProjectBatching (Some p)). rk_service r = n}
      = {n \<in> set (?m P). \<exists>Q. n = sort (?m Q) ! 0 \<and> 2 \<le> length (?m Q)}"
    unfolding found by blast
  also have "\<dots> = {sort (?m P) ! 0}"
    using in_m assms(2) batch_members_disjoint[OF assms(1)] by blast
  finally show ?thesis .
qed

section \<open>Witnesses\<close>

theorem fresh_plan_unadjusted_witness:
  "\<exists>p s. BuildPlan (example_input StatusOK) = Inr p \<and> pn_services p = [s] \<and> Adjustments s = no_adjustment"
proof -
  obtain p where p: "BuildPlan (example_input StatusOK) = Inr p" using example_input_plan by blast
  have "length (pn_services p) = 1"
    using arg_cong[OF plan_services_built(1)[OF p], of length] by (simp add: example_containers example_job_name)
  then obtain s where "pn_services p = [s]" by (auto simp: length_Suc_conv)
  then show ?thesis using fresh_plan_unadjusted[OF p] p by auto
qed

lemma example_comma_free: "comma_free example_info"
  unfolding comma_free_def by code_simp

lemma example_migratable: "migratable example_info"
proof -
  have "trim_space (ci_image example_info) \<noteq> []" "\<not> has_prefix (trim_space (ci_network example_info)) ''container:''"
    unfolding example_info_def container_info.select_convs by code_simp+
  then show ?thesis by (simp add: migratable_def)
qed


definition batch_service :: "string \<Rightarrow> service_plan" where
  "batch_service n =
     \<lparr>sp_name = n, sp_container = n, sp_mode = ModeCompose, sp_project = ''shop'', sp_compose_service = n, sp_image = ''nginx'',
      sp_acquisition = ImageUnknown, sp_acquisition_note = [],
      sp_config = \<lparr>sc_compose_file = ''/srv/shop/compose.yaml'', sc_working_dir = ''/srv/shop'', sc_source = ''existing'',
        sc_restart = [], sc_ports = [''8080:80''], sc_command = [], sc_container_dir = [], sc_env_keys = [], sc_sensitive = []\<rparr>,
      sp_volumes = [], sp_binds = [], sp_deps = [], sp_database = None,
      sp_consistency = \<lparr>cn_database = ConsistencyNone, cn_volumes = ConsistencyNone\<rparr>, sp_attributes = [],
      sp_paths = [], sp_ports = [''8080:80''], sp_health = None, sp_backup = None, sp_blockers = [], sp_warnings = [],
      sp_follow_ups = []\<rparr>"

definition batch_plan :: plan where
  "batch_plan = (example_plan PlanKind PlanFormatVersion)\<lparr>pn_services := map batch_service [''web'', ''api'', ''db'']\<rparr>"

lemma batch_plan_members: "batch_members (pn_services batch_plan) ''shop'' = [''web'', ''api'', ''db'']"
proof -
  have "trim_space ''shop'' \<noteq> []" by code_simp
  then show ?thesis by (simp add: batch_members_def batch_plan_def batched_def batch_service_def)
qed

theorem target_conflicts_found_witness:
  "\<exists>cs. cs \<noteq> [] \<and> VerifyTarget (Some batch_plan) cs [] = [] \<and> (\<forall>c\<in>set cs. cs_name c \<noteq> ''web'')"
proof -
  define c where "c = \<lparr>cs_id = ''1'', cs_name = ''mail'', cs_image = ''m'', cs_command = [], cs_state = ''running'', cs_status = [],
     cs_ports = [], cs_labels = []\<rparr>"
  have t: "trim_space ''shop'' = ''shop''" "ParsePublishedPorts [] = []" by code_simp+
  have "VerifyTarget (Some batch_plan) [c] [] = []"
    by (simp add: VerifyTarget_def plan_services_def batch_plan_def targetConflicts_def container_conflicts_def when_list_def
        batch_service_def c_def serviceProjectName_def t summary_project_def label_value_def publishedPortIndex_def
        port_entries_def port_conflict_def split: prod.splits)
  moreover have "batch_service ''web'' \<in> set (pn_services batch_plan)" by (simp add: batch_plan_def)
  moreover have "sp_container (batch_service ''web'') = ''web''" by (simp add: batch_service_def)
  ultimately show ?thesis using target_conflicts_found[of batch_plan "[c]" "[]" "batch_service ''web''"] by (intro exI[of _ "[c]"]) auto
qed

theorem project_batching_reports_one_witness:
  "{n \<in> {''web'', ''api'', ''db''}. \<exists>r\<in>set (VerifyProjectBatching (Some batch_plan)). rk_service r = n} = {''api''}"
proof -
  have d: "distinct (map sp_name (pn_services batch_plan))" by (simp add: batch_plan_def batch_service_def)
  have "sort [''web'', ''api'', ''db''] ! 0 = ''api''" by code_simp
  then show ?thesis
    using project_batching_reports_one[OF d, of "''shop''"] by (simp add: batch_plan_members)
qed

end
