(* ===== verification/ContainerBackup.thy ===== *)
theory ContainerBackup
  imports RestoreRunner DockerModel DockerScripts BackupStore AssetStore
begin

text \<open>
  \<open>internal/backup/container_runner.go\<close>: the backup of one container, from its inspection over the archives, the
  database dump and the generated files to the restic run, with the two deferred actions that close the audit row and
  remove the temporary artifacts. Scripts are appended to a trace, and the executor answers according to it.
  JSON and YAML are parameters, and so are the environment variables. The base64 encoding is that of the Go library;
  console output is left out.
\<close>

section \<open>Base64\<close>

definition b64_alphabet :: string where
  "b64_alphabet = ''ABCDEFGHIJKLMNOPQRSTUVWXYZabcdefghijklmnopqrstuvwxyz0123456789+/''"

definition b64_digit :: "nat \<Rightarrow> char" where
  "b64_digit n = b64_alphabet ! n"

fun base64 :: "string \<Rightarrow> string" where
  "base64 [] = []"
| "base64 [a] = [b64_digit (code_of a div 4), b64_digit (code_of a mod 4 * 16), CHR ''='', CHR ''='']"
| "base64 [a, b] =
     [b64_digit (code_of a div 4), b64_digit (code_of a mod 4 * 16 + code_of b div 16), b64_digit (code_of b mod 16 * 4), CHR ''='']"
| "base64 (a # b # c # cs) =
     b64_digit (code_of a div 4) # b64_digit (code_of a mod 4 * 16 + code_of b div 16)
     # b64_digit (code_of b mod 16 * 4 + code_of c div 64) # b64_digit (code_of c mod 64) # base64 cs"

section \<open>Options and layout\<close>

record container_options =
  co_server :: string
  co_container :: string
  co_alias :: string
  co_confirm :: "(string list \<Rightarrow> go_error option) option"

record container_result =
  cb_run :: backup_run
  cb_job :: string
  cb_server :: string
  cb_snapshot :: string
  cb_compose :: string
  cb_is_compose :: bool
  cb_is_database :: bool
  cb_dump :: string
  cb_paths :: "string list"

text \<open>What is known of the container after its inspection.\<close>

record layout =
  ly_server :: string
  ly_container :: string
  ly_final :: string
  ly_info :: container_info
  ly_project :: string
  ly_file :: string

definition managed_dir :: "string \<Rightarrow> string" where
  "managed_dir final = ''/var/lib/opspulse/containers/'' @ final"

definition project_of :: "container_info \<Rightarrow> string \<Rightarrow> string" where
  "project_of info final =
     (if IsCompose info \<and> ComposeWorkingDir info \<noteq> [] then ComposeWorkingDir info else managed_dir final)"

definition compose_name_of :: "container_info \<Rightarrow> string" where
  "compose_name_of info =
     (let files = label_value (ci_labels info) LabelComposeConfigFiles;
          base = path_base (trim_space (hd (split_on (CHR '','') files)))
      in if IsCompose info \<and> files \<noteq> [] \<and> base \<noteq> [] \<and> base \<noteq> ''.'' then base else ''compose.yaml'')"

definition layout_of :: "string \<Rightarrow> string \<Rightarrow> string \<Rightarrow> container_info \<Rightarrow> layout" where
  "layout_of server container final info =
     \<lparr>ly_server = server, ly_container = container, ly_final = final, ly_info = info,
      ly_project = project_of info final, ly_file = compose_name_of info\<rparr>"

definition compose_path :: "layout \<Rightarrow> string" where
  "compose_path ly = path_join [ly_project ly, ly_file ly]"

section \<open>Artifacts\<close>

type_synonym answer = "exec_result option \<times> go_error option \<times> string"

definition script_failed :: "answer \<Rightarrow> bool" where
  "script_failed r \<longleftrightarrow> (case r of (res, e, out) \<Rightarrow> e \<noteq> None \<or> (case res of None \<Rightarrow> False | Some x \<Rightarrow> \<not> er_success x))"

definition show_error :: "go_error option \<Rightarrow> string" where
  "show_error e = (case e of None \<Rightarrow> ''<nil>'' | Some x \<Rightarrow> err_text x)"

record artifacts =
  ar_volumes :: "manifest_volume list"
  ar_mounts :: "manifest_mount list"
  ar_paths :: "string list"
  ar_temps :: "string list"

definition no_artifacts :: artifacts where
  "no_artifacts = \<lparr>ar_volumes = [], ar_mounts = [], ar_paths = [], ar_temps = []\<rparr>"

definition stale_script :: "string \<Rightarrow> string" where
  "stale_script project = ''rm -rf '' @ join_with '' '' (map quote [ScratchDumpsDir project, ScratchVolumesDir project])"

definition volume_of :: "volume_mount \<Rightarrow> string" where
  "volume_of m = (if vm_name m = [] then vm_source m else vm_name m)"

definition archive_rel :: "volume_mount \<Rightarrow> string" where
  "archive_rel m = ''volumes/'' @ volume_of m @ ''/data.tar''"

definition archive_full :: "layout \<Rightarrow> volume_mount \<Rightarrow> string" where
  "archive_full ly m = path_join [ScratchDir (ly_project ly), archive_rel m]"

definition is_volume :: "volume_mount \<Rightarrow> bool" where
  "is_volume m \<longleftrightarrow> vm_type m = ''volume'' \<or> IsNamedVolume m"

definition skipped_volume :: "layout \<Rightarrow> volume_mount \<Rightarrow> bool" where
  "skipped_volume ly m \<longleftrightarrow> IsDatabase (ly_info ly) \<and> IsDatabaseDataDir (ly_info ly) (vm_dest m)"

definition add_volume :: "volume_mount \<Rightarrow> artifacts \<Rightarrow> artifacts" where
  "add_volume m art =
     art\<lparr>ar_volumes := ar_volumes art @ [\<lparr>mv_name = volume_of m, mv_archive = archive_rel m, mv_target = vm_dest m\<rparr>]\<rparr>"

definition add_bind :: "layout \<Rightarrow> volume_mount \<Rightarrow> artifacts \<Rightarrow> artifacts" where
  "add_bind ly m art =
     (if is_system_mount (vm_source m)
      then art\<lparr>ar_mounts := ar_mounts art @
             [\<lparr>mm_source = vm_source m, mm_target = vm_dest m, mm_required = True, mm_reason = ''system_mount''\<rparr>]\<rparr>
      else art\<lparr>ar_mounts := ar_mounts art @
             [\<lparr>mm_source = vm_source m, mm_target = vm_dest m, mm_required = True, mm_reason = ''bind_mount''\<rparr>],
             ar_paths := (if has_path_prefix (vm_source m) (ly_project ly) then ar_paths art else ar_paths art @ [vm_source m])\<rparr>)"

definition export_task :: "volume_mount \<Rightarrow> string" where
  "export_task m = ''export-vol-'' @ volume_of m"

fun archive_mounts ::
    "remote_exec \<Rightarrow> target \<Rightarrow> layout \<Rightarrow> volume_mount list \<Rightarrow> artifacts \<Rightarrow> executed \<Rightarrow> go_error option \<times> artifacts \<times> executed"
where
  "archive_mounts exec tgt ly [] art tr = (None, art, tr)"
| "archive_mounts exec tgt ly (m # ms) art tr =
     (if is_volume m
      then (if skipped_volume ly m then archive_mounts exec tgt ly ms art tr
            else (let script = BuildVolumeExportScript (volume_of m) (archive_full ly m);
                      r = exec tr tgt (export_task m) script;
                      tr1 = tr @ [(tgt, export_task m, script)]; art1 = add_volume m art
                  in if script_failed r
                     then (Some (errors_new (''failed to export volume '' @ go_quote (volume_of m) @ '' on target '' @ ly_server ly @ '': '' @ show_error (fst (snd r)))), art1, tr1)
                     else archive_mounts exec tgt ly ms (art1\<lparr>ar_temps := ar_temps art1 @ [archive_full ly m]\<rparr>) tr1))
      else if vm_type m = ''bind'' then archive_mounts exec tgt ly ms (add_bind ly m art) tr
      else archive_mounts exec tgt ly ms art tr)"

definition dump_rel :: "layout \<Rightarrow> string" where
  "dump_rel ly = ''dumps/'' @ DumpFileName (ly_final ly)"

definition dump_full :: "layout \<Rightarrow> string" where
  "dump_full ly = path_join [ScratchDir (ly_project ly), dump_rel ly]"

definition dump_database ::
    "remote_exec \<Rightarrow> target \<Rightarrow> layout \<Rightarrow> artifacts \<Rightarrow> executed \<Rightarrow> go_error option \<times> artifacts \<times> executed" where
  "dump_database exec tgt ly art tr =
     (if \<not> IsDatabase (ly_info ly) then (None, art, tr)
      else (let art1 = art\<lparr>ar_temps := ar_temps art @ [dump_full ly]\<rparr>
            in case BuildDumpScript (DatabaseEngine (ly_info ly)) (ly_container ly) (dump_full ly) of
                 Inl e \<Rightarrow> (Some (wrap ''failed to build dump script: '' e []), art1, tr)
               | Inr script \<Rightarrow>
                   (let r = exec tr tgt (''dump-'' @ ly_final ly) script; tr1 = tr @ [(tgt, ''dump-'' @ ly_final ly, script)]
                    in if script_failed r
                       then (Some (errors_new (''database dump failed for container '' @ go_quote (ly_container ly) @ '': '' @ show_error (fst (snd r)))), art1, tr1)
                       else (None, art1, tr1))))"

text \<open>A file is written by decoding a literal.\<close>

definition write_script :: "string \<Rightarrow> string \<Rightarrow> string \<Rightarrow> string" where
  "write_script dir content file_path =
     ''mkdir -p '' @ quote dir @ '' && printf '' @ [CHR 0x27] @ ''%s'' @ [CHR 0x27] @ '' '' @ quote (base64 content) @ '' | base64 -d > '' @ quote file_path"

definition write_compose ::
    "(compose_config \<Rightarrow> string res) \<Rightarrow> remote_exec \<Rightarrow> target \<Rightarrow> layout \<Rightarrow> string \<Rightarrow> executed \<Rightarrow> go_error option \<times> executed" where
  "write_compose show_yaml exec tgt ly alias_name tr =
     (if IsCompose (ly_info ly) then (None, tr)
      else (case GenerateComposeYAML show_yaml (Some (ly_info ly)) alias_name of
              Inl e \<Rightarrow> (Some (wrap ''failed to generate compose.yaml: '' e []), tr)
            | Inr y \<Rightarrow>
                (let script = line (write_script (ly_project ly) y (compose_path ly));
                     r = exec tr tgt (''write-compose-'' @ ly_final ly) script;
                     tr1 = tr @ [(tgt, ''write-compose-'' @ ly_final ly, script)]
                 in if script_failed r
                    then (Some (errors_new (''failed to write generated compose.yaml on target '' @ ly_server ly @ '': '' @ show_error (fst (snd r)))), tr1)
                    else (None, tr1))))"

definition manifest_of :: "layout \<Rightarrow> artifacts \<Rightarrow> manifest" where
  "manifest_of ly art =
     \<lparr>mf_version = 1, mf_app = ly_final ly, mf_compose = ly_file ly, mf_volumes = ar_volumes art, mf_mounts = ar_mounts art,
      mf_database = (if IsDatabase (ly_info ly)
        then Some \<lparr>md_engine = DatabaseEngine (ly_info ly), md_container = ly_container ly, md_dump = dump_rel ly\<rparr> else None)\<rparr>"

definition write_manifest ::
    "(manifest \<Rightarrow> string res) \<Rightarrow> remote_exec \<Rightarrow> target \<Rightarrow> layout \<Rightarrow> artifacts \<Rightarrow> executed \<Rightarrow> go_error option \<times> executed" where
  "write_manifest show_yaml exec tgt ly art tr =
     (case MarshalManifest show_yaml (manifest_of ly art) of
        Inl e \<Rightarrow> (Some (wrap ''failed to marshal container manifest: '' e []), tr)
      | Inr y \<Rightarrow>
          (let script = line (write_script (ScratchDir (ly_project ly)) y (ManifestPath (ly_project ly)));
               r = exec tr tgt (''write-manifest-'' @ ly_final ly) script;
               tr1 = tr @ [(tgt, ''write-manifest-'' @ ly_final ly, script)]
           in if script_failed r
              then (Some (errors_new (''failed to write manifest.yaml on target '' @ ly_server ly @ '': '' @ show_error (fst (snd r)))), tr1)
              else (None, tr1)))"

section \<open>Stores and environment\<close>

record 'j job_store =
  js_get :: "string \<Rightarrow> 'j \<Rightarrow> job res \<times> 'j"
  js_list :: "'j \<Rightarrow> job list res \<times> 'j"
  js_save :: "job \<Rightarrow> 'j \<Rightarrow> unit res \<times> 'j"

record ('a, 'b, 'j, 's) container_runner =
  cr_allow_untracked :: bool
  cr_repo :: "'s recorder option"
  cr_servers :: "(string \<Rightarrow> 'b \<Rightarrow> server res \<times> 'b) option"
  cr_jobs :: "'j job_store option"
  cr_asset_save :: "(asset \<Rightarrow> 'a \<Rightarrow> unit res \<times> 'a) option"

record ('a, 'b, 'j, 's) container_state =
  cx_assets :: 'a
  cx_servers :: 'b
  cx_jobs :: 'j
  cx_db :: 's

record container_env =
  ce_run :: run_env
  ce_exec :: remote_exec
  ce_inspect :: "string \<Rightarrow> container_info res"
  ce_compose :: "compose_config \<Rightarrow> string res"
  ce_manifest :: "manifest \<Rightarrow> string res"
  ce_summary :: "string \<Rightarrow> restic_summary option"
  ce_repository :: string
  ce_password :: string

definition env_backend :: "container_env \<Rightarrow> string \<times> (string \<times> string) list" where
  "env_backend env =
     (if ce_repository env = [] then ([], [])
      else (ce_repository env, if ce_password env = [] then [] else [(''RESTIC_PASSWORD'', ce_password env)]))"

definition resolveInheritedBackend ::
    "'j job_store option \<Rightarrow> container_env \<Rightarrow> string \<Rightarrow> 'j \<Rightarrow> (string \<times> (string \<times> string) list) \<times> 'j" where
  "resolveInheritedBackend store env job_name js =
     (case store of
        None \<Rightarrow> (env_backend env, js)
      | Some st \<Rightarrow>
          (case js_get st job_name js of
             (got, js1) \<Rightarrow>
               (case (case got of Inl e \<Rightarrow> None | Inr j \<Rightarrow> if j_backend j \<noteq> [] then Some j else None) of
                  Some j \<Rightarrow> ((j_backend j, j_env j), js1)
                | None \<Rightarrow>
                    (case js_list st js1 of
                       (listed, js2) \<Rightarrow>
                         (case (case listed of Inl e \<Rightarrow> None | Inr all \<Rightarrow> find (\<lambda>j. j_backend j \<noteq> []) all) of
                            Some j \<Rightarrow> ((j_backend j, j_env j), js2)
                          | None \<Rightarrow> (env_backend env, js2))))))"

definition blank_job :: "string \<Rightarrow> string \<Rightarrow> job" where
  "blank_job name server =
     \<lparr>j_name = name, j_server = server, j_paths = [], j_assets = [], j_backend = [], j_env = [], j_retention = None,
      j_excludes = [], j_tags = [], j_description = [], j_schedule = [], j_remap = []\<rparr>"

definition container_job :: "layout \<Rightarrow> string list \<Rightarrow> string \<Rightarrow> (string \<times> string) list \<Rightarrow> job" where
  "container_job ly paths backend env =
     (blank_job (ly_final ly) (ly_server ly))
       \<lparr>j_paths := paths, j_backend := backend, j_env := env, j_tags := [''container'', ly_final ly],
        j_description := ''Container backup for '' @ ly_container ly @ '' on '' @ ly_server ly\<rparr>"

definition container_asset :: "layout \<Rightarrow> asset" where
  "container_asset ly =
     \<lparr>a_id = ly_final ly, a_type = (if IsDatabase (ly_info ly) then TypeDatabase else TypeDockerCompose),
      a_source = compose_path ly,
      a_engine = (if IsDatabase (ly_info ly) then DatabaseEngine (ly_info ly) else []),
      a_container = (if IsDatabase (ly_info ly) then ly_container ly else []), a_excludes = [],
      a_description = ''Auto-registered container '' @ ly_container ly @ '' on '' @ ly_server ly\<rparr>"

text \<open>Errors of the two stores are warnings.\<close>

definition persist ::
    "('a, 'b, 'j, 's) container_runner \<Rightarrow> layout \<Rightarrow> job \<Rightarrow> ('a, 'b, 'j, 's) container_state \<Rightarrow> ('a, 'b, 'j, 's) container_state" where
  "persist cr ly j st =
     (let st1 = (case cr_jobs cr of None \<Rightarrow> st | Some s \<Rightarrow> st\<lparr>cx_jobs := snd (js_save s j (cx_jobs st))\<rparr>)
      in case cr_asset_save cr of None \<Rightarrow> st1 | Some save \<Rightarrow> st1\<lparr>cx_assets := snd (save (container_asset ly) (cx_assets st1))\<rparr>)"

section \<open>The run\<close>

definition confirm_sensitive :: "container_options \<Rightarrow> layout \<Rightarrow> go_error option" where
  "confirm_sensitive opts ly =
     (let sensitive = SensitiveEnvVars (ly_info ly)
      in if IsCompose (ly_info ly) \<or> sensitive = [] then None
         else (case co_confirm opts of
                 None \<Rightarrow> Some (errors_new (''refusing to write a generated compose.yaml for '' @ go_quote (ly_final ly) @ '': it would contain ''
                     @ show_nat (length sensitive) @ '' sensitive environment variable(s) ('' @ join_with '', '' sensitive
                     @ '') and no confirmation callback is configured''))
               | Some confirm \<Rightarrow> confirm sensitive))"

text \<open>Steps 2 to 5, from the confirmation to the manifest.\<close>

definition generate_artifacts ::
    "container_env \<Rightarrow> container_options \<Rightarrow> target \<Rightarrow> layout \<Rightarrow> executed \<Rightarrow> go_error option \<times> artifacts \<times> executed" where
  "generate_artifacts env opts tgt ly tr0 =
     (case confirm_sensitive opts ly of
        Some e \<Rightarrow> (Some e, no_artifacts, tr0)
      | None \<Rightarrow>
     (case archive_mounts (ce_exec env) tgt ly (ci_mounts (ly_info ly)) no_artifacts
             (tr0 @ [(tgt, ''clean-stale-dumps'', stale_script (ly_project ly))]) of
        (Some e, art, tr) \<Rightarrow> (Some e, art, tr)
      | (None, art, tr) \<Rightarrow>
     (case dump_database (ce_exec env) tgt ly art tr of
        (Some e, art1, tr1) \<Rightarrow> (Some e, art1, tr1)
      | (None, art1, tr1) \<Rightarrow>
     (case write_compose (ce_compose env) (ce_exec env) tgt ly (co_alias opts) tr1 of
        (Some e, tr2) \<Rightarrow> (Some e, art1, tr2)
      | (None, tr2) \<Rightarrow>
     (case write_manifest (ce_manifest env) (ce_exec env) tgt ly art1 tr2 of
        (e, tr3) \<Rightarrow> (e, art1, tr3))))))"

text \<open>Steps 6 to 8. The executor of the run answers according to the trace so far.\<close>

definition run_env_at :: "container_env \<Rightarrow> executed \<Rightarrow> run_env" where
  "run_env_at env tr = (ce_run env)\<lparr>re_exec := ce_exec env tr\<rparr>"

definition backup_artifacts ::
    "(nat \<Rightarrow> bool) \<Rightarrow> ('a, 'b, 'j, 's) container_runner \<Rightarrow> container_env \<Rightarrow> target \<Rightarrow> layout \<Rightarrow> artifacts \<Rightarrow> backup_run \<Rightarrow> executed
     \<Rightarrow> ('a, 'b, 'j, 's) container_state \<Rightarrow> container_result res \<times> backup_run \<times> executed \<times> ('a, 'b, 'j, 's) container_state" where
  "backup_artifacts uc cr env tgt ly art run tr st =
     (case resolveInheritedBackend (cr_jobs cr) env (ly_final ly) (cx_jobs st) of
        ((backend, benv), js) \<Rightarrow>
          (let st1 = st\<lparr>cx_jobs := js\<rparr>; paths = dedup_paths (ar_paths art @ [ly_project ly]);
               j = container_job ly paths backend benv
           in if backend = []
              then (Inl (errors_new ''no backup repository configured in backups.yaml and RESTIC_REPOSITORY is not set''), run, tr, st1)
              else (case executeRun uc (ce_summary env) (cr_repo cr) (run_env_at env tr) j tgt run (cx_db st1) of
                      (run1, Some e, ex, s1) \<Rightarrow> (Inl e, run1, tr @ ex, st1\<lparr>cx_db := s1\<rparr>)
                    | (run1, None, ex, s1) \<Rightarrow>
                        (Inr \<lparr>cb_run = run1, cb_job = ly_final ly, cb_server = ly_server ly, cb_snapshot = br_snapshot run1,
                              cb_compose = compose_path ly, cb_is_compose = IsCompose (ly_info ly),
                              cb_is_database = IsDatabase (ly_info ly),
                              cb_dump = (if IsDatabase (ly_info ly) then dump_full ly else []), cb_paths = paths\<rparr>,
                         run1, tr @ ex,
                         if br_status run1 = ''success'' then persist cr ly j (st1\<lparr>cx_db := s1\<rparr>) else st1\<lparr>cx_db := s1\<rparr>))))"

text \<open>The deferred removal of the temporary files, of those below the scratch directory only.\<close>

definition cleanup_parts :: "string \<Rightarrow> string list \<Rightarrow> string list" where
  "cleanup_parts scratch temps = filter (\<lambda>f. has_path_prefix f scratch) temps"

definition cleanup_temps :: "target \<Rightarrow> string \<Rightarrow> string list \<Rightarrow> executed \<Rightarrow> executed" where
  "cleanup_temps tgt scratch temps tr =
     (if cleanup_parts scratch temps = [] then tr
      else tr @ [(tgt, ''cleanup-temp'', ''rm -rf '' @ join_with '' '' (map quote (cleanup_parts scratch temps)))])"

definition inspect_script :: "string \<Rightarrow> string" where
  "inspect_script container = ''docker inspect --type container '' @ quote container"

definition inspect_failure :: "string \<Rightarrow> string \<Rightarrow> answer \<Rightarrow> go_error option" where
  "inspect_failure server container r =
     (case r of
        (res, Some e, out) \<Rightarrow> Some (wrap (''failed to inspect container '' @ go_quote container @ '' on '' @ server @ '': '') e [])
      | (Some x, None, out) \<Rightarrow>
          (if er_success x then None
           else Some (errors_new (''docker inspect '' @ go_quote container @ '' failed: '' @ show_error (er_error x))))
      | (None, None, out) \<Rightarrow> None)"

definition container_body ::
    "(nat \<Rightarrow> bool) \<Rightarrow> ('a, 'b, 'j, 's) container_runner \<Rightarrow> container_env \<Rightarrow> container_options \<Rightarrow> string \<Rightarrow> string \<Rightarrow> string \<Rightarrow> target
     \<Rightarrow> backup_run \<Rightarrow> ('a, 'b, 'j, 's) container_state
     \<Rightarrow> container_result res \<times> backup_run \<times> executed \<times> ('a, 'b, 'j, 's) container_state" where
  "container_body uc cr env opts server container final tgt run st =
     (let script = inspect_script container; r = ce_exec env [] tgt (''inspect-'' @ container) script;
          tr0 = [(tgt, ''inspect-'' @ container, script)]
      in case inspect_failure server container r of
           Some e \<Rightarrow> (Inl e, run, tr0, st)
         | None \<Rightarrow>
      (case ce_inspect env (snd (snd r)) of
         Inl e \<Rightarrow> (Inl (wrap (''failed to parse inspect metadata for '' @ go_quote container @ '': '') e []), run, tr0, st)
       | Inr info \<Rightarrow>
           (let ly = layout_of server container final info; scratch = ScratchDir (ly_project ly)
            in case generate_artifacts env opts tgt ly tr0 of
                 (Some e, art, tr) \<Rightarrow> (Inl e, run, cleanup_temps tgt scratch (ar_temps art) tr, st)
               | (None, art, tr) \<Rightarrow>
                   (case backup_artifacts uc cr env tgt ly art run tr st of
                      (res, run1, tr1, st1) \<Rightarrow> (res, run1, cleanup_temps tgt scratch (ar_temps art) tr1, st1)))))"

text \<open>The deferred guard: a row that still says \<open>running\<close> is closed with the error that is being returned.\<close>

definition close_running ::
    "'s recorder option \<Rightarrow> run_env \<Rightarrow> backup_run \<Rightarrow> container_result res \<Rightarrow> 's \<Rightarrow> 's" where
  "close_running repo env run res s =
     (if br_id run = 0 \<or> br_status run \<noteq> ''running'' then s
      else (case finalizeRun repo env run False (re_since env)
                   (Some (case res of Inl e \<Rightarrow> e | Inr x \<Rightarrow> errors_new ''container backup stopped before execution'')) s of
              (r, oe, s1) \<Rightarrow> s1))"

definition RunContainerBackup ::
    "(nat \<Rightarrow> bool) \<Rightarrow> ('a, 'b, 'j, 's) container_runner \<Rightarrow> container_env \<Rightarrow> container_options \<Rightarrow> ('a, 'b, 'j, 's) container_state
     \<Rightarrow> container_result res \<times> executed \<times> ('a, 'b, 'j, 's) container_state" where
  "RunContainerBackup uc cr env opts st =
     (let server = trim_space (co_server opts); container = trim_space (co_container opts); alias_name = trim_space (co_alias opts);
          final = (if alias_name = [] then container else alias_name)
      in if server = [] then (Inl (errors_new ''server name cannot be empty''), [], st)
         else if container = [] then (Inl (errors_new ''container name cannot be empty''), [], st)
         else (case (if alias_name = [] then None else validateContainerAlias uc alias_name) of
                 Some e \<Rightarrow> (Inl e, [], st)
               | None \<Rightarrow>
              (case ResolveTarget (cr_servers cr) server (cx_servers st) of
                 (Inl e, b1) \<Rightarrow> (Inl e, [], st\<lparr>cx_servers := b1\<rparr>)
               | (Inr tgt, b1) \<Rightarrow>
              (case beginRun (cr_allow_untracked cr) (cr_repo cr) (ce_run env) (blank_job final server) (cx_db st) of
                 (Inl e, s1) \<Rightarrow> (Inl e, [], st\<lparr>cx_servers := b1, cx_db := s1\<rparr>)
               | (Inr run, s1) \<Rightarrow>
                   (case container_body uc cr env opts server container final tgt run (st\<lparr>cx_servers := b1, cx_db := s1\<rparr>) of
                      (res, run1, tr, st1) \<Rightarrow>
                        (res, tr, st1\<lparr>cx_db := close_running (cr_repo cr) (ce_run env) run1 res (cx_db st1)\<rparr>))))))"

section \<open>Lemmas on base64\<close>

text \<open>What \<open>base64 -d\<close> makes of well-formed text.\<close>

definition b64_value :: "char \<Rightarrow> nat" where
  "b64_value c = length (takeWhile (\<lambda>x. x \<noteq> c) b64_alphabet)"

fun b64_decode :: "string \<Rightarrow> string" where
  "b64_decode (w # x # y # z # r) =
     (if y = CHR ''='' then [char_of (b64_value w * 4 + b64_value x div 16)]
      else if z = CHR ''='' then [char_of (b64_value w * 4 + b64_value x div 16), char_of (b64_value x mod 16 * 16 + b64_value y div 4)]
      else char_of (b64_value w * 4 + b64_value x div 16) # char_of (b64_value x mod 16 * 16 + b64_value y div 4)
           # char_of (b64_value y mod 4 * 64 + b64_value z) # b64_decode r)"
| "b64_decode _ = []"

lemma b64_alphabet_distinct: "distinct b64_alphabet" "length b64_alphabet = 64" "CHR ''='' \<notin> set b64_alphabet"
  unfolding b64_alphabet_def by code_simp+

lemma takeWhile_nth: "distinct xs \<Longrightarrow> n < length xs \<Longrightarrow> length (takeWhile (\<lambda>x. x \<noteq> xs ! n) xs) = n"
proof (induction xs arbitrary: n)
  case (Cons y ys)
  then show ?case by (cases n) (auto simp: nth_mem)
qed simp

lemma b64_value_digit [simp]: "n < 64 \<Longrightarrow> b64_value (b64_digit n) = n"
  unfolding b64_value_def b64_digit_def using b64_alphabet_distinct by (simp add: takeWhile_nth)

lemma b64_digit_pad [simp]: "n < 64 \<Longrightarrow> b64_digit n \<noteq> CHR ''=''"
  unfolding b64_digit_def using b64_alphabet_distinct(2,3) nth_mem by metis

lemma code_of_bound: "code_of c < 256"
  by (simp add: code_of_def)

lemma sextets:
  fixes a b c :: nat
  assumes "a < 256" "b < 256" "c < 256"
  shows "a div 4 < 64" "a mod 4 * 16 < 64" "a mod 4 * 16 + b div 16 < 64" "b mod 16 * 4 < 64" "b mod 16 * 4 + c div 64 < 64"
    "a div 4 * 4 + (a mod 4 * 16 + b div 16) div 16 = a" "a div 4 * 4 + a mod 4 * 16 div 16 = a"
    "(a mod 4 * 16 + b div 16) mod 16 * 16 + (b mod 16 * 4 + c div 64) div 4 = b"
    "(a mod 4 * 16 + b div 16) mod 16 * 16 + b mod 16 * 4 div 4 = b"
    "(b mod 16 * 4 + c div 64) mod 4 * 64 + c mod 64 = c"
proof -
  have d: "b div 16 < 16" "c div 64 < 4" "a mod 4 < 4" "b mod 16 < 16" using assms by auto
  show "a div 4 < 64" "a mod 4 * 16 < 64" "b mod 16 * 4 < 64" using assms by linarith+
  show "a mod 4 * 16 + b div 16 < 64" "b mod 16 * 4 + c div 64 < 64" using d by linarith+
  have q: "(a mod 4 * 16 + b div 16) div 16 = a mod 4" "(a mod 4 * 16 + b div 16) mod 16 = b div 16"
    "(b mod 16 * 4 + c div 64) div 4 = b mod 16" "(b mod 16 * 4 + c div 64) mod 4 = c div 64"
    using d by (simp_all add: div_add1_eq mod_add_eq)
  show "a div 4 * 4 + (a mod 4 * 16 + b div 16) div 16 = a" "a div 4 * 4 + a mod 4 * 16 div 16 = a"
    "(a mod 4 * 16 + b div 16) mod 16 * 16 + (b mod 16 * 4 + c div 64) div 4 = b"
    "(a mod 4 * 16 + b div 16) mod 16 * 16 + b mod 16 * 4 div 4 = b"
    "(b mod 16 * 4 + c div 64) mod 4 * 64 + c mod 64 = c"
    unfolding q by simp_all
qed

lemma base64_decodes: "b64_decode (base64 s) = s"
proof (induction s rule: base64.induct)
  case (2 a)
  show ?case using sextets[of "code_of a" 0 0] code_of_bound[of a] by (simp add: code_of_def)
next
  case (3 a b)
  show ?case using sextets[of "code_of a" "code_of b" 0] code_of_bound[of a] code_of_bound[of b] by (simp add: code_of_def)
next
  case (4 a b c cs)
  show ?case
    using sextets[of "code_of a" "code_of b" "code_of c"] code_of_bound[of a] code_of_bound[of b] code_of_bound[of c] 4
    by (simp add: code_of_def)
qed simp

section \<open>Lemmas on the artifacts\<close>

definition export_step :: "target \<Rightarrow> layout \<Rightarrow> volume_mount \<Rightarrow> target \<times> string \<times> string" where
  "export_step tgt ly m = (tgt, export_task m, BuildVolumeExportScript (volume_of m) (archive_full ly m))"

definition exported :: "layout \<Rightarrow> volume_mount list \<Rightarrow> volume_mount list" where
  "exported ly ms = filter (\<lambda>m. is_volume m \<and> \<not> skipped_volume ly m) ms"

definition outside_bind :: "layout \<Rightarrow> volume_mount \<Rightarrow> bool" where
  "outside_bind ly m \<longleftrightarrow> \<not> is_volume m \<and> vm_type m = ''bind'' \<and> \<not> is_system_mount (vm_source m)
     \<and> \<not> has_path_prefix (vm_source m) (ly_project ly)"

lemma add_sel [simp]:
  "ar_temps (add_bind ly m art) = ar_temps art" "ar_volumes (add_bind ly m art) = ar_volumes art"
  "ar_temps (add_volume m art) = ar_temps art" "ar_paths (add_volume m art) = ar_paths art"
  "ar_volumes (add_volume m art) = ar_volumes art @ [\<lparr>mv_name = volume_of m, mv_archive = archive_rel m, mv_target = vm_dest m\<rparr>]"
  by (simp_all add: add_bind_def add_volume_def)

lemma archive_mounts_done:
  assumes "archive_mounts exec tgt ly ms art tr = (None, art', tr')"
  shows "ar_volumes art' = ar_volumes art
        @ map (\<lambda>m. \<lparr>mv_name = volume_of m, mv_archive = archive_rel m, mv_target = vm_dest m\<rparr>) (exported ly ms)
    \<and> ar_temps art' = ar_temps art @ map (archive_full ly) (exported ly ms)
    \<and> ar_paths art' = ar_paths art @ map vm_source (filter (outside_bind ly) ms)
    \<and> tr' = tr @ map (export_step tgt ly) (exported ly ms)"
  using assms
proof (induction exec tgt ly ms art tr rule: archive_mounts.induct)
  case (2 exec tgt ly m ms art tr)
  consider "is_volume m" "skipped_volume ly m" | "is_volume m" "\<not> skipped_volume ly m"
    | "\<not> is_volume m" "vm_type m = ''bind''" | "\<not> is_volume m" "vm_type m \<noteq> ''bind''" by blast
  then show ?case
  proof cases
    case 1 then show ?thesis using 2 by (simp add: exported_def outside_bind_def)
  next
    case v: 2
    then show ?thesis using 2 by (auto simp: exported_def outside_bind_def export_step_def Let_def split: if_splits)
  next
    case 3 then show ?thesis using 2 by (simp add: exported_def outside_bind_def add_bind_def)
  next
    case 4 then show ?thesis using 2 by (simp add: exported_def outside_bind_def)
  qed
qed (simp add: exported_def)

text \<open>Also when an export fails: the trace grows by exports, and only archives are registered for removal.\<close>

lemma archive_mounts_grows:
  assumes "archive_mounts exec tgt ly ms art tr = (e, art', tr')"
  shows "\<exists>vs ws. set vs \<subseteq> set (exported ly ms) \<and> set ws \<subseteq> set (exported ly ms) \<and> tr' = tr @ map (export_step tgt ly) vs
    \<and> ar_temps art' = ar_temps art @ map (archive_full ly) ws"
  using assms
proof (induction exec tgt ly ms art tr rule: archive_mounts.induct)
  case (1 exec tgt ly art tr)
  then show ?case by (intro exI[of _ "[]"]) simp
next
  case (2 exec tgt ly m ms art tr)
  consider "is_volume m" "skipped_volume ly m" | "is_volume m" "\<not> skipped_volume ly m"
    | "\<not> is_volume m" "vm_type m = ''bind''" | "\<not> is_volume m" "vm_type m \<noteq> ''bind''" by blast
  then show ?case
  proof cases
    case 1 then show ?thesis using 2 by (simp add: exported_def)
  next
    case v: 2
    define tr1 where "tr1 = tr @ [export_step tgt ly m]"
    have x: "exported ly (m # ms) = m # exported ly ms" using v by (simp add: exported_def)
    show ?thesis
    proof (cases "script_failed (exec tr tgt (export_task m) (BuildVolumeExportScript (volume_of m) (archive_full ly m)))")
      case True
      then have "tr' = tr @ map (export_step tgt ly) [m]" "ar_temps art' = ar_temps art"
        using 2(5) v by (auto simp: Let_def export_step_def)
      then show ?thesis unfolding x by (intro exI[of _ "[m]"] exI[of _ "[]"]) simp
    next
      case False
      define art1 where "art1 = (add_volume m art)\<lparr>ar_temps := ar_temps art @ [archive_full ly m]\<rparr>"
      have r: "archive_mounts exec tgt ly ms art1 tr1 = (e, art', tr')"
        using 2(5) v False by (simp add: Let_def export_step_def tr1_def art1_def)
      obtain vs ws where vs: "set vs \<subseteq> set (exported ly ms)" "set ws \<subseteq> set (exported ly ms)" "tr' = tr1 @ map (export_step tgt ly) vs"
        "ar_temps art' = ar_temps art1 @ map (archive_full ly) ws"
        using 2(2)[OF v refl refl refl refl False] r by (auto simp: tr1_def art1_def export_step_def)
      then have "tr' = tr @ map (export_step tgt ly) (m # vs)" "ar_temps art' = ar_temps art @ map (archive_full ly) (m # ws)"
        by (simp_all add: tr1_def art1_def)
      then show ?thesis unfolding x using vs(1,2) by (intro exI[of _ "m # vs"] exI[of _ "m # ws"]) auto
    qed
  next
    case 3 then show ?thesis using 2 by (simp add: exported_def)
  next
    case 4 then show ?thesis using 2 by (simp add: exported_def)
  qed
qed

text \<open>Generated scripts: none is a removal except that of stale artifacts.\<close>

definition generated :: "target \<Rightarrow> layout \<Rightarrow> target \<times> string \<times> string \<Rightarrow> bool" where
  "generated tgt ly x \<longleftrightarrow>
     (case x of (t, task, script) \<Rightarrow>
        t = tgt \<and> task \<noteq> ''cleanup-temp'' \<and> (task = ''clean-stale-dumps'' \<longrightarrow> script = stale_script (ly_project ly)))"

lemma generated_export: "generated tgt ly (export_step tgt ly m)"
  by (simp add: generated_def export_step_def export_task_def)

lemma dump_database_cases:
  assumes "dump_database exec tgt ly art tr = (e, art1, tr1)"
  shows "(\<exists>suf. tr1 = tr @ suf \<and> (\<forall>x\<in>set suf. generated tgt ly x)
      \<and> (e = None \<longrightarrow> IsDatabase (ly_info ly) \<longrightarrow> (\<exists>script. BuildDumpScript (DatabaseEngine (ly_info ly)) (ly_container ly) (dump_full ly) = Inr script
            \<and> suf = [(tgt, ''dump-'' @ ly_final ly, script)])))
    \<and> art1 = (if IsDatabase (ly_info ly) then art\<lparr>ar_temps := ar_temps art @ [dump_full ly]\<rparr> else art)"
proof (cases "IsDatabase (ly_info ly)")
  case db: True
  show ?thesis
  proof (cases "BuildDumpScript (DatabaseEngine (ly_info ly)) (ly_container ly) (dump_full ly)")
    case (Inl x)
    then show ?thesis using assms db by (auto simp: dump_database_def Let_def)
  next
    case (Inr script)
    then have "tr1 = tr @ [(tgt, ''dump-'' @ ly_final ly, script)]" "art1 = art\<lparr>ar_temps := ar_temps art @ [dump_full ly]\<rparr>"
      using assms db by (auto simp: dump_database_def Let_def split: if_splits)
    then show ?thesis using db Inr by (auto simp: generated_def)
  qed
qed (use assms in \<open>auto simp: dump_database_def\<close>)

lemma write_compose_cases:
  assumes "write_compose sy exec tgt ly al tr = (e, tr1)"
  shows "\<exists>suf. tr1 = tr @ suf \<and> (\<forall>x\<in>set suf. generated tgt ly x)"
  using assms by (auto simp: write_compose_def generated_def Let_def split: if_splits sum.splits)

lemma write_manifest_cases:
  assumes "write_manifest sy exec tgt ly art tr = (e, tr1)"
  shows "\<exists>suf. tr1 = tr @ suf \<and> (\<forall>x\<in>set suf. generated tgt ly x)
     \<and> (e = None \<longrightarrow> (\<exists>y. MarshalManifest sy (manifest_of ly art) = Inr y
          \<and> suf = [(tgt, ''write-manifest-'' @ ly_final ly, line (write_script (ScratchDir (ly_project ly)) y (ManifestPath (ly_project ly))))]))"
  using assms by (auto simp: write_manifest_def generated_def Let_def split: if_splits sum.splits)

lemma generate_artifacts_any:
  assumes "generate_artifacts env opts tgt ly tr0 = (e, art, tr)"
  shows "(\<exists>suf. tr = tr0 @ suf \<and> (\<forall>x\<in>set suf. generated tgt ly x) \<and> (suf \<noteq> [] \<longrightarrow> confirm_sensitive opts ly = None))
     \<and> (ar_temps art \<noteq> [] \<longrightarrow> confirm_sensitive opts ly = None)"
proof (cases "confirm_sensitive opts ly")
  case (Some x)
  then show ?thesis using assms by (auto simp: generate_artifacts_def no_artifacts_def)
next
  case None
  define tr1 where "tr1 = tr0 @ [(tgt, ''clean-stale-dumps'', stale_script (ly_project ly))]"
  obtain e2 art2 tr2 where m: "archive_mounts (ce_exec env) tgt ly (ci_mounts (ly_info ly)) no_artifacts tr1 = (e2, art2, tr2)"
    by (metis prod_cases3)
  obtain vs where "tr2 = tr1 @ map (export_step tgt ly) vs" using archive_mounts_grows[OF m] by blast
  then have g2: "\<exists>suf. tr2 = tr0 @ suf \<and> (\<forall>x\<in>set suf. generated tgt ly x)"
    using generated_export by (auto simp: tr1_def generated_def[of tgt ly "(tgt, _, _)"])
  obtain e3 art3 tr3 where d: "dump_database (ce_exec env) tgt ly art2 tr2 = (e3, art3, tr3)" by (metis prod_cases3)
  have g3: "\<exists>suf. tr3 = tr0 @ suf \<and> (\<forall>x\<in>set suf. generated tgt ly x)"
    using dump_database_cases[OF d] g2 by fastforce
  obtain e4 tr4 where w: "write_compose (ce_compose env) (ce_exec env) tgt ly (co_alias opts) tr3 = (e4, tr4)" by fastforce
  have g4: "\<exists>suf. tr4 = tr0 @ suf \<and> (\<forall>x\<in>set suf. generated tgt ly x)"
    using write_compose_cases[OF w] g3 by fastforce
  obtain e5 tr5 where wm: "write_manifest (ce_manifest env) (ce_exec env) tgt ly art3 tr4 = (e5, tr5)" by fastforce
  have g5: "\<exists>suf. tr5 = tr0 @ suf \<and> (\<forall>x\<in>set suf. generated tgt ly x)"
    using write_manifest_cases[OF wm] g4 by fastforce
  have "tr = tr2 \<or> tr = tr3 \<or> tr = tr4 \<or> tr = tr5"
    using assms None m d w wm by (auto simp: generate_artifacts_def tr1_def split: option.splits)
  then show ?thesis using None g2 g3 g4 g5 by blast
qed

lemma generate_artifacts_done:
  assumes "generate_artifacts env opts tgt ly tr0 = (None, art, tr)"
  shows "ar_temps art = map (archive_full ly) (exported ly (ci_mounts (ly_info ly))) @ (if IsDatabase (ly_info ly) then [dump_full ly] else [])
    \<and> ar_paths art = map vm_source (filter (outside_bind ly) (ci_mounts (ly_info ly)))
    \<and> ar_volumes art = map (\<lambda>m. \<lparr>mv_name = volume_of m, mv_archive = archive_rel m, mv_target = vm_dest m\<rparr>) (exported ly (ci_mounts (ly_info ly)))
    \<and> export_step tgt ly ` set (exported ly (ci_mounts (ly_info ly))) \<subseteq> set tr
    \<and> (IsDatabase (ly_info ly) \<longrightarrow> (\<exists>script. BuildDumpScript (DatabaseEngine (ly_info ly)) (ly_container ly) (dump_full ly) = Inr script
          \<and> (tgt, ''dump-'' @ ly_final ly, script) \<in> set tr))
    \<and> (\<exists>y. MarshalManifest (ce_manifest env) (manifest_of ly art) = Inr y
          \<and> (tgt, ''write-manifest-'' @ ly_final ly, line (write_script (ScratchDir (ly_project ly)) y (ManifestPath (ly_project ly)))) \<in> set tr)"
proof -
  have c: "confirm_sensitive opts ly = None" using assms by (auto simp: generate_artifacts_def split: option.splits)
  define tr1 where "tr1 = tr0 @ [(tgt, ''clean-stale-dumps'', stale_script (ly_project ly))]"
  obtain e2 art2 tr2 where m: "archive_mounts (ce_exec env) tgt ly (ci_mounts (ly_info ly)) no_artifacts tr1 = (e2, art2, tr2)"
    by (metis prod_cases3)
  then have e2: "e2 = None" using assms c by (auto simp: generate_artifacts_def tr1_def split: option.splits)
  obtain e3 art3 tr3 where d: "dump_database (ce_exec env) tgt ly art2 tr2 = (e3, art3, tr3)" by (metis prod_cases3)
  then have e3: "e3 = None" using assms c m e2 by (auto simp: generate_artifacts_def tr1_def split: option.splits)
  obtain e4 tr4 where w: "write_compose (ce_compose env) (ce_exec env) tgt ly (co_alias opts) tr3 = (e4, tr4)" by fastforce
  then have e4: "e4 = None" using assms c m d e2 e3 by (auto simp: generate_artifacts_def tr1_def split: option.splits)
  have wm: "write_manifest (ce_manifest env) (ce_exec env) tgt ly art3 tr4 = (None, tr)" and a: "art = art3"
    using assms c m d w e2 e3 e4 by (auto simp: generate_artifacts_def tr1_def split: prod.splits)
  note mounts = archive_mounts_done[OF m[unfolded e2]]
  note dump = dump_database_cases[OF d[unfolded e3]]
  obtain s4 where s4: "tr4 = tr3 @ s4" using write_compose_cases[OF w] by blast
  obtain s5 where s5: "tr = tr4 @ s5" "\<exists>y. MarshalManifest (ce_manifest env) (manifest_of ly art3) = Inr y
          \<and> s5 = [(tgt, ''write-manifest-'' @ ly_final ly, line (write_script (ScratchDir (ly_project ly)) y (ManifestPath (ly_project ly))))]"
    using write_manifest_cases[OF wm] by blast
  obtain s3 where s3: "tr3 = tr2 @ s3" "IsDatabase (ly_info ly) \<longrightarrow> (\<exists>script. BuildDumpScript (DatabaseEngine (ly_info ly)) (ly_container ly) (dump_full ly) = Inr script
            \<and> s3 = [(tgt, ''dump-'' @ ly_final ly, script)])"
    using dump by blast
  have art3: "art3 = (if IsDatabase (ly_info ly) then art2\<lparr>ar_temps := ar_temps art2 @ [dump_full ly]\<rparr> else art2)" using dump by blast
  have "export_step tgt ly ` set (exported ly (ci_mounts (ly_info ly))) \<subseteq> set tr"
    using mounts s3(1) s4 s5(1) by auto
  moreover have "\<exists>script. BuildDumpScript (DatabaseEngine (ly_info ly)) (ly_container ly) (dump_full ly) = Inr script
          \<and> (tgt, ''dump-'' @ ly_final ly, script) \<in> set tr" if "IsDatabase (ly_info ly)"
    using that s3 s4 s5(1) by fastforce
  moreover have "\<exists>y. MarshalManifest (ce_manifest env) (manifest_of ly art) = Inr y
          \<and> (tgt, ''write-manifest-'' @ ly_final ly, line (write_script (ScratchDir (ly_project ly)) y (ManifestPath (ly_project ly)))) \<in> set tr"
    using s5 a by fastforce
  ultimately show ?thesis using mounts art3 a by (simp add: no_artifacts_def)
qed

section \<open>Lemmas on the run\<close>

definition inspected :: "container_env \<Rightarrow> string \<Rightarrow> target \<Rightarrow> container_info res" where
  "inspected env container t = ce_inspect env (snd (snd (ce_exec env [] t (''inspect-'' @ container) (inspect_script container))))"

definition final_name :: "container_options \<Rightarrow> string" where
  "final_name opts = (if trim_space (co_alias opts) = [] then trim_space (co_container opts) else trim_space (co_alias opts))"

lemma run_container_parts:
  assumes "RunContainerBackup uc cr env opts st = (res, tr, st')"
  obtains (refused) e where "res = Inl e" "tr = []"
      "cx_db st' = cx_db st \<or> beginRun (cr_allow_untracked cr) (cr_repo cr) (ce_run env) (blank_job (final_name opts) (trim_space (co_server opts))) (cx_db st) = (Inl e, cx_db st')"
  | (ran) t b1 run s1 run1 st1 where
      "beginRun (cr_allow_untracked cr) (cr_repo cr) (ce_run env) (blank_job (final_name opts) (trim_space (co_server opts))) (cx_db st) = (Inr run, s1)"
      "container_body uc cr env opts (trim_space (co_server opts)) (trim_space (co_container opts)) (final_name opts) t run
         (st\<lparr>cx_servers := b1, cx_db := s1\<rparr>) = (res, run1, tr, st1)"
      "cx_db st' = close_running (cr_repo cr) (ce_run env) run1 res (cx_db st1)"
  using assms unfolding RunContainerBackup_def Let_def final_name_def[symmetric]
  by (auto split: if_splits option.splits sum.splits prod.splits)

lemma persist_db [simp]: "cx_db (persist cr ly j st) = cx_db st"
  by (simp add: persist_def Let_def split: option.splits)

lemma backup_artifacts_cases:
  assumes "backup_artifacts uc cr env tgt ly art run tr st = (res, run1, tr1, st1)"
  shows "(run1 = run \<and> cx_db st1 = cx_db st \<and> tr1 = tr \<and> (\<exists>e. res = Inl e))
    \<or> (\<exists>j oe ex. executeRun uc (ce_summary env) (cr_repo cr) (run_env_at env tr) j tgt run (cx_db st) = (run1, oe, ex, cx_db st1)
         \<and> tr1 = tr @ ex \<and> j_paths j = dedup_paths (ar_paths art @ [ly_project ly]) \<and> j_name j = ly_final ly
         \<and> (\<forall>x. res = Inr x \<longrightarrow> oe = None \<and> cb_run x = run1 \<and> cb_paths x = j_paths j) \<and> (\<forall>e. res = Inl e \<longrightarrow> oe = Some e))"
proof -
  obtain backend benv js where b: "resolveInheritedBackend (cr_jobs cr) env (ly_final ly) (cx_jobs st) = ((backend, benv), js)"
    by (metis surj_pair)
  define j where "j = container_job ly (dedup_paths (ar_paths art @ [ly_project ly])) backend benv"
  have jp: "j_paths j = dedup_paths (ar_paths art @ [ly_project ly])" "j_name j = ly_final ly"
    by (simp_all add: j_def container_job_def blank_job_def)
  show ?thesis
  proof (cases "backend = []")
    case True
    then show ?thesis using assms b by (auto simp: backup_artifacts_def Let_def)
  next
    case False
    obtain r oe ex s1 where e: "executeRun uc (ce_summary env) (cr_repo cr) (run_env_at env tr) j tgt run (cx_db st) = (r, oe, ex, s1)"
      by (metis prod_cases4)
    have "run1 = r \<and> cx_db st1 = s1 \<and> tr1 = tr @ ex \<and> (\<forall>x. res = Inr x \<longrightarrow> oe = None \<and> cb_run x = run1 \<and> cb_paths x = j_paths j) \<and> (\<forall>e. res = Inl e \<longrightarrow> oe = Some e)"
    proof (cases oe)
      case None
      then show ?thesis using assms b False e[unfolded j_def] jp(1) by (auto simp: backup_artifacts_def Let_def)
    next
      case (Some x)
      then show ?thesis using assms b False e[unfolded j_def] by (auto simp: backup_artifacts_def Let_def)
    qed
    then show ?thesis using e jp by blast
  qed
qed

text \<open>How the body ends: before the artifacts, with them incomplete, or after the backup.\<close>

lemma container_body_cases:
  assumes "container_body uc cr env opts server container final tgt run st = (res, run1, tr, st1)"
  obtains (early) e where "res = Inl e" "run1 = run" "cx_db st1 = cx_db st" "tr = [(tgt, ''inspect-'' @ container, inspect_script container)]"
  | (incomplete) info art e tr' where "inspected env container tgt = Inr info"
      "generate_artifacts env opts tgt (layout_of server container final info) [(tgt, ''inspect-'' @ container, inspect_script container)] = (Some e, art, tr')"
      "res = Inl e" "run1 = run" "cx_db st1 = cx_db st"
      "tr = cleanup_temps tgt (ScratchDir (project_of info final)) (ar_temps art) tr'"
  | (complete) info art tr' tr'' where "inspected env container tgt = Inr info"
      "generate_artifacts env opts tgt (layout_of server container final info) [(tgt, ''inspect-'' @ container, inspect_script container)] = (None, art, tr')"
      "backup_artifacts uc cr env tgt (layout_of server container final info) art run tr' st = (res, run1, tr'', st1)"
      "tr = cleanup_temps tgt (ScratchDir (project_of info final)) (ar_temps art) tr''"
proof -
  let ?t0 = "[(tgt, ''inspect-'' @ container, inspect_script container)]"
  let ?r = "ce_exec env [] tgt (''inspect-'' @ container) (inspect_script container)"
  have i: "inspected env container tgt = ce_inspect env (snd (snd ?r))" by (simp add: inspected_def)
  show ?thesis
  proof (cases "inspect_failure server container ?r")
    case (Some e)
    then show ?thesis using assms early[of e] by (auto simp: container_body_def Let_def)
  next
    case ok: None
    show ?thesis
    proof (cases "ce_inspect env (snd (snd ?r))")
      case (Inl e)
      then show ?thesis using assms early ok by (auto simp: container_body_def Let_def)
    next
      case (Inr info)
      define ly where "ly = layout_of server container final info"
      have pr: "ly_project ly = project_of info final" by (simp add: ly_def layout_of_def)
      obtain e art tr' where g: "generate_artifacts env opts tgt ly ?t0 = (e, art, tr')" by (metis prod_cases3)
      show ?thesis
      proof (cases e)
        case None
        obtain r2 run2 tr2 st2 where b: "backup_artifacts uc cr env tgt ly art run tr' st = (r2, run2, tr2, st2)" by (metis prod_cases4)
        then have "res = r2" "run1 = run2" "st1 = st2" "tr = cleanup_temps tgt (ScratchDir (project_of info final)) (ar_temps art) tr2"
          using assms ok Inr g[unfolded ly_def] None pr[unfolded ly_def] b[unfolded ly_def] by (auto simp: container_body_def Let_def)
        then show ?thesis using complete[of info art tr' tr2] i Inr g None b unfolding ly_def by simp
      next
        case (Some x)
        then have "res = Inl x" "run1 = run" "st1 = st" "tr = cleanup_temps tgt (ScratchDir (project_of info final)) (ar_temps art) tr'"
          using assms ok Inr g[unfolded ly_def] Some pr[unfolded ly_def] by (auto simp: container_body_def Let_def)
        then show ?thesis using incomplete[of info x art tr'] i Inr g Some unfolding ly_def by simp
      qed
    qed
  qed
qed

lemma executeRun_trace:
  assumes "executeRun uc pj repo env j tgt run s = (r, oe, ex, s1)"
  shows "\<forall>x\<in>set ex. fst x = tgt \<and> fst (snd x) = ''backup-'' @ j_name j"
  using assms by (auto simp: executeRun_def Let_def split: sum.splits prod.splits)

lemma beginRun_running:
  assumes "beginRun allow sqlite_log env j s = (Inr run, s1)"
  shows "br_status run = ''running''"
proof -
  obtain oe r s' where c: "backup_create (re_create env) (new_run env j) s = (oe, r, s')" by (metis prod_cases3)
  have "br_status r = ''running''" using backup_create_untracked(2)[OF c] by (simp add: new_run_def)
  then show ?thesis using assms c by (auto simp: beginRun_def split: option.splits if_splits)
qed

text \<open>
  An executor as \<open>internal/executor\<close> has it: it returns an error, or a result that is a success and holds no error.
\<close>

definition truthful_exec :: "(executed \<Rightarrow> target \<Rightarrow> string \<Rightarrow> string \<Rightarrow> answer) \<Rightarrow> bool" where
  "truthful_exec exec \<longleftrightarrow>
     (\<forall>tr t n s res out. exec tr t n s = (res, None, out) \<longrightarrow> (\<exists>x. res = Some x \<and> er_success x \<and> er_error x = None))"

lemma executeRun_outcome:
  assumes "executeRun uc pj repo (run_env_at env tr) j tgt run s = (r, oe, ex, s1)" "truthful_exec (ce_exec env)"
  shows "\<exists>so success duration err. finalizeRun repo (run_env_at env tr) (apply_summary so run) success duration err s = (r, oe, s1)
     \<and> (success \<longleftrightarrow> err = None)"
proof -
  let ?env = "run_env_at env tr"
  have none: "finalizeRun repo ?env (apply_summary None run) = finalizeRun repo ?env run"
    by (simp add: apply_summary_def)
  show ?thesis
  proof (cases "re_secrets ?env (j_env j)")
    case (Inl e)
    then have "finalizeRun repo ?env (apply_summary None run) False 0 (Some (wrap ''failed to resolve secrets: '' e [])) s = (r, oe, s1)"
      using assms none by (auto simp: executeRun_def split: prod.splits)
    then show ?thesis by blast
  next
    case (Inr env')
    show ?thesis
    proof (cases "BuildBackupScript uc (j\<lparr>j_env := env'\<rparr>)")
      case (Inl e)
      then have "finalizeRun repo ?env (apply_summary None run) False 0 (Some e) s = (r, oe, s1)"
        using assms Inr none by (auto simp: executeRun_def Let_def split: prod.splits)
      then show ?thesis by blast
    next
      case script: (Inr script)
      obtain res ee out where x: "re_exec ?env tgt (''backup-'' @ j_name j) script = (res, ee, out)"
        by (cases "re_exec ?env tgt (''backup-'' @ j_name j) script") auto
      have "re_exec ?env = ce_exec env tr" by (simp add: run_env_at_def)
      then have h: "ee = None \<Longrightarrow> \<exists>x. res = Some x \<and> er_success x \<and> er_error x = None"
        using assms(2) x unfolding truthful_exec_def by metis
      define success where "success = (ee = None \<and> (case res of None \<Rightarrow> False | Some x \<Rightarrow> er_success x))"
      define err where "err = (if ee \<noteq> None then ee else (case res of None \<Rightarrow> None | Some x \<Rightarrow> er_error x))"
      define duration where "duration = (case res of None \<Rightarrow> re_since ?env | Some x \<Rightarrow> er_duration x)"
      have "finalizeRun repo ?env (apply_summary (ParseResticSummary pj out) run) success duration err s = (r, oe, s1)"
        using assms Inr script x by (auto simp: executeRun_def Let_def success_def err_def duration_def split: prod.splits)
      moreover have "success \<longleftrightarrow> err = None" using h by (cases ee) (auto simp: success_def err_def)
      ultimately show ?thesis by blast
    qed
  qed
qed

text \<open>The status and the error text that the row of a run must end with, given what the caller is told.\<close>

definition row_tells :: "'a res \<Rightarrow> backup_row \<Rightarrow> bool" where
  "row_tells res w \<longleftrightarrow>
     (case res of
        Inr x \<Rightarrow> bw_status w = ''success'' \<and> from_null (bw_error w) = []
      | Inl e \<Rightarrow> bw_status w = (if is_cancellation (Some e) then ''canceled'' else ''failed'') \<and> from_null (bw_error w) = err_text e)"

lemma finalizeRun_tells:
  assumes "tracked_by s run" "\<not> br_untracked run" "success \<longleftrightarrow> err = None"
    and "finalizeRun sqlite_log env run success duration err s = (r, oe, s1)"
  shows "br_status r \<noteq> ''running''" "others_kept s (br_id run) s1"
    and "\<exists>w. table_lookup bw_id s1 (br_id run) = Some w \<and> bw_job w = br_job run \<and> bw_server w = br_server run
      \<and> (if db_exec (re_final env) = None
         then row_tells (case oe of None \<Rightarrow> Inr x | Some e \<Rightarrow> Inl e) w \<and> oe = err \<and> br_id r = br_id run \<and> backup_reads r w
         else oe \<noteq> None)"
proof -
  have pos: "0 < br_id run" and wf: "table_wf bw_id s" using assms(1,2) by (auto simp: tracked_by_def)
  obtain w0 where w0: "table_lookup bw_id s (br_id run) = Some w0" "backup_same run w0"
    using assms(1) pos by (auto simp: tracked_by_def)
  have job: "bw_job w0 = br_job run" "bw_server w0 = br_server run" using w0(2) by (simp_all add: backup_same_def)
  have st: "br_status r = final_status success err" "br_error r = final_message success err (br_error run)"
    "br_job r = br_job run" "br_server r = br_server run"
    using assms(2,4) pos by (auto simp: finalizeRun_def record_outcome_def Let_def split: prod.splits option.splits)
  then show "br_status r \<noteq> ''running''" by (auto simp: final_status_def)
  have "others_kept s (br_id run) s1 \<and> (\<exists>w. table_lookup bw_id s1 (br_id run) = Some w \<and> bw_job w = br_job run \<and> bw_server w = br_server run
      \<and> (if db_exec (re_final env) = None
         then row_tells (case oe of None \<Rightarrow> Inr x | Some e \<Rightarrow> Inl e) w \<and> oe = err \<and> br_id r = br_id run \<and> backup_reads r w
         else oe \<noteq> None))"
  proof (cases "db_exec (re_final env)")
    case None
    have fin: "\<not> db_exec (re_final env) \<noteq> None" using None by simp
    have f: "oe = err" "\<not> br_untracked r" "br_id r = br_id run"
      using assms(2,4) pos None by (auto simp: finalizeRun_def record_outcome_def backup_update_def Let_def split: if_splits)
    note k = finalizeRun_ok[OF assms(1,4)]
    obtain w where w: "table_lookup bw_id s1 (br_id r) = Some w" "backup_reads r w" using k f by auto
    note sel = backup_reads_sel[OF w(2)]
    have "row_tells (case oe of None \<Rightarrow> Inr x | Some e \<Rightarrow> Inl e) w"
      using sel(4,7) st(1,2) f(1) assms(3) by (cases err) (auto simp: row_tells_def final_status_def final_message_def)
    moreover have "others_kept s (br_id run) s1" using k f assms(2) by simp
    ultimately show ?thesis using None w sel(2,3) st(3,4) f by auto
  next
    case (Some x)
    then have "s1 = s" "oe \<noteq> None"
      using assms(2,4) pos by (auto simp: finalizeRun_def record_outcome_def backup_update_def Let_def split: if_splits)
    then show ?thesis using Some w0(1) job by (simp add: others_kept_def)
  qed
  then show "others_kept s (br_id run) s1"
    "\<exists>w. table_lookup bw_id s1 (br_id run) = Some w \<and> bw_job w = br_job run \<and> bw_server w = br_server run
      \<and> (if db_exec (re_final env) = None
         then row_tells (case oe of None \<Rightarrow> Inr x | Some e \<Rightarrow> Inl e) w \<and> oe = err \<and> br_id r = br_id run \<and> backup_reads r w
         else oe \<noteq> None)" by blast+
qed

lemma close_running_tells:
  assumes "tracked_by s run" "\<not> br_untracked run" "br_status run = ''running''" "res = Inl e"
  shows "others_kept s (br_id run) (close_running sqlite_log env run res s)
    \<and> (\<exists>w. table_lookup bw_id (close_running sqlite_log env run res s) (br_id run) = Some w \<and> bw_job w = br_job run \<and> bw_server w = br_server run
         \<and> (db_exec (re_final env) = None \<longrightarrow> row_tells res w))"
proof -
  obtain r oe s1 where f: "finalizeRun sqlite_log env run False (re_since env) (Some e) s = (r, oe, s1)" by (metis prod_cases3)
  have "br_id run \<noteq> 0" using assms(1,2) by (auto simp: tracked_by_def)
  then have c: "close_running sqlite_log env run res s = s1" using f assms(3,4) by (simp add: close_running_def)
  have iff: "False \<longleftrightarrow> Some e = None" by simp
  note t = finalizeRun_tells(2,3)[OF assms(1,2) iff f]
  obtain w where w: "table_lookup bw_id s1 (br_id run) = Some w" "bw_job w = br_job run" "bw_server w = br_server run"
    "if db_exec (re_final env) = None
         then row_tells (case oe of None \<Rightarrow> Inr () | Some e \<Rightarrow> Inl e) w \<and> oe = Some e \<and> br_id r = br_id run \<and> backup_reads r w
         else oe \<noteq> None" using t(2)[of "()"] by (elim exE conjE)
  have "row_tells res w" if "db_exec (re_final env) = None"
  proof -
    have o: "oe = Some e" and q: "row_tells (case oe of None \<Rightarrow> Inr () | Some e \<Rightarrow> Inl e) w" using w(4)[unfolded if_P[OF that]] by blast+
    have "row_tells (Inl e :: unit res) w" using q unfolding o by simp
    then show ?thesis unfolding row_tells_def assms(4) sum.case .
  qed
  then have "table_lookup bw_id s1 (br_id run) = Some w \<and> bw_job w = br_job run \<and> bw_server w = br_server run
      \<and> (db_exec (re_final env) = None \<longrightarrow> row_tells res w)" using w(1-3) by iprover
  then show ?thesis unfolding c by (intro conjI[OF t(1)] exI)
qed

lemma beginRun_refused:
  assumes "table_wf bw_id s" "beginRun allow sqlite_log env j s = (Inl e, s1)" "table_lookup bw_id s i = Some w"
  shows "table_lookup bw_id s1 i = Some w"
proof -
  obtain e' r where c: "backup_create (re_create env) (new_run env j) s = (Some e', r, s1)"
    using assms(2) by (auto simp: beginRun_def split: prod.splits option.splits if_splits)
  show ?thesis using backup_log.create_fails[OF assms(1) c] assms(3) by simp
qed

text \<open>How a run that was begun ends: stopped by an error that closes the row, or with the outcome of the backup script.\<close>

lemma container_ends:
  assumes "container_body uc cr env opts server container final t run st = (res, run1, tr, st1)" "truthful_exec (ce_exec env)"
  obtains (stopped) e where "tr \<noteq> []" "res = Inl e" "run1 = run" "cx_db st1 = cx_db st"
  | (executed) so success duration err oe tr' where "tr \<noteq> []"
      "finalizeRun (cr_repo cr) (run_env_at env tr') (apply_summary so run) success duration err (cx_db st) = (run1, oe, cx_db st1)"
      "success \<longleftrightarrow> err = None" "case res of Inr x \<Rightarrow> oe = None \<and> cb_run x = run1 | Inl e \<Rightarrow> oe = Some e"
  using assms(1)
proof (cases rule: container_body_cases[case_names early incomplete complete])
  case (early e)
  then show ?thesis using stopped by simp
next
  case (incomplete info art e tr')
  then have "tr \<noteq> []" using generate_artifacts_any[OF incomplete(2)] by (auto simp: cleanup_temps_def)
  then show ?thesis using incomplete stopped by simp
next
  case (complete info art tr' tr'')
  have tr': "tr' \<noteq> []" using generate_artifacts_any[OF complete(2)] by auto
  show ?thesis using backup_artifacts_cases[OF complete(3)]
  proof (elim disjE exE conjE)
    fix e assume "run1 = run" "cx_db st1 = cx_db st" "tr'' = tr'" "res = Inl e"
    then show ?thesis using stopped complete(4) tr' by (auto simp: cleanup_temps_def)
  next
    fix j oe ex
    assume x: "executeRun uc (ce_summary env) (cr_repo cr) (run_env_at env tr') j t run (cx_db st) = (run1, oe, ex, cx_db st1)"
      and tr'': "tr'' = tr' @ ex" and q: "\<forall>x. res = Inr x \<longrightarrow> oe = None \<and> cb_run x = run1 \<and> cb_paths x = j_paths j" "\<forall>e. res = Inl e \<longrightarrow> oe = Some e"
    have t: "tr \<noteq> []" using complete(4) tr' tr'' by (auto simp: cleanup_temps_def)
    have c: "case res of Inr x \<Rightarrow> oe = None \<and> cb_run x = run1 | Inl e \<Rightarrow> oe = Some e"
    proof (cases res)
      case (Inl e)
      then show ?thesis using q(2) by (metis sum.case(1))
    next
      case (Inr x)
      then show ?thesis using q(1) by (metis sum.case(2))
    qed
    obtain so success duration err where y:
      "finalizeRun (cr_repo cr) (run_env_at env tr') (apply_summary so run) success duration err (cx_db st) = (run1, oe, cx_db st1)"
      "success \<longleftrightarrow> err = None" using executeRun_outcome[OF x assms(2)] by (elim exE conjE)
    show ?thesis by (rule executed[OF t y c])
  qed
qed

section \<open>Properties\<close>

text \<open>The text that is handed to \<open>base64 -d\<close> decodes to exactly the generated file, and the script that hands it over
  holds nothing that a shell would expand.\<close>

theorem generated_file_intact:
  "b64_decode (base64 content) = content \<and> sh_inert (line (write_script dir content file_path))"
proof
  show "b64_decode (base64 content) = content" by (rule base64_decodes)
  show "sh_inert (line (write_script dir content file_path))"
    unfolding write_script_def line_def sh_inert_def by (simp add: sh_step_def)
qed


text \<open>C32. Without consent nothing happens on the host beyond the inspection: when the generated Compose file would hold
  likely credentials and no callback accepted their names, no script is run that writes, exports or removes.\<close>

theorem sensitive_env_needs_consent:
  assumes "RunContainerBackup uc cr env opts st = (res, tr, st')" "(t, task, script) \<in> set tr"
    and "script \<noteq> inspect_script (trim_space (co_container opts))"
  shows "\<exists>info. inspected env (trim_space (co_container opts)) t = Inr info
    \<and> (IsCompose info \<or> SensitiveEnvVars info = []
         \<or> (\<exists>confirm. co_confirm opts = Some confirm \<and> confirm (SensitiveEnvVars info) = None))"
  using assms(1)
proof (cases rule: run_container_parts)
  case (refused e)
  then show ?thesis using assms(2) by simp
next
  case (ran u b1 run s1 run1 st1)
  let ?ly = "layout_of (trim_space (co_server opts)) (trim_space (co_container opts)) (final_name opts)"
  have consent: ?thesis if "inspected env (trim_space (co_container opts)) u = Inr info" "confirm_sensitive opts (?ly info) = None" "u = t" for info
    using that by (auto simp: confirm_sensitive_def layout_of_def Let_def split: if_splits option.splits)
  have made: "confirm_sensitive opts (?ly info) = None \<and> u = t"
    if g: "generate_artifacts env opts u (?ly info) [(u, ''inspect-'' @ trim_space (co_container opts), inspect_script (trim_space (co_container opts)))] = (e, art, tr')"
      and mem: "(t, task, script) \<in> set (cleanup_temps u sc (ar_temps art) tr')" for info e art tr' sc
  proof -
    obtain suf where suf: "tr' = [(u, ''inspect-'' @ trim_space (co_container opts), inspect_script (trim_space (co_container opts)))] @ suf"
      "\<forall>x\<in>set suf. generated u (?ly info) x" "suf \<noteq> [] \<longrightarrow> confirm_sensitive opts (?ly info) = None"
      "ar_temps art \<noteq> [] \<longrightarrow> confirm_sensitive opts (?ly info) = None"
      using generate_artifacts_any[OF g] by blast
    consider "(t, task, script) \<in> set suf" | "cleanup_parts sc (ar_temps art) \<noteq> []" "t = u"
      using mem suf(1) assms(3) by (auto simp: cleanup_temps_def split: if_splits)
    then show ?thesis using suf by cases (auto simp: generated_def cleanup_parts_def)
  qed
  show ?thesis
  proof (cases rule: container_body_cases[OF ran(2), case_names early incomplete complete])
    case (early e)
    then show ?thesis using assms(2,3) by simp
  next
    case (incomplete info art e tr')
    then show ?thesis using made[OF incomplete(2)] consent assms(2) by blast
  next
    case (complete info art tr' tr'')
    obtain suf where suf: "tr' = [(u, ''inspect-'' @ trim_space (co_container opts), inspect_script (trim_space (co_container opts)))] @ suf"
      "suf \<noteq> [] \<longrightarrow> confirm_sensitive opts (?ly info) = None" using generate_artifacts_any[OF complete(2)] by blast
    have "suf \<noteq> []"
      using generate_artifacts_done[OF complete(2)] suf(1) by (auto simp: layout_of_def)
    then have c: "confirm_sensitive opts (?ly info) = None" using suf(2) by blast
    have "u = t"
      using backup_artifacts_cases[OF complete(3)] executeRun_trace generate_artifacts_any[OF complete(2)] assms(2) complete(4)
      by (fastforce simp: cleanup_temps_def generated_def split: if_splits)
    then show ?thesis using consent complete(1) c by blast
  qed
qed

lemma rm_words:
  assumes "fs \<noteq> []"
  shows "sh_words (''rm -rf '' @ join_with '' '' (map quote fs)) = Some (''rm'' # ''-rf'' # fs)"
proof -
  have lit: "list_all sh_literal ''rm''" "list_all sh_literal ''-rf''" by code_simp+
  have r: "reads_as ''rm'' ''rm''" "reads_as ''-rf'' ''-rf''" by (rule reads_literal, fact lit)+
  have "list_all2 reads_as (map id fs) (map quote fs)" by (simp add: list_all2_conv_all_nth reads_quote)
  then have "sh_words (join_with '' '' (''rm'' # ''-rf'' # map quote fs)) = Some (''rm'' # ''-rf'' # fs)"
    by (intro sh_words_reads) (simp add: r)
  moreover have "join_with '' '' (''rm'' # ''-rf'' # map quote fs) = ''rm -rf '' @ join_with '' '' (map quote fs)"
    using assms by (cases fs) simp_all
  ultimately show ?thesis by simp
qed

lemma scratch_elems: "is_rooted p \<Longrightarrow> ScratchDir p = abs_path (clean_elems p @ [ScratchDirName])"
  unfolding ScratchDir_def by (rule path_join_child) (simp_all add: plain_def ScratchDirName_def)

lemma scratch_plain: "\<forall>c\<in>set (clean_elems p @ [ScratchDirName]). plain c"
  using clean_elems_plain by (auto simp: plain_def ScratchDirName_def)

lemma below_scratch:
  assumes "is_rooted p" "\<forall>c\<in>set ds. plain c" "ds \<noteq> []"
  shows "has_path_prefix (path_join [ScratchDir p, join_with ''/'' ds]) (ScratchDir p)"
proof -
  have "path_join [ScratchDir p, join_with ''/'' ds] = abs_path ((clean_elems p @ [ScratchDirName]) @ ds)"
    unfolding scratch_elems[OF assms(1)] using scratch_plain assms(2,3) by (rule path_join_plain)
  moreover have "\<forall>c\<in>set ((clean_elems p @ [ScratchDirName]) @ ds). plain c" using scratch_plain assms(2) by auto
  ultimately show ?thesis using has_path_prefix_elems[OF _ scratch_plain] scratch_elems[OF assms(1)] by metis
qed

lemma stale_below_scratch:
  assumes "is_rooted p"
  shows "has_path_prefix (ScratchDumpsDir p) (ScratchDir p)" "has_path_prefix (ScratchVolumesDir p) (ScratchDir p)"
  using below_scratch[OF assms, of "[''dumps'']"] below_scratch[OF assms, of "[''volumes'']"]
  by (simp_all add: ScratchDumpsDir_def ScratchVolumesDir_def plain_def)

text \<open>The two removals of a container backup, of stale artifacts before it and of temporary files after it, delete only
  paths below the scratch directory of the project, whatever the container's mounts are called.\<close>

theorem removals_confined:
  assumes "RunContainerBackup uc cr env opts st = (res, tr, st')" "(t, task, script) \<in> set tr"
    and "task = ''clean-stale-dumps'' \<or> task = ''cleanup-temp''"
    and "\<And>info. inspected env (trim_space (co_container opts)) t = Inr info \<Longrightarrow> is_rooted (project_of info (final_name opts))"
  shows "\<exists>info fs. inspected env (trim_space (co_container opts)) t = Inr info \<and> sh_words script = Some (''rm'' # ''-rf'' # fs)
    \<and> (\<forall>f\<in>set fs. has_path_prefix f (ScratchDir (project_of info (final_name opts))))"
  using assms(1)
proof (cases rule: run_container_parts)
  case (refused e)
  then show ?thesis using assms(2) by simp
next
  case (ran u b1 run s1 run1 st1)
  let ?c = "trim_space (co_container opts)"
  let ?ly = "layout_of (trim_space (co_server opts)) ?c (final_name opts)"
  have stale: ?thesis if "inspected env ?c u = Inr info" "u = t" "script = stale_script (project_of info (final_name opts))" for info
  proof -
    let ?p = "project_of info (final_name opts)"
    have "is_rooted ?p" using assms(4) that(1,2) by simp
    moreover have "sh_words script = Some (''rm'' # ''-rf'' # [ScratchDumpsDir ?p, ScratchVolumesDir ?p])"
      unfolding that(3) stale_script_def by (rule rm_words) simp
    ultimately show ?thesis using stale_below_scratch[of ?p] that(1,2) by auto
  qed
  have cleaned: ?thesis if "inspected env ?c u = Inr info" "u = t" "cleanup_parts (ScratchDir (project_of info (final_name opts))) temps \<noteq> []"
    "script = ''rm -rf '' @ join_with '' '' (map quote (cleanup_parts (ScratchDir (project_of info (final_name opts))) temps))" for info temps
    using that rm_words[OF that(3)] by (auto simp: cleanup_parts_def)
  have gen: ?thesis if "inspected env ?c u = Inr info" "generated u (?ly info) (t, task, script)" for info
  proof -
    have "t = u" "task \<noteq> ''cleanup-temp''"
      "task = ''clean-stale-dumps'' \<longrightarrow> script = stale_script (project_of info (final_name opts))"
      using that(2) by (simp_all add: generated_def layout_of_def)
    then show ?thesis using stale[OF that(1)] assms(3) by blast
  qed
  have inspect: False if "(t, task, script) = (u, ''inspect-'' @ ?c, inspect_script ?c)" using that assms(3) by auto
  have made: ?thesis if info: "inspected env ?c u = Inr info"
    and g: "generate_artifacts env opts u (?ly info) [(u, ''inspect-'' @ ?c, inspect_script ?c)] = (e, art, tr')"
    and runs: "\<forall>x\<in>set ex. fst (snd x) = ''backup-'' @ nm"
    and mem: "(t, task, script) \<in> set (cleanup_temps u (ScratchDir (project_of info (final_name opts))) (ar_temps art) (tr' @ ex))" for info e art tr' ex nm
  proof -
    obtain suf where suf: "tr' = [(u, ''inspect-'' @ ?c, inspect_script ?c)] @ suf" "\<forall>x\<in>set suf. generated u (?ly info) x"
      using generate_artifacts_any[OF g] by blast
    have "(t, task, script) \<notin> set ex" using runs assms(3) by force
    moreover have "(t, task, script) \<in> set (tr' @ ex) \<or> (cleanup_parts (ScratchDir (project_of info (final_name opts))) (ar_temps art) \<noteq> [] \<and> u = t
        \<and> script = ''rm -rf '' @ join_with '' '' (map quote (cleanup_parts (ScratchDir (project_of info (final_name opts))) (ar_temps art))))"
      using mem unfolding cleanup_temps_def by (cases "cleanup_parts (ScratchDir (project_of info (final_name opts))) (ar_temps art) = []") (simp_all, metis)
    ultimately consider "(t, task, script) = (u, ''inspect-'' @ ?c, inspect_script ?c)" | "(t, task, script) \<in> set suf"
      | "cleanup_parts (ScratchDir (project_of info (final_name opts))) (ar_temps art) \<noteq> []" "u = t"
        "script = ''rm -rf '' @ join_with '' '' (map quote (cleanup_parts (ScratchDir (project_of info (final_name opts))) (ar_temps art)))"
      unfolding suf(1) set_append list.set Un_iff insert_iff empty_iff by blast
    then show ?thesis
    proof cases
      case 1 then show ?thesis using inspect by blast
    next
      case 2 then show ?thesis using gen[OF info] suf(2) by blast
    next
      case 3 then show ?thesis using cleaned[OF info] by blast
    qed
  qed
  show ?thesis
  proof (cases rule: container_body_cases[OF ran(2), case_names early incomplete complete])
    case (early e)
    then show ?thesis using inspect assms(2) by simp
  next
    case (incomplete info art e tr')
    then show ?thesis using made[OF incomplete(1,2), of "[]"] assms(2) by simp
  next
    case (complete info art tr' tr'')
    obtain ex nm where ex: "tr'' = tr' @ ex" "\<forall>x\<in>set ex. fst (snd x) = ''backup-'' @ nm"
      using backup_artifacts_cases[OF complete(3)] executeRun_trace by (metis append_Nil2 empty_iff empty_set)
    then show ?thesis using made[OF complete(1,2) ex(2)] assms(2) complete(4) by simp
  qed
qed

text \<open>A container backup that returns a result left nothing out and nothing behind. Each named volume that is not the
  data directory of a database was exported to an archive that the manifest names; a database was dumped; the manifest
  was written; the paths of the backup hold the project directory and the source of each bind mount outside it that is
  not a system mount; and the last script removes every archive and the dump, as long as the project directory is
  absolute and the names of the volumes and of the dump are single path elements.\<close>

theorem container_backup_complete:
  assumes "RunContainerBackup uc cr env opts st = (Inr x, tr, st')"
  shows "\<exists>t info ly y art pre. ly = layout_of (trim_space (co_server opts)) (trim_space (co_container opts)) (final_name opts) info
    \<and> inspected env (trim_space (co_container opts)) t = Inr info
    \<and> (\<forall>m\<in>set (ci_mounts info). is_volume m \<longrightarrow> \<not> skipped_volume ly m \<longrightarrow>
         export_step t ly m \<in> set tr
         \<and> \<lparr>mv_name = volume_of m, mv_archive = archive_rel m, mv_target = vm_dest m\<rparr> \<in> set (mf_volumes (manifest_of ly art)))
    \<and> (IsDatabase info \<longrightarrow> (\<exists>script. BuildDumpScript (DatabaseEngine info) (ly_container ly) (dump_full ly) = Inr script
         \<and> (t, ''dump-'' @ ly_final ly, script) \<in> set tr))
    \<and> MarshalManifest (ce_manifest env) (manifest_of ly art) = Inr y
    \<and> (t, ''write-manifest-'' @ ly_final ly, line (write_script (ScratchDir (ly_project ly)) y (ManifestPath (ly_project ly)))) \<in> set tr
    \<and> cb_paths x = dedup_paths (map vm_source (filter (outside_bind ly) (ci_mounts info)) @ [ly_project ly])
    \<and> (is_rooted (ly_project ly) \<longrightarrow> exported ly (ci_mounts info) \<noteq> [] \<or> IsDatabase info \<longrightarrow>
         (\<forall>m\<in>set (exported ly (ci_mounts info)). plain (volume_of m)) \<longrightarrow> plain (DumpFileName (ly_final ly)) \<longrightarrow>
         tr = pre @ [(t, ''cleanup-temp'', ''rm -rf '' @ join_with '' ''
           (map quote (map (archive_full ly) (exported ly (ci_mounts info)) @ (if IsDatabase info then [dump_full ly] else []))))])"
  using assms
proof (cases rule: run_container_parts)
  case (refused e)
  then show ?thesis by simp
next
  case (ran t b1 run s1 run1 st1)
  let ?c = "trim_space (co_container opts)"
  show ?thesis
  proof (cases rule: container_body_cases[OF ran(2), case_names early incomplete complete])
    case (early e)
    then show ?thesis by simp
  next
    case (incomplete info art e tr')
    then show ?thesis by simp
  next
    case (complete info art tr' tr'')
    define ly where "ly = layout_of (trim_space (co_server opts)) ?c (final_name opts) info"
    have lf: "ly_info ly = info" "ly_project ly = project_of info (final_name opts)" by (simp_all add: ly_def layout_of_def)
    note fin = generate_artifacts_done[OF complete(2), folded ly_def, unfolded lf(1)]
    obtain ex where ex: "tr'' = tr' @ ex" "cb_paths x = dedup_paths (ar_paths art @ [ly_project ly])"
      using backup_artifacts_cases[OF complete(3)[folded ly_def]] by auto
    have sub: "set tr' \<subseteq> set tr" using ex(1) complete(4) by (auto simp: cleanup_temps_def)
    obtain y where y: "MarshalManifest (ce_manifest env) (manifest_of ly art) = Inr y"
      "(t, ''write-manifest-'' @ ly_final ly, line (write_script (ScratchDir (ly_project ly)) y (ManifestPath (ly_project ly)))) \<in> set tr"
      using fin sub by blast
    have vols: "export_step t ly m \<in> set tr
         \<and> \<lparr>mv_name = volume_of m, mv_archive = archive_rel m, mv_target = vm_dest m\<rparr> \<in> set (mf_volumes (manifest_of ly art))"
      if "m \<in> set (ci_mounts info)" "is_volume m" "\<not> skipped_volume ly m" for m
    proof -
      have "m \<in> set (exported ly (ci_mounts info))" using that by (simp add: exported_def)
      then show ?thesis using fin sub by (auto simp: manifest_of_def)
    qed
    let ?temps = "map (archive_full ly) (exported ly (ci_mounts info)) @ (if IsDatabase info then [dump_full ly] else [])"
    have gone: "tr = tr'' @ [(t, ''cleanup-temp'', ''rm -rf '' @ join_with '' '' (map quote ?temps))]"
      if r: "is_rooted (ly_project ly)" "exported ly (ci_mounts info) \<noteq> [] \<or> IsDatabase info"
        "\<forall>m\<in>set (exported ly (ci_mounts info)). plain (volume_of m)" "plain (DumpFileName (ly_final ly))"
    proof -
      have "has_path_prefix (archive_full ly m) (ScratchDir (ly_project ly))" if "m \<in> set (exported ly (ci_mounts info))" for m
        using below_scratch[OF r(1), of "[''volumes'', volume_of m, ''data.tar'']"] r(3) that
        by (simp add: archive_full_def archive_rel_def plain_def)
      moreover have "has_path_prefix (dump_full ly) (ScratchDir (ly_project ly))"
        using below_scratch[OF r(1), of "[''dumps'', DumpFileName (ly_final ly)]"] r(4) by (simp add: dump_full_def dump_rel_def plain_def)
      ultimately have "cleanup_parts (ScratchDir (ly_project ly)) ?temps = ?temps"
        unfolding cleanup_parts_def by (intro filter_True) auto
      then show ?thesis using complete(4) r(2) fin lf(2) by (auto simp: cleanup_temps_def)
    qed
    have "\<exists>script. BuildDumpScript (DatabaseEngine info) (ly_container ly) (dump_full ly) = Inr script
         \<and> (t, ''dump-'' @ ly_final ly, script) \<in> set tr" if "IsDatabase info"
      using fin that sub by blast
    then show ?thesis
      using complete(1) vols y ex(2) gone fin lf unfolding ly_def[symmetric]
      by (intro exI[of _ t] exI[of _ info] exI[of _ ly] exI[of _ y] exI[of _ art] exI[of _ tr'']) (simp add: ly_def)
  qed
qed

text \<open>Two gaps. The archive of an export that fails is not registered, so what it left on the host stays there; and the
  error of a failed export or dump is flattened to text, so a canceled backup is recorded as failed.\<close>

lemma failed_export_left:
  assumes "is_volume m" "\<not> skipped_volume ly m"
    and "script_failed (exec tr tgt (export_task m) (BuildVolumeExportScript (volume_of m) (archive_full ly m)))"
  shows "\<exists>e. archive_mounts exec tgt ly [m] no_artifacts tr = (Some e, add_volume m no_artifacts, tr @ [export_step tgt ly m])
    \<and> ar_temps (add_volume m no_artifacts) = [] \<and> \<not> is_cancellation (Some e)"
  using assms
  by (auto simp: Let_def export_step_def no_artifacts_def is_cancellation_def is_opt_def go_error_simps)

section \<open>Witnesses\<close>

definition shop_info :: container_info where
  "shop_info =
     \<lparr>ci_id = ''1'', ci_name = ''web'', ci_image = ''nginx'', ci_workdir = ''/'', ci_command = [], ci_entrypoint = [],
      ci_env = [], ci_restart = [], ci_network = [], ci_privileged = False, ci_cap_add = [], ci_cap_drop = [],
      ci_healthcheck = False, ci_ports = [], ci_mounts =
        [\<lparr>vm_type = ''bind'', vm_name = [], vm_source = ''/srv/img'', vm_host_path = [], vm_dest = ''/img'', vm_read_only = False\<rparr>],
      ci_devices = [], ci_labels = [(LabelComposeProject, ''shop''), (LabelComposeWorkingDir, ''/opt/shop'')]\<rparr>"

definition shop_env :: "bool \<Rightarrow> container_env" where
  "shop_env ok =
     \<lparr>ce_run = example_env (db_fine 3),
      ce_exec = (\<lambda>tr t task s. (Some \<lparr>er_success = True, er_exit = 0, er_duration = 1, er_error = None\<rparr>, None, [])),
      ce_inspect = (\<lambda>t. Inr shop_info), ce_compose = (\<lambda>c. Inr []),
      ce_manifest = (\<lambda>m. if ok then Inr ''m'' else Inl (errors_new ''no'')), ce_summary = (\<lambda>t. None),
      ce_repository = ''/repo'', ce_password = []\<rparr>"

definition shop_runner :: "(unit, unit, unit, backup_row table) container_runner" where
  "shop_runner = \<lparr>cr_allow_untracked = False, cr_repo = sqlite_log, cr_servers = None, cr_jobs = None, cr_asset_save = None\<rparr>"

definition shop_state :: "(unit, unit, unit, backup_row table) container_state" where
  "shop_state = \<lparr>cx_assets = (), cx_servers = (), cx_jobs = (), cx_db = empty_table\<rparr>"

definition shop_options :: container_options where
  "shop_options = \<lparr>co_server = ''local'', co_container = ''web'', co_alias = [], co_confirm = None\<rparr>"

abbreviation shop_backup :: "bool \<Rightarrow> container_result res \<times> executed \<times> (unit, unit, unit, backup_row table) container_state" where
  "shop_backup ok \<equiv> RunContainerBackup (\<lambda>_. False) shop_runner (shop_env ok) shop_options shop_state"

lemma shop_facts:
  "IsCompose shop_info" "\<not> IsDatabase shop_info" "project_of shop_info ''web'' = ''/opt/shop''"
  "trim_space ''local'' = ''local''" "trim_space ''web'' = ''web''"
  "archive_mounts exec tgt (layout_of ''local'' ''web'' ''web'' shop_info) (ci_mounts shop_info) no_artifacts tr
     = (None, add_bind (layout_of ''local'' ''web'' ''web'' shop_info) (hd (ci_mounts shop_info)) no_artifacts, tr)"
  "ar_paths (add_bind (layout_of ''local'' ''web'' ''web'' shop_info) (hd (ci_mounts shop_info)) no_artifacts) = [''/srv/img'']"
proof -
  show "IsCompose shop_info" "\<not> IsDatabase shop_info" "trim_space ''local'' = ''local''" "trim_space ''web'' = ''web''"
    "project_of shop_info ''web'' = ''/opt/shop''"
    by code_simp+
  then have ly: "ly_project (layout_of ''local'' ''web'' ''web'' shop_info) = ''/opt/shop''" by (simp add: layout_of_def)
  have m: "\<not> is_volume (hd (ci_mounts shop_info))" "vm_type (hd (ci_mounts shop_info)) = ''bind''"
    "vm_source (hd (ci_mounts shop_info)) = ''/srv/img''" "\<not> is_system_mount ''/srv/img''" "\<not> has_path_prefix ''/srv/img'' ''/opt/shop''"
    by code_simp+
  have l: "ci_mounts shop_info = [hd (ci_mounts shop_info)]" by (simp add: shop_info_def)
  show "archive_mounts exec tgt (layout_of ''local'' ''web'' ''web'' shop_info) (ci_mounts shop_info) no_artifacts tr
     = (None, add_bind (layout_of ''local'' ''web'' ''web'' shop_info) (hd (ci_mounts shop_info)) no_artifacts, tr)"
    by (subst l) (simp add: m)
  show "ar_paths (add_bind (layout_of ''local'' ''web'' ''web'' shop_info) (hd (ci_mounts shop_info)) no_artifacts) = [''/srv/img'']"
    by (simp add: add_bind_def m ly no_artifacts_def)
qed

lemma shop_artifacts:
  "\<exists>tr. generate_artifacts (shop_env ok) shop_options tgt (layout_of ''local'' ''web'' ''web'' shop_info) tr0
     = (if ok then None else Some (wrap ''failed to marshal container manifest: '' (wrap ''marshal manifest: '' (errors_new ''no'') []) []),
        add_bind (layout_of ''local'' ''web'' ''web'' shop_info) (hd (ci_mounts shop_info)) no_artifacts, tr)
     \<and> (tgt, ''clean-stale-dumps'', stale_script ''/opt/shop'') \<in> set tr"
proof -
  have ly: "ly_info (layout_of ''local'' ''web'' ''web'' shop_info) = shop_info"
    "ly_project (layout_of ''local'' ''web'' ''web'' shop_info) = ''/opt/shop''" by (simp_all add: layout_of_def shop_facts)
  show ?thesis
    by (simp add: generate_artifacts_def confirm_sensitive_def ly shop_facts dump_database_def write_compose_def write_manifest_def
        MarshalManifest_def shop_env_def script_failed_def Let_def)
qed

lemma shop_begins: "\<exists>run s. beginRun False sqlite_log (example_env (db_fine 3)) j empty_table = (Inr run, s)"
  by (simp add: beginRun_def example_env_def backup_create_def db_fine_def Let_def new_run_def)

lemma shop_body_fails:
  "\<exists>e run1 tr st1. container_body (\<lambda>_. False) shop_runner (shop_env False) shop_options ''local'' ''web'' ''web'' tgt run st = (Inl e, run1, tr, st1)
     \<and> (tgt, ''clean-stale-dumps'', stale_script ''/opt/shop'') \<in> set tr"
proof -
  obtain tr where g: "generate_artifacts (shop_env False) shop_options tgt (layout_of ''local'' ''web'' ''web'' shop_info)
       [(tgt, ''inspect-'' @ ''web'', inspect_script ''web'')]
     = (Some (wrap ''failed to marshal container manifest: '' (wrap ''marshal manifest: '' (errors_new ''no'') []) []),
        add_bind (layout_of ''local'' ''web'' ''web'' shop_info) (hd (ci_mounts shop_info)) no_artifacts, tr)"
    "(tgt, ''clean-stale-dumps'', stale_script ''/opt/shop'') \<in> set tr" using shop_artifacts[of False] by fastforce
  have "ce_inspect (shop_env False) = (\<lambda>t. Inr shop_info)" "inspect_failure ''local'' ''web'' (ce_exec (shop_env False) [] tgt (''inspect-'' @ ''web'') (inspect_script ''web'')) = None"
    by (simp_all add: shop_env_def inspect_failure_def)
  then show ?thesis using g by (simp add: container_body_def Let_def cleanup_temps_def)
qed

lemma shop_backup_fails:
  "\<exists>e tr st'. shop_backup False = (Inl e, tr, st') \<and> (NewLocalTarget, ''clean-stale-dumps'', stale_script ''/opt/shop'') \<in> set tr"
proof -
  obtain run s where b: "beginRun False sqlite_log (example_env (db_fine 3)) (blank_job ''web'' ''local'') empty_table = (Inr run, s)"
    using shop_begins by blast
  obtain e run1 tr st1 where c: "container_body (\<lambda>_. False) shop_runner (shop_env False) shop_options ''local'' ''web'' ''web'' NewLocalTarget run
      (shop_state\<lparr>cx_servers := (), cx_db := s\<rparr>) = (Inl e, run1, tr, st1)"
    "(NewLocalTarget, ''clean-stale-dumps'', stale_script ''/opt/shop'') \<in> set tr" using shop_body_fails by blast
  have p: "co_server shop_options = ''local''" "co_container shop_options = ''web''" "co_alias shop_options = []"
    "cr_servers shop_runner = None" "cr_allow_untracked shop_runner = False" "cr_repo shop_runner = sqlite_log"
    "ce_run (shop_env False) = example_env (db_fine 3)" "cx_db shop_state = empty_table"
    by (simp_all add: shop_options_def shop_runner_def shop_env_def shop_state_def)
  show ?thesis using b c by (simp add: RunContainerBackup_def p shop_facts ResolveTarget_def Let_def)
qed

lemma shop_truthful: "truthful_exec (ce_exec (shop_env ok))"
  by (simp add: truthful_exec_def shop_env_def)


text \<open>A container of its own that holds a password, a callback that accepts its name, and a Compose generator that fails.\<close>

definition safe_info :: container_info where
  "safe_info = shop_info\<lparr>ci_env := [''DB_PASSWORD=x''], ci_mounts := [], ci_labels := []\<rparr>"

definition safe_env :: container_env where
  "safe_env = (shop_env True)\<lparr>ce_inspect := (\<lambda>t. Inr safe_info), ce_compose := (\<lambda>c. Inl (errors_new ''no''))\<rparr>"

definition safe_options :: container_options where
  "safe_options = shop_options\<lparr>co_confirm := Some (\<lambda>names. if names = [''DB_PASSWORD''] then None else Some (errors_new ''no''))\<rparr>"

abbreviation safe_backup :: "container_result res \<times> executed \<times> (unit, unit, unit, backup_row table) container_state" where
  "safe_backup \<equiv> RunContainerBackup (\<lambda>_. False) shop_runner safe_env safe_options shop_state"

lemma safe_facts: "\<not> IsCompose safe_info" "\<not> IsDatabase safe_info" "SensitiveEnvVars safe_info = [''DB_PASSWORD'']"
  by code_simp+

lemma safe_body_fails:
  "\<exists>e run1 tr st1. container_body (\<lambda>_. False) shop_runner safe_env safe_options ''local'' ''web'' ''web'' tgt run st = (Inl e, run1, tr, st1)
     \<and> (tgt, ''clean-stale-dumps'', stale_script (managed_dir ''web'')) \<in> set tr"
proof -
  have p: "ly_info (layout_of ''local'' ''web'' ''web'' safe_info) = safe_info" "ci_mounts safe_info = []"
    "ly_project (layout_of ''local'' ''web'' ''web'' safe_info) = managed_dir ''web''"
    "ce_inspect safe_env = (\<lambda>t. Inr safe_info)" "ce_compose safe_env = (\<lambda>c. Inl (errors_new ''no''))"
    "inspect_failure ''local'' ''web'' (ce_exec safe_env [] tgt (''inspect-'' @ ''web'') (inspect_script ''web'')) = None"
    by (simp_all add: layout_of_def safe_info_def project_of_def safe_facts(1)[unfolded safe_info_def] safe_env_def shop_env_def inspect_failure_def)
  have c: "confirm_sensitive safe_options (layout_of ''local'' ''web'' ''web'' safe_info) = None"
    by (simp add: confirm_sensitive_def p(1) safe_facts safe_options_def Let_def)
  show ?thesis using p(6)
    by (simp add: container_body_def p(1-5) Let_def generate_artifacts_def c dump_database_def safe_facts write_compose_def GenerateComposeYAML_def
        cleanup_temps_def cleanup_parts_def no_artifacts_def)
qed

lemma safe_backup_fails:
  "\<exists>e tr st'. safe_backup = (Inl e, tr, st') \<and> (NewLocalTarget, ''clean-stale-dumps'', stale_script (managed_dir ''web'')) \<in> set tr"
proof -
  obtain run s where b: "beginRun False sqlite_log (example_env (db_fine 3)) (blank_job ''web'' ''local'') empty_table = (Inr run, s)"
    using shop_begins by blast
  obtain e run1 tr st1 where c: "container_body (\<lambda>_. False) shop_runner safe_env safe_options ''local'' ''web'' ''web'' NewLocalTarget run
      (shop_state\<lparr>cx_servers := (), cx_db := s\<rparr>) = (Inl e, run1, tr, st1)"
    "(NewLocalTarget, ''clean-stale-dumps'', stale_script (managed_dir ''web'')) \<in> set tr" using safe_body_fails by blast
  have p: "co_server safe_options = ''local''" "co_container safe_options = ''web''" "co_alias safe_options = []"
    "cr_servers shop_runner = None" "cr_allow_untracked shop_runner = False" "cr_repo shop_runner = sqlite_log"
    "ce_run safe_env = example_env (db_fine 3)" "cx_db shop_state = empty_table"
    by (simp_all add: safe_options_def shop_options_def shop_runner_def safe_env_def shop_env_def shop_state_def)
  show ?thesis using b c by (simp add: RunContainerBackup_def p shop_facts ResolveTarget_def Let_def)
qed

theorem sensitive_env_needs_consent_witness:
  "\<exists>e tr st' x confirm. safe_backup = (Inl e, tr, st') \<and> x \<in> set tr \<and> snd (snd x) \<noteq> inspect_script ''web'' \<and> \<not> IsCompose safe_info
     \<and> co_confirm safe_options = Some confirm \<and> confirm [''DB_PASSWORD''] = None"
proof -
  obtain e tr st' where s: "safe_backup = (Inl e, tr, st')"
    "(NewLocalTarget, ''clean-stale-dumps'', stale_script (managed_dir ''web'')) \<in> set tr" using safe_backup_fails by blast
  have n: "stale_script (managed_dir ''web'') \<noteq> inspect_script (trim_space (co_container safe_options))"
    by (simp add: stale_script_def inspect_script_def)
  have t: "trim_space (co_container safe_options) = ''web''" by (simp add: safe_options_def shop_options_def shop_facts)
  from sensitive_env_needs_consent[OF s n] obtain info where i: "inspected safe_env (trim_space (co_container safe_options)) NewLocalTarget = Inr info"
    "IsCompose info \<or> SensitiveEnvVars info = [] \<or> (\<exists>confirm. co_confirm safe_options = Some confirm \<and> confirm (SensitiveEnvVars info) = None)"
    by blast
  have "info = safe_info" using i(1) by (simp add: inspected_def safe_env_def)
  then show ?thesis using i(2) s n safe_facts unfolding t by fastforce
qed

theorem removals_confined_witness:
  "\<exists>fs. sh_words (stale_script ''/opt/shop'') = Some (''rm'' # ''-rf'' # fs) \<and> (\<forall>f\<in>set fs. has_path_prefix f (ScratchDir ''/opt/shop''))"
proof -
  obtain e tr st' where s: "shop_backup False = (Inl e, tr, st')"
    "(NewLocalTarget, ''clean-stale-dumps'', stale_script ''/opt/shop'') \<in> set tr" using shop_backup_fails by blast
  have i: "inspected (shop_env False) (trim_space (co_container shop_options)) NewLocalTarget = Inr info
      \<Longrightarrow> project_of info (final_name shop_options) = ''/opt/shop''" for info
    using shop_facts by (simp add: inspected_def shop_env_def final_name_def shop_options_def)
  then have r: "\<And>info. inspected (shop_env False) (trim_space (co_container shop_options)) NewLocalTarget = Inr info
      \<Longrightarrow> is_rooted (project_of info (final_name shop_options))" by simp
  show ?thesis using removals_confined[OF s _ r] i by fastforce
qed

end
