(* ===== verification/DockerCmd.thy ===== *)
theory DockerCmd
  imports MigrationVerify ContainerBackup
begin

text \<open>
  The commands \<open>ops docker plan\<close> and \<open>ops docker health\<close> of \<open>cmd/opspulse\<close>, with the confirmation gate they share
  with \<open>apply\<close>. Printed text is a value where a function renders it; the sequence of messages on the terminal is
  left out. The inventory is not written during a command, so its lookup is a function. What the operator types at a
  prompt is a function of the prompt.
\<close>

section \<open>The gate\<close>

definition promptConfirm :: "string option \<Rightarrow> bool \<Rightarrow> bool" where
  "promptConfirm typed defaultYes =
     (case typed of
        None \<Rightarrow> False
      | Some l \<Rightarrow>
          (let t = trim_space l
           in if t = [] then defaultYes
              else if equal_fold t ''y'' \<or> equal_fold t ''yes'' then True
              else False))"

record operator =
  op_interactive :: bool
  op_types :: "string \<Rightarrow> string option"

definition confirmGate :: "operator \<Rightarrow> bool \<Rightarrow> string \<Rightarrow> go_error \<Rightarrow> go_error \<Rightarrow> go_error option" where
  "confirmGate op yes prompt refuse cancel =
     (if yes then None
      else if \<not> op_interactive op then Some refuse
      else if \<not> promptConfirm (op_types op prompt) False then Some cancel
      else None)"

definition confirmContainerSensitiveEnv :: "operator \<Rightarrow> bool \<Rightarrow> string list \<Rightarrow> go_error option" where
  "confirmContainerSensitiveEnv op yes keys =
     (let joined = join_with '', '' keys
      in confirmGate op yes
           (''Write generated compose.yaml containing sensitive environment variable(s) '' @ joined @ '' to the target? [y/N]: '')
           (errors_new (''refusing to write a generated compose.yaml containing sensitive environment variable(s) ('' @ joined @ '') in a non-interactive shell; re-run with --yes to accept''))
           (errors_new ''container backup cancelled by user; re-run with --yes to skip the confirmation prompt''))"

section \<open>The remote host\<close>

record docker_env =
  de_server :: "string \<Rightarrow> server res"
  de_exec :: remote_exec
  de_float :: "string \<Rightarrow> rat option"
  de_ps :: "string \<Rightarrow> raw_ps_line res"
  de_list :: "string \<Rightarrow> raw_container list res"
  de_one :: "string \<Rightarrow> raw_container res"

definition resolveDockerRemote :: "docker_env \<Rightarrow> string \<Rightarrow> target res" where
  "resolveDockerRemote env name = fst (ResolveTarget (Some (\<lambda>n (u::unit). (de_server env n, u))) name ())"

definition dockerFriendlyError :: "string \<Rightarrow> go_error \<Rightarrow> go_error" where
  "dockerFriendlyError server e =
     (if errors_is e ErrDockerMissing
      then errors_new (utf8 [0x8FDC, 0x7AEF, 0x670D, 0x52A1, 0x5668] @ '' '' @ go_quote server @ '' '' @ utf8 [0x672A, 0x5B89, 0x88C5] @ '' Docker'' @ utf8 [0xFF1A, 0x65E0, 0x6CD5, 0x53D1, 0x73B0, 0x6216, 0x5206, 0x6790, 0x5BB9, 0x5668, 0xFF08, 0x8BF7, 0x5148, 0x5728, 0x76EE, 0x6807, 0x673A, 0x5B89, 0x88C5, 0x5E76, 0x542F, 0x52A8] @ '' Docker'' @ utf8 [0xFF09])
      else if errors_is e ErrContainerNotFound
      then errors_new (utf8 [0x670D, 0x52A1, 0x5668] @ '' '' @ go_quote server @ '' '' @ utf8 [0x4E0A, 0x627E, 0x4E0D, 0x5230, 0x8BE5, 0x5BB9, 0x5668, 0xFF1A, 0x8BF7, 0x7528] @ '' '' @ [CHR 0x60] @ ''ops docker list '' @ server @ [CHR 0x60] @ '' '' @ utf8 [0x786E, 0x8BA4, 0x540D, 0x79F0])
      else e)"

section \<open>Planning\<close>

record plan_flags =
  pf_all :: bool
  pf_target :: string
  pf_save :: string
  pf_no_save :: bool
  pf_json :: bool
  pf_write_config :: bool
  pf_yes :: bool
  pf_health_url :: string

definition validateDockerPlanFlags :: "plan_flags \<Rightarrow> string \<Rightarrow> go_error option" where
  "validateDockerPlanFlags fl arg =
     (if arg = [] \<and> \<not> pf_all fl
      then Some (errors_new (utf8 [0x8BF7, 0x6307, 0x5B9A, 0x8981, 0x89C4, 0x5212, 0x7684, 0x5BB9, 0x5668, 0x540D, 0xFF0C, 0x6216, 0x7528] @ '' --all '' @ utf8 [0x663E, 0x5F0F, 0x89C4, 0x5212, 0x8BE5, 0x670D, 0x52A1, 0x5668, 0x4E0A, 0x6240, 0x6709, 0x8FD0, 0x884C, 0x4E2D, 0x7684, 0x5BB9, 0x5668, 0xFF08, 0x9ED8, 0x8BA4, 0x4E0D, 0x6279, 0x91CF, 0x5904, 0x7406, 0x6574, 0x53F0] @ '' VPS'' @ utf8 [0xFF09]))
      else if arg \<noteq> [] \<and> pf_all fl then Some (errors_new (utf8 [0x4E0D, 0x80FD, 0x540C, 0x65F6, 0x6307, 0x5B9A, 0x5BB9, 0x5668, 0x540D, 0x4E0E] @ '' --all'' @ utf8 [0xFF1A, 0x8BF7, 0x4E8C, 0x9009, 0x4E00]))
      else if pf_no_save fl \<and> trim_space (pf_save fl) \<noteq> [] then Some (errors_new (utf8 [0x4E0D, 0x80FD, 0x540C, 0x65F6, 0x4F7F, 0x7528] @ '' --save '' @ utf8 [0x4E0E] @ '' --no-save''))
      else if trim_space (pf_health_url fl) \<noteq> [] \<and> arg = []
      then Some (errors_new (''--health-url '' @ utf8 [0x53EA, 0x80FD, 0x7528, 0x4E8E, 0x5355, 0x4E2A, 0x5BB9, 0x5668, 0x7684] @ '' plan'' @ utf8 [0xFF1A, 0x6279, 0x91CF] @ '' plan '' @ utf8 [0x8BF7, 0x751F, 0x6210, 0x540E, 0x9010, 0x4E2A, 0x5728] @ '' services[].health.http_url '' @ utf8 [0x4E2D, 0x586B, 0x5199, 0x5404, 0x81EA, 0x7684, 0x5730, 0x5740]))
      else None)"

definition selectDockerPlanContainers ::
    "docker_env \<Rightarrow> target \<Rightarrow> string \<Rightarrow> string \<Rightarrow> executed \<Rightarrow> string list res \<times> executed" where
  "selectDockerPlanContainers env tgt server arg tr =
     (if arg \<noteq> [] then (Inr [arg], tr)
      else (case remote_list (de_ps env) (de_exec env) tgt False tr of
              (Inl e, tr1) \<Rightarrow> (Inl (dockerFriendlyError server e), tr1)
            | (Inr cs, tr1) \<Rightarrow>
                (let names = filter (\<lambda>n. n \<noteq> []) (map (\<lambda>c. trim_space (cs_name c)) cs)
                 in if names = []
                    then (Inl (errors_new (utf8 [0x670D, 0x52A1, 0x5668] @ '' '' @ go_quote server @ '' '' @ utf8 [0x4E0A, 0x6CA1, 0x6709, 0x8FD0, 0x884C, 0x4E2D, 0x7684, 0x5BB9, 0x5668, 0xFF1A, 0x5148, 0x7528] @ '' '' @ [CHR 0x60] @ ''ops docker list '' @ server @ [CHR 0x60] @ '' '' @ utf8 [0x786E, 0x8BA4, 0x8981, 0x8FC1, 0x79FB, 0x7684, 0x670D, 0x52A1])), tr1)
                    else (Inr (sort names), tr1))))"

fun inspect_all :: "docker_env \<Rightarrow> target \<Rightarrow> string \<Rightarrow> string list \<Rightarrow> executed \<Rightarrow> evidence list res \<times> executed" where
  "inspect_all env tgt server [] tr = (Inr [], tr)"
| "inspect_all env tgt server (n # ns) tr =
     (case remote_inspect (de_list env) (de_one env) (de_exec env) tgt n tr of
        (Inl e, tr1) \<Rightarrow> (Inl (dockerFriendlyError server e), tr1)
      | (Inr info, tr1) \<Rightarrow>
          (case inspect_all env tgt server ns tr1 of
             (Inl e, tr2) \<Rightarrow> (Inl e, tr2)
           | (Inr evs, tr2) \<Rightarrow> (Inr ((Some info, Some (Analyze info)) # evs), tr2)))"

definition dockerPlanHostPaths :: "evidence list \<Rightarrow> string list" where
  "dockerPlanHostPaths evs =
     sort (remdups (concat (map (\<lambda>ev. case snd ev of None \<Rightarrow> [] | Some a \<Rightarrow> HostPaths a) evs)))"

definition job_defaults :: "job list \<Rightarrow> backup_defaults" where
  "job_defaults js =
     (case find (\<lambda>j. trim_space (j_backend j) \<noteq> []) js of
        None \<Rightarrow> \<lparr>bd_backend = [], bd_env = [], bd_jobs = map j_name js\<rparr>
      | Some j \<Rightarrow> \<lparr>bd_backend = j_backend j, bd_env = j_env j, bd_jobs = map j_name js\<rparr>)"

definition dockerPlanBackupDefaults :: "'j job_store \<Rightarrow> string \<Rightarrow> string \<Rightarrow> 'j \<Rightarrow> backup_defaults \<times> 'j" where
  "dockerPlanBackupDefaults store repository password js =
     (case js_list store js of
        (listed, js1) \<Rightarrow>
          (let d = job_defaults (case listed of Inl e \<Rightarrow> [] | Inr all \<Rightarrow> all); repo = trim_space repository
           in (if bd_backend d = [] \<and> repo \<noteq> []
               then d\<lparr>bd_backend := repo, bd_env := (if password \<noteq> [] then [(''RESTIC_PASSWORD'', password)] else bd_env d)\<rparr>
               else d, js1)))"

definition dockerPlanLabel :: "string \<Rightarrow> string" where
  "dockerPlanLabel arg = (if arg \<noteq> [] then arg else ''all'')"

type_synonym files = "string \<Rightarrow> string option"

record 'j plan_cmd_env =
  pe_docker :: docker_env
  pe_jobs :: "'j job_store"
  pe_repository :: string
  pe_password :: string
  pe_version :: string
  pe_now :: string
  pe_dir :: string
  pe_stamp :: string
  pe_show_yaml :: "plan \<Rightarrow> string res"
  pe_read_yaml :: "string \<Rightarrow> plan res"
  pe_save :: plan_io
  pe_stdout :: "go_error option"
  pe_operator :: operator
  pe_jobs_file :: string

definition saveDockerPlan :: "plan_flags \<Rightarrow> 'j plan_cmd_env \<Rightarrow> plan \<Rightarrow> string \<Rightarrow> string \<Rightarrow> files \<Rightarrow> string res \<times> files" where
  "saveDockerPlan fl env p server label fs =
     (if pf_no_save fl then (Inr [], fs)
      else (let path0 = trim_space (pf_save fl);
                path = (if path0 = [] then DefaultPlanPath (pe_dir env) server label (pe_stamp env) else path0)
            in case Save (pe_show_yaml env) (pe_save env) path (Some p) fs of
                 (Some e, fs1) \<Rightarrow> (Inl e, fs1)
               | (None, fs1) \<Rightarrow> (Inr path, fs1)))"

section \<open>Writing the proposed jobs\<close>

definition proposed_job :: "backup_config_plan \<Rightarrow> (string \<times> string) list \<Rightarrow> job" where
  "proposed_job c env =
     (blank_job (bp_job c) (bp_server c))
       \<lparr>j_paths := bp_paths c, j_backend := bp_backend c, j_env := env, j_tags := bp_tags c, j_description := bp_description c\<rparr>"

fun proposed_jobs :: "service_plan list \<Rightarrow> (string \<times> string) list \<Rightarrow> (job \<times> bool) list res" where
  "proposed_jobs [] env = Inr []"
| "proposed_jobs (s # ss) env =
     (case sp_backup s of
        None \<Rightarrow> proposed_jobs ss env
      | Some c \<Rightarrow>
          (if trim_space (bp_backend c) = []
           then Inl (errors_new (utf8 [0x65E0, 0x6CD5, 0x5199, 0x5165, 0x5907, 0x4EFD, 0x4F5C, 0x4E1A] @ '' '' @ go_quote (bp_job c) @ utf8 [0xFF1A] @ ''backups.yaml '' @ utf8 [0x4E2D, 0x6CA1, 0x6709, 0x53EF, 0x7EE7, 0x627F, 0x7684] @ '' restic '' @ utf8 [0x4ED3, 0x5E93, 0xFF0C, 0x4E14, 0x672A, 0x8BBE, 0x7F6E] @ '' RESTIC_REPOSITORY'' @ utf8 [0xFF1B, 0x8BF7, 0x5148, 0x914D, 0x7F6E, 0x4ED3, 0x5E93]))
           else (case proposed_jobs ss env of
                   Inl e \<Rightarrow> Inl e
                 | Inr js \<Rightarrow> Inr ((proposed_job c env, bp_exists c) # js))))"

definition dockerPlanBackupJobs :: "plan \<Rightarrow> backup_defaults \<Rightarrow> (job \<times> bool) list res" where
  "dockerPlanBackupJobs p d =
     (case proposed_jobs (pn_services p) (bd_env d) of
        Inl e \<Rightarrow> Inl e
      | Inr js \<Rightarrow> if js = [] then Inl (errors_new (''plan '' @ utf8 [0x4E2D, 0x6CA1, 0x6709, 0x53EF, 0x5199, 0x5165, 0x7684, 0x5907, 0x4EFD, 0x914D, 0x7F6E])) else Inr js)"

definition dockerPlanSensitiveEnv :: "plan \<Rightarrow> string list" where
  "dockerPlanSensitiveEnv p = sort (remdups (concat (map (\<lambda>s. sc_sensitive (sp_config s)) (pn_services p))))"

definition state_word :: "bool \<Rightarrow> string" where
  "state_word present = (if present then (utf8 [0x66F4, 0x65B0]) else (utf8 [0x65B0, 0x589E]))"

definition change_line :: "job \<times> bool \<Rightarrow> string" where
  "change_line c =
     (case c of (j, present) \<Rightarrow>
        (''  ['' @ state_word present @ ''] '' @ j_name j @ '': server='' @ j_server j @ '' paths='' @ join_with '','' (j_paths j) @ '' backend='' @ j_backend j @ '' tags='' @ join_with '','' (j_tags j)))"

definition change_summary :: "string \<Rightarrow> plan \<Rightarrow> (job \<times> bool) list \<Rightarrow> string \<Rightarrow> string" where
  "change_summary store_file p js saved =
     [CHR 0x0A] @ line (utf8 [0x5373, 0x5C06, 0x5199, 0x5165, 0x5907, 0x4EFD, 0x914D, 0x7F6E] @ '' '' @ store_file @ utf8 [0xFF1A]) @ concat (map (\<lambda>c. line (change_line c)) js)
     @ (if dockerPlanSensitiveEnv p = [] then []
        else line (utf8 [0x654F, 0x611F, 0x73AF, 0x5883, 0x53D8, 0x91CF, 0x98CE, 0x9669] @ '': '' @ join_with '', '' (dockerPlanSensitiveEnv p) @ '' '' @ utf8 [0x4F1A, 0x539F, 0x6837, 0x5199, 0x5165, 0x751F, 0x6210, 0x7684] @ '' compose.yaml '' @ utf8 [0x4E0E, 0x5907, 0x4EFD, 0x5FEB, 0x7167, 0xFF08, 0x53EA, 0x5217, 0x540D, 0x5B57, 0xFF0C, 0x4E0D, 0x56DE, 0x663E, 0x53D6, 0x503C, 0xFF09]))
     @ (if saved = [] then [] else line (utf8 [0x5BF9, 0x5E94] @ '' plan '' @ utf8 [0x6587, 0x4EF6] @ '': '' @ saved))"

fun save_jobs :: "'j job_store \<Rightarrow> job list \<Rightarrow> 'j \<Rightarrow> go_error option \<times> 'j" where
  "save_jobs store [] js = (None, js)"
| "save_jobs store (j # jobs) js =
     (case js_save store j js of
        (Inl e, js1) \<Rightarrow> (Some (wrap (utf8 [0x5199, 0x5165, 0x5907, 0x4EFD, 0x914D, 0x7F6E, 0x5931, 0x8D25] @ '': '') e []), js1)
      | (Inr u, js1) \<Rightarrow> save_jobs store jobs js1)"

definition write_prompt :: "nat \<Rightarrow> string \<Rightarrow> string" where
  "write_prompt n store_file = (utf8 [0x786E, 0x8BA4, 0x5199, 0x5165, 0x4E0A, 0x8FF0] @ '' '' @ show_nat n @ '' '' @ utf8 [0x4E2A, 0x5907, 0x4EFD, 0x4F5C, 0x4E1A, 0x5230] @ '' '' @ store_file @ utf8 [0xFF1F] @ ''[y/N]: '')"

definition write_gate :: "plan_flags \<Rightarrow> 'j plan_cmd_env \<Rightarrow> nat \<Rightarrow> go_error option" where
  "write_gate fl env n =
     confirmGate (pe_operator env) (pf_yes fl) (write_prompt n (pe_jobs_file env))
       (errors_new (utf8 [0x975E, 0x4EA4, 0x4E92, 0x73AF, 0x5883, 0x4E0B, 0x62D2, 0x7EDD, 0x5199, 0x5165, 0x5907, 0x4EFD, 0x914D, 0x7F6E, 0xFF1A, 0x8BF7, 0x786E, 0x8BA4, 0x5185, 0x5BB9, 0x540E, 0x52A0] @ '' --yes '' @ utf8 [0x663E, 0x5F0F, 0x63A5, 0x53D7]))
       (errors_new (utf8 [0x5DF2, 0x53D6, 0x6D88, 0x5199, 0x5165, 0x5907, 0x4EFD, 0x914D, 0x7F6E]))"

definition writeDockerPlanBackupConfig ::
    "plan_flags \<Rightarrow> 'j plan_cmd_env \<Rightarrow> plan \<Rightarrow> 'j \<Rightarrow> go_error option \<times> 'j" where
  "writeDockerPlanBackupConfig fl env p js =
     (case dockerPlanBackupDefaults (pe_jobs env) (pe_repository env) (pe_password env) js of
        (d, js1) \<Rightarrow>
          (case dockerPlanBackupJobs p d of
             Inl e \<Rightarrow> (Some e, js1)
           | Inr jobs \<Rightarrow>
               (case write_gate fl env (length jobs) of
                  Some e \<Rightarrow> (Some e, js1)
                | None \<Rightarrow> save_jobs (pe_jobs env) (map fst jobs) js1)))"

section \<open>The plan command\<close>

definition probe_target :: "docker_env \<Rightarrow> string \<Rightarrow> string list \<Rightarrow> executed \<Rightarrow> cap_report option res \<times> executed" where
  "probe_target env name paths tr =
     (if name = [] then (Inr None, tr)
      else (case resolveDockerRemote env name of
              Inl e \<Rightarrow> (Inl e, tr)
            | Inr tgt \<Rightarrow>
                (case remote_probe (de_float env) (de_exec env) tgt \<lparr>po_paths = paths, po_images = []\<rparr> tr of
                   (Inl e, tr1) \<Rightarrow> (Inl e, tr1)
                 | (Inr r, tr1) \<Rightarrow> (Inr (Some r), tr1))))"

text \<open>Everything that is asked of the hosts: the containers, the source and the target.\<close>

definition gather ::
    "docker_env \<Rightarrow> plan_flags \<Rightarrow> target \<Rightarrow> string \<Rightarrow> string \<Rightarrow> executed
     \<Rightarrow> (evidence list \<times> cap_report \<times> cap_report option) res \<times> executed" where
  "gather env fl tgt server arg tr0 =
     (case selectDockerPlanContainers env tgt server arg tr0 of
        (Inl e, tr) \<Rightarrow> (Inl e, tr)
      | (Inr names, tr) \<Rightarrow>
     (case inspect_all env tgt server names tr of
        (Inl e, tr1) \<Rightarrow> (Inl e, tr1)
      | (Inr evs, tr1) \<Rightarrow>
     (case remote_probe (de_float env) (de_exec env) tgt \<lparr>po_paths = dockerPlanHostPaths evs, po_images = []\<rparr> tr1 of
        (Inl e, tr2) \<Rightarrow> (Inl e, tr2)
      | (Inr source, tr2) \<Rightarrow>
     (case probe_target env (trim_space (pf_target fl)) (dockerPlanHostPaths evs) tr2 of
        (Inl e, tr3) \<Rightarrow> (Inl e, tr3)
      | (Inr tcap, tr3) \<Rightarrow> (Inr (evs, source, tcap), tr3)))))"

definition plan_input ::
    "plan_flags \<Rightarrow> 'j plan_cmd_env \<Rightarrow> string \<Rightarrow> evidence list \<times> cap_report \<times> cap_report option \<Rightarrow> backup_defaults \<Rightarrow> build_input" where
  "plan_input fl env server found d =
     (case found of (evs, source, tcap) \<Rightarrow>
        \<lparr>bi_source = server, bi_source_cap = Some source, bi_target = trim_space (pf_target fl), bi_target_cap = tcap,
         bi_containers = evs, bi_backup = d, bi_generator = ''ops '' @ pe_version env, bi_now = pe_now env,
         bi_health_url = pf_health_url fl\<rparr>)"

record 'j plan_outcome =
  po_plan :: "plan option"
  po_error :: "go_error option"
  po_trace :: executed
  po_files :: files
  po_jobs :: 'j

definition emit_plan ::
    "plan_flags \<Rightarrow> 'j plan_cmd_env \<Rightarrow> string \<Rightarrow> string \<Rightarrow> plan \<Rightarrow> executed \<Rightarrow> files \<Rightarrow> 'j \<Rightarrow> 'j plan_outcome" where
  "emit_plan fl env server arg p tr fs js =
     (case (if pf_json fl then pe_stdout env else None) of
        Some e \<Rightarrow> \<lparr>po_plan = Some p, po_error = Some e, po_trace = tr, po_files = fs, po_jobs = js\<rparr>
      | None \<Rightarrow>
          (case saveDockerPlan fl env p server (dockerPlanLabel arg) fs of
             (Inl e, fs1) \<Rightarrow> \<lparr>po_plan = Some p, po_error = Some e, po_trace = tr, po_files = fs1, po_jobs = js\<rparr>
           | (Inr saved, fs1) \<Rightarrow>
               (if pf_write_config fl
                then (case writeDockerPlanBackupConfig fl env p js of
                        (e, js1) \<Rightarrow> \<lparr>po_plan = Some p, po_error = e, po_trace = tr, po_files = fs1, po_jobs = js1\<rparr>)
                else \<lparr>po_plan = Some p, po_error = None, po_trace = tr, po_files = fs1, po_jobs = js\<rparr>)))"

definition runDockerPlan ::
    "plan_flags \<Rightarrow> 'j plan_cmd_env \<Rightarrow> string \<Rightarrow> string option \<Rightarrow> files \<Rightarrow> 'j \<Rightarrow> 'j plan_outcome" where
  "runDockerPlan fl env server0 container fs js =
     (let server = trim_space server0; arg = (case container of None \<Rightarrow> [] | Some c \<Rightarrow> trim_space c);
          failed = (\<lambda>e tr js. \<lparr>po_plan = None, po_error = Some e, po_trace = tr, po_files = fs, po_jobs = js\<rparr>)
      in case validateDockerPlanFlags fl arg of
           Some e \<Rightarrow> failed e [] js
         | None \<Rightarrow>
      (case resolveDockerRemote (pe_docker env) server of
         Inl e \<Rightarrow> failed e [] js
       | Inr tgt \<Rightarrow>
      (case gather (pe_docker env) fl tgt server arg [] of
         (Inl e, tr) \<Rightarrow> failed e tr js
       | (Inr found, tr) \<Rightarrow>
      (case dockerPlanBackupDefaults (pe_jobs env) (pe_repository env) (pe_password env) js of
         (d, js1) \<Rightarrow>
           (case BuildPlan (plan_input fl env server found d) of
              Inl e \<Rightarrow> failed e tr js1
            | Inr p \<Rightarrow> emit_plan fl env server arg p tr fs js1)))))"

text \<open>\<open>plan show\<close>: the plan that is printed, and the error.\<close>

definition runDockerPlanShow ::
    "(string \<Rightarrow> plan res) \<Rightarrow> (string \<Rightarrow> string res) \<Rightarrow> bool \<Rightarrow> go_error option \<Rightarrow> string \<Rightarrow> plan option \<times> go_error option" where
  "runDockerPlanShow read_yaml read json stdout p =
     (case Load read_yaml read p of
        Inl e \<Rightarrow> (None, Some e)
      | Inr q \<Rightarrow> (Some q, if json then stdout else None))"

section \<open>The health command\<close>

definition probeServiceHealth ::
    "docker_env \<Rightarrow> string \<Rightarrow> health_target list \<Rightarrow> executed \<Rightarrow> health_report res \<times> executed" where
  "probeServiceHealth env server targets tr =
     (if targets = [] then (Inr \<lparr>hr_server = server, hr_services = []\<rparr>, tr)
      else (case resolveDockerRemote env server of
              Inl e \<Rightarrow> (Inl e, tr)
            | Inr tgt \<Rightarrow> remote_health (de_exec env) tgt \<lparr>ho_targets = targets, ho_retries = 0, ho_interval = 0\<rparr> tr))"

fun health_text :: "health_status \<Rightarrow> string" where
  "health_text HealthOK = ''ok''"
| "health_text HealthFailed = ''failed''"
| "health_text HealthManual = ''manual''"
| "health_text HealthSkipped = ''skipped''"

definition dockerHealthServiceStatus :: "service_health \<Rightarrow> string" where
  "dockerHealthServiceStatus s =
     (if FailedChecks s \<noteq> [] then (utf8 [0x672A, 0x901A, 0x8FC7])
      else if ManualChecks s \<noteq> [] then (utf8 [0x9700, 0x4EBA, 0x5DE5, 0x786E, 0x8BA4])
      else (utf8 [0x901A, 0x8FC7]))"

definition check_lines :: "health_check \<Rightarrow> string" where
  "check_lines c =
     line (''  ['' @ health_text (hc_status c) @ ''] '' @ hc_label c @ utf8 [0xFF1A] @ hc_detail c)
     @ (if hc_next c = [] then [] else line (''     '' @ utf8 [0x4E0B, 0x4E00, 0x6B65, 0xFF1A] @ hc_next c))"

definition service_lines :: "service_health \<Rightarrow> string" where
  "service_lines s =
     [CHR 0x0A] @ (utf8 [0x670D, 0x52A1] @ '' '' @ sh_service s) @ (if sh_container s = [] then [] else (utf8 [0xFF08, 0x5BB9, 0x5668] @ '' '' @ sh_container s @ utf8 [0xFF09]))
     @ line ('': '' @ dockerHealthServiceStatus s) @ concat (map check_lines (sh_checks s))"

definition writeDockerHealthConclusion :: "health_report \<Rightarrow> string" where
  "writeDockerHealthConclusion r =
     (let total = show_nat (length (hr_services r)); failed = FailedServices r; manual = Unverified r
      in (if failed = [] then []
          else line (utf8 [0x7ED3, 0x8BBA] @ '': '' @ show_nat (length failed) @ ''/'' @ total @ '' '' @ utf8 [0x4E2A, 0x670D, 0x52A1, 0x672A, 0x901A, 0x8FC7, 0x5065, 0x5EB7, 0x68C0, 0x67E5, 0xFF1B, 0x8BF7, 0x6309, 0x4E0A, 0x9762, 0x7684, 0x300C, 0x4E0B, 0x4E00, 0x6B65, 0x300D, 0x9010, 0x9879, 0x5904, 0x7406, 0xFF0C, 0x5904, 0x7406, 0x540E, 0x53EF, 0x91CD, 0x65B0, 0x6267, 0x884C] @ '' '' @ [CHR 0x60] @ ''ops docker health <plan-file>'' @ [CHR 0x60] @ '' '' @ utf8 [0x590D, 0x6838, 0x3002]))
         @ (if manual = [] then []
            else line (utf8 [0x7ED3, 0x8BBA] @ '': '' @ join_with '', '' (map sh_service manual) @ '' '' @ utf8 [0x7684, 0x90E8, 0x5206, 0x68C0, 0x67E5, 0x9879, 0x5728, 0x76EE, 0x6807, 0x673A, 0x4E0A, 0x65E0, 0x6CD5, 0x81EA, 0x52A8, 0x6267, 0x884C, 0xFF0C, 0x9700, 0x8981, 0x4EBA, 0x5DE5, 0x786E, 0x8BA4, 0xFF08, 0x89C1, 0x4E0A, 0x9762, 0x7684, 0x300C, 0x4E0B, 0x4E00, 0x6B65, 0x300D, 0xFF09, 0x3002]))
         @ (if failed = [] \<and> manual = []
            then line (utf8 [0x7ED3, 0x8BBA] @ '': '' @ total @ ''/'' @ total @ '' '' @ utf8 [0x4E2A, 0x670D, 0x52A1, 0x901A, 0x8FC7, 0x5065, 0x5EB7, 0x68C0, 0x67E5, 0xFF08, 0x8FDB, 0x7A0B, 0x5728, 0x8DD1, 0x4E0D, 0x7B49, 0x4E8E, 0x670D, 0x52A1, 0x53EF, 0x7528, 0xFF0C, 0x8FD9, 0x91CC, 0x5DF2, 0x6309, 0x5BB9, 0x5668] @ ''/'' @ utf8 [0x7AEF, 0x53E3] @ ''/'' @ utf8 [0x6570, 0x636E, 0x5E93] @ ''/HTTP '' @ utf8 [0x9010, 0x9879, 0x786E, 0x8BA4, 0xFF09, 0x3002])
            else []))"

definition writeDockerHealthHuman :: "plan \<Rightarrow> health_report \<Rightarrow> string" where
  "writeDockerHealthHuman p r =
     line (utf8 [0x5065, 0x5EB7, 0x68C0, 0x67E5, 0xFF08, 0x6E90] @ '' '' @ ep_server (pn_source p) @ '' '' @ utf8 [0x2192] @ '' '' @ utf8 [0x76EE, 0x6807] @ '' '' @ hr_server r @ utf8 [0xFF0C, 0x670D, 0x52A1] @ '' '' @ show_nat (length (hr_services r)) @ '' '' @ utf8 [0x4E2A, 0xFF09])
     @ concat (map service_lines (hr_services r)) @ [CHR 0x0A] @ writeDockerHealthConclusion r"

record health_document =
  hd_kind :: string
  hd_healthy :: bool
  hd_server :: string
  hd_manual :: "string list"
  hd_services :: "service_health list"

definition dockerHealthJSONDocument :: "string \<Rightarrow> health_report \<Rightarrow> health_document" where
  "dockerHealthJSONDocument server r =
     \<lparr>hd_kind = ''docker_health_result'', hd_healthy = (FailedServices r = []), hd_server = server,
      hd_manual = map sh_service (Unverified r), hd_services = hr_services r\<rparr>"

record health_outcome =
  hx_text :: string
  hx_document :: "health_document option"
  hx_error :: "go_error option"
  hx_trace :: executed

text \<open>\<open>stdout\<close> is the outcome of writing the JSON document.\<close>

definition runDockerHealth ::
    "docker_env \<Rightarrow> (string \<Rightarrow> plan res) \<Rightarrow> (string \<Rightarrow> string res) \<Rightarrow> bool \<Rightarrow> string \<Rightarrow> go_error option \<Rightarrow> string \<Rightarrow> health_outcome" where
  "runDockerHealth env read_yaml read json override stdout file_path =
     (let failed = (\<lambda>e tr. \<lparr>hx_text = [], hx_document = None, hx_error = Some e, hx_trace = tr\<rparr>)
      in case Load read_yaml read file_path of
           Inl e \<Rightarrow> failed e []
         | Inr p \<Rightarrow>
      (if pn_services p = [] then failed (errors_new (''plan '' @ utf8 [0x4E2D, 0x6CA1, 0x6709, 0x9700, 0x8981, 0x68C0, 0x67E5, 0x7684, 0x670D, 0x52A1])) []
       else (let server = (if trim_space override = [] then trim_space (ep_server (pn_target p)) else trim_space override)
             in if server = []
                then failed (errors_new (''plan '' @ utf8 [0x672A, 0x8BB0, 0x5F55, 0x76EE, 0x6807, 0x670D, 0x52A1, 0x5668, 0xFF0C, 0x65E0, 0x6CD5, 0x6267, 0x884C, 0x5065, 0x5EB7, 0x68C0, 0x67E5, 0xFF1A, 0x8BF7, 0x7528] @ '' --server <'' @ utf8 [0x76EE, 0x6807, 0x673A] @ ''> '' @ utf8 [0x6307, 0x5B9A, 0xFF0C, 0x6216, 0x91CD, 0x65B0, 0x751F, 0x6210, 0x5E26] @ '' --target '' @ utf8 [0x7684] @ '' plan'')) []
                else (case probeServiceHealth env server (HealthTargets (Some p)) [] of
                        (Inl e, tr) \<Rightarrow> failed e tr
                      | (Inr r, tr) \<Rightarrow>
                          (if json
                           then \<lparr>hx_text = writeDockerHealthHuman p r, hx_document = Some (dockerHealthJSONDocument server r),
                                 hx_error = stdout, hx_trace = tr\<rparr>
                           else \<lparr>hx_text = writeDockerHealthHuman p r, hx_document = None,
                                 hx_error = (if FailedServices r = [] then None
                                   else Some (errors_new (show_nat (length (FailedServices r)) @ ''/'' @ show_nat (length (hr_services r)) @ '' '' @ utf8 [0x4E2A, 0x670D, 0x52A1, 0x672A, 0x901A, 0x8FC7, 0x5065, 0x5EB7, 0x68C0, 0x67E5, 0xFF1A, 0x8BF7, 0x6309, 0x4E0A, 0x9762, 0x7684, 0x300C, 0x4E0B, 0x4E00, 0x6B65, 0x300D, 0x5904, 0x7406]))),
                                 hx_trace = tr\<rparr>)))))"

section \<open>What the plan command prints\<close>

definition risk_lines :: "string \<Rightarrow> risk \<Rightarrow> string" where
  "risk_lines label r =
     line (''  '' @ label @ '' '' @ (if rk_service r = [] then [] else ''['' @ rk_service r @ ''] '') @ rk_detail r)
     @ (if rk_action r = [] then [] else line (''      '' @ utf8 [0x2192] @ '' '' @ rk_action r))"

definition writeDockerPlanRiskList :: "string \<Rightarrow> risk list \<Rightarrow> string" where
  "writeDockerPlanRiskList label rs = concat (map (risk_lines label) rs)"

definition writeDockerPlanRisks :: "risk list \<Rightarrow> risk list \<Rightarrow> risk list \<Rightarrow> string" where
  "writeDockerPlanRisks blockers warnings follow_ups =
     writeDockerPlanRiskList (utf8 [0x26D4] @ '' hard blocker'') blockers @ writeDockerPlanRiskList (utf8 [0x26A0, 0xFE0F] @ ''  warning'') warnings
     @ writeDockerPlanRiskList (utf8 [0x2139, 0xFE0F] @ ''  '' @ utf8 [0x540E, 0x7EED, 0x6B65, 0x9AA4]) follow_ups"

definition writeDockerPlanRiskSummary :: "risk_summary \<Rightarrow> string" where
  "writeDockerPlanRiskSummary s =
     line (utf8 [0x98CE, 0x9669, 0x6C47, 0x603B] @ '': hard blocker '' @ show_nat (length (rs_blockers s)) @ '' / warning '' @ show_nat (length (rs_warnings s)) @ '' / informational follow-up '' @ show_nat (length (rs_follow_ups s)))
     @ writeDockerPlanRisks (rs_blockers s) (rs_warnings s) (rs_follow_ups s)"

definition dockerPlanMode :: "service_plan \<Rightarrow> string" where
  "dockerPlanMode s =
     (if sp_mode s = ModeCompose then (if sp_project s = [] then ''compose'' else ''compose:'' @ sp_project s) else ''run'')"

definition dockerPlanComposeSource :: "service_config \<Rightarrow> string" where
  "dockerPlanComposeSource c = (if sc_source c = ''existing'' then (utf8 [0x6CBF, 0x7528, 0x73B0, 0x6709] @ '' Compose '' @ utf8 [0x6587, 0x4EF6]) else (utf8 [0x53CD, 0x5411, 0x751F, 0x6210] @ '' compose.yaml''))"

fun level_text :: "support_level \<Rightarrow> string" where
  "level_text SupportSupported = ''supported''"
| "level_text SupportPartial = ''partial''"
| "level_text SupportUnsupported = ''unsupported''"

definition writeDockerPlanEndpoint :: "string \<Rightarrow> endpoint \<Rightarrow> string" where
  "writeDockerPlanEndpoint label ep =
     (if trim_space (ep_server ep) = [] then line (label @ '':   '' @ utf8 [0x672A, 0x6307, 0x5B9A, 0xFF08, 0x76EE, 0x6807, 0x8DEF, 0x5F84, 0x4E0E, 0x7AEF, 0x53E3, 0x6309, 0x6E90, 0x673A, 0x539F, 0x6837, 0x8BB0, 0x5F55, 0xFF09])
      else line (label @ '':   '' @ ep_server ep
        @ (case ep_capability ep of
             None \<Rightarrow> []
           | Some r \<Rightarrow> (utf8 [0xFF08] @ ''docker='' @ status_text (ck_status (rp_docker r)) @ '' compose='' @ status_text (ck_status (rp_compose r)) @ '' restic='' @ status_text (ck_status (rp_restic r)) @ '' helper='' @ status_text (ck_status (rp_helper r)) @ '' registry='' @ status_text (ck_status (rp_registry r)) @ '' disk='' @ status_text (ds_status (rp_disk r)) @ utf8 [0xFF09]))))"

definition opt_line :: "bool \<Rightarrow> string \<Rightarrow> string" where
  "opt_line b l = (if b then line l else [])"

definition config_lines :: "service_plan \<Rightarrow> string" where
  "config_lines s =
     (let c = sp_config s
      in line (''  '' @ utf8 [0x5BB9, 0x5668] @ '':     '' @ sp_container s)
         @ line (''  '' @ utf8 [0x955C, 0x50CF] @ '':     '' @ sp_image s @ utf8 [0xFF08, 0x83B7, 0x53D6, 0x65B9, 0x5F0F] @ '': '' @ sp_acquisition s @ utf8 [0xFF09])
         @ opt_line (sp_acquisition_note s \<noteq> []) (''            '' @ sp_acquisition_note s)
         @ line (''  '' @ utf8 [0x914D, 0x7F6E] @ '':     '' @ sc_compose_file c @ utf8 [0xFF08] @ dockerPlanComposeSource c @ utf8 [0xFF09])
         @ opt_line (sc_working_dir c \<noteq> []) (''  '' @ utf8 [0x9879, 0x76EE, 0x76EE, 0x5F55] @ '': '' @ sc_working_dir c)
         @ opt_line (sc_restart c \<noteq> []) (''  '' @ utf8 [0x91CD, 0x542F, 0x7B56, 0x7565] @ '': '' @ sc_restart c)
         @ opt_line (sc_ports c \<noteq> []) (''  '' @ utf8 [0x7AEF, 0x53E3] @ '':     '' @ join_with '', '' (sc_ports c)))"

definition data_lines :: "service_plan \<Rightarrow> string" where
  "data_lines s =
     concat (map (\<lambda>v. line (''  '' @ utf8 [0x5377] @ '':       '' @ volumeName v @ '' '' @ utf8 [0x2192] @ '' '' @ vm_dest v)) (sp_volumes s))
     @ concat (map (\<lambda>m. line (''  bind:     '' @ vm_source m @ '' '' @ utf8 [0x2192] @ '' '' @ vm_dest m)) (sp_binds s))
     @ (case sp_database s of
          None \<Rightarrow> []
        | Some d \<Rightarrow> line (''  '' @ utf8 [0x6570, 0x636E, 0x5E93] @ '':   '' @ dp_engine d @ utf8 [0xFF08, 0x7B56, 0x7565] @ '' '' @ dp_strategy d @ utf8 [0xFF1A] @ (if dp_tool d = [] then ''-'' else dp_tool d) @ utf8 [0xFF09]))
     @ line (''  '' @ utf8 [0x4E00, 0x81F4, 0x6027] @ '':   '' @ utf8 [0x6570, 0x636E, 0x5E93] @ ''='' @ cn_database (sp_consistency s) @ '' '' @ utf8 [0x5377] @ ''='' @ cn_volumes (sp_consistency s))"

definition proposal_line :: "backup_config_plan \<Rightarrow> string" where
  "proposal_line b =
     (''  '' @ utf8 [0x5907, 0x4EFD, 0x914D, 0x7F6E] @ '': ['' @ state_word (bp_exists b) @ ''] job='' @ bp_job b @ '' server='' @ bp_server b @ '' paths='' @ join_with '','' (bp_paths b) @ '' backend='' @ bp_backend b)"

definition target_lines :: "service_plan \<Rightarrow> string" where
  "target_lines s =
     opt_line (sc_sensitive (sp_config s) \<noteq> []) (''  '' @ utf8 [0x654F, 0x611F, 0x53D8, 0x91CF] @ '': '' @ join_with '', '' (sc_sensitive (sp_config s)) @ utf8 [0xFF08, 0x53EA, 0x5217, 0x540D, 0x5B57, 0xFF0C, 0x4E0D, 0x56DE, 0x663E, 0x53D6, 0x503C, 0xFF09])
     @ concat (map (\<lambda>t. line (''  '' @ utf8 [0x76EE, 0x6807, 0x8DEF, 0x5F84] @ '': ['' @ tp_kind t @ ''] '' @ tp_source t @ '' '' @ utf8 [0x2192] @ '' '' @ tp_target t)) (sp_paths s))
     @ opt_line (sp_ports s \<noteq> []) (''  '' @ utf8 [0x76EE, 0x6807, 0x7AEF, 0x53E3] @ '': '' @ join_with '', '' (sp_ports s))
     @ (case sp_health s of
          None \<Rightarrow> line (''  HTTP '' @ utf8 [0x5065, 0x5EB7, 0x68C0, 0x67E5] @ '': '' @ utf8 [0x672A, 0x914D, 0x7F6E, 0xFF08, 0x8FC1, 0x79FB, 0x540E] @ '' HTTP '' @ utf8 [0x68C0, 0x67E5, 0x4F1A, 0x663E, 0x793A] @ '' skipped'' @ utf8 [0xFF09])
        | Some u \<Rightarrow>
            (if trim_space u = [] then line (''  HTTP '' @ utf8 [0x5065, 0x5EB7, 0x68C0, 0x67E5] @ '': '' @ utf8 [0x672A, 0x914D, 0x7F6E, 0xFF08, 0x8FC1, 0x79FB, 0x540E] @ '' HTTP '' @ utf8 [0x68C0, 0x67E5, 0x4F1A, 0x663E, 0x793A] @ '' skipped'' @ utf8 [0xFF09])
             else line (''  HTTP '' @ utf8 [0x5065, 0x5EB7, 0x68C0, 0x67E5] @ '': '' @ u)))
     @ concat (map (\<lambda>a. line (''  '' @ utf8 [0x5C5E, 0x6027] @ '':     '' @ as_attribute a @ ''='' @ level_text (as_level a))) (sp_attributes s))
     @ (case sp_backup s of None \<Rightarrow> [] | Some b \<Rightarrow> line (proposal_line b))"

definition writeDockerPlanService :: "nat \<Rightarrow> nat \<Rightarrow> service_plan \<Rightarrow> string" where
  "writeDockerPlanService k n s =
     [CHR 0x0A] @ line (utf8 [0x670D, 0x52A1] @ '' '' @ show_nat k @ ''/'' @ show_nat n @ '': '' @ sp_name s @ utf8 [0xFF08] @ dockerPlanMode s @ utf8 [0xFF09])
     @ config_lines s @ data_lines s @ target_lines s
     @ writeDockerPlanRisks (sp_blockers s) (sp_warnings s) (sp_follow_ups s)"

definition writeDockerPlanHuman :: "plan \<Rightarrow> string" where
  "writeDockerPlanHuman p =
     line (utf8 [0x8FC1, 0x79FB] @ '' plan'' @ utf8 [0xFF08] @ ''kind='' @ pn_kind p @ utf8 [0xFF0C] @ ''format_version='' @ show_int (pn_version p) @ utf8 [0xFF09])
     @ line (utf8 [0x751F, 0x6210, 0x65F6, 0x95F4] @ '': '' @ pn_generated p)
     @ opt_line (pn_generator p \<noteq> []) (utf8 [0x751F, 0x6210, 0x5668] @ '':   '' @ pn_generator p)
     @ writeDockerPlanEndpoint (utf8 [0x6E90]) (pn_source p) @ writeDockerPlanEndpoint (utf8 [0x76EE, 0x6807]) (pn_target p)
     @ line (utf8 [0x670D, 0x52A1, 0x6570] @ '':   '' @ show_nat (length (pn_services p)))
     @ concat (map (\<lambda>i. writeDockerPlanService (i + 1) (length (pn_services p)) (pn_services p ! i)) [0..<length (pn_services p)])
     @ [CHR 0x0A] @ writeDockerPlanRiskSummary (pn_risks p) @ [CHR 0x0A]
     @ line (utf8 [0x63D0, 0x793A] @ '': '' @ utf8 [0x672C] @ '' plan '' @ utf8 [0x53EA, 0x8BFB, 0xFF1B, 0x6267, 0x884C, 0x524D, 0x5FC5, 0x987B, 0x91CD, 0x65B0, 0x6821, 0x9A8C, 0x6E90, 0x673A, 0x4E0E, 0x76EE, 0x6807, 0x673A, 0x72B6, 0x6001, 0x3002])"

section \<open>Lemmas\<close>

text \<open>The scripts that only look at a host.\<close>

definition read_only_step :: "target \<times> string \<times> string \<Rightarrow> bool" where
  "read_only_step x \<longleftrightarrow>
     (\<exists>b. snd x = (''docker-ps'', BuildListScript b)) \<or> (\<exists>n. snd x = (''docker-inspect'', BuildInspectScript n))
     \<or> (\<exists>opts s. BuildProbeScript opts = Inr s \<and> snd x = (''docker-capability-probe'', s))
     \<or> (\<exists>opts s. BuildHealthScript opts = Inr s \<and> snd x = (''docker-health-check'', s))"

definition reads_only :: "executed \<Rightarrow> executed \<Rightarrow> bool" where
  "reads_only tr tr' \<longleftrightarrow> (\<exists>xs. tr' = tr @ xs \<and> list_all read_only_step xs)"

lemma reads_only_refl [simp]: "reads_only tr tr"
  by (simp add: reads_only_def)

lemma reads_only_trans [trans]: "reads_only a b \<Longrightarrow> reads_only b c \<Longrightarrow> reads_only a c"
  by (auto simp: reads_only_def)

lemma reads_only_step: "read_only_step x \<Longrightarrow> reads_only tr (tr @ [x])"
  by (simp add: reads_only_def)

lemma remote_list_reads: "remote_list pj exec tgt b tr = (r, tr') \<Longrightarrow> reads_only tr tr'"
  by (cases "exec tr tgt ''docker-ps'' (BuildListScript b)")
    (auto simp: remote_list_def Let_def read_only_step_def intro!: reads_only_step)

lemma remote_inspect_reads: "remote_inspect pl p1 exec tgt n tr = (r, tr') \<Longrightarrow> reads_only tr tr'"
  by (cases "exec tr tgt ''docker-inspect'' (BuildInspectScript (trim_space n))")
    (auto simp: remote_inspect_def Let_def read_only_step_def intro!: reads_only_step split: if_splits)

lemma remote_probe_reads:
  assumes "remote_probe pf exec tgt opts tr = (r, tr')"
  shows "reads_only tr tr'"
proof (cases "BuildProbeScript opts")
  case (Inl e)
  then show ?thesis using assms by (simp add: remote_probe_def)
next
  case (Inr s)
  then have "tr' = tr @ [(tgt, ''docker-capability-probe'', s)]"
    using assms by (auto simp: remote_probe_def Let_def split: prod.splits option.splits)
  then show ?thesis using Inr by (auto simp: read_only_step_def intro!: reads_only_step)
qed

lemma remote_health_reads:
  assumes "remote_health exec tgt opts tr = (r, tr')"
  shows "reads_only tr tr'"
proof (cases "BuildHealthScript opts")
  case (Inl e)
  then show ?thesis using assms by (simp add: remote_health_def)
next
  case (Inr s)
  then have "tr' = tr @ [(tgt, ''docker-health-check'', s)]"
    using assms by (auto simp: remote_health_def Let_def split: prod.splits option.splits)
  then show ?thesis using Inr by (auto simp: read_only_step_def intro!: reads_only_step)
qed

lemma inspect_all_reads: "inspect_all env tgt server ns tr = (r, tr') \<Longrightarrow> reads_only tr tr'"
proof (induction ns arbitrary: tr r tr')
  case (Cons n ns)
  obtain i tr1 where i: "remote_inspect (de_list env) (de_one env) (de_exec env) tgt n tr = (i, tr1)" by (meson surj_pair)
  obtain rest tr2 where rest: "inspect_all env tgt server ns tr1 = (rest, tr2)" by (meson surj_pair)
  have "reads_only tr tr1" "reads_only tr1 tr2" using remote_inspect_reads[OF i] Cons.IH[OF rest] by auto
  then show ?case using Cons.prems i rest reads_only_trans[of tr tr1 tr2]
    by (cases i; cases rest) auto
qed simp

lemma select_reads:
  "selectDockerPlanContainers env tgt server arg tr = (r, tr') \<Longrightarrow> reads_only tr tr'"
  by (cases "remote_list (de_ps env) (de_exec env) tgt False tr")
    (auto simp: selectDockerPlanContainers_def Let_def dest: remote_list_reads split: if_splits sum.splits)

lemma probe_target_reads: "probe_target env name paths tr = (r, tr') \<Longrightarrow> reads_only tr tr'"
  by (auto simp: probe_target_def dest: remote_probe_reads split: if_splits sum.splits prod.splits)

lemma gather_reads:
  assumes "gather env fl tgt server arg tr0 = (r, tr)"
  shows "reads_only tr0 tr"
proof -
  obtain a t1 where a: "selectDockerPlanContainers env tgt server arg tr0 = (a, t1)" by (meson surj_pair)
  have 1: "reads_only tr0 t1" by (rule select_reads[OF a])
  show ?thesis
  proof (cases a)
    case (Inl e)
    then show ?thesis using assms a 1 by (simp add: gather_def)
  next
    case names: (Inr names)
    obtain b t2 where b: "inspect_all env tgt server names t1 = (b, t2)" by (meson surj_pair)
    have 2: "reads_only tr0 t2" by (rule reads_only_trans[OF 1 inspect_all_reads[OF b]])
    show ?thesis
    proof (cases b)
      case (Inl e)
      then show ?thesis using assms a b names 2 by (simp add: gather_def)
    next
      case evs: (Inr evs)
      obtain c t3 where c: "remote_probe (de_float env) (de_exec env) tgt \<lparr>po_paths = dockerPlanHostPaths evs, po_images = []\<rparr> t2 = (c, t3)"
        by (meson surj_pair)
      have 3: "reads_only tr0 t3" by (rule reads_only_trans[OF 2 remote_probe_reads[OF c]])
      obtain d t4 where d: "probe_target env (trim_space (pf_target fl)) (dockerPlanHostPaths evs) t3 = (d, t4)" by (meson surj_pair)
      have 4: "reads_only tr0 t4" by (rule reads_only_trans[OF 3 probe_target_reads[OF d]])
      show ?thesis using assms a b c d names evs 3 4 by (cases c; cases d) (auto simp: gather_def)
    qed
  qed
qed

lemma defaults_state: "dockerPlanBackupDefaults store repo pw js = (d, js1) \<Longrightarrow> js1 = snd (js_list store js)"
  by (auto simp: dockerPlanBackupDefaults_def Let_def split: prod.splits if_splits)

text \<open>The three ways in which the command ends: refused or failed before there is a plan, or with a plan that is emitted.\<close>

lemma run_plan_parts:
  assumes "runDockerPlan fl env server container fs js = out"
  obtains (stopped) e tr js1 where "out = \<lparr>po_plan = None, po_error = Some e, po_trace = tr, po_files = fs, po_jobs = js1\<rparr>"
      "reads_only [] tr" "js1 \<in> {js, snd (js_list (pe_jobs env) js)}"
    | (emitted) p tr found d js1 where "out = emit_plan fl env (trim_space server) (case container of None \<Rightarrow> [] | Some c \<Rightarrow> trim_space c) p tr fs js1"
      "reads_only [] tr" "js1 = snd (js_list (pe_jobs env) js)" "BuildPlan (plan_input fl env (trim_space server) found d) = Inr p"
proof -
  let ?arg = "case container of None \<Rightarrow> [] | Some c \<Rightarrow> trim_space c"
  show ?thesis
  proof (cases "validateDockerPlanFlags fl ?arg")
    case (Some e)
    then show ?thesis using assms by (intro stopped[of e "[]" js]) (auto simp: runDockerPlan_def Let_def)
  next
    case valid: None
    show ?thesis
    proof (cases "resolveDockerRemote (pe_docker env) (trim_space server)")
      case (Inl e)
      then show ?thesis using assms valid by (intro stopped[of e "[]" js]) (auto simp: runDockerPlan_def Let_def)
    next
      case tgt: (Inr tgt)
      obtain g tr where g: "gather (pe_docker env) fl tgt (trim_space server) ?arg [] = (g, tr)" by (meson surj_pair)
      obtain d js1 where d: "dockerPlanBackupDefaults (pe_jobs env) (pe_repository env) (pe_password env) js = (d, js1)"
        by (meson surj_pair)
      note facts = valid tgt g d gather_reads[OF g] defaults_state[OF d]
      show ?thesis
      proof (cases g)
        case (Inl e)
        then show ?thesis using assms facts by (intro stopped[of e tr js]) (auto simp: runDockerPlan_def Let_def)
      next
        case found: (Inr found)
        show ?thesis
        proof (cases "BuildPlan (plan_input fl env (trim_space server) found d)")
          case (Inl e)
          then show ?thesis using assms facts found by (intro stopped[of e tr js1]) (auto simp: runDockerPlan_def Let_def)
        next
          case (Inr p)
          then show ?thesis using assms facts found
            by (intro emitted[of p tr js1 found d]) (auto simp: runDockerPlan_def Let_def)
        qed
      qed
    qed
  qed
qed

lemma save_plan_files:
  assumes "saveDockerPlan fl env p server label fs = (r, fs')"
  shows "fs' = fs \<or> (\<not> pf_no_save fl \<and> (\<exists>q. fs q = None \<and> (\<forall>x. x \<noteq> q \<longrightarrow> fs' x = fs x)))"
proof (cases "pf_no_save fl")
  case True
  then show ?thesis using assms by (simp add: saveDockerPlan_def)
next
  case False
  then obtain path e where s: "Save (pe_show_yaml env) (pe_save env) path (Some p) fs = (e, fs')"
    using assms by (auto simp: saveDockerPlan_def Let_def split: prod.splits option.splits)
  show ?thesis
  proof (cases "fs (trim_space path)")
    case None
    then show ?thesis using plan_save_exclusive[OF s] False by blast
  next
    case (Some c)
    then show ?thesis using plan_save_exclusive[OF s] by simp
  qed
qed

definition consented :: "plan_flags \<Rightarrow> 'j plan_cmd_env \<Rightarrow> bool" where
  "consented fl env \<longleftrightarrow> pf_write_config fl
     \<and> (pf_yes fl \<or> op_interactive (pe_operator env)
          \<and> (\<exists>n. promptConfirm (op_types (pe_operator env) (write_prompt n (pe_jobs_file env))) False))"

lemma write_config_state:
  assumes "writeDockerPlanBackupConfig fl env p js = (e, js')" "pf_write_config fl" "\<not> consented fl env"
  shows "js' = snd (js_list (pe_jobs env) js)"
proof -
  have g: "write_gate fl env n \<noteq> None" for n
    using assms(2,3) by (auto simp: write_gate_def confirmGate_def consented_def)
  obtain d js1 where d: "dockerPlanBackupDefaults (pe_jobs env) (pe_repository env) (pe_password env) js = (d, js1)"
    by (meson surj_pair)
  show ?thesis
  proof (cases "dockerPlanBackupJobs p d")
    case (Inl e)
    then show ?thesis using assms(1) d defaults_state[OF d] by (simp add: writeDockerPlanBackupConfig_def)
  next
    case (Inr jobs)
    obtain e where "write_gate fl env (length jobs) = Some e" using g by blast
    then show ?thesis using assms(1) d defaults_state[OF d] Inr by (simp add: writeDockerPlanBackupConfig_def)
  qed
qed

lemma proposed_jobs_eq:
  "proposed_jobs ss env =
     (case find (\<lambda>c. trim_space (bp_backend c) = []) (List.map_filter sp_backup ss) of
        Some c \<Rightarrow> Inl (errors_new (utf8 [0x65E0, 0x6CD5, 0x5199, 0x5165, 0x5907, 0x4EFD, 0x4F5C, 0x4E1A] @ '' '' @ go_quote (bp_job c) @ utf8 [0xFF1A] @ ''backups.yaml '' @ utf8 [0x4E2D, 0x6CA1, 0x6709, 0x53EF, 0x7EE7, 0x627F, 0x7684] @ '' restic '' @ utf8 [0x4ED3, 0x5E93, 0xFF0C, 0x4E14, 0x672A, 0x8BBE, 0x7F6E] @ '' RESTIC_REPOSITORY'' @ utf8 [0xFF1B, 0x8BF7, 0x5148, 0x914D, 0x7F6E, 0x4ED3, 0x5E93]))
      | None \<Rightarrow> Inr (map (\<lambda>c. (proposed_job c env, bp_exists c)) (List.map_filter sp_backup ss)))"
  by (induction ss) (auto simp: List.map_filter_simps split: option.splits)

section \<open>The plan command only reads\<close>

text \<open>C27. Planning looks at the hosts with the list, inspect and probe scripts and runs nothing else on them. It leaves every
  existing file as it is and creates at most the plan file. The job store is written only with \<open>--write-config\<close>, and then
  only if \<open>--yes\<close> was given or an operator at a terminal answered yes; without that the store has been listed at most twice.\<close>

theorem plan_command_reads_only:
  assumes "runDockerPlan fl env server container fs js = out" "listed = (\<lambda>s. snd (js_list (pe_jobs env) s))"
  shows "(\<forall>x\<in>set (po_trace out). read_only_step x)
    \<and> (\<forall>q c. fs q = Some c \<longrightarrow> po_files out q = Some c)
    \<and> (po_files out = fs \<or> (\<not> pf_no_save fl \<and> (\<exists>q. fs q = None \<and> (\<forall>x. x \<noteq> q \<longrightarrow> po_files out x = fs x))))
    \<and> (\<not> consented fl env \<longrightarrow> po_jobs out \<in> {js, listed js, listed (listed js)})"
  using assms(1)
proof (cases rule: run_plan_parts)
  case (stopped e tr js1)
  then show ?thesis by (auto simp: reads_only_def list_all_iff assms(2))
next
  case (emitted p tr found d js1)
  let ?arg = "case container of None \<Rightarrow> [] | Some c \<Rightarrow> trim_space c"
  obtain r fs1 where s: "saveDockerPlan fl env p (trim_space server) (dockerPlanLabel ?arg) fs = (r, fs1)" by (meson surj_pair)
  obtain e js2 where w: "writeDockerPlanBackupConfig fl env p js1 = (e, js2)" by (meson surj_pair)
  have o: "po_trace out = tr" "po_files out = fs \<or> po_files out = fs1" "po_jobs out = js1 \<or> (pf_write_config fl \<and> po_jobs out = js2)"
    unfolding emitted(1) emit_plan_def using s w by (auto split: option.splits sum.splits)
  have f: "po_files out = fs \<or> (\<not> pf_no_save fl \<and> (\<exists>q. fs q = None \<and> (\<forall>x. x \<noteq> q \<longrightarrow> po_files out x = fs x)))"
    using o(2) save_plan_files[OF s] by auto
  then have "\<forall>q c. fs q = Some c \<longrightarrow> po_files out q = Some c" by (metis option.distinct(1))
  moreover have "po_jobs out \<in> {js, listed js, listed (listed js)}" if "\<not> consented fl env"
    using o(3) write_config_state[OF w _ that] emitted(3) by (auto simp: assms(2))
  moreover have "\<forall>x\<in>set (po_trace out). read_only_step x" using emitted(2) o(1) by (auto simp: reads_only_def list_all_iff)
  ultimately show ?thesis using f by blast
qed

text \<open>The exit code of the health command is the verdict of its report in text mode only: with \<open>--json\<close> the document is
  written and the command succeeds, whatever failed.\<close>

lemma health_json_exit_zero:
  assumes "Load read_yaml read path = Inr p" "pn_services p \<noteq> []" "trim_space server \<noteq> []"
    and "probeServiceHealth env (trim_space server) (HealthTargets (Some p)) [] = (Inr r, tr)" "FailedServices r \<noteq> []"
  shows "hx_error (runDockerHealth env read_yaml read False server None path) \<noteq> None
    \<and> hx_error (runDockerHealth env read_yaml read True server None path) = None
    \<and> (\<exists>d. hx_document (runDockerHealth env read_yaml read True server None path) = Some d \<and> \<not> hd_healthy d)"
  using assms by (simp add: runDockerHealth_def Let_def dockerHealthJSONDocument_def)

lemma health_probe_reads:
  assumes "probeServiceHealth env s ts [] = (r, tr)"
  shows "\<forall>x\<in>set tr. read_only_step x"
proof -
  have "reads_only [] tr" using assms
    by (auto simp: probeServiceHealth_def dest: remote_health_reads split: if_splits sum.splits)
  then show ?thesis by (auto simp: reads_only_def list_all_iff)
qed

lemma health_command_reads_only:
  "\<forall>x\<in>set (hx_trace (runDockerHealth env read_yaml read json server stdout path)). read_only_step x"
proof (cases "Load read_yaml read path")
  case (Inl e)
  then show ?thesis by (simp add: runDockerHealth_def)
next
  case (Inr p)
  define s where "s = (if trim_space server = [] then trim_space (ep_server (pn_target p)) else trim_space server)"
  obtain r tr where h: "probeServiceHealth env s (HealthTargets (Some p)) [] = (r, tr)" by (meson surj_pair)
  have "hx_trace (runDockerHealth env read_yaml read json server stdout path) \<in> {[], tr}"
    using h Inr by (cases r) (simp_all add: runDockerHealth_def Let_def s_def[symmetric])
  then show ?thesis using health_probe_reads[OF h] by (metis empty_iff empty_set insertE)
qed

section \<open>Witness\<close>

lemma resolve_local: "resolveDockerRemote env ''local'' = Inr NewLocalTarget"
  by (simp add: resolveDockerRemote_def ResolveTarget_def)

lemma single_container_plan:
  assumes "trim_space (bi_source bi) \<noteq> []" "bi_containers bi = [(Some i, Some (Analyze i))]" "trim_space (bi_health_url bi) = []"
  shows "\<exists>p. BuildPlan bi = Inr p"
proof -
  obtain n where j: "jobNames [(Some i, Some (Analyze i))] = [n]" by (simp add: jobNames_def Let_def)
  obtain s where "buildService (Some i, Some (Analyze i)) n bi = Inr s" by (simp add: buildService_def Let_def)
  moreover have "buildPlanHealth bi = Inr None" by (simp add: buildPlanHealth_def assms(3))
  ultimately show ?thesis using assms(1,2) j by (simp add: BuildPlan_def Let_def)
qed

definition answering_env :: "raw_container \<Rightarrow> docker_env" where
  "answering_env raw =
     \<lparr>de_server = (\<lambda>n. Inl (errors_new ''none'')),
      de_exec = (\<lambda>tr t task s. (Some \<lparr>er_success = True, er_exit = 0, er_duration = 1, er_error = None\<rparr>, None, ''[]'')),
      de_float = (\<lambda>s. None), de_ps = (\<lambda>s. Inl (errors_new ''none'')), de_list = (\<lambda>s. Inr [raw]), de_one = (\<lambda>s. Inr raw)\<rparr>"

definition answering_plan_env :: "raw_container \<Rightarrow> nat plan_cmd_env" where
  "answering_plan_env raw =
     \<lparr>pe_docker = answering_env raw,
      pe_jobs = \<lparr>js_get = (\<lambda>n k. (Inl (errors_new ''none''), k)), js_list = (\<lambda>k. (Inr [], k)), js_save = (\<lambda>j k. (Inr (), k + 1))\<rparr>,
      pe_repository = ''/repo'', pe_password = [], pe_version = ''1'', pe_now = [], pe_dir = ''/etc/ops'', pe_stamp = ''now'',
      pe_show_yaml = (\<lambda>p. Inr ''y''), pe_read_yaml = (\<lambda>t. Inl (errors_new ''none'')), pe_save = no_trouble, pe_stdout = None,
      pe_operator = \<lparr>op_interactive = True, op_types = (\<lambda>q. Some ''no'')\<rparr>, pe_jobs_file = ''backups.yaml''\<rparr>"

definition careful_flags :: plan_flags where
  "careful_flags = \<lparr>pf_all = False, pf_target = [], pf_save = ''a.yaml'', pf_no_save = False, pf_json = False, pf_write_config = True,
     pf_yes = False, pf_health_url = []\<rparr>"

definition bare_raw :: raw_container where
  "bare_raw =
     \<lparr>rc_id = ''1'', rc_name = ''/web'', rc_image = ''nginx'', rc_cmd = [], rc_entrypoint = [], rc_env = [], rc_workdir = [],
      rc_labels = [], rc_health = None, rc_restart = [], rc_bindings = [], rc_binds = [], rc_network = [], rc_privileged = False,
      rc_cap_add = [], rc_cap_drop = [], rc_devices = [], rc_mounts = []\<rparr>"

lemma bare_host_paths: "HostPaths (Analyze (info_of_raw bare_raw)) = []"
proof -
  have "ci_mounts (info_of_raw bare_raw) = []" "trim_space (ComposeWorkingDir (info_of_raw bare_raw)) = []"
    by (simp_all add: info_of_raw_def bare_raw_def ComposeWorkingDir_def label_value_def)
  then have "set (HostPaths (Analyze (info_of_raw bare_raw))) = {}" using analysis_accounts_for_mounts by auto
  then show ?thesis by simp
qed

text \<open>Asked and answered with no: the plan file is there, the job store is as before.\<close>

theorem plan_command_reads_only_witness:
  "\<exists>out. runDockerPlan careful_flags (answering_plan_env bare_raw) ''local'' (Some ''web'') Map.empty (7::nat) = out
     \<and> po_plan out \<noteq> None \<and> po_jobs out = 7 \<and> po_trace out \<noteq> [] \<and> (\<forall>x\<in>set (po_trace out). read_only_step x)
     \<and> (\<exists>q. \<forall>x. x \<noteq> q \<longrightarrow> po_files out x = None)"
proof -
  let ?env = "answering_plan_env bare_raw" and ?d = "answering_env bare_raw" and ?i = "info_of_raw bare_raw"
  obtain out where out: "runDockerPlan careful_flags ?env ''local'' (Some ''web'') Map.empty (7::nat) = out" by blast
  have t: "trim_space ''local'' = ''local''" "trim_space ''web'' = ''web''" "trim_space ''a.yaml'' = ''a.yaml''"
    "trim_space ''no'' = ''no''" "\<not> equal_fold ''no'' ''y''" "\<not> equal_fold ''no'' ''yes''" "trim_space ''[]'' = ''[]''" "has_prefix ''[]'' ''[''"
    by code_simp+
  have i: "remote_inspect (de_list ?d) (de_one ?d) (de_exec ?d) NewLocalTarget ''web'' []
      = (Inr ?i, [(NewLocalTarget, ''docker-inspect'', BuildInspectScript ''web'')])"
    by (simp add: remote_inspect_def answering_env_def t dockerMissingSentinel_def unsuccessful_def ParseInspectJSON_def Let_def)
  have p: "\<exists>r. remote_probe (de_float ?d) (de_exec ?d) NewLocalTarget \<lparr>po_paths = [], po_images = []\<rparr> tr
      = (Inr r, tr @ [(NewLocalTarget, ''docker-capability-probe'', probeScriptHead @ path_loop [] @ image_loop [] @ probeScriptTail)])" for tr
    by (simp add: remote_probe_def BuildProbeScript_def answering_env_def unsuccessful_def Let_def)
  have h: "dockerPlanHostPaths [(Some ?i, Some (Analyze ?i))] = []" by (simp add: dockerPlanHostPaths_def bare_host_paths)
  have fl: "pf_target careful_flags = []" "pf_all careful_flags = False" "pf_no_save careful_flags = False" "pf_health_url careful_flags = []"
    by (simp_all add: careful_flags_def)
  obtain r tr where g: "gather ?d careful_flags NewLocalTarget ''local'' ''web'' [] = (Inr ([(Some ?i, Some (Analyze ?i))], r, None), tr)" "tr \<noteq> []"
    using i h p[of "[(NewLocalTarget, ''docker-inspect'', BuildInspectScript ''web'')]"]
    by (auto simp: gather_def selectDockerPlanContainers_def probe_target_def fl)
  have e: "pe_docker ?env = ?d" by (simp add: answering_plan_env_def)
  obtain d where d: "dockerPlanBackupDefaults (pe_jobs ?env) (pe_repository ?env) (pe_password ?env) (7::nat) = (d, 7)"
    by (auto simp: dockerPlanBackupDefaults_def answering_plan_env_def Let_def)
  obtain q where q: "BuildPlan (plan_input careful_flags ?env ''local'' ([(Some ?i, Some (Analyze ?i))], r, None) d) = Inr q"
    using single_container_plan[of "plan_input careful_flags ?env ''local'' ([(Some ?i, Some (Analyze ?i))], r, None) d" ?i]
    by (auto simp: plan_input_def fl t)
  have o: "out = emit_plan careful_flags ?env ''local'' ''web'' q tr Map.empty 7"
    using out by (simp add: runDockerPlan_def t e resolve_local g d q validateDockerPlanFlags_def fl Let_def)
  have "po_plan out = Some q" "po_trace out = tr"
    by (auto simp: o emit_plan_def split: option.splits sum.splits prod.splits)
  moreover have "\<not> consented careful_flags ?env"
    by (simp add: consented_def careful_flags_def answering_plan_env_def promptConfirm_def t)
  moreover have "js_list (pe_jobs ?env) k = (Inr [], k)" for k by (simp add: answering_plan_env_def)
  ultimately show ?thesis
    using plan_command_reads_only[OF out refl] out g(2) by (intro exI[of _ out]) auto
qed

end
