(* ===== verification/DockerApply.thy ===== *)
theory DockerApply
  imports DockerCmd RestoreAudit
begin

text \<open>
  \<open>cmd/opspulse/docker_apply.go\<close>: a saved plan is checked against the live hosts, and the services without a blocker are
  migrated one after the other, by a container backup on the source and a restore on the target. The backup and the
  restore are those of \<open>ContainerBackup\<close> and \<open>RestoreRunner\<close>; both append to one trace, and the executor answers
  according to it. A migrator, an interface in the code, is a function of the trace and of a state of the stores.
\<close>

section \<open>Single scripts\<close>

record apply_env =
  ae_docker :: docker_env
  ae_manifest :: "string \<Rightarrow> manifest res"
  ae_read_compose :: "string \<Rightarrow> (string \<times> yaml) list res"
  ae_show_compose :: "(string \<times> yaml) list \<Rightarrow> string res"

definition ae_exec :: "apply_env \<Rightarrow> remote_exec" where
  "ae_exec env = de_exec (ae_docker env)"

definition runApplyScript :: "remote_exec \<Rightarrow> target \<Rightarrow> string \<Rightarrow> string \<Rightarrow> executed \<Rightarrow> go_error option \<times> executed" where
  "runApplyScript exec tgt name script tr =
     (let tr1 = tr @ [(tgt, name, script)]
      in case exec tr tgt name script of
           (res, Some e, out) \<Rightarrow> (Some e, tr1)
         | (res, None, out) \<Rightarrow>
             (case unsuccessful res of
                None \<Rightarrow> (None, tr1)
              | Some x \<Rightarrow>
                  (case er_error x of
                     Some e \<Rightarrow> (Some e, tr1)
                   | None \<Rightarrow> (Some (errors_new (utf8 [0x8FDC, 0x7A0B, 0x547D, 0x4EE4] @ '' '' @ name @ '' '' @ utf8 [0x9000, 0x51FA, 0x7801] @ '' '' @ show_int (er_exit x))), tr1))))"

definition readApplyTextFile :: "remote_exec \<Rightarrow> target \<Rightarrow> string \<Rightarrow> executed \<Rightarrow> string res \<times> executed" where
  "readApplyTextFile exec tgt remotePath tr =
     (let script = ''cat '' @ quote remotePath; tr1 = tr @ [(tgt, ''apply-read'', script)]
      in case exec tr tgt ''apply-read'' script of
           (res, Some e, out) \<Rightarrow> (Inl e, tr1)
         | (res, None, out) \<Rightarrow>
             (case unsuccessful res of
                None \<Rightarrow> (Inr out, tr1)
              | Some x \<Rightarrow> (Inl (errors_new (utf8 [0x8BFB, 0x53D6] @ '' '' @ remotePath @ '' '' @ utf8 [0x5931, 0x8D25, 0xFF08] @ ''exit '' @ show_int (er_exit x) @ utf8 [0xFF09])), tr1)))"

definition writeApplyTextFile :: "remote_exec \<Rightarrow> target \<Rightarrow> string \<Rightarrow> string \<Rightarrow> executed \<Rightarrow> go_error option \<times> executed" where
  "writeApplyTextFile exec tgt remotePath content tr =
     runApplyScript exec tgt ''apply-write'' (write_script (path_dir remotePath) content remotePath) tr"

fun first_manifest ::
    "(string \<Rightarrow> manifest res) \<Rightarrow> remote_exec \<Rightarrow> target \<Rightarrow> string list \<Rightarrow> executed \<Rightarrow> manifest option \<times> executed" where
  "first_manifest parse_yaml exec tgt [] tr = (None, tr)"
| "first_manifest parse_yaml exec tgt (p # ps) tr =
     (case readApplyTextFile exec tgt p tr of
        (Inl e, tr1) \<Rightarrow> first_manifest parse_yaml exec tgt ps tr1
      | (Inr raw, tr1) \<Rightarrow>
          (if trim_space raw = [] then first_manifest parse_yaml exec tgt ps tr1
           else (case UnmarshalManifest parse_yaml raw of
                   Inl e \<Rightarrow> first_manifest parse_yaml exec tgt ps tr1
                 | Inr m \<Rightarrow> (Some m, tr1))))"

definition readApplyManifest ::
    "(string \<Rightarrow> manifest res) \<Rightarrow> remote_exec \<Rightarrow> target \<Rightarrow> string \<Rightarrow> executed \<Rightarrow> manifest option \<times> executed" where
  "readApplyManifest parse_yaml exec tgt projectDir tr =
     first_manifest parse_yaml exec tgt [ManifestPath projectDir, LegacyManifestPath projectDir] tr"

definition applyComposeUpScript :: "string \<Rightarrow> string \<Rightarrow> string \<Rightarrow> string" where
  "applyComposeUpScript projectDir composeFile projectName =
     lines_text
     [''set -e'',
      ''if docker compose version >/dev/null 2>&1; then'',
      ''  COMPOSE=\"docker compose\"'',
      ''elif command -v docker-compose >/dev/null 2>&1; then'',
      ''  COMPOSE=\"docker-compose\"'',
      ''else'',
      ''  echo \"Error: docker compose not found\" >&2'',
      ''  exit 127'',
      ''fi'',
      ''cd '' @ quote projectDir,
      ''export COMPOSE_PROJECT_NAME='' @ quote projectName,
      ''$COMPOSE -f '' @ quote composeFile @ '' up -d'']"

definition composeServiceKey :: "service_plan \<Rightarrow> string \<Rightarrow> string" where
  "composeServiceKey s alias_name =
     (if sp_mode s = ModeCompose \<and> trim_space (sp_compose_service s) \<noteq> [] then sp_compose_service s
      else SanitizeServiceName alias_name)"

section \<open>The edits on the target\<close>

definition planned_dir :: "service_plan \<Rightarrow> string" where
  "planned_dir s =
     (let d = trim_space (sc_working_dir (sp_config s)) in if d = [] then path_dir (sc_compose_file (sp_config s)) else d)"

definition planned_file :: "service_plan \<Rightarrow> string" where
  "planned_file s =
     (let f = path_base (sc_compose_file (sp_config s)) in if f = [] \<or> f = ''.'' then ''compose.yaml'' else f)"

definition move_script :: "string \<Rightarrow> string \<Rightarrow> string" where
  "move_script old new =
     line ''set -e'' @ line (''if [ -e '' @ quote new @ '' ]; then echo '' @ [squote] @ utf8 [0x76EE, 0x6807, 0x76EE, 0x5F55, 0x5DF2, 0x5B58, 0x5728, 0xFF0C, 0x62D2, 0x7EDD, 0x8986, 0x76D6] @ [squote] @ '' >&2; exit 1; fi'')
     @ line (''mkdir -p '' @ quote (path_dir new)) @ line (''mv '' @ quote old @ '' '' @ quote new)"

text \<open>Each step returns the error that ends the run; the first one also the directory that the next ones use.\<close>

definition move_project ::
    "remote_exec \<Rightarrow> target \<Rightarrow> service_plan \<Rightarrow> service_adjustment \<Rightarrow> executed \<Rightarrow> string res \<times> executed" where
  "move_project exec tgt s ad tr =
     (let dir = planned_dir s
      in if dir = [] \<or> dir = ''.'' then (Inl (errors_new (''plan '' @ utf8 [0x7F3A, 0x5C11] @ '' Compose '' @ utf8 [0x9879, 0x76EE, 0x76EE, 0x5F55, 0xFF0C, 0x65E0, 0x6CD5, 0x6267, 0x884C, 0x76EE, 0x6807, 0x673A, 0x8C03, 0x6574])), tr)
         else if ad_project ad = [] \<or> ad_project ad = dir then (Inr dir, tr)
         else (case runApplyScript exec tgt (''apply-move-project-'' @ sp_name s) (move_script dir (ad_project ad)) tr of
                 (Some e, tr1) \<Rightarrow> (Inl (wrap (utf8 [0x79FB, 0x52A8, 0x9879, 0x76EE, 0x76EE, 0x5F55, 0x5230] @ '' '' @ ad_project ad @ '' '' @ utf8 [0x5931, 0x8D25] @ '': '') e []), tr1)
               | (None, tr1) \<Rightarrow> (Inr (ad_project ad), tr1)))"

definition rewrite_compose ::
    "apply_env \<Rightarrow> target \<Rightarrow> service_plan \<Rightarrow> service_adjustment \<Rightarrow> string \<Rightarrow> string \<Rightarrow> executed \<Rightarrow> go_error option \<times> executed" where
  "rewrite_compose env tgt s ad alias_name dir tr =
     (if ad_ports ad = None \<and> ad_binds ad = [] then (None, tr)
      else (let cpath = path_join [dir, planned_file s]
            in case readApplyTextFile (ae_exec env) tgt cpath tr of
                 (Inl e, tr1) \<Rightarrow> (Some (wrap (utf8 [0x8BFB, 0x53D6, 0x76EE, 0x6807, 0x673A] @ '' Compose '' @ utf8 [0x6587, 0x4EF6] @ '' '' @ cpath @ '' '' @ utf8 [0x5931, 0x8D25] @ '': '') e []), tr1)
               | (Inr raw, tr1) \<Rightarrow>
                   (case OverrideCompose (ae_read_compose env) (ae_show_compose env) raw (composeServiceKey s alias_name)
                           \<lparr>ov_ports = ad_ports ad, ov_binds = ad_binds ad\<rparr> of
                      Inl e \<Rightarrow> (Some (wrap (utf8 [0x6309] @ '' plan '' @ utf8 [0x91CD, 0x5199] @ '' Compose '' @ utf8 [0x6587, 0x4EF6, 0x5931, 0x8D25] @ '': '') e []), tr1)
                    | Inr updated \<Rightarrow>
                        (case writeApplyTextFile (ae_exec env) tgt cpath updated tr1 of
                           (Some e, tr2) \<Rightarrow> (Some (wrap (utf8 [0x5199, 0x56DE, 0x76EE, 0x6807, 0x673A] @ '' Compose '' @ utf8 [0x6587, 0x4EF6, 0x5931, 0x8D25] @ '': '') e []), tr2)
                         | (None, tr2) \<Rightarrow> (None, tr2)))))"

fun apply_volumes ::
    "remote_exec \<Rightarrow> target \<Rightarrow> manifest \<Rightarrow> string \<Rightarrow> nat \<Rightarrow> manifest_volume list \<Rightarrow> executed \<Rightarrow> go_error option \<times> executed" where
  "apply_volumes exec tgt m dir i [] tr = (None, tr)"
| "apply_volumes exec tgt m dir i (v # vs) tr =
     (if mv_archive v = [] then apply_volumes exec tgt m dir (i + 1) vs tr
      else (case ResolveVolumeArchive m dir (int i) of
              Inl e \<Rightarrow> (Some (wrap (''manifest '' @ utf8 [0x4E2D, 0x7684] @ '' named volume '' @ utf8 [0x8DEF, 0x5F84, 0x975E, 0x6CD5] @ '': '') e []), tr)
            | Inr archive \<Rightarrow>
                (case runApplyScript exec tgt (''apply-volume-'' @ mv_name v) (BuildVolumeImportScript (mv_name v) archive) tr of
                   (Some e, tr1) \<Rightarrow> (Some (wrap (utf8 [0x5BFC, 0x5165] @ '' named volume '' @ go_quote (mv_name v) @ '' '' @ utf8 [0x5931, 0x8D25] @ '': '') e []), tr1)
                 | (None, tr1) \<Rightarrow> apply_volumes exec tgt m dir (i + 1) vs tr1)))"

definition compose_up :: "remote_exec \<Rightarrow> target \<Rightarrow> service_plan \<Rightarrow> string \<Rightarrow> string \<Rightarrow> executed \<Rightarrow> go_error option \<times> executed" where
  "compose_up exec tgt s alias_name dir tr =
     (case runApplyScript exec tgt (''apply-compose-up-'' @ sp_name s) (applyComposeUpScript dir (planned_file s) alias_name) tr of
        (Some e, tr1) \<Rightarrow> (Some (wrap (utf8 [0x5728, 0x76EE, 0x6807, 0x673A, 0x542F, 0x52A8] @ '' Compose '' @ utf8 [0x9879, 0x76EE, 0x5931, 0x8D25] @ '': '') e []), tr1)
      | (None, tr1) \<Rightarrow> (None, tr1))"

definition import_database ::
    "remote_exec \<Rightarrow> target \<Rightarrow> service_plan \<Rightarrow> string \<Rightarrow> string \<Rightarrow> manifest \<Rightarrow> executed \<Rightarrow> go_error option \<times> executed" where
  "import_database exec tgt s alias_name dir m tr =
     (case mf_database m of
        None \<Rightarrow> (None, tr)
      | Some d \<Rightarrow>
          (if md_dump d = [] then (None, tr)
           else (let container = (if md_container d = [] \<or> md_container d = mf_app m then alias_name else md_container d)
                 in case ResolveDatabaseDump m dir of
                      Inl e \<Rightarrow> (Some (wrap (''manifest '' @ utf8 [0x4E2D, 0x7684, 0x6570, 0x636E, 0x5E93, 0x5BFC, 0x51FA, 0x8DEF, 0x5F84, 0x975E, 0x6CD5] @ '': '') e []), tr)
                    | Inr dump \<Rightarrow>
                        (case BuildImportScript (md_engine d) container dump of
                           Inl e \<Rightarrow> (Some (wrap (utf8 [0x6784, 0x5EFA, 0x6570, 0x636E, 0x5E93, 0x5BFC, 0x5165, 0x811A, 0x672C, 0x5931, 0x8D25] @ '': '') e []), tr)
                         | Inr script \<Rightarrow>
                             (case runApplyScript exec tgt (''apply-import-db-'' @ sp_name s) script tr of
                                (Some e, tr1) \<Rightarrow> (Some (wrap (utf8 [0x5BFC, 0x5165, 0x6570, 0x636E, 0x5E93, 0x5931, 0x8D25] @ '': '') e []), tr1)
                              | (None, tr1) \<Rightarrow> (None, tr1))))))"

definition apply_manifest_volumes ::
    "remote_exec \<Rightarrow> target \<Rightarrow> string \<Rightarrow> manifest option \<Rightarrow> executed \<Rightarrow> go_error option \<times> executed" where
  "apply_manifest_volumes exec tgt dir mo tr =
     (case mo of None \<Rightarrow> (None, tr) | Some m \<Rightarrow> apply_volumes exec tgt m dir 0 (mf_volumes m) tr)"

text \<open>The steps from a known target on.\<close>

definition adjust_target ::
    "apply_env \<Rightarrow> target \<Rightarrow> service_plan \<Rightarrow> service_adjustment \<Rightarrow> string \<Rightarrow> executed \<Rightarrow> go_error option \<times> executed" where
  "adjust_target env tgt s ad alias_name tr =
     (case move_project (ae_exec env) tgt s ad tr of
        (Inl e, tr1) \<Rightarrow> (Some e, tr1)
      | (Inr dir, tr1) \<Rightarrow>
     (case rewrite_compose env tgt s ad alias_name dir tr1 of
        (Some e, tr2) \<Rightarrow> (Some e, tr2)
      | (None, tr2) \<Rightarrow>
     (case readApplyManifest (ae_manifest env) (ae_exec env) tgt dir tr2 of
        (mo, tr3) \<Rightarrow>
     (case apply_manifest_volumes (ae_exec env) tgt dir mo tr3 of
        (Some e, tr4) \<Rightarrow> (Some e, tr4)
      | (None, tr4) \<Rightarrow>
     (case compose_up (ae_exec env) tgt s alias_name dir tr4 of
        (Some e, tr5) \<Rightarrow> (Some e, tr5)
      | (None, tr5) \<Rightarrow>
          (case mo of None \<Rightarrow> (None, tr5) | Some m \<Rightarrow> import_database (ae_exec env) tgt s alias_name dir m tr5))))))"

definition applyTargetAdjustment ::
    "apply_env \<Rightarrow> (string \<Rightarrow> 'b \<Rightarrow> server res \<times> 'b) \<Rightarrow> plan \<Rightarrow> service_plan \<Rightarrow> service_adjustment \<Rightarrow> string \<Rightarrow> executed \<Rightarrow> 'b
     \<Rightarrow> go_error option \<times> executed \<times> 'b" where
  "applyTargetAdjustment env servers p s ad alias_name tr b =
     (case ResolveTarget (Some servers) (ep_server (pn_target p)) b of
        (Inl e, b1) \<Rightarrow> (Some e, tr, b1)
      | (Inr tgt, b1) \<Rightarrow> (case adjust_target env tgt s ad alias_name tr of (e, tr1) \<Rightarrow> (e, tr1, b1)))"

section \<open>The engine\<close>

record ('a, 'b, 'j, 's, 'r) engine =
  en_open :: "go_error option"
  en_servers :: "string \<Rightarrow> 'b \<Rightarrow> server res \<times> 'b"
  en_jobs :: "'j job_store"
  en_asset_get :: "string \<Rightarrow> 'a \<Rightarrow> asset res \<times> 'a"
  en_asset_save :: "asset \<Rightarrow> 'a \<Rightarrow> unit res \<times> 'a"
  en_backups :: "'s recorder"
  en_restores :: "'r restore_recorder"
  en_backup_env :: container_env
  en_restore_env :: restore_env
  en_confirm :: "string list \<Rightarrow> go_error option"

record ('a, 'b, 'j, 's, 'r) engine_state =
  es_assets :: 'a
  es_servers :: 'b
  es_jobs :: 'j
  es_backups :: 's
  es_restores :: 'r

definition engine_backup ::
    "(nat \<Rightarrow> bool) \<Rightarrow> apply_env \<Rightarrow> ('a, 'b, 'j, 's, 'r) engine \<Rightarrow> plan \<Rightarrow> service_plan \<Rightarrow> executed \<Rightarrow> ('a, 'b, 'j, 's, 'r) engine_state
     \<Rightarrow> container_result res \<times> executed \<times> ('a, 'b, 'j, 's, 'r) engine_state" where
  "engine_backup uc env en p s tr st =
     (case RunContainerBackup uc
             \<lparr>cr_allow_untracked = False, cr_repo = Some (en_backups en), cr_servers = Some (en_servers en),
              cr_jobs = Some (en_jobs en), cr_asset_save = Some (en_asset_save en)\<rparr>
             ((en_backup_env en)\<lparr>ce_exec := (\<lambda>x. ae_exec env (tr @ x))\<rparr>)
             \<lparr>co_server = ep_server (pn_source p), co_container = sp_container s, co_alias = ApplyAlias s, co_confirm = Some (en_confirm en)\<rparr>
             \<lparr>cx_assets = es_assets st, cx_servers = es_servers st, cx_jobs = es_jobs st, cx_db = es_backups st\<rparr> of
        (r, ex, cx) \<Rightarrow>
          (r, tr @ ex, st\<lparr>es_assets := cx_assets cx, es_servers := cx_servers cx, es_jobs := cx_jobs cx, es_backups := cx_db cx\<rparr>))"

definition engine_restore ::
    "(nat \<Rightarrow> bool) \<Rightarrow> apply_env \<Rightarrow> ('a, 'b, 'j, 's, 'r) engine \<Rightarrow> plan \<Rightarrow> job \<Rightarrow> string \<Rightarrow> string \<Rightarrow> start_policy \<Rightarrow> executed
     \<Rightarrow> ('a, 'b, 'j, 's, 'r) engine_state \<Rightarrow> go_error option \<times> executed \<times> ('a, 'b, 'j, 's, 'r) engine_state" where
  "engine_restore uc env en p j snapshot alias_name policy tr st =
     (case restore_runner_run uc
             \<lparr>rv_repo = Some (en_restores en), rv_assets = Some (en_asset_get en), rv_servers = Some (en_servers en)\<rparr>
             ((en_restore_env en)\<lparr>ve_exec := (\<lambda>x. ae_exec env (tr @ x)), ve_manifest := ae_manifest env, ve_ps := de_ps (ae_docker env)\<rparr>)
             j
             \<lparr>ro_snapshot = snapshot, ro_server = ep_server (pn_target p), ro_path = [], ro_asset = [], ro_dry_run = False,
              ro_policy = Some policy, ro_alias = alias_name, ro_allow_untracked = False\<rparr>
             \<lparr>st_assets = es_assets st, st_servers = es_servers st, st_db = es_restores st\<rparr> of
        (rep, e, ex, rs) \<Rightarrow>
          (e, tr @ ex, st\<lparr>es_assets := st_assets rs, es_servers := st_servers rs, es_restores := st_db rs\<rparr>))"

text \<open>From the job that the backup wrote on.\<close>

definition engine_continue ::
    "(nat \<Rightarrow> bool) \<Rightarrow> apply_env \<Rightarrow> ('a, 'b, 'j, 's, 'r) engine \<Rightarrow> plan \<Rightarrow> service_plan \<Rightarrow> job \<Rightarrow> string \<Rightarrow> executed
     \<Rightarrow> ('a, 'b, 'j, 's, 'r) engine_state \<Rightarrow> go_error option \<times> executed \<times> ('a, 'b, 'j, 's, 'r) engine_state" where
  "engine_continue uc env en p s j snapshot tr st =
     (let ad = Adjustments s; alias_name = ApplyAlias s
      in if \<not> adjustment_any ad
         then (case engine_restore uc env en p j snapshot alias_name StartPolicyStart tr st of
                 (Some e, tr1, st1) \<Rightarrow> (Some (wrap (utf8 [0x76EE, 0x6807, 0x673A, 0x6062, 0x590D, 0x5931, 0x8D25] @ '': '') e []), tr1, st1)
               | (None, tr1, st1) \<Rightarrow> (None, tr1, st1))
         else (case engine_restore uc env en p j snapshot alias_name StartPolicyNoStart tr st of
                 (Some e, tr1, st1) \<Rightarrow> (Some (wrap (utf8 [0x76EE, 0x6807, 0x673A, 0x6587, 0x4EF6, 0x6062, 0x590D, 0x5931, 0x8D25] @ '': '') e []), tr1, st1)
               | (None, tr1, st1) \<Rightarrow>
                   (case applyTargetAdjustment env (en_servers en) p s ad alias_name tr1 (es_servers st1) of
                      (e, tr2, b) \<Rightarrow> (e, tr2, st1\<lparr>es_servers := b\<rparr>))))"

definition Migrate ::
    "(nat \<Rightarrow> bool) \<Rightarrow> apply_env \<Rightarrow> ('a, 'b, 'j, 's, 'r) engine \<Rightarrow> plan \<Rightarrow> service_plan \<Rightarrow> executed \<Rightarrow> ('a, 'b, 'j, 's, 'r) engine_state
     \<Rightarrow> go_error option \<times> executed \<times> ('a, 'b, 'j, 's, 'r) engine_state" where
  "Migrate uc env en p s tr st =
     (case en_open en of
        Some e \<Rightarrow> (Some (wrap (utf8 [0x6253, 0x5F00, 0x5BA1, 0x8BA1, 0x6570, 0x636E, 0x5E93, 0x5931, 0x8D25] @ '': '') e []), tr, st)
      | None \<Rightarrow>
     (case engine_backup uc env en p s tr st of
        (Inl e, tr1, st1) \<Rightarrow> (Some (wrap (utf8 [0x6E90, 0x673A, 0x5907, 0x4EFD, 0x5931, 0x8D25] @ '': '') e []), tr1, st1)
      | (Inr x, tr1, st1) \<Rightarrow>
          (if br_untracked (cb_run x)
           then (Some (errors_new (utf8 [0x5BB9, 0x5668, 0x5907, 0x4EFD] @ '' '' @ go_quote (cb_job x) @ '' '' @ utf8 [0x5B8C, 0x6210, 0x4F46, 0x672A, 0x88AB, 0x5BA1, 0x8BA1, 0xFF08, 0x7F3A, 0x5C11] @ '' SQLite '' @ utf8 [0x5BA1, 0x8BA1, 0x8BB0, 0x5F55, 0xFF09])), tr1, st1)
           else if cb_snapshot x = []
           then (Some (errors_new (utf8 [0x5BB9, 0x5668, 0x5907, 0x4EFD] @ '' '' @ go_quote (cb_job x) @ '' '' @ utf8 [0x672A, 0x8FD4, 0x56DE, 0x5FEB, 0x7167] @ '' ID'' @ utf8 [0xFF0C, 0x65E0, 0x6CD5, 0x7EE7, 0x7EED, 0x6062, 0x590D])), tr1, st1)
           else (case js_get (en_jobs en) (cb_job x) (es_jobs st1) of
                   (Inl e, js) \<Rightarrow> (Some (wrap (utf8 [0x8BFB, 0x53D6, 0x521A, 0x5199, 0x5165, 0x7684, 0x5907, 0x4EFD, 0x4F5C, 0x4E1A] @ '' '' @ go_quote (cb_job x) @ '' '' @ utf8 [0x5931, 0x8D25] @ '': '') e []), tr1, st1\<lparr>es_jobs := js\<rparr>)
                 | (Inr j, js) \<Rightarrow> engine_continue uc env en p s j (cb_snapshot x) tr1 (st1\<lparr>es_jobs := js\<rparr>)))))"

section \<open>The services of a plan\<close>

datatype apply_status = ApplySuccess | ApplyFailed | ApplySkipped

fun apply_status_text :: "apply_status \<Rightarrow> string" where
  "apply_status_text ApplySuccess = ''success''"
| "apply_status_text ApplyFailed = ''failed''"
| "apply_status_text ApplySkipped = ''skipped''"

record service_outcome =
  so_service :: string
  so_status :: apply_status
  so_detail :: string

type_synonym 'w migrator = "plan \<Rightarrow> service_plan \<Rightarrow> executed \<Rightarrow> 'w \<Rightarrow> go_error option \<times> executed \<times> 'w"

fun apply_services ::
    "'w migrator \<Rightarrow> plan \<Rightarrow> (string \<Rightarrow> string option) \<Rightarrow> service_plan list \<Rightarrow> executed \<Rightarrow> 'w \<Rightarrow> service_outcome list \<times> executed \<times> 'w" where
  "apply_services migrate p blocked [] tr w = ([], tr, w)"
| "apply_services migrate p blocked (s # ss) tr w =
     (case blocked (sp_name s) of
        Some detail \<Rightarrow>
          (case apply_services migrate p blocked ss tr w of
             (outs, tr1, w1) \<Rightarrow> (\<lparr>so_service = sp_name s, so_status = ApplySkipped, so_detail = detail\<rparr> # outs, tr1, w1))
      | None \<Rightarrow>
          (case migrate p s tr w of
             (e, tr1, w1) \<Rightarrow>
               (case apply_services migrate p blocked ss tr1 w1 of
                  (outs, tr2, w2) \<Rightarrow>
                    ((case e of
                        Some x \<Rightarrow> \<lparr>so_service = sp_name s, so_status = ApplyFailed, so_detail = err_text x\<rparr>
                      | None \<Rightarrow> \<lparr>so_service = sp_name s, so_status = ApplySuccess, so_detail = []\<rparr>) # outs, tr2, w2))))"

definition runDockerApplyServices ::
    "'w migrator \<Rightarrow> plan \<Rightarrow> (string \<Rightarrow> string option) \<Rightarrow> executed \<Rightarrow> 'w \<Rightarrow> service_outcome list \<times> executed \<times> 'w" where
  "runDockerApplyServices migrate p blocked tr w = apply_services migrate p blocked (pn_services p) tr w"

definition planHasVolumes :: "plan \<Rightarrow> bool" where
  "planHasVolumes p = list_ex (\<lambda>s. sp_volumes s \<noteq> []) (pn_services p)"

section \<open>Health after the start\<close>

definition failed_part :: "health_check \<Rightarrow> string" where
  "failed_part c =
     hc_label c @ '' '' @ health_text (hc_status c) @ (if hc_detail c = [] then [] else (utf8 [0xFF1A]) @ hc_detail c)
     @ (if hc_next c = [] then [] else (utf8 [0xFF08, 0x4E0B, 0x4E00, 0x6B65, 0xFF1A] @ hc_next c @ utf8 [0xFF09]))"

definition healthFailureDetail :: "health_check list \<Rightarrow> string" where
  "healthFailureDetail cs = (utf8 [0x8FC1, 0x79FB, 0x540E, 0x5065, 0x5EB7, 0x68C0, 0x67E5, 0x672A, 0x901A, 0x8FC7, 0xFF1A]) @ join_with (utf8 [0xFF1B]) (map failed_part cs)"

definition manual_part :: "health_check \<Rightarrow> string" where
  "manual_part c = hc_label c @ (utf8 [0x9700, 0x4EBA, 0x5DE5, 0x786E, 0x8BA4]) @ (if hc_next c = [] then [] else (utf8 [0xFF08] @ hc_next c @ utf8 [0xFF09]))"

definition healthManualDetail :: "health_check list \<Rightarrow> string" where
  "healthManualDetail cs = join_with (utf8 [0xFF1B]) (map manual_part cs)"

text \<open>\<open>byName\<close>: the last report of a name.\<close>

definition report_of :: "health_report \<Rightarrow> string \<Rightarrow> service_health option" where
  "report_of r = map_of (rev (map (\<lambda>s. (sh_service s, s)) (hr_services r)))"

definition fold_outcome :: "health_report \<Rightarrow> service_outcome \<Rightarrow> service_outcome" where
  "fold_outcome r o1 =
     (case report_of r (so_service o1) of
        None \<Rightarrow> o1
      | Some s \<Rightarrow>
          (if FailedChecks s \<noteq> [] then o1\<lparr>so_status := ApplyFailed, so_detail := healthFailureDetail (FailedChecks s)\<rparr>
           else if ManualChecks s \<noteq> [] \<and> so_status o1 = ApplySuccess
           then o1\<lparr>so_detail := so_detail o1 @ (if so_detail o1 = [] then [] else (utf8 [0xFF1B])) @ healthManualDetail (ManualChecks s)\<rparr>
           else o1))"

definition foldHealthIntoOutcomes :: "service_outcome list \<Rightarrow> health_report \<Rightarrow> service_outcome list" where
  "foldHealthIntoOutcomes outs r = map (fold_outcome r) outs"

definition started :: "service_outcome list \<Rightarrow> string \<Rightarrow> bool" where
  "started outs n \<longleftrightarrow> (\<exists>o1\<in>set outs. so_service o1 = n \<and> so_status o1 = ApplySuccess)"

definition health_targets_of :: "plan \<Rightarrow> service_outcome list \<Rightarrow> health_target list" where
  "health_targets_of p outs = map HealthTargetFor (filter (\<lambda>s. started outs (sp_name s)) (pn_services p))"

definition unprobed :: "go_error \<Rightarrow> service_outcome \<Rightarrow> service_outcome" where
  "unprobed e o1 =
     (if so_status o1 = ApplySuccess
      then o1\<lparr>so_detail := (utf8 [0x5065, 0x5EB7, 0x68C0, 0x67E5, 0x672A, 0x80FD, 0x6267, 0x884C, 0xFF1A] @ err_text e @ utf8 [0xFF1B, 0x8BF7, 0x624B, 0x5DE5, 0x786E, 0x8BA4, 0x670D, 0x52A1, 0x53EF, 0x7528, 0x540E, 0x91CD, 0x65B0, 0x6267, 0x884C] @ '' '' @ [CHR 0x60] @ ''ops docker health <plan-file>'' @ [CHR 0x60])\<rparr>
      else o1)"

definition runDockerApplyHealthCheck ::
    "docker_env \<Rightarrow> plan \<Rightarrow> service_outcome list \<Rightarrow> executed \<Rightarrow> service_outcome list \<times> executed" where
  "runDockerApplyHealthCheck env p outs tr =
     (if health_targets_of p outs = [] then (outs, tr)
      else (case probeServiceHealth env (ep_server (pn_target p)) (health_targets_of p outs) tr of
              (Inl e, tr1) \<Rightarrow> (map (unprobed e) outs, tr1)
            | (Inr r, tr1) \<Rightarrow> (foldHealthIntoOutcomes outs r, tr1)))"

section \<open>The live checks\<close>

fun inspect_sources ::
    "docker_env \<Rightarrow> target \<Rightarrow> string \<Rightarrow> service_plan list \<Rightarrow> (string \<Rightarrow> container_analysis option) \<Rightarrow> executed
     \<Rightarrow> (string \<Rightarrow> container_analysis option) res \<times> executed" where
  "inspect_sources env tgt server [] found tr = (Inr found, tr)"
| "inspect_sources env tgt server (s # ss) found tr =
     (case remote_inspect (de_list env) (de_one env) (de_exec env) tgt (sp_container s) tr of
        (Inl e, tr1) \<Rightarrow>
          (if errors_is e ErrContainerNotFound then inspect_sources env tgt server ss found tr1
           else (Inl (dockerFriendlyError server e), tr1))
      | (Inr info, tr1) \<Rightarrow> inspect_sources env tgt server ss (found(sp_container s \<mapsto> Analyze info)) tr1)"

definition no_risks :: risk_summary where
  "no_risks = \<lparr>rs_blockers = [], rs_warnings = [], rs_follow_ups = []\<rparr>"

definition live_checks ::
    "plan \<Rightarrow> (string \<Rightarrow> container_analysis option) \<Rightarrow> cap_report \<Rightarrow> cap_report \<Rightarrow> container_summary list \<Rightarrow> risk list" where
  "live_checks p analyses source tcap containers =
     CheckSourceRisks (Some source) (planHasVolumes p)
     @ CheckTargetRisks (ep_server (pn_target p)) (Some tcap) (planHasVolumes p)
     @ VerifyProjectBatching (Some p) @ VerifySource (Some p) analyses
     @ VerifyTarget (Some p) containers (rp_paths tcap) @ VerifyTargetImages (Some p) (Some tcap) @ AdjustmentRisks (Some p)"

text \<open>What is asked of both hosts, and the risks of the answers, added in the order of the code.\<close>

definition live_risks :: "docker_env \<Rightarrow> plan \<Rightarrow> executed \<Rightarrow> risk_summary res \<times> executed" where
  "live_risks env p tr0 =
     (case resolveDockerRemote env (ep_server (pn_source p)) of
        Inl e \<Rightarrow> (Inl e, tr0)
      | Inr stgt \<Rightarrow>
     (case resolveDockerRemote env (ep_server (pn_target p)) of
        Inl e \<Rightarrow> (Inl e, tr0)
      | Inr ttgt \<Rightarrow>
     (case inspect_sources env stgt (ep_server (pn_source p)) (pn_services p) Map.empty tr0 of
        (Inl e, tr1) \<Rightarrow> (Inl e, tr1)
      | (Inr analyses, tr1) \<Rightarrow>
     (case remote_probe (de_float env) (de_exec env) stgt \<lparr>po_paths = PlanHostPaths (Some p), po_images = []\<rparr> tr1 of
        (Inl e, tr2) \<Rightarrow> (Inl e, tr2)
      | (Inr source, tr2) \<Rightarrow>
     (case remote_probe (de_float env) (de_exec env) ttgt \<lparr>po_paths = PlanTargetPaths (Some p), po_images = PlanImages (Some p)\<rparr> tr2 of
        (Inl e, tr3) \<Rightarrow> (Inl e, tr3)
      | (Inr tcap, tr3) \<Rightarrow>
     (case remote_list (de_ps env) (de_exec env) ttgt True tr3 of
        (Inl e, tr4) \<Rightarrow> (Inl (dockerFriendlyError (ep_server (pn_target p)) e), tr4)
      | (Inr containers, tr4) \<Rightarrow> (Inr (Add no_risks (live_checks p analyses source tcap containers)), tr4)))))))"

definition blocks_service :: "risk \<Rightarrow> bool" where
  "blocks_service r \<longleftrightarrow> trim_space (rk_service r) \<noteq> []"

text \<open>The first detail of each service, and the first non-empty one of the risks without a service.\<close>

definition blocked_services :: "risk_summary \<Rightarrow> string \<Rightarrow> string option" where
  "blocked_services rs = map_of (map (\<lambda>r. (rk_service r, rk_detail r)) (filter blocks_service (rs_blockers rs)))"

definition plan_wide_blocker :: "risk_summary \<Rightarrow> string" where
  "plan_wide_blocker rs =
     (case find (\<lambda>r. \<not> blocks_service r \<and> rk_detail r \<noteq> []) (rs_blockers rs) of None \<Rightarrow> [] | Some r \<Rightarrow> rk_detail r)"

definition blocked_count :: "risk_summary \<Rightarrow> nat" where
  "blocked_count rs = length (remdups (map rk_service (filter blocks_service (rs_blockers rs))))"

section \<open>Reports\<close>

definition apply_label :: "apply_status \<Rightarrow> string" where
  "apply_label st = (case st of ApplySuccess \<Rightarrow> (utf8 [0x6210, 0x529F]) | ApplyFailed \<Rightarrow> (utf8 [0x5931, 0x8D25]) | ApplySkipped \<Rightarrow> (utf8 [0x8DF3, 0x8FC7]))"

definition preflight_line :: "(string \<Rightarrow> string option) \<Rightarrow> service_plan \<Rightarrow> string" where
  "preflight_line blocked s =
     (''  - '' @ sp_name s @ utf8 [0xFF08, 0x5BB9, 0x5668] @ '' '' @ sp_container s @ utf8 [0xFF09] @ '': '')
     @ (case blocked (sp_name s) of None \<Rightarrow> (utf8 [0x5C31, 0x7EEA]) | Some d \<Rightarrow> (utf8 [0x5DF2, 0x963B, 0x6B62, 0xFF1A]) @ d)"

definition writeDockerApplyPreflight :: "plan \<Rightarrow> risk_summary \<Rightarrow> string" where
  "writeDockerApplyPreflight p rs =
     line (utf8 [0x8FC1, 0x79FB, 0x9884, 0x68C0, 0xFF08] @ ''plan: '' @ ep_server (pn_source p) @ '' '' @ utf8 [0x2192] @ '' '' @ ep_server (pn_target p) @ utf8 [0xFF0C, 0x670D, 0x52A1] @ '' '' @ show_nat (length (pn_services p)) @ '' '' @ utf8 [0x4E2A, 0xFF09])
     @ concat (map (\<lambda>s. line (preflight_line (blocked_services rs) s)) (pn_services p))
     @ [CHR 0x0A] @ writeDockerPlanRiskSummary rs"

definition outcome_line :: "service_outcome \<Rightarrow> string" where
  "outcome_line o1 =
     (''  ['' @ apply_label (so_status o1) @ ''] '' @ so_service o1) @ (if so_detail o1 = [] then [] else (utf8 [0xFF1A]) @ so_detail o1)"

definition count_of :: "apply_status \<Rightarrow> service_outcome list \<Rightarrow> string" where
  "count_of st outs = show_nat (length (filter (\<lambda>o1. so_status o1 = st) outs))"

definition writeDockerApplySummary :: "risk_summary \<Rightarrow> service_outcome list \<Rightarrow> string" where
  "writeDockerApplySummary rs outs =
     [CHR 0x0A] @ line (utf8 [0x8FC1, 0x79FB, 0x6C47, 0x603B] @ '':'') @ concat (map (\<lambda>o1. line (outcome_line o1)) outs)
     @ line (''  '' @ utf8 [0x6210, 0x529F] @ '' '' @ count_of ApplySuccess outs @ '' / '' @ utf8 [0x5931, 0x8D25] @ '' '' @ count_of ApplyFailed outs @ '' / '' @ utf8 [0x8DF3, 0x8FC7] @ '' '' @ count_of ApplySkipped outs)
     @ (if rs_warnings rs = [] \<and> rs_follow_ups rs = [] then []
        else [CHR 0x0A] @ line (utf8 [0x9700, 0x8981, 0x4EBA, 0x5DE5, 0x5904, 0x7406] @ '' / '' @ utf8 [0x6CE8, 0x610F] @ '':'') @ writeDockerPlanRiskList (utf8 [0x26A0, 0xFE0F] @ ''  warning'') (rs_warnings rs)
             @ writeDockerPlanRiskList (utf8 [0x2139, 0xFE0F] @ ''  '' @ utf8 [0x540E, 0x7EED, 0x6B65, 0x9AA4]) (rs_follow_ups rs))
     @ [CHR 0x0A] @ line (utf8 [0x6CE8, 0x610F, 0xFF1A, 0x672C, 0x547D, 0x4EE4, 0x4E0D, 0x627F, 0x8BFA, 0x901A, 0x7528, 0x81EA, 0x52A8, 0x56DE, 0x6EDA, 0xFF1B, 0x5931, 0x8D25, 0x6216, 0x88AB, 0x8DF3, 0x8FC7, 0x7684, 0x670D, 0x52A1, 0x9700, 0x6309, 0x4E0A, 0x9762, 0x7684, 0x8BF4, 0x660E, 0x4EBA, 0x5DE5, 0x5904, 0x7406, 0x3002])"

record apply_document =
  ad_kind :: string
  ad_source :: string
  ad_target :: string
  ad_services :: "service_outcome list"
  ad_risks :: risk_summary
  ad_blocked :: "string \<Rightarrow> string option"

definition apply_json :: "plan \<Rightarrow> risk_summary \<Rightarrow> service_outcome list \<Rightarrow> apply_document" where
  "apply_json p rs outs =
     \<lparr>ad_kind = ''docker_migration_apply_result'', ad_source = ep_server (pn_source p), ad_target = ep_server (pn_target p),
      ad_services = outs, ad_risks = rs, ad_blocked = blocked_services rs\<rparr>"

section \<open>The command\<close>

record apply_flags =
  af_yes :: bool
  af_dry_run :: bool
  af_json :: bool
  af_no_health :: bool

record 'w apply_outcome =
  ao_risks :: "risk_summary option"
  ao_outcomes :: "service_outcome list option"
  ao_document :: "apply_document option"
  ao_error :: "go_error option"
  ao_trace :: executed
  ao_world :: 'w

definition apply_prompt :: "plan \<Rightarrow> risk_summary \<Rightarrow> string" where
  "apply_prompt p rs =
     (utf8 [0x786E, 0x8BA4, 0x5BF9, 0x76EE, 0x6807, 0x673A] @ '' '' @ go_quote (ep_server (pn_target p)) @ '' '' @ utf8 [0x6267, 0x884C] @ '' '' @ show_int (int (length (pn_services p)) - int (blocked_count rs)) @ '' '' @ utf8 [0x4E2A, 0x670D, 0x52A1, 0x7684, 0x8FC1, 0x79FB, 0xFF08, 0x5907, 0x4EFD] @ '' '' @ utf8 [0x2192] @ '' '' @ utf8 [0x6062, 0x590D] @ '' '' @ utf8 [0x2192] @ '' '' @ utf8 [0x542F, 0x52A8, 0xFF09, 0xFF1F] @ ''[y/N]: '')"

definition apply_gate :: "apply_flags \<Rightarrow> operator \<Rightarrow> plan \<Rightarrow> risk_summary \<Rightarrow> go_error option" where
  "apply_gate fl op p rs =
     confirmGate op (af_yes fl) (apply_prompt p rs)
       (errors_new (utf8 [0x975E, 0x4EA4, 0x4E92, 0x73AF, 0x5883, 0x4E0B, 0x62D2, 0x7EDD, 0x6267, 0x884C, 0x8FC1, 0x79FB, 0xFF1A, 0x8BF7, 0x786E, 0x8BA4, 0x9884, 0x68C0, 0x7ED3, 0x679C, 0x540E, 0x52A0] @ '' --yes '' @ utf8 [0x663E, 0x5F0F, 0x63A5, 0x53D7])) (errors_new (utf8 [0x5DF2, 0x53D6, 0x6D88, 0x8FC1, 0x79FB]))"

definition exit_error :: "plan \<Rightarrow> service_outcome list \<Rightarrow> go_error option" where
  "exit_error p outs =
     (let failed = length (filter (\<lambda>o1. so_status o1 \<noteq> ApplySuccess) outs)
      in if failed = 0 then None
         else Some (errors_new (utf8 [0x8FC1, 0x79FB, 0x672A, 0x5168, 0x90E8, 0x5B8C, 0x6210, 0xFF1A] @ show_nat failed @ ''/'' @ show_nat (length (pn_services p)) @ '' '' @ utf8 [0x4E2A, 0x5931, 0x8D25, 0x6216, 0x88AB, 0x8DF3, 0x8FC7, 0xFF08, 0x4E0D, 0x627F, 0x8BFA, 0x901A, 0x7528, 0x81EA, 0x52A8, 0x56DE, 0x6EDA, 0xFF0C, 0x8BF7, 0x6309, 0x4E0A, 0x9762, 0x7684, 0x6C47, 0x603B, 0x4E0E, 0x4EBA, 0x5DE5, 0x5904, 0x7406, 0x9879, 0x5904, 0x7406, 0xFF09])))"

definition document_if :: "apply_flags \<Rightarrow> plan \<Rightarrow> risk_summary \<Rightarrow> service_outcome list \<Rightarrow> apply_document option" where
  "document_if fl p rs outs = (if af_json fl then Some (apply_json p rs outs) else None)"

text \<open>A run that stops after the checks without having migrated anything.\<close>

definition stopped_run ::
    "apply_flags \<Rightarrow> plan \<Rightarrow> risk_summary \<Rightarrow> bool \<Rightarrow> go_error option \<Rightarrow> executed \<Rightarrow> 'w \<Rightarrow> 'w apply_outcome" where
  "stopped_run fl p rs shown e tr w =
     \<lparr>ao_risks = Some rs, ao_outcomes = None, ao_document = (if shown then document_if fl p rs [] else None),
      ao_error = e, ao_trace = tr, ao_world = w\<rparr>"

definition execute_apply ::
    "apply_flags \<Rightarrow> docker_env \<Rightarrow> 'w migrator \<Rightarrow> plan \<Rightarrow> risk_summary \<Rightarrow> executed \<Rightarrow> 'w \<Rightarrow> 'w apply_outcome" where
  "execute_apply fl env migrate p rs tr w =
     (case runDockerApplyServices migrate p (blocked_services rs) tr w of
        (outs0, tr1, w1) \<Rightarrow>
          (case (if af_no_health fl then (outs0, tr1) else runDockerApplyHealthCheck env p outs0 tr1) of
             (outs, tr2) \<Rightarrow>
               \<lparr>ao_risks = Some rs, ao_outcomes = Some outs, ao_document = document_if fl p rs outs,
                ao_error = exit_error p outs, ao_trace = tr2, ao_world = w1\<rparr>))"

definition runDockerApply ::
    "apply_flags \<Rightarrow> operator \<Rightarrow> docker_env \<Rightarrow> (string \<Rightarrow> plan res) \<Rightarrow> (string \<Rightarrow> string res) \<Rightarrow> 'w migrator \<Rightarrow> string \<Rightarrow> 'w
     \<Rightarrow> 'w apply_outcome" where
  "runDockerApply fl op env read_yaml read migrate file_path w =
     (let failed = (\<lambda>e tr. \<lparr>ao_risks = None, ao_outcomes = None, ao_document = None, ao_error = Some e, ao_trace = tr, ao_world = w\<rparr>)
      in case Load read_yaml read file_path of
           Inl e \<Rightarrow> failed e []
         | Inr p \<Rightarrow>
      (if trim_space (ep_server (pn_target p)) = []
       then failed (errors_new (''plan '' @ utf8 [0x672A, 0x6307, 0x5B9A, 0x76EE, 0x6807, 0x670D, 0x52A1, 0x5668, 0xFF0C, 0x65E0, 0x6CD5, 0x6267, 0x884C, 0x8FC1, 0x79FB, 0xFF1A, 0x8BF7, 0x7528] @ '' '' @ [CHR 0x60] @ ''ops docker plan <server> <container> --target <target>'' @ [CHR 0x60] @ '' '' @ utf8 [0x91CD, 0x65B0, 0x751F, 0x6210] @ '' plan'')) []
       else if pn_services p = [] then failed (errors_new (''plan '' @ utf8 [0x4E2D, 0x6CA1, 0x6709, 0x53EF, 0x8FC1, 0x79FB, 0x7684, 0x670D, 0x52A1])) []
       else (case live_risks env p [] of
               (Inl e, tr) \<Rightarrow> failed e tr
             | (Inr rs, tr) \<Rightarrow>
                 (if af_dry_run fl
                  then stopped_run fl p rs True
                         (if rs_blockers rs = [] then None
                          else Some (errors_new (utf8 [0x9884, 0x68C0, 0x53D1, 0x73B0] @ '' '' @ show_nat (length (rs_blockers rs)) @ '' '' @ utf8 [0x4E2A] @ '' hard blocker'' @ utf8 [0xFF1A, 0x672A, 0x6267, 0x884C, 0x4EFB, 0x4F55, 0x8FC1, 0x79FB, 0x6B65, 0x9AA4]))) tr w
                  else if plan_wide_blocker rs \<noteq> []
                  then stopped_run fl p rs True (Some (errors_new (utf8 [0x5B58, 0x5728, 0x963B, 0x6B62, 0x6574, 0x6B21, 0x8FC1, 0x79FB, 0x7684, 0x95EE, 0x9898, 0xFF0C, 0x5DF2, 0x505C, 0x6B62, 0xFF1A] @ plan_wide_blocker rs))) tr w
                  else (case apply_gate fl op p rs of
                          Some e \<Rightarrow> stopped_run fl p rs False (Some e) tr w
                        | None \<Rightarrow> execute_apply fl env migrate p rs tr w)))))"

section \<open>The trace only grows\<close>

lemma runApplyScript_trace: "runApplyScript exec tgt name script tr = (e, tr') \<Longrightarrow> tr' = tr @ [(tgt, name, script)]"
  by (auto simp: runApplyScript_def Let_def split: prod.splits option.splits)

lemma readApplyTextFile_trace:
  "readApplyTextFile exec tgt p tr = (r, tr') \<Longrightarrow> tr' = tr @ [(tgt, ''apply-read'', ''cat '' @ quote p)]"
  by (auto simp: readApplyTextFile_def Let_def split: prod.splits option.splits)

lemma first_manifest_trace:
  "first_manifest parse_yaml exec tgt ps tr = (mo, tr') \<Longrightarrow>
     \<exists>qs. tr' = tr @ map (\<lambda>q. (tgt, ''apply-read'', ''cat '' @ quote q)) qs"
proof (induction ps arbitrary: tr)
  case Nil
  then show ?case by (intro exI[of _ "[]"]) simp
next
  case (Cons p ps)
  obtain r tr1 where r: "readApplyTextFile exec tgt p tr = (r, tr1)" by (meson surj_pair)
  note step = readApplyTextFile_trace[OF r]
  have rest: ?case if r1: "first_manifest parse_yaml exec tgt ps tr1 = (mo, tr')"
  proof -
    obtain qs where "tr' = tr1 @ map (\<lambda>q. (tgt, ''apply-read'', ''cat '' @ quote q)) qs" using Cons.IH[OF r1] by blast
    then show ?thesis using step by (intro exI[of _ "p # qs"]) simp
  qed
  have stop: ?case if "tr' = tr1" using step that by (intro exI[of _ "[p]"]) simp
  show ?case using Cons.prems r rest stop by (auto split: sum.splits if_splits)
qed

definition volume_step :: "target \<Rightarrow> manifest_volume \<times> string \<Rightarrow> target \<times> string \<times> string" where
  "volume_step tgt va = (case va of (v, archive) \<Rightarrow> (tgt, ''apply-volume-'' @ mv_name v, BuildVolumeImportScript (mv_name v) archive))"

text \<open>The volumes with an archive, with what the archive resolves to; \<open>i\<close> is the index of the first one.\<close>

fun archived :: "manifest \<Rightarrow> string \<Rightarrow> nat \<Rightarrow> manifest_volume list \<Rightarrow> (manifest_volume \<times> string) list" where
  "archived m dir i [] = []"
| "archived m dir i (v # vs) =
     (if mv_archive v = [] then archived m dir (i + 1) vs
      else (case ResolveVolumeArchive m dir (int i) of
              Inl e \<Rightarrow> archived m dir (i + 1) vs
            | Inr a \<Rightarrow> (v, a) # archived m dir (i + 1) vs))"

lemma apply_volumes_done:
  "apply_volumes exec tgt m dir i vs tr = (None, tr') \<Longrightarrow>
     tr' = tr @ map (volume_step tgt) (archived m dir i vs) \<and> map fst (archived m dir i vs) = filter (\<lambda>v. mv_archive v \<noteq> []) vs"
proof (induction vs arbitrary: i tr)
  case (Cons v vs)
  show ?case
  proof (cases "mv_archive v = []")
    case True
    then show ?thesis using Cons by simp
  next
    case False
    then obtain a where a: "ResolveVolumeArchive m dir (int i) = Inr a" using Cons.prems by (auto split: sum.splits)
    obtain e tr1 where r: "runApplyScript exec tgt (''apply-volume-'' @ mv_name v) (BuildVolumeImportScript (mv_name v) a) tr = (e, tr1)"
      by (meson surj_pair)
    then have n: "e = None" "apply_volumes exec tgt m dir (i + 1) vs tr1 = (None, tr')"
      using Cons.prems False a by (auto split: option.splits)
    show ?thesis using Cons.IH[OF n(2)] runApplyScript_trace[OF r] False a by (simp add: volume_step_def)
  qed
qed simp

lemma archived_resolved:
  "(v, a) \<in> set (archived m dir i vs) \<Longrightarrow> \<exists>k. ResolveVolumeArchive m dir (int k) = Inr a"
  by (induction vs arbitrary: i) (auto split: if_splits sum.splits)

definition grows :: "executed \<Rightarrow> executed \<Rightarrow> bool" where
  "grows tr tr' \<longleftrightarrow> (\<exists>xs. tr' = tr @ xs)"

lemma grows_refl [simp, intro]: "grows tr tr"
  by (simp add: grows_def)

lemma grows_append [simp, intro]: "grows tr (tr @ xs)"
  by (simp add: grows_def)

lemma grows_trans [trans]: "grows a b \<Longrightarrow> grows b c \<Longrightarrow> grows a c"
  by (auto simp: grows_def)

lemma apply_volumes_grows: "apply_volumes exec tgt m dir i vs tr = (e, tr') \<Longrightarrow> grows tr tr'"
proof (induction vs arbitrary: i tr)
  case (Cons v vs)
  show ?case
  proof (cases "mv_archive v = []")
    case True
    then show ?thesis using Cons by simp
  next
    case False
    show ?thesis
    proof (cases "ResolveVolumeArchive m dir (int i)")
      case (Inl x)
      then show ?thesis using Cons.prems False by simp
    next
      case (Inr a)
      obtain e1 tr1 where r: "runApplyScript exec tgt (''apply-volume-'' @ mv_name v) (BuildVolumeImportScript (mv_name v) a) tr = (e1, tr1)"
        by (meson surj_pair)
      have g: "grows tr tr1" using runApplyScript_trace[OF r] by simp
      show ?thesis using Cons.prems False Inr r g Cons.IH[of "i + 1" tr1] grows_trans[OF g] by (cases e1) auto
    qed
  qed
qed simp

lemma apply_step_grows:
  "runApplyScript exec tgt name script tr = (e, tr') \<Longrightarrow> grows tr tr'"
  "readApplyTextFile exec tgt p tr = (r, tr') \<Longrightarrow> grows tr tr'"
  by (auto dest: runApplyScript_trace readApplyTextFile_trace)

lemma move_project_grows: "move_project exec tgt s ad tr = (r, tr') \<Longrightarrow> grows tr tr'"
  by (auto simp: move_project_def Let_def dest: apply_step_grows(1) split: if_splits prod.splits option.splits)

lemma rewrite_compose_grows:
  assumes "rewrite_compose env tgt s ad alias_name dir tr = (e, tr')"
  shows "grows tr tr'"
proof (cases "ad_ports ad = None \<and> ad_binds ad = []")
  case True
  then show ?thesis using assms by (simp add: rewrite_compose_def)
next
  case ne: False
  obtain r tr1 where r: "readApplyTextFile (ae_exec env) tgt (path_join [dir, planned_file s]) tr = (r, tr1)" by (meson surj_pair)
  note g = apply_step_grows(2)[OF r]
  show ?thesis
  proof (cases r)
    case (Inl x)
    then show ?thesis using assms ne r g by (simp add: rewrite_compose_def Let_def)
  next
    case raw: (Inr raw)
    show ?thesis
    proof (cases "OverrideCompose (ae_read_compose env) (ae_show_compose env) raw (composeServiceKey s alias_name)
        \<lparr>ov_ports = ad_ports ad, ov_binds = ad_binds ad\<rparr>")
      case (Inl x)
      then show ?thesis using assms ne r g raw by (simp add: rewrite_compose_def Let_def)
    next
      case (Inr u)
      obtain e2 tr2 where w: "writeApplyTextFile (ae_exec env) tgt (path_join [dir, planned_file s]) u tr1 = (e2, tr2)" by (meson surj_pair)
      have "grows tr tr2" using grows_trans[OF g apply_step_grows(1)[OF w[unfolded writeApplyTextFile_def]]] .
      then show ?thesis using assms ne r raw Inr w by (cases e2) (simp_all add: rewrite_compose_def Let_def)
    qed
  qed
qed

lemma readApplyManifest_grows: "readApplyManifest parse_yaml exec tgt dir tr = (mo, tr') \<Longrightarrow> grows tr tr'"
  by (auto simp: readApplyManifest_def simp del: first_manifest.simps dest: first_manifest_trace)

lemma compose_up_trace:
  "compose_up exec tgt s alias_name dir tr = (e, tr') \<Longrightarrow>
     tr' = tr @ [(tgt, ''apply-compose-up-'' @ sp_name s, applyComposeUpScript dir (planned_file s) alias_name)]"
  by (auto simp: compose_up_def dest: runApplyScript_trace split: prod.splits option.splits)

lemma import_database_grows: "import_database exec tgt s alias_name dir m tr = (e, tr') \<Longrightarrow> grows tr tr'"
  by (auto simp: import_database_def Let_def dest: apply_step_grows(1) split: option.splits if_splits sum.splits prod.splits)

text \<open>How an adjusted target comes up: the directory that was settled on, and the steps after it.\<close>

lemma adjust_target_cases:
  assumes "adjust_target env tgt s ad alias_name tr = (e, tr')"
  obtains (failed) "e \<noteq> None" "grows tr tr'"
    | (up) dir tr1 tr2 tr3 tr4 tr5 mo where "move_project (ae_exec env) tgt s ad tr = (Inr dir, tr1)"
        "rewrite_compose env tgt s ad alias_name dir tr1 = (None, tr2)"
        "readApplyManifest (ae_manifest env) (ae_exec env) tgt dir tr2 = (mo, tr3)"
        "apply_manifest_volumes (ae_exec env) tgt dir mo tr3 = (None, tr4)"
        "compose_up (ae_exec env) tgt s alias_name dir tr4 = (None, tr5)"
        "(case mo of None \<Rightarrow> (None, tr5) | Some m \<Rightarrow> import_database (ae_exec env) tgt s alias_name dir m tr5) = (e, tr')"
        "grows tr tr'"
proof -
  obtain r tr1 where a: "move_project (ae_exec env) tgt s ad tr = (r, tr1)" by (meson surj_pair)
  note ga = move_project_grows[OF a]
  show ?thesis
  proof (cases r)
    case (Inl x)
    then show ?thesis using assms a ga by (intro failed) (auto simp: adjust_target_def)
  next
    case dir: (Inr dir)
    obtain e2 tr2 where b: "rewrite_compose env tgt s ad alias_name dir tr1 = (e2, tr2)" by (meson surj_pair)
    note gb = grows_trans[OF ga rewrite_compose_grows[OF b]]
    obtain mo tr3 where c: "readApplyManifest (ae_manifest env) (ae_exec env) tgt dir tr2 = (mo, tr3)" by (meson surj_pair)
    note gc = grows_trans[OF gb readApplyManifest_grows[OF c]]
    obtain e4 tr4 where d: "apply_manifest_volumes (ae_exec env) tgt dir mo tr3 = (e4, tr4)" by (meson surj_pair)
    have "grows tr3 tr4" using d apply_volumes_grows by (auto simp: apply_manifest_volumes_def split: option.splits)
    note gd = grows_trans[OF gc this]
    obtain e5 tr5 where u: "compose_up (ae_exec env) tgt s alias_name dir tr4 = (e5, tr5)" by (meson surj_pair)
    have "grows tr4 tr5" using compose_up_trace[OF u] by simp
    note gu = grows_trans[OF gd this]
    consider "e2 \<noteq> None" | "e2 = None" "e4 \<noteq> None" | "e2 = None" "e4 = None" "e5 \<noteq> None" | "e2 = None" "e4 = None" "e5 = None" by blast
    then show ?thesis
    proof cases
      case 1
      then show ?thesis using assms a dir b gb by (intro failed) (auto simp: adjust_target_def)
    next
      case 2
      then show ?thesis using assms a dir b c d gd by (intro failed) (auto simp: adjust_target_def)
    next
      case 3
      then show ?thesis using assms a dir b c d u gu by (intro failed) (auto simp: adjust_target_def)
    next
      case 4
      have f: "(case mo of None \<Rightarrow> (None, tr5) | Some m \<Rightarrow> import_database (ae_exec env) tgt s alias_name dir m tr5) = (e, tr')"
        using assms a dir b c d u 4 by (simp add: adjust_target_def)
      then have "grows tr5 tr'" using import_database_grows by (auto split: option.splits)
      then show ?thesis using up[of dir tr1 tr2 mo tr3 tr4 tr5] a dir b c d u 4 f grows_trans[OF gu] by blast
    qed
  qed
qed

lemma adjust_target_grows: "adjust_target env tgt s ad alias_name tr = (e, tr') \<Longrightarrow> grows tr tr'"
  by (erule adjust_target_cases) blast+

lemma engine_restore_grows: "engine_restore uc env en p j snap alias_name policy tr st = (e, tr', st') \<Longrightarrow> grows tr tr'"
  by (auto simp: engine_restore_def split: prod.splits)

lemma engine_backup_grows: "engine_backup uc env en p s tr st = (r, tr', st') \<Longrightarrow> grows tr tr'"
  by (auto simp: engine_backup_def split: prod.splits)

lemma engine_continue_grows:
  assumes "engine_continue uc env en p s j snap tr st = (e, tr', st')"
  shows "grows tr tr'"
proof (cases "adjustment_any (Adjustments s)")
  case False
  obtain e1 tr1 st1 where r: "engine_restore uc env en p j snap (ApplyAlias s) StartPolicyStart tr st = (e1, tr1, st1)"
    by (metis prod_cases3)
  show ?thesis using assms False r engine_restore_grows[OF r] by (cases e1) (simp_all add: engine_continue_def Let_def)
next
  case True
  obtain e1 tr1 st1 where r: "engine_restore uc env en p j snap (ApplyAlias s) StartPolicyNoStart tr st = (e1, tr1, st1)"
    by (metis prod_cases3)
  note g = engine_restore_grows[OF r]
  obtain e2 tr2 b where a: "applyTargetAdjustment env (en_servers en) p s (Adjustments s) (ApplyAlias s) tr1 (es_servers st1) = (e2, tr2, b)"
    by (metis prod_cases3)
  have "grows tr1 tr2" using a adjust_target_grows by (auto simp: applyTargetAdjustment_def split: prod.splits sum.splits)
  then show ?thesis using assms True r a g grows_trans[OF g] by (cases e1) (simp_all add: engine_continue_def Let_def)
qed

lemma Migrate_grows:
  assumes "Migrate uc env en p s tr st = (e, tr', st')"
  shows "grows tr tr'"
proof (cases "en_open en")
  case (Some x)
  then show ?thesis using assms by (simp add: Migrate_def)
next
  case None
  obtain r tr1 st1 where b: "engine_backup uc env en p s tr st = (r, tr1, st1)" by (metis prod_cases3)
  note g = engine_backup_grows[OF b]
  show ?thesis
  proof (cases r)
    case (Inl x)
    then show ?thesis using assms None b g by (simp add: Migrate_def)
  next
    case x: (Inr x)
    obtain jr js where j: "js_get (en_jobs en) (cb_job x) (es_jobs st1) = (jr, js)" by (meson surj_pair)
    have "grows tr1 tr'" if "br_untracked (cb_run x) = False" "cb_snapshot x \<noteq> []"
      using assms None b x j that engine_continue_grows by (cases jr) (auto simp: Migrate_def)
    moreover have "tr' = tr1" if "br_untracked (cb_run x) \<or> cb_snapshot x = []"
      using assms None b x that by (auto simp: Migrate_def split: if_splits)
    ultimately show ?thesis using g grows_trans by blast
  qed
qed

section \<open>What every migrator promises\<close>

text \<open>A migrator only adds to the trace; the service loop needs no more of it.\<close>

locale trace_migrator =
  fixes migrate :: "'w migrator"
  assumes migrate_grows: "migrate p s tr w = (e, tr', w') \<Longrightarrow> grows tr tr'"
begin

lemma services_grow: "apply_services migrate p blocked ss tr w = (outs, tr', w') \<Longrightarrow> grows tr tr'"
proof (induction ss arbitrary: tr w outs tr' w')
  case (Cons s ss)
  show ?case
  proof (cases "blocked (sp_name s)")
    case (Some d)
    obtain o1 t1 w1 where r: "apply_services migrate p blocked ss tr w = (o1, t1, w1)" by (metis prod_cases3)
    show ?thesis using Cons.prems Some r Cons.IH[OF r] by simp
  next
    case None
    obtain e t1 w1 where m: "migrate p s tr w = (e, t1, w1)" by (metis prod_cases3)
    obtain o2 t2 w2 where r: "apply_services migrate p blocked ss t1 w1 = (o2, t2, w2)" by (metis prod_cases3)
    show ?thesis using Cons.prems None m r grows_trans[OF migrate_grows[OF m] Cons.IH[OF r]] by simp
  qed
qed simp

end

interpretation engine: trace_migrator "Migrate uc env en" for uc env en
  by unfold_locales (rule Migrate_grows)

section \<open>Lemmas on the command\<close>

lemma apply_services_spec:
  "apply_services migrate p blocked ss tr w = (outs, tr', w') \<Longrightarrow>
     map so_service outs = map sp_name ss
     \<and> list_all2 (\<lambda>s o1. (so_status o1 = ApplySkipped) = (blocked (sp_name s) \<noteq> None)
          \<and> (so_status o1 = ApplySuccess \<longrightarrow> (\<exists>t v. fst (migrate p s t v) = None))) ss outs
     \<and> (tr', w') = foldl (\<lambda>(t, v) s. snd (migrate p s t v)) (tr, w) (filter (\<lambda>s. blocked (sp_name s) = None) ss)"
proof (induction ss arbitrary: tr w outs tr' w')
  case (Cons s ss)
  show ?case
  proof (cases "blocked (sp_name s)")
    case (Some d)
    obtain o1 t1 w1 where r: "apply_services migrate p blocked ss tr w = (o1, t1, w1)" by (metis prod_cases3)
    show ?thesis using Cons.prems Some r Cons.IH[OF r] by auto
  next
    case None
    obtain e t1 w1 where m: "migrate p s tr w = (e, t1, w1)" by (metis prod_cases3)
    obtain o2 t2 w2 where r: "apply_services migrate p blocked ss t1 w1 = (o2, t2, w2)" by (metis prod_cases3)
    have ok: "e = None \<Longrightarrow> \<exists>t v. fst (migrate p s t v) = None" using m by (metis fst_conv)
    show ?thesis
    proof (cases e)
      case en: None
      show ?thesis using Cons.prems None m r Cons.IH[OF r] ok[OF en] en by auto
    next
      case (Some x)
      show ?thesis using Cons.prems None m r Cons.IH[OF r] Some by auto
    qed
  qed
qed simp

lemma inspect_sources_reads: "inspect_sources env tgt server ss found tr = (r, tr') \<Longrightarrow> reads_only tr tr'"
proof (induction ss arbitrary: tr r tr' found)
  case (Cons s ss)
  obtain i tr1 where i: "remote_inspect (de_list env) (de_one env) (de_exec env) tgt (sp_container s) tr = (i, tr1)" by (meson surj_pair)
  note g = remote_inspect_reads[OF i]
  show ?case
  proof (cases i)
    case (Inl e)
    then show ?thesis using Cons.prems i g Cons.IH[of found tr1] reads_only_trans[OF g] by (auto split: if_splits)
  next
    case (Inr info)
    then have "inspect_sources env tgt server ss (found(sp_container s \<mapsto> Analyze info)) tr1 = (r, tr')" using Cons.prems i by simp
    from Cons.IH[OF this] show ?thesis using g reads_only_trans by blast
  qed
qed simp

lemma live_risks_reads:
  assumes "live_risks env p tr0 = (r, tr)"
  shows "reads_only tr0 tr"
proof (cases "resolveDockerRemote env (ep_server (pn_source p))")
  case (Inl e)
  then show ?thesis using assms by (simp add: live_risks_def)
next
  case s: (Inr stgt)
  show ?thesis
  proof (cases "resolveDockerRemote env (ep_server (pn_target p))")
    case (Inl e)
    then show ?thesis using assms s by (simp add: live_risks_def)
  next
    case t: (Inr ttgt)
    obtain a t1 where a: "inspect_sources env stgt (ep_server (pn_source p)) (pn_services p) Map.empty tr0 = (a, t1)" by (meson surj_pair)
    note ga = inspect_sources_reads[OF a]
    obtain b t2 where b: "remote_probe (de_float env) (de_exec env) stgt \<lparr>po_paths = PlanHostPaths (Some p), po_images = []\<rparr> t1 = (b, t2)"
      by (meson surj_pair)
    note gb = reads_only_trans[OF ga remote_probe_reads[OF b]]
    obtain c t3 where c: "remote_probe (de_float env) (de_exec env) ttgt \<lparr>po_paths = PlanTargetPaths (Some p), po_images = PlanImages (Some p)\<rparr> t2 = (c, t3)"
      by (meson surj_pair)
    note gc = reads_only_trans[OF gb remote_probe_reads[OF c]]
    obtain d t4 where d: "remote_list (de_ps env) (de_exec env) ttgt True t3 = (d, t4)" by (meson surj_pair)
    note gd = reads_only_trans[OF gc remote_list_reads[OF d]]
    note facts = assms s t a b c d
    show ?thesis
    proof (cases a)
      case (Inl e)
      then show ?thesis using facts ga by (simp add: live_risks_def)
    next
      case a1: (Inr an)
      show ?thesis
      proof (cases b)
        case (Inl e)
        then show ?thesis using facts a1 gb by (simp add: live_risks_def)
      next
        case b1: (Inr source)
        show ?thesis using facts a1 b1 gc gd by (cases c; cases d) (simp_all add: live_risks_def)
      qed
    qed
  qed
qed

definition apply_consented :: "apply_flags \<Rightarrow> operator \<Rightarrow> bool" where
  "apply_consented fl op \<longleftrightarrow> af_yes fl
     \<or> (op_interactive op \<and> (\<exists>p rs. promptConfirm (op_types op (apply_prompt p rs)) False))"

lemma gate_consent: "apply_gate fl op p rs = None \<Longrightarrow> apply_consented fl op"
  by (auto simp: apply_gate_def confirmGate_def apply_consented_def split: if_splits)

lemma run_apply_parts:
  assumes "runDockerApply fl op env read_yaml read migrate path w = out"
  obtains (stopped) tr where "ao_trace out = tr" "reads_only [] tr" "ao_world out = w" "ao_outcomes out = None"
      "af_dry_run fl \<or> ao_error out \<noteq> None"
    | (executed) p rs tr where "Load read_yaml read path = Inr p" "live_risks env p [] = (Inr rs, tr)" "reads_only [] tr"
      "\<not> af_dry_run fl" "plan_wide_blocker rs = []" "apply_gate fl op p rs = None" "pn_services p \<noteq> []"
      "out = execute_apply fl env migrate p rs tr w"
proof (cases "Load read_yaml read path")
  case (Inl e)
  then show ?thesis using assms by (intro stopped[of "[]"]) (auto simp: runDockerApply_def Let_def)
next
  case p: (Inr p)
  show ?thesis
  proof (cases "trim_space (ep_server (pn_target p)) = [] \<or> pn_services p = []")
    case True
    then show ?thesis using assms p by (intro stopped[of "[]"]) (auto simp: runDockerApply_def Let_def split: if_splits)
  next
    case ne: False
    obtain r tr where r: "live_risks env p [] = (r, tr)" by (meson surj_pair)
    note g = live_risks_reads[OF r]
    show ?thesis
    proof (cases r)
      case (Inl e)
      then show ?thesis using assms p ne r g by (intro stopped[of tr]) (auto simp: runDockerApply_def Let_def)
    next
      case rs: (Inr rs)
      consider "af_dry_run fl" | "\<not> af_dry_run fl" "plan_wide_blocker rs \<noteq> []"
        | e where "\<not> af_dry_run fl" "plan_wide_blocker rs = []" "apply_gate fl op p rs = Some e"
        | "\<not> af_dry_run fl" "plan_wide_blocker rs = []" "apply_gate fl op p rs = None" by blast
      then show ?thesis
      proof cases
        case 1
        then show ?thesis using assms p ne r g rs by (intro stopped[of tr]) (auto simp: runDockerApply_def Let_def stopped_run_def)
      next
        case 2
        then show ?thesis using assms p ne r g rs by (intro stopped[of tr]) (auto simp: runDockerApply_def Let_def stopped_run_def)
      next
        case 3
        then show ?thesis using assms p ne r g rs by (intro stopped[of tr]) (auto simp: runDockerApply_def Let_def stopped_run_def)
      next
        case 4
        then show ?thesis using assms p ne r g rs by (intro executed[of p rs tr]) (auto simp: runDockerApply_def Let_def)
      qed
    qed
  qed
qed

section \<open>Properties of the command\<close>

text \<open>C28. Nothing is migrated without consent: in a dry run, or unless \<open>--yes\<close> was given or an operator at a terminal said yes,
  the stores are as before, no service has an outcome, and the hosts were only looked at. The same holds when a blocker
  concerns the whole plan; \<open>--yes\<close> does not get around it.\<close>

theorem apply_needs_consent:
  assumes "runDockerApply fl op env read_yaml read migrate path w = out"
    and "af_dry_run fl \<or> \<not> apply_consented fl op
       \<or> (\<exists>p rs tr. Load read_yaml read path = Inr p \<and> live_risks env p [] = (Inr rs, tr) \<and> plan_wide_blocker rs \<noteq> [])"
  shows "ao_world out = w \<and> ao_outcomes out = None \<and> (\<forall>x\<in>set (ao_trace out). read_only_step x)
    \<and> (af_dry_run fl \<or> ao_error out \<noteq> None)"
  using assms(1)
proof (cases rule: run_apply_parts)
  case (stopped tr)
  then show ?thesis by (auto simp: reads_only_def list_all_iff)
next
  case (executed p rs tr)
  then show ?thesis using assms(2) gate_consent[of fl op p rs] by auto
qed

lemma exit_error_None: "exit_error p outs = None \<longleftrightarrow> (\<forall>o1\<in>set outs. so_status o1 = ApplySuccess)"
  by (auto simp: exit_error_def Let_def filter_empty_conv)

lemma fold_outcome_success:
  "so_status (fold_outcome r o1) = ApplySuccess \<longleftrightarrow>
     so_status o1 = ApplySuccess \<and> (\<forall>h. report_of r (so_service o1) = Some h \<longrightarrow> FailedChecks h = [])"
  by (auto simp: fold_outcome_def split: option.splits)

lemma fold_outcome_service [simp]: "so_service (fold_outcome r o1) = so_service o1"
  by (auto simp: fold_outcome_def split: option.splits)

lemma unprobed_same [simp]: "so_service (unprobed e o1) = so_service o1" "so_status (unprobed e o1) = so_status o1"
  by (simp_all add: unprobed_def)

text \<open>C29. What the exit code 0 of a real run means: no blocker stands against the plan or one of its services, each service has
  the outcome success, its migration returned without an error, and the health probe, when it could run, proved no check
  of it failed.\<close>

theorem exit_zero_means_migrated:
  assumes "runDockerApply fl op env read_yaml read migrate path w = out" "ao_error out = None" "\<not> af_dry_run fl"
  shows "\<exists>p rs tr outs outs0 tr1 w1. Load read_yaml read path = Inr p \<and> live_risks env p [] = (Inr rs, tr)
    \<and> plan_wide_blocker rs = [] \<and> (\<forall>r\<in>set (rs_blockers rs). blocks_service r \<longrightarrow> rk_service r \<notin> sp_name ` set (pn_services p))
    \<and> ao_outcomes out = Some outs \<and> map so_service outs = map sp_name (pn_services p) \<and> outs \<noteq> []
    \<and> (\<forall>o1\<in>set outs. so_status o1 = ApplySuccess)
    \<and> (\<forall>s\<in>set (pn_services p). \<exists>t v. fst (migrate p s t v) = None)
    \<and> runDockerApplyServices migrate p (blocked_services rs) tr w = (outs0, tr1, w1) \<and> ao_world out = w1
    \<and> (\<not> af_no_health fl \<longrightarrow> (\<forall>h tr2. probeServiceHealth env (ep_server (pn_target p)) (health_targets_of p outs0) tr1 = (Inr h, tr2) \<longrightarrow>
         (\<forall>s\<in>set (pn_services p). \<forall>v. report_of h (sp_name s) = Some v \<longrightarrow> FailedChecks v = [])))"
  using assms(1)
proof (cases rule: run_apply_parts)
  case (stopped tr)
  then show ?thesis using assms(2,3) by simp
next
  case (executed p rs tr)
  obtain outs0 tr1 w1 where m: "runDockerApplyServices migrate p (blocked_services rs) tr w = (outs0, tr1, w1)" by (metis prod_cases3)
  note spec = apply_services_spec[OF m[unfolded runDockerApplyServices_def]]
  obtain outs tr2 where h: "(if af_no_health fl then (outs0, tr1) else runDockerApplyHealthCheck env p outs0 tr1) = (outs, tr2)"
    by (meson surj_pair)
  have o: "ao_outcomes out = Some outs" "ao_error out = exit_error p outs" "ao_world out = w1"
    unfolding executed(8) execute_apply_def by (simp_all add: m h)
  then have all: "\<forall>o1\<in>set outs. so_status o1 = ApplySuccess" using assms(2) exit_error_None by metis
  have kinds: "outs = outs0 \<or> (\<exists>e. outs = map (unprobed e) outs0) \<or> (\<exists>r. outs = map (fold_outcome r) outs0)"
    using h by (auto simp: runDockerApplyHealthCheck_def foldHealthIntoOutcomes_def split: if_splits sum.splits prod.splits)
  then have same: "map so_service outs = map so_service outs0" by (auto simp: comp_def)
  have all0: "\<forall>o1\<in>set outs0. so_status o1 = ApplySuccess" using kinds all by (auto simp: fold_outcome_success)
  have each: "blocked_services rs (sp_name s) = None \<and> (\<exists>t v. fst (migrate p s t v) = None)" if s: "s \<in> set (pn_services p)" for s
  proof -
    obtain i where i: "i < length (pn_services p)" "pn_services p ! i = s" using s by (auto simp: in_set_conv_nth)
    have len: "length outs0 = length (pn_services p)" using spec by (metis length_map)
    have "outs0 ! i \<in> set outs0" using i(1) len by simp
    then have "so_status (outs0 ! i) = ApplySuccess" using all0 by blast
    then show ?thesis using spec i by (auto simp: list_all2_conv_all_nth)
  qed
  have unblocked: "rk_service r \<notin> sp_name ` set (pn_services p)" if "r \<in> set (rs_blockers rs)" "blocks_service r" for r
    using each that by (force simp: blocked_services_def map_of_eq_None_iff)
  have health: "FailedChecks v = []"
    if "\<not> af_no_health fl" "probeServiceHealth env (ep_server (pn_target p)) (health_targets_of p outs0) tr1 = (Inr r, t)"
      "s \<in> set (pn_services p)" "report_of r (sp_name s) = Some v" for r t s v
  proof (cases "health_targets_of p outs0 = []")
    case True
    then have "hr_services r = []" using that(2) by (auto simp: probeServiceHealth_def)
    then show ?thesis using that(4) by (simp add: report_of_def)
  next
    case False
    then have f: "outs = map (fold_outcome r) outs0"
      using h that(1,2) by (simp add: runDockerApplyHealthCheck_def foldHealthIntoOutcomes_def)
    have "sp_name s \<in> set (map so_service outs0)" using spec that(3) by simp
    then obtain o1 where "o1 \<in> set outs0" "so_service o1 = sp_name s" by auto
    then show ?thesis using all that(4) unfolding f by (auto simp: fold_outcome_success)
  qed
  have "outs \<noteq> []" using same spec executed(7) by auto
  moreover have "map so_service outs = map sp_name (pn_services p)" using same spec by simp
  ultimately show ?thesis
    using executed(1,2,5) o(1,3) all each unblocked m health
    by (intro exI[of _ p] exI[of _ rs] exI[of _ tr] exI[of _ outs] exI[of _ outs0] exI[of _ tr1] exI[of _ w1]) blast
qed

section \<open>Adjusted targets\<close>

lemma first_manifest_parsed:
  "first_manifest parse_yaml exec tgt ps tr = (Some m, tr') \<Longrightarrow> \<exists>raw. UnmarshalManifest parse_yaml raw = Inr m"
proof (induction ps arbitrary: tr)
  case (Cons p ps)
  obtain r tr1 where "readApplyTextFile exec tgt p tr = (r, tr1)" by (meson surj_pair)
  then show ?case using Cons by (auto split: sum.splits if_splits)
qed simp

lemma move_project_dir:
  "move_project exec tgt s ad tr = (Inr dir, tr') \<Longrightarrow> dir = (if ad_project ad = [] then planned_dir s else ad_project ad)"
  by (auto simp: move_project_def Let_def split: if_splits prod.splits option.splits)

text \<open>The step that loads the dump of a manifest, when it names one.\<close>

definition database_steps :: "target \<Rightarrow> service_plan \<Rightarrow> string \<Rightarrow> string \<Rightarrow> manifest option \<Rightarrow> executed \<Rightarrow> bool" where
  "database_steps tgt s alias_name dir mo xs \<longleftrightarrow>
     (case mo of
        None \<Rightarrow> xs = []
      | Some m \<Rightarrow>
          (case mf_database m of
             None \<Rightarrow> xs = []
           | Some d \<Rightarrow>
               if md_dump d = [] then xs = []
               else (\<exists>dump script. ResolveDatabaseDump m dir = Inr dump
                      \<and> BuildImportScript (md_engine d) (if md_container d = [] \<or> md_container d = mf_app m then alias_name else md_container d) dump = Inr script
                      \<and> xs = [(tgt, ''apply-import-db-'' @ sp_name s, script)])))"

lemma import_database_done:
  assumes "import_database exec tgt s alias_name dir m tr = (None, tr')"
  shows "\<exists>xs. tr' = tr @ xs \<and> database_steps tgt s alias_name dir (Some m) xs"
proof (cases "mf_database m")
  case None
  then show ?thesis using assms by (simp add: import_database_def database_steps_def)
next
  case (Some d)
  show ?thesis
  proof (cases "md_dump d = []")
    case True
    then show ?thesis using assms Some by (simp add: import_database_def database_steps_def)
  next
    case False
    define c where "c = (if md_container d = [] \<or> md_container d = mf_app m then alias_name else md_container d)"
    obtain dump script where r: "ResolveDatabaseDump m dir = Inr dump" "BuildImportScript (md_engine d) c dump = Inr script"
      using assms Some False by (auto simp: import_database_def Let_def c_def[symmetric] split: sum.splits)
    obtain e tr1 where x: "runApplyScript exec tgt (''apply-import-db-'' @ sp_name s) script tr = (e, tr1)" by (meson surj_pair)
    then have "tr' = tr1" using assms Some False r by (auto simp: import_database_def Let_def c_def[symmetric] split: option.splits)
    then show ?thesis using runApplyScript_trace[OF x] Some False r by (simp add: database_steps_def c_def)
  qed
qed


text \<open>A manifest that cannot be parsed counts as a missing one: the project is started without its volumes and its database,
  and the service is a success.\<close>

lemma corrupt_manifest_starts_empty:
  assumes "\<And>raw. \<exists>e. UnmarshalManifest (ae_manifest env) raw = Inl e"
    and "\<And>tr t task script. \<exists>out. ae_exec env tr t task script = (Some \<lparr>er_success = True, er_exit = 0, er_duration = 1, er_error = None\<rparr>, None, out)"
    and "ad_ports ad = None" "ad_binds ad = []" "ad_project ad \<noteq> []" "ad_project ad \<noteq> planned_dir s" "planned_dir s \<notin> {[], ''.''}"
  shows "\<exists>tr'. adjust_target env tgt s ad alias_name tr = (None, tr')
    \<and> map (\<lambda>x. fst (snd x)) tr' = map (\<lambda>x. fst (snd x)) tr
         @ [''apply-move-project-'' @ sp_name s, ''apply-read'', ''apply-read'', ''apply-compose-up-'' @ sp_name s]"
proof -
  have run: "runApplyScript (ae_exec env) t n c r = (None, r @ [(t, n, c)])" for t n c r
    using assms(2)[of r t n c] by (auto simp: runApplyScript_def unsuccessful_def Let_def)
  have rd: "\<exists>raw. readApplyTextFile (ae_exec env) t p r = (Inr raw, r @ [(t, ''apply-read'', ''cat '' @ quote p)])" for t p r
    using assms(2)[of r t "''apply-read''" "''cat '' @ quote p"] by (auto simp: readApplyTextFile_def unsuccessful_def Let_def)
  have skip: "first_manifest (ae_manifest env) (ae_exec env) t (p # ps) r
      = first_manifest (ae_manifest env) (ae_exec env) t ps (r @ [(t, ''apply-read'', ''cat '' @ quote p)])" for t p ps r
  proof -
    obtain raw where raw: "readApplyTextFile (ae_exec env) t p r = (Inr raw, r @ [(t, ''apply-read'', ''cat '' @ quote p)])" using rd by blast
    obtain e where "UnmarshalManifest (ae_manifest env) raw = Inl e" using assms(1) by blast
    then show ?thesis using raw by simp
  qed
  show ?thesis
    using assms(3-7)
    by (simp add: adjust_target_def move_project_def run rewrite_compose_def readApplyManifest_def skip
        apply_manifest_volumes_def compose_up_def Let_def del: first_manifest.simps(2))
qed

section \<open>Witnesses\<close>

definition live_output :: "string \<Rightarrow> string" where
  "live_output task =
     (if task = ''docker-capability-probe'' then (''DOCKER=present'' @ [CHR 0x0A] @ ''DOCKER_DAEMON=running'' @ [CHR 0x0A] @ ''COMPOSE=plugin'' @ [CHR 0x0A] @ ''RESTIC=present'')
      else if task = ''docker-inspect'' then ''[]'' else [])"

definition live_env :: docker_env where
  "live_env =
     \<lparr>de_server = (\<lambda>n. Inl (errors_new ''none'')),
      de_exec = (\<lambda>tr t task s. (Some \<lparr>er_success = True, er_exit = 0, er_duration = 1, er_error = None\<rparr>, None, live_output task)),
      de_float = (\<lambda>s. None), de_ps = (\<lambda>s. Inl (errors_new ''none'')), de_list = (\<lambda>s. Inr [bare_raw]), de_one = (\<lambda>s. Inr bare_raw)\<rparr>"

definition bare_analysis :: container_analysis where
  "bare_analysis = Analyze (info_of_raw bare_raw)"

definition bare_service :: service_plan where
  "bare_service = (batch_service ''web'')
     \<lparr>sp_mode := (if ca_is_compose bare_analysis then ModeCompose else ModeRun), sp_project := ca_project bare_analysis,
      sp_compose_service := ca_service bare_analysis, sp_image := ca_image bare_analysis,
      sp_config := (sp_config (batch_service ''web''))\<lparr>sc_working_dir := []\<rparr>,
      sp_volumes := ca_named bare_analysis, sp_binds := ca_binds bare_analysis, sp_database := buildDatabasePlan bare_analysis\<rparr>"

definition bare_plan :: plan where
  "bare_plan = (example_plan PlanKind PlanFormatVersion)
     \<lparr>pn_source := \<lparr>ep_server = ''local'', ep_capability = None\<rparr>, pn_target := \<lparr>ep_server = ''local'', ep_capability = None\<rparr>,
      pn_services := [bare_service]\<rparr>"

lemma bare_service_sel:
  "sp_name bare_service = ''web''" "sp_container bare_service = ''web''" "sp_paths bare_service = []"
  "sp_ports bare_service = [''8080:80'']" "sc_ports (sp_config bare_service) = [''8080:80'']" "sc_working_dir (sp_config bare_service) = []"
  "sp_image bare_service = ca_image bare_analysis" "sp_binds bare_service = ca_binds bare_analysis"
  "sp_volumes bare_service = ca_named bare_analysis" "sp_acquisition bare_service = ImageUnknown"
  by (simp_all add: bare_service_def batch_service_def)

lemma bare_analysis_sel: "ca_binds bare_analysis = []" "ca_named bare_analysis = []" "ca_image bare_analysis = ''nginx''" "ca_blockers bare_analysis = []"
proof -
  have m: "ci_mounts (info_of_raw bare_raw) = []" by (simp add: info_of_raw_def bare_raw_def)
  show "ca_binds bare_analysis = []" "ca_named bare_analysis = []"
    using analysis_accounts_for_mounts[of "info_of_raw bare_raw"] by (simp_all add: bare_analysis_def m)
  show "ca_image bare_analysis = ''nginx''" by (simp add: bare_analysis_def Analyze_def Let_def info_of_raw_def bare_raw_def)
  have "trim_space ''nginx'' \<noteq> []" "\<not> has_prefix (trim_space []) ''container:''" by code_simp+
  then have "collectBlockers (info_of_raw bare_raw) = []"
    by (simp add: collectBlockers_def when_list_def Let_def info_of_raw_def bare_raw_def)
  then show "ca_blockers bare_analysis = []" by (simp add: bare_analysis_def Analyze_def Let_def)
qed

lemma bare_unchanged: "VerifySource (Some bare_plan) [''web'' \<mapsto> bare_analysis] = []"
proof -
  have d: "planDatabaseSignature (sp_database bare_service) = databaseSignature (ca_database bare_analysis)"
    by (auto simp: bare_service_def planDatabaseSignature_def buildDatabasePlan_def databaseSignature_def split: option.splits)
  have m: "ModeRun \<noteq> ModeCompose" by code_simp
  have "drift_details bare_service bare_analysis = []"
    using d m by (simp add: drift_details_def when_list_def Let_def bare_service_sel) (simp add: bare_service_def)
  then show ?thesis
    by (simp add: VerifySource_def bare_plan_def source_check_def sourceDriftRisks_def when_list_def Let_def bare_service_sel bare_analysis_sel)
qed

text \<open>The live checks of this plan find nothing.\<close>

lemma bare_live: "\<exists>tr. live_risks live_env bare_plan [] = (Inr no_risks, tr) \<and> tr \<noteq> []"
proof -
  define vs where "vs = [(''RESTIC'', ''present''), (''COMPOSE'', ''plugin''), (''DOCKER_DAEMON'', ''running''), (''DOCKER'', ''present'')]"
  have scan: "scan_probe (live_output ''docker-capability-probe'') = \<lparr>pl_values = vs, pl_paths = [], pl_images = []\<rparr>"
    unfolding vs_def by code_simp
  define rep where "rep = ParseProbeOutput (\<lambda>s. None) ''local'' (live_output ''docker-capability-probe'')"
  have v: "label_value vs ''DOCKER'' = ''present''" "label_value vs ''DOCKER_DAEMON'' = ''running''" "label_value vs ''COMPOSE'' = ''plugin''"
    "label_value vs ''RESTIC'' = ''present''" "label_value vs ''HELPER_IMAGE'' = []" "label_value vs ''REGISTRY'' = []"
    "label_value vs ''DISK'' = []" "str_fields [] = []"
    unfolding vs_def by (simp_all add: label_value_def, code_simp)
  have rep: "ck_status (rp_docker rep) = StatusOK" "ck_status (rp_compose rep) = StatusOK" "ck_status (rp_restic rep) = StatusOK"
    "ck_status (rp_helper rep) = StatusUnknown" "ck_status (rp_registry rep) = StatusUnknown" "rp_paths rep = []" "rp_images rep = []"
    "ds_status (rp_disk rep) = StatusUnknown"
    by (simp_all add: rep_def ParseProbeOutput_def Let_def scan dockerCheck_def composeCheck_def presenceCheck_def helperImageCheck_def
        registryCheck_def pathChecks_def imageChecks_def v mk_check_def diskCheck_def disk_unknown_def)
  have i: "remote_inspect (de_list live_env) (de_one live_env) (de_exec live_env) NewLocalTarget ''web'' tr
      = (Inr (info_of_raw bare_raw), tr @ [(NewLocalTarget, ''docker-inspect'', BuildInspectScript (trim_space ''web''))])" for tr
  proof -
    have t: "trim_space ''web'' = ''web''" "trim_space ''[]'' = ''[]''" "has_prefix ''[]'' ''[''" by code_simp+
    show ?thesis
      by (simp add: remote_inspect_def live_env_def live_output_def t dockerMissingSentinel_def unsuccessful_def ParseInspectJSON_def Let_def)
  qed
  have p: "remote_probe (de_float live_env) (de_exec live_env) NewLocalTarget opts tr = (Inr rep, tr @ [(NewLocalTarget, ''docker-capability-probe'', script)])"
    if "BuildProbeScript opts = Inr script" for opts script tr
    using that by (simp add: remote_probe_def live_env_def unsuccessful_def rep_def Let_def NewLocalTarget_def)
  have paths: "PlanHostPaths (Some bare_plan) = []" "PlanTargetPaths (Some bare_plan) = []"
    by (simp_all add: PlanHostPaths_def PlanTargetPaths_def plan_services_def bare_plan_def bare_service_sel bare_analysis_sel appendUnique_def)
  have img: "PlanImages (Some bare_plan) = [''nginx'']"
  proof -
    have "trim_space ''nginx'' = ''nginx''" by code_simp
    then show ?thesis by (simp add: PlanImages_def plan_services_def bare_plan_def bare_service_sel bare_analysis_sel appendUnique_def)
  qed
  have b1: "\<exists>sc. BuildProbeScript \<lparr>po_paths = [], po_images = []\<rparr> = Inr sc" by (simp add: BuildProbeScript_def)
  have b2: "\<exists>sc. BuildProbeScript \<lparr>po_paths = [], po_images = [''nginx'']\<rparr> = Inr sc"
  proof -
    have "trim_space ''nginx'' = ''nginx''" by code_simp
    then show ?thesis by (simp add: BuildProbeScript_def)
  qed
  have l: "remote_list (de_ps live_env) (de_exec live_env) NewLocalTarget True tr
      = (Inr [], tr @ [(NewLocalTarget, ''docker-ps'', BuildListScript True)])" for tr
    by (simp add: remote_list_def live_env_def live_output_def dockerMissingSentinel_def unsuccessful_def Let_def ParsePsJSON_def)
  have ins: "inspect_sources live_env NewLocalTarget ''local'' [bare_service] Map.empty []
      = (Inr [''web'' \<mapsto> bare_analysis], [(NewLocalTarget, ''docker-inspect'', BuildInspectScript (trim_space ''web''))])"
    by (simp add: bare_service_sel i bare_analysis_def)
  have adj: "Adjustments bare_service = \<lparr>ad_ports = None, ad_binds = [], ad_project = []\<rparr>"
    by (simp add: Adjustments_def bare_service_sel)
  have batch: "VerifyProjectBatching (Some bare_plan) = []"
  proof -
    have r: "batch_risk [bare_service] q = []" for q by (simp add: batch_risk_def batch_members_def Let_def)
    have c: "concat (map (batch_risk [bare_service]) (batch_projects [bare_service])) = []" using r by simp
    have ps: "plan_services (Some bare_plan) = [bare_service]" by (simp add: plan_services_def bare_plan_def)
    show ?thesis unfolding VerifyProjectBatching_def ps c by simp
  qed
  have target: "VerifyTarget (Some bare_plan) [] [] = []"
    by (simp add: VerifyTarget_def plan_services_def bare_plan_def bare_service_sel targetConflicts_def container_conflicts_def when_list_def
        publishedPortIndex_def port_entries_def port_conflict_def split: prod.splits)
  have img_ok: "VerifyTargetImages (Some bare_plan) (Some rep) = []"
    by (simp add: VerifyTargetImages_def plan_services_def bare_plan_def image_risk_def rep pathIndex_def)
  have adj_ok: "AdjustmentRisks (Some bare_plan) = []"
    by (simp add: AdjustmentRisks_def plan_services_def bare_plan_def adjustment_risk_def adj adjustment_any_def when_list_def)
  have caps: "CheckSourceRisks (Some rep) b = []" "CheckTargetRisks sv (Some rep) b = []" for b sv
    by (simp_all add: CheckSourceRisks_def CheckTargetRisks_def sourceRisks_def targetRisks_def diskRisks_def when_list_def rep)
  have lc: "Add no_risks (live_checks bare_plan [''web'' \<mapsto> bare_analysis] rep rep []) = no_risks"
    by (simp add: live_checks_def batch target img_ok adj_ok caps bare_unchanged rep Add_def)
  obtain s1 s2 where sc: "BuildProbeScript \<lparr>po_paths = [], po_images = []\<rparr> = Inr s1" "BuildProbeScript \<lparr>po_paths = [], po_images = [''nginx'']\<rparr> = Inr s2"
    using b1 b2 by blast
  have q: "ep_server (pn_source bare_plan) = ''local''" "ep_server (pn_target bare_plan) = ''local''" "pn_services bare_plan = [bare_service]"
    by (simp_all add: bare_plan_def)
  show ?thesis
    by (simp add: live_risks_def q resolve_local ins paths img p[OF sc(1)] p[OF sc(2)] l lc del: inspect_sources.simps)
qed

definition real_run :: apply_flags where
  "real_run = \<lparr>af_yes = True, af_dry_run = False, af_json = False, af_no_health = True\<rparr>"

abbreviation live_apply :: "apply_flags \<Rightarrow> nat apply_outcome" where
  "live_apply fl \<equiv> runDockerApply fl \<lparr>op_interactive = False, op_types = (\<lambda>q. None)\<rparr> live_env (\<lambda>t. Inr bare_plan) (\<lambda>f. Inr [])
     (\<lambda>p s tr n. (None, tr, n + 1)) ''plan.yaml'' 0"

lemma bare_load: "Load (\<lambda>t. Inr bare_plan) (\<lambda>f. Inr []) ''plan.yaml'' = Inr bare_plan"
proof -
  have "trim_space ''plan.yaml'' \<noteq> []" by code_simp
  then show ?thesis by (simp add: Load_def Let_def bare_plan_def example_plan_def)
qed

lemma live_apply_runs:
  "\<exists>tr. live_apply real_run = execute_apply real_run live_env (\<lambda>p s tr n. (None, tr, n + 1)) bare_plan no_risks tr 0 \<and> tr \<noteq> []"
proof -
  have t: "trim_space ''local'' \<noteq> []" by code_simp
  obtain tr where "live_risks live_env bare_plan [] = (Inr no_risks, tr)" "tr \<noteq> []" using bare_live by blast
  moreover have "ep_server (pn_target bare_plan) = ''local''" "pn_services bare_plan \<noteq> []" by (simp_all add: bare_plan_def)
  ultimately show ?thesis
    using t by (intro exI[of _ tr])
      (simp add: runDockerApply_def bare_load real_run_def plan_wide_blocker_def no_risks_def apply_gate_def confirmGate_def Let_def)
qed

theorem exit_zero_means_migrated_witness:
  "\<exists>out. live_apply real_run = out \<and> ao_error out = None \<and> ao_world out = 1 \<and> ao_outcomes out \<noteq> None"
proof -
  obtain out where out: "live_apply real_run = out" by blast
  obtain tr where r: "out = execute_apply real_run live_env (\<lambda>p s tr n. (None, tr, n + 1)) bare_plan no_risks tr 0"
    using live_apply_runs unfolding out by blast
  have b: "blocked_services no_risks = Map.empty" by (simp add: blocked_services_def no_risks_def)
  have e: "ao_error out = None" "ao_world out = 1"
    unfolding r by (simp_all add: execute_apply_def runDockerApplyServices_def bare_plan_def b real_run_def exit_error_def)
  have d: "\<not> af_dry_run real_run" by (simp add: real_run_def)
  have "ao_outcomes out \<noteq> None" using exit_zero_means_migrated[OF out e(1) d] by (elim exE conjE) simp
  then show ?thesis using out e by blast
qed

theorem apply_needs_consent_witness:
  "\<exists>out. live_apply (real_run\<lparr>af_yes := False\<rparr>) = out \<and> ao_world out = 0 \<and> ao_error out \<noteq> None
     \<and> (\<exists>tr. ao_trace (live_apply real_run) = tr \<and> tr \<noteq> [])"
proof -
  let ?op = "\<lparr>op_interactive = False, op_types = (\<lambda>q. None)\<rparr>"
  obtain out where out: "live_apply (real_run\<lparr>af_yes := False\<rparr>) = out" by blast
  have n: "\<not> apply_consented (real_run\<lparr>af_yes := False\<rparr>) ?op" by (simp add: apply_consented_def real_run_def)
  have d: "\<not> af_dry_run (real_run\<lparr>af_yes := False\<rparr>)" by (simp add: real_run_def)
  obtain tr where r: "live_apply real_run = execute_apply real_run live_env (\<lambda>p s tr n. (None, tr, n + 1)) bare_plan no_risks tr 0" "tr \<noteq> []"
    using live_apply_runs by blast
  have "blocked_services no_risks = Map.empty" by (simp add: blocked_services_def no_risks_def)
  then have "ao_trace (live_apply real_run) \<noteq> []"
    unfolding r(1) using r(2) by (simp add: execute_apply_def runDockerApplyServices_def bare_plan_def real_run_def)
  moreover have "ao_world out = 0" "ao_error out \<noteq> None" using apply_needs_consent[OF out] n d by blast+
  ultimately show ?thesis using out by blast
qed

definition quiet_env :: apply_env where
  "quiet_env =
     \<lparr>ae_docker = live_env\<lparr>de_exec := (\<lambda>tr t task s. (Some \<lparr>er_success = True, er_exit = 0, er_duration = 1, er_error = None\<rparr>, None, ''m''))\<rparr>,
      ae_manifest = (\<lambda>t. Inr example_manifest), ae_read_compose = (\<lambda>t. Inl (errors_new ''none'')), ae_show_compose = (\<lambda>r. Inr [])\<rparr>"

definition moved :: service_adjustment where
  "moved = \<lparr>ad_ports = None, ad_binds = [], ad_project = ''/srv/new''\<rparr>"


end
