(* ===== verification/Secret.thy ===== *)
theory Secret
  imports YamlStore GoPath Shellquote
begin

text \<open>
  Package \<open>internal/secret\<close>: references into the 1Password vault and the titles of its items (\<open>item.go\<close>), the
  resolver of references (\<open>resolver.go\<close>), the remembered defaults (\<open>settings.go\<close>), finding and running the
  1Password command-line program (\<open>opcli.go\<close>) and the guard against references at run time (\<open>guard.go\<close>), with the
  parts of \<open>internal/platform\<close> they use. The program \<open>op\<close> itself, the file system and the environment are
  parameters. A run of \<open>op\<close> is what one attempt answers, so a repeated run may answer differently.
\<close>

section \<open>References\<close>

definition Prefix1P :: string where
  "Prefix1P = ''op://''"

definition Is1PRef :: "string \<Rightarrow> bool" where
  "Is1PRef v \<longleftrightarrow> has_prefix (trim_space v) Prefix1P"

definition PasswordItemLabel :: string where
  "PasswordItemLabel = ''password''"

definition sshKeyManagedFieldID :: string where
  "sshKeyManagedFieldID = ''opspulse_private_key''"

definition inventoryNoteFieldID :: string where
  "inventoryNoteFieldID = ''notesPlain''"

definition inventoryItemCategoryID :: string where
  "inventoryItemCategoryID = ''SECURE_NOTE''"

definition InventoryItemTitle :: string where
  "InventoryItemTitle = ''opspulse_inventory''"

definition InventoryItemTitleFor :: "string \<Rightarrow> string" where
  "InventoryItemTitleFor machine = InventoryItemTitle @ ''_'' @ machine"

definition IsInventoryItemTitle :: "string \<Rightarrow> bool" where
  "IsInventoryItemTitle title \<longleftrightarrow> has_prefix title InventoryItemTitle"

definition SSHKeyItemTitle :: "string \<Rightarrow> string" where
  "SSHKeyItemTitle n = ''opspulse_'' @ n @ ''_key''"

definition PasswordItemTitle :: "string \<Rightarrow> string" where
  "PasswordItemTitle n = ''opspulse_'' @ n @ ''_password''"

text \<open>The shape the three builders share.\<close>

definition build_ref :: "string \<Rightarrow> string \<Rightarrow> string \<Rightarrow> string" where
  "build_ref vault title fld = Prefix1P @ vault @ ''/'' @ title @ ''/'' @ fld"

definition BuildSSHKeyRef :: "string \<Rightarrow> string \<Rightarrow> string" where
  "BuildSSHKeyRef vault title = build_ref vault title sshKeyManagedFieldID"

definition BuildPasswordRef :: "string \<Rightarrow> string \<Rightarrow> string" where
  "BuildPasswordRef vault title = build_ref vault title PasswordItemLabel"

definition BuildInventoryRef :: "string \<Rightarrow> string \<Rightarrow> string" where
  "BuildInventoryRef vault title = build_ref vault title inventoryNoteFieldID"

text \<open>\<open>Parse1PRef\<close>: vault, item and field, where the code answers \<open>ok\<close>.\<close>

definition ref_field :: "string \<Rightarrow> string" where
  "ref_field f0 =
     (let f = trim_space f0
      in case cut_at (CHR ''?'') f of (a, b, found) \<Rightarrow> if found then trim_space a else f)"

definition Parse1PRef :: "string \<Rightarrow> (string \<times> string \<times> string) option" where
  "Parse1PRef ref =
     (let trimmed = trim_space ref
      in if \<not> Is1PRef trimmed then None
         else (case cut_at slash (trim_prefix trimmed Prefix1P) of
                 (v0, r1, f1) \<Rightarrow>
                   (if \<not> f1 then None
                    else (case cut_at slash r1 of
                            (i0, r2, f2) \<Rightarrow>
                              (let v = trim_space v0; i = trim_space i0
                               in if v = [] \<or> i = [] then None
                                  else Some (v, i, if f2 then ref_field r2 else []))))))"

definition ParseSSHKeyRef :: "string \<Rightarrow> (string \<times> string) option" where
  "ParseSSHKeyRef ref = map_option (\<lambda>(v, i, f). (v, i)) (Parse1PRef ref)"

section \<open>The inventory item\<close>

text \<open>
  A string as \<open>encoding/json\<close> writes it: HTML-sensitive characters, line separators and control characters are
  escaped, an invalid byte becomes U+FFFD.
\<close>

definition json_char :: "nat \<Rightarrow> string" where
  "json_char b =
     (if b = 34 then [CHR 0x5C, CHR 0x22]
      else if b = 92 then [CHR 0x5C, CHR 0x5C]
      else if b = 8 then [CHR 0x5C, CHR ''b'']
      else if b = 12 then [CHR 0x5C, CHR ''f'']
      else if b = 10 then [CHR 0x5C, CHR ''n'']
      else if b = 13 then [CHR 0x5C, CHR ''r'']
      else if b = 9 then [CHR 0x5C, CHR ''t'']
      else if b < 32 \<or> b = 60 \<or> b = 62 \<or> b = 38
        then [CHR 0x5C, CHR ''u'', CHR ''0'', CHR ''0'', hex_digit (b div 16), hex_digit (b mod 16)]
      else [char_of b])"

function json_body :: "nat list \<Rightarrow> string" where
  "json_body [] = []"
| "json_body (b # bs) =
     (if b < 128 then json_char b @ json_body bs
      else (case decode_rune (b # bs) of (r, w) \<Rightarrow>
              (if r = 65533 \<and> w = 1 then CHR 0x5C # ''ufffd''
               else if r = 8232 then CHR 0x5C # ''u2028''
               else if r = 8233 then CHR 0x5C # ''u2029''
               else map char_of (take w (b # bs)))
              @ json_body (drop (w - 1) bs)))"
  by pat_completeness auto
termination
  by (relation "measure length") auto

definition json_quote :: "string \<Rightarrow> string" where
  "json_quote s = CHR 0x22 # json_body (map code_of s) @ [CHR 0x22]"

text \<open>\<open>encodeItem\<close> of the one document the code builds: \<open>json.MarshalIndent\<close> orders the keys of a map.\<close>

definition encodeItem :: "string \<Rightarrow> string \<Rightarrow> string" where
  "encodeItem title payload =
     (''{'' @ [CHR 0x0A] @ ''  \"category\": '' @ json_quote inventoryItemCategoryID @ '','' @ [CHR 0x0A] @ ''  \"fields\": ['' @ [CHR 0x0A] @ ''    {'' @ [CHR 0x0A] @ ''      \"id\": '' @ json_quote inventoryNoteFieldID @ '','' @ [CHR 0x0A] @ ''      \"label\": '' @ json_quote inventoryNoteFieldID @ '','' @ [CHR 0x0A] @ ''      \"purpose\": \"NOTES\",'' @ [CHR 0x0A] @ ''      \"type\": \"STRING\",'' @ [CHR 0x0A] @ ''      \"value\": '' @ json_quote payload @ [CHR 0x0A] @ ''    }'' @ [CHR 0x0A] @ ''  ],'' @ [CHR 0x0A] @ ''  \"title\": '' @ json_quote title @ [CHR 0x0A] @ ''}'')"

definition BuildInventoryItem :: "string \<Rightarrow> string \<Rightarrow> string res" where
  "BuildInventoryItem title payload =
     (if trim_space payload = [] then Inl (errors_new ''refusing to write an empty inventory into 1Password'')
      else Inr (encodeItem title payload))"

section \<open>The platform\<close>

definition IsWSL :: "string \<Rightarrow> string option \<Rightarrow> bool" where
  "IsWSL distro version =
     (if distro \<noteq> [] then True
      else case version of
             None \<Rightarrow> False
           | Some t \<Rightarrow> (let c = to_lower t in contains_str c ''microsoft'' \<or> contains_str c ''wsl''))"

definition ToWSLPath :: "string \<Rightarrow> string" where
  "ToWSLPath winPath =
     (let t = trim_space winPath
      in if 2 \<le> length t \<and> t ! 1 = CHR '':''
         then ''/mnt/'' @ to_lower [t ! 0] @ replace_all [CHR 0x5C] ''/'' (drop 2 t)
         else t)"

definition ToWindowsPath :: "string \<Rightarrow> string" where
  "ToWindowsPath p =
     (if has_prefix p ''/mnt/'' \<and> 7 \<le> length p \<and> p ! 6 = slash
      then to_upper [p ! 5] @ [CHR '':'', CHR 0x5C] @ replace_all ''/'' [CHR 0x5C] (drop 7 p)
      else p)"

section \<open>The command-line program\<close>

definition ErrCLINotFound :: sentinel where
  "ErrCLINotFound = ''1Password CLI ('op') was not found in PATH''"

record cli =
  cli_path :: string
  cli_windows :: bool
  cli_env :: "string list"

definition no_cli :: cli where
  "no_cli = \<lparr>cli_path = [], cli_windows = False, cli_env = []\<rparr>"

definition WithAccount :: "string \<Rightarrow> cli \<Rightarrow> cli" where
  "WithAccount account c =
     (let a = trim_space account
      in if a = [] then c else c\<lparr>cli_env := cli_env c @ [''OP_ACCOUNT='' @ a]\<rparr>)"

text \<open>\<open>op_account\<close> is the environment variable \<open>OP_ACCOUNT\<close>.\<close>

definition WithAccountFallback :: "string \<Rightarrow> string \<Rightarrow> cli \<Rightarrow> cli" where
  "WithAccountFallback op_account account c =
     (if trim_space op_account \<noteq> [] then c else WithAccount account c)"

definition Available :: "cli \<Rightarrow> bool" where
  "Available c \<longleftrightarrow> cli_path c \<noteq> []"

definition deadWSLInterop :: "string \<Rightarrow> (string \<Rightarrow> bool) \<Rightarrow> bool" where
  "deadWSLInterop interop stat_ok =
     (let p = trim_space interop in if p = [] then False else \<not> stat_ok p)"

definition dropEnvEntry :: "string list \<Rightarrow> string \<Rightarrow> string list" where
  "dropEnvEntry env key = filter (\<lambda>e. \<not> has_prefix e (key @ ''='')) env"

text \<open>\<open>None\<close> inherits the environment of the parent.\<close>

definition childEnv :: "bool \<Rightarrow> bool \<Rightarrow> string list \<Rightarrow> cli \<Rightarrow> string list option" where
  "childEnv wsl dead environ c =
     (let dropInterop = cli_windows c \<and> wsl \<and> dead
      in if cli_env c = [] \<and> \<not> dropInterop then None
         else Some ((if dropInterop then dropEnvEntry environ ''WSL_INTEROP'' else environ) @ cli_env c))"

section \<open>Running it\<close>

definition wslInteropFailureMarkers :: "string list" where
  "wslInteropFailureMarkers = [''UtilAcceptVsock'', ''accept4 failed 110'']"

definition mentions_any :: "string list \<Rightarrow> string \<Rightarrow> bool" where
  "mentions_any markers msg = list_ex (contains_str msg) markers"

definition WSLInteropFailure :: "go_error option \<Rightarrow> bool" where
  "WSLInteropFailure err = (case err of None \<Rightarrow> False | Some e \<Rightarrow> mentions_any wslInteropFailureMarkers (err_text e))"

definition retryableInteropFailure :: "cli \<Rightarrow> go_error option \<Rightarrow> bool" where
  "retryableInteropFailure c err \<longleftrightarrow> cli_windows c \<and> WSLInteropFailure err"

definition authFailureMarkers :: "string list" where
  "authFailureMarkers =
     [''not signed in'', ''not currently signed in'', ''no accounts configured'', ''no account configured'',
      ''session expired'', ''session has expired'', ''invalid access token'', ''not authorised'', ''not authorized'',
      ''connect to the 1password desktop app'', ''desktop app integration'', ''unauthorized'', ''unauthorised'']"

definition AuthFailure :: "go_error option \<Rightarrow> bool" where
  "AuthFailure err = (case err of None \<Rightarrow> False | Some e \<Rightarrow> mentions_any authFailureMarkers (to_lower (err_text e)))"

text \<open>\<open>runOnce\<close> turns what the process did into an answer.\<close>

definition os_ErrPermission :: sentinel where
  "os_ErrPermission = ''permission denied''"

record op_process =
  op_stdout :: string
  op_stderr :: string
  op_err :: "go_error option"

definition runOnce :: "bool \<Rightarrow> cli \<Rightarrow> string list \<Rightarrow> op_process \<Rightarrow> string \<times> go_error option" where
  "runOnce wsl c args p =
     (case op_err p of
        None \<Rightarrow> (op_stdout p, None)
      | Some e \<Rightarrow>
          (let m0 = trim_space (op_stderr p); msg = (if m0 = [] then trim_space (op_stdout p) else m0)
           in if wsl \<and> (errors_is e os_ErrPermission \<or> contains_str (err_text e) ''permission denied'')
              then ([], Some (wrap (''1Password CLI at '' @ cli_path c @ '' cannot be executed (permission denied).'' @ [CHR 0x0A] @ utf8 [0x1F4A1] @ '' Fix: Run 'sudo chmod +x '' @ cli_path c @ [squote] @ '' or change 'fmask=011' to 'fmask=000' in /etc/wsl.conf: '') e []))
              else if msg = [] then (op_stdout p, Some (wrap (''op '' @ join_with '' '' args @ '': '') e '' (no output)''))
              else (op_stdout p, Some (wrap (''op '' @ join_with '' '' args @ '': '') e ('' (stderr: '' @ msg @ '')'')))))"

text \<open>Pauses in milliseconds before the repeated attempts.\<close>

definition wslInteropRetryDelays :: "nat list" where
  "wslInteropRetryDelays = [250, 1000]"

text \<open>
  The loop of \<open>RunWithStdin\<close> after \<open>n\<close> attempts, of which the last one answered \<open>r\<close>; \<open>once n\<close> is the answer of
  attempt \<open>n\<close>, \<open>waits n d\<close> whether the pause of \<open>d\<close> passes before the context is cancelled.
\<close>

fun retry_from ::
    "cli \<Rightarrow> (nat \<Rightarrow> string \<times> go_error option) \<Rightarrow> (nat \<Rightarrow> nat \<Rightarrow> bool) \<Rightarrow> nat list \<Rightarrow> nat \<Rightarrow> string \<times> go_error option
     \<Rightarrow> (string \<times> go_error option) \<times> nat" where
  "retry_from c once waits [] n r = (r, n)"
| "retry_from c once waits (d # ds) n r =
     (if snd r \<noteq> None \<and> retryableInteropFailure c (snd r) \<and> waits n d
      then retry_from c once waits ds (Suc n) (once n) else (r, n))"

definition RunWithStdin ::
    "cli \<Rightarrow> (nat \<Rightarrow> string \<times> go_error option) \<Rightarrow> (nat \<Rightarrow> nat \<Rightarrow> bool) \<Rightarrow> (string \<times> go_error option) \<times> nat" where
  "RunWithStdin c once waits =
     (if \<not> Available c then (([], Some (sentinel_error ErrCLINotFound)), 0)
      else retry_from c once waits wslInteropRetryDelays 1 (once 0))"

section \<open>Finding it\<close>

record host_view =
  hv_forced :: string
  hv_wsl :: bool
  hv_lookpath :: "string \<Rightarrow> string option"
  hv_where :: "string \<Rightarrow> string option"
  hv_wslpath :: "string \<Rightarrow> string option"
  hv_localapp :: "string option"
  hv_glob :: "string \<Rightarrow> string list"
  hv_file :: "string \<Rightarrow> bool"
  hv_home :: "string option"

text \<open>\<open>filepath.Ext\<close>.\<close>

definition path_ext :: "string \<Rightarrow> string" where
  "path_ext p =
     (let l = rev (takeWhile (\<lambda>c. c \<noteq> slash) (rev p))
      in if CHR ''.'' \<in> set l then CHR ''.'' # rev (takeWhile (\<lambda>c. c \<noteq> CHR ''.'') (rev l)) else [])"

definition looksLikeWindowsBinary :: "string \<Rightarrow> bool" where
  "looksLikeWindowsBinary p \<longleftrightarrow> equal_fold (path_ext p) ''.exe'' \<or> has_prefix p ''/mnt/''"

definition resolveWindowsPath :: "host_view \<Rightarrow> string \<Rightarrow> string" where
  "resolveWindowsPath h w =
     (case hv_wslpath h w of
        Some out \<Rightarrow> (let p = trim_space out in if p \<noteq> [] then p else ToWSLPath w)
      | None \<Rightarrow> ToWSLPath w)"

definition first_file :: "host_view \<Rightarrow> string list \<Rightarrow> string option" where
  "first_file h cands = find (hv_file h) cands"

definition locateWindowsExecutable :: "host_view \<Rightarrow> string \<Rightarrow> string option" where
  "locateWindowsExecutable h name =
     (case hv_where h name of
        None \<Rightarrow> None
      | Some out \<Rightarrow>
          first_file h (map (resolveWindowsPath h) (filter (\<lambda>w. w \<noteq> []) (map trim_space (split_on (CHR 0x0A) out)))))"

definition findWingetCLIIn :: "host_view \<Rightarrow> string \<Rightarrow> string option" where
  "findWingetCLIIn h localAppData =
     (if localAppData = [] then None
      else first_file h
             (path_join [localAppData, ''Microsoft'', ''WinGet'', ''Links'', ''op.exe'']
              # hv_glob h (path_join [localAppData, ''Microsoft'', ''WinGet'', ''Packages'', ''AgileBits.1Password.CLI_*'', ''op.exe''])))"

definition locateWingetCLI :: "host_view \<Rightarrow> string option" where
  "locateWingetCLI h = (case hv_localapp h of None \<Rightarrow> None | Some l \<Rightarrow> findWingetCLIIn h l)"

definition wslBinDirs :: "host_view \<Rightarrow> string list" where
  "wslBinDirs h = ''/usr/local/bin'' # (case hv_home h of None \<Rightarrow> [] | Some d \<Rightarrow> [path_join [d, ''.local'', ''bin'']])"

definition firstExistingWSLBin :: "host_view \<Rightarrow> string \<Rightarrow> string option" where
  "firstExistingWSLBin h name = first_file h (map (\<lambda>d. path_join [d, name]) (wslBinDirs h))"

definition wslWindowsCLIProbes :: "host_view \<Rightarrow> string option list" where
  "wslWindowsCLIProbes h =
     [hv_lookpath h ''op.exe'', locateWindowsExecutable h ''op.exe'', locateWingetCLI h, firstExistingWSLBin h ''op.exe'']"

fun first_found :: "'a option list \<Rightarrow> 'a option" where
  "first_found [] = None"
| "first_found (x # xs) = (case x of Some a \<Rightarrow> Some a | None \<Rightarrow> first_found xs)"

definition detectNative :: "host_view \<Rightarrow> cli" where
  "detectNative h =
     (case hv_lookpath h ''op'' of
        Some p \<Rightarrow> \<lparr>cli_path = p, cli_windows = looksLikeWindowsBinary p, cli_env = []\<rparr>
      | None \<Rightarrow>
          (case first_found [hv_lookpath h ''op.exe'', locateWingetCLI h] of
             Some p \<Rightarrow> \<lparr>cli_path = p, cli_windows = True, cli_env = []\<rparr>
           | None \<Rightarrow> no_cli))"

definition detectInWSL :: "host_view \<Rightarrow> cli" where
  "detectInWSL h =
     (case first_found (wslWindowsCLIProbes h) of
        Some p \<Rightarrow> \<lparr>cli_path = p, cli_windows = True, cli_env = []\<rparr>
      | None \<Rightarrow>
          (if Available (detectNative h) then detectNative h
           else (case firstExistingWSLBin h ''op'' of
                   Some p \<Rightarrow> \<lparr>cli_path = p, cli_windows = looksLikeWindowsBinary p, cli_env = []\<rparr>
                 | None \<Rightarrow> no_cli)))"

definition Detect :: "host_view \<Rightarrow> cli" where
  "Detect h =
     (let forced = trim_space (hv_forced h)
      in if forced \<noteq> [] then \<lparr>cli_path = forced, cli_windows = looksLikeWindowsBinary forced, cli_env = []\<rparr>
         else if hv_wsl h then detectInWSL h else detectNative h)"

section \<open>The resolver\<close>

text \<open>\<open>run\<close> is \<open>CLI.Run\<close> on an argument list.\<close>

type_synonym op_run = "string list \<Rightarrow> string res"

definition resolve1p :: "cli \<Rightarrow> op_run \<Rightarrow> string \<Rightarrow> bool \<Rightarrow> string res" where
  "resolve1p c run raw stripCRLF =
     (let ref = trim_space raw
      in if \<not> Is1PRef ref then Inr raw
         else if \<not> Available c
         then Inl (wrap (''secret '' @ go_quote ref @ '' starts with op:// but the 1Password CLI is unavailable: '') (sentinel_error ErrCLINotFound) [])
         else (case run [''read'', ref, ''--no-newline''] of
                 Inl e \<Rightarrow> Inl (wrap (''failed to read 1Password secret '' @ go_quote ref @ '': '') e [])
               | Inr out \<Rightarrow>
                   Inr (if stripCRLF then trim_chars_right (\<lambda>ch. ch \<in> {CHR 0x0D, CHR 0x0A}) out else out)))"

definition Resolve :: "cli \<Rightarrow> op_run \<Rightarrow> string \<Rightarrow> string res" where
  "Resolve c run v = resolve1p c run v False"

definition ResolvePassword :: "cli \<Rightarrow> op_run \<Rightarrow> string \<Rightarrow> string res" where
  "ResolvePassword c run ref = resolve1p c run ref True"

definition hasQueryParam :: "string \<Rightarrow> string \<Rightarrow> bool" where
  "hasQueryParam ref name =
     (case cut_at (CHR ''?'') ref of (a, q, found) \<Rightarrow>
        found \<and> list_ex (\<lambda>pair. fst (cut_at (CHR ''='') pair) = name) (split_on (CHR ''&'') q))"

definition SSHKeyRefWithFormat :: "string \<Rightarrow> string res" where
  "SSHKeyRefWithFormat ref =
     (let trimmed = trim_space ref
      in if \<not> Is1PRef trimmed
         then Inl (errors_new (go_quote ref @ '' is not a 1Password secret reference (expected an op:// URI)''))
         else if (case Parse1PRef trimmed of None \<Rightarrow> False | Some (v, i, f) \<Rightarrow> f = sshKeyManagedFieldID) then Inr trimmed
         else if hasQueryParam trimmed ''ssh-format'' then Inr trimmed
         else Inr (trimmed @ (if CHR ''?'' \<in> set trimmed then ''&'' else ''?'') @ ''ssh-format=openssh''))"

definition crlf :: string where
  "crlf = [CHR 0x0D, CHR 0x0A]"

definition ResolveSSHKey :: "cli \<Rightarrow> op_run \<Rightarrow> string \<Rightarrow> string res" where
  "ResolveSSHKey c run ref =
     (case SSHKeyRefWithFormat ref of
        Inl e \<Rightarrow> Inl e
      | Inr withFormat \<Rightarrow>
          (if \<not> Available c
           then Inl (wrap (''cannot resolve '' @ go_quote ref @ '': '') (sentinel_error ErrCLINotFound) [])
           else (case run [''read'', withFormat] of
                   Inr out \<Rightarrow> Inr (replace_all crlf [CHR 0x0A] out)
                 | Inl e \<Rightarrow>
                     (let trimmed = trim_space ref; failed = Inl (wrap ''failed to read SSH key from 1Password: '' e [])
                      in if withFormat \<noteq> trimmed \<and> contains_str (err_text e) ''ssh-format''
                         then (case run [''read'', trimmed] of
                                 Inr txt \<Rightarrow> Inr (replace_all crlf [CHR 0x0A] txt)
                               | Inl e2 \<Rightarrow> failed)
                         else failed))))"

text \<open>The map as the list of its entries in the order the iteration visits them.\<close>

fun resolve_entries :: "cli \<Rightarrow> op_run \<Rightarrow> (string \<times> string) list \<Rightarrow> (string \<times> string) list res" where
  "resolve_entries c run [] = Inr []"
| "resolve_entries c run ((k, v) # env) =
     (case Resolve c run v of
        Inl e \<Rightarrow> Inl (wrap (''resolving env '' @ k @ '': '') e [])
      | Inr x \<Rightarrow> (case resolve_entries c run env of Inl e \<Rightarrow> Inl e | Inr r \<Rightarrow> Inr ((k, x) # r)))"

definition ResolveMap :: "cli \<Rightarrow> op_run \<Rightarrow> (string \<times> string) list \<Rightarrow> (string \<times> string) list res" where
  "ResolveMap c run env = (if env = [] then Inr env else resolve_entries c run env)"

definition RejectLegacy1PRef :: "string \<Rightarrow> string \<Rightarrow> string \<Rightarrow> go_error option" where
  "RejectLegacy1PRef fld val serverName =
     (if \<not> Is1PRef val then None
      else Some (errors_new (''server '' @ go_quote serverName @ '' uses an 'op://' '' @ fld @ '' which is no longer supported at runtime; run 'ops 1p restore' to migrate to a local credential'')))"

section \<open>Remembered defaults\<close>

record settings =
  se_vault :: string
  se_account :: string

definition no_settings :: settings where
  "no_settings = \<lparr>se_vault = [], se_account = []\<rparr>"

definition IsZero :: "settings \<Rightarrow> bool" where
  "IsZero s \<longleftrightarrow> trim_space (se_vault s) = [] \<and> trim_space (se_account s) = []"

definition trim_settings :: "settings \<Rightarrow> settings" where
  "trim_settings s = \<lparr>se_vault = trim_space (se_vault s), se_account = trim_space (se_account s)\<rparr>"

text \<open>The file's text, absent as \<open>None\<close>; \<open>parse\<close> and \<open>render\<close> are the YAML library on the struct.\<close>

definition LoadSettingsFrom ::
    "(string \<Rightarrow> settings res) \<Rightarrow> io \<Rightarrow> string \<Rightarrow> string option \<Rightarrow> settings res" where
  "LoadSettingsFrom parse io path f =
     (case f of
        None \<Rightarrow> Inr no_settings
      | Some data \<Rightarrow>
          (case io_read io of
             Some e \<Rightarrow> Inl (wrap (''read '' @ path @ '': '') e [])
           | None \<Rightarrow>
               (if trim_space data = [] then Inr no_settings
                else (case parse data of
                        Inl e \<Rightarrow> Inl (wrap (''parse '' @ path @ '': '') e [])
                      | Inr s \<Rightarrow> Inr (trim_settings s)))))"

text \<open>\<open>rm\<close> is the failure of \<open>os.Remove\<close> on a file that exists.\<close>

definition SaveSettingsTo ::
    "(settings \<Rightarrow> string res) \<Rightarrow> io \<Rightarrow> go_error option \<Rightarrow> string \<Rightarrow> settings \<Rightarrow> string option
     \<Rightarrow> go_error option \<times> string option" where
  "SaveSettingsTo render io rm path s0 f =
     (let s = trim_settings s0
      in if IsZero s
         then (case f of
                 None \<Rightarrow> (None, None)
               | Some d \<Rightarrow> (case rm of
                              Some e \<Rightarrow> (Some (wrap (''remove '' @ path @ '': '') e []), f)
                            | None \<Rightarrow> (None, None)))
         else (case render s of
                 Inl e \<Rightarrow> (Some (wrap ''encode 1Password settings: '' e []), f)
               | Inr data \<Rightarrow>
              (case io_mkdir io of
                 Some e \<Rightarrow> (Some (wrap ''create config directory: '' e []), f)
               | None \<Rightarrow>
              (case io_create io of
                 Some e \<Rightarrow> (Some (wrap ''create temporary settings file: '' e []), f)
               | None \<Rightarrow>
              (case io_write io of
                 Some e \<Rightarrow> (Some (wrap ''write temporary settings file: '' e []), f)
               | None \<Rightarrow>
              (case io_chmod io of
                 Some e \<Rightarrow> (Some (wrap ''secure temporary settings file: '' e []), f)
               | None \<Rightarrow>
              (case io_close io of
                 Some e \<Rightarrow> (Some (wrap ''close temporary settings file: '' e []), f)
               | None \<Rightarrow>
              (case io_rename io of
                 Some e \<Rightarrow> (Some (wrap (''replace '' @ path @ '': '') e []), f)
               | None \<Rightarrow> (None, Some data)))))))))"

section \<open>A reference reads back as it was built\<close>

definition item_part :: "string \<Rightarrow> bool" where
  "item_part s \<longleftrightarrow> s \<noteq> [] \<and> trim_space s = s \<and> slash \<notin> set s"

definition field_part :: "string \<Rightarrow> bool" where
  "field_part s \<longleftrightarrow> s \<noteq> [] \<and> trim_space s = s \<and> CHR ''?'' \<notin> set s \<and> code_of (last s) < 128 \<and> \<not> ws1 (last s)"

lemma field_parts: "field_part sshKeyManagedFieldID" "field_part PasswordItemLabel" "field_part inventoryNoteFieldID"
  by code_simp+

lemma edge_o: "code_of CHR ''o'' < 128" "\<not> ws1 CHR ''o''"
  by code_simp+

lemma trim_build_ref: "field_part f \<Longrightarrow> trim_space (build_ref v t f) = build_ref v t f"
  by (rule trim_space_no_edge_space) (simp add: build_ref_def Prefix1P_def field_part_def edge_o)

lemma Is1PRef_build_ref: "field_part f \<Longrightarrow> Is1PRef (build_ref v t f)"
  unfolding Is1PRef_def trim_build_ref by (simp add: build_ref_def)

lemma Parse1PRef_build_ref:
  assumes v: "item_part v" and t: "item_part t" and f: "field_part f"
  shows "Parse1PRef (build_ref v t f) = Some (v, t, f)"
proof -
  have fld: "ref_field f = f" using f by (simp add: ref_field_def field_part_def cut_at_free)
  have strip: "trim_prefix (build_ref v t f) Prefix1P = v @ slash # (t @ slash # f)" by (simp add: build_ref_def)
  have cv: "cut_at slash (v @ slash # (t @ slash # f)) = (v, t @ slash # f, True)"
    using v by (intro cut_at_append) (simp add: item_part_def)
  have ct: "cut_at slash (t @ slash # f) = (t, f, True)"
    using t by (intro cut_at_append) (simp add: item_part_def)
  show ?thesis
    unfolding Parse1PRef_def trim_build_ref[OF f] Let_def
    using v t by (simp add: Is1PRef_build_ref[OF f] strip cv ct fld item_part_def)
qed

lemma built_refs_parse:
  assumes "item_part v" "item_part t"
  shows "Parse1PRef (BuildSSHKeyRef v t) = Some (v, t, sshKeyManagedFieldID)"
    and "Parse1PRef (BuildPasswordRef v t) = Some (v, t, PasswordItemLabel)"
    and "Parse1PRef (BuildInventoryRef v t) = Some (v, t, inventoryNoteFieldID)"
  using assms field_parts
  by (simp_all add: BuildSSHKeyRef_def BuildPasswordRef_def BuildInventoryRef_def Parse1PRef_build_ref)

lemma item_titles_parts:
  assumes "slash \<notin> set n"
  shows "item_part (SSHKeyItemTitle n)" "item_part (PasswordItemTitle n)"
  using assms trim_space_no_edge_space[of "SSHKeyItemTitle n"] trim_space_no_edge_space[of "PasswordItemTitle n"]
  by (auto simp: item_part_def SSHKeyItemTitle_def PasswordItemTitle_def ws1_def code_of_def)

section \<open>The format parameter\<close>

lemma Is1PRef_trimmed: "Is1PRef (trim_space r) = Is1PRef r"
  by (simp add: Is1PRef_def)

lemma hasQueryParam_appended:
  "hasQueryParam (t @ (if CHR ''?'' \<in> set t then ''&'' else ''?'') @ ''ssh-format=openssh'') ''ssh-format''"
proof (cases "CHR ''?'' \<in> set t")
  case False
  have "cut_at (CHR ''?'') (t @ CHR ''?'' # ''ssh-format=openssh'') = (t, ''ssh-format=openssh'', True)"
    by (rule cut_at_append[OF False])
  then show ?thesis using False by (simp add: hasQueryParam_def)
next
  case True
  then obtain a b where t: "t = a @ CHR ''?'' # b" and a: "CHR ''?'' \<notin> set a" by (meson split_list_first)
  have "cut_at (CHR ''?'') (a @ CHR ''?'' # (b @ CHR ''&'' # ''ssh-format=openssh'')) = (a, b @ CHR ''&'' # ''ssh-format=openssh'', True)"
    by (rule cut_at_append[OF a])
  then show ?thesis using True t by (simp add: hasQueryParam_def split_on_append_sep)
qed

lemma trim_appended_ref:
  assumes "Is1PRef t" "trim_space t = t"
  shows "trim_space (t @ s @ ''ssh-format=openssh'') = t @ s @ ''ssh-format=openssh''"
proof -
  obtain r where "t = Prefix1P @ r" using assms by (auto simp: Is1PRef_def has_prefix_iff)
  then show ?thesis by (intro trim_space_no_edge_space) (simp add: Prefix1P_def ws1_def code_of_def)
qed

text \<open>
  The reference handed to \<open>op\<close> is a reference, carries the parameter unless it names the managed field, and asking
  again changes nothing.
\<close>

lemma SSHKeyRefWithFormat_spec:
  assumes "SSHKeyRefWithFormat ref = Inr r"
  shows "Is1PRef r \<and> trim_space r = r \<and> SSHKeyRefWithFormat r = Inr r
       \<and> (hasQueryParam r ''ssh-format'' \<or> (\<exists>v i. Parse1PRef r = Some (v, i, sshKeyManagedFieldID)))"
proof -
  define t where "t = trim_space ref"
  have ref: "Is1PRef t" using assms by (auto simp: SSHKeyRefWithFormat_def t_def Let_def split: if_splits)
  have tt: "trim_space t = t" by (simp add: t_def)
  define managed where "managed = (case Parse1PRef t of None \<Rightarrow> False | Some (v, i, f) \<Rightarrow> f = sshKeyManagedFieldID)"
  let ?ext = "t @ (if CHR ''?'' \<in> set t then ''&'' else ''?'') @ ''ssh-format=openssh''"
  have r: "r = (if managed \<or> hasQueryParam t ''ssh-format'' then t else ?ext)"
    using assms ref unfolding SSHKeyRefWithFormat_def Let_def t_def[symmetric] managed_def by (auto split: if_splits)
  show ?thesis
  proof (cases "managed \<or> hasQueryParam t ''ssh-format''")
    case True
    then have rt: "r = t" using r by simp
    have "SSHKeyRefWithFormat t = Inr t"
      unfolding SSHKeyRefWithFormat_def Let_def tt managed_def[symmetric] using ref True by auto
    then show ?thesis using True ref tt rt by (auto simp: managed_def split: option.splits prod.splits)
  next
    case False
    then have re: "r = ?ext" using r by simp
    have tr: "trim_space ?ext = ?ext" by (rule trim_appended_ref[OF ref tt])
    have isr: "Is1PRef ?ext"
      unfolding Is1PRef_def tr using ref tt by (auto simp: Is1PRef_def has_prefix_iff)
    have "SSHKeyRefWithFormat ?ext = Inr ?ext"
      unfolding SSHKeyRefWithFormat_def Let_def tr using isr hasQueryParam_appended[of t] by simp
    then show ?thesis using re tr isr hasQueryParam_appended[of t] by simp
  qed
qed

section \<open>What the resolver lets through\<close>

lemma Resolve_plain: "\<not> Is1PRef v \<Longrightarrow> Resolve c run v = Inr v"
  by (simp add: Resolve_def resolve1p_def Is1PRef_trimmed)

lemma ResolveMap_all_or_nothing:
  "ResolveMap c run env = Inr out \<Longrightarrow>
     map fst out = map fst env \<and> list_all2 (\<lambda>(k, v) (k', x). k' = k \<and> Resolve c run v = Inr x) env out"
proof -
  have "resolve_entries c run env = Inr out \<Longrightarrow>
     map fst out = map fst env \<and> list_all2 (\<lambda>(k, v) (k', x). k' = k \<and> Resolve c run v = Inr x) env out"
    by (induction c run env arbitrary: out rule: resolve_entries.induct) (auto split: sum.splits)
  moreover assume "ResolveMap c run env = Inr out"
  ultimately show ?thesis by (auto simp: ResolveMap_def split: if_splits)
qed

lemma RejectLegacy1PRef_iff: "RejectLegacy1PRef f v n = None \<longleftrightarrow> \<not> Is1PRef v"
  by (simp add: RejectLegacy1PRef_def)

section \<open>A call that reached 1Password is never repeated\<close>

definition refused :: "cli \<Rightarrow> (nat \<Rightarrow> string \<times> go_error option) \<Rightarrow> nat \<Rightarrow> bool" where
  "refused c once i \<longleftrightarrow> snd (once i) \<noteq> None \<and> retryableInteropFailure c (snd (once i))"

lemma retry_from_spec:
  "retry_from c once waits ds n r = (r', m) \<Longrightarrow> r = once (n - 1) \<Longrightarrow> 0 < n \<Longrightarrow>
     n \<le> m \<and> m \<le> n + length ds \<and> r' = once (m - 1) \<and> (\<forall>i\<in>{n - 1..<m - 1}. refused c once i)"
proof (induction ds arbitrary: n r)
  case (Cons d ds)
  show ?case
  proof (cases "refused c once (n - 1) \<and> waits n d")
    case True
    have "retry_from c once waits ds (Suc n) (once n) = (r', m)"
      using Cons.prems True by (simp add: refused_def)
    then have ih: "Suc n \<le> m \<and> m \<le> Suc n + length ds \<and> r' = once (m - 1) \<and> (\<forall>i\<in>{n..<m - 1}. refused c once i)"
      using Cons.IH[of "Suc n" "once n"] unfolding diff_Suc_1 by blast
    have "{n - 1..<m - 1} \<subseteq> insert (n - 1) {n..<m - 1}" by auto
    then have "\<forall>i\<in>{n - 1..<m - 1}. refused c once i" using ih True by blast
    then show ?thesis using ih by simp
  next
    case False
    then show ?thesis using Cons.prems by (auto simp: refused_def split: if_splits)
  qed
qed simp

lemma RunWithStdin_spec:
  assumes "RunWithStdin c once waits = (r, n)"
  shows "n \<le> 3 \<and> (0 < n \<longrightarrow> r = once (n - 1)) \<and> (\<forall>i\<in>{0..<n - 1}. refused c once i)"
proof (cases "Available c")
  case True
  then have "retry_from c once waits wslInteropRetryDelays 1 (once 0) = (r, n)" using assms by (simp add: RunWithStdin_def)
  from retry_from_spec[OF this] show ?thesis by (simp add: wslInteropRetryDelays_def)
next
  case False
  then show ?thesis using assms by (auto simp: RunWithStdin_def)
qed

section \<open>Which build is found\<close>

lemma first_found_Some: "first_found xs \<noteq> None \<longleftrightarrow> (\<exists>x\<in>set xs. x \<noteq> None)"
  by (induction xs) (auto split: option.splits)

lemma Detect_prefers_windows:
  assumes "trim_space (hv_forced h) = []" "hv_wsl h" "p \<in> set (wslWindowsCLIProbes h)" "p \<noteq> None"
  shows "cli_windows (Detect h)"
proof -
  obtain q where "first_found (wslWindowsCLIProbes h) = Some q" using assms first_found_Some by fast
  then show ?thesis using assms by (simp add: Detect_def Let_def detectInWSL_def)
qed

lemma childEnv_keeps:
  assumes "childEnv wsl dead environ c = Some env" "e \<in> set environ"
  shows "e \<in> set env \<or> (has_prefix e ''WSL_INTEROP='' \<and> cli_windows c \<and> wsl \<and> dead)"
  using assms by (auto simp: childEnv_def dropEnvEntry_def Let_def split: if_splits)

lemma childEnv_drops_only_dead:
  assumes "childEnv wsl dead environ c = Some env" "\<not> dead"
  shows "env = environ @ cli_env c"
  using assms by (auto simp: childEnv_def Let_def split: if_splits)

section \<open>Windows paths\<close>

lemma replace_char_back:
  "d \<notin> set s \<Longrightarrow> c \<noteq> d \<Longrightarrow> replace_all [d] [c] (replace_all [c] [d] s) = s"
  by (induction s) auto

lemma upper_lower: "is_upper d \<Longrightarrow> to_upper (to_lower [d]) = [d]"
  by (auto simp: is_upper_def to_upper_def to_lower_def to_upper_char_def to_lower_char_def is_lower_def code_of_def)

lemma windows_path_roundtrip:
  assumes "w = d # CHR '':'' # CHR 0x5C # rest" "is_upper d" "slash \<notin> set rest" "trim_space w = w"
  shows "ToWindowsPath (ToWSLPath w) = w"
proof -
  obtain l where l: "to_lower [d] = [l]" by (simp add: to_lower_def)
  have u: "to_upper [l] = [d]" using upper_lower[OF assms(2)] l by simp
  have "ToWSLPath w = ''/mnt/'' @ l # slash # replace_all [CHR 0x5C] ''/'' rest"
    using assms(1,4) l by (simp add: ToWSLPath_def Let_def)
  then show ?thesis using assms u replace_char_back[of slash rest "CHR 0x5C"] by (simp add: ToWindowsPath_def)
qed

section \<open>The settings file\<close>

lemma trim_settings_idem: "trim_settings (trim_settings s) = trim_settings s"
  by (simp add: trim_settings_def)

lemma IsZero_trim: "IsZero (trim_settings s) = IsZero s"
  by (simp add: IsZero_def trim_settings_def)

lemma settings_zero: "IsZero s \<Longrightarrow> trim_settings s = no_settings"
  by (simp add: IsZero_def trim_settings_def no_settings_def)

lemma settings_save_load:
  assumes "SaveSettingsTo render io rm path s f = (None, f')" "io_read io' = None"
    and "\<And>x d. render x = Inr d \<Longrightarrow> trim_space d \<noteq> [] \<and> parse d = Inr x"
  shows "LoadSettingsFrom parse io' path' f' = Inr (trim_settings s)"
  using assms
  by (auto simp: SaveSettingsTo_def LoadSettingsFrom_def Let_def IsZero_trim settings_zero trim_settings_idem
      split: if_splits sum.splits option.splits)

lemma settings_save_fails:
  assumes "SaveSettingsTo render io rm path s f = (Some e, f')"
  shows "f' = f"
  using assms by (auto simp: SaveSettingsTo_def Let_def split: if_splits sum.splits option.splits)

end
