(* ===== verification/ServerCmd.thy ===== *)
theory ServerCmd
  imports Inventory ServerStore BackupStore AssetStore Secret DockerCmd
begin

text \<open>
  The commands of \<open>cmd/opspulse\<close> that change the server inventory together with private keys on disk: \<open>server set\<close>,
  \<open>server edit\<close>, \<open>server remove\<close>, \<open>server rename\<close> and \<open>server setup-key\<close> (\<open>server.go\<close>, \<open>server_config.go\<close>,
  \<open>server_key.go\<close>, \<open>server_key_import.go\<close>). Local files are a map from paths to nodes and every operation on them may
  fail; a failed write leaves what the fault says. The inventory is the store of \<open>ServerStore\<close>, with one record of
  system calls for each access. \<open>ssh-keygen\<close>, the SSH library, the editor and the remote host are parameters;
  modes are left out.
\<close>

section \<open>Local files\<close>

datatype fnode = RegularFile string | FolderNode

type_synonym files = "string \<Rightarrow> fnode option"

record faults =
  ff_stat :: "string \<Rightarrow> go_error option"
  ff_read :: "string \<Rightarrow> go_error option"
  ff_mkdir :: "string \<Rightarrow> go_error option"
  ff_write :: "string \<Rightarrow> (go_error \<times> fnode option) option"
  ff_remove :: "string \<Rightarrow> bool"

definition no_faults :: faults where
  "no_faults = \<lparr>ff_stat = (\<lambda>p. None), ff_read = (\<lambda>p. None), ff_mkdir = (\<lambda>p. None), ff_write = (\<lambda>p. None),
     ff_remove = (\<lambda>p. False)\<rparr>"

definition not_exist :: sentinel where
  "not_exist = ''file does not exist''"

text \<open>Reading a file that exists does not fail as if it were missing.\<close>

definition honest_reads :: "faults \<Rightarrow> bool" where
  "honest_reads ff \<longleftrightarrow> (\<forall>p e. ff_read ff p = Some e \<longrightarrow> \<not> errors_is e not_exist)"

definition os_ReadFile :: "faults \<Rightarrow> string \<Rightarrow> files \<Rightarrow> string res" where
  "os_ReadFile ff p fs =
     (case fs p of
        None \<Rightarrow> Inl (wrap (''open '' @ p @ '': '') (sentinel_error not_exist) [])
      | Some FolderNode \<Rightarrow> Inl (errors_new (''read '' @ p @ '': is a directory''))
      | Some (RegularFile d) \<Rightarrow> (case ff_read ff p of Some e \<Rightarrow> Inl e | None \<Rightarrow> Inr d))"

definition os_WriteFile :: "faults \<Rightarrow> string \<Rightarrow> string \<Rightarrow> files \<Rightarrow> go_error option \<times> files" where
  "os_WriteFile ff p d fs =
     (case ff_write ff p of
        Some (e, left) \<Rightarrow> (Some e, fs(p := left))
      | None \<Rightarrow> (None, fs(p := Some (RegularFile d))))"

definition os_Remove :: "faults \<Rightarrow> string \<Rightarrow> files \<Rightarrow> files" where
  "os_Remove ff p fs = (if ff_remove ff p then fs else fs(p := None))"

section \<open>Key paths\<close>

text \<open>\<open>home\<close> is the home directory, absent when it cannot be found.\<close>

definition ExpandPath :: "string option \<Rightarrow> string \<Rightarrow> string" where
  "ExpandPath home p =
     (if \<not> has_prefix p ''~'' then p
      else (case home of
              None \<Rightarrow> p
            | Some h \<Rightarrow>
                (if p = ''~'' then h
                 else if has_prefix p ''~/'' \<or> has_prefix p [CHR ''~'', CHR 0x5C] then path_join [h, drop 2 p]
                 else p)))"

definition isInsideSSHDir :: "string option \<Rightarrow> string \<Rightarrow> bool" where
  "isInsideSSHDir home p =
     (case home of
        None \<Rightarrow> False
      | Some h \<Rightarrow>
          (case path_rel (path_join [h, ''.ssh'']) p of
             None \<Rightarrow> False
           | Some r \<Rightarrow> \<not> has_prefix r ''..'' \<and> \<not> path_is_abs r))"

definition managedKeyPrefix :: string where
  "managedKeyPrefix = ''opspulse_''"

definition isManagedKey :: "string option \<Rightarrow> string \<Rightarrow> bool" where
  "isManagedKey home keyPath =
     (let t = trim_space keyPath
      in if t = [] then False
         else (let e = ExpandPath home t in isInsideSSHDir home e \<and> has_prefix (path_base e) managedKeyPrefix))"

text \<open>\<open>letter\<close> is \<open>unicode.IsLetter\<close> or \<open>unicode.IsDigit\<close> beyond ASCII.\<close>

definition name_rune_ok :: "(nat \<Rightarrow> bool) \<Rightarrow> nat \<Rightarrow> bool" where
  "name_rune_ok letter r =
     (if r < 128 then is_alnum (char_of r) \<or> r = 45 \<or> r = 95 \<or> r = 46 else letter r)"

definition sanitiseName :: "(nat \<Rightarrow> bool) \<Rightarrow> string \<Rightarrow> string" where
  "sanitiseName letter n = concat (map (\<lambda>r. if name_rune_ok letter r then utf8_rune r else ''_'') (runes n))"

definition machineName :: "(nat \<Rightarrow> bool) \<Rightarrow> string option \<Rightarrow> string" where
  "machineName letter hostname =
     (let n = sanitiseName letter (trim_space (case hostname of None \<Rightarrow> [] | Some h \<Rightarrow> h))
      in if n = [] then ''unknown'' else n)"

definition no_home :: go_error where
  "no_home = errors_new ''resolve home directory: $HOME is not defined''"

definition setupKeyPath :: "(nat \<Rightarrow> bool) \<Rightarrow> string option \<Rightarrow> string \<Rightarrow> (string \<times> string) res" where
  "setupKeyPath letter home serverName =
     (case home of
        None \<Rightarrow> Inl no_home
      | Some h \<Rightarrow>
          (let n = sanitiseName letter serverName
           in Inr (''~/.ssh/opspulse_'' @ n, path_join [h, ''.ssh'', ''opspulse_'' @ n])))"

definition copyKeyDestinationPath ::
    "(nat \<Rightarrow> bool) \<Rightarrow> string option \<Rightarrow> string \<Rightarrow> string \<Rightarrow> (string \<times> string) res" where
  "copyKeyDestinationPath letter home serverName ext =
     (case home of
        None \<Rightarrow> Inl no_home
      | Some h \<Rightarrow>
          (let fname = ''opspulse_'' @ sanitiseName letter serverName @ (if ext = [] then ''.key'' else ext)
           in Inr (''~/.ssh/'' @ fname, path_join [h, ''.ssh'', fname])))"

section \<open>Importing a key\<close>

text \<open>\<open>parse\<close> is \<open>ssh.ParsePrivateKey\<close>: its error, and whether that says a passphrase is missing.\<close>

definition validatePrivateKeyContent :: "(string \<Rightarrow> (go_error \<times> bool) option) \<Rightarrow> string \<Rightarrow> go_error option" where
  "validatePrivateKeyContent parse data =
     (case parse data of
        None \<Rightarrow> None
      | Some (e, locked) \<Rightarrow>
          (if locked \<or> contains_str (err_text e) ''passphrase'' \<or> contains_str (err_text e) ''protected'' then None
           else Some (wrap ''not a valid SSH private key (ensure you selected a private key, not a .pub or plain text file): '' e [])))"

definition copyKeyFile :: "faults \<Rightarrow> string \<Rightarrow> string \<Rightarrow> files \<Rightarrow> go_error option \<times> files" where
  "copyKeyFile ff src dst fs =
     (let cleanDst = path_clean dst
      in case ff_mkdir ff (path_dir cleanDst) of
           Some e \<Rightarrow> (Some (wrap ''create ~/.ssh directory: '' e []), fs)
         | None \<Rightarrow>
             (case os_ReadFile ff (path_clean src) fs of
                Inl e \<Rightarrow> (Some (wrap (''read source key '' @ go_quote src @ '': '') e []), fs)
              | Inr data \<Rightarrow>
                  (case os_WriteFile ff cleanDst data fs of
                     (Some e, fs1) \<Rightarrow> (Some (wrap (''write destination key '' @ go_quote dst @ '': '') e []), fs1)
                   | (None, fs1) \<Rightarrow> (None, fs1))))"

text \<open>\<open>input\<close> is the reader: absent, at its end, or with a line to read.\<close>

definition declines :: "string option option \<Rightarrow> bool" where
  "declines input =
     (case input of
        Some (Some l) \<Rightarrow> (let t = trim_space l in equal_fold t ''n'' \<or> equal_fold t ''no'')
      | _ \<Rightarrow> False)"

definition ResolveAndSecureKeyPath ::
    "(nat \<Rightarrow> bool) \<Rightarrow> (string \<Rightarrow> (go_error \<times> bool) option) \<Rightarrow> faults \<Rightarrow> string option \<Rightarrow> string option option
     \<Rightarrow> string \<Rightarrow> string \<Rightarrow> bool \<Rightarrow> files \<Rightarrow> (string \<times> bool) res \<times> files" where
  "ResolveAndSecureKeyPath letter parse ff home input serverName rawKeyPath noCopy fs =
     (let trimmed = trim_space rawKeyPath; p = ExpandPath home trimmed
      in if trimmed = [] then (Inr ([], False), fs)
         else
     (case ff_stat ff p of
        Some e \<Rightarrow> (Inl (wrap (''inspect private key '' @ go_quote rawKeyPath @ '': '') e []), fs)
      | None \<Rightarrow>
     (case fs p of
        None \<Rightarrow> (Inl (errors_new (''private key file '' @ go_quote rawKeyPath @ '' not found'')), fs)
      | Some FolderNode \<Rightarrow> (Inl (errors_new (''private key path '' @ go_quote rawKeyPath @ '' is a directory'')), fs)
      | Some (RegularFile d) \<Rightarrow>
     (case os_ReadFile ff (path_clean p) fs of
        Inl e \<Rightarrow> (Inl (wrap (''read private key '' @ go_quote rawKeyPath @ '': '') e []), fs)
      | Inr keyData \<Rightarrow>
     (case validatePrivateKeyContent parse keyData of
        Some e \<Rightarrow> (Inl (wrap (''file '' @ go_quote rawKeyPath @ '' is invalid: '') e []), fs)
      | None \<Rightarrow>
     (if isInsideSSHDir home p then (Inr (trimmed, False), fs)
      else
     (case copyKeyDestinationPath letter home serverName (path_ext p) of
        Inl e \<Rightarrow> (Inl e, fs)
      | Inr (storedDest, expandedDest) \<Rightarrow>
          (if \<not> noCopy \<and> \<not> declines input
           then (case copyKeyFile ff p expandedDest fs of
                   (Some e, fs1) \<Rightarrow> (Inl (wrap ''copy key to ~/.ssh: '' e []), fs1)
                 | (None, fs1) \<Rightarrow> (Inr (storedDest, True), fs1))
           else (Inr (trimmed, False), fs)))))))))"

section \<open>Deleting a managed key\<close>

definition IsKeyUsedByOtherServers ::
    "string option \<Rightarrow> server list res \<Rightarrow> string \<Rightarrow> string \<Rightarrow> (bool \<times> string) res" where
  "IsKeyUsedByOtherServers home listed exclude keyPath =
     (if keyPath = [] then Inr (False, [])
      else (case listed of
              Inl e \<Rightarrow> Inl e
            | Inr servers \<Rightarrow>
                (case find (\<lambda>s. s_name s \<noteq> exclude \<and> s_key_path s \<noteq> []
                               \<and> ExpandPath home (trim_space (s_key_path s)) = ExpandPath home (trim_space keyPath)) servers of
                   None \<Rightarrow> Inr (False, [])
                 | Some s \<Rightarrow> Inr (True, s_name s))))"

definition cleanupManagedKey :: "faults \<Rightarrow> string option \<Rightarrow> string \<Rightarrow> files \<Rightarrow> files" where
  "cleanupManagedKey ff home keyPath fs =
     (if \<not> isManagedKey home keyPath then fs
      else (let e = ExpandPath home (trim_space keyPath); fs1 = os_Remove ff e fs; pub = e @ ''.pub''
            in if isManagedKey home pub then os_Remove ff pub fs1 else fs1))"

definition CleanupManagedKeyWithRefCheck ::
    "server list codec \<Rightarrow> io \<Rightarrow> faults \<Rightarrow> string option \<Rightarrow> string \<Rightarrow> string \<Rightarrow> bool \<Rightarrow> server_state \<Rightarrow> files
     \<Rightarrow> go_error option \<times> server_state \<times> files" where
  "CleanupManagedKeyWithRefCheck cod io ff home serverName keyPath keepKey st fs =
     (if \<not> isManagedKey home keyPath \<or> keepKey then (None, st, fs)
      else (case server_list cod io st of
              (listed, st1) \<Rightarrow>
                (case IsKeyUsedByOtherServers home listed serverName keyPath of
                   Inl e \<Rightarrow> (Some e, st1, fs)
                 | Inr (used, other) \<Rightarrow> (None, st1, if used then fs else cleanupManagedKey ff home keyPath fs))))"

section \<open>\<open>server set\<close>\<close>

record set_fields =
  sf_host :: "string option"
  sf_port :: "int option"
  sf_key :: "string option"
  sf_skip :: "bool option"

definition apply_fields :: "set_fields \<Rightarrow> server \<Rightarrow> server res" where
  "apply_fields f srv =
     (if (case sf_host f of None \<Rightarrow> False | Some h \<Rightarrow> trim_space h = []) then Inl (errors_new ''--host cannot be empty'')
      else if (case sf_port f of None \<Rightarrow> False | Some p \<Rightarrow> p < 0 \<or> p > 65535)
      then Inl (wrap [] (sentinel_error ErrInvalidPort) ('': '' @ show_int (the (sf_port f)) @ '' is outside the valid range 1-65535''))
      else Inr (srv\<lparr>s_host := (case sf_host f of None \<Rightarrow> s_host srv | Some h \<Rightarrow> h),
                    s_port := (case sf_port f of None \<Rightarrow> s_port srv | Some p \<Rightarrow> p),
                    s_key_path := (case sf_key f of None \<Rightarrow> s_key_path srv | Some k \<Rightarrow> k),
                    s_skip_batch := (case sf_skip f of None \<Rightarrow> s_skip_batch srv | Some b \<Rightarrow> b)\<rparr>))"

definition replaced_key :: "set_fields \<Rightarrow> server \<Rightarrow> string" where
  "replaced_key f srv =
     (case sf_key f of
        None \<Rightarrow> []
      | Some k \<Rightarrow> (if s_key_path srv \<noteq> [] \<and> s_key_path srv \<noteq> k then s_key_path srv else []))"

text \<open>A failed clean-up is only a warning.\<close>

definition setServerFields ::
    "server list codec \<Rightarrow> (nat \<Rightarrow> io) \<Rightarrow> faults \<Rightarrow> string option \<Rightarrow> string \<Rightarrow> set_fields \<Rightarrow> server_state \<Rightarrow> files
     \<Rightarrow> go_error option \<times> server_state \<times> files" where
  "setServerFields cod io ff home name f st fs =
     (case server_get cod (io 0) name st of
        (Inl e, st1) \<Rightarrow> (Some e, st1, fs)
      | (Inr srv, st1) \<Rightarrow>
          (if sf_host f = None \<and> sf_port f = None \<and> sf_key f = None \<and> sf_skip f = None
           then (Some (errors_new ''at least one of --host, --port, --key, --skip-batch, or --no-skip-batch is required''), st1, fs)
           else
          (case apply_fields f srv of
             Inl e \<Rightarrow> (Some e, st1, fs)
           | Inr srv' \<Rightarrow>
          (case server_save cod (io 1) srv' st1 of
             (Inl e, st2) \<Rightarrow> (Some (wrap (''update server '' @ go_quote name @ '': '') e []), st2, fs)
           | (Inr u, st2) \<Rightarrow>
               (if replaced_key f srv = [] then (None, st2, fs)
                else (case CleanupManagedKeyWithRefCheck cod (io 2) ff home (s_name srv) (replaced_key f srv) False st2 fs of
                        (e, st3, fs1) \<Rightarrow> (None, st3, fs1)))))))"

record set_flags =
  fl_host :: "string option"
  fl_port :: "int option"
  fl_key :: "string option"
  fl_no_copy :: bool
  fl_skip :: bool
  fl_no_skip :: bool

definition runServerSet ::
    "server list codec \<Rightarrow> (nat \<Rightarrow> io) \<Rightarrow> (nat \<Rightarrow> bool) \<Rightarrow> (string \<Rightarrow> (go_error \<times> bool) option) \<Rightarrow> faults \<Rightarrow> string option
     \<Rightarrow> string option option \<Rightarrow> string \<Rightarrow> set_flags \<Rightarrow> server_state \<Rightarrow> files \<Rightarrow> go_error option \<times> server_state \<times> files" where
  "runServerSet cod io letter parse ff home input name fl st fs =
     (case (case fl_key fl of
              None \<Rightarrow> (Inr None, fs)
            | Some k \<Rightarrow>
                (if trim_space k = [] then (Inr (Some k), fs)
                 else (case ResolveAndSecureKeyPath letter parse ff home input name k (fl_no_copy fl) fs of
                         (Inl e, fs1) \<Rightarrow> (Inl e, fs1)
                       | (Inr (p, copied), fs1) \<Rightarrow> (Inr (Some p), fs1)))) of
        (Inl e, fs1) \<Rightarrow> (Some e, st, fs1)
      | (Inr key, fs1) \<Rightarrow>
          (if fl_skip fl \<and> fl_no_skip fl
           then (Some (errors_new ''cannot use both --skip-batch and --no-skip-batch''), st, fs1)
           else setServerFields cod io ff home name
                  \<lparr>sf_host = fl_host fl, sf_port = fl_port fl, sf_key = key,
                   sf_skip = (if fl_skip fl then Some True else if fl_no_skip fl then Some False else None)\<rparr> st fs1))"

section \<open>\<open>server edit\<close>\<close>

definition quoted_name :: "string \<Rightarrow> string" where
  "quoted_name n = CHR 0x22 # n @ [CHR 0x22]"

definition names_server :: "string \<Rightarrow> string \<Rightarrow> bool" where
  "names_server serverName l =
     (let t = trim_space l
      in t = ''- name: '' @ serverName \<or> t = ''name: '' @ serverName
       \<or> t = ''- name: '' @ quoted_name serverName \<or> t = ''name: '' @ quoted_name serverName)"

fun line_of :: "nat \<Rightarrow> string \<Rightarrow> string list \<Rightarrow> nat" where
  "line_of i n [] = 1"
| "line_of i n (l # ls) = (if names_server n l then Suc i else line_of (Suc i) n ls)"

definition serverYAMLLine :: "string \<Rightarrow> string \<Rightarrow> nat" where
  "serverYAMLLine data serverName = line_of 0 serverName (split_on (CHR 0x0A) data)"

definition editor_of :: "string \<Rightarrow> string \<Rightarrow> bool \<Rightarrow> string" where
  "editor_of visual editor windows =
     (let v = trim_space visual; e = trim_space editor
      in if v \<noteq> [] then v else if e \<noteq> [] then e else if windows then ''notepad'' else ''vi'')"

definition editor_args :: "string list \<Rightarrow> string \<Rightarrow> nat \<Rightarrow> string list" where
  "editor_args parts p n =
     (let b = path_base (hd parts)
      in tl parts @
         (if b \<in> {''vi'', ''vim'', ''nvim'', ''view''} then [''+'' @ show_nat n, p]
          else if b = ''nano'' then [''+'' @ show_nat n @ '',1'', p]
          else if b \<in> {''code'', ''code-insiders''} then [''--wait'', ''--goto'', p @ '':'' @ show_nat n @ '':1'']
          else [p]))"

text \<open>\<open>spawn\<close> runs the editor on the draft: its failure, and what the draft holds afterwards.\<close>

definition openEditor ::
    "string \<Rightarrow> (string list \<Rightarrow> string \<Rightarrow> go_error option \<times> string) \<Rightarrow> string \<Rightarrow> nat \<Rightarrow> string \<Rightarrow> go_error option \<times> string" where
  "openEditor editor spawn p n draft =
     (let parts = str_fields editor
      in if parts = [] then (Some (errors_new ''editor command is empty''), draft)
         else (case spawn (hd parts # editor_args parts p n) draft of
                 (Some e, d) \<Rightarrow> (Some (wrap (''editor '' @ go_quote (hd parts) @ '' failed: '') e []), d)
               | (None, d) \<Rightarrow> (None, d)))"

text \<open>What follows the editor: the edited text replaces the file only when it parses and still names the server.\<close>

definition edit_accept ::
    "server list codec \<Rightarrow> (nat \<Rightarrow> io) \<Rightarrow> string \<Rightarrow> string \<Rightarrow> server_state \<Rightarrow> go_error option \<times> server_state" where
  "edit_accept cod io serverName updated st1 =
     (case ParseConfig cod updated of
        Inl e \<Rightarrow> (Some (wrap ''edited configuration is invalid; original file was not changed: '' e []), st1)
      | Inr cf \<Rightarrow>
     (case fst (server_get cod (io 3) serverName
             \<lparr>sv_path = io.io_tmp (io 1), sv_file = Some \<lparr>fdata = updated, fmtime = 0\<rparr>, sv_cache = None, sv_mod = 0, sv_size = 0\<rparr>) of
        Inl e \<Rightarrow> (Some (errors_new (''edited configuration must retain server '' @ go_quote serverName
                                    @ ''; original file was not changed'')), st1)
      | Inr s' \<Rightarrow>
     (case server_replace cod (io 4) updated st1 of
        (Inl e, st2) \<Rightarrow> (Some (wrap ''save edited configuration: '' e []), st2)
      | (Inr u, st2) \<Rightarrow> (None, st2))))"

text \<open>The draft file's own system calls are those of \<open>io 1\<close>; \<open>io 2\<close> reads it back.\<close>

definition editServerConfig ::
    "server list codec \<Rightarrow> (nat \<Rightarrow> io) \<Rightarrow> string \<Rightarrow> (string list \<Rightarrow> string \<Rightarrow> go_error option \<times> string) \<Rightarrow> string \<Rightarrow> server_state
     \<Rightarrow> go_error option \<times> server_state" where
  "editServerConfig cod io editor spawn serverName st =
     (case server_get cod (io 0) serverName st of
        (Inl e, st1) \<Rightarrow> (Some e, st1)
      | (Inr s, st1) \<Rightarrow>
     (case (case io.io_read (io 1) of Some e \<Rightarrow> Inl e
            | None \<Rightarrow> (case sv_file st1 of None \<Rightarrow> Inl (sentinel_error not_exist) | Some f \<Rightarrow> Inr (fdata f))) of
        Inl e \<Rightarrow> (Some (wrap ''read server configuration: '' e []), st1)
      | Inr original \<Rightarrow>
     (case io.io_create (io 1) of
        Some e \<Rightarrow> (Some (wrap ''create server configuration draft: '' e []), st1)
      | None \<Rightarrow>
     (case io.io_chmod (io 1) of
        Some e \<Rightarrow> (Some (wrap ''secure server configuration draft: '' e []), st1)
      | None \<Rightarrow>
     (case io.io_write (io 1) of
        Some e \<Rightarrow> (Some (wrap ''write server configuration draft: '' e []), st1)
      | None \<Rightarrow>
     (case io.io_close (io 1) of
        Some e \<Rightarrow> (Some (wrap ''close server configuration draft: '' e []), st1)
      | None \<Rightarrow>
     (case openEditor editor spawn (io.io_tmp (io 1)) (serverYAMLLine original serverName) original of
        (Some e, d) \<Rightarrow> (Some e, st1)
      | (None, updated) \<Rightarrow>
     (case io.io_read (io 2) of
        Some e \<Rightarrow> (Some (wrap ''read edited server configuration: '' e []), st1)
      | None \<Rightarrow> edit_accept cod io serverName updated st1))))))))"

section \<open>\<open>server remove\<close>\<close>

record backup_ref_check =
  rc_jobs :: "job list"
  rc_warnings :: "string list"

definition loadBackupRefCheck :: "string \<Rightarrow> job list res \<Rightarrow> string \<Rightarrow> asset list res \<Rightarrow> backup_ref_check" where
  "loadBackupRefCheck bpath jobs apath assets =
     \<lparr>rc_jobs = (case jobs of Inl e \<Rightarrow> [] | Inr js \<Rightarrow> js),
      rc_warnings =
        (case jobs of Inr js \<Rightarrow> []
         | Inl e \<Rightarrow> [''could not read '' @ bpath @ '' ('' @ err_text e @ ''); backup job references were not checked'']) @
        (case assets of Inr a \<Rightarrow> []
         | Inl e \<Rightarrow> [''could not read '' @ apath @ '' ('' @ err_text e @ ''); asset references were not checked''])\<rparr>"

definition jobsReferencingServer :: "backup_ref_check \<Rightarrow> string \<Rightarrow> string list" where
  "jobsReferencingServer c n = map j_name (filter (\<lambda>j. j_server j = n) (rc_jobs c))"

definition jobsReferencingAsset :: "backup_ref_check \<Rightarrow> string \<Rightarrow> string list" where
  "jobsReferencingAsset c i = map j_name (filter (\<lambda>j. i \<in> set (j_assets j)) (rc_jobs c))"

definition warnBackupRefCheck :: "backup_ref_check \<Rightarrow> string list \<Rightarrow> string \<Rightarrow> string list" where
  "warnBackupRefCheck c refJobs what =
     map (\<lambda>w. (utf8 [0x26A0, 0xFE0F] @ ''  '' @ w)) (rc_warnings c) @
     (if refJobs = [] then []
      else [ (utf8 [0x26A0, 0xFE0F] @ ''  '' @ show_nat (length refJobs) @ '' backup job(s) still reference '' @ what @ '' and will fail until reconfigured: '' @ join_with '', '' refJobs) ])"

definition confirmReferencingJobs :: "operator \<Rightarrow> bool \<Rightarrow> string \<Rightarrow> string list \<Rightarrow> go_error option" where
  "confirmReferencingJobs op yes what refJobs =
     (if refJobs = [] \<or> yes \<or> \<not> op_interactive op then None
      else if promptConfirm (op_types op (utf8 [0x26A0, 0xFE0F] @ ''  '' @ show_nat (length refJobs) @ '' backup job(s) still reference '' @ what @ '' ('' @ join_with '', '' refJobs @ '') and will fail until reconfigured.'' @ [CHR 0x0A] @ ''Remove anyway? [y/N]: '')) False
      then None else Some (errors_new ''removal cancelled by user''))"

definition key_note :: "string option \<Rightarrow> server \<Rightarrow> bool \<Rightarrow> string" where
  "key_note home srv keepKey =
     (if s_key_path srv = [] then ''no private key is configured''
      else if keepKey then ''the private key '' @ s_key_path srv @ '' is kept on disk (--keep-key)''
      else if isManagedKey home (s_key_path srv)
      then ''the managed private key '' @ s_key_path srv @ '' is deleted unless another server still uses it''
      else ''the private key '' @ s_key_path srv @ '' is left on disk (OpsPulse only deletes keys it manages)'')"

definition removal_prompt :: "string option \<Rightarrow> server \<Rightarrow> bool \<Rightarrow> string" where
  "removal_prompt home srv keepKey = (utf8 [0x26A0, 0xFE0F] @ ''  Warning: removing server '' @ go_quote (s_name srv) @ '' drops its inventory entry, and '' @ key_note home srv keepKey @ ''.'' @ [CHR 0x0A] @ ''Are you sure you want to proceed? [y/N]: '')"

definition confirmServerRemoval :: "operator \<Rightarrow> bool \<Rightarrow> string option \<Rightarrow> server \<Rightarrow> bool \<Rightarrow> go_error option" where
  "confirmServerRemoval op yes home srv keepKey =
     (if yes then None
      else if \<not> op_interactive op
      then Some (errors_new (''refusing to remove server '' @ go_quote (s_name srv)
             @ '' without confirmation; re-run with --yes to accept this in a non-interactive shell''))
      else if promptConfirm (op_types op (removal_prompt home srv keepKey)) False then None
      else Some (errors_new ''server removal cancelled by user''))"

definition runServerRemove ::
    "server list codec \<Rightarrow> (nat \<Rightarrow> io) \<Rightarrow> faults \<Rightarrow> string option \<Rightarrow> operator \<Rightarrow> backup_ref_check \<Rightarrow> string \<Rightarrow> bool \<Rightarrow> bool
     \<Rightarrow> server_state \<Rightarrow> files \<Rightarrow> go_error option \<times> server_state \<times> files" where
  "runServerRemove cod io ff home op check name keepKey yes st fs =
     (case server_get cod (io 0) name st of
        (Inl e, st1) \<Rightarrow> (Some e, st1, fs)
      | (Inr srv, st1) \<Rightarrow>
     (case GetDependents cod (io 1) name st1 of
        (deps, st2) \<Rightarrow>
     (if (case deps of Inl e \<Rightarrow> False | Inr ds \<Rightarrow> ds \<noteq> [])
      then (Some (errors_new (''cannot remove server '' @ go_quote name @ '': '' @ show_nat (length (projr deps))
              @ '' server(s) depend on it as a jump host ('' @ join_with '', '' (map s_name (projr deps))
              @ ''). Please remove or reconfigure them first'')), st2, fs)
      else
     (case confirmServerRemoval op yes home srv keepKey of
        Some e \<Rightarrow> (Some e, st2, fs)
      | None \<Rightarrow>
     (case confirmReferencingJobs op yes (''server '' @ go_quote name) (jobsReferencingServer check name) of
        Some e \<Rightarrow> (Some e, st2, fs)
      | None \<Rightarrow>
     (case server_delete cod (io 2) name st2 of
        (Inl e, st3) \<Rightarrow>
          (Some (wrap (''remove server '' @ go_quote name @ '' from inventory: '') e
             (if s_key_path srv \<noteq> [] then '' (private key '' @ s_key_path srv @ '' was not deleted)'' else [])), st3, fs)
      | (Inr u, st3) \<Rightarrow>
     (case CleanupManagedKeyWithRefCheck cod (io 3) ff home (s_name srv) (s_key_path srv) keepKey st3 fs of
        (e, st4, fs1) \<Rightarrow> (None, st4, fs1))))))))"

section \<open>\<open>server rename\<close>\<close>

definition runServerRename ::
    "server list codec \<Rightarrow> (nat \<Rightarrow> bool) \<Rightarrow> job list codec \<Rightarrow> (nat \<Rightarrow> io) \<Rightarrow> string \<Rightarrow> string \<Rightarrow> server_state \<Rightarrow> job list ystore
     \<Rightarrow> go_error option \<times> server_state \<times> job list ystore" where
  "runServerRename cod uc jcod io oldName arg st bs =
     (let newName = NormalizeServerName arg
      in case server_rename cod (io 0) oldName newName st of
           (Inl e, st1) \<Rightarrow> (Some (wrap (''rename server '' @ go_quote oldName @ '' to '' @ go_quote newName @ '': '') e []), st1, bs)
         | (Inr deps, st1) \<Rightarrow>
             (case RenameServerReferences uc jcod (io 1) oldName newName bs of
                (Inr jobs, bs1) \<Rightarrow> (None, st1, bs1)
              | (Inl e, bs1) \<Rightarrow>
                  (case server_rename cod (io 2) newName oldName st1 of
                     (Inl e2, st2) \<Rightarrow>
                       (Some (wrap ''update backup job references: '' e
                          (''; rollback of servers.yaml also failed: '' @ err_text e2)), st2, bs1)
                   | (Inr d2, st2) \<Rightarrow>
                       (Some (wrap ''update backup job references: '' e ''; server rename was rolled back''), st2, bs1))))"

section \<open>\<open>server setup-key\<close>\<close>

text \<open>\<open>kg_make\<close> generates a key pair at a path, \<open>kg_pub\<close> prints the public key of a private one.\<close>

record keygen =
  kg_found :: bool
  kg_make :: "string \<Rightarrow> files \<Rightarrow> go_error option \<times> files"
  kg_pub :: "string \<Rightarrow> string res"

definition keygen_missing :: go_error where
  "keygen_missing = errors_new ''system 'ssh-keygen' not found in PATH: executable file not found in $PATH''"

definition derivePublicKey :: "faults \<Rightarrow> keygen \<Rightarrow> string \<Rightarrow> files \<Rightarrow> go_error option \<times> files" where
  "derivePublicKey ff kg p fs =
     (if \<not> kg_found kg then (Some keygen_missing, fs)
      else (case kg_pub kg p of
              Inl e \<Rightarrow> (Some (wrap ''derive public key: '' e []), fs)
            | Inr out \<Rightarrow>
                (case os_WriteFile ff (p @ ''.pub'') (trim_space out @ [CHR 0x0A]) fs of
                   (Some e, fs1) \<Rightarrow> (Some (wrap ''write public key: '' e []), fs1)
                 | (None, fs1) \<Rightarrow> (None, fs1))))"

definition ensureSSHKeyPair :: "faults \<Rightarrow> keygen \<Rightarrow> string \<Rightarrow> files \<Rightarrow> go_error option \<times> files" where
  "ensureSSHKeyPair ff kg p fs =
     (case ff_mkdir ff (path_dir p) of
        Some e \<Rightarrow> (Some (wrap ''create SSH directory: '' e []), fs)
      | None \<Rightarrow>
     (case ff_stat ff p of
        Some e \<Rightarrow> (Some (wrap ''inspect private key: '' e []), fs)
      | None \<Rightarrow>
     (if fs p \<noteq> None
      then (if ff_stat ff (p @ ''.pub'') = None \<and> fs (p @ ''.pub'') \<noteq> None then (None, fs) else derivePublicKey ff kg p fs)
      else if \<not> kg_found kg then (Some keygen_missing, fs)
      else kg_make kg p fs)))"

definition installPublicKeyScript :: "string \<Rightarrow> string" where
  "installPublicKeyScript publicKey =
     (''set -eu'' @ [CHR 0x0A] @ ''umask 077'' @ [CHR 0x0A] @ ''mkdir -p \"$HOME/.ssh\"'' @ [CHR 0x0A] @ ''touch \"$HOME/.ssh/authorized_keys\"'' @ [CHR 0x0A] @ ''key=\"$(printf '' @ [squote] @ ''%'' @ ''s' '' @ [squote] @ base64 (trim_space publicKey) @ [squote] @ '' | base64 -d)\"'' @ [CHR 0x0A] @ ''grep -qxF \"$key\" \"$HOME/.ssh/authorized_keys\" || printf '' @ [squote] @ ''%'' @ ''s'' @ [CHR 0x5C] @ ''n' \"$key\" >> \"$HOME/.ssh/authorized_keys\"'' @ [CHR 0x0A] @ ''chmod 700 \"$HOME/.ssh\"'' @ [CHR 0x0A] @ ''chmod 600 \"$HOME/.ssh/authorized_keys\"'' @ [CHR 0x0A])"

text \<open>The remote host: \<open>rm_exec\<close> runs a script over a connection to a server, \<open>rm_test\<close> only connects.\<close>

record remote_host =
  rm_exec :: "server \<Rightarrow> string \<Rightarrow> exec_result res"
  rm_test :: "server \<Rightarrow> go_error option"

definition removePasswordAfterKeyVerification ::
    "server list codec \<Rightarrow> io \<Rightarrow> remote_host \<Rightarrow> server \<Rightarrow> string \<Rightarrow> server_state \<Rightarrow> go_error option \<times> server_state" where
  "removePasswordAfterKeyVerification cod io rm srv storedKeyPath st =
     (case rm_test rm (srv\<lparr>s_key_path := storedKeyPath, s_password := []\<rparr>) of
        Some e \<Rightarrow>
          (Some (wrap (''pure key authentication for '' @ go_quote (s_name srv) @ '' failed, so the password was kept: '') e
             (CHR 0x0A # CHR 0x0A # ''check that the remote sshd_config allows PubkeyAuthentication'')), st)
      | None \<Rightarrow>
          (case server_save cod io (srv\<lparr>s_password := []\<rparr>) st of
             (Inl e, st1) \<Rightarrow> (Some (wrap ''remove the password from servers.yaml: '' e []), st1)
           | (Inr u, st1) \<Rightarrow> (None, st1)))"

definition runSetupKey ::
    "server list codec \<Rightarrow> (nat \<Rightarrow> io) \<Rightarrow> (nat \<Rightarrow> bool) \<Rightarrow> faults \<Rightarrow> keygen \<Rightarrow> remote_host \<Rightarrow> string option \<Rightarrow> string \<Rightarrow> bool
     \<Rightarrow> server_state \<Rightarrow> files \<Rightarrow> go_error option \<times> server_state \<times> files" where
  "runSetupKey cod io letter ff kg rm home name removePassword st fs =
     (case server_get cod (io 0) name st of
        (Inl e, st1) \<Rightarrow> (Some e, st1, fs)
      | (Inr srv, st1) \<Rightarrow>
     (if s_password srv = []
      then (Some (errors_new (''server '' @ go_quote (s_name srv) @ '' has no configured password'')), st1, fs)
      else
     (case setupKeyPath letter home (s_name srv) of
        Inl e \<Rightarrow> (Some e, st1, fs)
      | Inr (storedKeyPath, privateKeyPath) \<Rightarrow>
     (case ensureSSHKeyPair ff kg privateKeyPath fs of
        (Some e, fs1) \<Rightarrow> (Some e, st1, fs1)
      | (None, fs1) \<Rightarrow>
     (case os_ReadFile ff (privateKeyPath @ ''.pub'') fs1 of
        Inl e \<Rightarrow> (Some (wrap ''read generated public key: '' e []), st1, fs1)
      | Inr publicKey \<Rightarrow>
     (case rm_exec rm (srv\<lparr>s_key_path := []\<rparr>) (installPublicKeyScript publicKey) of
        Inl e \<Rightarrow> (Some (wrap (''install public key on '' @ go_quote (s_name srv) @ '': '') e []), st1, fs1)
      | Inr res \<Rightarrow>
     (if \<not> er_success res
      then (Some (errors_new (''install public key on '' @ go_quote (s_name srv) @ '' failed: ''
              @ (case er_error res of None \<Rightarrow> ''<nil>'' | Some e \<Rightarrow> err_text e))), st1, fs1)
      else
     (case server_save cod (io 1) (srv\<lparr>s_key_path := storedKeyPath\<rparr>) st1 of
        (Inl e, st2) \<Rightarrow> (Some (wrap ''save key path after remote installation: '' e []), st2, fs1)
      | (Inr u, st2) \<Rightarrow>
          (if removePassword
           then (case removePasswordAfterKeyVerification cod (io 2) rm (srv\<lparr>s_key_path := storedKeyPath\<rparr>) storedKeyPath st2 of
                   (r, st3) \<Rightarrow> (r, st3, fs1))
           else (None, st2, fs1))))))))))"

section \<open>\<open>server list\<close>\<close>

definition formatKeyDisplay :: "string option \<Rightarrow> string \<Rightarrow> string" where
  "formatKeyDisplay home keyPath =
     (if has_prefix keyPath ''~'' then keyPath
      else (case home of
              None \<Rightarrow> path_base keyPath
            | Some h \<Rightarrow> (if h \<noteq> [] \<and> has_prefix keyPath h then ''~'' @ trim_prefix keyPath h else path_base keyPath)))"

definition formatTagsAndLabels :: "server \<Rightarrow> string" where
  "formatTagsAndLabels s =
     (let lbls = FormatLabels s;
          parts = (if s_tags s \<noteq> [] then [join_with '','' (s_tags s)] else [])
                @ (if lbls \<noteq> ''-'' \<and> lbls \<noteq> [] then [lbls] else [])
                @ (if s_skip_batch s \<and> \<not> list_ex (\<lambda>t. equal_fold t ''skip-batch'' \<or> equal_fold t ''[skip-batch]'') (s_tags s)
                   then [''[skip-batch]''] else [])
      in if parts = [] then ''-'' else join_with '' '' parts)"

definition display_target :: "server \<Rightarrow> string" where
  "display_target s =
     (let t = (if s_user s = [] then ''root'' else s_user s) @ ''@'' @ s_host s
      in if s_port s > 0 \<and> s_port s \<noteq> 22 then t @ '':'' @ show_int (s_port s) else t)"

definition auth_method :: "string option \<Rightarrow> server \<Rightarrow> string" where
  "auth_method home s =
     (if Is1PRef (s_key_path s) \<or> Is1PRef (s_password s) then ''legacy 1password ref''
      else if s_key_path s \<noteq> []
      then (if isManagedKey home (s_key_path s) then ''key (managed)''
            else ''key ('' @ formatKeyDisplay home (s_key_path s) @ '')'')
           @ (if s_password s \<noteq> [] then '' + password'' else [])
      else if s_password s \<noteq> [] then ''password'' else ''default key'')"

definition server_row :: "string option \<Rightarrow> server \<Rightarrow> string list" where
  "server_row home s =
     [s_name s, display_target s, if s_jump_host s \<noteq> [] then s_jump_host s else ''-'', auth_method home s,
      formatTagsAndLabels s, if s_description s = [] then ''-'' else s_description s]"

definition renderServerTable :: "string option \<Rightarrow> server list \<Rightarrow> string list list" where
  "renderServerTable home servers =
     [''NAME'', ''TARGET'', ''VIA JUMP'', ''AUTH'', ''TAGS'', ''DESCRIPTION''] # map (server_row home) servers"

text \<open>What \<open>server list\<close> shows: a hint, or the table of the servers that match.\<close>

definition runServerList ::
    "server list codec \<Rightarrow> io \<Rightarrow> string option \<Rightarrow> string \<Rightarrow> server_state \<Rightarrow> string list list res \<times> server_state" where
  "runServerList cod io home flt st =
     (case server_list cod io st of
        (Inl e, st1) \<Rightarrow> (Inl (wrap ''failed to list servers: '' e []), st1)
      | (Inr servers, st1) \<Rightarrow>
          (if servers = [] then (Inr [[''No servers found. Add one using:'' @ [CHR 0x0A] @ ''  ops server add <name> --host <host>'']], st1)
           else (let filtered = filter (\<lambda>s. MatchFilter s flt) servers
                 in if filtered = [] then (Inr [[''No servers matched filter '' @ go_quote flt @ ''.'']], st1)
                    else (Inr (renderServerTable home filtered), st1))))"

section \<open>Names\<close>

lemma utf8_rune_ascii: "r < 128 \<Longrightarrow> utf8_rune r = [char_of r]"
  by (simp add: utf8_rune_def)

lemma sanitise_char: "server_char_ok c \<Longrightarrow> name_rune_ok letter (code_of c) \<and> utf8_rune (code_of c) = [c]"
proof -
  assume ok: "server_char_ok c"
  then have lt: "code_of c < 128" by (simp add: server_char_edge)
  have bk: "char_of (code_of c) = c" by (simp add: code_of_def)
  have "is_alnum c \<or> code_of c = 45" using ok by (auto simp: server_char_ok_def code_of_def)
  then show ?thesis using lt bk by (auto simp: name_rune_ok_def utf8_rune_ascii)
qed

text \<open>A valid server name is its own file name, so the key files of different servers are different files.\<close>

lemma sanitise_server_name:
  assumes "ValidateServerName n = None" shows "sanitiseName letter n = n"
proof -
  have ok: "\<forall>c\<in>set n. server_char_ok c" using assms by (simp add: server_name_iff_core)
  then have "\<forall>c\<in>set n. code_of c < 128" by (auto simp: server_char_edge)
  then have r: "runes n = map code_of n" by (rule runes_of_ascii)
  have "concat (map (\<lambda>c. if name_rune_ok letter (code_of c) then utf8_rune (code_of c) else ''_'') n) = n"
    using ok by (induction n) (auto simp: sanitise_char)
  then show ?thesis by (simp add: sanitiseName_def r comp_def)
qed

lemma setup_paths_distinct:
  assumes "ValidateServerName m = None" "ValidateServerName n = None"
    "setupKeyPath letter home m = Inr (a, b)" "setupKeyPath letter home n = Inr (a, b')"
  shows "m = n"
  using assms by (auto simp: setupKeyPath_def sanitise_server_name Let_def split: option.splits)

text \<open>Machine names are not restricted like that, and two of them do collapse into one.\<close>

lemma machine_names_collapse: "machineName letter (Some ''db 1'') = machineName letter (Some ''db_1'')"
proof -
  have "trim_space ''db 1'' = ''db 1''" "trim_space ''db_1'' = ''db_1''"
    and "runes ''db 1'' = [100, 98, 32, 49]" "runes ''db_1'' = [100, 98, 95, 49]"
    and "\<not> is_alnum (char_of (32::nat))" "CHR ''_'' = char_of (95::nat)" "is_alnum CHR ''d''" "is_alnum CHR ''b''" "is_alnum CHR ''1''" "\<not> is_alnum CHR '' ''"
    by code_simp+
  then show ?thesis by (simp add: machineName_def sanitiseName_def name_rune_ok_def utf8_rune_def)
qed

section \<open>What a clean-up may delete\<close>

lemma os_Remove_only: "os_Remove ff q fs p \<noteq> fs p \<Longrightarrow> p = q"
  by (auto simp: os_Remove_def split: if_splits)

definition key_files :: "string option \<Rightarrow> string \<Rightarrow> string set" where
  "key_files home k = (let e = ExpandPath home (trim_space k) in {e, e @ ''.pub''})"

lemma cleanup_confined:
  assumes "cleanupManagedKey ff home k fs p \<noteq> fs p"
  shows "isManagedKey home k \<and> p \<in> key_files home k"
proof (cases "isManagedKey home k")
  case False
  then show ?thesis using assms by (simp add: cleanupManagedKey_def)
next
  case True
  let ?e = "ExpandPath home (trim_space k)"
  have "os_Remove ff ?e fs p \<noteq> fs p \<or> os_Remove ff (?e @ ''.pub'') (os_Remove ff ?e fs) p \<noteq> os_Remove ff ?e fs p"
    using assms True by (auto simp: cleanupManagedKey_def Let_def split: if_splits)
  then have "p = ?e \<or> p = ?e @ ''.pub''" using os_Remove_only by blast
  then show ?thesis using True by (auto simp: key_files_def Let_def)
qed

lemma cleanup_removes:
  "isManagedKey home k \<Longrightarrow> \<not> ff_remove ff (ExpandPath home (trim_space k)) \<Longrightarrow>
   cleanupManagedKey ff home k fs (ExpandPath home (trim_space k)) = None"
  by (simp add: cleanupManagedKey_def os_Remove_def Let_def)

definition uses_key :: "string option \<Rightarrow> string \<Rightarrow> server \<Rightarrow> bool" where
  "uses_key home k s \<longleftrightarrow>
     s_key_path s \<noteq> [] \<and> ExpandPath home (trim_space (s_key_path s)) = ExpandPath home (trim_space k)"

lemma managed_nonempty: "isManagedKey home k \<Longrightarrow> k \<noteq> []"
  by (auto simp: isManagedKey_def)

lemma IsKeyUsed_spec:
  "k \<noteq> [] \<Longrightarrow> IsKeyUsedByOtherServers home (Inr servers) exclude k = Inr (used, other) \<Longrightarrow>
     used \<longleftrightarrow> (\<exists>s\<in>set servers. s_name s \<noteq> exclude \<and> uses_key home k s)"
  by (auto simp: IsKeyUsedByOtherServers_def uses_key_def find_None_iff find_Some_iff split: option.splits)

lemma clean_with_check:
  assumes wf: "sv_wf cod st"
    and run: "CleanupManagedKeyWithRefCheck cod io ff home name k keep st fs = (r, st', fs')"
  shows "sv_wf cod st' \<and> sv_entries cod st' = sv_entries cod st
       \<and> (\<forall>p. fs' p = fs p \<or> (\<not> keep \<and> isManagedKey home k \<and> p \<in> key_files home k
              \<and> (\<forall>s\<in>set (sv_entries cod st). s_name s \<noteq> name \<longrightarrow> \<not> uses_key home k s)))"
proof (cases "isManagedKey home k \<and> \<not> keep")
  case False
  then show ?thesis using wf run by (auto simp: CleanupManagedKeyWithRefCheck_def)
next
  case True
  obtain l st1 where rd: "server_list cod io st = (l, st1)" by force
  then have fr: "sv_wf cod st1 \<and> sv_entries cod st1 = sv_entries cod st \<and> (\<forall>v. l = Inr v \<longrightarrow> v = sv_entries cod st)"
    using sv_read_frame[OF wf] by (simp add: server_list_def)
  show ?thesis
  proof (cases "IsKeyUsedByOtherServers home l name k")
    case (Inl e)
    then show ?thesis using True run rd fr by (simp add: CleanupManagedKeyWithRefCheck_def)
  next
    case (Inr u)
    obtain used other where u: "u = (used, other)" by force
    have ne: "k \<noteq> []" using True managed_nonempty by blast
    obtain v where v: "l = Inr v" "v = sv_entries cod st"
      using Inr ne fr by (cases l) (auto simp: IsKeyUsedByOtherServers_def)
    have spec: "used \<longleftrightarrow> (\<exists>s\<in>set (sv_entries cod st). s_name s \<noteq> name \<and> uses_key home k s)"
      using IsKeyUsed_spec[OF ne] Inr u v by simp
    have "st' = st1" "fs' = (if used then fs else cleanupManagedKey ff home k fs)"
      using True run rd Inr u by (simp_all add: CleanupManagedKeyWithRefCheck_def)
    then show ?thesis using fr spec True cleanup_confined[of ff home k fs] by (cases used) auto
  qed
qed

section \<open>An example\<close>

definition key_server :: server where
  "key_server = \<lparr>s_name = ''web-1'', s_host = ''10.0.0.5'', s_port = 22, s_user = ''root'',
     s_key_path = ''~/.ssh/opspulse_web-1'', s_password = ''pw'', s_jump_host = [], s_skip_batch = False,
     s_tags = [], s_labels = [], s_description = []\<rparr>"

definition key_codec :: "server list codec" where
  "key_codec = table_codec
     [(''a'', [key_server]), (''e'', []), (''k'', [key_server\<lparr>s_key_path := ''/root/.ssh/opspulse_web-1''\<rparr>])]"

definition key_disk :: files where
  "key_disk = (\<lambda>p. if p \<in> {''/root/.ssh/opspulse_web-1'', ''/root/.ssh/opspulse_web-1.pub''} then Some (RegularFile ''key'') else None)"

lemma key_file:
  "sv_wf key_codec (server_file (Some ''a''))" "sv_entries key_codec (server_file (Some ''a'')) = [key_server]"
proof -
  have cok: "codec_ok key_codec" unfolding key_codec_def by (rule table_codec_ok) simp_all
  have d: "sv_disk key_codec (server_file (Some ''a'')) = Inr [key_server]" by code_simp
  show "sv_wf key_codec (server_file (Some ''a''))"
    by (simp add: sv_wf_def d cok sv_coherent_def) (simp add: server_file_def)
  show "sv_entries key_codec (server_file (Some ''a'')) = [key_server]" by (simp add: sv_entries_def d)
qed

lemma key_found: "find_key s_name ''web-1'' (sv_entries key_codec (server_file (Some ''a''))) = Some key_server"
  by (simp add: key_file(2) key_server_def)

section \<open>Removing a server\<close>

definition removal_consent :: "operator \<Rightarrow> bool \<Rightarrow> string option \<Rightarrow> server \<Rightarrow> bool \<Rightarrow> bool" where
  "removal_consent op yes home srv keep \<longleftrightarrow>
     yes \<or> (op_interactive op \<and> promptConfirm (op_types op (removal_prompt home srv keep)) False)"

lemma confirmServerRemoval_iff: "confirmServerRemoval op yes home srv keep = None \<longleftrightarrow> removal_consent op yes home srv keep"
  by (simp add: confirmServerRemoval_def removal_consent_def)

lemma remove_steps:
  assumes run: "runServerRemove cod io ff home op check name keep yes st fs = (r, st', fs')" and wf: "sv_wf cod st"
  shows "sv_wf cod st' \<and>
    ((r \<noteq> None \<and> sv_entries cod st' = sv_entries cod st \<and> fs' = fs)
     \<or> (\<exists>srv st3 e. r = None \<and> find_key s_name name (sv_entries cod st) = Some srv
          \<and> removal_consent op yes home srv keep
          \<and> (io_stat (io 1) = None \<longrightarrow> io.io_read (io 1) = None \<longrightarrow> name \<notin> s_jump_host ` set (sv_entries cod st))
          \<and> sv_wf cod st3 \<and> sv_entries cod st3 = filter (\<lambda>s. s_name s \<noteq> name) (sv_entries cod st)
          \<and> CleanupManagedKeyWithRefCheck cod (io 3) ff home name (s_key_path srv) keep st3 fs = (e, st', fs')))"
proof -
  obtain g st1 where get: "server_get cod (io 0) name st = (g, st1)" by force
  note c1 = server_get_cases[OF wf get]
  obtain d st2 where deps: "GetDependents cod (io 1) name st1 = (d, st2)" by force
  have wf1: "sv_wf cod st1" using c1 by blast
  note c2 = GetDependents_cases[OF wf1 deps]
  have e2: "sv_wf cod st2" "sv_entries cod st2 = sv_entries cod st" using c1 c2 by auto
  show ?thesis
  proof (cases g)
    case (Inl e)
    then show ?thesis using run get c1 by (auto simp: runServerRemove_def)
  next
    case (Inr srv)
    have fk: "find_key s_name name (sv_entries cod st) = Some srv" using c1 Inr by simp
    then have nm: "s_name srv = name" using find_key_Some by metis
    show ?thesis
    proof (cases "(case d of Inl e \<Rightarrow> False | Inr ds \<Rightarrow> ds \<noteq> []) \<or> confirmServerRemoval op yes home srv keep \<noteq> None
        \<or> confirmReferencingJobs op yes (''server '' @ go_quote name) (jobsReferencingServer check name) \<noteq> None")
      case True
      then have "r \<noteq> None \<and> st' = st2 \<and> fs' = fs"
        using run get Inr deps
        by (cases "confirmServerRemoval op yes home srv keep";
            cases "confirmReferencingJobs op yes (''server '' @ go_quote name) (jobsReferencingServer check name)")
           (auto simp: runServerRemove_def simp del: append_Cons split: if_splits, (metis)+)
      then show ?thesis using e2 by simp
    next
      case False
      obtain q st3 where del: "server_delete cod (io 2) name st2 = (q, st3)" by force
      note c3 = server_delete_cases[OF e2(1) del]
      have clear: "io_stat (io 1) = None \<longrightarrow> io.io_read (io 1) = None \<longrightarrow> name \<notin> s_jump_host ` set (sv_entries cod st)"
      proof (intro impI)
        assume "io_stat (io 1) = None" "io.io_read (io 1) = None"
        then have "is_ok d" using c2 by blast
        then obtain ds where ds: "d = Inr ds" using is_okD by blast
        then have "ds = filter (\<lambda>s. s_jump_host s = name) (sv_entries cod st)" using c1 c2 by metis
        with ds show "name \<notin> s_jump_host ` set (sv_entries cod st)" using False by (auto simp: filter_empty_conv)
      qed
      show ?thesis
      proof (cases q)
        case (Inl e)
        then have "r \<noteq> None \<and> st' = st3 \<and> fs' = fs"
          using run get \<open>g = Inr srv\<close> deps False del by (auto simp: runServerRemove_def split: if_splits)
        then show ?thesis using c3 Inl e2 by simp
      next
        case (Inr u)
        obtain e st4 fs1 where cl: "CleanupManagedKeyWithRefCheck cod (io 3) ff home name (s_key_path srv) keep st3 fs = (e, st4, fs1)"
          by (metis prod_cases3)
        then have out: "r = None" "st' = st4" "fs' = fs1"
          using run get \<open>g = Inr srv\<close> deps False del Inr nm by (auto simp: runServerRemove_def split: if_splits)
        have w3: "sv_wf cod st3" "sv_entries cod st3 = filter (\<lambda>s. s_name s \<noteq> name) (sv_entries cod st)"
          using c3 Inr e2 by simp_all
        have "sv_wf cod st'" using clean_with_check[OF w3(1) cl] out by simp
        then show ?thesis
          using out cl w3 fk clear False by (auto simp: confirmServerRemoval_iff)
      qed
    qed
  qed
qed

text \<open>
  C23. Removing a server is all or nothing for the inventory and asks first. Either the command fails and neither the
  inventory nor a file changed, or the server existed, the operator consented, no server depended on it as far as the
  store could be read, exactly its entry is gone, and of the files at most the managed key of that server and its public
  half are gone, and only if no remaining server uses that key.
\<close>

theorem removal_safe:
  assumes "sv_wf cod st" "runServerRemove cod io ff home op check name keep yes st fs = (r, st', fs')"
  shows "sv_wf cod st' \<and>
    ((r \<noteq> None \<and> sv_entries cod st' = sv_entries cod st \<and> fs' = fs)
     \<or> (\<exists>srv. r = None \<and> find_key s_name name (sv_entries cod st) = Some srv
          \<and> removal_consent op yes home srv keep
          \<and> (io_stat (io 1) = None \<longrightarrow> io.io_read (io 1) = None \<longrightarrow> name \<notin> s_jump_host ` set (sv_entries cod st))
          \<and> sv_entries cod st' = filter (\<lambda>s. s_name s \<noteq> name) (sv_entries cod st)
          \<and> (\<forall>p. fs' p \<noteq> fs p \<longrightarrow> \<not> keep \<and> isManagedKey home (s_key_path srv) \<and> p \<in> key_files home (s_key_path srv)
                \<and> (\<forall>s\<in>set (sv_entries cod st'). \<not> uses_key home (s_key_path srv) s))))"
proof -
  have wf': "sv_wf cod st'" using remove_steps[OF assms(2,1)] by (rule conjunct1)
  from remove_steps[OF assms(2,1), THEN conjunct2] show ?thesis
  proof (elim disjE exE)
    assume "r \<noteq> None \<and> sv_entries cod st' = sv_entries cod st \<and> fs' = fs"
    then show ?thesis using wf' by blast
  next
    fix srv st3 e
    assume h: "r = None \<and> find_key s_name name (sv_entries cod st) = Some srv
          \<and> removal_consent op yes home srv keep
          \<and> (io_stat (io 1) = None \<longrightarrow> io.io_read (io 1) = None \<longrightarrow> name \<notin> s_jump_host ` set (sv_entries cod st))
          \<and> sv_wf cod st3 \<and> sv_entries cod st3 = filter (\<lambda>s. s_name s \<noteq> name) (sv_entries cod st)
          \<and> CleanupManagedKeyWithRefCheck cod (io 3) ff home name (s_key_path srv) keep st3 fs = (e, st', fs')"
    then have w3: "sv_wf cod st3" and e3: "sv_entries cod st3 = filter (\<lambda>s. s_name s \<noteq> name) (sv_entries cod st)"
      and cl: "CleanupManagedKeyWithRefCheck cod (io 3) ff home name (s_key_path srv) keep st3 fs = (e, st', fs')"
      by blast+
    note c = clean_with_check[OF w3 cl]
    have sub: "\<forall>s\<in>set (sv_entries cod st'). s_name s \<noteq> name" using c e3 by simp
    have "\<forall>p. fs' p \<noteq> fs p \<longrightarrow> \<not> keep \<and> isManagedKey home (s_key_path srv) \<and> p \<in> key_files home (s_key_path srv)
                \<and> (\<forall>s\<in>set (sv_entries cod st'). \<not> uses_key home (s_key_path srv) s)"
      using c sub by metis
    moreover have "sv_entries cod st' = filter (\<lambda>s. s_name s \<noteq> name) (sv_entries cod st)" using c e3 by simp
    ultimately show ?thesis using wf' h by (intro conjI disjI2 exI[of _ srv]) blast+
  qed
qed

definition removal_example :: "go_error option \<times> server_state \<times> files" where
  "removal_example = runServerRemove key_codec (\<lambda>_. io_fine 1) no_faults (Some ''/root'') \<lparr>op_interactive = False, op_types = (\<lambda>_. None)\<rparr>
     \<lparr>rc_jobs = [], rc_warnings = []\<rparr> ''web-1'' False True (server_file (Some ''a'')) key_disk"

theorem removal_safe_witness: "sv_entries key_codec (fst (snd removal_example)) = []"
proof -
  obtain r st' fs' where run: "removal_example = (r, st', fs')" by (metis prod_cases3)
  have "fst removal_example = None" by code_simp
  then have "r = None" using run by (metis fst_conv)
  with removal_safe[OF key_file(1) run[unfolded removal_example_def]]
  have "sv_entries key_codec st' = filter (\<lambda>s. s_name s \<noteq> ''web-1'') [key_server]" by (auto simp: key_file(2))
  then show ?thesis by (simp add: run key_server_def)
qed


section \<open>Replacing a key by the same key\<close>

lemma apply_fields_sel:
  "apply_fields f srv = Inr srv' \<Longrightarrow> s_name srv' = s_name srv \<and> s_password srv' = s_password srv
     \<and> s_key_path srv' = (case sf_key f of None \<Rightarrow> s_key_path srv | Some k \<Rightarrow> k)"
  by (auto simp: apply_fields_def split: if_splits)

lemma set_fields_steps:
  assumes run: "setServerFields cod io ff home name f st fs = (None, st', fs')" and wf: "sv_wf cod st"
  shows "\<exists>srv srv' st2. find_key s_name name (sv_entries cod st) = Some srv \<and> apply_fields f srv = Inr srv'
     \<and> sv_wf cod st2 \<and> sv_entries cod st2 = upsert s_name (with_defaults srv') (sv_entries cod st)
     \<and> (if replaced_key f srv = [] then st' = st2 \<and> fs' = fs
        else \<exists>e. CleanupManagedKeyWithRefCheck cod (io 2) ff home name (replaced_key f srv) False st2 fs = (e, st', fs'))"
proof -
  obtain g st1 where get: "server_get cod (io 0) name st = (g, st1)" by force
  note c1 = server_get_cases[OF wf get]
  obtain srv where g: "g = Inr srv" using run get by (cases g) (auto simp: setServerFields_def)
  have fk: "find_key s_name name (sv_entries cod st) = Some srv" using c1 g by simp
  then have nm: "s_name srv = name" using find_key_Some by metis
  obtain srv' where ap: "apply_fields f srv = Inr srv'"
    using run get g by (cases "apply_fields f srv") (auto simp: setServerFields_def split: if_splits)
  have w1: "sv_wf cod st1" "sv_entries cod st1 = sv_entries cod st" using c1 by auto
  obtain q st2 where sv: "server_save cod (io 1) srv' st1 = (q, st2)" by force
  obtain u where q: "q = Inr u" using run get g ap sv by (cases q) (auto simp: setServerFields_def split: if_splits)
  have w2: "sv_wf cod st2" "sv_entries cod st2 = upsert s_name (with_defaults srv') (sv_entries cod st)"
    using server_save_cases[OF w1(1) sv] q w1(2) by simp_all
  have "if replaced_key f srv = [] then st' = st2 \<and> fs' = fs
        else \<exists>e. CleanupManagedKeyWithRefCheck cod (io 2) ff home name (replaced_key f srv) False st2 fs = (e, st', fs')"
    using run get g ap sv q nm by (auto simp: setServerFields_def split: if_splits prod.splits)
  then show ?thesis using fk ap w2 by blast
qed

lemma clean_unused_deletes:
  assumes wf: "sv_wf cod st" and io: "io_stat io = None" "io.io_read io = None"
    and run: "CleanupManagedKeyWithRefCheck cod io ff home name k False st fs = (r, st', fs')"
    and k: "isManagedKey home k" "\<not> ff_remove ff (ExpandPath home (trim_space k))"
    and free: "\<forall>s\<in>set (sv_entries cod st). s_name s \<noteq> name \<longrightarrow> \<not> uses_key home k s"
  shows "fs' (ExpandPath home (trim_space k)) = None"
proof -
  obtain l st1 where rd: "server_list cod io st = (l, st1)" by force
  then have l: "l = Inr (sv_entries cod st)" using sv_read_ok[OF wf io] by (simp add: server_list_def)
  have ne: "k \<noteq> []" using k managed_nonempty by blast
  then obtain w where "IsKeyUsedByOtherServers home l name k = Inr w"
    by (cases "IsKeyUsedByOtherServers home l name k") (auto simp: l IsKeyUsedByOtherServers_def split: option.splits)
  then obtain used other where u: "IsKeyUsedByOtherServers home l name k = Inr (used, other)" by (cases w) simp
  then have "\<not> used" using IsKeyUsed_spec[OF ne] free l by blast
  then have "fs' = cleanupManagedKey ff home k fs"
    using run rd u k by (simp add: CleanupManagedKeyWithRefCheck_def)
  then show ?thesis using cleanup_removes[OF k] by simp
qed

text \<open>
  Setting the key of a server to the file it already uses, written differently, deletes that file: the code compares the
  two spellings as text, takes the old one for a replaced key, and its check for other users leaves out the server itself.
  The command reports success and the stored entry names a key that is gone.
\<close>

theorem respelled_key_is_deleted:
  assumes wf: "sv_wf cod st" and run: "setServerFields cod io ff home name f st fs = (None, st', fs')"
    and srv: "find_key s_name name (sv_entries cod st) = Some srv"
    and key: "sf_key f = Some k" "k \<noteq> s_key_path srv"
      "ExpandPath home (trim_space k) = ExpandPath home (trim_space (s_key_path srv))"
    and managed: "isManagedKey home (s_key_path srv)" "\<not> ff_remove ff (ExpandPath home (trim_space k))"
    and io: "io_stat (io 2) = None" "io.io_read (io 2) = None"
    and free: "\<forall>s\<in>set (sv_entries cod st). s_name s \<noteq> name \<longrightarrow> \<not> uses_key home k s"
  shows "map_option s_key_path (find_key s_name name (sv_entries cod st')) = Some k
       \<and> fs' (ExpandPath home (trim_space k)) = None"
proof -
  obtain srv1 srv' st2 where fk: "find_key s_name name (sv_entries cod st) = Some srv1"
    and ap: "apply_fields f srv1 = Inr srv'" and wf2: "sv_wf cod st2"
    and e2: "sv_entries cod st2 = upsert s_name (with_defaults srv') (sv_entries cod st)"
    and fin: "if replaced_key f srv1 = [] then st' = st2 \<and> fs' = fs
        else \<exists>e. CleanupManagedKeyWithRefCheck cod (io 2) ff home name (replaced_key f srv1) False st2 fs = (e, st', fs')"
    using set_fields_steps[OF run wf] by blast
  have s1: "srv1 = srv" using fk srv by simp
  have nm: "s_name srv = name" using srv find_key_Some by metis
  have rk: "replaced_key f srv = s_key_path srv" and ne: "s_key_path srv \<noteq> []"
    using key managed_nonempty[OF managed(1)] by (simp_all add: replaced_key_def)
  then obtain e where cl: "CleanupManagedKeyWithRefCheck cod (io 2) ff home name (s_key_path srv) False st2 fs = (e, st', fs')"
    using fin s1 by auto
  have sel: "s_name srv' = name" "s_key_path srv' = k" using apply_fields_sel[OF ap] s1 nm key by simp_all
  have "uses_key home (s_key_path srv) s \<longleftrightarrow> uses_key home k s" for s using key(3) by (simp add: uses_key_def)
  then have "\<forall>s\<in>set (sv_entries cod st2). s_name s \<noteq> name \<longrightarrow> \<not> uses_key home (s_key_path srv) s"
    using free e2 sel set_upsert_subset[of s_name "with_defaults srv'" "sv_entries cod st"]
    by (auto simp: with_defaults_sel)
  then have gone: "fs' (ExpandPath home (trim_space (s_key_path srv))) = None"
    using clean_unused_deletes[OF wf2 io cl] managed key(3) by simp
  have "sv_entries cod st' = upsert s_name (with_defaults srv') (sv_entries cod st)"
    using clean_with_check[OF wf2 cl] e2 by simp
  then show ?thesis using gone key(3) sel by (simp add: store_simps with_defaults_sel)
qed

definition respelled_example :: "go_error option \<times> server_state \<times> files" where
  "respelled_example = setServerFields key_codec (\<lambda>_. io_fine 1) no_faults (Some ''/root'') ''web-1''
     \<lparr>sf_host = None, sf_port = None, sf_key = Some ''/root/.ssh/opspulse_web-1'', sf_skip = None\<rparr>
     (server_file (Some ''a'')) key_disk"

theorem respelled_key_is_deleted_witness:
  "key_disk ''/root/.ssh/opspulse_web-1'' = Some (RegularFile ''key'')
 \<and> snd (snd respelled_example) ''/root/.ssh/opspulse_web-1'' = None"
proof -
  obtain r st' fs' where run: "respelled_example = (r, st', fs')" by (metis prod_cases3)
  have "fst respelled_example = None" by code_simp
  then have run': "setServerFields key_codec (\<lambda>_. io_fine 1) no_faults (Some ''/root'') ''web-1''
     \<lparr>sf_host = None, sf_port = None, sf_key = Some ''/root/.ssh/opspulse_web-1'', sf_skip = None\<rparr>
     (server_file (Some ''a'')) key_disk = (None, st', fs')"
    using run by (simp add: respelled_example_def)
  have e: "ExpandPath (Some ''/root'') (trim_space ''/root/.ssh/opspulse_web-1'') = ''/root/.ssh/opspulse_web-1''" by code_simp
  have "fs' (ExpandPath (Some ''/root'') (trim_space ''/root/.ssh/opspulse_web-1'')) = None"
  proof (rule respelled_key_is_deleted[OF key_file(1) run' key_found, THEN conjunct2])
    show "''/root/.ssh/opspulse_web-1'' \<noteq> s_key_path key_server" by (simp add: key_server_def)
    show "ExpandPath (Some ''/root'') (trim_space ''/root/.ssh/opspulse_web-1'')
        = ExpandPath (Some ''/root'') (trim_space (s_key_path key_server))" by code_simp
    show "isManagedKey (Some ''/root'') (s_key_path key_server)" by code_simp
    show "\<forall>s\<in>set (sv_entries key_codec (server_file (Some ''a''))). s_name s \<noteq> ''web-1'' \<longrightarrow>
        \<not> uses_key (Some ''/root'') ''/root/.ssh/opspulse_web-1'' s" by (simp add: key_file(2) key_server_def)
  qed (simp_all add: no_faults_def io_fine_def)
  then show ?thesis by (simp add: run e key_disk_def)
qed

section \<open>Dropping a password\<close>

lemma remove_password_cases:
  assumes wf: "sv_wf cod st" and run: "removePasswordAfterKeyVerification cod io rm srv k st = (r, st')"
  shows "sv_wf cod st' \<and> (sv_entries cod st' = sv_entries cod st
     \<or> (rm_test rm (srv\<lparr>s_key_path := k, s_password := []\<rparr>) = None \<and> r = None
        \<and> sv_entries cod st' = upsert s_name (with_defaults (srv\<lparr>s_password := []\<rparr>)) (sv_entries cod st)))"
proof (cases "rm_test rm (srv\<lparr>s_key_path := k, s_password := []\<rparr>)")
  case (Some e)
  then show ?thesis using run wf by (auto simp: removePasswordAfterKeyVerification_def)
next
  case None
  obtain q st1 where sv: "server_save cod io (srv\<lparr>s_password := []\<rparr>) st = (q, st1)" by force
  show ?thesis
    using run None sv server_save_cases[OF wf sv] by (cases q) (auto simp: removePasswordAfterKeyVerification_def)
qed

lemma setup_key_steps:
  assumes run: "runSetupKey cod io letter ff kg rm home name rp st fs = (r, st', fs')" and wf: "sv_wf cod st"
  shows "sv_wf cod st' \<and> (sv_entries cod st' = sv_entries cod st
    \<or> (\<exists>srv k p st2. find_key s_name name (sv_entries cod st) = Some srv \<and> setupKeyPath letter home name = Inr (k, p)
         \<and> sv_wf cod st2 \<and> sv_entries cod st2 = upsert s_name (with_defaults (srv\<lparr>s_key_path := k\<rparr>)) (sv_entries cod st)
         \<and> (\<exists>pub res. rm_exec rm (srv\<lparr>s_key_path := []\<rparr>) (installPublicKeyScript pub) = Inr res \<and> er_success res)
         \<and> (if rp then removePasswordAfterKeyVerification cod (io 2) rm (srv\<lparr>s_key_path := k\<rparr>) k st2 = (r, st')
            else st' = st2)))"
proof -
  obtain g st1 where get: "server_get cod (io 0) name st = (g, st1)" by force
  note c1 = server_get_cases[OF wf get]
  have w1: "sv_wf cod st1" "sv_entries cod st1 = sv_entries cod st" using c1 by auto
  show ?thesis
  proof (cases g)
    case (Inl e)
    then show ?thesis using run get w1 by (auto simp: runSetupKey_def)
  next
    case (Inr srv)
    then have fk: "find_key s_name name (sv_entries cod st) = Some srv" using c1 by simp
    then have nm: "s_name srv = name" using find_key_Some by metis
    note base_run = run[unfolded runSetupKey_def get Inr, simplified]
    show ?thesis
    proof (cases "s_password srv = [] \<or> \<not> is_ok (setupKeyPath letter home name)")
      case True
      then have "st' = st1" using base_run nm by (auto split: sum.splits if_splits)
      then show ?thesis using w1 by simp
    next
      case False
      then obtain k p where sp: "setupKeyPath letter home name = Inr (k, p)" by (auto dest: is_okD)
      obtain o1 fs1 where ens: "ensureSSHKeyPair ff kg p fs = (o1, fs1)" by force
      note run2 = base_run[unfolded nm sp, simplified]
      show ?thesis
      proof (cases "o1 = None \<and> is_ok (os_ReadFile ff (p @ ''.pub'') fs1)")
        case False
        then have "st' = st1"
          using run2 \<open>\<not> (s_password srv = [] \<or> \<not> is_ok (setupKeyPath letter home name))\<close> ens
          by (cases o1; cases "os_ReadFile ff (p @ ''.pub'') fs1") auto
        then show ?thesis using w1 by simp
      next
        case ok: True
        then obtain pub where pub: "os_ReadFile ff (p @ ''.pub'') fs1 = Inr pub" by (auto dest: is_okD)
        let ?x = "rm_exec rm (srv\<lparr>s_key_path := []\<rparr>) (installPublicKeyScript pub)"
        obtain q st2 where sv: "server_save cod (io 1) (srv\<lparr>s_key_path := k\<rparr>) st1 = (q, st2)" by force
        note c2 = server_save_cases[OF w1(1) sv]
        show ?thesis
        proof (cases "\<exists>res. ?x = Inr res \<and> er_success res")
          case no: False
          then have "st' = st1"
            using run2 False ens ok pub by (cases ?x) (auto split: if_splits)
          then show ?thesis using w1 by simp
        next
          case yes: True
          then obtain res where x: "?x = Inr res" "er_success res" by blast
          show ?thesis
          proof (cases q)
            case (Inl e)
            then have "st' = st2" using run2 False ens ok pub x sv by auto
            then show ?thesis using c2 Inl w1 by simp
          next
            case (Inr u)
            obtain r3 st3 where rem: "removePasswordAfterKeyVerification cod (io 2) rm (srv\<lparr>s_key_path := k\<rparr>) k st2 = (r3, st3)"
              by force
            have fin: "if rp then r = r3 \<and> st' = st3 else st' = st2"
              using run2 False ens ok pub x sv Inr rem by (auto split: if_splits)
            have w2: "sv_wf cod st2"
              "sv_entries cod st2 = upsert s_name (with_defaults (srv\<lparr>s_key_path := k\<rparr>)) (sv_entries cod st)"
              using c2 Inr w1(2) by simp_all
            have "sv_wf cod st'" using fin w2 remove_password_cases[OF w2(1) rem] by (cases rp) auto
            then show ?thesis using fk sp w2 x fin rem by (cases rp) auto
          qed
        qed
      qed
    qed
  qed
qed


definition setup_example :: "go_error option \<times> server_state \<times> files" where
  "setup_example = runSetupKey key_codec (\<lambda>_. io_fine 1) (\<lambda>_. False) no_faults
     \<lparr>kg_found = False, kg_make = (\<lambda>p fs. (None, fs)), kg_pub = (\<lambda>p. Inr [])\<rparr>
     \<lparr>rm_exec = (\<lambda>s t. Inr \<lparr>er_success = True, er_exit = 0, er_duration = 0, er_error = None\<rparr>),
      rm_test = (\<lambda>s. Some (errors_new ''no supported methods remain''))\<rparr>
     (Some ''/root'') ''web-1'' True (server_file (Some ''a'')) key_disk"



section \<open>Renaming across both files\<close>

lemma rename_back:
  assumes "new \<notin> s_name ` set xs" "new \<notin> s_jump_host ` set xs"
  shows "map (rename_server new old) (map (rename_server old new) xs) = xs"
  using assms by (induction xs) (auto simp: rename_server_def Let_def)

text \<open>Without the second condition a jump host that named no server is captured by the roll back.\<close>

lemma rollback_captures_dangling:
  "s_name s \<noteq> old \<Longrightarrow> s_name s \<noteq> new \<Longrightarrow> s_jump_host s = new \<Longrightarrow>
   rename_server new old (rename_server old new s) = s\<lparr>s_jump_host := old\<rparr>"
  by (simp add: rename_server_def Let_def)

lemma rename_command_steps:
  assumes run: "runServerRename cod uc jcod io old arg st bs = (r, st', bs')"
    and wf: "sv_wf cod st" and bwf: "backup_wf uc jcod bs"
  shows "sv_wf cod st' \<and> backup_wf uc jcod bs'
    \<and> (case r of
         None \<Rightarrow>
           sv_entries cod st' = map (rename_server old (NormalizeServerName arg)) (sv_entries cod st)
         \<and> backup_entries uc jcod bs' =
             map (\<lambda>j. if j_server j = old then j\<lparr>j_server := NormalizeServerName arg\<rparr> else j) (backup_entries uc jcod bs)
       | Some e \<Rightarrow>
           backup_entries uc jcod bs' = backup_entries uc jcod bs
         \<and> (sv_entries cod st' = sv_entries cod st
            \<or> (NormalizeServerName arg \<notin> s_name ` set (sv_entries cod st)
               \<and> (sv_entries cod st' = map (rename_server (NormalizeServerName arg) old)
                     (map (rename_server old (NormalizeServerName arg)) (sv_entries cod st))
                  \<or> (sv_entries cod st' = map (rename_server old (NormalizeServerName arg)) (sv_entries cod st)
                     \<and> (\<exists>a b. err_text e = a @ ''; rollback of servers.yaml also failed: '' @ b))))))"
proof -
  let ?new = "NormalizeServerName arg"
  obtain q st1 where rn: "server_rename cod (io 0) old ?new st = (q, st1)" by force
  note c1 = server_rename_cases[OF wf rn]
  show ?thesis
  proof (cases q)
    case (Inl e)
    then show ?thesis using run rn c1 bwf by (auto simp: runServerRename_def)
  next
    case (Inr deps)
    have w1: "sv_wf cod st1" "sv_entries cod st1 = map (rename_server old ?new) (sv_entries cod st)"
      "?new \<notin> s_name ` set (sv_entries cod st)" using c1 Inr by simp_all
    obtain b bs1 where rr: "RenameServerReferences uc jcod (io 1) old ?new bs = (b, bs1)" by force
    note cb = rename_references_atomic[OF bwf rr]
    show ?thesis
    proof (cases b)
      case (Inr jobs)
      then have "r = None" "st' = st1" "bs' = bs1" using run rn \<open>q = Inr deps\<close> rr by (simp_all add: runServerRename_def)
      then show ?thesis using w1 cb Inr by simp
    next
      case (Inl e)
      obtain q2 st2 where rb: "server_rename cod (io 2) ?new old st1 = (q2, st2)" by force
      note c2 = server_rename_cases[OF w1(1) rb]
      have out: "bs' = bs1" "st' = st2"
        "r = Some (wrap ''update backup job references: '' e
           (case q2 of Inl e2 \<Rightarrow> ''; rollback of servers.yaml also failed: '' @ err_text e2
                     | Inr d2 \<Rightarrow> ''; server rename was rolled back''))"
        using run rn \<open>q = Inr deps\<close> rr Inl rb by (auto simp: runServerRename_def split: sum.splits)
      have bent: "backup_wf uc jcod bs' \<and> backup_entries uc jcod bs' = backup_entries uc jcod bs"
        using cb Inl out by simp
      show ?thesis
      proof (cases q2)
        case (Inr d2)
        then show ?thesis using out bent c2 w1 by simp
      next
        case (Inl e2)
        have "\<exists>a b. err_text (wrap ''update backup job references: '' e (''; rollback of servers.yaml also failed: '' @ err_text e2))
                = a @ ''; rollback of servers.yaml also failed: '' @ b"
          by (rule exI[of _ "''update backup job references: '' @ err_text e"], rule exI[of _ "err_text e2"])
             (simp add: wrap_def)
        then show ?thesis using out bent c2 w1 Inl by auto
      qed
    qed
  qed
qed


definition rename_example :: "go_error option \<times> server_state \<times> job list ystore" where
  "rename_example = runServerRename server_codec (\<lambda>_. False) rename_codec (\<lambda>_. io_fine 1) ''web-1'' ''web_2''
     (server_file (Some ''a'')) (file_store ''b.yaml'' ''a'')"


section \<open>Editing\<close>

text \<open>An edit stores a document that parses and still names the server, or leaves the inventory as it was.\<close>

lemma edit_accept_cases:
  assumes wf: "sv_wf cod st" and run: "edit_accept cod io name data st = (r, st')"
  shows "sv_wf cod st' \<and> (case r of
       Some e \<Rightarrow> sv_entries cod st' = sv_entries cod st
     | None \<Rightarrow> name \<in> s_name ` set (sv_entries cod st'))"
proof -
  let ?draft = "\<lparr>sv_path = io.io_tmp (io 1), sv_file = Some \<lparr>fdata = data, fmtime = 0\<rparr>, sv_cache = None, sv_mod = 0, sv_size = 0\<rparr>"
  show ?thesis
  proof (cases "is_ok (ParseConfig cod data) \<and> is_ok (fst (server_get cod (io 3) name ?draft))")
    case False
    then have "st' = st \<and> r \<noteq> None" using run by (auto simp: edit_accept_def split: sum.splits)
    then show ?thesis using wf by auto
  next
    case True
    then obtain cf s where pc: "ParseConfig cod data = Inr cf" and dg: "fst (server_get cod (io 3) name ?draft) = Inr s"
      by (auto dest!: is_okD)
    have ne: "data \<noteq> []" using dg by (auto simp: server_get_def sv_read_def split: option.splits)
    have found: "find_key s_name name cf = Some s"
      using dg ne pc by (auto simp: server_get_def sv_read_def ParseConfig_def split: option.splits)
    obtain u st2 where rp: "server_replace cod (io 4) data st = (u, st2)" by force
    note c = server_replace_cases[OF wf rp ne]
    show ?thesis
    proof (cases u)
      case (Inl e)
      then show ?thesis using run pc dg rp c by (auto simp: edit_accept_def)
    next
      case (Inr x)
      then have "r = None" "st' = st2" using run pc dg rp by (simp_all add: edit_accept_def)
      moreover have "sv_entries cod st2 = cf" using c Inr pc by (simp add: ParseConfig_def)
      moreover have "s \<in> set cf \<and> s_name s = name" using found by (rule find_key_Some)
      ultimately show ?thesis using c Inr by auto
    qed
  qed
qed

lemma edit_keeps_server:
  assumes wf: "sv_wf cod st" and run: "editServerConfig cod io editor spawn name st = (r, st')"
  shows "sv_wf cod st' \<and> (case r of
       Some e \<Rightarrow> sv_entries cod st' = sv_entries cod st
     | None \<Rightarrow> name \<in> s_name ` set (sv_entries cod st'))"
proof -
  obtain g st1 where get: "server_get cod (io 0) name st = (g, st1)" by force
  note c1 = server_get_cases[OF wf get]
  have w1: "sv_wf cod st1" "sv_entries cod st1 = sv_entries cod st" using c1 by auto
  have "(r \<noteq> None \<and> st' = st1) \<or> (\<exists>data. edit_accept cod io name data st1 = (r, st'))"
    using run get by (auto simp: editServerConfig_def split: sum.splits option.splits prod.splits)
  then show ?thesis
  proof (elim disjE exE)
    fix data assume h: "edit_accept cod io name data st1 = (r, st')"
    from edit_accept_cases[OF w1(1) h] w1 show ?thesis by (cases r) auto
  qed (use w1 in auto)
qed

section \<open>The script and the table\<close>

lemma b64_digit_not_quote: "n < 64 \<Longrightarrow> b64_digit n \<noteq> squote"
proof -
  assume "n < 64"
  then have "b64_digit n \<in> set b64_alphabet" by (simp add: b64_digit_def b64_alphabet_distinct(2))
  moreover have "squote \<notin> set b64_alphabet" unfolding b64_alphabet_def by simp
  ultimately show "b64_digit n \<noteq> squote" by metis
qed

lemma pad_not_quote: "CHR ''='' \<noteq> squote"
  by simp

lemma code_of_lt: "code_of c < 256"
  by (simp add: code_of_def)

lemma b64_parts_lt:
  "code_of a div 4 < 64" "code_of a mod 4 * 16 < 64" "code_of a mod 4 * 16 + code_of b div 16 < 64"
  "code_of b mod 16 * 4 < 64" "code_of b mod 16 * 4 + code_of c div 64 < 64" "code_of c mod 64 < 64"
  using code_of_lt[of a] code_of_lt[of b] code_of_lt[of c] by linarith+

lemma base64_not_quote: "squote \<notin> set (base64 s)"
proof (induction s rule: base64.induct)
  case 1
  then show ?case by simp
next
  case (2 a)
  then show ?case
    using b64_parts_lt(1)[THEN b64_digit_not_quote, of a] b64_parts_lt(2)[THEN b64_digit_not_quote, of a] pad_not_quote
    unfolding base64.simps list.set insert_iff empty_iff by metis
next
  case (3 a b)
  then show ?case
    using b64_parts_lt(1)[THEN b64_digit_not_quote, of a] b64_parts_lt(3)[THEN b64_digit_not_quote, of a b]
      b64_parts_lt(4)[THEN b64_digit_not_quote, of b] pad_not_quote
    unfolding base64.simps list.set insert_iff empty_iff by metis
next
  case (4 a b c cs)
  then show ?case
    using b64_parts_lt(1)[THEN b64_digit_not_quote, of a] b64_parts_lt(3)[THEN b64_digit_not_quote, of a b]
      b64_parts_lt(5)[THEN b64_digit_not_quote, of b c] b64_parts_lt(6)[THEN b64_digit_not_quote, of c]
    unfolding base64.simps list.set insert_iff empty_iff by metis
qed

text \<open>The encoded key is one shell word between its quotes and decodes to the key, whatever the key file holds.\<close>

lemma script_key_quoted:
  "squote # base64 k @ [squote] = quote (base64 k) \<and> b64_decode (base64 k) = k"
  using base64_not_quote[of k] by (simp add: quote_unfold replace_char_id base64_decodes)

lemma table_hides_password:
  assumes "p \<noteq> []" "q \<noteq> []" "\<not> Is1PRef p" "\<not> Is1PRef q"
  shows "server_row home (s\<lparr>s_password := p\<rparr>) = server_row home (s\<lparr>s_password := q\<rparr>)"
  using assms by (simp add: server_row_def auth_method_def display_target_def formatTagsAndLabels_def FormatLabels_def Let_def)

end
