(* ===== verification/OnePassword.thy ===== *)
theory OnePassword
  imports ServerCmd
begin

text \<open>
  \<open>ops 1p backup\<close>: the backup document of \<open>internal/server/backup.go\<close>, the choice of the vault and the account
  (\<open>onepassword.go\<close>, \<open>onepassword_cli.go\<close>, \<open>onepassword_config.go\<close>) and the write with its read-back check and roll back
  (\<open>onepassword_backup.go\<close>, the backup half of \<open>onepassword_inventory.go\<close>). A call of \<open>op\<close> is an argument list with
  what it is fed; what it answers depends on all calls before it, so the vault behind it is arbitrary and may change. A
  Go map is a list of entries with one entry for each key. Printed text is kept where it tells the operator what became
  of the item.
\<close>

section \<open>The backup document\<close>

record backup_file =
  bf_version :: int
  bf_machine :: string
  bf_servers :: "server list"
  bf_keys :: "(string \<times> string) list"

definition BackupVersion :: int where
  "BackupVersion = 1"

definition MarshalBackup :: "backup_file codec \<Rightarrow> backup_file \<Rightarrow> string res" where
  "MarshalBackup cod f =
     (case validateServers (bf_servers f) of
        Inl e \<Rightarrow> Inl (wrap ''refusing to write a backup that could not be read back: '' e [])
      | Inr servers \<Rightarrow>
          (case enc cod (f\<lparr>bf_version := (if bf_version f = 0 then BackupVersion else bf_version f), bf_servers := servers\<rparr>) of
             Inl e \<Rightarrow> Inl (wrap ''encode the backup: '' e [])
           | Inr out \<Rightarrow> Inr out))"

definition ParseBackup :: "backup_file codec \<Rightarrow> string \<Rightarrow> backup_file res" where
  "ParseBackup cod data =
     (case dec cod data of
        BadYaml e \<Rightarrow> Inl (wrap ''failed to parse the backup: '' e [])
      | MultiDoc \<Rightarrow> Inl (errors_new ''failed to parse the backup: multiple documents are not supported'')
      | BadTail e \<Rightarrow> Inl (wrap ''failed to parse the backup: '' e [])
      | Decoded f \<Rightarrow>
          (if bf_version f < 1 \<or> bf_version f > BackupVersion
           then Inl (errors_new (''the backup is version '' @ show_int (bf_version f) @ '', which this OpsPulse does not understand (it reads up to '' @ show_int BackupVersion @ ''); upgrade OpsPulse on this machine''))
           else (case validateServers (bf_servers f) of
                   Inl e \<Rightarrow> Inl (wrap ''the backup holds an invalid server list: '' e [])
                 | Inr servers \<Rightarrow> Inr (f\<lparr>bf_servers := servers\<rparr>))))"

section \<open>Calls of the command-line program\<close>

record op_call =
  oc_args :: "string list"
  oc_stdin :: string

type_synonym op_env = "op_call list \<Rightarrow> op_call \<Rightarrow> string res"

definition op_do :: "op_env \<Rightarrow> string list \<Rightarrow> string \<Rightarrow> op_call list \<Rightarrow> string res \<times> op_call list" where
  "op_do op args inp tr = (let c = \<lparr>oc_args = args, oc_stdin = inp\<rparr> in (op tr c, tr @ [c]))"

definition op_edits :: "op_call \<Rightarrow> bool" where
  "op_edits c \<longleftrightarrow> take 2 (oc_args c) = [''item'', ''edit''] \<or> take 2 (oc_args c) = [''item'', ''create'']"

section \<open>Explaining a failed call\<close>

definition onePasswordDesktopHint :: string where
  "onePasswordDesktopHint = (''1Password CLI is installed but not authorised. To let it reuse the Desktop App'' @ [CHR 0x0A] @ ''session (and therefore get the native Windows Hello / Touch ID prompt):'' @ [CHR 0x0A] @ [CHR 0x0A] @ ''  1. Open the 1Password Desktop App'' @ [CHR 0x0A] @ ''  2. Go to Settings -> Developer'' @ [CHR 0x0A] @ ''  3. Enable \"Integrate with 1Password CLI\"'' @ [CHR 0x0A] @ [CHR 0x0A] @ ''Alternatively sign in from the terminal with: op account add'')"

definition onePasswordLinuxInWSLHint :: string where
  "onePasswordLinuxInWSLHint = (''The 1Password CLI OpsPulse found is a Linux build running inside WSL, and it is'' @ [CHR 0x0A] @ ''not signed in.'' @ [CHR 0x0A] @ [CHR 0x0A] @ ''Note: the Desktop App integration (\"Integrate with 1Password CLI\") only works'' @ [CHR 0x0A] @ ''with the Windows build of the CLI. A Linux op under WSL cannot reach the Windows'' @ [CHR 0x0A] @ ''Desktop App, so that toggle has no effect here.'' @ [CHR 0x0A] @ [CHR 0x0A] @ ''Install the Windows build once, from Windows PowerShell:'' @ [CHR 0x0A] @ [CHR 0x0A] @ ''  winget install AgileBits.1Password.CLI'' @ [CHR 0x0A] @ [CHR 0x0A] @ ''OpsPulse picks up op.exe automatically once it is installed. To stay on the Linux'' @ [CHR 0x0A] @ ''build instead, sign in manually with: op account add'')"

definition onePasswordStalledHint :: string where
  "onePasswordStalledHint = (''The 1Password CLI did not complete this call, and what it reported does not'' @ [CHR 0x0A] @ ''point at a sign-in problem -- so re-checking your sign-in settings would not help.'' @ [CHR 0x0A] @ [CHR 0x0A] @ ''The usual cause is an approval prompt waiting in the 1Password Desktop App, or a'' @ [CHR 0x0A] @ ''locked app: 'op' blocks until someone answers it, and the call then dies on a'' @ [CHR 0x0A] @ ''timeout.'' @ [CHR 0x0A] @ [CHR 0x0A] @ ''  1. Open the 1Password Desktop App and answer any pending prompt'' @ [CHR 0x0A] @ ''  2. Make sure it is unlocked, then run the command again'' @ [CHR 0x0A] @ [CHR 0x0A] @ ''Inside WSL the Windows build reaches the Desktop App through the Windows/WSL'' @ [CHR 0x0A] @ ''relay, which gives up with \"UtilAcceptVsock: accept4 failed 110\" when the wait'' @ [CHR 0x0A] @ ''runs long. That message is this same timeout, not a separate fault.'')"

definition onePasswordAuthHint :: "bool \<Rightarrow> cli \<Rightarrow> string" where
  "onePasswordAuthHint wsl c = (if wsl \<and> \<not> cli_windows c then onePasswordLinuxInWSLHint else onePasswordDesktopHint)"

definition onePasswordFailureHint :: "bool \<Rightarrow> cli \<Rightarrow> go_error \<Rightarrow> string" where
  "onePasswordFailureHint wsl c e =
     (if AuthFailure (Some e) then onePasswordAuthHint wsl c else onePasswordStalledHint)"

text \<open>The shape of every error of a failed call: the hint, an empty line, what was attempted.\<close>

definition op_error :: "bool \<Rightarrow> cli \<Rightarrow> go_error \<Rightarrow> string \<Rightarrow> go_error" where
  "op_error wsl c e what = wrap (onePasswordFailureHint wsl c e @ CHR 0x0A # CHR 0x0A # what) e []"

section \<open>The document of this machine\<close>

definition backupTitle :: "(nat \<Rightarrow> bool) \<Rightarrow> string option \<Rightarrow> string" where
  "backupTitle letter hostname = InventoryItemTitleFor (machineName letter hostname)"

definition aput :: "'k \<Rightarrow> 'v \<Rightarrow> ('k \<times> 'v) list \<Rightarrow> ('k \<times> 'v) list" where
  "aput k v m = upsert fst (k, v) m"

text \<open>One server of \<open>readLocalKeys\<close>: the keys, the unreadable ones and the lines printed so far.\<close>

type_synonym local_keys = "(string \<times> string) list \<times> string list \<times> string list"

definition read_local_key :: "string option \<Rightarrow> (string \<Rightarrow> string res) \<Rightarrow> local_keys \<Rightarrow> server \<Rightarrow> local_keys" where
  "read_local_key home read acc srv =
     (case acc of (keys, unreadable, out) \<Rightarrow>
        (if trim_space (s_key_path srv) = [] \<or> Is1PRef (s_key_path srv) then acc
         else (case read (ExpandPath home (s_key_path srv)) of
                 Inl e \<Rightarrow> (keys, unreadable @ [s_name srv],
                           out @ [ (utf8 [0x26A0, 0xFE0F] @ ''  '' @ go_quote (s_name srv) @ '': no private key in the backup: cannot read '' @ s_key_path srv @ '': '' @ err_text e) ])
               | Inr data \<Rightarrow> (aput (s_name srv) data keys, unreadable, out))))"

definition readLocalKeys :: "string option \<Rightarrow> (string \<Rightarrow> string res) \<Rightarrow> server list \<Rightarrow> local_keys" where
  "readLocalKeys home read servers = foldl (read_local_key home read) ([], [], []) servers"

definition buildBackup ::
    "string \<Rightarrow> string option \<Rightarrow> (string \<Rightarrow> string res) \<Rightarrow> server list \<Rightarrow> backup_file \<times> string list \<times> string list" where
  "buildBackup machine home read servers =
     (case readLocalKeys home read servers of
        (keys, unreadable, out) \<Rightarrow>
          (\<lparr>bf_version = 0, bf_machine = machine, bf_servers = servers, bf_keys = keys\<rparr>, unreadable, out))"

definition itemMissingMarkers :: "string list" where
  "itemMissingMarkers =
     [''could not find item'', ''item not found'', ''isn't an item in'', ''is not an item in'']"

definition itemMissing :: "go_error option \<Rightarrow> bool" where
  "itemMissing err = (case err of None \<Rightarrow> False | Some e \<Rightarrow> mentions_any itemMissingMarkers (to_lower (err_text e)))"

definition serversWithLegacy1PRefs :: "server list \<Rightarrow> string list" where
  "serversWithLegacy1PRefs servers = map s_name (filter (\<lambda>s. Is1PRef (s_key_path s) \<or> Is1PRef (s_password s)) servers)"

section \<open>Reading before writing\<close>

record previous_backup =
  pb_raw :: string
  pb_file :: backup_file

definition read_args :: "string \<Rightarrow> string \<Rightarrow> string list" where
  "read_args vault title = [''read'', BuildInventoryRef vault title, ''--no-newline'']"

definition edit_args :: "string \<Rightarrow> string \<Rightarrow> string list" where
  "edit_args vault title = [''item'', ''edit'', title, ''--vault'', vault]"

definition create_args :: "string \<Rightarrow> string list" where
  "create_args vault = [''item'', ''create'', ''--vault'', vault, ''-'']"

record op_host =
  oh_op :: op_env
  oh_wsl :: bool
  oh_cli :: cli
  oh_codec :: "backup_file codec"

definition oh_error :: "op_host \<Rightarrow> go_error \<Rightarrow> string \<Rightarrow> go_error" where
  "oh_error h e what = op_error (oh_wsl h) (oh_cli h) e what"

definition readPreviousBackup ::
    "op_host \<Rightarrow> string \<Rightarrow> string \<Rightarrow> op_call list \<Rightarrow> previous_backup option res \<times> op_call list" where
  "readPreviousBackup h vault title tr =
     (case op_do (oh_op h) (read_args vault title) [] tr of
        (Inl e, tr1) \<Rightarrow>
          (if itemMissing (Some e) then (Inr None, tr1)
           else (Inl (oh_error h e (''refusing to overwrite the backup '' @ go_quote title @ '' in vault '' @ go_quote vault @ '' blind, because the document it holds may carry private keys this machine no longer has: fix the read failure, or deal with that item by hand and run the backup again: '')), tr1))
      | (Inr out, tr1) \<Rightarrow>
          (if trim_space out = [] then (Inr None, tr1)
           else (case ParseBackup (oh_codec h) out of
                   Inl e \<Rightarrow> (Inl (wrap (''refusing to overwrite the backup '' @ go_quote title @ '' in vault '' @ go_quote vault @ '' blind: it is there but could not be read as a backup document, and a document nobody can read is a document whose keys cannot be checked: fix it by hand in 1Password, or remove it and back up again: '') e []), tr1)
                 | Inr f \<Rightarrow> (Inr (Some \<lparr>pb_raw = out, pb_file = f\<rparr>), tr1))))"

text \<open>The loop of \<open>inheritMissingKeys\<close>: the keys carried and the names inherited.\<close>

definition inherit_key ::
    "(string \<times> string) list \<Rightarrow> (string \<times> string) list \<times> string list \<Rightarrow> string \<Rightarrow> (string \<times> string) list \<times> string list" where
  "inherit_key previous acc name =
     (case acc of (keys, inherited) \<Rightarrow>
        (if map_of keys name \<noteq> None then acc
         else (case map_of previous name of
                 None \<Rightarrow> acc
               | Some key \<Rightarrow> (if key = [] then acc else (aput name key keys, inherited @ [name])))))"

definition inheritMissingKeys ::
    "backup_file \<Rightarrow> backup_file option \<Rightarrow> string list \<Rightarrow> backup_file \<times> string list \<times> string list" where
  "inheritMissingKeys payload previous unreadable =
     (case previous of
        None \<Rightarrow> (payload, [], [])
      | Some p \<Rightarrow>
          (if bf_keys p = [] then (payload, [], [])
           else (case foldl (inherit_key (bf_keys p)) (bf_keys payload, []) unreadable of
                   (keys, inherited) \<Rightarrow>
                     (payload\<lparr>bf_keys := keys\<rparr>, inherited,
                      filter (\<lambda>n. map_of keys n = None) (sort (map fst (bf_keys p)))))))"

section \<open>Writing, checking, rolling back\<close>

definition writeBackupItem ::
    "op_host \<Rightarrow> string \<Rightarrow> string \<Rightarrow> string \<Rightarrow> op_call list \<Rightarrow> go_error option \<times> op_call list" where
  "writeBackupItem h vault title payload tr =
     (case BuildInventoryItem title payload of
        Inl e \<Rightarrow> (Some e, tr)
      | Inr doc \<Rightarrow>
          (case op_do (oh_op h) (edit_args vault title) doc tr of
             (Inr u, tr1) \<Rightarrow> (None, tr1)
           | (Inl e, tr1) \<Rightarrow>
               (if \<not> itemMissing (Some e)
                then (Some (oh_error h e (''update 1Password item '' @ go_quote title @ '': '')), tr1)
                else (case op_do (oh_op h) (create_args vault) doc tr1 of
                        (Inr u, tr2) \<Rightarrow> (None, tr2)
                      | (Inl e2, tr2) \<Rightarrow> (Some (oh_error h e2 (''create 1Password item '' @ go_quote title @ '': '')), tr2)))))"

definition verifyBackupItem ::
    "op_host \<Rightarrow> string \<Rightarrow> string \<Rightarrow> string \<Rightarrow> op_call list \<Rightarrow> go_error option \<times> op_call list" where
  "verifyBackupItem h vault title payload tr =
     (case op_do (oh_op h) (read_args vault title) [] tr of
        (Inl e, tr1) \<Rightarrow> (Some (oh_error h e ''read the backup back to verify it: ''), tr1)
      | (Inr out, tr1) \<Rightarrow>
          (if out \<noteq> payload
           then (Some (errors_new (''1Password did not store the backup verbatim ('' @ show_nat (length payload) @ '' bytes written, '' @ show_nat (length out) @ '' read back); not trusting the backup'')), tr1)
           else (None, tr1)))"

definition untrusted_line :: string where
  "untrusted_line = ''   Treat that item as untrusted: rewrite or delete it by hand in 1Password, then run the backup again.''"

definition rollbackBackupItem ::
    "op_host \<Rightarrow> string \<Rightarrow> string \<Rightarrow> previous_backup option \<Rightarrow> op_call list \<Rightarrow> string list \<times> op_call list" where
  "rollbackBackupItem h vault title previous tr =
     (case previous of
        None \<Rightarrow> ([ (utf8 [0x26A0, 0xFE0F] @ ''  There is no previous document of '' @ go_quote title @ '' to roll back to.''), untrusted_line], tr)
      | Some p \<Rightarrow>
          (case BuildInventoryItem title (pb_raw p) of
             Inl e \<Rightarrow> ([ (utf8 [0x26A0, 0xFE0F] @ ''  Could not rebuild the previous document of '' @ go_quote title @ '', so the failed write was NOT rolled back: '' @ err_text e), untrusted_line], tr)
           | Inr doc \<Rightarrow>
               (case op_do (oh_op h) (edit_args vault title) doc tr of
                  (Inl e, tr1) \<Rightarrow> ([ (utf8 [0x26A0, 0xFE0F] @ ''  Rolling '' @ go_quote title @ '' back failed too, so it now holds neither the previous document nor a verified new one: '' @ err_text e), untrusted_line], tr1)
                | (Inr u, tr1) \<Rightarrow> ([ (utf8 [0x21A9, 0xFE0F] @ ''  Wrote the previous document of '' @ go_quote title @ '' back, undoing the failed write.'') ], tr1))))"

section \<open>One backup\<close>

definition progress_lines ::
    "server list \<Rightarrow> backup_file \<Rightarrow> string \<Rightarrow> string \<Rightarrow> string list \<Rightarrow> string list \<Rightarrow> string list" where
  "progress_lines servers bfile title vault inherited dropped =
     [ (utf8 [0x2B06, 0xFE0F] @ ''  Backing up '' @ show_nat (length servers) @ '' server(s) and '' @ show_nat (length (bf_keys bfile)) @ '' private key(s) into '' @ go_quote title @ '' in vault '' @ go_quote vault @ ''...'') ]
     @ map (\<lambda>n. (''  '' @ utf8 [0x21BA] @ '' '' @ n @ '': this machine cannot read the private key file, so the copy from the previous backup is kept'')) inherited
     @ (if dropped = [] then []
        else [ (utf8 [0x26A0, 0xFE0F] @ ''  '' @ show_nat (length dropped) @ '' private key(s) in the previous backup belong to servers that are no longer in servers.yaml and leave this backup: '' @ join_with '', '' dropped),
               ''   1Password keeps the replaced document in the item's history, so they can still be recovered from there.'' ])"

definition done_lines :: "server list \<Rightarrow> string \<Rightarrow> string \<Rightarrow> string \<Rightarrow> string list" where
  "done_lines servers title vault payload =
     [ (utf8 [0x1F389] @ '' Backed up '' @ show_nat (length servers) @ '' server(s) to '' @ go_quote title @ '' in vault '' @ go_quote vault @ '' ('' @ show_nat (length payload) @ '' bytes, verified byte for byte).''),
       ''   servers.yaml was left unchanged: local disk stays the source of truth.'',
       ''   Restore on another machine with: ops 1p restore'']"

definition backupMachineToOnePassword ::
    "op_host \<Rightarrow> string \<Rightarrow> string option \<Rightarrow> (string \<Rightarrow> string res) \<Rightarrow> string \<Rightarrow> string \<Rightarrow> server list \<Rightarrow> op_call list
     \<Rightarrow> go_error option \<times> string list \<times> op_call list" where
  "backupMachineToOnePassword h machine home read vault title servers tr =
     (case readPreviousBackup h vault title tr of
        (Inl e, tr1) \<Rightarrow> (Some e, [], tr1)
      | (Inr previous, tr1) \<Rightarrow>
     (case buildBackup machine home read servers of
        (bfile0, unreadable, out0) \<Rightarrow>
     (case inheritMissingKeys bfile0 (map_option pb_file previous) unreadable of
        (bfile, inherited, dropped) \<Rightarrow>
     (case MarshalBackup (oh_codec h) bfile of
        Inl e \<Rightarrow> (Some e, out0, tr1)
      | Inr payload \<Rightarrow>
          (let out1 = out0 @ progress_lines servers bfile title vault inherited dropped
           in case writeBackupItem h vault title payload tr1 of
                (Some e, tr2) \<Rightarrow> (Some e, out1, tr2)
              | (None, tr2) \<Rightarrow>
                  (case verifyBackupItem h vault title payload tr2 of
                     (Some e, tr3) \<Rightarrow>
                       (case rollbackBackupItem h vault title previous tr3 of
                          (lines, tr4) \<Rightarrow> (Some e, out1 @ lines, tr4))
                   | (None, tr3) \<Rightarrow> (None, out1 @ done_lines servers title vault payload, tr3)))))))"

section \<open>Vault and account\<close>

fun dedupe_from :: "string list \<Rightarrow> string list \<Rightarrow> string list" where
  "dedupe_from seen [] = []"
| "dedupe_from seen (v # vs) =
     (let t = trim_space v
      in if t = [] \<or> t \<in> set seen then dedupe_from seen vs else t # dedupe_from (t # seen) vs)"

definition dedupeNonEmpty :: "string list \<Rightarrow> string list" where
  "dedupeNonEmpty vs = dedupe_from [] vs"

definition rememberedVaultCandidates :: "string \<Rightarrow> settings res \<Rightarrow> string list" where
  "rememberedVaultCandidates op_vault loaded =
     dedupeNonEmpty (trim_space op_vault # (case loaded of Inl e \<Rightarrow> [] | Inr s \<Rightarrow> [se_vault s]))"

definition vault_warning :: "string list \<Rightarrow> string \<Rightarrow> string" where
  "vault_warning names candidate =
     (''1Password vault '' @ go_quote candidate @ '' was not found; ignoring it. Available vaults: '' @ join_with '', '' names)"

fun pick_fallback :: "string list \<Rightarrow> string list \<Rightarrow> string option \<times> string list" where
  "pick_fallback names [] = (None, [])"
| "pick_fallback names (c # cs) =
     (if c \<in> set names then (Some c, [])
      else (case pick_fallback names cs of (v, ws) \<Rightarrow> (v, vault_warning names c # ws)))"

definition chooseVault :: "string list \<Rightarrow> string \<Rightarrow> string list \<Rightarrow> string res \<times> string list" where
  "chooseVault names explicit fallbacks =
     (if names = [] then (Inl (errors_new ''no 1Password vault is accessible with the current account''), [])
      else if explicit \<noteq> []
      then (if explicit \<notin> set names
            then (Inl (errors_new (''vault '' @ go_quote explicit @ '' was not found; available vaults: '' @ join_with '', '' names)), [])
            else (Inr explicit, []))
      else (case pick_fallback names fallbacks of
              (Some v, ws) \<Rightarrow> (Inr v, ws)
            | (None, ws) \<Rightarrow>
                (if length names = 1 then (Inr (hd names), ws)
                 else (Inl (errors_new (''several 1Password vaults are available ('' @ join_with '', '' names @ ''); pick one with --vault, or remember it once with 'ops 1p config --vault <name>'' @ [squote])), ws))))"

text \<open>The settings of the machine: the file, its codec and the faults of loading and storing it.\<close>

record settings_env =
  st_parse :: "string \<Rightarrow> settings res"
  st_render :: "settings \<Rightarrow> string res"
  st_load_io :: io
  st_save_io :: io
  st_rm :: "go_error option"
  st_path :: string

definition LoadSettings :: "settings_env \<Rightarrow> string option \<Rightarrow> settings res" where
  "LoadSettings se f = LoadSettingsFrom (st_parse se) (st_load_io se) (st_path se) f"

definition SaveSettings :: "settings_env \<Rightarrow> settings \<Rightarrow> string option \<Rightarrow> go_error option \<times> string option" where
  "SaveSettings se s f = SaveSettingsTo (st_render se) (st_save_io se) (st_rm se) (st_path se) s f"

datatype setting_field = VaultSetting | AccountSetting

definition rememberOnePasswordSetting :: "settings_env \<Rightarrow> setting_field \<Rightarrow> string \<Rightarrow> string option \<Rightarrow> string option" where
  "rememberOnePasswordSetting se fld v f =
     (case LoadSettings se f of
        Inl e \<Rightarrow> f
      | Inr s \<Rightarrow>
          (if (case fld of VaultSetting \<Rightarrow> se_vault s = v | AccountSetting \<Rightarrow> se_account s = v) then f
           else snd (SaveSettings se (case fld of VaultSetting \<Rightarrow> s\<lparr>se_vault := v\<rparr> | AccountSetting \<Rightarrow> s\<lparr>se_account := v\<rparr>) f)))"

text \<open>\<open>names_of\<close> decodes the JSON of \<open>op vault list\<close> to the names it holds.\<close>

definition listVaults :: "op_host \<Rightarrow> (string \<Rightarrow> string list res) \<Rightarrow> op_call list \<Rightarrow> string list res \<times> op_call list" where
  "listVaults h names_of tr =
     (case op_do (oh_op h) [''vault'', ''list'', ''--format'', ''json''] [] tr of
        (Inl e, tr1) \<Rightarrow> (Inl (oh_error h e []), tr1)
      | (Inr out, tr1) \<Rightarrow>
          (case names_of out of
             Inl e \<Rightarrow> (Inl (wrap ''parse 1Password vault list: '' e []), tr1)
           | Inr raw \<Rightarrow> (Inr (filter (\<lambda>n. n \<noteq> []) (map trim_space raw)), tr1)))"

definition resolveAndValidateVault ::
    "op_host \<Rightarrow> (string \<Rightarrow> string list res) \<Rightarrow> settings_env \<Rightarrow> string \<Rightarrow> string \<Rightarrow> bool \<Rightarrow> op_call list \<Rightarrow> string option
     \<Rightarrow> string res \<times> op_call list \<times> string option" where
  "resolveAndValidateVault h names_of se op_vault explicitVault remember tr f =
     (case listVaults h names_of tr of
        (Inl e, tr1) \<Rightarrow> (Inl e, tr1, f)
      | (Inr names, tr1) \<Rightarrow>
          (let explicit = trim_space explicitVault
           in case chooseVault names explicit (rememberedVaultCandidates op_vault (LoadSettings se f)) of
                (Inl e, ws) \<Rightarrow> (Inl e, tr1, f)
              | (Inr vault, ws) \<Rightarrow>
                  (Inr vault, tr1,
                   if explicit \<noteq> [] \<and> remember then rememberOnePasswordSetting se VaultSetting vault f else f)))"

definition resolveBackupVault ::
    "op_host \<Rightarrow> (string \<Rightarrow> string list res) \<Rightarrow> settings_env \<Rightarrow> string \<Rightarrow> string \<Rightarrow> op_call list \<Rightarrow> string option
     \<Rightarrow> string res \<times> op_call list \<times> string option" where
  "resolveBackupVault h names_of se op_vault explicitVault tr f =
     (let vault = trim_space explicitVault; cands = rememberedVaultCandidates op_vault (LoadSettings se f)
      in if vault \<noteq> [] then (Inr vault, tr, rememberOnePasswordSetting se VaultSetting vault f)
         else if cands \<noteq> [] then (Inr (hd cands), tr, f)
         else (case resolveAndValidateVault h names_of se op_vault [] True tr f of
                 (Inl e, tr1, f1) \<Rightarrow> (Inl e, tr1, f1)
               | (Inr v, tr1, f1) \<Rightarrow> (Inr v, tr1, rememberOnePasswordSetting se VaultSetting v f1)))"

definition applyOnePasswordAccount ::
    "settings_env \<Rightarrow> string \<Rightarrow> string \<Rightarrow> cli \<Rightarrow> string option \<Rightarrow> cli \<times> string option" where
  "applyOnePasswordAccount se op_account accountFlag c f =
     (let explicit = trim_space accountFlag
      in if explicit \<noteq> [] then (WithAccount explicit c, rememberOnePasswordSetting se AccountSetting explicit f)
         else (case LoadSettings se f of
                 Inl e \<Rightarrow> (c, f)
               | Inr s \<Rightarrow> (WithAccountFallback op_account (se_account s) c, f)))"

text \<open>
  \<open>ensure1PCLI\<close>: \<open>found\<close> and \<open>found2\<close> are what \<open>Detect\<close> finds before and after an installation, \<open>answer\<close> is what the
  operator types, \<open>install\<close> the failure of the installer.
\<close>

definition ensure1PCLI ::
    "settings_env \<Rightarrow> string \<Rightarrow> string \<Rightarrow> cli \<Rightarrow> cli \<Rightarrow> bool \<Rightarrow> string option \<Rightarrow> go_error option \<Rightarrow> string option
     \<Rightarrow> cli res \<times> string option" where
  "ensure1PCLI se op_account accountFlag found found2 interactive answer install f =
     (if Available found then (case applyOnePasswordAccount se op_account accountFlag found f of (c, f1) \<Rightarrow> (Inr c, f1))
      else if \<not> interactive
      then (Inl (errors_new ''1Password CLI is required (install it, then re-run this command in an interactive terminal)''), f)
      else (case answer of
              None \<Rightarrow> (Inl (errors_new ''1Password CLI is required''), f)
            | Some a \<Rightarrow>
                (let t = trim_space a
                 in if t \<noteq> [] \<and> \<not> equal_fold t ''y'' \<and> \<not> equal_fold t ''yes''
                    then (Inl (errors_new ''1Password CLI is required''), f)
                    else (case install of
                            Some e \<Rightarrow> (Inl (wrap ''failed to install the 1Password CLI: '' e
                                              (CHR 0x0A # ''Install it manually and re-run: op --version'')), f)
                          | None \<Rightarrow>
                              (if \<not> Available found2
                               then (Inl (errors_new ([squote] @ ''op' was installed but is not visible on PATH yet; restart your terminal (or reload your shell profile) and re-run'')), f)
                               else (case applyOnePasswordAccount se op_account accountFlag found2 f of (c, f1) \<Rightarrow> (Inr c, f1)))))))"

section \<open>The command\<close>

text \<open>\<open>host_of c\<close> is the host with the program that was found; \<open>ensured\<close> is the outcome of \<open>ensure1PCLI\<close>.\<close>

definition runBackupToOnePassword ::
    "server list codec \<Rightarrow> io \<Rightarrow> (cli \<Rightarrow> op_host) \<Rightarrow> cli res \<times> string option \<Rightarrow> (string \<Rightarrow> string list res) \<Rightarrow> settings_env
     \<Rightarrow> string \<Rightarrow> string \<Rightarrow> (nat \<Rightarrow> bool) \<Rightarrow> string option \<Rightarrow> string option \<Rightarrow> (string \<Rightarrow> string res) \<Rightarrow> string option \<Rightarrow> server_state
     \<Rightarrow> go_error option \<times> op_call list \<times> string option \<times> server_state" where
  "runBackupToOnePassword cod io host_of ensured names_of se op_vault vaultFlag letter hostname home read f st =
     (case server_list cod io st of
        (Inl e, st1) \<Rightarrow> (Some e, [], f, st1)
      | (Inr servers, st1) \<Rightarrow>
          (if servers = [] then (Some (errors_new ''nothing to back up: servers.yaml holds no servers''), [], f, st1)
           else if serversWithLegacy1PRefs servers \<noteq> []
           then (Some (errors_new (''servers.yaml still holds 'op://' references for '' @ show_nat (length (serversWithLegacy1PRefs servers)) @ '' server(s): '' @ join_with '', '' (serversWithLegacy1PRefs servers) @ [CHR 0x0A] @ [CHR 0x0A] @ ''run 'ops 1p restore' to migrate them to local credentials, then back up again'')), [], f, st1)
           else (case ensured of
                   (Inl e, f1) \<Rightarrow> (Some e, [], f1, st1)
                 | (Inr c, f1) \<Rightarrow>
                     (case resolveBackupVault (host_of c) names_of se op_vault vaultFlag [] f1 of
                        (Inl e, tr1, f2) \<Rightarrow> (Some e, tr1, f2, st1)
                      | (Inr vault, tr1, f2) \<Rightarrow>
                          (case backupMachineToOnePassword (host_of c) (machineName letter hostname) home read vault
                                  (backupTitle letter hostname) servers tr1 of
                             (e, out, tr2) \<Rightarrow> (e, tr2, f2, st1))))))"

section \<open>Remembered defaults\<close>

record config_flags =
  cf_vault :: string
  cf_account :: string
  cf_unset :: bool

text \<open>The part of \<open>runOnePasswordConfig\<close> that changes the settings; the rest prints.\<close>

definition runOnePasswordConfig :: "settings_env \<Rightarrow> config_flags \<Rightarrow> string option \<Rightarrow> settings res \<times> string option" where
  "runOnePasswordConfig se fl f =
     (case LoadSettings se f of
        Inl e \<Rightarrow> (Inl e, f)
      | Inr s0 \<Rightarrow>
          (let v = trim_space (cf_vault fl); a = trim_space (cf_account fl);
               s1 = (if cf_unset fl then no_settings else s0);
               s2 = (if v \<noteq> [] then s1\<lparr>se_vault := v\<rparr> else s1);
               s3 = (if a \<noteq> [] then s2\<lparr>se_account := a\<rparr> else s2)
           in if \<not> (cf_unset fl \<or> v \<noteq> [] \<or> a \<noteq> []) then (Inr s0, f)
              else (case SaveSettings se s3 f of
                      (Some e, f1) \<Rightarrow> (Inl e, f1)
                    | (None, f1) \<Rightarrow> (Inr s3, f1))))"

definition settingsSummary :: "settings \<Rightarrow> string" where
  "settingsSummary s =
     join_with '', ''
       ((if se_vault s \<noteq> [] then [''vault '' @ se_vault s] else []) @
        (if se_account s \<noteq> [] then [''account '' @ se_account s] else []))"

section \<open>The document reads back\<close>

definition defaulted :: "backup_file \<Rightarrow> backup_file" where
  "defaulted f = f\<lparr>bf_version := BackupVersion, bf_servers := map with_defaults (bf_servers f)\<rparr>"

lemma MarshalBackup_cases:
  assumes "MarshalBackup cod f = Inr d"
  shows "enc cod (f\<lparr>bf_version := (if bf_version f = 0 then BackupVersion else bf_version f),
                   bf_servers := map with_defaults (bf_servers f)\<rparr>) = Inr d"
    and "good_list (map with_defaults (bf_servers f))"
proof -
  obtain ss where ss: "validateServers (bf_servers f) = Inr ss"
    using assms by (auto simp: MarshalBackup_def split: sum.splits)
  have eq: "ss = map with_defaults (bf_servers f)"
    using ss by (auto simp: validateServers_Inr validate_each_Inr)
  show "good_list (map with_defaults (bf_servers f))" using validateServers_good[OF ss] eq by simp
  show "enc cod (f\<lparr>bf_version := (if bf_version f = 0 then BackupVersion else bf_version f),
                   bf_servers := map with_defaults (bf_servers f)\<rparr>) = Inr d"
    using assms ss eq by (auto simp: MarshalBackup_def split: sum.splits)
qed

lemma backup_round_trip:
  assumes cod: "codec_ok cod" and ver: "bf_version f \<in> {0, BackupVersion}" and run: "MarshalBackup cod f = Inr d"
  shows "ParseBackup cod d = Inr (defaulted f)"
proof -
  have "dec cod d = Decoded (defaulted f)"
    using MarshalBackup_cases(1)[OF run] cod ver by (auto simp: codec_ok_def defaulted_def)
  then show ?thesis
    using good_list_validates[OF MarshalBackup_cases(2)[OF run]]
    by (simp add: ParseBackup_def defaulted_def BackupVersion_def)
qed

lemma backup_version_not_checked:
  assumes cod: "codec_ok cod" and ver: "bf_version f \<notin> {0, BackupVersion}" and run: "MarshalBackup cod f = Inr d"
  shows "\<exists>e. ParseBackup cod d = Inl e"
proof -
  have "dec cod d = Decoded (f\<lparr>bf_servers := map with_defaults (bf_servers f)\<rparr>)"
    using MarshalBackup_cases(1)[OF run] cod ver by (auto simp: codec_ok_def)
  then show ?thesis using ver by (auto simp: ParseBackup_def BackupVersion_def)
qed

lemma ParseBackup_good:
  assumes "ParseBackup cod d = Inr f"
  shows "bf_version f = BackupVersion" and "good_list (bf_servers f)"
  using assms validateServers_good
  by (auto simp: ParseBackup_def BackupVersion_def split: decoded.splits sum.splits if_splits)

section \<open>Which keys a document carries\<close>

lemma map_of_aput [simp]: "map_of (aput k v m) = (map_of m)(k \<mapsto> v)"
  unfolding aput_def by (induction m) auto

definition has_key_file :: "server \<Rightarrow> bool" where
  "has_key_file srv \<longleftrightarrow> trim_space (s_key_path srv) \<noteq> [] \<and> \<not> Is1PRef (s_key_path srv)"

abbreviation key_data :: "string option \<Rightarrow> (string \<Rightarrow> string res) \<Rightarrow> server \<Rightarrow> string res" where
  "key_data home read srv \<equiv> read (ExpandPath home (s_key_path srv))"

lemma readLocalKeys_spec:
  assumes "distinct (map s_name servers)" "readLocalKeys home read servers = (keys, unreadable, out)"
  shows "map_of keys n = Some d \<longleftrightarrow>
           (\<exists>s\<in>set servers. s_name s = n \<and> has_key_file s \<and> key_data home read s = Inr d)"
    and "set unreadable = {s_name s |s. s \<in> set servers \<and> has_key_file s \<and> \<not> is_ok (key_data home read s)}"
proof -
  have "(map_of keys n = Some d \<longleftrightarrow>
           (\<exists>s\<in>set servers. s_name s = n \<and> has_key_file s \<and> key_data home read s = Inr d)) \<and>
        set unreadable = {s_name s |s. s \<in> set servers \<and> has_key_file s \<and> \<not> is_ok (key_data home read s)}"
    using assms
  proof (induction servers arbitrary: keys unreadable out n d rule: rev_induct)
    case Nil
    then show ?case by (simp add: readLocalKeys_def)
  next
    case (snoc s ss)
    obtain k1 u1 o1 where r: "readLocalKeys home read ss = (k1, u1, o1)" by (metis prod_cases3)
    have fresh: "s_name s \<notin> s_name ` set ss" and d: "distinct (map s_name ss)" using snoc.prems(1) by auto
    have no: "\<And>t. t \<in> set ss \<Longrightarrow> s_name t \<noteq> s_name s" using fresh by (metis image_eqI)
    note ih = snoc.IH[OF d r]
    have step: "read_local_key home read (k1, u1, o1) s = (keys, unreadable, out)"
      using snoc.prems(2) r by (simp add: readLocalKeys_def)
    show ?case
    proof (cases "has_key_file s")
      case False
      then have "keys = k1" "unreadable = u1" using step by (auto simp: read_local_key_def has_key_file_def split: if_splits)
      then show ?thesis using ih False by auto
    next
      case True
      show ?thesis
      proof (cases "key_data home read s")
        case (Inl e)
        then have "keys = k1" "unreadable = u1 @ [s_name s]"
          using step True by (auto simp: read_local_key_def has_key_file_def)
        then show ?thesis using ih True Inl by auto
      next
        case (Inr x)
        then have k: "keys = aput (s_name s) x k1" "unreadable = u1"
          using step True by (auto simp: read_local_key_def has_key_file_def)
        have "map_of keys n = Some d \<longleftrightarrow>
                (\<exists>t\<in>set (ss @ [s]). s_name t = n \<and> has_key_file t \<and> key_data home read t = Inr d)"
          using ih[of n d] True Inr no by (cases "n = s_name s") (auto simp: k)
        moreover have "set unreadable = {s_name t |t. t \<in> set (ss @ [s]) \<and> has_key_file t \<and> \<not> is_ok (key_data home read t)}"
          using ih Inr by (auto simp: k)
        ultimately show ?thesis by blast
      qed
    qed
  qed
  then show "map_of keys n = Some d \<longleftrightarrow>
           (\<exists>s\<in>set servers. s_name s = n \<and> has_key_file s \<and> key_data home read s = Inr d)"
    and "set unreadable = {s_name s |s. s \<in> set servers \<and> has_key_file s \<and> \<not> is_ok (key_data home read s)}"
    by blast+
qed

lemma inherit_keys_lookup:
  assumes "foldl (inherit_key prev) (keys, inh) names = (keys', inh')"
  shows "map_of keys' n =
           (case map_of keys n of
              Some k \<Rightarrow> Some k
            | None \<Rightarrow> (if n \<in> set names \<and> map_of prev n \<noteq> Some [] then map_of prev n else None))"
  using assms
  by (induction names arbitrary: keys inh) (auto simp: inherit_key_def split: option.splits if_splits)

lemma inheritMissingKeys_spec:
  assumes run: "inheritMissingKeys f prev unreadable = (f', inherited, dropped)"
  shows "f' = f\<lparr>bf_keys := bf_keys f'\<rparr>"
    and "map_of (bf_keys f) n = Some k \<Longrightarrow> map_of (bf_keys f') n = Some k"
    and "prev = Some p \<Longrightarrow> n \<in> set unreadable \<Longrightarrow> map_of (bf_keys f) n = None \<Longrightarrow> map_of (bf_keys p) n = Some k \<Longrightarrow>
         k \<noteq> [] \<Longrightarrow> map_of (bf_keys f') n = Some k"
    and "prev = Some p \<Longrightarrow> map_of (bf_keys p) n \<noteq> None \<Longrightarrow> n \<notin> set dropped \<Longrightarrow> map_of (bf_keys f') n \<noteq> None"
proof -
  have "f' = f\<lparr>bf_keys := bf_keys f'\<rparr>
      \<and> (map_of (bf_keys f) n = Some k \<longrightarrow> map_of (bf_keys f') n = Some k)
      \<and> (prev = Some p \<longrightarrow> n \<in> set unreadable \<longrightarrow> map_of (bf_keys f) n = None \<longrightarrow> map_of (bf_keys p) n = Some k \<longrightarrow>
         k \<noteq> [] \<longrightarrow> map_of (bf_keys f') n = Some k)
      \<and> (prev = Some p \<longrightarrow> map_of (bf_keys p) n \<noteq> None \<longrightarrow> n \<notin> set dropped \<longrightarrow> map_of (bf_keys f') n \<noteq> None)"
  proof (cases "\<exists>q. prev = Some q \<and> bf_keys q \<noteq> []")
    case False
    then have "f' = f" using run by (auto simp: inheritMissingKeys_def split: option.splits)
    moreover have "bf_keys p = []" if "prev = Some p" using False that by blast
    ultimately show ?thesis by auto
  next
    case True
    then obtain q where q: "prev = Some q" "bf_keys q \<noteq> []" by blast
    obtain keys inh where fold: "foldl (inherit_key (bf_keys q)) (bf_keys f, []) unreadable = (keys, inh)"
      by (meson surj_pair)
    have f': "f' = f\<lparr>bf_keys := keys\<rparr>" "dropped = filter (\<lambda>n. map_of keys n = None) (sort (map fst (bf_keys q)))"
      using run q fold by (auto simp: inheritMissingKeys_def)
    have m: "n \<in> fst ` set (bf_keys q)" if "map_of (bf_keys q) n \<noteq> None"
      using that map_of_eq_None_iff by metis
    show ?thesis
      using inherit_keys_lookup[OF fold, of n] q m by (simp add: f') blast
  qed
  then show "f' = f\<lparr>bf_keys := bf_keys f'\<rparr>"
    and "map_of (bf_keys f) n = Some k \<Longrightarrow> map_of (bf_keys f') n = Some k"
    and "prev = Some p \<Longrightarrow> n \<in> set unreadable \<Longrightarrow> map_of (bf_keys f) n = None \<Longrightarrow> map_of (bf_keys p) n = Some k \<Longrightarrow>
         k \<noteq> [] \<Longrightarrow> map_of (bf_keys f') n = Some k"
    and "prev = Some p \<Longrightarrow> map_of (bf_keys p) n \<noteq> None \<Longrightarrow> n \<notin> set dropped \<Longrightarrow> map_of (bf_keys f') n \<noteq> None"
    by blast+
qed

section \<open>What one backup does to the vault\<close>

definition read_call :: "string \<Rightarrow> string \<Rightarrow> op_call" where
  "read_call vault title = \<lparr>oc_args = read_args vault title, oc_stdin = []\<rparr>"

definition edit_call :: "string \<Rightarrow> string \<Rightarrow> string \<Rightarrow> op_call" where
  "edit_call vault title payload = \<lparr>oc_args = edit_args vault title, oc_stdin = encodeItem title payload\<rparr>"

definition create_call :: "string \<Rightarrow> string \<Rightarrow> string \<Rightarrow> op_call" where
  "create_call vault title payload = \<lparr>oc_args = create_args vault, oc_stdin = encodeItem title payload\<rparr>"

text \<open>The document the first read answered, where it is one.\<close>

definition answered_document :: "op_host \<Rightarrow> string res \<Rightarrow> backup_file option" where
  "answered_document h ans =
     (case ans of
        Inl e \<Rightarrow> None
      | Inr raw \<Rightarrow> (if trim_space raw = [] then None
                   else case ParseBackup (oh_codec h) raw of Inl e \<Rightarrow> None | Inr f \<Rightarrow> Some f))"

definition safe_to_write :: "op_host \<Rightarrow> string res \<Rightarrow> bool" where
  "safe_to_write h ans =
     (case ans of
        Inl e \<Rightarrow> itemMissing (Some e)
      | Inr raw \<Rightarrow> trim_space raw = [] \<or> is_ok (ParseBackup (oh_codec h) raw))"

lemma readPreviousBackup_cases:
  assumes "readPreviousBackup h vault title tr = (r, tr')"
  shows "tr' = tr @ [read_call vault title]"
    and "is_ok r = safe_to_write h (oh_op h tr (read_call vault title))"
    and "r = Inr prev \<Longrightarrow> map_option pb_file prev = answered_document h (oh_op h tr (read_call vault title))"
    and "r = Inr (Some p) \<Longrightarrow> oh_op h tr (read_call vault title) = Inr (pb_raw p) \<and> trim_space (pb_raw p) \<noteq> []"
  using assms
  by (auto simp: readPreviousBackup_def op_do_def Let_def read_call_def safe_to_write_def answered_document_def
      split: sum.splits if_splits)

lemma writeBackupItem_cases:
  assumes "writeBackupItem h vault title payload tr = (r, tr')"
  shows "\<exists>ws. tr' = tr @ ws \<and> set ws \<subseteq> {edit_call vault title payload, create_call vault title payload}"
  using assms
  by (auto simp: writeBackupItem_def op_do_def Let_def edit_call_def create_call_def BuildInventoryItem_def
      split: sum.splits if_splits)

lemma verifyBackupItem_cases:
  assumes "verifyBackupItem h vault title payload tr = (r, tr')"
  shows "tr' = tr @ [read_call vault title]"
    and "r = None \<longleftrightarrow> oh_op h tr (read_call vault title) = Inr payload"
  using assms
  by (auto simp: verifyBackupItem_def op_do_def Let_def read_call_def split: sum.splits if_splits)

lemma rollbackBackupItem_cases:
  assumes "rollbackBackupItem h vault title prev tr = (out, tr')" "\<And>p. prev = Some p \<Longrightarrow> trim_space (pb_raw p) \<noteq> []"
  shows "tr' = tr @ (case prev of None \<Rightarrow> [] | Some p \<Rightarrow> [edit_call vault title (pb_raw p)])"
  using assms
  by (auto simp: rollbackBackupItem_def op_do_def Let_def edit_call_def BuildInventoryItem_def
      split: sum.splits if_splits option.splits)

lemma backup_run_cases:
  assumes "backupMachineToOnePassword h machine home read vault title servers tr = (r, out, tr')"
  obtains
    (unread) e where "r = Some e" "tr' = tr @ [read_call vault title]"
      "\<not> safe_to_write h (oh_op h tr (read_call vault title))"
  | (unencoded) e where "r = Some e" "tr' = tr @ [read_call vault title]"
  | (unwritten) e ws payload where "r = Some e" "tr' = tr @ read_call vault title # ws"
      "safe_to_write h (oh_op h tr (read_call vault title))"
      "set ws \<subseteq> {edit_call vault title payload, create_call vault title payload}"
      "writeBackupItem h vault title payload (tr @ [read_call vault title]) = (r, tr')"
  | (unverified) e ws payload prev where "r = Some e"
      "safe_to_write h (oh_op h tr (read_call vault title))"
      "set ws \<subseteq> {edit_call vault title payload, create_call vault title payload}"
      "tr' = tr @ read_call vault title # ws @ read_call vault title #
               (case prev of None \<Rightarrow> [] | Some p \<Rightarrow> [edit_call vault title (pb_raw p)])"
      "readPreviousBackup h vault title tr = (Inr prev, tr @ [read_call vault title])"
      "oh_op h (tr @ read_call vault title # ws) (read_call vault title) \<noteq> Inr payload"
  | (stored) f0 unreadable out0 f inherited dropped payload ws where "r = None"
      "safe_to_write h (oh_op h tr (read_call vault title))"
      "buildBackup machine home read servers = (f0, unreadable, out0)"
      "inheritMissingKeys f0 (answered_document h (oh_op h tr (read_call vault title))) unreadable = (f, inherited, dropped)"
      "MarshalBackup (oh_codec h) f = Inr payload"
      "set ws \<subseteq> {edit_call vault title payload, create_call vault title payload}"
      "tr' = tr @ read_call vault title # ws @ [read_call vault title]"
      "oh_op h (tr @ read_call vault title # ws) (read_call vault title) = Inr payload"
proof -
  let ?rc = "read_call vault title"
  obtain rp tr1 where rp: "readPreviousBackup h vault title tr = (rp, tr1)" by (meson surj_pair)
  note rd = readPreviousBackup_cases[OF rp]
  note tr1 = rd(1)
  show thesis
  proof (cases rp)
    case (Inl e)
    then show thesis using assms rp rd unread by (auto simp: backupMachineToOnePassword_def)
  next
    case (Inr prev)
    then have safe: "safe_to_write h (oh_op h tr ?rc)" using rd(2) by simp
    obtain f0 unreadable out0 where b: "buildBackup machine home read servers = (f0, unreadable, out0)" by (metis prod_cases3)
    obtain f inherited dropped where i: "inheritMissingKeys f0 (map_option pb_file prev) unreadable = (f, inherited, dropped)"
      by (metis prod_cases3)
    show thesis
    proof (cases "MarshalBackup (oh_codec h) f")
      case (Inl e)
      then have "r = Some e" "tr' = tr1" using assms rp \<open>rp = Inr prev\<close> b i by (auto simp: backupMachineToOnePassword_def)
      then show thesis using unencoded[of e] tr1 by simp
    next
      case (Inr payload)
      obtain w tr2 where w: "writeBackupItem h vault title payload tr1 = (w, tr2)" by (meson surj_pair)
      obtain ws where ws: "tr2 = tr1 @ ws" "set ws \<subseteq> {edit_call vault title payload, create_call vault title payload}"
        using writeBackupItem_cases[OF w] by blast
      show thesis
      proof (cases w)
        case (Some e)
        then have "r = Some e" "tr' = tr2"
          using assms rp \<open>rp = Inr prev\<close> b i Inr w by (auto simp: backupMachineToOnePassword_def)
        then show thesis using unwritten[of e ws payload] safe ws tr1 w Some by simp
      next
        case None
        obtain v tr3 where v: "verifyBackupItem h vault title payload tr2 = (v, tr3)" by (meson surj_pair)
        note vf = verifyBackupItem_cases[OF v]
        show thesis
        proof (cases v)
          case (Some e)
          obtain o2 tr4 where rb: "rollbackBackupItem h vault title prev tr3 = (o2, tr4)" by (meson surj_pair)
          have "tr4 = tr3 @ (case prev of None \<Rightarrow> [] | Some p \<Rightarrow> [edit_call vault title (pb_raw p)])"
            using rollbackBackupItem_cases[OF rb] rd(4) \<open>rp = Inr prev\<close> by blast
          moreover have "r = Some e" "tr' = tr4"
            using assms rp \<open>rp = Inr prev\<close> b i Inr w None v Some rb by (auto simp: backupMachineToOnePassword_def)
          ultimately show thesis
            using unverified[of e ws payload prev] safe ws tr1 vf Some rp \<open>rp = Inr prev\<close> by simp
        next
          case None
          have "r = None" "tr' = tr3"
            using assms rp \<open>rp = Inr prev\<close> b i Inr w \<open>w = None\<close> v None by (auto simp: backupMachineToOnePassword_def)
          then show thesis
            using stored[of f0 unreadable out0 f inherited dropped payload ws] safe ws tr1 vf None b i Inr rd(3)[of prev]
              \<open>rp = Inr prev\<close> by simp
        qed
      qed
    qed
  qed
qed

lemma document_keys:
  assumes names: "distinct (map s_name servers)" and s: "s \<in> set servers" "has_key_file s"
    and built: "buildBackup machine home read servers = (f0, unreadable, out0)"
    and inh: "inheritMissingKeys f0 prev unreadable = (f, inherited, dropped)"
  shows "bf_version f = 0" and "bf_servers f = servers"
    and "key_data home read s = Inr d \<Longrightarrow> map_of (bf_keys f) (s_name s) = Some d"
    and "key_data home read s = Inl e \<Longrightarrow> prev = Some old \<Longrightarrow> map_of (bf_keys old) (s_name s) = Some k \<Longrightarrow> k \<noteq> [] \<Longrightarrow>
         map_of (bf_keys f) (s_name s) = Some k"
proof -
  obtain keys un o2 where rl: "readLocalKeys home read servers = (keys, un, o2)" by (metis prod_cases3)
  have f0: "f0 = \<lparr>bf_version = 0, bf_machine = machine, bf_servers = servers, bf_keys = keys\<rparr>" "unreadable = un"
    using built rl by (auto simp: buildBackup_def)
  note inh = inheritMissingKeys_spec[OF inh]
  show "bf_version f = 0" "bf_servers f = servers" by (subst inh(1), simp add: f0)+
  have same: "t = s" if "t \<in> set servers" "s_name t = s_name s" for t
    using names s(1) that by (simp add: distinct_map inj_on_def)
  show "map_of (bf_keys f) (s_name s) = Some d" if "key_data home read s = Inr d"
    using inh(2)[of "s_name s" d] readLocalKeys_spec(1)[OF names rl] s that by (simp add: f0) blast
  show "map_of (bf_keys f) (s_name s) = Some k"
    if e: "key_data home read s = Inl e" "prev = Some old" "map_of (bf_keys old) (s_name s) = Some k" "k \<noteq> []"
  proof -
    have "map_of keys (s_name s) \<noteq> Some d" for d
      using readLocalKeys_spec(1)[OF names rl] same e(1) by fastforce
    then have "map_of keys (s_name s) = None" by (metis not_None_eq)
    then have no: "map_of (bf_keys f0) (s_name s) = None" by (simp add: f0)
    have "s_name s \<in> set unreadable" using readLocalKeys_spec(2)[OF names rl] s e(1) by (auto simp: f0)
    then show ?thesis using inh(3)[OF e(2) _ no e(3,4)] by simp
  qed
qed

text \<open>
  C5. A backup that reports success left a document in the vault that reads back byte for byte, parses, holds every server
  and the private key of every server that names a key file: the file's content where it could be read and otherwise the
  key the vault held before. A key is not lost because this machine can no longer read it.
\<close>

theorem backup_keeps_vault_keys:
  assumes cod: "codec_ok (oh_codec h)" and names: "distinct (map s_name servers)"
    and run: "backupMachineToOnePassword h machine home read vault title servers tr = (None, out, tr')"
    and s: "s \<in> set servers" "has_key_file s"
  shows "\<exists>tr0 payload f. tr' = tr0 @ [read_call vault title] \<and> oh_op h tr0 (read_call vault title) = Inr payload
       \<and> ParseBackup (oh_codec h) payload = Inr f \<and> bf_servers f = map with_defaults servers
       \<and> (case key_data home read s of
            Inr d \<Rightarrow> map_of (bf_keys f) (s_name s) = Some d
          | Inl e \<Rightarrow>
              (\<forall>old k. answered_document h (oh_op h tr (read_call vault title)) = Some old \<longrightarrow>
                 map_of (bf_keys old) (s_name s) = Some k \<longrightarrow> k \<noteq> [] \<longrightarrow> map_of (bf_keys f) (s_name s) = Some k))"
  using run
proof (cases rule: backup_run_cases)
  case (stored f0 unreadable out0 f inherited dropped payload ws)
  note doc = document_keys[OF names s stored(3,4)]
  have "ParseBackup (oh_codec h) payload = Inr (defaulted f)" using backup_round_trip[OF cod _ stored(5)] doc(1) by simp
  then show ?thesis
    using stored(7,8) doc(2-4)
    by (intro exI[of _ "tr @ read_call vault title # ws"] exI[of _ payload] exI[of _ "defaulted f"])
      (simp add: defaulted_def split: sum.split)
qed auto

text \<open>
  C11. A backup writes only over a document it has read: when any call of a run creates or edits an item, the run began with
  a read of that item which answered that there is none, or an empty one, or a backup document that parses.
\<close>

theorem no_blind_write:
  assumes run: "backupMachineToOnePassword h machine home read vault title servers tr = (r, out, tr')"
    and c: "c \<in> set (drop (length tr) tr')" "op_edits c"
  shows "tr @ [read_call vault title] = take (Suc (length tr)) tr' \<and> safe_to_write h (oh_op h tr (read_call vault title))"
proof -
  have no: "\<not> op_edits (read_call vault title)" by (simp add: op_edits_def read_call_def read_args_def)
  show ?thesis using run
  proof (cases rule: backup_run_cases)
    case unread
    then show ?thesis using c no by auto
  next
    case unencoded
    then show ?thesis using c no by auto
  qed auto
qed

text \<open>A write whose check failed is undone with the very bytes the vault held, when it held a document.\<close>

lemma failed_check_is_undone:
  assumes run: "backupMachineToOnePassword h machine home read vault title servers tr = (r, out, tr')"
    and old: "oh_op h tr (read_call vault title) = Inr raw" "answered_document h (Inr raw) = Some f"
    and wrote: "oh_op h (tr @ [read_call vault title]) w = Inr u" "tr' = tr @ read_call vault title # w # rest"
  shows "r = None \<or> last tr' = edit_call vault title raw"
  using run
proof (cases rule: backup_run_cases)
  case unread
  then show ?thesis using wrote(2) by simp
next
  case unencoded
  then show ?thesis using wrote(2) by simp
next
  case (unwritten e ws payload)
  then show ?thesis using wrote
    by (auto simp: writeBackupItem_def op_do_def Let_def BuildInventoryItem_def split: sum.splits if_splits)
next
  case (unverified e ws payload prev)
  have "map_option pb_file prev = Some f"
    using readPreviousBackup_cases(3)[OF unverified(5), of prev] old by simp
  then obtain p where p: "prev = Some p" by auto
  then have "pb_raw p = raw" using readPreviousBackup_cases(4)[OF unverified(5), of p] old(1) by simp
  then show ?thesis using unverified(4) p by simp
qed simp

text \<open>An empty key file is a readable one: it replaces the key the vault held, although an empty key there is never used.\<close>

lemma empty_key_file_replaces:
  assumes cod: "codec_ok (oh_codec h)" and names: "distinct (map s_name servers)"
    and run: "backupMachineToOnePassword h machine home read vault title servers tr = (None, out, tr')"
    and s: "s \<in> set servers" "has_key_file s" "key_data home read s = Inr []"
  shows "\<exists>tr0 payload f. tr' = tr0 @ [read_call vault title] \<and> oh_op h tr0 (read_call vault title) = Inr payload
       \<and> ParseBackup (oh_codec h) payload = Inr f \<and> map_of (bf_keys f) (s_name s) = Some []"
  using run
proof (cases rule: backup_run_cases)
  case (stored f0 unreadable out0 f inherited dropped payload ws)
  note doc = document_keys[OF names s(1,2) stored(3,4)]
  have "ParseBackup (oh_codec h) payload = Inr (defaulted f)" using backup_round_trip[OF cod _ stored(5)] doc(1) by simp
  then show ?thesis
    using stored(7,8) doc(3)[OF s(3)]
    by (intro exI[of _ "tr @ read_call vault title # ws"] exI[of _ payload] exI[of _ "defaulted f"])
      (simp add: defaulted_def)
qed auto

section \<open>A backup on an example\<close>

definition lost_server :: server where
  "lost_server = key_server\<lparr>s_key_path := ''/k'', s_password := []\<rparr>"

definition vault_file :: backup_file where
  "vault_file = \<lparr>bf_version = 1, bf_machine = ''m'', bf_servers = [lost_server], bf_keys = [(''web-1'', ''K'')]\<rparr>"

definition vault_host :: op_host where
  "vault_host = \<lparr>oh_op = (\<lambda>tr c. if oc_args c = read_args ''V'' ''T'' then Inr ''d'' else Inr []), oh_wsl = False,
     oh_cli = no_cli, oh_codec = table_codec [(''d'', vault_file)]\<rparr>"

definition vault_run :: "go_error option \<times> string list \<times> op_call list" where
  "vault_run = backupMachineToOnePassword vault_host ''m'' None (\<lambda>p. Inl (errors_new ''gone'')) ''V'' ''T'' [lost_server] []"

lemma vault_codec: "codec_ok (oh_codec vault_host)"
  unfolding vault_host_def by (simp, rule table_codec_ok) simp_all

lemma vault_steps:
  "readPreviousBackup vault_host ''V'' ''T'' [] = (Inr (Some \<lparr>pb_raw = ''d'', pb_file = vault_file\<rparr>), [read_call ''V'' ''T''])"
  "inheritMissingKeys (vault_file\<lparr>bf_version := 0, bf_keys := []\<rparr>) (Some vault_file) [''web-1''] = (vault_file\<lparr>bf_version := 0\<rparr>, [''web-1''], [])"
  "MarshalBackup (oh_codec vault_host) (vault_file\<lparr>bf_version := 0\<rparr>) = Inr ''d''"
  "writeBackupItem vault_host ''V'' ''T'' ''d'' [read_call ''V'' ''T''] = (None, [read_call ''V'' ''T'', edit_call ''V'' ''T'' ''d''])"
  "verifyBackupItem vault_host ''V'' ''T'' ''d'' [read_call ''V'' ''T'', edit_call ''V'' ''T'' ''d''] =
     (None, [read_call ''V'' ''T'', edit_call ''V'' ''T'' ''d'', read_call ''V'' ''T''])"
  "has_key_file lost_server" "op_edits (edit_call ''V'' ''T'' ''d'')"
  by code_simp+

lemma vault_build:
  "\<exists>o2. buildBackup ''m'' None (\<lambda>p. Inl (errors_new ''gone'')) [lost_server] =
     (vault_file\<lparr>bf_version := 0, bf_keys := []\<rparr>, [''web-1''], o2)"
  using vault_steps(6)
  by (simp add: buildBackup_def readLocalKeys_def read_local_key_def has_key_file_def vault_file_def)
    (simp add: lost_server_def key_server_def)

lemma vault_run_eq: "\<exists>o2. vault_run = (None, o2, [read_call ''V'' ''T'', edit_call ''V'' ''T'' ''d'', read_call ''V'' ''T''])"
  using vault_build
  by (auto simp: vault_run_def backupMachineToOnePassword_def vault_steps)

lemma vault_run_ok: "fst vault_run = None" "snd (snd vault_run) = [read_call ''V'' ''T'', edit_call ''V'' ''T'' ''d'', read_call ''V'' ''T'']"
  using vault_run_eq by (metis fst_conv snd_conv)+

lemma vault_answers:
  "answered_document vault_host (oh_op vault_host [] (read_call ''V'' ''T'')) = Some vault_file"
  by code_simp

theorem backup_keeps_vault_keys_witness:
  "\<exists>f payload. ParseBackup (oh_codec vault_host) payload = Inr f \<and> map_of (bf_keys f) ''web-1'' = Some ''K''"
proof -
  have run: "backupMachineToOnePassword vault_host ''m'' None (\<lambda>p. Inl (errors_new ''gone'')) ''V'' ''T'' [lost_server] []
      = (None, fst (snd vault_run), snd (snd vault_run))"
    using vault_run_ok(1) by (metis prod.collapse vault_run_def)
  have hk: "has_key_file lost_server" by code_simp
  have n: "s_name lost_server = ''web-1''" by (simp add: lost_server_def key_server_def)
  show ?thesis
    using backup_keeps_vault_keys[OF vault_codec _ run, of lost_server] hk
    by (simp add: vault_answers n vault_file_def) blast
qed

theorem no_blind_write_witness:
  "safe_to_write vault_host (oh_op vault_host [] (read_call ''V'' ''T''))"
proof -
  have run: "backupMachineToOnePassword vault_host ''m'' None (\<lambda>p. Inl (errors_new ''gone'')) ''V'' ''T'' [lost_server] []
      = (fst vault_run, fst (snd vault_run), snd (snd vault_run))"
    by (simp add: vault_run_def)
  show ?thesis
    using no_blind_write[OF run, of "edit_call ''V'' ''T'' ''d''"] vault_steps(7) vault_run_ok(2) by simp
qed

section \<open>Choosing the vault\<close>

lemma pick_fallback_member: "pick_fallback names cs = (Some v, ws) \<Longrightarrow> v \<in> set names \<and> v \<in> set cs"
  by (induction cs arbitrary: ws) (auto split: if_splits prod.splits)

lemma pick_fallback_none: "pick_fallback names cs = (None, ws) \<Longrightarrow> set cs \<inter> set names = {} \<and> length ws = length cs"
  by (induction cs arbitrary: ws) (auto split: if_splits prod.splits)

text \<open>
  A chosen vault is one the account can see: the named one if one was named, else the first remembered one that exists,
  else the only one.
\<close>

lemma chooseVault_spec:
  assumes "chooseVault names explicit fallbacks = (Inr v, ws)"
  shows "v \<in> set names"
    and "explicit \<noteq> [] \<Longrightarrow> v = explicit \<and> ws = []"
    and "explicit = [] \<Longrightarrow> v \<in> set fallbacks \<or> (names = [v] \<and> set fallbacks \<inter> set names = {})"
  using assms pick_fallback_member[of names fallbacks] pick_fallback_none[of names fallbacks]
  by (auto simp: chooseVault_def length_Suc_conv split: if_splits prod.splits option.splits)

lemma dedupe_from_spec: "distinct (dedupe_from seen vs) \<and> set (dedupe_from seen vs) = trim_space ` set vs - set seen - {[]}"
  by (induction vs arbitrary: seen) (auto simp: Let_def)

section \<open>What a backup leaves alone\<close>

text \<open>The command never stores anything in servers.yaml, and it makes no call when the inventory still holds references.\<close>

lemma backup_command_reads_only:
  assumes "runBackupToOnePassword cod io host_of ensured names_of se ov vf letter hostname home read f st = (e, tr, f', st')"
  shows "st' = snd (server_list cod io st)"
    and "fst (server_list cod io st) = Inr servers \<Longrightarrow> serversWithLegacy1PRefs servers \<noteq> [] \<Longrightarrow> tr = [] \<and> f' = f \<and> e \<noteq> None"
  using assms by (auto simp: runBackupToOnePassword_def split: prod.splits sum.splits if_splits)
end
