(* ===== verification/OnePasswordRestore.thy ===== *)
theory OnePasswordRestore
  imports OnePassword
begin

text \<open>
  \<open>ops 1p restore\<close>: the questions about conflicting servers, the machine backups, the merge into servers.yaml
  (\<open>onepassword_inventory.go\<close>), the plan, the confirmation and the report (\<open>onepassword_restore.go\<close>), the credentials that
  are written (\<open>onepassword_restore_credentials.go\<close>) and the descriptions of \<open>ops 1p status\<close> (\<open>onepassword_status.go\<close>).
  The terminal is the list of lines still to be read; a Go map is a list of entries.
\<close>

section \<open>Deciding conflicts\<close>

record conflict_prompt =
  cp_interactive :: bool
  cp_local :: bool
  cp_remote :: bool
  cp_sticky :: "merge_decision option"
  cp_aborted :: bool
  cp_legend :: bool
  cp_lines :: "string list"

definition validatePreferFlags :: "bool \<Rightarrow> bool \<Rightarrow> go_error option" where
  "validatePreferFlags preferLocal preferRemote =
     (if preferLocal \<and> preferRemote
      then Some (errors_new ''--prefer-local and --prefer-remote contradict each other; pick one'') else None)"

definition errInventoryAborted :: sentinel where
  "errInventoryAborted = ''inventory merge cancelled by user''"

definition inventoryConflictError :: "go_error \<Rightarrow> go_error" where
  "inventoryConflictError e =
     wrap [] e ([CHR 0x0A] @ [CHR 0x0A] @ ''use --prefer-local or --prefer-remote to decide every conflict the same way, or edit the '' @ go_quote InventoryItemTitle @ '' item in 1Password by hand'')"

definition newInventoryConflictPrompt :: "string list \<Rightarrow> bool \<Rightarrow> bool \<Rightarrow> bool \<Rightarrow> conflict_prompt" where
  "newInventoryConflictPrompt lines interactive preferLocal preferRemote =
     \<lparr>cp_interactive = interactive, cp_local = preferLocal, cp_remote = preferRemote, cp_sticky = None,
      cp_aborted = False, cp_legend = False, cp_lines = lines\<rparr>"

text \<open>Whether \<open>decider\<close> gives a callback.\<close>

definition has_decider :: "conflict_prompt \<Rightarrow> bool" where
  "has_decider p \<longleftrightarrow> cp_interactive p \<or> cp_local p \<or> cp_remote p"

text \<open>The loop of \<open>decide\<close>: lines are read until one is an answer or the input ends.\<close>

fun ask_conflict :: "conflict_prompt \<Rightarrow> string list \<Rightarrow> merge_decision \<times> conflict_prompt" where
  "ask_conflict p [] = (KeepLocal, p\<lparr>cp_aborted := True, cp_lines := []\<rparr>)"
| "ask_conflict p (answer # rest) =
     (let choice = trim_space answer; q = p\<lparr>cp_lines := rest\<rparr>
      in if choice = [] \<or> choice = ''l'' \<or> choice = ''local'' then (KeepLocal, q)
         else if choice = ''r'' \<or> choice = ''remote'' then (TakeRemote, q)
         else if choice = ''a'' \<or> choice = ''all-remote'' then (TakeRemote, q\<lparr>cp_sticky := Some TakeRemote\<rparr>)
         else if choice = ''A'' \<or> choice = ''all'' \<or> choice = ''all-local'' then (KeepLocal, q\<lparr>cp_sticky := Some KeepLocal\<rparr>)
         else if choice = ''q'' \<or> choice = ''quit'' then (KeepLocal, q\<lparr>cp_aborted := True\<rparr>)
         else ask_conflict p rest)"

definition decide :: "conflict_prompt \<Rightarrow> merge_conflict \<Rightarrow> merge_decision \<times> conflict_prompt" where
  "decide p c =
     (if cp_remote p then (TakeRemote, p)
      else if cp_local p then (KeepLocal, p)
      else case cp_sticky p of
             Some d \<Rightarrow> (d, p)
           | None \<Rightarrow> ask_conflict (p\<lparr>cp_legend := True\<rparr>) (cp_lines p))"

section \<open>The merge with its questions\<close>

text \<open>\<open>MergeInventories\<close> with a callback that has state: the pending choices are asked in their order.\<close>

definition merge_first :: "server list \<Rightarrow> server list \<Rightarrow> merge_state" where
  "merge_first local remote =
     foldl merge_step
       \<lparr>ms_merged = local, ms_index = rev (zip (map s_name local) [0..<length local]), ms_added = 0, ms_updated = 0, ms_choices = []\<rparr>
       remote"

definition prompted_step ::
    "(server list \<times> nat) \<times> conflict_prompt \<Rightarrow> nat \<times> merge_conflict \<Rightarrow> (server list \<times> nat) \<times> conflict_prompt" where
  "prompted_step acc ch =
     (case decide (snd acc) (snd ch) of
        (d, p) \<Rightarrow> (choice_step (\<lambda>c. d) (fst acc) ch, p))"

definition MergeWithPrompt ::
    "server list \<Rightarrow> server list \<Rightarrow> conflict_prompt \<Rightarrow> merge_result \<times> conflict_prompt" where
  "MergeWithPrompt local remote p =
     (if \<not> has_decider p then (MergeInventories local remote None, p)
      else (let m = merge_first local remote
            in case foldl prompted_step ((ms_merged m, ms_updated m), p) (ms_choices m) of
                 ((merged, updated), p1) \<Rightarrow>
                   (\<lparr>mr_merged = merged, mr_added = ms_added m, mr_updated = updated, mr_conflicts = map snd (ms_choices m),
                     mr_error = None\<rparr>, p1)))"

section \<open>The backups in the vault\<close>

record item_index =
  ix_vault :: string
  ix_loaded :: bool
  ix_titles :: "(string \<times> string) list"

definition newItemIndex :: "string \<Rightarrow> item_index" where
  "newItemIndex vault = \<lparr>ix_vault = vault, ix_loaded = False, ix_titles = []\<rparr>"

text \<open>\<open>items_of\<close> decodes the JSON of \<open>op item list\<close> to titles and identifiers.\<close>

type_synonym items_json = "string \<Rightarrow> (string \<times> string) list res"

definition load_index :: "op_host \<Rightarrow> items_json \<Rightarrow> item_index \<Rightarrow> op_call list \<Rightarrow> go_error option \<times> item_index \<times> op_call list" where
  "load_index h items_of ix tr =
     (if ix_loaded ix then (None, ix, tr)
      else (case op_do (oh_op h) [''item'', ''list'', ''--vault'', ix_vault ix, ''--format'', ''json''] [] tr of
              (Inl e, tr1) \<Rightarrow> (Some (oh_error h e (''list items in 1Password vault '' @ go_quote (ix_vault ix) @ '': '')), ix, tr1)
            | (Inr out, tr1) \<Rightarrow>
                (case items_of out of
                   Inl e \<Rightarrow> (Some (wrap ''parse 1Password item list: '' e []), ix, tr1)
                 | Inr items \<Rightarrow>
                     (None, ix\<lparr>ix_loaded := True, ix_titles := foldl (\<lambda>m (t, i). aput t i m) (ix_titles ix) items\<rparr>, tr1))))"

definition index_id :: "op_host \<Rightarrow> items_json \<Rightarrow> string \<Rightarrow> item_index \<Rightarrow> op_call list \<Rightarrow> string res \<times> item_index \<times> op_call list" where
  "index_id h items_of title ix tr =
     (case load_index h items_of ix tr of
        (Some e, ix1, tr1) \<Rightarrow> (Inl e, ix1, tr1)
      | (None, ix1, tr1) \<Rightarrow>
          (Inr (case map_of (ix_titles ix1) title of None \<Rightarrow> [] | Some i \<Rightarrow> i), ix1, tr1))"

definition index_titles :: "op_host \<Rightarrow> items_json \<Rightarrow> item_index \<Rightarrow> op_call list \<Rightarrow> string list res \<times> item_index \<times> op_call list" where
  "index_titles h items_of ix tr =
     (case load_index h items_of ix tr of
        (Some e, ix1, tr1) \<Rightarrow> (Inl e, ix1, tr1)
      | (None, ix1, tr1) \<Rightarrow> (Inr (map fst (ix_titles ix1)), ix1, tr1))"

record backup_blob =
  bb_title :: string
  bb_file :: backup_file

fun read_blobs :: "op_host \<Rightarrow> string \<Rightarrow> string list \<Rightarrow> op_call list \<Rightarrow> backup_blob list res \<times> op_call list" where
  "read_blobs h vault [] tr = (Inr [], tr)"
| "read_blobs h vault (title # rest) tr =
     (case op_do (oh_op h) (read_args vault title) [] tr of
        (Inl e, tr1) \<Rightarrow> (Inl (oh_error h e (''read the backup '' @ go_quote title @ '' from vault '' @ go_quote vault @ '': '')), tr1)
      | (Inr out, tr1) \<Rightarrow>
          (if trim_space out = [] then read_blobs h vault rest tr1
           else (case ParseBackup (oh_codec h) out of
                   Inl e \<Rightarrow> (Inl (wrap (''the backup '' @ go_quote title @ '' in vault '' @ go_quote vault @ '' is not usable: '') e []), tr1)
                 | Inr f \<Rightarrow>
                     (case read_blobs h vault rest tr1 of
                        (Inl e, tr2) \<Rightarrow> (Inl e, tr2)
                      | (Inr bs, tr2) \<Rightarrow> (Inr (\<lparr>bb_title = title, bb_file = f\<rparr> # bs), tr2)))))"

definition readBackupBlobs ::
    "op_host \<Rightarrow> items_json \<Rightarrow> string \<Rightarrow> item_index \<Rightarrow> op_call list \<Rightarrow> backup_blob list res \<times> item_index \<times> op_call list" where
  "readBackupBlobs h items_of vault ix tr =
     (case index_titles h items_of ix tr of
        (Inl e, ix1, tr1) \<Rightarrow> (Inl e, ix1, tr1)
      | (Inr titles, ix1, tr1) \<Rightarrow>
          (case read_blobs h vault (sort (filter (\<lambda>t. t \<noteq> InventoryItemTitle \<and> IsInventoryItemTitle t) titles)) tr1 of
             (r, tr2) \<Rightarrow> (r, ix1, tr2)))"

fun mergeBackupServers ::
    "server list \<Rightarrow> backup_blob list \<Rightarrow> conflict_prompt \<Rightarrow> (server list \<times> nat \<times> nat) res \<times> conflict_prompt" where
  "mergeBackupServers local [] p = (Inr (local, 0, 0), p)"
| "mergeBackupServers local (b # bs) p =
     (case MergeWithPrompt local (bf_servers (bb_file b)) p of
        (m, p1) \<Rightarrow>
          (case mr_error m of
             Some e \<Rightarrow> (Inl (inventoryConflictError e), p1)
           | None \<Rightarrow>
               (if cp_aborted p1 then (Inl (sentinel_error errInventoryAborted), p1)
                else (case mergeBackupServers (mr_merged m) bs p1 of
                        (Inl e, p2) \<Rightarrow> (Inl e, p2)
                      | (Inr (merged, a, u), p2) \<Rightarrow> (Inr (merged, mr_added m + a, mr_updated m + u), p2)))))"

record backup_credentials =
  bc_key :: string
  bc_password :: string

definition no_credentials :: backup_credentials where
  "no_credentials = \<lparr>bc_key = [], bc_password = []\<rparr>"

definition creds_of :: "(string \<times> backup_credentials) list \<Rightarrow> string \<Rightarrow> backup_credentials" where
  "creds_of m n = (case map_of m n of None \<Rightarrow> no_credentials | Some c \<Rightarrow> c)"

definition take_key :: "(string \<times> backup_credentials) list \<Rightarrow> string \<times> string \<Rightarrow> (string \<times> backup_credentials) list" where
  "take_key m nk =
     (let c = creds_of m (fst nk)
      in aput (fst nk) (if bc_key c = [] then c\<lparr>bc_key := snd nk\<rparr> else c) m)"

definition take_password :: "(string \<times> backup_credentials) list \<Rightarrow> server \<Rightarrow> (string \<times> backup_credentials) list" where
  "take_password m srv =
     (let c = creds_of m (s_name srv)
      in aput (s_name srv) (if bc_password c = [] then c\<lparr>bc_password := s_password srv\<rparr> else c) m)"

definition take_blob :: "(string \<times> backup_credentials) list \<Rightarrow> backup_blob \<Rightarrow> (string \<times> backup_credentials) list" where
  "take_blob m b = foldl take_password (foldl take_key m (bf_keys (bb_file b))) (bf_servers (bb_file b))"

definition collectBackupCredentials :: "backup_blob list \<Rightarrow> (string \<times> backup_credentials) list" where
  "collectBackupCredentials blobs = foldl take_blob [] blobs"

definition readInventoryFromOnePassword ::
    "op_host \<Rightarrow> items_json \<Rightarrow> server list codec \<Rightarrow> string \<Rightarrow> item_index \<Rightarrow> op_call list
     \<Rightarrow> (server list option) res \<times> item_index \<times> op_call list" where
  "readInventoryFromOnePassword h items_of cod vault ix tr =
     (case index_id h items_of InventoryItemTitle ix tr of
        (Inl e, ix1, tr1) \<Rightarrow> (Inl e, ix1, tr1)
      | (Inr i, ix1, tr1) \<Rightarrow>
          (if i = [] then (Inr None, ix1, tr1)
           else (case op_do (oh_op h) (read_args vault InventoryItemTitle) [] tr1 of
                   (Inl e, tr2) \<Rightarrow> (Inl (oh_error h e (''read the inventory backup from vault '' @ go_quote vault @ '': '')), ix1, tr2)
                 | (Inr out, tr2) \<Rightarrow>
                     (if trim_space out = [] then (Inr (Some []), ix1, tr2)
                      else (case ParseConfig cod out of
                              Inl e \<Rightarrow> (Inl (wrap (''the inventory backup in vault '' @ go_quote vault @ '' is not a valid servers.yaml: '') e []), ix1, tr2)
                            | Inr servers \<Rightarrow> (Inr (Some servers), ix1, tr2))))))"

section \<open>The inventory\<close>

definition marshalInventory :: "server list codec \<Rightarrow> server list \<Rightarrow> string res" where
  "marshalInventory cod servers =
     (case enc cod servers of Inl e \<Rightarrow> Inl (wrap ''encode the server inventory: '' e []) | Inr d \<Rightarrow> Inr d)"

definition password_moves :: "server list \<Rightarrow> server \<Rightarrow> bool" where
  "password_moves local srv \<longleftrightarrow>
     trim_space (s_password srv) \<noteq> [] \<and> \<not> Is1PRef (s_password srv)
   \<and> map_of (rev (map (\<lambda>s. (s_name s, s_password s)) local)) (s_name srv) \<noteq> Some (s_password srv)"

definition countPlaintextPasswordsToWrite :: "server list \<Rightarrow> server list \<Rightarrow> nat" where
  "countPlaintextPasswordsToWrite local merged = length (filter (password_moves local) merged)"

definition countLocalOnly :: "server list \<Rightarrow> string set \<Rightarrow> nat" where
  "countLocalOnly local incoming = length (filter (\<lambda>s. s_name s \<notin> incoming) local)"

definition confirmPlaintextRestore :: "operator \<Rightarrow> nat \<Rightarrow> bool \<Rightarrow> go_error option" where
  "confirmPlaintextRestore op n yes =
     confirmGate op yes
       (utf8 [0x26A0, 0xFE0F] @ ''  Warning: restoring will write '' @ show_nat n @ '' plaintext password(s) into servers.yaml.'' @ [CHR 0x0A] @ ''Are you sure you want to proceed? [y/N]: '')
       (errors_new (''refusing to write '' @ show_nat n @ '' plaintext password(s) into servers.yaml without confirmation; re-run with --yes to accept this in a non-interactive shell''))
       (errors_new ''restore cancelled by user'')"

definition write_inventory ::
    "server list codec \<Rightarrow> io \<Rightarrow> operator \<Rightarrow> bool \<Rightarrow> server list \<Rightarrow> server list \<Rightarrow> server_state \<Rightarrow> go_error option \<times> server_state" where
  "write_inventory cod io op yes local merged st =
     (if merged = [] \<or> SameInventory merged local then (None, st)
      else (let plaintext = countPlaintextPasswordsToWrite local merged
            in case (if plaintext > 0 then confirmPlaintextRestore op plaintext yes else None) of
                 Some e \<Rightarrow> (Some e, st)
               | None \<Rightarrow>
                   (case marshalInventory cod merged of
                      Inl e \<Rightarrow> (Some e, st)
                    | Inr payload \<Rightarrow>
                        (case server_replace cod io payload st of
                           (Inl e, st1) \<Rightarrow> (Some (wrap ''write servers.yaml: '' e []), st1)
                         | (Inr u, st1) \<Rightarrow> (None, st1)))))"

text \<open>\<open>restoreInventoryFromOnePassword\<close>: whether a backup was found, and the error.\<close>

definition restoreInventoryFromOnePassword ::
    "op_host \<Rightarrow> items_json \<Rightarrow> server list codec \<Rightarrow> (nat \<Rightarrow> io) \<Rightarrow> operator \<Rightarrow> bool \<Rightarrow> string \<Rightarrow> conflict_prompt \<Rightarrow> backup_blob list
     \<Rightarrow> item_index \<Rightarrow> op_call list \<Rightarrow> server_state \<Rightarrow> (bool \<times> go_error option) \<times> item_index \<times> op_call list \<times> server_state" where
  "restoreInventoryFromOnePassword h items_of cod io op yes vault prompt blobs ix tr st =
     (case server_list cod (io 0) st of
        (Inl e, st1) \<Rightarrow> ((False, Some e), ix, tr, st1)
      | (Inr local, st1) \<Rightarrow>
          (if blobs \<noteq> []
           then (case mergeBackupServers local blobs prompt of
                   (Inl e, p1) \<Rightarrow> ((True, Some e), ix, tr, st1)
                 | (Inr (merged, a, u), p1) \<Rightarrow>
                     (case write_inventory cod (io 1) op yes local merged st1 of
                        (r, st2) \<Rightarrow> ((True, r), ix, tr, st2)))
           else (case readInventoryFromOnePassword h items_of cod vault ix tr of
                   (Inl e, ix1, tr1) \<Rightarrow> ((False, Some e), ix1, tr1, st1)
                 | (Inr None, ix1, tr1) \<Rightarrow> ((False, None), ix1, tr1, st1)
                 | (Inr (Some remote), ix1, tr1) \<Rightarrow>
                     (if remote = [] then ((True, None), ix1, tr1, st1)
                      else (case MergeWithPrompt local remote prompt of
                              (m, p1) \<Rightarrow>
                                (case mr_error m of
                                   Some e \<Rightarrow> ((True, Some (inventoryConflictError e)), ix1, tr1, st1)
                                 | None \<Rightarrow>
                                     (if cp_aborted p1 then ((True, Some (sentinel_error errInventoryAborted)), ix1, tr1, st1)
                                      else (case write_inventory cod (io 1) op yes local (mr_merged m) st1 of
                                              (r, st2) \<Rightarrow> ((True, r), ix1, tr1, st2))))))))) "

section \<open>What to restore for one server\<close>

record vault_discovery =
  vd_vault :: string
  vd_titles :: "string list"
  vd_backups :: "backup_blob list"

definition backedUpIn :: "vault_discovery option \<Rightarrow> string \<Rightarrow> string list" where
  "backedUpIn d name =
     (case d of
        None \<Rightarrow> []
      | Some v \<Rightarrow> map bb_title (filter (\<lambda>b. list_ex (\<lambda>s. s_name s = name) (bf_servers (bb_file b))) (vd_backups v)))"

definition discovered_key :: "vault_discovery option \<Rightarrow> string \<Rightarrow> string" where
  "discovered_key d name =
     (case d of
        None \<Rightarrow> []
      | Some v \<Rightarrow> (if SSHKeyItemTitle name \<in> set (vd_titles v) then BuildSSHKeyRef (vd_vault v) (SSHKeyItemTitle name) else []))"

definition discovered_password :: "vault_discovery option \<Rightarrow> string \<Rightarrow> string" where
  "discovered_password d name =
     (case d of
        None \<Rightarrow> []
      | Some v \<Rightarrow> (if PasswordItemTitle name \<in> set (vd_titles v) then BuildPasswordRef (vd_vault v) (PasswordItemTitle name) else []))"

record restore_plan =
  rq_server :: server
  rq_keyRef :: string
  rq_passRef :: string
  rq_keyFromBlob :: string
  rq_passFromBlob :: string
  rq_keyWasLegacy :: bool
  rq_passWasLegacy :: bool

definition planRestore :: "server \<Rightarrow> vault_discovery option \<Rightarrow> (string \<times> backup_credentials) list \<Rightarrow> restore_plan" where
  "planRestore srv d creds =
     (let cred = creds_of creds (s_name srv);
          p0 = \<lparr>rq_server = srv, rq_keyRef = [], rq_passRef = [], rq_keyFromBlob = [], rq_passFromBlob = [],
                rq_keyWasLegacy = False, rq_passWasLegacy = False\<rparr>;
          p1 = (if Is1PRef (s_key_path srv) then p0\<lparr>rq_keyRef := s_key_path srv, rq_keyWasLegacy := True\<rparr>
                else if trim_space (s_key_path srv) \<noteq> []
                then (if bc_key cred \<noteq> [] then p0\<lparr>rq_keyFromBlob := bc_key cred\<rparr>
                      else p0\<lparr>rq_keyRef := discovered_key d (s_name srv)\<rparr>)
                else p0)
      in if Is1PRef (s_password srv) then p1\<lparr>rq_passRef := s_password srv, rq_passWasLegacy := True\<rparr>
         else if trim_space (s_password srv) = []
         then (if bc_password cred \<noteq> [] then p1\<lparr>rq_passFromBlob := bc_password cred\<rparr>
               else p1\<lparr>rq_passRef := discovered_password d (s_name srv)\<rparr>)
         else p1)"

definition countRestorePasswords :: "restore_plan list \<Rightarrow> nat" where
  "countRestorePasswords plans = length (filter (\<lambda>p. rq_passRef p \<noteq> [] \<or> rq_passFromBlob p \<noteq> []) plans)"

section \<open>Writing one credential\<close>

text \<open>
  The machine a restore writes to: \<open>rh_parse\<close> is what \<open>ssh.ParsePrivateKey\<close> says of key material and \<open>rh_public\<close> the
  authorized_keys line of the key it holds; \<open>rh_run\<close> is \<open>op\<close> as the resolver calls it.
\<close>

record restore_host =
  rh_codec :: "server list codec"
  rh_faults :: faults
  rh_letter :: "nat \<Rightarrow> bool"
  rh_home :: "string option"
  rh_force :: bool
  rh_parse :: "string \<Rightarrow> (go_error \<times> bool) option"
  rh_public :: "string \<Rightarrow> string"
  rh_cli :: cli
  rh_run :: op_run

definition publicKeyLine :: "restore_host \<Rightarrow> string \<Rightarrow> string option" where
  "publicKeyLine r data = (if rh_parse r data = None then Some (trim_space (rh_public r data)) else None)"

definition mayReplaceLocalKey :: "restore_host \<Rightarrow> string \<Rightarrow> string \<Rightarrow> files \<Rightarrow> bool res" where
  "mayReplaceLocalKey r path incoming fs =
     (if rh_force r then Inr True
      else (case os_ReadFile (rh_faults r) (path_clean path) fs of
              Inl e \<Rightarrow> (if errors_is e not_exist then Inr True else Inl (wrap (''inspect '' @ path @ '': '') e []))
            | Inr existing \<Rightarrow>
                (case (publicKeyLine r existing, publicKeyLine r incoming) of
                   (Some a, Some b) \<Rightarrow> Inr (a = b)
                 | _ \<Rightarrow> Inr (trim_space existing = trim_space incoming))))"

definition writePublicKeyFile :: "restore_host \<Rightarrow> string \<Rightarrow> string \<Rightarrow> files \<Rightarrow> files" where
  "writePublicKeyFile r privateKeyPath keyData fs =
     (if rh_parse r keyData \<noteq> None then fs
      else snd (os_WriteFile (rh_faults r) (privateKeyPath @ ''.pub'') (rh_public r keyData) fs))"

definition with_newline :: "string \<Rightarrow> string" where
  "with_newline d = (if d \<noteq> [] \<and> last d = CHR 0x0A then d else d @ [CHR 0x0A])"

definition writeRestoredKey ::
    "restore_host \<Rightarrow> io \<Rightarrow> server \<Rightarrow> string \<Rightarrow> string \<Rightarrow> server_state \<Rightarrow> files
     \<Rightarrow> bool res \<times> server \<times> server_state \<times> files" where
  "writeRestoredKey r io srv keyData source st fs =
     (case validatePrivateKeyContent (rh_parse r) keyData of
        Some e \<Rightarrow> (Inl (wrap (source @ '' does not contain a usable SSH private key: '') e []), srv, st, fs)
      | None \<Rightarrow>
     (case setupKeyPath (rh_letter r) (rh_home r) (s_name srv) of
        Inl e \<Rightarrow> (Inl e, srv, st, fs)
      | Inr (storedDest, dest) \<Rightarrow>
     (case mayReplaceLocalKey r dest (with_newline keyData) fs of
        Inl e \<Rightarrow> (Inl e, srv, st, fs)
      | Inr False \<Rightarrow> (Inr False, srv, st, fs)
      | Inr True \<Rightarrow>
     (case ff_mkdir (rh_faults r) (path_dir dest) of
        Some e \<Rightarrow> (Inl (wrap ''create ~/.ssh directory: '' e []), srv, st, fs)
      | None \<Rightarrow>
     (case os_WriteFile (rh_faults r) dest (with_newline keyData) fs of
        (Some e, fs1) \<Rightarrow> (Inl (wrap (''write private key to '' @ dest @ '': '') e []), srv, st, fs1)
      | (None, fs1) \<Rightarrow>
     (let fs2 = writePublicKeyFile r dest (with_newline keyData) fs1; srv1 = srv\<lparr>s_key_path := storedDest\<rparr>
      in if s_key_path srv = storedDest then (Inr True, srv, st, fs2)
         else (case server_save (rh_codec r) io srv1 st of
                 (Inl e, st1) \<Rightarrow> (Inl (wrap (''rebind server '' @ go_quote (s_name srv) @ '' to the local key: '') e []), srv1, st1, fs2)
               | (Inr u, st1) \<Rightarrow> (Inr True, srv1, st1, fs2))))))))"

definition item_of_ref :: "string \<Rightarrow> string" where
  "item_of_ref ref = (case Parse1PRef ref of None \<Rightarrow> [] | Some (v, i, f) \<Rightarrow> i)"

definition restoreKeyFromOnePassword ::
    "restore_host \<Rightarrow> io \<Rightarrow> server \<Rightarrow> string \<Rightarrow> server_state \<Rightarrow> files \<Rightarrow> bool res \<times> server \<times> server_state \<times> files" where
  "restoreKeyFromOnePassword r io srv ref st fs =
     (case ResolveSSHKey (rh_cli r) (rh_run r) ref of
        Inl e \<Rightarrow> (Inl e, srv, st, fs)
      | Inr keyData \<Rightarrow> writeRestoredKey r io srv keyData (''the 1Password item '' @ go_quote (item_of_ref ref)) st fs)"

definition restoreKeyFromBlob ::
    "restore_host \<Rightarrow> io \<Rightarrow> server \<Rightarrow> string \<Rightarrow> server_state \<Rightarrow> files \<Rightarrow> bool res \<times> server \<times> server_state \<times> files" where
  "restoreKeyFromBlob r io srv keyData st fs = writeRestoredKey r io srv keyData ''the 1Password backup document'' st fs"

definition restorePasswordFromBlob ::
    "restore_host \<Rightarrow> io \<Rightarrow> server \<Rightarrow> string \<Rightarrow> server_state \<Rightarrow> go_error option \<times> server_state" where
  "restorePasswordFromBlob r io srv password st =
     (case server_save (rh_codec r) io (srv\<lparr>s_password := password\<rparr>) st of
        (Inl e, st1) \<Rightarrow> (Some (wrap ''write the password back into servers.yaml: '' e []), st1)
      | (Inr u, st1) \<Rightarrow> (None, st1))"

definition restorePasswordFromOnePassword ::
    "restore_host \<Rightarrow> io \<Rightarrow> server \<Rightarrow> string \<Rightarrow> server_state \<Rightarrow> go_error option \<times> server_state" where
  "restorePasswordFromOnePassword r io srv ref st =
     (case ResolvePassword (rh_cli r) (rh_run r) ref of
        Inl e \<Rightarrow> (Some e, st)
      | Inr password \<Rightarrow>
          (if password = []
           then (Some (errors_new (''the 1Password item '' @ go_quote (item_of_ref ref) @ '' returned an empty password'')), st)
           else restorePasswordFromBlob r io srv password st))"

section \<open>One server\<close>

record restore_outcome =
  ro_name :: string
  ro_key :: bool
  ro_password :: bool
  ro_migrated :: bool
  ro_reason :: string
  ro_blocked :: bool
  ro_err :: "go_error option"

definition blocked_reason :: string where
  "blocked_reason = ''a different key already occupies the local path; re-run with --force to replace it''"

text \<open>The key of \<open>restoreOneServer\<close>: nothing to do, or what writing it gave.\<close>

definition restore_key ::
    "restore_host \<Rightarrow> io \<Rightarrow> restore_plan \<Rightarrow> restore_outcome \<Rightarrow> server_state \<Rightarrow> files
     \<Rightarrow> restore_outcome \<times> server \<times> server_state \<times> files" where
  "restore_key r io p o0 st fs =
     (if rq_keyRef p = [] \<and> rq_keyFromBlob p = [] then (o0, rq_server p, st, fs)
      else (case (if rq_keyFromBlob p \<noteq> [] then restoreKeyFromBlob r io (rq_server p) (rq_keyFromBlob p) st fs
                  else restoreKeyFromOnePassword r io (rq_server p) (rq_keyRef p) st fs) of
              (Inl e, srv, st1, fs1) \<Rightarrow> (o0\<lparr>ro_err := Some e\<rparr>, srv, st1, fs1)
            | (Inr False, srv, st1, fs1) \<Rightarrow> (o0\<lparr>ro_blocked := True, ro_reason := blocked_reason\<rparr>, srv, st1, fs1)
            | (Inr True, srv, st1, fs1) \<Rightarrow> (o0\<lparr>ro_key := True, ro_migrated := rq_keyWasLegacy p\<rparr>, srv, st1, fs1)))"

definition restore_password ::
    "restore_host \<Rightarrow> io \<Rightarrow> restore_plan \<Rightarrow> server \<Rightarrow> restore_outcome \<Rightarrow> server_state \<Rightarrow> restore_outcome \<times> server_state" where
  "restore_password r io p srv o0 st =
     (if rq_passRef p = [] \<and> rq_passFromBlob p = [] then (o0, st)
      else (case (if rq_passFromBlob p \<noteq> [] then restorePasswordFromBlob r io srv (rq_passFromBlob p) st
                  else restorePasswordFromOnePassword r io srv (rq_passRef p) st) of
              (Some e, st1) \<Rightarrow> (o0\<lparr>ro_err := Some e\<rparr>, st1)
            | (None, st1) \<Rightarrow> (o0\<lparr>ro_password := True, ro_migrated := ro_migrated o0 \<or> rq_passWasLegacy p\<rparr>, st1)))"

definition restoreOneServer ::
    "restore_host \<Rightarrow> (nat \<Rightarrow> io) \<Rightarrow> restore_plan \<Rightarrow> server_state \<Rightarrow> files \<Rightarrow> restore_outcome \<times> server_state \<times> files" where
  "restoreOneServer r io p st fs =
     (let o0 = \<lparr>ro_name = s_name (rq_server p), ro_key = False, ro_password = False, ro_migrated = False, ro_reason = [],
                ro_blocked = False, ro_err = None\<rparr>
      in if rq_keyRef p = [] \<and> rq_keyFromBlob p = [] \<and> rq_passRef p = [] \<and> rq_passFromBlob p = []
         then (o0\<lparr>ro_reason := ''no credential is backed up in 1Password''\<rparr>, st, fs)
         else (case restore_key r (io 0) p o0 st fs of
                 (o1, srv, st1, fs1) \<Rightarrow>
                   (if ro_err o1 \<noteq> None then (o1, st1, fs1)
                    else (case restore_password r (io 1) p srv o1 st1 of (o2, st2) \<Rightarrow> (o2, st2, fs1)))))"

fun restoreServers ::
    "restore_host \<Rightarrow> (nat \<Rightarrow> nat \<Rightarrow> io) \<Rightarrow> nat \<Rightarrow> restore_plan list \<Rightarrow> server_state \<Rightarrow> files
     \<Rightarrow> restore_outcome list \<times> server_state \<times> files" where
  "restoreServers r io i [] st fs = ([], st, fs)"
| "restoreServers r io i (p # ps) st fs =
     (case restoreOneServer r (io i) p st fs of
        (o1, st1, fs1) \<Rightarrow>
          (case restoreServers r io (Suc i) ps st1 fs1 of (os, st2, fs2) \<Rightarrow> (o1 # os, st2, fs2)))"

section \<open>The report\<close>

definition countMigratedServers :: "restore_outcome list \<Rightarrow> nat" where
  "countMigratedServers os = length (filter ro_migrated os)"

definition restored :: "restore_outcome \<Rightarrow> bool" where
  "restored ro \<longleftrightarrow> ro_key ro \<or> ro_password ro"

datatype outcome_class = ClassFailed | ClassBlocked | ClassRestored | ClassSkipped

definition outcome_class :: "restore_outcome \<Rightarrow> outcome_class" where
  "outcome_class ro =
     (if ro_err ro \<noteq> None then ClassFailed
      else if ro_blocked ro then ClassBlocked
      else if restored ro then ClassRestored
      else ClassSkipped)"

definition restore_outcome_line :: "restore_outcome \<Rightarrow> string list" where
  "restore_outcome_line ro =
     (case outcome_class ro of
        ClassFailed \<Rightarrow> [ (utf8 [0x274C] @ '' '' @ go_quote (ro_name ro) @ '': '' @ err_text (the (ro_err ro))) ]
      | ClassBlocked \<Rightarrow> [ (utf8 [0x26A0, 0xFE0F] @ ''  '' @ go_quote (ro_name ro) @ '': '' @ ro_reason ro) ]
      | ClassRestored \<Rightarrow> []
      | ClassSkipped \<Rightarrow> [ (utf8 [0x23ED, 0xFE0F] @ ''  '' @ go_quote (ro_name ro) @ '': '' @ ro_reason ro) ])"

definition class_count :: "outcome_class \<Rightarrow> restore_outcome list \<Rightarrow> nat" where
  "class_count c os = length (filter (\<lambda>ro. outcome_class ro = c) os)"

definition reportRestoreOutcomes :: "restore_outcome list \<Rightarrow> string list \<times> go_error option" where
  "reportRestoreOutcomes os =
     (let passwords = length (filter (\<lambda>ro. ro_err ro = None \<and> ro_password ro) os);
          failed = class_count ClassFailed os; blocked = class_count ClassBlocked os
      in (concat (map restore_outcome_line os) @ [ [] ]
          @ (if passwords > 0 then [ (utf8 [0x26A0, 0xFE0F] @ ''  Wrote '' @ show_nat passwords @ '' plaintext password(s) into servers.yaml. They are the local copy now.'') ] else [])
          @ [ (''Restore finished: '' @ show_nat (class_count ClassRestored os) @ '' restored, '' @ show_nat (class_count ClassSkipped os) @ '' skipped, '' @ show_nat blocked @ '' blocked, '' @ show_nat failed @ '' failed.'') ],
          if failed > 0 then Some (errors_new (show_nat failed @ '' server(s) could not be restored''))
          else if blocked > 0 then Some (errors_new (show_nat blocked @ '' server(s) still need a decision before their credentials can be restored''))
          else None))"

definition unmatched_titles :: "string list \<Rightarrow> server list \<Rightarrow> string list" where
  "unmatched_titles titles servers =
     sort (filter (\<lambda>t. has_prefix t ''opspulse_'' \<and> \<not> IsInventoryItemTitle t
       \<and> t \<notin> SSHKeyItemTitle ` s_name ` set servers \<and> t \<notin> PasswordItemTitle ` s_name ` set servers
       \<and> t \<noteq> InventoryItemTitle) titles)"

definition reportUnmatchedVaultItems :: "vault_discovery \<Rightarrow> server list \<Rightarrow> string list" where
  "reportUnmatchedVaultItems d servers =
     (let unmatched = unmatched_titles (vd_titles d) servers
      in if unmatched = [] then []
         else [ [], (utf8 [0x2139, 0xFE0F] @ ''  '' @ show_nat (length unmatched) @ '' opspulse item(s) in vault '' @ go_quote (vd_vault d) @ '' match no server in servers.yaml: '' @ join_with '', '' unmatched),
                ''   OpsPulse does not create servers from vault items, because an item carries no host or user.'' ])"

section \<open>The command\<close>

fun get_targets :: "server list codec \<Rightarrow> (nat \<Rightarrow> io) \<Rightarrow> nat \<Rightarrow> string list \<Rightarrow> server_state \<Rightarrow> server list res \<times> server_state" where
  "get_targets cod io i [] st = (Inr [], st)"
| "get_targets cod io i (n # ns) st =
     (case server_get cod (io i) n st of
        (Inl e, st1) \<Rightarrow>
          (Inl (wrap [] e ([CHR 0x0A] @ [CHR 0x0A] @ ''run 'ops 1p restore' with no arguments first if the server list has not been restored yet'')), st1)
      | (Inr s, st1) \<Rightarrow>
          (case get_targets cod io (Suc i) ns st1 of
             (Inl e, st2) \<Rightarrow> (Inl e, st2)
           | (Inr ss, st2) \<Rightarrow> (Inr (s # ss), st2)))"

definition selectRestoreTargets ::
    "server list codec \<Rightarrow> (nat \<Rightarrow> io) \<Rightarrow> string list \<Rightarrow> server_state \<Rightarrow> server list res \<times> server_state" where
  "selectRestoreTargets cod io args st = (if args = [] then server_list cod (io 0) st else get_targets cod io 0 args st)"

record restore_flags =
  rf_vault :: string
  rf_yes :: bool
  rf_local :: bool
  rf_remote :: bool

text \<open>
  The parts of \<open>runRestoreFromOnePassword\<close> behind the vault: the credentials of the targets, after the confirmation.
\<close>

definition restore_credentials ::
    "restore_host \<Rightarrow> (nat \<Rightarrow> nat \<Rightarrow> io) \<Rightarrow> operator \<Rightarrow> bool \<Rightarrow> server list \<Rightarrow> vault_discovery \<Rightarrow> (string \<times> backup_credentials) list
     \<Rightarrow> server_state \<Rightarrow> files \<Rightarrow> go_error option \<times> restore_outcome list \<times> server_state \<times> files" where
  "restore_credentials r io op yes targets d creds st fs =
     (let plans = map (\<lambda>s. planRestore s (Some d) creds) targets; passwords = countRestorePasswords plans
      in case (if passwords > 0 then confirmPlaintextRestore op passwords yes else None) of
           Some e \<Rightarrow> (Some e, [], st, fs)
         | None \<Rightarrow>
             (case restoreServers r io 0 plans st fs of
                (os, st1, fs1) \<Rightarrow> (snd (reportRestoreOutcomes os), os, st1, fs1)))"

text \<open>The two questions: \<open>op\<close> is the terminal of the inventory, \<open>op2\<close> the one of the credentials.\<close>

definition runRestoreFromOnePassword ::
    "restore_host \<Rightarrow> (nat \<Rightarrow> nat \<Rightarrow> io) \<Rightarrow> (cli \<Rightarrow> op_host) \<Rightarrow> cli res \<times> string option \<Rightarrow> (string \<Rightarrow> string list res) \<Rightarrow> items_json
     \<Rightarrow> settings_env \<Rightarrow> string \<Rightarrow> restore_flags \<Rightarrow> operator \<Rightarrow> operator \<Rightarrow> string list \<Rightarrow> string list \<Rightarrow> server_state \<Rightarrow> files
     \<Rightarrow> go_error option \<times> restore_outcome list \<times> op_call list \<times> server_state \<times> files" where
  "runRestoreFromOnePassword r io host_of ensured names_of items_of se op_vault fl op op2 lines args st fs =
     (case validatePreferFlags (rf_local fl) (rf_remote fl) of
        Some e \<Rightarrow> (Some e, [], [], st, fs)
      | None \<Rightarrow>
     (case (if args = [] then (Inr [], st) else selectRestoreTargets (rh_codec r) (io 0) args st) of
        (Inl e, st1) \<Rightarrow> (Some e, [], [], st1, fs)
      | (Inr named, st1) \<Rightarrow>
     (case ensured of
        (Inl e, f1) \<Rightarrow> (Some e, [], [], st1, fs)
      | (Inr c, f1) \<Rightarrow>
     (case resolveAndValidateVault (host_of c) names_of se op_vault (rf_vault fl) False [] f1 of
        (Inl e, tr1, f2) \<Rightarrow> (Some e, [], tr1, st1, fs)
      | (Inr vault, tr1, f2) \<Rightarrow>
     (case readBackupBlobs (host_of c) items_of vault (newItemIndex vault) tr1 of
        (Inl e, ix, tr2) \<Rightarrow> (Some e, [], tr2, st1, fs)
      | (Inr blobs, ix, tr2) \<Rightarrow>
     (case (if args \<noteq> [] then ((True, None), ix, tr2, st1)
            else restoreInventoryFromOnePassword (host_of c) items_of (rh_codec r) (io 1) op (rf_yes fl) vault
                   (newInventoryConflictPrompt lines (op_interactive op) (rf_local fl) (rf_remote fl)) blobs ix tr2 st1) of
        ((found, Some e), ix1, tr3, st2) \<Rightarrow> (Some e, [], tr3, st2, fs)
      | ((found, None), ix1, tr3, st2) \<Rightarrow>
     (case (if args \<noteq> [] then (Inr named, st2) else selectRestoreTargets (rh_codec r) (io 2) [] st2) of
        (Inl e, st3) \<Rightarrow> (Some e, [], tr3, st3, fs)
      | (Inr targets, st3) \<Rightarrow>
     (if targets = [] then (Some (errors_new ''nothing to restore: servers.yaml holds no servers''), [], tr3, st3, fs)
      else
     (case index_titles (host_of c) items_of ix1 tr3 of
        (Inl e, ix2, tr4) \<Rightarrow> (Some e, [], tr4, st3, fs)
      | (Inr titles, ix2, tr4) \<Rightarrow>
     (case restore_credentials r (\<lambda>i. io (3 + i)) op2 (rf_yes fl) targets
             \<lparr>vd_vault = vault, vd_titles = titles, vd_backups = []\<rparr> (collectBackupCredentials blobs) st3 fs of
        (e, os, st4, fs1) \<Rightarrow> (e, os, tr4, st4, fs1)))))))))))"

section \<open>\<open>ops 1p status\<close>\<close>

definition onePasswordRefDisplay :: "string \<Rightarrow> string" where
  "onePasswordRefDisplay ref = (case Parse1PRef ref of None \<Rightarrow> ref | Some (v, i, f) \<Rightarrow> v @ ''/'' @ i)"

definition describeKeySource :: "string option \<Rightarrow> server \<Rightarrow> string" where
  "describeKeySource home s =
     (if Is1PRef (s_key_path s) then (''legacy 1password ref ('' @ onePasswordRefDisplay (s_key_path s) @ '')'')
      else if trim_space (s_key_path s) \<noteq> []
      then (''local file ('' @ s_key_path s @ (if isManagedKey home (s_key_path s) then '', managed'' else []) @ '')'')
      else ''-'')"

definition describePasswordSource :: "server \<Rightarrow> string" where
  "describePasswordSource s =
     (if Is1PRef (s_password s) then (''legacy 1password ref ('' @ onePasswordRefDisplay (s_password s) @ '')'')
      else if trim_space (s_password s) \<noteq> [] then ''plaintext (servers.yaml)''
      else ''-'')"

definition describeBackupState :: "vault_discovery option \<Rightarrow> server \<Rightarrow> string" where
  "describeBackupState d s =
     (if discovered_key d (s_name s) \<noteq> [] then (utf8 [0x2705] @ '' '' @ onePasswordRefDisplay (discovered_key d (s_name s)))
      else if backedUpIn d (s_name s) \<noteq> [] then (utf8 [0x2705] @ '' '' @ join_with '', '' (backedUpIn d (s_name s)))
      else (utf8 [0x274C] @ '' not backed up''))"

definition serversWithMissingKeyFiles :: "faults \<Rightarrow> string option \<Rightarrow> files \<Rightarrow> server list \<Rightarrow> string list" where
  "serversWithMissingKeyFiles ff home fs servers =
     map s_name (filter (\<lambda>srv. s_key_path srv \<noteq> [] \<and> \<not> Is1PRef (s_key_path srv)
       \<and> (ff_stat ff (ExpandPath home (s_key_path srv)) \<noteq> None \<or> fs (ExpandPath home (s_key_path srv)) = None)) servers)"

definition status_row :: "vault_discovery option \<Rightarrow> string option \<Rightarrow> server \<Rightarrow> string list" where
  "status_row d home s =
     [s_name s, describeKeySource home s, case d of None \<Rightarrow> describePasswordSource s | Some v \<Rightarrow> describeBackupState d s]"

text \<open>What \<open>runOnePasswordStatus\<close> prints below the table about the servers.\<close>

definition status_verdict :: "faults \<Rightarrow> string option \<Rightarrow> files \<Rightarrow> server list \<Rightarrow> string list" where
  "status_verdict ff home fs filtered =
     (let legacy = length (filter (\<lambda>s. Is1PRef (s_key_path s) \<or> Is1PRef (s_password s)) filtered);
          missing = serversWithMissingKeyFiles ff home fs filtered
      in (if legacy > 0
          then [ (utf8 [0x26A0, 0xFE0F] @ ''  '' @ show_nat legacy @ ''/'' @ show_nat (length filtered) @ '' server(s) still hold an 'op://' reference, which the runtime no longer resolves. Run 'ops 1p restore' to migrate them.'') ]
          else if missing = []
          then [ (utf8 [0x2705] @ '' All '' @ show_nat (length filtered) @ '' server(s) resolve their credentials from local disk.'') ]
          else [])
       @ (if missing = [] then []
          else [ (utf8 [0x26A0, 0xFE0F] @ ''  '' @ show_nat (length missing) @ '' server(s) point at a private key file that is not on this machine: '' @ join_with '', '' missing),
                 ''   Run 'ops 1p restore <name>' to write the backed-up key to disk.'' ]))"

section \<open>Asking\<close>

lemma ask_conflict_step:
  assumes "ask_conflict p (a # rest) = (d, p')"
  shows "cp_lines p' = rest \<or> ask_conflict p rest = (d, p')"
  using assms unfolding ask_conflict.simps Let_def
  by (simp only: split: if_split_asm) ((elim disjE conjE)?; (rule disjI2, rule refl | clarsimp))+

lemma ask_conflict_lines: "ask_conflict p ls = (d, p') \<Longrightarrow> length (cp_lines p') \<le> length ls"
proof (induction ls arbitrary: p')
  case (Cons a rest)
  then show ?case using ask_conflict_step[OF Cons.prems] by (auto simp del: ask_conflict.simps intro: le_SucI)
qed auto

text \<open>Quitting at one conflict does not stop the questions: the next one still reads the next line.\<close>

lemma quit_still_asks:
  assumes "\<not> cp_remote p" "\<not> cp_local p" "cp_sticky p = None" "cp_lines p = a # rest"
  shows "length (cp_lines (snd (decide p c))) \<le> length rest"
proof -
  obtain d p' where run: "ask_conflict (p\<lparr>cp_legend := True\<rparr>) (a # rest) = (d, p')" by (meson surj_pair)
  have "length (cp_lines p') \<le> length rest"
    using ask_conflict_step[OF run] ask_conflict_lines by blast
  then show ?thesis using assms run by (simp add: decide_def del: ask_conflict.simps)
qed

text \<open>A prompt whose answers are fixed beforehand merges as the callback that gives those answers.\<close>

lemma prompted_fold_const:
  assumes "\<And>c. decide p c = (d, p)"
  shows "foldl prompted_step (mu, p) chs = (foldl (choice_step (\<lambda>c. d)) mu chs, p)"
  by (induction chs arbitrary: mu) (simp_all add: prompted_step_def assms)

lemma MergeWithPrompt_fixed:
  assumes "cp_remote p \<or> cp_local p"
  shows "MergeWithPrompt local remote p =
           (MergeInventories local remote (Some (\<lambda>c. if cp_remote p then TakeRemote else KeepLocal)), p)"
proof -
  have d: "decide p c = (if cp_remote p then TakeRemote else KeepLocal, p)" for c
    using assms by (auto simp: decide_def)
  have h: "has_decider p" using assms by (auto simp: has_decider_def)
  show ?thesis
    by (simp only: MergeWithPrompt_def h MergeInventories_def merge_first_def Let_def prompted_fold_const[OF d])
      (simp split: prod.splits)
qed

section \<open>A merge with questions keeps this machine's servers\<close>

definition merge_keeps :: "server list \<Rightarrow> string set \<Rightarrow> server list \<Rightarrow> bool" where
  "merge_keeps local names merged \<longleftrightarrow> merge_inv False local names merged"

lemma prompted_fold_inv:
  assumes "merge_inv False local names ms" "\<forall>(i, c)\<in>set chs. i < length ms \<and> s_name (mc_remote c) = s_name (ms ! i)"
  shows "merge_inv False local names (fst (fst (foldl prompted_step ((ms, u), p) chs)))"
  using assms
proof (induction chs arbitrary: ms u p)
  case (Cons ch chs)
  obtain d p1 where d: "decide p (snd ch) = (d, p1)" by (meson surj_pair)
  obtain i c where ch: "ch = (i, c)" by force
  obtain r b where res: "resolveServer (ms ! i) (mc_remote c) (d = TakeRemote) = (r, b)" by force
  obtain ms1 u1 where st: "choice_step (\<lambda>c. d) (ms, u) ch = (ms1, u1)" by (meson surj_pair)
  have ms1: "ms1 = (if b then ms[i := r] else ms)" using st res by (auto simp: choice_step_def ch split: if_splits)
  have nm: "s_name (mc_remote c) = s_name (ms ! i)" using Cons.prems(2) ch by simp
  have kp: "keeps False (ms ! i) r" using resolveServer_keeps[OF res nm, of False] by simp
  have inv: "merge_inv False local names ms1" using merge_inv_update[OF Cons.prems(1) kp] Cons.prems(1) by (simp add: ms1)
  have "s_name (ms[i := r] ! j) = s_name (ms ! j)" for j using keeps_name[OF kp] by (rule nth_update_name)
  then have "\<forall>(j, c)\<in>set chs. j < length ms1 \<and> s_name (mc_remote c) = s_name (ms1 ! j)"
    using Cons.prems(2) by (auto simp: ms1)
  then show ?case using Cons.IH[OF inv, of u1 p1] by (simp add: prompted_step_def d st)
qed simp

lemma merge_first_inv:
  assumes "distinct (map s_name local)"
  shows "step_inv local (s_name ` set remote) (merge_first local remote)"
proof -
  have "step_inv local {} \<lparr>ms_merged = local, ms_index = rev (zip (map s_name local) [0..<length local]), ms_added = 0,
      ms_updated = 0, ms_choices = []\<rparr>"
    using assms by (simp add: step_inv_def merge_inv_def keeps_refl map_of_index)
  from merge_fold_inv[OF this, of remote] show ?thesis by (simp add: merge_first_def)
qed

lemma MergeWithPrompt_keeps:
  assumes d: "distinct (map s_name local)" and run: "MergeWithPrompt local remote p = (m, p')" "mr_error m = None"
  shows "merge_inv False local (s_name ` set remote) (mr_merged m)"
proof (cases "has_decider p")
  case False
  then have m: "m = MergeInventories local remote None" using run(1) by (simp add: MergeWithPrompt_def)
  then have "mr_merged m = ms_merged (merge_first local remote)"
    using run(2) by (auto simp: MergeInventories_def merge_first_def Let_def split: if_splits)
  then show ?thesis using merge_first_inv[OF d, of remote] by (auto simp: step_inv_def intro: merge_inv_weaken)
next
  case True
  let ?m = "merge_first local remote"
  obtain merged u p1 where f: "foldl prompted_step ((ms_merged ?m, ms_updated ?m), p) (ms_choices ?m) = ((merged, u), p1)"
    by (metis prod.collapse)
  have weak: "merge_inv False local (s_name ` set remote) (ms_merged ?m)"
    and choices: "\<forall>(i, c)\<in>set (ms_choices ?m). i < length (ms_merged ?m) \<and> s_name (mc_remote c) = s_name (ms_merged ?m ! i)"
    using merge_first_inv[OF d, of remote] by (auto simp: step_inv_def intro: merge_inv_weaken)
  have "merge_inv False local (s_name ` set remote) merged"
    using prompted_fold_inv[OF weak, of "ms_choices ?m" "ms_updated ?m" p] f choices by simp
  then show ?thesis using run(1) True f by (auto simp: MergeWithPrompt_def Let_def)
qed

lemma merge_inv_trans:
  assumes "merge_inv False a m1 b" "merge_inv False b m2 c"
  shows "merge_inv False a (m1 \<union> m2) c"
proof -
  have "keeps False (a ! i) (c ! i)" if "i < length a" for i
    using assms that keeps_trans[of False "a ! i" "b ! i" "c ! i"] by (simp add: merge_inv_def)
  then show ?thesis using assms by (auto simp: merge_inv_def)
qed

lemma mergeBackupServers_keeps:
  assumes "distinct (map s_name local)" "mergeBackupServers local blobs p = (Inr (merged, a, u), p')"
  shows "merge_inv False local (\<Union>b\<in>set blobs. s_name ` set (bf_servers (bb_file b))) merged"
  using assms
proof (induction blobs arbitrary: local p a u)
  case Nil
  then show ?case by (auto simp: merge_inv_def keeps_refl)
next
  case (Cons b bs)
  obtain m p1 where m: "MergeWithPrompt local (bf_servers (bb_file b)) p = (m, p1)" by (meson surj_pair)
  have ok: "mr_error m = None" and na: "\<not> cp_aborted p1"
    using Cons.prems(2) m by (auto split: option.splits if_splits)
  obtain r p2 where r: "mergeBackupServers (mr_merged m) bs p1 = (r, p2)" by (meson surj_pair)
  obtain a2 u2 where "r = Inr (merged, a2, u2)" using Cons.prems(2) m ok na r by (auto split: sum.splits)
  note inv = MergeWithPrompt_keeps[OF Cons.prems(1) m ok]
  then have "distinct (map s_name (mr_merged m))" by (simp add: merge_inv_def)
  from Cons.IH[OF this, of p1 a2 u2] r \<open>r = Inr (merged, a2, u2)\<close> Cons.prems(2) m ok na
  show ?case using merge_inv_trans[OF inv] by simp
qed

section \<open>Nothing is lost and no password is written unasked\<close>

lemma keeps_defaults: "keeps False s t \<Longrightarrow> keeps False s (with_defaults t)"
  by (simp add: keeps_def with_defaults_def)

lemma password_moves_defaults: "password_moves local (with_defaults t) = password_moves local t"
  by (simp add: password_moves_def with_defaults_def)

lemma unmoved_own:
  assumes "distinct (map s_name local)" "t \<in> set local"
  shows "\<not> password_moves local t"
proof -
  have "map_of (rev (map (\<lambda>s. (s_name s, s_password s)) local)) (s_name t) = Some (s_password t)"
    using assms by (intro map_of_is_SomeI) (auto simp: rev_map[symmetric] comp_def)
  then show ?thesis by (simp add: password_moves_def)
qed

definition inventory_consent :: "operator \<Rightarrow> bool \<Rightarrow> nat \<Rightarrow> bool" where
  "inventory_consent op yes n \<longleftrightarrow> confirmPlaintextRestore op n yes = None"

lemma inventory_consent_iff:
  "inventory_consent op yes n \<longleftrightarrow>
     yes \<or> (op_interactive op \<and> promptConfirm (op_types op
       (utf8 [0x26A0, 0xFE0F] @ ''  Warning: restoring will write '' @ show_nat n @ '' plaintext password(s) into servers.yaml.'' @ [CHR 0x0A] @ ''Are you sure you want to proceed? [y/N]: '')) False)"
  by (auto simp: inventory_consent_def confirmPlaintextRestore_def confirmGate_def)

lemma write_inventory_cases:
  assumes wf: "sv_wf cod st" and local: "sv_entries cod st = local"
    and kept: "merge_inv False local names merged" and run: "write_inventory cod io op yes local merged st = (r, st')"
  shows "sv_wf cod st'"
    and "r \<noteq> None \<Longrightarrow> sv_entries cod st' = local"
    and "\<forall>s\<in>set local. \<exists>t\<in>set (sv_entries cod st'). keeps False s t"
    and "\<forall>t\<in>set (sv_entries cod st'). password_moves local t \<longrightarrow>
           inventory_consent op yes (countPlaintextPasswordsToWrite local merged)"
proof -
  let ?P = "sv_wf cod st' \<and> (r \<noteq> None \<longrightarrow> sv_entries cod st' = local)
      \<and> (sv_entries cod st' = local
         \<or> (sv_entries cod st' = map with_defaults merged
            \<and> (countPlaintextPasswordsToWrite local merged = 0
               \<or> inventory_consent op yes (countPlaintextPasswordsToWrite local merged))))"
  let ?n = "countPlaintextPasswordsToWrite local merged"
  have P: ?P
  proof (cases "merged = [] \<or> SameInventory merged local")
    case True
    then show ?thesis using run wf local by (auto simp: write_inventory_def)
  next
    case False
    show ?thesis
    proof (cases "if ?n > 0 then confirmPlaintextRestore op ?n yes else None")
      case (Some e)
      then show ?thesis using run False wf local by (auto simp: write_inventory_def Let_def)
    next
      case None
      then have con: "?n = 0 \<or> inventory_consent op yes ?n" by (auto simp: inventory_consent_def split: if_splits)
      show ?thesis
      proof (cases "enc cod merged")
        case (Inl e)
        then show ?thesis using run False None wf local by (auto simp: write_inventory_def Let_def marshalInventory_def)
      next
        case (Inr d)
        obtain q st1 where rep: "server_replace cod io d st = (q, st1)" by (meson surj_pair)
        have d: "d \<noteq> []" "dec cod d = Decoded merged" using wf Inr by (auto simp: sv_wf_def codec_ok_def)
        note rc = server_replace_cases[OF wf rep d(1)]
        have st': "st' = st1" "r = None \<longleftrightarrow> is_ok q"
          using run False None Inr rep by (auto simp: write_inventory_def Let_def marshalInventory_def split: sum.splits)
        show ?thesis
        proof (cases q)
          case (Inl e)
          then show ?thesis using rc st' local by simp
        next
          case (Inr u)
          then have "validateServers merged = Inr (sv_entries cod st')"
            using rc d(2) st' by (simp add: parseAndValidateConfig_def)
          then have "sv_entries cod st' = map with_defaults merged" by (auto simp: validateServers_Inr validate_each_Inr)
          then show ?thesis using rc st' con Inr by simp
        qed
      qed
    qed
  qed
  then show "sv_wf cod st'" and "r \<noteq> None \<Longrightarrow> sv_entries cod st' = local" by blast+
  have "\<exists>t\<in>set merged. keeps False s t" if "s \<in> set local" for s
  proof -
    obtain i where i: "i < length local" "s = local ! i" using \<open>s \<in> set local\<close> by (metis in_set_conv_nth)
    then have "keeps False s (merged ! i)" "i < length merged" using kept by (auto simp: merge_inv_def)
    then show ?thesis by (metis nth_mem)
  qed
  then show "\<forall>s\<in>set local. \<exists>t\<in>set (sv_entries cod st'). keeps False s t"
    using P keeps_defaults keeps_refl by fastforce
  have own: "\<not> password_moves local t" if "t \<in> set local" for t
    using unmoved_own[OF _ that] good_list_distinct sv_entries_good[OF wf] local by blast
  have none: "?n = 0 \<Longrightarrow> t \<in> set merged \<Longrightarrow> \<not> password_moves local t" for t
    by (simp add: countPlaintextPasswordsToWrite_def filter_empty_conv)
  show "\<forall>t\<in>set (sv_entries cod st'). password_moves local t \<longrightarrow>
           inventory_consent op yes (countPlaintextPasswordsToWrite local merged)"
    using P own none password_moves_defaults by fastforce
qed

text \<open>
  C7. A restore of the inventory never loses a server or a credential of this machine: every local server is still there
  afterwards, with the key path and the password it had; when the restore fails servers.yaml is what it was; and a
  plaintext password that was not there before is written only with consent, from --yes or from the terminal.
\<close>

theorem restore_inventory_safe:
  assumes wf: "sv_wf cod st"
    and run: "restoreInventoryFromOnePassword h items_of cod io op yes vault prompt blobs ix tr st = ((found, r), ix', tr', st')"
  shows "sv_wf cod st' \<and> (r \<noteq> None \<longrightarrow> sv_entries cod st' = sv_entries cod st)
       \<and> (\<forall>s\<in>set (sv_entries cod st). \<exists>t\<in>set (sv_entries cod st'). keeps False s t)
       \<and> (\<forall>t\<in>set (sv_entries cod st'). password_moves (sv_entries cod st) t \<longrightarrow> (\<exists>n. inventory_consent op yes n))"
proof -
  obtain q st1 where rd: "server_list cod (io 0) st = (q, st1)" by (meson surj_pair)
  note fr = sv_read_frame[OF wf rd[unfolded server_list_def]]
  have d: "distinct (map s_name (sv_entries cod st))" using good_list_distinct sv_entries_good[OF wf] by blast
  have own: "\<not> password_moves (sv_entries cod st) t" if "t \<in> set (sv_entries cod st)" for t
    using unmoved_own[OF d that] .
  have same: ?thesis if "st' = st1"
    using that fr own keeps_refl by fastforce
  have written: ?thesis
    if inv: "merge_inv False (sv_entries cod st) names merged"
      and w: "write_inventory cod (io 1) op yes (sv_entries cod st) merged st1 = (r, st')" for names merged
    using write_inventory_cases[OF _ _ inv w] fr by blast
  show ?thesis
  proof (cases q)
    case (Inl e)
    then show ?thesis using run rd same by (simp add: restoreInventoryFromOnePassword_def)
  next
    case (Inr local)
    then have local: "local = sv_entries cod st" using fr by simp
    show ?thesis
    proof (cases "blobs = []")
      case False
      obtain m p1 where m: "mergeBackupServers local blobs prompt = (m, p1)" by (meson surj_pair)
      show ?thesis
      proof (cases m)
        case (Inl e)
        then show ?thesis using run rd Inr False m same by (simp add: restoreInventoryFromOnePassword_def \<open>q = Inr local\<close>)
      next
        case (Inr x)
        obtain merged a u where x: "x = (merged, a, u)" by (metis prod_cases3)
        obtain r2 st2 where w: "write_inventory cod (io 1) op yes local merged st1 = (r2, st2)" by (meson surj_pair)
        have "r2 = r \<and> st2 = st'"
          using run rd \<open>q = Inr local\<close> False m Inr x w by (simp add: restoreInventoryFromOnePassword_def)
        then show ?thesis
          using written[OF mergeBackupServers_keeps[of local blobs prompt merged a u p1, unfolded local]] w m Inr x d local by simp
      qed
    next
      case True
      obtain m ix1 tr1 where i: "readInventoryFromOnePassword h items_of cod vault ix tr = (m, ix1, tr1)" by (metis prod_cases3)
      note run1 = run[unfolded restoreInventoryFromOnePassword_def rd \<open>q = Inr local\<close> i]
      show ?thesis
      proof (cases "\<exists>remote. m = Inr (Some remote) \<and> remote \<noteq> []")
        case False
        then show ?thesis using run1 True same by (auto split: sum.splits option.splits if_splits)
      next
        case some: True
        then obtain remote where remote: "m = Inr (Some remote)" "remote \<noteq> []" by blast
        obtain mm p1 where mm: "MergeWithPrompt local remote prompt = (mm, p1)" by (meson surj_pair)
        show ?thesis
        proof (cases "mr_error mm = None \<and> \<not> cp_aborted p1")
          case False
          then show ?thesis using run1 True remote mm same by (auto split: option.splits if_splits)
        next
          case ok: True
          obtain r2 st2 where w: "write_inventory cod (io 1) op yes local (mr_merged mm) st1 = (r2, st2)" by (meson surj_pair)
          have "r2 = r \<and> st2 = st'" using run1 True remote mm ok w by simp
          then show ?thesis using written[OF MergeWithPrompt_keeps[OF _ mm, unfolded local]] w ok d local by simp
        qed
      qed
    qed
  qed
qed

section \<open>A local key is replaced by the same key only\<close>

definition same_key :: "restore_host \<Rightarrow> string \<Rightarrow> string \<Rightarrow> bool" where
  "same_key r a b \<longleftrightarrow>
     (case (publicKeyLine r a, publicKeyLine r b) of
        (Some x, Some y) \<Rightarrow> x = y
      | _ \<Rightarrow> trim_space a = trim_space b)"

lemma setup_dest_clean:
  assumes "setupKeyPath letter (Some h) n = Inr (stored, dest)" "is_rooted h"
  shows "path_clean dest = dest"
proof -
  have "h \<noteq> []" using assms(2) by auto
  then have "dest = path_clean (h @ slash # ''.ssh'' @ slash # ''opspulse_'' @ sanitiseName letter n)"
    using assms(1) by (auto simp: setupKeyPath_def Let_def path_join_def)
  moreover have "is_rooted (h @ slash # ''.ssh'' @ slash # ''opspulse_'' @ sanitiseName letter n)"
    using assms(2) by (cases h) auto
  ultimately show ?thesis using path_clean_rooted_idem by metis
qed

lemma mayReplace_same:
  assumes "mayReplaceLocalKey r p inc fs = Inr True" "\<not> rh_force r" "honest_reads (rh_faults r)" "path_clean p = p"
    "fs p = Some (RegularFile k)"
  shows "same_key r k inc"
proof (cases "ff_read (rh_faults r) p")
  case None
  then show ?thesis
    using assms by (auto simp: mayReplaceLocalKey_def os_ReadFile_def same_key_def split: option.splits if_splits)
next
  case (Some e)
  then have "\<not> errors_is e not_exist" using assms(3) by (auto simp: honest_reads_def)
  then show ?thesis using assms Some by (simp add: mayReplaceLocalKey_def os_ReadFile_def)
qed

lemma os_WriteFile_frame: "os_WriteFile ff p d fs = (e, fs') \<Longrightarrow> q \<noteq> p \<Longrightarrow> fs' q = fs q"
  by (auto simp: os_WriteFile_def split: option.splits prod.splits)

lemma writePublicKeyFile_frame: "q \<noteq> p @ ''.pub'' \<Longrightarrow> writePublicKeyFile r p d fs q = fs q"
  using os_WriteFile_frame[of "rh_faults r" "p @ ''.pub''" "rh_public r d" fs] 
  by (auto simp: writePublicKeyFile_def) (metis prod.collapse)

lemma writeRestoredKey_files:
  assumes "writeRestoredKey r io srv d source st fs = (res, srv', st', fs')" "fs' q \<noteq> fs q"
  shows "\<exists>stored dest. setupKeyPath (rh_letter r) (rh_home r) (s_name srv) = Inr (stored, dest)
       \<and> mayReplaceLocalKey r dest (with_newline d) fs = Inr True \<and> (q = dest \<or> q = dest @ ''.pub'')"
proof (cases "validatePrivateKeyContent (rh_parse r) d")
  case (Some e)
  then show ?thesis using assms by (simp add: writeRestoredKey_def)
next
  case valid: None
  show ?thesis
  proof (cases "setupKeyPath (rh_letter r) (rh_home r) (s_name srv)")
    case (Inl e)
    then show ?thesis using assms valid by (simp add: writeRestoredKey_def)
  next
    case (Inr sd)
    obtain stored dest where sd: "sd = (stored, dest)" by force
    show ?thesis
    proof (cases "mayReplaceLocalKey r dest (with_newline d) fs = Inr True")
      case False
      then have "fs' = fs" using assms(1) valid Inr sd
        by (auto simp: writeRestoredKey_def split: sum.splits bool.splits)
      then show ?thesis using assms(2) by simp
    next
      case True
      obtain e fs1 where w: "os_WriteFile (rh_faults r) dest (with_newline d) fs = (e, fs1)" by (meson surj_pair)
      have "fs' = fs \<or> fs' = fs1 \<or> fs' = writePublicKeyFile r dest (with_newline d) fs1"
        using assms(1) valid Inr sd True w
        by (auto simp: writeRestoredKey_def Let_def split: option.splits if_splits sum.splits prod.splits)
      then have "q = dest \<or> q = dest @ ''.pub''"
        using assms(2) os_WriteFile_frame[OF w] writePublicKeyFile_frame by metis
      then show ?thesis using Inr sd True by blast
    qed
  qed
qed

text \<open>The key a plan brings, where it brings one.\<close>

definition planned_key :: "restore_host \<Rightarrow> restore_plan \<Rightarrow> string option" where
  "planned_key r p =
     (if rq_keyFromBlob p \<noteq> [] then Some (rq_keyFromBlob p)
      else if rq_keyRef p = [] then None
      else case ResolveSSHKey (rh_cli r) (rh_run r) (rq_keyRef p) of Inl e \<Rightarrow> None | Inr d \<Rightarrow> Some d)"

lemma restore_key_files:
  assumes "restore_key r io p o0 st fs = (o1, srv, st', fs')" "fs' q \<noteq> fs q"
  shows "\<exists>d stored dest. planned_key r p = Some d
       \<and> setupKeyPath (rh_letter r) (rh_home r) (s_name (rq_server p)) = Inr (stored, dest)
       \<and> mayReplaceLocalKey r dest (with_newline d) fs = Inr True \<and> (q = dest \<or> q = dest @ ''.pub'')"
proof -
  obtain res srv2 st2 fs2 where k:
    "(if rq_keyFromBlob p \<noteq> [] then restoreKeyFromBlob r io (rq_server p) (rq_keyFromBlob p) st fs
      else restoreKeyFromOnePassword r io (rq_server p) (rq_keyRef p) st fs) = (res, srv2, st2, fs2)"
    by (metis prod_cases4)
  have some: "\<not> (rq_keyRef p = [] \<and> rq_keyFromBlob p = [])"
    using assms by (auto simp: restore_key_def)
  then have "fs' = fs2"
    using assms(1) k by (auto simp: restore_key_def split: sum.splits bool.splits)
  then have ch: "fs2 q \<noteq> fs q" using assms(2) by simp
  show ?thesis
  proof (cases "rq_keyFromBlob p \<noteq> []")
    case True
    then show ?thesis
      using writeRestoredKey_files[of r io "rq_server p" "rq_keyFromBlob p" "''the 1Password backup document''" st fs res srv2 st2 fs2 q]
        k ch by (auto simp: restoreKeyFromBlob_def planned_key_def)
  next
    case False
    show ?thesis
    proof (cases "ResolveSSHKey (rh_cli r) (rh_run r) (rq_keyRef p)")
      case (Inl e)
      then show ?thesis using k ch False by (simp add: restoreKeyFromOnePassword_def)
    next
      case (Inr d)
      then have "writeRestoredKey r io (rq_server p) d (''the 1Password item '' @ go_quote (item_of_ref (rq_keyRef p))) st fs
          = (res, srv2, st2, fs2)"
        using k False by (simp add: restoreKeyFromOnePassword_def)
      from writeRestoredKey_files[OF this ch] show ?thesis using Inr False some by (auto simp: planned_key_def)
    qed
  qed
qed

lemma restoreOneServer_files:
  assumes "restoreOneServer r io p st fs = (ro, st', fs')" "fs' q \<noteq> fs q"
  shows "\<exists>d stored dest. planned_key r p = Some d
       \<and> setupKeyPath (rh_letter r) (rh_home r) (s_name (rq_server p)) = Inr (stored, dest)
       \<and> mayReplaceLocalKey r dest (with_newline d) fs = Inr True \<and> (q = dest \<or> q = dest @ ''.pub'')"
proof -
  let ?o0 = "\<lparr>ro_name = s_name (rq_server p), ro_key = False, ro_password = False, ro_migrated = False, ro_reason = [],
                ro_blocked = False, ro_err = None\<rparr>"
  obtain o1 srv st1 fs1 where k: "restore_key r (io 0) p ?o0 st fs = (o1, srv, st1, fs1)" by (metis prod_cases4)
  have "fs' = fs \<or> fs' = fs1"
    using assms(1) k by (auto simp: restoreOneServer_def Let_def split: if_splits prod.splits)
  then have "fs1 q \<noteq> fs q" using assms(2) by auto
  from restore_key_files[OF k this] show ?thesis .
qed

text \<open>
  C38. A restore without --force replaces a private key on disk only at the managed path of the server it restores, and only
  with the same key: the same public key when both parse and otherwise the same bytes up to surrounding space. Any other
  file is left alone; beside the key only its .pub file is rewritten.
\<close>

theorem restored_key_replaces_same_key:
  assumes run: "restoreOneServer r io p st fs = (ro, st', fs')" and force: "\<not> rh_force r"
    and reads: "honest_reads (rh_faults r)" and home: "rh_home r = Some h" "is_rooted h"
    and old: "fs q = Some (RegularFile k)" "fs' q \<noteq> fs q"
  shows "\<exists>d stored dest. planned_key r p = Some d
       \<and> setupKeyPath (rh_letter r) (Some h) (s_name (rq_server p)) = Inr (stored, dest)
       \<and> (q = dest @ ''.pub'' \<or> (q = dest \<and> same_key r k (with_newline d)))"
proof -
  obtain d stored dest where s: "planned_key r p = Some d"
    "setupKeyPath (rh_letter r) (Some h) (s_name (rq_server p)) = Inr (stored, dest)"
    "mayReplaceLocalKey r dest (with_newline d) fs = Inr True" "q = dest \<or> q = dest @ ''.pub''"
    using restoreOneServer_files[OF run old(2)] home by auto
  have "same_key r k (with_newline d)" if "q = dest"
    using mayReplace_same[OF s(3) force reads setup_dest_clean[OF s(2) home(2)]] old(1) that by simp
  then show ?thesis using s by blast
qed

section \<open>Success means that everything found came back\<close>

lemma reportRestoreOutcomes_ok:
  "snd (reportRestoreOutcomes os) = None \<longleftrightarrow> (\<forall>ro\<in>set os. ro_err ro = None \<and> \<not> ro_blocked ro)"
proof -
  have zero: "class_count c os = 0 \<longleftrightarrow> (\<forall>ro\<in>set os. outcome_class ro \<noteq> c)" for c
    by (auto simp: class_count_def filter_empty_conv)
  have "snd (reportRestoreOutcomes os) = None \<longleftrightarrow> class_count ClassFailed os = 0 \<and> class_count ClassBlocked os = 0"
    by (simp add: reportRestoreOutcomes_def Let_def)
  also have "\<dots> \<longleftrightarrow> (\<forall>ro\<in>set os. ro_err ro = None \<and> \<not> ro_blocked ro)"
    unfolding zero ball_conj_distrib[symmetric] by (intro ball_cong refl) (simp add: outcome_class_def)
  finally show ?thesis .
qed

text \<open>Every outcome is in exactly one class, so the numbers of the summary add up.\<close>

lemma summary_adds_up:
  "class_count ClassRestored os + class_count ClassSkipped os + class_count ClassBlocked os + class_count ClassFailed os = length os"
  by (induction os) (auto simp: class_count_def outcome_class_def)

lemma restoreOneServer_ok:
  assumes "restoreOneServer r io p st fs = (ro, st', fs')" "ro_err ro = None" "\<not> ro_blocked ro"
  shows "(rq_keyRef p \<noteq> [] \<or> rq_keyFromBlob p \<noteq> []) = ro_key ro"
    and "(rq_passRef p \<noteq> [] \<or> rq_passFromBlob p \<noteq> []) = ro_password ro"
    and "ro_name ro = s_name (rq_server p)"
proof -
  let ?o0 = "\<lparr>ro_name = s_name (rq_server p), ro_key = False, ro_password = False, ro_migrated = False, ro_reason = [],
                ro_blocked = False, ro_err = None\<rparr>"
  obtain o1 srv st1 fs1 where k: "restore_key r (io 0) p ?o0 st fs = (o1, srv, st1, fs1)" by (metis prod_cases4)
  obtain o2 st2 where pw: "restore_password r (io 1) p srv o1 st1 = (o2, st2)" by (meson surj_pair)
  have kk: "(ro_err o1 = None \<longrightarrow> \<not> ro_blocked o1 \<longrightarrow> (rq_keyRef p \<noteq> [] \<or> rq_keyFromBlob p \<noteq> []) = ro_key o1)
      \<and> \<not> ro_password o1 \<and> ro_name o1 = s_name (rq_server p)"
    using k by (auto simp: restore_key_def split: if_splits sum.splits bool.splits prod.splits)
  have pp: "(ro_err o2 = None \<longrightarrow> ro_err o1 = None \<longrightarrow> (rq_passRef p \<noteq> [] \<or> rq_passFromBlob p \<noteq> []) = ro_password o2)
      \<and> ro_key o2 = ro_key o1 \<and> ro_blocked o2 = ro_blocked o1 \<and> ro_name o2 = ro_name o1"
    using pw kk by (auto simp: restore_password_def split: if_splits option.splits prod.splits)
  consider (nothing) "rq_keyRef p = []" "rq_keyFromBlob p = []" "rq_passRef p = []" "rq_passFromBlob p = []"
      "ro = ?o0\<lparr>ro_reason := ''no credential is backed up in 1Password''\<rparr>"
    | (stopped) "ro = o1" "ro_err o1 \<noteq> None" | (both) "ro = o2" "ro_err o1 = None"
    using assms(1) k pw by (auto simp: restoreOneServer_def Let_def split: if_splits)
  then have "(rq_keyRef p \<noteq> [] \<or> rq_keyFromBlob p \<noteq> []) = ro_key ro
      \<and> (rq_passRef p \<noteq> [] \<or> rq_passFromBlob p \<noteq> []) = ro_password ro \<and> ro_name ro = s_name (rq_server p)"
  proof cases
    case both
    then show ?thesis using kk pp assms(2,3) by auto
  qed (use assms(2) in simp_all)
  then show "(rq_keyRef p \<noteq> [] \<or> rq_keyFromBlob p \<noteq> []) = ro_key ro"
    and "(rq_passRef p \<noteq> [] \<or> rq_passFromBlob p \<noteq> []) = ro_password ro" and "ro_name ro = s_name (rq_server p)"
    by blast+
qed

lemma restoreServers_each:
  assumes "restoreServers r io i ps st fs = (os, st', fs')"
  shows "length os = length ps"
    and "\<forall>j<length ps. \<exists>st1 fs1 st2 fs2. restoreOneServer r (io (i + j)) (ps ! j) st1 fs1 = (os ! j, st2, fs2)"
proof -
  have "length os = length ps \<and>
     (\<forall>j<length ps. \<exists>st1 fs1 st2 fs2. restoreOneServer r (io (i + j)) (ps ! j) st1 fs1 = (os ! j, st2, fs2))"
    using assms
  proof (induction ps arbitrary: i st fs os)
    case (Cons p ps)
    obtain o1 st1 fs1 where one: "restoreOneServer r (io i) p st fs = (o1, st1, fs1)" by (metis prod_cases3)
    obtain os1 where rest: "restoreServers r io (Suc i) ps st1 fs1 = (os1, st', fs')" and os: "os = o1 # os1"
      using Cons.prems one by (auto split: prod.splits)
    have "\<exists>a b c d. restoreOneServer r (io (i + j)) ((p # ps) ! j) a b = (os ! j, c, d)" if "j < length (p # ps)" for j
      using Cons.IH[OF rest] one that os by (cases j) auto
    then show ?case using Cons.IH[OF rest] os by simp
  qed simp
  then show "length os = length ps"
    and "\<forall>j<length ps. \<exists>st1 fs1 st2 fs2. restoreOneServer r (io (i + j)) (ps ! j) st1 fs1 = (os ! j, st2, fs2)" by blast+
qed


section \<open>Which credential a restore uses\<close>

lemma creds_of_aput: "creds_of (aput n c m) k = (if k = n then c else creds_of m k)"
  by (simp add: creds_of_def)

lemma take_key_fold:
  "bc_key (creds_of (foldl take_key m ks) n) =
     (if bc_key (creds_of m n) \<noteq> [] then bc_key (creds_of m n)
      else case find (\<lambda>nk. fst nk = n \<and> snd nk \<noteq> []) ks of None \<Rightarrow> [] | Some nk \<Rightarrow> snd nk)"
  by (induction ks arbitrary: m) (auto simp: take_key_def creds_of_aput Let_def split: option.splits)

lemma take_password_fold_key: "bc_key (creds_of (foldl take_password m ss) n) = bc_key (creds_of m n)"
  by (induction ss arbitrary: m) (auto simp: take_password_def creds_of_aput Let_def)

lemma take_blobs_key:
  "bc_key (creds_of (foldl take_blob m blobs) n) =
     (if bc_key (creds_of m n) \<noteq> [] then bc_key (creds_of m n)
      else case find (\<lambda>nk. fst nk = n \<and> snd nk \<noteq> []) (concat (map (\<lambda>b. bf_keys (bb_file b)) blobs)) of None \<Rightarrow> [] | Some nk \<Rightarrow> snd nk)"
proof (induction blobs arbitrary: m)
  case (Cons b bs)
  have app: "find P (xs @ ys) = (case find P xs of None \<Rightarrow> find P ys | Some x \<Rightarrow> Some x)" for P :: "string \<times> string \<Rightarrow> bool" and xs ys
    by (induction xs) auto
  have ne: "find (\<lambda>nk. fst nk = n \<and> snd nk \<noteq> []) xs = Some nk \<Longrightarrow> snd nk \<noteq> []" for xs :: "(string \<times> string) list" and nk
    by (auto simp: find_Some_iff)
  have step: "bc_key (creds_of (take_blob m b) n) =
      (if bc_key (creds_of m n) \<noteq> [] then bc_key (creds_of m n)
       else case find (\<lambda>nk. fst nk = n \<and> snd nk \<noteq> []) (bf_keys (bb_file b)) of None \<Rightarrow> [] | Some nk \<Rightarrow> snd nk)"
    by (simp add: take_blob_def take_password_fold_key take_key_fold)
  show ?case
    by (simp add: Cons.IH step app split: option.split) (auto dest: ne)
qed simp

text \<open>The first document in title order that holds a key of the server gives it, whichever machine wrote that document.\<close>

lemma first_document_gives_key:
  "bc_key (creds_of (collectBackupCredentials blobs) n) =
     (case find (\<lambda>nk. fst nk = n \<and> snd nk \<noteq> []) (concat (map (\<lambda>b. bf_keys (bb_file b)) blobs)) of None \<Rightarrow> [] | Some nk \<Rightarrow> snd nk)"
  using take_blobs_key[of "[]" blobs n] by (simp add: collectBackupCredentials_def creds_of_def no_credentials_def)

section \<open>A restore on an example\<close>

definition cred_host :: restore_host where
  "cred_host = \<lparr>rh_codec = key_codec, rh_faults = no_faults, rh_letter = (\<lambda>r. False), rh_home = Some ''/root'', rh_force = False,
     rh_parse = (\<lambda>d. None), rh_public = (\<lambda>d. ''ssh-ed25519 A''), rh_cli = no_cli, rh_run = (\<lambda>a. Inr [])\<rparr>"

definition cred_blobs :: "backup_blob list" where
  "cred_blobs = [\<lparr>bb_title = ''opspulse_inventory_a'', bb_file = \<lparr>bf_version = 1, bf_machine = ''a'', bf_servers = [key_server], bf_keys = [(''web-1'', ''K'')]\<rparr>\<rparr>,
     \<lparr>bb_title = ''opspulse_inventory_b'', bb_file = \<lparr>bf_version = 1, bf_machine = ''b'', bf_servers = [key_server], bf_keys = [(''web-1'', ''L'')]\<rparr>\<rparr>]"

definition cred_plan :: restore_plan where
  "cred_plan = planRestore key_server None (collectBackupCredentials cred_blobs)"

definition cred_disk :: files where
  "cred_disk = (\<lambda>p. if p = ''/root/.ssh/opspulse_web-1'' then Some (RegularFile ''old'') else None)"

definition cred_run :: "restore_outcome \<times> server_state \<times> files" where
  "cred_run = restoreOneServer cred_host (\<lambda>i. io_fine 0) cred_plan (server_file (Some ''a'')) cred_disk"

text \<open>On machine b the key of machine a comes back.\<close>

lemma other_machine_key_wins: "rq_keyFromBlob cred_plan = ''K''"
  by code_simp

lemma cred_run_file: "snd (snd cred_run) ''/root/.ssh/opspulse_web-1'' = Some (RegularFile [CHR ''K'', CHR 0x0A])"
  by code_simp

theorem restored_key_replaces_same_key_witness:
  "same_key cred_host ''old'' [CHR ''K'', CHR 0x0A]"
proof -
  have run: "restoreOneServer cred_host (\<lambda>i. io_fine 0) cred_plan (server_file (Some ''a'')) cred_disk
      = (fst cred_run, fst (snd cred_run), snd (snd cred_run))"
    by (simp add: cred_run_def)
  have h: "\<not> rh_force cred_host" "honest_reads (rh_faults cred_host)" "rh_home cred_host = Some ''/root''" "is_rooted ''/root''"
    by (simp_all add: cred_host_def honest_reads_def no_faults_def)
  have k: "planned_key cred_host cred_plan = Some ''K''" by code_simp
  have p: "setupKeyPath (rh_letter cred_host) (Some ''/root'') (s_name (rq_server cred_plan))
      = Inr (''~/.ssh/opspulse_web-1'', ''/root/.ssh/opspulse_web-1'')"
    by code_simp
  have n: "with_newline ''K'' = [CHR ''K'', CHR 0x0A]" by (simp add: with_newline_def)
  show ?thesis
    using restored_key_replaces_same_key[OF run h, of "''/root/.ssh/opspulse_web-1''" "''old''"] cred_run_file k p n
    by (simp add: cred_disk_def)
qed

definition cred_batch :: "go_error option \<times> restore_outcome list \<times> server_state \<times> files" where
  "cred_batch = restore_credentials cred_host (\<lambda>i j. io_fine 0) \<lparr>op_interactive = False, op_types = (\<lambda>p. None)\<rparr> False [key_server]
     \<lparr>vd_vault = ''V'', vd_titles = [], vd_backups = []\<rparr> (collectBackupCredentials cred_blobs) (server_file (Some ''a'')) cred_disk"

lemma cred_batch_ok: "fst cred_batch = None"
proof -
  let ?ps = "map (\<lambda>s. planRestore s (Some \<lparr>vd_vault = ''V'', vd_titles = [], vd_backups = []\<rparr>) (collectBackupCredentials cred_blobs)) [key_server]"
  have n: "countRestorePasswords ?ps = 0" by code_simp
  have o: "list_all (\<lambda>ro. ro_err ro = None \<and> \<not> ro_blocked ro)
      (fst (restoreServers cred_host (\<lambda>i j. io_fine 0) 0 ?ps (server_file (Some ''a'')) cred_disk))"
    by code_simp
  obtain os st1 fs1 where rs: "restoreServers cred_host (\<lambda>i j. io_fine 0) 0 ?ps (server_file (Some ''a'')) cred_disk = (os, st1, fs1)"
    by (metis prod_cases3)
  have "\<forall>ro\<in>set os. ro_err ro = None \<and> \<not> ro_blocked ro" using o unfolding rs by (simp add: list_all_iff)
  then have "snd (reportRestoreOutcomes os) = None" by (simp only: reportRestoreOutcomes_ok)
  then show ?thesis using n rs by (simp add: cred_batch_def restore_credentials_def Let_def)
qed


theorem restore_inventory_safe_witness:
  "\<exists>st'. sv_wf key_codec st' \<and> (\<forall>s\<in>{key_server}. \<exists>t\<in>set (sv_entries key_codec st'). keeps False s t)"
proof -
  let ?run = "restoreInventoryFromOnePassword vault_host (\<lambda>s. Inr []) key_codec (\<lambda>i. io_fine 0)
     \<lparr>op_interactive = False, op_types = (\<lambda>p. None)\<rparr> False ''V'' (newInventoryConflictPrompt [] False False False) cred_blobs
     (newItemIndex ''V'') [] (server_file (Some ''a''))"
  obtain found r ix' tr' st' where run: "?run = ((found, r), ix', tr', st')" by (metis prod.collapse)
  from restore_inventory_safe[OF key_file(1) run] show ?thesis using key_file(2) by auto
qed
end
