(* ===== verification/SshTrust.thy ===== *)
theory SshTrust
  imports ServerCmd
begin

text \<open>
  Whom a connection trusts and how it authenticates: the known_hosts check and the enrolment of new host keys
  (\<open>internal/server/known_hosts.go\<close>), the host key callback and the authentication methods of the built-in client
  (\<open>internal/executor/auth.go\<close>, \<open>errors.go\<close>). The library that parses known_hosts and keys is a parameter
  (\<open>kh_lib\<close>): it is a function of the bytes of the file. A public key is the string of its wire form.
\<close>

section \<open>The library\<close>

text \<open>
  What the callback of \<open>knownhosts.New\<close> answers: accepted, or an error, which may be a \<open>KeyError\<close> with the entries
  recorded for the host (file, line, key).
\<close>

record kh_refusal =
  kr_want :: "(string \<times> nat \<times> string) list option"
  kr_err :: go_error

type_synonym kh_callback = "string \<Rightarrow> string \<Rightarrow> kh_refusal option"

record kh_lib =
  kl_new :: "string \<Rightarrow> string \<Rightarrow> kh_callback res"
  kl_line :: "string \<Rightarrow> string \<Rightarrow> string"
  kl_type :: "string \<Rightarrow> string"
  kl_print :: "string \<Rightarrow> string"
  kl_parse :: "string \<Rightarrow> string option"

definition key_unknown :: kh_refusal where
  "key_unknown = \<lparr>kr_want = Some [], kr_err = errors_new ''knownhosts: key is unknown''\<rparr>"

section \<open>Advertised keys\<close>

record host_key =
  hk_type :: string
  hk_print :: string
  hk_source :: string
  hk_key :: string

text \<open>One line of \<open>ParseScannedHostKeys\<close>.\<close>

definition scan_line :: "kh_lib \<Rightarrow> string \<Rightarrow> host_key list \<Rightarrow> string \<Rightarrow> host_key list" where
  "scan_line lib source keys raw =
     (let ln = trim_space raw; flds = str_fields ln
      in if ln = [] \<or> has_prefix ln ''#'' \<or> length flds < 3 then keys
         else (case kl_parse lib (join_with '' '' (tl flds)) of
                 None \<Rightarrow> keys
               | Some key \<Rightarrow>
                   (if kl_print lib key \<in> set (map hk_print keys) then keys
                    else keys @ [\<lparr>hk_type = kl_type lib key, hk_print = kl_print lib key, hk_source = source, hk_key = key\<rparr>])))"

definition ParseScannedHostKeys :: "kh_lib \<Rightarrow> string \<Rightarrow> string \<Rightarrow> host_key list res" where
  "ParseScannedHostKeys lib output source =
     (let keys = foldl (scan_line lib source) [] (split_on (CHR 0x0A) output)
      in if keys = [] then Inl (errors_new (''no host key was returned by '' @ source)) else Inr keys)"

definition probe_args :: "server \<Rightarrow> string list" where
  "probe_args srv =
     [''-T'', ''10'', ''-p'', show_int (if s_port srv \<le> 0 then 22 else s_port srv), ''--'', s_host srv]"

text \<open>\<open>keyscan\<close> is ssh-keyscan, absent when it is not installed: its output and its error.\<close>

definition ProbeHostKeys :: "kh_lib \<Rightarrow> (string list \<Rightarrow> string \<times> go_error option) option \<Rightarrow> server \<Rightarrow> host_key list res" where
  "ProbeHostKeys lib keyscan srv =
     (case keyscan of
        None \<Rightarrow> Inl (errors_new ''system 'ssh-keyscan' not found in PATH: executable file not found in $PATH'')
      | Some run \<Rightarrow>
          (case run (probe_args srv) of
             (out, Some e) \<Rightarrow> Inl (wrap (''ssh-keyscan '' @ s_host srv @ '': '') e ('': '' @ trim_space out))
           | (out, None) \<Rightarrow> ParseScannedHostKeys lib out (''ssh-keyscan '' @ s_host srv)))"

section \<open>Comparing with known_hosts\<close>

datatype known_host_status = KnownHostPresent | KnownHostMissing | KnownHostMismatch | KnownHostUnprobed | KnownHostProbeFail

record known_host_check =
  kc_server :: string
  kc_host :: string
  kc_port :: int
  kc_address :: string
  kc_status :: known_host_status
  kc_keys :: "host_key list"
  kc_path :: string
  kc_error :: string
  kc_matched :: "string list"

definition KnownHostsPath :: "string \<Rightarrow> string option \<Rightarrow> string res" where
  "KnownHostsPath custom home =
     (if trim_space custom \<noteq> [] then Inr (ExpandPath home (trim_space custom))
      else (case home of
              None \<Rightarrow> Inl (errors_new ''resolve home directory for SSH host keys: $HOME is not defined'')
            | Some h \<Rightarrow> Inr (path_join [h, ''.ssh'', ''known_hosts''])))"

definition isUnknownHostKey :: "kh_refusal \<Rightarrow> bool" where
  "isUnknownHostKey x \<longleftrightarrow> kr_want x = Some []"

definition wanted_types :: "kh_lib \<Rightarrow> kh_refusal \<Rightarrow> string list" where
  "wanted_types lib x = (case kr_want x of None \<Rightarrow> [] | Some ws \<Rightarrow> map (\<lambda>(f, l, k). kl_type lib k) ws)"

definition isMissingHostKeyType :: "kh_lib \<Rightarrow> kh_refusal \<Rightarrow> string \<Rightarrow> bool" where
  "isMissingHostKeyType lib x key \<longleftrightarrow> wanted_types lib x \<noteq> [] \<and> kl_type lib key \<notin> set (wanted_types lib x)"

definition isConflictingHostKeyType :: "kh_lib \<Rightarrow> kh_refusal \<Rightarrow> string \<Rightarrow> bool" where
  "isConflictingHostKeyType lib x key \<longleftrightarrow> wanted_types lib x \<noteq> [] \<and> kl_type lib key \<in> set (wanted_types lib x)"

text \<open>\<open>tmp\<close> holds what creating a temporary directory and an empty file in it give, and where that file is.\<close>

definition loadKnownHostsCallback ::
    "kh_lib \<Rightarrow> faults \<Rightarrow> go_error option \<times> go_error option \<times> string \<Rightarrow> string \<Rightarrow> files \<Rightarrow> kh_callback res" where
  "loadKnownHostsCallback lib ff tmp path fs =
     (case os_ReadFile ff (path_clean path) fs of
        Inl e \<Rightarrow>
          (if errors_is e not_exist
           then (case tmp of
                   (Some e1, w, p) \<Rightarrow> Inl (wrap ''create temporary known_hosts: '' e1 [])
                 | (None, Some e1, p) \<Rightarrow> Inl (wrap ''create empty known_hosts: '' e1 [])
                 | (None, None, p) \<Rightarrow>
                     (case kl_new lib p [] of Inl e1 \<Rightarrow> Inl (wrap ''load known_hosts: '' e1 []) | Inr cb \<Rightarrow> Inr cb))
           else Inl (wrap (''read known_hosts '' @ path @ '': '') e []))
      | Inr data \<Rightarrow>
          (if trim_space data = [] then Inr (\<lambda>a k. Some key_unknown)
           else (case kl_new lib (path_clean path) data of
                   Inl e \<Rightarrow> Inl (wrap (''load known_hosts '' @ path @ '': '') e [])
                 | Inr cb \<Rightarrow> Inr cb)))"

text \<open>The loop over the advertised keys: the fingerprints that matched, or the status and the error that end it.\<close>

fun check_keys :: "kh_lib \<Rightarrow> kh_callback \<Rightarrow> string \<Rightarrow> host_key list \<Rightarrow> string list \<Rightarrow> string list \<times> (known_host_status \<times> string) option" where
  "check_keys lib cb address [] matched = (matched, None)"
| "check_keys lib cb address (k # ks) matched =
     (case cb address (hk_key k) of
        None \<Rightarrow> check_keys lib cb address ks (matched @ [hk_print k])
      | Some x \<Rightarrow>
          (if isUnknownHostKey x \<or> isMissingHostKeyType lib x (hk_key k) then check_keys lib cb address ks matched
           else if isConflictingHostKeyType lib x (hk_key k) then (matched, Some (KnownHostMismatch, err_text (kr_err x)))
           else (matched, Some (KnownHostProbeFail, err_text (kr_err x)))))"

definition port_of :: "server \<Rightarrow> int" where
  "port_of srv = (if s_port srv \<le> 0 then 22 else s_port srv)"

definition CheckKnownHost ::
    "kh_lib \<Rightarrow> faults \<Rightarrow> go_error option \<times> go_error option \<times> string \<Rightarrow> server \<Rightarrow> string \<Rightarrow> host_key list \<Rightarrow> files \<Rightarrow> known_host_check" where
  "CheckKnownHost lib ff tmp srv path keys fs =
     (let check = \<lparr>kc_server = s_name srv, kc_host = s_host srv, kc_port = port_of srv, kc_address = server_address srv,
                    kc_status = KnownHostUnprobed, kc_keys = keys, kc_path = path, kc_error = [], kc_matched = []\<rparr>
      in if keys = [] then check
         else (case loadKnownHostsCallback lib ff tmp path fs of
                 Inl e \<Rightarrow> check\<lparr>kc_status := KnownHostProbeFail, kc_error := err_text e\<rparr>
               | Inr cb \<Rightarrow>
                   (case check_keys lib cb (server_address srv) keys [] of
                      (matched, Some (status, e)) \<Rightarrow> check\<lparr>kc_matched := matched, kc_status := status, kc_error := e\<rparr>
                    | (matched, None) \<Rightarrow>
                        check\<lparr>kc_matched := matched, kc_status := (if matched = [] then KnownHostMissing else KnownHostPresent)\<rparr>)))"

section \<open>Enrolling keys\<close>

text \<open>
  Appending to a file: opening it, then one write for each line, which may fail and leave a part of the line behind, then
  closing it.
\<close>

record append_io =
  ap_open :: "go_error option"
  ap_write :: "nat \<Rightarrow> (go_error \<times> string) option"
  ap_close :: "go_error option"

definition content :: "files \<Rightarrow> string \<Rightarrow> string" where
  "content fs p = (case fs p of Some (RegularFile d) \<Rightarrow> d | _ \<Rightarrow> [])"

fun append_lines :: "append_io \<Rightarrow> nat \<Rightarrow> string \<Rightarrow> string list \<Rightarrow> go_error option \<times> string" where
  "append_lines ap i data [] = (None, data)"
| "append_lines ap i data (l # ls) =
     (case ap_write ap i of
        Some (e, part) \<Rightarrow> (Some e, data @ part)
      | None \<Rightarrow> append_lines ap (Suc i) (data @ l @ [CHR 0x0A]) ls)"

text \<open>The selected fingerprints against the file: those the file holds already are struck from \<open>wanted\<close>.\<close>

fun strike_known ::
    "kh_lib \<Rightarrow> kh_callback \<Rightarrow> server \<Rightarrow> string \<Rightarrow> string list \<Rightarrow> (string \<times> host_key) list \<Rightarrow> (string \<times> host_key) list res" where
  "strike_known lib cb srv path [] wanted = Inr wanted"
| "strike_known lib cb srv path (f # fps) wanted =
     (case map_of wanted f of
        None \<Rightarrow> Inl (errors_new (''fingerprint '' @ f @ '' was not advertised by '' @ s_name srv))
      | Some k \<Rightarrow>
          (case cb (server_address srv) (hk_key k) of
             Some x \<Rightarrow>
               (if \<not> isUnknownHostKey x \<and> \<not> isMissingHostKeyType lib x (hk_key k)
                then Inl (errors_new (''refusing to add '' @ f @ '' for '' @ server_address srv @ '': known_hosts already records a different key ('' @ err_text (kr_err x) @ ''); remove the old entry explicitly with 'ssh-keygen -R '' @ s_host srv @ '' -f '' @ path @ [squote]))
                else strike_known lib cb srv path fps wanted)
           | None \<Rightarrow> strike_known lib cb srv path fps (filter (\<lambda>w. fst w \<noteq> f) wanted)))"

fun lines_for :: "kh_lib \<Rightarrow> string \<Rightarrow> string list \<Rightarrow> (string \<times> host_key) list \<Rightarrow> string list" where
  "lines_for lib address [] wanted = []"
| "lines_for lib address (f # fps) wanted =
     (case map_of wanted f of
        None \<Rightarrow> lines_for lib address fps wanted
      | Some k \<Rightarrow> kl_line lib address (hk_key k) # lines_for lib address fps (filter (\<lambda>w. fst w \<noteq> f) wanted))"

definition wanted_keys :: "host_key list \<Rightarrow> (string \<times> host_key) list" where
  "wanted_keys keys = rev (map (\<lambda>k. (hk_print k, k)) keys)"

definition append_selected ::
    "kh_lib \<Rightarrow> faults \<Rightarrow> append_io \<Rightarrow> string \<Rightarrow> server \<Rightarrow> string list \<Rightarrow> (string \<times> host_key) list \<Rightarrow> files \<Rightarrow> nat res \<times> files" where
  "append_selected lib ff ap path srv selected wanted fs =
     (let ls = lines_for lib (server_address srv) selected wanted
      in if ls = [] then (Inr 0, fs)
         else (case ff_mkdir ff (path_dir path) of
                 Some e \<Rightarrow> (Inl (wrap (''create SSH directory '' @ path_dir path @ '': '') e []), fs)
               | None \<Rightarrow>
                   (case ap_open ap of
                      Some e \<Rightarrow> (Inl (wrap (''open known_hosts '' @ path @ '': '') e []), fs)
                    | None \<Rightarrow>
                        (case append_lines ap 0 (content fs (path_clean path)) ls of
                           (Some e, d) \<Rightarrow> (Inl (wrap (''append known_hosts '' @ path @ '': '') e []), fs(path_clean path := Some (RegularFile d)))
                         | (None, d) \<Rightarrow>
                             (case ap_close ap of
                                Some e \<Rightarrow> (Inl (wrap (''close known_hosts '' @ path @ '': '') e []), fs(path_clean path := Some (RegularFile d)))
                              | None \<Rightarrow> (Inr (length ls), fs(path_clean path := Some (RegularFile d))))))))"

definition AppendKnownHosts ::
    "kh_lib \<Rightarrow> faults \<Rightarrow> append_io \<Rightarrow> string \<Rightarrow> server \<Rightarrow> host_key list \<Rightarrow> string list \<Rightarrow> files \<Rightarrow> nat res \<times> files" where
  "AppendKnownHosts lib ff ap path srv keys selected fs =
     (if selected = [] then (Inl (errors_new (''no host key selected for '' @ s_name srv)), fs)
      else
     (case os_ReadFile ff (path_clean path) fs of
        Inl e \<Rightarrow>
          (if \<not> errors_is e not_exist then (Inl (wrap (''read known_hosts '' @ path @ '': '') e []), fs)
           else append_selected lib ff ap path srv selected (wanted_keys keys) fs)
      | Inr data \<Rightarrow>
          (if trim_space data = [] then append_selected lib ff ap path srv selected (wanted_keys keys) fs
           else (case kl_new lib (path_clean path) data of
                   Inl e \<Rightarrow> (Inl (wrap (''refusing to edit known_hosts '' @ path @ '': '') e []), fs)
                 | Inr cb \<Rightarrow>
                     (case strike_known lib cb srv path selected (wanted_keys keys) of
                        Inl e \<Rightarrow> (Inl e, fs)
                      | Inr wanted \<Rightarrow> append_selected lib ff ap path srv selected wanted fs)))))"

section \<open>The host key callback of the client\<close>

text \<open>\<open>net.SplitHostPort\<close>: host and port, or nothing when it reports an error.\<close>

definition last_colon :: "string \<Rightarrow> (string \<times> string) option" where
  "last_colon s =
     (if CHR '':'' \<notin> set s then None
      else Some (rev (tl (dropWhile (\<lambda>c. c \<noteq> CHR '':'') (rev s))), rev (takeWhile (\<lambda>c. c \<noteq> CHR '':'') (rev s))))"

definition SplitHostPort :: "string \<Rightarrow> (string \<times> string) option" where
  "SplitHostPort s =
     (case last_colon s of
        None \<Rightarrow> None
      | Some (before, port) \<Rightarrow>
          (if has_prefix s ''[''
           then (case cut_at (CHR '']'') (tl before) of
                   (host, rest, found) \<Rightarrow>
                     (if \<not> found \<or> rest \<noteq> [] \<or> CHR ''['' \<in> set host \<or> CHR ''['' \<in> set port \<or> CHR '']'' \<in> set port then None
                      else Some (host, port)))
           else if CHR '':'' \<in> set before \<or> CHR ''['' \<in> set s \<or> CHR '']'' \<in> set s then None
           else Some (before, port)))"

record unknown_host_key =
  uk_address :: string
  uk_host :: string
  uk_port :: string
  uk_type :: string
  uk_print :: string
  uk_path :: string

definition sshHostHint :: "string \<Rightarrow> string \<Rightarrow> string" where
  "sshHostHint host port = (if port = [] \<or> port = ''22'' then host else ''-p '' @ port @ '' '' @ host)"

definition split_hint :: "string \<Rightarrow> string \<times> string" where
  "split_hint hostname =
     (case SplitHostPort hostname of
        None \<Rightarrow> (hostname, [])
      | Some (h, p) \<Rightarrow> (if h = [] then hostname else h, p))"

definition mismatch_error :: "string \<Rightarrow> (string \<times> nat \<times> string) list \<Rightarrow> go_error" where
  "mismatch_error hostname want =
     errors_new (''verify SSH host key for '' @ hostname @ '': knownhosts key mismatch (existing key recorded at '' @ join_with '', '' (map (\<lambda>(f, l, k). f @ '':'' @ show_nat l) want) @ ''). Run 'ssh-keygen -R '' @ fst (split_hint hostname) @ [squote] @ '' or remove the old key line to accept the new key'')"

definition not_recorded_error :: "kh_lib \<Rightarrow> string \<Rightarrow> string \<Rightarrow> string \<Rightarrow> go_error" where
  "not_recorded_error lib path hostname key =
     errors_new (''verify SSH host key for '' @ hostname @ '': host key not recorded in '' @ path @ '' (key type: '' @ kl_type lib key @ '', fingerprint: '' @ kl_print lib key @ ''). Connect once with 'ssh '' @ (case split_hint hostname of (h, p) \<Rightarrow> sshHostHint h p) @ [squote] @ '' to accept the key or set OPSPULSE_TRUST_NEW_HOST_KEY=1 to trust new hosts on first use'')"

record trust_env =
  te_trust :: string
  te_handler :: "(unknown_host_key \<Rightarrow> bool res) option"
  te_open :: "go_error option"
  te_close :: "go_error option"
  te_append :: append_io

definition trusted_by_env :: "trust_env \<Rightarrow> bool" where
  "trusted_by_env te \<longleftrightarrow> te_trust te = ''true'' \<or> te_trust te = ''1''"

definition unknown_key_of :: "kh_lib \<Rightarrow> string \<Rightarrow> string \<Rightarrow> string \<Rightarrow> unknown_host_key" where
  "unknown_key_of lib path hostname key =
     \<lparr>uk_address = hostname, uk_host = fst (split_hint hostname), uk_port = snd (split_hint hostname),
      uk_type = kl_type lib key, uk_print = kl_print lib key, uk_path = path\<rparr>"

text \<open>The decision about an unknown key: refused with an error, or trusted.\<close>

definition decide_unknown :: "kh_lib \<Rightarrow> trust_env \<Rightarrow> string \<Rightarrow> string \<Rightarrow> string \<Rightarrow> go_error option" where
  "decide_unknown lib te path hostname key =
     (if trusted_by_env te then None
      else (case te_handler te of
              None \<Rightarrow> Some (not_recorded_error lib path hostname key)
            | Some f \<Rightarrow>
                (case f (unknown_key_of lib path hostname key) of
                   Inl e \<Rightarrow> Some (wrap (''confirm SSH host key for '' @ hostname @ '': '') e [])
                 | Inr True \<Rightarrow> None
                 | Inr False \<Rightarrow> Some (not_recorded_error lib path hostname key))))"

text \<open>\<open>tofuHostKeyCallbackForWithWriterAndHandler\<close>: nothing is the acceptance of the key.\<close>

definition tofuHostKeyCallback ::
    "kh_lib \<Rightarrow> faults \<Rightarrow> trust_env \<Rightarrow> string \<Rightarrow> string \<Rightarrow> string \<Rightarrow> files \<Rightarrow> go_error option \<times> files" where
  "tofuHostKeyCallback lib ff te path hostname key fs =
     (case ff_mkdir ff (path_dir path) of
        Some e \<Rightarrow> (Some (wrap ''create SSH configuration directory: '' e []), fs)
      | None \<Rightarrow>
     (case te_open te of
        Some e \<Rightarrow> (Some (wrap ''open SSH known_hosts file: '' e []), fs)
      | None \<Rightarrow>
     (let fs1 = (if fs path = None then fs(path := Some (RegularFile [])) else fs)
      in case te_close te of
        Some e \<Rightarrow> (Some (wrap ''close SSH known_hosts file: '' e []), fs1)
      | None \<Rightarrow>
     (case (case os_ReadFile ff path fs1 of Inl e \<Rightarrow> Inl e | Inr data \<Rightarrow> kl_new lib path data) of
        Inl e \<Rightarrow> (Some (wrap ''load SSH known_hosts file: '' e []), fs1)
      | Inr cb \<Rightarrow>
     (case cb hostname key of
        None \<Rightarrow> (None, fs1)
      | Some x \<Rightarrow>
          (if kr_want x \<noteq> Some []
           then (case kr_want x of
                   Some (w # ws) \<Rightarrow> (Some (mismatch_error hostname (w # ws)), fs1)
                 | _ \<Rightarrow> (Some (wrap (''verify SSH host key for '' @ hostname @ '': '') (kr_err x) []), fs1))
           else (case decide_unknown lib te path hostname key of
                   Some e \<Rightarrow> (Some e, fs1)
                 | None \<Rightarrow>
                     (case ap_open (te_append te) of
                        Some e \<Rightarrow> (Some (wrap ''append SSH host key: '' e []), fs1)
                      | None \<Rightarrow>
                          (case append_lines (te_append te) 0 (content fs1 path) [kl_line lib hostname key] of
                             (Some e, d) \<Rightarrow> (Some (wrap ''append SSH host key: '' e []), fs1(path := Some (RegularFile d)))
                           | (None, d) \<Rightarrow>
                               (case ap_close (te_append te) of
                                  Some e \<Rightarrow> (Some (wrap ''close SSH known_hosts file: '' e []), fs1(path := Some (RegularFile d)))
                                | None \<Rightarrow> (None, fs1(path := Some (RegularFile d)))))))))))))"

definition tofuPath :: "string \<Rightarrow> string option \<Rightarrow> string res" where
  "tofuPath custom home =
     (if custom \<noteq> [] then Inr custom
      else (case home of
              None \<Rightarrow> Inl (errors_new ''resolve home directory for SSH host keys: $HOME is not defined'')
            | Some h \<Rightarrow> Inr (path_join [h, ''.ssh'', ''known_hosts''])))"

section \<open>Authentication\<close>

definition AuthError :: "string \<Rightarrow> string \<Rightarrow> go_error \<Rightarrow> go_error" where
  "AuthError user host reason = wrap (''authentication failed for '' @ user @ ''@'' @ host @ '': '') reason []"

definition NetworkError :: "string \<Rightarrow> go_error \<Rightarrow> go_error" where
  "NetworkError host reason = wrap (''network connection error to '' @ host @ '': '') reason []"

datatype auth_method = AgentMethod | KeyMethod string | PasswordMethod string

record client_config =
  cc_user :: string
  cc_auth :: "auth_method list"
  cc_trust :: string
  cc_timeout :: int
  cc_algorithms :: "string list"

record auth_env =
  ae_agent :: bool
  ae_home :: "string option"
  ae_faults :: faults
  ae_files :: files
  ae_parse :: "string \<Rightarrow> (go_error \<times> bool) option"
  ae_known_hosts :: string

definition loadPrivateKey :: "auth_env \<Rightarrow> string \<Rightarrow> string res" where
  "loadPrivateKey ae path =
     (case os_ReadFile (ae_faults ae) path (ae_files ae) of
        Inl e \<Rightarrow> Inl e
      | Inr data \<Rightarrow> (case ae_parse ae data of Some (e, locked) \<Rightarrow> Inl e | None \<Rightarrow> Inr data))"

definition loadSigner :: "auth_env \<Rightarrow> string \<Rightarrow> string \<Rightarrow> string res" where
  "loadSigner ae keyPath serverName =
     (case RejectLegacy1PRef ''key_path'' keyPath serverName of
        Some e \<Rightarrow> Inl e
      | None \<Rightarrow> loadPrivateKey ae (ExpandPath (ae_home ae) keyPath))"

definition resolvePassword :: "string \<Rightarrow> string \<Rightarrow> string res" where
  "resolvePassword val serverName =
     (case RejectLegacy1PRef ''password'' val serverName of Some e \<Rightarrow> Inl e | None \<Rightarrow> Inr val)"

definition defaultKeys :: "string list" where
  "defaultKeys = [''~/.ssh/id_ed25519'', ''~/.ssh/id_rsa'', ''~/.ssh/id_ecdsa'']"

text \<open>The loop over the default keys: the first that is there and loads.\<close>

fun first_default_key :: "auth_env \<Rightarrow> string list \<Rightarrow> auth_method list" where
  "first_default_key ae [] = []"
| "first_default_key ae (k # ks) =
     (let p = ExpandPath (ae_home ae) k
      in if ff_stat (ae_faults ae) p \<noteq> None \<or> ae_files ae p = None then first_default_key ae ks
         else (case loadPrivateKey ae p of Inl e \<Rightarrow> first_default_key ae ks | Inr d \<Rightarrow> [KeyMethod d]))"

definition auth_methods :: "auth_env \<Rightarrow> server \<Rightarrow> auth_method list res" where
  "auth_methods ae srv =
     (let agent = (if ae_agent ae then [AgentMethod] else [])
      in if s_key_path srv \<noteq> []
         then (case loadSigner ae (s_key_path srv) (s_name srv) of
                 Inl e \<Rightarrow> Inl (AuthError (s_user srv) (s_host srv) (wrap (''failed to load private key '' @ s_key_path srv @ '': '') e []))
               | Inr d \<Rightarrow> Inr (agent @ [KeyMethod d]))
         else if s_password srv \<noteq> []
         then (case resolvePassword (s_password srv) (s_name srv) of
                 Inl e \<Rightarrow> Inl (AuthError (s_user srv) (s_host srv) e)
               | Inr p \<Rightarrow> Inr (agent @ [PasswordMethod p]))
         else Inr (agent @ first_default_key ae defaultKeys))"

definition host_key_algorithms :: "string list" where
  "host_key_algorithms =
     [''ssh-ed25519'', ''sk-ssh-ed25519@openssh.com'', ''ecdsa-sha2-nistp256'', ''sk-ecdsa-sha2-nistp256@openssh.com'',
      ''ecdsa-sha2-nistp384'', ''ecdsa-sha2-nistp521'', ''rsa-sha2-512'', ''rsa-sha2-256'', ''ssh-rsa'']"

text \<open>Times are nanoseconds.\<close>

definition buildClientConfig :: "auth_env \<Rightarrow> server \<Rightarrow> int \<Rightarrow> client_config res" where
  "buildClientConfig ae srv timeout =
     (case auth_methods ae srv of
        Inl e \<Rightarrow> Inl e
      | Inr methods \<Rightarrow>
          (if methods = []
           then Inl (AuthError (s_user srv) (s_host srv)
                  (errors_new ''no authentication method available (no private key found and no password provided)''))
           else (let user = (if s_user srv = [] then ''root'' else s_user srv)
                 in case tofuPath (ae_known_hosts ae) (ae_home ae) of
                      Inl e \<Rightarrow> Inl (AuthError user (s_host srv) e)
                    | Inr p \<Rightarrow>
                        Inr \<lparr>cc_user = user, cc_auth = methods, cc_trust = p,
                             cc_timeout = (if timeout \<le> 0 then 30000000000 else timeout),
                             cc_algorithms = host_key_algorithms\<rparr>)))"

section \<open>What is appended\<close>

definition as_lines :: "string list \<Rightarrow> string" where
  "as_lines ls = concat (map (\<lambda>l. l @ [CHR 0x0A]) ls)"

lemma append_lines_spec:
  assumes "append_lines ap i data ls = (r, d)"
  shows "\<exists>rest. d = data @ rest" and "r = None \<Longrightarrow> d = data @ as_lines ls"
proof -
  have "(\<exists>rest. d = data @ rest) \<and> (r = None \<longrightarrow> d = data @ as_lines ls)"
    using assms
  proof (induction ls arbitrary: i data)
    case (Cons l ls)
    show ?case
    proof (cases "ap_write ap i")
      case None
      then have "append_lines ap (Suc i) (data @ l @ [CHR 0x0A]) ls = (r, d)" using Cons.prems by simp
      from Cons.IH[OF this] show ?thesis by (auto simp: as_lines_def)
    qed (use Cons.prems in auto)
  qed (simp add: as_lines_def)
  then show "\<exists>rest. d = data @ rest" and "r = None \<Longrightarrow> d = data @ as_lines ls" by blast+
qed

lemma content_upd [simp]: "content (fs(p := Some (RegularFile d))) p = d"
  by (simp add: content_def)

section \<open>The client accepts no key it was not told to trust\<close>

definition created :: "files \<Rightarrow> string \<Rightarrow> files" where
  "created fs p = (if fs p = None then fs(p := Some (RegularFile [])) else fs)"

lemma content_created [simp]: "content (created fs p) p = content fs p"
  by (simp add: created_def content_def)

lemma created_other: "q \<noteq> p \<Longrightarrow> created fs p q = fs q"
  by (simp add: created_def)

definition consented :: "kh_lib \<Rightarrow> trust_env \<Rightarrow> string \<Rightarrow> string \<Rightarrow> string \<Rightarrow> bool" where
  "consented lib te path hostname key \<longleftrightarrow>
     trusted_by_env te \<or> (\<exists>f. te_handler te = Some f \<and> f (unknown_key_of lib path hostname key) = Inr True)"

lemma decide_unknown_iff: "decide_unknown lib te path hostname key = None \<longleftrightarrow> consented lib te path hostname key"
  by (auto simp: decide_unknown_def consented_def split: option.splits sum.splits bool.splits)

lemma tofu_cases:
  assumes "tofuHostKeyCallback lib ff te path hostname key fs = (r, fs')"
  obtains
    (early) e where "r = Some e" "fs' = fs"
  | (refused) e where "r = Some e" "fs' = created fs path"
  | (known) d cb where "r = None" "fs' = created fs path" "created fs path path = Some (RegularFile d)" "kl_new lib path d = Inr cb"
      "cb hostname key = None"
  | (enrolled) d cb x t where "created fs path path = Some (RegularFile d)" "kl_new lib path d = Inr cb" "cb hostname key = Some x"
      "kr_want x = Some []" "consented lib te path hostname key" "fs' = (created fs path)(path := Some (RegularFile t))"
      "\<exists>rest. t = content fs path @ rest" "r = None \<Longrightarrow> t = content fs path @ kl_line lib hostname key @ [CHR 0x0A]"
proof -
  note run = assms[unfolded tofuHostKeyCallback_def Let_def created_def[symmetric]]
  show thesis
  proof (cases "ff_mkdir ff (path_dir path) = None \<and> te_open te = None")
    case False
    then show thesis using run early by (auto split: option.splits)
  next
    case opened: True
    show thesis
    proof (cases "te_close te")
      case (Some e)
      then show thesis using run opened refused by auto
    next
      case None
      show thesis
      proof (cases "os_ReadFile ff path (created fs path)")
        case (Inl e)
        then show thesis using run opened None refused by auto
      next
        case read: (Inr d)
        then have old: "created fs path path = Some (RegularFile d)"
          by (auto simp: os_ReadFile_def split: option.splits fnode.splits)
        show thesis
        proof (cases "kl_new lib path d")
          case (Inl e)
          then show thesis using run opened None read refused by auto
        next
          case (Inr cb)
          show thesis
          proof (cases "cb hostname key")
            case none: None
            then show thesis using run opened None read Inr known old by auto
          next
            case (Some x)
            show thesis
            proof (cases "kr_want x = Some [] \<and> decide_unknown lib te path hostname key = None")
              case False
              then have "fs' = created fs path \<and> (\<exists>e. r = Some e)"
                using run opened None read Inr Some by (cases "kr_want x = Some []", auto split: option.splits list.splits) (metis)+
              then show thesis using refused by blast
            next
              case True
              show thesis
              proof (cases "ap_open (te_append te)")
                case (Some e)
                then show thesis using run opened None read Inr \<open>cb hostname key = Some x\<close> True refused by auto
              next
                case ap: None
                obtain a t where al: "append_lines (te_append te) 0 (content fs path) [kl_line lib hostname key] = (a, t)"
                  by (meson surj_pair)
                note sp = append_lines_spec[OF al]
                have "fs' = (created fs path)(path := Some (RegularFile t)) \<and> (r = None \<longrightarrow> a = None)"
                  using run opened None read Inr Some True ap al by (auto split: option.splits)
                then show thesis using enrolled[OF old Inr Some _ _ _ sp(1)] True sp(2) decide_unknown_iff
                  by (auto simp: as_lines_def)
              qed
            qed
          qed
        qed
      qed
    qed
  qed
qed


section \<open>The check before enrolment is exact\<close>

definition key_fits :: "kh_lib \<Rightarrow> kh_callback \<Rightarrow> string \<Rightarrow> host_key \<Rightarrow> bool" where
  "key_fits lib cb address k \<longleftrightarrow>
     (case cb address (hk_key k) of
        None \<Rightarrow> True
      | Some x \<Rightarrow> isUnknownHostKey x \<or> isMissingHostKeyType lib x (hk_key k))"

lemma check_keys_spec:
  assumes "check_keys lib cb address ks m = (m', r)"
  shows "r = None \<longleftrightarrow> list_all (key_fits lib cb address) ks"
    and "r = None \<Longrightarrow> m' = m @ map hk_print (filter (\<lambda>k. cb address (hk_key k) = None) ks)"
    and "r = Some (st, e) \<Longrightarrow> st \<in> {KnownHostMismatch, KnownHostProbeFail}"
proof -
  have "(r = None \<longleftrightarrow> list_all (key_fits lib cb address) ks)
      \<and> (r = None \<longrightarrow> m' = m @ map hk_print (filter (\<lambda>k. cb address (hk_key k) = None) ks))
      \<and> (r = Some (st, e) \<longrightarrow> st \<in> {KnownHostMismatch, KnownHostProbeFail})"
    using assms
  proof (induction ks arbitrary: m)
    case (Cons k ks)
    show ?case
    proof (cases "cb address (hk_key k)")
      case None
      then show ?thesis using Cons.IH[of "m @ [hk_print k]"] Cons.prems by (simp add: key_fits_def)
    next
      case (Some x)
      then show ?thesis using Cons.IH[of m] Cons.prems by (auto simp: key_fits_def split: if_splits)
    qed
  qed simp
  then show "r = None \<longleftrightarrow> list_all (key_fits lib cb address) ks"
    and "r = None \<Longrightarrow> m' = m @ map hk_print (filter (\<lambda>k. cb address (hk_key k) = None) ks)"
    and "r = Some (st, e) \<Longrightarrow> st \<in> {KnownHostMismatch, KnownHostProbeFail}" by blast+
qed

text \<open>
  A host is reported present exactly when known_hosts loads, one of the advertised keys is recorded for it and none of
  them contradicts a recorded key or is refused for another reason. It is reported missing, which invites an enrolment,
  exactly when nothing contradicts and nothing is recorded.
\<close>

theorem known_host_check_exact:
  "(kc_status (CheckKnownHost lib ff tmp srv path keys fs) \<in> {KnownHostPresent, KnownHostMissing}) =
     (keys \<noteq> [] \<and> (\<exists>cb. loadKnownHostsCallback lib ff tmp path fs = Inr cb
        \<and> list_all (key_fits lib cb (server_address srv)) keys
        \<and> (kc_status (CheckKnownHost lib ff tmp srv path keys fs) = KnownHostPresent) =
          list_ex (\<lambda>k. cb (server_address srv) (hk_key k) = None) keys))"
proof (cases "keys = []")
  case True
  then show ?thesis by (simp add: CheckKnownHost_def Let_def)
next
  case False
  show ?thesis
  proof (cases "loadKnownHostsCallback lib ff tmp path fs")
    case (Inl e)
    then show ?thesis using False by (simp add: CheckKnownHost_def Let_def)
  next
    case (Inr cb)
    obtain m r where ck: "check_keys lib cb (server_address srv) keys [] = (m, r)" by (meson surj_pair)
    note sp = check_keys_spec[OF ck]
    show ?thesis
    proof (cases r)
      case None
      then have "m = [] \<longleftrightarrow> \<not> list_ex (\<lambda>k. cb (server_address srv) (hk_key k) = None) keys"
        using sp(2) by (auto simp: list_ex_iff filter_empty_conv)
      then show ?thesis using False Inr ck None sp(1) by (simp add: CheckKnownHost_def Let_def)
    next
      case (Some se)
      obtain st e where se: "se = (st, e)" by force
      then show ?thesis using False Inr ck Some sp(1,3) by (auto simp: CheckKnownHost_def Let_def)
    qed
  qed
qed

section \<open>Only confirmed keys are enrolled\<close>

lemma map_of_without: "map_of (filter (\<lambda>w. fst w \<noteq> f) ws) g = (if g = f then None else map_of ws g)"
  by (induction ws) auto

lemma strike_known_spec:
  assumes "strike_known lib cb srv path fps wanted = Inr w"
  shows "(\<forall>g. map_of w g = None \<or> map_of w g = map_of wanted g)
       \<and> (\<forall>f\<in>set fps. \<forall>k. map_of w f = Some k \<longrightarrow> key_fits lib cb (server_address srv) k)"
  using assms
proof (induction fps arbitrary: wanted)
  case (Cons f fps)
  obtain k where k: "map_of wanted f = Some k" using Cons.prems by (auto split: option.splits)
  show ?case
  proof (cases "cb (server_address srv) (hk_key k)")
    case None
    then have run: "strike_known lib cb srv path fps (filter (\<lambda>w. fst w \<noteq> f) wanted) = Inr w" using Cons.prems k by simp
    show ?thesis using Cons.IH[OF run] unfolding map_of_without by (auto split: if_splits)
  next
    case (Some x)
    then have run: "strike_known lib cb srv path fps wanted = Inr w" and fits: "key_fits lib cb (server_address srv) k"
      using Cons.prems k by (auto simp: key_fits_def split: if_splits)
    have "key_fits lib cb (server_address srv) k'" if "map_of w f = Some k'" for k'
      using Cons.IH[OF run] k fits that by (metis option.distinct(1) option.inject)
    then show ?thesis using Cons.IH[OF run] by auto
  qed
qed simp

lemma lines_for_spec:
  "\<exists>ks. lines_for lib address fps wanted = map (\<lambda>k. kl_line lib address (hk_key k)) ks
      \<and> (\<forall>k\<in>set ks. \<exists>f\<in>set fps. map_of wanted f = Some k)"
proof (induction fps arbitrary: wanted)
  case (Cons f fps)
  show ?case
  proof (cases "map_of wanted f")
    case None
    then show ?thesis using Cons.IH[of wanted] by auto
  next
    case (Some k)
    obtain ks where ks: "lines_for lib address fps (filter (\<lambda>w. fst w \<noteq> f) wanted) = map (\<lambda>k. kl_line lib address (hk_key k)) ks"
      "\<forall>k\<in>set ks. \<exists>g\<in>set fps. map_of (filter (\<lambda>w. fst w \<noteq> f) wanted) g = Some k"
      using Cons.IH by blast
    then have "\<forall>k\<in>set ks. \<exists>g\<in>set fps. map_of wanted g = Some k" unfolding map_of_without by (metis option.distinct(1))
    then show ?thesis using Some ks(1) by (intro exI[of _ "k # ks"]) auto
  qed
qed simp

lemma wanted_keys_sound: "map_of (wanted_keys keys) f = Some k \<Longrightarrow> k \<in> set keys \<and> hk_print k = f"
  by (auto simp: wanted_keys_def dest!: map_of_SomeD)

lemma append_selected_spec:
  assumes "append_selected lib ff ap path srv selected wanted fs = (r, fs')" "path_clean path = path"
  shows "\<exists>ks rest. (\<forall>k\<in>set ks. \<exists>f\<in>set selected. map_of wanted f = Some k)
       \<and> content fs' path = content fs path @ rest \<and> (\<forall>p. p \<noteq> path \<longrightarrow> fs' p = fs p)
       \<and> (\<forall>n. r = Inr n \<longrightarrow> n = length ks \<and> rest = as_lines (map (\<lambda>k. kl_line lib (server_address srv) (hk_key k)) ks))"
proof -
  obtain ks where ks: "lines_for lib (server_address srv) selected wanted = map (\<lambda>k. kl_line lib (server_address srv) (hk_key k)) ks"
    "\<forall>k\<in>set ks. \<exists>f\<in>set selected. map_of wanted f = Some k"
    using lines_for_spec by blast
  let ?ls = "map (\<lambda>k. kl_line lib (server_address srv) (hk_key k)) ks"
  note run = assms(1)[unfolded append_selected_def Let_def ks(1) assms(2)]
  show ?thesis
  proof (cases "?ls = [] \<or> ff_mkdir ff (path_dir path) \<noteq> None \<or> ap_open ap \<noteq> None")
    case True
    then have "fs' = fs \<and> (\<forall>n. r = Inr n \<longrightarrow> ?ls = [] \<and> n = 0)" using run by (auto split: option.splits if_splits)
    then show ?thesis using ks(2) by (intro exI[of _ ks] exI[of _ "[]"]) (auto simp: as_lines_def)
  next
    case False
    obtain a d where al: "append_lines ap 0 (content fs path) ?ls = (a, d)" by (meson surj_pair)
    note sp = append_lines_spec[OF al]
    have fs': "fs' = fs(path := Some (RegularFile d)) \<and> (\<forall>n. r = Inr n \<longrightarrow> n = length ks \<and> a = None)"
      using run False al by (auto split: option.splits if_splits)
    obtain rest where rest: "d = content fs path @ rest" using sp(1) by blast
    then show ?thesis using fs' sp(2) ks(2) by (intro exI[of _ ks] exI[of _ rest]) auto
  qed
qed


section \<open>Only configured credentials are offered\<close>

lemma loadPrivateKey_Inr:
  "loadPrivateKey ae p = Inr d \<longleftrightarrow> os_ReadFile (ae_faults ae) p (ae_files ae) = Inr d \<and> ae_parse ae d = None"
  by (auto simp: loadPrivateKey_def split: sum.splits option.splits)

lemma first_default_key_spec:
  "first_default_key ae ks = [] \<or> (\<exists>k\<in>set ks. \<exists>d. first_default_key ae ks = [KeyMethod d] \<and> loadPrivateKey ae (ExpandPath (ae_home ae) k) = Inr d)"
  by (induction ks) (auto simp: Let_def split: sum.splits)

definition offered :: "auth_env \<Rightarrow> server \<Rightarrow> auth_method \<Rightarrow> bool" where
  "offered ae srv m \<longleftrightarrow>
     (case m of
        AgentMethod \<Rightarrow> ae_agent ae
      | KeyMethod d \<Rightarrow>
          (if s_key_path srv \<noteq> []
           then \<not> Is1PRef (s_key_path srv) \<and> loadPrivateKey ae (ExpandPath (ae_home ae) (s_key_path srv)) = Inr d
           else s_password srv = [] \<and> (\<exists>k\<in>set defaultKeys. loadPrivateKey ae (ExpandPath (ae_home ae) k) = Inr d))
      | PasswordMethod p \<Rightarrow> s_key_path srv = [] \<and> p = s_password srv \<and> \<not> Is1PRef p)"

text \<open>
  A client is configured with at least one way to authenticate and only with what the inventory says: the key file of the
  server, else its password, else the first default key that loads, besides the agent. A reference into 1Password is
  never used as a path or a password. The trust store is always consulted.
\<close>

theorem only_configured_credentials:
  assumes run: "buildClientConfig ae srv timeout = Inr cfg"
  shows "cc_auth cfg \<noteq> [] \<and> (\<forall>m\<in>set (cc_auth cfg). offered ae srv m)
       \<and> tofuPath (ae_known_hosts ae) (ae_home ae) = Inr (cc_trust cfg) \<and> cc_timeout cfg > 0"
proof -
  obtain ms where ms: "auth_methods ae srv = Inr ms" "ms \<noteq> []"
    using run by (auto simp: buildClientConfig_def split: sum.splits if_splits)
  then have cfg: "cc_auth cfg = ms" "tofuPath (ae_known_hosts ae) (ae_home ae) = Inr (cc_trust cfg)" "cc_timeout cfg > 0"
    using run by (auto simp: buildClientConfig_def Let_def split: sum.splits)
  have "offered ae srv m" if "m \<in> set ms" for m
  proof (cases "s_key_path srv \<noteq> []")
    case True
    then show ?thesis using ms that
      by (auto simp: auth_methods_def Let_def offered_def loadSigner_def RejectLegacy1PRef_def split: sum.splits if_splits)
  next
    case no_key: False
    show ?thesis
    proof (cases "s_password srv \<noteq> []")
      case True
      then show ?thesis using ms that no_key
        by (auto simp: auth_methods_def Let_def offered_def resolvePassword_def RejectLegacy1PRef_def split: sum.splits if_splits)
    next
      case False
      then have "m = AgentMethod \<and> ae_agent ae \<or> m \<in> set (first_default_key ae defaultKeys)"
        using ms that no_key by (auto simp: auth_methods_def Let_def split: if_splits)
      then show ?thesis using first_default_key_spec[of ae defaultKeys] False no_key by (auto simp: offered_def)
    qed
  qed
  then show ?thesis using cfg ms by simp
qed

section \<open>Examples\<close>

text \<open>A file that records an RSA key for every address.\<close>

definition rsa_lib :: kh_lib where
  "rsa_lib = \<lparr>kl_new = (\<lambda>p d. Inr (\<lambda>a k. if d = [] then Some key_unknown else if k = ''R'' then None
       else Some \<lparr>kr_want = Some [(p, 1, ''R'')], kr_err = errors_new ''knownhosts: key mismatch''\<rparr>)),
     kl_line = (\<lambda>a k. a @ '' '' @ k), kl_type = (\<lambda>k. if k = ''R'' then ''ssh-rsa'' else ''ssh-ed25519''),
     kl_print = (\<lambda>k. ''SHA256:'' @ k), kl_parse = (\<lambda>s. Some s)\<rparr>"

definition trust_all :: trust_env where
  "trust_all = \<lparr>te_trust = [], te_handler = Some (\<lambda>u. Inr True), te_open = None, te_close = None,
     te_append = \<lparr>ap_open = None, ap_write = (\<lambda>i. None), ap_close = None\<rparr>\<rparr>"

definition rsa_disk :: files where
  "rsa_disk = (\<lambda>p. if p = ''/kh'' then Some (RegularFile ''h R'') else None)"

definition rsa_keys :: "host_key list" where
  "rsa_keys = [\<lparr>hk_type = ''ssh-rsa'', hk_print = ''SHA256:R'', hk_source = [], hk_key = ''R''\<rparr>,
     \<lparr>hk_type = ''ssh-ed25519'', hk_print = ''SHA256:E'', hk_source = [], hk_key = ''E''\<rparr>]"



definition auth_example :: auth_env where
  "auth_example = \<lparr>ae_agent = True, ae_home = Some ''/root'', ae_faults = no_faults, ae_files = key_disk, ae_parse = (\<lambda>d. None),
     ae_known_hosts = []\<rparr>"

theorem only_configured_credentials_witness:
  "\<exists>cfg. buildClientConfig auth_example key_server 0 = Inr cfg \<and> (\<forall>m\<in>set (cc_auth cfg). offered auth_example key_server m)"
proof -
  have ok: "is_ok (buildClientConfig auth_example key_server 0)" by code_simp
  then obtain cfg where "buildClientConfig auth_example key_server 0 = Inr cfg" by (auto dest: is_okD)
  then show ?thesis using only_configured_credentials by blast
qed

text \<open>
  A host of which one algorithm is recorded is reported present, yet the client refuses the algorithm it prefers, and no
  consent can be given.
\<close>

lemma present_but_refused:
  "kc_status (CheckKnownHost rsa_lib no_faults (None, None, ''/t'') key_server ''/kh'' rsa_keys rsa_disk) = KnownHostPresent"
  "fst (tofuHostKeyCallback rsa_lib no_faults trust_all ''/kh'' ''h:22'' ''E'' rsa_disk) \<noteq> None"
  by code_simp+

text \<open>When the last line of known_hosts is not terminated, the new entry is glued to it.\<close>

definition open_lib :: kh_lib where
  "open_lib = rsa_lib\<lparr>kl_new := (\<lambda>p d. Inr (\<lambda>a k. Some key_unknown))\<rparr>"

lemma unterminated_line_glued:
  "content (snd (tofuHostKeyCallback open_lib no_faults trust_all ''/kh'' ''n:22'' ''E'' rsa_disk)) ''/kh'' = ''h Rn:22 E'' @ [CHR 0x0A]"
  "content (snd (AppendKnownHosts open_lib no_faults (te_append trust_all) ''/kh'' key_server rsa_keys [''SHA256:E''] rsa_disk)) ''/kh''
     = ''h R10.0.0.5:22 E'' @ [CHR 0x0A]"
  by code_simp+

text \<open>A fingerprint nobody advertised is an error when the file has entries and is ignored when it has none.\<close>

lemma unknown_print_ignored:
  "fst (AppendKnownHosts rsa_lib no_faults (te_append trust_all) ''/new'' key_server rsa_keys [''SHA256:X''] rsa_disk) = Inr 0"
  "\<not> is_ok (fst (AppendKnownHosts rsa_lib no_faults (te_append trust_all) ''/kh'' key_server rsa_keys [''SHA256:X''] rsa_disk))"
  by code_simp+

text \<open>The two readings of OPSPULSE_KNOWN_HOSTS: enrolment expands the home directory, the client does not.\<close>

lemma custom_path_disagrees:
  "KnownHostsPath ''~/kh'' (Some ''/root'') = Inr ''/root/kh''"
  "tofuPath ''~/kh'' (Some ''/root'') = Inr ''~/kh''"
  by code_simp+
end
