(* ===== verification/Spec2Isabelle.thy ===== *)
theory Spec2Isabelle
  imports Shellquote Paths YamlStore AssetStore BackupModel BackupStore NotifyModel NotifySend
    ServerModel ServerStore Inventory Script AuditRepo Runner Pool Cli
    Scheduler NotifyQueue DockerScripts Manifest DockerModel DockerAnalysis RestoreReport
    Preflight RestoreRunner RestoreSafety RestoreAudit Capability Health MigrationPlan MigrationVerify ContainerBackup DockerCmd DockerApply Secret ServerCmd OnePassword OnePasswordRestore SshTrust
begin

text \<open>
  Verification of OpsPulse (\<open>ops\<close>), a command-line tool that backs up, restores and migrates Docker hosts over SSH
  with restic. The Go code under \<open>src/\<close> is translated definition by definition; a definition has the name of the
  function, type or field it models, or names the part of a function that it stands for. Paths below are relative to
  \<open>src/internal/\<close> unless they begin with \<open>cmd/\<close>.

  \<^bold>\<open>The program.\<close> Servers, assets, backup jobs and notification channels live in YAML files. A backup job becomes a
  shell script that runs restic on the server; a restore is the way back, with an optional start of the Compose project.
  A container can be backed up without a job: it is inspected, its volumes and database are exported, and a Compose file
  and a manifest are generated. A migration is a plan built from the inspection of two hosts, checked again when it is
  applied, and carried out by a container backup and a restore. Every run leaves a row in an SQLite database. A daemon
  runs jobs on a schedule and notifies.

  \<^bold>\<open>Ground.\<close>
  \<^item> \<open>Prelude\<close>: Go errors (text and wrapped sentinels), decimal numbers, lists.
  \<^item> \<open>GoStrings\<close>, \<open>GoPath\<close>: the parts of \<open>strings\<close>, \<open>strconv\<close>, \<open>path\<close> and UTF-8 that the code uses. Strings are
    lists of bytes. Case mapping is that of ASCII; the Unicode letter and control tables are a parameter (\<open>uc\<close>).
  \<^item> \<open>Shellquote\<close>: \<open>shellquote/quote.go\<close> and the lexer of a POSIX shell that gives \<open>Quote\<close> its meaning; the properties
    of generated scripts are stated over the words this lexer reads.
  \<^item> \<open>Paths\<close>: \<open>pathutil\<close>, \<open>backup/remap.go\<close>, the confinement of restored paths.

  \<^bold>\<open>Stores.\<close>
  \<^item> \<open>YamlStore\<close>: \<open>yamlstore/store.go\<close>, reading and writing a file with a cache that is checked by its stamp. The YAML
    codec is a parameter with a round-trip law, the system calls fail as an oracle says.
  \<^item> \<open>KeyedStore\<close>: what the asset, backup and channel stores share, as a locale with a refinement to finite maps;
    \<open>AssetStore\<close>, \<open>BackupStore\<close>, \<open>NotifyModel\<close> and \<open>ServerStore\<close> interpret it, on the records of their packages.
    \<open>ServerStore\<close> adds the jump-host graph (\<open>validateJumpHosts\<close>) and the rename that keeps its references.
  \<^item> \<open>Inventory\<close>: \<open>server/inventory.go\<close>, the merge of two inventories.
  \<^item> \<open>AuditRepo\<close>: \<open>storage/backup_repo.go\<close> and \<open>restore_repo.go\<close> over tables; a locale states what a log promises.

  \<^bold>\<open>Backup and restore.\<close>
  \<^item> \<open>Script\<close>: \<open>backup/script.go\<close>, the four restic scripts; what a shell reads of them, isolation of the retention.
  \<^item> \<open>Runner\<close>, \<open>Pool\<close>: one audited run, and a parallel batch under every interleaving of its goroutines.
  \<^item> \<open>Preflight\<close>, \<open>RestoreReport\<close>, \<open>RestoreRunner\<close>: the restore with its steps; \<open>RestoreSafety\<close> and \<open>RestoreAudit\<close> prove
    that container steps follow a clean preflight, that the reported status is the one of the steps, and that a
    restore is audited or refused.
  \<^item> \<open>ContainerBackup\<close>: \<open>backup/container_runner.go\<close> with its two deferred actions.
  \<^item> \<open>Scheduler\<close>, \<open>NotifyQueue\<close>, \<open>NotifySend\<close>: the daemon's jobs, the notification queue as a transition system, and
    the delivery of a webhook with its retries.

  \<^bold>\<open>Docker and migration.\<close>
  \<^item> \<open>DockerScripts\<close>, \<open>Manifest\<close>, \<open>DockerModel\<close>, \<open>DockerAnalysis\<close>: the package \<open>docker\<close>: dump and import scripts,
    the container manifest and the confinement of its paths, inspection output, the analysis, Compose edits.
  \<^item> \<open>Capability\<close>, \<open>Health\<close>: the probes of a host and of its services, as scripts and as parsers of their output.
  \<^item> \<open>MigrationPlan\<close>, \<open>MigrationVerify\<close>: the plan, its risks and its file; the checks against the live hosts.
  \<^item> \<open>DockerCmd\<close>, \<open>DockerApply\<close>: the commands \<open>plan\<close>, \<open>health\<close> and \<open>apply\<close> of \<open>cmd/opspulse\<close>. \<open>DockerApply\<close> composes
    \<open>ContainerBackup\<close> and \<open>RestoreRunner\<close> into the migration of a service.

  \<^bold>\<open>How effects are modelled.\<close> State is passed and returned. A remote command is a triple of target, task name and
  script appended to a trace (\<open>executed\<close>), and the executor is a function of the trace so far, so a host may answer the
  same script differently each time. Errors are values: \<open>'a res\<close> is a sum with the error on the left, a Go \<open>error\<close> next to
  a value is an option. Interleavings of goroutines are step relations with rule induction. Loops are structural
  recursions or have a \<open>termination\<close> proof; there is no fuel. Go's \<open>int\<close> is \<open>int\<close> or \<open>nat\<close> where the values are lengths
  and counts; where a conversion can truncate it is written out.

  \<^bold>\<open>Parameters.\<close> Code that is not in the repository is an argument of the definitions that use it: the YAML and JSON
  codecs, \<open>net/url\<close>, \<open>strconv.ParseFloat\<close>, the cron library, the Unicode tables, SQLite (an oracle for the outcome of a
  statement over tables whose rows the code defines), the clock, the environment, the file system and the remote hosts.
  Hypotheses on them are stated in the theorems, and each such theorem has a witness with a concrete instance.

  \<^bold>\<open>Not modelled.\<close> Terminal output apart from the functions that render a text, shell completion and flag parsing; log
  files; the SSH transport; timers, contexts and signals except as the errors they cause; file permissions and locks except
  as failing system calls; the parts that \<open>PROJECT.json\<close> lists as not modelled.
\<close>

end
